(* ===== verification/Prelude.thy ===== *)
theory Prelude
  imports Complex_Main "HOL-Library.Sublist"
begin

text \<open>
  Shared vocabulary of the development: the JavaScript values, numbers and strings that the
  TypeScript sources compute with, the two insertion-ordered containers they use (\<open>Set\<close> and
  \<open>Map\<close>), and the generic lemmas and simplification collections the component theories share.

  A JavaScript string is an Isabelle \<open>string\<close>, each \<open>char\<close> standing for one UTF-16 code unit in the
  range 0 to 255; \<open>trim\<close> and \<open>toLowerCase\<close> are exact on that range. A JavaScript number is a
  rational or one of the three non-finite values; arithmetic of the sources is on integers below
  \<open>2 ^ 53\<close>, where IEEE doubles are exact.
\<close>

named_theorems js_string_simps
named_theorems js_map_simps

section \<open>Strings\<close>

definition is_ws :: "char \<Rightarrow> bool" where
  "is_ws c \<longleftrightarrow> c \<in> {CHR 0x09, CHR 0x0A, CHR 0x0B, CHR 0x0C, CHR 0x0D, CHR '' '', CHR 0xA0}"

definition trim_start :: "string \<Rightarrow> string" where
  "trim_start s = dropWhile is_ws s"

definition trim_end :: "string \<Rightarrow> string" where
  "trim_end s = rev (dropWhile is_ws (rev s))"

definition trim :: "string \<Rightarrow> string" where
  "trim s = trim_end (trim_start s)"

definition lower_char :: "char \<Rightarrow> char" where
  "lower_char c = (let n = (of_char c :: nat) in
     if (65 \<le> n \<and> n \<le> 90) \<or> (192 \<le> n \<and> n \<le> 222 \<and> n \<noteq> 215) then char_of (n + 32) else c)"

definition to_lower :: "string \<Rightarrow> string" where
  "to_lower s = map lower_char s"

definition is_digit :: "char \<Rightarrow> bool" where
  "is_digit c \<longleftrightarrow> (48 :: nat) \<le> of_char c \<and> (of_char c :: nat) \<le> 57"

definition is_hex :: "char \<Rightarrow> bool" where
  "is_hex c \<longleftrightarrow> is_digit c \<or> (let n = (of_char c :: nat) in (65 \<le> n \<and> n \<le> 70) \<or> (97 \<le> n \<and> n \<le> 102))"

definition digit_val :: "char \<Rightarrow> nat" where
  "digit_val c = of_char c - 48"

definition digit_char :: "nat \<Rightarrow> char" where
  "digit_char d = char_of (48 + d)"

fun show_nat :: "nat \<Rightarrow> string" where
  "show_nat n = (if n < 10 then [digit_char n] else show_nat (n div 10) @ [digit_char (n mod 10)])"

declare show_nat.simps [simp del]

definition read_nat :: "string \<Rightarrow> nat" where
  "read_nat s = foldl (\<lambda>a c. 10 * a + digit_val c) 0 s"

fun split_char :: "char \<Rightarrow> string \<Rightarrow> string list" where
  "split_char c [] = [[]]"
| "split_char c (x # xs) =
     (if x = c then [] # split_char c xs
      else (case split_char c xs of [] \<Rightarrow> [[x]] | w # ws \<Rightarrow> (x # w) # ws))"

fun join_with :: "string \<Rightarrow> string list \<Rightarrow> string" where
  "join_with sep [] = []"
| "join_with sep [w] = w"
| "join_with sep (w # v # ws) = w @ sep @ join_with sep (v # ws)"

text \<open>Trimming: the result has no outer white space, so a second trim changes nothing.\<close>

lemma trim_end_Nil [simp]: "trim_end [] = []"
  by (simp add: trim_end_def)

lemma trim_Nil [simp]: "trim [] = []"
  by (simp add: trim_def trim_start_def)

lemma dropWhile_idem_hd: "xs = [] \<or> \<not> P (hd xs) \<Longrightarrow> dropWhile P xs = xs"
  by (cases xs) auto

lemma trim_end_last: "trim_end s \<noteq> [] \<Longrightarrow> \<not> is_ws (last (trim_end s))"
  by (metis hd_dropWhile last_rev rev_is_Nil_conv trim_end_def)

lemma trim_end_hd: "trim_end s \<noteq> [] \<Longrightarrow> hd (trim_end s) = hd s"
proof -
  assume ne: "trim_end s \<noteq> []"
  have "prefix (trim_end s) s"
    by (metis rev_rev_ident suffix_dropWhile suffix_to_prefix trim_end_def)
  with ne show ?thesis by (metis hd_append2 prefixE)
qed

lemma trim_start_hd: "trim_start s \<noteq> [] \<Longrightarrow> \<not> is_ws (hd (trim_start s))"
  by (simp add: hd_dropWhile trim_start_def)

lemma trim_end_idem [simp]: "trim_end (trim_end s) = trim_end s"
  by (simp add: trim_end_def)

lemma trim_idem [simp]: "trim (trim s) = trim s"
proof -
  have "trim_start (trim s) = trim s"
    unfolding trim_start_def
    by (rule dropWhile_idem_hd) (metis trim_def trim_end_Nil trim_end_hd trim_start_hd)
  then show ?thesis by (simp add: trim_def)
qed

lemma lower_char_idem [simp]: "lower_char (lower_char c) = lower_char c"
  by (auto simp: lower_char_def Let_def)

lemma to_lower_idem [simp]: "to_lower (to_lower s) = to_lower s"
  by (simp add: to_lower_def)

lemma to_lower_Nil_iff [simp]: "to_lower s = [] \<longleftrightarrow> s = []"
  by (simp add: to_lower_def)

lemma is_ws_lower_char [simp]: "is_ws (lower_char c) \<longleftrightarrow> is_ws c"
proof -
  have "lower_char c = c \<or> (\<not> is_ws c \<and> \<not> is_ws (lower_char c))"
  proof (cases "lower_char c = c")
    case False
    then have n: "(of_char c :: nat) \<in> {65..90} \<union> {192..222}"
      by (auto simp: lower_char_def Let_def split: if_splits)
    then have "(of_char (lower_char c) :: nat) \<in> {97..122} \<union> {224..254}"
      using False by (auto simp: lower_char_def Let_def split: if_splits)
    with n show ?thesis by (auto simp: is_ws_def)
  qed simp
  then show ?thesis by auto
qed

lemma to_lower_trim: "to_lower (trim s) = trim (to_lower s)"
proof -
  have "dropWhile is_ws (map lower_char t) = map lower_char (dropWhile is_ws t)" for t
    by (induction t) auto
  then show ?thesis
    by (simp add: trim_def trim_end_def trim_start_def to_lower_def rev_map)
qed

lemma trim_to_lower_trim [simp]: "trim (to_lower (trim s)) = to_lower (trim s)"
  by (simp add: to_lower_trim)

text \<open>Decimal numerals: reading what was printed gives the number back.\<close>

lemma digit_val_char [simp]: "d < 10 \<Longrightarrow> digit_val (digit_char d) = d"
  by (simp add: digit_val_def digit_char_def)

lemma is_digit_char [simp]: "d < 10 \<Longrightarrow> is_digit (digit_char d)"
  by (simp add: is_digit_def digit_char_def)

lemma show_nat_not_Nil [simp]: "show_nat n \<noteq> []"
  by (subst show_nat.simps) simp

lemma show_nat_digits: "list_all is_digit (show_nat n)"
proof (induction n rule: show_nat.induct)
  case (1 n)
  then show ?case by (subst show_nat.simps) auto
qed

lemma read_nat_snoc: "read_nat (s @ [c]) = 10 * read_nat s + digit_val c"
  by (simp add: read_nat_def)

lemma read_nat_show_nat [simp]: "read_nat (show_nat n) = n"
proof (induction n rule: show_nat.induct)
  case (1 n)
  show ?case
  proof (cases "n < 10")
    case True
    then show ?thesis by (subst show_nat.simps) (simp add: read_nat_def)
  next
    case False
    with 1 show ?thesis by (subst show_nat.simps) (simp add: read_nat_snoc)
  qed
qed

lemma show_nat_inject [simp]: "show_nat m = show_nat n \<longleftrightarrow> m = n"
  by (metis read_nat_show_nat)

text \<open>Splitting at a separator and joining with it are inverse.\<close>

lemma split_char_not_Nil [simp]: "split_char c s \<noteq> []"
  by (cases s) (auto split: list.splits)

lemma join_split_char: "join_with [c] (split_char c s) = s"
proof (induction s)
  case (Cons x xs)
  show ?case
  proof (cases "split_char c xs")
    case Nil
    then show ?thesis by simp
  next
    case (Cons w ws)
    with Cons.IH show ?thesis by (cases ws) auto
  qed
qed simp

lemma split_char_no_sep: "w \<in> set (split_char c s) \<Longrightarrow> c \<notin> set w"
proof (induction s arbitrary: w)
  case (Cons x xs)
  then show ?case by (cases "split_char c xs") (auto split: if_splits)
qed simp

section \<open>Numbers and values\<close>

datatype jsnum = Fin rat | PosInf | NegInf | NaN

datatype jsval =
    JUndef
  | JNull
  | JBool bool
  | JNum jsnum
  | JStr string
  | JArr "jsval list"
  | JObj "(string \<times> jsval) list"

definition max_safe :: int where
  "max_safe = 9007199254740991"

definition num_of_int :: "int \<Rightarrow> jsval" where
  "num_of_int i = JNum (Fin (of_int i))"

fun safe_int :: "jsval \<Rightarrow> int option" where
  "safe_int (JNum (Fin q)) =
     (if of_int \<lfloor>q\<rfloor> = q \<and> \<bar>\<lfloor>q\<rfloor>\<bar> \<le> max_safe then Some \<lfloor>q\<rfloor> else None)"
| "safe_int _ = None"

fun truthy :: "jsval \<Rightarrow> bool" where
  "truthy JUndef = False"
| "truthy JNull = False"
| "truthy (JBool b) = b"
| "truthy (JNum (Fin q)) = (q \<noteq> 0)"
| "truthy (JNum NaN) = False"
| "truthy (JNum _) = True"
| "truthy (JStr s) = (s \<noteq> [])"
| "truthy _ = True"

fun fld :: "jsval \<Rightarrow> string \<Rightarrow> jsval" where
  "fld (JObj fs) k = (case map_of fs k of Some v \<Rightarrow> v | None \<Rightarrow> JUndef)"
| "fld _ k = JUndef"

fun is_obj :: "jsval \<Rightarrow> bool" where
  "is_obj (JObj _) = True"
| "is_obj _ = False"

lemma safe_int_num_of_int [simp]:
  "safe_int (num_of_int i) = (if \<bar>i\<bar> \<le> max_safe then Some i else None)"
  by (simp add: num_of_int_def)

lemma safe_int_SomeD:
  "safe_int v = Some i \<Longrightarrow> v = num_of_int i \<and> \<bar>i\<bar> \<le> max_safe"
  by (cases v rule: safe_int.cases) (auto simp: num_of_int_def split: if_splits)

text \<open>
  The helper \<open>normalizeOptionalText\<close> that several modules repeat: a string is trimmed, and
  anything else, or a string that trims to nothing, is \<open>undefined\<close>.
\<close>

fun normalizeOptionalText :: "jsval \<Rightarrow> string option" where
  "normalizeOptionalText (JStr s) = (if trim s \<noteq> [] then Some (trim s) else None)"
| "normalizeOptionalText _ = None"

fun opt_str :: "string option \<Rightarrow> jsval" where
  "opt_str None = JUndef"
| "opt_str (Some s) = JStr s"

lemma normalizeOptionalText_idem [simp]:
  "normalizeOptionalText (opt_str (normalizeOptionalText v)) = normalizeOptionalText v"
  by (cases v) auto

lemma normalizeOptionalText_Some:
  "normalizeOptionalText v = Some t \<Longrightarrow> t \<noteq> [] \<and> trim t = t"
  by (cases v) (auto split: if_splits)

text \<open>
  \<open>parseInt(text, 10)\<close> on a text of decimal digits after white space and a sign; \<open>None\<close> is NaN.
\<close>

definition parse_int :: "string \<Rightarrow> int option" where
  "parse_int text =
     (let s = trim_start text;
          neg = (s \<noteq> [] \<and> hd s = CHR ''-'');
          s = (if s \<noteq> [] \<and> (hd s = CHR ''-'' \<or> hd s = CHR ''+'') then tl s else s);
          ds = takeWhile is_digit s in
      if ds = [] then None else Some (if neg then - int (read_nat ds) else int (read_nat ds)))"

section \<open>Insertion-ordered sets and maps\<close>

text \<open>
  A JavaScript \<open>Set\<close> and \<open>Map\<close> iterate in insertion order, and setting an existing key keeps its
  place. Both are lists here; the laws a client may use are the locale \<open>js_map\<close>.
\<close>

definition set_add :: "'a \<Rightarrow> 'a list \<Rightarrow> 'a list" where
  "set_add x xs = (if x \<in> set xs then xs else xs @ [x])"

definition set_delete :: "'a \<Rightarrow> 'a list \<Rightarrow> 'a list" where
  "set_delete x xs = filter (\<lambda>y. y \<noteq> x) xs"

lemma set_set_add [simp]: "set (set_add x xs) = insert x (set xs)"
  by (auto simp: set_add_def)

lemma set_set_delete [simp]: "set (set_delete x xs) = set xs - {x}"
  by (auto simp: set_delete_def)

lemma distinct_set_add [simp]: "distinct xs \<Longrightarrow> distinct (set_add x xs)"
  by (auto simp: set_add_def)

lemma distinct_set_delete [simp]: "distinct xs \<Longrightarrow> distinct (set_delete x xs)"
  by (simp add: set_delete_def)

lemma filter_neq_remove1: "distinct xs \<Longrightarrow> filter (\<lambda>y. y \<noteq> x) xs = remove1 x xs"
  by (induction xs) (auto simp: filter_id_conv)

lemma length_set_delete_le: "length (set_delete x xs) \<le> length xs"
  by (simp add: set_delete_def)

fun map_set :: "'k \<Rightarrow> 'v \<Rightarrow> ('k \<times> 'v) list \<Rightarrow> ('k \<times> 'v) list" where
  "map_set k v [] = [(k, v)]"
| "map_set k v ((k', v') # m) = (if k = k' then (k, v) # m else (k', v') # map_set k v m)"

definition map_get :: "('k \<times> 'v) list \<Rightarrow> 'k \<Rightarrow> 'v option" where
  "map_get m k = map_of m k"

definition map_delete :: "'k \<Rightarrow> ('k \<times> 'v) list \<Rightarrow> ('k \<times> 'v) list" where
  "map_delete k m = filter (\<lambda>e. fst e \<noteq> k) m"

definition map_keys :: "('k \<times> 'v) list \<Rightarrow> 'k list" where
  "map_keys m = map fst m"

definition map_inv :: "('k \<times> 'v) list \<Rightarrow> bool" where
  "map_inv m \<longleftrightarrow> distinct (map fst m)"

locale js_map =
  fixes get :: "'m \<Rightarrow> 'k \<Rightarrow> 'v option"
    and put :: "'k \<Rightarrow> 'v \<Rightarrow> 'm \<Rightarrow> 'm"
    and del :: "'k \<Rightarrow> 'm \<Rightarrow> 'm"
    and keys :: "'m \<Rightarrow> 'k list"
    and inv :: "'m \<Rightarrow> bool"
  assumes get_put: "get (put k v m) j = (if j = k then Some v else get m j)"
    and get_del: "get (del k m) j = (if j = k then None else get m j)"
    and inv_put: "inv m \<Longrightarrow> inv (put k v m)"
    and inv_del: "inv m \<Longrightarrow> inv (del k m)"
    and keys_get: "k \<in> set (keys m) \<longleftrightarrow> get m k \<noteq> None"
    and keys_distinct: "inv m \<Longrightarrow> distinct (keys m)"
    and keys_put: "keys (put k v m) = (if get m k = None then keys m @ [k] else keys m)"
    and keys_del: "keys (del k m) = filter (\<lambda>j. j \<noteq> k) (keys m)"
begin

lemma get_put_same [simp]: "get (put k v m) k = Some v"
  by (simp add: get_put)

lemma get_del_same [simp]: "get (del k m) k = None"
  by (simp add: get_del)

lemma size_put: "length (keys (put k v m)) = (if get m k = None then Suc (length (keys m)) else length (keys m))"
  by (simp add: keys_put)

lemma size_del_le: "length (keys (del k m)) \<le> length (keys m)"
  by (simp add: keys_del)

lemma size_del_present:
  assumes "inv m" "get m k \<noteq> None"
  shows "Suc (length (keys (del k m))) = length (keys m)"
proof -
  have k: "k \<in> set (keys m)" using assms(2) by (simp add: keys_get)
  have "filter (\<lambda>j. j \<noteq> k) (keys m) = remove1 k (keys m)"
    by (rule filter_neq_remove1 [OF keys_distinct [OF assms(1)]])
  with k have "length (filter (\<lambda>j. j \<noteq> k) (keys m)) = length (keys m) - 1"
    by (simp add: length_remove1)
  moreover have "length (keys m) \<noteq> 0" using k by auto
  ultimately show ?thesis by (simp add: keys_del)
qed

lemma set_keys_put: "set (keys (put k v m)) = insert k (set (keys m))"
  using keys_get [of k m] by (auto simp: keys_put)

lemma set_keys_del: "set (keys (del k m)) = set (keys m) - {k}"
  by (auto simp: keys_del)

end

lemma map_of_map_set: "map_of (map_set k v m) j = (if j = k then Some v else map_of m j)"
  by (induction m) auto

lemma map_of_map_delete: "map_of (map_delete k m) j = (if j = k then None else map_of m j)"
  by (induction m) (auto simp: map_delete_def)

lemma keys_map_set: "map fst (map_set k v m) = (if map_of m k = None then map fst m @ [k] else map fst m)"
  by (induction m) auto

lemma keys_map_delete: "map fst (map_delete k m) = filter (\<lambda>j. j \<noteq> k) (map fst m)"
  by (induction m) (auto simp: map_delete_def)

interpretation jm: js_map map_get map_set map_delete map_keys map_inv
proof unfold_locales
  fix m :: "('a \<times> 'b) list" and k v j
  show "map_get (map_set k v m) j = (if j = k then Some v else map_get m j)"
    by (simp add: map_get_def map_of_map_set)
  show "map_get (map_delete k m) j = (if j = k then None else map_get m j)"
    by (simp add: map_get_def map_of_map_delete)
  show "map_inv m \<Longrightarrow> map_inv (map_set k v m)"
    by (auto simp: map_inv_def keys_map_set map_of_eq_None_iff)
  show "map_inv m \<Longrightarrow> map_inv (map_delete k m)"
    by (simp add: map_inv_def keys_map_delete)
  show "k \<in> set (map_keys m) \<longleftrightarrow> map_get m k \<noteq> None"
    by (simp add: map_keys_def map_get_def map_of_eq_None_iff)
  show "map_inv m \<Longrightarrow> distinct (map_keys m)"
    by (simp add: map_inv_def map_keys_def)
  show "map_keys (map_set k v m) = (if map_get m k = None then map_keys m @ [k] else map_keys m)"
    by (simp add: map_keys_def map_get_def keys_map_set)
  show "map_keys (map_delete k m) = filter (\<lambda>j. j \<noteq> k) (map_keys m)"
    by (simp add: map_keys_def keys_map_delete)
qed

lemmas jm_get_simps [js_map_simps] = jm.get_put jm.get_del

lemma map_get_Nil [simp]: "map_get [] k = None"
  by (simp add: map_get_def)

lemma map_inv_Nil [simp]: "map_inv []"
  by (simp add: map_inv_def)

lemma map_keys_Nil [simp]: "map_keys [] = []"
  by (simp add: map_keys_def)

lemma length_map_keys [simp]: "length (map_keys m) = length m"
  by (simp add: map_keys_def)

lemma map_get_mem: "map_get m k = Some v \<Longrightarrow> (k, v) \<in> set m"
  by (simp add: map_get_def map_of_SomeD)

lemma map_get_iff_mem: "map_inv m \<Longrightarrow> map_get m k = Some v \<longleftrightarrow> (k, v) \<in> set m"
  by (simp add: map_get_def map_inv_def)

lemma set_map_set:
  "map_inv m \<Longrightarrow> set (map_set k v m) = insert (k, v) {e \<in> set m. fst e \<noteq> k}"
proof (induction m)
  case (Cons e m)
  obtain a b where e: "e = (a, b)" by (cases e)
  show ?case
  proof (cases "k = a")
    case True
    with Cons.prems e have "{x \<in> set (e # m). fst x \<noteq> k} = set m"
      by (auto simp: map_inv_def rev_image_eqI)
    with True e show ?thesis by simp
  next
    case False
    with Cons e show ?thesis by (auto simp: map_inv_def)
  qed
qed simp

lemma set_map_delete [simp]: "set (map_delete k m) = {e \<in> set m. fst e \<noteq> k}"
  by (auto simp: map_delete_def)

end
