(* ===== verification/Event_Emitter.thy ===== *)
theory Event_Emitter
  imports Prelude
begin

text \<open>
  \<open>Common/src/Event/EventEmitter.ts\<close>: the emitter every transport, protocol, registry and streamer
  extends. Its private map from event names to listener arrays is an insertion-ordered map here; the
  listener functions are abstract values. The base class \<open>EventTarget\<close> calls the wrappers in the
  order they were added and skips one that was removed while the event is being dispatched;
  \<open>em_emit\<close> writes that out for listeners that transform a state holding the emitter.
\<close>

type_synonym ('e, 'l) emitter = "('e \<times> 'l list) list"

definition em_listeners :: "('e, 'l) emitter \<Rightarrow> 'e \<Rightarrow> 'l list" where
  "em_listeners m e = (case map_get m e of Some ls \<Rightarrow> ls | None \<Rightarrow> [])"

definition em_on :: "'e \<Rightarrow> 'l \<Rightarrow> ('e, 'l) emitter \<Rightarrow> ('e, 'l) emitter" where
  "em_on e l m = map_set e (em_listeners m e @ [l]) m"

definition em_off :: "'e \<Rightarrow> 'l \<Rightarrow> ('e, 'l) emitter \<Rightarrow> ('e, 'l) emitter" where
  "em_off e l m = (case map_get m e of
     None \<Rightarrow> m
   | Some ls \<Rightarrow> map_set e (remove1 l ls) m)"

definition em_removeAll :: "'e \<Rightarrow> ('e, 'l) emitter \<Rightarrow> ('e, 'l) emitter" where
  "em_removeAll e m = (case map_get m e of None \<Rightarrow> m | Some ls \<Rightarrow> map_delete e m)"

text \<open>
  Emitting returns whether the name has ever had a listener that was not cleared: an empty array
  left by \<open>off\<close> still counts.
\<close>

definition em_has :: "('e, 'l) emitter \<Rightarrow> 'e \<Rightarrow> bool" where
  "em_has m e \<longleftrightarrow> map_get m e \<noteq> None"

definition em_emit ::
  "('s \<Rightarrow> ('e, 'l) emitter) \<Rightarrow> ('l \<Rightarrow> 's \<Rightarrow> 's) \<Rightarrow> 'e \<Rightarrow> 's \<Rightarrow> 's" where
  "em_emit em run e s =
     fold (\<lambda>l s. if l \<in> set (em_listeners (em s) e) then run l s else s) (em_listeners (em s) e) s"

locale event_emitter =
  fixes on :: "'e \<Rightarrow> 'l \<Rightarrow> 'm \<Rightarrow> 'm"
    and off :: "'e \<Rightarrow> 'l \<Rightarrow> 'm \<Rightarrow> 'm"
    and clear :: "'e \<Rightarrow> 'm \<Rightarrow> 'm"
    and listeners :: "'m \<Rightarrow> 'e \<Rightarrow> 'l list"
  assumes listeners_on: "listeners (on e l m) e' = (if e' = e then listeners m e @ [l] else listeners m e')"
    and listeners_off: "listeners (off e l m) e' = (if e' = e then remove1 l (listeners m e) else listeners m e')"
    and listeners_clear: "listeners (clear e m) e' = (if e' = e then [] else listeners m e')"
begin

text \<open>An \<open>off\<close> undoes the matching \<open>on\<close> when the listener was not there before.\<close>

lemma off_on: "l \<notin> set (listeners m e) \<Longrightarrow> listeners (off e l (on e l m)) e' = listeners m e'"
  by (simp add: listeners_on listeners_off remove1_append)

lemma mem_on: "l' \<in> set (listeners (on e l m) e') \<longleftrightarrow> (e' = e \<and> l' = l) \<or> l' \<in> set (listeners m e')"
  by (auto simp: listeners_on)

lemma mem_off:
  "distinct (listeners m e) \<Longrightarrow>
   l' \<in> set (listeners (off e l m) e') \<longleftrightarrow> l' \<in> set (listeners m e') \<and> \<not> (e' = e \<and> l' = l)"
  by (auto simp: listeners_off)

lemma distinct_on:
  "\<lbrakk>distinct (listeners m e'); l \<notin> set (listeners m e)\<rbrakk> \<Longrightarrow> distinct (listeners (on e l m) e')"
  by (auto simp: listeners_on)

lemma distinct_off: "distinct (listeners m e') \<Longrightarrow> distinct (listeners (off e l m) e')"
  by (cases "e' = e") (simp_all add: listeners_off)

end

interpretation em: event_emitter em_on em_off em_removeAll em_listeners
  by unfold_locales
    (auto simp: em_on_def em_off_def em_removeAll_def em_listeners_def js_map_simps split: option.splits)

lemma em_has_on [simp]: "em_has (em_on e l m) e' \<longleftrightarrow> e' = e \<or> em_has m e'"
  by (auto simp: em_has_def em_on_def js_map_simps)

lemma em_has_off [simp]: "em_has (em_off e l m) e' \<longleftrightarrow> em_has m e'"
  by (auto simp: em_has_def em_off_def js_map_simps split: option.split)

lemma em_listeners_Nil [simp]: "em_listeners [] e = []"
  by (simp add: em_listeners_def)

text \<open>
  What a fold over a listener snapshot keeps: an invariant that every callback keeps is kept by
  emitting.
\<close>

lemma em_emit_invariant:
  assumes "P s" and "\<And>l s. P s \<Longrightarrow> l \<in> set (em_listeners (em s) e) \<Longrightarrow> P (run l s)"
  shows "P (em_emit em run e s)"
proof -
  have "P s \<Longrightarrow> P (fold (\<lambda>l s. if l \<in> set (em_listeners (em s) e) then run l s else s) ls s)" for ls
    by (induction ls arbitrary: s) (auto intro: assms(2))
  with assms(1) show ?thesis by (simp add: em_emit_def)
qed

end
