(* ===== verification/Session_Quality.thy ===== *)
theory Session_Quality
  imports Prelude
begin

text \<open>
  \<open>Signalling/src/SessionQuality.ts\<close>: the receiver of cumulative quality summaries, one per
  authenticated connection. Times are \<open>Date.now()\<close> values in milliseconds, given as arguments; the
  random connection id is a field.
\<close>

record quality_state =
  sq_connectionId :: string
  sq_startedAt :: int
  sq_lastAt :: int
  sq_sequence :: nat
  sq_connectedMs :: int
  sq_videoBytes :: int
  sq_latencyDurationMs :: int
  sq_latencyWeightedMs :: int

record quality_summary =
  qs_connectionId :: string
  qs_sequence :: nat
  qs_connectedMs :: int
  qs_videoBytes :: int
  qs_latencyDurationMs :: int
  qs_latencyWeightedMs :: int
  qs_maxBitrateKbps :: jsval

definition new_quality :: "string \<Rightarrow> int \<Rightarrow> quality_state" where
  "new_quality cid now = \<lparr>sq_connectionId = cid, sq_startedAt = now, sq_lastAt = 0, sq_sequence = 0,
     sq_connectedMs = 0, sq_videoBytes = 0, sq_latencyDurationMs = 0, sq_latencyWeightedMs = 0\<rparr>"

definition counter :: "jsval \<Rightarrow> int \<Rightarrow> int option" where
  "counter v mx = (case safe_int v of
     Some i \<Rightarrow> if 0 \<le> i \<and> i \<le> mx then Some i else None
   | None \<Rightarrow> None)"

fun bitrate_ok :: "jsval \<Rightarrow> bool" where
  "bitrate_ok JUndef = True"
| "bitrate_ok (JNum (Fin q)) = (0 < q \<and> q \<le> 10000000)"
| "bitrate_ok _ = False"

definition or_zero :: "int option \<Rightarrow> int" where
  "or_zero x = (case x of Some i \<Rightarrow> i | None \<Rightarrow> 0)"

definition accept_quality ::
  "quality_state \<Rightarrow> jsval \<Rightarrow> int \<Rightarrow> quality_state \<times> quality_summary option" where
  "accept_quality q input now =
     (if sq_lastAt q \<noteq> 0 \<and> now - sq_lastAt q < 10000 then (q, None)
      else
        let connected = counter (fld input ''connectedMs'') (max 0 (now - sq_startedAt q) + 5000);
            bytes = counter (fld input ''videoBytes'') 1000000000000000;
            latency = counter (fld input ''latencyDurationMs'') (or_zero connected);
            weighted = counter (fld input ''latencyWeightedMs'') (or_zero latency * 60000);
            bitrate = fld input ''maxBitrateKbps'' in
        case (connected, bytes, latency, weighted) of
          (Some c, Some b, Some l, Some w) \<Rightarrow>
            (if fld input ''telemetryVersion'' \<noteq> JNum (Fin 1) \<or> c = 0
                \<or> c < sq_connectedMs q \<or> b < sq_videoBytes q
                \<or> l < sq_latencyDurationMs q \<or> w < sq_latencyWeightedMs q
                \<or> \<not> bitrate_ok bitrate
             then (q, None)
             else (q\<lparr>sq_lastAt := now, sq_connectedMs := c, sq_videoBytes := b,
                     sq_latencyDurationMs := l, sq_latencyWeightedMs := w,
                     sq_sequence := Suc (sq_sequence q)\<rparr>,
                   Some \<lparr>qs_connectionId = sq_connectionId q, qs_sequence = Suc (sq_sequence q),
                     qs_connectedMs = c, qs_videoBytes = b, qs_latencyDurationMs = l,
                     qs_latencyWeightedMs = w, qs_maxBitrateKbps = bitrate\<rparr>))
        | _ \<Rightarrow> (q, None))"

text \<open>A run of the receiver: the accepted summaries with the time of each.\<close>

fun quality_run :: "quality_state \<Rightarrow> (jsval \<times> int) list \<Rightarrow> (int \<times> quality_summary) list" where
  "quality_run q [] = []"
| "quality_run q ((v, now) # ins) =
     (case accept_quality q v now of
        (q', None) \<Rightarrow> quality_run q' ins
      | (q', Some s) \<Rightarrow> (now, s) # quality_run q' ins)"

definition summary_bounded :: "int \<Rightarrow> int \<Rightarrow> quality_summary \<Rightarrow> bool" where
  "summary_bounded started now s \<longleftrightarrow>
     0 < qs_connectedMs s \<and> qs_connectedMs s \<le> max 0 (now - started) + 5000
     \<and> 0 \<le> qs_videoBytes s \<and> qs_videoBytes s \<le> 1000000000000000
     \<and> 0 \<le> qs_latencyDurationMs s \<and> qs_latencyDurationMs s \<le> qs_connectedMs s
     \<and> 0 \<le> qs_latencyWeightedMs s \<and> qs_latencyWeightedMs s \<le> qs_latencyDurationMs s * 60000"

definition summary_before :: "int \<times> quality_summary \<Rightarrow> int \<times> quality_summary \<Rightarrow> bool" where
  "summary_before = (\<lambda>(t, s) (t', s').
     t + 10000 \<le> t' \<and> qs_sequence s < qs_sequence s' \<and> qs_connectedMs s \<le> qs_connectedMs s'
     \<and> qs_videoBytes s \<le> qs_videoBytes s' \<and> qs_latencyDurationMs s \<le> qs_latencyDurationMs s'
     \<and> qs_latencyWeightedMs s \<le> qs_latencyWeightedMs s')"

text \<open>What a state says of the summaries already accepted: they all precede the next ones.\<close>

definition covers :: "quality_state \<Rightarrow> int \<times> quality_summary \<Rightarrow> bool" where
  "covers q = (\<lambda>(t, s). 0 < t \<and> t \<le> sq_lastAt q \<and> qs_sequence s \<le> sq_sequence q
     \<and> qs_connectedMs s \<le> sq_connectedMs q \<and> qs_videoBytes s \<le> sq_videoBytes q
     \<and> qs_latencyDurationMs s \<le> sq_latencyDurationMs q
     \<and> qs_latencyWeightedMs s \<le> sq_latencyWeightedMs q)"

lemma counter_Some: "counter v mx = Some i \<Longrightarrow> 0 \<le> i \<and> i \<le> mx"
  by (auto simp: counter_def split: option.splits if_splits)

lemma accept_quality_None: "accept_quality q v now = (q', None) \<Longrightarrow> q' = q"
  by (auto simp: accept_quality_def Let_def split: if_splits option.splits)

lemma accept_quality_Some:
  assumes "accept_quality q v now = (q', Some s)" "0 < now"
  shows "sq_startedAt q' = sq_startedAt q" "summary_bounded (sq_startedAt q) now s"
    "covers q' (now, s)" "covers q e \<Longrightarrow> covers q' e \<and> summary_before e (now, s)"
proof -
  from assms(1) obtain c b l w where
    g: "sq_lastAt q = 0 \<or> sq_lastAt q + 10000 \<le> now" "c \<noteq> 0" "sq_connectedMs q \<le> c"
       "sq_videoBytes q \<le> b" "sq_latencyDurationMs q \<le> l" "sq_latencyWeightedMs q \<le> w"
    and ct: "counter (fld v ''connectedMs'') (max 0 (now - sq_startedAt q) + 5000) = Some c"
       "counter (fld v ''videoBytes'') 1000000000000000 = Some b"
       "counter (fld v ''latencyDurationMs'') c = Some l"
       "counter (fld v ''latencyWeightedMs'') (l * 60000) = Some w"
    and q': "q' = q\<lparr>sq_lastAt := now, sq_connectedMs := c, sq_videoBytes := b,
                sq_latencyDurationMs := l, sq_latencyWeightedMs := w,
                sq_sequence := Suc (sq_sequence q)\<rparr>"
    and s: "s = \<lparr>qs_connectionId = sq_connectionId q, qs_sequence = Suc (sq_sequence q),
                qs_connectedMs = c, qs_videoBytes = b, qs_latencyDurationMs = l,
                qs_latencyWeightedMs = w, qs_maxBitrateKbps = fld v ''maxBitrateKbps''\<rparr>"
    by (auto simp: accept_quality_def Let_def or_zero_def not_less split: if_splits option.splits)
  note b = ct [THEN counter_Some]
  show "sq_startedAt q' = sq_startedAt q" by (simp add: q')
  show "summary_bounded (sq_startedAt q) now s" using b g(2) by (simp add: summary_bounded_def s)
  show "covers q' (now, s)" using assms(2) by (simp add: covers_def q' s)
  show "covers q' e \<and> summary_before e (now, s)" if "covers q e"
    using that g by (cases e) (auto simp: covers_def summary_before_def q' s)
qed

lemma quality_run_covered:
  assumes "list_all (\<lambda>(v, t). 0 < t) ins"
  shows "sorted_wrt summary_before (quality_run q ins)
    \<and> list_all (\<lambda>(t, s). summary_bounded (sq_startedAt q) t s) (quality_run q ins)
    \<and> (\<forall>e. covers q e \<longrightarrow> list_all (summary_before e) (quality_run q ins))"
  using assms
proof (induction ins arbitrary: q)
  case (Cons i ins)
  obtain v now where i: "i = (v, now)" by (cases i)
  obtain q' r where a: "accept_quality q v now = (q', r)" by fastforce
  show ?case
  proof (cases r)
    case None
    with a have "q' = q" by (simp add: accept_quality_None)
    with Cons a i None show ?thesis by simp
  next
    case (Some s)
    from Cons.prems i have now: "0 < now" by simp
    note acc = accept_quality_Some [OF a [unfolded Some] now]
    from Cons.prems have IH: "sorted_wrt summary_before (quality_run q' ins)
      \<and> list_all (\<lambda>(t, s). summary_bounded (sq_startedAt q') t s) (quality_run q' ins)
      \<and> (\<forall>e. covers q' e \<longrightarrow> list_all (summary_before e) (quality_run q' ins))"
      by (intro Cons.IH) simp
    have run: "quality_run q (i # ins) = (now, s) # quality_run q' ins"
      using a i Some by simp
    from IH acc show ?thesis unfolding run by (auto simp: list_all_iff)
  qed
qed simp

text \<open>
  Whatever a client reports, the accepted quality summaries of one connection are at least ten
  seconds apart, have strictly growing sequence numbers and never decreasing counters, and each one
  stays within its physical bounds (connected time within the connection's age plus five seconds,
  latency time within connected time, weighted latency within sixty seconds of latency time).
\<close>

theorem session_quality_stream:
  assumes "list_all (\<lambda>(v, t). 0 < t) ins"
  shows "sorted_wrt summary_before (quality_run (new_quality cid t0) ins)
    \<and> list_all (\<lambda>(t, s). summary_bounded t0 t s) (quality_run (new_quality cid t0) ins)"
  using quality_run_covered [OF assms, of "new_quality cid t0"] by (simp add: new_quality_def)

definition demo_report :: "int \<Rightarrow> jsval" where
  "demo_report n = JObj [(''telemetryVersion'', JNum (Fin 1)), (''connectedMs'', num_of_int n),
     (''videoBytes'', num_of_int n), (''latencyDurationMs'', num_of_int n),
     (''latencyWeightedMs'', num_of_int n)]"

theorem session_quality_stream_witness:
  "map (\<lambda>(t, s). (t, qs_sequence s, qs_connectedMs s))
     (quality_run (new_quality ''c'' 1000) [(demo_report 10, 2000), (demo_report 20, 5000), (demo_report 30, 12000)])
     = [(2000, 1, 10), (12000, 2, 30)]
   \<and> sorted_wrt summary_before
     (quality_run (new_quality ''c'' 1000) [(demo_report 10, 2000), (demo_report 20, 5000), (demo_report 30, 12000)])"
proof -
  let ?ins = "[(demo_report 10, 2000), (demo_report 20, 5000), (demo_report 30, 12000)] :: (jsval \<times> int) list"
  have "list_all (\<lambda>(v, t). 0 < t) ?ins" by simp
  from session_quality_stream [OF this, of "''c''" 1000] show ?thesis
    by (simp add: accept_quality_def new_quality_def demo_report_def counter_def or_zero_def max_safe_def)
qed

end
