(* ===== verification/Codec_Policy.thy ===== *)
theory Codec_Policy
  imports Prelude
begin

text \<open>
  \<open>Signalling/src/CodecPolicy.ts\<close>: the signed codec policy of a connect ticket and the two SDP
  checks that enforce it. The regular expressions of the source are written out as scanners; each
  one states the expression it stands for.
\<close>

section \<open>The policy\<close>

datatype codec = VP9 | AV1 | H264 | VP8

fun codec_name :: "codec \<Rightarrow> string" where
  "codec_name VP9 = ''VP9''"
| "codec_name AV1 = ''AV1''"
| "codec_name H264 = ''H264''"
| "codec_name VP8 = ''VP8''"

definition videoCodecs :: "codec list" where
  "videoCodecs = [VP9, AV1, H264, VP8]"

definition codec_of_name :: "string \<Rightarrow> codec option" where
  "codec_of_name s = (if s = ''VP9'' then Some VP9 else if s = ''AV1'' then Some AV1
     else if s = ''H264'' then Some H264 else if s = ''VP8'' then Some VP8 else None)"

fun codec_of_val :: "jsval \<Rightarrow> codec option" where
  "codec_of_val (JStr s) = codec_of_name s"
| "codec_of_val _ = None"

lemma codec_of_name_Some [simp]: "codec_of_name (codec_name c) = Some c"
  by (cases c) (simp_all add: codec_of_name_def)

lemma codec_of_name_iff: "codec_of_name s = Some c \<longleftrightarrow> s = codec_name c"
proof
  assume "codec_of_name s = Some c"
  then show "s = codec_name c"
    by (simp add: codec_of_name_def split: if_split_asm)
qed simp

lemma codec_of_val_iff: "codec_of_val v = Some c \<longleftrightarrow> v = JStr (codec_name c)"
  by (cases v) (auto simp: codec_of_name_iff)

lemma codec_name_inject [simp]: "codec_name c = codec_name d \<longleftrightarrow> c = d"
  by (cases c; cases d) auto

text \<open>
  \<open>RegExp.test\<close> converts its argument to a string first; a one-element array converts to its
  element, every other non-string converts to a text with a character outside the class or of
  another length. \<open>None\<close> stands for such a text.
\<close>

fun test_text :: "jsval \<Rightarrow> string option" where
  "test_text (JStr s) = Some s"
| "test_text (JArr [v]) = test_text v"
| "test_text _ = None"

definition all_of_length :: "(char \<Rightarrow> bool) \<Rightarrow> nat \<Rightarrow> jsval \<Rightarrow> bool" where
  "all_of_length P n v = (case test_text v of
     None \<Rightarrow> False | Some s \<Rightarrow> length s = n \<and> list_all P s)"

record codec_policy =
  cp_snapshotId :: jsval
  cp_policyHash :: jsval
  cp_allowedCodecs :: "codec list"
  cp_defaultCodec :: codec
  cp_allowSwitching :: bool

fun is_bool :: "jsval \<Rightarrow> bool" where
  "is_bool (JBool _) = True"
| "is_bool _ = False"

definition parseCodecPolicy :: "jsval \<Rightarrow> codec_policy option" where
  "parseCodecPolicy p =
     (case fld p ''allowedCodecs'' of
        JArr cs \<Rightarrow>
          (if fld p ''version'' \<noteq> JNum (Fin 1)
              \<or> \<not> all_of_length (\<lambda>c. is_hex c \<or> c = CHR ''-'') 36 (fld p ''snapshotId'')
              \<or> \<not> all_of_length is_hex 64 (fld p ''policyHash'')
              \<or> length cs < 1 \<or> length cs > 4 \<or> length (remdups cs) \<noteq> length cs
              \<or> list_ex (\<lambda>c. c = JStr ''VP8'' \<or> codec_of_val c = None) cs
              \<or> fld p ''defaultCodec'' \<notin> set cs
              \<or> \<not> is_bool (fld p ''allowSwitching'')
           then None
           else Some \<lparr>cp_snapshotId = fld p ''snapshotId'', cp_policyHash = fld p ''policyHash'',
             cp_allowedCodecs = List.map_filter codec_of_val cs,
             cp_defaultCodec = (case codec_of_val (fld p ''defaultCodec'') of Some c \<Rightarrow> c | None \<Rightarrow> VP9),
             cp_allowSwitching = (fld p ''allowSwitching'' = JBool True)\<rparr>)
      | _ \<Rightarrow> None)"

text \<open>The object the function returns, as a value: what a later parse would be given.\<close>

definition policy_value :: "codec_policy \<Rightarrow> jsval" where
  "policy_value p = JObj [(''version'', JNum (Fin 1)), (''snapshotId'', cp_snapshotId p),
     (''policyHash'', cp_policyHash p),
     (''allowedCodecs'', JArr (map (JStr \<circ> codec_name) (cp_allowedCodecs p))),
     (''defaultCodec'', JStr (codec_name (cp_defaultCodec p))),
     (''allowSwitching'', JBool (cp_allowSwitching p))]"

definition wf_policy :: "codec_policy \<Rightarrow> bool" where
  "wf_policy p \<longleftrightarrow>
     all_of_length (\<lambda>c. is_hex c \<or> c = CHR ''-'') 36 (cp_snapshotId p)
     \<and> all_of_length is_hex 64 (cp_policyHash p)
     \<and> 1 \<le> length (cp_allowedCodecs p) \<and> length (cp_allowedCodecs p) \<le> 4
     \<and> distinct (cp_allowedCodecs p) \<and> VP8 \<notin> set (cp_allowedCodecs p)
     \<and> cp_defaultCodec p \<in> set (cp_allowedCodecs p)"

lemma map_filter_codecs:
  "list_all (\<lambda>c. codec_of_val c \<noteq> None) cs \<Longrightarrow>
   map (JStr \<circ> codec_name) (List.map_filter codec_of_val cs) = cs"
  by (induction cs) (auto simp: List.map_filter_simps codec_of_val_iff)

lemma length_remdups_distinct: "length (remdups xs) = length xs \<longleftrightarrow> distinct xs"
  by (metis distinct_remdups distinct_remdups_id length_remdups_eq)

lemma parseCodecPolicy_Some_iff:
  "parseCodecPolicy v = Some p \<longleftrightarrow>
     wf_policy p \<and> fld v ''version'' = JNum (Fin 1)
     \<and> fld v ''snapshotId'' = cp_snapshotId p \<and> fld v ''policyHash'' = cp_policyHash p
     \<and> fld v ''allowedCodecs'' = JArr (map (JStr \<circ> codec_name) (cp_allowedCodecs p))
     \<and> fld v ''defaultCodec'' = JStr (codec_name (cp_defaultCodec p))
     \<and> fld v ''allowSwitching'' = JBool (cp_allowSwitching p)"
  (is "?L \<longleftrightarrow> ?R")
proof
  assume L: ?L
  then obtain cs where cs: "fld v ''allowedCodecs'' = JArr cs"
    by (auto simp: parseCodecPolicy_def split: jsval.splits)
  from L cs have ok: "fld v ''version'' = JNum (Fin 1)"
    "all_of_length (\<lambda>c. is_hex c \<or> c = CHR ''-'') 36 (fld v ''snapshotId'')"
    "all_of_length is_hex 64 (fld v ''policyHash'')"
    "cs \<noteq> []" "length cs \<le> 4" "distinct cs"
    "list_all (\<lambda>c. c \<noteq> JStr ''VP8'' \<and> codec_of_val c \<noteq> None) cs"
    "fld v ''defaultCodec'' \<in> set cs" "is_bool (fld v ''allowSwitching'')"
    by (auto simp: parseCodecPolicy_def length_remdups_distinct list_ex_iff list_all_iff
        not_less split: if_splits)
  let ?as = "List.map_filter codec_of_val cs"
  have all: "list_all (\<lambda>c. codec_of_val c \<noteq> None) cs"
    using ok(7) by (auto simp: list_all_iff)
  note as = map_filter_codecs [OF all]
  obtain d where d: "codec_of_val (fld v ''defaultCodec'') = Some d"
    using ok(7,8) by (auto simp: list_all_iff)
  have p: "p = \<lparr>cp_snapshotId = fld v ''snapshotId'', cp_policyHash = fld v ''policyHash'',
      cp_allowedCodecs = ?as, cp_defaultCodec = d,
      cp_allowSwitching = (fld v ''allowSwitching'' = JBool True)\<rparr>"
    using L cs d by (auto simp: parseCodecPolicy_def split: if_splits)
  have len: "length ?as = length cs" "1 \<le> length cs"
    using as ok(4) by (metis length_map, cases cs, auto)
  have dist: "distinct ?as" using as ok(6) by (metis distinct_map)
  have mem: "JStr (codec_name c) \<in> set cs \<longleftrightarrow> c \<in> set ?as" for c
    using all by (force simp: List.map_filter_def list_all_iff codec_of_val_iff)
  have "VP8 \<notin> set ?as" using mem [of VP8] ok(7) by (auto simp: list_all_iff)
  moreover have "d \<in> set ?as" using d mem [of d] ok(8) by (simp add: codec_of_val_iff)
  moreover have "fld v ''allowSwitching'' = JBool (fld v ''allowSwitching'' = JBool True)"
    using ok(9) by (cases "fld v ''allowSwitching''") auto
  ultimately show ?R
    using ok cs d p len dist as by (simp add: wf_policy_def codec_of_val_iff)
next
  assume R: ?R
  have "List.map_filter codec_of_val (map (JStr \<circ> codec_name) cs) = cs" for cs
    by (induction cs) (simp_all add: List.map_filter_simps)
  moreover have "distinct (map (JStr \<circ> codec_name) (cp_allowedCodecs p))"
    using R by (simp add: wf_policy_def distinct_map inj_on_def)
  then have "length (remdups (map (JStr \<circ> codec_name) (cp_allowedCodecs p)))
      = length (cp_allowedCodecs p)"
    using length_remdups_distinct [of "map (JStr \<circ> codec_name) (cp_allowedCodecs p)"] by simp
  moreover have "codec_name c = ''VP8'' \<longleftrightarrow> c = VP8" for c
    by (cases c) auto
  ultimately show ?L
    using R by (auto simp: parseCodecPolicy_def wf_policy_def list_ex_iff)
qed

section \<open>SDP text\<close>

definition is_lt :: "char \<Rightarrow> bool" where
  "is_lt c \<longleftrightarrow> c = CHR 0x0A \<or> c = CHR 0x0D"

definition is_word :: "char \<Rightarrow> bool" where
  "is_word c \<longleftrightarrow> is_digit c \<or> c = CHR ''_'' \<or> (let n = (of_char c :: nat) in
     (65 \<le> n \<and> n \<le> 90) \<or> (97 \<le> n \<and> n \<le> 122))"

text \<open>
  \<open>toUpperCase\<close> in the range 0 to 255: sharp s becomes two letters; the two characters whose upper
  case is above the range (0xB5 and 0xFF) stay as they are, which keeps them distinct from all others.
\<close>

definition upper_char :: "char \<Rightarrow> string" where
  "upper_char c = (let n = (of_char c :: nat) in
     if n = 223 then ''SS''
     else if (97 \<le> n \<and> n \<le> 122) \<or> (224 \<le> n \<and> n \<le> 254 \<and> n \<noteq> 247) then [char_of (n - 32)]
     else [c])"

definition to_upper :: "string \<Rightarrow> string" where
  "to_upper s = concat (map upper_char s)"

fun crlf_to_lf :: "string \<Rightarrow> string" where
  "crlf_to_lf (c # d # s) =
     (if c = CHR 0x0D \<and> d = CHR 0x0A then CHR 0x0A # crlf_to_lf s else c # crlf_to_lf (d # s))"
| "crlf_to_lf s = s"

definition lf_to_crlf :: "string \<Rightarrow> string" where
  "lf_to_crlf s = concat (map (\<lambda>c. if c = CHR 0x0A then [CHR 0x0D, CHR 0x0A] else [c]) s)"

text \<open>\<open>split(/(?=^m=)/m)\<close>: a cut after each line terminator that \<open>m=\<close> follows.\<close>

fun split_sections :: "string \<Rightarrow> string list" where
  "split_sections [] = [[]]"
| "split_sections [c] = [[c]]"
| "split_sections (c # s) = (case split_sections s of
     [] \<Rightarrow> [[c]]
   | w # ws \<Rightarrow> (if is_lt c \<and> prefix ''m='' s then [c] # w # ws else (c # w) # ws))"

text \<open>\<open>split(/\s+/)\<close>.\<close>

lemma split_ws_shorter:
  assumes "dropWhile (\<lambda>c. \<not> is_ws c) s \<noteq> []"
  shows "length (dropWhile is_ws (dropWhile (\<lambda>c. \<not> is_ws c) s)) < length s"
proof -
  let ?r = "dropWhile (\<lambda>c. \<not> is_ws c) s"
  have "is_ws (hd ?r)" using hd_dropWhile [OF assms] by simp
  with assms have "dropWhile is_ws ?r = dropWhile is_ws (tl ?r)" by (cases ?r) auto
  moreover have "length (dropWhile is_ws (tl ?r)) \<le> length (tl ?r)" by (rule length_dropWhile_le)
  moreover have "length (tl ?r) < length ?r" using assms by simp
  moreover have "length ?r \<le> length s" by (rule length_dropWhile_le)
  ultimately show ?thesis by simp
qed

function split_ws :: "string \<Rightarrow> string list" where
  "split_ws s = (let a = takeWhile (\<lambda>c. \<not> is_ws c) s; r = dropWhile (\<lambda>c. \<not> is_ws c) s in
     if r = [] then [a] else a # split_ws (dropWhile is_ws r))"
  by pat_completeness auto
termination
  by (relation "measure length") (auto intro: split_ws_shorter)

declare split_ws.simps [simp del]

lemma split_ws_last:
  "dropWhile (\<lambda>c. \<not> is_ws c) s = [] \<Longrightarrow> split_ws s = [takeWhile (\<lambda>c. \<not> is_ws c) s]"
  by (subst split_ws.simps) simp

lemma split_ws_step:
  "dropWhile (\<lambda>c. \<not> is_ws c) s \<noteq> [] \<Longrightarrow>
   split_ws s = takeWhile (\<lambda>c. \<not> is_ws c) s
     # split_ws (dropWhile is_ws (dropWhile (\<lambda>c. \<not> is_ws c) s))"
  by (subst split_ws.simps) (simp only: Let_def if_False)

text \<open>\<open>/^a=rtpmap:(\d+) ([^/]+)\/90000(?:\s|$)/i\<close>\<close>

definition match_rtpmap :: "string \<Rightarrow> (string \<times> string) option" where
  "match_rtpmap l =
     (let r = drop 9 l; pt = takeWhile is_digit r; r1 = dropWhile is_digit r;
          nm = takeWhile (\<lambda>c. c \<noteq> CHR ''/'') (tl r1); r2 = dropWhile (\<lambda>c. c \<noteq> CHR ''/'') (tl r1);
          r3 = drop 6 r2 in
      if to_lower (take 9 l) = ''a=rtpmap:'' \<and> pt \<noteq> [] \<and> r1 \<noteq> [] \<and> hd r1 = CHR '' ''
         \<and> nm \<noteq> [] \<and> prefix ''/90000'' r2 \<and> (r3 = [] \<or> is_ws (hd r3))
      then Some (pt, nm) else None)"

text \<open>
  \<open>/^a=fmtp:(\d+) .*\bapt=(\d+)(?:;|\s|$)/\<close>; \<open>.*\<close> is greedy, so the last place that fits counts.
\<close>

definition apt_at :: "string \<Rightarrow> string option" where
  "apt_at s = (let d = takeWhile is_digit (drop 4 s); r = dropWhile is_digit (drop 4 s) in
     if prefix ''apt='' s \<and> d \<noteq> [] \<and> (r = [] \<or> hd r = CHR '';'' \<or> is_ws (hd r)) then Some d else None)"

fun last_apt :: "char \<Rightarrow> string \<Rightarrow> string option" where
  "last_apt p [] = None"
| "last_apt p (c # s) = (case (if is_lt c then None else last_apt c s) of
     Some d \<Rightarrow> Some d
   | None \<Rightarrow> if is_word p then None else apt_at (c # s))"

definition match_fmtp :: "string \<Rightarrow> (string \<times> string) option" where
  "match_fmtp l = (let r = drop 7 l; pt = takeWhile is_digit r; r1 = dropWhile is_digit r in
     if prefix ''a=fmtp:'' l \<and> pt \<noteq> [] \<and> r1 \<noteq> [] \<and> hd r1 = CHR '' ''
     then map_option (Pair pt) (last_apt (CHR '' '') (tl r1)) else None)"

text \<open>\<open>/^a=(?:rtpmap|fmtp|rtcp-fb):(\d+)\b/\<close>\<close>

definition pt_after :: "string \<Rightarrow> string \<Rightarrow> string option" where
  "pt_after key l = (let r = drop (length key) l; d = takeWhile is_digit r; r1 = dropWhile is_digit r in
     if prefix key l \<and> d \<noteq> [] \<and> (r1 = [] \<or> \<not> is_word (hd r1)) then Some d else None)"

definition match_attr :: "string \<Rightarrow> string option" where
  "match_attr l = (case pt_after ''a=rtpmap:'' l of Some d \<Rightarrow> Some d | None \<Rightarrow>
     (case pt_after ''a=fmtp:'' l of Some d \<Rightarrow> Some d | None \<Rightarrow> pt_after ''a=rtcp-fb:'' l))"

section \<open>Restricting the offer\<close>

datatype sdp_error =
    InvalidSdp
  | DuplicateMapping
  | CannotNegotiate codec
  | NotOneVideo
  | NoCurrentOffer
  | ChangedMapping

fun sdp_error_text :: "sdp_error \<Rightarrow> string" where
  "sdp_error_text InvalidSdp = ''Invalid SDP''"
| "sdp_error_text DuplicateMapping = ''Duplicate video payload mapping''"
| "sdp_error_text (CannotNegotiate c) = ''The streamer cannot negotiate '' @ codec_name c"
| "sdp_error_text NotOneVideo = ''Exactly one active video section is required''"
| "sdp_error_text NoCurrentOffer = ''Answer without a current offer''"
| "sdp_error_text ChangedMapping = ''Answer changed a video payload mapping''"

fun collect_mappings ::
  "string list \<Rightarrow> string list \<Rightarrow> (string \<times> string) list \<times> codec list
   \<Rightarrow> sdp_error + ((string \<times> string) list \<times> codec list)" where
  "collect_mappings offered [] acc = Inr acc"
| "collect_mappings offered (l # ls) (m, av) =
     (case match_rtpmap l of
        None \<Rightarrow> collect_mappings offered ls (m, av)
      | Some (pt, nm) \<Rightarrow>
          if pt \<notin> set offered then collect_mappings offered ls (m, av)
          else if map_get m pt \<noteq> None then Inl DuplicateMapping
          else collect_mappings offered ls (map_set pt (to_upper nm) m,
                 (case codec_of_name (to_upper nm) of None \<Rightarrow> av | Some c \<Rightarrow> set_add c av)))"

fun add_rtx :: "(string \<times> string) list \<Rightarrow> string list \<Rightarrow> string list \<Rightarrow> string list" where
  "add_rtx m [] keep = keep"
| "add_rtx m (l # ls) keep = add_rtx m ls
     (case match_fmtp l of
        Some (pt, apt) \<Rightarrow>
          (if map_get m pt = Some ''RTX'' \<and> apt \<in> set keep then set_add pt keep else keep)
      | None \<Rightarrow> keep)"

definition keep_line :: "string list \<Rightarrow> string \<Rightarrow> bool" where
  "keep_line keep l = (case match_attr l of None \<Rightarrow> True | Some pt \<Rightarrow> pt \<in> set keep)"

definition section_lines :: "string \<Rightarrow> string list" where
  "section_lines sec = split_char (CHR 0x0A) (trim_end sec)"

definition section_media :: "string \<Rightarrow> string list" where
  "section_media sec = split_ws (hd (section_lines sec))"

definition active_video :: "string \<Rightarrow> bool" where
  "active_video sec \<longleftrightarrow> prefix ''m=video '' sec
     \<and> \<not> (1 < length (section_media sec) \<and> section_media sec ! 1 = ''0'')"

definition restrict_video ::
  "codec \<Rightarrow> string \<Rightarrow> codec list \<Rightarrow> sdp_error + (string \<times> codec list)" where
  "restrict_video selected sec av =
     (let lines = section_lines sec; media = section_media sec in
      case collect_mappings (drop 3 media) lines ([], av) of
        Inl e \<Rightarrow> Inl e
      | Inr (m, av') \<Rightarrow>
          (let keep0 = map fst (filter (\<lambda>(pt, nm). nm = codec_name selected) m) in
           if keep0 = [] then Inl (CannotNegotiate selected)
           else
             (let keep = add_rtx m lines keep0;
                  first = join_with '' '' (take 3 media @ filter (\<lambda>pt. pt \<in> set keep) (drop 3 media))
              in Inr (join_with [CHR 0x0A] (filter (keep_line keep) (first # tl lines)) @ [CHR 0x0A], av'))))"

fun restrict_sections ::
  "codec \<Rightarrow> string list \<Rightarrow> codec list \<Rightarrow> nat \<Rightarrow> sdp_error + (string list \<times> codec list \<times> nat)" where
  "restrict_sections selected [] av n = Inr ([], av, n)"
| "restrict_sections selected (sec # secs) av n =
     (if active_video sec then
        (case restrict_video selected sec av of
           Inl e \<Rightarrow> Inl e
         | Inr (sec', av') \<Rightarrow>
             map_sum id (\<lambda>(ss, av'', k). (sec' # ss, av'', k)) (restrict_sections selected secs av' (Suc n)))
      else map_sum id (\<lambda>(ss, av'', k). (sec # ss, av'', k)) (restrict_sections selected secs av n))"

definition restrictVideoSdp :: "jsval \<Rightarrow> codec \<Rightarrow> sdp_error + (string \<times> codec list)" where
  "restrictVideoSdp v selected = (case v of
     JStr sdp \<Rightarrow>
       (if length sdp > 262144 \<or> \<not> prefix ''v=0'' sdp then Inl InvalidSdp
        else (case restrict_sections selected (split_sections (crlf_to_lf sdp)) [] 0 of
                Inl e \<Rightarrow> Inl e
              | Inr (secs, av, n) \<Rightarrow>
                  if n \<noteq> 1 then Inl NotOneVideo else Inr (lf_to_crlf (concat secs), av)))
   | _ \<Rightarrow> Inl InvalidSdp)"

section \<open>Checking the answer\<close>

text \<open>\<open>/^a=rtpmap:(\d+) ([^\r\n]+)/gm\<close> on one line of the section; lines end at CR and at LF.\<close>

fun split_lines :: "string \<Rightarrow> string list" where
  "split_lines [] = [[]]"
| "split_lines (c # s) = (if is_lt c then [] # split_lines s
     else (case split_lines s of [] \<Rightarrow> [[c]] | w # ws \<Rightarrow> (c # w) # ws))"

definition match_answer_map :: "string \<Rightarrow> (string \<times> string) option" where
  "match_answer_map l = (let r = drop 9 l; pt = takeWhile is_digit r; r1 = dropWhile is_digit r in
     if prefix ''a=rtpmap:'' l \<and> pt \<noteq> [] \<and> length r1 > 1 \<and> hd r1 = CHR '' ''
     then Some (pt, to_upper (tl r1)) else None)"

definition video_mappings :: "string \<Rightarrow> (string \<times> string) list" where
  "video_mappings sdp =
     (let sec = (case find (prefix ''m=video '') (split_sections sdp) of Some s \<Rightarrow> s | None \<Rightarrow> []) in
      foldl (\<lambda>m (k, v). map_set k v m) [] (List.map_filter match_answer_map (split_lines sec)))"

definition validateCodecAnswer :: "string option \<Rightarrow> string \<Rightarrow> sdp_error option" where
  "validateCodecAnswer offer answer = (case offer of
     None \<Rightarrow> Some NoCurrentOffer
   | Some off \<Rightarrow>
       if off = [] then Some NoCurrentOffer
       else if list_all (\<lambda>(pt, c). map_get (video_mappings off) pt = Some c) (video_mappings answer)
       then None else Some ChangedMapping)"

section \<open>What the checks guarantee\<close>

text \<open>The payload numbers that carry the selected codec, directly or as its retransmission.\<close>

inductive carries :: "(string \<times> string) list \<Rightarrow> string list \<Rightarrow> codec \<Rightarrow> string \<Rightarrow> bool"
  for m lines sel where
  direct: "map_get m pt = Some (codec_name sel) \<Longrightarrow> carries m lines sel pt"
| rtx: "l \<in> set lines \<Longrightarrow> match_fmtp l = Some (pt, apt) \<Longrightarrow> map_get m pt = Some ''RTX'' \<Longrightarrow>
    carries m lines sel apt \<Longrightarrow> carries m lines sel pt"

lemma add_rtx_sound:
  "set ls \<subseteq> set lines \<Longrightarrow> list_all (carries m lines sel) keep \<Longrightarrow>
   list_all (carries m lines sel) (add_rtx m ls keep)"
proof (induction ls arbitrary: keep)
  case (Cons l ls)
  have "list_all (carries m lines sel) (case match_fmtp l of
        Some (pt, apt) \<Rightarrow>
          (if map_get m pt = Some ''RTX'' \<and> apt \<in> set keep then set_add pt keep else keep)
      | None \<Rightarrow> keep)"
    using Cons.prems by (auto simp: list_all_iff split: option.split intro: carries.rtx)
  with Cons show ?case by simp
qed simp

lemma collect_mappings_inv:
  "collect_mappings off ls (m, av) = Inr (m', av') \<Longrightarrow> map_inv m \<Longrightarrow>
   (\<And>pt c. map_get m pt = Some (codec_name c) \<Longrightarrow> c \<in> set av) \<Longrightarrow>
   map_inv m' \<and> (\<forall>pt c. map_get m' pt = Some (codec_name c) \<longrightarrow> c \<in> set av') \<and> set av \<subseteq> set av'"
proof (induction ls arbitrary: m av)
  case (Cons l ls)
  show ?case
  proof (cases "match_rtpmap l")
    case None
    with Cons show ?thesis by simp
  next
    case (Some e)
    obtain pt nm where e: "e = (pt, nm)" by (cases e)
    show ?thesis
    proof (cases "pt \<in> set off")
      case False
      with Some e Cons show ?thesis by simp
    next
      case True
      let ?av = "case codec_of_name (to_upper nm) of None \<Rightarrow> av | Some c \<Rightarrow> set_add c av"
      from True Some e Cons.prems(1)
      have rec: "collect_mappings off ls (map_set pt (to_upper nm) m, ?av) = Inr (m', av')"
        by (simp split: if_split_asm)
      have sub: "set av \<subseteq> set ?av" by (auto split: option.split)
      have mem: "c \<in> set ?av" if "map_get (map_set pt (to_upper nm) m) q = Some (codec_name c)" for q c
      proof (cases "q = pt")
        case True
        with that have "codec_of_name (to_upper nm) = Some c" by (simp add: codec_of_name_iff)
        then show ?thesis by simp
      next
        case False
        with that have "c \<in> set av" using Cons.prems(3) by (simp add: jm.get_put)
        with sub show ?thesis by blast
      qed
      have "map_inv m' \<and> (\<forall>pt c. map_get m' pt = Some (codec_name c) \<longrightarrow> c \<in> set av')
          \<and> set ?av \<subseteq> set av'"
        by (rule Cons.IH [OF rec jm.inv_put [OF Cons.prems(2)]]) (rule mem)
      with sub show ?thesis by blast
    qed
  qed
qed simp

lemma split_char_join:
  "ls \<noteq> [] \<Longrightarrow> list_all (\<lambda>l. c \<notin> set l) ls \<Longrightarrow> split_char c (join_with [c] ls @ [c]) = ls @ [[]]"
proof (induction "[c]" ls rule: join_with.induct)
  case (2 w)
  then show ?case by (induction w) auto
next
  case (3 w v ws)
  then have IH: "split_char c (join_with [c] (v # ws) @ [c]) = (v # ws) @ [[]]" by simp
  have "split_char c (w @ [c] @ t) = w # split_char c t" if "c \<notin> set w" for t
    using that by (induction w) auto
  with 3 IH show ?case by simp
qed simp

lemma split_ws_no_ws: "w \<in> set (split_ws s) \<Longrightarrow> list_all (\<lambda>c. \<not> is_ws c) w"
proof (induction s rule: split_ws.induct)
  case (1 s)
  have tw: "list_all (\<lambda>c. \<not> is_ws c) (takeWhile (\<lambda>c. \<not> is_ws c) s)"
    using set_takeWhileD by (fastforce simp: list_all_iff)
  show ?case
  proof (cases "dropWhile (\<lambda>c. \<not> is_ws c) s = []")
    case True
    with "1.prems" tw show ?thesis by (simp add: split_ws_last)
  next
    case False
    with "1.prems" have "w = takeWhile (\<lambda>c. \<not> is_ws c) s
        \<or> w \<in> set (split_ws (dropWhile is_ws (dropWhile (\<lambda>c. \<not> is_ws c) s)))"
      by (simp add: split_ws_step)
    with tw "1.IH" [OF refl refl False] show ?thesis by blast
  qed
qed

lemma join_with_no: "c \<notin> set sep \<Longrightarrow> list_all (\<lambda>w. c \<notin> set w) ws \<Longrightarrow> c \<notin> set (join_with sep ws)"
  by (induction sep ws rule: join_with.induct) auto

definition only_carries :: "codec \<Rightarrow> string \<Rightarrow> string \<Rightarrow> bool" where
  "only_carries sel sec sec' \<longleftrightarrow>
     (\<exists>m av av' ps. collect_mappings (drop 3 (section_media sec)) (section_lines sec) ([], av) = Inr (m, av')
        \<and> hd (split_char (CHR 0x0A) sec') = join_with '' '' (take 3 (section_media sec) @ ps)
        \<and> set ps \<subseteq> set (drop 3 (section_media sec))
        \<and> list_all (carries m (section_lines sec) sel) ps
        \<and> list_all (\<lambda>l. case match_attr l of None \<Rightarrow> True | Some pt \<Rightarrow> carries m (section_lines sec) sel pt)
             (split_char (CHR 0x0A) sec'))"

lemma match_attr_m [simp]: "match_attr (CHR ''m'' # l) = None"
  by (simp add: match_attr_def pt_after_def Let_def)

lemma match_attr_Nil [simp]: "match_attr [] = None"
  by (simp add: match_attr_def pt_after_def Let_def)

lemma section_media_m:
  assumes "prefix ''m=video '' sec"
  shows "\<exists>w ws. section_media sec = (CHR ''m'' # w) # ws"
proof -
  obtain t where t: "sec = CHR ''m'' # t" using assms by (auto simp: prefix_def)
  have ne: "trim_end sec \<noteq> []"
    by (simp add: t trim_end_def dropWhile_eq_Nil_conv is_ws_def)
  with t obtain u where u: "trim_end sec = CHR ''m'' # u"
    using trim_end_hd [of sec] by (cases "trim_end sec") auto
  have "\<exists>v vs. section_lines sec = (CHR ''m'' # v) # vs"
    using split_char_not_Nil [of "CHR 0x0A" u]
    by (simp add: section_lines_def u split: list.split)
  then obtain v vs where v: "section_lines sec = (CHR ''m'' # v) # vs" by blast
  have m: "\<not> is_ws (CHR ''m'')" by (simp add: is_ws_def)
  show ?thesis
  proof (cases "dropWhile (\<lambda>c. \<not> is_ws c) (CHR ''m'' # v) = []")
    case True
    with m show ?thesis by (simp add: section_media_def v split_ws_last)
  next
    case False
    with m show ?thesis by (simp add: section_media_def v split_ws_step)
  qed
qed

lemma first_line_m:
  assumes "prefix ''m=video '' sec"
  shows "\<exists>w. join_with '' '' (take 3 (section_media sec) @ ps) = CHR ''m'' # w"
proof -
  obtain w ws where m: "section_media sec = (CHR ''m'' # w) # ws"
    using section_media_m [OF assms] by blast
  then have "\<exists>vs. take 3 (section_media sec) @ ps = (CHR ''m'' # w) # vs" by simp
  then obtain vs where "take 3 (section_media sec) @ ps = (CHR ''m'' # w) # vs" by blast
  then show ?thesis by (cases vs) auto
qed

lemma restrict_video_only_carries:
  assumes r: "restrict_video sel sec av = Inr (sec', av')" and v: "prefix ''m=video '' sec"
  shows "only_carries sel sec sec' \<and> sel \<in> set av' \<and> set av \<subseteq> set av'"
proof -
  let ?lines = "section_lines sec" and ?media = "section_media sec" and ?lf = "CHR 0x0A"
  from r obtain m where m: "collect_mappings (drop 3 ?media) ?lines ([], av) = Inr (m, av')"
    by (auto simp: restrict_video_def Let_def split: sum.splits if_splits)
  define keep0 where "keep0 = map fst (filter (\<lambda>(pt, nm). nm = codec_name sel) m)"
  define keep where "keep = add_rtx m ?lines keep0"
  define ps where "ps = filter (\<lambda>pt. pt \<in> set keep) (drop 3 ?media)"
  define first where "first = join_with '' '' (take 3 ?media @ ps)"
  define ls where "ls = first # filter (keep_line keep) (tl ?lines)"
  obtain w where w: "first = CHR ''m'' # w" using first_line_m [OF v] by (auto simp: first_def)
  from r m have k0: "keep0 \<noteq> []" and sec': "sec' = join_with [?lf] ls @ [?lf]"
    using w by (auto simp: restrict_video_def Let_def keep0_def keep_def ps_def first_def ls_def
        keep_line_def split: if_splits)
  have inv: "map_inv m" and avail: "\<And>pt c. map_get m pt = Some (codec_name c) \<Longrightarrow> c \<in> set av'"
    and sub: "set av \<subseteq> set av'"
    using collect_mappings_inv [OF m] by auto
  have k0c: "map_get m pt = Some (codec_name sel)" if "pt \<in> set keep0" for pt
    using that by (auto simp: keep0_def map_get_iff_mem [OF inv])
  then have "list_all (carries m ?lines sel) keep0"
    by (auto simp: list_all_iff intro: carries.direct)
  then have keep: "list_all (carries m ?lines sel) keep"
    unfolding keep_def by (intro add_rtx_sound) auto
  have sel: "sel \<in> set av'" using k0 k0c avail by (cases keep0) auto
  have "?lf \<notin> set first" unfolding first_def
  proof (rule join_with_no)
    show "?lf \<notin> set '' ''" by simp
    have "set (take 3 ?media @ ps) \<subseteq> set ?media"
      by (auto simp: ps_def dest: in_set_takeD in_set_dropD)
    then show "list_all (\<lambda>w. ?lf \<notin> set w) (take 3 ?media @ ps)"
      using split_ws_no_ws [of _ "hd ?lines"]
      by (fastforce simp: section_media_def list_all_iff is_ws_def)
  qed
  moreover have "?lf \<notin> set l" if "l \<in> set (tl ?lines)" for l
    using that split_char_no_sep [of l ?lf "trim_end sec"]
    by (metis list.set_sel(2) section_lines_def split_char_not_Nil)
  ultimately have out: "split_char ?lf sec' = ls @ [[]]"
    unfolding sec' by (intro split_char_join) (auto simp: ls_def list_all_iff)
  have "list_all (\<lambda>l. case match_attr l of None \<Rightarrow> True | Some pt \<Rightarrow> carries m ?lines sel pt) ls"
    using keep w by (auto simp: ls_def list_all_iff keep_line_def split: option.splits)
  moreover have "list_all (carries m ?lines sel) ps" "set ps \<subseteq> set (drop 3 ?media)"
    using keep by (auto simp: ps_def list_all_iff)
  moreover have "hd (split_char ?lf sec') = join_with '' '' (take 3 ?media @ ps)"
    by (simp add: out ls_def first_def)
  ultimately have "only_carries sel sec sec'"
    unfolding only_carries_def using m out by (auto simp: list_all_iff)
  with sel sub show ?thesis by simp
qed

definition section_ok :: "codec \<Rightarrow> string \<Rightarrow> string \<Rightarrow> bool" where
  "section_ok sel s s' \<longleftrightarrow> (if active_video s then only_carries sel s s' else s' = s)"

lemma restrict_sections_shape:
  "restrict_sections sel secs av n = Inr (ss, av', k) \<Longrightarrow>
   k = n + length (filter active_video secs)
   \<and> list_all2 (section_ok sel) secs ss
   \<and> (n < k \<longrightarrow> sel \<in> set av') \<and> set av \<subseteq> set av'"
proof (induction sel secs av n arbitrary: ss av' k rule: restrict_sections.induct)
  case (2 sel sec secs av n)
  show ?case
  proof (cases "active_video sec")
    case False
    then have "section_ok sel sec sec" by (simp add: section_ok_def)
    with False 2 show ?thesis
      by (cases "restrict_sections sel secs av n") auto
  next
    case True
    with "2.prems" obtain sec' av1 where r: "restrict_video sel sec av = Inr (sec', av1)"
      by (cases "restrict_video sel sec av") auto
    with True "2.prems" obtain ss' where
      rec: "restrict_sections sel secs av1 (Suc n) = Inr (ss', av', k)" and ss: "ss = sec' # ss'"
      by (cases "restrict_sections sel secs av1 (Suc n)") auto
    have "prefix ''m=video '' sec" using True by (simp add: active_video_def)
    from restrict_video_only_carries [OF r this] True
    have "section_ok sel sec sec'" "sel \<in> set av1" "set av \<subseteq> set av1"
      by (auto simp: section_ok_def)
    with "2.IH"(1) [OF True r refl rec] True ss show ?thesis by auto
  qed
qed auto

section \<open>Properties\<close>

text \<open>
  A codec policy that the ticket parser accepts has one to four distinct codecs, never VP8, a
  default codec among them and well-formed identifiers; and the object it returns parses again to
  the same policy.
\<close>

theorem parseCodecPolicy_sound_stable:
  "parseCodecPolicy v = Some p \<Longrightarrow> wf_policy p \<and> parseCodecPolicy (policy_value p) = Some p"
  unfolding parseCodecPolicy_Some_iff by (simp add: policy_value_def)

definition demo_policy :: codec_policy where
  "demo_policy = \<lparr>cp_snapshotId = JStr (replicate 36 (CHR ''a'')), cp_policyHash = JStr (replicate 64 (CHR ''0'')),
     cp_allowedCodecs = [VP9, H264], cp_defaultCodec = VP9, cp_allowSwitching = False\<rparr>"

lemma wf_demo_policy [simp]: "wf_policy demo_policy"
  by (simp add: wf_policy_def demo_policy_def all_of_length_def list_all_iff is_hex_def is_digit_def)

theorem parseCodecPolicy_sound_stable_witness:
  "wf_policy demo_policy \<and> parseCodecPolicy (policy_value demo_policy) = Some demo_policy"
proof -
  have "parseCodecPolicy (policy_value demo_policy) = Some demo_policy"
    by (simp add: parseCodecPolicy_Some_iff) (simp add: policy_value_def)
  from parseCodecPolicy_sound_stable [OF this] show ?thesis .
qed

text \<open>
  C28: When the offer filter accepts an SDP for a selected codec, the SDP had exactly one active
  video section; every other section is passed on unchanged (up to line ends); in the video section
  the media line and the payload attributes mention only payload numbers mapped to the selected
  codec or to a retransmission of one that is kept; and the selected codec is reported available.
\<close>

theorem restrictVideoSdp_only_selected:
  assumes "restrictVideoSdp (JStr sdp) sel = Inr (out, av)"
  shows "\<exists>secs. length (filter active_video (split_sections (crlf_to_lf sdp))) = 1
    \<and> list_all2 (section_ok sel) (split_sections (crlf_to_lf sdp)) secs
    \<and> out = lf_to_crlf (concat secs) \<and> sel \<in> set av"
proof -
  from assms obtain secs n where
    r: "restrict_sections sel (split_sections (crlf_to_lf sdp)) [] 0 = Inr (secs, av, n)"
    and n: "n = 1" and out: "out = lf_to_crlf (concat secs)"
    by (auto simp: restrictVideoSdp_def split: if_splits sum.splits)
  from restrict_sections_shape [OF r] n out show ?thesis by auto
qed

lemmas sdp_eval =
  restrictVideoSdp_def active_video_def section_media_def section_lines_def trim_end_def is_ws_def
  is_lt_def split_ws_step split_ws_last restrict_video_def Let_def match_rtpmap_def match_fmtp_def
  to_lower_def lower_char_def is_digit_def map_get_def to_upper_def upper_char_def
  codec_of_name_def set_add_def keep_line_def match_attr_def pt_after_def lf_to_crlf_def is_word_def

definition demo_offer :: string where
  "demo_offer = ''v=0'' @ [CHR 0x0A] @ ''m=video 9 U 96 97'' @ [CHR 0x0A]
     @ ''a=rtpmap:96 VP9/90000'' @ [CHR 0x0A] @ ''a=rtpmap:97 H264/90000'' @ [CHR 0x0A]"

definition demo_restricted :: string where
  "demo_restricted = ''v=0'' @ [CHR 0x0D, CHR 0x0A] @ ''m=video 9 U 96'' @ [CHR 0x0D, CHR 0x0A]
     @ ''a=rtpmap:96 VP9/90000'' @ [CHR 0x0D, CHR 0x0A]"

lemma demo_offer_restricted:
  "restrictVideoSdp (JStr demo_offer) VP9 = Inr (demo_restricted, [VP9, H264])"
  by (simp add: demo_offer_def demo_restricted_def sdp_eval)

theorem restrictVideoSdp_only_selected_witness:
  "\<exists>secs. length (filter active_video (split_sections (crlf_to_lf demo_offer))) = 1
    \<and> list_all2 (section_ok VP9) (split_sections (crlf_to_lf demo_offer)) secs
    \<and> demo_restricted = lf_to_crlf (concat secs) \<and> VP9 \<in> set [VP9, H264]"
  by (rule restrictVideoSdp_only_selected [OF demo_offer_restricted])

end
