(* ===== verification/Ice_Candidate_Monitor.thy ===== *)
theory Ice_Candidate_Monitor
  imports Codec_Policy
begin

text \<open>
  \<open>Signalling/src/IceCandidateMonitor.ts\<close>: the passive monitor that counts the ICE candidates of a
  player and of its streamer and logs one summary per tracked player. The options are taken after
  their parsing. A pending \<open>setTimeout\<close> is the flag \<open>cr_timer\<close> of its record; what the monitor logs
  is the list \<open>im_log\<close>.
\<close>

section \<open>Parsing a candidate\<close>

record parsed_candidate =
  pc_type :: string
  pc_protocol :: "string option"
  pc_relayProtocol :: "string option"
  pc_tcpType :: "string option"
  pc_component :: "string option"

fun find_index :: "('a \<Rightarrow> bool) \<Rightarrow> 'a list \<Rightarrow> nat option" where
  "find_index P [] = None"
| "find_index P (x # xs) = (if P x then Some 0 else map_option Suc (find_index P xs))"

definition token_text :: "string list \<Rightarrow> nat \<Rightarrow> (string \<Rightarrow> string) \<Rightarrow> string option" where
  "token_text ts i f = (if i < length ts then normalizeOptionalText (JStr (f (ts ! i))) else None)"

definition parseIceCandidate :: "string \<Rightarrow> parsed_candidate option" where
  "parseIceCandidate text =
     (let trimmed = trim text; tokens = split_ws trimmed in
      if trimmed = [] then None
      else case find_index (\<lambda>t. to_lower t = ''typ'') tokens of
        None \<Rightarrow> None
      | Some k \<Rightarrow>
          if k + 1 \<ge> length tokens then None
          else
            let protocol = token_text tokens 2 to_lower;
                ctype = (case token_text tokens (k + 1) to_lower of Some t \<Rightarrow> t | None \<Rightarrow> ''unknown'');
                tcp = (case find_index (\<lambda>t. to_lower t = ''tcptype'') tokens of
                         Some j \<Rightarrow> token_text tokens (j + 1) to_lower
                       | None \<Rightarrow> None) in
            Some \<lparr>pc_type = ctype, pc_protocol = protocol,
                  pc_relayProtocol = (if ctype = ''relay'' then protocol else None),
                  pc_tcpType = tcp, pc_component = token_text tokens 1 id\<rparr>)"

section \<open>Counting\<close>

record endpoint_stats =
  es_total :: nat
  es_types :: "(string \<times> nat) list"
  es_protocols :: "(string \<times> nat) list"
  es_relayProtocols :: "(string \<times> nat) list"
  es_tcpTypes :: "(string \<times> nat) list"
  es_components :: "(string \<times> nat) list"

definition createEndpointStats :: endpoint_stats where
  "createEndpointStats = \<lparr>es_total = 0, es_types = [], es_protocols = [], es_relayProtocols = [],
     es_tcpTypes = [], es_components = []\<rparr>"

definition incrementCount :: "(string \<times> nat) list \<Rightarrow> string option \<Rightarrow> (string \<times> nat) list" where
  "incrementCount counts raw =
     (let v = (case raw of Some s \<Rightarrow> if s \<noteq> [] then s else ''unknown'' | None \<Rightarrow> ''unknown'') in
      map_set v (case map_get counts v of Some n \<Rightarrow> n + 1 | None \<Rightarrow> 1) counts)"

definition incrementIf :: "(string \<times> nat) list \<Rightarrow> string option \<Rightarrow> (string \<times> nat) list" where
  "incrementIf counts raw = (case raw of
     Some s \<Rightarrow> if s \<noteq> [] then incrementCount counts raw else counts
   | None \<Rightarrow> counts)"

definition countCandidate :: "endpoint_stats \<Rightarrow> parsed_candidate \<Rightarrow> endpoint_stats" where
  "countCandidate st c = st\<lparr>es_total := es_total st + 1,
     es_types := incrementCount (es_types st) (Some (pc_type c)),
     es_protocols := incrementCount (es_protocols st) (pc_protocol c),
     es_relayProtocols := incrementIf (es_relayProtocols st) (pc_relayProtocol c),
     es_tcpTypes := incrementIf (es_tcpTypes st) (pc_tcpType c),
     es_components := incrementIf (es_components st) (pc_component c)\<rparr>"

definition hasOnlyHostCandidates :: "endpoint_stats \<Rightarrow> bool" where
  "hasOnlyHostCandidates st \<longleftrightarrow> es_total st > 0 \<and> length (es_types st) = 1
     \<and> map_get (es_types st) ''host'' \<noteq> None \<and> map_get (es_types st) ''srflx'' = None
     \<and> map_get (es_types st) ''relay'' = None"

section \<open>The monitor\<close>

record candidate_record =
  cr_playerId :: string
  cr_streamerId :: "string option"
  cr_sessionId :: "string option"
  cr_sessionRequestId :: "string option"
  cr_firstSeenAtMs :: int
  cr_lastSeenAtMs :: int
  cr_player :: endpoint_stats
  cr_streamer :: endpoint_stats
  cr_timer :: bool
  cr_summaryEmitted :: bool
  cr_warningEmitted :: bool

datatype ice_log =
    IceSummary string string int   \<comment> \<open>player id, reason, duration\<close>
  | IceHostOnlyWarning string

record ice_monitor =
  im_enabled :: bool
  im_summaryDelayMs :: int
  im_maxTracked :: int
  im_records :: "(string \<times> candidate_record) list"
  im_log :: "ice_log list"

definition new_ice_monitor :: "bool \<Rightarrow> int \<Rightarrow> int \<Rightarrow> ice_monitor" where
  "new_ice_monitor en delay tracked = \<lparr>im_enabled = en, im_summaryDelayMs = delay,
     im_maxTracked = max 1 tracked, im_records = [], im_log = []\<rparr>"

definition emitSummary :: "candidate_record \<Rightarrow> string \<Rightarrow> candidate_record \<times> ice_log list" where
  "emitSummary r reason =
     (let r = r\<lparr>cr_timer := False\<rparr> in
      if cr_summaryEmitted r then (r, [])
      else
        let r = r\<lparr>cr_summaryEmitted := True\<rparr>;
            logged = [IceSummary (cr_playerId r) reason (max 0 (cr_lastSeenAtMs r - cr_firstSeenAtMs r))] in
        if \<not> cr_warningEmitted r \<and> hasOnlyHostCandidates (cr_streamer r)
        then (r\<lparr>cr_warningEmitted := True\<rparr>, logged @ [IceHostOnlyWarning (cr_playerId r)])
        else (r, logged))"

definition flushPlayer :: "string \<Rightarrow> string \<Rightarrow> ice_monitor \<Rightarrow> ice_monitor" where
  "flushPlayer pid reason im =
     (if \<not> im_enabled im \<or> pid = [] then im
      else case map_get (im_records im) pid of
        None \<Rightarrow> im
      | Some r \<Rightarrow> im\<lparr>im_log := im_log im @ snd (emitSummary r reason),
                    im_records := map_delete pid (im_records im)\<rparr>)"

definition new_record :: "string \<Rightarrow> int \<Rightarrow> candidate_record" where
  "new_record pid now = \<lparr>cr_playerId = pid, cr_streamerId = None, cr_sessionId = None,
     cr_sessionRequestId = None, cr_firstSeenAtMs = now, cr_lastSeenAtMs = now,
     cr_player = createEndpointStats, cr_streamer = createEndpointStats, cr_timer = False,
     cr_summaryEmitted = False, cr_warningEmitted = False\<rparr>"

definition getOrCreateRecord :: "string \<Rightarrow> int \<Rightarrow> ice_monitor \<Rightarrow> candidate_record \<times> ice_monitor" where
  "getOrCreateRecord pid now im =
     (case map_get (im_records im) pid of
        Some r \<Rightarrow> (r, im)
      | None \<Rightarrow>
          let im = (if int (length (im_records im)) \<ge> im_maxTracked im
                    then (case map_keys (im_records im) of
                            [] \<Rightarrow> im
                          | k # _ \<Rightarrow> flushPlayer k ''evicted'' im)
                    else im);
              r = new_record pid now in
          (r, im\<lparr>im_records := map_set pid r (im_records im)\<rparr>))"

datatype endpoint = PlayerEnd | StreamerEnd

definition readCandidateText :: "jsval \<Rightarrow> string option" where
  "readCandidateText msg = normalizeOptionalText (fld (fld msg ''candidate'') ''candidate'')"

definition first_some :: "'a option \<Rightarrow> 'a option \<Rightarrow> 'a option" where
  "first_some a b = (case a of Some x \<Rightarrow> Some x | None \<Rightarrow> b)"

definition session_text :: "string option \<Rightarrow> string option" where
  "session_text v = normalizeOptionalText (opt_str v)"

text \<open>
  The streamer's id is \<open>None\<close> when there is no streamer; an empty id also leaves the record's id as it
  was. The session values are the player's fields \<open>scaleWorldSessionId\<close> and
  \<open>scaleWorldSessionRequestId\<close>.
\<close>

definition updateRecord ::
  "endpoint \<Rightarrow> string option \<Rightarrow> string option \<Rightarrow> string option \<Rightarrow> int \<Rightarrow> parsed_candidate
   \<Rightarrow> candidate_record \<Rightarrow> candidate_record" where
  "updateRecord ep sessionId requestId streamerId now c r =
     (let r = r\<lparr>cr_lastSeenAtMs := now,
                cr_streamerId := (case streamerId of
                   Some s \<Rightarrow> if s \<noteq> [] then Some s else cr_streamerId r | None \<Rightarrow> cr_streamerId r),
                cr_sessionId := first_some (session_text sessionId) (cr_sessionId r),
                cr_sessionRequestId := first_some (session_text requestId) (cr_sessionRequestId r)\<rparr>;
          r = (case ep of
                 PlayerEnd \<Rightarrow> r\<lparr>cr_player := countCandidate (cr_player r) c\<rparr>
               | StreamerEnd \<Rightarrow> r\<lparr>cr_streamer := countCandidate (cr_streamer r) c\<rparr>) in
      if \<not> cr_summaryEmitted r then r\<lparr>cr_timer := True\<rparr> else r)"

definition recordCandidate ::
  "endpoint \<Rightarrow> string \<Rightarrow> string option \<Rightarrow> string option \<Rightarrow> string option \<Rightarrow> jsval \<Rightarrow> int
   \<Rightarrow> ice_monitor \<Rightarrow> ice_monitor" where
  "recordCandidate ep pid sessionId requestId streamerId msg now im =
     (if pid = [] then im
      else case Option.bind (readCandidateText msg) parseIceCandidate of
        None \<Rightarrow> im
      | Some c \<Rightarrow>
          (case getOrCreateRecord pid now im of
             (r, im) \<Rightarrow> im\<lparr>im_records :=
                map_set pid (updateRecord ep sessionId requestId streamerId now c r) (im_records im)\<rparr>))"

definition recordPlayerCandidate ::
  "string \<Rightarrow> string option \<Rightarrow> string option \<Rightarrow> string option \<Rightarrow> jsval \<Rightarrow> int \<Rightarrow> ice_monitor \<Rightarrow> ice_monitor" where
  "recordPlayerCandidate pid sid srid streamerId msg now im =
     (if \<not> im_enabled im then im
      else recordCandidate PlayerEnd pid sid srid streamerId msg now im)"

text \<open>\<open>player\<close> is the resolved player's id and session values, if one was resolved.\<close>

definition recordStreamerCandidate ::
  "string \<Rightarrow> (string \<times> string option \<times> string option) option \<Rightarrow> jsval \<Rightarrow> int \<Rightarrow> ice_monitor \<Rightarrow> ice_monitor" where
  "recordStreamerCandidate streamerId player msg now im =
     (if \<not> im_enabled im then im
      else case first_some (normalizeOptionalText (fld msg ''playerId'')) (map_option fst player) of
        None \<Rightarrow> im
      | Some pid \<Rightarrow>
          (case player of
             None \<Rightarrow> recordCandidate StreamerEnd pid None None (Some streamerId) msg now im
           | Some (_, sid, srid) \<Rightarrow> recordCandidate StreamerEnd pid sid srid (Some streamerId) msg now im))"

text \<open>The quiet-period timer of a record.\<close>

definition summaryTimerFired :: "string \<Rightarrow> ice_monitor \<Rightarrow> ice_monitor" where
  "summaryTimerFired pid im =
     (case map_get (im_records im) pid of
        Some r \<Rightarrow> if cr_timer r
                  then im\<lparr>im_log := im_log im @ snd (emitSummary r ''quiet''),
                          im_records := map_set pid (fst (emitSummary r ''quiet'')) (im_records im)\<rparr>
                  else im
      | None \<Rightarrow> im)"

datatype ice_event =
    PlayerCandidate string "string option" "string option" "string option" jsval int
  | StreamerCandidate string "(string \<times> string option \<times> string option) option" jsval int
  | FlushPlayer string string
  | SummaryTimer string

fun ice_step :: "ice_event \<Rightarrow> ice_monitor \<Rightarrow> ice_monitor" where
  "ice_step (PlayerCandidate pid sid srid st msg now) im = recordPlayerCandidate pid sid srid st msg now im"
| "ice_step (StreamerCandidate st p msg now) im = recordStreamerCandidate st p msg now im"
| "ice_step (FlushPlayer pid reason) im = flushPlayer pid reason im"
| "ice_step (SummaryTimer pid) im = summaryTimerFired pid im"

section \<open>Invariant\<close>

definition stats_ok :: "endpoint_stats \<Rightarrow> bool" where
  "stats_ok st \<longleftrightarrow> sum_list (map snd (es_types st)) = es_total st
     \<and> sum_list (map snd (es_protocols st)) = es_total st
     \<and> sum_list (map snd (es_relayProtocols st)) \<le> es_total st
     \<and> sum_list (map snd (es_tcpTypes st)) \<le> es_total st
     \<and> sum_list (map snd (es_components st)) \<le> es_total st"

definition record_ok :: "string \<Rightarrow> candidate_record \<Rightarrow> bool" where
  "record_ok pid r \<longleftrightarrow> pid \<noteq> [] \<and> cr_playerId r = pid \<and> stats_ok (cr_player r) \<and> stats_ok (cr_streamer r)
     \<and> cr_timer r = (\<not> cr_summaryEmitted r)"

definition ice_ok :: "ice_monitor \<Rightarrow> bool" where
  "ice_ok im \<longleftrightarrow> 1 \<le> im_maxTracked im \<and> map_inv (im_records im)
     \<and> int (length (im_records im)) \<le> im_maxTracked im
     \<and> (\<forall>pid r. map_get (im_records im) pid = Some r \<longrightarrow> record_ok pid r)"

lemma sum_increment:
  "sum_list (map snd (map_set k (case map_get m k of Some n \<Rightarrow> n + 1 | None \<Rightarrow> 1) m))
     = sum_list (map snd m) + (1 :: nat)"
  by (induction m) (auto simp: map_get_def split: option.splits)

lemma sum_incrementCount [simp]:
  "sum_list (map snd (incrementCount m raw)) = sum_list (map snd m) + 1"
  by (simp add: incrementCount_def Let_def sum_increment)

lemma sum_incrementIf:
  "sum_list (map snd (incrementIf m raw)) \<le> sum_list (map snd m) + 1"
  by (auto simp: incrementIf_def split: option.split)

lemma stats_ok_count: "stats_ok st \<Longrightarrow> stats_ok (countCandidate st c)"
  using sum_incrementIf [of "es_relayProtocols st" "pc_relayProtocol c"]
    sum_incrementIf [of "es_tcpTypes st" "pc_tcpType c"]
    sum_incrementIf [of "es_components st" "pc_component c"]
  by (auto simp: stats_ok_def countCandidate_def)

lemma stats_ok_create [simp]: "stats_ok createEndpointStats"
  by (simp add: stats_ok_def createEndpointStats_def)

lemma emitSummary_ok: "record_ok pid r \<Longrightarrow> record_ok pid (fst (emitSummary r reason))"
  by (auto simp: record_ok_def emitSummary_def Let_def)

lemma ice_ok_delete:
  "ice_ok im \<Longrightarrow> ice_ok (im\<lparr>im_log := l, im_records := map_delete pid (im_records im)\<rparr>)"
  using jm.size_del_le [of pid "im_records im"]
  by (auto simp: ice_ok_def jm.inv_del jm.get_del)

lemma flushPlayer_ok: "ice_ok im \<Longrightarrow> ice_ok (flushPlayer pid reason im)"
  by (auto simp: flushPlayer_def ice_ok_delete split: option.split)

lemma ice_ok_put:
  assumes "ice_ok im" "record_ok pid r"
    and "map_get (im_records im) pid = None \<Longrightarrow> int (length (im_records im)) < im_maxTracked im"
  shows "ice_ok (im\<lparr>im_records := map_set pid r (im_records im)\<rparr>)"
  using assms jm.size_put [of pid r "im_records im"]
  by (auto simp: ice_ok_def jm.inv_put jm.get_put)

lemma flush_makes_room:
  assumes "ice_ok im" "im_enabled im" "map_keys (im_records im) = k # ks"
  shows "int (length (im_records (flushPlayer k reason im))) < im_maxTracked im"
    and "im_maxTracked (flushPlayer k reason im) = im_maxTracked im"
proof -
  have "k \<in> set (map_keys (im_records im))" using assms(3) by simp
  then obtain r where r: "map_get (im_records im) k = Some r" by (auto simp: jm.keys_get)
  with assms(1) have k: "k \<noteq> []" by (auto simp: ice_ok_def record_ok_def)
  have "Suc (length (map_delete k (im_records im))) = length (im_records im)"
    using jm.size_del_present [of "im_records im" k] r assms(1) by (simp add: ice_ok_def)
  with r k assms(1,2) show "int (length (im_records (flushPlayer k reason im))) < im_maxTracked im"
    by (simp add: flushPlayer_def ice_ok_def)
  from r k assms(2) show "im_maxTracked (flushPlayer k reason im) = im_maxTracked im"
    by (simp add: flushPlayer_def)
qed

text \<open>Creating or finding a record: what the caller may then store under the same key.\<close>

lemma getOrCreateRecord_spec:
  assumes "ice_ok im" "im_enabled im" "pid \<noteq> []" "getOrCreateRecord pid now im = (r, im')"
  shows "map_get (im_records im') pid = Some r" "cr_playerId r = pid"
    "stats_ok (cr_player r)" "stats_ok (cr_streamer r)"
    "record_ok pid r' \<Longrightarrow> ice_ok (im'\<lparr>im_records := map_set pid r' (im_records im')\<rparr>)"
proof -
  have twice: "map_set k v (map_set k v' m) = map_set k v m" for k v v' and m :: "(string \<times> candidate_record) list"
    by (induction m) auto
  show "map_get (im_records im') pid = Some r" "cr_playerId r = pid"
    "stats_ok (cr_player r)" "stats_ok (cr_streamer r)"
    using assms by (auto simp: getOrCreateRecord_def Let_def new_record_def ice_ok_def record_ok_def
        jm.get_put split: option.splits)
  assume r': "record_ok pid r'"
  show "ice_ok (im'\<lparr>im_records := map_set pid r' (im_records im')\<rparr>)"
  proof (cases "map_get (im_records im) pid")
    case (Some r0)
    with assms have "im' = im" by (simp add: getOrCreateRecord_def)
    with ice_ok_put [OF assms(1) r'] Some show ?thesis by simp
  next
    case None
    define im1 where "im1 = (if int (length (im_records im)) \<ge> im_maxTracked im
        then (case map_keys (im_records im) of [] \<Rightarrow> im | k # _ \<Rightarrow> flushPlayer k ''evicted'' im) else im)"
    have im1: "ice_ok im1" "int (length (im_records im1)) < im_maxTracked im1"
    proof -
      have full: "map_keys (im_records im) \<noteq> []" if "int (length (im_records im)) \<ge> im_maxTracked im"
        using that assms(1) by (auto simp: ice_ok_def map_keys_def)
      show "ice_ok im1" using assms(1) by (auto simp: im1_def flushPlayer_ok split: list.split)
      show "int (length (im_records im1)) < im_maxTracked im1"
        using full flush_makes_room [OF assms(1,2)]
        by (cases "map_keys (im_records im)") (auto simp: im1_def)
    qed
    from assms(4) None have "im' = im1\<lparr>im_records := map_set pid r (im_records im1)\<rparr>"
      by (auto simp: getOrCreateRecord_def Let_def im1_def)
    with ice_ok_put [OF im1(1) r'] im1(2) show ?thesis by (simp add: twice)
  qed
qed

lemma recordCandidate_ok:
  assumes "ice_ok im" "im_enabled im"
  shows "ice_ok (recordCandidate ep pid sid srid st msg now im)"
proof (cases "pid = [] \<or> Option.bind (readCandidateText msg) parseIceCandidate = None")
  case True
  with assms show ?thesis by (auto simp: recordCandidate_def)
next
  case False
  then obtain c where c: "Option.bind (readCandidateText msg) parseIceCandidate = Some c"
    and pid: "pid \<noteq> []" by auto
  obtain r im' where g: "getOrCreateRecord pid now im = (r, im')" by fastforce
  note spec = getOrCreateRecord_spec [OF assms pid g]
  have timer: "cr_timer r \<Longrightarrow> \<not> cr_summaryEmitted r"
    using assms(1) g by (auto simp: getOrCreateRecord_def Let_def new_record_def ice_ok_def
        record_ok_def split: option.splits)
  have "record_ok pid (updateRecord ep sid srid st now c r)"
    using pid timer spec(2,3,4)
    by (cases ep) (auto simp: updateRecord_def Let_def record_ok_def stats_ok_count)
  from spec(5) [OF this] pid c show ?thesis by (simp add: recordCandidate_def g)
qed

lemma ice_step_ok: "ice_ok im \<Longrightarrow> ice_ok (ice_step e im)"
proof (cases e)
  case (SummaryTimer pid)
  assume ok: "ice_ok im"
  show ?thesis
  proof (cases "map_get (im_records im) pid")
    case (Some r)
    with ok have "record_ok pid r" by (auto simp: ice_ok_def)
    from emitSummary_ok [OF this] have e: "record_ok pid (fst (emitSummary r ''quiet''))" .
    from ok have "ice_ok (im\<lparr>im_log := l\<rparr>)" for l by (simp add: ice_ok_def)
    from ice_ok_put [OF this e] Some ok show ?thesis
      by (simp add: SummaryTimer summaryTimerFired_def)
  qed (simp add: SummaryTimer summaryTimerFired_def ok)
qed (auto simp: recordPlayerCandidate_def recordStreamerCandidate_def recordCandidate_ok
      flushPlayer_ok split: option.split)

lemma ice_run_ok: "ice_ok im \<Longrightarrow> ice_ok (fold ice_step es im)"
  by (induction es arbitrary: im) (auto simp: ice_step_ok)

text \<open>
  After any sequence of candidates, flushes and timers the monitor tracks at most its configured
  number of players (at least one), no player twice; each tracked record counts every candidate
  exactly once by type and by protocol; and a record that has not yet logged its summary has its
  summary timer pending, so no tracked player is forgotten.
\<close>

theorem ice_monitor_invariant:
  "ice_ok (fold ice_step es (new_ice_monitor en delay tracked))"
  by (rule ice_run_ok) (simp add: ice_ok_def new_ice_monitor_def)

end
