(* ===== verification/Signalling_State.thy ===== *)
theory Signalling_State
  imports Event_Emitter Session_Quality Ice_Candidate_Monitor
begin

text \<open>
  The state of the signalling server and of its connections
  (\<open>Signalling/src/{StreamerConnection,PlayerConnection,SFUConnection,SignallingServer}.ts\<close>).
  A connection object is a reference into a store; what the store holds is one record with the
  fields of \<open>IStreamer\<close>, of \<open>IPlayer\<close> and of \<open>PlayerConnection\<close>, the unused ones at their
  initial values. A message is the JavaScript object the protocol parsed. What the code does to the
  outside (a message sent, a socket closed or terminated, a registry event, an evidence record) is
  appended to the log \<open>w_out\<close>.
\<close>

type_synonym ref = nat

datatype conn_kind = StreamerConn | PlayerConn | SfuConn

datatype streamer_event = Id_changed | Disconnected | Layer_preference

section \<open>Messages\<close>

definition mk_msg :: "string \<Rightarrow> (string \<times> jsval) list \<Rightarrow> jsval" where
  "mk_msg t fs = JObj ((''type'', JStr t) # fs)"

definition mtype :: "jsval \<Rightarrow> jsval" where
  "mtype m = fld m ''type''"

fun put_fld :: "string \<Rightarrow> jsval \<Rightarrow> jsval \<Rightarrow> jsval" where
  "put_fld k v (JObj fs) = JObj (map_set k v fs)"
| "put_fld k v x = x"

fun del_fld :: "string \<Rightarrow> jsval \<Rightarrow> jsval" where
  "del_fld k (JObj fs) = JObj (map_delete k fs)"
| "del_fld k x = x"

lemma mtype_mk_msg [simp]: "mtype (mk_msg t fs) = JStr t"
  by (simp add: mtype_def mk_msg_def)

lemma is_obj_mk_msg [simp]: "is_obj (mk_msg t fs)"
  by (simp add: mk_msg_def)

lemma fld_put_fld: "is_obj m \<Longrightarrow> fld (put_fld k v m) j = (if j = k then v else fld m j)"
  by (cases m) (auto simp: map_of_map_set)

lemma fld_del_fld: "is_obj m \<Longrightarrow> fld (del_fld k m) j = (if j = k then JUndef else fld m j)"
  by (cases m) (auto simp: map_of_map_delete)

lemma mtype_put_fld [simp]: "k \<noteq> ''type'' \<Longrightarrow> mtype (put_fld k v m) = mtype m"
  by (cases m) (auto simp: mtype_def map_of_map_set)

lemma mtype_del_fld [simp]: "k \<noteq> ''type'' \<Longrightarrow> mtype (del_fld k m) = mtype m"
  by (cases m) (auto simp: mtype_def map_of_map_delete)

lemma is_obj_put_fld [simp]: "is_obj (put_fld k v m) = is_obj m"
  by (cases m) auto

text \<open>\<open>===\<close> between two parsed values of different objects: arrays and objects are never identical.\<close>

fun strict_eq :: "jsval \<Rightarrow> jsval \<Rightarrow> bool" where
  "strict_eq (JNum NaN) _ = False"
| "strict_eq (JArr _) _ = False"
| "strict_eq (JObj _) _ = False"
| "strict_eq a b = (a = b)"

section \<open>A connection\<close>

text \<open>The private codec fields of \<open>PlayerConnection\<close>; a pending negotiation timer is a flag.\<close>

record codec_state =
  k_policy :: "codec_policy option"
  k_offer :: "string option"
  k_offerFromStreamer :: "bool option"
  k_negotiated :: bool
  k_hasSubscribed :: bool
  k_connectionId :: string
  k_sequence :: nat
  k_generation :: nat
  k_selected :: "codec option"
  k_finalized :: bool
  k_failed :: bool
  k_lastFrames :: int
  k_lastBytes :: int
  k_observed :: "codec option"
  k_timer :: bool
  k_descriptionReceived :: bool
  k_shadow :: "string option"
  k_admissionFailure :: "string option"

record session_state =
  s_sessionId :: "string option"
  s_requestId :: "string option"
  s_identityValidated :: bool
  s_activeValidated :: bool
  s_capabilityReported :: bool
  s_mediaReported :: bool
  s_flowReported :: bool
  s_quality :: quality_state

record conn =
  c_kind :: conn_kind
  c_open :: bool
  c_streamerId :: string
  c_streaming :: bool
  c_maxSubscribers :: int
  c_subscribers :: "string list"
  c_emitter :: "(streamer_event, ref) emitter"
  c_playerId :: string
  c_sub :: "ref option"
  c_codec :: codec_state
  c_session :: session_state

definition new_codec :: "string \<Rightarrow> codec_state" where
  "new_codec uuid = \<lparr>k_policy = None, k_offer = None, k_offerFromStreamer = None, k_negotiated = False,
     k_hasSubscribed = False, k_connectionId = uuid, k_sequence = 0, k_generation = 0,
     k_selected = None, k_finalized = False, k_failed = False, k_lastFrames = 0, k_lastBytes = 0,
     k_observed = None, k_timer = False, k_descriptionReceived = False, k_shadow = None,
     k_admissionFailure = None\<rparr>"

definition new_session :: "string \<Rightarrow> int \<Rightarrow> session_state" where
  "new_session uuid now = \<lparr>s_sessionId = None, s_requestId = None, s_identityValidated = False,
     s_activeValidated = False, s_capabilityReported = False, s_mediaReported = False,
     s_flowReported = False, s_quality = new_quality uuid now\<rparr>"

definition new_conn :: "conn_kind \<Rightarrow> string \<Rightarrow> string \<Rightarrow> int \<Rightarrow> conn" where
  "new_conn kind uuid quuid now = \<lparr>c_kind = kind, c_open = True, c_streamerId = [], c_streaming = False,
     c_maxSubscribers = 0, c_subscribers = [], c_emitter = [], c_playerId = [], c_sub = None,
     c_codec = new_codec uuid, c_session = new_session quuid now\<rparr>"

section \<open>The server\<close>

record evidence =
  ev_sessionRequestId :: string
  ev_connectionId :: string
  ev_sequence :: nat
  ev_mediaGeneration :: nat
  ev_eventType :: string
  ev_codec :: "codec option"
  ev_source :: string
  ev_policyHash :: jsval
  ev_reason :: "string option"
  ev_framesDecoded :: "int option"
  ev_bytesReceived :: "int option"

datatype effect =
    Sent ref jsval
  | Closing ref "nat option" "string option"   \<comment> \<open>\<open>transport.disconnect(code, reason)\<close>\<close>
  | Terminated ref
  | Pinged ref
  | Notified string "jsval list"               \<comment> \<open>an event of one of the registries\<close>
  | Negotiation string "ref option" "string option" "string option"
  | Quality string quality_summary
  | Recorded ref evidence

datatype auth_result = AuthThrows | AuthNull | AuthId string

text \<open>
  The configuration. The streamer-id authorizer and the evidence recorder are code outside the
  library: they may answer differently at every call, so they also take the number of events the
  server has handled. The recorder's answer says whether it returned or threw.
\<close>

record config =
  g_maxSubscribers :: int
  g_authorize :: "(nat \<Rightarrow> ref \<Rightarrow> string \<Rightarrow> string \<Rightarrow> bool \<Rightarrow> auth_result) option"
  g_recorder :: "(nat \<Rightarrow> evidence \<Rightarrow> bool) option"
  g_keepaliveEnabled :: bool
  g_maxMissedPongs :: int
  g_protocolVersion :: string
  g_peerOptions :: "conn_kind \<Rightarrow> jsval"
  g_peerOptionsProvider :: "(conn_kind \<Rightarrow> string \<Rightarrow> jsval option) option"

text \<open>A configuration for examples: no authorizer, evidence always persisted.\<close>

definition demo_config :: config where
  "demo_config = \<lparr>g_maxSubscribers = 2, g_authorize = None, g_recorder = Some (\<lambda>n e. True),
     g_keepaliveEnabled = True, g_maxMissedPongs = 2, g_protocolVersion = ''1.3.0'',
     g_peerOptions = (\<lambda>k. JObj []), g_peerOptionsProvider = None\<rparr>"

record world =
  w_cfg :: config
  w_conns :: "ref \<Rightarrow> conn"
  w_next :: ref
  w_streamers :: "ref list"
  w_players :: "(string \<times> ref) list"
  w_nextPlayerId :: nat
  w_keepalive :: "(ref \<times> nat) list"
  w_ice :: ice_monitor
  w_out :: "effect list"
  w_tick :: nat
  w_now :: int

abbreviation cn :: "world \<Rightarrow> ref \<Rightarrow> conn" where
  "cn w r \<equiv> w_conns w r"

definition upd :: "ref \<Rightarrow> (conn \<Rightarrow> conn) \<Rightarrow> world \<Rightarrow> world" where
  "upd r f w = w\<lparr>w_conns := (w_conns w)(r := f (w_conns w r))\<rparr>"

definition upd_codec :: "ref \<Rightarrow> (codec_state \<Rightarrow> codec_state) \<Rightarrow> world \<Rightarrow> world" where
  "upd_codec r f = upd r (\<lambda>c. c\<lparr>c_codec := f (c_codec c)\<rparr>)"

definition upd_session :: "ref \<Rightarrow> (session_state \<Rightarrow> session_state) \<Rightarrow> world \<Rightarrow> world" where
  "upd_session r f = upd r (\<lambda>c. c\<lparr>c_session := f (c_session c)\<rparr>)"

definition eff :: "effect \<Rightarrow> world \<Rightarrow> world" where
  "eff e w = w\<lparr>w_out := w_out w @ [e]\<rparr>"

abbreviation kc :: "world \<Rightarrow> ref \<Rightarrow> codec_state" where
  "kc w r \<equiv> c_codec (w_conns w r)"

abbreviation sc :: "world \<Rightarrow> ref \<Rightarrow> session_state" where
  "sc w r \<equiv> c_session (w_conns w r)"

definition policy_on :: "world \<Rightarrow> ref \<Rightarrow> bool" where
  "policy_on w r \<longleftrightarrow> k_policy (kc w r) \<noteq> None"

text \<open>\<open>protocol.sendMessage\<close> and \<open>protocol.disconnect\<close> of a connection.\<close>

definition protoSend :: "ref \<Rightarrow> jsval \<Rightarrow> world \<Rightarrow> world" where
  "protoSend r m = eff (Sent r m)"

definition protoDisconnect :: "ref \<Rightarrow> (nat \<times> string option) option \<Rightarrow> world \<Rightarrow> world" where
  "protoDisconnect r cr =
     eff (case cr of None \<Rightarrow> Closing r None None | Some (code, reason) \<Rightarrow> Closing r (Some code) reason)"

named_theorems world_simps

lemma conns_upd [world_simps]: "w_conns (upd r f w) = (w_conns w)(r := f (w_conns w r))"
  by (simp add: upd_def)

lemma conns_upd_codec [world_simps]:
  "w_conns (upd_codec r f w) = (w_conns w)(r := (w_conns w r)\<lparr>c_codec := f (c_codec (w_conns w r))\<rparr>)"
  by (simp add: upd_codec_def upd_def)

lemma conns_upd_session [world_simps]:
  "w_conns (upd_session r f w) = (w_conns w)(r := (w_conns w r)\<lparr>c_session := f (c_session (w_conns w r))\<rparr>)"
  by (simp add: upd_session_def upd_def)

lemma upd_frame [world_simps]:
  "w_cfg (upd r f w) = w_cfg w" "w_next (upd r f w) = w_next w" "w_streamers (upd r f w) = w_streamers w"
  "w_players (upd r f w) = w_players w" "w_nextPlayerId (upd r f w) = w_nextPlayerId w"
  "w_keepalive (upd r f w) = w_keepalive w" "w_ice (upd r f w) = w_ice w" "w_out (upd r f w) = w_out w"
  "w_tick (upd r f w) = w_tick w" "w_now (upd r f w) = w_now w"
  by (simp_all add: upd_def)

lemma upd_codec_frame [world_simps]:
  "w_cfg (upd_codec r f w) = w_cfg w" "w_next (upd_codec r f w) = w_next w"
  "w_streamers (upd_codec r f w) = w_streamers w" "w_players (upd_codec r f w) = w_players w"
  "w_nextPlayerId (upd_codec r f w) = w_nextPlayerId w" "w_keepalive (upd_codec r f w) = w_keepalive w"
  "w_ice (upd_codec r f w) = w_ice w" "w_out (upd_codec r f w) = w_out w"
  "w_tick (upd_codec r f w) = w_tick w" "w_now (upd_codec r f w) = w_now w"
  by (simp_all add: upd_codec_def upd_def)

lemma upd_session_frame [world_simps]:
  "w_cfg (upd_session r f w) = w_cfg w" "w_next (upd_session r f w) = w_next w"
  "w_streamers (upd_session r f w) = w_streamers w" "w_players (upd_session r f w) = w_players w"
  "w_nextPlayerId (upd_session r f w) = w_nextPlayerId w" "w_keepalive (upd_session r f w) = w_keepalive w"
  "w_ice (upd_session r f w) = w_ice w" "w_out (upd_session r f w) = w_out w"
  "w_tick (upd_session r f w) = w_tick w" "w_now (upd_session r f w) = w_now w"
  by (simp_all add: upd_session_def upd_def)

lemma eff_frame [world_simps]:
  "w_cfg (eff e w) = w_cfg w" "w_conns (eff e w) = w_conns w" "w_next (eff e w) = w_next w"
  "w_streamers (eff e w) = w_streamers w" "w_players (eff e w) = w_players w"
  "w_nextPlayerId (eff e w) = w_nextPlayerId w" "w_keepalive (eff e w) = w_keepalive w"
  "w_ice (eff e w) = w_ice w" "w_out (eff e w) = w_out w @ [e]" "w_tick (eff e w) = w_tick w"
  "w_now (eff e w) = w_now w"
  by (simp_all add: eff_def)

lemma protoSend_frame [world_simps]: "protoSend r m w = eff (Sent r m) w"
  by (simp add: protoSend_def)

section \<open>The routing view\<close>

text \<open>
  The part of the state that says who is connected to whom. Most of the code changes only codec
  fields and the log; those operations are shown to leave this view as it was.
\<close>

record route =
  rt_kind :: conn_kind
  rt_open :: bool
  rt_streamerId :: string
  rt_maxSubscribers :: int
  rt_subscribers :: "string list"
  rt_emitter :: "(streamer_event, ref) emitter"
  rt_playerId :: string
  rt_sub :: "ref option"

definition route :: "conn \<Rightarrow> route" where
  "route c = \<lparr>rt_kind = c_kind c, rt_open = c_open c, rt_streamerId = c_streamerId c,
     rt_maxSubscribers = c_maxSubscribers c, rt_subscribers = c_subscribers c,
     rt_emitter = c_emitter c, rt_playerId = c_playerId c, rt_sub = c_sub c\<rparr>"

record routing =
  ro_cfg :: config
  ro_conns :: "ref \<Rightarrow> route"
  ro_next :: ref
  ro_streamers :: "ref list"
  ro_players :: "(string \<times> ref) list"
  ro_nextPlayerId :: nat

definition routing :: "world \<Rightarrow> routing" where
  "routing w = \<lparr>ro_cfg = w_cfg w, ro_conns = (\<lambda>r. route (w_conns w r)), ro_next = w_next w,
     ro_streamers = w_streamers w, ro_players = w_players w, ro_nextPlayerId = w_nextPlayerId w\<rparr>"

named_theorems routing_simps

lemma routing_eff [simp, routing_simps]: "routing (eff e w) = routing w"
  by (simp add: routing_def eff_def)

lemma routing_protoSend [simp, routing_simps]: "routing (protoSend r m w) = routing w"
  by (simp add: protoSend_def)

lemma routing_protoDisconnect [simp, routing_simps]: "routing (protoDisconnect r cr w) = routing w"
  by (simp add: protoDisconnect_def)

lemma routing_upd: "route (f (w_conns w r)) = route (w_conns w r) \<Longrightarrow> routing (upd r f w) = routing w"
  by (auto simp: routing_def upd_def)

lemma routing_upd_codec [simp, routing_simps]: "routing (upd_codec r f w) = routing w"
  by (simp add: upd_codec_def routing_upd route_def)

lemma routing_upd_session [simp, routing_simps]: "routing (upd_session r f w) = routing w"
  by (simp add: upd_session_def routing_upd route_def)

lemma routing_ice [simp, routing_simps]: "routing (w\<lparr>w_ice := i\<rparr>) = routing w"
  by (simp add: routing_def)

lemma routing_keepalive [simp, routing_simps]: "routing (w\<lparr>w_keepalive := k\<rparr>) = routing w"
  by (simp add: routing_def)

lemma routing_eqD:
  assumes "routing w' = routing w"
  shows "w_cfg w' = w_cfg w" "w_next w' = w_next w" "w_streamers w' = w_streamers w"
    "w_players w' = w_players w" "w_nextPlayerId w' = w_nextPlayerId w"
    "c_kind (w_conns w' r) = c_kind (w_conns w r)" "c_open (w_conns w' r) = c_open (w_conns w r)"
    "c_streamerId (w_conns w' r) = c_streamerId (w_conns w r)"
    "c_maxSubscribers (w_conns w' r) = c_maxSubscribers (w_conns w r)"
    "c_subscribers (w_conns w' r) = c_subscribers (w_conns w r)"
    "c_emitter (w_conns w' r) = c_emitter (w_conns w r)"
    "c_playerId (w_conns w' r) = c_playerId (w_conns w r)" "c_sub (w_conns w' r) = c_sub (w_conns w r)"
proof -
  from assms have "route (w_conns w' r) = route (w_conns w r)"
    by (simp add: routing_def) meson
  then show "c_kind (w_conns w' r) = c_kind (w_conns w r)" "c_open (w_conns w' r) = c_open (w_conns w r)"
    "c_streamerId (w_conns w' r) = c_streamerId (w_conns w r)"
    "c_maxSubscribers (w_conns w' r) = c_maxSubscribers (w_conns w r)"
    "c_subscribers (w_conns w' r) = c_subscribers (w_conns w r)"
    "c_emitter (w_conns w' r) = c_emitter (w_conns w r)"
    "c_playerId (w_conns w' r) = c_playerId (w_conns w r)" "c_sub (w_conns w' r) = c_sub (w_conns w r)"
    by (simp_all add: route_def)
qed (use assms in \<open>simp_all add: routing_def\<close>)

end
