(* ===== verification/Streamer_Registry.thy ===== *)
theory Streamer_Registry
  imports Signalling_State
begin

text \<open>
  \<open>Signalling/src/StreamerRegistry.ts\<close>: the list of connected streamers and the ids they are known
  by. An sid is cleaned up by \<open>sanitizeStreamerId\<close>, whose search for an unused suffix is a recursion
  that is shown to end. \<open>onEndpointId\<close> is in the theory of the streamer connection, since it emits
  to the streamer's listeners.
\<close>

section \<open>Ids\<close>

definition numeric_suffix :: "string \<Rightarrow> string \<Rightarrow> nat option" where
  "numeric_suffix sid existing =
     (if prefix sid existing
      then let suffix = drop (length sid) existing in
        if suffix \<noteq> [] \<and> \<not> list_all is_digit suffix then None
        else if int (read_nat suffix) < max_safe then Some (read_nat suffix) else None
      else None)"

fun max_postfix :: "string \<Rightarrow> string list \<Rightarrow> nat option" where
  "max_postfix sid [] = None"
| "max_postfix sid (e # es) = (case (numeric_suffix sid e, max_postfix sid es) of
     (None, m) \<Rightarrow> m
   | (Some n, None) \<Rightarrow> Some n
   | (Some n, Some m) \<Rightarrow> Some (max n m))"

text \<open>The loop over \<open>nextPostfix\<close>: finitely many numbers are taken, so it ends.\<close>

lemma finite_taken: "finite {k. n \<le> k \<and> sid @ show_nat k \<in> set existing}"
proof -
  have "(\<lambda>k. sid @ show_nat k) ` {k. n \<le> k \<and> sid @ show_nat k \<in> set existing} \<subseteq> set existing"
    by auto
  then have "finite ((\<lambda>k. sid @ show_nat k) ` {k. n \<le> k \<and> sid @ show_nat k \<in> set existing})"
    by (rule finite_subset) simp
  then show ?thesis by (rule finite_imageD) (simp add: inj_on_def)
qed

function free_from :: "string \<Rightarrow> string list \<Rightarrow> nat \<Rightarrow> string" where
  "free_from sid existing n =
     (if sid @ show_nat n \<in> set existing then free_from sid existing (Suc n) else sid @ show_nat n)"
  by auto
termination
proof (relation "measure (\<lambda>(sid, existing, n). card {k. n \<le> k \<and> sid @ show_nat k \<in> set existing})", goal_cases)
  case (2 sid existing n)
  let ?A = "\<lambda>n. {k. n \<le> k \<and> sid @ show_nat k \<in> set existing}"
  have "n \<in> ?A n - ?A (Suc n)" using 2 by simp
  moreover have "?A (Suc n) \<subseteq> ?A n" by auto
  ultimately have "?A (Suc n) \<subset> ?A n" by blast
  with finite_taken show ?case by (simp add: psubset_card_mono)
qed simp

declare free_from.simps [simp del]

definition defaultStreamerIdPrefix :: string where
  "defaultStreamerIdPrefix = ''UnknownStreamer''"

definition sanitize :: "string \<Rightarrow> string option \<Rightarrow> string list \<Rightarrow> string" where
  "sanitize sid0 own existing =
     (let sid = (if sid0 = [] then defaultStreamerIdPrefix else sid0) in
      if own = Some sid \<and> sid \<notin> set existing then sid
      else
        let candidate = (case max_postfix sid existing of
              Some n \<Rightarrow> sid @ show_nat (n + 1)
            | None \<Rightarrow> sid) in
        if candidate \<in> set existing then free_from sid existing 1 else candidate)"

lemma free_from_fresh: "free_from sid existing n \<notin> set existing"
  by (induction sid existing n rule: free_from.induct) (subst free_from.simps, simp)

lemma free_from_prefix: "prefix sid (free_from sid existing n)"
  by (induction sid existing n rule: free_from.induct) (subst free_from.simps, simp)

lemma sanitize_fresh: "sanitize sid own existing \<notin> set existing"
  by (simp add: sanitize_def Let_def free_from_fresh)

lemma sanitize_prefix:
  "prefix (if sid = [] then defaultStreamerIdPrefix else sid) (sanitize sid own existing)"
  by (auto simp: sanitize_def Let_def free_from_prefix split: option.split)

lemma sanitize_not_Nil [simp]: "sanitize sid own existing \<noteq> []"
  using sanitize_prefix [of sid own existing] by (auto simp: defaultStreamerIdPrefix_def split: if_splits)

text \<open>An id that nobody holds, and that no numbered id extends, is granted as it was asked for.\<close>

lemma sanitize_unused:
  assumes "sid \<noteq> []" "\<forall>e \<in> set existing. numeric_suffix sid e = None"
  shows "sanitize sid own existing = sid"
proof -
  have mp: "max_postfix sid existing = None" using assms(2) by (induction existing) auto
  have "numeric_suffix sid sid = Some 0" by (simp add: numeric_suffix_def read_nat_def max_safe_def)
  with assms(2) have "sid \<notin> set existing" by auto
  with mp assms(1) show ?thesis by (simp add: sanitize_def Let_def)
qed

section \<open>The registry\<close>

definition registry_find :: "world \<Rightarrow> string \<Rightarrow> ref option" where
  "registry_find w sid = find (\<lambda>r. c_streamerId (cn w r) = sid) (w_streamers w)"

definition getFirstStreamerId :: "world \<Rightarrow> string option" where
  "getFirstStreamerId w = (case w_streamers w of [] \<Rightarrow> None | r # _ \<Rightarrow> Some (c_streamerId (cn w r)))"

definition sanitizeStreamerId :: "world \<Rightarrow> string \<Rightarrow> ref option \<Rightarrow> string" where
  "sanitizeStreamerId w sid excluded =
     sanitize sid (map_option (\<lambda>r. c_streamerId (cn w r)) excluded)
       (map (\<lambda>r. c_streamerId (cn w r)) (filter (\<lambda>r. Some r \<noteq> excluded) (w_streamers w)))"

definition set_streamerId :: "ref \<Rightarrow> string \<Rightarrow> world \<Rightarrow> world" where
  "set_streamerId r sid = upd r (\<lambda>c. c\<lparr>c_streamerId := sid\<rparr>)"

definition streamer_add :: "ref \<Rightarrow> world \<Rightarrow> bool \<times> world" where
  "streamer_add r w =
     (let w = set_streamerId r (sanitizeStreamerId w (c_streamerId (cn w r)) None) w in
      if registry_find w (c_streamerId (cn w r)) \<noteq> None then (False, w)
      else
        let w = w\<lparr>w_streamers := w_streamers w @ [r]\<rparr>;
            w = protoSend r (mk_msg ''identify'' []) w in
        (True, eff (Notified ''streamer.added'' [JStr (c_streamerId (cn w r))]) w))"

definition streamer_remove :: "ref \<Rightarrow> world \<Rightarrow> world" where
  "streamer_remove r w =
     (if r \<notin> set (w_streamers w) then w
      else eff (Notified ''streamer.removed'' [JStr (c_streamerId (cn w r))])
             (w\<lparr>w_streamers := remove1 r (w_streamers w)\<rparr>))"

text \<open>Invariant: the ids of the registered streamers are distinct and none is empty.\<close>

definition ids_ok :: "world \<Rightarrow> bool" where
  "ids_ok w \<longleftrightarrow> distinct (w_streamers w) \<and> inj_on (\<lambda>r. c_streamerId (cn w r)) (set (w_streamers w))
     \<and> (\<forall>r \<in> set (w_streamers w). c_streamerId (cn w r) \<noteq> [])"

lemma ids_ok_routing: "routing w' = routing w \<Longrightarrow> ids_ok w' = ids_ok w"
  by (simp add: ids_ok_def routing_eqD [of w' w])

lemma sanitizeStreamerId_fresh:
  "\<lbrakk>r' \<in> set (w_streamers w); Some r' \<noteq> excluded\<rbrakk> \<Longrightarrow> sanitizeStreamerId w sid excluded \<noteq> c_streamerId (cn w r')"
  unfolding sanitizeStreamerId_def
  using sanitize_fresh [of sid "map_option (\<lambda>r. c_streamerId (cn w r)) excluded"
    "map (\<lambda>r. c_streamerId (cn w r)) (filter (\<lambda>r. Some r \<noteq> excluded) (w_streamers w))"]
  by (metis (mono_tags, lifting) image_eqI list.set_map mem_Collect_eq set_filter)

lemma sanitizeStreamerId_not_Nil [simp]: "sanitizeStreamerId w sid excluded \<noteq> []"
  by (simp add: sanitizeStreamerId_def)

lemma registry_find_Some:
  "registry_find w sid = Some r \<Longrightarrow> r \<in> set (w_streamers w) \<and> c_streamerId (cn w r) = sid"
  by (auto simp: registry_find_def find_Some_iff)

lemma registry_find_None:
  "registry_find w sid = None \<longleftrightarrow> (\<forall>r \<in> set (w_streamers w). c_streamerId (cn w r) \<noteq> sid)"
  by (auto simp: registry_find_def find_None_iff)

lemma registry_find_registered:
  assumes "ids_ok w" "r \<in> set (w_streamers w)"
  shows "registry_find w (c_streamerId (cn w r)) = Some r"
proof (cases "registry_find w (c_streamerId (cn w r))")
  case None
  with assms(2) show ?thesis by (auto simp: registry_find_None)
next
  case (Some r')
  from registry_find_Some [OF this] assms have "r' = r" by (auto simp: ids_ok_def inj_on_def)
  with Some show ?thesis by simp
qed

lemma ids_ok_set_id:
  assumes "ids_ok w" "sid \<noteq> []" "\<And>r'. \<lbrakk>r' \<in> set (w_streamers w); r' \<noteq> r\<rbrakk> \<Longrightarrow> c_streamerId (cn w r') \<noteq> sid"
  shows "ids_ok (set_streamerId r sid w)"
  using assms by (auto simp: ids_ok_def set_streamerId_def world_simps inj_on_def)

text \<open>Adding a streamer always succeeds, whatever id it came with.\<close>

lemma streamer_add_result:
  assumes "r \<notin> set (w_streamers w)"
  shows "fst (streamer_add r w)"
    and "w_streamers (snd (streamer_add r w)) = w_streamers w @ [r]"
    and "c_streamerId (cn (snd (streamer_add r w)) r) = sanitizeStreamerId w (c_streamerId (cn w r)) None"
proof -
  let ?sid = "sanitizeStreamerId w (c_streamerId (cn w r)) None"
  have "registry_find (set_streamerId r ?sid w) ?sid = None"
    using assms by (auto simp: registry_find_None set_streamerId_def world_simps
        dest: sanitizeStreamerId_fresh [of _ w None, THEN not_sym])
  moreover have "c_streamerId (cn (set_streamerId r ?sid w) r) = ?sid"
    by (simp add: set_streamerId_def world_simps)
  moreover have "w_streamers (set_streamerId r ?sid w) = w_streamers w"
    by (simp add: set_streamerId_def world_simps)
  ultimately show "fst (streamer_add r w)"
    "w_streamers (snd (streamer_add r w)) = w_streamers w @ [r]"
    "c_streamerId (cn (snd (streamer_add r w)) r) = ?sid"
    by (simp_all add: streamer_add_def Let_def world_simps)
qed

lemma streamer_add_conns:
  "r' \<noteq> r \<Longrightarrow> cn (snd (streamer_add r w)) r' = cn w r'"
  "route (cn (snd (streamer_add r w)) r) = (route (cn w r))\<lparr>rt_streamerId := sanitizeStreamerId w (c_streamerId (cn w r)) None\<rparr>"
  "w_players (snd (streamer_add r w)) = w_players w"
  "w_cfg (snd (streamer_add r w)) = w_cfg w"
  "w_next (snd (streamer_add r w)) = w_next w"
  "w_nextPlayerId (snd (streamer_add r w)) = w_nextPlayerId w"
  by (simp_all add: streamer_add_def Let_def set_streamerId_def world_simps route_def)

lemma streamer_add_ids_ok:
  assumes "ids_ok w" "r \<notin> set (w_streamers w)"
  shows "ids_ok (snd (streamer_add r w))"
proof -
  let ?w = "snd (streamer_add r w)"
  note res = streamer_add_result [OF assms(2)]
  have same: "cn ?w r' = cn w r'" if "r' \<in> set (w_streamers w)" for r'
    using that assms(2) streamer_add_conns(1) [of r' r w] by auto
  have "c_streamerId (cn ?w r) \<noteq> []" by (simp add: res(3) sanitizeStreamerId_def)
  moreover have "c_streamerId (cn ?w r) \<noteq> c_streamerId (cn w r')" if "r' \<in> set (w_streamers w)" for r'
    using sanitizeStreamerId_fresh [OF that, of None] res(3) by simp
  ultimately show ?thesis
    using assms unfolding ids_ok_def res(2) inj_on_def by (auto simp: same) (metis same)
qed

lemma streamer_remove_ids_ok: "ids_ok w \<Longrightarrow> ids_ok (streamer_remove r w)"
  by (auto simp: ids_ok_def streamer_remove_def world_simps intro: inj_on_subset dest: notin_set_remove1)

lemma streamer_remove_frame [simp]:
  "w_conns (streamer_remove r w) = w_conns w" "w_players (streamer_remove r w) = w_players w"
  "w_next (streamer_remove r w) = w_next w" "w_cfg (streamer_remove r w) = w_cfg w"
  "w_nextPlayerId (streamer_remove r w) = w_nextPlayerId w"
  by (simp_all add: streamer_remove_def world_simps)

text \<open>
  The id a streamer is given is held by no other registered streamer and is never empty; it
  begins with the id that was asked for (or with the default prefix); and a streamer that asks for
  the id it already holds keeps it.
\<close>

theorem sanitizeStreamerId_spec:
  "(\<forall>r \<in> set (w_streamers w). Some r \<noteq> excluded \<longrightarrow> sanitizeStreamerId w sid excluded \<noteq> c_streamerId (cn w r))
   \<and> prefix (if sid = [] then defaultStreamerIdPrefix else sid) (sanitizeStreamerId w sid excluded)
   \<and> (sid \<noteq> [] \<and> excluded = Some r \<and> ids_ok w \<and> r \<in> set (w_streamers w) \<and> c_streamerId (cn w r) = sid
        \<longrightarrow> sanitizeStreamerId w sid excluded = sid)"
  (is "?fresh \<and> ?prefix \<and> ?own")
proof (intro conjI)
  show ?fresh using sanitizeStreamerId_fresh by blast
  show ?prefix unfolding sanitizeStreamerId_def by (rule sanitize_prefix)
  show ?own
  proof (intro impI)
    assume h: "sid \<noteq> [] \<and> excluded = Some r \<and> ids_ok w \<and> r \<in> set (w_streamers w) \<and> c_streamerId (cn w r) = sid"
    then have "sid \<notin> (\<lambda>r'. c_streamerId (cn w r')) ` {r' \<in> set (w_streamers w). Some r' \<noteq> excluded}"
      by (auto simp: ids_ok_def inj_on_def)
    with h show "sanitizeStreamerId w sid excluded = sid"
      by (auto simp: sanitizeStreamerId_def sanitize_def Let_def)
  qed
qed

lemma sanitizeStreamerId_example:
  "sanitize ''a'' None [''a'', ''a1'', ''b7'', ''ax'', ''a007''] = ''a8''"
  "sanitize ''a'' (Some ''a'') [''a1'', ''b''] = ''a''"
  "sanitize [] None [''UnknownStreamer''] = ''UnknownStreamer1''"
  by (simp_all add: sanitize_def Let_def numeric_suffix_def defaultStreamerIdPrefix_def is_digit_def
      read_nat_def digit_val_def max_safe_def show_nat.simps digit_char_def char_of_def bit_0)

end
