(* ===== verification/Player_Registry.thy ===== *)
theory Player_Registry
  imports Streamer_Registry
begin

text \<open>
  \<open>Signalling/src/PlayerRegistry.ts\<close>: the insertion-ordered map from player ids to connections, the
  counter that ids are made from, and the lookup that streamer messages go through, which knows a
  governed player only under the id of its current media generation.
\<close>

definition playerName :: "nat \<Rightarrow> string" where
  "playerName n = ''Player'' @ show_nat n"

definition player_get :: "world \<Rightarrow> string \<Rightarrow> ref option" where
  "player_get w pid = map_get (w_players w) pid"

definition listPlayers :: "world \<Rightarrow> ref list" where
  "listPlayers w = map snd (w_players w)"

definition set_playerId :: "ref \<Rightarrow> string \<Rightarrow> world \<Rightarrow> world" where
  "set_playerId r pid = upd r (\<lambda>c. c\<lparr>c_playerId := pid\<rparr>)"

definition player_add :: "ref \<Rightarrow> world \<Rightarrow> world" where
  "player_add r w =
     (let pid = playerName (w_nextPlayerId w);
          w = set_playerId r pid (w\<lparr>w_nextPlayerId := w_nextPlayerId w + 1\<rparr>);
          w = w\<lparr>w_players := map_set pid r (w_players w)\<rparr> in
      eff (Notified ''player.added'' [JStr pid]) w)"

definition player_remove :: "ref \<Rightarrow> world \<Rightarrow> world" where
  "player_remove r w =
     (let pid = c_playerId (cn w r) in
      if player_get w pid = None then w
      else
        let w = eff (Notified ''player.removed'' [JStr pid]) w in
        w\<lparr>w_players := map_delete pid (w_players w)\<rparr>)"

text \<open>The getter \<open>streamerPlayerId\<close>; a connection without a codec policy has its plain id.\<close>

definition streamerPlayerId :: "world \<Rightarrow> ref \<Rightarrow> string" where
  "streamerPlayerId w r =
     (if policy_on w r
      then c_playerId (cn w r) @ ''-codec-'' @ k_connectionId (kc w r) @ ''-'' @ show_nat (k_generation (kc w r))
      else c_playerId (cn w r))"

text \<open>\<open>s.split(sep)[0]\<close>: what comes before the first occurrence of the separator.\<close>

fun before :: "string \<Rightarrow> string \<Rightarrow> string" where
  "before sep [] = []"
| "before sep (c # s) = (if prefix sep (c # s) then [] else c # before sep s)"

definition getForStreamerMessage :: "world \<Rightarrow> string \<Rightarrow> ref option" where
  "getForStreamerMessage w spid =
     (case (case player_get w spid of Some r \<Rightarrow> Some r | None \<Rightarrow> player_get w (before ''-codec-'' spid)) of
        None \<Rightarrow> None
      | Some r \<Rightarrow> if streamerPlayerId w r = spid then Some r else None)"

section \<open>Invariant\<close>

text \<open>
  Every id in use was made from the counter, no two connections have the same one, and the map
  leads from an id to the connection that has it.
\<close>

definition players_ok :: "world \<Rightarrow> bool" where
  "players_ok w \<longleftrightarrow> map_inv (w_players w)
     \<and> (\<forall>pid r. player_get w pid = Some r \<longrightarrow> c_playerId (cn w r) = pid \<and> pid \<noteq> [])
     \<and> (\<forall>r. c_playerId (cn w r) \<noteq> [] \<longrightarrow> (\<exists>n < w_nextPlayerId w. c_playerId (cn w r) = playerName n))
     \<and> (\<forall>r r'. c_playerId (cn w r) \<noteq> [] \<and> c_playerId (cn w r) = c_playerId (cn w r') \<longrightarrow> r = r')"

lemma playerName_inject [simp]: "playerName m = playerName n \<longleftrightarrow> m = n"
  by (simp add: playerName_def)

lemma playerName_not_Nil [simp]: "playerName n \<noteq> []"
  by (simp add: playerName_def)

lemma playerName_no_dash: "CHR ''-'' \<notin> set (playerName n)"
proof -
  have "\<not> is_digit (CHR ''-'')" by (simp add: is_digit_def)
  then have "CHR ''-'' \<notin> set (show_nat n)" using show_nat_digits [of n] by (auto simp: list_all_iff)
  then show ?thesis by (simp add: playerName_def)
qed

lemma players_ok_routing: "routing w' = routing w \<Longrightarrow> players_ok w' = players_ok w"
  by (simp add: players_ok_def player_get_def routing_eqD [of w' w])

lemma players_okD:
  assumes "players_ok w" "player_get w pid = Some r"
  shows "c_playerId (cn w r) = pid" "pid \<noteq> []" "\<exists>n. pid = playerName n"
  using assms by (fastforce simp: players_ok_def)+

lemma players_ok_inj:
  "\<lbrakk>players_ok w; c_playerId (cn w r) = c_playerId (cn w r'); c_playerId (cn w r) \<noteq> []\<rbrakk> \<Longrightarrow> r = r'"
  by (auto simp: players_ok_def)

lemma mem_listPlayers:
  assumes ok: "players_ok w"
  shows "r \<in> set (listPlayers w) \<longleftrightarrow> player_get w (c_playerId (cn w r)) = Some r"
proof
  assume "r \<in> set (listPlayers w)"
  then obtain p where "(p, r) \<in> set (w_players w)" by (auto simp: listPlayers_def)
  with ok have "player_get w p = Some r" by (simp add: player_get_def players_ok_def map_get_iff_mem)
  with players_okD(1) [OF ok this] show "player_get w (c_playerId (cn w r)) = Some r" by simp
next
  assume "player_get w (c_playerId (cn w r)) = Some r"
  from map_get_mem [OF this [unfolded player_get_def]] show "r \<in> set (listPlayers w)"
    by (force simp: listPlayers_def)
qed

lemma before_dash: "\<lbrakk>CHR ''-'' \<notin> set p; sep \<noteq> []; hd sep = CHR ''-''\<rbrakk> \<Longrightarrow> before sep (p @ sep @ s) = p"
proof (induction p)
  case Nil
  then show ?case by (cases "sep @ s") (auto simp: prefix_def, metis append_Nil2)
next
  case (Cons c p)
  then show ?case by (cases sep) auto
qed

lemma player_add_ok:
  assumes "players_ok w" "c_playerId (cn w r) = []"
  shows "players_ok (player_add r w)"
proof -
  let ?pid = "playerName (w_nextPlayerId w)"
  have new: "\<forall>r'. c_playerId (cn w r') \<noteq> ?pid"
    using assms(1) unfolding players_ok_def by (metis nat_neq_iff playerName_inject playerName_not_Nil)
  have ids: "c_playerId (cn (player_add r w) r') = (if r' = r then ?pid else c_playerId (cn w r'))" for r'
    by (simp add: player_add_def set_playerId_def Let_def world_simps)
  have get: "player_get (player_add r w) p = (if p = ?pid then Some r else player_get w p)" for p
    by (simp add: player_add_def set_playerId_def Let_def world_simps player_get_def js_map_simps)
  have "map_inv (w_players (player_add r w))"
    using assms(1) by (simp add: player_add_def set_playerId_def Let_def world_simps players_ok_def jm.inv_put)
  moreover have "w_nextPlayerId (player_add r w) = w_nextPlayerId w + 1"
    by (simp add: player_add_def set_playerId_def Let_def world_simps)
  ultimately show ?thesis
    using assms new unfolding players_ok_def ids get
    by (auto split: if_splits)
qed

lemma player_remove_ok: "players_ok w \<Longrightarrow> players_ok (player_remove r w)"
  by (auto simp: players_ok_def player_remove_def Let_def world_simps player_get_def js_map_simps
      jm.inv_del split: if_splits)

lemma player_add_conns:
  "r' \<noteq> r \<Longrightarrow> cn (player_add r w) r' = cn w r'"
  "route (cn (player_add r w) r) = (route (cn w r))\<lparr>rt_playerId := playerName (w_nextPlayerId w)\<rparr>"
  "c_codec (cn (player_add r w) r) = c_codec (cn w r)" "c_session (cn (player_add r w) r) = c_session (cn w r)"
  "w_streamers (player_add r w) = w_streamers w" "w_next (player_add r w) = w_next w"
  "w_cfg (player_add r w) = w_cfg w"
  by (simp_all add: player_add_def set_playerId_def Let_def world_simps route_def)

lemma player_remove_frame [simp]:
  "w_conns (player_remove r w) = w_conns w" "w_streamers (player_remove r w) = w_streamers w"
  "w_next (player_remove r w) = w_next w" "w_cfg (player_remove r w) = w_cfg w"
  "w_nextPlayerId (player_remove r w) = w_nextPlayerId w"
  by (simp_all add: player_remove_def Let_def world_simps)

lemma getForStreamerMessage_lookup:
  assumes "players_ok w"
  shows "getForStreamerMessage w spid = Some r \<longleftrightarrow> r \<in> set (listPlayers w) \<and> streamerPlayerId w r = spid"
proof
  assume "getForStreamerMessage w spid = Some r"
  with assms show "r \<in> set (listPlayers w) \<and> streamerPlayerId w r = spid"
    by (auto simp: getForStreamerMessage_def mem_listPlayers players_okD split: option.splits if_splits)
next
  assume h: "r \<in> set (listPlayers w) \<and> streamerPlayerId w r = spid"
  let ?pid = "c_playerId (cn w r)"
  from h assms have reg: "player_get w ?pid = Some r" by (simp add: mem_listPlayers)
  then obtain n where n: "?pid = playerName n" using players_okD(3) [OF assms] by blast
  show "getForStreamerMessage w spid = Some r"
  proof (cases "policy_on w r")
    case False
    with h have "spid = ?pid" by (simp add: streamerPlayerId_def)
    with reg h show ?thesis by (simp add: getForStreamerMessage_def)
  next
    case True
    with h have spid: "spid = ?pid @ ''-codec-'' @ k_connectionId (kc w r) @ ''-'' @ show_nat (k_generation (kc w r))"
      by (simp add: streamerPlayerId_def)
    then have "CHR ''-'' \<in> set spid" by simp
    then have "player_get w spid = None"
      using players_okD(3) [OF assms] playerName_no_dash by (metis not_Some_eq)
    moreover have "before ''-codec-'' spid = ?pid"
      using before_dash [OF playerName_no_dash [of n], of "''-codec-''"] by (simp add: spid n)
    ultimately show ?thesis using reg h by (simp add: getForStreamerMessage_def)
  qed
qed

text \<open>
  A message from a streamer reaches a player only under the id that the streamer was last told:
  the lookup finds a connection exactly when it is registered and the id is its current one. A
  governed player is not found under its plain id, nor under an id of an earlier media generation
  or of another connection.
\<close>

theorem getForStreamerMessage_iff:
  assumes "players_ok w"
  shows "getForStreamerMessage w spid = Some r \<longleftrightarrow> r \<in> set (listPlayers w) \<and> streamerPlayerId w r = spid"
  by (rule getForStreamerMessage_lookup [OF assms])

definition empty_world :: "config \<Rightarrow> world" where
  "empty_world cfg = \<lparr>w_cfg = cfg, w_conns = (\<lambda>_. (new_conn StreamerConn [] [] 0)\<lparr>c_open := False\<rparr>),
     w_next = 0, w_streamers = [], w_players = [], w_nextPlayerId = 0, w_keepalive = [],
     w_ice = new_ice_monitor False 5000 256, w_out = [], w_tick = 0, w_now = 0\<rparr>"

lemma players_ok_empty: "players_ok (empty_world cfg)"
  by (simp add: players_ok_def empty_world_def player_get_def new_conn_def)

lemma ids_ok_empty: "ids_ok (empty_world cfg)"
  by (simp add: ids_ok_def empty_world_def)

theorem getForStreamerMessage_iff_witness:
  "getForStreamerMessage (player_add 0 (empty_world demo_config)) ''Player0'' = Some 0
   \<and> getForStreamerMessage (player_add 0 (empty_world demo_config)) ''Player1'' \<noteq> Some 0"
proof -
  let ?w = "player_add 0 (empty_world demo_config)"
  have ok: "players_ok ?w"
    by (rule player_add_ok) (simp_all add: players_ok_empty, simp add: empty_world_def new_conn_def)
  have "playerName 0 = ''Player0''"
    by (simp add: playerName_def show_nat.simps digit_char_def char_of_def bit_0)
  then have "streamerPlayerId ?w 0 = ''Player0'' \<and> 0 \<in> set (listPlayers ?w)"
    by (simp add: streamerPlayerId_def player_add_def policy_on_def listPlayers_def Let_def set_playerId_def
        world_simps empty_world_def new_conn_def new_codec_def)
  then show ?thesis using getForStreamerMessage_iff [OF ok] by simp
qed

end
