(* ===== verification/Routing.thy ===== *)
theory Routing
  imports Player_Registry
begin

text \<open>
  The abstract specification of the server's bookkeeping: who is registered under which id, who is
  subscribed to whom, and which listeners and subscriber sets record it. The abstract state is the
  routing view of the server; its steps are the few ways in which the code may change it. The
  theories of the connections show that every operation of theirs is a sequence of these steps, so
  the invariant proved here holds of the code.
\<close>

section \<open>Abstract operations\<close>

definition rupd :: "ref \<Rightarrow> (route \<Rightarrow> route) \<Rightarrow> routing \<Rightarrow> routing" where
  "rupd r f x = x\<lparr>ro_conns := (ro_conns x)(r := f (ro_conns x r))\<rparr>"

abbreviation rc :: "routing \<Rightarrow> ref \<Rightarrow> route" where
  "rc x r \<equiv> ro_conns x r"

definition events_of :: "conn_kind \<Rightarrow> streamer_event list" where
  "events_of k = (case k of SfuConn \<Rightarrow> [Layer_preference, Id_changed, Disconnected]
     | _ \<Rightarrow> [Id_changed, Disconnected])"

definition rattach :: "ref \<Rightarrow> ref \<Rightarrow> routing \<Rightarrow> routing" where
  "rattach r s x =
     (let x = rupd r (\<lambda>c. c\<lparr>rt_sub := Some s\<rparr>) x;
          x = rupd s (\<lambda>c. c\<lparr>rt_subscribers := set_add (rt_playerId (rc x r)) (rt_subscribers c)\<rparr>) x in
      rupd s (\<lambda>c. c\<lparr>rt_emitter := fold (\<lambda>e m. em_on e r m) (events_of (rt_kind (rc x r))) (rt_emitter c)\<rparr>) x)"

definition rdetach :: "ref \<Rightarrow> routing \<Rightarrow> routing" where
  "rdetach r x = (case rt_sub (rc x r) of
     None \<Rightarrow> x
   | Some s \<Rightarrow>
       let x = rupd s (\<lambda>c. c\<lparr>rt_subscribers := set_delete (rt_playerId (rc x r)) (rt_subscribers c)\<rparr>) x;
           x = rupd s (\<lambda>c. c\<lparr>rt_emitter := fold (\<lambda>e m. em_off e r m) (events_of (rt_kind (rc x r))) (rt_emitter c)\<rparr>) x in
       rupd r (\<lambda>c. c\<lparr>rt_sub := None\<rparr>) x)"

definition rconnect :: "conn_kind \<Rightarrow> int \<Rightarrow> string \<Rightarrow> routing \<Rightarrow> routing" where
  "rconnect k mx sid x = rupd (ro_next x) (\<lambda>_. \<lparr>rt_kind = k, rt_open = True, rt_streamerId = sid,
     rt_maxSubscribers = mx, rt_subscribers = [], rt_emitter = [], rt_playerId = [], rt_sub = None\<rparr>)
     (x\<lparr>ro_next := ro_next x + 1\<rparr>)"

definition rname :: "ref \<Rightarrow> string \<Rightarrow> routing \<Rightarrow> routing" where
  "rname r sid = rupd r (\<lambda>c. c\<lparr>rt_streamerId := sid\<rparr>)"

definition renlist :: "ref \<Rightarrow> routing \<Rightarrow> routing" where
  "renlist r x = x\<lparr>ro_streamers := ro_streamers x @ [r]\<rparr>"

definition rdelist :: "ref \<Rightarrow> routing \<Rightarrow> routing" where
  "rdelist r x = x\<lparr>ro_streamers := remove1 r (ro_streamers x)\<rparr>"

definition rjoin :: "ref \<Rightarrow> routing \<Rightarrow> routing" where
  "rjoin r x = (rupd r (\<lambda>c. c\<lparr>rt_playerId := playerName (ro_nextPlayerId x)\<rparr>) x)
     \<lparr>ro_players := map_set (playerName (ro_nextPlayerId x)) r (ro_players x),
      ro_nextPlayerId := ro_nextPlayerId x + 1\<rparr>"

definition rleave :: "ref \<Rightarrow> routing \<Rightarrow> routing" where
  "rleave r x = x\<lparr>ro_players := map_delete (rt_playerId (rc x r)) (ro_players x)\<rparr>"

definition rclose :: "ref \<Rightarrow> routing \<Rightarrow> routing" where
  "rclose r = rupd r (\<lambda>c. c\<lparr>rt_open := False\<rparr>)"

text \<open>A player may join a streamer only below its limit; an SFU is not counted.\<close>

definition has_room :: "ref \<Rightarrow> ref \<Rightarrow> routing \<Rightarrow> bool" where
  "has_room r s x \<longleftrightarrow> rt_kind (rc x r) = PlayerConn \<longrightarrow> 0 < rt_maxSubscribers (rc x s)
     \<longrightarrow> int (length (rt_subscribers (rc x s))) < rt_maxSubscribers (rc x s)"

inductive rstep :: "routing \<Rightarrow> routing \<Rightarrow> bool" where
  connect: "rstep x (rconnect k mx sid x)"
| name: "\<lbrakk>rt_open (rc x r); sid \<noteq> [];
    \<forall>s \<in> set (ro_streamers x). s \<noteq> r \<longrightarrow> rt_streamerId (rc x s) \<noteq> sid\<rbrakk> \<Longrightarrow> rstep x (rname r sid x)"
| enlist: "\<lbrakk>rt_open (rc x r); rt_kind (rc x r) \<noteq> PlayerConn; rt_streamerId (rc x r) \<noteq> [];
    \<forall>s \<in> set (ro_streamers x). s \<noteq> r \<and> rt_streamerId (rc x s) \<noteq> rt_streamerId (rc x r)\<rbrakk>
    \<Longrightarrow> rstep x (renlist r x)"
| delist: "rstep x (rdelist r x)"
| join: "\<lbrakk>rt_open (rc x r); rt_kind (rc x r) \<noteq> StreamerConn; rt_playerId (rc x r) = [];
    rt_sub (rc x r) = None\<rbrakk> \<Longrightarrow> rstep x (rjoin r x)"
| leave: "map_get (ro_players x) (rt_playerId (rc x r)) = Some r \<Longrightarrow> rstep x (rleave r x)"
| attach: "\<lbrakk>rt_open (rc x r); rt_kind (rc x r) \<noteq> StreamerConn; rt_sub (rc x r) = None;
    s \<in> set (ro_streamers x); has_room r s x\<rbrakk> \<Longrightarrow> rstep x (rattach r s x)"
| detach: "rstep x (rdetach r x)"
| close: "\<lbrakk>rt_sub (rc x r) = None; \<forall>r'. rt_sub (rc x r') \<noteq> Some r; r \<notin> set (ro_streamers x);
    r \<notin> set (map snd (ro_players x))\<rbrakk> \<Longrightarrow> rstep x (rclose r x)"

section \<open>Invariant\<close>

definition links_ok :: "routing \<Rightarrow> bool" where
  "links_ok x \<longleftrightarrow> (\<forall>r s. rt_sub (rc x r) = Some s \<longrightarrow>
     rt_open (rc x r) \<and> rt_open (rc x s) \<and> rt_kind (rc x r) \<noteq> StreamerConn \<and> rt_kind (rc x s) \<noteq> PlayerConn)"

definition listeners_ok :: "routing \<Rightarrow> bool" where
  "listeners_ok x \<longleftrightarrow> (\<forall>s e. distinct (em_listeners (rt_emitter (rc x s)) e)
     \<and> (\<forall>r. r \<in> set (em_listeners (rt_emitter (rc x s)) e) \<longleftrightarrow>
          rt_sub (rc x r) = Some s \<and> e \<in> set (events_of (rt_kind (rc x r)))))"

definition subscribers_ok :: "routing \<Rightarrow> bool" where
  "subscribers_ok x \<longleftrightarrow> (\<forall>s. distinct (rt_subscribers (rc x s))
     \<and> (\<forall>p \<in> set (rt_subscribers (rc x s)). p \<noteq> [] \<longrightarrow> (\<exists>r. rt_playerId (rc x r) = p))
     \<and> (\<forall>r. rt_playerId (rc x r) \<noteq> [] \<longrightarrow>
          (rt_playerId (rc x r) \<in> set (rt_subscribers (rc x s)) \<longleftrightarrow> rt_sub (rc x r) = Some s)))"

definition streamers_ok :: "routing \<Rightarrow> bool" where
  "streamers_ok x \<longleftrightarrow> distinct (ro_streamers x)
     \<and> (\<forall>r \<in> set (ro_streamers x). rt_open (rc x r) \<and> rt_kind (rc x r) \<noteq> PlayerConn
          \<and> rt_streamerId (rc x r) \<noteq> []
          \<and> (\<forall>s \<in> set (ro_streamers x). rt_streamerId (rc x r) = rt_streamerId (rc x s) \<longrightarrow> r = s))"

definition members_ok :: "routing \<Rightarrow> bool" where
  "members_ok x \<longleftrightarrow> map_inv (ro_players x)
     \<and> (\<forall>p r. map_get (ro_players x) p = Some r \<longrightarrow> rt_playerId (rc x r) = p \<and> p \<noteq> []
          \<and> rt_open (rc x r) \<and> rt_kind (rc x r) \<noteq> StreamerConn)
     \<and> (\<forall>r. rt_playerId (rc x r) \<noteq> [] \<longrightarrow> (\<exists>n < ro_nextPlayerId x. rt_playerId (rc x r) = playerName n))
     \<and> (\<forall>r r'. rt_playerId (rc x r) \<noteq> [] \<and> rt_playerId (rc x r) = rt_playerId (rc x r') \<longrightarrow> r = r')"

definition fresh_ok :: "routing \<Rightarrow> bool" where
  "fresh_ok x \<longleftrightarrow> (\<forall>r \<ge> ro_next x. \<not> rt_open (rc x r) \<and> rt_playerId (rc x r) = [])"

definition rok :: "routing \<Rightarrow> bool" where
  "rok x \<longleftrightarrow> links_ok x \<and> listeners_ok x \<and> subscribers_ok x \<and> streamers_ok x \<and> members_ok x \<and> fresh_ok x"

named_theorems rop_simps

lemma rc_rupd [rop_simps]: "rc (rupd r f x) r' = (if r' = r then f (rc x r) else rc x r')"
  by (simp add: rupd_def)

lemma rupd_frame [rop_simps]:
  "ro_next (rupd r f x) = ro_next x" "ro_streamers (rupd r f x) = ro_streamers x"
  "ro_players (rupd r f x) = ro_players x" "ro_nextPlayerId (rupd r f x) = ro_nextPlayerId x"
  "ro_cfg (rupd r f x) = ro_cfg x"
  by (simp_all add: rupd_def)

text \<open>What an attachment and a detachment change, field by field.\<close>

lemma listeners_fold_on:
  "distinct es \<Longrightarrow> em_listeners (fold (\<lambda>e m. em_on e r m) es m) e
     = (if e \<in> set es then em_listeners m e @ [r] else em_listeners m e)"
  by (induction es arbitrary: m) (auto simp: em.listeners_on)

lemma listeners_fold_off:
  "distinct es \<Longrightarrow> em_listeners (fold (\<lambda>e m. em_off e r m) es m) e
     = (if e \<in> set es then remove1 r (em_listeners m e) else em_listeners m e)"
  by (induction es arbitrary: m) (auto simp: em.listeners_off)

lemma distinct_events_of [simp]: "distinct (events_of k)"
  by (cases k) (simp_all add: events_of_def)

lemma rattach_fields [rop_simps]:
  "rt_kind (rc (rattach r s x) r') = rt_kind (rc x r')"
  "rt_open (rc (rattach r s x) r') = rt_open (rc x r')"
  "rt_streamerId (rc (rattach r s x) r') = rt_streamerId (rc x r')"
  "rt_maxSubscribers (rc (rattach r s x) r') = rt_maxSubscribers (rc x r')"
  "rt_playerId (rc (rattach r s x) r') = rt_playerId (rc x r')"
  "rt_sub (rc (rattach r s x) r') = (if r' = r then Some s else rt_sub (rc x r'))"
  "rt_subscribers (rc (rattach r s x) s') =
     (if s' = s then set_add (rt_playerId (rc x r)) (rt_subscribers (rc x s)) else rt_subscribers (rc x s'))"
  "em_listeners (rt_emitter (rc (rattach r s x) s')) e =
     (if s' = s \<and> e \<in> set (events_of (rt_kind (rc x r))) then em_listeners (rt_emitter (rc x s)) e @ [r]
      else em_listeners (rt_emitter (rc x s')) e)"
  "ro_next (rattach r s x) = ro_next x" "ro_streamers (rattach r s x) = ro_streamers x"
  "ro_players (rattach r s x) = ro_players x" "ro_nextPlayerId (rattach r s x) = ro_nextPlayerId x"
  "ro_cfg (rattach r s x) = ro_cfg x"
  by (auto simp: rattach_def Let_def rop_simps listeners_fold_on)

lemma rdetach_None [simp]: "rt_sub (rc x r) = None \<Longrightarrow> rdetach r x = x"
  by (simp add: rdetach_def)

lemma rdetach_fields [rop_simps]:
  "rt_kind (rc (rdetach r x) r') = rt_kind (rc x r')"
  "rt_open (rc (rdetach r x) r') = rt_open (rc x r')"
  "rt_streamerId (rc (rdetach r x) r') = rt_streamerId (rc x r')"
  "rt_maxSubscribers (rc (rdetach r x) r') = rt_maxSubscribers (rc x r')"
  "rt_playerId (rc (rdetach r x) r') = rt_playerId (rc x r')"
  "rt_sub (rc (rdetach r x) r') = (if r' = r then None else rt_sub (rc x r'))"
  "rt_subscribers (rc (rdetach r x) s') =
     (if rt_sub (rc x r) = Some s' then set_delete (rt_playerId (rc x r)) (rt_subscribers (rc x s'))
      else rt_subscribers (rc x s'))"
  "em_listeners (rt_emitter (rc (rdetach r x) s')) e =
     (if rt_sub (rc x r) = Some s' \<and> e \<in> set (events_of (rt_kind (rc x r)))
      then remove1 r (em_listeners (rt_emitter (rc x s')) e)
      else em_listeners (rt_emitter (rc x s')) e)"
  "ro_next (rdetach r x) = ro_next x" "ro_streamers (rdetach r x) = ro_streamers x"
  "ro_players (rdetach r x) = ro_players x" "ro_nextPlayerId (rdetach r x) = ro_nextPlayerId x"
  "ro_cfg (rdetach r x) = ro_cfg x"
  by (auto simp: rdetach_def Let_def rop_simps listeners_fold_off split: option.split)

section \<open>The steps keep the invariant\<close>

lemma rok_links: "\<lbrakk>rok x; rt_sub (rc x r) = Some s\<rbrakk> \<Longrightarrow>
    rt_open (rc x r) \<and> rt_open (rc x s) \<and> rt_kind (rc x r) \<noteq> StreamerConn \<and> rt_kind (rc x s) \<noteq> PlayerConn"
  by (auto simp: rok_def links_ok_def)

lemma rok_attach:
  assumes ok: "rok x" and g: "rt_open (rc x r)" "rt_kind (rc x r) \<noteq> StreamerConn"
    "rt_sub (rc x r) = None" "s \<in> set (ro_streamers x)"
  shows "rok (rattach r s x)"
proof -
  have nl: "r \<notin> set (em_listeners (rt_emitter (rc x s')) e)" for s' e
    using ok g(3) by (auto simp: rok_def listeners_ok_def)
  have "links_ok (rattach r s x)"
    using ok g by (auto simp: rok_def links_ok_def streamers_ok_def rop_simps)
  moreover have "listeners_ok (rattach r s x)"
    using ok g(3) nl unfolding listeners_ok_def rok_def by (auto simp: rop_simps)
  moreover have "subscribers_ok (rattach r s x)"
    using ok g(3) unfolding subscribers_ok_def rok_def members_ok_def by (auto simp: rop_simps)
  moreover have "streamers_ok (rattach r s x)" "members_ok (rattach r s x)" "fresh_ok (rattach r s x)"
    using ok by (auto simp: rok_def streamers_ok_def members_ok_def fresh_ok_def rop_simps)
  ultimately show ?thesis by (simp add: rok_def)
qed

lemma rok_detach:
  assumes ok: "rok x"
  shows "rok (rdetach r x)"
proof (cases "rt_sub (rc x r)")
  case None
  with ok show ?thesis by simp
next
  case (Some s)
  have dl: "distinct (em_listeners (rt_emitter (rc x s')) e)" for s' e
    using ok by (auto simp: rok_def listeners_ok_def)
  have "links_ok (rdetach r x)"
    using ok by (auto simp: rok_def links_ok_def rop_simps)
  moreover have "listeners_ok (rdetach r x)"
    using ok Some dl unfolding listeners_ok_def rok_def by (auto simp: rop_simps)
  moreover have "subscribers_ok (rdetach r x)"
    using ok Some unfolding subscribers_ok_def rok_def members_ok_def by (auto simp: rop_simps)
  moreover have "streamers_ok (rdetach r x)" "members_ok (rdetach r x)" "fresh_ok (rdetach r x)"
    using ok by (auto simp: rok_def streamers_ok_def members_ok_def fresh_ok_def rop_simps)
  ultimately show ?thesis by (simp add: rok_def)
qed

lemma rok_connect:
  assumes ok: "rok x"
  shows "rok (rconnect k mx sid x)"
proof -
  let ?n = "ro_next x"
  have closed: "\<not> rt_open (rc x ?n)" "rt_playerId (rc x ?n) = []"
    using ok by (auto simp: rok_def fresh_ok_def)
  have ns: "rt_sub (rc x r) \<noteq> Some ?n" "rt_sub (rc x ?n) = None" for r
    using rok_links [OF ok, of r ?n] rok_links [OF ok, of ?n] closed by (auto intro: option.exhaust)
  have "links_ok (rconnect k mx sid x)"
    using ok ns by (auto simp: rok_def links_ok_def rconnect_def rop_simps)
  moreover have "listeners_ok (rconnect k mx sid x)"
    using ok ns by (auto simp: rok_def listeners_ok_def rconnect_def rop_simps)
  moreover have "subscribers_ok (rconnect k mx sid x)"
    using ok ns closed unfolding rok_def subscribers_ok_def rconnect_def by (auto simp: rop_simps) metis
  moreover have "streamers_ok (rconnect k mx sid x)"
  proof -
    have "?n \<notin> set (ro_streamers x)" using ok closed by (auto simp: rok_def streamers_ok_def)
    with ok show ?thesis by (auto simp: rok_def streamers_ok_def rconnect_def rop_simps)
  qed
  moreover have "members_ok (rconnect k mx sid x)"
  proof -
    have "map_get (ro_players x) p \<noteq> Some ?n" for p using ok closed by (auto simp: rok_def members_ok_def)
    with ok show ?thesis by (auto simp: rok_def members_ok_def rconnect_def rop_simps)
  qed
  moreover have "fresh_ok (rconnect k mx sid x)"
    using ok by (auto simp: rok_def fresh_ok_def rconnect_def rop_simps)
  ultimately show ?thesis by (simp add: rok_def)
qed

lemma rname_fields [rop_simps]:
  "rt_kind (rc (rname r sid x) r') = rt_kind (rc x r')" "rt_open (rc (rname r sid x) r') = rt_open (rc x r')"
  "rt_maxSubscribers (rc (rname r sid x) r') = rt_maxSubscribers (rc x r')"
  "rt_subscribers (rc (rname r sid x) r') = rt_subscribers (rc x r')"
  "rt_emitter (rc (rname r sid x) r') = rt_emitter (rc x r')"
  "rt_playerId (rc (rname r sid x) r') = rt_playerId (rc x r')" "rt_sub (rc (rname r sid x) r') = rt_sub (rc x r')"
  "rt_streamerId (rc (rname r sid x) r') = (if r' = r then sid else rt_streamerId (rc x r'))"
  "ro_next (rname r sid x) = ro_next x" "ro_streamers (rname r sid x) = ro_streamers x"
  "ro_players (rname r sid x) = ro_players x" "ro_nextPlayerId (rname r sid x) = ro_nextPlayerId x"
  by (simp_all add: rname_def rc_rupd rupd_frame)

lemma rclose_fields [rop_simps]:
  "rt_kind (rc (rclose r x) r') = rt_kind (rc x r')"
  "rt_open (rc (rclose r x) r') = (r' \<noteq> r \<and> rt_open (rc x r'))"
  "rt_maxSubscribers (rc (rclose r x) r') = rt_maxSubscribers (rc x r')"
  "rt_subscribers (rc (rclose r x) r') = rt_subscribers (rc x r')"
  "rt_emitter (rc (rclose r x) r') = rt_emitter (rc x r')"
  "rt_playerId (rc (rclose r x) r') = rt_playerId (rc x r')" "rt_sub (rc (rclose r x) r') = rt_sub (rc x r')"
  "rt_streamerId (rc (rclose r x) r') = rt_streamerId (rc x r')"
  "ro_next (rclose r x) = ro_next x" "ro_streamers (rclose r x) = ro_streamers x"
  "ro_players (rclose r x) = ro_players x" "ro_nextPlayerId (rclose r x) = ro_nextPlayerId x"
  by (simp_all add: rclose_def rc_rupd rupd_frame)

lemma rok_name:
  assumes "rok x" "sid \<noteq> []"
    "\<forall>s \<in> set (ro_streamers x). s \<noteq> r \<longrightarrow> rt_streamerId (rc x s) \<noteq> sid"
  shows "rok (rname r sid x)"
proof -
  have "links_ok (rname r sid x) = links_ok x" "listeners_ok (rname r sid x) = listeners_ok x"
    "subscribers_ok (rname r sid x) = subscribers_ok x" "members_ok (rname r sid x) = members_ok x"
    "fresh_ok (rname r sid x) = fresh_ok x"
    by (simp_all add: links_ok_def listeners_ok_def subscribers_ok_def members_ok_def fresh_ok_def rop_simps)
  moreover have "streamers_ok (rname r sid x)"
    using assms unfolding rok_def streamers_ok_def by (simp add: rop_simps) metis
  ultimately show ?thesis using assms(1) by (simp add: rok_def)
qed

lemma rok_enlist:
  assumes "rok x" "rt_open (rc x r)" "rt_kind (rc x r) \<noteq> PlayerConn" "rt_streamerId (rc x r) \<noteq> []"
    "\<forall>s \<in> set (ro_streamers x). s \<noteq> r \<and> rt_streamerId (rc x s) \<noteq> rt_streamerId (rc x r)"
  shows "rok (renlist r x)"
  using assms unfolding rok_def
  by (auto simp: links_ok_def listeners_ok_def subscribers_ok_def streamers_ok_def members_ok_def
      fresh_ok_def renlist_def rop_simps)

lemma rok_delist: "rok x \<Longrightarrow> rok (rdelist r x)"
  unfolding rok_def
  by (auto simp: links_ok_def listeners_ok_def subscribers_ok_def streamers_ok_def members_ok_def
      fresh_ok_def rdelist_def dest: notin_set_remove1)

lemma rok_leave: "rok x \<Longrightarrow> rok (rleave r x)"
  unfolding rok_def
  by (auto simp: links_ok_def listeners_ok_def subscribers_ok_def streamers_ok_def members_ok_def
      fresh_ok_def rleave_def js_map_simps jm.inv_del split: if_splits)

lemma rok_close:
  assumes "rok x" "rt_sub (rc x r) = None" "\<forall>r'. rt_sub (rc x r') \<noteq> Some r"
    "r \<notin> set (ro_streamers x)" "r \<notin> set (map snd (ro_players x))"
  shows "rok (rclose r x)"
proof -
  have "map_get (ro_players x) p \<noteq> Some r" for p
    using assms(5) map_get_mem [of "ro_players x" p r] by force
  then have "members_ok (rclose r x)" using assms(1) by (auto simp: rok_def members_ok_def rop_simps)
  moreover have "listeners_ok (rclose r x) = listeners_ok x" "subscribers_ok (rclose r x) = subscribers_ok x"
    by (simp_all add: listeners_ok_def subscribers_ok_def rop_simps)
  moreover have "links_ok (rclose r x)"
    using rok_links [OF assms(1)] assms(2,3) unfolding links_ok_def by (simp add: rop_simps) (metis option.distinct(1))
  moreover have "streamers_ok (rclose r x)" "fresh_ok (rclose r x)"
    using assms(1,4) by (auto simp: rok_def streamers_ok_def fresh_ok_def rop_simps)
  ultimately show ?thesis using assms(1) by (simp add: rok_def)
qed

lemma rok_join:
  assumes ok: "rok x" and g: "rt_open (rc x r)" "rt_kind (rc x r) \<noteq> StreamerConn"
    "rt_playerId (rc x r) = []" "rt_sub (rc x r) = None"
  shows "rok (rjoin r x)"
proof -
  let ?pid = "playerName (ro_nextPlayerId x)"
  have new: "\<forall>r'. rt_playerId (rc x r') \<noteq> ?pid"
    using ok unfolding rok_def members_ok_def by (metis nat_neq_iff playerName_inject playerName_not_Nil)
  have conns: "rc (rjoin r x) r' = (if r' = r then (rc x r)\<lparr>rt_playerId := ?pid\<rparr> else rc x r')" for r'
    by (simp add: rjoin_def rop_simps rupd_def)
  have fr: "ro_next (rjoin r x) = ro_next x" "ro_streamers (rjoin r x) = ro_streamers x"
    "ro_players (rjoin r x) = map_set ?pid r (ro_players x)"
    "ro_nextPlayerId (rjoin r x) = ro_nextPlayerId x + 1"
    by (simp_all add: rjoin_def rop_simps)
  have nosub: "?pid \<notin> set (rt_subscribers (rc x s))" for s
    using ok new unfolding rok_def subscribers_ok_def by (metis playerName_not_Nil)
  have "links_ok (rjoin r x)" "listeners_ok (rjoin r x)"
    using ok by (auto simp: rok_def links_ok_def listeners_ok_def conns)
  moreover have "subscribers_ok (rjoin r x)"
  proof -
    have "\<exists>r'. r' \<noteq> r \<and> rt_playerId (rc x r') = p" if "p \<in> set (rt_subscribers (rc x s))" "p \<noteq> []" for s p
      using ok g(3) that unfolding rok_def subscribers_ok_def by metis
    moreover have "?pid \<in> set (rt_subscribers (rc x s)) \<longleftrightarrow> rt_sub (rc x r) = Some s" for s
      using nosub g(4) by simp
    ultimately show ?thesis
      using ok unfolding rok_def subscribers_ok_def conns by (auto split: if_splits)
  qed
  moreover have "streamers_ok (rjoin r x)"
  proof -
    have "rt_open (rc (rjoin r x) r') = rt_open (rc x r')" "rt_kind (rc (rjoin r x) r') = rt_kind (rc x r')"
      "rt_streamerId (rc (rjoin r x) r') = rt_streamerId (rc x r')" for r'
      by (simp_all add: conns)
    with ok show ?thesis by (simp add: rok_def streamers_ok_def fr)
  qed
  moreover have "fresh_ok (rjoin r x)"
    using ok g(1) by (auto simp: rok_def fresh_ok_def conns fr)
  moreover have "members_ok (rjoin r x)"
  proof -
    have "map_inv (ro_players (rjoin r x))" using ok by (simp add: fr rok_def members_ok_def jm.inv_put)
    moreover have "map_get (ro_players x) p \<noteq> Some r" for p
      using ok g(3) by (auto simp: rok_def members_ok_def)
    ultimately show ?thesis
      using ok g new unfolding rok_def members_ok_def conns fr(3,4)
      by (auto simp: js_map_simps split: if_splits)
  qed
  ultimately show ?thesis by (simp add: rok_def)
qed

lemma rstep_rok: "\<lbrakk>rstep x y; rok x\<rbrakk> \<Longrightarrow> rok y"
  by (induction rule: rstep.induct)
    (simp_all add: rok_connect rok_name rok_enlist rok_delist rok_join rok_leave rok_attach rok_detach rok_close)

lemma rsteps_rok: "\<lbrakk>rstep\<^sup>*\<^sup>* x y; rok x\<rbrakk> \<Longrightarrow> rok y"
  by (induction rule: rtranclp_induct) (auto intro: rstep_rok)

section \<open>The subscriber limit\<close>

definition joined :: "routing \<Rightarrow> ref \<Rightarrow> ref set" where
  "joined x s = {r. rt_sub (rc x r) = Some s \<and> rt_kind (rc x r) = PlayerConn \<and> rt_playerId (rc x r) \<noteq> []}"

definition limit_ok :: "routing \<Rightarrow> bool" where
  "limit_ok x \<longleftrightarrow> (\<forall>s. 0 < rt_maxSubscribers (rc x s) \<longrightarrow> int (card (joined x s)) \<le> rt_maxSubscribers (rc x s))"

lemma joined_card:
  assumes "rok x"
  shows "finite (joined x s)" "card (joined x s) \<le> length (rt_subscribers (rc x s))"
proof -
  have inj: "inj_on (\<lambda>r. rt_playerId (rc x r)) (joined x s)"
    using assms unfolding rok_def members_ok_def joined_def inj_on_def by blast
  have sub: "(\<lambda>r. rt_playerId (rc x r)) ` joined x s \<subseteq> set (rt_subscribers (rc x s))"
    using assms unfolding rok_def subscribers_ok_def joined_def by auto
  from finite_subset [OF sub] inj show "finite (joined x s)" by (metis List.finite_set finite_imageD)
  have "card (joined x s) \<le> card (set (rt_subscribers (rc x s)))"
    by (rule card_inj_on_le [OF inj sub]) simp
  then show "card (joined x s) \<le> length (rt_subscribers (rc x s))" using card_length le_trans by blast
qed

lemma limit_ok_mono:
  assumes "limit_ok x" "rok x" "\<And>s. joined y s \<subseteq> joined x s"
    "\<And>s. rt_maxSubscribers (rc y s) = rt_maxSubscribers (rc x s)"
  shows "limit_ok y"
proof -
  have "card (joined y s) \<le> card (joined x s)" for s
    by (rule card_mono [OF joined_card(1) [OF assms(2)] assms(3)])
  with assms(1,4) show ?thesis unfolding limit_ok_def by (metis of_nat_mono order_trans)
qed

lemma rstep_limit:
  assumes "rstep x y" "rok x" "limit_ok x"
  shows "limit_ok y"
  using assms
proof (induction rule: rstep.induct)
  case (connect x k mx sid)
  let ?n = "ro_next x"
  have "rt_sub (rc x r) \<noteq> Some ?n" "rt_playerId (rc x ?n) = []" for r
    using connect(1) rok_links [OF connect(1), of r ?n] by (auto simp: rok_def fresh_ok_def)
  then have j: "joined (rconnect k mx sid x) s = (if s = ?n then {} else joined x s)" for s
    by (auto simp: joined_def rconnect_def rop_simps)
  show ?case
    using connect(2) by (auto simp: limit_ok_def j) (auto simp: rconnect_def rop_simps)
next
  case (attach x r s)
  show ?case
    unfolding limit_ok_def
  proof (intro allI impI)
    fix s' assume mx: "0 < rt_maxSubscribers (rc (rattach r s x) s')"
    have same: "joined (rattach r s x) s' = joined x s'" if "s' \<noteq> s \<or> rt_kind (rc x r) \<noteq> PlayerConn"
      using that attach(3) by (auto simp: joined_def rop_simps)
    show "int (card (joined (rattach r s x) s')) \<le> rt_maxSubscribers (rc (rattach r s x) s')"
    proof (cases "s' = s \<and> rt_kind (rc x r) = PlayerConn")
      case False
      with attach(7) mx same show ?thesis by (auto simp: limit_ok_def rop_simps)
    next
      case True
      have "joined (rattach r s x) s \<subseteq> insert r (joined x s)" by (auto simp: joined_def rop_simps)
      then have "card (joined (rattach r s x) s) \<le> card (insert r (joined x s))"
        by (rule card_mono [rotated]) (simp add: joined_card [OF attach(6)])
      also have "\<dots> \<le> Suc (length (rt_subscribers (rc x s)))"
        using joined_card [OF attach(6), of s] card_insert_le_m1 [of "Suc (card (joined x s))"]
        by (metis card_insert_if Suc_le_mono le_SucI)
      finally show ?thesis using attach(5) mx True by (simp add: has_room_def rop_simps)
    qed
  qed
next
  case (join x r)
  then show ?case
    by (intro limit_ok_mono [OF join(6,5)]) (auto simp: joined_def rjoin_def rupd_def)
qed (erule (1) limit_ok_mono, auto simp: joined_def rop_simps renlist_def rdelist_def rleave_def)+

lemma rsteps_limit: "\<lbrakk>rstep\<^sup>*\<^sup>* x y; rok x; limit_ok x\<rbrakk> \<Longrightarrow> limit_ok y"
  by (induction rule: rtranclp_induct) (auto intro: rstep_limit rsteps_rok)

section \<open>The initial state\<close>

lemma rok_empty: "rok (routing (empty_world cfg))" "limit_ok (routing (empty_world cfg))"
  by (simp_all add: rok_def links_ok_def listeners_ok_def subscribers_ok_def streamers_ok_def members_ok_def
      fresh_ok_def limit_ok_def joined_def routing_def route_def empty_world_def new_conn_def)

text \<open>What the invariant says of a state of the server.\<close>

lemma rc_routing [simp]: "rc (routing w) r = route (cn w r)"
  by (simp add: routing_def)

lemma route_fields [simp]:
  "rt_kind (route c) = c_kind c" "rt_open (route c) = c_open c" "rt_streamerId (route c) = c_streamerId c"
  "rt_maxSubscribers (route c) = c_maxSubscribers c" "rt_subscribers (route c) = c_subscribers c"
  "rt_emitter (route c) = c_emitter c" "rt_playerId (route c) = c_playerId c" "rt_sub (route c) = c_sub c"
  by (simp_all add: route_def)

lemma routing_fields [simp]:
  "ro_next (routing w) = w_next w" "ro_streamers (routing w) = w_streamers w"
  "ro_players (routing w) = w_players w" "ro_nextPlayerId (routing w) = w_nextPlayerId w"
  "ro_cfg (routing w) = w_cfg w"
  by (simp_all add: routing_def)

lemma rok_players: "rok (routing w) \<Longrightarrow> players_ok w"
  unfolding rok_def members_ok_def players_ok_def player_get_def rc_routing route_fields routing_fields
  by blast

lemma rok_ids: "rok (routing w) \<Longrightarrow> ids_ok w"
  by (auto simp: rok_def streamers_ok_def ids_ok_def inj_on_def)

lemma rok_subscribed:
  assumes "rok (routing w)" "c_playerId (cn w r) \<noteq> []"
  shows "c_playerId (cn w r) \<in> set (c_subscribers (cn w s)) \<longleftrightarrow> c_sub (cn w r) = Some s"
  using assms by (auto simp: rok_def subscribers_ok_def)

end
