(* ===== verification/Player_Connection.thy ===== *)
theory Player_Connection
  imports Routing
begin

text \<open>
  \<open>Signalling/src/PlayerConnection.ts\<close>: a player's connection, its subscription to a streamer and
  the codec governance of its negotiation. Every method is a function on the server's state; a
  method that returns a value returns it beside the state; a \<open>throw\<close> caught in the method is a
  branch. \<open>randomUUID\<close> and the time of an evidence record are not modelled. The timer's callback is
  \<open>negotiationTimeout\<close>, which acts only while the timer is pending.
\<close>

section \<open>Codec state\<close>

definition negotiationPending :: "world \<Rightarrow> ref \<Rightarrow> bool" where
  "negotiationPending w r \<longleftrightarrow> policy_on w r \<and> \<not> k_negotiated (kc w r)"

definition clearNegotiationTimer :: "ref \<Rightarrow> world \<Rightarrow> world" where
  "clearNegotiationTimer r = upd_codec r (\<lambda>k. k\<lparr>k_timer := False\<rparr>)"

definition startNegotiationTimer :: "ref \<Rightarrow> world \<Rightarrow> world" where
  "startNegotiationTimer r w =
     (if \<not> policy_on w r \<or> k_failed (kc w r) \<or> k_timer (kc w r) then w
      else upd_codec r (\<lambda>k. k\<lparr>k_timer := True\<rparr>) w)"

definition same_policy_hash :: "world \<Rightarrow> ref \<Rightarrow> ref \<Rightarrow> bool" where
  "same_policy_hash w p r \<longleftrightarrow> (case (k_policy (kc w p), k_policy (kc w r)) of
     (None, None) \<Rightarrow> True
   | (Some a, Some b) \<Rightarrow> strict_eq (cp_policyHash a) (cp_policyHash b)
   | _ \<Rightarrow> False)"

definition shadowSource :: "world \<Rightarrow> ref \<Rightarrow> ref option" where
  "shadowSource w r = find (\<lambda>p. c_kind (cn w p) = PlayerConn \<and> p \<noteq> r
     \<and> s_identityValidated (sc w p) \<and> s_requestId (sc w p) = k_shadow (kc w r)
     \<and> same_policy_hash w p r \<and> k_negotiated (kc w p) \<and> c_sub (cn w p) \<noteq> None) (listPlayers w)"

text \<open>\<open>recordCodec\<close>: \<open>False\<close> stands for a throw; \<open>extra\<close> overrides fields of the record.\<close>

definition evidence_of :: "world \<Rightarrow> ref \<Rightarrow> string \<Rightarrow> string \<Rightarrow> codec_policy \<Rightarrow> evidence" where
  "evidence_of w r requestId eventType p =
     \<lparr>ev_sessionRequestId = requestId, ev_connectionId = k_connectionId (kc w r),
      ev_sequence = k_sequence (kc w r) + 1, ev_mediaGeneration = k_generation (kc w r),
      ev_eventType = eventType, ev_codec = k_selected (kc w r), ev_source = ''signalling'',
      ev_policyHash = cp_policyHash p, ev_reason = None, ev_framesDecoded = None, ev_bytesReceived = None\<rparr>"

definition recordCodec :: "ref \<Rightarrow> string \<Rightarrow> (evidence \<Rightarrow> evidence) \<Rightarrow> world \<Rightarrow> bool \<times> world" where
  "recordCodec r eventType extra w =
     (case (k_policy (kc w r), first_some (k_shadow (kc w r)) (s_requestId (sc w r))) of
        (Some p, Some requestId) \<Rightarrow>
          if requestId = [] then (True, w)
          else (case g_recorder (w_cfg w) of
            None \<Rightarrow> (False, w)
          | Some rec \<Rightarrow>
              let e = extra (evidence_of w r requestId eventType p) in
              if rec (w_tick w) e
              then (True, upd_codec r (\<lambda>k. k\<lparr>k_sequence := k_sequence k + 1\<rparr>) (eff (Recorded r e) w))
              else (False, w))
      | _ \<Rightarrow> (True, w))"

fun codec_val :: "codec option \<Rightarrow> jsval" where
  "codec_val None = JUndef"
| "codec_val (Some c) = JStr (codec_name c)"

definition sendCodecState :: "ref \<Rightarrow> string \<Rightarrow> string option \<Rightarrow> world \<Rightarrow> world" where
  "sendCodecState r status reason w =
     (if \<not> policy_on w r then w
      else protoSend r (mk_msg ''scaleWorldCodecState''
        [(''connectionId'', JStr (k_connectionId (kc w r))),
         (''mediaGeneration'', num_of_int (int (k_generation (kc w r)))),
         (''selectedCodec'', codec_val (k_selected (kc w r))),
         (''availableCodecs'', JArr [codec_val (k_selected (kc w r))]),
         (''allowSwitching'', JBool False), (''status'', JStr status), (''reason'', opt_str reason)]) w)"

section \<open>Subscription\<close>

text \<open>The end of \<open>sendToStreamer\<close>, which control messages reach directly (see below).\<close>

definition forwardToStreamer :: "ref \<Rightarrow> jsval \<Rightarrow> world \<Rightarrow> world" where
  "forwardToStreamer r m w = (case c_sub (cn w r) of
     None \<Rightarrow> w
   | Some s \<Rightarrow> protoSend s (put_fld ''playerId'' (JStr (streamerPlayerId w r)) m) w)"

definition unsubscribe :: "ref \<Rightarrow> world \<Rightarrow> world" where
  "unsubscribe r w =
     (let w = (if c_sub (cn w r) \<noteq> None \<and> s_identityValidated (sc w r) \<and> k_shadow (kc w r) = None
               then eff (Negotiation ''streamer_negotiation_abandoned'' (c_sub (cn w r))
                      (s_requestId (sc w r)) (Some (c_playerId (cn w r)))) w
               else w);
          w = upd_codec r (\<lambda>k. k\<lparr>k_offer := None, k_offerFromStreamer := None, k_negotiated := False\<rparr>) w in
      case c_sub (cn w r) of
        None \<Rightarrow> w
      | Some s \<Rightarrow>
          let w = upd s (\<lambda>c. c\<lparr>c_subscribers := set_delete (c_playerId (cn w r)) (c_subscribers c)\<rparr>) w;
              w = forwardToStreamer r (mk_msg ''playerDisconnected'' [(''playerId'', JStr (c_playerId (cn w r)))]) w;
              w = upd s (\<lambda>c. c\<lparr>c_emitter := em_off Disconnected r (em_off Id_changed r (c_emitter c))\<rparr>) w in
          upd r (\<lambda>c. c\<lparr>c_sub := None\<rparr>) w)"

definition playerDisconnect :: "ref \<Rightarrow> world \<Rightarrow> world" where
  "playerDisconnect r w = protoDisconnect r None (clearNegotiationTimer r (unsubscribe r w))"

definition failCodecNegotiation :: "ref \<Rightarrow> string \<Rightarrow> world \<Rightarrow> world" where
  "failCodecNegotiation r reason w =
     (let w = clearNegotiationTimer r (upd_codec r (\<lambda>k. k\<lparr>k_failed := True\<rparr>) w);
          (ok, w) = recordCodec r ''switch_failed'' (\<lambda>e. e\<lparr>ev_reason := Some reason\<rparr>) w;
          reason = (if ok then reason else ''Codec evidence unavailable; media paused'');
          w = unsubscribe r w;
          w = sendCodecState r ''failed'' (Some reason) w in
      protoDisconnect r (Some (1001, Some ''Stream negotiation failed'')) w)"

text \<open>
  Does a registered player already subscribed to the streamer make this one impossible? H264
  sessions take one viewer.
\<close>

definition h264_conflict :: "ref \<Rightarrow> ref \<Rightarrow> world \<Rightarrow> bool" where
  "h264_conflict r s w = list_ex (\<lambda>p. c_kind (cn w p) = PlayerConn \<and> p \<noteq> r \<and> c_sub (cn w p) = Some s
     \<and> (k_selected (kc w r) = Some H264 \<or> k_selected (kc w p) = Some H264)) (listPlayers w)"

definition restart_generation :: "ref \<Rightarrow> world \<Rightarrow> world" where
  "restart_generation r w =
     (if \<not> policy_on w r then w
      else
        let w = (if \<not> k_hasSubscribed (kc w r) then w
                 else sendCodecState r ''restarting'' None
                   (upd_codec r (\<lambda>k. k\<lparr>k_generation := k_generation k + 1, k_offer := None,
                      k_offerFromStreamer := None, k_negotiated := False, k_lastFrames := 0,
                      k_lastBytes := 0, k_observed := None\<rparr>) w)) in
        upd_codec r (\<lambda>k. k\<lparr>k_hasSubscribed := True\<rparr>) w)"

definition attach_player :: "ref \<Rightarrow> ref \<Rightarrow> world \<Rightarrow> world" where
  "attach_player r s w =
     (let w = upd r (\<lambda>c. c\<lparr>c_sub := Some s\<rparr>) w;
          w = upd_codec r (\<lambda>k. k\<lparr>k_descriptionReceived := False\<rparr>) w;
          w = startNegotiationTimer r w;
          w = upd s (\<lambda>c. c\<lparr>c_subscribers := set_add (c_playerId (cn w r)) (c_subscribers c)\<rparr>) w;
          w = upd s (\<lambda>c. c\<lparr>c_emitter := em_on Disconnected r (em_on Id_changed r (c_emitter c))\<rparr>) w;
          w = forwardToStreamer r (mk_msg ''playerConnected''
                [(''playerId'', JStr (c_playerId (cn w r))), (''dataChannel'', JBool True), (''sfu'', JBool False)]) w in
      if policy_on w r \<and> s_identityValidated (sc w r) \<and> k_shadow (kc w r) = None
      then eff (Negotiation ''streamer_negotiation_started'' (Some s) (s_requestId (sc w r))
             (Some (c_playerId (cn w r)))) w
      else w)"

definition subscribe :: "ref \<Rightarrow> jsval \<Rightarrow> world \<Rightarrow> world" where
  "subscribe r v w =
     (if k_failed (kc w r) then w
      else
        let w = upd_codec r (\<lambda>k. k\<lparr>k_finalized := True\<rparr>) w in
        case v of
          JStr sid \<Rightarrow>
            (if k_shadow (kc w r) \<noteq> None
                \<and> Option.bind (shadowSource w r) (\<lambda>p. c_sub (cn w p)) \<noteq> registry_find w sid
             then playerDisconnect r w
             else case registry_find w sid of
               None \<Rightarrow> protoSend r (mk_msg ''subscribeFailed''
                 [(''message'', JStr (''Streamer '' @ sid @ '' does not exist.''))]) w
             | Some s \<Rightarrow>
                 if policy_on w r \<and> c_kind (cn w s) \<noteq> StreamerConn
                 then sendCodecState r ''failed'' (Some ''Codec policy requires a direct streamer connection'') w
                 else if policy_on w r \<and> h264_conflict r s w
                 then failCodecNegotiation r
                   ''H264 sessions support one viewer. Close the existing player before reconnecting.'' w
                 else
                   let w = (if c_sub (cn w r) \<noteq> None then unsubscribe r w else w) in
                   if 0 < c_maxSubscribers (cn w s)
                      \<and> c_maxSubscribers (cn w s) \<le> int (length (c_subscribers (cn w s)))
                   then protoSend r (mk_msg ''subscribeFailed''
                     [(''message'', JStr (''Streamer '' @ sid @ '' is full. Max players = ''
                        @ show_nat (nat (c_maxSubscribers (cn w s))) @ ''.''))]) w
                   else attach_player r s (restart_generation r w))
        | _ \<Rightarrow> playerDisconnect r w)"

section \<open>Filtering descriptions\<close>

text \<open>
  \<open>filterCodecMessage\<close>: \<open>Some m'\<close> is the value \<open>true\<close>, with the message as it was rewritten. The
  answers of the SDP functions are the errors that the source lists as known reasons; any other
  exception is evidence that could not be recorded.
\<close>

definition negotiation_failed :: "ref \<Rightarrow> string \<Rightarrow> string \<Rightarrow> world \<Rightarrow> jsval option \<times> world" where
  "negotiation_failed r t detail w =
     (None, failCodecNegotiation r (''Codec negotiation failed ('' @ t @ ''): '' @ detail) w)"

fun text_of :: "jsval \<Rightarrow> string" where
  "text_of (JStr s) = s"
| "text_of _ = []"

definition svc_or_sfu :: "jsval \<Rightarrow> bool" where
  "svc_or_sfu m \<longleftrightarrow> truthy (fld m ''sfu'')
     \<or> (truthy (fld m ''scalabilityMode'') \<and> fld m ''scalabilityMode'' \<noteq> JStr ''L1T1'')"

definition restrict_selected :: "jsval \<Rightarrow> codec option \<Rightarrow> string + string" where
  "restrict_selected v sel = (case sel of
     None \<Rightarrow> Inl ''The streamer cannot negotiate undefined''
   | Some c \<Rightarrow> (case restrictVideoSdp v c of
       Inl e \<Rightarrow> Inl (sdp_error_text e)
     | Inr (sdp, available) \<Rightarrow> Inr sdp))"

definition accept_offer :: "ref \<Rightarrow> string \<Rightarrow> bool \<Rightarrow> world \<Rightarrow> world" where
  "accept_offer r sdp fromStreamer w =
     sendCodecState r ''negotiating'' None (startNegotiationTimer r
       (upd_codec r (\<lambda>k. k\<lparr>k_offer := Some sdp, k_offerFromStreamer := Some fromStreamer,
          k_negotiated := False\<rparr>) w))"

definition accept_answer :: "ref \<Rightarrow> world \<Rightarrow> world" where
  "accept_answer r w =
     eff (Notified ''negotiated'' [JStr (c_playerId (cn w r))]) (clearNegotiationTimer r
       (upd_codec r (\<lambda>k. k\<lparr>k_offer := None, k_offerFromStreamer := None, k_negotiated := True\<rparr>) w))"

definition note_response :: "ref \<Rightarrow> bool \<Rightarrow> world \<Rightarrow> world" where
  "note_response r fromStreamer w =
     (if fromStreamer
      then eff (Negotiation ''streamer_negotiation_response'' (c_sub (cn w r)) (s_requestId (sc w r)) None)
             (upd_codec r (\<lambda>k. k\<lparr>k_descriptionReceived := True\<rparr>) w)
      else w)"

definition filterAnswer :: "ref \<Rightarrow> jsval \<Rightarrow> string \<Rightarrow> bool \<Rightarrow> world \<Rightarrow> jsval option \<times> world" where
  "filterAnswer r m sdp fromStreamer w =
     (let failed = negotiation_failed r (text_of (mtype m)) in
      if k_offerFromStreamer (kc w r) = Some fromStreamer
      then failed ''Answer must come from the opposite peer'' w
      else case validateCodecAnswer (k_offer (kc w r)) (text_of (fld m ''sdp'')) of
        Some e \<Rightarrow> failed (sdp_error_text e) w
      | None \<Rightarrow>
          (case recordCodec r ''negotiated'' id w of
             (False, w) \<Rightarrow> failed ''Validation or evidence persistence failed'' w
           | (True, w) \<Rightarrow>
               let w = accept_answer r w in
               (if c_sub (cn w r) = None then None else Some (put_fld ''sdp'' (JStr sdp) m), w)))"

definition filterDescription :: "ref \<Rightarrow> jsval \<Rightarrow> bool \<Rightarrow> world \<Rightarrow> jsval option \<times> world" where
  "filterDescription r m fromStreamer w =
     (let failed = negotiation_failed r (text_of (mtype m)) in
      if svc_or_sfu m then failed ''Governed codecs require a direct non-SVC stream'' w
      else case restrict_selected (fld m ''sdp'') (k_selected (kc w r)) of
        Inl e \<Rightarrow> failed e w
      | Inr sdp \<Rightarrow>
          let w = note_response r fromStreamer w in
          if mtype m = JStr ''offer''
          then (Some (put_fld ''sdp'' (JStr sdp) m), accept_offer r sdp fromStreamer w)
          else filterAnswer r m sdp fromStreamer w)"

definition filterCodecMessage :: "ref \<Rightarrow> jsval \<Rightarrow> bool \<Rightarrow> world \<Rightarrow> jsval option \<times> world" where
  "filterCodecMessage r m fromStreamer w =
     (if \<not> policy_on w r \<or> (mtype m \<noteq> JStr ''offer'' \<and> mtype m \<noteq> JStr ''answer'') then (Some m, w)
      else if k_failed (kc w r) then (None, w)
      else if k_shadow (kc w r) \<noteq> None
        \<and> (case shadowSource w r of None \<Rightarrow> True | Some p \<Rightarrow> k_selected (kc w p) \<noteq> k_selected (kc w r))
      then (None, playerDisconnect r w)
      else filterDescription r m fromStreamer (upd_codec r (\<lambda>k. k\<lparr>k_finalized := True\<rparr>) w))"

definition playerSendMessage :: "ref \<Rightarrow> jsval \<Rightarrow> world \<Rightarrow> world" where
  "playerSendMessage r m w = (case filterCodecMessage r m True w of
     (None, w) \<Rightarrow> w
   | (Some m, w) \<Rightarrow> protoSend r m w)"

definition is_media :: "jsval \<Rightarrow> bool" where
  "is_media m \<longleftrightarrow> mtype m \<in> {JStr ''answer'', JStr ''offer'', JStr ''iceCandidate''}"

definition force_subscription :: "ref \<Rightarrow> jsval \<Rightarrow> world \<Rightarrow> world" where
  "force_subscription r m w =
     (if c_sub (cn w r) \<noteq> None then forwardToStreamer r m w
      else case getFirstStreamerId w of
        None \<Rightarrow> playerDisconnect r w
      | Some sid \<Rightarrow>
          if sid = [] then playerDisconnect r w
          else
            let w = subscribe r (JStr sid) w in
            if c_sub (cn w r) = None then playerDisconnect r w else forwardToStreamer r m w)"

definition sendToStreamer :: "ref \<Rightarrow> jsval \<Rightarrow> world \<Rightarrow> world" where
  "sendToStreamer r m w =
     (if policy_on w r \<and> is_media m
         \<and> fld m ''mediaGeneration'' \<noteq> num_of_int (int (k_generation (kc w r)))
      then w
      else if policy_on w r \<and> c_sub (cn w r) = None \<and> is_media m
         \<and> (mtype m \<noteq> JStr ''offer'' \<or> k_hasSubscribed (kc w r))
      then w
      else case filterCodecMessage r m False w of
        (None, w) \<Rightarrow> w
      | (Some m, w) \<Rightarrow> force_subscription r m w)"

text \<open>
  The two control messages of \<open>subscribe\<close> and \<open>unsubscribe\<close> go through \<open>sendToStreamer\<close> in the
  source; with a subscription in place, that is the final forwarding alone.
\<close>

lemma sendToStreamer_control:
  assumes "c_sub (cn w r) = Some s" "t \<notin> {''offer'', ''answer'', ''iceCandidate''}"
  shows "sendToStreamer r (mk_msg t fs) w = forwardToStreamer r (mk_msg t fs) w"
  using assms by (simp add: sendToStreamer_def is_media_def filterCodecMessage_def force_subscription_def)

section \<open>Codec messages\<close>

definition is_capability_list :: "jsval \<Rightarrow> bool" where
  "is_capability_list v = (case v of
     JNull \<Rightarrow> True
   | JArr xs \<Rightarrow> length xs \<le> 4 \<and> list_all (\<lambda>x. codec_of_val x \<noteq> None) xs
   | _ \<Rightarrow> False)"

fun supports :: "jsval \<Rightarrow> codec \<Rightarrow> bool" where
  "supports (JArr xs) c = (JStr (codec_name c) \<in> set xs)"
| "supports _ c = False"

definition choose_codec :: "codec_policy \<Rightarrow> bool \<Rightarrow> codec \<Rightarrow> jsval \<Rightarrow> codec option" where
  "choose_codec p shadow preferred supported =
     (if supported = JNull then Some preferred
      else find (\<lambda>c. c \<in> set (cp_allowedCodecs p) \<and> supports supported c)
             (if shadow then [preferred] else [preferred, VP9, H264]))"

definition selection_reason :: "jsval \<Rightarrow> codec \<Rightarrow> codec \<Rightarrow> string" where
  "selection_reason supported preferred selected =
     (if supported = JNull
      then ''Client decoding capabilities unavailable; preferred '' @ codec_name preferred
      else if selected = preferred then ''Client advertises preferred '' @ codec_name preferred
      else ''Client does not advertise preferred '' @ codec_name preferred @ ''; fallback to ''
        @ codec_name selected)"

definition set_failed :: "ref \<Rightarrow> world \<Rightarrow> world" where
  "set_failed r = upd_codec r (\<lambda>k. k\<lparr>k_failed := True\<rparr>)"

definition handleCapabilities :: "ref \<Rightarrow> jsval \<Rightarrow> codec_policy \<Rightarrow> world \<Rightarrow> world" where
  "handleCapabilities r supported p w =
     (if k_finalized (kc w r) \<or> k_hasSubscribed (kc w r) \<or> k_offer (kc w r) \<notin> {None, Some []} then w
      else if \<not> is_capability_list supported then w
      else
        let w = upd_codec r (\<lambda>k. k\<lparr>k_finalized := True\<rparr>) w;
            preferred = (case (k_shadow (kc w r), k_selected (kc w r)) of
              (Some _, Some c) \<Rightarrow> c | _ \<Rightarrow> cp_defaultCodec p) in
        case choose_codec p (k_shadow (kc w r) \<noteq> None) preferred supported of
          None \<Rightarrow> failCodecNegotiation r
            (''Client reports no policy-permitted codec; preferred '' @ codec_name preferred) (set_failed r w)
        | Some selected \<Rightarrow>
            (case recordCodec r ''codec_selected'' (\<lambda>e. e\<lparr>ev_codec := Some selected,
                 ev_reason := Some (selection_reason supported preferred selected)\<rparr>) w of
               (True, w) \<Rightarrow> sendCodecState r ''negotiating'' None
                 (upd_codec r (\<lambda>k. k\<lparr>k_selected := Some selected\<rparr>) w)
             | (False, w) \<Rightarrow> failCodecNegotiation r ''Codec selection evidence unavailable'' (set_failed r w)))"

definition handleObservation :: "ref \<Rightarrow> jsval \<Rightarrow> world \<Rightarrow> world" where
  "handleObservation r m w =
     (case (safe_int (fld m ''framesDecoded''), safe_int (fld m ''bytesReceived''), codec_of_val (fld m ''codec'')) of
        (Some frames, Some bytes, Some codec) \<Rightarrow>
          if fld m ''mediaGeneration'' \<noteq> num_of_int (int (k_generation (kc w r)))
             \<or> c_sub (cn w r) = None \<or> \<not> k_negotiated (kc w r)
             \<or> frames \<le> k_lastFrames (kc w r) \<or> bytes \<le> k_lastBytes (kc w r)
             \<or> 1000000000000 < frames \<or> 1000000000000000 < bytes
          then w
          else if k_observed (kc w r) = Some codec then w
          else
            (case recordCodec r ''observed'' (\<lambda>e. e\<lparr>ev_source := ''browser'', ev_codec := Some codec,
                 ev_framesDecoded := Some frames, ev_bytesReceived := Some bytes\<rparr>) w of
               (False, w) \<Rightarrow> failCodecNegotiation r ''Codec evidence unavailable'' w
             | (True, w) \<Rightarrow>
                 let w = upd_codec r (\<lambda>k. k\<lparr>k_lastFrames := frames, k_lastBytes := bytes,
                           k_observed := Some codec\<rparr>) w in
                 if k_selected (kc w r) \<noteq> Some codec
                 then failCodecNegotiation r ''Observed codec differs from negotiated policy'' w
                 else sendCodecState r ''streaming'' None w)
      | _ \<Rightarrow> w)"

definition handleCodecMessage :: "ref \<Rightarrow> jsval \<Rightarrow> world \<Rightarrow> bool \<times> world" where
  "handleCodecMessage r m w =
     (if mtype m \<noteq> JStr ''scaleWorldCodecSwitch'' \<and> mtype m \<noteq> JStr ''scaleWorldCodecObservation''
         \<and> mtype m \<noteq> JStr ''scaleWorldCodecCapabilities''
      then (False, w)
      else (True, case k_policy (kc w r) of
        None \<Rightarrow> w
      | Some p \<Rightarrow>
          if mtype m = JStr ''scaleWorldCodecCapabilities''
          then handleCapabilities r (fld m ''supportedCodecs'') p w
          else if mtype m = JStr ''scaleWorldCodecSwitch''
          then sendCodecState r ''rejected'' (Some ''The codec is selected by session policy'') w
          else handleObservation r m w))"

section \<open>Media evidence and quality\<close>

fun finiteNumber :: "jsval \<Rightarrow> jsval" where
  "finiteNumber (JNum (Fin q)) = JNum (Fin q)"
| "finiteNumber _ = JUndef"

definition only_if :: "jsval \<Rightarrow> jsval \<Rightarrow> jsval" where
  "only_if expected v = (if v = expected then v else JUndef)"

definition media_metadata :: "jsval \<Rightarrow> jsval" where
  "media_metadata m = JObj
     [(''telemetryVersion'', finiteNumber (fld m ''telemetryVersion'')),
      (''proofType'', only_if (JStr ''video_frame_callback'') (fld m ''proofType'')),
      (''mediaPresentationGuardVersion'', only_if (num_of_int 2) (fld m ''mediaPresentationGuardVersion'')),
      (''videoWidth'', finiteNumber (fld m ''videoWidth'')),
      (''videoHeight'', finiteNumber (fld m ''videoHeight'')),
      (''mediaTimeSeconds'', finiteNumber (fld m ''mediaTimeSeconds'')),
      (''presentedFrames'', finiteNumber (fld m ''presentedFrames''))]"

definition minimumConfirmedVideoBytes :: int where
  "minimumConfirmedVideoBytes = 256000"

text \<open>The notification of a media-flow observation; \<open>None\<close> when the message is invalid.\<close>

definition flow_observation :: "jsval \<Rightarrow> jsval option" where
  "flow_observation m =
     (case (counter (fld m ''observationWindowMs'') 60000,
            counter (fld m ''videoBytesReceivedDelta'') 1000000000000,
            counter (fld m ''videoPacketsReceivedDelta'') 1000000000,
            counter (fld m ''videoFramesDecodedDelta'') 1000000000) of
        (Some window, Some bytes, Some packets, Some frames) \<Rightarrow>
          if fld m ''proofType'' \<noteq> JStr ''webrtc_stats_window'' \<or> window < 5000 then None
          else
            let first = (fld m ''firstFramePresented'' = JBool True);
                confirmed = (first \<and> minimumConfirmedVideoBytes \<le> bytes \<and> 0 < packets \<and> 0 < frames) in
            Some (JObj
              [(''telemetryVersion'', finiteNumber (fld m ''telemetryVersion'')),
               (''proofType'', fld m ''proofType''),
               (''mediaPresentationGuardVersion'', only_if (num_of_int 2) (fld m ''mediaPresentationGuardVersion'')),
               (''observationWindowMs'', num_of_int window),
               (''videoBytesReceivedDelta'', num_of_int bytes),
               (''videoPacketsReceivedDelta'', num_of_int packets),
               (''videoFramesDecodedDelta'', num_of_int frames),
               (''firstFramePresented'', JBool first),
               (''flowStatus'', JStr (if confirmed then ''confirmed'' else ''not_confirmed''))])
      | _ \<Rightarrow> None)"

definition has_identity :: "world \<Rightarrow> ref \<Rightarrow> bool" where
  "has_identity w r \<longleftrightarrow> s_identityValidated (sc w r) \<and> s_requestId (sc w r) \<notin> {None, Some []}
     \<and> c_playerId (cn w r) \<noteq> []"

definition handleMediaEvidence :: "ref \<Rightarrow> jsval \<Rightarrow> world \<Rightarrow> bool \<times> world" where
  "handleMediaEvidence r m w =
     (let capability = (mtype m = JStr ''scaleWorldMediaEvidenceCapability'');
          received = (mtype m = JStr ''scaleWorldMediaReceived'');
          flow = (mtype m = JStr ''scaleWorldMediaFlowObserved'');
          pid = JStr (c_playerId (cn w r)) in
      if \<not> capability \<and> \<not> received \<and> \<not> flow then (False, w)
      else (True,
        if \<not> has_identity w r then w
        else if flow then
          (case flow_observation m of
             None \<Rightarrow> w
           | Some obs \<Rightarrow>
               if s_flowReported (sc w r) then w
               else eff (Notified ''scaleWorldMediaFlowObserved'' [pid, obs])
                 (upd_session r (\<lambda>s. s\<lparr>s_flowReported := True\<rparr>) w))
        else if capability then
          (if s_capabilityReported (sc w r) then w
           else eff (Notified ''scaleWorldMediaEvidenceCapable'' [pid, media_metadata m])
             (upd_session r (\<lambda>s. s\<lparr>s_capabilityReported := True\<rparr>) w))
        else if s_mediaReported (sc w r) then w
        else eff (Notified ''scaleWorldMediaReceived'' [pid, media_metadata m])
          (upd_session r (\<lambda>s. s\<lparr>s_mediaReported := True\<rparr>) w)))"

definition handleQuality :: "ref \<Rightarrow> jsval \<Rightarrow> world \<Rightarrow> world" where
  "handleQuality r m w =
     (if \<not> has_identity w r then w
      else case accept_quality (s_quality (sc w r)) m (w_now w) of
        (q, None) \<Rightarrow> upd_session r (\<lambda>s. s\<lparr>s_quality := q\<rparr>) w
      | (q, Some summary) \<Rightarrow> eff (Quality (c_playerId (cn w r)) summary)
          (upd_session r (\<lambda>s. s\<lparr>s_quality := q\<rparr>) w))"

definition onUnhandled :: "ref \<Rightarrow> jsval \<Rightarrow> world \<Rightarrow> world" where
  "onUnhandled r m w =
     (if mtype m = JStr ''scaleWorldSessionQuality'' then handleQuality r m w
      else case handleCodecMessage r m w of
        (True, w) \<Rightarrow> w
      | (False, w) \<Rightarrow> snd (handleMediaEvidence r m w))"

section \<open>Handlers\<close>

definition onListStreamers :: "ref \<Rightarrow> world \<Rightarrow> world" where
  "onListStreamers r w = playerSendMessage r (mk_msg ''streamerList''
     [(''ids'', JArr (map (\<lambda>s. JStr (c_streamerId (cn w s))) (filter (\<lambda>s. c_streaming (cn w s)) (w_streamers w))))]) w"

definition pong_of :: "jsval \<Rightarrow> jsval" where
  "pong_of m = mk_msg ''pong'' [(''time'', if fld m ''time'' = JUndef then num_of_int 0 else fld m ''time'')]"

definition onStreamerIdChanged :: "ref \<Rightarrow> string \<Rightarrow> world \<Rightarrow> world" where
  "onStreamerIdChanged r newId = playerSendMessage r (mk_msg ''streamerIdChanged'' [(''newID'', JStr newId)])"

definition onPlayerIceCandidate :: "ref \<Rightarrow> jsval \<Rightarrow> world \<Rightarrow> world" where
  "onPlayerIceCandidate r m w = sendToStreamer r m
     (w\<lparr>w_ice := recordPlayerCandidate (c_playerId (cn w r)) (s_sessionId (sc w r)) (s_requestId (sc w r))
        (map_option (\<lambda>s. c_streamerId (cn w s)) (c_sub (cn w r))) m (w_now w) (w_ice w)\<rparr>)"

definition playerMessage :: "ref \<Rightarrow> jsval \<Rightarrow> world \<Rightarrow> world" where
  "playerMessage r m w =
     (if mtype m = JStr ''subscribe'' then subscribe r (fld m ''streamerId'') w
      else if mtype m = JStr ''unsubscribe'' then unsubscribe r w
      else if mtype m = JStr ''listStreamers'' then onListStreamers r w
      else if mtype m = JStr ''ping'' then playerSendMessage r (pong_of m) w
      else if mtype m = JStr ''iceCandidate'' then onPlayerIceCandidate r m w
      else if mtype m \<in> {JStr ''offer'', JStr ''answer'', JStr ''dataChannelRequest'',
                JStr ''peerDataChannelsReady'', JStr ''layerPreference''}
      then sendToStreamer r m w
      else onUnhandled r m w)"

text \<open>The callback of the negotiation timer.\<close>

definition negotiationTimeout :: "ref \<Rightarrow> world \<Rightarrow> world" where
  "negotiationTimeout r w =
     (if \<not> k_timer (kc w r) then w
      else
        let w = upd_codec r (\<lambda>k. k\<lparr>k_timer := False\<rparr>) w in
        if k_negotiated (kc w r) then w
        else
          let w = (if c_sub (cn w r) \<noteq> None \<and> \<not> k_descriptionReceived (kc w r)
                      \<and> s_identityValidated (sc w r) \<and> k_shadow (kc w r) = None
                   then eff (Negotiation ''streamer_negotiation_timeout'' (c_sub (cn w r)) None None) w
                   else w) in
          failCodecNegotiation r ''Stream negotiation timed out'' w)"

definition playerTransportClose :: "ref \<Rightarrow> world \<Rightarrow> world" where
  "playerTransportClose r w =
     (let w = snd (recordCodec r ''connection_closed'' id w);
          w = w\<lparr>w_ice := flushPlayer (c_playerId (cn w r)) ''player_disconnected'' (w_ice w)\<rparr> in
      playerDisconnect r w)"

definition closeOrphanedShadow :: "ref \<Rightarrow> world \<Rightarrow> world" where
  "closeOrphanedShadow r w =
     (if k_shadow (kc w r) \<noteq> None \<and> shadowSource w r = None then playerDisconnect r w else w)"

section \<open>Admission\<close>

definition refuse_shadow :: "ref \<Rightarrow> string \<Rightarrow> world \<Rightarrow> bool \<times> world" where
  "refuse_shadow r reason w = (False, upd_codec r (\<lambda>k. k\<lparr>k_admissionFailure := Some reason\<rparr>) w)"

definition open_evidence :: "ref \<Rightarrow> world \<Rightarrow> bool \<times> world" where
  "open_evidence r w =
     (case recordCodec r ''connection_opened'' (\<lambda>e. if k_shadow (kc w r) = None then e
          else e\<lparr>ev_reason := Some ''Admin shadow viewer; existing session codec''\<rparr>) w of
        (False, w) \<Rightarrow> (False, w)
      | (True, w) \<Rightarrow> (True, startNegotiationTimer r w))"

definition initializeCodecPolicy ::
  "ref \<Rightarrow> codec_policy option \<Rightarrow> string option \<Rightarrow> bool \<Rightarrow> world \<Rightarrow> bool \<times> world" where
  "initializeCodecPolicy r policy shadow journalReady w =
     (case policy of
        None \<Rightarrow> (False, w)
      | Some p \<Rightarrow>
          if \<not> journalReady then (False, w)
          else
            let w = upd_codec r (\<lambda>k. k\<lparr>k_policy := Some p, k_shadow := shadow,
                      k_selected := Some (cp_defaultCodec p)\<rparr>) w in
            if shadow = None then open_evidence r w
            else case shadowSource w r of
              None \<Rightarrow> refuse_shadow r
                ''Shadow connect requires an active owner with negotiated video and matching policy'' w
            | Some src \<Rightarrow>
                (case k_selected (kc w src) of
                   None \<Rightarrow> refuse_shadow r ''Shadow connect policy does not permit the owner codec'' w
                 | Some c \<Rightarrow>
                     if c \<notin> set (cp_allowedCodecs p)
                     then refuse_shadow r ''Shadow connect policy does not permit the owner codec'' w
                     else if c = H264
                     then refuse_shadow r ''Shadow connect is unavailable for H264 sessions'' w
                     else open_evidence r (upd_codec r (\<lambda>k. k\<lparr>k_selected := Some c\<rparr>) w)))"

end
