(* ===== verification/Player_Routing.thy ===== *)
theory Player_Routing
  imports Player_Connection
begin

text \<open>
  The player connection refines the routing specification: every method of a player is, on the
  routing view, a sequence of detachments and admissible attachments of that player alone.
\<close>

inductive pstep :: "ref \<Rightarrow> routing \<Rightarrow> routing \<Rightarrow> bool" for r where
  detach: "pstep r x (rdetach r x)"
| attach: "\<lbrakk>rt_sub (rc x r) = None; s \<in> set (ro_streamers x); has_room r s x\<rbrakk> \<Longrightarrow> pstep r x (rattach r s x)"

definition mv :: "ref \<Rightarrow> world \<Rightarrow> world \<Rightarrow> bool" where
  "mv r w w' \<longleftrightarrow> c_kind (cn w r) = PlayerConn \<longrightarrow> (pstep r)\<^sup>*\<^sup>* (routing w) (routing w')"

text \<open>What such a sequence leaves alone, and that it is one of the specification.\<close>

lemma psteps_static:
  assumes "(pstep r)\<^sup>*\<^sup>* x y"
  shows "rt_kind (rc y r') = rt_kind (rc x r')" "rt_open (rc y r') = rt_open (rc x r')"
    "rt_streamerId (rc y r') = rt_streamerId (rc x r')" "rt_playerId (rc y r') = rt_playerId (rc x r')"
    "rt_maxSubscribers (rc y r') = rt_maxSubscribers (rc x r')"
    "ro_next y = ro_next x" "ro_streamers y = ro_streamers x" "ro_players y = ro_players x"
    "ro_nextPlayerId y = ro_nextPlayerId x" "ro_cfg y = ro_cfg x"
    "r' \<noteq> r \<Longrightarrow> rt_sub (rc y r') = rt_sub (rc x r')"
  using assms by (induction rule: rtranclp_induct) (auto elim!: pstep.cases simp: rop_simps)

lemma psteps_rsteps:
  assumes "(pstep r)\<^sup>*\<^sup>* x y" "rt_open (rc x r)" "rt_kind (rc x r) \<noteq> StreamerConn"
  shows "rstep\<^sup>*\<^sup>* x y"
  using assms(1)
proof (induction rule: rtranclp_induct)
  case (step y z)
  note st = psteps_static [OF step(1)]
  from step(2) have "rstep y z"
    by cases (use assms(2,3) st in \<open>auto intro: rstep.intros\<close>)
  with step(3) show ?case by simp
qed simp

lemma mv_refl [simp, intro]: "mv r w w"
  by (simp add: mv_def)

lemma mv_routing: "routing w' = routing w \<Longrightarrow> mv r w0 w' = mv r w0 w"
  by (simp add: mv_def)

lemma mv_routing_left: "routing w' = routing w \<Longrightarrow> mv r w' w0 = mv r w w0"
  by (simp add: mv_def routing_eqD(6) [of w' w])

lemma mv_same: "routing w' = routing w \<Longrightarrow> mv r w w'"
  by (simp add: mv_def)

lemma mv_step:
  assumes "mv r w w'" "c_kind (cn w' r) = PlayerConn \<Longrightarrow> pstep r (routing w') (routing w'')"
  shows "mv r w w''"
  using assms psteps_static(1) [of r "routing w" "routing w'" r] unfolding mv_def
  by (auto intro: rtranclp.rtrancl_into_rtrancl)

lemma mv_trans:
  assumes "mv r w w'" "mv r w' w''"
  shows "mv r w w''"
  using assms psteps_static(1) [of r "routing w" "routing w'" r] unfolding mv_def by auto

lemma mv_static:
  assumes "mv r w w'" "c_kind (cn w r) = PlayerConn"
  shows "c_kind (cn w' r') = c_kind (cn w r')" "c_open (cn w' r') = c_open (cn w r')"
    "c_streamerId (cn w' r') = c_streamerId (cn w r')" "c_playerId (cn w' r') = c_playerId (cn w r')"
    "c_maxSubscribers (cn w' r') = c_maxSubscribers (cn w r')"
    "w_next w' = w_next w" "w_streamers w' = w_streamers w" "w_players w' = w_players w"
    "w_nextPlayerId w' = w_nextPlayerId w" "w_cfg w' = w_cfg w"
    "r' \<noteq> r \<Longrightarrow> c_sub (cn w' r') = c_sub (cn w r')"
  using assms psteps_static [of r "routing w" "routing w'"] by (simp_all add: mv_def)

lemma mv_rsteps:
  assumes "mv r w w'" "c_kind (cn w r) = PlayerConn" "c_open (cn w r)"
  shows "rstep\<^sup>*\<^sup>* (routing w) (routing w')"
  using assms psteps_rsteps [of r "routing w" "routing w'"] by (simp add: mv_def)

section \<open>Operations that leave the routing alone\<close>

lemma routing_clearTimer [simp]: "routing (clearNegotiationTimer r w) = routing w"
  by (simp add: clearNegotiationTimer_def)

lemma routing_startTimer [simp]: "routing (startNegotiationTimer r w) = routing w"
  by (simp add: startNegotiationTimer_def)

lemma routing_recordCodec [simp]: "routing (snd (recordCodec r t f w)) = routing w"
  by (auto simp: recordCodec_def Let_def split: option.split)

lemma routing_sendCodecState [simp]: "routing (sendCodecState r st reason w) = routing w"
  by (simp add: sendCodecState_def)

lemma routing_forwardToStreamer [simp]: "routing (forwardToStreamer r m w) = routing w"
  by (simp add: forwardToStreamer_def split: option.split)

lemma routing_set_failed [simp]: "routing (set_failed r w) = routing w"
  by (simp add: set_failed_def)

lemma routing_restart [simp]: "routing (restart_generation r w) = routing w"
  by (simp add: restart_generation_def Let_def)

lemma routing_accept_offer [simp]: "routing (accept_offer r sdp f w) = routing w"
  by (simp add: accept_offer_def)

lemma routing_accept_answer [simp]: "routing (accept_answer r w) = routing w"
  by (simp add: accept_answer_def)

lemmas mv_frame_simps [simp] =
  mv_routing [OF routing_eff] mv_routing [OF routing_protoSend] mv_routing [OF routing_protoDisconnect]
  mv_routing [OF routing_upd_codec] mv_routing [OF routing_upd_session] mv_routing [OF routing_clearTimer]
  mv_routing [OF routing_startTimer] mv_routing [OF routing_recordCodec] mv_routing [OF routing_sendCodecState]
  mv_routing [OF routing_forwardToStreamer] mv_routing [OF routing_restart] mv_routing [OF routing_accept_offer]
  mv_routing [OF routing_accept_answer] mv_routing [OF routing_ice] mv_routing [OF routing_set_failed]

lemma mv_record: "\<lbrakk>recordCodec r' t f w' = (ok, w''); mv r w w'\<rbrakk> \<Longrightarrow> mv r w w''"
  using routing_recordCodec [of r' t f w'] by (simp add: mv_def)

section \<open>Unsubscribing and subscribing\<close>

lemma routing_upd_rupd: "(\<And>c. route (f c) = g (route c)) \<Longrightarrow> routing (upd r f w) = rupd r g (routing w)"
  by (auto simp: routing_def upd_def rupd_def fun_eq_iff)

lemma routing_unsubscribe:
  assumes "c_kind (cn w r) = PlayerConn"
  shows "routing (unsubscribe r w) = rdetach r (routing w)"
proof -
  define w1 where "w1 = (if c_sub (cn w r) \<noteq> None \<and> s_identityValidated (sc w r) \<and> k_shadow (kc w r) = None
     then eff (Negotiation ''streamer_negotiation_abandoned'' (c_sub (cn w r))
        (s_requestId (sc w r)) (Some (c_playerId (cn w r)))) w else w)"
  define w2 where "w2 = upd_codec r (\<lambda>k. k\<lparr>k_offer := None, k_offerFromStreamer := None, k_negotiated := False\<rparr>) w1"
  have r2: "routing w2 = routing w" by (simp add: w2_def w1_def)
  show ?thesis
  proof (cases "c_sub (cn w r)")
    case None
    then have "unsubscribe r w = w2"
      by (simp add: unsubscribe_def Let_def w2_def w1_def world_simps)
    with None r2 show ?thesis by simp
  next
    case (Some s)
    let ?f = "\<lambda>c. c\<lparr>c_subscribers := set_delete (c_playerId (cn w2 r)) (c_subscribers c)\<rparr>"
    let ?m = "mk_msg ''playerDisconnected'' [(''playerId'', JStr (c_playerId (cn (upd s ?f w2) r)))]"
    have u: "unsubscribe r w = upd r (\<lambda>c. c\<lparr>c_sub := None\<rparr>)
        (upd s (\<lambda>c. c\<lparr>c_emitter := em_off Disconnected r (em_off Id_changed r (c_emitter c))\<rparr>)
          (forwardToStreamer r ?m (upd s ?f w2)))"
      using Some by (simp add: unsubscribe_def Let_def w2_def w1_def world_simps)
    have pid: "c_playerId (cn w2 r) = c_playerId (cn w r)" using routing_eqD [OF r2] by simp
    have ev: "events_of (rt_kind (rc (rupd s (\<lambda>c. c\<lparr>rt_subscribers := x c\<rparr>) (routing w)) r)) = [Id_changed, Disconnected]" for x
      using assms by (cases "r = s") (simp_all add: rop_simps events_of_def)
    show ?thesis
      unfolding u rdetach_def Let_def
      by (subst routing_upd_rupd [where g = "\<lambda>c. c\<lparr>rt_sub := None\<rparr>"], simp add: route_def,
          subst routing_upd_rupd [where g = "\<lambda>c. c\<lparr>rt_emitter := em_off Disconnected r (em_off Id_changed r (rt_emitter c))\<rparr>"],
          simp add: route_def,
          simp add: Some pid ev r2
            routing_upd_rupd [where g = "\<lambda>c. c\<lparr>rt_subscribers := set_delete (c_playerId (cn w r)) (rt_subscribers c)\<rparr>"]
            route_def [of "_\<lparr>c_subscribers := _\<rparr>"])
  qed
qed

lemma mv_unsubscribe [intro]: "mv r w w' \<Longrightarrow> mv r w (unsubscribe r w')"
  by (erule mv_step) (simp add: routing_unsubscribe pstep.detach)

lemma unsubscribe_sub [simp]: "c_sub (cn (unsubscribe r w) r) = None"
  by (simp add: unsubscribe_def Let_def world_simps split: option.split)

lemma routing_attach_player:
  assumes "c_kind (cn w r) = PlayerConn"
  shows "routing (attach_player r s w) = rattach r s (routing w)"
proof -
  define w1 where "w1 = startNegotiationTimer r (upd_codec r (\<lambda>k. k\<lparr>k_descriptionReceived := False\<rparr>)
     (upd r (\<lambda>c. c\<lparr>c_sub := Some s\<rparr>) w))"
  have r1: "routing w1 = rupd r (\<lambda>c. c\<lparr>rt_sub := Some s\<rparr>) (routing w)"
    unfolding w1_def routing_startTimer routing_upd_codec
    by (rule routing_upd_rupd) (simp add: route_def)
  have pid: "c_playerId (cn w1 r) = rt_playerId (rc (rupd r (\<lambda>c. c\<lparr>rt_sub := Some s\<rparr>) (routing w)) r)"
    using arg_cong [OF r1, of "\<lambda>x. rt_playerId (rc x r)"] by simp
  let ?f = "\<lambda>c. c\<lparr>c_subscribers := set_add (c_playerId (cn w1 r)) (c_subscribers c)\<rparr>"
  have r2: "routing (upd s ?f w1) = rupd s (\<lambda>c. c\<lparr>rt_subscribers := set_add (c_playerId (cn w1 r)) (rt_subscribers c)\<rparr>) (routing w1)"
    by (rule routing_upd_rupd) (simp add: route_def)
  let ?g = "\<lambda>c. c\<lparr>c_emitter := em_on Disconnected r (em_on Id_changed r (c_emitter c))\<rparr>"
  have r3: "routing (upd s ?g (upd s ?f w1)) = rupd s (\<lambda>c. c\<lparr>rt_emitter := em_on Disconnected r (em_on Id_changed r (rt_emitter c))\<rparr>) (routing (upd s ?f w1))"
    by (rule routing_upd_rupd) (simp add: route_def)
  have ev: "events_of (rt_kind (rc (rupd s (\<lambda>c. c\<lparr>rt_subscribers := x c\<rparr>)
      (rupd r (\<lambda>c. c\<lparr>rt_sub := Some s\<rparr>) (routing w))) r)) = [Id_changed, Disconnected]" for x
    using assms by (cases "r = s") (simp_all add: rop_simps events_of_def)
  have "routing (attach_player r s w) = routing (upd s ?g (upd s ?f w1))"
    by (simp add: attach_player_def Let_def w1_def)
  also have "\<dots> = rattach r s (routing w)"
    unfolding r3 r2 r1 unfolding pid by (simp add: rattach_def Let_def ev)
  finally show ?thesis .
qed

lemma mv_attach:
  assumes "mv r w w'" "c_sub (cn w' r) = None" "s \<in> set (w_streamers w')" "has_room r s (routing w')"
  shows "mv r w (attach_player r s w')"
proof (rule mv_step [OF assms(1)])
  assume "c_kind (cn w' r) = PlayerConn"
  then show "pstep r (routing w') (routing (attach_player r s w'))"
    using assms(2,3,4) by (simp only: routing_attach_player) (rule pstep.attach, simp_all)
qed

section \<open>The methods\<close>

lemma mv_disconnect [intro]: "mv r w w' \<Longrightarrow> mv r w (playerDisconnect r w')"
  unfolding playerDisconnect_def mv_frame_simps by (rule mv_unsubscribe)

lemma mv_fail [intro]: "mv r w w' \<Longrightarrow> mv r w (failCodecNegotiation r reason w')"
  by (auto simp: failCodecNegotiation_def Let_def split: prod.split intro!: mv_unsubscribe elim!: mv_record)

lemma registry_find_routing:
  assumes "routing w' = routing w"
  shows "registry_find w' sid = registry_find w sid"
  by (simp add: registry_find_def routing_eqD [OF assms])

lemma mv_subscribe [intro]:
  assumes "mv r w w'"
  shows "mv r w (subscribe r v w')"
proof -
  let ?w = "upd_codec r (\<lambda>k. k\<lparr>k_finalized := True\<rparr>) w'"
  have att: "mv r w (attach_player r s (restart_generation r w2))"
    if fs: "registry_find ?w sid = Some s" and w2: "w2 = (if c_sub (cn ?w r) \<noteq> None then unsubscribe r ?w else ?w)"
      and room: "\<not> (0 < c_maxSubscribers (cn w2 s) \<and> c_maxSubscribers (cn w2 s) \<le> int (length (c_subscribers (cn w2 s))))"
    for sid s w2
  proof (cases "c_kind (cn w r) = PlayerConn")
    case True
    have m2: "mv r w w2" using assms by (auto simp: w2)
    have "c_kind (cn w' r) = PlayerConn" using mv_static(1) [OF assms True] True by simp
    moreover have "mv r w' w2" by (auto simp: w2 intro: mv_unsubscribe)
    ultimately have "w_streamers w2 = w_streamers w'" using mv_static(7) by blast
    moreover have "s \<in> set (w_streamers w')" using registry_find_Some [OF fs] by (simp add: world_simps)
    moreover have "c_sub (cn w2 r) = None" by (simp add: w2)
    moreover have "has_room r s (routing w2)" using room by (auto simp: has_room_def)
    ultimately show ?thesis
      using routing_eqD [OF routing_restart, of r w2] m2
      by (intro mv_attach) (simp_all add: )
  qed (simp add: mv_def)
  show ?thesis
    using assms att unfolding subscribe_def Let_def
    by (auto split: jsval.split option.split if_split simp del: if_split_asm)
qed

lemma routing_note_response [simp]: "routing (note_response r f w) = routing w"
  by (simp add: note_response_def)

lemma mv_negotiation_failed [intro]: "mv r w w' \<Longrightarrow> mv r w (snd (negotiation_failed r t d w'))"
  unfolding negotiation_failed_def snd_conv by (rule mv_fail)

lemma mv_filterAnswer [intro]:
  assumes "mv r w w'"
  shows "mv r w (snd (filterAnswer r m sdp f w'))"
proof -
  obtain ok w1 where rec: "recordCodec r ''negotiated'' id w' = (ok, w1)" by fastforce
  from mv_record [OF this assms] have "mv r w w1" .
  with assms show ?thesis
    unfolding filterAnswer_def Let_def by (cases ok) (auto simp: rec split: option.split)
qed

lemma mv_filterDescription [intro]:
  assumes "mv r w w'"
  shows "mv r w (snd (filterDescription r m f w'))"
proof -
  have n: "mv r w (note_response r f w')" using assms by (simp add: mv_routing [OF routing_note_response])
  with assms show ?thesis
    unfolding filterDescription_def Let_def by (auto split: sum.split)
qed

lemma mv_filter: "mv r w w' \<Longrightarrow> mv r w (snd (filterCodecMessage r m f w'))"
  unfolding filterCodecMessage_def by (auto intro!: mv_filterDescription)

lemma mv_filter_eq: "\<lbrakk>filterCodecMessage r m f w' = (x, w''); mv r w w'\<rbrakk> \<Longrightarrow> mv r w w''"
  using mv_filter [of r w w' m f] by simp

lemma mv_playerSendMessage [intro]: "mv r w w' \<Longrightarrow> mv r w (playerSendMessage r m w')"
  by (auto simp: playerSendMessage_def split: prod.split option.split elim!: mv_filter_eq)

lemma mv_force_subscription [intro]: "mv r w w' \<Longrightarrow> mv r w (force_subscription r m w')"
  by (auto simp: force_subscription_def Let_def split: option.split)

lemma mv_sendToStreamer [intro]: "mv r w w' \<Longrightarrow> mv r w (sendToStreamer r m w')"
  by (auto simp: sendToStreamer_def split: prod.split option.split elim!: mv_filter_eq
      intro!: mv_force_subscription)

lemma mv_capabilities [intro]: "mv r w w' \<Longrightarrow> mv r w (handleCapabilities r caps p w')"
  unfolding handleCapabilities_def Let_def
  by (auto split: option.split prod.split bool.split elim!: mv_record intro!: mv_fail)

lemma mv_observation [intro]: "mv r w w' \<Longrightarrow> mv r w (handleObservation r m w')"
  unfolding handleObservation_def Let_def
  by (auto split: option.split prod.split bool.split elim!: mv_record intro!: mv_fail)

lemma mv_handleCodecMessage: "mv r w w' \<Longrightarrow> mv r w (snd (handleCodecMessage r m w'))"
  by (auto simp: handleCodecMessage_def split: option.split)

lemma mv_mediaEvidence: "mv r w w' \<Longrightarrow> mv r w (snd (handleMediaEvidence r m w'))"
  by (auto simp: handleMediaEvidence_def Let_def split: option.split)

lemma mv_quality: "mv r w w' \<Longrightarrow> mv r w (handleQuality r m w')"
  by (auto simp: handleQuality_def split: option.split prod.split)

lemma mv_unhandled [intro]:
  assumes "mv r w w'"
  shows "mv r w (onUnhandled r m w')"
proof -
  have "mv r w w''" if "handleCodecMessage r m w' = (x, w'')" for x w''
    using mv_handleCodecMessage [OF assms, of m] that by simp
  then show ?thesis
    using assms by (auto simp: onUnhandled_def split: prod.split bool.split intro!: mv_quality mv_mediaEvidence)
qed

lemma mv_playerMessage: "mv r w (playerMessage r m w)"
  by (auto simp: playerMessage_def onListStreamers_def onPlayerIceCandidate_def)

lemma mv_timeout: "mv r w (negotiationTimeout r w)"
  by (auto simp: negotiationTimeout_def Let_def)

lemma mv_transportClose: "mv r w (playerTransportClose r w)"
  by (auto simp: playerTransportClose_def Let_def)

lemma mv_orphaned: "mv r w (closeOrphanedShadow r w)"
  by (auto simp: closeOrphanedShadow_def)

lemma mv_idChanged: "mv r w (onStreamerIdChanged r sid w)"
  by (auto simp: onStreamerIdChanged_def)

lemma routing_open_evidence: "routing (snd (open_evidence r w)) = routing w"
proof -
  define f :: "evidence \<Rightarrow> evidence" where "f = (\<lambda>e. if k_shadow (kc w r) = None then e
    else e\<lparr>ev_reason := Some ''Admin shadow viewer; existing session codec''\<rparr>)"
  obtain ok w1 where rec: "recordCodec r ''connection_opened'' f w = (ok, w1)" by fastforce
  with routing_recordCodec [of r "''connection_opened''" f w] have "routing w1 = routing w" by simp
  then show ?thesis unfolding open_evidence_def f_def [symmetric] by (cases ok) (simp_all add: rec)
qed

lemma routing_initialize: "routing (snd (initializeCodecPolicy r p sh rdy w)) = routing w"
  unfolding initializeCodecPolicy_def Let_def
  by (auto simp: routing_open_evidence refuse_shadow_def split: option.split)

text \<open>A closed or failed player holds no subscription.\<close>

lemma playerDisconnect_sub [simp]: "c_sub (cn (playerDisconnect r w) r) = None"
  by (simp add: playerDisconnect_def protoDisconnect_def clearNegotiationTimer_def world_simps)

lemma playerTransportClose_sub [simp]: "c_sub (cn (playerTransportClose r w) r) = None"
  by (simp add: playerTransportClose_def Let_def)

end
