(* ===== verification/Sfu_Connection.thy ===== *)
theory Sfu_Connection
  imports Player_Routing
begin

text \<open>
  \<open>Signalling/src/SFUConnection.ts\<close>: a connection that is a player of one streamer and a streamer to
  other players; and the event \<open>disconnect\<close>, which travels along chains of SFUs. The event calls
  itself through the listeners, so it takes a number of nested emissions it may make; one more than
  the number of live subscriptions is always enough.
\<close>

definition sfuForward :: "ref \<Rightarrow> jsval \<Rightarrow> world \<Rightarrow> world" where
  "sfuForward r m w = (case c_sub (cn w r) of
     None \<Rightarrow> w
   | Some s \<Rightarrow> protoSend s (put_fld ''playerId''
       (if truthy (fld m ''playerId'') then fld m ''playerId'' else JStr (c_playerId (cn w r))) m) w)"

definition sfuUnsubscribe :: "ref \<Rightarrow> world \<Rightarrow> world" where
  "sfuUnsubscribe r w = (case c_sub (cn w r) of
     None \<Rightarrow> w
   | Some s \<Rightarrow>
       let w = sfuForward r (mk_msg ''playerDisconnected'' [(''playerId'', JStr (c_playerId (cn w r)))]) w;
           w = upd s (\<lambda>c. c\<lparr>c_subscribers := set_delete (c_playerId (cn w r)) (c_subscribers c)\<rparr>) w;
           w = upd s (\<lambda>c. c\<lparr>c_emitter := em_off Disconnected r (em_off Id_changed r
                 (em_off Layer_preference r (c_emitter c)))\<rparr>) w in
       upd r (\<lambda>c. c\<lparr>c_sub := None\<rparr>) w)"

definition attach_sfu :: "ref \<Rightarrow> ref \<Rightarrow> world \<Rightarrow> world" where
  "attach_sfu r s w =
     (let w = upd r (\<lambda>c. c\<lparr>c_sub := Some s\<rparr>) w;
          w = upd s (\<lambda>c. c\<lparr>c_subscribers := set_add (c_playerId (cn w r)) (c_subscribers c)\<rparr>) w;
          w = upd s (\<lambda>c. c\<lparr>c_emitter := em_on Disconnected r (em_on Id_changed r
                (em_on Layer_preference r (c_emitter c)))\<rparr>) w in
      sfuForward r (mk_msg ''playerConnected''
        [(''playerId'', JStr (c_playerId (cn w r))), (''dataChannel'', JBool True), (''sfu'', JBool True)]) w)"

definition set_streaming :: "ref \<Rightarrow> bool \<Rightarrow> world \<Rightarrow> world" where
  "set_streaming r b = upd r (\<lambda>c. c\<lparr>c_streaming := b\<rparr>)"

text \<open>
  The listeners of a streamer's \<open>disconnect\<close>: a player disconnects, an SFU drops its subscription,
  tells its peer, stops streaming and emits \<open>disconnect\<close> in turn.
\<close>

definition sfuStreamLost :: "ref \<Rightarrow> world \<Rightarrow> world" where
  "sfuStreamLost r w =
     set_streaming r False (protoSend r (mk_msg ''streamerDisconnected'' []) (sfuUnsubscribe r w))"

definition streamerGone :: "(ref \<Rightarrow> world \<Rightarrow> world) \<Rightarrow> ref \<Rightarrow> world \<Rightarrow> world" where
  "streamerGone fire r w = (case c_kind (cn w r) of
     PlayerConn \<Rightarrow> playerDisconnect r w
   | SfuConn \<Rightarrow> fire r (sfuStreamLost r w)
   | StreamerConn \<Rightarrow> w)"

primrec fire_disconnect :: "nat \<Rightarrow> ref \<Rightarrow> world \<Rightarrow> world" where
  "fire_disconnect 0 = (\<lambda>s w. w)"
| "fire_disconnect (Suc n) =
     (\<lambda>s. em_emit (\<lambda>w. c_emitter (cn w s)) (streamerGone (fire_disconnect n)) Disconnected)"

definition emit_disconnect :: "ref \<Rightarrow> world \<Rightarrow> world" where
  "emit_disconnect s w = fire_disconnect (Suc (w_next w)) s w"

definition sfuDisconnect :: "ref \<Rightarrow> world \<Rightarrow> world" where
  "sfuDisconnect r w = emit_disconnect r (protoDisconnect r None (sfuUnsubscribe r w))"

definition sfuSubscribe :: "ref \<Rightarrow> jsval \<Rightarrow> world \<Rightarrow> world" where
  "sfuSubscribe r v w = (case v of
     JStr sid \<Rightarrow>
       (case registry_find w sid of
          None \<Rightarrow> w
        | Some s \<Rightarrow> attach_sfu r s (if c_sub (cn w r) \<noteq> None then sfuUnsubscribe r w else w))
   | _ \<Rightarrow> sfuDisconnect r w)"

definition sendToPlayer :: "ref \<Rightarrow> jsval \<Rightarrow> world \<Rightarrow> world" where
  "sendToPlayer r m w = (case fld m ''playerId'' of
     JStr pid \<Rightarrow>
       (if pid = [] \<or> pid \<notin> set (c_subscribers (cn w r)) then w
        else case player_get w pid of
          None \<Rightarrow> w
        | Some p \<Rightarrow> protoSend p (del_fld ''playerId'' m) w)
   | _ \<Rightarrow> w)"

definition sfuListStreamers :: "ref \<Rightarrow> world \<Rightarrow> world" where
  "sfuListStreamers r w = protoSend r (mk_msg ''streamerList''
     [(''ids'', JArr (map (\<lambda>s. JStr (c_streamerId (cn w s))) (w_streamers w)))]) w"

text \<open>The handlers of the SFU's own messages; \<open>endpointId\<close> also reaches the streamer registry.\<close>

definition sfuMessage :: "ref \<Rightarrow> jsval \<Rightarrow> world \<Rightarrow> world" where
  "sfuMessage r m w =
     (if mtype m = JStr ''subscribe'' then sfuSubscribe r (fld m ''streamerId'') w
      else if mtype m = JStr ''unsubscribe'' then sfuUnsubscribe r w
      else if mtype m = JStr ''listStreamers'' then sfuListStreamers r w
      else if mtype m = JStr ''streamerDataChannels''
      then sfuForward r (put_fld ''sfuId'' (JStr (c_playerId (cn w r))) m) w
      else if mtype m = JStr ''startStreaming'' then set_streaming r True w
      else if mtype m = JStr ''stopStreaming'' then emit_disconnect r (set_streaming r False w)
      else if mtype m = JStr ''ping'' then protoSend r (pong_of m) w
      else if mtype m \<in> {JStr ''offer'', JStr ''peerDataChannels''} then sendToPlayer r m w
      else if mtype m = JStr ''answer'' then sfuForward r m w
      else w)"

section \<open>Routing\<close>

lemma routing_sfuForward [simp]: "routing (sfuForward r m w) = routing w"
  by (simp add: sfuForward_def split: option.split)

lemma routing_set_streaming [simp]: "routing (set_streaming r b w) = routing w"
  by (simp add: set_streaming_def routing_upd route_def)

lemma routing_sendToPlayer [simp]: "routing (sendToPlayer r m w) = routing w"
  by (simp add: sendToPlayer_def split: jsval.split option.split)

lemma routing_sfuUnsubscribe:
  assumes "c_kind (cn w r) = SfuConn"
  shows "routing (sfuUnsubscribe r w) = rdetach r (routing w)"
proof (cases "c_sub (cn w r)")
  case None
  then show ?thesis by (simp add: sfuUnsubscribe_def)
next
  case (Some s)
  define w1 where "w1 = sfuForward r (mk_msg ''playerDisconnected'' [(''playerId'', JStr (c_playerId (cn w r)))]) w"
  have r1: "routing w1 = routing w" by (simp add: w1_def)
  let ?f = "\<lambda>c. c\<lparr>c_subscribers := set_delete (c_playerId (cn w1 r)) (c_subscribers c)\<rparr>"
  let ?g = "\<lambda>c. c\<lparr>c_emitter := em_off Disconnected r (em_off Id_changed r (em_off Layer_preference r (c_emitter c)))\<rparr>"
  have u: "sfuUnsubscribe r w = upd r (\<lambda>c. c\<lparr>c_sub := None\<rparr>) (upd s ?g (upd s ?f w1))"
    using Some by (simp add: sfuUnsubscribe_def Let_def w1_def)
  have pid: "c_playerId (cn w1 r) = c_playerId (cn w r)" using routing_eqD [OF r1] by simp
  have "routing (upd s ?f w1) = rupd s (\<lambda>c. c\<lparr>rt_subscribers := set_delete (c_playerId (cn w r)) (rt_subscribers c)\<rparr>) (routing w)"
    unfolding r1 [symmetric] pid [symmetric] by (rule routing_upd_rupd) (simp add: route_def)
  moreover have "routing (upd s ?g y) = rupd s (\<lambda>c. c\<lparr>rt_emitter := em_off Disconnected r (em_off Id_changed r
      (em_off Layer_preference r (rt_emitter c)))\<rparr>) (routing y)" for y
    by (rule routing_upd_rupd) (simp add: route_def)
  moreover have "routing (upd r (\<lambda>c. c\<lparr>c_sub := None\<rparr>) y) = rupd r (\<lambda>c. c\<lparr>rt_sub := None\<rparr>) (routing y)" for y
    by (rule routing_upd_rupd) (simp add: route_def)
  moreover have "events_of (rt_kind (rc (rupd s (\<lambda>c. c\<lparr>rt_subscribers := x c\<rparr>) (routing w)) r))
      = [Layer_preference, Id_changed, Disconnected]" for x
    using assms by (cases "r = s") (simp_all add: rop_simps events_of_def)
  ultimately show ?thesis unfolding u by (simp add: rdetach_def Let_def Some)
qed

lemma routing_attach_sfu:
  assumes "c_kind (cn w r) = SfuConn"
  shows "routing (attach_sfu r s w) = rattach r s (routing w)"
proof -
  define w1 where "w1 = upd r (\<lambda>c. c\<lparr>c_sub := Some s\<rparr>) w"
  let ?f = "\<lambda>c. c\<lparr>c_subscribers := set_add (c_playerId (cn w1 r)) (c_subscribers c)\<rparr>"
  let ?g = "\<lambda>c. c\<lparr>c_emitter := em_on Disconnected r (em_on Id_changed r (em_on Layer_preference r (c_emitter c)))\<rparr>"
  have r1: "routing w1 = rupd r (\<lambda>c. c\<lparr>rt_sub := Some s\<rparr>) (routing w)"
    unfolding w1_def by (rule routing_upd_rupd) (simp add: route_def)
  have pid: "c_playerId (cn w1 r) = rt_playerId (rc (rupd r (\<lambda>c. c\<lparr>rt_sub := Some s\<rparr>) (routing w)) r)"
    using arg_cong [OF r1, of "\<lambda>x. rt_playerId (rc x r)"] by simp
  have r2: "routing (upd s ?f w1) = rupd s (\<lambda>c. c\<lparr>rt_subscribers := set_add (c_playerId (cn w1 r)) (rt_subscribers c)\<rparr>) (routing w1)"
    by (rule routing_upd_rupd) (simp add: route_def)
  have r3: "routing (upd s ?g y) = rupd s (\<lambda>c. c\<lparr>rt_emitter := em_on Disconnected r (em_on Id_changed r
      (em_on Layer_preference r (rt_emitter c)))\<rparr>) (routing y)" for y
    by (rule routing_upd_rupd) (simp add: route_def)
  have ev: "events_of (rt_kind (rc (rupd s (\<lambda>c. c\<lparr>rt_subscribers := x c\<rparr>)
      (rupd r (\<lambda>c. c\<lparr>rt_sub := Some s\<rparr>) (routing w))) r)) = [Layer_preference, Id_changed, Disconnected]" for x
    using assms by (cases "r = s") (simp_all add: rop_simps events_of_def)
  have "routing (attach_sfu r s w) = routing (upd s ?g (upd s ?f w1))"
    by (simp add: attach_sfu_def Let_def w1_def)
  also have "\<dots> = rattach r s (routing w)"
    unfolding r3 r2 r1 unfolding pid by (simp add: rattach_def Let_def ev)
  finally show ?thesis .
qed

lemma sfuUnsubscribe_sub [simp]: "c_sub (cn (sfuUnsubscribe r w) r) = None"
  by (simp add: sfuUnsubscribe_def Let_def world_simps split: option.split)

section \<open>The end of a stream\<close>

text \<open>Everything a \<open>disconnect\<close> event does to the routing is detaching connections.\<close>

definition detaches :: "routing \<Rightarrow> routing \<Rightarrow> bool" where
  "detaches = (\<lambda>x y. \<exists>r. y = rdetach r x)\<^sup>*\<^sup>*"

lemma detaches_refl [simp, intro]: "detaches x x"
  by (simp add: detaches_def)

lemma detaches_trans: "\<lbrakk>detaches x y; detaches y z\<rbrakk> \<Longrightarrow> detaches x z"
  by (simp add: detaches_def)

lemma detaches_one [intro]: "detaches x (rdetach r x)"
  by (auto simp: detaches_def)

lemma detaches_static:
  assumes "detaches x y"
  shows "rt_kind (rc y r) = rt_kind (rc x r)" "rt_open (rc y r) = rt_open (rc x r)"
    "rt_streamerId (rc y r) = rt_streamerId (rc x r)" "rt_playerId (rc y r) = rt_playerId (rc x r)"
    "ro_next y = ro_next x" "ro_streamers y = ro_streamers x" "ro_players y = ro_players x"
    "ro_nextPlayerId y = ro_nextPlayerId x"
    "rt_sub (rc y r) = rt_sub (rc x r) \<or> rt_sub (rc y r) = None"
  using assms unfolding detaches_def by (induction rule: rtranclp_induct) (auto simp: rop_simps split: if_splits)

lemma detaches_rsteps: "detaches x y \<Longrightarrow> rstep\<^sup>*\<^sup>* x y"
  unfolding detaches_def by (erule rtranclp_mono [THEN predicate2D, rotated]) (auto intro: rstep.detach)

lemma detaches_rok: "\<lbrakk>detaches x y; rok x\<rbrakk> \<Longrightarrow> rok y"
  by (blast intro: rsteps_rok detaches_rsteps)

lemma routing_playerDisconnect:
  "c_kind (cn w r) = PlayerConn \<Longrightarrow> routing (playerDisconnect r w) = rdetach r (routing w)"
  by (simp add: playerDisconnect_def routing_unsubscribe)

lemma routing_sfuStreamLost:
  "c_kind (cn w r) = SfuConn \<Longrightarrow> routing (sfuStreamLost r w) = rdetach r (routing w)"
  by (simp add: sfuStreamLost_def routing_sfuUnsubscribe)

lemma fire_detaches: "detaches (routing w) (routing (fire_disconnect n s w))"
proof (induction n arbitrary: s w)
  case (Suc n)
  have gone: "detaches (routing w') (routing (streamerGone (fire_disconnect n) r w'))" for r w'
    using Suc.IH [of "sfuStreamLost r w'" r] detaches_one [of "routing w'" r]
    by (cases "c_kind (cn w' r)")
      (auto simp: streamerGone_def routing_playerDisconnect routing_sfuStreamLost intro: detaches_trans)
  show ?case
    by (simp, rule em_emit_invariant [where P = "\<lambda>w'. detaches (routing w) (routing w')"])
      (auto intro: detaches_trans gone)
qed simp

lemma emit_disconnect_detaches: "detaches (routing w) (routing (emit_disconnect s w))"
  by (simp add: emit_disconnect_def fire_detaches del: fire_disconnect.simps)

text \<open>What a listener of the event holds before its call, and no longer after it.\<close>

lemma rok_listener:
  assumes "rok (routing w)" "r \<in> set (em_listeners (c_emitter (cn w s)) Disconnected)"
  shows "c_sub (cn w r) = Some s" "c_kind (cn w r) = PlayerConn \<or> c_kind (cn w r) = SfuConn"
proof -
  show sub: "c_sub (cn w r) = Some s" using assms by (auto simp: rok_def listeners_ok_def)
  show "c_kind (cn w r) = PlayerConn \<or> c_kind (cn w r) = SfuConn"
    using rok_links [OF assms(1), of r s] sub by (cases "c_kind (cn w r)") auto
qed

lemma rok_no_listener:
  assumes "rok (routing w)" "r \<notin> set (em_listeners (c_emitter (cn w s)) Disconnected)"
  shows "c_sub (cn w r) \<noteq> Some s"
proof -
  have "Disconnected \<in> set (events_of (c_kind (cn w r)))"
    by (cases "c_kind (cn w r)") (simp_all add: events_of_def)
  with assms show ?thesis by (auto simp: rok_def listeners_ok_def)
qed

lemma streamerGone_detaches: "detaches (routing w) (routing (streamerGone (fire_disconnect n) r w))"
proof (cases "c_kind (cn w r)")
  case SfuConn
  then have "detaches (routing w) (routing (sfuStreamLost r w))" by (auto simp: routing_sfuStreamLost)
  from detaches_trans [OF this fire_detaches] show ?thesis by (simp add: streamerGone_def SfuConn)
qed (auto simp: streamerGone_def routing_playerDisconnect)

lemma streamerGone_sub:
  assumes "rok (routing w)" "r \<in> set (em_listeners (c_emitter (cn w s)) Disconnected)"
  shows "c_sub (cn (streamerGone (fire_disconnect n) r w) r) = None"
  using rok_listener [OF assms]
proof (elim disjE)
  assume k: "c_kind (cn w r) = SfuConn"
  then have "c_sub (cn (sfuStreamLost r w) r) = None"
    using arg_cong [OF routing_sfuStreamLost [OF k], of "\<lambda>x. rt_sub (rc x r)"] by (simp add: rop_simps)
  with detaches_static(9) [OF fire_detaches [of "sfuStreamLost r w" n r], of r] k show ?thesis
    by (auto simp: streamerGone_def)
qed (simp add: streamerGone_def)

text \<open>After the event nobody is subscribed to the streamer any more.\<close>

lemma fire_nobody_left:
  assumes ok: "rok (routing w)"
  shows "c_sub (cn (fire_disconnect (Suc n) s w) r) \<noteq> Some s"
proof -
  let ?f = "\<lambda>l w. if l \<in> set (em_listeners (c_emitter (cn w s)) Disconnected)
    then streamerGone (fire_disconnect n) l w else w"
  have gone: "detaches (routing w') (routing (?f l w'))" if "rok (routing w')" for l w'
    by (auto intro: streamerGone_detaches)
  have fd: "rok (routing w') \<Longrightarrow> detaches (routing w') (routing (fold ?f ls w'))" for ls w'
  proof (induction ls arbitrary: w')
    case (Cons l ls)
    note g = gone [OF Cons.prems, of l]
    show ?case using Cons.IH [OF detaches_rok [OF g Cons.prems]] g by (simp only: fold_simps) (rule detaches_trans)
  qed simp
  have left: "\<lbrakk>rok (routing w'); l \<in> set ls\<rbrakk> \<Longrightarrow> c_sub (cn (fold ?f ls w') l) \<noteq> Some s" for ls w' l
  proof (induction ls arbitrary: w')
    case (Cons l' ls)
    note ok' = detaches_rok [OF gone [OF Cons.prems(1)] Cons.prems(1), of l']
    have "c_sub (cn (?f l' w') l') \<noteq> Some s"
      using streamerGone_sub [OF Cons.prems(1)] rok_no_listener [OF Cons.prems(1)] by auto
    then have "c_sub (cn (fold ?f ls (?f l' w')) l') \<noteq> Some s"
      using detaches_static(9) [OF fd [OF ok', of ls], of l'] by auto
    with Cons.IH [OF ok'] Cons.prems(2) show ?case by (auto simp del: fun_upd_apply)
  qed simp
  let ?ls = "em_listeners (c_emitter (cn w s)) Disconnected"
  have "c_sub (cn (fold ?f ?ls w) r) \<noteq> Some s"
  proof (cases "r \<in> set ?ls")
    case True
    with left [OF ok] show ?thesis .
  next
    case False
    with rok_no_listener [OF ok] have "c_sub (cn w r) \<noteq> Some s" by blast
    with detaches_static(9) [OF fd [OF ok, of ?ls], of r] show ?thesis by auto
  qed
  then show ?thesis by (simp add: em_emit_def)
qed

text \<open>The number of nested emissions: more than one per live subscription changes nothing.\<close>

definition subscribed :: "world \<Rightarrow> ref set" where
  "subscribed w = {r. c_sub (cn w r) \<noteq> None}"

lemma subscribed_below: "rok (routing w) \<Longrightarrow> subscribed w \<subseteq> {..<w_next w}"
  using rok_links [of "routing w"] unfolding subscribed_def rok_def fresh_ok_def
  by (auto simp: not_less) (meson linorder_not_less)

lemma finite_subscribed: "rok (routing w) \<Longrightarrow> finite (subscribed w)"
  using subscribed_below finite_subset by blast

lemma subscribed_detaches:
  assumes "detaches (routing w) (routing w')"
  shows "subscribed w' \<subseteq> subscribed w"
proof
  fix r assume "r \<in> subscribed w'"
  with detaches_static(9) [OF assms, of r] show "r \<in> subscribed w" by (auto simp: subscribed_def)
qed

lemma fire_enough:
  assumes "rok (routing w)" "card (subscribed w) < n" "card (subscribed w) < m"
  shows "fire_disconnect n s w = fire_disconnect m s w"
  using assms
proof (induction n arbitrary: m s w)
  case (Suc n)
  then obtain m' where m: "m = Suc m'" by (cases m) auto
  let ?f = "\<lambda>n l w. if l \<in> set (em_listeners (c_emitter (cn w s)) Disconnected)
    then streamerGone (fire_disconnect n) l w else w"
  have one: "?f n l w' = ?f m' l w'" and stay: "detaches (routing w') (routing (?f n l w'))"
    if ok: "rok (routing w')" and le: "card (subscribed w') \<le> card (subscribed w)" for l w'
  proof -
    show "detaches (routing w') (routing (?f n l w'))"
      by (auto intro: streamerGone_detaches)
    show "?f n l w' = ?f m' l w'"
    proof (cases "l \<in> set (em_listeners (c_emitter (cn w' s)) Disconnected) \<and> c_kind (cn w' l) = SfuConn")
      case False
      then show ?thesis using rok_listener [OF ok, of l s] by (auto simp: streamerGone_def)
    next
      case True
      let ?w = "sfuStreamLost l w'"
      have d: "routing ?w = rdetach l (routing w')" using True by (simp add: routing_sfuStreamLost)
      have "rt_sub (rc (routing ?w) l) = None" unfolding d by (simp add: rop_simps)
      then have "l \<notin> subscribed ?w" "l \<in> subscribed w'"
        using rok_listener(1) [OF ok, of l s] True by (simp_all add: subscribed_def)
      moreover have "subscribed ?w \<subseteq> subscribed w'" by (rule subscribed_detaches) (simp add: d detaches_one)
      ultimately have "subscribed ?w \<subset> subscribed w'" by blast
      then have "card (subscribed ?w) < card (subscribed w')"
        by (rule psubset_card_mono [OF finite_subscribed [OF ok]])
      with le Suc.prems m have "card (subscribed ?w) < n" "card (subscribed ?w) < m'" by auto
      moreover have "rok (routing ?w)" by (simp add: d rok_detach ok)
      ultimately have "fire_disconnect n l ?w = fire_disconnect m' l ?w" using Suc.IH by blast
      then show ?thesis using True by (simp add: streamerGone_def)
    qed
  qed
  have "fold (?f n) ls w' = fold (?f m') ls w'"
    if "rok (routing w')" "subscribed w' \<subseteq> subscribed w" for ls w'
    using that
  proof (induction ls arbitrary: w')
    case (Cons l ls)
    have le: "card (subscribed w') \<le> card (subscribed w)"
      by (rule card_mono [OF finite_subscribed [OF Suc.prems(1)] Cons.prems(2)])
    note st = stay [OF Cons.prems(1) le, of l]
    have "fold (?f n) ls (?f n l w') = fold (?f m') ls (?f n l w')"
      by (rule Cons.IH [OF detaches_rok [OF st Cons.prems(1)]])
        (use subscribed_detaches [OF st] Cons.prems(2) in blast)
    then show ?case by (simp only: fold_simps one [OF Cons.prems(1) le, of l])
  qed simp
  from this [OF Suc.prems(1) subset_refl] show ?case by (simp add: m em_emit_def)
qed simp

text \<open>
  The depth that the server gives to a \<open>disconnect\<close> event is always enough: any greater depth
  gives the same result. Afterwards nobody is subscribed to the streamer, whatever cycles of SFUs
  there are, and nothing but detachments has happened to the routing.
\<close>

theorem emit_disconnect_complete:
  assumes "rok (routing w)"
  shows "(\<forall>n \<ge> Suc (w_next w). fire_disconnect n s w = emit_disconnect s w)
    \<and> (\<forall>r. c_sub (cn (emit_disconnect s w) r) \<noteq> Some s)
    \<and> detaches (routing w) (routing (emit_disconnect s w))"
proof (intro conjI)
  have c: "card (subscribed w) \<le> w_next w"
    using card_mono [OF _ subscribed_below [OF assms]] by simp
  show "\<forall>n \<ge> Suc (w_next w). fire_disconnect n s w = emit_disconnect s w"
    unfolding emit_disconnect_def using c by (intro allI impI fire_enough [OF assms]) simp_all
  show "\<forall>r. c_sub (cn (emit_disconnect s w) r) \<noteq> Some s"
    using fire_nobody_left [OF assms] by (simp add: emit_disconnect_def del: fire_disconnect.simps)
  show "detaches (routing w) (routing (emit_disconnect s w))" by (rule emit_disconnect_detaches)
qed

end
