(* ===== verification/Streamer_Connection.thy ===== *)
theory Streamer_Connection
  imports Sfu_Connection
begin

text \<open>
  \<open>Signalling/src/StreamerConnection.ts\<close>: what a streamer may send to players, and the registry's
  handler \<open>onEndpointId\<close> (\<open>StreamerRegistry.ts\<close>), which names it. A streamer reaches a player only
  through the id that was announced to it and only while that player is subscribed.
\<close>

text \<open>\<open>sendMessage\<close> of any connection: only a player filters what it is sent.\<close>

definition connSendMessage :: "ref \<Rightarrow> jsval \<Rightarrow> world \<Rightarrow> world" where
  "connSendMessage r m w = (case c_kind (cn w r) of
     PlayerConn \<Rightarrow> playerSendMessage r m w
   | _ \<Rightarrow> protoSend r m w)"

definition addressed_player :: "ref \<Rightarrow> jsval \<Rightarrow> world \<Rightarrow> ref option" where
  "addressed_player s m w = (case fld m ''playerId'' of
     JStr pid \<Rightarrow>
       (if pid = [] then None
        else case getForStreamerMessage w pid of
          None \<Rightarrow> None
        | Some p \<Rightarrow> if c_playerId (cn w p) \<in> set (c_subscribers (cn w s)) then Some p else None)
   | _ \<Rightarrow> None)"

definition forwardMessage :: "ref \<Rightarrow> jsval \<Rightarrow> world \<Rightarrow> world" where
  "forwardMessage s m w = (case addressed_player s m w of
     None \<Rightarrow> w
   | Some p \<Rightarrow> connSendMessage p (put_fld ''playerId'' (JStr (c_playerId (cn w p))) m) w)"

definition onStreamerIceCandidate :: "ref \<Rightarrow> jsval \<Rightarrow> world \<Rightarrow> world" where
  "onStreamerIceCandidate s m w =
     (let player = (case fld m ''playerId'' of
            JStr pid \<Rightarrow> map_option (\<lambda>p. (c_playerId (cn w p), s_sessionId (sc w p), s_requestId (sc w p)))
                         (getForStreamerMessage w pid)
          | _ \<Rightarrow> None) in
      forwardMessage s m
        (w\<lparr>w_ice := recordStreamerCandidate (c_streamerId (cn w s)) player m (w_now w) (w_ice w)\<rparr>))"

definition utf8_length :: "string \<Rightarrow> nat" where
  "utf8_length s = sum_list (map (\<lambda>c. if (of_char c :: nat) < 128 then 1 else 2) s)"

definition close_reason :: "jsval \<Rightarrow> string option" where
  "close_reason v = (case v of
     JStr s \<Rightarrow> if utf8_length s \<le> 123 then Some s else None
   | _ \<Rightarrow> None)"

definition onDisconnectPlayer :: "ref \<Rightarrow> jsval \<Rightarrow> world \<Rightarrow> world" where
  "onDisconnectPlayer s m w = (case addressed_player s m w of
     None \<Rightarrow> w
   | Some p \<Rightarrow> protoDisconnect p (Some (1011, close_reason (fld m ''reason''))) w)"

definition onLayerPreference :: "ref \<Rightarrow> jsval \<Rightarrow> world \<Rightarrow> world" where
  "onLayerPreference s m = em_emit (\<lambda>w. c_emitter (cn w s)) (\<lambda>r. protoSend r m) Layer_preference"

definition emit_id_changed :: "ref \<Rightarrow> string \<Rightarrow> world \<Rightarrow> world" where
  "emit_id_changed s sid = em_emit (\<lambda>w. c_emitter (cn w s))
     (\<lambda>r w. case c_kind (cn w r) of
        PlayerConn \<Rightarrow> onStreamerIdChanged r sid w
      | _ \<Rightarrow> protoSend r (mk_msg ''streamerIdChanged'' [(''newID'', JStr sid)]) w) Id_changed"

definition reject_streamer :: "ref \<Rightarrow> string \<Rightarrow> world \<Rightarrow> world" where
  "reject_streamer s reason w = protoDisconnect s (Some (1008, Some reason)) (streamer_remove s w)"

definition commit_streamerId :: "ref \<Rightarrow> string \<Rightarrow> world \<Rightarrow> world" where
  "commit_streamerId s sid w =
     protoSend s (mk_msg ''endpointIdConfirm'' [(''committedId'', JStr sid)])
       (emit_id_changed s sid (set_streamerId s sid w))"

definition onEndpointId :: "ref \<Rightarrow> jsval \<Rightarrow> world \<Rightarrow> world" where
  "onEndpointId s m w = (case fld m ''id'' of
     JStr requested \<Rightarrow>
       let sanitized = sanitizeStreamerId w requested (Some s) in
       (case g_authorize (w_cfg w) of
          None \<Rightarrow> commit_streamerId s sanitized w
        | Some authorize \<Rightarrow>
            (case authorize (w_tick w) s requested sanitized (requested \<noteq> [] \<and> sanitized \<noteq> requested) of
               AuthId committed \<Rightarrow>
                 if committed = [] then reject_streamer s ''streamer id not authorized'' w
                 else (case registry_find w committed of
                    Some other \<Rightarrow>
                      if other \<noteq> s then reject_streamer s ''streamer id not authorized'' w
                      else commit_streamerId s committed w
                  | None \<Rightarrow> commit_streamerId s committed w)
             | _ \<Rightarrow> reject_streamer s ''streamer id not authorized'' w))
   | _ \<Rightarrow> reject_streamer s ''invalid streamer id'' w)"

text \<open>Both listeners of \<open>endpointId\<close>: the connection's own and the registry's.\<close>

definition streamerMessage :: "ref \<Rightarrow> jsval \<Rightarrow> world \<Rightarrow> world" where
  "streamerMessage s m w =
     (if mtype m = JStr ''endpointId'' then onEndpointId s m (set_streaming s True w)
      else if mtype m = JStr ''disconnectPlayer'' then onDisconnectPlayer s m w
      else if mtype m = JStr ''layerPreference'' then onLayerPreference s m w
      else if mtype m = JStr ''ping'' then protoSend s (pong_of m) w
      else if mtype m \<in> {JStr ''offer'', JStr ''answer''} then forwardMessage s m w
      else if mtype m = JStr ''iceCandidate'' then onStreamerIceCandidate s m w
      else w)"

section \<open>Isolation\<close>

lemma addressed_player_Some:
  assumes "rok (routing w)" "addressed_player s m w = Some p"
  shows "c_sub (cn w p) = Some s" "p \<in> set (listPlayers w)"
    "fld m ''playerId'' = JStr (streamerPlayerId w p)" "c_open (cn w p)" "c_kind (cn w p) \<noteq> StreamerConn"
proof -
  note ok = rok_players [OF assms(1)]
  from assms(2) obtain pid where pid: "fld m ''playerId'' = JStr pid" "getForStreamerMessage w pid = Some p"
    "c_playerId (cn w p) \<in> set (c_subscribers (cn w s))"
    by (auto simp: addressed_player_def split: jsval.splits if_splits option.splits)
  from pid(2) have "\<exists>q. player_get w q = Some p"
    by (auto simp: getForStreamerMessage_def split: option.splits if_splits)
  then obtain q where q: "player_get w q = Some p" by blast
  have "c_playerId (cn w p) \<noteq> []" using players_okD [OF ok q] by simp
  with rok_subscribed [OF assms(1)] pid(3) show sub: "c_sub (cn w p) = Some s" by blast
  show "p \<in> set (listPlayers w)" using mem_listPlayers [OF ok] players_okD(1) [OF ok q] q by simp
  show "fld m ''playerId'' = JStr (streamerPlayerId w p)"
    using pid(1,2) by (auto simp: getForStreamerMessage_def split: option.splits if_splits)
  show "c_open (cn w p)" "c_kind (cn w p) \<noteq> StreamerConn"
    using rok_links [OF assms(1), of p s] sub by auto
qed

lemma addressed_player_iff:
  assumes "rok (routing w)"
  shows "addressed_player s m w = Some p \<longleftrightarrow>
    p \<in> set (listPlayers w) \<and> c_sub (cn w p) = Some s \<and> fld m ''playerId'' = JStr (streamerPlayerId w p)"
proof
  assume "addressed_player s m w = Some p"
  from addressed_player_Some [OF assms this]
  show "p \<in> set (listPlayers w) \<and> c_sub (cn w p) = Some s \<and> fld m ''playerId'' = JStr (streamerPlayerId w p)"
    by simp
next
  assume h: "p \<in> set (listPlayers w) \<and> c_sub (cn w p) = Some s \<and> fld m ''playerId'' = JStr (streamerPlayerId w p)"
  note ok = rok_players [OF assms]
  from h have g: "getForStreamerMessage w (streamerPlayerId w p) = Some p"
    using getForStreamerMessage_lookup [OF ok] by simp
  have "player_get w (c_playerId (cn w p)) = Some p" using h mem_listPlayers [OF ok] by simp
  then have pid: "c_playerId (cn w p) \<noteq> []" using players_okD(2) [OF ok] by blast
  then have "streamerPlayerId w p \<noteq> []" by (simp add: streamerPlayerId_def)
  with h g pid rok_subscribed [OF assms pid] show "addressed_player s m w = Some p"
    by (simp add: addressed_player_def)
qed

end
