(* ===== verification/Signalling_Server.thy ===== *)
theory Signalling_Server
  imports Streamer_Connection
begin

text \<open>
  \<open>Signalling/src/SignallingServer.ts\<close> and the dispatch of \<open>Common/src/Protocol/SignallingProtocol.ts\<close>:
  admission of connections, peer options, the player keepalive watchdog and the events a server
  reacts to, one at a time. What the environment decides (the time, random ids, the parsed request,
  whether the journal is ready, the state of a socket) is part of the event.
\<close>

section \<open>Options\<close>

text \<open>\<open>parseBooleanOption\<close>: of the values that are not booleans, only texts are modelled.\<close>

fun parseBooleanOption :: "jsval \<Rightarrow> bool \<Rightarrow> bool" where
  "parseBooleanOption (JBool b) fallback = b"
| "parseBooleanOption (JStr s) fallback =
     (let t = to_lower (trim s) in
      if t \<in> {''1'', ''true'', ''yes'', ''on''} then True
      else if t \<in> {''0'', ''false'', ''no'', ''off''} then False
      else fallback)"
| "parseBooleanOption _ fallback = fallback"

fun option_int :: "jsval \<Rightarrow> int option" where
  "option_int (JStr s) = parse_int s"
| "option_int (JNum (Fin q)) = (if of_int \<lfloor>q\<rfloor> = q then Some \<lfloor>q\<rfloor> else None)"
| "option_int _ = None"

definition parseMinIntegerOption :: "jsval \<Rightarrow> int \<Rightarrow> int \<Rightarrow> int" where
  "parseMinIntegerOption v fallback minValue =
     (if v \<in> {JUndef, JNull, JStr []} then fallback
      else case option_int v of
        None \<Rightarrow> fallback
      | Some i \<Rightarrow> if i < minValue then fallback else i)"

definition getPeerOptions :: "world \<Rightarrow> conn_kind \<Rightarrow> string \<Rightarrow> jsval" where
  "getPeerOptions w k pid = (case g_peerOptionsProvider (w_cfg w) of
     None \<Rightarrow> g_peerOptions (w_cfg w) k
   | Some provider \<Rightarrow>
       (case provider k pid of Some v \<Rightarrow> v | None \<Rightarrow> g_peerOptions (w_cfg w) k))"

definition sendConfigMessage :: "ref \<Rightarrow> string \<Rightarrow> world \<Rightarrow> world" where
  "sendConfigMessage r peerId w = connSendMessage r (mk_msg ''config''
     [(''protocolVersion'', JStr (g_protocolVersion (w_cfg w))),
      (''peerConnectionOptions'', getPeerOptions w (c_kind (cn w r)) peerId)]) w"

section \<open>Admission\<close>

record ticket_identity =
  ti_sessionRequestId :: "string option"
  ti_shadowSessionRequestId :: "string option"
  ti_activeSessionId :: "string option"
  ti_codecPolicy :: "codec_policy option"

definition readValidatedConnectTicketIdentity :: "bool \<Rightarrow> ticket_identity option \<Rightarrow> ticket_identity option" where
  "readValidatedConnectTicketIdentity validated identity =
     (if \<not> validated then None
      else
        let sessionRequestId = session_text (Option.bind identity ti_sessionRequestId);
            activeSessionId = session_text (Option.bind identity ti_activeSessionId);
            shadow = session_text (Option.bind identity ti_shadowSessionRequestId) in
        if sessionRequestId = None \<and> shadow = None then None
        else if sessionRequestId \<noteq> None \<and> shadow \<noteq> None then None
        else Some \<lparr>ti_sessionRequestId = sessionRequestId, ti_shadowSessionRequestId = shadow,
                   ti_activeSessionId = activeSessionId,
                   ti_codecPolicy = Option.bind identity ti_codecPolicy\<rparr>)"

text \<open>
  The request of a player: what the ticket check left on it, the two query parameters as
  \<open>readScaleWorldQueryParam\<close> read them, and the random ids and journal state at that moment.
\<close>

record player_request =
  pr_validated :: bool
  pr_identity :: "ticket_identity option"
  pr_querySessionId :: "string option"
  pr_querySessionRequestId :: "string option"
  pr_connectionId :: string
  pr_qualityId :: string
  pr_journalReady :: bool

definition allocate :: "conn \<Rightarrow> world \<Rightarrow> ref \<times> world" where
  "allocate c w = (w_next w, w\<lparr>w_conns := (w_conns w)(w_next w := c), w_next := w_next w + 1\<rparr>)"

definition onStreamerConnected :: "world \<Rightarrow> world" where
  "onStreamerConnected w =
     (let sid = sanitizeStreamerId w [] None;
          (s, w) = allocate ((new_conn StreamerConn [] [] 0)
             \<lparr>c_maxSubscribers := g_maxSubscribers (w_cfg w), c_streamerId := sid\<rparr>) w;
          w = sendConfigMessage s sid w in
      snd (streamer_add s w))"

definition session_of :: "player_request \<Rightarrow> ticket_identity option \<Rightarrow> session_state \<Rightarrow> session_state" where
  "session_of req identity s =
     (let shadow = (Option.bind identity ti_shadowSessionRequestId \<noteq> None) in
      s\<lparr>s_sessionId := (if shadow then None
           else first_some (Option.bind identity ti_activeSessionId) (pr_querySessionId req)),
        s_requestId := (if shadow then None
           else first_some (Option.bind identity ti_sessionRequestId) (pr_querySessionRequestId req)),
        s_identityValidated := (Option.bind identity ti_sessionRequestId \<noteq> None),
        s_activeValidated := (Option.bind identity ti_activeSessionId \<noteq> None)\<rparr>)"

definition registerPlayerKeepalive :: "ref \<Rightarrow> world \<Rightarrow> world" where
  "registerPlayerKeepalive r w =
     (if \<not> g_keepaliveEnabled (w_cfg w) then w
      else w\<lparr>w_keepalive := map_set r 0 (w_keepalive w)\<rparr>)"

definition unregisterPlayerKeepalive :: "ref \<Rightarrow> world \<Rightarrow> world" where
  "unregisterPlayerKeepalive r w =
     (if \<not> g_keepaliveEnabled (w_cfg w) then w
      else w\<lparr>w_keepalive := map_delete r (w_keepalive w)\<rparr>)"

definition refuse_player :: "ref \<Rightarrow> world \<Rightarrow> world" where
  "refuse_player r w = (case k_admissionFailure (kc w r) of
     Some reason \<Rightarrow> protoDisconnect r (Some (1008, Some reason)) w
   | None \<Rightarrow> protoDisconnect r (Some (1013, Some ''Codec policy enforcement unavailable'')) w)"

definition admit_player :: "ref \<Rightarrow> world \<Rightarrow> world" where
  "admit_player r w =
     (let w = player_add r w in sendConfigMessage r (c_playerId (cn w r)) w)"

definition onPlayerConnected :: "player_request \<Rightarrow> world \<Rightarrow> world" where
  "onPlayerConnected req w =
     (let (r, w) = allocate (new_conn PlayerConn (pr_connectionId req) (pr_qualityId req) (w_now w)) w;
          identity = readValidatedConnectTicketIdentity (pr_validated req) (pr_identity req);
          w = upd_session r (session_of req identity) w;
          w = registerPlayerKeepalive r w in
      case identity of
        None \<Rightarrow> admit_player r w
      | Some i \<Rightarrow>
          (case initializeCodecPolicy r (ti_codecPolicy i) (ti_shadowSessionRequestId i) (pr_journalReady req) w of
             (True, w) \<Rightarrow> admit_player r w
           | (False, w) \<Rightarrow> refuse_player r (unregisterPlayerKeepalive r w)))"

definition onSFUConnected :: "world \<Rightarrow> world" where
  "onSFUConnected w =
     (let (r, w) = allocate (new_conn SfuConn [] [] 0) w;
          w = snd (streamer_add r w);
          w = player_add r w in
      sendConfigMessage r (c_streamerId (cn w r)) w)"

section \<open>Keepalive watchdog\<close>

text \<open>
  One entry of \<open>runPlayerKeepaliveTick\<close>; \<open>ready\<close> and \<open>ping_throws\<close> describe the sockets.
\<close>

definition keepalive_entry ::
  "(ref \<Rightarrow> bool) \<Rightarrow> (ref \<Rightarrow> bool) \<Rightarrow> ref \<times> nat \<Rightarrow> world \<Rightarrow> world" where
  "keepalive_entry ready ping_throws = (\<lambda>(r, missed) w.
     if \<not> ready r then w\<lparr>w_keepalive := map_delete r (w_keepalive w)\<rparr>
     else if g_maxMissedPongs (w_cfg w) \<le> int missed
     then eff (Terminated r) (w\<lparr>w_keepalive := map_delete r (w_keepalive w)\<rparr>)
     else
       let w = w\<lparr>w_keepalive := map_set r (missed + 1) (w_keepalive w)\<rparr> in
       if ping_throws r then eff (Terminated r) (w\<lparr>w_keepalive := map_delete r (w_keepalive w)\<rparr>)
       else eff (Pinged r) w)"

definition runPlayerKeepaliveTick :: "(ref \<Rightarrow> bool) \<Rightarrow> (ref \<Rightarrow> bool) \<Rightarrow> world \<Rightarrow> world" where
  "runPlayerKeepaliveTick ready ping_throws w =
     fold (keepalive_entry ready ping_throws) (w_keepalive w) w"

definition keepalivePong :: "ref \<Rightarrow> world \<Rightarrow> world" where
  "keepalivePong r w = (case map_get (w_keepalive w) r of
     None \<Rightarrow> w
   | Some _ \<Rightarrow> w\<lparr>w_keepalive := map_set r 0 (w_keepalive w)\<rparr>)"

section \<open>Closing\<close>

definition close_shadows :: "world \<Rightarrow> world" where
  "close_shadows w = fold (\<lambda>p w. if c_kind (cn w p) = PlayerConn then closeOrphanedShadow p w else w) (listPlayers w) w"

definition mark_closed :: "ref \<Rightarrow> world \<Rightarrow> world" where
  "mark_closed r = upd r (\<lambda>c. c\<lparr>c_open := False\<rparr>)"

text \<open>
  The listeners of a transport's \<open>close\<close> event, in the order they were added; a player that was
  refused admission has no registry listener, and is recognised by its empty id.
\<close>

definition onTransportClose :: "ref \<Rightarrow> world \<Rightarrow> world" where
  "onTransportClose r w = mark_closed r (case c_kind (cn w r) of
     StreamerConn \<Rightarrow> streamer_remove r (emit_disconnect r w)
   | SfuConn \<Rightarrow> player_remove r (streamer_remove r (sfuDisconnect r w))
   | PlayerConn \<Rightarrow>
       let w = unregisterPlayerKeepalive r (playerTransportClose r w) in
       if c_playerId (cn w r) = [] then w else close_shadows (player_remove r w))"

section \<open>Events\<close>

datatype event =
    EvStreamer
  | EvPlayer player_request
  | EvSfu
  | EvMessage ref jsval
  | EvClose ref
  | EvNegotiationTimeout ref
  | EvKeepaliveTick "ref \<Rightarrow> bool" "ref \<Rightarrow> bool"
  | EvPong ref
  | EvIceTimer string

text \<open>The envelope that \<open>SignallingProtocol\<close> accepts, and the dispatch to the handlers.\<close>

definition valid_envelope :: "jsval \<Rightarrow> bool" where
  "valid_envelope m \<longleftrightarrow> is_obj m \<and> (case mtype m of JStr t \<Rightarrow> t \<noteq> [] | _ \<Rightarrow> False)"

definition handleMessage :: "ref \<Rightarrow> jsval \<Rightarrow> world \<Rightarrow> world" where
  "handleMessage r m w = (case c_kind (cn w r) of
     StreamerConn \<Rightarrow> streamerMessage r m w
   | PlayerConn \<Rightarrow> playerMessage r m w
   | SfuConn \<Rightarrow> if mtype m = JStr ''endpointId'' then onEndpointId r m (set_streaming r True w)
                else sfuMessage r m w)"

definition advance :: "int \<Rightarrow> world \<Rightarrow> world" where
  "advance now w = w\<lparr>w_now := now, w_tick := w_tick w + 1\<rparr>"

fun handle :: "event \<Rightarrow> world \<Rightarrow> world" where
  "handle EvStreamer w = onStreamerConnected w"
| "handle (EvPlayer req) w = onPlayerConnected req w"
| "handle EvSfu w = onSFUConnected w"
| "handle (EvMessage r m) w = (if c_open (cn w r) \<and> valid_envelope m then handleMessage r m w else w)"
| "handle (EvClose r) w = (if c_open (cn w r) then onTransportClose r w else w)"
| "handle (EvNegotiationTimeout r) w = (if c_kind (cn w r) = PlayerConn \<and> r < w_next w then negotiationTimeout r w else w)"
| "handle (EvKeepaliveTick ready throws) w = runPlayerKeepaliveTick ready throws w"
| "handle (EvPong r) w = keepalivePong r w"
| "handle (EvIceTimer pid) w = w\<lparr>w_ice := summaryTimerFired pid (w_ice w)\<rparr>"

definition server_step :: "event \<Rightarrow> int \<Rightarrow> world \<Rightarrow> world" where
  "server_step ev now w = handle ev (advance now w)"

inductive reachable :: "config \<Rightarrow> world \<Rightarrow> bool" for cfg where
  start: "reachable cfg ((empty_world cfg)\<lparr>w_ice := new_ice_monitor en delay tracked\<rparr>)"
| step: "reachable cfg w \<Longrightarrow> reachable cfg (server_step ev now w)"

inductive_cases reachableE: "reachable cfg w"

end
