(* ===== verification/Server_Refinement.thy ===== *)
theory Server_Refinement
  imports Signalling_Server
begin

text \<open>
  Every event of the server is a sequence of steps of the routing specification, so the
  specification's invariant holds in every reachable state of the code's model.
\<close>

abbreviation rs :: "world \<Rightarrow> world \<Rightarrow> bool" where
  "rs w w' \<equiv> rstep\<^sup>*\<^sup>* (routing w) (routing w')"

lemma rs_rok: "\<lbrakk>rs w w'; rok (routing w)\<rbrakk> \<Longrightarrow> rok (routing w')"
  by (rule rsteps_rok)

lemma rs_same: "routing w' = routing w \<Longrightarrow> rs w w'"
  by simp

lemma rs_trans: "\<lbrakk>rs w w'; rs w' w''\<rbrakk> \<Longrightarrow> rs w w''"
  by simp

lemma rs_detaches: "detaches (routing w) (routing w') \<Longrightarrow> rs w w'"
  by (rule detaches_rsteps)

section \<open>Registries\<close>

lemma routing_streamer_add:
  assumes "r \<notin> set (w_streamers w)"
  shows "routing (snd (streamer_add r w)) =
    renlist r (rname r (sanitizeStreamerId w (c_streamerId (cn w r)) None) (routing w))"
proof -
  let ?w = "snd (streamer_add r w)" and ?sid = "sanitizeStreamerId w (c_streamerId (cn w r)) None"
  have "rc (routing ?w) r' = rc (rname r ?sid (routing w)) r'" for r'
    by (cases "r' = r") (simp_all add: streamer_add_conns rname_def rc_rupd del: rupd_def)
  then have "ro_conns (routing ?w) = ro_conns (rname r ?sid (routing w))" by (rule ext)
  then show ?thesis
    by (simp add: renlist_def streamer_add_result [OF assms] streamer_add_conns routing_def
        rname_def rupd_def)
qed

lemma rs_streamer_add:
  assumes "rok (routing w)" "r \<notin> set (w_streamers w)" "c_open (cn w r)" "c_kind (cn w r) \<noteq> PlayerConn"
  shows "rs w (snd (streamer_add r w))"
proof -
  let ?sid = "sanitizeStreamerId w (c_streamerId (cn w r)) None"
  have sid: "?sid \<noteq> []" "\<And>s. s \<in> set (w_streamers w) \<Longrightarrow> c_streamerId (cn w s) \<noteq> ?sid"
    by (auto dest: sanitizeStreamerId_fresh [of _ w None, THEN not_sym])
  have "rstep (routing w) (rname r ?sid (routing w))"
    using assms(3) sid by (intro rstep.name) auto
  moreover have "rstep (rname r ?sid (routing w)) (renlist r (rname r ?sid (routing w)))"
    using assms sid by (intro rstep.enlist) (auto simp: rop_simps)
  ultimately show ?thesis by (simp add: routing_streamer_add [OF assms(2)])
qed

lemma rs_streamer_remove: "rs w (streamer_remove r w)"
proof -
  have "routing (streamer_remove r w) = (if r \<in> set (w_streamers w) then rdelist r (routing w) else routing w)"
    by (simp add: streamer_remove_def) (simp add: routing_def rdelist_def)
  then show ?thesis by (simp add: r_into_rtranclp rstep.delist)
qed

lemma streamer_remove_gone: "rok (routing w) \<Longrightarrow> r \<notin> set (w_streamers (streamer_remove r w))"
  by (simp add: streamer_remove_def eff_frame rok_def streamers_ok_def)

lemma routing_player_add: "routing (player_add r w) = rjoin r (routing w)"
  by (auto simp: player_add_def set_playerId_def Let_def routing_def rjoin_def rupd_def upd_def eff_def route_def
      fun_eq_iff)

lemma rs_player_add:
  assumes "c_open (cn w r)" "c_kind (cn w r) \<noteq> StreamerConn" "c_playerId (cn w r) = []" "c_sub (cn w r) = None"
  shows "rs w (player_add r w)"
  unfolding routing_player_add using assms by (intro r_into_rtranclp rstep.join) simp_all

lemma rs_player_remove:
  assumes "rok (routing w)"
  shows "rs w (player_remove r w)"
proof (cases "player_get w (c_playerId (cn w r))")
  case None
  then show ?thesis by (simp add: player_remove_def)
next
  case (Some r')
  from rok_players [OF assms] Some have "r' = r" unfolding players_ok_def by metis
  with Some have "rstep (routing w) (rleave r (routing w))"
    by (intro rstep.leave) (simp add: player_get_def)
  moreover have "routing (player_remove r w) = rleave r (routing w)"
    using Some by (simp add: player_remove_def Let_def) (simp add: routing_def rleave_def world_simps route_def)
  ultimately show ?thesis by simp
qed

lemma player_remove_gone:
  assumes "rok (routing w)"
  shows "r \<notin> set (map snd (w_players (player_remove r w)))"
proof
  assume "r \<in> set (map snd (w_players (player_remove r w)))"
  then obtain p where p: "(p, r) \<in> set (w_players (player_remove r w))" by auto
  then have m: "(p, r) \<in> set (w_players w)"
    by (auto simp: player_remove_def Let_def world_simps split: if_splits)
  with rok_players [OF assms] have "player_get w p = Some r"
    by (simp add: players_ok_def player_get_def map_get_iff_mem)
  moreover from this rok_players [OF assms] have "c_playerId (cn w r) = p" by (simp add: players_okD)
  ultimately show False using p by (simp add: player_remove_def Let_def world_simps)
qed

section \<open>Streamers and SFUs\<close>

lemma playerSendMessage_control:
  "mtype m \<noteq> JStr ''offer'' \<and> mtype m \<noteq> JStr ''answer'' \<Longrightarrow> playerSendMessage r m w = protoSend r m w"
  by (simp add: playerSendMessage_def filterCodecMessage_def)

lemma connSendMessage_control:
  "mtype m \<noteq> JStr ''offer'' \<and> mtype m \<noteq> JStr ''answer'' \<Longrightarrow> connSendMessage r m w = protoSend r m w"
  by (cases "c_kind (cn w r)") (simp_all add: connSendMessage_def playerSendMessage_control)

lemma routing_sendConfig [simp]: "routing (sendConfigMessage r pid w) = routing w"
  by (simp add: sendConfigMessage_def connSendMessage_control)

lemma routing_emit_id_changed [simp]: "routing (emit_id_changed s sid w) = routing w"
  unfolding emit_id_changed_def
  by (rule em_emit_invariant [where P = "\<lambda>w'. routing w' = routing w"])
    (auto simp: onStreamerIdChanged_def playerSendMessage_control split: conn_kind.split)

lemma routing_onLayerPreference [simp]: "routing (onLayerPreference s m w) = routing w"
  unfolding onLayerPreference_def
  by (rule em_emit_invariant [where P = "\<lambda>w'. routing w' = routing w"]) auto

lemma rs_forward:
  assumes "rok (routing w)"
  shows "rs w (forwardMessage s m w)"
proof (cases "addressed_player s m w")
  case (Some p)
  note a = addressed_player_Some [OF assms Some]
  show ?thesis
  proof (cases "c_kind (cn w p)")
    case PlayerConn
    have "rs w (playerSendMessage p m' w)" for m'
      by (rule mv_rsteps [of p]) (auto simp: PlayerConn a)
    with Some PlayerConn show ?thesis by (simp add: forwardMessage_def connSendMessage_def)
  qed (simp_all add: forwardMessage_def connSendMessage_def Some)
qed (simp add: forwardMessage_def)

lemma routing_set_streamerId: "routing (set_streamerId s sid w) = rname s sid (routing w)"
  unfolding set_streamerId_def rname_def by (rule routing_upd_rupd) (simp add: route_def)

lemma rs_commit:
  assumes "c_open (cn w s)" "sid \<noteq> []" "\<And>s'. \<lbrakk>s' \<in> set (w_streamers w); s' \<noteq> s\<rbrakk> \<Longrightarrow> c_streamerId (cn w s') \<noteq> sid"
  shows "rs w (commit_streamerId s sid w)"
proof -
  have "rstep (routing w) (rname s sid (routing w))" using assms by (intro rstep.name) auto
  then show ?thesis by (simp add: commit_streamerId_def routing_set_streamerId r_into_rtranclp)
qed

lemma rs_reject: "rs w (reject_streamer s reason w)"
  using rs_streamer_remove [of w s] by (simp add: reject_streamer_def)

lemma rs_onEndpointId:
  assumes ok: "rok (routing w)" and op: "c_open (cn w s)"
  shows "rs w (onEndpointId s m w)"
proof -
  have c: "rs w (commit_streamerId s sid w)"
    if "sid \<noteq> []" "registry_find w sid = None \<or> registry_find w sid = Some s" for sid
  proof (rule rs_commit [where s = s, OF op that(1)])
    fix s' assume s': "s' \<in> set (w_streamers w)" "s' \<noteq> s"
    show "c_streamerId (cn w s') \<noteq> sid"
      using that(2) s' registry_find_registered [OF rok_ids [OF ok] s'(1)] by (auto simp: registry_find_None)
  qed
  have f: "rs w (commit_streamerId s (sanitizeStreamerId w req (Some s)) w)" for req
    by (rule rs_commit [where s = s, OF op])
      (auto dest: sanitizeStreamerId_fresh [of _ w "Some s", THEN not_sym])
  show ?thesis
    unfolding onEndpointId_def Let_def
    by (auto split: jsval.split option.split auth_result.split intro: c f rs_reject)
qed

lemma rs_streamerMessage:
  assumes "rok (routing w)" "c_open (cn w s)"
  shows "rs w (streamerMessage s m w)"
proof -
  have ep: "rs w (onEndpointId s m (set_streaming s True w))"
    using rs_onEndpointId [of "set_streaming s True w" s m] assms
      routing_eqD(7) [OF routing_set_streaming [of s True w]] by simp
  have ice: "rs w (forwardMessage s m (w\<lparr>w_ice := i\<rparr>))" for i
    using rs_forward [of "w\<lparr>w_ice := i\<rparr>" s m] assms by simp
  have dp: "rs w (onDisconnectPlayer s m w)"
    by (simp add: onDisconnectPlayer_def split: option.split)
  show ?thesis
    using ep ice dp rs_forward [OF assms(1)] unfolding streamerMessage_def onStreamerIceCandidate_def Let_def
    by simp
qed

lemma detaches_sfuUnsubscribe:
  "c_kind (cn w r) = SfuConn \<Longrightarrow> detaches (routing w) (routing (sfuUnsubscribe r w))"
  by (auto simp: routing_sfuUnsubscribe)

lemma detaches_sfuDisconnect:
  assumes "c_kind (cn w r) = SfuConn"
  shows "detaches (routing w) (routing (sfuDisconnect r w))"
  using detaches_trans [OF detaches_sfuUnsubscribe [OF assms]
      emit_disconnect_detaches [of "protoDisconnect r None (sfuUnsubscribe r w)" r, simplified]]
  by (simp add: sfuDisconnect_def)

lemma rs_attach_sfu:
  assumes "c_kind (cn w r) = SfuConn" "c_open (cn w r)" "c_sub (cn w r) = None" "s \<in> set (w_streamers w)"
  shows "rs w (attach_sfu r s w)"
  unfolding routing_attach_sfu [OF assms(1)] using assms
  by (intro r_into_rtranclp rstep.attach) (simp_all add: has_room_def)

lemma rs_sfuSubscribe:
  assumes "c_kind (cn w r) = SfuConn" "c_open (cn w r)"
  shows "rs w (sfuSubscribe r v w)"
proof -
  have att: "rs w (attach_sfu r s (if c_sub (cn w r) \<noteq> None then sfuUnsubscribe r w else w))"
    if "registry_find w sid = Some s" for s sid
  proof -
    let ?w = "if c_sub (cn w r) \<noteq> None then sfuUnsubscribe r w else w"
    have d: "detaches (routing w) (routing ?w)" using detaches_sfuUnsubscribe [OF assms(1)] by simp
    have "c_kind (cn ?w r) = SfuConn" "c_open (cn ?w r)" "w_streamers ?w = w_streamers w"
      using detaches_static(1,2) [OF d, of r] detaches_static(6) [OF d] assms by simp_all
    moreover have "c_sub (cn ?w r) = None" by simp
    ultimately have "rs ?w (attach_sfu r s ?w)"
      using registry_find_Some [OF that] by (intro rs_attach_sfu) simp_all
    with detaches_rsteps [OF d] show ?thesis by (rule rs_trans)
  qed
  show ?thesis
    using rs_detaches [OF detaches_sfuDisconnect [OF assms(1)]] att
    unfolding sfuSubscribe_def by (auto simp del: not_None_eq split: jsval.split option.split)
qed

lemma rs_sfuMessage:
  assumes "c_kind (cn w r) = SfuConn" "c_open (cn w r)"
  shows "rs w (sfuMessage r m w)"
proof -
  have stop: "rs w (emit_disconnect r (set_streaming r False w))"
    using rs_detaches [OF emit_disconnect_detaches [of "set_streaming r False w" r]] by simp
  show ?thesis
    using stop rs_sfuSubscribe [OF assms] rs_detaches [OF detaches_sfuUnsubscribe [OF assms(1)]]
    unfolding sfuMessage_def sfuListStreamers_def by simp
qed

section \<open>Messages and timers\<close>

lemma rs_handleMessage:
  assumes ok: "rok (routing w)" and op: "c_open (cn w r)"
  shows "rs w (handleMessage r m w)"
proof (cases "c_kind (cn w r)")
  case StreamerConn
  with rs_streamerMessage [OF assms] show ?thesis by (simp add: handleMessage_def)
next
  case PlayerConn
  with mv_rsteps [OF mv_playerMessage _ op, of m] show ?thesis by (simp add: handleMessage_def)
next
  case SfuConn
  have "rs w (onEndpointId r m (set_streaming r True w))"
    using rs_onEndpointId [of "set_streaming r True w" r m] assms
      routing_eqD(7) [OF routing_set_streaming [of r True w]] by simp
  with SfuConn rs_sfuMessage [OF SfuConn op] show ?thesis by (simp add: handleMessage_def)
qed

lemma routing_failCodec:
  assumes "c_kind (cn w r) = PlayerConn"
  shows "routing (failCodecNegotiation r reason w) = rdetach r (routing w)"
proof -
  let ?w = "clearNegotiationTimer r (upd_codec r (\<lambda>k. k\<lparr>k_failed := True\<rparr>) w)"
  obtain ok w1 where rec: "recordCodec r ''switch_failed'' (\<lambda>e. e\<lparr>ev_reason := Some reason\<rparr>) ?w = (ok, w1)"
    by fastforce
  have r1: "routing w1 = routing w"
    using routing_recordCodec [of r "''switch_failed''" "\<lambda>e. e\<lparr>ev_reason := Some reason\<rparr>" ?w] rec by simp
  have "c_kind (cn w1 r) = PlayerConn" using routing_eqD [OF r1] assms by simp
  with rec r1 show ?thesis by (simp add: failCodecNegotiation_def Let_def routing_unsubscribe)
qed

lemma detaches_timeout:
  assumes "c_kind (cn w r) = PlayerConn"
  shows "detaches (routing w) (routing (negotiationTimeout r w))"
  using assms by (auto simp: negotiationTimeout_def Let_def routing_failCodec world_simps)

lemma routing_keepaliveTick [simp]: "routing (runPlayerKeepaliveTick ready throws w) = routing w"
proof -
  have "routing (keepalive_entry ready throws e w) = routing w" for e w
    by (cases e) (simp add: keepalive_entry_def Let_def)
  then have "routing (fold (keepalive_entry ready throws) es w) = routing w" for es
    by (induction es arbitrary: w) simp_all
  then show ?thesis by (simp add: runPlayerKeepaliveTick_def)
qed

lemma routing_pong [simp]: "routing (keepalivePong r w) = routing w"
  by (simp add: keepalivePong_def split: option.split)

lemma routing_register [simp]:
  "routing (registerPlayerKeepalive r w) = routing w" "routing (unregisterPlayerKeepalive r w) = routing w"
  by (simp_all add: registerPlayerKeepalive_def unregisterPlayerKeepalive_def)

section \<open>New connections\<close>

lemma routing_allocate:
  assumes "route c = \<lparr>rt_kind = k, rt_open = True, rt_streamerId = sid, rt_maxSubscribers = mx,
    rt_subscribers = [], rt_emitter = [], rt_playerId = [], rt_sub = None\<rparr>"
  shows "routing (snd (allocate c w)) = rconnect k mx sid (routing w)"
  using assms by (auto simp: allocate_def routing_def rconnect_def rupd_def fun_eq_iff)

lemma rs_allocate:
  assumes "route c = \<lparr>rt_kind = k, rt_open = True, rt_streamerId = sid, rt_maxSubscribers = mx,
    rt_subscribers = [], rt_emitter = [], rt_playerId = [], rt_sub = None\<rparr>"
  shows "rs w (snd (allocate c w))"
  unfolding routing_allocate [OF assms] by (intro r_into_rtranclp rstep.connect)

lemma fresh_not_registered:
  assumes "rok (routing w)"
  shows "w_next w \<notin> set (w_streamers w)"
  using assms by (auto simp: rok_def streamers_ok_def fresh_ok_def)

lemma rs_streamerConnected:
  assumes ok: "rok (routing w)"
  shows "rs w (onStreamerConnected w)"
proof -
  define sid where "sid = sanitizeStreamerId w [] None"
  define c where "c = (new_conn StreamerConn [] [] 0)\<lparr>c_maxSubscribers := g_maxSubscribers (w_cfg w), c_streamerId := sid\<rparr>"
  define w1 where "w1 = snd (allocate c w)"
  define w2 where "w2 = sendConfigMessage (w_next w) sid w1"
  have r1: "rs w w1" unfolding w1_def by (rule rs_allocate) (simp add: c_def new_conn_def route_def)
  have r2: "routing w2 = routing w1" by (simp add: w2_def)
  have n: "cn w1 (w_next w) = c" "w_streamers w1 = w_streamers w" by (simp_all add: w1_def allocate_def)
  have "rs w2 (snd (streamer_add (w_next w) w2))"
  proof (rule rs_streamer_add)
    show "rok (routing w2)" using rs_rok [OF r1 ok] r2 by simp
    show "w_next w \<notin> set (w_streamers w2)"
      using routing_eqD(3) [OF r2] n fresh_not_registered [OF ok] by simp
    show "c_open (cn w2 (w_next w))" "c_kind (cn w2 (w_next w)) \<noteq> PlayerConn"
      using routing_eqD(6,7) [OF r2, of "w_next w"] n by (simp_all add: c_def new_conn_def)
  qed
  moreover have "onStreamerConnected w = snd (streamer_add (w_next w) w2)"
    by (simp add: onStreamerConnected_def Let_def w2_def w1_def c_def sid_def allocate_def)
  ultimately show ?thesis using r1 r2 by simp
qed

lemma rs_sfuConnected:
  assumes ok: "rok (routing w)"
  shows "rs w (onSFUConnected w)"
proof -
  let ?r = "w_next w"
  define w1 where "w1 = snd (allocate (new_conn SfuConn [] [] 0) w)"
  define w2 where "w2 = snd (streamer_add ?r w1)"
  have r1: "rs w w1" unfolding w1_def by (rule rs_allocate) (simp add: new_conn_def route_def)
  have n: "cn w1 ?r = new_conn SfuConn [] [] 0" "w_streamers w1 = w_streamers w"
    by (simp_all add: w1_def allocate_def)
  have r2: "rs w1 w2" unfolding w2_def
    by (rule rs_streamer_add [OF rs_rok [OF r1 ok]])
      (use n fresh_not_registered [OF ok] in \<open>simp_all add: new_conn_def\<close>)
  have "route (cn w2 ?r) = (route (cn w1 ?r))\<lparr>rt_streamerId := sanitizeStreamerId w1 (c_streamerId (cn w1 ?r)) None\<rparr>"
    unfolding w2_def by (rule streamer_add_conns(2))
  then have f: "c_open (cn w2 ?r)" "c_kind (cn w2 ?r) = SfuConn" "c_playerId (cn w2 ?r) = []" "c_sub (cn w2 ?r) = None"
    using n by (simp_all add: route_def new_conn_def)
  have "rs w2 (player_add ?r w2)" by (rule rs_player_add) (use f in simp_all)
  moreover have "onSFUConnected w = sendConfigMessage ?r (c_streamerId (cn (player_add ?r w2) ?r)) (player_add ?r w2)"
    by (simp add: onSFUConnected_def Let_def w2_def w1_def allocate_def)
  ultimately show ?thesis using r1 r2 by simp
qed

lemma rs_admit:
  assumes "c_open (cn w r)" "c_kind (cn w r) = PlayerConn" "c_playerId (cn w r) = []" "c_sub (cn w r) = None"
  shows "rs w (admit_player r w)"
  using rs_player_add [of w r] assms by (simp add: admit_player_def Let_def)

lemma rs_playerConnected:
  assumes ok: "rok (routing w)"
  shows "rs w (onPlayerConnected req w)"
proof -
  let ?r = "w_next w" and ?c = "new_conn PlayerConn (pr_connectionId req) (pr_qualityId req) (w_now w)"
  let ?i = "readValidatedConnectTicketIdentity (pr_validated req) (pr_identity req)"
  define w1 where "w1 = snd (allocate ?c w)"
  define w2 where "w2 = registerPlayerKeepalive ?r (upd_session ?r (session_of req ?i) w1)"
  have r1: "rs w w1" unfolding w1_def by (rule rs_allocate) (simp add: new_conn_def route_def)
  have r2: "routing w2 = routing w1" by (simp add: w2_def)
  have n: "cn w1 ?r = ?c" by (simp add: w1_def allocate_def)
  have adm: "rs w (admit_player ?r w')" if r: "routing w' = routing w1" for w'
  proof -
    have "rs w' (admit_player ?r w')"
      by (rule rs_admit) (use routing_eqD(6,7,12,13) [OF r, of ?r] n in \<open>simp_all add: new_conn_def\<close>)
    with r r1 show ?thesis by simp
  qed
  have eq: "onPlayerConnected req w = (case ?i of None \<Rightarrow> admit_player ?r w2
      | Some i \<Rightarrow> (case initializeCodecPolicy ?r (ti_codecPolicy i) (ti_shadowSessionRequestId i) (pr_journalReady req) w2 of
           (True, w) \<Rightarrow> admit_player ?r w | (False, w) \<Rightarrow> refuse_player ?r (unregisterPlayerKeepalive ?r w)))"
    unfolding onPlayerConnected_def w2_def w1_def allocate_def Let_def prod.case snd_conv ..
  show ?thesis
  proof (cases ?i)
    case None
    with eq adm [OF r2] show ?thesis by simp
  next
    case (Some i)
    obtain b w3 where init: "initializeCodecPolicy ?r (ti_codecPolicy i) (ti_shadowSessionRequestId i) (pr_journalReady req) w2 = (b, w3)"
      by fastforce
    with routing_initialize [of ?r "ti_codecPolicy i" "ti_shadowSessionRequestId i" "pr_journalReady req" w2] r2
    have r3: "routing w3 = routing w1" by simp
    have "routing (refuse_player ?r w') = routing w'" for w'
      by (simp add: refuse_player_def split: option.split)
    with Some eq init adm [OF r3] r3 r1 show ?thesis by (cases b) simp_all
  qed
qed

section \<open>Closed connections\<close>

lemma detaches_close_shadows: "detaches (routing w) (routing (close_shadows w))"
proof -
  let ?f = "\<lambda>p w. if c_kind (cn w p) = PlayerConn then closeOrphanedShadow p w else w"
  have one: "detaches (routing w) (routing (?f p w))" for p w
    by (auto simp: closeOrphanedShadow_def routing_playerDisconnect)
  have "detaches (routing w) (routing (fold ?f ps w))" for ps w
  proof (induction ps arbitrary: w)
    case (Cons p ps)
    show ?case using detaches_trans [OF one [of w p] Cons.IH] by (simp only: fold_simps)
  qed simp
  then show ?thesis by (simp add: close_shadows_def)
qed

lemma rs_mark_closed:
  assumes "c_sub (cn w r) = None" "\<And>r'. c_sub (cn w r') \<noteq> Some r" "r \<notin> set (w_streamers w)"
    "r \<notin> set (map snd (w_players w))"
  shows "rs w (mark_closed r w)"
proof -
  have "routing (mark_closed r w) = rclose r (routing w)"
    unfolding mark_closed_def rclose_def by (rule routing_upd_rupd) (simp add: route_def)
  with assms show ?thesis by (simp add: r_into_rtranclp rstep.close)
qed

lemma emit_disconnect_nobody:
  "rok (routing w) \<Longrightarrow> c_sub (cn (emit_disconnect s w) r) \<noteq> Some s"
  using fire_nobody_left by (simp add: emit_disconnect_def del: fire_disconnect.simps)

lemma not_member:
  assumes "rok (routing w)" "c_kind (cn w r) = StreamerConn \<or> c_playerId (cn w r) = []"
  shows "r \<notin> set (map snd (w_players w))"
proof
  assume "r \<in> set (map snd (w_players w))"
  then obtain p where "(p, r) \<in> set (w_players w)" by auto
  with assms(1) have "map_get (w_players w) p = Some r" by (simp add: rok_def members_ok_def map_get_iff_mem)
  with assms show False by (auto simp: rok_def members_ok_def)
qed

lemma rs_close:
  assumes ok: "rok (routing w)" and op: "c_open (cn w r)"
  shows "rs w (onTransportClose r w)"
proof (cases "c_kind (cn w r)")
  case StreamerConn
  let ?w1 = "emit_disconnect r w" let ?w2 = "streamer_remove r ?w1"
  note d = emit_disconnect_detaches [of w r]
  have rs2: "rs w ?w2" using rs_detaches [OF d] rs_streamer_remove by (rule rs_trans)
  have k: "c_kind (cn ?w2 r) = StreamerConn" using detaches_static(1) [OF d, of r] StreamerConn by simp
  note ok2 = rs_rok [OF rs2 ok]
  have "rs ?w2 (mark_closed r ?w2)"
  proof (rule rs_mark_closed)
    show "c_sub (cn ?w2 r) = None" using rok_links [OF ok2, of r] k by (cases "c_sub (cn ?w2 r)") auto
    show "c_sub (cn ?w2 r') \<noteq> Some r" for r' using emit_disconnect_nobody [OF ok] by simp
    show "r \<notin> set (w_streamers ?w2)" by (rule streamer_remove_gone [OF detaches_rok [OF d ok]])
    show "r \<notin> set (map snd (w_players ?w2))" by (rule not_member [OF ok2 disjI1 [OF k]])
  qed
  with rs2 have "rs w (mark_closed r ?w2)" by (rule rs_trans)
  then show ?thesis by (simp add: onTransportClose_def StreamerConn)
next
  case SfuConn
  let ?w1 = "sfuDisconnect r w" let ?w2 = "streamer_remove r ?w1" let ?w3 = "player_remove r ?w2"
  note d = detaches_sfuDisconnect [OF SfuConn]
  have rs2: "rs w ?w2" using rs_detaches [OF d] rs_streamer_remove by (rule rs_trans)
  note ok2 = rs_rok [OF rs2 ok]
  have rs3: "rs w ?w3" using rs2 rs_player_remove [OF ok2] by (rule rs_trans)
  have none: "c_sub (cn ?w1 r) = None"
    using detaches_static(9) [OF emit_disconnect_detaches [of "protoDisconnect r None (sfuUnsubscribe r w)" r], of r]
    by (auto simp: sfuDisconnect_def protoDisconnect_def eff_frame)
  have "rs ?w3 (mark_closed r ?w3)"
  proof (rule rs_mark_closed)
    show "c_sub (cn ?w3 r) = None" using none by simp
    have "rok (routing (protoDisconnect r None (sfuUnsubscribe r w)))"
      using detaches_rok [OF detaches_sfuUnsubscribe [OF SfuConn] ok] by simp
    then show "c_sub (cn ?w3 r') \<noteq> Some r" for r' using emit_disconnect_nobody by (simp add: sfuDisconnect_def)
    show "r \<notin> set (w_streamers ?w3)" using streamer_remove_gone [OF detaches_rok [OF d ok]] by simp
    show "r \<notin> set (map snd (w_players ?w3))" by (rule player_remove_gone [OF ok2])
  qed
  with rs3 have "rs w (mark_closed r ?w3)" by (rule rs_trans)
  then show ?thesis by (simp add: onTransportClose_def SfuConn)
next
  case PlayerConn
  let ?w1 = "unregisterPlayerKeepalive r (playerTransportClose r w)"
  have mv: "mv r w (playerTransportClose r w)" by (rule mv_transportClose)
  have rs1: "rs w ?w1" using mv_rsteps [OF mv PlayerConn op] by simp
  note ok1 = rs_rok [OF rs1 ok]
  have eq: "cn ?w1 = cn (playerTransportClose r w)" by (simp add: unregisterPlayerKeepalive_def)
  have f: "c_sub (cn ?w1 r) = None" "c_kind (cn ?w1 r) = PlayerConn"
    using mv_static(1) [OF mv PlayerConn, of r] PlayerConn by (simp_all add: eq)
  define w2 where "w2 = (if c_playerId (cn ?w1 r) = [] then ?w1 else close_shadows (player_remove r ?w1))"
  have d: "detaches (routing (player_remove r ?w1)) (routing (close_shadows (player_remove r ?w1)))"
    by (rule detaches_close_shadows)
  have rs2: "rs w w2"
    unfolding w2_def using rs1 rs_trans [OF rs_trans [OF rs1 rs_player_remove [OF ok1]] rs_detaches [OF d]] by simp
  note ok2 = rs_rok [OF rs2 ok]
  have g: "c_sub (cn w2 r) = None" "c_kind (cn w2 r) = PlayerConn"
    using f detaches_static(1,9) [OF d, of r] by (auto simp: w2_def)
  have "rs w2 (mark_closed r w2)"
  proof (rule rs_mark_closed [OF g(1)])
    show "c_sub (cn w2 r') \<noteq> Some r" for r' using rok_links [OF ok2, of r' r] g(2) by auto
    show "r \<notin> set (w_streamers w2)" using ok2 g(2) by (auto simp: rok_def streamers_ok_def)
    show "r \<notin> set (map snd (w_players w2))"
    proof (cases "c_playerId (cn ?w1 r) = []")
      case True
      with not_member [OF ok1] show ?thesis by (simp add: w2_def)
    next
      case False
      with player_remove_gone [OF ok1, of r] detaches_static(7) [OF d] show ?thesis by (simp add: w2_def)
    qed
  qed
  with rs2 have "rs w (mark_closed r w2)" by (rule rs_trans)
  then show ?thesis by (simp add: onTransportClose_def PlayerConn w2_def Let_def)
qed

section \<open>The server refines the specification\<close>

lemma routing_advance [simp]: "routing (advance now w) = routing w"
  by (simp add: advance_def routing_def)

lemma rs_handle:
  assumes "rok (routing w)"
  shows "rs w (handle ev w)"
proof (cases ev)
  case (EvNegotiationTimeout r)
  then show ?thesis using rs_detaches [OF detaches_timeout] by simp
qed (use assms rs_streamerConnected rs_playerConnected rs_sfuConnected rs_handleMessage rs_close in simp_all)

lemma server_step_refines: "rok (routing w) \<Longrightarrow> rs w (server_step ev now w)"
  using rs_handle [of "advance now w" ev] by (simp add: server_step_def)

lemma routing_set_ice: "routing (w\<lparr>w_ice := i\<rparr>) = routing w"
  by (rule routing_ice)

lemma reachable_ok: "reachable cfg w \<Longrightarrow> rok (routing w) \<and> limit_ok (routing w)"
proof (induction rule: reachable.induct)
  case (step w ev now)
  then show ?case
    using server_step_refines [of w ev now] rsteps_rok rsteps_limit by blast
qed (simp add: rok_empty)

end
