(* ===== verification/Player_Actions.thy ===== *)
theory Player_Actions
  imports Server_Refinement
begin

text \<open>
  What a player connection may do: a second abstract specification, over codec state and log. Every
  method of \<open>PlayerConnection\<close> is a sequence of these actions of its own connection. Descriptions are
  governed in both directions, a message to a streamer carries the player's own id, evidence is
  numbered without gaps, and a codec is chosen only before any description has passed. It subscribes to
  streamers of \<open>A\<close> only.
\<close>

definition media_type :: "jsval \<Rightarrow> bool" where
  "media_type m \<longleftrightarrow> mtype m = JStr ''offer'' \<or> mtype m = JStr ''answer''"

definition governed_sdp :: "codec option \<Rightarrow> jsval \<Rightarrow> bool" where
  "governed_sdp sel v \<longleftrightarrow> (\<exists>c sdp av out. sel = Some c \<and> restrictVideoSdp (JStr sdp) c = Inr (out, av) \<and> v = JStr out)"

definition quiet :: "ref \<Rightarrow> effect \<Rightarrow> bool" where
  "quiet r e = (case e of Closing r' _ _ \<Rightarrow> r' = r | Notified _ _ \<Rightarrow> True | Negotiation _ _ _ _ \<Rightarrow> True
     | Quality _ _ \<Rightarrow> True | _ \<Rightarrow> False)"

text \<open>Codec fields that no action but the named ones changes, and flags that are never reset.\<close>

definition keeps :: "codec_state \<Rightarrow> codec_state \<Rightarrow> bool" where
  "keeps k k' \<longleftrightarrow> k_policy k' = k_policy k \<and> k_shadow k' = k_shadow k \<and> k_connectionId k' = k_connectionId k
     \<and> k_sequence k' = k_sequence k \<and> k_selected k' = k_selected k \<and> k_generation k \<le> k_generation k'
     \<and> (k_finalized k \<longrightarrow> k_finalized k') \<and> (k_failed k \<longrightarrow> k_failed k')
     \<and> (k_hasSubscribed k \<longrightarrow> k_hasSubscribed k')"

definition same_identity :: "session_state \<Rightarrow> session_state \<Rightarrow> bool" where
  "same_identity s s' \<longleftrightarrow> s_sessionId s' = s_sessionId s \<and> s_requestId s' = s_requestId s
     \<and> s_identityValidated s' = s_identityValidated s \<and> s_activeValidated s' = s_activeValidated s"

definition bookkeeping :: "conn \<Rightarrow> conn \<Rightarrow> bool" where
  "bookkeeping c c' \<longleftrightarrow> c_kind c' = c_kind c \<and> c_open c' = c_open c \<and> c_playerId c' = c_playerId c
     \<and> c_sub c' = c_sub c \<and> c_codec c' = c_codec c \<and> c_session c' = c_session c"

definition governs :: "world \<Rightarrow> ref \<Rightarrow> jsval \<Rightarrow> bool" where
  "governs w r m \<longleftrightarrow> (policy_on w r \<and> media_type m \<longrightarrow>
     k_finalized (kc w r) \<and> governed_sdp (k_selected (kc w r)) (fld m ''sdp''))"

inductive pact :: "ref \<Rightarrow> ref set \<Rightarrow> world \<Rightarrow> world \<Rightarrow> bool" for r A where
  quiet: "quiet r e \<Longrightarrow> pact r A w (eff e w)"
| self: "governs w r m \<Longrightarrow> pact r A w (eff (Sent r m) w)"
| up: "\<lbrakk>c_sub (cn w r) = Some s; fld m ''playerId'' = JStr (streamerPlayerId w r); governs w r m\<rbrakk>
    \<Longrightarrow> pact r A w (eff (Sent s m) w)"
| recorded: "\<lbrakk>policy_on w r; ev_sequence e = k_sequence (kc w r) + 1; ev_connectionId e = k_connectionId (kc w r);
    \<exists>rec. g_recorder (w_cfg w) = Some rec \<and> rec (w_tick w) e\<rbrakk>
    \<Longrightarrow> pact r A w (upd_codec r (\<lambda>k. k\<lparr>k_sequence := k_sequence k + 1\<rparr>) (eff (Recorded r e) w))"
| codec: "keeps (kc w r) (f (kc w r)) \<Longrightarrow> pact r A w (upd_codec r f w)"
| session: "same_identity (sc w r) (f (sc w r)) \<Longrightarrow> pact r A w (upd_session r f w)"
| ice: "pact r A w (w\<lparr>w_ice := i\<rparr>)"
| select: "\<lbrakk>k_policy (kc w r) = Some p; c = cp_defaultCodec p \<or> c \<in> set (cp_allowedCodecs p) \<or> k_selected (kc w r) = Some c;
    \<not> k_hasSubscribed (kc w r); \<forall>m. Sent r m \<in> set (w_out w) \<longrightarrow> \<not> media_type m\<rbrakk>
    \<Longrightarrow> pact r A w (upd_codec r (\<lambda>k. k\<lparr>k_selected := Some c\<rparr>) w)"
| attach: "\<lbrakk>c_sub (cn w r) = None; c_kind (cn w s) \<noteq> PlayerConn; s < w_next w; s \<in> A;
    policy_on w r \<Longrightarrow> c_kind (cn w s) = StreamerConn \<and> \<not> h264_conflict r s w
      \<and> k_hasSubscribed (kc w r) \<and> k_finalized (kc w r)\<rbrakk>
    \<Longrightarrow> pact r A w (upd r (\<lambda>c. c\<lparr>c_sub := Some s\<rparr>) w)"
| detach: "pact r A w (upd r (\<lambda>c. c\<lparr>c_sub := None\<rparr>) w)"
| book: "bookkeeping (cn w x) (f (cn w x)) \<Longrightarrow> pact r A w (upd x f w)"

section \<open>What actions leave alone\<close>

lemma pact_static:
  assumes "pact r A w w'"
  shows "w_cfg w' = w_cfg w" "w_next w' = w_next w" "w_streamers w' = w_streamers w" "w_players w' = w_players w"
    "w_tick w' = w_tick w" "c_kind (cn w' x) = c_kind (cn w x)" "c_open (cn w' x) = c_open (cn w x)"
    "c_playerId (cn w' x) = c_playerId (cn w x)" "k_policy (kc w' x) = k_policy (kc w x)"
    "k_shadow (kc w' x) = k_shadow (kc w x)" "k_connectionId (kc w' x) = k_connectionId (kc w x)"
    "same_identity (sc w x) (sc w' x)" "k_generation (kc w x) \<le> k_generation (kc w' x)"
    "k_finalized (kc w x) \<longrightarrow> k_finalized (kc w' x)" "k_hasSubscribed (kc w x) \<longrightarrow> k_hasSubscribed (kc w' x)"
    "x \<noteq> r \<Longrightarrow> kc w' x = kc w x \<and> sc w' x = sc w x \<and> c_sub (cn w' x) = c_sub (cn w x)"
  using assms by (cases rule: pact.cases, simp_all add: world_simps keeps_def same_identity_def bookkeeping_def fun_upd_apply)+

lemma pacts_static:
  assumes "(pact r A)\<^sup>*\<^sup>* w w'"
  shows "w_cfg w' = w_cfg w" "w_next w' = w_next w" "w_streamers w' = w_streamers w" "w_players w' = w_players w"
    "w_tick w' = w_tick w" "c_kind (cn w' x) = c_kind (cn w x)" "c_open (cn w' x) = c_open (cn w x)"
    "c_playerId (cn w' x) = c_playerId (cn w x)" "k_policy (kc w' x) = k_policy (kc w x)"
    "k_shadow (kc w' x) = k_shadow (kc w x)" "k_connectionId (kc w' x) = k_connectionId (kc w x)"
    "k_generation (kc w x) \<le> k_generation (kc w' x)"
    "x \<noteq> r \<Longrightarrow> kc w' x = kc w x \<and> sc w' x = sc w x \<and> c_sub (cn w' x) = c_sub (cn w x)"
  using assms
  by (induction rule: rtranclp_induct) (simp_all add: pact_static, meson pact_static(13) order_trans)

definition streamers_fine :: "world \<Rightarrow> bool" where
  "streamers_fine w \<longleftrightarrow> (\<forall>s \<in> set (w_streamers w). c_kind (cn w s) \<noteq> PlayerConn \<and> s < w_next w)"

definition pa :: "ref \<Rightarrow> ref set \<Rightarrow> world \<Rightarrow> world \<Rightarrow> bool" where
  "pa r A w w' \<longleftrightarrow> (streamers_fine w \<longrightarrow> (pact r A)\<^sup>*\<^sup>* w w')"

lemma pa_refl [simp, intro]: "pa r A w w"
  by (simp add: pa_def)

lemma pacts_fine: "\<lbrakk>(pact r A)\<^sup>*\<^sup>* w w'; streamers_fine w\<rbrakk> \<Longrightarrow> streamers_fine w'"
  by (simp add: streamers_fine_def pacts_static [of r A w w'])

lemma pa_step:
  assumes "pa r A w w'" "streamers_fine w' \<Longrightarrow> pact r A w' w''"
  shows "pa r A w w''"
  using assms pacts_fine [of r A w w'] unfolding pa_def by (auto intro: rtranclp.rtrancl_into_rtrancl)

lemma pa_trans: "\<lbrakk>pa r A w w'; pa r A w' w''\<rbrakk> \<Longrightarrow> pa r A w w''"
  using pacts_fine [of r A w w'] unfolding pa_def by auto

named_theorems pa_intros

lemma pa_quiet: "\<lbrakk>pa r A w w'; quiet r e\<rbrakk> \<Longrightarrow> pa r A w (eff e w')"
  by (erule pa_step) (rule pact.quiet)

lemma pa_notified [pa_intros]:
  "pa r A w w' \<Longrightarrow> pa r A w (eff (Notified n vs) w')"
  "pa r A w w' \<Longrightarrow> pa r A w (eff (Negotiation n a b c) w')"
  "pa r A w w' \<Longrightarrow> pa r A w (eff (Quality p s) w')"
  "pa r A w w' \<Longrightarrow> pa r A w (protoDisconnect r cr w')"
  by (simp_all add: pa_quiet quiet_def protoDisconnect_def split: option.split)

lemma pa_codec: "\<lbrakk>pa r A w w'; keeps (kc w' r) (f (kc w' r))\<rbrakk> \<Longrightarrow> pa r A w (upd_codec r f w')"
  by (erule pa_step) (rule pact.codec)

lemma pa_session: "\<lbrakk>pa r A w w'; same_identity (sc w' r) (f (sc w' r))\<rbrakk> \<Longrightarrow> pa r A w (upd_session r f w')"
  by (erule pa_step) (rule pact.session)

lemma pa_ice [pa_intros]: "pa r A w w' \<Longrightarrow> pa r A w (w'\<lparr>w_ice := i\<rparr>)"
  by (erule pa_step) (rule pact.ice)

lemma pa_self: "\<lbrakk>pa r A w w'; governs w' r m\<rbrakk> \<Longrightarrow> pa r A w (protoSend r m w')"
  unfolding protoSend_def by (erule pa_step) (rule pact.self)

lemma governs_control: "\<not> media_type m \<Longrightarrow> governs w r m"
  by (simp add: governs_def)

lemma media_type_mk_msg [simp]: "media_type (mk_msg t fs) \<longleftrightarrow> t = ''offer'' \<or> t = ''answer''"
  by (simp add: media_type_def)

lemma pa_forward:
  assumes "pa r A w w'" "is_obj m" "governs w' r m"
  shows "pa r A w (forwardToStreamer r m w')"
proof (cases "c_sub (cn w' r)")
  case (Some s)
  have "governs w' r (put_fld ''playerId'' v m)" for v
    using assms(2,3) by (simp add: governs_def media_type_def fld_put_fld)
  with Some assms show ?thesis
    unfolding forwardToStreamer_def protoSend_def by (simp add: pa_step [OF assms(1)] pact.up fld_put_fld)
qed (simp add: forwardToStreamer_def assms)

section \<open>The methods are actions\<close>

lemma pa_clearTimer [pa_intros]: "pa r A w w' \<Longrightarrow> pa r A w (clearNegotiationTimer r w')"
  unfolding clearNegotiationTimer_def by (erule pa_codec) (simp add: keeps_def)

lemma pa_startTimer [pa_intros]: "pa r A w w' \<Longrightarrow> pa r A w (startNegotiationTimer r w')"
  unfolding startNegotiationTimer_def by (auto intro: pa_codec simp: keeps_def)

lemma pa_record:
  assumes "pa r A w w'" "\<And>e. ev_sequence (f e) = ev_sequence e \<and> ev_connectionId (f e) = ev_connectionId e"
  shows "pa r A w (snd (recordCodec r t f w'))"
proof -
  have "pa r A w (upd_codec r (\<lambda>k. k\<lparr>k_sequence := k_sequence k + 1\<rparr>) (eff (Recorded r (f (evidence_of w' r q t p))) w'))"
    if "k_policy (kc w' r) = Some p" "g_recorder (w_cfg w') = Some rec" "rec (w_tick w') (f (evidence_of w' r q t p))"
    for q p rec
    by (rule pa_step [OF assms(1)], rule pact.recorded)
      (use that assms(2) in \<open>auto simp: policy_on_def evidence_of_def\<close>)
  with assms(1) show ?thesis
    by (auto simp: recordCodec_def Let_def simp del: One_nat_def add_Suc_right split: option.split)
qed

lemma pa_record_eq:
  assumes "recordCodec r t f w' = (b, w'')" "pa r A w w'"
    "\<And>e. ev_sequence (f e) = ev_sequence e \<and> ev_connectionId (f e) = ev_connectionId e"
  shows "pa r A w w''"
  using pa_record [OF assms(2,3), of t] assms(1) by simp

lemma pa_sendCodecState [pa_intros]: "pa r A w w' \<Longrightarrow> pa r A w (sendCodecState r st reason w')"
  unfolding sendCodecState_def by (auto intro!: pa_self governs_control)

lemma pa_book: "\<lbrakk>pa r A w w'; bookkeeping (cn w' x) (f (cn w' x))\<rbrakk> \<Longrightarrow> pa r A w (upd x f w')"
  by (erule pa_step) (rule pact.book)

lemma pa_unsubscribe [pa_intros]:
  assumes "pa r A w w'"
  shows "pa r A w (unsubscribe r w')"
proof -
  define w1 where "w1 = (if c_sub (cn w' r) \<noteq> None \<and> s_identityValidated (sc w' r) \<and> k_shadow (kc w' r) = None
     then eff (Negotiation ''streamer_negotiation_abandoned'' (c_sub (cn w' r))
        (s_requestId (sc w' r)) (Some (c_playerId (cn w' r)))) w' else w')"
  define w2 where "w2 = upd_codec r (\<lambda>k. k\<lparr>k_offer := None, k_offerFromStreamer := None, k_negotiated := False\<rparr>) w1"
  have p1: "pa r A w w1" using assms by (auto simp: w1_def intro: pa_intros)
  have p2: "pa r A w w2" unfolding w2_def by (rule pa_codec [OF p1]) (simp add: keeps_def)
  have eq: "unsubscribe r w' = (case c_sub (cn w2 r) of None \<Rightarrow> w2 | Some s \<Rightarrow>
      let w3 = upd s (\<lambda>c. c\<lparr>c_subscribers := set_delete (c_playerId (cn w2 r)) (c_subscribers c)\<rparr>) w2;
          w4 = forwardToStreamer r (mk_msg ''playerDisconnected'' [(''playerId'', JStr (c_playerId (cn w3 r)))]) w3;
          w5 = upd s (\<lambda>c. c\<lparr>c_emitter := em_off Disconnected r (em_off Id_changed r (c_emitter c))\<rparr>) w4 in
      upd r (\<lambda>c. c\<lparr>c_sub := None\<rparr>) w5)"
    unfolding unsubscribe_def w2_def w1_def Let_def ..
  show ?thesis
  proof (cases "c_sub (cn w2 r)")
    case None
    with eq p2 show ?thesis by simp
  next
    case (Some s)
    let ?w3 = "upd s (\<lambda>c. c\<lparr>c_subscribers := set_delete (c_playerId (cn w2 r)) (c_subscribers c)\<rparr>) w2"
    let ?w4 = "forwardToStreamer r (mk_msg ''playerDisconnected'' [(''playerId'', JStr (c_playerId (cn ?w3 r)))]) ?w3"
    let ?w5 = "upd s (\<lambda>c. c\<lparr>c_emitter := em_off Disconnected r (em_off Id_changed r (c_emitter c))\<rparr>) ?w4"
    have p3: "pa r A w ?w3" by (rule pa_book [OF p2]) (simp add: bookkeeping_def)
    have p4: "pa r A w ?w4" by (rule pa_forward [OF p3]) (simp_all add: governs_control)
    have p5: "pa r A w ?w5" by (rule pa_book [OF p4]) (simp add: bookkeeping_def)
    have "pa r A w (upd r (\<lambda>c. c\<lparr>c_sub := None\<rparr>) ?w5)" by (rule pa_step [OF p5]) (rule pact.detach)
    with eq Some show ?thesis by (simp add: Let_def)
  qed
qed

lemma pa_disconnect [pa_intros]: "pa r A w w' \<Longrightarrow> pa r A w (playerDisconnect r w')"
  unfolding playerDisconnect_def by (intro pa_intros)

lemma pa_set_failed [pa_intros]: "pa r A w w' \<Longrightarrow> pa r A w (set_failed r w')"
  unfolding set_failed_def by (erule pa_codec) (simp add: keeps_def)

lemma pa_fail [pa_intros]:
  assumes "pa r A w w'"
  shows "pa r A w (failCodecNegotiation r reason w')"
proof -
  have f: "pa r A w (clearNegotiationTimer r (upd_codec r (\<lambda>k. k\<lparr>k_failed := True\<rparr>) w'))"
    by (rule pa_clearTimer, rule pa_codec [OF assms]) (simp add: keeps_def)
  obtain b w1 where rec: "recordCodec r ''switch_failed'' (\<lambda>e. e\<lparr>ev_reason := Some reason\<rparr>)
      (clearNegotiationTimer r (upd_codec r (\<lambda>k. k\<lparr>k_failed := True\<rparr>) w')) = (b, w1)" by fastforce
  from pa_record_eq [OF this f] have "pa r A w w1" by simp
  then show ?thesis
    unfolding failCodecNegotiation_def Let_def rec prod.case by (intro pa_intros)
qed

lemma pa_restart [pa_intros]:
  assumes "pa r A w w'"
  shows "pa r A w (restart_generation r w')"
proof -
  let ?f = "\<lambda>k. k\<lparr>k_generation := k_generation k + 1, k_offer := None, k_offerFromStreamer := None,
     k_negotiated := False, k_lastFrames := 0, k_lastBytes := 0, k_observed := None\<rparr>"
  let ?w = "if \<not> k_hasSubscribed (kc w' r) then w' else sendCodecState r ''restarting'' None (upd_codec r ?f w')"
  have "pa r A w (upd_codec r ?f w')" by (rule pa_codec [OF assms]) (simp add: keeps_def)
  then have "pa r A w ?w" using assms by (auto intro: pa_intros)
  then have "pa r A w (upd_codec r (\<lambda>k. k\<lparr>k_hasSubscribed := True\<rparr>) ?w)" by (rule pa_codec) (simp add: keeps_def)
  with assms show ?thesis by (simp add: restart_generation_def Let_def)
qed

text \<open>What the conflict check of \<open>subscribe\<close> reads is not changed before the attachment.\<close>

lemma conflict_cong:
  assumes "w_players w' = w_players w" "\<And>p. k_selected (kc w' p) = k_selected (kc w p)"
    "\<And>p. c_kind (cn w' p) = c_kind (cn w p)" "\<And>p. p \<noteq> r \<Longrightarrow> c_sub (cn w' p) = c_sub (cn w p)"
  shows "h264_conflict r s w' = h264_conflict r s w"
  unfolding h264_conflict_def listPlayers_def assms(1) list_ex_iff using assms(2,3,4) by metis

lemma unsubscribe_selected: "k_selected (kc (unsubscribe r w) p) = k_selected (kc w p)"
  by (simp add: unsubscribe_def Let_def forwardToStreamer_def world_simps split: option.split)

lemma restart_selected: "k_selected (kc (restart_generation r w) p) = k_selected (kc w p)"
  by (simp add: restart_generation_def Let_def sendCodecState_def world_simps)

lemma restart_conns: "c_sub (cn (restart_generation r w) p) = c_sub (cn w p)"
  "c_kind (cn (restart_generation r w) p) = c_kind (cn w p)" "w_players (restart_generation r w) = w_players w"
  "w_streamers (restart_generation r w) = w_streamers w" "w_next (restart_generation r w) = w_next w"
  using routing_eqD [OF routing_restart [of r w]] by simp_all

lemma unsubscribe_conns: "p \<noteq> r \<Longrightarrow> c_sub (cn (unsubscribe r w) p) = c_sub (cn w p)"
  "c_kind (cn (unsubscribe r w) p) = c_kind (cn w p)" "w_players (unsubscribe r w) = w_players w"
  "w_streamers (unsubscribe r w) = w_streamers w" "w_next (unsubscribe r w) = w_next w"
  "k_finalized (kc (unsubscribe r w) p) = k_finalized (kc w p)"
  "k_hasSubscribed (kc (unsubscribe r w) p) = k_hasSubscribed (kc w p)"
  "k_policy (kc (unsubscribe r w) p) = k_policy (kc w p)"
  by (simp_all add: unsubscribe_def Let_def forwardToStreamer_def world_simps split: option.split)

lemma restart_flags:
  "k_finalized (kc (restart_generation r w) r) = k_finalized (kc w r)"
  "k_policy (kc (restart_generation r w) r) = k_policy (kc w r)"
  "policy_on w r \<Longrightarrow> k_hasSubscribed (kc (restart_generation r w) r)"
  by (simp_all add: restart_generation_def Let_def sendCodecState_def world_simps policy_on_def)

lemma pa_attach:
  assumes p: "pa r A w w'" and g: "c_sub (cn w' r) = None" "s \<in> set (w_streamers w')" "s \<in> A"
    "policy_on w' r \<Longrightarrow> c_kind (cn w' s) = StreamerConn \<and> \<not> h264_conflict r s w'
      \<and> k_hasSubscribed (kc w' r) \<and> k_finalized (kc w' r)"
  shows "pa r A w (attach_player r s w')"
proof -
  let ?w1 = "upd r (\<lambda>c. c\<lparr>c_sub := Some s\<rparr>) w'"
  let ?w2 = "startNegotiationTimer r (upd_codec r (\<lambda>k. k\<lparr>k_descriptionReceived := False\<rparr>) ?w1)"
  let ?w3 = "upd s (\<lambda>c. c\<lparr>c_subscribers := set_add (c_playerId (cn ?w2 r)) (c_subscribers c)\<rparr>) ?w2"
  let ?w4 = "upd s (\<lambda>c. c\<lparr>c_emitter := em_on Disconnected r (em_on Id_changed r (c_emitter c))\<rparr>) ?w3"
  let ?m = "mk_msg ''playerConnected'' [(''playerId'', JStr (c_playerId (cn ?w4 r))), (''dataChannel'', JBool True), (''sfu'', JBool False)]"
  have p1: "pa r A w ?w1"
    by (rule pa_step [OF p], rule pact.attach) (use g in \<open>auto simp: streamers_fine_def\<close>)
  have p2: "pa r A w ?w2" by (intro pa_startTimer pa_codec [OF p1]) (simp add: keeps_def)
  have p3: "pa r A w ?w3" by (rule pa_book [OF p2]) (simp add: bookkeeping_def)
  have p4: "pa r A w ?w4" by (rule pa_book [OF p3]) (simp add: bookkeeping_def)
  have p5: "pa r A w (forwardToStreamer r ?m ?w4)" by (rule pa_forward [OF p4]) (simp_all add: governs_control)
  then show ?thesis unfolding attach_player_def Let_def by (auto intro: pa_intros)
qed

lemma pa_subscribe:
  assumes p0: "pa r A w w'" and sub: "\<And>sid s. v = JStr sid \<Longrightarrow> registry_find w' sid = Some s \<Longrightarrow> s \<in> A"
  shows "pa r A w (subscribe r v w')"
proof -
  let ?w = "upd_codec r (\<lambda>k. k\<lparr>k_finalized := True\<rparr>) w'"
  have p: "pa r A w ?w" by (rule pa_codec [OF p0]) (simp add: keeps_def)
  have att: "pa r A w (attach_player r s (restart_generation r w2))"
    if fs: "registry_find ?w sid = Some s" and w2: "w2 = (if c_sub (cn ?w r) \<noteq> None then unsubscribe r ?w else ?w)"
      and direct: "\<not> (policy_on ?w r \<and> c_kind (cn ?w s) \<noteq> StreamerConn)"
      and free: "\<not> (policy_on ?w r \<and> h264_conflict r s ?w)" and A: "s \<in> A" for sid s w2
  proof (rule pa_attach)
    have "pa r A w w2" using p by (auto simp: w2 intro: pa_intros)
    then show "pa r A w (restart_generation r w2)" by (rule pa_restart)
    show "c_sub (cn (restart_generation r w2) r) = None" by (simp add: restart_conns w2)
    show "s \<in> A" by (rule A)
    have st: "w_streamers w2 = w_streamers ?w" "c_kind (cn w2 x) = c_kind (cn ?w x)" "w_players w2 = w_players ?w"
      "k_finalized (kc w2 r)" "k_policy (kc w2 x) = k_policy (kc ?w x)" for x
      by (simp_all add: w2 unsubscribe_conns world_simps)
    show "s \<in> set (w_streamers (restart_generation r w2))"
      using registry_find_Some [OF fs] by (simp add: restart_conns st)
    assume pol: "policy_on (restart_generation r w2) r"
    then have pol2: "policy_on w2 r" "policy_on ?w r" by (simp_all add: policy_on_def restart_flags st)
    have "h264_conflict r s (restart_generation r w2) = h264_conflict r s ?w"
      by (rule conflict_cong)
        (simp_all add: restart_conns restart_selected st, simp_all add: w2 unsubscribe_conns unsubscribe_selected)
    with pol2 direct free show "c_kind (cn (restart_generation r w2) s) = StreamerConn
        \<and> \<not> h264_conflict r s (restart_generation r w2)
        \<and> k_hasSubscribed (kc (restart_generation r w2) r) \<and> k_finalized (kc (restart_generation r w2) r)"
      by (simp add: restart_conns restart_flags st)
  qed
  have unsub: "pa r A w (unsubscribe r ?w)" by (rule pa_unsubscribe [OF p])
  have named: "s \<in> A" if "v = JStr sid" "registry_find ?w sid = Some s" for sid s
  proof -
    have "c_streamerId (cn ?w x) = c_streamerId (cn w' x)" "w_streamers ?w = w_streamers w'" for x by (simp_all add: world_simps)
    with sub [OF that(1), of s] that(2) show ?thesis by (simp add: registry_find_def)
  qed
  show ?thesis
    unfolding subscribe_def Let_def
    using p0 p unsub att named
    by (auto split: jsval.split option.split if_split simp del: if_split_asm intro!: pa_self governs_control intro: pa_intros)
qed

section \<open>Filtered descriptions\<close>

definition passes :: "ref \<Rightarrow> jsval \<Rightarrow> jsval option \<times> world \<Rightarrow> bool" where
  "passes r m res \<longleftrightarrow> (\<forall>m'. fst res = Some m' \<longrightarrow> governs (snd res) r m' \<and> is_obj m' = is_obj m \<and> mtype m' = mtype m)"

lemma passes_None [simp]: "passes r m (None, w)"
  by (simp add: passes_def)

lemma passes_failed [simp]: "passes r m (negotiation_failed r t d w)"
  by (simp add: negotiation_failed_def)

lemma pa_failed: "pa r A w w' \<Longrightarrow> pa r A w (snd (negotiation_failed r t d w'))"
  by (simp add: negotiation_failed_def pa_fail)

definition same_choice :: "ref \<Rightarrow> world \<Rightarrow> world \<Rightarrow> bool" where
  "same_choice r w w' \<longleftrightarrow> k_selected (kc w' r) = k_selected (kc w r) \<and> k_finalized (kc w' r) = k_finalized (kc w r)
     \<and> k_policy (kc w' r) = k_policy (kc w r)"

lemma same_choice_note [simp]: "same_choice r w (note_response r f w)"
  by (simp add: same_choice_def note_response_def world_simps)

lemma same_choice_offer [simp]: "same_choice r w (accept_offer r sdp f w)"
  by (simp add: same_choice_def accept_offer_def sendCodecState_def startNegotiationTimer_def world_simps)

lemma same_choice_answer [simp]: "same_choice r w (accept_answer r w)"
  by (simp add: same_choice_def accept_answer_def clearNegotiationTimer_def world_simps)

lemma same_choice_record [simp]: "same_choice r w (snd (recordCodec r t f w))"
  by (auto simp: same_choice_def recordCodec_def Let_def world_simps split: option.split)

lemma same_choice_trans: "\<lbrakk>same_choice r w w'; same_choice r w' w''\<rbrakk> \<Longrightarrow> same_choice r w w''"
  by (simp add: same_choice_def)

lemma restrict_selected_governed: "restrict_selected v sel = Inr sdp \<Longrightarrow> governed_sdp sel (JStr sdp)"
proof -
  assume r: "restrict_selected v sel = Inr sdp"
  then obtain c av where "sel = Some c" "restrictVideoSdp v c = Inr (sdp, av)"
    by (auto simp: restrict_selected_def split: option.splits sum.splits prod.splits)
  moreover from this obtain s where "v = JStr s"
    by (cases v) (auto simp: restrictVideoSdp_def)
  ultimately show ?thesis by (auto simp: governed_sdp_def)
qed

lemma passes_governed:
  assumes "governed_sdp (k_selected (kc w r)) (JStr sdp)" "k_finalized (kc w r)" "same_choice r w w'" "is_obj m"
  shows "passes r m (Some (put_fld ''sdp'' (JStr sdp) m), w')"
  using assms by (simp add: passes_def governs_def same_choice_def fld_put_fld media_type_def)

lemma pa_filterAnswer:
  assumes "pa r A w w'" "governed_sdp (k_selected (kc w' r)) (JStr sdp)" "k_finalized (kc w' r)" "is_obj m"
  shows "pa r A w (snd (filterAnswer r m sdp f w'))" and "passes r m (filterAnswer r m sdp f w')"
proof -
  obtain b w1 where rec: "recordCodec r ''negotiated'' id w' = (b, w1)" by fastforce
  have p1: "pa r A w w1" using pa_record_eq [OF rec assms(1)] by simp
  then have p2: "pa r A w (accept_answer r w1)"
    unfolding accept_answer_def by (intro pa_intros pa_codec) (simp_all add: keeps_def)
  have "same_choice r w' w1" using same_choice_record [of r w' "''negotiated''" id] by (simp add: rec)
  then have sc: "same_choice r w' (accept_answer r w1)" by (rule same_choice_trans) simp
  show "pa r A w (snd (filterAnswer r m sdp f w'))"
    unfolding filterAnswer_def Let_def rec using assms(1) p1 p2
    by (cases b) (auto intro: pa_failed split: option.split)
  show "passes r m (filterAnswer r m sdp f w')"
    unfolding filterAnswer_def Let_def rec using passes_governed [OF assms(2,3) sc assms(4)]
    by (cases b) (auto split: option.split)
qed

lemma pa_filterDescription:
  assumes "pa r A w w'" "k_finalized (kc w' r)" "is_obj m"
  shows "pa r A w (snd (filterDescription r m f w'))" and "passes r m (filterDescription r m f w')"
proof -
  let ?n = "note_response r f w'"
  have pn: "pa r A w ?n"
    using assms(1) unfolding note_response_def by (auto intro!: pa_intros pa_codec simp: keeps_def)
  have po: "pa r A w (accept_offer r sdp f ?n)" for sdp
    unfolding accept_offer_def by (intro pa_intros pa_codec [OF pn]) (simp add: keeps_def)
  have fin: "k_finalized (kc ?n r)" "k_selected (kc ?n r) = k_selected (kc w' r)"
    using same_choice_note [of r w' f] assms(2) by (simp_all add: same_choice_def)
  have g: "governed_sdp (k_selected (kc ?n r)) (JStr sdp)"
    if "restrict_selected (fld m ''sdp'') (k_selected (kc w' r)) = Inr sdp" for sdp
    using restrict_selected_governed [OF that] fin by simp
  show "pa r A w (snd (filterDescription r m f w'))"
    unfolding filterDescription_def Let_def
    using assms(1) po pa_filterAnswer(1) [OF pn g fin(1) assms(3)] by (auto intro: pa_failed split: sum.split)
  show "passes r m (filterDescription r m f w')"
    unfolding filterDescription_def Let_def
    using passes_governed [OF g fin(1) same_choice_offer assms(3)] pa_filterAnswer(2) [OF pn g fin(1) assms(3)]
    by (auto split: sum.split)
qed

lemma pa_filter:
  assumes "pa r A w w'"
  shows "pa r A w (snd (filterCodecMessage r m f w'))" and "passes r m (filterCodecMessage r m f w')"
proof -
  let ?w = "upd_codec r (\<lambda>k. k\<lparr>k_finalized := True\<rparr>) w'"
  have p: "pa r A w ?w" by (rule pa_codec [OF assms]) (simp add: keeps_def)
  have fin: "k_finalized (kc ?w r)" by (simp add: world_simps)
  have obj: "is_obj m" if "mtype m = JStr t" for t
    using that by (cases m) (auto simp: mtype_def)
  show "pa r A w (snd (filterCodecMessage r m f w'))"
    unfolding filterCodecMessage_def
    using assms pa_disconnect [OF assms] pa_filterDescription(1) [OF p fin] obj by auto
  show "passes r m (filterCodecMessage r m f w')"
    unfolding filterCodecMessage_def using pa_filterDescription(2) [OF p fin] obj
    by (auto simp: passes_def governs_def media_type_def)
qed

lemma pa_filter_Some:
  assumes "filterCodecMessage r m f w' = (Some m', w'')" "pa r A w w'"
  shows "pa r A w w''" "governs w'' r m'" "is_obj m' = is_obj m" "mtype m' = mtype m"
  using pa_filter [OF assms(2), of m f] assms(1) by (simp_all add: passes_def)

lemma pa_filter_None: "\<lbrakk>filterCodecMessage r m f w' = (None, w''); pa r A w w'\<rbrakk> \<Longrightarrow> pa r A w w''"
  using pa_filter(1) [of r A w w' m f] by simp

lemma pa_playerSendMessage [pa_intros]: "pa r A w w' \<Longrightarrow> pa r A w (playerSendMessage r m w')"
  unfolding playerSendMessage_def
  by (auto split: prod.split option.split intro: pa_filter_None pa_self pa_filter_Some)

text \<open>
  A forced subscription happens only while none is held, and then an offer of a governed player was
  accepted before it; its codec stays as it was.
\<close>

definition calm :: "ref \<Rightarrow> world \<Rightarrow> world \<Rightarrow> bool" where
  "calm r w w' \<longleftrightarrow> k_selected (kc w' r) = k_selected (kc w r) \<and> k_policy (kc w' r) = k_policy (kc w r)
     \<and> (k_finalized (kc w r) \<longrightarrow> k_finalized (kc w' r))"

named_theorems calm_intros

lemma calm_refl [simp, calm_intros]: "calm r w w"
  by (simp add: calm_def)

lemma calm_if [calm_intros]: "\<lbrakk>calm r w x; calm r w y\<rbrakk> \<Longrightarrow> calm r w (if b then x else y)"
  by simp

lemma calm_option [calm_intros]: "\<lbrakk>calm r w x; \<And>a. calm r w (f a)\<rbrakk> \<Longrightarrow> calm r w (case z of None \<Rightarrow> x | Some a \<Rightarrow> f a)"
  by (cases z) auto

lemma calm_jsval [calm_intros]:
  "\<lbrakk>calm r w x; \<And>s. calm r w (f s)\<rbrakk> \<Longrightarrow> calm r w (case z of JStr s \<Rightarrow> f s | _ \<Rightarrow> x)"
  by (cases z) auto

lemma calm_trans: "\<lbrakk>calm r w w'; calm r w' w''\<rbrakk> \<Longrightarrow> calm r w w''"
  by (simp add: calm_def)

lemma calm_base [calm_intros]:
  "calm r w w' \<Longrightarrow> calm r w (eff e w')" "calm r w w' \<Longrightarrow> calm r w (protoSend x m w')"
  "calm r w w' \<Longrightarrow> calm r w (protoDisconnect x cr w')"
  "calm r w w' \<Longrightarrow> calm r w (clearNegotiationTimer r w')" "calm r w w' \<Longrightarrow> calm r w (startNegotiationTimer r w')"
  "calm r w w' \<Longrightarrow> calm r w (sendCodecState r st reason w')" "calm r w w' \<Longrightarrow> calm r w (forwardToStreamer r m w')"
  by (simp_all add: calm_def world_simps protoDisconnect_def clearNegotiationTimer_def startNegotiationTimer_def
      sendCodecState_def forwardToStreamer_def split: option.split)

lemma calm_unsubscribe [calm_intros]: "calm r w w' \<Longrightarrow> calm r w (unsubscribe r w')"
  by (simp add: calm_def unsubscribe_selected unsubscribe_conns)

lemma calm_disconnect [calm_intros]: "calm r w w' \<Longrightarrow> calm r w (playerDisconnect r w')"
  unfolding playerDisconnect_def by (intro calm_intros)

lemma calm_restart [calm_intros]: "calm r w w' \<Longrightarrow> calm r w (restart_generation r w')"
  by (simp add: calm_def restart_selected restart_flags)

lemma calm_attach [calm_intros]: "calm r w w' \<Longrightarrow> calm r w (attach_player r s w')"
proof -
  have u: "calm r w (upd x f w2)" if "calm r w w2" "\<And>c. c_codec (f c) = c_codec c" for x f w2
    using that by (auto simp add: calm_def world_simps)
  have k: "calm r w (upd_codec r (\<lambda>k. k\<lparr>k_descriptionReceived := False\<rparr>) w2)" if "calm r w w2" for w2
    using that by (simp add: calm_def world_simps)
  assume "calm r w w'"
  then show ?thesis unfolding attach_player_def Let_def by (intro calm_intros u k) simp_all
qed

lemma calm_fail [calm_intros]:
  assumes "calm r w w'"
  shows "calm r w (failCodecNegotiation r reason w')"
proof -
  let ?w = "clearNegotiationTimer r (upd_codec r (\<lambda>k. k\<lparr>k_failed := True\<rparr>) w')"
  obtain b w1 where rec: "recordCodec r ''switch_failed'' (\<lambda>e. e\<lparr>ev_reason := Some reason\<rparr>) ?w = (b, w1)" by fastforce
  have "same_choice r ?w w1"
    using same_choice_record [of r ?w "''switch_failed''" "\<lambda>e. e\<lparr>ev_reason := Some reason\<rparr>"] by (simp add: rec)
  with assms have "calm r w w1" by (simp add: same_choice_def calm_def clearNegotiationTimer_def world_simps)
  then show ?thesis unfolding failCodecNegotiation_def Let_def rec prod.case by (intro calm_intros)
qed

lemma calm_subscribe: "calm r w (subscribe r v w)"
proof -
  have "calm r w (upd_codec r (\<lambda>k. k\<lparr>k_finalized := True\<rparr>) w)" by (simp add: calm_def world_simps)
  then show ?thesis unfolding subscribe_def Let_def by (intro calm_intros)
qed

lemma calm_governs: "\<lbrakk>calm r w w'; governs w r m\<rbrakk> \<Longrightarrow> governs w' r m"
  by (auto simp: calm_def governs_def policy_on_def)

lemma pa_force_subscription:
  assumes p: "pa r A w w'" and obj: "is_obj m" and g: "governs w' r m"
    and first: "c_sub (cn w' r) = None \<Longrightarrow> set (take 1 (w_streamers w')) \<subseteq> A"
  shows "pa r A w (force_subscription r m w')"
proof -
  have sub: "pa r A w (subscribe r (JStr sid) w')" if "c_sub (cn w' r) = None" "getFirstStreamerId w' = Some sid" for sid
    using p first [OF that(1)] that(2)
    by (auto intro!: pa_subscribe simp: getFirstStreamerId_def registry_find_def split: list.splits)
  have fwd: "pa r A w (forwardToStreamer r m (subscribe r (JStr sid) w'))"
    if "c_sub (cn w' r) = None" "getFirstStreamerId w' = Some sid" for sid
    by (rule pa_forward [OF sub [OF that] obj]) (rule calm_governs [OF calm_subscribe g])
  show ?thesis
    unfolding force_subscription_def Let_def
    using pa_forward [OF p obj g] fwd sub p by (auto intro: pa_intros split: option.split)
qed

lemma filter_Some_routing: "filterCodecMessage r m f w = (Some m', w'') \<Longrightarrow> routing w'' = routing w"
proof -
  have ans: "routing w'' = routing u" if "filterAnswer r m sdp f u = (Some m', w'')" for sdp u
  proof -
    obtain ok w1 where rec: "recordCodec r ''negotiated'' id u = (ok, w1)" by fastforce
    have "routing w1 = routing u" using routing_recordCodec [of r "''negotiated''" id u] rec by simp
    with that rec show ?thesis
      by (cases ok) (auto simp: filterAnswer_def Let_def negotiation_failed_def accept_answer_def split: option.splits if_splits)
  qed
  have "routing w'' = routing u" if "filterDescription r m f u = (Some m', w'')" for u
    using that ans by (fastforce simp: filterDescription_def Let_def negotiation_failed_def accept_offer_def split: sum.splits if_splits)
  then show "filterCodecMessage r m f w = (Some m', w'') \<Longrightarrow> routing w'' = routing w"
    by (fastforce simp: filterCodecMessage_def split: if_splits)
qed

text \<open>The streamers that a message of a player may make it subscribe to.\<close>

definition chosen :: "world \<Rightarrow> ref \<Rightarrow> jsval \<Rightarrow> ref set" where
  "chosen w r m =
     (if mtype m = JStr ''subscribe'' then {s. \<exists>sid. fld m ''streamerId'' = JStr sid \<and> registry_find w sid = Some s}
      else if c_sub (cn w r) = None then set (take 1 (w_streamers w))
      else {})"

lemma pa_sendToStreamer:
  assumes "pa r A w w'" "is_obj m" "c_sub (cn w' r) = None \<Longrightarrow> set (take 1 (w_streamers w')) \<subseteq> A"
  shows "pa r A w (sendToStreamer r m w')"
proof -
  have "pa r A w (force_subscription r m' w'')" if "filterCodecMessage r m False w' = (Some m', w'')" for m' w''
    using pa_filter_Some [OF that assms(1)] assms(2,3) routing_eqD [OF filter_Some_routing [OF that]]
    by (intro pa_force_subscription) simp_all
  then show ?thesis
    unfolding sendToStreamer_def using assms(1)
    by (auto split: prod.split option.split intro: pa_filter_None)
qed

section \<open>The remaining handlers\<close>

lemma pa_capabilities:
  assumes p: "pa r A w w'" and pol: "k_policy (kc w' r) = Some p"
    and clean: "\<not> k_finalized (kc w' r) \<Longrightarrow> \<forall>m. Sent r m \<in> set (w_out w') \<longrightarrow> \<not> media_type m"
  shows "pa r A w (handleCapabilities r v p w')"
proof (cases "k_finalized (kc w' r) \<or> k_hasSubscribed (kc w' r) \<or> k_offer (kc w' r) \<notin> {None, Some []}
    \<or> \<not> is_capability_list v")
  case True
  then show ?thesis using p by (auto simp: handleCapabilities_def)
next
  case False
  let ?w = "upd_codec r (\<lambda>k. k\<lparr>k_finalized := True\<rparr>) w'"
  define pref where "pref = (case (k_shadow (kc ?w r), k_selected (kc ?w r)) of
     (Some _, Some c) \<Rightarrow> c | _ \<Rightarrow> cp_defaultCodec p)"
  have pw: "pa r A w ?w" by (rule pa_codec [OF p]) (simp add: keeps_def)
  have eq: "handleCapabilities r v p w' = (case choose_codec p (k_shadow (kc ?w r) \<noteq> None) pref v of
      None \<Rightarrow> failCodecNegotiation r (''Client reports no policy-permitted codec; preferred '' @ codec_name pref) (set_failed r ?w)
    | Some sel \<Rightarrow> (case recordCodec r ''codec_selected'' (\<lambda>e. e\<lparr>ev_codec := Some sel,
        ev_reason := Some (selection_reason v pref sel)\<rparr>) ?w of
         (True, w) \<Rightarrow> sendCodecState r ''negotiating'' None (upd_codec r (\<lambda>k. k\<lparr>k_selected := Some sel\<rparr>) w)
       | (False, w) \<Rightarrow> failCodecNegotiation r ''Codec selection evidence unavailable'' (set_failed r w)))"
    using False unfolding handleCapabilities_def Let_def pref_def by simp
  show ?thesis
  proof (cases "choose_codec p (k_shadow (kc ?w r) \<noteq> None) pref v")
    case None
    have "pa r A w (failCodecNegotiation r (''Client reports no policy-permitted codec; preferred '' @ codec_name pref) (set_failed r ?w))"
      by (rule pa_fail [OF pa_set_failed [OF pw]])
    with None show ?thesis unfolding eq by simp
  next
    case (Some sel)
    have permitted: "sel = cp_defaultCodec p \<or> sel \<in> set (cp_allowedCodecs p) \<or> k_selected (kc ?w r) = Some sel"
      using Some by (auto simp: choose_codec_def pref_def find_Some_iff split: if_splits option.splits)
    obtain b w1 where rec: "recordCodec r ''codec_selected'' (\<lambda>e. e\<lparr>ev_codec := Some sel,
        ev_reason := Some (selection_reason v pref sel)\<rparr>) ?w = (b, w1)" by fastforce
    have p1: "pa r A w w1" using pa_record_eq [OF rec pw] by simp
    have w1: "k_policy (kc w1 r) = Some p" "\<not> k_hasSubscribed (kc w1 r)" "k_selected (kc w1 r) = k_selected (kc ?w r)"
      "\<forall>m. Sent r m \<in> set (w_out w1) \<longrightarrow> \<not> media_type m"
      using rec False pol clean
      by (auto simp: recordCodec_def Let_def world_simps split: option.splits if_splits)
    have "pa r A w (upd_codec r (\<lambda>k. k\<lparr>k_selected := Some sel\<rparr>) w1)"
      by (rule pa_step [OF p1], rule pact.select) (use w1 permitted in auto)
    with p1 show ?thesis unfolding eq Some option.case rec prod.case
      by (cases b) (simp_all add: pa_sendCodecState pa_fail pa_set_failed)
  qed
qed

lemma pa_observation:
  assumes "pa r A w w'"
  shows "pa r A w (handleObservation r m w')"
proof -
  have ok: "pa r A w (if k_selected (kc w2 r) \<noteq> Some codec
        then failCodecNegotiation r ''Observed codec differs from negotiated policy'' w2
        else sendCodecState r ''streaming'' None w2)" if "pa r A w w2" for w2 codec
    using that by (auto intro: pa_intros)
  have step: "pa r A w (case recordCodec r ''observed'' (\<lambda>e. e\<lparr>ev_source := ''browser'', ev_codec := Some codec,
        ev_framesDecoded := Some frames, ev_bytesReceived := Some bytes\<rparr>) w' of
      (False, w) \<Rightarrow> failCodecNegotiation r ''Codec evidence unavailable'' w
    | (True, w) \<Rightarrow> let w = upd_codec r (\<lambda>k. k\<lparr>k_lastFrames := frames, k_lastBytes := bytes, k_observed := Some codec\<rparr>) w in
        if k_selected (kc w r) \<noteq> Some codec
        then failCodecNegotiation r ''Observed codec differs from negotiated policy'' w
        else sendCodecState r ''streaming'' None w)" for codec frames bytes
  proof -
    obtain b w1 where rec: "recordCodec r ''observed'' (\<lambda>e. e\<lparr>ev_source := ''browser'', ev_codec := Some codec,
        ev_framesDecoded := Some frames, ev_bytesReceived := Some bytes\<rparr>) w' = (b, w1)" by fastforce
    have p1: "pa r A w w1" using pa_record_eq [OF rec assms] by simp
    have "pa r A w (upd_codec r (\<lambda>k. k\<lparr>k_lastFrames := frames, k_lastBytes := bytes, k_observed := Some codec\<rparr>) w1)"
      by (rule pa_codec [OF p1]) (simp add: keeps_def)
    from ok [OF this, of codec] pa_fail [OF p1] show ?thesis
      unfolding rec prod.case Let_def by (cases b) simp_all
  qed
  show ?thesis
    unfolding handleObservation_def using assms step
    by (auto simp del: Let_def split: option.split)
qed

lemma pa_mediaEvidence: "pa r A w w' \<Longrightarrow> pa r A w (snd (handleMediaEvidence r m w'))"
  unfolding handleMediaEvidence_def Let_def
  by (auto split: option.split intro!: pa_intros pa_session simp: same_identity_def)

lemma pa_quality: "pa r A w w' \<Longrightarrow> pa r A w (handleQuality r m w')"
  unfolding handleQuality_def
  by (auto split: option.split prod.split intro!: pa_intros pa_session simp: same_identity_def)

definition clean_start :: "ref \<Rightarrow> world \<Rightarrow> bool" where
  "clean_start r w \<longleftrightarrow> (policy_on w r \<and> \<not> k_finalized (kc w r) \<longrightarrow>
     (\<forall>m. Sent r m \<in> set (w_out w) \<longrightarrow> \<not> media_type m))"

lemma pa_unhandled:
  assumes "pa r A w w'" "clean_start r w'"
  shows "pa r A w (onUnhandled r m w')"
proof -
  have cap: "pa r A w (handleCapabilities r v p w')" if "k_policy (kc w' r) = Some p" for v p
    by (rule pa_capabilities [OF assms(1) that]) (use assms(2) that in \<open>simp add: clean_start_def policy_on_def\<close>)
  have c: "pa r A w (snd (handleCodecMessage r m w'))"
    unfolding handleCodecMessage_def using assms(1) cap
    by (auto intro: pa_intros pa_observation split: option.split)
  obtain b w1 where h: "handleCodecMessage r m w' = (b, w1)" by fastforce
  with c have p1: "pa r A w w1" by simp
  then show ?thesis
    unfolding onUnhandled_def h using pa_quality [OF assms(1)] pa_mediaEvidence [OF p1] by (cases b) simp_all
qed

lemma is_obj_type: "mtype m = JStr t \<Longrightarrow> is_obj m"
  by (cases m) (auto simp: mtype_def)

lemma pa_playerMessage:
  assumes "clean_start r w" and A: "chosen w r m \<subseteq> A"
  shows "pa r A w (playerMessage r m w)"
proof -
  have send: "pa r A w (sendToStreamer r m w)" if "mtype m = JStr t" "t \<noteq> ''subscribe''" for t
    using that A by (intro pa_sendToStreamer is_obj_type) (auto simp: chosen_def)
  have ice: "pa r A w (onPlayerIceCandidate r m w)" if "mtype m = JStr t" "t \<noteq> ''subscribe''" for t
    unfolding onPlayerIceCandidate_def using that A
    by (intro pa_sendToStreamer pa_ice pa_refl is_obj_type [OF that(1)]) (auto simp: chosen_def)
  have sub: "pa r A w (subscribe r (fld m ''streamerId'') w)" if "mtype m = JStr ''subscribe''"
    using that A by (intro pa_subscribe pa_refl) (auto simp: chosen_def)
  show ?thesis
    unfolding playerMessage_def onListStreamers_def
    using send ice sub pa_unhandled [OF pa_refl assms(1)] by (auto intro: pa_intros)
qed

lemma pa_timeout: "pa r A w (negotiationTimeout r w)"
proof -
  have "pa r A w (upd_codec r (\<lambda>k. k\<lparr>k_timer := False\<rparr>) w)" by (rule pa_codec) (simp_all add: keeps_def)
  then show ?thesis unfolding negotiationTimeout_def Let_def by (auto intro: pa_intros)
qed

lemma pa_transportClose: "pa r A w (playerTransportClose r w)"
proof -
  have "pa r A w (snd (recordCodec r ''connection_closed'' id w))" by (rule pa_record) simp_all
  then show ?thesis unfolding playerTransportClose_def Let_def by (intro pa_intros)
qed

lemma pa_orphaned: "pa r A w (closeOrphanedShadow r w)"
  unfolding closeOrphanedShadow_def by (auto intro: pa_intros)

end
