(* ===== verification/Governance.thy ===== *)
theory Governance
  imports Player_Actions
begin

text \<open>
  The invariant of codec governance and its preservation by every event of the server: what a
  governed player was sent carries its selected codec alone, the codec is one its ticket permits,
  evidence is numbered without gaps, and an H264 streamer has one governed viewer.
\<close>

definition recorded :: "world \<Rightarrow> ref \<Rightarrow> evidence list" where
  "recorded w r = List.map_filter (\<lambda>e. case e of Recorded r' v \<Rightarrow> if r' = r then Some v else None | _ \<Rightarrow> None) (w_out w)"

definition roles_ok :: "world \<Rightarrow> bool" where
  "roles_ok w \<longleftrightarrow> (\<forall>r. policy_on w r \<longrightarrow> c_kind (cn w r) = PlayerConn)
     \<and> (\<forall>r s. c_sub (cn w r) = Some s \<longrightarrow> c_kind (cn w s) \<noteq> PlayerConn \<and> s < w_next w
          \<and> (policy_on w r \<longrightarrow> c_kind (cn w s) = StreamerConn \<and> k_finalized (kc w r) \<and> k_hasSubscribed (kc w r)))"

definition media_ok :: "world \<Rightarrow> bool" where
  "media_ok w \<longleftrightarrow> (\<forall>r m. Sent r m \<in> set (w_out w) \<and> media_type m \<and> policy_on w r \<longrightarrow>
     k_finalized (kc w r) \<and> governed_sdp (k_selected (kc w r)) (fld m ''sdp''))"

definition evidence_ok :: "world \<Rightarrow> bool" where
  "evidence_ok w \<longleftrightarrow> (\<forall>r. map ev_sequence (recorded w r) = [1..<Suc (k_sequence (kc w r))]
     \<and> (\<forall>e \<in> set (recorded w r). ev_connectionId e = k_connectionId (kc w r)))"

definition choice_ok :: "world \<Rightarrow> bool" where
  "choice_ok w \<longleftrightarrow> (\<forall>r p. k_policy (kc w r) = Some p \<longrightarrow>
     (\<exists>c. k_selected (kc w r) = Some c \<and> (c = cp_defaultCodec p \<or> c \<in> set (cp_allowedCodecs p))))"

definition viewers_ok :: "world \<Rightarrow> bool" where
  "viewers_ok w \<longleftrightarrow> (\<forall>p q s. p \<noteq> q \<and> p \<in> set (listPlayers w) \<and> q \<in> set (listPlayers w)
     \<and> c_sub (cn w p) = Some s \<and> c_sub (cn w q) = Some s \<and> policy_on w p \<and> policy_on w q
     \<longrightarrow> k_selected (kc w p) \<noteq> Some H264)"

definition log_ok :: "world \<Rightarrow> bool" where
  "log_ok w \<longleftrightarrow> (\<forall>r m. Sent r m \<in> set (w_out w) \<longrightarrow> r < w_next w) \<and> (\<forall>r e. Recorded r e \<in> set (w_out w) \<longrightarrow> r < w_next w)"

definition ginv :: "world \<Rightarrow> bool" where
  "ginv w \<longleftrightarrow> roles_ok w \<and> media_ok w \<and> evidence_ok w \<and> choice_ok w \<and> viewers_ok w \<and> log_ok w"

lemma recorded_eff [simp]:
  "recorded (eff e w) r = recorded w r @ (case e of Recorded r' v \<Rightarrow> if r' = r then [v] else [] | _ \<Rightarrow> [])"
  by (cases e) (simp_all add: recorded_def eff_frame map_filter_simps List.map_filter_def)

lemma recorded_out: "w_out w' = w_out w \<Longrightarrow> recorded w' r = recorded w r"
  by (simp add: recorded_def)

lemma recorded_frame [simp]:
  "recorded (upd x f w) r = recorded w r" "recorded (upd_codec x g w) r = recorded w r"
  "recorded (upd_session x h w) r = recorded w r" "recorded (w\<lparr>w_ice := i\<rparr>) r = recorded w r"
  by (simp_all add: recorded_def world_simps)

lemma listPlayers_frame [simp]:
  "listPlayers (upd x f w) = listPlayers w" "listPlayers (upd_codec x g w) = listPlayers w"
  "listPlayers (upd_session x h w) = listPlayers w" "listPlayers (w\<lparr>w_ice := i\<rparr>) = listPlayers w"
  "listPlayers (eff e w) = listPlayers w"
  by (simp_all add: listPlayers_def world_simps)

lemma policy_on_frame [simp]:
  "policy_on (eff e w) r = policy_on w r" "policy_on (w\<lparr>w_ice := i\<rparr>) r = policy_on w r"
  "policy_on (upd_session x h w) r = policy_on w r"
  by (simp_all add: policy_on_def world_simps)

section \<open>Generic changes\<close>

text \<open>A log entry that is neither evidence nor a description for a governed player.\<close>

definition harmless :: "world \<Rightarrow> effect \<Rightarrow> bool" where
  "harmless w e = (case e of
     Sent r m \<Rightarrow> r < w_next w \<and> governs w r m
   | Recorded r v \<Rightarrow> False
   | _ \<Rightarrow> True)"

lemma ginv_eff:
  assumes "ginv w" "harmless w e"
  shows "ginv (eff e w)"
proof -
  have "media_ok (eff e w)" using assms
    by (auto simp: ginv_def media_ok_def world_simps harmless_def governs_def split: effect.splits)
  moreover have "log_ok (eff e w)" using assms
    by (auto simp: ginv_def log_ok_def world_simps harmless_def split: effect.splits)
  moreover have "evidence_ok (eff e w)" using assms
    by (cases e) (auto simp: ginv_def evidence_ok_def world_simps harmless_def)
  moreover have "roles_ok (eff e w)" "choice_ok (eff e w)" "viewers_ok (eff e w)"
    using assms by (auto simp: ginv_def roles_ok_def choice_ok_def viewers_ok_def world_simps)
  ultimately show ?thesis by (simp add: ginv_def)
qed

text \<open>A change that keeps codec states and kinds, and drops subscriptions and registrations at most.\<close>

definition shrinks :: "world \<Rightarrow> world \<Rightarrow> bool" where
  "shrinks w w' \<longleftrightarrow> w_out w' = w_out w \<and> w_next w' = w_next w
     \<and> (\<forall>x. c_codec (cn w' x) = c_codec (cn w x) \<and> c_kind (cn w' x) = c_kind (cn w x)
          \<and> (c_sub (cn w' x) = c_sub (cn w x) \<or> c_sub (cn w' x) = None))
     \<and> (\<forall>x \<in> set (listPlayers w'). x \<in> set (listPlayers w) \<or> c_sub (cn w' x) = None)"

lemma ginv_shrinks:
  assumes "ginv w" "shrinks w w'"
  shows "ginv w'"
proof -
  have out: "w_out w' = w_out w" "w_next w' = w_next w" and k: "\<And>x. c_codec (cn w' x) = c_codec (cn w x)"
    "\<And>x. c_kind (cn w' x) = c_kind (cn w x)" and s: "\<And>x. c_sub (cn w' x) = c_sub (cn w x) \<or> c_sub (cn w' x) = None"
    and l: "\<And>x. x \<in> set (listPlayers w') \<Longrightarrow> x \<in> set (listPlayers w) \<or> c_sub (cn w' x) = None"
    using assms(2) by (auto simp: shrinks_def)
  have pol: "policy_on w' x = policy_on w x" for x by (simp add: policy_on_def k)
  have sub: "c_sub (cn w x) = Some y" if "c_sub (cn w' x) = Some y" for x y using s [of x] that by auto
  have "roles_ok w'" using assms(1) unfolding ginv_def roles_ok_def out k pol by (meson sub)
  moreover have "media_ok w'" using assms(1) unfolding ginv_def media_ok_def out k pol by blast
  moreover have "log_ok w'" using assms(1) unfolding ginv_def log_ok_def out by blast
  moreover have "choice_ok w'" using assms(1) unfolding ginv_def choice_ok_def k by blast
  moreover have "evidence_ok w'" using assms(1) by (simp add: ginv_def evidence_ok_def recorded_out [OF out(1)] k)
  moreover have "viewers_ok w'"
    using assms(1) unfolding ginv_def viewers_ok_def k pol by (metis l sub option.distinct(1))
  ultimately show ?thesis by (simp add: ginv_def)
qed

section \<open>The actions of a player\<close>

lemma governs_upd_codec:
  "governs w r m \<Longrightarrow> keeps (kc w r) (f (kc w r)) \<Longrightarrow> governs (upd_codec r f w) r m"
  by (auto simp: governs_def policy_on_def world_simps keeps_def)

lemma ginv_upd_codec:
  assumes "ginv w" "keeps (kc w r) (f (kc w r))"
  shows "ginv (upd_codec r f w)"
proof -
  let ?w = "upd_codec r f w"
  have k: "k_policy (kc ?w x) = k_policy (kc w x)" "k_selected (kc ?w x) = k_selected (kc w x)"
    "k_sequence (kc ?w x) = k_sequence (kc w x)" "k_connectionId (kc ?w x) = k_connectionId (kc w x)"
    "k_finalized (kc w x) \<Longrightarrow> k_finalized (kc ?w x)" "k_hasSubscribed (kc w x) \<Longrightarrow> k_hasSubscribed (kc ?w x)"
    "c_kind (cn ?w x) = c_kind (cn w x)" "c_sub (cn ?w x) = c_sub (cn w x)" for x
    using assms(2) by (auto simp: world_simps keeps_def)
  have pol: "policy_on ?w x = policy_on w x" for x by (simp add: policy_on_def k)
  have out: "w_out ?w = w_out w" "w_next ?w = w_next w" by (simp_all add: world_simps)
  show ?thesis
    using assms(1) unfolding ginv_def roles_ok_def media_ok_def evidence_ok_def choice_ok_def viewers_ok_def log_ok_def
      pol k(1-4,7,8) out recorded_frame listPlayers_frame
    by (meson k(5,6))
qed

lemma ginv_record:
  assumes "ginv w" "policy_on w r" "r < w_next w" "ev_sequence e = k_sequence (kc w r) + 1"
    "ev_connectionId e = k_connectionId (kc w r)"
  shows "ginv (upd_codec r (\<lambda>k. k\<lparr>k_sequence := k_sequence k + 1\<rparr>) (eff (Recorded r e) w))"
proof -
  let ?w = "upd_codec r (\<lambda>k. k\<lparr>k_sequence := k_sequence k + 1\<rparr>) (eff (Recorded r e) w)"
  have ev: "evidence_ok ?w" using assms by (auto simp: ginv_def evidence_ok_def world_simps)
  have pol: "policy_on ?w x = policy_on w x" for x by (auto simp: policy_on_def world_simps)
  have k: "k_policy (kc ?w x) = k_policy (kc w x)" "k_selected (kc ?w x) = k_selected (kc w x)"
    "k_finalized (kc ?w x) = k_finalized (kc w x)" "k_hasSubscribed (kc ?w x) = k_hasSubscribed (kc w x)"
    "c_kind (cn ?w x) = c_kind (cn w x)" "c_sub (cn ?w x) = c_sub (cn w x)" for x
    by (auto simp: world_simps)
  have "roles_ok ?w" "choice_ok ?w" "viewers_ok ?w"
    using assms(1) unfolding ginv_def roles_ok_def choice_ok_def viewers_ok_def pol k listPlayers_frame
    by (simp_all add: world_simps)
  moreover have "media_ok ?w" "log_ok ?w"
    using assms(1,3) unfolding ginv_def media_ok_def log_ok_def pol k by (auto simp: world_simps)
  ultimately show ?thesis using ev by (simp add: ginv_def)
qed

lemma ginv_select:
  assumes g: "ginv w" and p: "k_policy (kc w r) = Some p"
    and c: "c = cp_defaultCodec p \<or> c \<in> set (cp_allowedCodecs p) \<or> k_selected (kc w r) = Some c"
    and h: "\<not> k_hasSubscribed (kc w r)" and m: "\<forall>m. Sent r m \<in> set (w_out w) \<longrightarrow> \<not> media_type m"
  shows "ginv (upd_codec r (\<lambda>k. k\<lparr>k_selected := Some c\<rparr>) w)"
proof -
  let ?w = "upd_codec r (\<lambda>k. k\<lparr>k_selected := Some c\<rparr>) w"
  have pol: "policy_on ?w x = policy_on w x" for x by (auto simp: policy_on_def world_simps)
  have k: "k_policy (kc ?w x) = k_policy (kc w x)" "k_sequence (kc ?w x) = k_sequence (kc w x)"
    "k_connectionId (kc ?w x) = k_connectionId (kc w x)"
    "k_finalized (kc ?w x) = k_finalized (kc w x)" "k_hasSubscribed (kc ?w x) = k_hasSubscribed (kc w x)"
    "c_kind (cn ?w x) = c_kind (cn w x)" "c_sub (cn ?w x) = c_sub (cn w x)" for x
    by (auto simp: world_simps)
  have sel: "k_selected (kc ?w x) = (if x = r then Some c else k_selected (kc w x))" for x by (simp add: world_simps)
  have out: "w_out ?w = w_out w" "w_next ?w = w_next w" by (simp_all add: world_simps)
  have none: "c_sub (cn w r) = None"
    using g p h unfolding ginv_def roles_ok_def policy_on_def by (cases "c_sub (cn w r)") auto
  have "roles_ok ?w" "evidence_ok ?w" "log_ok ?w"
    using g unfolding ginv_def roles_ok_def evidence_ok_def log_ok_def pol k out recorded_frame by simp_all
  moreover have "media_ok ?w" using g m unfolding ginv_def media_ok_def pol k out sel by auto
  moreover have "choice_ok ?w" unfolding choice_ok_def k sel
  proof (intro allI impI)
    fix x q assume q: "k_policy (kc w x) = Some q"
    from g q obtain d where d: "k_selected (kc w x) = Some d" "d = cp_defaultCodec q \<or> d \<in> set (cp_allowedCodecs q)"
      unfolding ginv_def choice_ok_def by blast
    show "\<exists>d. (if x = r then Some c else k_selected (kc w x)) = Some d \<and> (d = cp_defaultCodec q \<or> d \<in> set (cp_allowedCodecs q))"
      using d p q c by (cases "x = r") auto
  qed
  moreover have "viewers_ok ?w" using g none unfolding ginv_def viewers_ok_def pol k sel listPlayers_frame by auto
  ultimately show ?thesis by (simp add: ginv_def)
qed

lemma ginv_attach:
  assumes g: "ginv w" and s: "c_kind (cn w s) \<noteq> PlayerConn" "s < w_next w"
    and pol: "policy_on w r \<Longrightarrow> c_kind (cn w s) = StreamerConn \<and> \<not> h264_conflict r s w
      \<and> k_hasSubscribed (kc w r) \<and> k_finalized (kc w r)"
  shows "ginv (upd r (\<lambda>c. c\<lparr>c_sub := Some s\<rparr>) w)"
proof -
  let ?w = "upd r (\<lambda>c. c\<lparr>c_sub := Some s\<rparr>) w"
  have k: "kc ?w x = kc w x" "c_kind (cn ?w x) = c_kind (cn w x)" for x by (auto simp: world_simps)
  have sub: "c_sub (cn ?w x) = (if x = r then Some s else c_sub (cn w x))" for x by (simp add: world_simps)
  have po: "policy_on ?w x = policy_on w x" for x by (simp add: policy_on_def k)
  have out: "w_out ?w = w_out w" "w_next ?w = w_next w" by (simp_all add: world_simps)
  have "roles_ok ?w" using g s pol unfolding ginv_def roles_ok_def po k sub out by auto
  moreover have "media_ok ?w" using g unfolding ginv_def media_ok_def po k out by blast
  moreover have "choice_ok ?w" using g unfolding ginv_def choice_ok_def k by blast
  moreover have "log_ok ?w" using g unfolding ginv_def log_ok_def out by blast
  moreover have "evidence_ok ?w" using g unfolding ginv_def evidence_ok_def k recorded_frame by blast
  moreover have "viewers_ok ?w"
    unfolding viewers_ok_def po k sub listPlayers_frame
  proof (intro allI impI, elim conjE)
    fix p q t
    assume h: "p \<noteq> q" "p \<in> set (listPlayers w)" "q \<in> set (listPlayers w)" "policy_on w p" "policy_on w q"
      "(if p = r then Some s else c_sub (cn w p)) = Some t" "(if q = r then Some s else c_sub (cn w q)) = Some t"
    have pl: "c_kind (cn w p) = PlayerConn" "c_kind (cn w q) = PlayerConn"
      using g h unfolding ginv_def roles_ok_def by auto
    have clash: "k_selected (kc w r) \<noteq> Some H264 \<and> k_selected (kc w x) \<noteq> Some H264"
      if "policy_on w r" "x \<noteq> r" "x \<in> set (listPlayers w)" "c_kind (cn w x) = PlayerConn" "c_sub (cn w x) = Some s" for x
      using pol [OF that(1)] that(2-5) unfolding h264_conflict_def list_ex_iff by blast
    consider "p = r" | "q = r" | "p \<noteq> r" "q \<noteq> r" by blast
    then show "k_selected (kc w p) \<noteq> Some H264"
    proof cases
      case 1
      then show ?thesis using clash [of q] h pl by simp
    next
      case 2
      then show ?thesis using clash [of p] h pl by simp
    next
      case 3
      then have "c_sub (cn w p) = Some t" "c_sub (cn w q) = Some t" using h(6,7) by simp_all
      with h(1-5) g show ?thesis unfolding ginv_def viewers_ok_def by blast
    qed
  qed
  ultimately show ?thesis by (simp add: ginv_def)
qed

lemma shrinks_upd:
  assumes "c_codec (f (cn w x)) = c_codec (cn w x)" "c_kind (f (cn w x)) = c_kind (cn w x)"
    "c_sub (f (cn w x)) = c_sub (cn w x) \<or> c_sub (f (cn w x)) = None"
  shows "shrinks w (upd x f w)"
  using assms by (simp add: shrinks_def world_simps)

lemma shrinks_session: "shrinks w (upd_session r f w)"
  by (simp add: shrinks_def world_simps)

lemma ginv_pact:
  assumes "pact r A w w'" "ginv w" "r < w_next w"
  shows "ginv w'"
  using assms(1)
proof cases
  case (quiet e)
  with assms show ?thesis by (auto intro!: ginv_eff simp: quiet_def harmless_def split: effect.splits)
next
  case (self m)
  with assms show ?thesis by (auto intro!: ginv_eff simp: harmless_def)
next
  case (up s m)
  have "c_kind (cn w s) \<noteq> PlayerConn" "s < w_next w" using assms(2) up(2) by (auto simp: ginv_def roles_ok_def)
  moreover from this have "\<not> policy_on w s" using assms(2) by (auto simp: ginv_def roles_ok_def)
  ultimately show ?thesis using up(1) assms(2) by (auto intro!: ginv_eff simp: harmless_def governs_def)
next
  case (recorded e)
  with assms show ?thesis using ginv_record by simp
next
  case (codec f)
  with assms show ?thesis using ginv_upd_codec by simp
next
  case (session f)
  with assms show ?thesis using ginv_shrinks [OF _ shrinks_session] by simp
next
  case (ice i)
  have "shrinks w (w\<lparr>w_ice := i\<rparr>)" by (simp add: shrinks_def)
  with ice assms show ?thesis using ginv_shrinks by simp
next
  case (select p c)
  with assms show ?thesis using ginv_select by simp
next
  case (attach s)
  with assms show ?thesis using ginv_attach by simp
next
  case detach
  with assms show ?thesis using ginv_shrinks [OF _ shrinks_upd] by simp
next
  case (book x f)
  with assms show ?thesis using ginv_shrinks [OF assms(2) shrinks_upd, of f x] by (simp add: bookkeeping_def)
qed

lemma ginv_pacts:
  assumes "(pact r A)\<^sup>*\<^sup>* w w'" "ginv w" "r < w_next w"
  shows "ginv w'"
  using assms(1)
proof (induction rule: rtranclp_induct)
  case (step y z)
  then show ?case using ginv_pact pacts_static(2) [OF step(1)] assms(3) by simp
qed (rule assms(2))

end
