(* ===== verification/Server_Governance.thy ===== *)
theory Server_Governance
  imports Governance
begin

text \<open>
  Codec governance of the whole server: every event keeps the invariant of \<open>Governance\<close>, so it
  holds in every reachable state.
\<close>

definition good :: "world \<Rightarrow> bool" where
  "good w \<longleftrightarrow> ginv w \<and> rok (routing w)"

lemma goodI: "\<lbrakk>ginv w'; rs w w'; good w\<rbrakk> \<Longrightarrow> good w'"
  using rs_rok by (auto simp: good_def)

lemma good_ginv: "good w \<Longrightarrow> ginv w"
  by (simp add: good_def)

lemma good_rok: "good w \<Longrightarrow> rok (routing w)"
  by (simp add: good_def)

lemma good_open: "\<lbrakk>good w; c_open (cn w r)\<rbrakk> \<Longrightarrow> r < w_next w"
  by (rule ccontr) (auto simp: good_def rok_def fresh_ok_def)

lemma good_registered: "\<lbrakk>good w; s \<in> set (w_streamers w)\<rbrakk> \<Longrightarrow> c_kind (cn w s) \<noteq> PlayerConn \<and> s < w_next w"
  using good_open [of w s] by (auto simp: good_def rok_def streamers_ok_def)

lemma good_fine: "good w \<Longrightarrow> streamers_fine w"
  by (simp add: streamers_fine_def good_registered)

lemma good_clean: "good w \<Longrightarrow> clean_start r w"
  unfolding good_def ginv_def media_ok_def clean_start_def by blast

lemma good_sub:
  assumes "good w" "c_sub (cn w r) = Some s"
  shows "s < w_next w" "c_kind (cn w s) \<noteq> PlayerConn" "\<not> policy_on w s" "policy_on w r \<Longrightarrow> c_kind (cn w s) = StreamerConn"
  using assms unfolding good_def ginv_def roles_ok_def by blast+

lemma good_not_governed: "\<lbrakk>good w; c_kind (cn w r) \<noteq> PlayerConn\<rbrakk> \<Longrightarrow> \<not> policy_on w r"
  unfolding good_def ginv_def roles_ok_def by blast

lemma good_eff:
  assumes "good w" "harmless w e"
  shows "good (eff e w)"
  using assms ginv_eff by (simp add: good_def)

lemma good_send:
  assumes "good w" "r < w_next w" "\<not> media_type m \<or> \<not> policy_on w r"
  shows "good (protoSend r m w)"
  unfolding protoSend_def by (rule good_eff) (use assms in \<open>auto simp: harmless_def governs_def\<close>)

lemma good_quiet [simp]: "harmless w (Closing r c s)" "harmless w (Notified n vs)" "harmless w (Terminated r)"
  "harmless w (Pinged r)" "harmless w (Negotiation n a b c')" "harmless w (Quality p q)"
  by (simp_all add: harmless_def)

lemma good_disconnect: "good w \<Longrightarrow> good (protoDisconnect r cr w)"
  by (auto simp: protoDisconnect_def intro!: good_eff split: option.split)

lemma good_pa:
  assumes "good w" "pa r UNIV w w'" "r < w_next w" "rs w w'"
  shows "good w'"
  using assms ginv_pacts good_fine unfolding good_def pa_def by (meson rs_rok)

lemma good_shrinks: "\<lbrakk>good w; shrinks w w'; rs w w'\<rbrakk> \<Longrightarrow> good w'"
  using ginv_shrinks unfolding good_def by (meson rs_rok)

lemma shrinks_same:
  "\<lbrakk>w_conns w' = w_conns w; w_out w' = w_out w; w_next w' = w_next w;
    set (listPlayers w') \<subseteq> set (listPlayers w)\<rbrakk> \<Longrightarrow> shrinks w w'"
  by (auto simp: shrinks_def)

lemma good_same:
  assumes "good w" "routing w' = routing w" "w_out w' = w_out w" "\<And>x. c_codec (cn w' x) = c_codec (cn w x)"
  shows "good w'"
proof (rule good_shrinks [OF assms(1)])
  show "shrinks w w'"
    unfolding shrinks_def
    using assms(3,4) routing_eqD(2,4) [OF assms(2)] routing_eqD(6,13) [OF assms(2)] by (simp add: listPlayers_def)
qed (simp add: assms(2))

section \<open>Streamers and SFUs\<close>

lemma not_media_put: "k \<noteq> ''type'' \<Longrightarrow> media_type (put_fld k v m) = media_type m"
  by (simp add: media_type_def)

lemma good_sfuForward:
  assumes "good w"
  shows "good (sfuForward r m w)"
proof (cases "c_sub (cn w r)")
  case (Some s)
  note s = good_sub [OF assms Some]
  show ?thesis using good_send [OF assms s(1)] s(3) by (simp add: sfuForward_def Some)
qed (use assms in \<open>simp add: sfuForward_def\<close>)

lemma good_sfuUnsubscribe:
  assumes g: "good w" and k: "c_kind (cn w r) = SfuConn"
  shows "good (sfuUnsubscribe r w)"
proof (cases "c_sub (cn w r)")
  case None
  with g show ?thesis by (simp add: sfuUnsubscribe_def)
next
  case (Some s)
  let ?m = "mk_msg ''playerDisconnected'' [(''playerId'', JStr (c_playerId (cn w r)))]"
  let ?w = "sfuForward r ?m w"
  have f: "good ?w" by (rule good_sfuForward [OF g])
  have "shrinks ?w (sfuUnsubscribe r w)"
    by (simp add: sfuUnsubscribe_def Some Let_def shrinks_def world_simps)
  moreover have "rs ?w (sfuUnsubscribe r w)"
    using detaches_rsteps [OF detaches_sfuUnsubscribe [OF k]] by simp
  ultimately show ?thesis using good_shrinks [OF f] by blast
qed

lemma good_set_streaming: "good w \<Longrightarrow> good (set_streaming r b w)"
  by (rule good_same) (auto simp: set_streaming_def world_simps routing_upd route_def)

lemma good_playerDisconnect:
  assumes "good w" "c_kind (cn w r) = PlayerConn" "r < w_next w"
  shows "good (playerDisconnect r w)"
  using good_pa [OF assms(1) pa_disconnect [OF pa_refl] assms(3)] routing_playerDisconnect [OF assms(2)]
  by (simp add: r_into_rtranclp rstep.detach)

lemma good_streamLost:
  assumes "good w" "c_kind (cn w r) = SfuConn" "r < w_next w"
  shows "good (sfuStreamLost r w)"
proof -
  have u: "good (sfuUnsubscribe r w)" by (rule good_sfuUnsubscribe [OF assms(1,2)])
  have "w_next (sfuUnsubscribe r w) = w_next w"
    using detaches_static(5) [OF detaches_sfuUnsubscribe [OF assms(2)]] by simp
  then show ?thesis unfolding sfuStreamLost_def
    using u assms(3) by (intro good_set_streaming good_send) simp_all
qed

lemma good_listener: "\<lbrakk>good w; r \<in> set (em_listeners (c_emitter (cn w s)) Disconnected)\<rbrakk> \<Longrightarrow> r < w_next w"
  using rok_listener(1) [of w r s] rok_links [of "routing w" r s] good_open by (simp add: good_def)

lemma good_fire: "good w \<Longrightarrow> good (fire_disconnect n s w)"
proof (induction n arbitrary: s w)
  case (Suc n)
  have gone: "good (streamerGone (fire_disconnect n) r w')"
    if g: "good w'" and r: "r \<in> set (em_listeners (c_emitter (cn w' s)) Disconnected)" for r w'
  proof (cases "c_kind (cn w' r)")
    case SfuConn
    show ?thesis using Suc.IH [OF good_streamLost [OF g SfuConn good_listener [OF g r]]]
      by (simp add: streamerGone_def SfuConn)
  next
    case PlayerConn
    then show ?thesis using good_playerDisconnect [OF g PlayerConn good_listener [OF g r]] by (simp add: streamerGone_def)
  qed (use g in \<open>simp add: streamerGone_def\<close>)
  show ?case using Suc.prems by (simp, intro em_emit_invariant [where P = good]) (auto intro: gone)
qed simp

lemma good_emit_disconnect: "good w \<Longrightarrow> good (emit_disconnect s w)"
  by (simp add: emit_disconnect_def good_fire del: fire_disconnect.simps)

lemma good_sfuDisconnect: "\<lbrakk>good w; c_kind (cn w r) = SfuConn\<rbrakk> \<Longrightarrow> good (sfuDisconnect r w)"
  by (simp add: sfuDisconnect_def good_emit_disconnect good_disconnect good_sfuUnsubscribe)

lemma good_attach_sfu:
  assumes g: "good w" and k: "c_kind (cn w r) = SfuConn" "c_open (cn w r)" "c_sub (cn w r) = None"
    and s: "s \<in> set (w_streamers w)"
  shows "good (attach_sfu r s w)"
proof -
  let ?a = "upd r (\<lambda>c. c\<lparr>c_sub := Some s\<rparr>) w"
  let ?f = "\<lambda>c. c\<lparr>c_subscribers := set_add (c_playerId (cn ?a r)) (c_subscribers c)\<rparr>"
  let ?e = "\<lambda>c. c\<lparr>c_emitter := em_on Disconnected r (em_on Id_changed r (em_on Layer_preference r (c_emitter c)))\<rparr>"
  let ?b = "upd s ?e (upd s ?f ?a)"
  have np: "\<not> policy_on w r" using good_not_governed [OF g] k by simp
  have "ginv ?a" by (rule ginv_attach) (use good_ginv [OF g] good_registered [OF g s] np in auto)
  moreover have "shrinks ?a ?b" by (simp add: shrinks_def world_simps)
  ultimately have gb: "ginv ?b" by (rule ginv_shrinks)
  have rb: "rs w ?b" using rs_attach_sfu [OF k s] by (simp add: attach_sfu_def Let_def)
  have "good ?b" using gb rb g by (rule goodI)
  then show ?thesis unfolding attach_sfu_def Let_def by (rule good_sfuForward)
qed

lemma good_sfuSubscribe:
  assumes g: "good w" and k: "c_kind (cn w r) = SfuConn" "c_open (cn w r)"
  shows "good (sfuSubscribe r v w)"
proof -
  have att: "good (attach_sfu r s (if c_sub (cn w r) \<noteq> None then sfuUnsubscribe r w else w))"
    if "registry_find w sid = Some s" for s sid
  proof -
    let ?w = "if c_sub (cn w r) \<noteq> None then sfuUnsubscribe r w else w"
    have d: "detaches (routing w) (routing ?w)" using detaches_sfuUnsubscribe [OF k(1)] by simp
    have "good ?w" using g good_sfuUnsubscribe [OF g k(1)] by simp
    moreover have "c_kind (cn ?w r) = SfuConn" "c_open (cn ?w r)" "w_streamers ?w = w_streamers w"
      using detaches_static(1,2) [OF d, of r] detaches_static(6) [OF d] k by simp_all
    moreover have "c_sub (cn ?w r) = None" by simp
    ultimately show ?thesis using registry_find_Some [OF that] by (intro good_attach_sfu) simp_all
  qed
  show ?thesis unfolding sfuSubscribe_def
    using good_sfuDisconnect [OF g k(1)] att g by (auto simp del: not_None_eq split: jsval.split option.split)
qed

lemma good_sendToPlayer:
  assumes g: "good w" and k: "c_kind (cn w r) = SfuConn"
  shows "good (sendToPlayer r m w)"
proof -
  have "good (protoSend p m' w)" if "player_get w pid = Some p" "pid \<in> set (c_subscribers (cn w r))" "pid \<noteq> []" for p pid m'
  proof -
    have id: "c_playerId (cn w p) = pid" using players_okD(1) [OF rok_players [OF good_rok [OF g]] that(1)] .
    then have sub: "c_sub (cn w p) = Some r" using rok_subscribed [OF good_rok [OF g], of p r] that by simp
    then have "\<not> policy_on w p" using good_sub(4) [OF g sub] k by auto
    moreover have "p < w_next w" using good_open [OF g] rok_links [OF good_rok [OF g], of p r] sub by simp
    ultimately show ?thesis using good_send [OF g] by blast
  qed
  then show ?thesis unfolding sendToPlayer_def using g by (auto split: jsval.split option.split)
qed

lemma not_media_pong [simp]: "\<not> media_type (pong_of m)"
  by (simp add: pong_of_def)

lemma good_sfuMessage:
  assumes g: "good w" and k: "c_kind (cn w r) = SfuConn" "c_open (cn w r)"
  shows "good (sfuMessage r m w)"
proof -
  have r: "r < w_next w" using good_open [OF g k(2)] .
  show ?thesis unfolding sfuMessage_def sfuListStreamers_def
    using g k r by (simp add: good_sfuSubscribe good_sfuUnsubscribe good_sfuForward good_set_streaming
      good_emit_disconnect good_sendToPlayer good_send)
qed

lemma good_forward:
  assumes g: "good w"
  shows "good (forwardMessage s m w)"
proof (cases "addressed_player s m w")
  case (Some p)
  note a = addressed_player_Some [OF good_rok [OF g] Some]
  have p: "p < w_next w" by (rule good_open [OF g a(4)])
  show ?thesis
  proof (cases "c_kind (cn w p)")
    case PlayerConn
    have "rs w (playerSendMessage p m' w)" for m'
      by (rule mv_rsteps [of p]) (auto simp: PlayerConn a)
    then have "good (playerSendMessage p m' w)" for m'
      using good_pa [OF g pa_playerSendMessage [OF pa_refl] p] by blast
    with Some PlayerConn show ?thesis by (simp add: forwardMessage_def connSendMessage_def)
  next
    case SfuConn
    with good_not_governed [OF g, of p] good_send [OF g p] Some show ?thesis
      by (simp add: forwardMessage_def connSendMessage_def)
  qed (use a in simp)
qed (simp add: forwardMessage_def g)

lemma good_ice: "good w \<Longrightarrow> good (w\<lparr>w_ice := i\<rparr>)"
  by (rule good_same) simp_all

lemma good_any_listener:
  assumes g: "good w" and r: "r \<in> set (em_listeners (c_emitter (cn w s)) e)"
  shows "r < w_next w"
proof -
  have "c_sub (cn w r) = Some s" using g r by (auto simp: good_def rok_def listeners_ok_def)
  then have "c_open (cn w r)" using rok_links [OF good_rok [OF g], of r s] by simp
  then show ?thesis by (rule good_open [OF g])
qed

lemma good_layerPreference: "\<lbrakk>good w; \<not> media_type m\<rbrakk> \<Longrightarrow> good (onLayerPreference s m w)"
  unfolding onLayerPreference_def
  by (intro em_emit_invariant [where P = good]) (auto intro: good_send good_any_listener)

lemma good_emit_id: "good w \<Longrightarrow> good (emit_id_changed s sid w)"
  unfolding emit_id_changed_def
  by (intro em_emit_invariant [where P = good])
    (auto intro: good_send good_any_listener simp: onStreamerIdChanged_def playerSendMessage_control split: conn_kind.split)

lemma good_streamer_remove: "good w \<Longrightarrow> good (streamer_remove r w)"
proof (rule goodI [where w = w, OF _ rs_streamer_remove])
  assume g: "good w"
  show "ginv (streamer_remove r w)" unfolding streamer_remove_def
    using g ginv_eff [OF ginv_shrinks [OF good_ginv [OF g] shrinks_same]] good_ginv [OF g] by (simp add: listPlayers_def)
qed

lemma good_commit:
  assumes g: "good w" and "c_open (cn w s)" "sid \<noteq> []"
    and "\<And>s'. \<lbrakk>s' \<in> set (w_streamers w); s' \<noteq> s\<rbrakk> \<Longrightarrow> c_streamerId (cn w s') \<noteq> sid"
  shows "good (commit_streamerId s sid w)"
proof -
  have "rstep (routing w) (rname s sid (routing w))" using assms by (intro rstep.name) auto
  then have "rs w (set_streamerId s sid w)" by (simp add: routing_set_streamerId r_into_rtranclp)
  moreover have "shrinks w (set_streamerId s sid w)"
    unfolding set_streamerId_def by (rule shrinks_upd) simp_all
  ultimately have "good (set_streamerId s sid w)" using good_shrinks [OF g] by blast
  then have e: "good (emit_id_changed s sid (set_streamerId s sid w))" by (rule good_emit_id)
  have "w_next (emit_id_changed s sid (set_streamerId s sid w)) = w_next w"
    using routing_eqD(2) [OF routing_emit_id_changed] by (simp add: set_streamerId_def world_simps)
  with e good_open [OF g assms(2)] show ?thesis
    unfolding commit_streamerId_def by (intro good_send) simp_all
qed

lemma good_reject: "good w \<Longrightarrow> good (reject_streamer s reason w)"
  by (simp add: reject_streamer_def good_streamer_remove good_disconnect)

lemma good_onEndpointId:
  assumes g: "good w" and op: "c_open (cn w s)"
  shows "good (onEndpointId s m w)"
proof -
  note ok = good_rok [OF g]
  have c: "good (commit_streamerId s sid w)"
    if "sid \<noteq> []" "registry_find w sid = None \<or> registry_find w sid = Some s" for sid
  proof (rule good_commit [OF g op that(1)])
    fix s' assume s': "s' \<in> set (w_streamers w)" "s' \<noteq> s"
    show "c_streamerId (cn w s') \<noteq> sid"
      using that(2) s' registry_find_registered [OF rok_ids [OF ok] s'(1)] by (auto simp: registry_find_None)
  qed
  have f: "good (commit_streamerId s (sanitizeStreamerId w req (Some s)) w)" for req
    by (rule good_commit [OF g op]) (auto dest: sanitizeStreamerId_fresh [of _ w "Some s", THEN not_sym])
  show ?thesis
    unfolding onEndpointId_def Let_def
    by (auto split: jsval.split option.split auth_result.split intro: c f good_reject g)
qed

lemma good_streamerMessage:
  assumes g: "good w" and op: "c_open (cn w s)"
  shows "good (streamerMessage s m w)"
proof -
  have "good (onEndpointId s m (set_streaming s True w))"
    by (rule good_onEndpointId [OF good_set_streaming [OF g]])
      (use routing_eqD(7) [OF routing_set_streaming [of s True w]] op in simp)
  moreover have "good (onDisconnectPlayer s m w)"
    unfolding onDisconnectPlayer_def using g good_disconnect by (auto split: option.split)
  moreover have "good (onStreamerIceCandidate s m w)"
    unfolding onStreamerIceCandidate_def Let_def by (intro good_forward good_ice g)
  moreover have "good (onLayerPreference s m w)" if "mtype m = JStr ''layerPreference''"
    by (rule good_layerPreference [OF g]) (simp add: media_type_def that)
  moreover have "good (protoSend s (pong_of m) w)" using good_send [OF g good_open [OF g op]] by simp
  ultimately show ?thesis unfolding streamerMessage_def using g good_forward [OF g] by auto
qed

section \<open>Players\<close>

lemma good_playerMessage:
  assumes g: "good w" and "c_kind (cn w r) = PlayerConn" "c_open (cn w r)"
  shows "good (playerMessage r m w)"
  by (rule good_pa [OF g pa_playerMessage [OF good_clean [OF g] subset_UNIV] good_open [OF g assms(3)]])
    (rule mv_rsteps [OF mv_playerMessage assms(2,3)])

lemma good_handleMessage:
  assumes g: "good w" and op: "c_open (cn w r)"
  shows "good (handleMessage r m w)"
proof (cases "c_kind (cn w r)")
  case SfuConn
  have "good (onEndpointId r m (set_streaming r True w))"
    by (rule good_onEndpointId [OF good_set_streaming [OF g]])
      (use routing_eqD(7) [OF routing_set_streaming [of r True w]] op in simp)
  with SfuConn good_sfuMessage [OF g SfuConn op] show ?thesis by (simp add: handleMessage_def)
qed (use good_streamerMessage [OF assms] good_playerMessage [OF g _ op] in \<open>simp_all add: handleMessage_def\<close>)

section \<open>New connections\<close>

text \<open>What a connection is before anything was sent to it.\<close>

definition fresh_conn :: "world \<Rightarrow> ref \<Rightarrow> bool" where
  "fresh_conn w r \<longleftrightarrow> c_sub (cn w r) = None \<and> c_open (cn w r) \<and> c_playerId (cn w r) = []
     \<and> (\<forall>m. Sent r m \<notin> set (w_out w)) \<and> \<not> k_hasSubscribed (kc w r)"

lemma good_allocate:
  assumes g: "good w" and c: "route c = \<lparr>rt_kind = k, rt_open = True, rt_streamerId = sid, rt_maxSubscribers = mx,
      rt_subscribers = [], rt_emitter = [], rt_playerId = [], rt_sub = None\<rparr>"
    and n: "k_policy (c_codec c) = None" "k_sequence (c_codec c) = 0" "\<not> k_hasSubscribed (c_codec c)"
  shows "good (snd (allocate c w))" "fresh_conn (snd (allocate c w)) (w_next w)"
proof -
  let ?r = "w_next w" and ?w = "snd (allocate c w)"
  have cs: "cn ?w x = (if x = ?r then c else cn w x)" "w_out ?w = w_out w" "w_next ?w = w_next w + 1"
    "listPlayers ?w = listPlayers w" for x
    by (simp_all add: allocate_def listPlayers_def)
  have sub: "c_sub c = None" "c_open c" "c_playerId c = []" using arg_cong [OF c, of rt_sub] arg_cong [OF c, of rt_open]
      arg_cong [OF c, of rt_playerId] by simp_all
  have gi: "roles_ok w" "media_ok w" "evidence_ok w" "choice_ok w" "viewers_ok w" "log_ok w"
    using g by (simp_all add: good_def ginv_def)
  have logs: "r < ?r" if "Sent r m \<in> set (w_out w) \<or> Recorded r e \<in> set (w_out w)" for r m e
    using gi(6) that unfolding log_ok_def by blast
  have pol: "policy_on ?w x = (x \<noteq> ?r \<and> policy_on w x)" for x by (simp add: policy_on_def cs n)
  have "roles_ok ?w" unfolding roles_ok_def pol cs
    using gi(1) sub unfolding roles_ok_def by (auto simp: less_Suc_eq)
  moreover have "media_ok ?w" unfolding media_ok_def pol cs
    using gi(2) unfolding media_ok_def by auto
  moreover have "evidence_ok ?w"
  proof -
    have none: "recorded ?w ?r = []"
      using logs unfolding recorded_def cs List.map_filter_def
      by (auto simp: filter_empty_conv split: effect.splits if_splits)
    have same: "recorded ?w x = recorded w x" for x by (rule recorded_out [OF cs(2)])
    have "map ev_sequence (recorded ?w x) = [1..<Suc (k_sequence (kc ?w x))]
        \<and> (\<forall>e \<in> set (recorded ?w x). ev_connectionId e = k_connectionId (kc ?w x))" for x
    proof (cases "x = ?r")
      case True
      have "k_sequence (kc ?w ?r) = 0" using n by (simp add: cs(1))
      then show ?thesis using none unfolding True by simp
    next
      case False
      then have "kc ?w x = kc w x" by (simp add: cs(1))
      then show ?thesis using gi(3) unfolding same evidence_ok_def by (metis (no_types, lifting))
    qed
    then show ?thesis unfolding evidence_ok_def by blast
  qed
  moreover have "choice_ok ?w" unfolding choice_ok_def cs using gi(4) n unfolding choice_ok_def by auto
  moreover have "viewers_ok ?w" unfolding viewers_ok_def pol cs using gi(5) sub unfolding viewers_ok_def by auto
  moreover have "log_ok ?w" unfolding log_ok_def cs using logs less_Suc_eq by auto
  ultimately have "ginv ?w" by (simp add: ginv_def)
  then show "good ?w" using goodI rs_allocate [OF c] g by blast
  show "fresh_conn ?w ?r" unfolding fresh_conn_def cs using sub n logs by auto
qed

lemma good_sendConfig: "\<lbrakk>good w; r < w_next w\<rbrakk> \<Longrightarrow> good (sendConfigMessage r pid w)"
  by (simp add: sendConfigMessage_def connSendMessage_control good_send)

lemma sendConfig_frame [simp]:
  "w_conns (sendConfigMessage r pid w) = w_conns w" "w_next (sendConfigMessage r pid w) = w_next w"
  "w_streamers (sendConfigMessage r pid w) = w_streamers w"
  by (simp_all add: sendConfigMessage_def connSendMessage_control world_simps)

lemma good_streamer_add:
  assumes g: "good w" and "r \<notin> set (w_streamers w)" "c_open (cn w r)" "c_kind (cn w r) \<noteq> PlayerConn"
  shows "good (snd (streamer_add r w))"
proof (rule goodI [OF _ rs_streamer_add [OF good_rok [OF g] assms(2-4)] g])
  let ?w1 = "set_streamerId r (sanitizeStreamerId w (c_streamerId (cn w r)) None) w"
  let ?w2 = "?w1\<lparr>w_streamers := w_streamers ?w1 @ [r]\<rparr>"
  have s1: "shrinks w ?w1" unfolding set_streamerId_def by (rule shrinks_upd) simp_all
  have "shrinks ?w1 ?w2" by (rule shrinks_same) (simp_all add: listPlayers_def)
  with ginv_shrinks [OF good_ginv [OF g] s1] have g2: "ginv ?w2" by (rule ginv_shrinks)
  have n: "r < w_next ?w2" using good_open [OF g assms(3)] by (simp add: set_streamerId_def world_simps)
  have g3: "ginv (eff (Sent r (mk_msg ''identify'' [])) ?w2)"
    by (rule ginv_eff [OF g2]) (use n in \<open>simp add: harmless_def governs_def\<close>)
  then show "ginv (snd (streamer_add r w))"
    using ginv_shrinks [OF good_ginv [OF g] s1] by (simp add: streamer_add_def Let_def protoSend_def ginv_eff)
qed

lemma good_streamerConnected:
  assumes g: "good w"
  shows "good (onStreamerConnected w)"
proof -
  define sid where "sid = sanitizeStreamerId w [] None"
  define c where "c = (new_conn StreamerConn [] [] 0)\<lparr>c_maxSubscribers := g_maxSubscribers (w_cfg w), c_streamerId := sid\<rparr>"
  define w1 where "w1 = snd (allocate c w)"
  have g1: "good w1" unfolding w1_def
    by (rule good_allocate [OF g]) (simp_all add: c_def new_conn_def route_def new_codec_def)
  have n: "cn w1 (w_next w) = c" "w_streamers w1 = w_streamers w" "w_next w1 = w_next w + 1"
    by (simp_all add: w1_def allocate_def)
  have "good (snd (streamer_add (w_next w) (sendConfigMessage (w_next w) sid w1)))"
    by (rule good_streamer_add [OF good_sendConfig [OF g1]])
      (use n fresh_not_registered [OF good_rok [OF g]] in \<open>simp_all add: c_def new_conn_def\<close>)
  then show ?thesis
    by (simp add: onStreamerConnected_def Let_def w1_def c_def sid_def allocate_def)
qed

lemma good_player_add:
  assumes g: "good w" and "c_open (cn w r)" "c_kind (cn w r) \<noteq> StreamerConn" "c_playerId (cn w r) = []" "c_sub (cn w r) = None"
  shows "good (player_add r w)"
proof (rule goodI [OF _ rs_player_add [OF assms(2-5)] g])
  let ?w1 = "set_playerId r (playerName (w_nextPlayerId w)) (w\<lparr>w_nextPlayerId := w_nextPlayerId w + 1\<rparr>)"
  let ?w2 = "?w1\<lparr>w_players := map_set (playerName (w_nextPlayerId w)) r (w_players ?w1)\<rparr>"
  have mem: "(y, x) \<in> set (map_set k v m) \<Longrightarrow> x = v \<or> x \<in> snd ` set m" for x :: ref and y k :: string and v m
    by (induction k v m rule: map_set.induct) (force split: if_splits)+
  have "shrinks w ?w2"
    using assms(5) unfolding shrinks_def set_playerId_def
    by (auto simp: world_simps listPlayers_def image_iff dest!: mem) (metis snd_conv)
  from ginv_shrinks [OF good_ginv [OF g] this] show "ginv (player_add r w)"
    by (simp add: player_add_def Let_def ginv_eff)
qed

lemma good_sfuConnected:
  assumes g: "good w"
  shows "good (onSFUConnected w)"
proof -
  let ?r = "w_next w"
  define w1 where "w1 = snd (allocate (new_conn SfuConn [] [] 0) w)"
  define w2 where "w2 = snd (streamer_add ?r w1)"
  have n: "cn w1 ?r = new_conn SfuConn [] [] 0" "w_streamers w1 = w_streamers w" "w_next w1 = w_next w + 1"
    by (simp_all add: w1_def allocate_def)
  have g1: "good w1" unfolding w1_def
    by (rule good_allocate [OF g]) (simp_all add: new_conn_def route_def new_codec_def)
  have g2: "good w2" unfolding w2_def
    by (rule good_streamer_add [OF g1])
      (use n fresh_not_registered [OF good_rok [OF g]] in \<open>simp_all add: new_conn_def\<close>)
  have "route (cn w2 ?r) = (route (cn w1 ?r))\<lparr>rt_streamerId := sanitizeStreamerId w1 (c_streamerId (cn w1 ?r)) None\<rparr>"
    unfolding w2_def by (rule streamer_add_conns(2))
  then have f: "c_open (cn w2 ?r)" "c_kind (cn w2 ?r) = SfuConn" "c_playerId (cn w2 ?r) = []" "c_sub (cn w2 ?r) = None"
    using n by (simp_all add: route_def new_conn_def)
  have g3: "good (player_add ?r w2)" by (rule good_player_add [OF g2]) (use f in simp_all)
  have "w_next (player_add ?r w2) = w_next w + 1"
    using n by (simp add: player_add_conns w2_def streamer_add_conns)
  with g3 have "good (sendConfigMessage ?r (c_streamerId (cn (player_add ?r w2) ?r)) (player_add ?r w2))"
    by (intro good_sendConfig) simp_all
  then show ?thesis
    by (simp add: onSFUConnected_def Let_def w2_def w1_def allocate_def)
qed

section \<open>Admission of a player\<close>

lemma ginv_set_policy:
  assumes g: "ginv w" and k: "c_kind (cn w r) = PlayerConn" and f: "fresh_conn w r"
  shows "ginv (upd_codec r (\<lambda>k. k\<lparr>k_policy := Some p, k_shadow := sh, k_selected := Some (cp_defaultCodec p)\<rparr>) w)"
    (is "ginv ?w")
proof -
  have s: "kc ?w x = (if x = r then (kc w r)\<lparr>k_policy := Some p, k_shadow := sh, k_selected := Some (cp_defaultCodec p)\<rparr> else kc w x)"
    "c_kind (cn ?w x) = c_kind (cn w x)" "c_sub (cn ?w x) = c_sub (cn w x)" "w_out ?w = w_out w" "w_next ?w = w_next w"
    "recorded ?w x = recorded w x" "listPlayers ?w = listPlayers w" for x
    by (simp_all add: world_simps)
  have pol: "policy_on ?w x = (x = r \<or> policy_on w x)" for x by (simp add: policy_on_def s(1))
  have ev: "k_sequence (kc ?w x) = k_sequence (kc w x)" "k_connectionId (kc ?w x) = k_connectionId (kc w x)" for x
    by (simp_all add: s(1))
  have gi: "roles_ok w" "media_ok w" "evidence_ok w" "choice_ok w" "viewers_ok w" "log_ok w"
    using g by (simp_all add: ginv_def)
  have fr: "c_sub (cn w r) = None" "\<And>m. Sent r m \<notin> set (w_out w)" using f by (simp_all add: fresh_conn_def)
  have "roles_ok ?w" unfolding roles_ok_def pol s using gi(1) fr k unfolding roles_ok_def by auto
  moreover have "media_ok ?w" unfolding media_ok_def pol s using gi(2) fr unfolding media_ok_def by auto
  moreover have "evidence_ok ?w" unfolding evidence_ok_def ev s(6) using gi(3) unfolding evidence_ok_def .
  moreover have "choice_ok ?w" unfolding choice_ok_def s(1) using gi(4) unfolding choice_ok_def by auto
  moreover have "viewers_ok ?w" unfolding viewers_ok_def pol s using gi(5) fr unfolding viewers_ok_def by auto
  moreover have "log_ok ?w" unfolding log_ok_def s using gi(6) unfolding log_ok_def .
  ultimately show ?thesis by (simp add: ginv_def)
qed

lemma pa_open_evidence: "pa r UNIV w w' \<Longrightarrow> pa r UNIV w (snd (open_evidence r w'))"
proof -
  assume p: "pa r UNIV w w'"
  let ?f = "\<lambda>e. if k_shadow (kc w' r) = None then e
    else e\<lparr>ev_reason := Some ''Admin shadow viewer; existing session codec''\<rparr>"
  obtain b w1 where rec: "recordCodec r ''connection_opened'' ?f w' = (b, w1)" by fastforce
  have "pa r UNIV w w1" by (rule pa_record_eq [OF rec p]) simp
  then show ?thesis unfolding open_evidence_def rec prod.case by (cases b) (auto intro: pa_startTimer)
qed

lemma good_initialize:
  assumes g: "good w" and k: "c_kind (cn w r) = PlayerConn" and f: "fresh_conn w r" and n: "r < w_next w"
  shows "good (snd (initializeCodecPolicy r policy sh rdy w))"
proof (rule goodI [OF _ _ g])
  show "rs w (snd (initializeCodecPolicy r policy sh rdy w))" by (simp add: routing_initialize)
  show "ginv (snd (initializeCodecPolicy r policy sh rdy w))"
  proof (cases "policy = None \<or> \<not> rdy")
    case True
    then show ?thesis using good_ginv [OF g] by (auto simp: initializeCodecPolicy_def split: option.split)
  next
    case False
    then obtain p where p: "policy = Some p" "rdy" by auto
    define w1 where "w1 = upd_codec r (\<lambda>k. k\<lparr>k_policy := Some p, k_shadow := sh, k_selected := Some (cp_defaultCodec p)\<rparr>) w"
    have g1: "ginv w1" unfolding w1_def by (rule ginv_set_policy [OF good_ginv [OF g] k f])
    have r1: "routing w1 = routing w" by (simp add: w1_def)
    have gd: "good w1" using goodI [OF g1 _ g] r1 by simp
    have n1: "r < w_next w1" using n routing_eqD(2) [OF r1] by simp
    have via: "ginv w'" if "pa r UNIV w1 w'" for w'
      using ginv_pacts [OF _ g1 n1] that good_fine [OF gd] by (simp add: pa_def)
    have sel: "pa r UNIV w1 (upd_codec r (\<lambda>k. k\<lparr>k_selected := Some c\<rparr>) w1)" if "c \<in> set (cp_allowedCodecs p)" for c
    proof (rule pa_step [OF pa_refl])
      show "pact r UNIV w1 (upd_codec r (\<lambda>k. k\<lparr>k_selected := Some c\<rparr>) w1)"
        by (rule pact.select [of w1 r p]) (use that f in \<open>auto simp: w1_def world_simps fresh_conn_def\<close>)
    qed
    have ref: "pa r UNIV w1 (snd (refuse_shadow r reason w1))" for reason
      by (auto simp: refuse_shadow_def keeps_def intro: pa_codec)
    have "snd (initializeCodecPolicy r policy sh rdy w) = snd (if sh = None then open_evidence r w1
      else case shadowSource w1 r of
        None \<Rightarrow> refuse_shadow r ''Shadow connect requires an active owner with negotiated video and matching policy'' w1
      | Some src \<Rightarrow> (case k_selected (kc w1 src) of
           None \<Rightarrow> refuse_shadow r ''Shadow connect policy does not permit the owner codec'' w1
         | Some c \<Rightarrow> if c \<notin> set (cp_allowedCodecs p)
             then refuse_shadow r ''Shadow connect policy does not permit the owner codec'' w1
             else if c = H264 then refuse_shadow r ''Shadow connect is unavailable for H264 sessions'' w1
             else open_evidence r (upd_codec r (\<lambda>k. k\<lparr>k_selected := Some c\<rparr>) w1)))"
      unfolding initializeCodecPolicy_def p(1) option.case Let_def w1_def [symmetric] using p(2) by simp
    also have "pa r UNIV w1 \<dots>"
      using pa_open_evidence [OF pa_refl] ref pa_open_evidence [OF sel] by (auto split: option.split)
    finally show ?thesis by (rule via)
  qed
qed

lemma good_admit:
  assumes g: "good w" and "c_open (cn w r)" "c_kind (cn w r) = PlayerConn" "c_playerId (cn w r) = []" "c_sub (cn w r) = None"
  shows "good (admit_player r w)"
proof -
  have p: "good (player_add r w)" by (rule good_player_add [OF g]) (use assms in simp_all)
  then show ?thesis using good_open [OF g assms(2)]
    by (simp add: admit_player_def Let_def good_sendConfig player_add_conns)
qed

lemma good_playerConnected:
  assumes g: "good w"
  shows "good (onPlayerConnected req w)"
proof -
  let ?r = "w_next w" and ?c = "new_conn PlayerConn (pr_connectionId req) (pr_qualityId req) (w_now w)"
  let ?i = "readValidatedConnectTicketIdentity (pr_validated req) (pr_identity req)"
  define w1 where "w1 = snd (allocate ?c w)"
  define w2 where "w2 = registerPlayerKeepalive ?r (upd_session ?r (session_of req ?i) w1)"
  have g1: "good w1" "fresh_conn w1 ?r" unfolding w1_def
    by (rule good_allocate [OF g]; simp add: new_conn_def route_def new_codec_def)+
  have s: "routing w2 = routing w1" "w_out w2 = w_out w1" "kc w2 x = kc w1 x" for x
    by (simp_all add: w2_def registerPlayerKeepalive_def world_simps)
  have g2: "good w2" by (rule good_same [OF g1(1) s])
  have f2: "fresh_conn w2 ?r" using g1(2) routing_eqD(7,12,13) [OF s(1)] by (simp add: fresh_conn_def s)
  have k2: "c_kind (cn w2 ?r) = PlayerConn" and n2: "?r < w_next w2"
    using routing_eqD(2,6) [OF s(1)] by (simp_all add: w1_def allocate_def new_conn_def)
  have eq: "onPlayerConnected req w = (case ?i of None \<Rightarrow> admit_player ?r w2
      | Some i \<Rightarrow> (case initializeCodecPolicy ?r (ti_codecPolicy i) (ti_shadowSessionRequestId i) (pr_journalReady req) w2 of
           (True, w) \<Rightarrow> admit_player ?r w | (False, w) \<Rightarrow> refuse_player ?r (unregisterPlayerKeepalive ?r w)))"
    unfolding onPlayerConnected_def w2_def w1_def allocate_def Let_def prod.case snd_conv ..
  have adm: "good (admit_player ?r w')" if "good w'" "routing w' = routing w2" for w'
    by (rule good_admit [OF that(1)]) (use routing_eqD(6,7,12,13) [OF that(2), of ?r] f2 k2 in \<open>simp_all add: fresh_conn_def\<close>)
  show ?thesis
  proof (cases ?i)
    case None
    with eq adm [OF g2] show ?thesis by simp
  next
    case (Some i)
    obtain b w3 where init: "initializeCodecPolicy ?r (ti_codecPolicy i) (ti_shadowSessionRequestId i) (pr_journalReady req) w2 = (b, w3)"
      by fastforce
    have g3: "good w3" using good_initialize [OF g2 k2 f2 n2, of "ti_codecPolicy i" "ti_shadowSessionRequestId i" "pr_journalReady req"] init by simp
    have r3: "routing w3 = routing w2"
      using routing_initialize [of ?r "ti_codecPolicy i" "ti_shadowSessionRequestId i" "pr_journalReady req" w2] init by simp
    have "good (unregisterPlayerKeepalive ?r w3)"
      by (rule good_same [OF g3]) (simp_all add: unregisterPlayerKeepalive_def)
    then have "good (refuse_player ?r (unregisterPlayerKeepalive ?r w3))"
      unfolding refuse_player_def by (auto intro: good_disconnect split: option.split)
    with Some eq init adm [OF g3 r3] show ?thesis by (cases b) simp_all
  qed
qed

section \<open>Timers and closed sockets\<close>

lemma good_keepalive: "good w \<Longrightarrow> good (w\<lparr>w_keepalive := k\<rparr>)"
  by (rule good_same) simp_all

lemma good_tick: "good w \<Longrightarrow> good (runPlayerKeepaliveTick ready throws w)"
proof -
  have "good w \<Longrightarrow> good (keepalive_entry ready throws e w)" for e w
    by (cases e) (simp add: keepalive_entry_def Let_def good_keepalive good_eff)
  then have "good w \<Longrightarrow> good (fold (keepalive_entry ready throws) es w)" for es w
    by (induction es arbitrary: w) simp_all
  then show "good w \<Longrightarrow> good (runPlayerKeepaliveTick ready throws w)" by (simp add: runPlayerKeepaliveTick_def)
qed

lemma good_player_remove: "good w \<Longrightarrow> good (player_remove r w)"
proof (rule goodI [where w = w])
  assume g: "good w"
  show "rs w (player_remove r w)" by (rule rs_player_remove [OF good_rok [OF g]])
  have "set (map_delete k m) \<subseteq> set m" for k :: string and m :: "(string \<times> ref) list"
    by (auto simp: map_delete_def)
  then have s: "shrinks (eff e w) ((eff e w)\<lparr>w_players := map_delete k (w_players (eff e w))\<rparr>)" for e k
    by (intro shrinks_same) (auto simp: listPlayers_def)
  show "ginv (player_remove r w)"
    unfolding player_remove_def Let_def
    using good_ginv [OF g] ginv_shrinks [OF _ s] ginv_eff [OF good_ginv [OF g]] by simp
qed

lemma good_close_shadows:
  assumes g: "good w"
  shows "good (close_shadows w)"
proof -
  let ?f = "\<lambda>p w. if c_kind (cn w p) = PlayerConn then closeOrphanedShadow p w else w"
  have one: "good (?f p w) \<and> w_next (?f p w) = w_next w" if "good w" "p < w_next w" for p w
  proof (cases "c_kind (cn w p) = PlayerConn")
    case True
    have d: "detaches (routing w) (routing (closeOrphanedShadow p w))"
      using True by (auto simp: closeOrphanedShadow_def routing_playerDisconnect)
    have "good (closeOrphanedShadow p w)"
      by (rule good_pa [OF that(1) pa_orphaned that(2) detaches_rsteps [OF d]])
    with True detaches_static(5) [OF d] show ?thesis by simp
  qed (use that in simp)
  have "good (fold ?f ps w)" if "good w" "\<forall>p \<in> set ps. p < w_next w" for ps w
    using that
  proof (induction ps arbitrary: w)
    case (Cons p ps)
    with one [of w p] show ?case by (simp only: fold_simps) (simp del: if_split)
  qed simp
  moreover have "p < w_next w" if "p \<in> set (listPlayers w)" for p
  proof -
    have "player_get w (c_playerId (cn w p)) = Some p"
      using that mem_listPlayers [OF rok_players [OF good_rok [OF g]]] by blast
    with good_rok [OF g] have "c_open (cn w p)" by (auto simp: rok_def members_ok_def player_get_def)
    then show ?thesis by (rule good_open [OF g])
  qed
  ultimately show ?thesis using g by (simp add: close_shadows_def)
qed

lemma good_close:
  assumes g: "good w" and op: "c_open (cn w r)"
  shows "good (onTransportClose r w)"
proof (rule goodI [OF _ rs_close [OF good_rok [OF g] op] g])
  have m: "good w' \<Longrightarrow> ginv (mark_closed r w')" for w'
    unfolding mark_closed_def using good_ginv by (rule ginv_shrinks) (auto intro: shrinks_upd)
  have p: "good (unregisterPlayerKeepalive r (playerTransportClose r w))" if k: "c_kind (cn w r) = PlayerConn"
  proof -
    have "good (playerTransportClose r w)"
      by (rule good_pa [OF g pa_transportClose good_open [OF g op] mv_rsteps [OF mv_transportClose k op]])
    then show ?thesis by (simp add: unregisterPlayerKeepalive_def good_keepalive)
  qed
  show "ginv (onTransportClose r w)"
  proof (cases "c_kind (cn w r)")
    case StreamerConn
    then show ?thesis
      using m good_streamer_remove good_emit_disconnect [OF g] by (simp add: onTransportClose_def)
  next
    case SfuConn
    then show ?thesis
      using m good_player_remove good_streamer_remove good_sfuDisconnect [OF g SfuConn] by (simp add: onTransportClose_def)
  next
    case PlayerConn
    then show ?thesis
      using m p good_close_shadows good_player_remove by (simp add: onTransportClose_def Let_def)
  qed
qed

lemma good_handle:
  assumes g: "good w"
  shows "good (handle ev w)"
proof (cases ev)
  case (EvNegotiationTimeout r)
  have "good (negotiationTimeout r w)" if k: "c_kind (cn w r) = PlayerConn" "r < w_next w"
    by (rule good_pa [OF g pa_timeout k(2) rs_detaches [OF detaches_timeout [OF k(1)]]])
  with EvNegotiationTimeout g show ?thesis by simp
next
  case (EvPong r)
  then show ?thesis using g by (simp add: keepalivePong_def good_keepalive split: option.split)
next
  case (EvIceTimer pid)
  then show ?thesis using good_ice [OF g] by simp
qed (use g good_streamerConnected good_playerConnected good_sfuConnected good_handleMessage good_close good_tick in simp_all)

lemma good_advance: "good w \<Longrightarrow> good (advance now w)"
  by (rule good_same [of w]) (simp_all, simp_all add: advance_def)

lemma good_step: "good w \<Longrightarrow> good (server_step ev now w)"
  by (simp add: server_step_def good_handle good_advance)

lemma good_start: "good ((empty_world cfg)\<lparr>w_ice := i\<rparr>)"
proof (rule good_ice)
  have "ginv (empty_world cfg)"
    by (simp add: ginv_def roles_ok_def media_ok_def evidence_ok_def choice_ok_def viewers_ok_def
      log_ok_def policy_on_def empty_world_def new_conn_def new_codec_def recorded_def List.map_filter_def)
  then show "good (empty_world cfg)" by (simp add: good_def rok_empty)
qed

lemma reachable_good: "reachable cfg w \<Longrightarrow> good w"
  by (induction rule: reachable.induct) (simp_all add: good_start good_step)

end
