(* ===== verification/Server_Examples.thy ===== *)
theory Server_Examples
  imports Server_Governance
begin

text \<open>
  A server at work, for the witnesses: a streamer connects and names itself, a governed player is
  admitted and subscribes, and the streamer sends it an offer. Every world is written out and proved to
  be what \<open>server_step\<close> makes of the one before.
\<close>

definition demo_start :: world where
  "demo_start = (empty_world demo_config)\<lparr>w_ice := new_ice_monitor False 0 0\<rparr>"

abbreviation "no_conn \<equiv> (new_conn StreamerConn [] [] 0)\<lparr>c_open := False\<rparr>"

definition demo_streamer :: conn where
  "demo_streamer = (new_conn StreamerConn [] [] 0)\<lparr>c_maxSubscribers := 2, c_streamerId := ''UnknownStreamer''\<rparr>"

definition demo_config_msg :: jsval where
  "demo_config_msg = mk_msg ''config'' [(''protocolVersion'', JStr ''1.3.0''), (''peerConnectionOptions'', JObj [])]"

definition demo_w1 :: world where
  "demo_w1 = \<lparr>w_cfg = demo_config, w_conns = (\<lambda>_. no_conn)(0 := demo_streamer), w_next = 1, w_streamers = [0],
     w_players = [], w_nextPlayerId = 0, w_keepalive = [], w_ice = new_ice_monitor False 0 0,
     w_out = [Sent 0 demo_config_msg, Sent 0 (mk_msg ''identify'' []), Notified ''streamer.added'' [JStr ''UnknownStreamer'']],
     w_tick = 1, w_now = 0\<rparr>"

lemma new_conn_fields [simp]:
  "c_kind (new_conn k u q n) = k" "c_open (new_conn k u q n)" "c_playerId (new_conn k u q n) = []"
  "c_sub (new_conn k u q n) = None" "c_subscribers (new_conn k u q n) = []" "c_emitter (new_conn k u q n) = []"
  "c_codec (new_conn k u q n) = new_codec u" "c_session (new_conn k u q n) = new_session q n"
  "c_streamerId (new_conn k u q n) = []" "c_maxSubscribers (new_conn k u q n) = 0"
  by (simp_all add: new_conn_def)

lemma new_codec_fields [simp]: "k_policy (new_codec u) = None"
  by (simp add: new_codec_def)

lemma demo_config_fields [simp]: "g_maxSubscribers demo_config = 2" "g_authorize demo_config = None"
  "g_recorder demo_config = Some (\<lambda>n e. True)" "g_keepaliveEnabled demo_config"
  "g_protocolVersion demo_config = ''1.3.0''" "g_peerOptions demo_config = (\<lambda>k. JObj [])"
  "g_peerOptionsProvider demo_config = None"
  by (simp_all add: demo_config_def)

lemma demo_sanitize: "sanitize [] None [] = ''UnknownStreamer''" "sanitize ''UnknownStreamer'' None [] = ''UnknownStreamer''"
  "sanitize ''Main'' (Some ''UnknownStreamer'') [] = ''Main''"
  by code_simp+

lemma demo_step1: "server_step EvStreamer 0 demo_start = demo_w1"
  unfolding demo_w1_def demo_streamer_def
  by (simp add: demo_start_def server_step_def advance_def onStreamerConnected_def allocate_def empty_world_def
      sendConfigMessage_def connSendMessage_def streamer_add_def sanitizeStreamerId_def registry_find_def
      protoSend_def eff_def getPeerOptions_def demo_config_msg_def set_streamerId_def upd_def demo_sanitize Let_def)


lemma pos_simps [simp]: "k_policy (c_codec demo_streamer) = None" "c_kind demo_streamer = StreamerConn" "c_open demo_streamer"
  "c_emitter demo_streamer = []" "c_streamerId demo_streamer = ''UnknownStreamer''" "c_subscribers demo_streamer = []"
  "c_maxSubscribers demo_streamer = 2" "c_sub demo_streamer = None" "c_playerId demo_streamer = []"
  by (simp_all add: demo_streamer_def)

lemma fld_mk_msg [simp]: "fld (mk_msg t fs) k = fld (JObj ((''type'', JStr t) # fs)) k"
  by (simp add: mk_msg_def)

definition demo_named :: conn where
  "demo_named = demo_streamer\<lparr>c_streaming := True, c_streamerId := ''Main''\<rparr>"

definition demo_w2 :: world where
  "demo_w2 = demo_w1\<lparr>w_conns := (\<lambda>_. no_conn)(0 := demo_named), w_tick := 2,
     w_out := w_out demo_w1 @ [Sent 0 (mk_msg ''endpointIdConfirm'' [(''committedId'', JStr ''Main'')])]\<rparr>"

lemma demo_step2: "server_step (EvMessage 0 (mk_msg ''endpointId'' [(''id'', JStr ''Main'')])) 0 demo_w1 = demo_w2"
  unfolding demo_w2_def demo_named_def
  by (simp add: demo_w1_def server_step_def advance_def valid_envelope_def handleMessage_def streamerMessage_def
      onEndpointId_def set_streaming_def commit_streamerId_def sanitizeStreamerId_def set_streamerId_def upd_def
      emit_id_changed_def em_emit_def em_listeners_def protoSend_def eff_def demo_sanitize map_get_def Let_def)

definition demo_request :: player_request where
  "demo_request = \<lparr>pr_validated = True, pr_identity = Some \<lparr>ti_sessionRequestId = Some ''r1'',
     ti_shadowSessionRequestId = None, ti_activeSessionId = None, ti_codecPolicy = Some demo_policy\<rparr>,
     pr_querySessionId = None, pr_querySessionRequestId = None, pr_connectionId = ''c1'', pr_qualityId = ''q1'',
     pr_journalReady = True\<rparr>"

definition demo_session :: session_state where
  "demo_session = (new_session ''q1'' 0)\<lparr>s_requestId := Some ''r1'', s_identityValidated := True\<rparr>"

definition demo_codec :: codec_state where
  "demo_codec = (new_codec ''c1'')\<lparr>k_policy := Some demo_policy, k_selected := Some VP9, k_sequence := 1, k_timer := True\<rparr>"

definition demo_player :: conn where
  "demo_player = (new_conn PlayerConn ''c1'' ''q1'' 0)\<lparr>c_playerId := ''Player0'', c_codec := demo_codec, c_session := demo_session\<rparr>"

definition demo_opened :: evidence where
  "demo_opened = \<lparr>ev_sessionRequestId = ''r1'', ev_connectionId = ''c1'', ev_sequence = 1, ev_mediaGeneration = 0,
     ev_eventType = ''connection_opened'', ev_codec = Some VP9, ev_source = ''signalling'',
     ev_policyHash = cp_policyHash demo_policy, ev_reason = None, ev_framesDecoded = None, ev_bytesReceived = None\<rparr>"

definition demo_w3 :: world where
  "demo_w3 = demo_w2\<lparr>w_conns := (\<lambda>_. no_conn)(0 := demo_named, 1 := demo_player), w_next := 2, w_tick := 3,
     w_players := [(''Player0'', 1)], w_nextPlayerId := 1, w_keepalive := [(1, 0)],
     w_out := w_out demo_w2 @ [Recorded 1 demo_opened, Notified ''player.added'' [JStr ''Player0''], Sent 1 demo_config_msg]\<rparr>"

lemma demo_identity: "session_text (Some ''r1'') = Some ''r1''" "session_text None = None"
  by code_simp+

lemma playerName_0: "playerName 0 = ''Player0''"
  by (simp add: playerName_def show_nat.simps digit_char_def char_of_def bit_0)

lemma not_media_filter: "\<lbrakk>mtype m \<noteq> JStr ''offer''; mtype m \<noteq> JStr ''answer''\<rbrakk> \<Longrightarrow> playerSendMessage r m w = protoSend r m w"
  by (simp add: playerSendMessage_def filterCodecMessage_def)

lemma demo_config_type [simp]: "mtype demo_config_msg = JStr ''config''"
  by (simp add: demo_config_msg_def)

lemma demo_send_config: "w_cfg w = demo_config \<Longrightarrow> sendConfigMessage r pid w = connSendMessage r demo_config_msg w"
  by (simp add: sendConfigMessage_def getPeerOptions_def demo_config_msg_def)

lemmas admission_eval = server_step_def advance_def onPlayerConnected_def allocate_def demo_request_def
  demo_send_config readValidatedConnectTicketIdentity_def demo_identity upd_session_def upd_codec_def upd_def session_of_def
  registerPlayerKeepalive_def initializeCodecPolicy_def open_evidence_def recordCodec_def evidence_of_def
  first_some_def startNegotiationTimer_def policy_on_def admit_player_def player_add_def set_playerId_def
  connSendMessage_def not_media_filter protoSend_def eff_def Let_def

lemma demo_step3: "server_step (EvPlayer demo_request) 0 demo_w2 = demo_w3"
  unfolding demo_w3_def demo_player_def demo_codec_def demo_session_def demo_opened_def
  apply (simp add: demo_w2_def demo_w1_def admission_eval playerName_0)
  apply (simp add: new_codec_def new_session_def new_conn_def demo_policy_def)
  done

definition demo_subscriber :: conn where
  "demo_subscriber = demo_player\<lparr>c_sub := Some 0, c_codec := demo_codec\<lparr>k_finalized := True, k_hasSubscribed := True,
     k_descriptionReceived := False\<rparr>\<rparr>"

definition demo_serving :: conn where
  "demo_serving = demo_named\<lparr>c_subscribers := [''Player0''], c_emitter := [(Id_changed, [1]), (Disconnected, [1])]\<rparr>"

definition demo_name :: string where
  "demo_name = ''Player0-codec-c1-0''"

lemma demo_name: "show_nat 0 = ''0''"
  by (simp add: show_nat.simps digit_char_def char_of_def bit_0)

definition demo_w4 :: world where
  "demo_w4 = demo_w3\<lparr>w_conns := (\<lambda>_. no_conn)(1 := demo_subscriber, 0 := demo_serving), w_tick := 4,
     w_out := w_out demo_w3 @ [Sent 0 (mk_msg ''playerConnected'' [(''playerId'', JStr demo_name),
         (''dataChannel'', JBool True), (''sfu'', JBool False)]),
       Negotiation ''streamer_negotiation_started'' (Some 0) (Some ''r1'') (Some ''Player0'')]\<rparr>"

lemma demo_player_fields [simp]: "c_kind demo_player = PlayerConn" "c_open demo_player" "c_codec demo_player = demo_codec"
  "c_session demo_player = demo_session" "c_sub demo_player = None" "c_playerId demo_player = ''Player0''"
  "k_policy demo_codec = Some demo_policy" "\<not> k_failed demo_codec" "k_shadow demo_codec = None" "\<not> k_hasSubscribed demo_codec"
  "k_selected demo_codec = Some VP9" "k_connectionId demo_codec = ''c1''" "k_generation demo_codec = 0" "k_timer demo_codec"
  "\<not> k_descriptionReceived demo_codec"
  "s_identityValidated demo_session" "s_requestId demo_session = Some ''r1''"
  by (simp_all add: demo_player_def demo_codec_def demo_session_def new_codec_def new_session_def)

lemma demo_named_fields [simp]: "c_kind demo_named = StreamerConn" "c_streamerId demo_named = ''Main''" "c_maxSubscribers demo_named = 2"
  "c_subscribers demo_named = []" "c_emitter demo_named = []" "c_codec demo_named = new_codec []" "c_open demo_named"
  by (simp_all add: demo_named_def demo_streamer_def)

lemma attach_governed:
  assumes "r \<noteq> s" "policy_on w r" "k_timer (kc w r)" "s_identityValidated (sc w r)" "k_shadow (kc w r) = None"
  shows "attach_player r s w = w\<lparr>w_conns := (w_conns w)
     (r := (cn w r)\<lparr>c_sub := Some s, c_codec := (kc w r)\<lparr>k_descriptionReceived := False\<rparr>\<rparr>,
      s := (cn w s)\<lparr>c_subscribers := set_add (c_playerId (cn w r)) (c_subscribers (cn w s)),
             c_emitter := em_on Disconnected r (em_on Id_changed r (c_emitter (cn w s)))\<rparr>),
     w_out := w_out w @ [Sent s (mk_msg ''playerConnected'' [(''playerId'', JStr (streamerPlayerId w r)),
         (''dataChannel'', JBool True), (''sfu'', JBool False)]),
       Negotiation ''streamer_negotiation_started'' (Some s) (s_requestId (sc w r)) (Some (c_playerId (cn w r)))]\<rparr>"
proof -
  have spid: "streamerPlayerId w' r = streamerPlayerId w r"
    if "c_playerId (cn w' r) = c_playerId (cn w r)" "k_policy (kc w' r) = k_policy (kc w r)"
      "k_connectionId (kc w' r) = k_connectionId (kc w r)" "k_generation (kc w' r) = k_generation (kc w r)" for w'
    using that by (simp add: streamerPlayerId_def policy_on_def)
  define w1 where "w1 = upd_codec r (\<lambda>k. k\<lparr>k_descriptionReceived := False\<rparr>) (upd r (\<lambda>c. c\<lparr>c_sub := Some s\<rparr>) w)"
  have t: "startNegotiationTimer r w1 = w1"
    using assms(3) by (simp add: startNegotiationTimer_def w1_def world_simps)
  have w1: "w1 = w\<lparr>w_conns := (w_conns w)(r := (cn w r)\<lparr>c_sub := Some s, c_codec := (kc w r)\<lparr>k_descriptionReceived := False\<rparr>\<rparr>)\<rparr>"
    by (simp add: w1_def upd_codec_def upd_def)
  define w2 where "w2 = upd s (\<lambda>c. c\<lparr>c_emitter := em_on Disconnected r (em_on Id_changed r (c_emitter c))\<rparr>)
     (upd s (\<lambda>c. c\<lparr>c_subscribers := set_add (c_playerId (cn w1 r)) (c_subscribers c)\<rparr>) w1)"
  have w2: "w2 = w1\<lparr>w_conns := (w_conns w1)(s := (cn w s)\<lparr>c_subscribers := set_add (c_playerId (cn w r)) (c_subscribers (cn w s)),
      c_emitter := em_on Disconnected r (em_on Id_changed r (c_emitter (cn w s)))\<rparr>)\<rparr>"
    using assms(1) by (simp add: w2_def upd_def w1)
  have r: "cn w2 r = (cn w r)\<lparr>c_sub := Some s, c_codec := (kc w r)\<lparr>k_descriptionReceived := False\<rparr>\<rparr>"
    using assms(1) by (simp add: w2 w1)
  have f: "forwardToStreamer r (mk_msg ''playerConnected'' [(''playerId'', JStr (c_playerId (cn w2 r))), (''dataChannel'', JBool True),
        (''sfu'', JBool False)]) w2
    = eff (Sent s (mk_msg ''playerConnected'' [(''playerId'', JStr (streamerPlayerId w r)), (''dataChannel'', JBool True),
        (''sfu'', JBool False)])) w2"
    by (simp add: forwardToStreamer_def r protoSend_def mk_msg_def spid [of w2])
  have "attach_player r s w = eff (Negotiation ''streamer_negotiation_started'' (Some s) (s_requestId (sc w r)) (Some (c_playerId (cn w r))))
     (eff (Sent s (mk_msg ''playerConnected'' [(''playerId'', JStr (streamerPlayerId w r)), (''dataChannel'', JBool True),
        (''sfu'', JBool False)])) w2)"
    using assms(2,4,5) f unfolding attach_player_def Let_def w1_def [symmetric] t w2_def [symmetric]
    by (simp add: policy_on_def world_simps r)
  then show ?thesis by (simp add: eff_def w2 w1)
qed

lemma demo_step4: "server_step (EvMessage 1 (mk_msg ''subscribe'' [(''streamerId'', JStr ''Main'')])) 0 demo_w3 = demo_w4"
  unfolding demo_w4_def demo_serving_def demo_subscriber_def
  apply (simp add: demo_w3_def demo_w2_def demo_w1_def server_step_def advance_def valid_envelope_def handleMessage_def
      playerMessage_def)
  apply (simp add: subscribe_def upd_codec_def upd_def registry_find_def policy_on_def h264_conflict_def
      listPlayers_def restart_generation_def Let_def)
  apply (simp add: attach_governed policy_on_def)
  apply (simp add: streamerPlayerId_def policy_on_def demo_name demo_name_def set_add_def em_on_def em_listeners_def map_get_def)
  done

lemma demo_reachable: "reachable demo_config demo_w4"
proof -
  have "reachable demo_config demo_start" unfolding demo_start_def by (rule reachable.start)
  from reachable.step [OF reachable.step [OF reachable.step [OF reachable.step [OF this]]],
      of "EvMessage 1 (mk_msg ''subscribe'' [(''streamerId'', JStr ''Main'')])" 0 "EvPlayer demo_request" 0
      "EvMessage 0 (mk_msg ''endpointId'' [(''id'', JStr ''Main'')])" 0 EvStreamer 0]
  show ?thesis by (simp only: demo_step1 demo_step2 demo_step3 demo_step4)
qed

lemma demo_w4_fields [simp]:
  "cn demo_w4 0 = demo_serving" "cn demo_w4 (Suc 0) = demo_subscriber" "w_players demo_w4 = [(''Player0'', 1)]"
  "w_streamers demo_w4 = [0]" "w_cfg demo_w4 = demo_config" "w_next demo_w4 = 2"
  by (simp_all add: demo_w4_def demo_w3_def demo_w2_def demo_w1_def)

lemma demo_serving_fields [simp]: "c_kind demo_serving = StreamerConn" "c_open demo_serving" "c_streamerId demo_serving = ''Main''"
  by (simp_all add: demo_serving_def)

lemma demo_subscriber_fields [simp]: "c_kind demo_subscriber = PlayerConn" "c_open demo_subscriber" "c_sub demo_subscriber = Some 0"
  "c_playerId demo_subscriber = ''Player0''" "k_policy (c_codec demo_subscriber) = Some demo_policy"
  "k_connectionId (c_codec demo_subscriber) = ''c1''" "k_generation (c_codec demo_subscriber) = 0"
  "\<not> k_failed (c_codec demo_subscriber)" "k_shadow (c_codec demo_subscriber) = None"
  "k_selected (c_codec demo_subscriber) = Some VP9" "k_sequence (c_codec demo_subscriber) = 1"
  by (simp_all add: demo_subscriber_def) (simp add: demo_codec_def)

definition demo_offer_msg :: "string \<Rightarrow> string \<Rightarrow> jsval" where
  "demo_offer_msg pid sdp = mk_msg ''offer'' [(''playerId'', JStr pid), (''sdp'', JStr sdp)]"

definition demo_w5 :: world where
  "demo_w5 = server_step (EvMessage 0 (demo_offer_msg demo_name demo_offer)) 0 demo_w4"

lemma demo_addressed: "addressed_player 0 (demo_offer_msg demo_name demo_offer) (advance 0 demo_w4) = Some 1"
proof -
  have "rok (routing (advance 0 demo_w4))" using reachable_ok [OF demo_reachable] by simp
  moreover have "1 \<in> set (listPlayers (advance 0 demo_w4))" by (simp add: listPlayers_def advance_def)
  moreover have "streamerPlayerId (advance 0 demo_w4) 1 = demo_name"
    by (simp add: streamerPlayerId_def policy_on_def advance_def demo_name demo_name_def)
  ultimately show ?thesis by (simp add: addressed_player_iff demo_offer_msg_def advance_def)
qed

lemma demo_step5: "\<exists>es. w_out demo_w5 = w_out demo_w4 @ es @ [Sent 1 (demo_offer_msg ''Player0'' demo_restricted)]"
  "k_policy (kc demo_w5 1) = Some demo_policy" "k_selected (kc demo_w5 1) = Some VP9" "c_sub (cn demo_w5 1) = Some 0"
proof -
  let ?m = "demo_offer_msg demo_name demo_offer" and ?m' = "demo_offer_msg ''Player0'' demo_offer"
  let ?a = "advance 0 demo_w4"
  have a: "cn ?a = cn demo_w4" "w_out ?a = w_out demo_w4" by (simp_all add: advance_def)
  have m: "mtype ?m = JStr ''offer''" "mtype ?m' = JStr ''offer''" "valid_envelope ?m" "\<not> svc_or_sfu ?m'"
    "fld ?m' ''sdp'' = JStr demo_offer" "put_fld ''playerId'' (JStr ''Player0'') ?m = ?m'"
    "put_fld ''sdp'' (JStr demo_restricted) ?m' = demo_offer_msg ''Player0'' demo_restricted"
    by (simp_all add: demo_offer_msg_def valid_envelope_def svc_or_sfu_def) (simp_all add: mk_msg_def)
  have "demo_w5 = playerSendMessage 1 ?m' ?a"
    by (simp add: demo_w5_def server_step_def a m handleMessage_def streamerMessage_def forwardMessage_def
        demo_addressed connSendMessage_def)
  also have "\<dots> = protoSend 1 (demo_offer_msg ''Player0'' demo_restricted) (accept_offer 1 demo_restricted True
      (note_response 1 True (upd_codec 1 (\<lambda>k. k\<lparr>k_finalized := True\<rparr>) ?a)))"
    by (simp add: playerSendMessage_def filterCodecMessage_def filterDescription_def policy_on_def a m world_simps
        restrict_selected_def demo_offer_restricted Let_def)
  finally have e: "demo_w5 = protoSend 1 (demo_offer_msg ''Player0'' demo_restricted) (accept_offer 1 demo_restricted True
      (note_response 1 True (upd_codec 1 (\<lambda>k. k\<lparr>k_finalized := True\<rparr>) ?a)))" .
  show "\<exists>es. w_out demo_w5 = w_out demo_w4 @ es @ [Sent 1 (demo_offer_msg ''Player0'' demo_restricted)]"
    by (auto simp: e accept_offer_def note_response_def sendCodecState_def startNegotiationTimer_def world_simps a)
  show "k_policy (kc demo_w5 1) = Some demo_policy" "k_selected (kc demo_w5 1) = Some VP9" "c_sub (cn demo_w5 1) = Some 0"
    by (simp_all add: e accept_offer_def note_response_def sendCodecState_def startNegotiationTimer_def policy_on_def world_simps a)
qed


text \<open>A second governed player, of the same session, joins and subscribes.\<close>

definition demo_player2 :: conn where
  "demo_player2 = demo_player\<lparr>c_playerId := ''Player1''\<rparr>"

definition demo_w6 :: world where
  "demo_w6 = demo_w4\<lparr>w_conns := (\<lambda>_. no_conn)(1 := demo_subscriber, 0 := demo_serving, 2 := demo_player2), w_next := 3,
     w_tick := 5, w_players := [(''Player0'', 1), (''Player1'', 2)], w_nextPlayerId := 2, w_keepalive := [(1, 0), (2, 0)],
     w_out := w_out demo_w4 @ [Recorded 2 demo_opened, Notified ''player.added'' [JStr ''Player1''], Sent 2 demo_config_msg]\<rparr>"

lemma playerName_1: "playerName (Suc 0) = ''Player1''"
  by (simp add: playerName_def show_nat.simps digit_char_def char_of_def bit_Suc bit_0)

lemma demo_step6: "server_step (EvPlayer demo_request) 0 demo_w4 = demo_w6"
  unfolding demo_w6_def demo_player2_def demo_player_def demo_codec_def demo_session_def demo_opened_def
  apply (simp add: demo_w4_def demo_w3_def demo_w2_def demo_w1_def admission_eval playerName_1)
  apply (simp add: new_codec_def new_session_def new_conn_def demo_policy_def)
  done

definition demo_subscriber2 :: conn where
  "demo_subscriber2 = demo_player2\<lparr>c_sub := Some 0, c_codec := demo_codec\<lparr>k_finalized := True, k_hasSubscribed := True,
     k_descriptionReceived := False\<rparr>\<rparr>"

definition demo_serving2 :: conn where
  "demo_serving2 = demo_serving\<lparr>c_subscribers := [''Player0'', ''Player1''],
     c_emitter := [(Id_changed, [1, 2]), (Disconnected, [1, 2])]\<rparr>"

definition demo_name2 :: string where
  "demo_name2 = ''Player1-codec-c1-0''"

definition demo_w7 :: world where
  "demo_w7 = demo_w6\<lparr>w_conns := (\<lambda>_. no_conn)(1 := demo_subscriber, 2 := demo_subscriber2, 0 := demo_serving2), w_tick := 6,
     w_out := w_out demo_w6 @ [Sent 0 (mk_msg ''playerConnected'' [(''playerId'', JStr demo_name2),
         (''dataChannel'', JBool True), (''sfu'', JBool False)]),
       Negotiation ''streamer_negotiation_started'' (Some 0) (Some ''r1'') (Some ''Player1'')]\<rparr>"

lemma demo_player2_fields [simp]: "c_kind demo_player2 = PlayerConn" "c_open demo_player2" "c_codec demo_player2 = demo_codec"
  "c_session demo_player2 = demo_session" "c_sub demo_player2 = None" "c_playerId demo_player2 = ''Player1''"
  by (simp_all add: demo_player2_def)

lemma demo_serving_more [simp]: "c_maxSubscribers demo_serving = 2" "c_subscribers demo_serving = [''Player0'']"
  "c_emitter demo_serving = [(Id_changed, [1]), (Disconnected, [1])]"
  by (simp_all add: demo_serving_def)

lemma demo_step7: "server_step (EvMessage 2 (mk_msg ''subscribe'' [(''streamerId'', JStr ''Main'')])) 0 demo_w6 = demo_w7"
  unfolding demo_w7_def demo_serving2_def demo_subscriber2_def
  apply (simp add: demo_w6_def demo_w4_def demo_w3_def demo_w2_def demo_w1_def server_step_def advance_def valid_envelope_def handleMessage_def
      playerMessage_def)
  apply (simp add: subscribe_def upd_codec_def upd_def registry_find_def policy_on_def h264_conflict_def
      listPlayers_def restart_generation_def Let_def)
  apply (simp add: attach_governed policy_on_def)
  apply (simp add: streamerPlayerId_def policy_on_def demo_name demo_name2_def set_add_def em_on_def em_listeners_def map_get_def)
  done

end
