(* ===== verification/Signalling_Properties.thy ===== *)
theory Signalling_Properties
  imports Server_Examples
begin

text \<open>What the signalling server promises in every reachable state.\<close>

section \<open>The registries and the subscriptions\<close>

text \<open>
  C4: The server refines the specification of its bookkeeping: whatever event it handles, and whatever
  the authorizer, the recorder and the sockets do meanwhile, the change of who is registered under which
  id and who is subscribed to whom is a sequence of the steps of \<open>Routing\<close>.
\<close>

theorem server_refines_routing:
  assumes "reachable cfg w"
  shows "rstep\<^sup>*\<^sup>* (routing w) (routing (server_step ev now w))"
  using server_step_refines [of w ev now] reachable_ok [OF assms] by simp

theorem server_refines_routing_witness: "rstep\<^sup>*\<^sup>* (routing demo_w4) (routing (server_step (EvClose 0) 1 demo_w4))"
  by (rule server_refines_routing [OF demo_reachable])

text \<open>
  C17: Subscriptions are recorded consistently: a connection that is subscribed is open, and so is its
  streamer; the streamer's set of subscribers, for every connection that has an id, holds that id exactly
  while the connection is subscribed to it, and no id twice; and it has exactly the listeners of the
  connections subscribed to it, each once. Of connections without an id (players whose admission was
  refused, \<open>refused_player_subscribes\<close>) the set says nothing: they share the empty id.
\<close>

theorem subscriptions_consistent:
  assumes "reachable cfg w"
  shows "(c_sub (cn w r) = Some s \<longrightarrow> c_open (cn w r) \<and> c_open (cn w s)
            \<and> c_kind (cn w r) \<noteq> StreamerConn \<and> c_kind (cn w s) \<noteq> PlayerConn)
    \<and> (c_playerId (cn w r) \<noteq> [] \<longrightarrow> (c_playerId (cn w r) \<in> set (c_subscribers (cn w s)) \<longleftrightarrow> c_sub (cn w r) = Some s))
    \<and> distinct (c_subscribers (cn w s))
    \<and> (r \<in> set (em_listeners (c_emitter (cn w s)) e) \<longleftrightarrow> c_sub (cn w r) = Some s \<and> e \<in> set (events_of (c_kind (cn w r))))
    \<and> distinct (em_listeners (c_emitter (cn w s)) e)"
  using reachable_ok [OF assms] rok_links [of "routing w" r s] rok_subscribed [of w r s]
  by (auto simp: rok_def listeners_ok_def subscribers_ok_def)

theorem subscriptions_consistent_witness:
  "''Player0'' \<in> set (c_subscribers (cn demo_w4 0)) \<and> 1 \<in> set (em_listeners (c_emitter (cn demo_w4 0)) Disconnected)"
  using subscriptions_consistent [OF demo_reachable, of 1 0 Disconnected] by (simp add: events_of_def)

text \<open>
  C31: A streamer never has more registered players than its limit, whatever is subscribed, renamed,
  closed or reconnected in whatever order. Registered players are those that were given an id. Not
  counted are other servers that subscribe, and players whose admission was refused: those stay without
  an id, can subscribe until their socket closes (\<open>refused_player_subscribes\<close>) and share the empty id,
  which the streamer's set of subscribers holds only once.
\<close>

theorem subscriber_limit:
  assumes "reachable cfg w" "0 < c_maxSubscribers (cn w s)"
  shows "finite {r. c_sub (cn w r) = Some s \<and> c_kind (cn w r) = PlayerConn \<and> c_playerId (cn w r) \<noteq> []}
    \<and> int (card {r. c_sub (cn w r) = Some s \<and> c_kind (cn w r) = PlayerConn \<and> c_playerId (cn w r) \<noteq> []})
        \<le> c_maxSubscribers (cn w s)"
  using reachable_ok [OF assms(1)] joined_card(1) [of "routing w" s] assms(2)
  by (simp add: limit_ok_def joined_def)

lemma demo_w7_viewers:
  "cn demo_w7 0 = demo_serving2" "cn demo_w7 1 = demo_subscriber" "cn demo_w7 2 = demo_subscriber2"
  "w_players demo_w7 = [(''Player0'', 1), (''Player1'', 2)]" "c_maxSubscribers demo_serving2 = 2"
  "c_sub demo_subscriber = Some 0" "c_sub demo_subscriber2 = Some 0" "c_kind demo_subscriber = PlayerConn"
  "c_kind demo_subscriber2 = PlayerConn" "c_playerId demo_subscriber = ''Player0''" "c_playerId demo_subscriber2 = ''Player1''"
  by (simp_all add: demo_w7_def demo_w6_def demo_serving2_def demo_subscriber2_def)

lemma demo_w7_reachable: "reachable demo_config demo_w7"
  using reachable.step [OF reachable.step [OF demo_reachable],
      of "EvMessage 2 (mk_msg ''subscribe'' [(''streamerId'', JStr ''Main'')])" 0 "EvPlayer demo_request" 0]
  by (simp only: demo_step6 demo_step7)

text \<open>Two players at a streamer that takes two: it has no room for another.\<close>

theorem subscriber_limit_witness:
  "c_maxSubscribers (cn demo_w7 0) = 2
    \<and> card {r. c_sub (cn demo_w7 r) = Some 0 \<and> c_kind (cn demo_w7 r) = PlayerConn \<and> c_playerId (cn demo_w7 r) \<noteq> []} = 2"
proof -
  let ?S = "{r. c_sub (cn demo_w7 r) = Some 0 \<and> c_kind (cn demo_w7 r) = PlayerConn \<and> c_playerId (cn demo_w7 r) \<noteq> []}"
  have m: "c_maxSubscribers (cn demo_w7 0) = 2" by (simp add: demo_w7_viewers)
  with subscriber_limit [OF demo_w7_reachable, of 0] have u: "finite ?S" "card ?S \<le> 2" by simp_all
  have "{1, 2} \<subseteq> ?S" by (auto simp: demo_w7_viewers simp del: One_nat_def)
  from card_mono [OF u(1) this] have "2 \<le> card ?S" by simp
  with u(2) m show ?thesis by simp
qed

lemma closed_unreferenced:
  assumes "rok (routing w)" "\<not> c_open (cn w r)"
  shows "r \<notin> set (w_streamers w) \<and> r \<notin> set (listPlayers w) \<and> c_sub (cn w r) = None \<and> c_sub (cn w x) \<noteq> Some r
    \<and> r \<notin> set (em_listeners (c_emitter (cn w s)) e)
    \<and> (c_playerId (cn w r) \<noteq> [] \<longrightarrow> c_playerId (cn w r) \<notin> set (c_subscribers (cn w s)))"
proof -
  have sub: "c_sub (cn w r) = None" "c_sub (cn w x) \<noteq> Some r"
    using rok_links [OF assms(1), of r] rok_links [OF assms(1), of x r] assms(2) by (auto intro: option.exhaust)
  have "r \<notin> set (listPlayers w)"
    using assms mem_listPlayers [OF rok_players [OF assms(1)], of r] unfolding rok_def members_ok_def
    by (auto simp: player_get_def)
  with sub assms rok_subscribed [OF assms(1)] show ?thesis
    by (auto simp: rok_def streamers_ok_def listeners_ok_def)
qed

text \<open>
  C30: Nothing refers to a connection that has closed: it is in no registry, subscribed to nothing, and
  nothing is subscribed to it, listens to it or counts it as a subscriber.
\<close>

theorem closed_leaves_nothing:
  assumes "reachable cfg w" "\<not> c_open (cn w r)"
  shows "r \<notin> set (w_streamers w) \<and> r \<notin> set (listPlayers w) \<and> c_sub (cn w r) = None \<and> c_sub (cn w x) \<noteq> Some r
    \<and> r \<notin> set (em_listeners (c_emitter (cn w s)) e)
    \<and> (c_playerId (cn w r) \<noteq> [] \<longrightarrow> c_playerId (cn w r) \<notin> set (c_subscribers (cn w s)))"
  using reachable_ok [OF assms(1)] closed_unreferenced [OF _ assms(2)] by blast


lemma close_closes: "c_open (cn w r) \<Longrightarrow> \<not> c_open (cn (server_step (EvClose r) now w) r)"
  by (simp add: server_step_def advance_def onTransportClose_def mark_closed_def upd_def)

lemma rstep_playerId: "\<lbrakk>rstep x y; rok x; rt_playerId (rc x r) \<noteq> []\<rbrakk> \<Longrightarrow> rt_playerId (rc y r) = rt_playerId (rc x r)"
  by (induction rule: rstep.induct)
    (auto simp: rop_simps rconnect_def renlist_def rdelist_def rleave_def rjoin_def rupd_def rok_def fresh_ok_def)

lemma rsteps_playerId: "\<lbrakk>rstep\<^sup>*\<^sup>* x y; rok x; rt_playerId (rc x r) \<noteq> []\<rbrakk> \<Longrightarrow> rt_playerId (rc y r) = rt_playerId (rc x r)"
  by (induction rule: rtranclp_induct) (auto dest: rsteps_rok simp: rstep_playerId)

lemma playerId_stable:
  "\<lbrakk>reachable cfg w; c_playerId (cn w p) \<noteq> []\<rbrakk> \<Longrightarrow> c_playerId (cn (server_step ev now w) p) = c_playerId (cn w p)"
  using rsteps_playerId [OF server_step_refines [of w ev now], of p] reachable_ok [of cfg w] by simp

theorem closed_leaves_nothing_witness:
  "1 \<notin> set (listPlayers (server_step (EvClose 1) 5 demo_w4))
   \<and> ''Player0'' \<notin> set (c_subscribers (cn (server_step (EvClose 1) 5 demo_w4) 0))"
proof -
  let ?w = "server_step (EvClose 1) 5 demo_w4"
  have r: "reachable demo_config ?w" by (rule reachable.step [OF demo_reachable])
  have c: "\<not> c_open (cn ?w 1)" by (rule close_closes) simp
  have pid: "c_playerId (cn ?w 1) = ''Player0''"
    using playerId_stable [OF demo_reachable, of 1 "EvClose 1" 5] by simp
  then have "c_playerId (cn ?w 1) \<noteq> []" by (simp only:) simp
  with closed_leaves_nothing [OF r c, of 0 0 Disconnected]
  have "1 \<notin> set (listPlayers ?w) \<and> c_playerId (cn ?w 1) \<notin> set (c_subscribers (cn ?w 0))" by blast
  then show ?thesis unfolding pid .
qed

lemma find_only:
  assumes "s \<in> set xs" "P s" "\<forall>y \<in> set xs. P y \<longrightarrow> y = s"
  shows "find P xs = Some s"
proof (cases "find P xs")
  case None
  with assms(1,2) have False unfolding find_None_iff by blast
  then show ?thesis ..
next
  case (Some y)
  then have "y \<in> set xs \<and> P y" unfolding find_Some_iff by auto
  with assms(3) have "y = s" by blast
  with Some show ?thesis by simp
qed

text \<open>
  Ids are unambiguous: no two registered streamers have the same id, none has an empty one, and a
  look-up by an id finds the streamer that has it; no two connections were ever given the same player id,
  and a player's id never changes once it was given.
\<close>

theorem ids_unambiguous:
  assumes "reachable cfg w"
  shows "(s \<in> set (w_streamers w) \<longrightarrow> c_streamerId (cn w s) \<noteq> [] \<and> registry_find w (c_streamerId (cn w s)) = Some s)
    \<and> (c_playerId (cn w p) \<noteq> [] \<and> c_playerId (cn w q) = c_playerId (cn w p) \<longrightarrow> q = p)
    \<and> (c_playerId (cn w p) \<noteq> [] \<longrightarrow> c_playerId (cn (server_step ev now w) p) = c_playerId (cn w p))"
proof (intro conjI impI)
  note ok = reachable_ok [OF assms, THEN conjunct1]
  assume s: "s \<in> set (w_streamers w)"
  with ok show "c_streamerId (cn w s) \<noteq> []" by (simp add: rok_def streamers_ok_def)
  from s rok_ids [OF ok] show "registry_find w (c_streamerId (cn w s)) = Some s"
    unfolding registry_find_def ids_ok_def by (intro find_only) (auto dest: inj_onD)
next
  assume "c_playerId (cn w p) \<noteq> [] \<and> c_playerId (cn w q) = c_playerId (cn w p)"
  then show "q = p" using reachable_ok [OF assms] by (simp add: rok_def members_ok_def)
next
  assume "c_playerId (cn w p) \<noteq> []"
  with playerId_stable [OF assms] show "c_playerId (cn (server_step ev now w) p) = c_playerId (cn w p)" .
qed

theorem ids_unambiguous_witness:
  "registry_find demo_w4 ''Main'' = Some 0 \<and> c_playerId (cn (server_step (EvClose 1) 5 demo_w4) 1) = ''Player0''"
  using ids_unambiguous [OF demo_reachable, of 0 1 1 "EvClose 1" 5] by simp


section \<open>Codec governance\<close>

text \<open>
  C3: A governed player is only ever sent descriptions of its codec: every offer or answer that the log
  shows for it is an output of the SDP filter for the codec selected for it, which its ticket's policy
  permits. This holds of the whole log in every reachable state, whatever the streamer and the player
  sent and in whatever order.
\<close>

theorem governed_media_only_selected:
  assumes "reachable cfg w" "k_policy (kc w r) = Some p" "Sent r m \<in> set (w_out w)"
    "mtype m = JStr ''offer'' \<or> mtype m = JStr ''answer''"
  shows "\<exists>c sdp out av. k_selected (kc w r) = Some c \<and> (c = cp_defaultCodec p \<or> c \<in> set (cp_allowedCodecs p))
    \<and> restrictVideoSdp (JStr sdp) c = Inr (out, av) \<and> fld m ''sdp'' = JStr out"
proof -
  have g: "media_ok w" "choice_ok w" using reachable_good [OF assms(1)] by (simp_all add: good_def ginv_def)
  from g(1) assms(2-4) have "governed_sdp (k_selected (kc w r)) (fld m ''sdp'')"
    unfolding media_ok_def policy_on_def media_type_def by blast
  then obtain c sdp av out where c: "k_selected (kc w r) = Some c" "restrictVideoSdp (JStr sdp) c = Inr (out, av)"
    "fld m ''sdp'' = JStr out" unfolding governed_sdp_def by blast
  from g(2) assms(2) c(1) have "c = cp_defaultCodec p \<or> c \<in> set (cp_allowedCodecs p)"
    unfolding choice_ok_def by (metis option.inject)
  with c show ?thesis by blast
qed

theorem governed_media_only_selected_witness:
  "\<exists>c sdp out av. k_selected (kc demo_w5 1) = Some c \<and> (c = VP9 \<or> c \<in> {VP9, H264})
    \<and> restrictVideoSdp (JStr sdp) c = Inr (out, av) \<and> fld (demo_offer_msg ''Player0'' demo_restricted) ''sdp'' = JStr out"
proof -
  have r: "reachable demo_config demo_w5" unfolding demo_w5_def by (rule reachable.step [OF demo_reachable])
  have p: "k_policy (kc demo_w5 1) = Some demo_policy" by (rule demo_step5(2))
  have s: "Sent 1 (demo_offer_msg ''Player0'' demo_restricted) \<in> set (w_out demo_w5)" using demo_step5(1) by auto
  from governed_media_only_selected [OF r p s] show ?thesis
    by (simp add: demo_offer_msg_def) (simp add: demo_policy_def)
qed

text \<open>
  The evidence recorded for a connection is numbered 1, 2, 3 and so on without a gap or a repetition,
  in the order in which it was recorded, and every entry carries the connection's own id: also when
  the recorder refuses entries in between.
\<close>

theorem evidence_gap_free:
  assumes "reachable cfg w"
  shows "map ev_sequence (recorded w r) = [1..<Suc (k_sequence (kc w r))]
    \<and> (\<forall>e. e \<in> set (recorded w r) \<longrightarrow> ev_connectionId e = k_connectionId (kc w r))"
  using reachable_good [OF assms] by (simp add: good_def ginv_def evidence_ok_def)

theorem evidence_gap_free_witness:
  "map ev_sequence (recorded demo_w4 1) = [1] \<and> recorded demo_w4 1 \<noteq> []"
proof -
  have "map ev_sequence (recorded demo_w4 1) = [1]" using evidence_gap_free [OF demo_reachable, of 1] by simp
  then show ?thesis by auto
qed

text \<open>
  C34: An H264 session has one viewer: when two governed players are registered and subscribed to the
  same streamer, neither of them has H264 selected, whatever they selected, renegotiated or were
  subscribed to before.
\<close>

theorem h264_one_viewer:
  assumes "reachable cfg w" "p \<noteq> q" "p \<in> set (listPlayers w)" "q \<in> set (listPlayers w)"
    "c_sub (cn w p) = Some s" "c_sub (cn w q) = Some s" "policy_on w p" "policy_on w q"
  shows "k_selected (kc w p) \<noteq> Some H264"
proof -
  have "viewers_ok w" using reachable_good [OF assms(1)] by (simp add: good_def ginv_def)
  with assms(2-) show ?thesis unfolding viewers_ok_def by blast
qed

theorem h264_one_viewer_witness:
  "k_selected (kc demo_w7 1) \<noteq> Some H264 \<and> c_sub (cn demo_w7 1) = c_sub (cn demo_w7 2)"
proof -
  have cn: "cn demo_w7 1 = demo_subscriber" "cn demo_w7 2 = demo_subscriber2" "w_players demo_w7 = [(''Player0'', 1), (''Player1'', 2)]"
    by (simp_all add: demo_w7_def demo_w6_def)
  have s: "c_sub (cn demo_w7 1) = Some 0" "c_sub (cn demo_w7 2) = Some 0"
    by (simp_all only: cn demo_subscriber_fields) (simp add: demo_subscriber2_def)
  have p: "policy_on demo_w7 1" "policy_on demo_w7 2"
    by (simp_all only: cn demo_subscriber_fields policy_on_def) (simp_all add: demo_subscriber2_def)
  have l: "1 \<in> set (listPlayers demo_w7)" "2 \<in> set (listPlayers demo_w7)" by (simp_all add: listPlayers_def cn(3))
  have n: "1 \<noteq> (2::nat)" by simp
  from h264_one_viewer [OF demo_w7_reachable n l s p] s show ?thesis by simp
qed

section \<open>Isolation\<close>

text \<open>The id under which a player is announced to its streamer in a media generation.\<close>

definition announced :: "world \<Rightarrow> ref \<Rightarrow> nat \<Rightarrow> string" where
  "announced w r g = (if policy_on w r
     then c_playerId (cn w r) @ ''-codec-'' @ k_connectionId (kc w r) @ ''-'' @ show_nat g else c_playerId (cn w r))"

text \<open>
  What a player can bring about outside itself: messages under its own id to the streamer that it is
  subscribed to, or to one of \<open>A\<close>.
\<close>

definition own_effect :: "world \<Rightarrow> ref \<Rightarrow> ref set \<Rightarrow> effect \<Rightarrow> bool" where
  "own_effect w r A e = (case e of
     Sent s m \<Rightarrow> s = r \<or> ((c_sub (cn w r) = Some s \<or> s \<in> A) \<and> c_kind (cn w s) \<noteq> PlayerConn
       \<and> (\<exists>g. fld m ''playerId'' = JStr (announced w r g)))
   | Closing s c t \<Rightarrow> s = r
   | Recorded s v \<Rightarrow> s = r
   | Terminated s \<Rightarrow> False
   | Pinged s \<Rightarrow> False
   | _ \<Rightarrow> True)"

lemma own_effect_self: "own_effect w r A (Sent r m)" "own_effect w r A (Recorded r v)"
  by (simp_all add: own_effect_def)

lemma pacts_own:
  assumes "(pact r A)\<^sup>*\<^sup>* w w'" "\<And>s. c_sub (cn w r) = Some s \<Longrightarrow> c_kind (cn w s) \<noteq> PlayerConn"
  shows "(\<exists>es. w_out w' = w_out w @ es \<and> list_all (own_effect w r A) es)
    \<and> (\<forall>s. c_sub (cn w' r) = Some s \<longrightarrow> (c_sub (cn w r) = Some s \<or> s \<in> A) \<and> c_kind (cn w s) \<noteq> PlayerConn)"
  using assms(1)
proof (induction rule: rtranclp_induct)
  case base
  then show ?case using assms(2) by auto
next
  case (step y z)
  then obtain es where es: "w_out y = w_out w @ es" "list_all (own_effect w r A) es"
    and sub: "\<And>s. c_sub (cn y r) = Some s \<Longrightarrow> (c_sub (cn w r) = Some s \<or> s \<in> A) \<and> c_kind (cn w s) \<noteq> PlayerConn" by blast
  note st = pacts_static [OF step(1)]
  have ann: "streamerPlayerId y r = announced w r (k_generation (kc y r))"
    by (simp add: streamerPlayerId_def announced_def policy_on_def st)
  have eff: "\<exists>es'. w_out w @ es @ [e] = w_out w @ es' \<and> list_all (own_effect w r A) es'" if "own_effect w r A e" for e
    using es that by (intro exI [of _ "es @ [e]"]) simp
  from step(2) show ?case
  proof (cases rule: pact.cases)
    case (quiet e)
    then have "own_effect w r A e" by (auto simp: quiet_def own_effect_def split: effect.splits)
    with eff es sub quiet show ?thesis by (simp add: world_simps)
  next
    case (up s m)
    with sub ann have "own_effect w r A (Sent s m)" by (auto simp: own_effect_def)
    with eff es sub up show ?thesis by (simp add: world_simps)
  next
    case (self m)
    with eff [OF own_effect_self(1)] es sub show ?thesis by (simp add: world_simps)
  next
    case (recorded e)
    with eff [OF own_effect_self(2)] es sub show ?thesis by (simp add: world_simps)
  qed (use es sub st in \<open>auto simp: world_simps bookkeeping_def fun_upd_apply split: if_splits\<close>)
qed

text \<open>
  C8: A player is confined to itself and its streamer: whatever message it sends, the server sends
  something only to the player itself, to the streamer it was subscribed to, and to the one that it
  subscribes to now: the streamer that a subscribe message names, or the first of the registry for a
  message of a player without a subscription. What reaches a streamer carries the sender's own id,
  whatever id the message had. Afterwards the player is subscribed to none but these. No other connection
  is closed, nothing is recorded for one, and no other connection's subscription, codec state or session
  state changes.
\<close>

theorem player_message_isolated:
  assumes "reachable cfg w" "c_kind (cn w r) = PlayerConn"
  shows "(\<exists>es. w_out (server_step (EvMessage r m) now w) = w_out w @ es \<and> list_all (own_effect w r (chosen w r m)) es)
    \<and> (c_sub (cn (server_step (EvMessage r m) now w) r) = Some s \<longrightarrow> c_sub (cn w r) = Some s \<or> s \<in> chosen w r m)
    \<and> (x \<noteq> r \<longrightarrow> c_sub (cn (server_step (EvMessage r m) now w) x) = c_sub (cn w x)
        \<and> kc (server_step (EvMessage r m) now w) x = kc w x \<and> sc (server_step (EvMessage r m) now w) x = sc w x)"
proof -
  let ?a = "advance now w"
  have a: "cn ?a = cn w" "w_out ?a = w_out w" by (simp_all add: advance_def)
  have g: "good ?a" using good_advance reachable_good [OF assms(1)] .
  have own: "own_effect ?a r A = own_effect w r A" for A
    by (simp add: fun_eq_iff own_effect_def announced_def policy_on_def a split: effect.split)
  have "chosen ?a r m = chosen w r m" by (simp add: chosen_def registry_find_def a) (simp add: advance_def)
  then have "(pact r (chosen w r m))\<^sup>*\<^sup>* ?a (server_step (EvMessage r m) now w)"
    using pa_playerMessage [OF good_clean [OF g] order.refl, of r m] good_fine [OF g] assms(2)
    by (simp add: server_step_def handleMessage_def a pa_def)
  note p = pacts_own [OF this] pacts_static(13) [OF this]
  show ?thesis using p(1) p(2) [of x] good_sub(2) [OF g] by (simp add: a own)
qed

theorem player_message_isolated_witness:
  "(\<exists>es. w_out (server_step (EvMessage 1 (demo_offer_msg ''Player7'' demo_offer)) 0 demo_w4) = w_out demo_w4 @ es
      \<and> list_all (own_effect demo_w4 1 {}) es)
   \<and> kc (server_step (EvMessage 1 (demo_offer_msg ''Player7'' demo_offer)) 0 demo_w4) 0 = kc demo_w4 0"
proof -
  have k: "c_kind (cn demo_w4 1) = PlayerConn" by simp
  have n: "0 \<noteq> (1::nat)" by simp
  have c: "chosen demo_w4 1 (demo_offer_msg ''Player7'' demo_offer) = {}" by (simp add: chosen_def demo_offer_msg_def)
  from player_message_isolated [OF demo_reachable k, of "demo_offer_msg ''Player7'' demo_offer" 0 0 0] n
  show ?thesis unfolding c by blast
qed

text \<open>The player to whom a streamer's message is addressed: subscribed to it, and named by the announced id.\<close>

definition addressed :: "world \<Rightarrow> ref \<Rightarrow> jsval \<Rightarrow> ref \<Rightarrow> bool" where
  "addressed w s m p \<longleftrightarrow> p \<in> set (listPlayers w) \<and> c_sub (cn w p) = Some s \<and> fld m ''playerId'' = JStr (streamerPlayerId w p)"

definition addressed_effect :: "world \<Rightarrow> ref \<Rightarrow> jsval \<Rightarrow> effect \<Rightarrow> bool" where
  "addressed_effect w s m e = (case e of
     Sent x m' \<Rightarrow> addressed w s m x \<or> x = s
   | Closing x c t \<Rightarrow> addressed w s m x
   | Recorded x v \<Rightarrow> addressed w s m x
   | Terminated x \<Rightarrow> False
   | Pinged x \<Rightarrow> False
   | _ \<Rightarrow> True)"

lemma addressed_simps:
  "addressed w s m p \<Longrightarrow> addressed_effect w s m (Sent p m')" "addressed w s m p \<Longrightarrow> addressed_effect w s m (Closing p c t)"
  by (simp_all add: addressed_effect_def)

lemma own_addressed: "\<lbrakk>own_effect w p {} e; addressed w s m p\<rbrakk> \<Longrightarrow> addressed_effect w s m e"
  by (auto simp: own_effect_def addressed_effect_def addressed_def split: effect.splits)

definition reaches :: "world \<Rightarrow> ref \<Rightarrow> jsval \<Rightarrow> world \<Rightarrow> bool" where
  "reaches w s m w' \<longleftrightarrow> (\<exists>es. w_out w' = w_out w @ es \<and> list_all (addressed_effect w s m) es)
    \<and> (\<forall>x. \<not> addressed w s m x \<longrightarrow> c_sub (cn w' x) = c_sub (cn w x) \<and> kc w' x = kc w x \<and> sc w' x = sc w x)"

lemma reaches_forward:
  assumes g: "good w"
  shows "reaches w s m (forwardMessage s m (w\<lparr>w_ice := i\<rparr>))"
proof (cases "addressed_player s m (w\<lparr>w_ice := i\<rparr>)")
  case None
  then show ?thesis by (simp add: forwardMessage_def reaches_def)
next
  case (Some p)
  let ?w = "w\<lparr>w_ice := i\<rparr>"
  have gi: "good ?w" by (rule good_ice [OF g])
  have ap: "addressed w s m p"
    using addressed_player_Some [OF good_rok [OF gi] Some] by (simp add: addressed_def streamerPlayerId_def policy_on_def)
  have kind: "c_kind (cn w p) \<noteq> StreamerConn" using addressed_player_Some(5) [OF good_rok [OF gi] Some] by simp
  let ?m = "put_fld ''playerId'' (JStr (c_playerId (cn w p))) m"
  show ?thesis
  proof (cases "c_kind (cn w p)")
    case PlayerConn
    have "(pact p {})\<^sup>*\<^sup>* ?w (playerSendMessage p ?m ?w)"
      using pa_playerSendMessage [OF pa_refl, of p "{}" ?w ?m] good_fine [OF gi] by (simp add: pa_def)
    note p = pacts_own [OF this] pacts_static(13) [OF this]
    have own: "own_effect ?w p {} = own_effect w p {}"
      by (simp add: fun_eq_iff own_effect_def announced_def policy_on_def split: effect.split)
    have "\<exists>es. w_out (playerSendMessage p ?m ?w) = w_out w @ es \<and> list_all (own_effect w p {}) es"
      using p(1) good_sub(2) [OF g] by (simp add: own)
    then have "\<exists>es. w_out (playerSendMessage p ?m ?w) = w_out w @ es \<and> list_all (addressed_effect w s m) es"
      using own_addressed [OF _ ap] by (auto simp: list_all_iff)
    moreover have "\<forall>x. \<not> addressed w s m x \<longrightarrow> c_sub (cn (playerSendMessage p ?m ?w) x) = c_sub (cn w x)
        \<and> kc (playerSendMessage p ?m ?w) x = kc w x \<and> sc (playerSendMessage p ?m ?w) x = sc w x"
    proof (intro allI impI)
      fix x assume "\<not> addressed w s m x"
      then have "x \<noteq> p" using ap by blast
      from p(2) [OF this] show "c_sub (cn (playerSendMessage p ?m ?w) x) = c_sub (cn w x)
        \<and> kc (playerSendMessage p ?m ?w) x = kc w x \<and> sc (playerSendMessage p ?m ?w) x = sc w x" by simp
    qed
    ultimately show ?thesis
      by (simp add: forwardMessage_def Some connSendMessage_def PlayerConn reaches_def)
  next
    case SfuConn
    then show ?thesis
      by (simp add: forwardMessage_def Some connSendMessage_def reaches_def world_simps addressed_simps [OF ap])
  qed (use kind in simp)
qed

lemma reaches_disconnect:
  assumes g: "good w"
  shows "reaches w s m (onDisconnectPlayer s m w)"
proof (cases "addressed_player s m w")
  case (Some p)
  then have "addressed w s m p" using addressed_player_Some [OF good_rok [OF g] Some] by (simp add: addressed_def)
  then show ?thesis by (simp add: onDisconnectPlayer_def Some reaches_def protoDisconnect_def world_simps addressed_simps)
qed (simp add: onDisconnectPlayer_def reaches_def)

text \<open>
  C9: A streamer reaches one player at a time and only its own: of all players, an offer, an answer, a
  candidate or a request to disconnect that it sends affects at most the one registered player that is
  subscribed to it and was announced to it under the id in the message. No other connection is sent anything
  but the streamer itself, no other is closed, and no other connection's subscription, codec state or session state changes.
\<close>

theorem streamer_message_isolated:
  assumes "reachable cfg w" "c_kind (cn w s) = StreamerConn"
    "mtype m \<in> {JStr ''offer'', JStr ''answer'', JStr ''iceCandidate'', JStr ''disconnectPlayer''}"
  shows "(\<exists>es. w_out (server_step (EvMessage s m) now w) = w_out w @ es \<and> list_all (addressed_effect w s m) es)
    \<and> (\<not> addressed w s m x \<longrightarrow> c_sub (cn (server_step (EvMessage s m) now w) x) = c_sub (cn w x)
        \<and> kc (server_step (EvMessage s m) now w) x = kc w x \<and> sc (server_step (EvMessage s m) now w) x = sc w x)"
proof -
  let ?a = "advance now w"
  have g: "good ?a" using good_advance reachable_good [OF assms(1)] .
  have a: "cn ?a = cn w" "w_out ?a = w_out w" "listPlayers ?a = listPlayers w"
    by (simp_all add: advance_def listPlayers_def)
  have same: "addressed ?a s m = addressed w s m" "addressed_effect ?a s m = addressed_effect w s m"
    by (simp_all add: fun_eq_iff addressed_effect_def addressed_def streamerPlayerId_def policy_on_def a split: effect.split)
  have "reaches ?a s m (streamerMessage s m ?a)"
    using assms(3) reaches_forward [OF g] reaches_forward [OF g, of s m "w_ice ?a"] reaches_disconnect [OF g]
    by (auto simp: streamerMessage_def onStreamerIceCandidate_def Let_def)
  then have "reaches ?a s m (server_step (EvMessage s m) now w)"
    using assms(2) by (simp add: server_step_def handleMessage_def a) (simp add: reaches_def)
  then show ?thesis by (simp add: reaches_def same a)
qed

theorem streamer_message_isolated_witness:
  "(\<exists>es. w_out demo_w5 = w_out demo_w4 @ es \<and> list_all (addressed_effect demo_w4 0 (demo_offer_msg demo_name demo_offer)) es)"
proof -
  have k: "c_kind (cn demo_w4 0) = StreamerConn" by simp
  have m: "mtype (demo_offer_msg demo_name demo_offer) \<in> {JStr ''offer'', JStr ''answer'', JStr ''iceCandidate'', JStr ''disconnectPlayer''}"
    by (simp add: demo_offer_msg_def)
  from streamer_message_isolated [OF demo_reachable k m, of 0 0] show ?thesis unfolding demo_w5_def by blast
qed


section \<open>Names of streamers\<close>

text \<open>
  C38: With an authorizer a streamer takes only the id that the authorizer answered: after a streamer
  asked for an id, either it has that answer for its id, non-empty and held by no other registered
  streamer, and the id was confirmed to it; or the authorizer refused, threw or answered an id in use,
  and the streamer is in the registry no more and its connection is being closed with code 1008.
\<close>

theorem streamer_id_authorized:
  assumes "reachable cfg w" "g_authorize (w_cfg w) = Some authorize" "c_kind (cn w s) = StreamerConn" "c_open (cn w s)"
    "mtype m = JStr ''endpointId''"
  shows "(\<exists>requested sanitized changed. fld m ''id'' = JStr requested
        \<and> authorize (w_tick w + 1) s requested sanitized changed = AuthId (c_streamerId (cn (server_step (EvMessage s m) now w) s))
        \<and> c_streamerId (cn (server_step (EvMessage s m) now w) s) \<noteq> []
        \<and> (\<forall>x. x \<noteq> s \<and> x \<in> set (w_streamers w) \<longrightarrow> c_streamerId (cn w x) \<noteq> c_streamerId (cn (server_step (EvMessage s m) now w) s))
        \<and> last (w_out (server_step (EvMessage s m) now w)) = Sent s (mk_msg ''endpointIdConfirm''
            [(''committedId'', JStr (c_streamerId (cn (server_step (EvMessage s m) now w) s)))]))
    \<or> (s \<notin> set (w_streamers (server_step (EvMessage s m) now w))
        \<and> (\<exists>reason. last (w_out (server_step (EvMessage s m) now w)) = Closing s (Some 1008) (Some reason)))"
proof -
  let ?b = "set_streaming s True (advance now w)"
  let ?w = "server_step (EvMessage s m) now w"
  have r: "routing ?b = routing w" by simp
  have b: "w_tick ?b = w_tick w + 1" "w_cfg ?b = w_cfg w" by (simp_all add: set_streaming_def advance_def world_simps)
  have str: "w_streamers ?b = w_streamers w" "c_streamerId (cn ?b x) = c_streamerId (cn w x)" for x
    using routing_eqD [OF r] by auto
  have ok: "rok (routing ?b)" using reachable_ok [OF assms(1)] r by simp
  have valid: "valid_envelope m" using assms(5) is_obj_type [OF assms(5)] by (simp add: valid_envelope_def)
  have e: "?w = onEndpointId s m ?b"
    using assms(3-5) valid by (simp add: server_step_def handleMessage_def streamerMessage_def advance_def)
  have rej: "s \<notin> set (w_streamers (reject_streamer s reason ?b))
      \<and> last (w_out (reject_streamer s reason ?b)) = Closing s (Some 1008) (Some reason)" for reason
    using streamer_remove_gone [OF ok, of s] by (simp add: reject_streamer_def protoDisconnect_def world_simps)
  have com: "c_streamerId (cn (commit_streamerId s sid ?b) s) = sid
      \<and> last (w_out (commit_streamerId s sid ?b)) = Sent s (mk_msg ''endpointIdConfirm'' [(''committedId'', JStr sid)])" for sid
    using routing_eqD(8) [OF routing_emit_id_changed [of s sid "set_streamerId s sid ?b"], of s]
    by (simp add: commit_streamerId_def world_simps set_streamerId_def)
  show ?thesis
  proof (cases "fld m ''id''")
    case (JStr requested)
    let ?z = "sanitizeStreamerId ?b requested (Some s)"
    let ?c = "requested \<noteq> [] \<and> ?z \<noteq> requested"
    show ?thesis
    proof (cases "authorize (w_tick w + 1) s requested ?z ?c")
      case (AuthId committed)
      show ?thesis
      proof (cases "committed = [] \<or> (\<exists>x. registry_find ?b committed = Some x \<and> x \<noteq> s)")
        case True
        then have "?w = reject_streamer s ''streamer id not authorized'' ?b"
          unfolding e onEndpointId_def JStr jsval.case Let_def b assms(2) option.case AuthId auth_result.case
          by (auto split: option.split)
        with rej show ?thesis by auto
      next
        case False
        then have w: "?w = commit_streamerId s committed ?b"
          unfolding e onEndpointId_def JStr jsval.case Let_def b assms(2) option.case AuthId auth_result.case
          by (auto split: option.split)
        have "c_streamerId (cn w x) \<noteq> committed" if "x \<noteq> s" "x \<in> set (w_streamers w)" for x
        proof
          assume "c_streamerId (cn w x) = committed"
          with registry_find_registered [OF rok_ids [OF ok], of x] that str have "registry_find ?b committed = Some x" by simp
          with False that(1) show False by blast
        qed
        with False AuthId JStr com [of committed] show ?thesis unfolding w by metis
      qed
    qed (use rej in \<open>auto simp: e onEndpointId_def JStr b assms(2)\<close>)
  qed (use rej in \<open>auto simp: e onEndpointId_def\<close>)
qed


definition guarded_start :: world where
  "guarded_start = (empty_world (demo_config\<lparr>g_authorize := Some (\<lambda>n r req san ch. if req = ''Main'' then AuthId ''S1'' else AuthNull)\<rparr>))
     \<lparr>w_ice := new_ice_monitor False 0 0\<rparr>"

lemma guarded_streamer: "c_kind (cn (server_step EvStreamer 0 guarded_start) 0) = StreamerConn"
  "c_open (cn (server_step EvStreamer 0 guarded_start) 0)"
  "w_cfg (server_step EvStreamer 0 guarded_start) = w_cfg guarded_start"
  by (simp_all add: guarded_start_def server_step_def advance_def onStreamerConnected_def allocate_def empty_world_def
      sendConfigMessage_def connSendMessage_def streamer_add_def registry_find_def sanitizeStreamerId_def demo_sanitize
      protoSend_def eff_def set_streamerId_def upd_def Let_def)

theorem streamer_id_authorized_witness:
  "0 \<notin> set (w_streamers (server_step (EvMessage 0 (mk_msg ''endpointId'' [(''id'', JStr ''Other'')])) 0
     (server_step EvStreamer 0 guarded_start)))"
proof -
  let ?w = "server_step EvStreamer 0 guarded_start" and ?m = "mk_msg ''endpointId'' [(''id'', JStr ''Other'')]"
  have r: "reachable (w_cfg guarded_start) ?w"
  proof (rule reachable.step)
    have "w_cfg guarded_start = demo_config\<lparr>g_authorize := Some (\<lambda>n r req san ch. if req = ''Main'' then AuthId ''S1'' else AuthNull)\<rparr>"
      by (simp add: guarded_start_def empty_world_def)
    then show "reachable (w_cfg guarded_start) guarded_start" by (simp add: guarded_start_def reachable.start)
  qed
  have a: "g_authorize (w_cfg ?w) = Some (\<lambda>n r req san ch. if req = ''Main'' then AuthId ''S1'' else AuthNull)"
    unfolding guarded_streamer(3) by (simp add: guarded_start_def empty_world_def)
  have m: "mtype ?m = JStr ''endpointId''" by simp
  from streamer_id_authorized [OF r a guarded_streamer(1,2) m, of 0] show ?thesis by (auto simp: fld_mk_msg)
qed

section \<open>A player that was refused\<close>

definition unpolicied_request :: player_request where
  "unpolicied_request = demo_request\<lparr>pr_identity := Some \<lparr>ti_sessionRequestId = Some ''r1'',
     ti_shadowSessionRequestId = None, ti_activeSessionId = None, ti_codecPolicy = None\<rparr>\<rparr>"

definition refused_conn :: conn where
  "refused_conn = (new_conn PlayerConn ''c1'' ''q1'' 0)\<lparr>c_session := demo_session\<rparr>"

definition refused_world :: world where
  "refused_world = demo_w2\<lparr>w_conns := (\<lambda>_. no_conn)(0 := demo_named, 1 := refused_conn), w_next := 2, w_tick := 3,
     w_out := w_out demo_w2 @ [Closing 1 (Some 1013) (Some ''Codec policy enforcement unavailable'')]\<rparr>"

lemma new_codec_more [simp]: "k_admissionFailure (new_codec u) = None"
  by (simp add: new_codec_def)

lemma refused_step: "server_step (EvPlayer unpolicied_request) 0 demo_w2 = refused_world"
  unfolding refused_world_def refused_conn_def demo_session_def
  apply (simp add: demo_w2_def demo_w1_def unpolicied_request_def admission_eval refuse_player_def
      unregisterPlayerKeepalive_def protoDisconnect_def map_delete_def)
  apply (simp add: new_codec_def new_session_def new_conn_def)
  done

lemma refused_fields [simp]: "cn refused_world 0 = demo_named" "cn refused_world (Suc 0) = refused_conn"
  "w_streamers refused_world = [0]" "w_players refused_world = []"
  "c_kind refused_conn = PlayerConn" "c_open refused_conn" "c_sub refused_conn = None" "c_codec refused_conn = new_codec ''c1''"
  by (simp_all add: refused_world_def demo_w2_def demo_w1_def refused_conn_def)

lemma attach_sub: "r \<noteq> s \<Longrightarrow> c_sub (cn (attach_player r s w) r) = Some s"
  by (simp add: attach_player_def Let_def world_simps startNegotiationTimer_def forwardToStreamer_def protoSend_def split: option.split)

text \<open>
  A player that was refused for want of a codec policy is told to close and is in no registry,
  but its handlers are attached, so a message that arrives before the close completes is served: here
  it subscribes to the streamer, ungoverned and under an empty id.
\<close>

theorem refused_player_subscribes:
  "last (w_out (server_step (EvPlayer unpolicied_request) 0 demo_w2))
     = Closing 1 (Some 1013) (Some ''Codec policy enforcement unavailable'')
   \<and> c_sub (cn (server_step (EvMessage 1 (mk_msg ''subscribe'' [(''streamerId'', JStr ''Main'')])) 0
        (server_step (EvPlayer unpolicied_request) 0 demo_w2)) 1) = Some 0"
proof
  have "server_step (EvMessage 1 (mk_msg ''subscribe'' [(''streamerId'', JStr ''Main'')])) 0 refused_world
    = attach_player 1 0 (upd_codec 1 (\<lambda>k. k\<lparr>k_finalized := True\<rparr>) (advance 0 refused_world))"
    by (simp add: server_step_def advance_def handleMessage_def valid_envelope_def playerMessage_def subscribe_def
      world_simps registry_find_def policy_on_def restart_generation_def Let_def new_codec_def)
  then show "c_sub (cn (server_step (EvMessage 1 (mk_msg ''subscribe'' [(''streamerId'', JStr ''Main'')])) 0
        (server_step (EvPlayer unpolicied_request) 0 demo_w2)) 1) = Some 0"
    by (simp add: attach_sub refused_step)
qed (simp add: refused_step refused_world_def)

section \<open>Witnesses for the registries\<close>

theorem sanitizeStreamerId_spec_witness:
  "sanitizeStreamerId demo_w4 ''Main'' (Some 0) = ''Main''"
proof -
  have "ids_ok demo_w4" using rok_ids reachable_ok [OF demo_reachable] by blast
  then show ?thesis using sanitizeStreamerId_spec [of demo_w4 "Some 0" "''Main''" 0] by simp
qed

theorem emit_disconnect_complete_witness:
  "c_sub (cn demo_w4 1) = Some 0 \<and> c_sub (cn (emit_disconnect 0 demo_w4) 1) \<noteq> Some 0"
proof -
  have "rok (routing demo_w4)" using reachable_ok [OF demo_reachable] by blast
  from emit_disconnect_complete [OF this, of 0] show ?thesis by simp
qed

end
