(* ===== verification/Keepalive_Properties.thy ===== *)
theory Keepalive_Properties
  imports Signalling_Properties
begin

text \<open>The watchdog of player connections: who is terminated, and when.\<close>

section \<open>One tick\<close>

definition quiet_for :: "ref \<Rightarrow> world \<Rightarrow> world \<Rightarrow> bool" where
  "quiet_for r w w' \<longleftrightarrow> map_get (w_keepalive w') r = map_get (w_keepalive w) r \<and> w_cfg w' = w_cfg w
     \<and> (\<exists>es. w_out w' = w_out w @ es \<and> Terminated r \<notin> set es)"

lemma quiet_for_trans: "\<lbrakk>quiet_for r a b; quiet_for r b c\<rbrakk> \<Longrightarrow> quiet_for r a c"
  by (auto simp: quiet_for_def)

lemma entry_inv: "map_inv (w_keepalive w) \<Longrightarrow> map_inv (w_keepalive (keepalive_entry ready throws e w))"
  by (cases e) (simp add: keepalive_entry_def Let_def world_simps jm.inv_put jm.inv_del)

lemma entries_inv: "map_inv (w_keepalive w) \<Longrightarrow> map_inv (w_keepalive (fold (keepalive_entry ready throws) xs w))"
  by (induction xs arbitrary: w) (simp_all add: entry_inv)

lemma entry_other: "fst e \<noteq> r \<Longrightarrow> quiet_for r w (keepalive_entry ready throws e w)"
  by (cases e) (auto simp: keepalive_entry_def quiet_for_def Let_def world_simps js_map_simps)

lemma entries_other: "r \<notin> fst ` set xs \<Longrightarrow> quiet_for r w (fold (keepalive_entry ready throws) xs w)"
proof (induction xs arbitrary: w)
  case (Cons e xs)
  then have "quiet_for r w (keepalive_entry ready throws e w)" by (intro entry_other) auto
  from quiet_for_trans [OF this Cons.IH] Cons.prems show ?case by simp
qed (simp add: quiet_for_def)

lemma tick:
  assumes "map_inv (w_keepalive w)" "map_get (w_keepalive w) r = Some n" "ready r" "\<not> throws r"
  defines "w' \<equiv> runPlayerKeepaliveTick ready throws w"
  shows "map_inv (w_keepalive w')" "w_cfg w' = w_cfg w"
    "\<exists>es. w_out w' = w_out w @ es \<and> (Terminated r \<in> set es \<longleftrightarrow> g_maxMissedPongs (w_cfg w) \<le> int n)"
    "map_get (w_keepalive w') r = (if g_maxMissedPongs (w_cfg w) \<le> int n then None else Some (Suc n))"
proof -
  from map_get_mem [OF assms(2)] obtain as bs where xs: "w_keepalive w = as @ (r, n) # bs"
    by (metis split_list)
  have d: "r \<notin> fst ` set as" "r \<notin> fst ` set bs" using assms(1) unfolding map_inv_def xs by force+
  let ?e = "keepalive_entry ready throws"
  define w1 w2 where "w1 = fold ?e as w" and "w2 = ?e (r, n) w1"
  have w': "w' = fold ?e bs w2" by (simp add: w'_def runPlayerKeepaliveTick_def xs w1_def w2_def)
  have q1: "quiet_for r w w1" unfolding w1_def by (rule entries_other [OF d(1)])
  have q2: "quiet_for r w2 w'" unfolding w' by (rule entries_other [OF d(2)])
  have e: "map_get (w_keepalive w2) r = (if g_maxMissedPongs (w_cfg w1) \<le> int n then None else Some (Suc n))"
    "w_cfg w2 = w_cfg w1" "\<exists>es. w_out w2 = w_out w1 @ es \<and> (Terminated r \<in> set es \<longleftrightarrow> g_maxMissedPongs (w_cfg w1) \<le> int n)"
    using assms(3,4) by (auto simp: w2_def keepalive_entry_def Let_def world_simps js_map_simps)
  show "map_inv (w_keepalive w')" using assms(1) by (simp add: w'_def runPlayerKeepaliveTick_def entries_inv)
  show "w_cfg w' = w_cfg w" using q1 q2 e(2) by (simp add: quiet_for_def)
  show "\<exists>es. w_out w' = w_out w @ es \<and> (Terminated r \<in> set es \<longleftrightarrow> g_maxMissedPongs (w_cfg w) \<le> int n)"
    using q1 q2 e(3) by (auto simp: quiet_for_def)
  show "map_get (w_keepalive w') r = (if g_maxMissedPongs (w_cfg w) \<le> int n then None else Some (Suc n))"
    using q1 q2 e(1) by (simp add: quiet_for_def)
qed

section \<open>Silence and answers\<close>

text \<open>A sequence of ticks; every tick has its own sockets.\<close>

definition ticks :: "((ref \<Rightarrow> bool) \<times> (ref \<Rightarrow> bool)) list \<Rightarrow> world \<Rightarrow> world" where
  "ticks ts w = fold (\<lambda>(ready, throws) w. runPlayerKeepaliveTick ready throws w) ts w"

definition answered_ticks :: "ref \<Rightarrow> ((ref \<Rightarrow> bool) \<times> (ref \<Rightarrow> bool)) list \<Rightarrow> world \<Rightarrow> world" where
  "answered_ticks r ts w = fold (\<lambda>(ready, throws) w. keepalivePong r (runPlayerKeepaliveTick ready throws w)) ts w"

definition healthy :: "ref \<Rightarrow> (ref \<Rightarrow> bool) \<times> (ref \<Rightarrow> bool) \<Rightarrow> bool" where
  "healthy r t \<longleftrightarrow> fst t r \<and> \<not> snd t r"

lemma silent_ticks:
  assumes "map_inv (w_keepalive w)" "map_get (w_keepalive w) r = Some k" "list_all (healthy r) ts"
    "int (k + length ts) \<le> g_maxMissedPongs (w_cfg w)"
  shows "map_inv (w_keepalive (ticks ts w)) \<and> w_cfg (ticks ts w) = w_cfg w
    \<and> map_get (w_keepalive (ticks ts w)) r = Some (k + length ts)
    \<and> (\<exists>es. w_out (ticks ts w) = w_out w @ es \<and> Terminated r \<notin> set es)"
  using assms
proof (induction ts arbitrary: k w)
  case (Cons t ts)
  obtain ready throws where t: "t = (ready, throws)" by fastforce
  have h: "ready r" "\<not> throws r" using Cons.prems(3) by (simp_all add: t healthy_def)
  note s = tick [where ready = ready and throws = throws, OF Cons.prems(1,2) h]
  let ?w = "runPlayerKeepaliveTick ready throws w"
  have "map_get (w_keepalive ?w) r = Some (Suc k)" using s(4) Cons.prems(4) by simp
  with Cons.IH [of ?w "Suc k"] s(1,2) Cons.prems(3,4)
  have ih: "map_inv (w_keepalive (ticks ts ?w)) \<and> w_cfg (ticks ts ?w) = w_cfg w
    \<and> map_get (w_keepalive (ticks ts ?w)) r = Some (Suc k + length ts)
    \<and> (\<exists>es. w_out (ticks ts ?w) = w_out ?w @ es \<and> Terminated r \<notin> set es)" by simp
  obtain es where "w_out ?w = w_out w @ es" "Terminated r \<notin> set es" using s(3) Cons.prems(4) by auto
  with ih show ?case by (auto simp: ticks_def t)
qed (simp add: ticks_def)

text \<open>
  A player that stays silent is terminated exactly when it has missed the allowed number of pongs:
  over that many ticks after its last pong it is pinged and never terminated, whatever happens to the
  other players meanwhile, and the next tick terminates it and forgets it.
\<close>

theorem silent_player_terminated:
  assumes "map_inv (w_keepalive w)" "map_get (w_keepalive w) r = Some 0"
    "list_all (healthy r) ts" "healthy r t" "int (length ts) = g_maxMissedPongs (w_cfg w)"
  shows "map_get (w_keepalive (ticks ts w)) r = Some (length ts)
    \<and> (\<exists>es. w_out (ticks ts w) = w_out w @ es \<and> Terminated r \<notin> set es)
    \<and> Terminated r \<in> set (w_out (ticks (ts @ [t]) w)) \<and> map_get (w_keepalive (ticks (ts @ [t]) w)) r = None"
proof -
  from silent_ticks [OF assms(1-3)] assms(5)
  have s: "map_inv (w_keepalive (ticks ts w))" "w_cfg (ticks ts w) = w_cfg w"
    "map_get (w_keepalive (ticks ts w)) r = Some (length ts)"
    "\<exists>es. w_out (ticks ts w) = w_out w @ es \<and> Terminated r \<notin> set es" by simp_all
  obtain ready throws where t: "t = (ready, throws)" by fastforce
  have h: "ready r" "\<not> throws r" using assms(4) by (simp_all add: t healthy_def)
  from tick(3,4) [where ready = ready and throws = throws, OF s(1,3) h] s(2) assms(5)
  have "Terminated r \<in> set (w_out (runPlayerKeepaliveTick ready throws (ticks ts w)))"
    "map_get (w_keepalive (runPlayerKeepaliveTick ready throws (ticks ts w))) r = None" by auto
  then show ?thesis using s(3,4) by (simp add: ticks_def t)
qed

text \<open>
  A player that answers every ping before the next tick is never terminated, however long it is
  connected.
\<close>

theorem answering_player_stays:
  assumes "map_inv (w_keepalive w)" "map_get (w_keepalive w) r = Some 0" "list_all (healthy r) ts"
    "1 \<le> g_maxMissedPongs (w_cfg w)"
  shows "map_get (w_keepalive (answered_ticks r ts w)) r = Some 0
    \<and> (\<exists>es. w_out (answered_ticks r ts w) = w_out w @ es \<and> Terminated r \<notin> set es)"
  using assms
proof (induction ts arbitrary: w)
  case (Cons t ts)
  obtain ready throws where t: "t = (ready, throws)" by fastforce
  have h: "ready r" "\<not> throws r" using Cons.prems(3) by (simp_all add: t healthy_def)
  note s = tick [where ready = ready and throws = throws, OF Cons.prems(1,2) h]
  let ?w = "keepalivePong r (runPlayerKeepaliveTick ready throws w)"
  obtain es where es: "w_out (runPlayerKeepaliveTick ready throws w) = w_out w @ es" "Terminated r \<notin> set es"
    using s(3) Cons.prems(4) by auto
  have p: "map_get (w_keepalive ?w) r = Some 0" "map_inv (w_keepalive ?w)" "w_cfg ?w = w_cfg w" "w_out ?w = w_out w @ es"
    using s(1,2,4) es(1) Cons.prems(4) by (simp_all add: keepalivePong_def js_map_simps jm.inv_put)
  from Cons.IH [OF p(2,1)] Cons.prems(3,4) p(3)
  have "map_get (w_keepalive (answered_ticks r ts ?w)) r = Some 0
    \<and> (\<exists>es. w_out (answered_ticks r ts ?w) = w_out ?w @ es \<and> Terminated r \<notin> set es)" by simp
  with p(4) es(2) show ?case by (auto simp: answered_ticks_def t)
qed (simp add: answered_ticks_def)

definition fine_tick :: "(ref \<Rightarrow> bool) \<times> (ref \<Rightarrow> bool)" where
  "fine_tick = (\<lambda>r. True, \<lambda>r. False)"

lemma demo_keepalive: "map_inv (w_keepalive demo_w4)" "map_get (w_keepalive demo_w4) 1 = Some 0"
  "g_maxMissedPongs (w_cfg demo_w4) = 2" "list_all (healthy r) (replicate n fine_tick)" "healthy r fine_tick"
  by (simp_all add: demo_w4_def demo_w3_def map_inv_def map_get_def) (simp_all add: demo_w2_def demo_w1_def demo_config_def
      fine_tick_def healthy_def list_all_iff)

lemma demo_max: "g_maxMissedPongs demo_config = 2"
  by (simp add: demo_config_def)

theorem silent_player_terminated_witness:
  "Terminated 1 \<in> set (w_out (ticks (replicate 2 fine_tick @ [fine_tick]) demo_w4))
   \<and> map_get (w_keepalive (ticks (replicate 2 fine_tick) demo_w4)) 1 = Some 2"
  using silent_player_terminated [OF demo_keepalive(1,2,4,5), of 2] by (simp add: demo_max del: One_nat_def)

theorem answering_player_stays_witness:
  "map_get (w_keepalive (answered_ticks 1 (replicate 7 fine_tick) demo_w4)) 1 = Some 0"
  using answering_player_stays [OF demo_keepalive(1,2,4), of 7] by (simp add: demo_max del: One_nat_def)

end
