(* ===== verification/State_File.thy ===== *)
theory State_File
  imports Prelude
begin

text \<open>
  The small state files that the signalling web server keeps (\<open>SignallingWebServer/src\<close>): what a file
  holds, how it is replaced and when a replacement is durable. \<open>JSON.parse\<close> after \<open>JSON.stringify\<close> is
  the identity on the values written here, in which fields that are \<open>undefined\<close> are left out. What the
  file system does is a parameter of every operation. The interface of a snapshot, a normaliser with the
  value it is stored as, is a locale; every module interprets it on its own snapshot.
\<close>

section \<open>Files\<close>

text \<open>A file is absent, or cannot be read or parsed, or holds a value.\<close>

datatype file_state = Missing | Broken string | Json jsval

text \<open>
  \<open>fs.writeFileSync\<close> on the file itself: it succeeds, or fails before it opens the file, or fails
  later and leaves a text that is not JSON.
\<close>

datatype plain_write = Stored | Untouched | Torn string

definition put_plain :: "plain_write \<Rightarrow> jsval \<Rightarrow> file_state \<Rightarrow> file_state" where
  "put_plain w v f = (case w of Stored \<Rightarrow> Json v | Untouched \<Rightarrow> f | Torn e \<Rightarrow> Broken e)"

text \<open>
  A replacement through a temporary file: an exception before the rename leaves the file as it was;
  after the rename the directory is synchronised, which may fail with an error code.
\<close>

datatype dir_sync = Synced | Sync_error bool string

definition isUnsupportedWindowsDirectorySync :: "bool \<Rightarrow> string \<Rightarrow> bool" where
  "isUnsupportedWindowsDirectorySync win32 code \<longleftrightarrow>
     win32 \<and> code \<in> {''EACCES'', ''EINVAL'', ''EISDIR'', ''ENOTSUP'', ''EPERM''}"

definition fsyncContainingDirectory :: "dir_sync \<Rightarrow> bool" where
  "fsyncContainingDirectory s = (case s of
     Synced \<Rightarrow> True
   | Sync_error win32 code \<Rightarrow> isUnsupportedWindowsDirectorySync win32 code)"

datatype replace_run = Not_renamed | Renamed dir_sync

definition put_atomic :: "replace_run \<Rightarrow> jsval \<Rightarrow> file_state \<Rightarrow> bool \<times> file_state" where
  "put_atomic run v f = (case run of
     Not_renamed \<Rightarrow> (False, f)
   | Renamed s \<Rightarrow> (fsyncContainingDirectory s, Json v))"

datatype unlink_run = Not_unlinked | Was_missing | Unlinked dir_sync

lemma put_atomic_durable: "fst (put_atomic run v f) \<Longrightarrow> snd (put_atomic run v f) = Json v"
  by (auto simp: put_atomic_def split: replace_run.splits)

lemma put_atomic_either: "snd (put_atomic run v f) = Json v \<or> snd (put_atomic run v f) = f"
  by (auto simp: put_atomic_def split: replace_run.splits)

section \<open>Objects without undefined fields\<close>

definition json_obj :: "(string \<times> jsval) list \<Rightarrow> jsval" where
  "json_obj fs = JObj (filter (\<lambda>(k, v). v \<noteq> JUndef) fs)"

lemma fld_json_obj:
  assumes "distinct (map fst fs)"
  shows "fld (json_obj fs) k = (case map_of fs k of Some v \<Rightarrow> v | None \<Rightarrow> JUndef)"
  using assms
proof (induction fs)
  case (Cons p fs)
  obtain j v where p: "p = (j, v)" by fastforce
  have "map_of (filter (\<lambda>(k, v). v \<noteq> JUndef) fs) j = None" if "v = JUndef"
    using Cons.prems p by (auto simp: map_of_eq_None_iff image_iff)
  with Cons p show ?case by (auto simp: json_obj_def)
qed (simp add: json_obj_def)

lemma is_arr_json_obj [simp]: "json_obj fs \<noteq> JNull" "json_obj fs \<noteq> JUndef" "json_obj fs \<noteq> JArr xs"
  "truthy (json_obj fs)"
  by (simp_all add: json_obj_def)

lemma opt_str_eq [simp]: "opt_str a = JUndef \<longleftrightarrow> a = None" "opt_str a = JStr s \<longleftrightarrow> a = Some s"
  by (cases a; simp)+

definition opt_int :: "int option \<Rightarrow> jsval" where
  "opt_int i = (case i of None \<Rightarrow> JUndef | Some i \<Rightarrow> num_of_int i)"

text \<open>A text as \<open>normalizeOptionalText\<close> leaves it.\<close>

definition is_text :: "string \<Rightarrow> bool" where
  "is_text s \<longleftrightarrow> s \<noteq> [] \<and> trim s = s"

definition opt_text :: "string option \<Rightarrow> bool" where
  "opt_text a \<longleftrightarrow> (\<forall>s. a = Some s \<longrightarrow> is_text s)"

lemma normalize_is_text [simp]: "is_text s \<Longrightarrow> normalizeOptionalText (JStr s) = Some s"
  by (simp add: is_text_def)

declare normalizeOptionalText.simps(1) [simp del]

lemma normalize_opt_text [simp]: "opt_text a \<Longrightarrow> normalizeOptionalText (opt_str a) = a"
  by (cases a) (auto simp: opt_text_def)

lemma normalized_is_text: "normalizeOptionalText v = Some s \<Longrightarrow> is_text s"
  using normalizeOptionalText_Some [of v s] by (simp add: is_text_def)

lemma normalized_opt_text [simp]: "opt_text (normalizeOptionalText v)"
  by (auto simp: opt_text_def normalized_is_text)

lemma opt_text_simps [simp]: "opt_text None" "opt_text (Some s) = is_text s"
  by (simp_all add: opt_text_def)

section \<open>Snapshots\<close>

text \<open>
  What a module promises of its snapshot: every well-formed one is read back from the value it is
  stored as; and, for a stable one, the normaliser yields only well-formed ones.
\<close>

locale snapshot =
  fixes nf :: "jsval \<Rightarrow> 's option"
    and enc :: "'s \<Rightarrow> jsval"
    and ok :: "'s \<Rightarrow> bool"
  assumes round: "ok s \<Longrightarrow> nf (enc s) = Some s"
begin

lemma enc_inj: "\<lbrakk>ok s; ok t; enc s = enc t\<rbrakk> \<Longrightarrow> s = t"
  by (metis round option.inject)

lemma stored: "ok s \<Longrightarrow> nf (enc s) = Some s"
  by (rule round)

end

locale stable_snapshot = snapshot +
  assumes nf_ok: "nf v = Some s \<Longrightarrow> ok s"
begin

lemma nf_again: "nf v = Some s \<Longrightarrow> nf (enc s) = Some s"
  by (intro round nf_ok)

lemma ok_iff: "ok s \<longleftrightarrow> nf (enc s) = Some s"
  using round nf_ok by blast

end

text \<open>Reading a file that may hold a snapshot.\<close>

definition parsed :: "(jsval \<Rightarrow> 's option) \<Rightarrow> file_state \<Rightarrow> 's option" where
  "parsed nf f = (case f of Json v \<Rightarrow> nf v | _ \<Rightarrow> None)"

lemma parsed_simps [simp]: "parsed nf Missing = None" "parsed nf (Broken e) = None" "parsed nf (Json v) = nf v"
  by (simp_all add: parsed_def)

end
