(* ===== verification/Agent_State.thy ===== *)
theory Agent_State
  imports State_File
begin

text \<open>
  \<open>SignallingWebServer/src/instance-agent-state.ts\<close> and \<open>instance-agent-command-state.ts\<close>: the desired
  state that the instance agent was told and the journal of the command it is executing. Both are
  normalised on every read and write, and read as absent when they cannot be read. \<open>Date.parse\<close> is a
  parameter \<open>dp\<close>: the milliseconds of a text, or \<open>None\<close> for NaN. Log texts are not modelled.
\<close>

section \<open>Desired state\<close>

record desired_state =
  ds_warmHoldEnabled :: bool
  ds_drainEnabled :: bool
  ds_shutdownRequested :: bool
  ds_recycleRequestedToken :: "string option"
  ds_policyVersion :: string
  ds_message :: "string option"
  ds_updatedAtUtc :: "string option"
  ds_receivedAtUtc :: "string option"

fun toBoolean :: "jsval \<Rightarrow> bool" where
  "toBoolean (JBool b) = b"
| "toBoolean (JStr s) = (to_lower (trim s) \<in> {''1'', ''true'', ''yes'', ''on''})"
| "toBoolean _ = False"

definition normalizeDesiredState :: "jsval \<Rightarrow> desired_state" where
  "normalizeDesiredState v =
     \<lparr>ds_warmHoldEnabled = toBoolean (fld v ''warmHoldEnabled''),
      ds_drainEnabled = toBoolean (fld v ''drainEnabled''),
      ds_shutdownRequested = toBoolean (fld v ''shutdownRequested''),
      ds_recycleRequestedToken = normalizeOptionalText (fld v ''recycleRequestedToken''),
      ds_policyVersion = (case normalizeOptionalText (fld v ''policyVersion'') of Some t \<Rightarrow> t | None \<Rightarrow> ''default''),
      ds_message = normalizeOptionalText (fld v ''message''),
      ds_updatedAtUtc = normalizeOptionalText (fld v ''updatedAtUtc''),
      ds_receivedAtUtc = normalizeOptionalText (fld v ''receivedAtUtc'')\<rparr>"

definition desired_value :: "desired_state \<Rightarrow> jsval" where
  "desired_value d = json_obj
     [(''warmHoldEnabled'', JBool (ds_warmHoldEnabled d)), (''drainEnabled'', JBool (ds_drainEnabled d)),
      (''shutdownRequested'', JBool (ds_shutdownRequested d)),
      (''recycleRequestedToken'', opt_str (ds_recycleRequestedToken d)),
      (''policyVersion'', JStr (ds_policyVersion d)), (''message'', opt_str (ds_message d)),
      (''updatedAtUtc'', opt_str (ds_updatedAtUtc d)), (''receivedAtUtc'', opt_str (ds_receivedAtUtc d))]"

definition readDesiredState :: "file_state \<Rightarrow> desired_state" where
  "readDesiredState f = (case f of
     Missing \<Rightarrow> normalizeDesiredState JUndef
   | Broken e \<Rightarrow> normalizeDesiredState JUndef
   | Json v \<Rightarrow> normalizeDesiredState v)"

definition writeDesiredState :: "plain_write \<Rightarrow> jsval \<Rightarrow> file_state \<Rightarrow> desired_state \<times> file_state" where
  "writeDesiredState run v f =
     (let s = normalizeDesiredState v in (s, put_plain run (desired_value s) f))"

definition desired_ok :: "desired_state \<Rightarrow> bool" where
  "desired_ok d \<longleftrightarrow> opt_text (ds_recycleRequestedToken d) \<and> is_text (ds_policyVersion d) \<and> opt_text (ds_message d)
     \<and> opt_text (ds_updatedAtUtc d) \<and> opt_text (ds_receivedAtUtc d)"

lemma default_is_text: "is_text ''default''"
  by (simp add: is_text_def trim_def trim_start_def trim_end_def is_ws_def)

lemma desired_ok_normalize: "desired_ok (normalizeDesiredState v)"
  by (auto simp: desired_ok_def normalizeDesiredState_def default_is_text normalized_is_text split: option.split)

interpretation desired: stable_snapshot "\<lambda>v. Some (normalizeDesiredState v)" desired_value desired_ok
proof
  show "Some (normalizeDesiredState (desired_value s)) = Some s" if "desired_ok s" for s
    using that by (simp add: desired_value_def normalizeDesiredState_def fld_json_obj desired_ok_def)
qed (auto simp: desired_ok_normalize)

section \<open>Command journal\<close>

datatype command_status = Acked | Running

fun status_name :: "command_status \<Rightarrow> string" where
  "status_name Acked = ''acked''"
| "status_name Running = ''running''"

record command =
  cm_instanceCommandId :: string
  cm_instanceId :: string
  cm_region :: string
  cm_sessionRequestId :: "string option"
  cm_commandType :: string
  cm_idempotencyKey :: string
  cm_requestedAtUtc :: string
  cm_timeoutAtUtc :: "string option"
  cm_payloadJson :: "string option"
  cm_status :: command_status
  cm_attemptNumber :: int
  cm_ackedAtUtc :: "string option"
  cm_startedAtUtc :: "string option"

definition isCommandExpired :: "(string \<Rightarrow> int option) \<Rightarrow> jsval \<Rightarrow> int \<Rightarrow> bool" where
  "isCommandExpired dp timeoutAtUtc now = (case normalizeOptionalText timeoutAtUtc of
     None \<Rightarrow> False
   | Some t \<Rightarrow> (case dp t of None \<Rightarrow> True | Some ms \<Rightarrow> ms \<le> now))"

definition normalizeExecutionStatus :: "jsval \<Rightarrow> command_status option" where
  "normalizeExecutionStatus v = (case map_option to_lower (normalizeOptionalText v) of
     None \<Rightarrow> None
   | Some t \<Rightarrow> if t = ''acked'' then Some Acked else if t = ''running'' then Some Running else None)"

fun normalizeAttemptNumber :: "jsval \<Rightarrow> int" where
  "normalizeAttemptNumber (JNum (Fin q)) = (if 0 < q then \<lfloor>q\<rfloor> else 1)"
| "normalizeAttemptNumber (JStr s) = (case parse_int (trim s) of
     Some i \<Rightarrow> if 0 < i then i else 1
   | None \<Rightarrow> 1)"
| "normalizeAttemptNumber _ = 1"

definition normalizeCommand :: "jsval \<Rightarrow> command option" where
  "normalizeCommand v =
     (case (normalizeOptionalText (fld v ''instanceCommandId''), normalizeOptionalText (fld v ''instanceId''),
            normalizeOptionalText (fld v ''region''), normalizeOptionalText (fld v ''commandType''),
            normalizeOptionalText (fld v ''idempotencyKey''), normalizeOptionalText (fld v ''requestedAtUtc''),
            normalizeExecutionStatus (fld v ''status'')) of
        (Some cid, Some iid, Some region, Some ctype, Some key, Some requested, Some status) \<Rightarrow>
          Some \<lparr>cm_instanceCommandId = cid, cm_instanceId = iid, cm_region = region,
            cm_sessionRequestId = normalizeOptionalText (fld v ''sessionRequestId''),
            cm_commandType = ctype, cm_idempotencyKey = key, cm_requestedAtUtc = requested,
            cm_timeoutAtUtc = normalizeOptionalText (fld v ''timeoutAtUtc''),
            cm_payloadJson = normalizeOptionalText (fld v ''payloadJson''), cm_status = status,
            cm_attemptNumber = normalizeAttemptNumber (fld v ''attemptNumber''),
            cm_ackedAtUtc = normalizeOptionalText (fld v ''ackedAtUtc''),
            cm_startedAtUtc = normalizeOptionalText (fld v ''startedAtUtc'')\<rparr>
      | _ \<Rightarrow> None)"

definition command_value :: "command \<Rightarrow> jsval" where
  "command_value c = json_obj
     [(''instanceCommandId'', JStr (cm_instanceCommandId c)), (''instanceId'', JStr (cm_instanceId c)),
      (''region'', JStr (cm_region c)), (''sessionRequestId'', opt_str (cm_sessionRequestId c)),
      (''commandType'', JStr (cm_commandType c)), (''idempotencyKey'', JStr (cm_idempotencyKey c)),
      (''requestedAtUtc'', JStr (cm_requestedAtUtc c)), (''timeoutAtUtc'', opt_str (cm_timeoutAtUtc c)),
      (''payloadJson'', opt_str (cm_payloadJson c)), (''status'', JStr (status_name (cm_status c))),
      (''attemptNumber'', num_of_int (cm_attemptNumber c)), (''ackedAtUtc'', opt_str (cm_ackedAtUtc c)),
      (''startedAtUtc'', opt_str (cm_startedAtUtc c))]"

definition readCommandJournal :: "file_state \<Rightarrow> command option" where
  "readCommandJournal f = (case f of Missing \<Rightarrow> None | Broken e \<Rightarrow> None | Json v \<Rightarrow> normalizeCommand v)"

definition writeCommandJournal :: "plain_write \<Rightarrow> jsval \<Rightarrow> file_state \<Rightarrow> command option \<times> file_state" where
  "writeCommandJournal run v f = (case normalizeCommand v of
     None \<Rightarrow> (None, f)
   | Some c \<Rightarrow> (Some c, put_plain run (command_value c) f))"

definition clearCommandJournal :: "bool \<Rightarrow> file_state \<Rightarrow> file_state" where
  "clearCommandJournal unlinked f = (if f \<noteq> Missing \<and> unlinked then Missing else f)"

definition command_ok :: "command \<Rightarrow> bool" where
  "command_ok c \<longleftrightarrow> is_text (cm_instanceCommandId c) \<and> is_text (cm_instanceId c) \<and> is_text (cm_region c)
     \<and> opt_text (cm_sessionRequestId c) \<and> is_text (cm_commandType c) \<and> is_text (cm_idempotencyKey c)
     \<and> is_text (cm_requestedAtUtc c) \<and> opt_text (cm_timeoutAtUtc c) \<and> opt_text (cm_payloadJson c)
     \<and> opt_text (cm_ackedAtUtc c) \<and> opt_text (cm_startedAtUtc c) \<and> 1 \<le> cm_attemptNumber c"

lemma status_is_text: "is_text (status_name st)" "to_lower (status_name st) = status_name st"
  by (cases st; simp add: is_text_def trim_def trim_start_def trim_end_def is_ws_def to_lower_def lower_char_def Let_def)+

lemma normalize_status_name [simp]: "normalizeExecutionStatus (JStr (status_name st)) = Some st"
  using status_is_text [of st] by (cases st) (simp_all add: normalizeExecutionStatus_def)

lemma normalize_attempt [simp]: "1 \<le> i \<Longrightarrow> normalizeAttemptNumber (num_of_int i) = i"
  by (simp add: num_of_int_def)

lemma normalizeCommand_value: "command_ok c \<Longrightarrow> normalizeCommand (command_value c) = Some c"
  by (simp add: command_value_def normalizeCommand_def fld_json_obj command_ok_def)

interpretation command: snapshot normalizeCommand command_value command_ok
  by unfold_locales (rule normalizeCommand_value)

text \<open>
  Everything but a fractional attempt number below one is stable: \<open>0.5\<close> is positive, is truncated
  to \<open>0\<close> and read back as \<open>1\<close>.
\<close>

lemma normalizeCommand_ok:
  assumes "normalizeCommand v = Some c" "cm_attemptNumber c \<noteq> 0"
  shows "command_ok c"
proof -
  have "0 \<le> normalizeAttemptNumber x" for x
    by (cases x rule: normalizeAttemptNumber.cases) (auto split: option.split)
  from this [of "fld v ''attemptNumber''"] have "0 \<le> cm_attemptNumber c"
    using assms(1) by (auto simp: normalizeCommand_def split: option.splits)
  with assms show ?thesis
    by (auto simp: normalizeCommand_def command_ok_def split: option.splits intro: normalized_is_text)
qed

text \<open>
  The journal of the active command survives a restart: whatever was written and stored is read
  back as the command the writer returned; an invalid command is not written; and a cleared journal
  holds no command. An attempt number strictly between 0 and 1 is the one exception.
\<close>

theorem command_journal_roundtrip:
  assumes "writeCommandJournal Stored v f = (r, f')"
  shows "(r = None \<longrightarrow> f' = f)
    \<and> (\<forall>c. r = Some c \<and> cm_attemptNumber c \<noteq> 0 \<longrightarrow> readCommandJournal f' = Some c
         \<and> writeCommandJournal Stored (command_value c) f' = (Some c, f'))
    \<and> readCommandJournal (clearCommandJournal True f') = None"
proof (intro conjI allI impI)
  show "r = None \<Longrightarrow> f' = f" using assms by (auto simp: writeCommandJournal_def split: option.splits)
  fix c assume c: "r = Some c \<and> cm_attemptNumber c \<noteq> 0"
  then have n: "normalizeCommand v = Some c" and f': "f' = Json (command_value c)"
    using assms by (auto simp: writeCommandJournal_def put_plain_def split: option.splits)
  have r: "normalizeCommand (command_value c) = Some c"
    using command.stored [OF normalizeCommand_ok [OF n]] c by simp
  then show "readCommandJournal f' = Some c" "writeCommandJournal Stored (command_value c) f' = (Some c, f')"
    by (simp_all add: f' readCommandJournal_def writeCommandJournal_def put_plain_def)
qed (cases f'; simp add: clearCommandJournal_def readCommandJournal_def)

definition demo_command :: command where
  "demo_command = \<lparr>cm_instanceCommandId = ''c'', cm_instanceId = ''i'', cm_region = ''r'', cm_sessionRequestId = None,
     cm_commandType = ''Shutdown'', cm_idempotencyKey = ''k'', cm_requestedAtUtc = ''t'', cm_timeoutAtUtc = None,
     cm_payloadJson = None, cm_status = Acked, cm_attemptNumber = 2, cm_ackedAtUtc = None, cm_startedAtUtc = None\<rparr>"

lemma demo_command_ok: "command_ok demo_command"
  by (simp add: command_ok_def demo_command_def is_text_def trim_def trim_start_def trim_end_def is_ws_def)

theorem command_journal_roundtrip_witness:
  "writeCommandJournal Stored (command_value demo_command) Missing = (Some demo_command, Json (command_value demo_command))
   \<and> readCommandJournal (Json (command_value demo_command)) = Some demo_command"
proof -
  have w: "writeCommandJournal Stored (command_value demo_command) Missing = (Some demo_command, Json (command_value demo_command))"
    by (simp add: writeCommandJournal_def put_plain_def normalizeCommand_value [OF demo_command_ok])
  from command_journal_roundtrip [OF w] w show ?thesis by (simp add: demo_command_def)
qed

end
