(* ===== verification/Recycle_State.thy ===== *)
theory Recycle_State
  imports State_File
begin

text \<open>
  \<open>SignallingWebServer/src/instance-agent-recycle-state.ts\<close>: the marker that carries a recycle of the
  instance over the restart of the agent. An unreadable marker is an error, never an absent one.
  \<open>dp\<close> and \<open>utc\<close> stand for \<open>Date.parse\<close> and \<open>toISOString\<close>.
\<close>

text \<open>
  The documented behaviour of the two: a time that was parsed prints as a text without outer white
  space that parses to the same time.
\<close>

definition date_lib :: "(string \<Rightarrow> int option) \<Rightarrow> (int \<Rightarrow> string) \<Rightarrow> bool" where
  "date_lib dp utc \<longleftrightarrow> (\<forall>s t. dp s = Some t \<longrightarrow> dp (utc t) = Some t \<and> is_text (utc t))"

datatype recycle_phase = Intent | Replacement_started

fun phase_name :: "recycle_phase \<Rightarrow> string" where
  "phase_name Intent = ''intent''"
| "phase_name Replacement_started = ''replacement_started''"

record marker =
  rm_schemaVersion :: int
  rm_phase :: recycle_phase
  rm_requestedAtUtc :: string
  rm_reason :: string
  rm_recycleId :: string
  rm_sourcePid :: int
  rm_replacementStartedAtUtc :: "string option"
  rm_resetCompletedAtUtc :: "string option"
  rm_recycleRequestedToken :: "string option"
  rm_sessionRequestId :: "string option"
  rm_userSessionId :: "string option"
  rm_sessionId :: "string option"

definition normalizeRecycleToken :: "jsval \<Rightarrow> string option" where
  "normalizeRecycleToken v = (case normalizeOptionalText v of
     None \<Rightarrow> None
   | Some t \<Rightarrow>
       let compact = filter (\<lambda>c. c \<noteq> CHR ''-'') t in
       Some (if length compact = 32 \<and> list_all is_hex compact then to_lower compact else t))"

definition normalizeRequiredTimestamp :: "(string \<Rightarrow> int option) \<Rightarrow> (int \<Rightarrow> string) \<Rightarrow> jsval \<Rightarrow> string option" where
  "normalizeRequiredTimestamp dp utc v = (case normalizeOptionalText v of
     None \<Rightarrow> None
   | Some t \<Rightarrow> map_option utc (dp t))"

definition normalizeRequiredPositiveInteger :: "jsval \<Rightarrow> int option" where
  "normalizeRequiredPositiveInteger v = (case safe_int v of
     None \<Rightarrow> None
   | Some i \<Rightarrow> if i \<le> 0 then None else Some i)"

definition normalizePhase :: "jsval \<Rightarrow> recycle_phase option" where
  "normalizePhase v = (if v = JStr ''intent'' then Some Intent
     else if v = JStr ''replacement_started'' then Some Replacement_started else None)"

definition earlier :: "(string \<Rightarrow> int option) \<Rightarrow> string \<Rightarrow> string \<Rightarrow> bool" where
  "earlier dp a b \<longleftrightarrow> (case (dp a, dp b) of (Some s, Some t) \<Rightarrow> s < t | _ \<Rightarrow> False)"

text \<open>The proof of replacement that the phase requires or forbids.\<close>

definition proof_ok :: "(string \<Rightarrow> int option) \<Rightarrow> recycle_phase \<Rightarrow> jsval \<Rightarrow> string \<Rightarrow> string option \<Rightarrow> string option \<Rightarrow> bool" where
  "proof_ok dp phase v requested started reset = (case phase of
     Intent \<Rightarrow> fld v ''replacementStartedAtUtc'' = JUndef \<and> fld v ''resetCompletedAtUtc'' = JUndef
   | Replacement_started \<Rightarrow> (case started of
       None \<Rightarrow> False
     | Some s \<Rightarrow> \<not> earlier dp s requested
         \<and> (fld v ''resetCompletedAtUtc'' = JUndef
            \<or> (case reset of None \<Rightarrow> False | Some r \<Rightarrow> \<not> earlier dp r s))))"

definition normalizeMarker :: "(string \<Rightarrow> int option) \<Rightarrow> (int \<Rightarrow> string) \<Rightarrow> jsval \<Rightarrow> marker option" where
  "normalizeMarker dp utc v =
     (let started = normalizeRequiredTimestamp dp utc (fld v ''replacementStartedAtUtc'');
          reset = normalizeRequiredTimestamp dp utc (fld v ''resetCompletedAtUtc'') in
      case (normalizePhase (fld v ''phase''), normalizeRequiredTimestamp dp utc (fld v ''requestedAtUtc''),
            normalizeOptionalText (fld v ''reason''), normalizeOptionalText (fld v ''recycleId''),
            normalizeRequiredPositiveInteger (fld v ''sourcePid'')) of
        (Some phase, Some requested, Some reason, Some recycleId, Some pid) \<Rightarrow>
          if fld v ''schemaVersion'' \<notin> {num_of_int 1, num_of_int 2} \<or> \<not> proof_ok dp phase v requested started reset
          then None
          else Some \<lparr>rm_schemaVersion = (if fld v ''schemaVersion'' = num_of_int 1 then 1 else 2),
            rm_phase = phase, rm_requestedAtUtc = requested, rm_reason = reason, rm_recycleId = recycleId,
            rm_sourcePid = pid,
            rm_replacementStartedAtUtc = (if phase = Replacement_started then started else None),
            rm_resetCompletedAtUtc = (if phase = Replacement_started then reset else None),
            rm_recycleRequestedToken = normalizeOptionalText (fld v ''recycleRequestedToken''),
            rm_sessionRequestId = normalizeOptionalText (fld v ''sessionRequestId''),
            rm_userSessionId = normalizeOptionalText (fld v ''userSessionId''),
            rm_sessionId = normalizeOptionalText (fld v ''sessionId'')\<rparr>
      | _ \<Rightarrow> None)"

definition marker_fields :: "marker \<Rightarrow> (string \<times> jsval) list" where
  "marker_fields m =
     [(''schemaVersion'', num_of_int (rm_schemaVersion m)), (''phase'', JStr (phase_name (rm_phase m))),
      (''requestedAtUtc'', JStr (rm_requestedAtUtc m)), (''reason'', JStr (rm_reason m)),
      (''recycleId'', JStr (rm_recycleId m)), (''sourcePid'', num_of_int (rm_sourcePid m)),
      (''replacementStartedAtUtc'', opt_str (rm_replacementStartedAtUtc m)),
      (''resetCompletedAtUtc'', opt_str (rm_resetCompletedAtUtc m)),
      (''recycleRequestedToken'', opt_str (rm_recycleRequestedToken m)),
      (''sessionRequestId'', opt_str (rm_sessionRequestId m)), (''userSessionId'', opt_str (rm_userSessionId m)),
      (''sessionId'', opt_str (rm_sessionId m))]"

definition marker_value :: "marker \<Rightarrow> jsval" where
  "marker_value m = json_obj (marker_fields m)"

text \<open>\<open>Inl\<close> is an exception.\<close>

definition readMarker :: "(string \<Rightarrow> int option) \<Rightarrow> (int \<Rightarrow> string) \<Rightarrow> file_state \<Rightarrow> string + marker option" where
  "readMarker dp utc f = (case f of
     Missing \<Rightarrow> Inr None
   | Broken e \<Rightarrow> Inl e
   | Json v \<Rightarrow> (case normalizeMarker dp utc v of
       None \<Rightarrow> Inl ''Recycle marker schema, phase, or replacement proof is invalid.''
     | Some m \<Rightarrow> Inr (Some m)))"

definition isReplacementProof :: "marker option \<Rightarrow> int \<Rightarrow> bool" where
  "isReplacementProof m pid = (case m of
     None \<Rightarrow> False
   | Some m \<Rightarrow> rm_phase m = Replacement_started \<and> rm_replacementStartedAtUtc m \<notin> {None, Some []}
       \<and> rm_sourcePid m \<noteq> pid)"

definition writeMarker ::
  "(string \<Rightarrow> int option) \<Rightarrow> (int \<Rightarrow> string) \<Rightarrow> replace_run \<Rightarrow> jsval \<Rightarrow> file_state \<Rightarrow> (string + marker) \<times> file_state" where
  "writeMarker dp utc run v f =
     (case normalizeMarker dp utc (JObj ((''schemaVersion'', num_of_int 2) # (case v of JObj fs \<Rightarrow> fs | _ \<Rightarrow> []))) of
        None \<Rightarrow> (Inl ''Refusing to persist an invalid recycle marker.'', f)
      | Some m \<Rightarrow> (case run of
          Not_renamed \<Rightarrow> (Inl ''write failed'', f)
        | Renamed s \<Rightarrow>
            if fsyncContainingDirectory s then (Inr m, Json (marker_value m))
            else (Inl ''The recycle marker directory metadata could not be made durable.'', Json (marker_value m))))"

definition unlink_marker :: "unlink_run \<Rightarrow> file_state \<Rightarrow> bool \<times> file_state" where
  "unlink_marker run f = (case run of
     Not_unlinked \<Rightarrow> (False, f)
   | Was_missing \<Rightarrow> (True, Missing)
   | Unlinked s \<Rightarrow> (fsyncContainingDirectory s, Missing))"

definition clearMarker ::
  "(string \<Rightarrow> int option) \<Rightarrow> (int \<Rightarrow> string) \<Rightarrow> unlink_run \<Rightarrow> jsval \<Rightarrow> file_state \<Rightarrow> bool \<times> file_state" where
  "clearMarker dp utc run expected f = (case normalizeOptionalText expected of
     None \<Rightarrow> unlink_marker run f
   | Some e \<Rightarrow> (case readMarker dp utc f of
       Inl err \<Rightarrow> (False, f)
     | Inr None \<Rightarrow> (True, f)
     | Inr (Some m) \<Rightarrow> if rm_recycleId m \<noteq> e then (False, f) else unlink_marker run f))"

section \<open>Well-formed markers\<close>

definition marker_ok :: "(string \<Rightarrow> int option) \<Rightarrow> (int \<Rightarrow> string) \<Rightarrow> marker \<Rightarrow> bool" where
  "marker_ok dp utc m \<longleftrightarrow> rm_schemaVersion m \<in> {1, 2} \<and> is_text (rm_reason m) \<and> is_text (rm_recycleId m)
     \<and> 0 < rm_sourcePid m \<and> rm_sourcePid m \<le> max_safe
     \<and> (\<forall>a \<in> {Some (rm_requestedAtUtc m), rm_replacementStartedAtUtc m, rm_resetCompletedAtUtc m}.
          \<forall>s. a = Some s \<longrightarrow> is_text s \<and> (\<exists>t. dp s = Some t \<and> s = utc t))
     \<and> opt_text (rm_recycleRequestedToken m) \<and> opt_text (rm_sessionRequestId m)
     \<and> opt_text (rm_userSessionId m) \<and> opt_text (rm_sessionId m)
     \<and> (case rm_phase m of
          Intent \<Rightarrow> rm_replacementStartedAtUtc m = None \<and> rm_resetCompletedAtUtc m = None
        | Replacement_started \<Rightarrow> (\<exists>s. rm_replacementStartedAtUtc m = Some s \<and> \<not> earlier dp s (rm_requestedAtUtc m)
            \<and> (\<forall>r. rm_resetCompletedAtUtc m = Some r \<longrightarrow> \<not> earlier dp r s)))"

lemma normalizePhase_name [simp]: "normalizePhase (JStr (phase_name p)) = Some p"
  by (cases p) (simp_all add: normalizePhase_def)

lemma normalizeTimestamp_undefined [simp]: "normalizeRequiredTimestamp dp utc JUndef = None"
  by (simp add: normalizeRequiredTimestamp_def)

lemma normalizeTimestamp_ok: "\<lbrakk>is_text s; dp s = Some t; s = utc t\<rbrakk> \<Longrightarrow> normalizeRequiredTimestamp dp utc (JStr s) = Some s"
  by (simp add: normalizeRequiredTimestamp_def)

lemma num_of_int_inject [simp]: "num_of_int i = num_of_int j \<longleftrightarrow> i = j"
  by (simp add: num_of_int_def)

lemma normalizeTimestamp_opt:
  assumes "\<forall>s. a = Some s \<longrightarrow> is_text s \<and> (\<exists>t. dp s = Some t \<and> s = utc t)"
  shows "normalizeRequiredTimestamp dp utc (opt_str a) = a"
  using assms by (cases a) (auto simp: normalizeRequiredTimestamp_def)

lemma fld_marker:
  "fld (marker_value m) k = (case map_of (marker_fields m) k of Some v \<Rightarrow> v | None \<Rightarrow> JUndef)"
  unfolding marker_value_def by (rule fld_json_obj) (simp add: marker_fields_def)

lemma normalizeMarker_value:
  assumes ok: "marker_ok dp utc m"
  shows "normalizeMarker dp utc (marker_value m) = Some m"
proof -
  have ts: "normalizeRequiredTimestamp dp utc (JStr (rm_requestedAtUtc m)) = Some (rm_requestedAtUtc m)"
    "normalizeRequiredTimestamp dp utc (opt_str (rm_replacementStartedAtUtc m)) = rm_replacementStartedAtUtc m"
    "normalizeRequiredTimestamp dp utc (opt_str (rm_resetCompletedAtUtc m)) = rm_resetCompletedAtUtc m"
    using ok normalizeTimestamp_opt [of "Some (rm_requestedAtUtc m)" dp utc] normalizeTimestamp_opt [of _ dp utc]
    by (auto simp: marker_ok_def)
  have pid: "normalizeRequiredPositiveInteger (num_of_int (rm_sourcePid m)) = Some (rm_sourcePid m)"
    using ok by (simp add: marker_ok_def normalizeRequiredPositiveInteger_def)
  have pok: "proof_ok dp (rm_phase m) (marker_value m) (rm_requestedAtUtc m) (rm_replacementStartedAtUtc m) (rm_resetCompletedAtUtc m)"
    using ok by (auto simp: proof_ok_def marker_ok_def fld_marker marker_fields_def split: recycle_phase.splits option.splits)
  show ?thesis
    using ok pok
    by (auto simp: normalizeMarker_def Let_def fld_marker marker_fields_def ts pid marker_ok_def split: recycle_phase.splits)
qed

lemma normalizeTimestamp_Some:
  assumes "date_lib dp utc" "normalizeRequiredTimestamp dp utc v = Some s"
  shows "is_text s \<and> (\<exists>t. dp s = Some t \<and> s = utc t)"
  using assms by (auto simp: normalizeRequiredTimestamp_def date_lib_def split: option.splits)

lemma safe_int_bound: "safe_int v = Some i \<Longrightarrow> \<bar>i\<bar> \<le> max_safe"
  using safe_int_SomeD by blast

lemma normalizeMarker_ok:
  assumes lib: "date_lib dp utc" and n: "normalizeMarker dp utc v = Some m"
  shows "marker_ok dp utc m"
proof -
  let ?started = "normalizeRequiredTimestamp dp utc (fld v ''replacementStartedAtUtc'')"
  let ?reset = "normalizeRequiredTimestamp dp utc (fld v ''resetCompletedAtUtc'')"
  from n obtain phase requested reason rid pid where
    p: "normalizeRequiredTimestamp dp utc (fld v ''requestedAtUtc'') = Some requested"
      "normalizeOptionalText (fld v ''reason'') = Some reason" "normalizeOptionalText (fld v ''recycleId'') = Some rid"
      "normalizeRequiredPositiveInteger (fld v ''sourcePid'') = Some pid"
      "proof_ok dp phase v requested ?started ?reset" and
    m: "rm_schemaVersion m \<in> {1, 2}" "rm_phase m = phase" "rm_requestedAtUtc m = requested" "rm_reason m = reason"
      "rm_recycleId m = rid" "rm_sourcePid m = pid"
      "rm_replacementStartedAtUtc m = (if phase = Replacement_started then ?started else None)"
      "rm_resetCompletedAtUtc m = (if phase = Replacement_started then ?reset else None)"
      "opt_text (rm_recycleRequestedToken m)" "opt_text (rm_sessionRequestId m)"
      "opt_text (rm_userSessionId m)" "opt_text (rm_sessionId m)"
    by (auto simp: normalizeMarker_def Let_def split: option.splits if_splits)
  have pid: "0 < pid" "pid \<le> max_safe"
    using p(4) safe_int_bound by (auto simp: normalizeRequiredPositiveInteger_def split: option.splits if_splits, fastforce)
  show ?thesis
    unfolding marker_ok_def m
    using m(1,9-12) p(5) pid normalized_is_text [OF p(2)] normalized_is_text [OF p(3)]
      normalizeTimestamp_Some [OF lib p(1)] normalizeTimestamp_Some [OF lib]
    by (auto simp: proof_ok_def split: recycle_phase.splits option.splits)
qed

lemma marker_snapshot: "date_lib dp utc \<Longrightarrow> stable_snapshot (normalizeMarker dp utc) marker_value (marker_ok dp utc)"
  by unfold_locales (rule normalizeMarker_value, assumption, rule normalizeMarker_ok)

section \<open>Properties\<close>

text \<open>A marker that was written is read back, whatever was in the file before.\<close>

lemma writeMarker_result:
  assumes "date_lib dp utc" "writeMarker dp utc run v f = (Inr m, f')"
  shows "readMarker dp utc f' = Inr (Some m)" "marker_ok dp utc m"
proof -
  from assms(2) have f': "f' = Json (marker_value m)"
    and n: "\<exists>w. normalizeMarker dp utc w = Some m"
    by (auto simp: writeMarker_def split: option.splits replace_run.splits if_splits)
  from n show ok: "marker_ok dp utc m" using normalizeMarker_ok [OF assms(1)] by blast
  show "readMarker dp utc f' = Inr (Some m)" by (simp add: f' readMarker_def normalizeMarker_value [OF ok])
qed

text \<open>
  A recycle marker survives the restart it is written for: when the write reports success the next
  process reads exactly that marker, and it is proof of a replacement exactly when the process that
  reads it is not the one that wrote it and the replacement had started; a write that throws either
  leaves the previous marker or has already put a readable new one in its place.
\<close>

theorem recycle_marker_survives:
  assumes "date_lib dp utc" "writeMarker dp utc run v f = (r, f')"
  shows "(\<forall>m. r = Inr m \<longrightarrow> readMarker dp utc f' = Inr (Some m)
            \<and> (isReplacementProof (Some m) pid \<longleftrightarrow> rm_phase m = Replacement_started \<and> rm_sourcePid m \<noteq> pid))
       \<and> (\<forall>e. r = Inl e \<longrightarrow> f' = f \<or> (\<exists>m. readMarker dp utc f' = Inr (Some m)))"
proof (intro conjI allI impI)
  fix m assume "r = Inr m"
  with assms(2) have w: "writeMarker dp utc run v f = (Inr m, f')" by simp
  show "readMarker dp utc f' = Inr (Some m)" by (rule writeMarker_result(1) [OF assms(1) w])
  have "rm_phase m = Replacement_started \<Longrightarrow> rm_replacementStartedAtUtc m \<notin> {None, Some []}"
    using writeMarker_result(2) [OF assms(1) w] by (fastforce simp: marker_ok_def is_text_def)
  then show "isReplacementProof (Some m) pid \<longleftrightarrow> rm_phase m = Replacement_started \<and> rm_sourcePid m \<noteq> pid"
    by (auto simp: isReplacementProof_def)
next
  fix e assume "r = Inl e"
  with assms(2) consider "f' = f"
    | m w where "normalizeMarker dp utc w = Some m" "f' = Json (marker_value m)"
    by (auto simp: writeMarker_def split: option.splits replace_run.splits if_splits)
  then show "f' = f \<or> (\<exists>m. readMarker dp utc f' = Inr (Some m))"
  proof cases
    case 2
    from normalizeMarker_value [OF normalizeMarker_ok [OF assms(1) 2(1)]] 2(2)
    show ?thesis by (simp add: readMarker_def)
  qed simp
qed

text \<open>
  Clearing with an expected recycle id never removes a marker of another recycle nor one that
  cannot be read, and success means that no marker is left.
\<close>

theorem clearMarker_own_only:
  "(let (done, f') = clearMarker dp utc run (JStr e) f in
     (f' \<noteq> f \<and> is_text e \<longrightarrow> f' = Missing \<and> (\<exists>m. readMarker dp utc f = Inr (Some m) \<and> rm_recycleId m = e))
     \<and> (done \<longrightarrow> f' = Missing))"
proof (cases "normalizeOptionalText (JStr e)")
  case None
  then show ?thesis
    by (auto simp: clearMarker_def unlink_marker_def split: unlink_run.split)
next
  case (Some e')
  then have "is_text e \<Longrightarrow> e' = e" by simp
  with Some show ?thesis
    by (cases f) (auto simp: clearMarker_def unlink_marker_def readMarker_def split: unlink_run.split option.split)
qed

text \<open>A concrete pair of date functions, and a marker, for examples.\<close>

definition demo_utc :: "int \<Rightarrow> string" where
  "demo_utc t = show_nat (nat t)"

definition demo_dp :: "string \<Rightarrow> int option" where
  "demo_dp s = (if s \<noteq> [] \<and> list_all is_digit s then Some (int (read_nat s)) else None)"

lemma trim_no_ws: "\<forall>c \<in> set s. \<not> is_ws c \<Longrightarrow> trim s = s"
  by (metis dropWhile_eq_self_iff hd_in_set rev_rev_ident set_rev trim_def trim_end_def trim_start_def)

lemma digit_not_ws: "is_digit c \<Longrightarrow> \<not> is_ws c"
  by (auto simp: is_digit_def is_ws_def)

lemma show_nat_is_text: "is_text (show_nat n)"
  using trim_no_ws [of "show_nat n"] show_nat_digits [of n] digit_not_ws by (auto simp: is_text_def list_all_iff)

lemma demo_date_lib: "date_lib demo_dp demo_utc"
  using show_nat_digits by (auto simp: date_lib_def demo_dp_def demo_utc_def show_nat_is_text)

definition demo_marker :: marker where
  "demo_marker = \<lparr>rm_schemaVersion = 2, rm_phase = Replacement_started, rm_requestedAtUtc = demo_utc 5,
     rm_reason = ''r'', rm_recycleId = ''x'', rm_sourcePid = 41, rm_replacementStartedAtUtc = Some (demo_utc 7),
     rm_resetCompletedAtUtc = None, rm_recycleRequestedToken = None, rm_sessionRequestId = None,
     rm_userSessionId = None, rm_sessionId = None\<rparr>"

lemma demo_marker_ok: "marker_ok demo_dp demo_utc demo_marker"
proof -
  have t: "demo_dp (demo_utc t) = Some t" if "0 \<le> t" for t
    using that show_nat_digits by (simp add: demo_dp_def demo_utc_def)
  have x: "is_text (demo_utc t)" for t by (simp add: demo_utc_def show_nat_is_text)
  have c: "is_text ''r''" "is_text ''x''" by (simp_all add: is_text_def trim_no_ws is_ws_def)
  show ?thesis
    by (simp add: marker_ok_def demo_marker_def x t c max_safe_def earlier_def)
qed

theorem recycle_marker_survives_witness:
  "\<exists>v f'. writeMarker demo_dp demo_utc (Renamed Synced) v Missing = (Inr demo_marker, f')
     \<and> readMarker demo_dp demo_utc f' = Inr (Some demo_marker) \<and> isReplacementProof (Some demo_marker) 42"
proof -
  let ?v = "JObj (marker_fields demo_marker)"
  have fields: "fld (JObj ((''schemaVersion'', num_of_int 2) # marker_fields demo_marker)) k = fld (marker_value demo_marker) k" for k
    unfolding fld_marker by (simp add: marker_fields_def demo_marker_def)
  have "normalizeMarker demo_dp demo_utc (JObj ((''schemaVersion'', num_of_int 2) # marker_fields demo_marker)) = Some demo_marker"
    using normalizeMarker_value [OF demo_marker_ok] by (simp only: normalizeMarker_def proof_ok_def fields)
  then have w: "writeMarker demo_dp demo_utc (Renamed Synced) ?v Missing = (Inr demo_marker, Json (marker_value demo_marker))"
    by (simp add: writeMarker_def fsyncContainingDirectory_def)
  from recycle_marker_survives [OF demo_date_lib w, of 42] w show ?thesis by (auto simp: demo_marker_def)
qed

theorem clearMarker_own_only_witness:
  "clearMarker demo_dp demo_utc (Unlinked Synced) (JStr ''y'') (Json (marker_value demo_marker))
     = (False, Json (marker_value demo_marker))
   \<and> snd (clearMarker demo_dp demo_utc (Unlinked Synced) (JStr ''x'') (Json (marker_value demo_marker))) = Missing"
proof -
  have r: "readMarker demo_dp demo_utc (Json (marker_value demo_marker)) = Inr (Some demo_marker)"
    by (simp add: readMarker_def normalizeMarker_value [OF demo_marker_ok])
  have x: "is_text ''x''" "is_text ''y''" by (simp_all add: is_text_def trim_no_ws is_ws_def)
  have "clearMarker demo_dp demo_utc (Unlinked Synced) (JStr ''x'') (Json (marker_value demo_marker)) = (True, Missing)"
    by (simp add: clearMarker_def x r demo_marker_def [THEN arg_cong [of _ _ rm_recycleId]] unlink_marker_def
        fsyncContainingDirectory_def)
  moreover have "clearMarker demo_dp demo_utc (Unlinked Synced) (JStr ''y'') (Json (marker_value demo_marker))
     = (False, Json (marker_value demo_marker))"
    by (simp add: clearMarker_def x r demo_marker_def [THEN arg_cong [of _ _ rm_recycleId]])
  ultimately show ?thesis
    using clearMarker_own_only [of demo_dp demo_utc "Unlinked Synced" "''x''" "Json (marker_value demo_marker)"] by simp
qed

end
