(* ===== verification/Connect_Ticket_Runtime.thy ===== *)
theory Connect_Ticket_Runtime
  imports Agent_State Recycle_State
begin

text \<open>
  \<open>SignallingWebServer/src/connect-ticket-runtime-state.ts\<close>: the gate that decides which connect
  tickets this runtime still accepts. Its durable state is one file, replaced atomically; beside it are
  the two files of \<open>Agent_State\<close>, which other code writes. A gate keeps four variables of its own. Every
  method is a function from the gate to its answer and the gate after; the time of a call, the two
  other files and the outcome of a write are parameters. Times and cutoffs are within the range of a
  \<open>Date\<close>; the log is not modelled.
\<close>

section \<open>The durable state\<close>

record runtime_state =
  ts_cutoff :: "int option"
  ts_cutoffUtc :: "string option"
  ts_reason :: "string option"
  ts_commandType :: "string option"
  ts_instanceCommandId :: "string option"
  ts_updatedAtUtc :: "string option"
  ts_recoveryRequired :: bool
  ts_readyNotBefore :: "int option"
  ts_viewerRequest :: "string option"
  ts_viewerActive :: "string option"
  ts_viewerAdmittedAt :: "string option"
  ts_completed :: "string list"

record gate_config =
  gc_dp :: "string \<Rightarrow> int option"
  gc_utc :: "int \<Rightarrow> string"
  gc_skew :: int
  gc_boot :: "int option"

definition is_guid :: "string \<Rightarrow> bool" where
  "is_guid s \<longleftrightarrow> map length (split_char (CHR ''-'') s) = [8, 4, 4, 4, 12]
     \<and> list_all (list_all is_hex) (split_char (CHR ''-'') s)"

definition normalizeOptionalGuid :: "jsval \<Rightarrow> string option" where
  "normalizeOptionalGuid v = (case normalizeOptionalText v of
     None \<Rightarrow> None
   | Some t \<Rightarrow> if is_guid t then Some (to_lower t) else None)"

fun normalizeOptionalEpochSeconds :: "jsval \<Rightarrow> int option" where
  "normalizeOptionalEpochSeconds (JNum (Fin q)) = (if 0 \<le> q then Some \<lfloor>q\<rfloor> else None)"
| "normalizeOptionalEpochSeconds (JStr s) = (case parse_int (trim s) of
     None \<Rightarrow> None
   | Some i \<Rightarrow> if i < 0 then None else Some i)"
| "normalizeOptionalEpochSeconds _ = None"

definition parseUtcToEpochSeconds :: "gate_config \<Rightarrow> string option \<Rightarrow> int option" where
  "parseUtcToEpochSeconds g v = (case v of
     None \<Rightarrow> None
   | Some s \<Rightarrow> if s = [] then None else map_option (\<lambda>ms. ms div 1000) (gc_dp g s))"

definition toUtcIsoString :: "gate_config \<Rightarrow> int \<Rightarrow> string" where
  "toUtcIsoString g epoch = gc_utc g (epoch * 1000)"

definition command_type :: "command option \<Rightarrow> string" where
  "command_type c = (case c of None \<Rightarrow> [] | Some c \<Rightarrow> to_lower (trim (cm_commandType c)))"

definition isTeardownCommand :: "command option \<Rightarrow> bool" where
  "isTeardownCommand c \<longleftrightarrow> command_type c = ''recycletowarm'' \<or> command_type c = ''shutdown''"

definition isRecycleToWarmCommand :: "command option \<Rightarrow> bool" where
  "isRecycleToWarmCommand c \<longleftrightarrow> command_type c = ''recycletowarm''"

definition max_completed :: nat where
  "max_completed = 128"

definition take_last :: "nat \<Rightarrow> 'a list \<Rightarrow> 'a list" where
  "take_last n xs = drop (length xs - n) xs"

text \<open>\<open>Array.from(new Set(tokens)).slice(-128)\<close>\<close>

definition recent_distinct :: "string list \<Rightarrow> string list" where
  "recent_distinct ts = take_last max_completed (fold set_add ts [])"

fun completed_tokens :: "jsval \<Rightarrow> string list" where
  "completed_tokens (JArr vs) = recent_distinct (List.map_filter normalizeRecycleToken vs)"
| "completed_tokens _ = []"

definition normalizeRuntimeState :: "gate_config \<Rightarrow> jsval \<Rightarrow> runtime_state" where
  "normalizeRuntimeState g v =
     (let cutoff = normalizeOptionalEpochSeconds (fld v ''rejectTicketsIssuedAtOrBeforeEpochSeconds'') in
      \<lparr>ts_cutoff = cutoff,
       ts_cutoffUtc = (case normalizeOptionalText (fld v ''rejectTicketsIssuedAtOrBeforeUtc'') of
           Some t \<Rightarrow> Some t | None \<Rightarrow> map_option (toUtcIsoString g) cutoff),
       ts_reason = normalizeOptionalText (fld v ''reason''),
       ts_commandType = normalizeOptionalText (fld v ''commandType''),
       ts_instanceCommandId = normalizeOptionalText (fld v ''instanceCommandId''),
       ts_updatedAtUtc = normalizeOptionalText (fld v ''updatedAtUtc''),
       ts_recoveryRequired = (fld v ''commercialRecoveryRequired'' = JBool True),
       ts_readyNotBefore = normalizeOptionalEpochSeconds (fld v ''commercialRecoveryReadyNotBeforeEpochSeconds''),
       ts_viewerRequest = normalizeOptionalGuid (fld v ''managedViewerSessionRequestId''),
       ts_viewerActive = normalizeOptionalGuid (fld v ''managedViewerActiveSessionId''),
       ts_viewerAdmittedAt = normalizeOptionalText (fld v ''managedViewerFirstAdmittedAtUtc''),
       ts_completed = completed_tokens (fld v ''completedRecycleTokens'')\<rparr>)"

text \<open>The value of a snapshot: what \<open>{...snapshot}\<close> copies and what is written.\<close>

definition state_fields :: "runtime_state \<Rightarrow> (string \<times> jsval) list" where
  "state_fields s =
     [(''rejectTicketsIssuedAtOrBeforeEpochSeconds'', opt_int (ts_cutoff s)),
      (''rejectTicketsIssuedAtOrBeforeUtc'', opt_str (ts_cutoffUtc s)), (''reason'', opt_str (ts_reason s)),
      (''commandType'', opt_str (ts_commandType s)), (''instanceCommandId'', opt_str (ts_instanceCommandId s)),
      (''updatedAtUtc'', opt_str (ts_updatedAtUtc s)),
      (''commercialRecoveryRequired'', if ts_recoveryRequired s then JBool True else JUndef),
      (''commercialRecoveryReadyNotBeforeEpochSeconds'', opt_int (ts_readyNotBefore s)),
      (''managedViewerSessionRequestId'', opt_str (ts_viewerRequest s)),
      (''managedViewerActiveSessionId'', opt_str (ts_viewerActive s)),
      (''managedViewerFirstAdmittedAtUtc'', opt_str (ts_viewerAdmittedAt s)),
      (''completedRecycleTokens'', if ts_completed s = [] then JUndef else JArr (map JStr (ts_completed s)))]"

definition state_value :: "runtime_state \<Rightarrow> jsval" where
  "state_value s = json_obj (state_fields s)"

text \<open>The largest time of a \<open>Date\<close>, in seconds: beyond it \<open>toISOString\<close> throws.\<close>

definition date_range :: "int \<Rightarrow> bool" where
  "date_range epoch \<longleftrightarrow> \<bar>epoch\<bar> \<le> 8640000000000"

fun text_field_ok :: "jsval \<Rightarrow> bool" where
  "text_field_ok JUndef = True"
| "text_field_ok (JStr s) = (trim s \<noteq> [])"
| "text_field_ok _ = False"

fun date_field_ok :: "gate_config \<Rightarrow> jsval \<Rightarrow> bool" where
  "date_field_ok g (JStr s) = (gc_dp g s \<noteq> None)"
| "date_field_ok g _ = False"

definition utc_field_ok :: "gate_config \<Rightarrow> int \<Rightarrow> jsval \<Rightarrow> bool" where
  "utc_field_ok g cutoff v = (case v of
     JUndef \<Rightarrow> True
   | JStr s \<Rightarrow> parseUtcToEpochSeconds g (Some (trim s)) = Some cutoff
   | _ \<Rightarrow> False)"

definition ready_field_ok :: "int \<Rightarrow> jsval \<Rightarrow> jsval \<Rightarrow> bool" where
  "ready_field_ok cutoff required v \<longleftrightarrow> v = JUndef \<or> (case safe_int v of
     None \<Rightarrow> False
   | Some r \<Rightarrow> 0 \<le> r \<and> required = JBool True \<and> cutoff \<le> r)"

definition viewer_fields_ok :: "gate_config \<Rightarrow> jsval \<Rightarrow> bool" where
  "viewer_fields_ok g v \<longleftrightarrow>
     ((fld v ''managedViewerSessionRequestId'' \<noteq> JUndef \<or> fld v ''managedViewerActiveSessionId'' \<noteq> JUndef
         \<or> fld v ''managedViewerFirstAdmittedAtUtc'' \<noteq> JUndef) \<longrightarrow>
      normalizeOptionalGuid (fld v ''managedViewerSessionRequestId'') \<noteq> None
        \<and> date_field_ok g (fld v ''managedViewerFirstAdmittedAtUtc''))
     \<and> (fld v ''managedViewerActiveSessionId'' \<noteq> JUndef \<longrightarrow>
          normalizeOptionalGuid (fld v ''managedViewerActiveSessionId'') \<noteq> None)"

definition tokens_field_ok :: "jsval \<Rightarrow> bool" where
  "tokens_field_ok v = (case v of
     JUndef \<Rightarrow> True
   | JArr ts \<Rightarrow> list_all (\<lambda>t. normalizeRecycleToken t \<noteq> None) ts
   | _ \<Rightarrow> False)"

definition parsePersistedRuntimeState :: "gate_config \<Rightarrow> jsval \<Rightarrow> runtime_state option" where
  "parsePersistedRuntimeState g v =
     (if \<not> is_obj v then None
      else case safe_int (fld v ''rejectTicketsIssuedAtOrBeforeEpochSeconds'') of
        None \<Rightarrow> None
      | Some cutoff \<Rightarrow>
          if cutoff < 0 then None
          else if \<not> utc_field_ok g cutoff (fld v ''rejectTicketsIssuedAtOrBeforeUtc'') then None
          else if \<not> list_all (\<lambda>k. text_field_ok (fld v k)) [''reason'', ''commandType'', ''instanceCommandId''] then None
          else if fld v ''updatedAtUtc'' \<noteq> JUndef \<and> \<not> date_field_ok g (fld v ''updatedAtUtc'') then None
          else if fld v ''commercialRecoveryRequired'' \<notin> {JUndef, JBool True, JBool False} then None
          else if \<not> ready_field_ok cutoff (fld v ''commercialRecoveryRequired'')
                   (fld v ''commercialRecoveryReadyNotBeforeEpochSeconds'') then None
          else if \<not> viewer_fields_ok g v then None
          else if \<not> tokens_field_ok (fld v ''completedRecycleTokens'') then None
          else if fld v ''rejectTicketsIssuedAtOrBeforeUtc'' = JUndef \<and> \<not> date_range cutoff then None
          else Some (normalizeRuntimeState g v))"

datatype inspection = State_missing | State_valid runtime_state | State_invalid

definition inspectRuntimeState :: "gate_config \<Rightarrow> file_state \<Rightarrow> inspection" where
  "inspectRuntimeState g f = (case f of
     Missing \<Rightarrow> State_missing
   | Broken e \<Rightarrow> State_invalid
   | Json v \<Rightarrow> (case parsePersistedRuntimeState g v of None \<Rightarrow> State_invalid | Some s \<Rightarrow> State_valid s))"

definition writeRuntimeState :: "replace_run \<Rightarrow> runtime_state \<Rightarrow> file_state \<Rightarrow> bool \<times> file_state" where
  "writeRuntimeState run s f = put_atomic run (state_value s) f"

section \<open>The gate\<close>

datatype gate_reason =
    Cutoff_unreadable | Cutoff_not_persisted | Fence_unreadable | Teardown_in_progress | Other_session
  | Recovery_pending | No_issue_time | Issued_before_teardown | Viewer_invalid | Viewer_evidence_unreadable
  | Viewer_other_session | Viewer_other_active | Viewer_not_persisted | Recovery_not_prepared
  | Ready_not_persisted | Recovery_not_completed | Token_fence_missing | Completion_not_persisted

fun reason_text :: "gate_reason \<Rightarrow> string" where
  "reason_text Cutoff_unreadable = ''Connect tickets are blocked because the durable teardown cutoff state is missing, invalid, or unreadable.''"
| "reason_text Cutoff_not_persisted = ''Connect tickets are blocked because the durable teardown cutoff could not be persisted.''"
| "reason_text Fence_unreadable = ''Connect tickets are blocked because the completed recycle-token fence is invalid or unreadable.''"
| "reason_text Teardown_in_progress = ''Connect ticket cannot be used while session teardown is in progress.''"
| "reason_text Other_session = ''Connect ticket targets a different managed session than this runtime process.''"
| "reason_text Recovery_pending = ''Connect tickets are blocked until committed commercial session cleanup completes.''"
| "reason_text No_issue_time = ''Connect ticket cannot be used after session teardown because it has no issue time.''"
| "reason_text Issued_before_teardown = ''Connect ticket was issued before this session teardown began.''"
| "reason_text Viewer_invalid = ''Managed viewer identity is invalid and cannot be durably admitted.''"
| "reason_text Viewer_evidence_unreadable = ''Connect tickets are blocked because durable managed-viewer evidence is missing, invalid, or unreadable.''"
| "reason_text Viewer_other_session = ''Connect ticket targets a different managed session than the durable viewer-use evidence for this runtime.''"
| "reason_text Viewer_other_active = ''Connect ticket active session conflicts with the durable viewer-use evidence for this runtime.''"
| "reason_text Viewer_not_persisted = ''Connect tickets are blocked because durable managed-viewer evidence could not be persisted.''"
| "reason_text Recovery_not_prepared = ''Connect tickets are blocked because commercial recovery readiness could not be durably prepared.''"
| "reason_text Ready_not_persisted = ''Connect tickets are blocked because the recovery-ready ticket cutoff could not be persisted.''"
| "reason_text Recovery_not_completed = ''Connect tickets are blocked because commercial recovery state could not be durably completed.''"
| "reason_text Token_fence_missing = ''Connect tickets are blocked because commercial recovery completed without its recycle token fence.''"
| "reason_text Completion_not_persisted = ''Connect tickets are blocked because commercial recovery completion could not be persisted.''"

record gate =
  gt_file :: file_state
  gt_failure :: "gate_reason option"
  gt_journalBlock :: "string option"
  gt_session :: "string option"
  gt_admitted :: bool
  gt_expected :: bool

datatype token_status = Completed | Open_token | Unavailable

definition completedRecycleTokenStatus :: "gate_config \<Rightarrow> jsval \<Rightarrow> file_state \<Rightarrow> token_status" where
  "completedRecycleTokenStatus g token f = (case normalizeRecycleToken token of
     None \<Rightarrow> Open_token
   | Some t \<Rightarrow> (case inspectRuntimeState g f of
       State_valid s \<Rightarrow> if t \<in> set (ts_completed s) then Completed else Open_token
     | _ \<Rightarrow> Unavailable))"

record teardown_options =
  to_occurredAtUtc :: "string option"
  to_reason :: "string option"
  to_commandType :: "string option"
  to_instanceCommandId :: "string option"

definition or_else :: "'a option \<Rightarrow> 'a option \<Rightarrow> 'a option" where
  "or_else a b = (case a of None \<Rightarrow> b | Some x \<Rightarrow> Some x)"

text \<open>A snapshot of a missing file has no fields; \<open>inspected\<close> is the snapshot of a readable state.\<close>

definition inspected :: "gate_config \<Rightarrow> inspection \<Rightarrow> runtime_state" where
  "inspected g i = (case i of State_valid s \<Rightarrow> s | _ \<Rightarrow> normalizeRuntimeState g JUndef)"

definition blind :: "inspection \<Rightarrow> gate \<Rightarrow> bool" where
  "blind i t \<longleftrightarrow> i = State_invalid \<or> (i = State_missing \<and> gt_expected t)"

definition markTeardownStarted ::
  "gate_config \<Rightarrow> teardown_options \<Rightarrow> int \<Rightarrow> replace_run \<Rightarrow> gate \<Rightarrow> bool \<times> gate" where
  "markTeardownStarted g opts now run t =
     (let requested = parseUtcToEpochSeconds g (normalizeOptionalText (opt_str (to_occurredAtUtc opts)));
          cutoff = (case requested of Some c \<Rightarrow> c | None \<Rightarrow> now);
          i = inspectRuntimeState g (gt_file t) in
      if blind i t then (False, t\<lparr>gt_failure := Some Cutoff_unreadable\<rparr>)
      else
        let s = inspected g i;
            next = max (case ts_cutoff s of None \<Rightarrow> 0 | Some c \<Rightarrow> c) cutoff;
            s' = normalizeRuntimeState g (state_value (s\<lparr>ts_cutoff := Some next,
                   ts_cutoffUtc := Some (toUtcIsoString g next),
                   ts_reason := or_else (normalizeOptionalText (opt_str (to_reason opts))) (ts_reason s),
                   ts_commandType := or_else (normalizeOptionalText (opt_str (to_commandType opts))) (ts_commandType s),
                   ts_instanceCommandId :=
                     or_else (normalizeOptionalText (opt_str (to_instanceCommandId opts))) (ts_instanceCommandId s),
                   ts_recoveryRequired := True, ts_readyNotBefore := None,
                   ts_updatedAtUtc := Some (toUtcIsoString g now)\<rparr>));
            (ok, f) = writeRuntimeState run s' (gt_file t) in
        if \<not> ok then (False, t\<lparr>gt_file := f, gt_failure := Some Cutoff_not_persisted\<rparr>)
        else (True, t\<lparr>gt_file := f, gt_expected := True, gt_failure := None\<rparr>))"

record ticket =
  tk_issuedAt :: "int option"
  tk_sessionRequestId :: "string option"

text \<open>What the two files of the agent say of a teardown: \<open>None\<close> lets the ticket through.\<close>

definition command_block :: "gate_config \<Rightarrow> file_state \<Rightarrow> file_state \<Rightarrow> gate_reason option" where
  "command_block g journal f =
     (let command = readCommandJournal journal;
          status = (if isRecycleToWarmCommand command
                    then completedRecycleTokenStatus g (opt_str (map_option cm_instanceCommandId command)) f
                    else Open_token) in
      if status = Unavailable then Some Fence_unreadable
      else if isTeardownCommand command \<and> status \<noteq> Completed then Some Teardown_in_progress
      else None)"

definition desired_block :: "gate_config \<Rightarrow> file_state \<Rightarrow> file_state \<Rightarrow> gate_reason option" where
  "desired_block g desired f =
     (let d = readDesiredState desired;
          status = completedRecycleTokenStatus g (opt_str (ds_recycleRequestedToken d)) f in
      if status = Unavailable then Some Fence_unreadable
      else if (ds_recycleRequestedToken d \<noteq> None \<and> status \<noteq> Completed) \<or> ds_shutdownRequested d
      then Some Teardown_in_progress
      else None)"

definition rejectReasonForTicket ::
  "gate_config \<Rightarrow> file_state \<Rightarrow> file_state \<Rightarrow> ticket \<Rightarrow> gate \<Rightarrow> gate_reason option \<times> gate" where
  "rejectReasonForTicket g journal desired ticket t =
     (case command_block g journal (gt_file t) of
        Some r \<Rightarrow> (Some r, t)
      | None \<Rightarrow>
     (case desired_block g desired (gt_file t) of
        Some r \<Rightarrow> (Some r, t)
      | None \<Rightarrow>
     (case gt_failure t of
        Some r \<Rightarrow> (Some r, t)
      | None \<Rightarrow>
          let i = inspectRuntimeState g (gt_file t) in
          if blind i t then (Some Cutoff_unreadable, t\<lparr>gt_failure := Some Cutoff_unreadable\<rparr>)
          else
            let s = inspected g i;
                session = normalizeOptionalText (opt_str (tk_sessionRequestId ticket)) in
            if session \<noteq> None \<and> gt_session t \<noteq> None \<and> map_option to_lower session \<noteq> map_option to_lower (gt_session t)
            then (Some Other_session, t)
            else if ts_recoveryRequired s then (Some Recovery_pending, t)
            else
              let fence = (case ts_cutoff s of
                    None \<Rightarrow> None
                  | Some c \<Rightarrow> (case tk_issuedAt ticket of
                      None \<Rightarrow> Some No_issue_time
                    | Some iat \<Rightarrow> if iat \<le> c then Some Issued_before_teardown else None)) in
              if fence \<noteq> None then (fence, t)
              else (None, if session \<noteq> None \<and> gt_session t = None then t\<lparr>gt_session := session\<rparr> else t))))"

text \<open>The part of \<open>recordManagedViewerAdmission\<close> that acts on a valid state.\<close>

definition admit_viewer ::
  "gate_config \<Rightarrow> string \<Rightarrow> string option \<Rightarrow> int \<Rightarrow> replace_run \<Rightarrow> runtime_state \<Rightarrow> gate \<Rightarrow> gate_reason option \<times> gate" where
  "admit_viewer g request active now run s t =
     (if ts_viewerRequest s \<noteq> None \<and> map_option to_lower (ts_viewerRequest s) \<noteq> Some (to_lower request)
      then (Some Viewer_other_session, t)
      else if ts_viewerActive s \<noteq> None \<and> active \<noteq> None
         \<and> map_option to_lower (ts_viewerActive s) \<noteq> map_option to_lower active
      then (Some Viewer_other_active, t)
      else if ts_viewerRequest s \<noteq> None
         \<and> (active = None \<or> map_option to_lower (ts_viewerActive s) = map_option to_lower active)
      then (None, t\<lparr>gt_admitted := True\<rparr>)
      else
        let s' = normalizeRuntimeState g (state_value (s\<lparr>ts_viewerRequest := Some request,
                   ts_viewerActive := or_else (ts_viewerActive s) active,
                   ts_viewerAdmittedAt := or_else (ts_viewerAdmittedAt s) (Some (toUtcIsoString g now)),
                   ts_updatedAtUtc := Some (toUtcIsoString g now)\<rparr>));
            (ok, f) = writeRuntimeState run s' (gt_file t) in
        if \<not> ok then (Some Viewer_not_persisted, t\<lparr>gt_file := f, gt_failure := Some Viewer_not_persisted\<rparr>)
        else (None, t\<lparr>gt_file := f, gt_failure := None, gt_session := Some request, gt_admitted := True\<rparr>))"

definition recordManagedViewerAdmission ::
  "gate_config \<Rightarrow> jsval \<Rightarrow> jsval \<Rightarrow> int \<Rightarrow> replace_run \<Rightarrow> gate \<Rightarrow> gate_reason option \<times> gate" where
  "recordManagedViewerAdmission g sessionRequest activeSession now run t =
     (case gt_failure t of
        Some r \<Rightarrow> (Some r, t)
      | None \<Rightarrow>
     (case normalizeOptionalGuid sessionRequest of
        None \<Rightarrow> (Some Viewer_invalid, t)
      | Some request \<Rightarrow>
          if activeSession \<noteq> JUndef \<and> normalizeOptionalGuid activeSession = None then (Some Viewer_invalid, t)
          else case inspectRuntimeState g (gt_file t) of
            State_valid s \<Rightarrow> admit_viewer g request (normalizeOptionalGuid activeSession) now run s t
          | _ \<Rightarrow> (Some Viewer_evidence_unreadable, t\<lparr>gt_failure := Some Viewer_evidence_unreadable\<rparr>)))"

text \<open>The milliseconds of the first admission; \<open>None\<close> is not finite.\<close>

definition admitted_ms :: "gate_config \<Rightarrow> runtime_state \<Rightarrow> int option" where
  "admitted_ms g s = Option.bind (ts_viewerAdmittedAt s) (gc_dp g)"

definition skewed_before_boot :: "gate_config \<Rightarrow> int \<Rightarrow> bool" where
  "skewed_before_boot g ms \<longleftrightarrow> (case gc_boot g of None \<Rightarrow> False | Some b \<Rightarrow> ms + gc_skew g * 1000 < b * 1000)"

definition reconcileAssignmentAfterHostBoot ::
  "gate_config \<Rightarrow> jsval option \<Rightarrow> int \<Rightarrow> replace_run \<Rightarrow> gate \<Rightarrow> bool \<times> gate" where
  "reconcileAssignmentAfterHostBoot g assignment now run t =
     (case (gt_admitted t, gt_session t) of
        (False, Some managed) \<Rightarrow>
          let assigned = Option.bind assignment normalizeOptionalGuid in
          if assignment \<noteq> None \<and> assigned = None then (False, t)
          else if assigned \<noteq> None \<and> map_option to_lower assigned = Some (to_lower managed) then (True, t)
          else (case inspectRuntimeState g (gt_file t) of
            State_valid s \<Rightarrow>
              (case admitted_ms g s of
                 None \<Rightarrow> (False, t)
               | Some ms \<Rightarrow>
                   if \<not> skewed_before_boot g ms \<or> ts_recoveryRequired s \<or> gt_journalBlock t \<notin> {None, Some []}
                   then (False, t)
                   else
                     let cutoff = max (case ts_cutoff s of None \<Rightarrow> 0 | Some c \<Rightarrow> c) (now + gc_skew g);
                         s' = normalizeRuntimeState g (state_value (s\<lparr>ts_viewerRequest := None,
                                ts_viewerActive := None, ts_viewerAdmittedAt := None, ts_cutoff := Some cutoff,
                                ts_cutoffUtc := Some (toUtcIsoString g cutoff),
                                ts_reason := Some ''prior_assignment_released_after_host_boot'',
                                ts_updatedAtUtc := Some (toUtcIsoString g now)\<rparr>));
                         (ok, f) = writeRuntimeState run s' (gt_file t) in
                     if \<not> ok then (False, t\<lparr>gt_file := f\<rparr>)
                     else (True, t\<lparr>gt_file := f, gt_session := None\<rparr>))
          | _ \<Rightarrow> (False, t))
      | _ \<Rightarrow> (True, t))"

definition getManagedViewerIdentity :: "gate_config \<Rightarrow> gate \<Rightarrow> (string \<times> string option) option" where
  "getManagedViewerIdentity g t = (case (gt_failure t, inspectRuntimeState g (gt_file t)) of
     (None, State_valid s) \<Rightarrow>
       (case ts_viewerRequest s of
          None \<Rightarrow> None
        | Some request \<Rightarrow>
            if ts_recoveryRequired s then None
            else if \<not> gt_admitted t
              \<and> (case admitted_ms g s of None \<Rightarrow> True | Some ms \<Rightarrow> skewed_before_boot g ms)
            then None
            else Some (request, ts_viewerActive s))
   | _ \<Rightarrow> None)"

datatype evidence_status = No_evidence | Evidence_present | Evidence_unavailable

definition getDurableManagedViewerEvidenceStatus :: "gate_config \<Rightarrow> gate \<Rightarrow> evidence_status \<times> gate" where
  "getDurableManagedViewerEvidenceStatus g t =
     (if gt_failure t \<noteq> None then (Evidence_unavailable, t)
      else case inspectRuntimeState g (gt_file t) of
        State_valid s \<Rightarrow> (if ts_viewerRequest s \<noteq> None then Evidence_present else No_evidence, t)
      | _ \<Rightarrow> (Evidence_unavailable, t\<lparr>gt_failure := Some Viewer_evidence_unreadable\<rparr>))"

definition isCommercialRecoveryRequired :: "gate_config \<Rightarrow> gate \<Rightarrow> bool \<times> gate" where
  "isCommercialRecoveryRequired g t =
     (if gt_failure t \<noteq> None then (True, t)
      else
        let i = inspectRuntimeState g (gt_file t) in
        if blind i t then (True, t\<lparr>gt_failure := Some Cutoff_unreadable\<rparr>)
        else (ts_recoveryRequired (inspected g i), t))"

definition prepareCommercialRecoveryAfterReset ::
  "gate_config \<Rightarrow> int \<Rightarrow> replace_run \<Rightarrow> gate \<Rightarrow> int option \<times> gate" where
  "prepareCommercialRecoveryAfterReset g now run t =
     (case inspectRuntimeState g (gt_file t) of
        State_valid s \<Rightarrow>
          if \<not> ts_recoveryRequired s then (None, t\<lparr>gt_failure := Some Recovery_not_prepared\<rparr>)
          else (case ts_readyNotBefore s of
            Some r \<Rightarrow> (Some r, t\<lparr>gt_failure := None\<rparr>)
          | None \<Rightarrow>
              let cutoff = max (case ts_cutoff s of None \<Rightarrow> 0 | Some c \<Rightarrow> c) (now + gc_skew g);
                  ready = cutoff + gc_skew g;
                  s' = normalizeRuntimeState g (state_value (s\<lparr>ts_cutoff := Some cutoff,
                         ts_cutoffUtc := Some (toUtcIsoString g cutoff), ts_recoveryRequired := True,
                         ts_readyNotBefore := Some ready, ts_reason := Some ''commercial_recovery_ready_margin'',
                         ts_updatedAtUtc := Some (toUtcIsoString g now)\<rparr>));
                  (ok, f) = writeRuntimeState run s' (gt_file t) in
              if \<not> ok then (None, t\<lparr>gt_file := f, gt_failure := Some Ready_not_persisted\<rparr>)
              else (Some ready, t\<lparr>gt_file := f, gt_expected := True, gt_failure := None\<rparr>))
      | _ \<Rightarrow> (None, t\<lparr>gt_failure := Some Recovery_not_prepared\<rparr>))"

definition completeCommercialRecoveryAfterReset ::
  "gate_config \<Rightarrow> jsval \<Rightarrow> int \<Rightarrow> replace_run \<Rightarrow> gate \<Rightarrow> bool \<times> gate" where
  "completeCommercialRecoveryAfterReset g recycleToken now run t =
     (case inspectRuntimeState g (gt_file t) of
        State_valid s \<Rightarrow>
          let token = normalizeRecycleToken recycleToken in
          if \<not> ts_recoveryRequired s
          then (case token of
                  Some k \<Rightarrow> if k \<notin> set (ts_completed s) then (False, t\<lparr>gt_failure := Some Token_fence_missing\<rparr>)
                      else (True, t\<lparr>gt_failure := None\<rparr>)
                | None \<Rightarrow> (True, t\<lparr>gt_failure := None\<rparr>))
          else (case ts_readyNotBefore s of
            None \<Rightarrow> (False, t)
          | Some r \<Rightarrow>
              if now \<le> r then (False, t)
              else
                let s' = normalizeRuntimeState g (state_value (s\<lparr>ts_recoveryRequired := False,
                           ts_readyNotBefore := None, ts_viewerRequest := None, ts_viewerActive := None,
                           ts_viewerAdmittedAt := None,
                           ts_completed := (case token of Some k \<Rightarrow> ts_completed s @ [k] | None \<Rightarrow> ts_completed s),
                           ts_updatedAtUtc := Some (toUtcIsoString g now)\<rparr>));
                    (ok, f) = writeRuntimeState run s' (gt_file t) in
                if \<not> ok then (False, t\<lparr>gt_file := f, gt_failure := Some Completion_not_persisted\<rparr>)
                else (True, t\<lparr>gt_file := f, gt_session := None, gt_failure := None\<rparr>))
      | _ \<Rightarrow> (False, t\<lparr>gt_failure := Some Recovery_not_completed\<rparr>))"

definition getCommercialRecoveryReadyNotBefore :: "gate_config \<Rightarrow> gate \<Rightarrow> int option" where
  "getCommercialRecoveryReadyNotBefore g t = (case inspectRuntimeState g (gt_file t) of
     State_valid s \<Rightarrow> ts_readyNotBefore s
   | _ \<Rightarrow> None)"

definition setReconnectGraceEvidenceJournalBlock :: "jsval \<Rightarrow> gate \<Rightarrow> gate" where
  "setReconnectGraceEvidenceJournalBlock reason t = t\<lparr>gt_journalBlock := normalizeOptionalText reason\<rparr>"

section \<open>Creation\<close>

definition clock_skew :: "jsnum option \<Rightarrow> int" where
  "clock_skew v = max 0 (case v of
     Some (Fin q) \<Rightarrow> (if 0 \<le> q then \<lfloor>q\<rfloor> else \<lceil>q\<rceil>)
   | _ \<Rightarrow> 5)"

text \<open>The state as it was found, or the baseline of a runtime without one; \<open>Inl\<close> is an exception.\<close>

definition initial_state :: "gate_config \<Rightarrow> int \<Rightarrow> replace_run \<Rightarrow> file_state \<Rightarrow> string + (runtime_state \<times> file_state)" where
  "initial_state g now run f = (case inspectRuntimeState g f of
     State_invalid \<Rightarrow> Inl ''refusing to start because prior teardown cutoffs cannot be proven.''
   | State_valid s \<Rightarrow> Inr (s, f)
   | State_missing \<Rightarrow>
       let s = normalizeRuntimeState g (json_obj
             [(''rejectTicketsIssuedAtOrBeforeEpochSeconds'', num_of_int 0),
              (''rejectTicketsIssuedAtOrBeforeUtc'', JStr (toUtcIsoString g 0)),
              (''reason'', JStr ''runtime_state_initialized''), (''updatedAtUtc'', JStr (toUtcIsoString g now))]);
           (ok, f') = writeRuntimeState run s f in
       if ok then Inr (s, f') else Inl ''could not be durably initialized; refusing to start.'')"

definition recover_command ::
  "gate_config \<Rightarrow> file_state \<Rightarrow> int \<Rightarrow> int \<Rightarrow> replace_run \<Rightarrow> gate \<Rightarrow> string + gate" where
  "recover_command g journal now nowMs run t =
     (let command = readCommandJournal journal;
          status = (if isRecycleToWarmCommand command
                    then completedRecycleTokenStatus g (opt_str (map_option cm_instanceCommandId command)) (gt_file t)
                    else Open_token) in
      if status = Unavailable then Inl (reason_text Fence_unreadable)
      else if isTeardownCommand command
          \<and> \<not> isCommandExpired (gc_dp g) (opt_str (Option.bind command cm_timeoutAtUtc)) nowMs
          \<and> status \<noteq> Completed
      then (case markTeardownStarted g \<lparr>to_occurredAtUtc = map_option cm_requestedAtUtc command,
                  to_reason = Some ''recovered_active_teardown_command'',
                  to_commandType = map_option cm_commandType command,
                  to_instanceCommandId = map_option cm_instanceCommandId command\<rparr> now run t of
              (True, t) \<Rightarrow> Inr t
            | (False, t) \<Rightarrow> Inl ''Failed to durably recover the connect-ticket cutoff for an active teardown command.'')
      else Inr t)"

definition recover_desired :: "gate_config \<Rightarrow> file_state \<Rightarrow> int \<Rightarrow> replace_run \<Rightarrow> gate \<Rightarrow> string + gate" where
  "recover_desired g desired now run t =
     (let d = readDesiredState desired;
          status = completedRecycleTokenStatus g (opt_str (ds_recycleRequestedToken d)) (gt_file t) in
      if status = Unavailable then Inl (reason_text Fence_unreadable)
      else if (ds_recycleRequestedToken d \<noteq> None \<and> status \<noteq> Completed) \<or> ds_shutdownRequested d
      then (case markTeardownStarted g \<lparr>to_occurredAtUtc = ds_updatedAtUtc d,
                  to_reason = Some (if ds_recycleRequestedToken d \<noteq> None
                    then ''recovered_desired_state_recycle_request'' else ''recovered_desired_state_shutdown_request''),
                  to_commandType = None, to_instanceCommandId = None\<rparr> now run t of
              (True, t) \<Rightarrow> Inr t
            | (False, t) \<Rightarrow> Inl ''Failed to durably recover the connect-ticket cutoff for desired teardown state.'')
      else Inr t)"

definition createConnectTicketRuntimeGate ::
  "gate_config \<Rightarrow> file_state \<Rightarrow> file_state \<Rightarrow> int \<Rightarrow> int \<Rightarrow> replace_run \<Rightarrow> replace_run \<Rightarrow> replace_run \<Rightarrow> file_state \<Rightarrow> string + gate" where
  "createConnectTicketRuntimeGate g journal desired now nowMs run0 run1 run2 f =
     (case initial_state g now run0 f of
        Inl e \<Rightarrow> Inl e
      | Inr (s, f) \<Rightarrow>
          (case recover_command g journal now nowMs run1
              \<lparr>gt_file = f, gt_failure = None, gt_journalBlock = None, gt_session = ts_viewerRequest s,
               gt_admitted = False, gt_expected = True\<rparr> of
             Inl e \<Rightarrow> Inl e
           | Inr t \<Rightarrow> recover_desired g desired now run2 t))"

end
