(* ===== verification/Connect_Ticket_Lemmas.thy ===== *)
theory Connect_Ticket_Lemmas
  imports Connect_Ticket_Runtime
begin

text \<open>
  Well-formed states of the connect-ticket gate: the state that is written is the state that is read
  back, so the operations of the gate act on one state, durably.
\<close>

section \<open>Identifiers and tokens\<close>

lemma is_hex_lower [simp]: "is_hex c \<Longrightarrow> is_hex (lower_char c)"
  by (auto simp: is_hex_def is_digit_def lower_char_def Let_def)

lemma dash_not_hex: "\<not> is_hex (CHR ''-'')"
  by (simp add: is_hex_def is_digit_def Let_def)

lemma lower_char_dash: "lower_char c = CHR ''-'' \<longleftrightarrow> c = CHR ''-''"
proof
  assume h: "lower_char c = CHR ''-''"
  show "c = CHR ''-''"
  proof (rule ccontr)
    assume "c \<noteq> CHR ''-''"
    with h have n: "65 \<le> (of_char c :: nat) \<and> (of_char c :: nat) \<le> 222" and "char_of ((of_char c :: nat) + 32) = CHR ''-''"
      by (auto simp: lower_char_def Let_def split: if_splits)
    from arg_cong [OF this(2), of "of_char :: char \<Rightarrow> nat"] n show False by simp
  qed
qed (simp add: lower_char_def Let_def)

lemma split_char_lower: "split_char (CHR ''-'') (map lower_char s) = map (map lower_char) (split_char (CHR ''-'') s)"
  by (induction s) (auto simp: lower_char_dash split: list.split)

lemma is_guid_lower [simp]: "is_guid s \<Longrightarrow> is_guid (to_lower s)"
  by (auto simp: is_guid_def to_lower_def split_char_lower list_all_iff)

definition guid_text :: "string \<Rightarrow> bool" where
  "guid_text s \<longleftrightarrow> is_guid s \<and> to_lower s = s"

lemma hex_not_ws: "is_hex c \<Longrightarrow> \<not> is_ws c"
  by (auto simp: is_hex_def is_digit_def is_ws_def Let_def)

lemma split_char_chars: "x \<in> set s \<Longrightarrow> x \<noteq> c \<Longrightarrow> \<exists>w \<in> set (split_char c s). x \<in> set w"
proof (induction s)
  case (Cons y s)
  then show ?case by (cases "split_char c s") auto
qed simp

lemma is_guid_text: "is_guid s \<Longrightarrow> is_text s"
proof -
  assume g: "is_guid s"
  then have "\<not> is_ws x" if "x \<in> set s" for x
    using split_char_chars [OF that, of "CHR ''-''"] hex_not_ws
    by (cases "x = CHR ''-''") (auto simp: is_guid_def list_all_iff is_ws_def)
  moreover have "s \<noteq> []" using g by (auto simp: is_guid_def)
  ultimately show ?thesis by (simp add: is_text_def trim_no_ws)
qed

lemma normalize_guid_text [simp]: "guid_text s \<Longrightarrow> normalizeOptionalGuid (JStr s) = Some s"
  by (simp add: normalizeOptionalGuid_def guid_text_def is_guid_text)

lemma normalized_guid_text: "normalizeOptionalGuid v = Some s \<Longrightarrow> guid_text s"
  by (auto simp: normalizeOptionalGuid_def guid_text_def split: option.splits if_splits)

lemma normalizeOptionalGuid_undefined [simp]: "normalizeOptionalGuid JUndef = None"
  by (simp add: normalizeOptionalGuid_def)

definition token_text :: "string \<Rightarrow> bool" where
  "token_text s \<longleftrightarrow> normalizeRecycleToken (JStr s) = Some s"

lemma normalized_token_text:
  assumes "normalizeRecycleToken v = Some t"
  shows "token_text t"
proof -
  from assms obtain s where s: "normalizeOptionalText v = Some s" "is_text s"
    using normalized_is_text by (auto simp: normalizeRecycleToken_def split: option.splits)
  let ?c = "filter (\<lambda>c. c \<noteq> CHR ''-'') s"
  show ?thesis
  proof (cases "length ?c = 32 \<and> list_all is_hex ?c")
    case False
    with assms s have "t = s" by (auto simp: normalizeRecycleToken_def)
    with False s show ?thesis by (auto simp: token_text_def normalizeRecycleToken_def)
  next
    case True
    with assms s have t: "t = to_lower ?c" by (auto simp: normalizeRecycleToken_def)
    have hex: "\<forall>x \<in> set t. is_hex x" using True by (auto simp: t to_lower_def list_all_iff)
    then have "filter (\<lambda>c. c \<noteq> CHR ''-'') t = t" using dash_not_hex by (auto simp: filter_id_conv)
    moreover have "is_text t"
    proof -
      have "t \<noteq> []" using True by (auto simp: t to_lower_def)
      then show ?thesis using hex hex_not_ws by (simp add: is_text_def trim_no_ws)
    qed
    moreover have "length t = 32" using True by (simp add: t to_lower_def)
    moreover have "to_lower t = t" by (simp add: t)
    ultimately show ?thesis using hex by (simp add: token_text_def normalizeRecycleToken_def list_all_iff)
  qed
qed

lemma set_fold_add: "set (fold set_add ts acc) = set ts \<union> set acc"
  by (induction ts arbitrary: acc) auto

lemma distinct_fold_add: "distinct acc \<Longrightarrow> distinct (fold set_add ts acc)"
  by (induction ts arbitrary: acc) auto

lemma fold_add_distinct: "distinct (acc @ ts) \<Longrightarrow> fold set_add ts acc = acc @ ts"
  by (induction ts arbitrary: acc) (auto simp: set_add_def)

lemma recent_distinct_props:
  "distinct (recent_distinct ts)" "length (recent_distinct ts) \<le> max_completed" "set (recent_distinct ts) \<subseteq> set ts"
  using distinct_fold_add [of "[]" ts] set_fold_add [of ts "[]"] set_drop_subset
  by (fastforce simp: recent_distinct_def take_last_def)+

lemma recent_distinct_same: "\<lbrakk>distinct ts; length ts \<le> max_completed\<rbrakk> \<Longrightarrow> recent_distinct ts = ts"
  by (simp add: recent_distinct_def take_last_def fold_add_distinct)

lemma recent_distinct_snoc:
  assumes "distinct ts" "length ts \<le> max_completed"
  shows "k \<in> set (recent_distinct (ts @ [k]))"
    and "length ts < max_completed \<Longrightarrow> set ts \<subseteq> set (recent_distinct (ts @ [k]))"
  using assms by (auto simp: recent_distinct_def take_last_def fold_add_distinct set_add_def max_completed_def)

lemma completed_tokens_text: "list_all token_text ts \<Longrightarrow> completed_tokens (JArr (map JStr ts)) = recent_distinct ts"
proof -
  assume "list_all token_text ts"
  then have "List.map_filter normalizeRecycleToken (map JStr ts) = ts"
    by (induction ts) (simp_all add: map_filter_simps token_text_def)
  then show ?thesis by simp
qed

section \<open>States\<close>

definition gate_lib :: "gate_config \<Rightarrow> bool" where
  "gate_lib g \<longleftrightarrow> (\<forall>e. date_range e \<longrightarrow>
     gc_dp g (gc_utc g (e * 1000)) = Some (e * 1000) \<and> is_text (gc_utc g (e * 1000)))"

lemma date_range_safe: "\<lbrakk>date_range c; 0 \<le> c\<rbrakk> \<Longrightarrow> c \<le> max_safe"
  by (simp add: date_range_def max_safe_def)

definition date_text :: "gate_config \<Rightarrow> string \<Rightarrow> bool" where
  "date_text g s \<longleftrightarrow> is_text s \<and> gc_dp g s \<noteq> None"

definition raw_ok :: "gate_config \<Rightarrow> runtime_state \<Rightarrow> bool" where
  "raw_ok g s \<longleftrightarrow>
     (\<exists>c u. ts_cutoff s = Some c \<and> 0 \<le> c \<and> c \<le> max_safe \<and> ts_cutoffUtc s = Some u \<and> is_text u
        \<and> parseUtcToEpochSeconds g (Some u) = Some c
        \<and> (\<forall>r. ts_readyNotBefore s = Some r \<longrightarrow> c \<le> r \<and> r \<le> max_safe \<and> ts_recoveryRequired s))
     \<and> opt_text (ts_reason s) \<and> opt_text (ts_commandType s) \<and> opt_text (ts_instanceCommandId s)
     \<and> (\<forall>u. ts_updatedAtUtc s = Some u \<longrightarrow> date_text g u)
     \<and> (\<forall>q. ts_viewerRequest s = Some q \<longrightarrow> guid_text q) \<and> (\<forall>q. ts_viewerActive s = Some q \<longrightarrow> guid_text q)
     \<and> (\<forall>a. ts_viewerAdmittedAt s = Some a \<longrightarrow> date_text g a)
     \<and> (ts_viewerRequest s = None \<longrightarrow> ts_viewerActive s = None \<and> ts_viewerAdmittedAt s = None)
     \<and> (ts_viewerRequest s \<noteq> None \<longrightarrow> ts_viewerAdmittedAt s \<noteq> None)
     \<and> list_all token_text (ts_completed s)"

definition state_ok :: "gate_config \<Rightarrow> runtime_state \<Rightarrow> bool" where
  "state_ok g s \<longleftrightarrow> raw_ok g s \<and> distinct (ts_completed s) \<and> length (ts_completed s) \<le> max_completed"

lemma fld_state: "fld (state_value s) k = (case map_of (state_fields s) k of Some v \<Rightarrow> v | None \<Rightarrow> JUndef)"
  unfolding state_value_def by (rule fld_json_obj) (simp add: state_fields_def)

lemma fld_state_simps [simp]:
  "fld (state_value s) ''rejectTicketsIssuedAtOrBeforeEpochSeconds'' = opt_int (ts_cutoff s)"
  "fld (state_value s) ''rejectTicketsIssuedAtOrBeforeUtc'' = opt_str (ts_cutoffUtc s)"
  "fld (state_value s) ''reason'' = opt_str (ts_reason s)"
  "fld (state_value s) ''commandType'' = opt_str (ts_commandType s)"
  "fld (state_value s) ''instanceCommandId'' = opt_str (ts_instanceCommandId s)"
  "fld (state_value s) ''updatedAtUtc'' = opt_str (ts_updatedAtUtc s)"
  "fld (state_value s) ''commercialRecoveryRequired'' = (if ts_recoveryRequired s then JBool True else JUndef)"
  "fld (state_value s) ''commercialRecoveryReadyNotBeforeEpochSeconds'' = opt_int (ts_readyNotBefore s)"
  "fld (state_value s) ''managedViewerSessionRequestId'' = opt_str (ts_viewerRequest s)"
  "fld (state_value s) ''managedViewerActiveSessionId'' = opt_str (ts_viewerActive s)"
  "fld (state_value s) ''managedViewerFirstAdmittedAtUtc'' = opt_str (ts_viewerAdmittedAt s)"
  "fld (state_value s) ''completedRecycleTokens'' = (if ts_completed s = [] then JUndef else JArr (map JStr (ts_completed s)))"
  unfolding fld_state by (simp_all add: state_fields_def)

lemma is_obj_state [simp]: "is_obj (state_value s)"
  by (simp add: state_value_def json_obj_def)

lemma normalizeEpoch_int [simp]: "normalizeOptionalEpochSeconds (opt_int a) = (case a of Some i \<Rightarrow> if 0 \<le> i then Some i else None | None \<Rightarrow> None)"
  by (cases a) (auto simp: opt_int_def num_of_int_def)

lemma normalizeGuid_opt: "\<forall>q. a = Some q \<longrightarrow> guid_text q \<Longrightarrow> normalizeOptionalGuid (opt_str a) = a"
  by (cases a) simp_all

lemma date_opt_text: "\<forall>u. a = Some u \<longrightarrow> date_text g u \<Longrightarrow> opt_text a"
  by (simp add: opt_text_def date_text_def)

lemma normalize_raw:
  assumes ok: "raw_ok g s"
  shows "normalizeRuntimeState g (state_value s) = s\<lparr>ts_completed := recent_distinct (ts_completed s)\<rparr>"
proof -
  from ok obtain c u where c: "ts_cutoff s = Some c" "0 \<le> c" "ts_cutoffUtc s = Some u" "is_text u"
    "\<forall>r. ts_readyNotBefore s = Some r \<longrightarrow> c \<le> r"
    unfolding raw_ok_def by blast
  have r: "normalizeOptionalEpochSeconds (opt_int (ts_readyNotBefore s)) = ts_readyNotBefore s"
    using c(2,5) by (cases "ts_readyNotBefore s") auto
  have t: "opt_text (ts_reason s)" "opt_text (ts_commandType s)" "opt_text (ts_instanceCommandId s)"
    "opt_text (ts_updatedAtUtc s)" "opt_text (ts_viewerAdmittedAt s)" "list_all token_text (ts_completed s)"
    "normalizeOptionalGuid (opt_str (ts_viewerRequest s)) = ts_viewerRequest s"
    "normalizeOptionalGuid (opt_str (ts_viewerActive s)) = ts_viewerActive s"
    using ok date_opt_text normalizeGuid_opt unfolding raw_ok_def by blast+
  have k: "completed_tokens (if ts_completed s = [] then JUndef else JArr (map JStr (ts_completed s))) = recent_distinct (ts_completed s)"
    using completed_tokens_text [OF t(6)] by (auto simp: recent_distinct_def take_last_def)
  show ?thesis
    unfolding normalizeRuntimeState_def Let_def fld_state_simps r t(7,8) k
    by (rule runtime_state.equality) (use c t(1-5) in simp_all)
qed

lemma raw_state_ok: "raw_ok g s \<Longrightarrow> state_ok g (normalizeRuntimeState g (state_value s))"
proof -
  assume ok: "raw_ok g s"
  then have "list_all token_text (recent_distinct (ts_completed s))"
    using recent_distinct_props(3) [of "ts_completed s"] by (auto simp: raw_ok_def list_all_iff)
  with ok show ?thesis
    unfolding normalize_raw [OF ok] state_ok_def
    by (simp add: recent_distinct_props) (simp add: raw_ok_def)
qed

lemma parse_state:
  assumes ok: "state_ok g s"
  shows "parsePersistedRuntimeState g (state_value s) = Some s"
proof -
  from ok have raw: "raw_ok g s" by (simp add: state_ok_def)
  from raw obtain c u where c: "ts_cutoff s = Some c" "0 \<le> c" "c \<le> max_safe" "ts_cutoffUtc s = Some u" "is_text u"
    "parseUtcToEpochSeconds g (Some u) = Some c"
    "\<forall>r. ts_readyNotBefore s = Some r \<longrightarrow> c \<le> r \<and> r \<le> max_safe \<and> ts_recoveryRequired s"
    unfolding raw_ok_def by blast
  have norm: "normalizeRuntimeState g (state_value s) = s"
    using normalize_raw [OF raw] ok by (simp add: state_ok_def recent_distinct_same)
  have texts: "text_field_ok (opt_str a)" if "opt_text a" for a
    using that by (cases a) (simp_all add: is_text_def)
  have ready: "ready_field_ok c (if ts_recoveryRequired s then JBool True else JUndef) (opt_int (ts_readyNotBefore s))"
    using c(2,7) by (cases "ts_readyNotBefore s") (auto simp: ready_field_ok_def opt_int_def)
  have date: "date_field_ok g (opt_str a)" if "\<forall>u. a = Some u \<longrightarrow> date_text g u" "a \<noteq> None" for a
    using that by (cases a) (simp_all add: date_text_def)
  have viewer: "viewer_fields_ok g (state_value s)"
    using raw date [of "ts_viewerAdmittedAt s"] unfolding raw_ok_def viewer_fields_ok_def fld_state_simps
    by (cases "ts_viewerRequest s"; cases "ts_viewerActive s") simp_all
  have upd: "ts_updatedAtUtc s = None \<or> date_field_ok g (opt_str (ts_updatedAtUtc s))"
    using raw date unfolding raw_ok_def by blast
  have tok: "tokens_field_ok (if ts_completed s = [] then JUndef else JArr (map JStr (ts_completed s)))"
    using raw by (auto simp: raw_ok_def tokens_field_ok_def list_all_iff token_text_def)
  have "opt_text (ts_reason s)" "opt_text (ts_commandType s)" "opt_text (ts_instanceCommandId s)"
    using raw unfolding raw_ok_def by blast+
  then have txts: "list_all (\<lambda>k. text_field_ok (fld (state_value s) k)) [''reason'', ''commandType'', ''instanceCommandId'']"
    by (simp add: texts)
  have utc: "utc_field_ok g c (opt_str (ts_cutoffUtc s))"
    using c by (simp add: utc_field_ok_def is_text_def)
  have cut: "safe_int (opt_int (ts_cutoff s)) = Some c"
    using c by (simp add: opt_int_def)
  show ?thesis
    unfolding parsePersistedRuntimeState_def fld_state_simps(1) cut option.case
    using c(2,4) utc txts upd ready viewer tok norm by simp
qed

lemma inspect_state: "state_ok g s \<Longrightarrow> inspectRuntimeState g (Json (state_value s)) = State_valid s"
  by (simp add: inspectRuntimeState_def parse_state)

end
