(* ===== verification/Connect_Ticket_Gate.thy ===== *)
theory Connect_Ticket_Gate
  imports Connect_Ticket_Lemmas
begin

text \<open>
  The connect-ticket gate over its whole life: sequences of its operations, with every outcome of the
  writes and with a state file that may be lost or damaged between them.
\<close>

section \<open>Operations as events\<close>

datatype gate_op =
    Op_reject file_state file_state ticket
  | Op_admit jsval jsval int replace_run
  | Op_reconcile "jsval option" int replace_run
  | Op_evidence
  | Op_teardown teardown_options int replace_run
  | Op_required
  | Op_prepare int replace_run
  | Op_complete jsval int replace_run
  | Op_block jsval
  | Op_lost
  | Op_damaged string

fun gate_do :: "gate_config \<Rightarrow> gate_op \<Rightarrow> gate \<Rightarrow> gate" where
  "gate_do g (Op_reject journal desired k) t = snd (rejectReasonForTicket g journal desired k t)"
| "gate_do g (Op_admit request active now run) t = snd (recordManagedViewerAdmission g request active now run t)"
| "gate_do g (Op_reconcile assignment now run) t = snd (reconcileAssignmentAfterHostBoot g assignment now run t)"
| "gate_do g Op_evidence t = snd (getDurableManagedViewerEvidenceStatus g t)"
| "gate_do g (Op_teardown opts now run) t = snd (markTeardownStarted g opts now run t)"
| "gate_do g Op_required t = snd (isCommercialRecoveryRequired g t)"
| "gate_do g (Op_prepare now run) t = snd (prepareCommercialRecoveryAfterReset g now run t)"
| "gate_do g (Op_complete token now run) t = snd (completeCommercialRecoveryAfterReset g token now run t)"
| "gate_do g (Op_block reason) t = setReconnectGraceEvidenceJournalBlock reason t"
| "gate_do g Op_lost t = t\<lparr>gt_file := Missing\<rparr>"
| "gate_do g (Op_damaged e) t = t\<lparr>gt_file := Broken e\<rparr>"

definition gate_run :: "gate_config \<Rightarrow> gate_op list \<Rightarrow> gate \<Rightarrow> gate" where
  "gate_run g ops t = fold (gate_do g) ops t"

text \<open>The clock of an operation is a time that a \<open>Date\<close> can hold with both skews added.\<close>

definition time_ok :: "gate_config \<Rightarrow> int \<Rightarrow> bool" where
  "time_ok g now \<longleftrightarrow> 0 \<le> now \<and> date_range (now + gc_skew g)"

fun op_ok :: "gate_config \<Rightarrow> gate_op \<Rightarrow> bool" where
  "op_ok g (Op_admit a b now run) = time_ok g now"
| "op_ok g (Op_reconcile a now run) = time_ok g now"
| "op_ok g (Op_teardown a now run) = time_ok g now"
| "op_ok g (Op_prepare now run) = time_ok g now"
| "op_ok g (Op_complete a now run) = time_ok g now"
| "op_ok g _ = True"

text \<open>What is assumed of the library: printed times parse, and parsed times are in range.\<close>

definition gate_env :: "gate_config \<Rightarrow> bool" where
  "gate_env g \<longleftrightarrow> gate_lib g \<and> 0 \<le> gc_skew g \<and> gc_skew g \<le> 1000000000
     \<and> (\<forall>s ms. gc_dp g s = Some ms \<longrightarrow> \<bar>ms\<bar> \<le> 8640000000000000)"

section \<open>States that the gate wrote\<close>

definition cutoff_of :: "runtime_state \<Rightarrow> int" where
  "cutoff_of s = (case ts_cutoff s of None \<Rightarrow> 0 | Some c \<Rightarrow> c)"

definition own_state :: "gate_config \<Rightarrow> runtime_state \<Rightarrow> bool" where
  "own_state g s \<longleftrightarrow> state_ok g s \<and> (\<forall>r. ts_readyNotBefore s = Some r \<longrightarrow> cutoff_of s + gc_skew g \<le> r)"

definition own :: "gate_config \<Rightarrow> gate \<Rightarrow> bool" where
  "own g t \<longleftrightarrow> gt_expected t \<and> (\<forall>v. gt_file t = Json v \<longrightarrow> (\<exists>s. own_state g s \<and> v = state_value s))"

abbreviation readable :: "gate_config \<Rightarrow> gate \<Rightarrow> runtime_state \<Rightarrow> bool" where
  "readable g t s \<equiv> inspectRuntimeState g (gt_file t) = State_valid s"

lemma own_readable:
  assumes "own g t" "readable g t s"
  shows "own_state g s" "gt_file t = Json (state_value s)"
proof -
  from assms(2) obtain v where v: "gt_file t = Json v"
    by (auto simp: inspectRuntimeState_def split: file_state.splits)
  with assms(1) obtain s' where s': "own_state g s'" "v = state_value s'" by (auto simp: own_def)
  with inspect_state [of g s'] assms(2) v have "s' = s" by (simp add: own_state_def)
  with v s' show "own_state g s" "gt_file t = Json (state_value s)" by auto
qed

lemma own_inspect:
  assumes "own g t"
  obtains "gt_file t = Missing" "inspectRuntimeState g (gt_file t) = State_missing"
  | e where "gt_file t = Broken e" "inspectRuntimeState g (gt_file t) = State_invalid"
  | s where "readable g t s" "own_state g s"
proof (cases "gt_file t")
  case (Json v)
  with assms obtain s where "own_state g s" "v = state_value s" by (auto simp: own_def)
  with Json inspect_state [of g s] that(3) show ?thesis by (simp add: own_state_def)
qed (use that(1,2) in \<open>auto simp: inspectRuntimeState_def\<close>)

lemma env_utc:
  assumes "gate_env g" "date_range e"
  shows "date_text g (toUtcIsoString g e)" "is_text (toUtcIsoString g e)"
    "parseUtcToEpochSeconds g (Some (toUtcIsoString g e)) = Some e"
  using assms by (auto simp: gate_env_def gate_lib_def date_text_def toUtcIsoString_def parseUtcToEpochSeconds_def is_text_def)

lemma env_parse_range:
  assumes "gate_env g" "parseUtcToEpochSeconds g v = Some e"
  shows "date_range e"
proof -
  from assms obtain s ms where ms: "gc_dp g s = Some ms" "e = ms div 1000"
    by (auto simp: parseUtcToEpochSeconds_def split: option.splits if_splits)
  from assms(1) ms(1) have "\<bar>ms\<bar> \<le> 8640000000000000" unfolding gate_env_def by blast
  then have "- 8640000000000000 \<le> ms \<and> ms \<le> 8640000000000000" by linarith
  then have "- 8640000000000000 div 1000 \<le> e \<and> e \<le> 8640000000000000 div 1000"
    unfolding ms(2) by (auto intro: zdiv_mono1)
  then have "- 8640000000000 \<le> e \<and> e \<le> 8640000000000" by simp
  then show ?thesis unfolding date_range_def by linarith
qed

lemma own_cut:
  assumes "gate_env g" "own_state g s"
  shows "ts_cutoff s = Some (cutoff_of s)" "0 \<le> cutoff_of s" "date_range (cutoff_of s)"
proof -
  from assms(2) obtain c u where c: "ts_cutoff s = Some c" "0 \<le> c" "parseUtcToEpochSeconds g (Some u) = Some c"
    unfolding own_state_def state_ok_def raw_ok_def by blast
  with env_parse_range [OF assms(1) c(3)] show "ts_cutoff s = Some (cutoff_of s)" "0 \<le> cutoff_of s" "date_range (cutoff_of s)"
    by (simp_all add: cutoff_of_def)
qed

section \<open>Every operation\<close>

text \<open>
  What an operation may do to the file: leave it, or replace a readable state by one that the gate
  wrote, whose cutoff is no earlier.
\<close>

definition moves :: "gate_config \<Rightarrow> gate \<Rightarrow> gate \<Rightarrow> bool" where
  "moves g t t' \<longleftrightarrow> gt_expected t' = gt_expected t
     \<and> (gt_file t' = gt_file t
        \<or> (\<exists>s s'. readable g t s \<and> own_state g s' \<and> gt_file t' = Json (state_value s') \<and> cutoff_of s \<le> cutoff_of s'))"

text \<open>A changed state is normalised, written and read back as it was changed, its tokens apart.\<close>

definition compacted :: "runtime_state \<Rightarrow> runtime_state" where
  "compacted s = s\<lparr>ts_completed := recent_distinct (ts_completed s)\<rparr>"

lemma compacted_simps [simp]:
  "ts_cutoff (compacted s) = ts_cutoff s" "ts_recoveryRequired (compacted s) = ts_recoveryRequired s"
  "ts_readyNotBefore (compacted s) = ts_readyNotBefore s" "ts_viewerRequest (compacted s) = ts_viewerRequest s"
  "ts_viewerActive (compacted s) = ts_viewerActive s" "ts_viewerAdmittedAt (compacted s) = ts_viewerAdmittedAt s"
  "ts_completed (compacted s) = recent_distinct (ts_completed s)" "cutoff_of (compacted s) = cutoff_of s"
  by (simp_all add: compacted_def cutoff_of_def)

lemma written:
  assumes "raw_ok g s" "writeRuntimeState run (normalizeRuntimeState g (state_value s)) f = (ok, f')"
  shows "f' = f \<and> \<not> ok \<or> f' = Json (state_value (compacted s))" "state_ok g (compacted s)"
proof -
  have n: "normalizeRuntimeState g (state_value s) = compacted s" by (simp add: normalize_raw [OF assms(1)] compacted_def)
  with raw_state_ok [OF assms(1)] show "state_ok g (compacted s)" by simp
  from assms(2) n show "f' = f \<and> \<not> ok \<or> f' = Json (state_value (compacted s))"
    by (auto simp: writeRuntimeState_def put_atomic_def split: replace_run.splits)
qed

lemma movesI:
  assumes "readable g t s" "raw_ok g s'"
    "writeRuntimeState run (normalizeRuntimeState g (state_value s')) (gt_file t) = (ok, f)"
    "gt_file t' = f" "gt_expected t' = gt_expected t" "cutoff_of s \<le> cutoff_of s'"
    "\<forall>r. ts_readyNotBefore s' = Some r \<longrightarrow> cutoff_of s' + gc_skew g \<le> r"
  shows "moves g t t'"
  using written [OF assms(2,3)] assms(1,4-7) unfolding moves_def own_state_def
  by (metis compacted_simps(3,8))

lemma raw_cutoff:
  assumes "gate_env g" "raw_ok g s" "date_range c" "cutoff_of s \<le> c" "0 \<le> c"
    "\<forall>r. ready = Some r \<longrightarrow> c \<le> r \<and> r \<le> max_safe \<and> recovery"
    "opt_text reason" "opt_text ctype" "opt_text cid" "date_text g upd"
  shows "raw_ok g (s\<lparr>ts_cutoff := Some c, ts_cutoffUtc := Some (toUtcIsoString g c), ts_reason := reason,
    ts_commandType := ctype, ts_instanceCommandId := cid, ts_recoveryRequired := recovery,
    ts_readyNotBefore := ready, ts_updatedAtUtc := Some upd\<rparr>)"
  using assms env_utc [OF assms(1,3)] date_range_safe [OF assms(3,5)] unfolding raw_ok_def by simp

lemma own_raw: "own_state g s \<Longrightarrow> raw_ok g s"
  by (simp add: own_state_def state_ok_def)

lemma raw_texts: "raw_ok g s \<Longrightarrow> opt_text (ts_reason s) \<and> opt_text (ts_commandType s) \<and> opt_text (ts_instanceCommandId s)"
  unfolding raw_ok_def by blast

lemma opt_text_or_else: "opt_text b \<Longrightarrow> opt_text (or_else (normalizeOptionalText v) b)"
  by (auto simp: or_else_def normalized_is_text split: option.split)

lemma time_range:
  assumes "gate_env g" "time_ok g now"
  shows "date_range now" "date_range (now + gc_skew g)" "0 \<le> now" "0 \<le> now + gc_skew g"
  using assms by (auto simp: gate_env_def time_ok_def date_range_def)

lemma max_range: "\<lbrakk>date_range a; date_range b\<rbrakk> \<Longrightarrow> date_range (max a b)"
  by (simp add: max_def)

text \<open>What \<open>markTeardownStarted\<close> writes.\<close>

definition teardown_cutoff :: "gate_config \<Rightarrow> teardown_options \<Rightarrow> int \<Rightarrow> int" where
  "teardown_cutoff g opts now =
     (case parseUtcToEpochSeconds g (normalizeOptionalText (opt_str (to_occurredAtUtc opts))) of Some c \<Rightarrow> c | None \<Rightarrow> now)"

definition torn_down :: "gate_config \<Rightarrow> teardown_options \<Rightarrow> int \<Rightarrow> runtime_state \<Rightarrow> runtime_state" where
  "torn_down g opts now s =
     (let next = max (cutoff_of s) (teardown_cutoff g opts now) in
      s\<lparr>ts_cutoff := Some next, ts_cutoffUtc := Some (toUtcIsoString g next),
        ts_reason := or_else (normalizeOptionalText (opt_str (to_reason opts))) (ts_reason s),
        ts_commandType := or_else (normalizeOptionalText (opt_str (to_commandType opts))) (ts_commandType s),
        ts_instanceCommandId := or_else (normalizeOptionalText (opt_str (to_instanceCommandId opts))) (ts_instanceCommandId s),
        ts_recoveryRequired := True, ts_readyNotBefore := None, ts_updatedAtUtc := Some (toUtcIsoString g now)\<rparr>)"

lemma torn_down_simps [simp]:
  "cutoff_of (torn_down g opts now s) = max (cutoff_of s) (teardown_cutoff g opts now)"
  "ts_recoveryRequired (torn_down g opts now s)" "ts_readyNotBefore (torn_down g opts now s) = None"
  "ts_viewerRequest (torn_down g opts now s) = ts_viewerRequest s"
  by (simp_all add: torn_down_def Let_def cutoff_of_def)

lemma teardown_eq:
  assumes "own g t"
  shows "markTeardownStarted g opts now run t =
    (case inspectRuntimeState g (gt_file t) of
       State_valid s \<Rightarrow>
         (case writeRuntimeState run (normalizeRuntimeState g (state_value (torn_down g opts now s))) (gt_file t) of
            (True, f) \<Rightarrow> (True, t\<lparr>gt_file := f, gt_expected := True, gt_failure := None\<rparr>)
          | (False, f) \<Rightarrow> (False, t\<lparr>gt_file := f, gt_failure := Some Cutoff_not_persisted\<rparr>))
     | _ \<Rightarrow> (False, t\<lparr>gt_failure := Some Cutoff_unreadable\<rparr>))"
  using assms
  by (auto simp: markTeardownStarted_def blind_def own_def inspected_def torn_down_def teardown_cutoff_def cutoff_of_def Let_def
      split: inspection.split bool.split prod.split)

lemma torn_down_raw:
  assumes env: "gate_env g" and own: "own_state g s" and now: "time_ok g now"
  shows "raw_ok g (torn_down g opts now s)"
proof -
  let ?next = "max (cutoff_of s) (teardown_cutoff g opts now)"
  have "date_range (teardown_cutoff g opts now)"
    using env_parse_range [OF env] time_range(1) [OF env now] by (auto simp: teardown_cutoff_def split: option.split)
  then have "date_range ?next" using own_cut(3) [OF env own] by (intro max_range)
  then show ?thesis
    unfolding torn_down_def Let_def using raw_texts [OF own_raw [OF own]] own_cut(2) [OF env own]
      env_utc(1) [OF env time_range(1) [OF env now]]
    by (intro raw_cutoff [OF env own_raw [OF own]]) (auto intro: opt_text_or_else)
qed

lemma moves_teardown:
  assumes "gate_env g" "own g t" "time_ok g now"
  shows "moves g t (snd (markTeardownStarted g opts now run t))"
proof (cases "inspectRuntimeState g (gt_file t)")
  case (State_valid s)
  note o = own_readable(1) [OF assms(2) State_valid]
  obtain ok f where w: "writeRuntimeState run (normalizeRuntimeState g (state_value (torn_down g opts now s))) (gt_file t) = (ok, f)"
    by fastforce
  show ?thesis
    using assms(2) unfolding teardown_eq [OF assms(2)] State_valid inspection.case w prod.case
    by (cases ok) (auto intro!: movesI [OF State_valid torn_down_raw [OF assms(1) o assms(3)] w] simp: own_def)
qed (simp_all add: teardown_eq [OF assms(2)] moves_def)

text \<open>What the other operations write.\<close>

definition viewer_admitted :: "gate_config \<Rightarrow> string \<Rightarrow> string option \<Rightarrow> int \<Rightarrow> runtime_state \<Rightarrow> runtime_state" where
  "viewer_admitted g request active now s = s\<lparr>ts_viewerRequest := Some request,
     ts_viewerActive := or_else (ts_viewerActive s) active,
     ts_viewerAdmittedAt := or_else (ts_viewerAdmittedAt s) (Some (toUtcIsoString g now)),
     ts_updatedAtUtc := Some (toUtcIsoString g now)\<rparr>"

lemma or_else_Some: "or_else a b = Some x \<longleftrightarrow> a = Some x \<or> (a = None \<and> b = Some x)"
  by (cases a) (auto simp: or_else_def)

lemma viewer_admitted_raw:
  assumes env: "gate_env g" and own: "own_state g s" and now: "time_ok g now"
    and guid: "guid_text request" "\<forall>a. active = Some a \<longrightarrow> guid_text a"
  shows "raw_ok g (viewer_admitted g request active now s)"
proof -
  have u: "date_text g (toUtcIsoString g now)" by (rule env_utc(1) [OF env time_range(1) [OF env now]])
  show ?thesis
    using own_raw [OF own] guid u unfolding raw_ok_def viewer_admitted_def by (auto simp: or_else_Some)
qed

lemma moves_keep: "\<lbrakk>gt_file t' = gt_file t; gt_expected t' = gt_expected t\<rbrakk> \<Longrightarrow> moves g t t'"
  by (simp add: moves_def)

lemma moves_admission:
  assumes env: "gate_env g" and own: "own g t" and now: "time_ok g now"
  shows "moves g t (snd (recordManagedViewerAdmission g req act now run t))"
proof (cases "normalizeOptionalGuid req")
  case (Some q)
  note guid = normalized_guid_text [OF Some]
  show ?thesis
  proof (cases "inspectRuntimeState g (gt_file t)")
    case (State_valid s)
    note o = own_readable(1) [OF own State_valid]
    obtain ok f where w: "writeRuntimeState run (normalizeRuntimeState g (state_value
        (viewer_admitted g q (normalizeOptionalGuid act) now s))) (gt_file t) = (ok, f)" by fastforce
    have raw: "raw_ok g (viewer_admitted g q (normalizeOptionalGuid act) now s)"
      by (rule viewer_admitted_raw [OF env o now guid]) (simp add: normalized_guid_text)
    have m: "moves g t t'" if "gt_file t' = f" "gt_expected t' = gt_expected t" for t'
      by (rule movesI [OF State_valid raw w that]) (use o in \<open>simp_all add: viewer_admitted_def own_state_def cutoff_of_def\<close>)
    show ?thesis
      unfolding recordManagedViewerAdmission_def Some State_valid option.case inspection.case admit_viewer_def Let_def
        w [unfolded viewer_admitted_def] prod.case
      by (auto intro: m moves_keep split: option.split)
  qed (auto intro: moves_keep simp: recordManagedViewerAdmission_def Some Let_def split: option.split)
qed (auto intro: moves_keep simp: recordManagedViewerAdmission_def split: option.split)

definition released :: "gate_config \<Rightarrow> int \<Rightarrow> runtime_state \<Rightarrow> runtime_state" where
  "released g now s =
     (let cutoff = max (cutoff_of s) (now + gc_skew g) in
      s\<lparr>ts_viewerRequest := None, ts_viewerActive := None, ts_viewerAdmittedAt := None,
        ts_cutoff := Some cutoff, ts_cutoffUtc := Some (toUtcIsoString g cutoff),
        ts_reason := Some ''prior_assignment_released_after_host_boot'',
        ts_updatedAtUtc := Some (toUtcIsoString g now)\<rparr>)"

lemma cutoff_range:
  assumes "gate_env g" "own_state g s" "time_ok g now"
  shows "date_range (max (cutoff_of s) (now + gc_skew g))" "0 \<le> max (cutoff_of s) (now + gc_skew g)"
  using own_cut [OF assms(1,2)] time_range [OF assms(1,3)] by (auto intro: max_range)

lemma released_raw:
  assumes env: "gate_env g" and own: "own_state g s" and now: "time_ok g now" and r: "ts_readyNotBefore s = None"
  shows "raw_ok g (released g now s)"
proof -
  note c = cutoff_range [OF env own now]
  have "is_text ''prior_assignment_released_after_host_boot''"
    by (simp add: is_text_def trim_no_ws is_ws_def)
  then show ?thesis
    using own_raw [OF own] r c(2) env_utc [OF env c(1)] date_range_safe [OF c] env_utc(1) [OF env time_range(1) [OF env now]]
    unfolding raw_ok_def released_def Let_def by simp
qed

lemma own_ready: "\<lbrakk>own_state g s; \<not> ts_recoveryRequired s\<rbrakk> \<Longrightarrow> ts_readyNotBefore s = None"
  by (cases "ts_readyNotBefore s") (auto simp: own_state_def state_ok_def raw_ok_def)

lemma moves_if: "\<lbrakk>b \<Longrightarrow> moves g t (snd x); \<not> b \<Longrightarrow> moves g t (snd y)\<rbrakk> \<Longrightarrow> moves g t (snd (if b then x else y))"
  by simp

lemma moves_option:
  "\<lbrakk>z = None \<Longrightarrow> moves g t (snd x); \<And>a. z = Some a \<Longrightarrow> moves g t (snd (h a))\<rbrakk> \<Longrightarrow>
   moves g t (snd (case z of None \<Rightarrow> x | Some a \<Rightarrow> h a))"
  by (cases z) simp_all

lemma moves_reconcile:
  assumes env: "gate_env g" and own: "own g t" and now: "time_ok g now"
  shows "moves g t (snd (reconcileAssignmentAfterHostBoot g assignment now run t))"
proof (cases "inspectRuntimeState g (gt_file t)")
  case (State_valid s)
  note o = own_readable(1) [OF own State_valid]
  obtain ok f where w: "writeRuntimeState run (normalizeRuntimeState g (state_value (released g now s))) (gt_file t) = (ok, f)"
    by fastforce
  have m: "moves g t t'" if "\<not> ts_recoveryRequired s" "gt_file t' = f" "gt_expected t' = gt_expected t" for t'
    by (rule movesI [OF State_valid released_raw [OF env o now own_ready [OF o that(1)]] w that(2,3)])
      (use own_ready [OF o that(1)] in \<open>simp_all add: released_def Let_def, simp add: cutoff_of_def\<close>)
  show ?thesis
  proof (cases "gt_admitted t \<or> gt_session t = None")
    case True
    then show ?thesis
      by (cases "gt_admitted t"; cases "gt_session t") (auto intro: moves_keep simp: reconcileAssignmentAfterHostBoot_def)
  next
    case False
    then obtain managed where s: "gt_session t = Some managed" "gt_admitted t = False" by auto
    show ?thesis
      unfolding reconcileAssignmentAfterHostBoot_def s prod.case bool.case option.case State_valid inspection.case
        Let_def cutoff_of_def [symmetric] w [unfolded released_def Let_def]
      by (intro moves_if moves_option) (auto intro: m moves_keep)
  qed
next
  case State_missing
  then show ?thesis
    by (cases "gt_admitted t"; cases "gt_session t")
      (auto intro: moves_keep simp: reconcileAssignmentAfterHostBoot_def Let_def)
next
  case State_invalid
  then show ?thesis
    by (cases "gt_admitted t"; cases "gt_session t")
      (auto intro: moves_keep simp: reconcileAssignmentAfterHostBoot_def Let_def)
qed

definition prepared :: "gate_config \<Rightarrow> int \<Rightarrow> runtime_state \<Rightarrow> runtime_state" where
  "prepared g now s =
     (let cutoff = max (cutoff_of s) (now + gc_skew g) in
      s\<lparr>ts_cutoff := Some cutoff, ts_cutoffUtc := Some (toUtcIsoString g cutoff), ts_recoveryRequired := True,
        ts_readyNotBefore := Some (cutoff + gc_skew g), ts_reason := Some ''commercial_recovery_ready_margin'',
        ts_updatedAtUtc := Some (toUtcIsoString g now)\<rparr>)"

lemma prepared_raw:
  assumes env: "gate_env g" and own: "own_state g s" and now: "time_ok g now"
  shows "raw_ok g (prepared g now s)"
proof -
  note c = cutoff_range [OF env own now]
  have t: "is_text ''commercial_recovery_ready_margin''" by (simp add: is_text_def trim_no_ws is_ws_def)
  have k: "gc_skew g \<le> 1000000000" "0 \<le> gc_skew g" using env by (simp_all add: gate_env_def)
  have "max (cutoff_of s) (now + gc_skew g) \<le> 8640000000000" using c by (simp add: date_range_def)
  with k have r: "max (cutoff_of s) (now + gc_skew g) + gc_skew g \<le> max_safe" unfolding max_safe_def by linarith
  show ?thesis
    using own_raw [OF own] t r k c(2) env_utc [OF env c(1)] date_range_safe [OF c] env_utc(1) [OF env time_range(1) [OF env now]]
    unfolding raw_ok_def prepared_def Let_def by simp
qed

lemma moves_prepare:
  assumes env: "gate_env g" and own: "own g t" and now: "time_ok g now"
  shows "moves g t (snd (prepareCommercialRecoveryAfterReset g now run t))"
proof (cases "inspectRuntimeState g (gt_file t)")
  case (State_valid s)
  note o = own_readable(1) [OF own State_valid]
  obtain ok f where w: "writeRuntimeState run (normalizeRuntimeState g (state_value (prepared g now s))) (gt_file t) = (ok, f)"
    by fastforce
  have m: "moves g t t'" if "gt_file t' = f" "gt_expected t' = gt_expected t" for t'
    by (rule movesI [OF State_valid prepared_raw [OF env o now] w that]) (simp_all add: prepared_def Let_def cutoff_of_def)
  show ?thesis
    using own unfolding prepareCommercialRecoveryAfterReset_def State_valid inspection.case Let_def cutoff_of_def [symmetric]
      w [unfolded prepared_def Let_def] prod.case
    by (auto intro: m moves_keep simp: own_def split: option.split)
qed (auto intro: moves_keep simp: prepareCommercialRecoveryAfterReset_def)

definition recovered :: "gate_config \<Rightarrow> string option \<Rightarrow> int \<Rightarrow> runtime_state \<Rightarrow> runtime_state" where
  "recovered g token now s = s\<lparr>ts_recoveryRequired := False, ts_readyNotBefore := None, ts_viewerRequest := None,
     ts_viewerActive := None, ts_viewerAdmittedAt := None,
     ts_completed := (case token of Some k \<Rightarrow> ts_completed s @ [k] | None \<Rightarrow> ts_completed s),
     ts_updatedAtUtc := Some (toUtcIsoString g now)\<rparr>"

lemma recovered_raw:
  assumes env: "gate_env g" and own: "own_state g s" and now: "time_ok g now" and k: "\<forall>k. token = Some k \<longrightarrow> token_text k"
  shows "raw_ok g (recovered g token now s)"
  using own_raw [OF own] k env_utc(1) [OF env time_range(1) [OF env now]]
  unfolding raw_ok_def recovered_def by (auto split: option.split)

lemma moves_complete:
  assumes env: "gate_env g" and own: "own g t" and now: "time_ok g now"
  shows "moves g t (snd (completeCommercialRecoveryAfterReset g token now run t))"
proof (cases "inspectRuntimeState g (gt_file t)")
  case (State_valid s)
  note o = own_readable(1) [OF own State_valid]
  obtain ok f where w: "writeRuntimeState run (normalizeRuntimeState g (state_value
      (recovered g (normalizeRecycleToken token) now s))) (gt_file t) = (ok, f)" by fastforce
  have raw: "raw_ok g (recovered g (normalizeRecycleToken token) now s)"
    by (rule recovered_raw [OF env o now]) (simp add: normalized_token_text)
  have m: "moves g t t'" if "gt_file t' = f" "gt_expected t' = gt_expected t" for t'
    by (rule movesI [OF State_valid raw w that]) (simp_all add: recovered_def cutoff_of_def)
  show ?thesis
    unfolding completeCommercialRecoveryAfterReset_def State_valid inspection.case Let_def
      w [unfolded recovered_def] prod.case
    by (auto intro: m moves_keep split: option.split)
qed (auto intro: moves_keep simp: completeCommercialRecoveryAfterReset_def)

fun loses :: "gate_op \<Rightarrow> bool" where
  "loses Op_lost = True"
| "loses (Op_damaged e) = True"
| "loses _ = False"

lemma moves_do:
  assumes "gate_env g" "own g t" "op_ok g x" "\<not> loses x"
  shows "moves g t (gate_do g x t)"
proof (cases x)
  case (Op_reject journal desired k)
  show ?thesis unfolding Op_reject gate_do.simps
    by (rule moves_keep) (auto simp: rejectReasonForTicket_def Let_def split: option.split)
next
  case Op_evidence
  show ?thesis unfolding Op_evidence gate_do.simps
    by (rule moves_keep) (auto simp: getDurableManagedViewerEvidenceStatus_def split: inspection.split)
next
  case Op_required
  show ?thesis unfolding Op_required gate_do.simps
    by (rule moves_keep) (auto simp: isCommercialRecoveryRequired_def Let_def)
next
  case (Op_block r)
  show ?thesis unfolding Op_block gate_do.simps
    by (rule moves_keep) (auto simp: setReconnectGraceEvidenceJournalBlock_def)
qed (use assms moves_admission moves_reconcile moves_teardown moves_prepare moves_complete in simp_all)

lemma loses_do: "loses x \<Longrightarrow> gt_expected (gate_do g x t) = gt_expected t \<and> (\<forall>v. gt_file (gate_do g x t) \<noteq> Json v)"
  by (cases x) simp_all

lemma not_json_readable: "\<forall>v. gt_file t \<noteq> Json v \<Longrightarrow> \<not> readable g t s"
  by (auto simp: inspectRuntimeState_def split: file_state.splits)

lemma moves_own: "\<lbrakk>moves g t t'; own g t\<rbrakk> \<Longrightarrow> own g t'"
  by (auto simp: moves_def own_def)

lemma own_do:
  assumes "gate_env g" "own g t" "op_ok g x"
  shows "own g (gate_do g x t)"
proof (cases "loses x")
  case True
  from loses_do [OF True, of g t] assms(2) show ?thesis unfolding own_def by blast
qed (rule moves_own [OF moves_do [OF assms] assms(2)])

lemma moves_readable:
  assumes "moves g t t'" "readable g t' s"
  obtains "gt_file t' = gt_file t" "readable g t s"
  | s1 where "readable g t s1" "cutoff_of s1 \<le> cutoff_of s"
proof (cases "gt_file t' = gt_file t")
  case False
  with assms(1) obtain s1 s2 where "readable g t s1" "own_state g s2" "gt_file t' = Json (state_value s2)" "cutoff_of s1 \<le> cutoff_of s2"
    unfolding moves_def by blast
  with assms(2) inspect_state [of g s2] that(2) show ?thesis by (simp add: own_state_def)
qed (use assms that(1) in simp)

lemma floor_do:
  assumes "gate_env g" "own g t" "op_ok g x" "\<forall>s. readable g t s \<longrightarrow> L \<le> cutoff_of s"
  shows "\<forall>s. readable g (gate_do g x t) s \<longrightarrow> L \<le> cutoff_of s"
proof (cases "loses x")
  case True
  from not_json_readable [of "gate_do g x t"] loses_do [OF True, of g t] show ?thesis by blast
next
  case False
  show ?thesis
  proof (intro allI impI)
    fix s assume "readable g (gate_do g x t) s"
    with moves_do [OF assms(1-3) False] assms(4) show "L \<le> cutoff_of s"
      by (elim moves_readable) (auto intro: order_trans)
  qed
qed

lemma gate_run_simps [simp]: "gate_run g [] t = t" "gate_run g (x # ops) t = gate_run g ops (gate_do g x t)"
  by (simp_all add: gate_run_def)

lemma own_run: "\<lbrakk>gate_env g; own g t; \<forall>x \<in> set ops. op_ok g x\<rbrakk> \<Longrightarrow> own g (gate_run g ops t)"
  by (induction ops arbitrary: t) (simp_all add: own_do)

lemma floor_run:
  "\<lbrakk>gate_env g; own g t; \<forall>x \<in> set ops. op_ok g x; \<forall>s. readable g t s \<longrightarrow> L \<le> cutoff_of s\<rbrakk> \<Longrightarrow>
   readable g (gate_run g ops t) s \<Longrightarrow> L \<le> cutoff_of s"
proof (induction ops arbitrary: t)
  case (Cons x ops)
  then have "op_ok g x" by simp
  from Cons.IH [OF Cons.prems(1) own_do [OF Cons.prems(1,2) this] _ floor_do [OF Cons.prems(1,2) this Cons.prems(4)]]
    Cons.prems(3,5) show ?case by simp
qed simp

section \<open>Accepting a ticket\<close>

definition same_session :: "ticket \<Rightarrow> gate \<Rightarrow> bool" where
  "same_session k t \<longleftrightarrow> (case (normalizeOptionalText (opt_str (tk_sessionRequestId k)), gt_session t) of
     (Some a, Some b) \<Rightarrow> to_lower a = to_lower b | _ \<Rightarrow> True)"

lemma accept_iff:
  assumes "gate_env g" "own g t"
  shows "fst (rejectReasonForTicket g journal desired k t) = None \<longleftrightarrow>
    command_block g journal (gt_file t) = None \<and> desired_block g desired (gt_file t) = None
    \<and> gt_failure t = None \<and> same_session k t
    \<and> (\<exists>s iat. readable g t s \<and> \<not> ts_recoveryRequired s \<and> tk_issuedAt k = Some iat \<and> cutoff_of s < iat)"
proof (cases "command_block g journal (gt_file t) = None \<and> desired_block g desired (gt_file t) = None \<and> gt_failure t = None")
  case True
  then have n: "command_block g journal (gt_file t) = None" "desired_block g desired (gt_file t) = None" "gt_failure t = None"
    by auto
  have e: "gt_expected t" using assms(2) by (simp add: own_def)
  show ?thesis
  proof (cases "inspectRuntimeState g (gt_file t)")
    case (State_valid s)
    note c = own_cut(1) [OF assms(1) own_readable(1) [OF assms(2) State_valid]]
    show ?thesis
      unfolding rejectReasonForTicket_def n option.case Let_def State_valid
      by (auto simp: blind_def inspected_def c same_session_def split: option.split)
  qed (simp_all add: rejectReasonForTicket_def n Let_def blind_def e)
next
  case False
  then show ?thesis by (auto simp: rejectReasonForTicket_def split: option.split)
qed

end
