(* ===== verification/Connect_Ticket_Properties.thy ===== *)
theory Connect_Ticket_Properties
  imports Connect_Ticket_Gate
begin

text \<open>What the connect-ticket gate promises, over every sequence of its operations.\<close>

section \<open>A teardown in force\<close>

text \<open>Tickets are blocked by the failure latch or by the recovery that the state still requires.\<close>

definition latched :: "gate_config \<Rightarrow> gate \<Rightarrow> bool" where
  "latched g t \<longleftrightarrow> gt_failure t \<noteq> None \<or> (\<forall>s. readable g t s \<longrightarrow> ts_recoveryRequired s)"

lemma latched_keep: "\<lbrakk>gt_file t' = gt_file t; gt_failure t' = gt_failure t \<or> gt_failure t' \<noteq> None\<rbrakk> \<Longrightarrow> latched g t \<Longrightarrow> latched g t'"
  by (auto simp: latched_def)

lemma latched_failure: "gt_failure t' = Some r \<Longrightarrow> latched g t'"
  by (simp add: latched_def)

lemma readable_file: "\<lbrakk>gt_file t' = Json (state_value s); state_ok g s\<rbrakk> \<Longrightarrow> readable g t' s' \<longleftrightarrow> s' = s"
  using inspect_state [of g s] by auto

lemma latched_written:
  assumes "raw_ok g s" "writeRuntimeState run (normalizeRuntimeState g (state_value s)) (gt_file t) = (ok, f)"
    "gt_file t' = f" "ts_recoveryRequired s" "latched g t" "gt_failure t = None"
  shows "latched g t'"
proof -
  note w = written [OF assms(1,2)]
  from w(1) show ?thesis
  proof (elim disjE conjE)
    assume "f = gt_file t"
    with assms(3,5,6) show ?thesis by (auto simp: latched_def)
  next
    assume "f = Json (state_value (compacted s))"
    with assms(3,4) readable_file [OF _ w(2), of t'] show ?thesis by (auto simp: latched_def)
  qed
qed

lemma latched_teardown:
  assumes env: "gate_env g" and own: "own g t" and now: "time_ok g now"
  shows "latched g (snd (markTeardownStarted g opts now run t))"
proof (cases "inspectRuntimeState g (gt_file t)")
  case (State_valid s)
  note o = own_readable(1) [OF own State_valid]
  obtain ok f where w: "writeRuntimeState run (normalizeRuntimeState g (state_value (torn_down g opts now s))) (gt_file t) = (ok, f)"
    by fastforce
  note wr = written [OF torn_down_raw [OF env o now] w]
  show ?thesis
  proof (cases ok)
    case True
    with wr(1) have f: "f = Json (state_value (compacted (torn_down g opts now s)))" by simp
    have "snd (markTeardownStarted g opts now run t) = t\<lparr>gt_file := f, gt_expected := True, gt_failure := None\<rparr>"
      by (simp add: teardown_eq [OF own] State_valid w True)
    with f inspect_state [OF wr(2)] show ?thesis by (simp add: latched_def)
  qed (simp add: teardown_eq [OF own] State_valid w latched_def)
qed (simp_all add: teardown_eq [OF own] latched_def)

lemma latched_complete:
  assumes "latched g t" "\<not> fst (completeCommercialRecoveryAfterReset g token now run t)"
  shows "latched g (snd (completeCommercialRecoveryAfterReset g token now run t))"
  using assms
  by (auto simp: completeCommercialRecoveryAfterReset_def Let_def latched_def split: inspection.splits option.splits prod.splits if_splits)

lemma latched_prepare:
  assumes env: "gate_env g" and own: "own g t" and now: "time_ok g now" and l: "latched g t"
  shows "latched g (snd (prepareCommercialRecoveryAfterReset g now run t))"
proof (cases "inspectRuntimeState g (gt_file t)")
  case (State_valid s)
  note o = own_readable(1) [OF own State_valid]
  obtain ok f where w: "writeRuntimeState run (normalizeRuntimeState g (state_value (prepared g now s))) (gt_file t) = (ok, f)"
    by fastforce
  note wr = written [OF prepared_raw [OF env o now] w]
  have ok: "latched g t'" if "ok" "gt_file t' = f" for t'
  proof -
    from wr(1) that have "gt_file t' = Json (state_value (compacted (prepared g now s)))" by simp
    from readable_file [OF this wr(2)] show ?thesis by (simp add: latched_def prepared_def Let_def)
  qed
  have same: "latched g (t\<lparr>gt_failure := None\<rparr>)" if "ts_recoveryRequired s"
    using that State_valid by (simp add: latched_def)
  show ?thesis
    unfolding prepareCommercialRecoveryAfterReset_def State_valid inspection.case Let_def cutoff_of_def [symmetric]
      w [unfolded prepared_def Let_def] prod.case
    using ok same by (auto simp: latched_failure split: option.split)
qed (simp_all add: prepareCommercialRecoveryAfterReset_def latched_def)

lemma latched_admission:
  assumes env: "gate_env g" and own: "own g t" and now: "time_ok g now" and l: "latched g t"
  shows "latched g (snd (recordManagedViewerAdmission g req act now run t))"
proof (cases "gt_failure t")
  case None
  show ?thesis
  proof (cases "normalizeOptionalGuid req")
    case (Some q)
    note guid = normalized_guid_text [OF Some]
    show ?thesis
    proof (cases "inspectRuntimeState g (gt_file t)")
      case (State_valid s)
      note o = own_readable(1) [OF own State_valid]
      obtain ok f where w: "writeRuntimeState run (normalizeRuntimeState g (state_value
          (viewer_admitted g q (normalizeOptionalGuid act) now s))) (gt_file t) = (ok, f)" by fastforce
      have raw: "raw_ok g (viewer_admitted g q (normalizeOptionalGuid act) now s)"
        by (rule viewer_admitted_raw [OF env o now guid]) (simp add: normalized_guid_text)
      have rec: "ts_recoveryRequired s" using l None State_valid by (simp add: latched_def)
      have wr: "latched g t'" if "gt_file t' = f" for t'
        by (rule latched_written [OF raw w that _ l None]) (simp add: viewer_admitted_def rec)
      have keep: "latched g (t\<lparr>gt_admitted := True\<rparr>)" using l by (simp add: latched_def)
      show ?thesis
        unfolding recordManagedViewerAdmission_def None Some State_valid option.case inspection.case admit_viewer_def
          Let_def w [unfolded viewer_admitted_def] prod.case
        using wr keep l by (auto simp: latched_failure)
    qed (use l in \<open>simp_all add: recordManagedViewerAdmission_def None Some Let_def latched_failure\<close>)
  qed (use l in \<open>simp add: recordManagedViewerAdmission_def None\<close>)
qed (use l in \<open>simp add: recordManagedViewerAdmission_def\<close>)

lemma latched_reconcile:
  assumes l: "latched g t"
  shows "latched g (snd (reconcileAssignmentAfterHostBoot g assignment now run t))"
proof (cases "gt_failure t")
  case None
  with l have rec: "readable g t s \<Longrightarrow> ts_recoveryRequired s" for s by (simp add: latched_def)
  have "snd (reconcileAssignmentAfterHostBoot g assignment now run t) = t"
    using rec
    by (cases "gt_admitted t"; cases "gt_session t"; cases "inspectRuntimeState g (gt_file t)")
      (auto simp: reconcileAssignmentAfterHostBoot_def Let_def split: option.split)
  with l show ?thesis by simp
next
  case (Some r)
  have "gt_failure (snd (reconcileAssignmentAfterHostBoot g assignment now run t)) = gt_failure t"
    by (cases "gt_admitted t"; cases "gt_session t"; cases "inspectRuntimeState g (gt_file t)")
      (auto simp: reconcileAssignmentAfterHostBoot_def Let_def split: option.split prod.split)
  with Some show ?thesis by (simp add: latched_failure)
qed

lemma latched_do:
  assumes "gate_env g" "own g t" "op_ok g x" "latched g t"
    and c: "\<And>token now run. x = Op_complete token now run \<Longrightarrow> \<not> fst (completeCommercialRecoveryAfterReset g token now run t)"
  shows "latched g (gate_do g x t)"
proof (cases x)
  case (Op_reject journal desired k)
  show ?thesis unfolding Op_reject gate_do.simps
    by (rule latched_keep [OF _ _ assms(4)]) (auto simp: rejectReasonForTicket_def Let_def split: option.split)
next
  case Op_evidence
  show ?thesis unfolding Op_evidence gate_do.simps
    by (rule latched_keep [OF _ _ assms(4)]) (auto simp: getDurableManagedViewerEvidenceStatus_def split: inspection.split)
next
  case Op_required
  show ?thesis unfolding Op_required gate_do.simps
    by (rule latched_keep [OF _ _ assms(4)]) (auto simp: isCommercialRecoveryRequired_def Let_def)
next
  case (Op_block r)
  show ?thesis unfolding Op_block gate_do.simps
    by (rule latched_keep [OF _ _ assms(4)]) (auto simp: setReconnectGraceEvidenceJournalBlock_def)
next
  case (Op_complete token now run)
  with latched_complete [OF assms(4)] c show ?thesis by simp
qed (use assms latched_teardown latched_prepare latched_admission latched_reconcile in
    \<open>simp_all add: latched_def inspectRuntimeState_def\<close>)

text \<open>Without a completed recovery a gate that is latched stays latched.\<close>

lemma latched_run:
  assumes "gate_env g" "own g t" "\<forall>x \<in> set ops. op_ok g x" "latched g t" "\<not> latched g (gate_run g ops t)"
  shows "\<exists>i < length ops. \<exists>token now run. ops ! i = Op_complete token now run
    \<and> fst (completeCommercialRecoveryAfterReset g token now run (gate_run g (take i ops) t))"
  using assms(2-5)
proof (induction ops arbitrary: t)
  case (Cons x ops)
  show ?case
  proof (cases "\<exists>token now run. x = Op_complete token now run \<and> fst (completeCommercialRecoveryAfterReset g token now run t)")
    case True
    then show ?thesis by (intro exI [of _ 0]) auto
  next
    case False
    then have "latched g (gate_do g x t)" using Cons.prems by (intro latched_do [OF assms(1)]) auto
    from Cons.IH [OF own_do [OF assms(1) Cons.prems(1)] _ this] Cons.prems(2,4)
    obtain i token now run where "i < length ops" "ops ! i = Op_complete token now run"
      "fst (completeCommercialRecoveryAfterReset g token now run (gate_run g (take i ops) (gate_do g x t)))"
      by auto
    then show ?thesis by (intro exI [of _ "Suc i"]) auto
  qed
qed simp

lemma teardown_fence:
  assumes "gate_env g" "own g t" "time_ok g now" "markTeardownStarted g opts now run t = (True, t')"
    "\<forall>x \<in> set ops. op_ok g x"
    "fst (rejectReasonForTicket g journal desired k (gate_run g ops t')) = None"
  shows "(\<exists>iat. tk_issuedAt k = Some iat \<and> teardown_cutoff g opts now < iat)
    \<and> (\<exists>i < length ops. \<exists>token n r. ops ! i = Op_complete token n r
         \<and> fst (completeCommercialRecoveryAfterReset g token n r (gate_run g (take i ops) t')))"
proof -
  from assms(4) have t': "t' = snd (markTeardownStarted g opts now run t)" by simp
  have own': "own g t'" using moves_own [OF moves_teardown [OF assms(1-3)] assms(2)] t' by simp
  have lat: "latched g t'" unfolding t' by (rule latched_teardown [OF assms(1-3)])
  obtain s where s: "readable g t s"
    using assms(4) teardown_eq [OF assms(2), of opts now run] by (cases "inspectRuntimeState g (gt_file t)") auto
  obtain ok f where w: "writeRuntimeState run (normalizeRuntimeState g (state_value (torn_down g opts now s))) (gt_file t) = (ok, f)"
    by fastforce
  note wr = written [OF torn_down_raw [OF assms(1) own_readable(1) [OF assms(2) s] assms(3)] w]
  from assms(4) have ok: "ok \<and> gt_file t' = f"
    by (cases ok) (auto simp: teardown_eq [OF assms(2)] s w)
  with wr(1) have "gt_file t' = Json (state_value (compacted (torn_down g opts now s)))" by simp
  from readable_file [OF this wr(2)] have floor: "\<forall>s. readable g t' s \<longrightarrow> teardown_cutoff g opts now \<le> cutoff_of s" by simp
  let ?t = "gate_run g ops t'"
  from accept_iff [OF assms(1) own_run [OF assms(1) own' assms(5)], of journal desired k] assms(6)
  obtain s2 iat where a: "gt_failure ?t = None" "readable g ?t s2" "\<not> ts_recoveryRequired s2" "tk_issuedAt k = Some iat" "cutoff_of s2 < iat"
    by blast
  then have "\<not> latched g ?t" by (auto simp: latched_def)
  from latched_run [OF assms(1) own' assms(5) lat this] floor_run [OF assms(1) own' assms(5) floor a(2)] a(4,5)
  show ?thesis by fastforce
qed

text \<open>
  C1: Once a teardown has been recorded, no ticket is accepted until a recovery has been completed, and
  none that was issued at or before the teardown is ever accepted again: in every later state of the
  gate, whatever operations ran, failed writes and a lost or damaged state file included.
\<close>

theorem teardown_fences_tickets:
  assumes "gate_env g" "own g t" "time_ok g now" "markTeardownStarted g opts now run t = (True, t')"
    "\<forall>x \<in> set ops. op_ok g x"
    "fst (rejectReasonForTicket g journal desired k (gate_run g ops t')) = None"
  shows "(\<exists>iat. tk_issuedAt k = Some iat \<and> teardown_cutoff g opts now < iat)
    \<and> (\<exists>i < length ops. \<exists>token n r. ops ! i = Op_complete token n r
         \<and> fst (completeCommercialRecoveryAfterReset g token n r (gate_run g (take i ops) t')))"
  by (rule teardown_fence [OF assms])

section \<open>Steps that succeed\<close>

abbreviation durable :: replace_run where
  "durable \<equiv> Renamed Synced"

lemma durable_write:
  "raw_ok g s \<Longrightarrow> writeRuntimeState durable (normalizeRuntimeState g (state_value s)) f = (True, Json (state_value (compacted s)))"
  by (simp add: writeRuntimeState_def put_atomic_def fsyncContainingDirectory_def normalize_raw compacted_def)

lemma durable_teardown:
  assumes "gate_env g" "own g t" "time_ok g now" "readable g t s"
  shows "markTeardownStarted g opts now durable t
    = (True, t\<lparr>gt_file := Json (state_value (compacted (torn_down g opts now s))), gt_expected := True, gt_failure := None\<rparr>)"
  by (simp add: teardown_eq [OF assms(2)] assms(4)
      durable_write [OF torn_down_raw [OF assms(1) own_readable(1) [OF assms(2,4)] assms(3)]])

lemma durable_prepare:
  assumes "gate_env g" "own g t" "time_ok g now" "readable g t s" "ts_recoveryRequired s" "ts_readyNotBefore s = None"
  shows "prepareCommercialRecoveryAfterReset g now durable t
    = (Some (max (cutoff_of s) (now + gc_skew g) + gc_skew g),
       t\<lparr>gt_file := Json (state_value (compacted (prepared g now s))), gt_expected := True, gt_failure := None\<rparr>)"
  using durable_write [OF prepared_raw [OF assms(1) own_readable(1) [OF assms(2,4)] assms(3)]]
  by (simp add: prepareCommercialRecoveryAfterReset_def assms(4-6) Let_def cutoff_of_def [symmetric] prepared_def)

lemma durable_complete:
  assumes "gate_env g" "own g t" "time_ok g now" "readable g t s" "ts_recoveryRequired s" "ts_readyNotBefore s = Some r" "r < now"
  shows "completeCommercialRecoveryAfterReset g token now durable t
    = (True, t\<lparr>gt_file := Json (state_value (compacted (recovered g (normalizeRecycleToken token) now s))),
         gt_session := None, gt_failure := None\<rparr>)"
proof -
  have "raw_ok g (recovered g (normalizeRecycleToken token) now s)"
    by (rule recovered_raw [OF assms(1) own_readable(1) [OF assms(2,4)] assms(3)]) (simp add: normalized_token_text)
  from durable_write [OF this] show ?thesis
    using assms(7) by (simp add: completeCommercialRecoveryAfterReset_def assms(4-6) recovered_def)
qed

lemma recovery_cycle:
  assumes env: "gate_env g" and own: "own g t" and s: "readable g t s"
    and times: "time_ok g now" "time_ok g now'" "time_ok g now''"
    and t1: "t1 = snd (markTeardownStarted g opts now durable t)"
    and t2: "t2 = snd (prepareCommercialRecoveryAfterReset g now' durable t1)"
    and t3: "t3 = snd (completeCommercialRecoveryAfterReset g token now'' durable t2)"
    and r: "r = max (max (cutoff_of s) (teardown_cutoff g opts now)) (now' + gc_skew g)" "r + gc_skew g < now''"
  shows "fst (markTeardownStarted g opts now durable t)
    \<and> fst (prepareCommercialRecoveryAfterReset g now' durable t1) = Some (r + gc_skew g)
    \<and> fst (completeCommercialRecoveryAfterReset g token now'' durable t2)
    \<and> (command_block g journal (gt_file t3) = None \<and> desired_block g desired (gt_file t3) = None
         \<and> tk_issuedAt k = Some iat \<and> r < iat \<longrightarrow> fst (rejectReasonForTicket g journal desired k t3) = None)"
proof -
  note d1 = durable_teardown [OF env own times(1) s, of opts]
  let ?s1 = "compacted (torn_down g opts now s)"
  have own1: "own g t1" unfolding t1 using moves_own [OF moves_teardown [OF env own times(1)] own] .
  have ok1: "state_ok g ?s1"
    using written(2) [OF torn_down_raw [OF env own_readable(1) [OF own s] times(1)]] durable_write
      torn_down_raw [OF env own_readable(1) [OF own s] times(1)] by blast
  have r1: "readable g t1 ?s1" using inspect_state [OF ok1] by (simp add: t1 d1)
  note d2 = durable_prepare [OF env own1 times(2) r1, simplified]
  let ?s2 = "compacted (prepared g now' ?s1)"
  have own2: "own g t2" unfolding t2 using moves_own [OF moves_prepare [OF env own1 times(2)] own1] .
  have raw2: "raw_ok g (prepared g now' ?s1)" by (rule prepared_raw [OF env own_readable(1) [OF own1 r1] times(2)])
  have ok2: "state_ok g ?s2" using written(2) [OF raw2 durable_write [OF raw2]] .
  have r2: "readable g t2 ?s2" using inspect_state [OF ok2] by (simp add: t2 d2)
  have p2: "ts_recoveryRequired ?s2" "ts_readyNotBefore ?s2 = Some (r + gc_skew g)" "cutoff_of ?s2 = r"
    by (simp_all add: prepared_def Let_def r(1)) (simp add: cutoff_of_def)
  note d3 = durable_complete [OF env own2 times(3) r2 p2(1,2) r(2), of token]
  let ?s3 = "compacted (recovered g (normalizeRecycleToken token) now'' ?s2)"
  have own3: "own g t3" unfolding t3 using moves_own [OF moves_complete [OF env own2 times(3)] own2] .
  have raw3: "raw_ok g (recovered g (normalizeRecycleToken token) now'' ?s2)"
    by (rule recovered_raw [OF env own_readable(1) [OF own2 r2] times(3)]) (simp add: normalized_token_text)
  have ok3: "state_ok g ?s3" using written(2) [OF raw3 durable_write [OF raw3]] .
  have r3: "readable g t3 ?s3" using inspect_state [OF ok3] by (simp add: t3 d3)
  have p3: "\<not> ts_recoveryRequired ?s3" "cutoff_of ?s3 = r" using p2(3) by (simp_all add: recovered_def cutoff_of_def)
  have g3: "gt_failure t3 = None" "same_session k t3"
    by (simp_all add: t3 d3 same_session_def split: option.split)
  have "fst (rejectReasonForTicket g journal desired k t3) = None"
    if "command_block g journal (gt_file t3) = None" "desired_block g desired (gt_file t3) = None"
      "tk_issuedAt k = Some iat" "r < iat"
    using accept_iff [OF env own3, of journal desired k] that g3 r3 p3 by blast
  then show ?thesis using d1 d2 d3 by (simp add: r(1))
qed

text \<open>
  C27: A recovery can always be completed, so the gate is never blocked for good: from any readable state,
  when the writes succeed, a teardown, its preparation and, once the clock has passed the time that the
  preparation answered, its completion all succeed, and then a ticket issued after the cutoff is
  accepted, whatever session it is for, when the agent's files ask for no teardown.
\<close>

theorem recovery_cycle_completes:
  assumes env: "gate_env g" and own: "own g t" and s: "readable g t s"
    and times: "time_ok g now" "time_ok g now'" "time_ok g now''"
    and t1: "t1 = snd (markTeardownStarted g opts now durable t)"
    and t2: "t2 = snd (prepareCommercialRecoveryAfterReset g now' durable t1)"
    and t3: "t3 = snd (completeCommercialRecoveryAfterReset g token now'' durable t2)"
    and r: "r = max (max (cutoff_of s) (teardown_cutoff g opts now)) (now' + gc_skew g)" "r + gc_skew g < now''"
  shows "fst (markTeardownStarted g opts now durable t)
    \<and> fst (prepareCommercialRecoveryAfterReset g now' durable t1) = Some (r + gc_skew g)
    \<and> fst (completeCommercialRecoveryAfterReset g token now'' durable t2)
    \<and> (command_block g journal (gt_file t3) = None \<and> desired_block g desired (gt_file t3) = None
         \<and> tk_issuedAt k = Some iat \<and> r < iat \<longrightarrow> fst (rejectReasonForTicket g journal desired k t3) = None)"
  by (rule recovery_cycle [OF assms])

text \<open>A recycle that was completed, by the id of its command or by its token.\<close>

definition completed_recycle :: "runtime_state \<Rightarrow> string \<Rightarrow> bool" where
  "completed_recycle s k \<longleftrightarrow> (\<exists>token. normalizeRecycleToken (JStr k) = Some token \<and> token \<in> set (ts_completed s))"

lemma command_block_iff:
  assumes "readable g t s"
  shows "command_block g journal (gt_file t) = None \<longleftrightarrow>
    (\<forall>c. readCommandJournal journal = Some c \<longrightarrow> to_lower (trim (cm_commandType c)) \<noteq> ''shutdown''
       \<and> (to_lower (trim (cm_commandType c)) = ''recycletowarm'' \<longrightarrow> completed_recycle s (cm_instanceCommandId c)))"
  using assms
  by (cases "readCommandJournal journal")
    (auto simp: command_block_def isRecycleToWarmCommand_def isTeardownCommand_def command_type_def Let_def opt_str.simps
      completedRecycleTokenStatus_def completed_recycle_def split: option.split)

lemma desired_block_iff:
  assumes "readable g t s"
  shows "desired_block g desired (gt_file t) = None \<longleftrightarrow>
    \<not> ds_shutdownRequested (readDesiredState desired)
    \<and> (\<forall>k. ds_recycleRequestedToken (readDesiredState desired) = Some k \<longrightarrow> completed_recycle s k)"
  using assms
  by (cases "ds_recycleRequestedToken (readDesiredState desired)")
    (auto simp: desired_block_def Let_def completedRecycleTokenStatus_def completed_recycle_def opt_str.simps
      normalizeRecycleToken_def split: option.split)

text \<open>
  C13: Which tickets are accepted, exactly: those issued after the cutoff, for the managed session of this
  process or for none, while the state file can be read and requires no recovery and no earlier write
  failed; and only if the command in the agent's journal is no shutdown, a recycle in it has been completed,
  and the desired state asks for no shutdown and for no recycle but one that has been completed.
\<close>

theorem ticket_accepted_iff:
  assumes "gate_env g" "own g t"
  shows "fst (rejectReasonForTicket g journal desired k t) = None \<longleftrightarrow>
    (\<exists>s iat. readable g t s \<and> \<not> ts_recoveryRequired s \<and> gt_failure t = None
      \<and> tk_issuedAt k = Some iat \<and> cutoff_of s < iat \<and> same_session k t
      \<and> (\<forall>c. readCommandJournal journal = Some c \<longrightarrow> to_lower (trim (cm_commandType c)) \<noteq> ''shutdown''
           \<and> (to_lower (trim (cm_commandType c)) = ''recycletowarm'' \<longrightarrow> completed_recycle s (cm_instanceCommandId c)))
      \<and> \<not> ds_shutdownRequested (readDesiredState desired)
      \<and> (\<forall>k. ds_recycleRequestedToken (readDesiredState desired) = Some k \<longrightarrow> completed_recycle s k))"
proof (cases "\<exists>s. readable g t s")
  case True
  then obtain s where s: "readable g t s" by blast
  have r: "readable g t s' \<longleftrightarrow> s' = s" for s' using s by auto
  show ?thesis
    unfolding accept_iff [OF assms] command_block_iff [OF s] desired_block_iff [OF s] r by simp blast
next
  case False
  then show ?thesis unfolding accept_iff [OF assms] by simp
qed








section \<open>Completing a recovery\<close>

text \<open>
  A recovery completes only after the margin: the cutoff and the clock skew lie before the time at
  which it does. Then the cutoff still stands, the runtime belongs to no session, no viewer evidence is
  left, and the recycle token is recorded as completed, so that its command no longer blocks tickets.
\<close>

theorem recovery_completes_after_margin:
  assumes "gate_env g" "own g t" "time_ok g now" "readable g t s" "ts_recoveryRequired s"
    "completeCommercialRecoveryAfterReset g token now run t = (True, t')"
  shows "cutoff_of s + gc_skew g < now
    \<and> gt_session t' = None \<and> gt_failure t' = None
    \<and> (\<exists>s'. readable g t' s' \<and> \<not> ts_recoveryRequired s' \<and> cutoff_of s' = cutoff_of s \<and> ts_viewerRequest s' = None)
    \<and> (normalizeRecycleToken token \<noteq> None \<longrightarrow> completedRecycleTokenStatus g token (gt_file t') = Completed)"
proof -
  note o = own_readable(1) [OF assms(2,4)]
  obtain r where r: "ts_readyNotBefore s = Some r" "r < now"
    using assms(4-6) by (auto simp: completeCommercialRecoveryAfterReset_def Let_def split: option.splits if_splits)
  let ?s = "recovered g (normalizeRecycleToken token) now s"
  obtain ok f where w: "writeRuntimeState run (normalizeRuntimeState g (state_value ?s)) (gt_file t) = (ok, f)"
    by fastforce
  have raw: "raw_ok g ?s" by (rule recovered_raw [OF assms(1) o assms(3)]) (simp add: normalized_token_text)
  note wr = written [OF raw w]
  have "ok \<and> t' = t\<lparr>gt_file := f, gt_session := None, gt_failure := None\<rparr>"
    using assms(6) r unfolding completeCommercialRecoveryAfterReset_def assms(4) inspection.case Let_def
      w [unfolded recovered_def] prod.case
    by (auto simp: assms(5) split: if_splits)
  with wr(1) have t': "gt_file t' = Json (state_value (compacted ?s))" "gt_session t' = None" "gt_failure t' = None" by auto
  have rd: "readable g t' (compacted ?s)" using inspect_state [OF wr(2)] t'(1) by simp
  have "completedRecycleTokenStatus g token (gt_file t') = Completed" if "normalizeRecycleToken token = Some k" for k
  proof -
    have "distinct (ts_completed s)" "length (ts_completed s) \<le> max_completed"
      using o by (simp_all add: own_state_def state_ok_def)
    from recent_distinct_snoc(1) [OF this, of k] show ?thesis
      using rd that by (simp add: completedRecycleTokenStatus_def recovered_def)
  qed
  moreover have "cutoff_of s + gc_skew g < now" using o r by (auto simp: own_state_def)
  moreover have "\<not> ts_recoveryRequired (compacted ?s)" "cutoff_of (compacted ?s) = cutoff_of s" "ts_viewerRequest (compacted ?s) = None"
    by (simp_all add: recovered_def cutoff_of_def)
  ultimately show ?thesis using rd t' by blast
qed

section \<open>One viewer session\<close>

lemma guid_lower: "guid_text q \<Longrightarrow> to_lower q = q"
  by (simp add: guid_text_def)

lemma own_viewer: "\<lbrakk>own_state g s; ts_viewerRequest s = Some q\<rbrakk> \<Longrightarrow> guid_text q"
  by (simp add: own_state_def state_ok_def raw_ok_def)

definition releases :: "gate_op \<Rightarrow> bool" where
  "releases x \<longleftrightarrow> (case x of Op_complete a b c \<Rightarrow> True | Op_reconcile a b c \<Rightarrow> True | _ \<Rightarrow> False)"

lemma readable_written:
  assumes "readable g t' s" "gt_file t' = f" "raw_ok g s'"
    "writeRuntimeState run (normalizeRuntimeState g (state_value s')) (gt_file t) = (ok, f)"
  shows "readable g t s \<or> s = compacted s'"
  using written [OF assms(3,4)] assms(1,2) inspect_state [of g "compacted s'"] by auto

text \<open>An admission that is accepted, or that changes the file, acted on a valid state.\<close>

lemma admission_valid:
  assumes "fst (recordManagedViewerAdmission g req act now run t) = None
    \<or> gt_file (snd (recordManagedViewerAdmission g req act now run t)) \<noteq> gt_file t"
  obtains q s where "normalizeOptionalGuid req = Some q" "readable g t s" "gt_failure t = None"
    "recordManagedViewerAdmission g req act now run t = admit_viewer g q (normalizeOptionalGuid act) now run s t"
proof -
  have nf: "gt_failure t = None" using assms by (cases "gt_failure t") (auto simp: recordManagedViewerAdmission_def)
  obtain q where q: "normalizeOptionalGuid req = Some q"
    using assms nf by (cases "normalizeOptionalGuid req") (auto simp: recordManagedViewerAdmission_def)
  have act: "\<not> (act \<noteq> JUndef \<and> normalizeOptionalGuid act = None)"
  proof
    assume "act \<noteq> JUndef \<and> normalizeOptionalGuid act = None"
    with assms show False by (simp add: recordManagedViewerAdmission_def nf q)
  qed
  show ?thesis
  proof (cases "inspectRuntimeState g (gt_file t)")
    case (State_valid s)
    have "recordManagedViewerAdmission g req act now run t = admit_viewer g q (normalizeOptionalGuid act) now run s t"
      by (simp only: recordManagedViewerAdmission_def nf q State_valid option.case inspection.case if_not_P [OF act])
    with that q State_valid nf show ?thesis by blast
  qed (use assms act in \<open>simp_all add: recordManagedViewerAdmission_def nf q\<close>)
qed

lemma admit_viewer_same:
  assumes "fst (admit_viewer g q active now run s t) = None \<or> gt_file (snd (admit_viewer g q active now run s t)) \<noteq> gt_file t"
    "ts_viewerRequest s = Some q0"
  shows "to_lower q0 = to_lower q"
  using assms by (auto simp: admit_viewer_def split: if_splits)

lemma viewer_admission:
  assumes env: "gate_env g" and own: "own g t" and now: "time_ok g now"
    and v: "\<forall>s. readable g t s \<longrightarrow> ts_viewerRequest s = Some q"
    and r: "readable g (snd (recordManagedViewerAdmission g req act now run t)) s"
  shows "ts_viewerRequest s = Some q"
proof (cases "readable g t s")
  case False
  let ?t = "snd (recordManagedViewerAdmission g req act now run t)" and ?act = "normalizeOptionalGuid act"
  have ch: "gt_file ?t \<noteq> gt_file t" using r False by auto
  from admission_valid [OF disjI2 [OF ch]] obtain q' s0 where q': "normalizeOptionalGuid req = Some q'"
    and s0: "readable g t s0" and eq: "recordManagedViewerAdmission g req act now run t = admit_viewer g q' ?act now run s0 t"
    by metis
  note o = own_readable(1) [OF own s0]
  have s0q: "ts_viewerRequest s0 = Some q" using v s0 by blast
  have "to_lower q = to_lower q'" using admit_viewer_same [of g q' ?act now run s0 t q] ch s0q by (simp add: eq)
  then have qq: "q' = q"
    using guid_lower [OF normalized_guid_text [OF q']] guid_lower [OF own_viewer [OF o s0q]] by simp
  obtain ok f where w: "writeRuntimeState run (normalizeRuntimeState g (state_value
      (viewer_admitted g q' ?act now s0))) (gt_file t) = (ok, f)" by fastforce
  have raw: "raw_ok g (viewer_admitted g q' ?act now s0)"
    by (rule viewer_admitted_raw [OF env o now normalized_guid_text [OF q']]) (simp add: normalized_guid_text)
  have "gt_file ?t = gt_file t \<or> gt_file ?t = f"
    unfolding eq admit_viewer_def Let_def w [unfolded viewer_admitted_def] prod.case by simp
  with ch have "gt_file ?t = f" by simp
  from readable_written [OF r this raw w] False have "s = compacted (viewer_admitted g q' ?act now s0)" by simp
  then show ?thesis by (simp add: viewer_admitted_def qq)
qed (use v in blast)

lemma viewer_do:
  assumes env: "gate_env g" and own: "own g t" and ok: "op_ok g x"
    and v: "\<forall>s. readable g t s \<longrightarrow> ts_viewerRequest s = Some q"
    and x: "\<not> releases x" and r: "readable g (gate_do g x t) s"
  shows "ts_viewerRequest s = Some q"
proof (cases x)
  case (Op_admit req act now run)
  with viewer_admission [OF env own _ v] ok r show ?thesis by simp
next
  case (Op_teardown opts now run)
  obtain s0 where s0: "readable g t s0"
    using r Op_teardown by (cases "inspectRuntimeState g (gt_file t)") (auto simp: teardown_eq [OF own])
  have now: "time_ok g now" using ok Op_teardown by simp
  obtain b f where w: "writeRuntimeState run (normalizeRuntimeState g (state_value (torn_down g opts now s0))) (gt_file t) = (b, f)"
    by fastforce
  have "gt_file (gate_do g x t) = f" by (cases b) (simp_all add: Op_teardown teardown_eq [OF own] s0 w)
  from readable_written [OF r this torn_down_raw [OF env own_readable(1) [OF own s0] now] w] v s0
  show ?thesis by auto
next
  case (Op_prepare now run)
  have now: "time_ok g now" using ok Op_prepare by simp
  show ?thesis
  proof (cases "readable g t s")
    case False
    let ?t = "gate_do g x t"
    have ch: "gt_file ?t \<noteq> gt_file t" using r False by auto
    obtain s0 where s0: "readable g t s0"
      using ch Op_prepare by (cases "inspectRuntimeState g (gt_file t)") (auto simp: prepareCommercialRecoveryAfterReset_def)
    obtain b f where w: "writeRuntimeState run (normalizeRuntimeState g (state_value (prepared g now s0))) (gt_file t) = (b, f)"
      by fastforce
    have "gt_file ?t = gt_file t \<or> gt_file ?t = f"
      unfolding Op_prepare gate_do.simps prepareCommercialRecoveryAfterReset_def s0 inspection.case Let_def
        cutoff_of_def [symmetric] w [unfolded prepared_def Let_def] prod.case by (auto split: option.split)
    with ch have "gt_file ?t = f" by simp
    from readable_written [OF r this prepared_raw [OF env own_readable(1) [OF own s0] now] w] v s0
    show ?thesis by (auto simp: prepared_def Let_def)
  qed (use v in blast)
next
  case (Op_reject journal desired k)
  have "gt_file (gate_do g x t) = gt_file t" unfolding Op_reject gate_do.simps
    by (auto simp: rejectReasonForTicket_def Let_def split: option.split)
  with r v show ?thesis by simp
next
  case Op_evidence
  have "gt_file (gate_do g x t) = gt_file t" unfolding Op_evidence gate_do.simps
    by (auto simp: getDurableManagedViewerEvidenceStatus_def split: inspection.split)
  with r v show ?thesis by simp
next
  case Op_required
  have "gt_file (gate_do g x t) = gt_file t" unfolding Op_required gate_do.simps
    by (auto simp: isCommercialRecoveryRequired_def Let_def)
  with r v show ?thesis by simp
next
  case (Op_block b)
  with r v show ?thesis by (simp add: setReconnectGraceEvidenceJournalBlock_def)
qed (use r x in \<open>simp_all add: releases_def inspectRuntimeState_def\<close>)

lemma viewer_run:
  assumes "gate_env g"
  shows "\<lbrakk>own g t; \<forall>x \<in> set ops. op_ok g x \<and> \<not> releases x; \<forall>s. readable g t s \<longrightarrow> ts_viewerRequest s = Some q;
    readable g (gate_run g ops t) s\<rbrakk> \<Longrightarrow> ts_viewerRequest s = Some q"
proof (induction ops arbitrary: t)
  case (Cons x ops)
  have x: "op_ok g x" "\<not> releases x" using Cons.prems(2) by simp_all
  from Cons.IH [OF own_do [OF assms Cons.prems(1) x(1)]] viewer_do [OF assms Cons.prems(1) x(1) Cons.prems(3) x(2)] Cons.prems(2,4)
  show ?case by simp
qed simp

text \<open>
  C20: One runtime serves one managed session at a time: once a viewer's session is durably recorded,
  whatever happens to the file, no viewer of another session is admitted before the record is released
  by a completed recovery or by a reconciliation after a host boot.
\<close>

theorem one_managed_session:
  assumes "gate_env g" "own g t" "readable g t s" "ts_viewerRequest s = Some q"
    "\<forall>x \<in> set ops. op_ok g x \<and> \<not> releases x"
    "fst (recordManagedViewerAdmission g request active now run (gate_run g ops t)) = None"
  shows "normalizeOptionalGuid request = Some q"
proof -
  let ?t = "gate_run g ops t"
  have v: "\<forall>s. readable g t s \<longrightarrow> ts_viewerRequest s = Some q" using assms(3,4) by auto
  have own: "own g ?t" by (rule own_run [OF assms(1,2)]) (use assms(5) in blast)
  from admission_valid [OF disjI1 [OF assms(6)]] obtain q' s' where q': "normalizeOptionalGuid request = Some q'"
    and s': "readable g ?t s'" and eq: "recordManagedViewerAdmission g request active now run ?t
      = admit_viewer g q' (normalizeOptionalGuid active) now run s' ?t"
    by metis
  have s'q: "ts_viewerRequest s' = Some q" by (rule viewer_run [OF assms(1,2,5) v s'])
  have "to_lower q = to_lower q'"
    using admit_viewer_same [of g q' "normalizeOptionalGuid active" now run s' ?t q] assms(6) s'q by (simp add: eq)
  with guid_lower [OF normalized_guid_text [OF q']] guid_lower [OF own_viewer [OF own_readable(1) [OF own s'] s'q]]
  show ?thesis by (simp add: q')
qed

section \<open>A new process\<close>

lemma teardown_success:
  assumes "gate_env g" "time_ok g now" "own g t" "markTeardownStarted g opts now run t = (True, t')"
  shows "own g t' \<and> latched g t'"
  using moves_own [OF moves_teardown [OF assms(1,3,2)] assms(3), of opts run]
    latched_teardown [OF assms(1,3,2), of opts run] assms(4) by simp

lemma recover_command_cases:
  assumes "recover_command g journal now nowMs run t = Inr t'"
  shows "t' = t \<or> (\<exists>opts. markTeardownStarted g opts now run t = (True, t'))"
  using assms by (auto simp: recover_command_def Let_def split: if_splits prod.splits bool.splits)

lemma recover_desired_cases:
  assumes "recover_desired g desired now run t = Inr t'"
  shows "t' = t \<or> (\<exists>opts. markTeardownStarted g opts now run t = (True, t'))"
  using assms by (auto simp: recover_desired_def Let_def split: if_splits prod.splits bool.splits)

definition baseline :: "gate_config \<Rightarrow> int \<Rightarrow> runtime_state" where
  "baseline g now = \<lparr>ts_cutoff = Some 0, ts_cutoffUtc = Some (toUtcIsoString g 0),
     ts_reason = Some ''runtime_state_initialized'', ts_commandType = None, ts_instanceCommandId = None,
     ts_updatedAtUtc = Some (toUtcIsoString g now), ts_recoveryRequired = False, ts_readyNotBefore = None,
     ts_viewerRequest = None, ts_viewerActive = None, ts_viewerAdmittedAt = None, ts_completed = []\<rparr>"

lemma baseline_own:
  assumes "gate_env g" "time_ok g now"
  shows "own_state g (baseline g now)"
proof -
  have z: "date_range 0" by (simp add: date_range_def)
  have t: "is_text ''runtime_state_initialized''" by (simp add: is_text_def trim_no_ws is_ws_def)
  have "raw_ok g (baseline g now)"
    using env_utc [OF assms(1) z] env_utc(1) [OF assms(1) time_range(1) [OF assms]] t
    unfolding raw_ok_def by (simp add: baseline_def max_safe_def)
  then show ?thesis by (simp add: own_state_def state_ok_def baseline_def)
qed

lemma initial_own:
  assumes env: "gate_env g" and now: "time_ok g now" and f: "\<And>v. f = Json v \<Longrightarrow> \<exists>s. own_state g s \<and> v = state_value s"
    and i: "initial_state g now run f = Inr (s, f')"
  shows "own_state g s \<and> f' = Json (state_value s)"
proof (cases f)
  case (Json v)
  then obtain s0 where "own_state g s0" "f = Json (state_value s0)" using f by blast
  with i inspect_state [of g s0] show ?thesis by (auto simp: initial_state_def own_state_def)
next
  case (Broken e)
  with i show ?thesis by (simp add: initial_state_def inspectRuntimeState_def)
next
  case Missing
  let ?v = "json_obj [(''rejectTicketsIssuedAtOrBeforeEpochSeconds'', num_of_int 0),
    (''rejectTicketsIssuedAtOrBeforeUtc'', JStr (toUtcIsoString g 0)),
    (''reason'', JStr ''runtime_state_initialized''), (''updatedAtUtc'', JStr (toUtcIsoString g now))]"
  note b = baseline_own [OF env now]
  have "fld ?v k = fld (state_value (baseline g now)) k" for k
    unfolding fld_state by (subst fld_json_obj) (simp_all add: state_fields_def baseline_def opt_int_def)
  then have "normalizeRuntimeState g ?v = normalizeRuntimeState g (state_value (baseline g now))"
    by (simp only: normalizeRuntimeState_def)
  also have "\<dots> = baseline g now"
    using b by (simp add: normalize_raw own_state_def state_ok_def) (simp add: baseline_def recent_distinct_def take_last_def)
  finally have n: "normalizeRuntimeState g ?v = baseline g now" .
  obtain ok f2 where w: "writeRuntimeState run (baseline g now) f = (ok, f2)" by fastforce
  have "ok \<Longrightarrow> f2 = Json (state_value (baseline g now))"
    using w by (auto simp: writeRuntimeState_def put_atomic_def split: replace_run.splits)
  with i b n w Missing show ?thesis by (auto simp: initial_state_def inspectRuntimeState_def Let_def split: if_splits)
qed

text \<open>
  C39: A gate that is created while the journal holds a shutdown command that has not expired, or while the
  desired state asks for a shutdown, starts with tickets fenced: none is accepted before a recovery has
  been completed, whatever else happens to the gate. The state file was not there or was written by a gate.
\<close>

theorem gate_starts_fenced:
  assumes env: "gate_env g" and now: "time_ok g now" and f: "\<And>v. f = Json v \<Longrightarrow> \<exists>s. own_state g s \<and> v = state_value s"
    and c: "createConnectTicketRuntimeGate g journal desired now nowMs run0 run1 run2 f = Inr t"
    and teardown: "(\<exists>c. readCommandJournal journal = Some c \<and> command_type (Some c) = ''shutdown''
          \<and> \<not> isCommandExpired (gc_dp g) (opt_str (cm_timeoutAtUtc c)) nowMs)
        \<or> ds_shutdownRequested (readDesiredState desired)"
    and ops: "\<forall>x \<in> set ops. op_ok g x" "fst (rejectReasonForTicket g journal' desired' k (gate_run g ops t)) = None"
  shows "own g t \<and> (\<exists>i < length ops. \<exists>token n r. ops ! i = Op_complete token n r
      \<and> fst (completeCommercialRecoveryAfterReset g token n r (gate_run g (take i ops) t)))"
proof -
  from c obtain s f' t1 where i: "initial_state g now run0 f = Inr (s, f')"
    and t1: "recover_command g journal now nowMs run1 \<lparr>gt_file = f', gt_failure = None, gt_journalBlock = None,
        gt_session = ts_viewerRequest s, gt_admitted = False, gt_expected = True\<rparr> = Inr t1" (is "recover_command g journal now nowMs run1 ?t0 = _")
    and t: "recover_desired g desired now run2 t1 = Inr t"
    by (auto simp: createConnectTicketRuntimeGate_def split: sum.splits)
  have own0: "own g ?t0" using initial_own [OF env now f i] by (auto simp: own_def)
  have own1: "own g t1" using recover_command_cases [OF t1] own0 teardown_success [OF env now own0] by blast
  have own: "own g t" using recover_desired_cases [OF t] own1 teardown_success [OF env now own1] by blast
  have lat: "latched g t"
    using teardown
  proof (elim disjE exE conjE)
    fix c assume c: "readCommandJournal journal = Some c" "command_type (Some c) = ''shutdown''"
      "\<not> isCommandExpired (gc_dp g) (opt_str (cm_timeoutAtUtc c)) nowMs"
    then have "\<exists>opts. markTeardownStarted g opts now run1 ?t0 = (True, t1)"
      using t1 by (auto simp: recover_command_def Let_def isTeardownCommand_def isRecycleToWarmCommand_def
          split: if_splits prod.splits bool.splits)
    then have "latched g t1" using teardown_success [OF env now own0] by blast
    then show "latched g t" using recover_desired_cases [OF t] teardown_success [OF env now own1] by blast
  next
    assume "ds_shutdownRequested (readDesiredState desired)"
    then have "\<exists>opts. markTeardownStarted g opts now run2 t1 = (True, t)"
      using t by (auto simp: recover_desired_def Let_def split: if_splits prod.splits bool.splits)
    then show "latched g t" using teardown_success [OF env now own1] by blast
  qed
  have "\<not> latched g (gate_run g ops t)"
    using accept_iff [OF env own_run [OF env own ops(1)], of journal' desired' k] ops(2) by (auto simp: latched_def)
  from latched_run [OF env own ops(1) lat this] own show ?thesis by blast
qed

section \<open>Examples\<close>

text \<open>A library whose printed times are decimal milliseconds, and a gate on a fresh state.\<close>

definition demo_print :: "int \<Rightarrow> string" where
  "demo_print t = (if t < 0 then CHR ''-'' # show_nat (nat (- t)) else show_nat (nat t))"

definition demo_parse :: "string \<Rightarrow> int option" where
  "demo_parse s =
     (let (sign, ds) = (if s \<noteq> [] \<and> hd s = CHR ''-'' then (- 1, tl s) else (1, s));
          i = sign * int (read_nat ds) in
      if ds \<noteq> [] \<and> list_all is_digit ds \<and> \<bar>i\<bar> \<le> 8640000000000000 then Some i else None)"

definition demo_gc :: gate_config where
  "demo_gc = \<lparr>gc_dp = demo_parse, gc_utc = demo_print, gc_skew = 5, gc_boot = Some 0\<rparr>"

lemma demo_print_text: "is_text (demo_print t)"
proof -
  have "\<not> is_ws c" if "c \<in> set (demo_print t)" for c
    using that show_nat_digits [of "nat t"] show_nat_digits [of "nat (- t)"] digit_not_ws
    by (auto simp: demo_print_def list_all_iff is_ws_def split: if_splits)
  moreover have "demo_print t \<noteq> []" by (simp add: demo_print_def)
  ultimately show ?thesis by (simp add: is_text_def trim_no_ws)
qed

lemma hd_show_nat: "hd (show_nat n) \<noteq> CHR ''-''"
proof -
  have "is_digit (hd (show_nat n))" using show_nat_digits [of n] by (simp add: list_all_iff)
  then show ?thesis by (auto simp: is_digit_def)
qed

lemma demo_parse_print: "\<bar>t\<bar> \<le> 8640000000000000 \<Longrightarrow> demo_parse (demo_print t) = Some t"
  using show_nat_digits hd_show_nat by (auto simp: demo_parse_def demo_print_def)

lemma demo_env: "gate_env demo_gc"
proof -
  have "gate_lib demo_gc"
    by (auto simp: gate_lib_def demo_gc_def demo_print_text date_range_def intro!: demo_parse_print)
  then show ?thesis by (auto simp: gate_env_def demo_gc_def demo_parse_def Let_def split: if_splits prod.splits)
qed

lemma demo_time: "\<lbrakk>0 \<le> n; n \<le> 1000000\<rbrakk> \<Longrightarrow> time_ok demo_gc n"
  by (simp add: time_ok_def demo_gc_def date_range_def)

definition demo_gate :: gate where
  "demo_gate = \<lparr>gt_file = Json (state_value (baseline demo_gc 10)), gt_failure = None, gt_journalBlock = None,
     gt_session = None, gt_admitted = False, gt_expected = True\<rparr>"

definition demo_options :: teardown_options where
  "demo_options = \<lparr>to_occurredAtUtc = None, to_reason = None, to_commandType = None, to_instanceCommandId = None\<rparr>"

definition demo_ticket :: ticket where
  "demo_ticket = \<lparr>tk_issuedAt = Some 100, tk_sessionRequestId = None\<rparr>"

lemma demo_own: "own demo_gc demo_gate" "readable demo_gc demo_gate (baseline demo_gc 10)"
  using baseline_own [OF demo_env demo_time [of 10]] inspect_state [of demo_gc "baseline demo_gc 10"]
  by (auto simp: own_def demo_gate_def own_state_def)

lemma demo_cut [simp]: "cutoff_of (baseline demo_gc n) = 0" "teardown_cutoff demo_gc demo_options n = n" "gc_skew demo_gc = 5"
  by (simp_all add: cutoff_of_def baseline_def teardown_cutoff_def demo_options_def parseUtcToEpochSeconds_def demo_gc_def)

lemma no_blocks [simp]: "command_block g Missing f = None" "desired_block g Missing f = None"
  by (simp_all add: command_block_def readCommandJournal_def isRecycleToWarmCommand_def isTeardownCommand_def
      command_type_def desired_block_def readDesiredState_def normalizeDesiredState_def completedRecycleTokenStatus_def
      normalizeRecycleToken_def Let_def)

definition demo_cycle :: "gate \<Rightarrow> gate" where
  "demo_cycle t = snd (completeCommercialRecoveryAfterReset demo_gc JUndef 40 durable
     (snd (prepareCommercialRecoveryAfterReset demo_gc 20 durable t)))"


lemmas demo_recovery = recovery_cycle [OF demo_env demo_own demo_time demo_time demo_time refl refl refl refl,
  of 15 20 40 demo_options JUndef Missing Missing demo_ticket 100, simplified, unfolded demo_ticket_def [symmetric]]

theorem recovery_cycle_completes_witness:
  "fst (markTeardownStarted demo_gc demo_options 15 durable demo_gate)
   \<and> fst (rejectReasonForTicket demo_gc Missing Missing demo_ticket
       (demo_cycle (snd (markTeardownStarted demo_gc demo_options 15 durable demo_gate)))) = None"
  using recovery_cycle_completes [OF demo_env demo_own demo_time demo_time demo_time refl refl refl refl,
      of 15 20 40 demo_options JUndef Missing Missing demo_ticket 100]
  by (simp add: demo_ticket_def demo_cycle_def)

lemma demo_torn: "markTeardownStarted demo_gc demo_options 15 durable demo_gate
    = (True, snd (markTeardownStarted demo_gc demo_options 15 durable demo_gate))"
  using durable_teardown [OF demo_env demo_own(1) demo_time demo_own(2), of 15 demo_options] by simp

theorem teardown_fences_tickets_witness:
  "(\<exists>iat. tk_issuedAt demo_ticket = Some iat \<and> teardown_cutoff demo_gc demo_options 15 < iat)
    \<and> (\<exists>i < length [Op_prepare 20 durable, Op_complete JUndef 40 durable]. \<exists>token n r.
         [Op_prepare 20 durable, Op_complete JUndef 40 durable] ! i = Op_complete token n r
         \<and> fst (completeCommercialRecoveryAfterReset demo_gc token n r
             (gate_run demo_gc (take i [Op_prepare 20 durable, Op_complete JUndef 40 durable])
               (snd (markTeardownStarted demo_gc demo_options 15 durable demo_gate)))))"
proof (rule teardown_fences_tickets [OF demo_env demo_own(1) demo_time demo_torn])
  show "fst (rejectReasonForTicket demo_gc Missing Missing demo_ticket (gate_run demo_gc
      [Op_prepare 20 durable, Op_complete JUndef 40 durable]
      (snd (markTeardownStarted demo_gc demo_options 15 durable demo_gate)))) = None"
    using demo_recovery by (simp add: demo_ticket_def)
qed (simp_all add: demo_time)

lemma no_file_wishes [simp]:
  "readCommandJournal Missing = None" "\<not> ds_shutdownRequested (readDesiredState Missing)"
  "ds_recycleRequestedToken (readDesiredState Missing) = None"
  by (simp_all add: readCommandJournal_def readDesiredState_def normalizeDesiredState_def)

theorem ticket_accepted_iff_witness:
  "fst (rejectReasonForTicket demo_gc Missing Missing demo_ticket demo_gate) = None"
proof -
  have s: "\<not> ts_recoveryRequired (baseline demo_gc 10)" by (simp add: baseline_def)
  have k: "tk_issuedAt demo_ticket = Some 100" "same_session demo_ticket demo_gate" "gt_failure demo_gate = None"
    by (simp_all add: demo_ticket_def demo_gate_def same_session_def split: option.split)
  from s k demo_own(2) show ?thesis unfolding ticket_accepted_iff [OF demo_env demo_own(1)]
    by (intro exI [of _ "baseline demo_gc 10"] exI [of _ 100] conjI) simp_all
qed






theorem recovery_completes_after_margin_witness:
  "\<exists>t s t'. readable demo_gc t s \<and> completeCommercialRecoveryAfterReset demo_gc JUndef 40 durable t = (True, t')
     \<and> cutoff_of s + 5 < 40 \<and> gt_session t' = None"
proof -
  let ?t1 = "snd (markTeardownStarted demo_gc demo_options 15 durable demo_gate)"
  let ?s1 = "compacted (torn_down demo_gc demo_options 15 (baseline demo_gc 10))"
  have raw1: "raw_ok demo_gc (torn_down demo_gc demo_options 15 (baseline demo_gc 10))"
    by (rule torn_down_raw [OF demo_env own_readable(1) [OF demo_own] demo_time]) simp_all
  have own1: "own demo_gc ?t1"
    using moves_own [OF moves_teardown [OF demo_env demo_own(1) demo_time] demo_own(1)] by simp
  have r1: "readable demo_gc ?t1 ?s1"
    using inspect_state [OF written(2) [OF raw1 durable_write [OF raw1]]]
      durable_teardown [OF demo_env demo_own(1) demo_time demo_own(2), of 15 demo_options] by simp
  let ?t2 = "snd (prepareCommercialRecoveryAfterReset demo_gc 20 durable ?t1)"
  let ?s2 = "compacted (prepared demo_gc 20 ?s1)"
  have raw2: "raw_ok demo_gc (prepared demo_gc 20 ?s1)"
    by (rule prepared_raw [OF demo_env own_readable(1) [OF own1 r1] demo_time]) simp_all
  have own2: "own demo_gc ?t2"
    using moves_own [OF moves_prepare [OF demo_env own1 demo_time] own1] by simp
  have r2: "readable demo_gc ?t2 ?s2"
    using inspect_state [OF written(2) [OF raw2 durable_write [OF raw2]]]
      durable_prepare [OF demo_env own1 demo_time r1, of 20] by simp
  have p2: "ts_recoveryRequired ?s2" by (simp add: prepared_def Let_def)
  have c: "completeCommercialRecoveryAfterReset demo_gc JUndef 40 durable ?t2
      = (True, snd (completeCommercialRecoveryAfterReset demo_gc JUndef 40 durable ?t2))"
    using demo_recovery by (simp add: prod_eq_iff)
  from recovery_completes_after_margin [OF demo_env own2 demo_time r2 p2 c]
  have "cutoff_of ?s2 + 5 < 40 \<and> gt_session (snd (completeCommercialRecoveryAfterReset demo_gc JUndef 40 durable ?t2)) = None"
    by simp
  then show ?thesis by (intro exI conjI) (rule r2, rule c, simp_all only:)
qed

definition demo_request :: string where
  "demo_request = ''00000000-0000-0000-0000-000000000000''"

definition demo_serving :: runtime_state where
  "demo_serving = compacted (viewer_admitted demo_gc demo_request None 10 (baseline demo_gc 10))"

lemma demo_serving:
  defines "t \<equiv> demo_gate\<lparr>gt_file := Json (state_value demo_serving)\<rparr>"
  shows "own demo_gc t" "readable demo_gc t demo_serving" "ts_viewerRequest demo_serving = Some demo_request"
proof -
  have "normalizeOptionalGuid (JStr demo_request) = Some demo_request" by code_simp
  then have g: "guid_text demo_request" by (rule normalized_guid_text)
  have raw: "raw_ok demo_gc (viewer_admitted demo_gc demo_request None 10 (baseline demo_gc 10))"
    by (rule viewer_admitted_raw [OF demo_env own_readable(1) [OF demo_own] demo_time g]) simp_all
  note ok = written(2) [OF raw durable_write [OF raw], folded demo_serving_def]
  have "ts_readyNotBefore demo_serving = None"
    by (simp add: demo_serving_def viewer_admitted_def baseline_def compacted_def)
  with ok have "own_state demo_gc demo_serving" by (simp add: own_state_def)
  then show "own demo_gc t" by (auto simp: own_def t_def demo_gate_def)
  from ok inspect_state show "readable demo_gc t demo_serving" by (simp add: t_def)
  show "ts_viewerRequest demo_serving = Some demo_request" by (simp add: demo_serving_def viewer_admitted_def)
qed

theorem one_managed_session_witness:
  "normalizeOptionalGuid (JStr demo_request) = Some demo_request"
proof -
  let ?t = "demo_gate\<lparr>gt_file := Json (state_value demo_serving)\<rparr>"
  note d = demo_serving
  have raw: "raw_ok demo_gc (torn_down demo_gc demo_options 15 demo_serving)"
    by (rule torn_down_raw [OF demo_env own_readable(1) [OF d(1,2)] demo_time]) simp_all
  let ?s = "compacted (torn_down demo_gc demo_options 15 demo_serving)"
  let ?u = "gate_run demo_gc [Op_teardown demo_options 15 durable] ?t"
  have u: "gt_failure ?u = None" "gt_file ?u = Json (state_value ?s)"
    using durable_teardown [OF demo_env d(1) demo_time d(2), of 15 demo_options] by simp_all
  have r: "readable demo_gc ?u ?s" using inspect_state [OF written(2) [OF raw durable_write [OF raw]]] u(2) by simp
  have q: "normalizeOptionalGuid (JStr demo_request) = Some demo_request" "normalizeOptionalGuid JUndef = None"
    by code_simp+
  have v: "ts_viewerRequest ?s = Some demo_request" using d(3) by simp
  have a: "fst (admit_viewer demo_gc demo_request None 50 durable ?s ?u) = None" unfolding admit_viewer_def v by simp
  have "fst (recordManagedViewerAdmission demo_gc (JStr demo_request) JUndef 50 durable ?u) = None"
    unfolding recordManagedViewerAdmission_def u(1) option.case q r inspection.case using a by simp
  from one_managed_session [OF demo_env d _ this] show ?thesis by (simp add: demo_time releases_def)
qed

definition demo_shutdown :: file_state where
  "demo_shutdown = Json (desired_value \<lparr>ds_warmHoldEnabled = False, ds_drainEnabled = False,
     ds_shutdownRequested = True, ds_recycleRequestedToken = None, ds_policyVersion = ''default'', ds_message = None,
     ds_updatedAtUtc = None, ds_receivedAtUtc = None\<rparr>)"

lemma demo_shutdown: "ds_shutdownRequested (readDesiredState demo_shutdown)"
  "ds_recycleRequestedToken (readDesiredState demo_shutdown) = None" "ds_updatedAtUtc (readDesiredState demo_shutdown) = None"
  by (simp_all add: demo_shutdown_def readDesiredState_def normalizeDesiredState_def desired_value_def fld_json_obj)

lemma demo_initial: "\<exists>s. initial_state demo_gc 10 durable Missing = Inr (s, Json (state_value s)) \<and> cutoff_of s = 0"
proof -
  obtain s f where i: "initial_state demo_gc 10 durable Missing = Inr (s, f)"
    by (simp add: initial_state_def inspectRuntimeState_def Let_def writeRuntimeState_def put_atomic_def fsyncContainingDirectory_def)
  then have "cutoff_of s = 0"
    by (auto simp: initial_state_def inspectRuntimeState_def Let_def normalizeRuntimeState_def fld_json_obj
        cutoff_of_def num_of_int_def split: prod.splits if_splits)
  with i initial_own [OF demo_env demo_time _ i] show ?thesis by auto
qed

theorem gate_starts_fenced_witness:
  "\<exists>t. createConnectTicketRuntimeGate demo_gc Missing demo_shutdown 10 10000 durable durable durable Missing = Inr t
     \<and> fst (rejectReasonForTicket demo_gc Missing Missing demo_ticket
           (gate_run demo_gc [Op_prepare 20 durable, Op_complete JUndef 40 durable] t)) = None
     \<and> own demo_gc t"
proof -
  obtain s where s: "initial_state demo_gc 10 durable Missing = Inr (s, Json (state_value s))" "cutoff_of s = 0"
    using demo_initial by blast
  let ?base = "\<lparr>gt_file = Json (state_value s), gt_failure = None, gt_journalBlock = None, gt_session = ts_viewerRequest s,
      gt_admitted = False, gt_expected = True\<rparr>"
  let ?opts = "\<lparr>to_occurredAtUtc = None, to_reason = Some ''recovered_desired_state_shutdown_request'',
      to_commandType = None, to_instanceCommandId = None\<rparr>"
  have own_s: "own_state demo_gc s" using initial_own [OF demo_env demo_time _ s(1)] by simp
  have own: "own demo_gc ?base" using own_s by (auto simp: own_def)
  have r: "readable demo_gc ?base s" using own_s inspect_state by (simp add: own_state_def)
  let ?t = "snd (markTeardownStarted demo_gc ?opts 10 durable ?base)"
  have cut: "teardown_cutoff demo_gc ?opts 10 = 10" by (simp add: teardown_cutoff_def parseUtcToEpochSeconds_def)
  have m: "markTeardownStarted demo_gc ?opts 10 durable ?base = (True, ?t)"
    using recovery_cycle [OF demo_env own r demo_time demo_time demo_time refl refl refl refl,
        of 10 20 40 ?opts JUndef Missing Missing demo_ticket 100]
    by (simp add: s(2) cut prod_eq_iff)
  have c: "createConnectTicketRuntimeGate demo_gc Missing demo_shutdown 10 10000 durable durable durable Missing = Inr ?t"
    unfolding createConnectTicketRuntimeGate_def s(1) sum.case prod.case
    by (simp add: recover_command_def recover_desired_def readCommandJournal_def isRecycleToWarmCommand_def
        isTeardownCommand_def command_type_def completedRecycleTokenStatus_def normalizeRecycleToken_def demo_shutdown Let_def)
      (subst m, simp)
  have a: "fst (rejectReasonForTicket demo_gc Missing Missing demo_ticket
      (gate_run demo_gc [Op_prepare 20 durable, Op_complete JUndef 40 durable] ?t)) = None"
    using recovery_cycle [OF demo_env own r demo_time demo_time demo_time refl refl refl refl,
        of 10 20 40 ?opts JUndef Missing Missing demo_ticket 100]
    by (simp add: s(2) cut demo_ticket_def)
  from gate_starts_fenced [OF demo_env demo_time _ c _ _ a] have "own demo_gc ?t" by (simp add: demo_time demo_shutdown)
  with c a show ?thesis by blast
qed

end
