(* ===== verification/Connect_Ticket_Auth.thy ===== *)
theory Connect_Ticket_Auth
  imports Connect_Ticket_Properties Keepalive_Properties
begin

text \<open>
  \<open>SignallingWebServer/src/ConnectTicketAuth.ts\<close>: the check of the connect ticket (a JWT) of a player's
  WebSocket upgrade, in front of the signalling server and behind it the runtime gate. The Node library
  is a parameter: the base64 decoder, UTF-8, \<open>JSON.parse\<close>, the HMAC and the URL parser. The clock skew
  is a rational; log texts are not modelled, and neither is \<open>toISOString\<close>'s exception, so the gate's
  methods return.
\<close>

section \<open>Names\<close>

definition isDnsLabelChar :: "char \<Rightarrow> bool" where
  "isDnsLabelChar c \<longleftrightarrow> (let n = (of_char c :: nat) in (97 \<le> n \<and> n \<le> 122) \<or> (48 \<le> n \<and> n \<le> 57))"

definition drop_last_dot :: "string \<Rightarrow> string" where
  "drop_last_dot s = (if s \<noteq> [] \<and> last s = CHR ''.'' then butlast s else s)"

definition normalizeHost :: "string \<Rightarrow> string" where
  "normalizeHost v = trim (hd (split_char (CHR '':'') (drop_last_dot (to_lower (trim v)))))"

text \<open>The loop of \<open>normalizeRouteKey\<close>: the characters left, what was written, whether a dash was last.\<close>

fun route_loop :: "string \<Rightarrow> string \<Rightarrow> bool \<Rightarrow> string" where
  "route_loop [] out dash = out"
| "route_loop (c # cs) out dash =
     (if isDnsLabelChar c then route_loop cs (out @ [c]) False
      else if \<not> dash then route_loop cs (out @ ''-'') True
      else route_loop cs out dash)"

definition strip_dashes :: "string \<Rightarrow> string" where
  "strip_dashes s = rev (dropWhile (\<lambda>c. c = CHR ''-'') (rev (dropWhile (\<lambda>c. c = CHR ''-'') s)))"

definition normalizeRouteKey :: "string \<Rightarrow> string" where
  "normalizeRouteKey k =
     (let input = to_lower (trim k) in
      if input = [] then []
      else
        let normalized = strip_dashes (route_loop input [] False) in
        if 63 < length normalized then [] else normalized)"

definition UriCheckHostName :: "string \<Rightarrow> bool" where
  "UriCheckHostName v \<longleftrightarrow> v \<noteq> [] \<and> (let labels = split_char (CHR ''.'') v in
     2 \<le> length labels \<and> list_all (\<lambda>l. l \<noteq> [] \<and> length l \<le> 63 \<and> hd l \<noteq> CHR ''-'' \<and> last l \<noteq> CHR ''-''
       \<and> list_all (\<lambda>c. isDnsLabelChar (lower_char c) \<or> c = CHR ''-'') l) labels)"

section \<open>Settings\<close>

datatype auth_mode = Auth_off | Auth_soft | Auth_enforce

record auth_settings =
  as_mode :: auth_mode
  as_issuer :: string
  as_audience :: string
  as_signingKey :: string
  as_instanceId :: string
  as_routeHostSuffix :: string
  as_clockSkewSeconds :: jsnum

definition validateSettings :: "auth_settings \<Rightarrow> string option" where
  "validateSettings s =
     (if as_mode s = Auth_off then None
      else if as_issuer s = [] then Some ''auth_issuer is required when auth_mode is soft or enforce.''
      else if as_audience s = [] then Some ''auth_audience is required when auth_mode is soft or enforce.''
      else if as_signingKey s = [] \<or> length (as_signingKey s) < 32
      then Some ''auth_signing_key must be at least 32 characters when auth_mode is soft or enforce.''
      else if as_instanceId s = [] then Some ''auth_instance_id is required when auth_mode is soft or enforce.''
      else if as_routeHostSuffix s = []
      then Some ''auth_route_host_suffix is required when auth_mode is soft or enforce.''
      else if CHR ''*'' \<in> set (as_routeHostSuffix s) then Some ''auth_route_host_suffix must not contain wildcards.''
      else if \<not> UriCheckHostName (as_routeHostSuffix s)
      then Some ''auth_route_host_suffix must be a valid DNS host suffix.''
      else None)"

fun finite_or :: "jsnum \<Rightarrow> rat \<Rightarrow> jsnum" where
  "finite_or (Fin q) d = Fin q"
| "finite_or _ d = Fin d"

definition normalizeAuthSettings :: "auth_settings \<Rightarrow> string + auth_settings" where
  "normalizeAuthSettings s =
     (let n = \<lparr>as_mode = as_mode s, as_issuer = trim (as_issuer s), as_audience = trim (as_audience s),
            as_signingKey = as_signingKey s, as_instanceId = trim (as_instanceId s),
            as_routeHostSuffix = normalizeHost (as_routeHostSuffix s),
            as_clockSkewSeconds = finite_or (as_clockSkewSeconds s) 5\<rparr> in
      case validateSettings n of Some e \<Rightarrow> Inl e | None \<Rightarrow> Inr n)"

section \<open>The request\<close>

record auth_lib =
  al_base64 :: "string \<Rightarrow> string"
  al_utf8 :: "string \<Rightarrow> string"
  al_json :: "string \<Rightarrow> jsval option"
  al_hmac :: "string \<Rightarrow> string \<Rightarrow> string"
  al_ct :: "string \<Rightarrow> string \<Rightarrow> string option option"

text \<open>\<open>Some\<close> bytes, or \<open>None\<close> for the exception.\<close>

definition decodeBase64Url :: "auth_lib \<Rightarrow> string \<Rightarrow> string option" where
  "decodeBase64Url al v =
     (let base64 = map (\<lambda>c. if c = CHR ''-'' then CHR ''+'' else if c = CHR ''_'' then CHR ''/'' else c) v;
          remainder = length base64 mod 4 in
      if remainder = 1 then None
      else
        let padding = (if remainder = 0 then [] else if remainder = 2 then ''=='' else ''='') in
        Some (al_base64 al (base64 @ padding)))"

definition timingSafeBufferEqual :: "string \<Rightarrow> string \<Rightarrow> bool" where
  "timingSafeBufferEqual a b = (if length a \<noteq> length b then False else a = b)"

record upgrade =
  up_forwardedHost :: jsval
  up_host :: jsval
  up_url :: string

fun nonblank :: "jsval \<Rightarrow> string option" where
  "nonblank (JStr s) = (if trim s \<noteq> [] then Some s else None)"
| "nonblank _ = None"

definition parseHostFromRequest :: "upgrade \<Rightarrow> string" where
  "parseHostFromRequest req =
     (let forwarded = (case up_forwardedHost req of JArr [] \<Rightarrow> JUndef | JArr (h # hs) \<Rightarrow> h | v \<Rightarrow> v) in
      case nonblank forwarded of
        Some h \<Rightarrow> normalizeHost (hd (split_char (CHR '','') h))
      | None \<Rightarrow> (case nonblank (up_host req) of Some h \<Rightarrow> normalizeHost h | None \<Rightarrow> []))"

definition parseTicketFromRequest :: "auth_lib \<Rightarrow> upgrade \<Rightarrow> string \<Rightarrow> string option" where
  "parseTicketFromRequest al req host =
     map_option (\<lambda>ct. case ct of None \<Rightarrow> [] | Some t \<Rightarrow> trim t)
       (al_ct al (if up_url req = [] then ''/'' else up_url req) (if host = [] then ''localhost'' else host))"

section \<open>Claims\<close>

fun validateAudience :: "jsval \<Rightarrow> string \<Rightarrow> bool" where
  "validateAudience (JStr s) expected = (s = expected)"
| "validateAudience (JArr xs) expected = (JStr expected \<in> set xs)"
| "validateAudience _ expected = False"

fun parseNumericDateClaim :: "jsval \<Rightarrow> int option" where
  "parseNumericDateClaim (JNum (Fin q)) = Some (if 0 \<le> q then \<lfloor>q\<rfloor> else \<lceil>q\<rceil>)"
| "parseNumericDateClaim _ = None"

fun parseGuidClaim :: "jsval \<Rightarrow> string option" where
  "parseGuidClaim (JStr s) = (if is_guid (trim s) then Some (trim s) else None)"
| "parseGuidClaim _ = None"

fun str_claim :: "jsval \<Rightarrow> string" where
  "str_claim (JStr s) = s"
| "str_claim _ = []"

fun skew_of :: "jsnum \<Rightarrow> rat" where
  "skew_of (Fin q) = max 0 q"
| "skew_of _ = 0"

definition quoted :: "string \<Rightarrow> string" where
  "quoted s = [CHR 0x27] @ s @ [CHR 0x27]"

record claims =
  cl_sessionRequestId :: "string option"
  cl_shadowSessionRequestId :: "string option"
  cl_activeSessionId :: "string option"
  cl_codecPolicy :: codec_policy
  cl_issuedAt :: "int option"

text \<open>
  The checks that follow the signature's; \<open>Inl (force, reason)\<close> is a failure. First the ones of the
  session and of the host, then issuer, audience and times, which come before them.
\<close>

definition check_route :: "auth_settings \<Rightarrow> string \<Rightarrow> jsval \<Rightarrow> claims \<Rightarrow> (bool \<times> string) + claims" where
  "check_route s host p c =
     (let routeKey = normalizeRouteKey (str_claim (fld p ''routeKey'')) in
      if fld p ''activeSessionId'' \<noteq> JUndef \<and> cl_activeSessionId c = None
      then Inl (False, ''Connect ticket activeSessionId claim is invalid.'')
      else if routeKey = [] then Inl (False, ''Connect ticket routeKey is missing or invalid.'')
      else if host \<noteq> routeKey @ ''.'' @ as_routeHostSuffix s
      then Inl (False, ''Connect ticket host mismatch. Expected '' @ quoted (routeKey @ ''.'' @ as_routeHostSuffix s)
             @ '', got '' @ quoted (if host = [] then ''unknown'' else host) @ ''.'')
      else Inr c)"

definition check_session :: "auth_settings \<Rightarrow> string \<Rightarrow> jsval \<Rightarrow> (bool \<times> string) + claims" where
  "check_session s host p =
     (let instanceId = trim (str_claim (fld p ''instanceId''));
          request = parseGuidClaim (fld p ''sessionRequestId'');
          shadow = parseGuidClaim (fld p ''shadowSessionRequestId'') in
      if instanceId = [] \<or> instanceId \<noteq> as_instanceId s
      then Inl (False, ''Connect ticket instanceId does not match this server.'')
      else if fld p ''sessionRequestId'' \<noteq> JUndef \<and> request = None
      then Inl (False, ''Connect ticket sessionRequestId claim is invalid.'')
      else if (fld p ''shadowSessionRequestId'' \<noteq> JUndef \<and> shadow = None)
        \<or> (shadow \<noteq> None \<and> (request \<noteq> None \<or> fld p ''activeSessionId'' \<noteq> JUndef))
      then Inl (True, ''Invalid shadow session identity.'')
      else case (if request = None \<and> shadow = None then None else parseCodecPolicy (fld p ''codecPolicy'')) of
        None \<Rightarrow> Inl (True, ''A managed session identity or shadow target and signed codec policy are required.'')
      | Some policy \<Rightarrow> check_route s host p
          \<lparr>cl_sessionRequestId = request, cl_shadowSessionRequestId = shadow,
           cl_activeSessionId = parseGuidClaim (fld p ''activeSessionId''), cl_codecPolicy = policy,
           cl_issuedAt = (case parseNumericDateClaim (fld p ''iat'') of
               Some i \<Rightarrow> Some i | None \<Rightarrow> parseNumericDateClaim (fld p ''nbf''))\<rparr>)"

definition check_claims :: "auth_settings \<Rightarrow> string \<Rightarrow> int \<Rightarrow> jsval \<Rightarrow> (bool \<times> string) + claims" where
  "check_claims s host now p =
     (let skew = skew_of (as_clockSkewSeconds s);
          shadowTicket = (fld p ''shadowSessionRequestId'' \<noteq> JUndef);
          nbf = parseNumericDateClaim (fld p ''nbf'') in
      if str_claim (fld p ''iss'') \<noteq> as_issuer s then Inl (False, ''Connect ticket issuer is invalid.'')
      else if \<not> validateAudience (fld p ''aud'') (as_audience s @ (if shadowTicket then ''.shadow-v1'' else []))
      then Inl (shadowTicket, ''Connect ticket audience is invalid.'')
      else case parseNumericDateClaim (fld p ''exp'') of
        None \<Rightarrow> Inl (False, ''Connect ticket is missing exp claim.'')
      | Some e \<Rightarrow>
          if of_int e + skew < of_int now then Inl (False, ''Connect ticket has expired.'')
          else if nbf \<noteq> None \<and> of_int now + skew < of_int (the nbf) then Inl (False, ''Connect ticket is not active yet.'')
          else check_session s host p)"

section \<open>The token\<close>

datatype verdict = Valid ticket_identity | Invalid bool string

text \<open>
  The runtime gate as the check finds it: its configuration, the agent's two files, the clock and the
  outcome of a write. The gate may be absent.
\<close>

record gate_access =
  ga_config :: gate_config
  ga_journal :: file_state
  ga_desired :: file_state
  ga_now :: int
  ga_run :: replace_run

definition claims_identity :: "claims \<Rightarrow> ticket_identity" where
  "claims_identity c =
     (if cl_sessionRequestId c \<noteq> None
      then \<lparr>ti_sessionRequestId = cl_sessionRequestId c, ti_shadowSessionRequestId = None,
            ti_activeSessionId = cl_activeSessionId c, ti_codecPolicy = Some (cl_codecPolicy c)\<rparr>
      else \<lparr>ti_sessionRequestId = None, ti_shadowSessionRequestId = cl_shadowSessionRequestId c,
            ti_activeSessionId = None, ti_codecPolicy = Some (cl_codecPolicy c)\<rparr>)"

definition claims_ticket :: "claims \<Rightarrow> ticket" where
  "claims_ticket c = \<lparr>tk_issuedAt = cl_issuedAt c, tk_sessionRequestId = cl_sessionRequestId c\<rparr>"

definition gate_admits :: "gate_access \<Rightarrow> claims \<Rightarrow> gate option \<Rightarrow> verdict \<times> gate option" where
  "gate_admits ga c gt = (case gt of
     None \<Rightarrow> (Valid (claims_identity c), None)
   | Some t \<Rightarrow>
       if cl_sessionRequestId c \<noteq> None \<and> gt_journalBlock t \<notin> {None, Some []}
       then (Invalid True (the (gt_journalBlock t)), Some t)
       else (case rejectReasonForTicket (ga_config ga) (ga_journal ga) (ga_desired ga) (claims_ticket c) t of
         (Some r, t) \<Rightarrow> (Invalid True (reason_text r), Some t)
       | (None, t) \<Rightarrow>
           (case cl_sessionRequestId c of
              None \<Rightarrow> (Valid (claims_identity c), Some t)
            | Some request \<Rightarrow>
                (case recordManagedViewerAdmission (ga_config ga) (JStr request) (opt_str (cl_activeSessionId c))
                        (ga_now ga) (ga_run ga) t of
                   (Some r, t) \<Rightarrow> (Invalid True (reason_text r), Some t)
                 | (None, t) \<Rightarrow> (Valid (claims_identity c), Some t)))))"

definition validateToken ::
  "auth_lib \<Rightarrow> auth_settings \<Rightarrow> gate_access \<Rightarrow> int \<Rightarrow> string \<Rightarrow> string \<Rightarrow> gate option \<Rightarrow> verdict \<times> gate option" where
  "validateToken al s ga now token host gt = (case split_char (CHR ''.'') token of
     [h, p, sig] \<Rightarrow>
       (let parse = (\<lambda>seg. Option.bind (decodeBase64Url al seg) (\<lambda>b. al_json al (al_utf8 al b))) in
        case (parse h, parse p, decodeBase64Url al sig) of
          (Some header, Some payload, Some provided) \<Rightarrow>
            if \<not> is_obj header \<or> \<not> is_obj payload
            then (Invalid False ''Connect ticket JWT header and payload must be objects.'', gt)
            else if fld header ''alg'' \<noteq> JStr ''HS256'' then (Invalid False ''Connect ticket JWT alg must be HS256.'', gt)
            else if \<not> timingSafeBufferEqual provided (al_hmac al (as_signingKey s) (h @ ''.'' @ p))
            then (Invalid False ''Connect ticket JWT signature is invalid.'', gt)
            else (case check_claims s host now payload of
              Inl (force, reason) \<Rightarrow> (Invalid force reason, gt)
            | Inr c \<Rightarrow> gate_admits ga c gt)
        | _ \<Rightarrow> (Invalid False ''Connect ticket JWT could not be decoded.'', gt))
   | _ \<Rightarrow> (Invalid False ''Connect ticket JWT format is invalid.'', gt))"

section \<open>The verifier\<close>

text \<open>
  The callback's answer, and the identity it leaves on the request: \<open>Some\<close> exactly when the request is
  marked as validated.
\<close>

datatype answer = Admit | Deny nat string

definition verify ::
  "auth_lib \<Rightarrow> auth_settings \<Rightarrow> gate_access \<Rightarrow> int \<Rightarrow> upgrade \<Rightarrow> gate option
    \<Rightarrow> answer \<times> ticket_identity option \<times> gate option" where
  "verify al s ga now req gt =
     (let host = parseHostFromRequest req;
          (verdict, gt) = (case parseTicketFromRequest al req host of
              None \<Rightarrow> (Invalid True ''Connect ticket verification is temporarily unavailable.'', gt)
            | Some token \<Rightarrow>
                if token \<noteq> [] then validateToken al s ga now token host gt
                else (Invalid False ''Connect ticket (ct) is required.'', gt)) in
      case verdict of
        Valid identity \<Rightarrow> (Admit, Some identity, gt)
      | Invalid force reason \<Rightarrow>
          if force then (Deny 503 (if reason = [] then ''Commercial connect-ticket admission is blocked.'' else reason), None, gt)
          else if as_mode s = Auth_enforce
          then (Deny 401 (if reason = [] then ''Connect ticket validation failed.'' else reason), None, gt)
          else (Admit, None, gt))"

text \<open>\<open>Inr None\<close> is no verifier at all: every upgrade is admitted without an identity.\<close>

definition createPlayerVerifyClient ::
  "auth_lib \<Rightarrow> auth_settings
    \<Rightarrow> string + (gate_access \<Rightarrow> int \<Rightarrow> upgrade \<Rightarrow> gate option \<Rightarrow> answer \<times> ticket_identity option \<times> gate option) option" where
  "createPlayerVerifyClient al raw = (case normalizeAuthSettings raw of
     Inl e \<Rightarrow> Inl e
   | Inr s \<Rightarrow> if as_mode s = Auth_off then Inr None else Inr (Some (verify al s)))"

end
