(* ===== verification/Connect_Ticket_Auth_Properties.thy ===== *)
theory Connect_Ticket_Auth_Properties
  imports Connect_Ticket_Auth
begin

text \<open>What the connect-ticket check promises, alone and together with the gate and the signalling server.\<close>

section \<open>Claims\<close>

definition audience_ok :: "auth_settings \<Rightarrow> jsval \<Rightarrow> bool" where
  "audience_ok s p \<longleftrightarrow> validateAudience (fld p ''aud'')
     (as_audience s @ (if fld p ''shadowSessionRequestId'' \<noteq> JUndef then ''.shadow-v1'' else []))"

definition timely :: "auth_settings \<Rightarrow> int \<Rightarrow> jsval \<Rightarrow> bool" where
  "timely s now p \<longleftrightarrow>
     (\<exists>e. parseNumericDateClaim (fld p ''exp'') = Some e \<and> of_int now \<le> of_int e + skew_of (as_clockSkewSeconds s))
     \<and> (\<forall>n. parseNumericDateClaim (fld p ''nbf'') = Some n \<longrightarrow> of_int n \<le> of_int now + skew_of (as_clockSkewSeconds s))"

definition optional_guid :: "jsval \<Rightarrow> bool" where
  "optional_guid v \<longleftrightarrow> v = JUndef \<or> parseGuidClaim v \<noteq> None"

text \<open>Either a managed session or the shadow of one, never both, and a codec policy.\<close>

definition identity_ok :: "jsval \<Rightarrow> bool" where
  "identity_ok p \<longleftrightarrow> (if fld p ''shadowSessionRequestId'' = JUndef then parseGuidClaim (fld p ''sessionRequestId'') \<noteq> None
       else parseGuidClaim (fld p ''shadowSessionRequestId'') \<noteq> None \<and> parseGuidClaim (fld p ''sessionRequestId'') = None
         \<and> fld p ''activeSessionId'' = JUndef)
     \<and> parseCodecPolicy (fld p ''codecPolicy'') \<noteq> None"

definition claims_read :: "jsval \<Rightarrow> claims" where
  "claims_read p = \<lparr>cl_sessionRequestId = parseGuidClaim (fld p ''sessionRequestId''),
     cl_shadowSessionRequestId = parseGuidClaim (fld p ''shadowSessionRequestId''),
     cl_activeSessionId = parseGuidClaim (fld p ''activeSessionId''),
     cl_codecPolicy = the (parseCodecPolicy (fld p ''codecPolicy'')),
     cl_issuedAt = (case parseNumericDateClaim (fld p ''iat'') of
         Some i \<Rightarrow> Some i | None \<Rightarrow> parseNumericDateClaim (fld p ''nbf''))\<rparr>"

text \<open>What a payload has to say for this server, this host and this time, and what the check reads from it.\<close>

definition claims_ok :: "auth_settings \<Rightarrow> string \<Rightarrow> int \<Rightarrow> jsval \<Rightarrow> claims \<Rightarrow> bool" where
  "claims_ok s host now p c \<longleftrightarrow>
     fld p ''iss'' = JStr (as_issuer s) \<and> audience_ok s p \<and> timely s now p
     \<and> trim (str_claim (fld p ''instanceId'')) = as_instanceId s
     \<and> optional_guid (fld p ''sessionRequestId'') \<and> optional_guid (fld p ''activeSessionId'') \<and> identity_ok p
     \<and> normalizeRouteKey (str_claim (fld p ''routeKey'')) \<noteq> []
     \<and> host = normalizeRouteKey (str_claim (fld p ''routeKey'')) @ ''.'' @ as_routeHostSuffix s
     \<and> c = claims_read p"

text \<open>
  The claims that block the upgrade in every mode: those of a shadow ticket for another audience, and those
  that pass up to the identity, which they lack or mix up.
\<close>

definition blocked_claims :: "auth_settings \<Rightarrow> int \<Rightarrow> jsval \<Rightarrow> bool" where
  "blocked_claims s now p \<longleftrightarrow> fld p ''iss'' = JStr (as_issuer s)
     \<and> (if audience_ok s p
        then timely s now p \<and> trim (str_claim (fld p ''instanceId'')) = as_instanceId s
          \<and> optional_guid (fld p ''sessionRequestId'') \<and> \<not> identity_ok p
        else fld p ''shadowSessionRequestId'' \<noteq> JUndef)"

lemma parseGuidClaim_undef: "parseGuidClaim v \<noteq> None \<Longrightarrow> v \<noteq> JUndef"
  by (cases v) auto

lemma str_claim_eq: "\<lbrakk>str_claim v = s; s \<noteq> []\<rbrakk> \<Longrightarrow> v = JStr s"
  by (cases v) auto

text \<open>A chain of guards passes exactly when no guard applies.\<close>

lemma passes_guards:
  "(if b then Inl x else y) = Inr c \<longleftrightarrow> \<not> b \<and> y = Inr c"
  "(case z of None \<Rightarrow> Inl x | Some a \<Rightarrow> f a) = Inr c \<longleftrightarrow> (\<exists>a. z = Some a \<and> f a = Inr c)"
  "(if b then None else z) = Some a \<longleftrightarrow> \<not> b \<and> z = Some a"
  by (auto split: option.split)

lemma check_route_Inr:
  "check_route s host p c = Inr c' \<Longrightarrow> c' = c
    \<and> host = normalizeRouteKey (str_claim (fld p ''routeKey'')) @ ''.'' @ as_routeHostSuffix s
    \<and> normalizeRouteKey (str_claim (fld p ''routeKey'')) \<noteq> []"
  unfolding check_route_def Let_def passes_guards by simp

lemma check_session_Inr:
  assumes "check_session s host p = Inr c"
  shows "trim (str_claim (fld p ''instanceId'')) = as_instanceId s"
    "host = normalizeRouteKey (str_claim (fld p ''routeKey'')) @ ''.'' @ as_routeHostSuffix s"
    "normalizeRouteKey (str_claim (fld p ''routeKey'')) \<noteq> []"
    "parseCodecPolicy (fld p ''codecPolicy'') = Some (cl_codecPolicy c)"
    "cl_sessionRequestId c = parseGuidClaim (fld p ''sessionRequestId'')"
    "cl_shadowSessionRequestId c = parseGuidClaim (fld p ''shadowSessionRequestId'')"
    "cl_activeSessionId c = parseGuidClaim (fld p ''activeSessionId'')"
    "cl_sessionRequestId c = None \<longleftrightarrow> cl_shadowSessionRequestId c \<noteq> None"
    "fld p ''shadowSessionRequestId'' \<noteq> JUndef \<longleftrightarrow> cl_shadowSessionRequestId c \<noteq> None"
proof -
  from assms obtain policy where p: "trim (str_claim (fld p ''instanceId'')) = as_instanceId s"
    "\<not> ((fld p ''shadowSessionRequestId'' \<noteq> JUndef \<and> parseGuidClaim (fld p ''shadowSessionRequestId'') = None)
        \<or> (parseGuidClaim (fld p ''shadowSessionRequestId'') \<noteq> None
           \<and> (parseGuidClaim (fld p ''sessionRequestId'') \<noteq> None \<or> fld p ''activeSessionId'' \<noteq> JUndef)))"
    "\<not> (parseGuidClaim (fld p ''sessionRequestId'') = None \<and> parseGuidClaim (fld p ''shadowSessionRequestId'') = None)"
    "parseCodecPolicy (fld p ''codecPolicy'') = Some policy"
    and c: "check_route s host p \<lparr>cl_sessionRequestId = parseGuidClaim (fld p ''sessionRequestId''),
      cl_shadowSessionRequestId = parseGuidClaim (fld p ''shadowSessionRequestId''),
      cl_activeSessionId = parseGuidClaim (fld p ''activeSessionId''), cl_codecPolicy = policy,
      cl_issuedAt = (case parseNumericDateClaim (fld p ''iat'') of
          Some i \<Rightarrow> Some i | None \<Rightarrow> parseNumericDateClaim (fld p ''nbf''))\<rparr> = Inr c"
    unfolding check_session_def Let_def passes_guards by blast
  note r = check_route_Inr [OF c]
  from p r parseGuidClaim_undef [of "fld p ''shadowSessionRequestId''"]
  show "trim (str_claim (fld p ''instanceId'')) = as_instanceId s"
    "host = normalizeRouteKey (str_claim (fld p ''routeKey'')) @ ''.'' @ as_routeHostSuffix s"
    "normalizeRouteKey (str_claim (fld p ''routeKey'')) \<noteq> []"
    "parseCodecPolicy (fld p ''codecPolicy'') = Some (cl_codecPolicy c)"
    "cl_sessionRequestId c = parseGuidClaim (fld p ''sessionRequestId'')"
    "cl_shadowSessionRequestId c = parseGuidClaim (fld p ''shadowSessionRequestId'')"
    "cl_activeSessionId c = parseGuidClaim (fld p ''activeSessionId'')"
    "cl_sessionRequestId c = None \<longleftrightarrow> cl_shadowSessionRequestId c \<noteq> None"
    "fld p ''shadowSessionRequestId'' \<noteq> JUndef \<longleftrightarrow> cl_shadowSessionRequestId c \<noteq> None"
    by auto
qed

lemma guid_undef [simp]: "parseGuidClaim JUndef = None" "optional_guid JUndef"
  by (simp_all add: optional_guid_def)

lemma check_claims_stages:
  assumes "as_issuer s \<noteq> []"
  shows "check_claims s host now p =
    (if fld p ''iss'' \<noteq> JStr (as_issuer s) then Inl (False, ''Connect ticket issuer is invalid.'')
     else if \<not> audience_ok s p then Inl (fld p ''shadowSessionRequestId'' \<noteq> JUndef, ''Connect ticket audience is invalid.'')
     else if timely s now p then check_session s host p
     else Inl (False, if parseNumericDateClaim (fld p ''exp'') = None then ''Connect ticket is missing exp claim.''
       else if of_int (the (parseNumericDateClaim (fld p ''exp''))) + skew_of (as_clockSkewSeconds s) < of_int now
       then ''Connect ticket has expired.'' else ''Connect ticket is not active yet.''))"
proof -
  have i: "str_claim (fld p ''iss'') = as_issuer s \<longleftrightarrow> fld p ''iss'' = JStr (as_issuer s)"
    using str_claim_eq [OF _ assms] by auto
  show ?thesis
    unfolding check_claims_def Let_def i
    by (auto simp: audience_ok_def timely_def not_less not_le split: option.splits)
qed

lemma check_route_never_blocks: "check_route s host p c \<noteq> Inl (True, r)"
  by (simp add: check_route_def Let_def)

lemma check_session_identity:
  assumes "as_instanceId s \<noteq> []" "trim (str_claim (fld p ''instanceId'')) = as_instanceId s" "optional_guid (fld p ''sessionRequestId'')"
  shows "identity_ok p \<Longrightarrow> check_session s host p = check_route s host p (claims_read p)"
    "\<not> identity_ok p \<Longrightarrow> \<exists>r. check_session s host p = Inl (True, r)"
proof -
  let ?r = "parseGuidClaim (fld p ''sessionRequestId'')" and ?h = "parseGuidClaim (fld p ''shadowSessionRequestId'')"
  have u: "?h = None" if "fld p ''shadowSessionRequestId'' = JUndef" using that by simp
  have o: "fld p ''sessionRequestId'' \<noteq> JUndef \<and> ?r = None \<longleftrightarrow> False" using assms(3) by (auto simp: optional_guid_def)
  have i: "trim (str_claim (fld p ''instanceId'')) = [] \<or> trim (str_claim (fld p ''instanceId'')) \<noteq> as_instanceId s \<longleftrightarrow> False"
    using assms(1,2) by simp
  have e: "check_session s host p =
      (if (fld p ''shadowSessionRequestId'' \<noteq> JUndef \<and> ?h = None) \<or> (?h \<noteq> None \<and> (?r \<noteq> None \<or> fld p ''activeSessionId'' \<noteq> JUndef))
       then Inl (True, ''Invalid shadow session identity.'')
       else case (if ?r = None \<and> ?h = None then None else parseCodecPolicy (fld p ''codecPolicy'')) of
         None \<Rightarrow> Inl (True, ''A managed session identity or shadow target and signed codec policy are required.'')
       | Some policy \<Rightarrow> check_route s host p ((claims_read p)\<lparr>cl_codecPolicy := policy\<rparr>))"
    by (simp only: check_session_def Let_def i o if_False claims_read_def claims.update_convs)
  have k: "(claims_read p)\<lparr>cl_codecPolicy := policy\<rparr> = claims_read p" if "parseCodecPolicy (fld p ''codecPolicy'') = Some policy" for policy
    using that by (simp add: claims_read_def)
  show "identity_ok p \<Longrightarrow> check_session s host p = check_route s host p (claims_read p)"
    unfolding e identity_ok_def using u k by (auto split: if_splits)
  show "\<not> identity_ok p \<Longrightarrow> \<exists>r. check_session s host p = Inl (True, r)"
    unfolding e identity_ok_def using u by (auto split: if_splits)
qed

lemma check_session_other:
  assumes "as_instanceId s \<noteq> []" "\<not> (trim (str_claim (fld p ''instanceId'')) = as_instanceId s \<and> optional_guid (fld p ''sessionRequestId''))"
  shows "\<exists>r. check_session s host p = Inl (False, r)"
  using assms unfolding check_session_def Let_def optional_guid_def by auto

lemma check_session_stages:
  assumes "as_instanceId s \<noteq> []"
  shows "check_session s host p = Inr c \<longleftrightarrow> trim (str_claim (fld p ''instanceId'')) = as_instanceId s
      \<and> optional_guid (fld p ''sessionRequestId'') \<and> identity_ok p \<and> check_route s host p (claims_read p) = Inr c" (is ?A)
    "(\<exists>r. check_session s host p = Inl (True, r)) \<longleftrightarrow> trim (str_claim (fld p ''instanceId'')) = as_instanceId s
      \<and> optional_guid (fld p ''sessionRequestId'') \<and> \<not> identity_ok p" (is ?B)
proof -
  have "?A \<and> ?B"
  proof (cases "trim (str_claim (fld p ''instanceId'')) = as_instanceId s \<and> optional_guid (fld p ''sessionRequestId'')")
    case True
    then show ?thesis
      using check_session_identity [OF assms, of p host] check_route_never_blocks [of s host p "claims_read p"]
      by (cases "identity_ok p") auto
  next
    case False
    with check_session_other [OF assms False, of host] show ?thesis by auto
  qed
  then show ?A ?B by simp_all
qed

lemma check_route_iff:
  "check_route s host p c = Inr c' \<longleftrightarrow> c' = c \<and> (fld p ''activeSessionId'' = JUndef \<or> cl_activeSessionId c \<noteq> None)
    \<and> normalizeRouteKey (str_claim (fld p ''routeKey'')) \<noteq> []
    \<and> host = normalizeRouteKey (str_claim (fld p ''routeKey'')) @ ''.'' @ as_routeHostSuffix s"
  unfolding check_route_def Let_def passes_guards by auto

lemma check_claims_iff:
  assumes "as_issuer s \<noteq> []" "as_instanceId s \<noteq> []"
  shows "check_claims s host now p = Inr c \<longleftrightarrow> claims_ok s host now p c"
  unfolding check_claims_stages [OF assms(1)] passes_guards claims_ok_def
  by (auto simp: check_session_stages(1) [OF assms(2)] check_route_iff claims_read_def optional_guid_def)

lemma check_claims_blocked:
  assumes "as_issuer s \<noteq> []" "as_instanceId s \<noteq> []"
  shows "(\<exists>r. check_claims s host now p = Inl (True, r)) \<longleftrightarrow> blocked_claims s now p"
  unfolding check_claims_stages [OF assms(1)] blocked_claims_def
  using check_session_stages(2) [OF assms(2), of host p] by auto

section \<open>The token and the gate\<close>

text \<open>A token whose encoding and signature are in order, and the payload in it; then also its claims.\<close>

definition signed :: "auth_lib \<Rightarrow> auth_settings \<Rightarrow> string \<Rightarrow> jsval \<Rightarrow> bool" where
  "signed al s token payload \<longleftrightarrow> (\<exists>h p sig hb pb header.
     split_char (CHR ''.'') token = [h, p, sig]
     \<and> decodeBase64Url al h = Some hb \<and> al_json al (al_utf8 al hb) = Some header \<and> fld header ''alg'' = JStr ''HS256''
     \<and> decodeBase64Url al p = Some pb \<and> al_json al (al_utf8 al pb) = Some payload \<and> is_obj payload
     \<and> decodeBase64Url al sig = Some (al_hmac al (as_signingKey s) (h @ ''.'' @ p)))"

definition token_ok :: "auth_lib \<Rightarrow> auth_settings \<Rightarrow> string \<Rightarrow> int \<Rightarrow> string \<Rightarrow> claims \<Rightarrow> bool" where
  "token_ok al s host now token c \<longleftrightarrow> (\<exists>p. signed al s token p \<and> check_claims s host now p = Inr c)"

definition gate_accepts :: "gate_access \<Rightarrow> claims \<Rightarrow> gate option \<Rightarrow> bool" where
  "gate_accepts ga c gt \<longleftrightarrow> (\<forall>t. gt = Some t \<longrightarrow>
     fst (rejectReasonForTicket (ga_config ga) (ga_journal ga) (ga_desired ga) (claims_ticket c) t) = None
     \<and> (\<forall>request. cl_sessionRequestId c = Some request \<longrightarrow>
          gt_journalBlock t \<in> {None, Some []}
          \<and> fst (recordManagedViewerAdmission (ga_config ga) (JStr request) (opt_str (cl_activeSessionId c)) (ga_now ga) (ga_run ga)
                (snd (rejectReasonForTicket (ga_config ga) (ga_journal ga) (ga_desired ga) (claims_ticket c) t))) = None))"

lemma timing_safe [simp]: "timingSafeBufferEqual a b \<longleftrightarrow> a = b"
  by (auto simp: timingSafeBufferEqual_def)

lemma gate_admits_Valid:
  "gate_admits ga c gt = (Valid i, gt') \<Longrightarrow> i = claims_identity c \<and> gate_accepts ga c gt"
  by (auto simp: gate_admits_def gate_accepts_def split: option.splits prod.splits if_splits)

lemma gate_admits_forced: "gate_admits ga c gt = (Invalid force reason, gt') \<Longrightarrow> force"
  by (auto simp: gate_admits_def split: option.splits prod.splits if_splits)

lemma signed_unique: "\<lbrakk>signed al s token p; signed al s token q\<rbrakk> \<Longrightarrow> q = p"
  by (auto simp: signed_def)

lemma validateToken_signed:
  assumes "signed al s token p"
  shows "validateToken al s ga now token host gt = (case check_claims s host now p of
      Inl (force, reason) \<Rightarrow> (Invalid force reason, gt) | Inr c \<Rightarrow> gate_admits ga c gt)"
proof -
  from assms obtain h b sig hb pb header where t: "split_char (CHR ''.'') token = [h, b, sig]"
    "decodeBase64Url al h = Some hb" "al_json al (al_utf8 al hb) = Some header" "fld header ''alg'' = JStr ''HS256''"
    "decodeBase64Url al b = Some pb" "al_json al (al_utf8 al pb) = Some p" "is_obj p"
    "decodeBase64Url al sig = Some (al_hmac al (as_signingKey s) (h @ ''.'' @ b))"
    unfolding signed_def by blast
  have "is_obj header" using t(4) by (cases header) auto
  with t show ?thesis by (simp add: validateToken_def)
qed

lemma validateToken_unsigned:
  assumes "\<nexists>p. signed al s token p"
  shows "\<exists>reason. validateToken al s ga now token host gt = (Invalid False reason, gt)"
proof (cases "\<exists>h p sig. split_char (CHR ''.'') token = [h, p, sig]")
  case True
  then obtain h p sig where t: "split_char (CHR ''.'') token = [h, p, sig]" by blast
  define hd pl where "hd = Option.bind (decodeBase64Url al h) (\<lambda>b. al_json al (al_utf8 al b))"
    and "pl = Option.bind (decodeBase64Url al p) (\<lambda>b. al_json al (al_utf8 al b))"
  show ?thesis
  proof (cases "hd = None \<or> pl = None \<or> decodeBase64Url al sig = None")
    case True
    then show ?thesis unfolding validateToken_def t list.case Let_def hd_def [symmetric] pl_def [symmetric]
      by (auto split: option.split)
  next
    case False
    then obtain header payload provided where d: "hd = Some header" "pl = Some payload" "decodeBase64Url al sig = Some provided"
      by auto
    have "\<not> (is_obj payload \<and> fld header ''alg'' = JStr ''HS256'' \<and> provided = al_hmac al (as_signingKey s) (h @ ''.'' @ p))"
      using assms t d unfolding signed_def hd_def pl_def by (auto simp: bind_eq_Some_conv)
    then show ?thesis unfolding validateToken_def t list.case Let_def hd_def [symmetric] pl_def [symmetric] d
      by auto
  qed
next
  case False
  then show ?thesis unfolding validateToken_def by (auto split: list.split)
qed

lemma validateToken_cases:
  obtains (checked) c where "token_ok al s host now token c" "validateToken al s ga now token host gt = gate_admits ga c gt"
  | (failed) force reason where "validateToken al s ga now token host gt = (Invalid force reason, gt)"
      "\<not> (\<exists>c. token_ok al s host now token c)"
proof (cases "\<exists>p. signed al s token p")
  case True
  then obtain p where p: "signed al s token p" by blast
  show ?thesis
  proof (cases "check_claims s host now p")
    case (Inl e)
    have "\<not> (\<exists>c. token_ok al s host now token c)" using signed_unique [OF p] Inl by (auto simp: token_ok_def)
    with failed show ?thesis using validateToken_signed [OF p, of ga now host gt] Inl by (cases e) auto
  next
    case (Inr c)
    then show ?thesis
      using checked [of c] p validateToken_signed [OF p, of ga now host gt] by (auto simp: token_ok_def)
  qed
next
  case False
  with failed validateToken_unsigned [of al s token ga now host gt] show ?thesis by (auto simp: token_ok_def)
qed

lemma validateToken_refused:
  assumes "\<nexists>c. token_ok al s host now token c"
  shows "\<exists>reason. validateToken al s ga now token host gt
    = (Invalid (\<exists>p r. signed al s token p \<and> check_claims s host now p = Inl (True, r)) reason, gt)"
proof (cases "\<exists>p. signed al s token p")
  case True
  then obtain p where p: "signed al s token p" by blast
  with assms obtain force reason where e: "check_claims s host now p = Inl (force, reason)"
    by (cases "check_claims s host now p") (auto simp: token_ok_def)
  have "signed al s token q \<longleftrightarrow> q = p" for q using p signed_unique by blast
  then have "(\<exists>q r. signed al s token q \<and> check_claims s host now q = Inl (True, r)) \<longleftrightarrow> force" by (simp add: e)
  with validateToken_signed [OF p, of ga now host gt] e show ?thesis by auto
next
  case False
  with validateToken_unsigned [of al s token ga now host gt] show ?thesis by auto
qed

section \<open>The verifier\<close>

lemma gate_admits_iff: "gate_accepts ga c gt \<Longrightarrow> fst (gate_admits ga c gt) = Valid (claims_identity c)"
  by (auto simp: gate_admits_def gate_accepts_def split: option.splits prod.splits)

lemma token_ok_nonempty: "token_ok al s host now token c \<Longrightarrow> token \<noteq> []"
  by (auto simp: token_ok_def signed_def)

lemma verify_token:
  assumes "parseTicketFromRequest al req (parseHostFromRequest req) = Some token"
    "token_ok al s (parseHostFromRequest req) now token c"
  shows "if gate_accepts ga c gt then \<exists>gt'. verify al s ga now req gt = (Admit, Some (claims_identity c), gt')
    else \<exists>reason gt'. verify al s ga now req gt = (Deny 503 reason, None, gt')"
proof -
  let ?h = "parseHostFromRequest req"
  obtain c' where c': "token_ok al s ?h now token c'" "validateToken al s ga now token ?h gt = gate_admits ga c' gt"
    using validateToken_cases [of al s ?h now token ga gt] assms(2) by metis
  have "c' = c" using c'(1) assms(2) signed_unique by (fastforce simp: token_ok_def)
  with c' have v: "validateToken al s ga now token ?h gt = gate_admits ga c gt" by simp
  obtain verdict gt' where g: "gate_admits ga c gt = (verdict, gt')" by fastforce
  have e: "verify al s ga now req gt = (case verdict of
        Valid identity \<Rightarrow> (Admit, Some identity, gt')
      | Invalid force reason \<Rightarrow>
          if force then (Deny 503 (if reason = [] then ''Commercial connect-ticket admission is blocked.'' else reason), None, gt')
          else if as_mode s = Auth_enforce
          then (Deny 401 (if reason = [] then ''Connect ticket validation failed.'' else reason), None, gt')
          else (Admit, None, gt'))"
    unfolding verify_def Let_def assms(1) option.case v g using token_ok_nonempty [OF assms(2)] by simp
  show ?thesis
  proof (cases verdict)
    case (Valid i)
    with gate_admits_Valid [of ga c gt i gt'] g e show ?thesis by simp
  next
    case (Invalid force reason)
    with g have "\<not> gate_accepts ga c gt" using gate_admits_iff [of ga c gt] by auto
    moreover have force using gate_admits_forced [of ga c gt force reason gt'] g Invalid by simp
    ultimately show ?thesis using e Invalid by simp
  qed
qed

lemma verify_no_token:
  assumes "\<And>token c. parseTicketFromRequest al req (parseHostFromRequest req) = Some token \<Longrightarrow>
    \<not> token_ok al s (parseHostFromRequest req) now token c"
  shows "\<exists>a. verify al s ga now req gt = (a, None, gt) \<and> (as_mode s = Auth_enforce \<longrightarrow> a \<noteq> Admit)"
proof (cases "parseTicketFromRequest al req (parseHostFromRequest req)")
  case None
  then show ?thesis by (simp add: verify_def Let_def)
next
  case (Some token)
  let ?h = "parseHostFromRequest req"
  have n: "\<not> token_ok al s ?h now token c" for c using assms [OF Some] .
  show ?thesis
  proof (cases "token = []")
    case True
    then show ?thesis by (simp add: verify_def Let_def Some)
  next
    case False
    obtain force reason where "validateToken al s ga now token ?h gt = (Invalid force reason, gt)"
      using validateToken_cases [of al s ?h now token ga gt] n by metis
    then show ?thesis using False by (simp add: verify_def Let_def Some)
  qed
qed

lemma verify_refused:
  assumes "parseTicketFromRequest al req (parseHostFromRequest req) = Some token"
    "\<nexists>c. token_ok al s (parseHostFromRequest req) now token c"
  shows "if \<exists>p r. signed al s token p \<and> check_claims s (parseHostFromRequest req) now p = Inl (True, r)
    then \<exists>reason. verify al s ga now req gt = (Deny 503 reason, None, gt)
    else if as_mode s = Auth_enforce then \<exists>reason. verify al s ga now req gt = (Deny 401 reason, None, gt)
    else verify al s ga now req gt = (Admit, None, gt)"
proof (cases "token = []")
  case True
  have "\<not> signed al s [] p" for p by (simp add: signed_def)
  then show ?thesis using assms(1) True by (simp add: verify_def Let_def)
next
  case False
  obtain reason where v: "validateToken al s ga now token (parseHostFromRequest req) gt
      = (Invalid (\<exists>p r. signed al s token p \<and> check_claims s (parseHostFromRequest req) now p = Inl (True, r)) reason, gt)"
    using validateToken_refused [OF assms(2), of ga gt] by blast
  show ?thesis using False by (simp add: verify_def Let_def assms(1) v)
qed

lemma normal_settings:
  assumes "normalizeAuthSettings raw = Inr s" "as_mode s \<noteq> Auth_off"
  shows "as_issuer s \<noteq> []" "as_instanceId s \<noteq> []"
proof -
  from assms(1) have "validateSettings s = None"
    by (auto simp: normalizeAuthSettings_def Let_def split: option.splits)
  with assms(2) show "as_issuer s \<noteq> []" "as_instanceId s \<noteq> []" by (auto simp: validateSettings_def split: if_splits)
qed

text \<open>
  C15: The answer to every upgrade, exactly. It is admitted under an identity when it carries a token whose
  three parts decode, whose signature is the HMAC of its first two parts under the configured key, whose
  payload says what it has to say for this server, host and time, and which the runtime gate accepts; the
  identity is then the one of the payload. A token in order that the gate refuses is denied with 503, in
  soft mode too, and so is a signed one whose identity or shadow audience is faulty, and a request whose
  URL cannot be parsed. Every other upgrade is denied with 401 in enforce mode, and admitted without an
  identity in soft mode; the gate is not touched.
\<close>

theorem verify_decision:
  assumes "createPlayerVerifyClient al raw = Inr (Some verifier)" "normalizeAuthSettings raw = Inr s"
  shows "(parseTicketFromRequest al req (parseHostFromRequest req) = None \<longrightarrow>
        (\<exists>reason. verifier ga now req gt = (Deny 503 reason, None, gt)))
    \<and> (\<forall>token p c. parseTicketFromRequest al req (parseHostFromRequest req) = Some token
        \<and> signed al s token p \<and> claims_ok s (parseHostFromRequest req) now p c \<longrightarrow>
          (if gate_accepts ga c gt then \<exists>gt'. verifier ga now req gt = (Admit, Some (claims_identity c), gt')
           else \<exists>reason gt'. verifier ga now req gt = (Deny 503 reason, None, gt')))
    \<and> (\<forall>token. parseTicketFromRequest al req (parseHostFromRequest req) = Some token
        \<and> (\<nexists>p c. signed al s token p \<and> claims_ok s (parseHostFromRequest req) now p c) \<longrightarrow>
          (if \<exists>p. signed al s token p \<and> blocked_claims s now p then \<exists>reason. verifier ga now req gt = (Deny 503 reason, None, gt)
           else if as_mode s = Auth_enforce then \<exists>reason. verifier ga now req gt = (Deny 401 reason, None, gt)
           else verifier ga now req gt = (Admit, None, gt)))"
proof -
  from assms have v: "verifier = verify al s" and m: "as_mode s \<noteq> Auth_off"
    by (auto simp: createPlayerVerifyClient_def split: if_splits)
  note n = normal_settings [OF assms(2) m]
  have t: "token_ok al s h now token c \<longleftrightarrow> (\<exists>p. signed al s token p \<and> claims_ok s h now p c)" for h token c
    by (simp add: token_ok_def check_claims_iff [OF n])
  have b: "(\<exists>p r. signed al s token p \<and> check_claims s h now p = Inl (True, r)) \<longleftrightarrow> (\<exists>p. signed al s token p \<and> blocked_claims s now p)" for h token
    using check_claims_blocked [OF n] by blast
  show ?thesis
  proof (intro conjI impI allI)
    assume "parseTicketFromRequest al req (parseHostFromRequest req) = None"
    then show "\<exists>reason. verifier ga now req gt = (Deny 503 reason, None, gt)" by (simp add: v verify_def Let_def)
  next
    fix token p c assume "parseTicketFromRequest al req (parseHostFromRequest req) = Some token
        \<and> signed al s token p \<and> claims_ok s (parseHostFromRequest req) now p c"
    then show "if gate_accepts ga c gt then \<exists>gt'. verifier ga now req gt = (Admit, Some (claims_identity c), gt')
        else \<exists>reason gt'. verifier ga now req gt = (Deny 503 reason, None, gt')"
      unfolding v by (intro verify_token [of al req token]) (auto simp: t)
  next
    fix token assume "parseTicketFromRequest al req (parseHostFromRequest req) = Some token
        \<and> (\<nexists>p c. signed al s token p \<and> claims_ok s (parseHostFromRequest req) now p c)"
    then show "if \<exists>p. signed al s token p \<and> blocked_claims s now p then \<exists>reason. verifier ga now req gt = (Deny 503 reason, None, gt)
        else if as_mode s = Auth_enforce then \<exists>reason. verifier ga now req gt = (Deny 401 reason, None, gt)
        else verifier ga now req gt = (Admit, None, gt)"
      unfolding v b [of token "parseHostFromRequest req", symmetric] by (intro verify_refused) (auto simp: t)
  qed
qed

lemma verify_identity:
  assumes "verify al s ga now req gt = (a, Some i, gt')"
  obtains token c where "parseTicketFromRequest al req (parseHostFromRequest req) = Some token"
    "token_ok al s (parseHostFromRequest req) now token c" "gate_accepts ga c gt" "i = claims_identity c" "a = Admit"
proof (cases "\<exists>token c. parseTicketFromRequest al req (parseHostFromRequest req) = Some token
    \<and> token_ok al s (parseHostFromRequest req) now token c")
  case True
  then obtain token c where t: "parseTicketFromRequest al req (parseHostFromRequest req) = Some token"
    "token_ok al s (parseHostFromRequest req) now token c" by blast
  from verify_token [OF t, of ga gt] assms that [OF t] show ?thesis by (auto split: if_splits)
next
  case False
  with verify_no_token [of al req s now ga gt] assms show ?thesis by auto
qed

lemma verify_enforced:
  assumes "as_mode s = Auth_enforce" "verify al s ga now req gt = (Admit, identity, gt')"
  shows "identity \<noteq> None"
proof (cases "\<exists>token c. parseTicketFromRequest al req (parseHostFromRequest req) = Some token
    \<and> token_ok al s (parseHostFromRequest req) now token c")
  case True
  then obtain token c where t: "parseTicketFromRequest al req (parseHostFromRequest req) = Some token"
    "token_ok al s (parseHostFromRequest req) now token c" by blast
  from verify_token [OF t, of ga gt] assms show ?thesis by (auto split: if_splits)
next
  case False
  with verify_no_token [of al req s now ga gt] assms show ?thesis by auto
qed

text \<open>
  The fence of a teardown holds at the front door: after a recorded teardown, whatever the gate did
  since, no upgrade is admitted under an identity before a recovery has been completed, whatever token
  it carries, nor for a token issued at or before the teardown.
\<close>

theorem upgrade_fenced_by_teardown:
  assumes "gate_env g" "own g t" "time_ok g now" "markTeardownStarted g opts now run t = (True, t')"
    "\<forall>x \<in> set ops. op_ok g x" "ga_config ga = g"
    "verify al s ga epoch req (Some (gate_run g ops t')) = (a, Some i, gt')"
  shows "\<exists>k < length ops. \<exists>token n r. ops ! k = Op_complete token n r
         \<and> fst (completeCommercialRecoveryAfterReset g token n r (gate_run g (take k ops) t'))"
  by (rule verify_identity [OF assms(7)])
    (use teardown_fence [OF assms(1-5)] assms(6) in \<open>auto simp: gate_accepts_def\<close>)


section \<open>Behind the verifier\<close>

lemma guid_session_text: "parseGuidClaim v = Some g \<Longrightarrow> session_text (Some g) = Some g"
  by (cases v) (auto simp: session_text_def is_guid_def split: if_splits)

lemma claims_identity_governs:
  assumes "token_ok al s host now token c"
  shows "\<exists>i. readValidatedConnectTicketIdentity True (Some (claims_identity c)) = Some i
    \<and> ti_codecPolicy i = Some (cl_codecPolicy c)"
proof -
  from assms obtain p where "check_claims s host now p = Inr c" unfolding token_ok_def by blast
  then have "check_session s host p = Inr c" unfolding check_claims_def Let_def passes_guards by blast
  note s = check_session_Inr [OF this]
  have n: "session_text None = None" by (simp add: session_text_def)
  show ?thesis
  proof (cases "cl_sessionRequestId c")
    case None
    with s(8) obtain g where g: "cl_shadowSessionRequestId c = Some g" by auto
    with s(6) guid_session_text have "session_text (Some g) = Some g" by metis
    with None g n show ?thesis by (simp add: claims_identity_def readValidatedConnectTicketIdentity_def)
  next
    case (Some g)
    with s(5) guid_session_text have "session_text (Some g) = Some g" by metis
    with Some n show ?thesis by (simp add: claims_identity_def readValidatedConnectTicketIdentity_def)
  qed
qed

lemma open_evidence_policy: "k_policy (kc (snd (open_evidence r w)) x) = k_policy (kc w x)"
  by (auto simp: open_evidence_def recordCodec_def startNegotiationTimer_def world_simps Let_def
      split: option.split prod.split)

lemma open_evidence_policyD: "open_evidence r w = (b, w') \<Longrightarrow> k_policy (kc w' x) = k_policy (kc w x)"
  using open_evidence_policy [of r w x] by simp

lemma initialize_policy:
  "initializeCodecPolicy r (Some p) sh rdy w = (True, w') \<Longrightarrow> k_policy (kc w' r) = Some p"
  by (auto simp: initializeCodecPolicy_def refuse_shadow_def world_simps Let_def
      dest!: open_evidence_policyD [where x = r] split: if_splits option.splits)

lemma admit_policy:
  assumes "c_kind (cn w r) = PlayerConn"
  shows "k_policy (kc (admit_player r w) r) = k_policy (kc w r)"
proof -
  let ?w = "player_add r w"
  have "c_kind (cn ?w r) = PlayerConn" using assms player_add_conns(2) [of r w] by (simp add: route_def)
  then have "sendConfigMessage r q ?w = protoSend r (mk_msg ''config'' [(''protocolVersion'', JStr (g_protocolVersion (w_cfg ?w))),
      (''peerConnectionOptions'', getPeerOptions ?w PlayerConn q)]) ?w" for q
    by (simp add: sendConfigMessage_def connSendMessage_def not_media_filter)
  then show ?thesis by (simp add: admit_player_def Let_def protoSend_def world_simps player_add_conns)
qed

lemma next_unlisted: "good w \<Longrightarrow> w_next w \<notin> set (listPlayers w)"
proof
  assume g: "good w" and m: "w_next w \<in> set (listPlayers w)"
  then have "player_get w (c_playerId (cn w (w_next w))) = Some (w_next w)"
    using mem_listPlayers [OF rok_players [OF good_rok [OF g]]] by blast
  with good_rok [OF g] have "c_open (cn w (w_next w))" by (auto simp: rok_def members_ok_def player_get_def)
  from good_open [OF g this] show False by simp
qed

lemma governed_admission:
  assumes "good w" and i: "readValidatedConnectTicketIdentity (pr_validated req) (pr_identity req) = Some i"
    "ti_codecPolicy i = Some p" and l: "w_next w \<in> set (listPlayers (onPlayerConnected req w))"
  shows "k_policy (kc (onPlayerConnected req w) (w_next w)) = Some p"
proof -
  let ?r = "w_next w"
  let ?w1 = "snd (allocate (new_conn PlayerConn (pr_connectionId req) (pr_qualityId req) (w_now w)) w)"
  define w2 where "w2 = registerPlayerKeepalive ?r (upd_session ?r (session_of req (Some i)) ?w1)"
  obtain b w3 where init: "initializeCodecPolicy ?r (ti_codecPolicy i) (ti_shadowSessionRequestId i) (pr_journalReady req) w2 = (b, w3)"
    by fastforce
  have eq: "onPlayerConnected req w = (if b then admit_player ?r w3 else refuse_player ?r (unregisterPlayerKeepalive ?r w3))"
    using init unfolding onPlayerConnected_def i option.case w2_def allocate_def Let_def prod.case snd_conv by simp
  have rt: "routing w3 = routing w2"
    using routing_initialize [of ?r "ti_codecPolicy i" "ti_shadowSessionRequestId i" "pr_journalReady req" w2] init by simp
  have w2: "w_players w2 = w_players w" "c_kind (cn w2 ?r) = PlayerConn"
    by (simp_all add: w2_def registerPlayerKeepalive_def allocate_def world_simps new_conn_def)
  show ?thesis
  proof (cases b)
    case True
    then have "c_kind (cn w3 ?r) = PlayerConn" using routing_eqD(6) [OF rt, of ?r] w2 by simp
    with admit_policy [of w3 ?r] True eq init i(2) initialize_policy [of ?r p _ _ w2 w3] show ?thesis
      by simp
  next
    case False
    have "w_players (refuse_player ?r w') = w_players w'" for w'
      by (simp add: refuse_player_def protoDisconnect_def eff_def split: option.split)
    with False eq have "listPlayers (onPlayerConnected req w) = listPlayers w"
      using routing_eqD(4) [OF rt] w2(1) by (simp add: listPlayers_def unregisterPlayerKeepalive_def)
    with l next_unlisted [OF assms(1)] show ?thesis by simp
  qed
qed

text \<open>
  C16: Behind an enforcing check every viewer is governed by its ticket: a player that the check admitted,
  and whose connection carries exactly the identity the check left, is registered with the server only
  under the codec policy in the payload of the signed token of its request. With the governance of the
  server this covers all the media it gets.
\<close>

theorem enforced_players_governed:
  assumes "createPlayerVerifyClient al raw = Inr (Some verifier)" "as_mode raw = Auth_enforce"
    "verifier ga epoch req gt = (Admit, identity, gt')" "reachable cfg w"
    "pr_validated player = (identity \<noteq> None)" "pr_identity player = identity"
    "w_next w \<in> set (listPlayers (server_step (EvPlayer player) now w))"
  shows "\<exists>token payload policy. parseTicketFromRequest al req (parseHostFromRequest req) = Some token
    \<and> signed al raw token payload \<and> parseCodecPolicy (fld payload ''codecPolicy'') = Some policy
    \<and> k_policy (kc (server_step (EvPlayer player) now w) (w_next w)) = Some policy"
proof -
  from assms(1) obtain s where s: "normalizeAuthSettings raw = Inr s" and v: "verifier = verify al s"
    by (auto simp: createPlayerVerifyClient_def split: sum.splits if_splits)
  have m: "as_mode s = Auth_enforce" "as_signingKey s = as_signingKey raw"
    using s assms(2) by (auto simp: normalizeAuthSettings_def Let_def split: option.splits)
  then obtain i where i: "identity = Some i" using verify_enforced [of s al ga epoch req gt identity gt'] assms(3) v by auto
  obtain token c where t: "parseTicketFromRequest al req (parseHostFromRequest req) = Some token"
    "token_ok al s (parseHostFromRequest req) epoch token c" "i = claims_identity c"
    using verify_identity [of al s ga epoch req gt Admit i gt'] assms(3) v i by metis
  from t(2) obtain p where p: "signed al s token p" "check_claims s (parseHostFromRequest req) epoch p = Inr c"
    by (auto simp: token_ok_def)
  have n: "as_issuer s \<noteq> []" "as_instanceId s \<noteq> []" using normal_settings [OF s] m by simp_all
  have pol: "parseCodecPolicy (fld p ''codecPolicy'') = Some (cl_codecPolicy c)"
    using p(2) unfolding check_claims_iff [OF n] by (auto simp: claims_ok_def identity_ok_def claims_read_def)
  from claims_identity_governs [OF t(2)] t(3) assms(5,6) i obtain j where
    "readValidatedConnectTicketIdentity (pr_validated player) (pr_identity player) = Some j"
    "ti_codecPolicy j = Some (cl_codecPolicy c)" by auto
  moreover have "good (advance now w)" by (rule good_advance [OF reachable_good [OF assms(4)]])
  moreover have "w_next (advance now w) = w_next w" by (simp add: advance_def)
  ultimately have "k_policy (kc (server_step (EvPlayer player) now w) (w_next w)) = Some (cl_codecPolicy c)"
    using governed_admission [of "advance now w" player j "cl_codecPolicy c"] assms(7) by (simp add: server_step_def)
  moreover have "signed al raw token p" using p(1) m(2) by (simp add: signed_def)
  ultimately show ?thesis using t(1) pol by blast
qed


section \<open>Route keys\<close>

abbreviation "no_double_dash \<equiv> successively (\<lambda>a b. a \<noteq> CHR ''-'' \<or> b \<noteq> CHR ''-'')"

definition label_chars :: "string \<Rightarrow> bool" where
  "label_chars k \<longleftrightarrow> list_all (\<lambda>c. isDnsLabelChar c \<or> c = CHR ''-'') k"

lemma dash_no_label: "\<not> isDnsLabelChar (CHR ''-'')"
  by code_simp

lemma route_loop_shape:
  assumes "label_chars out" "no_double_dash out" "dash \<longleftrightarrow> out \<noteq> [] \<and> last out = CHR ''-''"
  shows "label_chars (route_loop cs out dash) \<and> no_double_dash (route_loop cs out dash)"
  using assms
proof (induction cs out dash rule: route_loop.induct)
  case (2 c cs out dash)
  have "c \<noteq> CHR ''-''" if "isDnsLabelChar c" using that dash_no_label by auto
  with 2 show ?case by (simp add: label_chars_def successively_append_iff)
qed simp

lemma route_loop_fixed:
  "\<lbrakk>label_chars k; no_double_dash k; dash \<longrightarrow> k = [] \<or> hd k \<noteq> CHR ''-''\<rbrakk> \<Longrightarrow> route_loop k out dash = out @ k"
  by (induction k arbitrary: out dash) (auto simp: label_chars_def successively_Cons dash_no_label)

lemma strip_shape:
  fixes s :: string
  defines "t \<equiv> strip_dashes s"
  assumes "label_chars s" "no_double_dash s"
  shows "label_chars t" "no_double_dash t" "t \<noteq> [] \<Longrightarrow> hd t \<noteq> CHR ''-''" "t \<noteq> [] \<Longrightarrow> last t \<noteq> CHR ''-''"
proof -
  define u where "u = dropWhile (\<lambda>c. c = CHR ''-'') s"
  have t: "t = rev (dropWhile (\<lambda>c. c = CHR ''-'') (rev u))" by (simp add: t_def strip_dashes_def u_def)
  have "prefix t u" unfolding t by (metis suffix_dropWhile suffix_to_prefix rev_rev_ident)
  then obtain z where z: "u = t @ z" by (auto simp: prefix_def)
  obtain y where y: "s = y @ u" using suffix_dropWhile [of "\<lambda>c. c = CHR ''-''" s] by (auto simp: suffix_def u_def)
  show "label_chars t" using assms(2) y z by (simp add: label_chars_def)
  show "no_double_dash t" using assms(3) y z by (auto simp: successively_append_iff)
  show "t \<noteq> [] \<Longrightarrow> hd t \<noteq> CHR ''-''" using z hd_dropWhile [of "\<lambda>c. c = CHR ''-''" s] by (auto simp: u_def [symmetric])
  show "t \<noteq> [] \<Longrightarrow> last t \<noteq> CHR ''-''"
    unfolding t using hd_dropWhile [of "\<lambda>c. c = CHR ''-''" "rev u"] by (simp add: last_rev)
qed

lemma strip_fixed: "\<lbrakk>k \<noteq> [] \<Longrightarrow> hd k \<noteq> CHR ''-''; k \<noteq> [] \<Longrightarrow> last k \<noteq> CHR ''-''\<rbrakk> \<Longrightarrow> strip_dashes k = k"
  by (cases "k = []") (simp_all add: strip_dashes_def dropWhile_idem_hd hd_rev)

lemma label_char_lower: "isDnsLabelChar c \<or> c = CHR ''-'' \<Longrightarrow> lower_char c = c \<and> \<not> is_ws c"
  by (auto simp: isDnsLabelChar_def lower_char_def is_ws_def Let_def)

lemma label_chars_input: "label_chars k \<Longrightarrow> to_lower (trim k) = k"
  using trim_no_ws [of k] label_char_lower by (simp add: label_chars_def list_all_iff to_lower_def map_idI)

text \<open>
  A route key that is accepted is a host label: at most 63 lower-case letters, digits and dashes, with
  no dash at either end and no two in a row; and what has been normalised once stays as it is.
\<close>

theorem normalizeRouteKey_label:
  "let k = normalizeRouteKey v in length k \<le> 63 \<and> label_chars k \<and> no_double_dash k
     \<and> (k = [] \<or> hd k \<noteq> CHR ''-'' \<and> last k \<noteq> CHR ''-'') \<and> normalizeRouteKey k = k"
proof -
  let ?t = "strip_dashes (route_loop (to_lower (trim v)) [] False)"
  have s: "label_chars (route_loop (to_lower (trim v)) [] False)" "no_double_dash (route_loop (to_lower (trim v)) [] False)"
    using route_loop_shape [of "[]" False] by (simp_all add: label_chars_def)
  note t = strip_shape [OF s]
  have e: "normalizeRouteKey ?t = (if 63 < length ?t then [] else ?t)" if "?t \<noteq> []"
    using t that route_loop_fixed [of ?t False "[]"] strip_fixed [of ?t]
    by (simp add: normalizeRouteKey_def label_chars_input)
  have n: "normalizeRouteKey [] = []" by (simp add: normalizeRouteKey_def to_lower_def)
  have "normalizeRouteKey v = (if to_lower (trim v) = [] \<or> 63 < length ?t then [] else ?t)"
    by (simp add: normalizeRouteKey_def Let_def)
  then show ?thesis using t e n by (cases "?t = []") (auto simp: Let_def label_chars_def not_less)
qed

end
