(* ===== verification/Connect_Ticket_Auth_Examples.thy ===== *)
theory Connect_Ticket_Auth_Examples
  imports Connect_Ticket_Auth_Properties
begin

text \<open>
  The check at work, for the witnesses: a library that decodes one token, the settings of an enforcing
  server, and the two requests that carry the token of an owner and of an admin shadow.
\<close>

definition demo_auth :: auth_settings where
  "demo_auth = \<lparr>as_mode = Auth_enforce, as_issuer = ''iss'', as_audience = ''aud'',
     as_signingKey = replicate 32 (CHR ''k''), as_instanceId = ''i1'', as_routeHostSuffix = ''ex.org'',
     as_clockSkewSeconds = Fin 5\<rparr>"

definition demo_guid :: string where
  "demo_guid = ''aaaaaaaa-aaaa-aaaa-aaaa-aaaaaaaaaaaa''"

definition demo_payload :: "string \<Rightarrow> jsval" where
  "demo_payload key = JObj [(''iss'', JStr ''iss''), (''aud'', JArr [JStr ''aud'', JStr ''aud.shadow-v1'']),
     (''exp'', JNum (Fin 1000)), (''iat'', JNum (Fin 100)), (''instanceId'', JStr ''i1''), (''routeKey'', JStr ''r1''),
     (''codecPolicy'', policy_value demo_policy), (key, JStr demo_guid)]"

definition demo_al :: "string \<Rightarrow> auth_lib" where
  "demo_al key = \<lparr>al_base64 = (\<lambda>s. s), al_utf8 = (\<lambda>s. s),
     al_json = (\<lambda>s. if s = ''hh=='' then Some (JObj [(''alg'', JStr ''HS256'')])
                    else if s = ''pp=='' then Some (demo_payload key) else None),
     al_hmac = (\<lambda>k m. ''ss==''), al_ct = (\<lambda>u h. Some (Some ''hh.pp.ss''))\<rparr>"

definition demo_upgrade :: upgrade where
  "demo_upgrade = \<lparr>up_forwardedHost = JUndef, up_host = JStr ''r1.ex.org:443'', up_url = ''/''\<rparr>"

definition demo_claims :: "string \<Rightarrow> claims" where
  "demo_claims key = \<lparr>cl_sessionRequestId = (if key = ''sessionRequestId'' then Some demo_guid else None),
     cl_shadowSessionRequestId = (if key = ''sessionRequestId'' then None else Some demo_guid),
     cl_activeSessionId = None, cl_codecPolicy = demo_policy, cl_issuedAt = Some 100\<rparr>"

lemma demo_names:
  "trim demo_guid = demo_guid" "is_guid demo_guid" "trim ''i1'' = ''i1''" "normalizeRouteKey ''r1'' = ''r1''"
  "split_char (CHR ''.'') ''hh.pp.ss'' = [''hh'', ''pp'', ''ss'']"
  by code_simp+

lemma demo_host: "parseHostFromRequest demo_upgrade = ''r1.ex.org''"
  by code_simp

lemma demo_ct: "parseTicketFromRequest (demo_al key) demo_upgrade h = Some ''hh.pp.ss''"
proof -
  have "trim ''hh.pp.ss'' = ''hh.pp.ss''" by code_simp
  then show ?thesis by (simp add: parseTicketFromRequest_def demo_al_def)
qed

lemma demo_decode: "decodeBase64Url (demo_al key) ''hh'' = Some ''hh==''" "decodeBase64Url (demo_al key) ''pp'' = Some ''pp==''"
  "decodeBase64Url (demo_al key) ''ss'' = Some ''ss==''"
  by (simp_all add: decodeBase64Url_def demo_al_def)

lemma demo_policy_parse: "parseCodecPolicy (policy_value demo_policy) = Some demo_policy"
  by (simp add: parseCodecPolicy_Some_iff) (simp add: policy_value_def)

lemma demo_auth_fields [simp]: "as_mode demo_auth = Auth_enforce" "as_issuer demo_auth = ''iss''" "as_audience demo_auth = ''aud''"
  "as_instanceId demo_auth = ''i1''" "as_routeHostSuffix demo_auth = ''ex.org''" "as_clockSkewSeconds demo_auth = Fin 5"
  by (simp_all add: demo_auth_def)

lemma demo_fld [simp]: "fld (demo_payload key) ''iss'' = JStr ''iss''"
  "fld (demo_payload key) ''aud'' = JArr [JStr ''aud'', JStr ''aud.shadow-v1'']"
  "fld (demo_payload key) ''exp'' = JNum (Fin 1000)" "fld (demo_payload key) ''iat'' = JNum (Fin 100)"
  "fld (demo_payload key) ''instanceId'' = JStr ''i1''" "fld (demo_payload key) ''routeKey'' = JStr ''r1''"
  "fld (demo_payload key) ''codecPolicy'' = policy_value demo_policy"
  "fld (demo_payload ''sessionRequestId'') ''nbf'' = JUndef"
  "fld (demo_payload ''shadowSessionRequestId'') ''nbf'' = JUndef"
  "fld (demo_payload ''sessionRequestId'') ''activeSessionId'' = JUndef"
  "fld (demo_payload ''shadowSessionRequestId'') ''activeSessionId'' = JUndef"
  "fld (demo_payload ''sessionRequestId'') ''sessionRequestId'' = JStr demo_guid"
  "fld (demo_payload ''sessionRequestId'') ''shadowSessionRequestId'' = JUndef"
  "fld (demo_payload ''shadowSessionRequestId'') ''sessionRequestId'' = JUndef"
  "fld (demo_payload ''shadowSessionRequestId'') ''shadowSessionRequestId'' = JStr demo_guid"
  by (simp_all add: demo_payload_def)

abbreviation "demo_keys \<equiv> {''sessionRequestId'', ''shadowSessionRequestId''}"

lemma demo_session_check: "key \<in> demo_keys \<Longrightarrow>
    check_session demo_auth ''r1.ex.org'' (demo_payload key) = Inr (demo_claims key)"
  by (elim insertE emptyE) (simp_all add: check_session_def check_route_def demo_names demo_policy_parse demo_claims_def)

lemma demo_check: "key \<in> demo_keys \<Longrightarrow> check_claims demo_auth ''r1.ex.org'' 100 (demo_payload key) = Inr (demo_claims key)"
  using demo_session_check [of key] by (elim insertE emptyE) (simp_all add: check_claims_def)

lemma demo_al_fields [simp]: "al_utf8 (demo_al key) s = s" "al_json (demo_al key) ''pp=='' = Some (demo_payload key)"
  "al_json (demo_al key) ''hh=='' = Some (JObj [(''alg'', JStr ''HS256'')])" "al_hmac (demo_al key) k m = ''ss==''"
  by (simp_all add: demo_al_def)

lemma demo_signed: "signed (demo_al key) demo_auth ''hh.pp.ss'' (demo_payload key)"
  unfolding signed_def demo_names
  by (rule exI [of _ "''hh''"], rule exI [of _ "''pp''"], rule exI [of _ "''ss''"], rule exI [of _ "''hh==''"],
      rule exI [of _ "''pp==''"], rule exI [of _ "JObj [(''alg'', JStr ''HS256'')]"])
    (simp add: demo_decode, simp add: demo_payload_def)

lemma demo_token: "key \<in> demo_keys \<Longrightarrow> token_ok (demo_al key) demo_auth ''r1.ex.org'' 100 ''hh.pp.ss'' (demo_claims key)"
  using demo_signed demo_check unfolding token_ok_def by blast

lemma demo_admitted:
  assumes "key \<in> demo_keys" "gate_accepts ga (demo_claims key) gt"
  shows "\<exists>gt'. verify (demo_al key) demo_auth ga 100 demo_upgrade gt = (Admit, Some (claims_identity (demo_claims key)), gt')"
  using verify_token [where al = "demo_al key" and req = demo_upgrade and s = demo_auth and token = "''hh.pp.ss''"
      and now = 100 and c = "demo_claims key" and ga = ga and gt = gt] demo_token [OF assms(1)] demo_ct assms(2)
  by (simp add: demo_host)

definition demo_access :: gate_access where
  "demo_access = \<lparr>ga_config = demo_gc, ga_journal = Missing, ga_desired = Missing, ga_now = 100, ga_run = durable\<rparr>"

lemma demo_auth_texts: "trim ''iss'' = ''iss''" "trim ''aud'' = ''aud''" "normalizeHost ''ex.org'' = ''ex.org''"
  by code_simp+

lemma demo_suffix: "UriCheckHostName ''ex.org''"
  by (simp add: UriCheckHostName_def isDnsLabelChar_def lower_char_def Let_def)

lemma demo_auth_normal: "normalizeAuthSettings demo_auth = Inr demo_auth"
  by (simp add: normalizeAuthSettings_def demo_auth_texts demo_suffix demo_names validateSettings_def demo_auth_def Let_def)

lemma demo_verifier: "createPlayerVerifyClient (demo_al key) demo_auth = Inr (Some (verify (demo_al key) demo_auth))"
  by (simp add: createPlayerVerifyClient_def demo_auth_normal)

theorem verify_decision_witness:
  "\<exists>gt'. verify (demo_al ''sessionRequestId'') demo_auth demo_access 100 demo_upgrade None
     = (Admit, Some (claims_identity (demo_claims ''sessionRequestId'')), gt')"
proof -
  have a: "gate_accepts demo_access (demo_claims ''sessionRequestId'') None" by (simp add: gate_accepts_def)
  have "as_issuer demo_auth \<noteq> []" "as_instanceId demo_auth \<noteq> []" by simp_all
  then have "claims_ok demo_auth ''r1.ex.org'' 100 (demo_payload ''sessionRequestId'') (demo_claims ''sessionRequestId'')"
    using demo_check [of "''sessionRequestId''"] check_claims_iff by blast
  then have t: "parseTicketFromRequest (demo_al ''sessionRequestId'') demo_upgrade (parseHostFromRequest demo_upgrade) = Some ''hh.pp.ss''
      \<and> signed (demo_al ''sessionRequestId'') demo_auth ''hh.pp.ss'' (demo_payload ''sessionRequestId'')
      \<and> claims_ok demo_auth (parseHostFromRequest demo_upgrade) 100 (demo_payload ''sessionRequestId'') (demo_claims ''sessionRequestId'')"
    by (simp add: demo_ct demo_signed demo_host)
  note d = verify_decision [OF demo_verifier demo_auth_normal, of "''sessionRequestId''" demo_upgrade demo_access 100 None]
  from d [THEN conjunct2, THEN conjunct1, rule_format, OF t] a show ?thesis by simp
qed

abbreviation "demo_ops \<equiv> [Op_prepare 20 durable, Op_complete JUndef 40 durable]"

theorem upgrade_fenced_by_teardown_witness:
  "\<exists>k < length demo_ops. \<exists>token n r. demo_ops ! k = Op_complete token n r
     \<and> fst (completeCommercialRecoveryAfterReset demo_gc token n r
         (gate_run demo_gc (take k demo_ops) (snd (markTeardownStarted demo_gc demo_options 15 durable demo_gate))))"
proof -
  let ?t = "snd (markTeardownStarted demo_gc demo_options 15 durable demo_gate)"
  have "claims_ticket (demo_claims ''shadowSessionRequestId'') = demo_ticket"
    by (simp add: claims_ticket_def demo_claims_def demo_ticket_def)
  moreover have "cl_sessionRequestId (demo_claims ''shadowSessionRequestId'') = None" by (simp add: demo_claims_def)
  ultimately have "gate_accepts demo_access (demo_claims ''shadowSessionRequestId'') (Some (gate_run demo_gc demo_ops ?t))"
    using demo_recovery by (simp add: gate_accepts_def demo_access_def demo_ticket_def)
  from demo_admitted [OF _ this] obtain gt' where
    "verify (demo_al ''shadowSessionRequestId'') demo_auth demo_access 100 demo_upgrade (Some (gate_run demo_gc demo_ops ?t))
      = (Admit, Some (claims_identity (demo_claims ''shadowSessionRequestId'')), gt')" by auto
  from upgrade_fenced_by_teardown [OF demo_env demo_own(1) _ demo_torn _ _ this]
  show ?thesis by (simp add: demo_time demo_access_def)
qed

definition demo_player_request :: player_request where
  "demo_player_request = demo_request\<lparr>pr_identity := Some (claims_identity (demo_claims ''sessionRequestId''))\<rparr>"

theorem enforced_players_governed_witness:
  "k_policy (kc (server_step (EvPlayer demo_player_request) 0 demo_w2) 1) = Some demo_policy"
proof -
  have "gate_accepts demo_access (demo_claims ''sessionRequestId'') None" by (simp add: gate_accepts_def)
  from demo_admitted [OF _ this] obtain gt' where a:
    "verify (demo_al ''sessionRequestId'') demo_auth demo_access 100 demo_upgrade None
      = (Admit, Some (claims_identity (demo_claims ''sessionRequestId'')), gt')" by auto
  have "reachable demo_config demo_start" unfolding demo_start_def by (rule reachable.start)
  from reachable.step [OF reachable.step [OF this], of "EvMessage 0 (mk_msg ''endpointId'' [(''id'', JStr ''Main'')])" 0 EvStreamer 0]
  have r: "reachable demo_config demo_w2" by (simp only: demo_step1 demo_step2)
  have t: "session_text (Some demo_guid) = Some demo_guid" "session_text None = None" by code_simp+
  have "1 \<in> set (listPlayers (server_step (EvPlayer demo_player_request) 0 demo_w2))"
    by (simp add: demo_w2_def demo_w1_def admission_eval demo_player_request_def claims_identity_def demo_claims_def t
        listPlayers_def player_add_def)
  moreover have n: "w_next demo_w2 = 1" by (simp add: demo_w2_def demo_w1_def)
  moreover have "pr_validated demo_player_request" "pr_identity demo_player_request = Some (claims_identity (demo_claims ''sessionRequestId''))"
    by (simp_all add: demo_player_request_def demo_request_def)
  ultimately obtain token payload policy where p:
    "parseTicketFromRequest (demo_al ''sessionRequestId'') demo_upgrade (parseHostFromRequest demo_upgrade) = Some token"
    "signed (demo_al ''sessionRequestId'') demo_auth token payload" "parseCodecPolicy (fld payload ''codecPolicy'') = Some policy"
    "k_policy (kc (server_step (EvPlayer demo_player_request) 0 demo_w2) 1) = Some policy"
    using enforced_players_governed [OF demo_verifier _ a r, of demo_player_request 0] by auto
  from p(1) have "token = ''hh.pp.ss''" by (simp add: demo_ct)
  with p(2) have "payload = demo_payload ''sessionRequestId''" using signed_unique demo_signed by blast
  with p(3) have "policy = demo_policy" by (simp add: demo_policy_parse)
  with p(4) show ?thesis by simp
qed

end
