(* ===== verification/Frontend_Session.thy ===== *)
theory Frontend_Session
  imports Signalling_State
begin

text \<open>
  The browser's end of the signalling: the part of
  \<open>Frontend/library/src/WebRtcPlayer/WebRtcPlayerController.ts\<close> that keeps the connection, the
  subscription, the peer connection and the codec state together. A peer connection is known by the
  generation it was made in. The browser's codec lists and the settings are parameters; what is told to
  the rest of the page is a log. The names of the fields are those of the class, with a prefix.
\<close>

section \<open>State\<close>

datatype socket = No_socket | Connecting | Open | Closing | Closed

datatype effect =
    Opened
  | Wire jsval
  | Peer_new nat
  | Peer_close nat
  | Peer_offer nat
  | Peer_candidate nat jsval
  | Channel nat string jsval
  | Negotiated nat
  | Event string "jsval list"
  | Reconnect_in nat string
  | List_in

record browser =
  br_capabilities :: "string list option"
  br_codecs :: "string list"
  br_urlStreamer :: "string option"

record settings =
  st_maxReconnect :: int
  st_waitForStreamer :: bool
  st_browserSendOffer :: bool
  st_forceTURN :: bool
  st_minBitrate :: rat
  st_maxBitrate :: rat

record session =
  ws_socket :: socket
  ws_connGen :: nat
  ws_subGen :: "nat option"
  ws_active :: string
  ws_auto :: bool
  ws_subscribed :: "string option"
  ws_options :: "string list"
  ws_selected :: string
  ws_peer :: "nat option"
  ws_peerGen :: nat
  ws_peerConfig :: "jsval option"
  ws_policy :: "(string list \<times> jsval) option"
  ws_preferred :: jsval
  ws_mediaGen :: int
  ws_capsSent :: bool
  ws_lastCodec :: "string option"
  ws_attempt :: int
  ws_reconnecting :: bool
  ws_enableAuto :: bool
  ws_force :: bool
  ws_message :: "string option"
  ws_videoDone :: bool
  ws_playerId :: jsval
  ws_sfu :: bool
  ws_svc :: bool
  ws_qualities :: "string list"
  ws_offers :: "(nat \<times> jsval) list"
  ws_applying :: "nat list"
  ws_announced :: "nat list"
  ws_log :: "effect list"

definition fresh_session :: session where
  "fresh_session = \<lparr>ws_socket = No_socket, ws_connGen = 0, ws_subGen = None, ws_active = [], ws_auto = False,
     ws_subscribed = None, ws_options = [], ws_selected = [], ws_peer = None, ws_peerGen = 0, ws_peerConfig = None,
     ws_policy = None, ws_preferred = JStr [], ws_mediaGen = 0, ws_capsSent = False, ws_lastCodec = None,
     ws_attempt = 0, ws_reconnecting = False, ws_enableAuto = True, ws_force = False, ws_message = None,
     ws_videoDone = False, ws_playerId = JNull, ws_sfu = False, ws_svc = False, ws_qualities = [], ws_offers = [],
     ws_applying = [], ws_announced = [], ws_log = []\<rparr>"

definition effect :: "effect \<Rightarrow> session \<Rightarrow> session" where
  "effect e s = s\<lparr>ws_log := ws_log s @ [e]\<rparr>"

section \<open>Sending\<close>

text \<open>
  \<open>WebSocket.send\<close>: an exception while connecting, nothing once it is closing. The first component is
  whether the call returned.
\<close>

definition wire_send :: "jsval \<Rightarrow> session \<Rightarrow> bool \<times> session" where
  "wire_send m s = (case ws_socket s of
     Connecting \<Rightarrow> (False, s)
   | Open \<Rightarrow> (True, effect (Wire m) s)
   | _ \<Rightarrow> (True, s))"

definition isConnected :: "session \<Rightarrow> bool" where
  "isConnected s \<longleftrightarrow> ws_socket s \<noteq> No_socket \<and> ws_socket s \<noteq> Closed"

definition upper_char :: "char \<Rightarrow> char" where
  "upper_char c = (let n = (of_char c :: nat) in if 97 \<le> n \<and> n \<le> 122 then char_of (n - 32) else c)"

definition mime_codec :: "string \<Rightarrow> string" where
  "mime_codec m = (case split_char (CHR ''/'') m of a # b # _ \<Rightarrow> map upper_char b | _ \<Rightarrow> [])"

definition supportedCodecs :: "browser \<Rightarrow> jsval" where
  "supportedCodecs br = (case br_capabilities br of
     None \<Rightarrow> JNull
   | Some ms \<Rightarrow> JArr (map JStr (fold set_add
       (filter (\<lambda>c. c \<in> {''AV1'', ''VP9'', ''H264'', ''VP8''}) (map mime_codec ms)) [])))"

definition tag_generation :: "jsval \<Rightarrow> session \<Rightarrow> jsval" where
  "tag_generation m s =
     (if mtype m \<in> {JStr ''offer'', JStr ''answer'', JStr ''iceCandidate''}
      then put_fld ''mediaGeneration'' (num_of_int (ws_mediaGen s)) m else m)"

definition sendSignallingMessage :: "browser \<Rightarrow> jsval \<Rightarrow> session \<Rightarrow> bool \<times> session" where
  "sendSignallingMessage br m s =
     (let (ok, s) = (if \<not> ws_capsSent s \<and> mtype m \<in> {JStr ''subscribe'', JStr ''offer''}
            then wire_send (mk_msg ''scaleWorldCodecCapabilities'' [(''supportedCodecs'', supportedCodecs br)])
                   (s\<lparr>ws_capsSent := True\<rparr>)
            else (True, s)) in
      if ok then wire_send (tag_generation m s) s else (False, s))"

text \<open>A call whose exception ends the handler it is in.\<close>

definition send_msg :: "browser \<Rightarrow> jsval \<Rightarrow> session \<Rightarrow> session" where
  "send_msg br m s = snd (sendSignallingMessage br m s)"

section \<open>Peer connections\<close>

definition isCurrentPeerConnection :: "nat \<Rightarrow> session \<Rightarrow> bool" where
  "isCurrentPeerConnection g s \<longleftrightarrow> ws_peer s = Some g \<and> ws_peerGen s = g"

definition close_peer :: "nat option \<Rightarrow> session \<Rightarrow> session" where
  "close_peer p s = (case p of None \<Rightarrow> s | Some g \<Rightarrow> effect (Peer_close g) s)"

definition replacePeerConnectionController :: "settings \<Rightarrow> bool \<Rightarrow> session \<Rightarrow> session" where
  "replacePeerConnectionController st startBrowserOffer s =
     (let previous = ws_peer s;
          g = ws_peerGen s + 1;
          s = effect (Peer_new g) (s\<lparr>ws_peerGen := g, ws_peer := Some g\<rparr>);
          s = close_peer previous s in
      if startBrowserOffer \<and> st_browserSendOffer st then effect (Peer_offer g) s else s)"

definition retirePeerConnectionController :: "session \<Rightarrow> session" where
  "retirePeerConnectionController s = (case ws_peer s of
     None \<Rightarrow> s
   | Some g \<Rightarrow> effect (Peer_close g) (s\<lparr>ws_peerGen := ws_peerGen s + 1, ws_peer := None\<rparr>))"

section \<open>Connecting and closing\<close>

definition protocol_disconnect :: "session \<Rightarrow> session" where
  "protocol_disconnect s = (if ws_socket s \<in> {Connecting, Open} then s\<lparr>ws_socket := Closing\<rparr> else s)"

definition connectToSignallingServer :: "session \<Rightarrow> session" where
  "connectToSignallingServer s = s\<lparr>ws_enableAuto := True, ws_message := None, ws_socket := Connecting\<rparr>"

definition closeSignalingServer :: "string \<Rightarrow> bool \<Rightarrow> session \<Rightarrow> session" where
  "closeSignalingServer message allowReconnect s =
     protocol_disconnect (s\<lparr>ws_enableAuto := allowReconnect, ws_message := Some message\<rparr>)"

definition close_all :: "session \<Rightarrow> session" where
  "close_all s = retirePeerConnectionController (closeSignalingServer [] False s)"

definition doReconnect :: "string \<Rightarrow> session \<Rightarrow> session" where
  "doReconnect message s =
     (let s = s\<lparr>ws_reconnecting := True\<rparr> in
      if isConnected s
      then closeSignalingServer message True
             (if ws_force s then s else s\<lparr>ws_message := Some (message @ '' Reconnecting.'')\<rparr>)
      else connectToSignallingServer (effect (Event ''webRtcAutoConnect'' []) s))"

definition tryReconnect :: "string \<Rightarrow> session \<Rightarrow> session" where
  "tryReconnect message s = doReconnect message (s\<lparr>ws_force := True\<rparr>)"

definition on_open :: "browser \<Rightarrow> settings \<Rightarrow> session \<Rightarrow> session" where
  "on_open br st s =
     (let s = effect Opened (s\<lparr>ws_policy := None, ws_mediaGen := 0, ws_capsSent := False, ws_lastCodec := None,
            ws_connGen := ws_connGen s + 1, ws_subGen := None, ws_active := []\<rparr>);
          s = (if st_browserSendOffer st then s else send_msg br (mk_msg ''listStreamers'' []) s) in
      s\<lparr>ws_attempt := 0, ws_reconnecting := False\<rparr>)"

definition will_reconnect :: "settings \<Rightarrow> int \<Rightarrow> session \<Rightarrow> bool" where
  "will_reconnect st code s \<longleftrightarrow>
     (ws_force s \<or> (ws_enableAuto s \<and> 0 < st_maxReconnect st \<and> ws_attempt s < st_maxReconnect st)) \<and> code \<noteq> 1001"

definition connection_lost :: "string \<Rightarrow> bool \<Rightarrow> session \<Rightarrow> session" where
  "connection_lost message again s =
     (let s = effect (Event ''webRtcDisconnected'' [JStr message, JBool (\<not> again)]) (s\<lparr>ws_force := False\<rparr>);
          s = effect (Event ''stopAfkWarningTimer'' []) s in
      effect (Event ''inputDisabled'' []) (retirePeerConnectionController (s\<lparr>ws_subGen := None, ws_active := []\<rparr>)))"

definition on_close :: "settings \<Rightarrow> int \<Rightarrow> string \<Rightarrow> session \<Rightarrow> session" where
  "on_close st code reason s =
     (let again = will_reconnect st code s;
          message = (case ws_message s of Some m \<Rightarrow> if m = [] then reason else m | None \<Rightarrow> reason);
          s = connection_lost message again s in
      if again then effect (Reconnect_in (if ws_videoDone s then 2000 else 750) reason) s else s)"

definition reconnect_due :: "string \<Rightarrow> session \<Rightarrow> session" where
  "reconnect_due reason s = doReconnect reason (s\<lparr>ws_attempt := ws_attempt s + 1\<rparr>)"

section \<open>Sessions\<close>

definition contains :: "string \<Rightarrow> string \<Rightarrow> bool" where
  "contains w s \<longleftrightarrow> list_ex (prefix w) (suffixes s)"

fun url_texts :: "jsval \<Rightarrow> string list option" where
  "url_texts (JStr s) = Some (map (\<lambda>c. [c]) s)"
| "url_texts (JArr vs) = (if list_all (\<lambda>v. \<exists>s. v = JStr s) vs
     then Some (map (\<lambda>v. case v of JStr s \<Rightarrow> s | _ \<Rightarrow> []) vs) else None)"
| "url_texts _ = None"

fun turn_servers :: "jsval list \<Rightarrow> bool option" where
  "turn_servers [] = Some False"
| "turn_servers (v # vs) = (case url_texts (fld v ''urls'') of
     None \<Rightarrow> None
   | Some us \<Rightarrow> if list_ex (contains ''turn'') us then Some True else turn_servers vs)"

text \<open>\<open>None\<close> is an exception: what is not iterable, or an entry that is not a text.\<close>

definition checkTurnServerAvailability :: "jsval \<Rightarrow> bool option" where
  "checkTurnServerAvailability options =
     (if \<not> truthy (fld options ''iceServers'') then Some False
      else case fld options ''iceServers'' of JArr vs \<Rightarrow> turn_servers vs | _ \<Rightarrow> None)"

definition startSession :: "settings \<Rightarrow> jsval \<Rightarrow> session \<Rightarrow> session" where
  "startSession st peerConfig s =
     (let s = s\<lparr>ws_peerConfig := Some peerConfig\<rparr> in
      if \<not> st_forceTURN st then replacePeerConnectionController st True s
      else case checkTurnServerAvailability peerConfig of
        None \<Rightarrow> s
      | Some True \<Rightarrow> replacePeerConnectionController st True s
      | Some False \<Rightarrow> closeSignalingServer ''TURN cannot be forced, closing connection. Please use STUN instead.'' False s)"

definition handleOnConfigMessage :: "settings \<Rightarrow> jsval \<Rightarrow> session \<Rightarrow> session" where
  "handleOnConfigMessage st m s = startSession st (fld m ''peerConnectionOptions'') s"

definition handlePingMessage :: "browser \<Rightarrow> jsval \<Rightarrow> session \<Rightarrow> session" where
  "handlePingMessage br m s = send_msg br (mk_msg ''pong'' [(''time'', fld m ''time'')]) s"

definition handleStreamerSelectionChanged :: "browser \<Rightarrow> settings \<Rightarrow> string \<Rightarrow> session \<Rightarrow> session" where
  "handleStreamerSelectionChanged br st sid s =
     (if sid = [] \<or> sid \<notin> set (ws_options s) then s
      else
        let s = s\<lparr>ws_subscribed := Some sid\<rparr>;
            already = (ws_subGen s = Some (ws_connGen s) \<and> ws_active s = sid) in
        if \<not> isConnected s then s
        else if ws_peer s = None \<and> ws_peerConfig s = None then s
        else if ws_auto s \<and> already then s
        else
          let s = (if ws_policy s = None \<and> (ws_peer s = None \<or> already \<or> ws_active s \<noteq> [])
                   then replacePeerConnectionController st False s else s) in
          case sendSignallingMessage br (mk_msg ''subscribe'' [(''streamerId'', JStr sid)]) s of
            (True, s) \<Rightarrow> s\<lparr>ws_subGen := Some (ws_connGen s), ws_active := sid\<rparr>
          | (False, s) \<Rightarrow> s\<lparr>ws_subGen := None, ws_active := []\<rparr>)"

text \<open>The setter of the option, and \<open>setOptionSettingValue\<close>, which adds an option that is missing.\<close>

definition select_streamer :: "browser \<Rightarrow> settings \<Rightarrow> string \<Rightarrow> session \<Rightarrow> session" where
  "select_streamer br st v s =
     (if v \<in> set (ws_options s) then handleStreamerSelectionChanged br st v (s\<lparr>ws_selected := v\<rparr>) else s)"

definition setStreamerOption :: "browser \<Rightarrow> settings \<Rightarrow> string \<Rightarrow> session \<Rightarrow> session" where
  "setStreamerOption br st v s =
     select_streamer br st v (if v \<in> set (ws_options s) then s else s\<lparr>ws_options := ws_options s @ [v]\<rparr>)"

definition drop_vanished :: "string list \<Rightarrow> session \<Rightarrow> session" where
  "drop_vanished ids s =
     (if ws_subGen s = Some (ws_connGen s) \<and> ws_active s \<noteq> [] \<and> ws_active s \<notin> set ids
      then retirePeerConnectionController (s\<lparr>ws_subGen := None, ws_active := []\<rparr>) else s)"

definition wanted_streamer :: "browser \<Rightarrow> session \<Rightarrow> string" where
  "wanted_streamer br s = (case br_urlStreamer br of
     Some u \<Rightarrow> u
   | None \<Rightarrow>
       (case ws_subscribed s of
          Some sub \<Rightarrow> if sub \<noteq> [] then sub else if trim (ws_selected s) \<noteq> [] then ws_selected s else []
        | None \<Rightarrow> if trim (ws_selected s) \<noteq> [] then ws_selected s else []))"

definition auto_streamer :: "settings \<Rightarrow> string list \<Rightarrow> string \<Rightarrow> string" where
  "auto_streamer st ids wanted =
     (if wanted \<noteq> [] \<and> wanted \<in> set ids then wanted
      else if (wanted = [] \<or> \<not> st_waitForStreamer st) \<and> length ids = 1 then hd ids
      else [])"

definition join_streamer :: "browser \<Rightarrow> settings \<Rightarrow> string \<Rightarrow> session \<Rightarrow> session" where
  "join_streamer br st auto s =
     (setStreamerOption br st auto (s\<lparr>ws_attempt := 0, ws_reconnecting := False, ws_auto := True\<rparr>))\<lparr>ws_auto := False\<rparr>"

definition wait_streamer :: "settings \<Rightarrow> session \<Rightarrow> session" where
  "wait_streamer st s =
     (if \<not> st_waitForStreamer st then s
      else if ws_attempt s < st_maxReconnect st
      then effect List_in (s\<lparr>ws_attempt := ws_attempt s + 1, ws_reconnecting := True\<rparr>)
      else s\<lparr>ws_attempt := 0, ws_reconnecting := False, ws_enableAuto := False\<rparr>)"

definition handleStreamerListMessage :: "browser \<Rightarrow> settings \<Rightarrow> string list \<Rightarrow> session \<Rightarrow> session" where
  "handleStreamerListMessage br st ids s =
     (let s = drop_vanished ids s;
          wanted = wanted_streamer br s;
          s = s\<lparr>ws_options := [] # ids\<rparr>;
          auto = auto_streamer st ids wanted;
          s = (if auto \<noteq> [] then join_streamer br st auto s else wait_streamer st s) in
      effect (Event ''streamerListMessage'' [JStr auto, JStr wanted]) s)"

definition list_due :: "browser \<Rightarrow> session \<Rightarrow> session" where
  "list_due br s = send_msg br (mk_msg ''listStreamers'' []) s"

definition handleSubscribeFailedMessage :: "jsval \<Rightarrow> session \<Rightarrow> session" where
  "handleSubscribeFailedMessage m s =
     effect (Event ''subscribeFailed'' [fld m ''message''])
       (s\<lparr>ws_attempt := 0, ws_reconnecting := False, ws_enableAuto := False, ws_subGen := None, ws_active := []\<rparr>)"

fun rename_first :: "string option \<Rightarrow> string \<Rightarrow> string list \<Rightarrow> string list" where
  "rename_first old new [] = []"
| "rename_first old new (x # xs) = (if Some x = old then new # xs else x # rename_first old new xs)"

definition handleStreamerIDChangedMessage :: "string \<Rightarrow> session \<Rightarrow> session" where
  "handleStreamerIDChangedMessage newID s =
     (let options = rename_first (ws_subscribed s) newID (ws_options s) in
      effect (Event ''streamerIDChangedMessage'' [JStr newID])
        (s\<lparr>ws_options := options,
           ws_selected := (if newID \<in> set options then newID else ws_selected s),
           ws_active := (if Some (ws_active s) = ws_subscribed s then newID else ws_active s),
           ws_subscribed := Some newID\<rparr>))"

section \<open>Media\<close>

definition codec_word :: "string \<Rightarrow> string" where
  "codec_word c = map upper_char (hd (split_char (CHR '' '') (trim c)))"

definition setPreferredCodec :: "bool \<Rightarrow> jsval \<Rightarrow> session \<Rightarrow> session" where
  "setPreferredCodec applying codec s = (if ws_policy s \<noteq> None \<and> \<not> applying then s else s\<lparr>ws_preferred := codec\<rparr>)"

definition accept_codec_state :: "browser \<Rightarrow> settings \<Rightarrow> jsval \<Rightarrow> jsval list \<Rightarrow> int \<Rightarrow> session \<Rightarrow> session" where
  "accept_codec_state br st m cs g s =
     (let newGeneration = (ws_mediaGen s < g);
          available = map (\<lambda>v. case v of JStr c \<Rightarrow> c | _ \<Rightarrow> [])
            (filter (\<lambda>v. \<exists>c \<in> set (br_codecs br). v = JStr (codec_word c)) cs);
          s = s\<lparr>ws_mediaGen := g, ws_policy := Some (available, fld m ''selectedCodec''),
                ws_preferred := fld m ''selectedCodec''\<rparr> in
      if fld m ''status'' = JStr ''restarting'' \<and> newGeneration
      then replacePeerConnectionController st False (s\<lparr>ws_lastCodec := None\<rparr>) else s)"

definition handleCodecState :: "browser \<Rightarrow> settings \<Rightarrow> jsval \<Rightarrow> session \<Rightarrow> session" where
  "handleCodecState br st m s =
     (if mtype m \<noteq> JStr ''scaleWorldCodecState'' then s
      else case fld m ''availableCodecs'' of
        JArr cs \<Rightarrow> (case safe_int (fld m ''mediaGeneration'') of
            Some g \<Rightarrow> if g < ws_mediaGen s then s else accept_codec_state br st m cs g s
          | None \<Rightarrow> s)
      | _ \<Rightarrow> s)"

text \<open>What a peer connection has applied: inputs, statistics and the inactivity timer start.\<close>

definition negotiated :: "nat \<Rightarrow> bool \<Rightarrow> session \<Rightarrow> session" where
  "negotiated g applied s = (if applied \<and> isCurrentPeerConnection g s then effect (Negotiated g) s else s)"

definition receive_playerId :: "jsval \<Rightarrow> session \<Rightarrow> session" where
  "receive_playerId m s = (if truthy (fld m ''playerId'') then s\<lparr>ws_playerId := fld m ''playerId''\<rparr> else s)"

text \<open>
  An answer and an offer are applied asynchronously, for the peer connection and the generation of their
  arrival: here \<open>ws_applying\<close> has the generations in which the browser is at work, and an offer waits until
  those before it in its generation are done.
\<close>

definition handleWebRtcAnswer :: "jsval \<Rightarrow> session \<Rightarrow> session" where
  "handleWebRtcAnswer m s = (case ws_peer s of
     None \<Rightarrow> s
   | Some g \<Rightarrow> effect (Event ''receiveAnswer'' [fld m ''sdp'']) (receive_playerId m s))"

definition handleWebRtcOffer :: "jsval \<Rightarrow> session \<Rightarrow> session" where
  "handleWebRtcOffer m s = (case ws_peer s of
     None \<Rightarrow> s
   | Some g \<Rightarrow> s\<lparr>ws_offers := ws_offers s @ [(ws_peerGen s, m)]\<rparr>)"

fun next_offer :: "nat \<Rightarrow> (nat \<times> jsval) list \<Rightarrow> (jsval \<times> (nat \<times> jsval) list) option" where
  "next_offer g [] = None"
| "next_offer g ((h, m) # os) =
     (if h = g then Some (m, os) else map_option (\<lambda>(n, rest). (n, (h, m) # rest)) (next_offer g os))"

text \<open>\<open>+mode[1]\<close> of a scalability mode such as \<open>L3T2\<close>; where it is no digit, no layer is offered.\<close>

definition digit_at :: "nat \<Rightarrow> string \<Rightarrow> nat option" where
  "digit_at i s = (if i < length s \<and> 48 \<le> (of_char (s ! i) :: nat) \<and> (of_char (s ! i) :: nat) \<le> 57
     then Some (of_char (s ! i) - 48) else None)"

definition layer_names :: "string \<Rightarrow> string list" where
  "layer_names mode = (case (digit_at 1 mode, digit_at 3 mode) of
     (Some a, Some b) \<Rightarrow> concat (map (\<lambda>s. map (\<lambda>t. [CHR ''S'', char_of (48 + s), CHR ''T'', char_of (48 + t)]) [1..<b + 1]) [1..<a + 1])
   | _ \<Rightarrow> [])"

definition offered_qualities :: "bool \<Rightarrow> bool \<Rightarrow> string \<Rightarrow> string list" where
  "offered_qualities sfu svc mode =
     (if \<not> sfu then [''Default''] else if \<not> svc then [''High'', ''Medium'', ''Low''] else layer_names mode)"

text \<open>The listener of the quality option: the layers asked for. A position that is no digit is not a number.\<close>

definition layer_num :: "nat \<Rightarrow> string \<Rightarrow> jsval" where
  "layer_num i q = (case digit_at i q of None \<Rightarrow> JNum NaN | Some n \<Rightarrow> num_of_int (int n - 1))"

fun index_of :: "string \<Rightarrow> string list \<Rightarrow> int" where
  "index_of x [] = - 1"
| "index_of x (y # ys) = (if x = y then 0 else let i = index_of x ys in if i < 0 then i else i + 1)"

definition handlePreferredQuality :: "browser \<Rightarrow> string \<Rightarrow> session \<Rightarrow> bool \<times> session" where
  "handlePreferredQuality br q s =
     (if q = [] then (True, s)
      else sendSignallingMessage br (if ws_svc s
        then mk_msg ''layerPreference'' [(''spatialLayer'', layer_num 1 q), (''temporalLayer'', layer_num 3 q)]
        else mk_msg ''layerPreference'' [(''spatialLayer'', num_of_int (index_of q (ws_qualities s))), (''temporalLayer'', num_of_int 0)]) s)"

text \<open>An offer's turn. What the quality listener raises ends it before the browser is asked.\<close>

definition offer_settings :: "jsval \<Rightarrow> session \<Rightarrow> session" where
  "offer_settings m s =
     (let mode = (case fld m ''scalabilityMode'' of JStr t \<Rightarrow> t | _ \<Rightarrow> []);
          sfu = truthy (fld m ''sfu'');
          svc = (mode \<noteq> [] \<and> mode \<noteq> ''L1T1'') in
      (receive_playerId m s)\<lparr>ws_sfu := sfu, ws_svc := svc,
        ws_qualities := offered_qualities sfu svc (if mode = [] then ''L1T1'' else mode)\<rparr>)"

definition announce_quality :: "browser \<Rightarrow> session \<Rightarrow> bool \<times> session" where
  "announce_quality br s = (case ws_qualities s of [] \<Rightarrow> (True, s) | q # _ \<Rightarrow> handlePreferredQuality br q s)"

definition process_offer :: "browser \<Rightarrow> nat \<Rightarrow> jsval \<Rightarrow> session \<Rightarrow> session" where
  "process_offer br g m s =
     (if \<not> isCurrentPeerConnection g s then s
      else case announce_quality br (offer_settings m s) of
        (False, s) \<Rightarrow> s
      | (True, s) \<Rightarrow> effect (Event ''receiveOffer'' [fld m ''sdp'']) (s\<lparr>ws_applying := g # ws_applying s\<rparr>))"

definition begin_offer :: "browser \<Rightarrow> nat \<Rightarrow> session \<Rightarrow> session" where
  "begin_offer br g s = (if g \<in> set (ws_applying s) then s else case next_offer g (ws_offers s) of
     None \<Rightarrow> s
   | Some (m, rest) \<Rightarrow> process_offer br g m (s\<lparr>ws_offers := rest\<rparr>))"

definition end_offer :: "nat \<Rightarrow> bool \<Rightarrow> session \<Rightarrow> session" where
  "end_offer g applied s =
     (if g \<in> set (ws_applying s) then negotiated g applied (s\<lparr>ws_applying := remove1 g (ws_applying s)\<rparr>) else s)"

definition handleIceCandidate :: "jsval \<Rightarrow> session \<Rightarrow> session" where
  "handleIceCandidate c s = (case ws_peer s of None \<Rightarrow> s | Some g \<Rightarrow> effect (Peer_candidate g c) s)"

definition handleWebRtcSFUPeerDatachannels :: "jsval \<Rightarrow> session \<Rightarrow> session" where
  "handleWebRtcSFUPeerDatachannels m s = (case ws_peer s of
     None \<Rightarrow> s
   | Some g \<Rightarrow>
       if fld m ''sendStreamId'' \<noteq> fld m ''recvStreamId''
       then effect (Channel g ''recv-datachannel'' (fld m ''recvStreamId''))
              (effect (Channel g ''send-datachannel'' (fld m ''sendStreamId'')) s)
       else effect (Channel g ''datachannel'' (fld m ''sendStreamId'')) s)"

definition recv_channel_open :: "browser \<Rightarrow> nat \<Rightarrow> session \<Rightarrow> session" where
  "recv_channel_open br g s =
     (if isCurrentPeerConnection g s then send_msg br (mk_msg ''peerDataChannelsReady'' []) s else s)"

definition bitrates :: "settings \<Rightarrow> jsval \<Rightarrow> (string \<times> jsval) list" where
  "bitrates st sdp = [(''sdp'', sdp), (''minBitrateBps'', JNum (Fin (1000 * st_minBitrate st))),
     (''maxBitrateBps'', JNum (Fin (1000 * st_maxBitrate st)))]"

text \<open>An exception of a send ends the handler, before its event.\<close>

definition handleSendWebRTCOffer :: "browser \<Rightarrow> settings \<Rightarrow> jsval \<Rightarrow> session \<Rightarrow> session" where
  "handleSendWebRTCOffer br st sdp s = (case sendSignallingMessage br (mk_msg ''offer'' (bitrates st sdp)) s of
     (False, s) \<Rightarrow> s | (True, s) \<Rightarrow> effect (Event ''webRtcSdpOffer'' [sdp]) s)"

definition handleSendWebRTCAnswer :: "browser \<Rightarrow> settings \<Rightarrow> jsval \<Rightarrow> session \<Rightarrow> session" where
  "handleSendWebRTCAnswer br st sdp s = (case sendSignallingMessage br (mk_msg ''answer'' (bitrates st sdp)) s of
     (False, s) \<Rightarrow> s
   | (True, s) \<Rightarrow>
       (case (if ws_sfu s then sendSignallingMessage br (mk_msg ''dataChannelRequest'' []) s else (True, s)) of
          (False, s) \<Rightarrow> s
        | (True, s) \<Rightarrow> effect (Event ''webRtcSdpAnswer'' [sdp]) s))"

definition peer_description :: "browser \<Rightarrow> settings \<Rightarrow> nat \<Rightarrow> string \<Rightarrow> jsval \<Rightarrow> session \<Rightarrow> session" where
  "peer_description br st g ty sdp s =
     (if \<not> isCurrentPeerConnection g s then s
      else if ty = ''offer'' then handleSendWebRTCOffer br st sdp s
      else if ty = ''answer'' then handleSendWebRTCAnswer br st sdp s
      else s)"

definition handleSendIceCandidate :: "browser \<Rightarrow> jsval \<Rightarrow> session \<Rightarrow> session" where
  "handleSendIceCandidate br c s =
     (if truthy c \<and> truthy (fld c ''candidate'') then send_msg br (mk_msg ''iceCandidate'' [(''candidate'', c)]) s else s)"

definition peer_candidate :: "browser \<Rightarrow> nat \<Rightarrow> jsval \<Rightarrow> session \<Rightarrow> session" where
  "peer_candidate br g c s = (if isCurrentPeerConnection g s then handleSendIceCandidate br c s else s)"

definition handleVideoStats :: "browser \<Rightarrow> nat \<Rightarrow> string \<Rightarrow> int \<Rightarrow> int \<Rightarrow> session \<Rightarrow> session" where
  "handleVideoStats br g codec frames bytes s =
     (if isCurrentPeerConnection g s \<and> ws_policy s \<noteq> None \<and> codec \<noteq> [] \<and> 0 < frames \<and> 0 < bytes
         \<and> ws_lastCodec s \<noteq> Some codec
      then send_msg br (mk_msg ''scaleWorldCodecObservation'' [(''mediaGeneration'', num_of_int (ws_mediaGen s)),
             (''codec'', JStr codec), (''framesDecoded'', num_of_int frames), (''bytesReceived'', num_of_int bytes)])
             (s\<lparr>ws_lastCodec := Some codec\<rparr>)
      else s)"

text \<open>The callbacks that only tell the page; \<open>ws_announced\<close> has the connections told to be connected.\<close>

definition current_event :: "nat \<Rightarrow> string \<Rightarrow> jsval list \<Rightarrow> session \<Rightarrow> session" where
  "current_event g n vs s = (if isCurrentPeerConnection g s then effect (Event n vs) s else s)"

definition remote_description :: "nat \<Rightarrow> string \<Rightarrow> jsval \<Rightarrow> session \<Rightarrow> session" where
  "remote_description g ty sdp =
     (if ty = ''offer'' then current_event g ''webRtcSdpOffer'' [sdp]
      else if ty = ''answer'' then current_event g ''webRtcSdpAnswer'' [sdp]
      else (\<lambda>s. s))"

definition ice_state_changed :: "nat \<Rightarrow> string \<Rightarrow> session \<Rightarrow> session" where
  "ice_state_changed g state s =
     (if isCurrentPeerConnection g s \<and> g \<notin> set (ws_announced s) \<and> state \<in> {''connected'', ''completed''}
      then effect (Event ''webRtcConnected'' []) (s\<lparr>ws_announced := g # ws_announced s\<rparr>)
      else s)"

section \<open>Runs\<close>

datatype peer_notice = Notice_latency jsval | Notice_dataChannel | Notice_connecting | Notice_failed | Notice_track jsval

fun notice_event :: "peer_notice \<Rightarrow> string \<times> jsval list" where
  "notice_event (Notice_latency v) = (''latencyCalculated'', [v])"
| "notice_event Notice_dataChannel = (''dataChannel'', [])"
| "notice_event Notice_connecting = (''webRtcConnecting'', [])"
| "notice_event Notice_failed = (''webRtcFailed'', [])"
| "notice_event (Notice_track v) = (''track'', [v])"

definition peer_notified :: "nat \<Rightarrow> peer_notice \<Rightarrow> session \<Rightarrow> session" where
  "peer_notified g n = current_event g (fst (notice_event n)) (snd (notice_event n))"

datatype ws_event =
    Ev_connect | Ev_open | Ev_close int string | Ev_reconnect string | Ev_tryReconnect string | Ev_listDue
  | Ev_shut string bool
  | Ev_config jsval | Ev_ping jsval | Ev_streamerList "string list" | Ev_subscribeFailed jsval | Ev_idChanged string
  | Ev_select string | Ev_quality string | Ev_codecState jsval | Ev_closeAll
  | Ev_answer jsval | Ev_answered nat bool | Ev_offer jsval | Ev_beginOffer nat | Ev_endOffer nat bool
  | Ev_remoteCandidate jsval | Ev_channels jsval | Ev_channelOpen nat
  | Ev_description nat string jsval | Ev_candidate nat jsval | Ev_stats nat string int int | Ev_video
  | Ev_remoteDescription nat string jsval | Ev_iceState nat string | Ev_notice nat peer_notice

fun ws_handle :: "browser \<Rightarrow> settings \<Rightarrow> ws_event \<Rightarrow> session \<Rightarrow> session" where
  "ws_handle br st Ev_connect s = connectToSignallingServer s"
| "ws_handle br st Ev_open s = (if ws_socket s = Connecting then on_open br st (s\<lparr>ws_socket := Open\<rparr>) else s)"
| "ws_handle br st (Ev_close code reason) s =
     (if isConnected s then on_close st code reason (s\<lparr>ws_socket := Closed\<rparr>) else s)"
| "ws_handle br st (Ev_reconnect reason) s = reconnect_due reason s"
| "ws_handle br st (Ev_tryReconnect reason) s = tryReconnect reason s"
| "ws_handle br st Ev_listDue s = list_due br s"
| "ws_handle br st (Ev_shut message allow) s = closeSignalingServer message allow s"
| "ws_handle br st (Ev_config m) s = handleOnConfigMessage st m s"
| "ws_handle br st (Ev_ping m) s = handlePingMessage br m s"
| "ws_handle br st (Ev_streamerList ids) s = handleStreamerListMessage br st ids s"
| "ws_handle br st (Ev_subscribeFailed m) s = handleSubscribeFailedMessage m s"
| "ws_handle br st (Ev_idChanged i) s = handleStreamerIDChangedMessage i s"
| "ws_handle br st (Ev_select v) s = select_streamer br st v s"
| "ws_handle br st (Ev_codecState m) s = handleCodecState br st m s"
| "ws_handle br st (Ev_quality q) s = snd (handlePreferredQuality br q s)"
| "ws_handle br st Ev_closeAll s = close_all s"
| "ws_handle br st (Ev_answer m) s = handleWebRtcAnswer m s"
| "ws_handle br st (Ev_answered g b) s = negotiated g b s"
| "ws_handle br st (Ev_offer m) s = handleWebRtcOffer m s"
| "ws_handle br st (Ev_beginOffer g) s = begin_offer br g s"
| "ws_handle br st (Ev_endOffer g b) s = end_offer g b s"
| "ws_handle br st (Ev_remoteCandidate c) s = handleIceCandidate c s"
| "ws_handle br st (Ev_channels m) s = handleWebRtcSFUPeerDatachannels m s"
| "ws_handle br st (Ev_channelOpen g) s = recv_channel_open br g s"
| "ws_handle br st (Ev_description g ty sdp) s = peer_description br st g ty sdp s"
| "ws_handle br st (Ev_candidate g c) s = peer_candidate br g c s"
| "ws_handle br st (Ev_stats g codec frames bytes) s = handleVideoStats br g codec frames bytes s"
| "ws_handle br st Ev_video s = s\<lparr>ws_videoDone := True\<rparr>"
| "ws_handle br st (Ev_remoteDescription g ty sdp) s = remote_description g ty sdp s"
| "ws_handle br st (Ev_iceState g state) s = ice_state_changed g state s"
| "ws_handle br st (Ev_notice g n) s = peer_notified g n s"

inductive ws_reachable :: "browser \<Rightarrow> session \<Rightarrow> bool" for br where
  start: "ws_reachable br (fresh_session\<lparr>ws_options := opts, ws_selected := sel\<rparr>)"
| step: "ws_reachable br s \<Longrightarrow> ws_reachable br (ws_handle br st ev s)"

end
