(* ===== verification/Frontend_Session_Properties.thy ===== *)
theory Frontend_Session_Properties
  imports Frontend_Session
begin

text \<open>
  What every run of the browser's session keeps. A locale states what an invariant of the session has to
  withstand: the few operations that touch the peer connection, the socket or the log. Under it every
  event preserves the invariant; it is interpreted for the peer connections and for the order of what
  is sent.
\<close>

section \<open>Invariants of a session\<close>

text \<open>The part of the state the invariants are about.\<close>

definition core :: "session \<Rightarrow> nat option \<times> nat \<times> socket \<times> bool \<times> effect list" where
  "core s = (ws_peer s, ws_peerGen s, ws_socket s, ws_capsSent s, ws_log s)"

fun plain :: "effect \<Rightarrow> bool" where
  "plain Opened = False"
| "plain (Wire m) = False"
| "plain (Peer_new g) = False"
| "plain (Peer_close g) = False"
| "plain _ = True"

lemma core_effect: "core s' = core s \<Longrightarrow> core (effect e s') = core (effect e s)"
  by (simp add: core_def effect_def)

lemma retire_core: "core s' = core s \<Longrightarrow> core (retirePeerConnectionController s') = core (retirePeerConnectionController s)"
  by (auto simp: core_def effect_def retirePeerConnectionController_def split: option.split)

definition announces :: "jsval \<Rightarrow> bool" where
  "announces m \<longleftrightarrow> mtype m = JStr ''scaleWorldCodecCapabilities''"

lemma announces_mk_msg [simp]: "announces (mk_msg ty fs) = (ty = ''scaleWorldCodecCapabilities'')"
  by (simp add: announces_def)

locale session_invariant =
  fixes I :: "session \<Rightarrow> bool"
  assumes same: "\<lbrakk>I s; core s' = core s\<rbrakk> \<Longrightarrow> I s'"
    and noted: "\<lbrakk>I s; plain e\<rbrakk> \<Longrightarrow> I (effect e s)"
    and sends: "\<lbrakk>I s; \<not> announces m\<rbrakk> \<Longrightarrow> I (snd (sendSignallingMessage br m s))"
    and retires: "I s \<Longrightarrow> I (retirePeerConnectionController s)"
    and replaces: "I s \<Longrightarrow> I (replacePeerConnectionController st b s)"
    and socket_left: "\<lbrakk>I s; k \<noteq> Open\<rbrakk> \<Longrightarrow> I (s\<lparr>ws_socket := k\<rparr>)"
    and opened: "I s \<Longrightarrow> I (effect Opened (s\<lparr>ws_socket := Open, ws_capsSent := False\<rparr>))"
begin

lemma updated: "I s \<Longrightarrow> core s = core s' \<Longrightarrow> I s'"
  using same by metis

lemma sent: "\<lbrakk>I s; \<not> announces m\<rbrakk> \<Longrightarrow> I (send_msg br m s)"
  by (simp add: send_msg_def sends)

lemma sent_then: "\<lbrakk>I s; \<not> announces m; \<And>s b. I s \<Longrightarrow> I (k b s)\<rbrakk> \<Longrightarrow> I (case sendSignallingMessage br m s of (b, s) \<Rightarrow> k b s)"
  using sends [of s m br] by (auto split: prod.split)

lemma sent_eq: "\<lbrakk>sendSignallingMessage br m s = (b, s'); I s; \<not> announces m\<rbrakk> \<Longrightarrow> I s'"
  using sends [of s m br] by simp

lemma disconnected: "I s \<Longrightarrow> I (protocol_disconnect s)"
  by (simp add: protocol_disconnect_def socket_left)

lemma connect: "I s \<Longrightarrow> I (connectToSignallingServer s)"
  by (rule same [OF socket_left [of s Connecting]]) (simp_all add: connectToSignallingServer_def core_def)

lemma either: "\<lbrakk>I s; I t\<rbrakk> \<Longrightarrow> I (if b then s else t)"
  by simp

lemma shut: "I s \<Longrightarrow> I (closeSignalingServer m b s)"
  unfolding closeSignalingServer_def by (rule disconnected, erule same) (simp add: core_def)

lemma reconnect: "I s \<Longrightarrow> I (doReconnect m s)"
proof -
  assume "I s"
  then have s: "I (s\<lparr>ws_reconnecting := True\<rparr>)" by (rule same) (simp add: core_def)
  from s have "I (if b then s\<lparr>ws_reconnecting := True\<rparr> else s\<lparr>ws_reconnecting := True, ws_message := x\<rparr>)" for b x
    by (auto intro: same simp: core_def)
  then have "I (closeSignalingServer m True (if b then s\<lparr>ws_reconnecting := True\<rparr> else s\<lparr>ws_reconnecting := True, ws_message := x\<rparr>))" for b x
    by (rule shut)
  moreover have "I (connectToSignallingServer (effect (Event n []) (s\<lparr>ws_reconnecting := True\<rparr>)))" for n
    using s by (intro connect noted) simp_all
  ultimately show ?thesis by (simp add: doReconnect_def Let_def)
qed

lemma open_kept: "I s \<Longrightarrow> I (on_open br st (s\<lparr>ws_socket := Open\<rparr>))"
proof -
  let ?s = "effect Opened (s\<lparr>ws_socket := Open, ws_policy := None, ws_mediaGen := 0, ws_capsSent := False, ws_lastCodec := None,
     ws_connGen := ws_connGen s + 1, ws_subGen := None, ws_active := []\<rparr>)"
  assume "I s"
  then have s: "I ?s" by (rule updated [OF opened]) (simp add: core_def effect_def)
  then have "I (if b then ?s else send_msg br (mk_msg ''listStreamers'' []) ?s)" for b by (simp add: sent)
  then show ?thesis unfolding on_open_def Let_def 
    by (rule same [of "if st_browserSendOffer st then ?s else send_msg br (mk_msg ''listStreamers'' []) ?s"]) (simp_all add: core_def)
qed

lemma lost: "I s \<Longrightarrow> I (connection_lost m b s)"
proof -
  assume "I s"
  then have "I (s\<lparr>ws_force := False\<rparr>)" by (rule same) (simp add: core_def)
  then have "I (effect (Event n []) (effect (Event k vs) (s\<lparr>ws_force := False\<rparr>)))" for n k vs by (simp add: noted)
  then have "I ((effect (Event n []) (effect (Event k vs) (s\<lparr>ws_force := False\<rparr>)))\<lparr>ws_subGen := None, ws_active := []\<rparr>)" for n k vs
    by (rule same) (simp add: core_def)
  then show ?thesis unfolding connection_lost_def Let_def by (intro noted retires) simp_all
qed

lemma close_kept: "I s \<Longrightarrow> I (on_close st code reason (s\<lparr>ws_socket := Closed\<rparr>))"
  using lost [OF socket_left [of s Closed]] by (simp add: on_close_def Let_def noted)

lemma started: "I s \<Longrightarrow> I (startSession st c s)"
proof -
  assume "I s"
  then have "I (s\<lparr>ws_peerConfig := Some c\<rparr>)" by (rule same) (simp add: core_def)
  then show ?thesis by (auto simp: startSession_def Let_def intro: replaces shut split: option.split bool.split)
qed

lemma selection: "I s \<Longrightarrow> I (handleStreamerSelectionChanged br st sid s)"
proof -
  assume "I s"
  then have s: "I (s\<lparr>ws_subscribed := Some sid\<rparr>)" by (rule same) (simp add: core_def)
  then have r: "I (if b then replacePeerConnectionController st False (s\<lparr>ws_subscribed := Some sid\<rparr>) else s\<lparr>ws_subscribed := Some sid\<rparr>)" for b
    by (simp add: replaces)
  have "I (case sendSignallingMessage br (mk_msg ''subscribe'' fs) (if b then replacePeerConnectionController st False (s\<lparr>ws_subscribed := Some sid\<rparr>) else s\<lparr>ws_subscribed := Some sid\<rparr>)
     of (True, s) \<Rightarrow> s\<lparr>ws_subGen := Some (ws_connGen s), ws_active := sid\<rparr> | (False, s) \<Rightarrow> s\<lparr>ws_subGen := None, ws_active := []\<rparr>)" for b fs
    by (rule sent_then [OF r]) (auto intro: same simp: core_def split: bool.split)
  with s \<open>I s\<close> show ?thesis by (simp add: handleStreamerSelectionChanged_def Let_def)
qed

lemma selected: "I s \<Longrightarrow> I (select_streamer br st v s)"
  unfolding select_streamer_def by (auto intro!: selection intro: same simp: core_def)

lemma option_set: "I s \<Longrightarrow> I (setStreamerOption br st v s)"
  unfolding setStreamerOption_def by (rule selected) (auto intro: same simp: core_def)

lemma dropped: "I s \<Longrightarrow> I (drop_vanished ids s)"
  unfolding drop_vanished_def by (auto intro!: retires intro: same simp: core_def)

lemma joined: "I s \<Longrightarrow> I (join_streamer br st v s)"
proof -
  assume "I s"
  then have "I (s\<lparr>ws_attempt := 0, ws_reconnecting := False, ws_auto := True\<rparr>)" by (rule same) (simp add: core_def)
  then show ?thesis unfolding join_streamer_def by (rule same [OF option_set]) (simp add: core_def)
qed

lemma waited: "I s \<Longrightarrow> I (wait_streamer st s)"
  unfolding wait_streamer_def by (auto intro!: noted intro: same simp: core_def)

lemma listed: "I s \<Longrightarrow> I (handleStreamerListMessage br st ids s)"
proof -
  assume "I s"
  then have "I ((drop_vanished ids s)\<lparr>ws_options := opts\<rparr>)" for opts
    by (rule same [OF dropped]) (simp add: core_def)
  then show ?thesis by (simp add: handleStreamerListMessage_def Let_def noted joined waited)
qed

lemma codec_accepted: "I s \<Longrightarrow> I (accept_codec_state br st m cs g s)"
proof -
  assume s: "I s"
  then have "I (s\<lparr>ws_mediaGen := a, ws_policy := b, ws_preferred := c\<rparr>)" for a b c by (rule same) (simp add: core_def)
  moreover from s have "I (s\<lparr>ws_mediaGen := a, ws_policy := b, ws_preferred := c, ws_lastCodec := None\<rparr>)" for a b c
    by (rule same) (simp add: core_def)
  ultimately show ?thesis unfolding accept_codec_state_def Let_def by (simp add: replaces)
qed

lemma codec_state: "I s \<Longrightarrow> I (handleCodecState br st m s)"
  by (simp add: handleCodecState_def codec_accepted split: jsval.split option.split)

lemma quality: "I s \<Longrightarrow> I (snd (handlePreferredQuality br q s))"
  by (simp add: handlePreferredQuality_def sends)

lemma negotiation: "I s \<Longrightarrow> I (negotiated g b s)"
  by (simp add: negotiated_def noted)

lemma answered: "I s \<Longrightarrow> I (handleWebRtcAnswer m s)"
  unfolding handleWebRtcAnswer_def receive_playerId_def
  by (auto intro!: noted intro: same simp: core_def split: option.split)

lemma offer_queued: "I s \<Longrightarrow> I (handleWebRtcOffer m s)"
  unfolding handleWebRtcOffer_def by (auto intro: same simp: core_def split: option.split)

lemma offer_processed: "I s \<Longrightarrow> I (process_offer br g m s)"
proof -
  assume s: "I s"
  then have "I (offer_settings m s)" by (rule same) (simp add: core_def offer_settings_def receive_playerId_def Let_def)
  then have q: "I (snd (announce_quality br (offer_settings m s)))" by (simp add: announce_quality_def quality split: list.split)
  obtain b u where bu: "announce_quality br (offer_settings m s) = (b, u)" by force
  with q have "I u" by simp
  moreover from this have "I (u\<lparr>ws_applying := g # ws_applying u\<rparr>)" by (rule same) (simp add: core_def)
  ultimately show ?thesis using s bu by (cases b) (simp_all add: process_offer_def noted)
qed

lemma offer_begun: "I s \<Longrightarrow> I (begin_offer br g s)"
  unfolding begin_offer_def by (auto intro!: offer_processed intro: same simp: core_def split: option.split)

lemma offer_ended: "I s \<Longrightarrow> I (end_offer g b s)"
  unfolding end_offer_def by (auto intro!: negotiation intro: same simp: core_def)

lemma remote_candidate: "I s \<Longrightarrow> I (handleIceCandidate c s)"
  by (simp add: handleIceCandidate_def noted split: option.split)

lemma channels: "I s \<Longrightarrow> I (handleWebRtcSFUPeerDatachannels m s)"
  by (simp add: handleWebRtcSFUPeerDatachannels_def noted split: option.split)

lemma channel_open: "I s \<Longrightarrow> I (recv_channel_open br g s)"
  by (simp add: recv_channel_open_def sent)

lemma offer_sent: "I s \<Longrightarrow> I (handleSendWebRTCOffer br st sdp s)"
  unfolding handleSendWebRTCOffer_def by (rule sent_then) (auto intro: noted split: bool.split)

lemma answer_sent: "I s \<Longrightarrow> I (handleSendWebRTCAnswer br st sdp s)"
  unfolding handleSendWebRTCAnswer_def
  by (rule sent_then) (auto intro!: noted intro: sent_eq split: bool.split prod.split)

lemma described: "I s \<Longrightarrow> I (peer_description br st g ty sdp s)"
  by (simp add: peer_description_def offer_sent answer_sent)

lemma candidate: "I s \<Longrightarrow> I (peer_candidate br g c s)"
  by (simp add: peer_candidate_def handleSendIceCandidate_def sent)

lemma stats: "I s \<Longrightarrow> I (handleVideoStats br g codec frames bytes s)"
  unfolding handleVideoStats_def by (auto intro!: sent intro: same simp: core_def)

lemma told: "I s \<Longrightarrow> I (current_event g n vs s)"
  unfolding current_event_def by (auto intro: noted)

lemma told_remote: "I s \<Longrightarrow> I (remote_description g ty sdp s)"
  by (simp add: remote_description_def told)

lemma told_ice: "I s \<Longrightarrow> I (ice_state_changed g state s)"
  unfolding ice_state_changed_def by (auto intro!: noted intro: same simp: core_def)

lemma handled: "I s \<Longrightarrow> I (ws_handle br st ev s)"
proof (cases ev)
  case (Ev_close code reason)
  then show "I s \<Longrightarrow> ?thesis" by (simp add: close_kept)
next
  case (Ev_reconnect m)
  moreover have "I s \<Longrightarrow> I (reconnect_due m s)" unfolding reconnect_due_def by (rule reconnect, erule same) (simp add: core_def)
  ultimately show "I s \<Longrightarrow> ?thesis" by simp
next
  case (Ev_tryReconnect m)
  moreover have "I s \<Longrightarrow> I (tryReconnect m s)" unfolding tryReconnect_def by (rule reconnect, erule same) (simp add: core_def)
  ultimately show "I s \<Longrightarrow> ?thesis" by simp
next
  case (Ev_idChanged i)
  moreover have "I s \<Longrightarrow> I (handleStreamerIDChangedMessage i s)"
    unfolding handleStreamerIDChangedMessage_def Let_def by (auto intro!: noted intro: same simp: core_def)
  ultimately show "I s \<Longrightarrow> ?thesis" by simp
next
  case (Ev_subscribeFailed m)
  moreover have "I s \<Longrightarrow> I (handleSubscribeFailedMessage m s)"
    unfolding handleSubscribeFailedMessage_def by (auto intro!: noted intro: same simp: core_def)
  ultimately show "I s \<Longrightarrow> ?thesis" by simp
next
  case Ev_video
  then show "I s \<Longrightarrow> ?thesis" by (auto intro: same simp: core_def)
qed (auto simp: list_due_def handlePingMessage_def handleOnConfigMessage_def close_all_def peer_notified_def
       intro: told told_remote told_ice connect open_kept sent shut started listed selected codec_state quality retires answered negotiation
         offer_queued offer_begun offer_ended remote_candidate channels channel_open described candidate stats)

lemma reachable:
  assumes "ws_reachable br s" "\<And>opts sel. I (fresh_session\<lparr>ws_options := opts, ws_selected := sel\<rparr>)"
  shows "I s"
  using assms(1) by induction (auto intro: assms(2) handled)

end

section \<open>Peer connections\<close>

text \<open>The peer connections made and not closed, in the order in which they were made.\<close>

fun peer_log :: "effect \<Rightarrow> nat list \<Rightarrow> nat list" where
  "peer_log (Peer_new g) os = os @ [g]"
| "peer_log (Peer_close g) os = remove1 g os"
| "peer_log _ os = os"

definition open_peers :: "effect list \<Rightarrow> nat list" where
  "open_peers es = fold peer_log es []"

definition peers_ok :: "session \<Rightarrow> bool" where
  "peers_ok s \<longleftrightarrow> open_peers (ws_log s) = (case ws_peer s of None \<Rightarrow> [] | Some g \<Rightarrow> [g])
     \<and> (\<forall>g. ws_peer s = Some g \<longrightarrow> g = ws_peerGen s)
     \<and> (\<forall>g. Peer_close g \<in> set (ws_log s) \<longrightarrow> g < ws_peerGen s)"

definition needs_caps :: "jsval \<Rightarrow> bool" where
  "needs_caps m \<longleftrightarrow> mtype m \<in> {JStr ''subscribe'', JStr ''offer''}"

text \<open>
  Reads the log: whether the capabilities have been sent in the connection, \<open>None\<close> after a subscription
  or an offer that went before them, or capabilities sent twice.
\<close>

fun caps_log :: "effect \<Rightarrow> bool option \<Rightarrow> bool option" where
  "caps_log e None = None"
| "caps_log Opened (Some b) = Some False"
| "caps_log (Wire m) (Some b) =
     (if announces m then (if b then None else Some True)
      else if needs_caps m \<and> \<not> b then None else Some b)"
| "caps_log _ (Some b) = Some b"

definition caps_sent :: "effect list \<Rightarrow> bool option" where
  "caps_sent es = fold caps_log es (Some False)"

definition caps_ok :: "session \<Rightarrow> bool" where
  "caps_ok s \<longleftrightarrow> (\<exists>b. caps_sent (ws_log s) = Some b \<and> (ws_socket s = Open \<longrightarrow> b = ws_capsSent s))"

lemma log_effect [simp]: "ws_log (effect e s) = ws_log s @ [e]" "ws_peer (effect e s) = ws_peer s"
  "ws_peerGen (effect e s) = ws_peerGen s" "ws_socket (effect e s) = ws_socket s" "ws_capsSent (effect e s) = ws_capsSent s"
  by (simp_all add: effect_def)

lemma open_peers_append [simp]: "open_peers (es @ es') = fold peer_log es' (open_peers es)"
  by (simp add: open_peers_def)

lemma caps_sent_append [simp]: "caps_sent (es @ es') = fold caps_log es' (caps_sent es)"
  by (simp add: caps_sent_def)

lemma plain_log: "plain e \<Longrightarrow> peer_log e os = os" "plain e \<Longrightarrow> caps_log e b = b" "plain e \<Longrightarrow> e \<noteq> Peer_close g"
  by (cases e; simp; cases b; simp)+

lemma peers_effect: "(\<And>g. e \<noteq> Peer_new g) \<Longrightarrow> (\<And>g. e \<noteq> Peer_close g) \<Longrightarrow> peers_ok (effect e s) = peers_ok s"
  by (cases e) (auto simp: peers_ok_def)

lemma peers_wire: "peers_ok (snd (wire_send m s)) = peers_ok s"
  by (simp add: wire_send_def peers_effect split: socket.split)

lemma peers_caps: "peers_ok (s\<lparr>ws_capsSent := b\<rparr>) = peers_ok s"
  by (simp add: peers_ok_def)

lemma peers_send: "peers_ok (snd (sendSignallingMessage br m s)) = peers_ok s"
proof -
  have "peers_ok u = peers_ok t" if "wire_send m t = (b, u)" for m t b u using peers_wire [of m t] that by simp
  then show ?thesis by (auto simp: sendSignallingMessage_def Let_def peers_wire peers_caps split: prod.split) 
qed

interpretation peers: session_invariant peers_ok
proof unfold_locales
  show "peers_ok s \<Longrightarrow> core s' = core s \<Longrightarrow> peers_ok s'" for s s' by (simp add: peers_ok_def core_def)
  show "peers_ok s \<Longrightarrow> plain e \<Longrightarrow> peers_ok (effect e s)" for s e by (cases e) (simp_all add: peers_effect)
  show "peers_ok s \<Longrightarrow> \<not> announces m \<Longrightarrow> peers_ok (snd (sendSignallingMessage br m s))" for s br m by (simp add: peers_send)
  show "peers_ok s \<Longrightarrow> peers_ok (retirePeerConnectionController s)" for s
    by (auto simp: peers_ok_def retirePeerConnectionController_def split: option.split)
  show "peers_ok s \<Longrightarrow> peers_ok (replacePeerConnectionController st b s)" for s st b
    by (auto simp: peers_ok_def replacePeerConnectionController_def close_peer_def Let_def split: option.splits)
  show "peers_ok s \<Longrightarrow> peers_ok (s\<lparr>ws_socket := k\<rparr>)" for s k by (simp add: peers_ok_def)
  show "peers_ok s \<Longrightarrow> peers_ok (effect Opened (s\<lparr>ws_socket := Open, ws_capsSent := False\<rparr>))" for s by (simp add: peers_ok_def)
qed

lemma mtype_tag [simp]: "mtype (tag_generation m s) = mtype m"
  by (simp add: tag_generation_def)

lemma caps_wire_other: "ws_socket s \<noteq> Open \<Longrightarrow> caps_ok s \<Longrightarrow> caps_ok (snd (wire_send m s)) \<and> ws_socket (snd (wire_send m s)) \<noteq> Open"
  by (auto simp: wire_send_def split: socket.split)

lemma caps_send: "\<lbrakk>caps_ok s; \<not> announces m\<rbrakk> \<Longrightarrow> caps_ok (snd (sendSignallingMessage br m s))"
proof (cases "ws_socket s = Open")
  case True
  assume n: "\<not> announces m" and "caps_ok s"
  then have b: "caps_sent (ws_log s) = Some (ws_capsSent s)" using True by (auto simp: caps_ok_def)
  show ?thesis using True b n
    by (auto simp: sendSignallingMessage_def wire_send_def caps_ok_def announces_def needs_caps_def Let_def)
next
  case False
  assume c: "caps_ok s"
  then have "caps_ok (s\<lparr>ws_capsSent := True\<rparr>)" using False by (auto simp: caps_ok_def)
  with c False show ?thesis by (auto simp: sendSignallingMessage_def wire_send_def Let_def split: socket.split)
qed

interpretation caps: session_invariant caps_ok
proof unfold_locales
  show "caps_ok s \<Longrightarrow> core s' = core s \<Longrightarrow> caps_ok s'" for s s' by (simp add: caps_ok_def core_def)
  show "caps_ok s \<Longrightarrow> plain e \<Longrightarrow> caps_ok (effect e s)" for s e by (auto simp: caps_ok_def plain_log)
  show "caps_ok s \<Longrightarrow> \<not> announces m \<Longrightarrow> caps_ok (snd (sendSignallingMessage br m s))" for s br m by (rule caps_send)
  show "caps_ok s \<Longrightarrow> caps_ok (retirePeerConnectionController s)" for s
    by (auto simp: caps_ok_def retirePeerConnectionController_def split: option.split)
  show "caps_ok s \<Longrightarrow> caps_ok (replacePeerConnectionController st b s)" for s st b
    by (auto simp: caps_ok_def replacePeerConnectionController_def close_peer_def Let_def split: option.splits)
  show "caps_ok s \<Longrightarrow> k \<noteq> Open \<Longrightarrow> caps_ok (s\<lparr>ws_socket := k\<rparr>)" for s k by (auto simp: caps_ok_def)
  show "caps_ok s \<Longrightarrow> caps_ok (effect Opened (s\<lparr>ws_socket := Open, ws_capsSent := False\<rparr>))" for s by (auto simp: caps_ok_def)
qed

lemma peers_reachable: "ws_reachable br s \<Longrightarrow> peers_ok s"
  by (erule peers.reachable) (simp add: peers_ok_def fresh_session_def open_peers_def)

lemma caps_reachable: "ws_reachable br s \<Longrightarrow> caps_ok s"
  by (erule caps.reachable) (auto simp: caps_ok_def fresh_session_def caps_sent_def intro: exI [of _ False])

text \<open>A closed peer connection is never the current one again, and so nothing it does has an effect.\<close>

lemma closed_stale:
  assumes "ws_reachable br s" "Peer_close g \<in> set (ws_log s)"
  shows "\<not> isCurrentPeerConnection g s"
  using peers_reachable [OF assms(1)] assms(2) by (auto simp: peers_ok_def isCurrentPeerConnection_def)

lemma current_update [simp]: "isCurrentPeerConnection g (s\<lparr>ws_offers := x\<rparr>) = isCurrentPeerConnection g s"
  "isCurrentPeerConnection g (s\<lparr>ws_applying := y\<rparr>) = isCurrentPeerConnection g s"
  by (simp_all add: isCurrentPeerConnection_def)

lemma closed_silent:
  assumes "ws_reachable br s" "Peer_close g \<in> set (ws_log s)"
  shows "ws_handle br st (Ev_description g ty sdp) s = s" "ws_handle br st (Ev_candidate g c) s = s"
    "ws_handle br st (Ev_stats g codec frames bytes) s = s" "ws_handle br st (Ev_channelOpen g) s = s"
    "ws_handle br st (Ev_answered g b) s = s" "ws_handle br st (Ev_remoteDescription g ty sdp) s = s"
    "ws_handle br st (Ev_iceState g state) s = s" "ws_handle br st (Ev_notice g n) s = s"
    "ws_log (ws_handle br st (Ev_beginOffer g) s) = ws_log s" "ws_log (ws_handle br st (Ev_endOffer g b) s) = ws_log s"
  using closed_stale [OF assms]
  by (simp_all add: peer_description_def peer_candidate_def handleVideoStats_def recv_channel_open_def negotiated_def
      remote_description_def current_event_def ice_state_changed_def peer_notified_def
      begin_offer_def end_offer_def process_offer_def split: option.split)

section \<open>One subscription for one list\<close>

text \<open>The part of the state that deciding on a subscription reads, apart from the socket.\<close>

definition joined_to :: "string \<Rightarrow> session \<Rightarrow> bool" where
  "joined_to sid s \<longleftrightarrow> ws_socket s = Open \<and> ws_peerConfig s \<noteq> None \<and> ws_subscribed s = Some sid
     \<and> ws_subGen s = Some (ws_connGen s) \<and> ws_active s = sid"

lemma send_open:
  assumes "ws_socket s = Open" "sendSignallingMessage br m s = (b, s')"
  shows "b" "ws_socket s' = Open" "ws_connGen s' = ws_connGen s" "ws_peerConfig s' = ws_peerConfig s"
    "ws_subscribed s' = ws_subscribed s" "ws_options s' = ws_options s"
  using assms by (auto simp: sendSignallingMessage_def wire_send_def effect_def Let_def split: if_splits)

lemma replace_fields [simp]: "ws_socket (replacePeerConnectionController st b s) = ws_socket s"
  "ws_connGen (replacePeerConnectionController st b s) = ws_connGen s"
  "ws_peerConfig (replacePeerConnectionController st b s) = ws_peerConfig s"
  "ws_subscribed (replacePeerConnectionController st b s) = ws_subscribed s"
  by (simp_all add: replacePeerConnectionController_def close_peer_def effect_def Let_def split: option.split)

lemma selection_joins:
  assumes "ws_socket s = Open" "ws_peerConfig s \<noteq> None" "sid \<noteq> []" "sid \<in> set (ws_options s)"
  shows "joined_to sid (handleStreamerSelectionChanged br st sid s)"
proof -
  let ?s = "s\<lparr>ws_subscribed := Some sid\<rparr>"
  let ?r = "if ws_policy ?s = None \<and> (ws_peer ?s = None \<or> (ws_subGen ?s = Some (ws_connGen ?s) \<and> ws_active ?s = sid) \<or> ws_active ?s \<noteq> [])
    then replacePeerConnectionController st False ?s else ?s"
  obtain b u where bu: "sendSignallingMessage br (mk_msg ''subscribe'' [(''streamerId'', JStr sid)]) ?r = (b, u)" by force
  have "ws_socket ?r = Open" using assms by simp
  from send_open [OF this bu] assms have "b" "joined_to sid (u\<lparr>ws_subGen := Some (ws_connGen u), ws_active := sid\<rparr>)"
    by (simp_all add: joined_to_def)
  then show ?thesis using assms bu unfolding handleStreamerSelectionChanged_def Let_def
    by (simp add: joined_to_def isConnected_def)
qed

lemma selection_again:
  assumes "joined_to sid s" "ws_auto s"
  shows "handleStreamerSelectionChanged br st sid s = s"
  using assms by (simp add: handleStreamerSelectionChanged_def joined_to_def Let_def)

lemma drop_fields [simp]: "ws_socket (drop_vanished ids s) = ws_socket s" "ws_peerConfig (drop_vanished ids s) = ws_peerConfig s"
  "ws_connGen (drop_vanished ids s) = ws_connGen s"
  by (simp_all add: drop_vanished_def retirePeerConnectionController_def effect_def split: option.split)

lemma auto_in: "auto_streamer st ids w \<noteq> [] \<Longrightarrow> auto_streamer st ids w \<in> set ids"
  by (cases ids) (auto simp: auto_streamer_def split: if_splits)

lemma joined_update: "joined_to sid (s\<lparr>ws_auto := b\<rparr>) = joined_to sid s" "joined_to sid (effect e s) = joined_to sid s"
  by (simp_all add: joined_to_def effect_def)

lemma list_joins:
  assumes "ws_socket s = Open" "ws_peerConfig s \<noteq> None" "sid = auto_streamer st ids (wanted_streamer br (drop_vanished ids s))" "sid \<noteq> []"
  shows "joined_to sid (handleStreamerListMessage br st ids s)"
proof -
  have sid: "sid \<in> set ids" using assms(3,4) auto_in by simp
  have "joined_to sid (select_streamer br st sid u)" if "ws_socket u = Open" "ws_peerConfig u \<noteq> None" "ws_options u = [] # ids" for u
    using that sid assms(4) by (simp add: select_streamer_def selection_joins)
  then have "joined_to sid (join_streamer br st sid ((drop_vanished ids s)\<lparr>ws_options := [] # ids\<rparr>))"
    using assms sid by (simp add: join_streamer_def setStreamerOption_def joined_update)
  then show ?thesis using assms(3,4) by (simp add: handleStreamerListMessage_def Let_def joined_update)
qed

lemma list_again:
  assumes "joined_to sid s" "sid \<noteq> []" "sid \<in> set ids" "br_urlStreamer br = None"
  shows "ws_log (handleStreamerListMessage br st ids s) = ws_log s @ [Event ''streamerListMessage'' [JStr sid, JStr sid]]"
proof -
  have d: "drop_vanished ids s = s" using assms by (simp add: drop_vanished_def joined_to_def)
  have w: "wanted_streamer br s = sid" using assms by (simp add: wanted_streamer_def joined_to_def)
  have a: "auto_streamer st ids sid = sid" using assms by (simp add: auto_streamer_def)
  let ?s = "s\<lparr>ws_options := [] # ids, ws_attempt := 0, ws_reconnecting := False, ws_auto := True, ws_selected := sid\<rparr>"
  have "joined_to sid ?s" using assms(1) by (simp add: joined_to_def)
  then have "handleStreamerSelectionChanged br st sid ?s = ?s" by (rule selection_again) simp
  then show ?thesis using assms(2,3)
    by (simp add: handleStreamerListMessage_def d w a join_streamer_def setStreamerOption_def select_streamer_def)
qed

end
