(* ===== verification/JS_Numbers.thy ===== *)
theory JS_Numbers
  imports Prelude "HOL-Library.Word" "HOL-Library.Log_Nat"
begin

text \<open>
  JavaScript's number arithmetic as the browser code uses it, and the number formats of a \<open>DataView\<close>.
  A number is a rational or one of the three non-finite values; the rounding of single operations is not
  modelled, the rounding to a storage format is. The two zeros are one value, except where a message
  element names the negative one.
\<close>

section \<open>Arithmetic\<close>

fun jneg :: "jsnum \<Rightarrow> jsnum" where
  "jneg (Fin q) = Fin (- q)"
| "jneg PosInf = NegInf"
| "jneg NegInf = PosInf"
| "jneg NaN = NaN"

fun jadd :: "jsnum \<Rightarrow> jsnum \<Rightarrow> jsnum" where
  "jadd (Fin a) (Fin b) = Fin (a + b)"
| "jadd NaN _ = NaN"
| "jadd _ NaN = NaN"
| "jadd PosInf NegInf = NaN"
| "jadd NegInf PosInf = NaN"
| "jadd PosInf _ = PosInf"
| "jadd NegInf _ = NegInf"
| "jadd _ b = b"

definition jsub :: "jsnum \<Rightarrow> jsnum \<Rightarrow> jsnum" where
  "jsub a b = jadd a (jneg b)"

fun jsign :: "jsnum \<Rightarrow> rat" where
  "jsign (Fin q) = sgn q"
| "jsign PosInf = 1"
| "jsign NegInf = - 1"
| "jsign NaN = 0"

definition signed_inf :: "rat \<Rightarrow> jsnum" where
  "signed_inf s = (if 0 < s then PosInf else if s < 0 then NegInf else NaN)"

fun jmul :: "jsnum \<Rightarrow> jsnum \<Rightarrow> jsnum" where
  "jmul (Fin a) (Fin b) = Fin (a * b)"
| "jmul NaN _ = NaN"
| "jmul _ NaN = NaN"
| "jmul a b = signed_inf (jsign a * jsign b)"

text \<open>A divisor of zero is the positive one: the divisors are sizes.\<close>

fun jdiv :: "jsnum \<Rightarrow> jsnum \<Rightarrow> jsnum" where
  "jdiv (Fin a) (Fin b) = (if b = 0 then signed_inf (sgn a) else Fin (a / b))"
| "jdiv NaN _ = NaN"
| "jdiv _ NaN = NaN"
| "jdiv (Fin a) _ = Fin 0"
| "jdiv a (Fin b) = signed_inf (jsign a * (if b < 0 then - 1 else 1))"
| "jdiv _ _ = NaN"

fun jless :: "jsnum \<Rightarrow> jsnum \<Rightarrow> bool" where
  "jless (Fin a) (Fin b) = (a < b)"
| "jless NaN _ = False"
| "jless _ NaN = False"
| "jless a PosInf = (a \<noteq> PosInf)"
| "jless NegInf b = (b \<noteq> NegInf)"
| "jless _ _ = False"

section \<open>Integers of a \<open>DataView\<close>\<close>

definition trunc :: "rat \<Rightarrow> int" where
  "trunc q = (if 0 \<le> q then \<lfloor>q\<rfloor> else \<lceil>q\<rceil>)"

lemma trunc_of_int [simp]: "trunc (of_int i) = i" "trunc (rat_of_nat n) = int n"
  by (simp_all add: trunc_def)

text \<open>\<open>ToUint8\<close>, \<open>ToUint16\<close>, \<open>ToInt16\<close>: truncation, then the low bits; a non-finite number is 0.\<close>

fun to_bits :: "jsnum \<Rightarrow> 'a::len word" where
  "to_bits (Fin q) = word_of_int (trunc q)"
| "to_bits _ = 0"

definition u16_bytes :: "16 word \<Rightarrow> 8 word list" where
  "u16_bytes v = [ucast v, ucast (drop_bit 8 v)]"

fun bytes_u16 :: "8 word list \<Rightarrow> 16 word" where
  "bytes_u16 [a, b] = or (ucast a) (push_bit 8 (ucast b))"
| "bytes_u16 _ = 0"

lemma length_u16_bytes [simp]: "length (u16_bytes v) = 2"
  by (simp add: u16_bytes_def)

lemma bytes_u16_inverse [simp]: "bytes_u16 (u16_bytes v) = v"
  by (auto simp: u16_bytes_def intro!: bit_word_eqI simp: bit_simps)

text \<open>A 32-bit integer in little-endian order, \<open>getInt32(0, true)\<close>.\<close>

fun bytes_nat :: "8 word list \<Rightarrow> nat" where
  "bytes_nat [] = 0"
| "bytes_nat (b # bs) = unat b + 256 * bytes_nat bs"

definition getInt32 :: "8 word list \<Rightarrow> int" where
  "getInt32 bs = sint (of_nat (bytes_nat bs) :: 32 word)"

fun nat_bytes :: "nat \<Rightarrow> nat \<Rightarrow> 8 word list" where
  "nat_bytes 0 n = []"
| "nat_bytes (Suc k) n = of_nat n # nat_bytes k (n div 256)"

lemma length_nat_bytes [simp]: "length (nat_bytes k n) = k"
  by (induction k arbitrary: n) simp_all

lemma bytes_nat_inverse: "n < 256 ^ k \<Longrightarrow> bytes_nat (nat_bytes k n) = n"
proof (induction k arbitrary: n)
  case (Suc k)
  then have "bytes_nat (nat_bytes k (n div 256)) = n div 256" by (simp add: less_mult_imp_div_less mult.commute)
  then show ?case by (simp add: unat_of_nat)
qed simp

lemma getInt32_nat_bytes:
  assumes "n < 2 ^ 31"
  shows "getInt32 (nat_bytes 4 n) = int n"
proof -
  have "bytes_nat (nat_bytes 4 n) = n" using assms by (intro bytes_nat_inverse) simp
  moreover have "sint (of_nat n :: 32 word) = int n"
    using assms by (simp add: signed_of_nat signed_take_bit_int_eq_self)
  ultimately show ?thesis by (simp add: getInt32_def)
qed

section \<open>Floating-point formats\<close>

text \<open>
  The format with \<open>w\<close> exponent and \<open>p\<close> fraction bits: \<open>setFloat32\<close> is \<open>8, 23\<close>, \<open>setFloat64\<close> is
  \<open>11, 52\<close>. A value is rounded to the nearest multiple of the last place, ties to even; the carry of the
  rounding runs into the exponent, and what reaches the last exponent is infinite.
\<close>

definition round_even :: "rat \<Rightarrow> int" where
  "round_even q = (let f = \<lfloor>q\<rfloor>; d = q - of_int f in
     if d < 1 / 2 then f else if 1 / 2 < d then f + 1 else if even f then f else f + 1)"

lemma round_even_of_int [simp]: "round_even (of_int i) = i"
  by (simp add: round_even_def)

text \<open>The exponent of a positive number.\<close>

definition ilog2 :: "rat \<Rightarrow> int" where
  "ilog2 a = (let (n, d) = quotient_of a; e = int (floorlog 2 (nat n)) - int (floorlog 2 (nat d)) in
     if 2 powi e \<le> a then e else e - 1)"

definition ieee_bias :: "nat \<Rightarrow> int" where
  "ieee_bias w = 2 ^ (w - 1) - 1"

definition ieee_mag :: "nat \<Rightarrow> nat \<Rightarrow> rat \<Rightarrow> nat" where
  "ieee_mag w p a =
     (if a = 0 then 0
      else let e = max (ilog2 a) (1 - ieee_bias w) in
        min ((2 ^ w - 1) * 2 ^ p)
          (nat (e + ieee_bias w - 1) * 2 ^ p + nat (round_even (a / 2 powi (e - int p)))))"

fun ieee_bits :: "nat \<Rightarrow> nat \<Rightarrow> jsnum \<Rightarrow> nat" where
  "ieee_bits w p (Fin q) = (if q < 0 then 2 ^ (w + p) else 0) + ieee_mag w p \<bar>q\<bar>"
| "ieee_bits w p PosInf = (2 ^ w - 1) * 2 ^ p"
| "ieee_bits w p NegInf = 2 ^ (w + p) + (2 ^ w - 1) * 2 ^ p"
| "ieee_bits w p NaN = (2 ^ w - 1) * 2 ^ p + 2 ^ (p - 1)"

definition float32_bytes :: "jsnum \<Rightarrow> 8 word list" where
  "float32_bytes v = nat_bytes 4 (ieee_bits 8 23 v)"

definition float64_bytes :: "jsnum \<Rightarrow> 8 word list" where
  "float64_bytes v = nat_bytes 8 (ieee_bits 11 52 v)"

text \<open>Reading a format back.\<close>

definition ieee_value :: "nat \<Rightarrow> nat \<Rightarrow> nat \<Rightarrow> jsnum" where
  "ieee_value w p b =
     (let s = b div 2 ^ (w + p); e = b div 2 ^ p mod 2 ^ w; f = b mod 2 ^ p in
      if e = 2 ^ w - 1 then (if f \<noteq> 0 then NaN else if s = 0 then PosInf else NegInf)
      else
        let m = (if e = 0 then rat_of_nat f * 2 powi (1 - ieee_bias w - int p)
                 else rat_of_nat (2 ^ p + f) * 2 powi (int e - ieee_bias w - int p)) in
        Fin (if s = 0 then m else - m))"

text \<open>The finite numbers of a format.\<close>

definition ieee_exact :: "nat \<Rightarrow> nat \<Rightarrow> rat \<Rightarrow> bool" where
  "ieee_exact w p q \<longleftrightarrow> (\<exists>m k. q = of_int m * 2 powi k \<and> \<bar>m\<bar> < 2 ^ (p + 1)
     \<and> 1 - ieee_bias w - int p \<le> k \<and> k \<le> ieee_bias w - int p)"

lemma floorlog2_bounds: "0 < n \<Longrightarrow> (2::nat) ^ (floorlog 2 n - 1) \<le> n \<and> n < 2 ^ floorlog 2 n"
  using floorlog_bounds [of n 2] by simp

lemma powi_le_iff: "(2::rat) powi a \<le> 2 powi b \<longleftrightarrow> a \<le> b"
  by (metis linorder_not_le power_int_increasing power_int_strict_increasing one_le_numeral one_less_numeral_iff semiring_norm(76))

lemma ilog2_bounds:
  assumes "0 < a"
  shows "2 powi ilog2 a \<le> a" "a < 2 powi (ilog2 a + 1)"
proof -
  obtain n d where q: "quotient_of a = (n, d)" by fastforce
  have d: "0 < d" using quotient_of_denom_pos [OF q] .
  have a: "a = of_int n / of_int d" using quotient_of_div [OF q] .
  have n: "0 < n" using assms d a by (simp add: zero_less_divide_iff)
  let ?fn = "floorlog 2 (nat n)" and ?fd = "floorlog 2 (nat d)"
  have bn: "2 ^ (?fn - 1) \<le> nat n" "nat n < 2 ^ ?fn" and bd: "2 ^ (?fd - 1) \<le> nat d" "nat d < 2 ^ ?fd"
    using floorlog2_bounds [of "nat n"] floorlog2_bounds [of "nat d"] n d by simp_all
  have pn: "0 < ?fn" "0 < ?fd" using n d by (simp_all add: floorlog_def)
  have rn: "rat_of_nat (nat n) = of_int n" "rat_of_nat (nat d) = of_int d" using n d by simp_all
  have hn: "(2::rat) powi (int ?fn - 1) \<le> of_int n" "of_int n < (2::rat) powi int ?fn"
    using bn [folded of_nat_le_iff [where 'a = rat] of_nat_less_iff [where 'a = rat]] pn(1)
    by (simp_all add: rn power_int_def nat_diff_distrib)
  have hd: "(2::rat) powi (int ?fd - 1) \<le> of_int d" "of_int d < (2::rat) powi int ?fd"
    using bd [folded of_nat_le_iff [where 'a = rat] of_nat_less_iff [where 'a = rat]] pn(2)
    by (simp_all add: rn power_int_def nat_diff_distrib)
  let ?e = "int ?fn - int ?fd"
  have lo: "2 powi (?e - 1) \<le> a"
  proof -
    have "(2::rat) powi (?e - 1) * of_int d \<le> 2 powi (?e - 1) * 2 powi int ?fd"
      using hd(2) by (intro mult_left_mono) simp_all
    also have "\<dots> = 2 powi (int ?fn - 1)" by (subst power_int_add [symmetric]) simp_all
    also have "\<dots> \<le> of_int n" by (rule hn(1))
    finally show ?thesis using d by (simp add: a pos_le_divide_eq)
  qed
  have hi: "a < 2 powi (?e + 1)"
  proof -
    have "of_int n < (2::rat) powi int ?fn" by (rule hn(2))
    also have "\<dots> = 2 powi (?e + 1) * 2 powi (int ?fd - 1)" by (subst power_int_add [symmetric]) simp_all
    also have "\<dots> \<le> 2 powi (?e + 1) * of_int d" using hd(1) by (intro mult_left_mono) simp_all
    finally show ?thesis using d by (simp add: a pos_divide_less_eq)
  qed
  show "2 powi ilog2 a \<le> a" "a < 2 powi (ilog2 a + 1)"
    using lo hi by (auto simp: ilog2_def q Let_def)
qed

lemma ilog2_eqI: "\<lbrakk>2 powi e \<le> a; a < 2 powi (e + 1)\<rbrakk> \<Longrightarrow> ilog2 a = e"
proof -
  assume h: "2 powi e \<le> a" "a < 2 powi (e + 1)"
  then have "0 < a" by (metis less_le_trans zero_less_numeral zero_less_power_int)
  with ilog2_bounds [OF this] h have "(2::rat) powi e < 2 powi (ilog2 a + 1)" "(2::rat) powi ilog2 a < 2 powi (e + 1)" by linarith+
  then show ?thesis by (simp add: not_le [symmetric] powi_le_iff)
qed

text \<open>An exact positive number is a whole number of last places at its exponent.\<close>

lemma exact_places:
  assumes "ieee_exact w p a" "0 < a"
  defines "e \<equiv> max (ilog2 a) (1 - ieee_bias w)"
  obtains m where "a = of_int m * 2 powi (e - int p)" "0 < m" "m < 2 ^ (p + 1)" "e \<le> ieee_bias w"
    "2 ^ p \<le> m \<or> e = 1 - ieee_bias w \<and> m < 2 ^ p"
proof -
  from assms(1) obtain M k where M: "a = of_int M * 2 powi k" "\<bar>M\<bar> < 2 ^ (p + 1)" and k: "1 - ieee_bias w - int p \<le> k" "k \<le> ieee_bias w - int p"
    by (auto simp: ieee_exact_def)
  have pos: "0 < (2::rat) powi i" for i by simp
  have M0: "0 < M" using assms(2) M(1) pos [of k] by (simp add: zero_less_mult_iff)
  note lb = ilog2_bounds [OF assms(2)]
  have "a < 2 powi (int (p + 1)) * 2 powi k"
  proof -
    have "of_int M < (2::rat) ^ (p + 1)" using M(2) M0 by (metis abs_of_pos of_int_less_iff of_int_numeral of_int_power)
    then show ?thesis using pos [of k] unfolding M(1) by (intro mult_strict_right_mono) (simp_all only: power_int_of_nat)
  qed
  also have "\<dots> = 2 powi (int p + 1 + k)" by (subst power_int_add [symmetric]) (simp_all add: add_ac)
  finally have "(2::rat) powi ilog2 a < 2 powi (int p + 1 + k)" using lb(1) by simp
  then have el: "ilog2 a \<le> int p + k" by (simp add: not_le [symmetric] powi_le_iff)
  then have ek: "e - int p \<le> k" using k by (simp add: e_def)
  define m where "m = M * 2 ^ nat (k - (e - int p))"
  have "(2::rat) powi k = 2 powi (k - (e - int p)) * 2 powi (e - int p)" by (subst power_int_add [symmetric]) simp_all
  moreover have "(2::rat) powi (k - (e - int p)) = 2 ^ nat (k - (e - int p))" using ek by (simp add: power_int_def)
  ultimately have am: "a = of_int m * 2 powi (e - int p)" by (simp add: M(1) m_def)
  have m0: "0 < m" using M0 by (simp add: m_def)
  have eb: "e \<le> ieee_bias w" using el k by (simp add: e_def)
  have up: "a < 2 powi (e + 1)" using lb(2) powi_le_iff [of "ilog2 a + 1" "e + 1"] by (simp add: e_def)
  have split: "(2::rat) powi (e + 1) = 2 ^ (p + 1) * 2 powi (e - int p)" "(2::rat) powi e = 2 ^ p * 2 powi (e - int p)"
    unfolding power_int_of_nat [symmetric] by (subst power_int_add [symmetric]; simp add: add_ac)+
  have "of_int m < (2::rat) ^ (p + 1)" using up pos [of "e - int p"] unfolding am split by simp
  then have mu: "m < 2 ^ (p + 1)" by (metis of_int_less_iff of_int_numeral of_int_power)
  have "2 ^ p \<le> m \<or> e = 1 - ieee_bias w \<and> m < 2 ^ p"
  proof (cases "e = ilog2 a")
    case True
    with lb(1) have "2 powi e \<le> a" by simp
    then have "(2::rat) ^ p \<le> of_int m" using pos [of "e - int p"] unfolding am split by simp
    then show ?thesis by (metis of_int_le_iff of_int_numeral of_int_power)
  next
    case False
    then show ?thesis by (auto simp: e_def max_def not_le)
  qed
  with that am m0 mu eb show ?thesis by blast
qed

lemma ieee_value_fields:
  assumes x: "x < 2 ^ w - 1" and f: "f < 2 ^ p"
  shows "ieee_value w p ((if neg then 2 ^ (w + p) else 0) + (x * 2 ^ p + f)) =
    Fin ((if neg then - 1 else 1) * (if x = 0 then rat_of_nat f * 2 powi (1 - ieee_bias w - int p)
      else rat_of_nat (2 ^ p + f) * 2 powi (int x - ieee_bias w - int p)))"
proof -
  let ?n = "x * 2 ^ p + f" and ?s = "if neg then 1 else (0::nat)"
  have n: "?n < 2 ^ (w + p)"
  proof -
    have "?n < (x + 1) * 2 ^ p" using f by simp
    also have "\<dots> \<le> 2 ^ w * 2 ^ p" using x by (intro mult_right_mono) simp_all
    finally show ?thesis by (simp add: power_add)
  qed
  have b: "(if neg then 2 ^ (w + p) else 0) + ?n = ?s * 2 ^ (w + p) + ?n" by simp
  have "(?s * 2 ^ (w + p) + ?n) div 2 ^ (w + p) = ?s" using n by simp
  moreover have "(?s * 2 ^ (w + p) + ?n) mod 2 ^ p = f"
    using f by (simp add: power_add mod_add_left_eq [symmetric] mult.assoc [symmetric])
  moreover have "(?s * 2 ^ (w + p) + ?n) div 2 ^ p mod 2 ^ w = x"
  proof -
    have "?s * 2 ^ (w + p) + ?n = (?s * 2 ^ w + x) * 2 ^ p + f" by (simp add: power_add algebra_simps)
    moreover have "((?s * 2 ^ w + x) * 2 ^ p + f) div 2 ^ p = ?s * 2 ^ w + x" using f
      by (metis add.right_neutral div_less div_mult_self3 power_not_zero zero_neq_numeral)
    ultimately have "(?s * 2 ^ (w + p) + ?n) div 2 ^ p = ?s * 2 ^ w + x" by (simp only:)
    then show ?thesis using x by simp
  qed
  moreover have "x \<noteq> 2 ^ w - 1" using x by simp
  ultimately show ?thesis unfolding b ieee_value_def Let_def by (simp only:) simp
qed

lemma ieee_mag_exact:
  assumes "ieee_exact w p a" "0 < a" "1 < w"
  obtains x f where "ieee_mag w p a = x * 2 ^ p + f" "x < 2 ^ w - 1" "f < 2 ^ p"
    "a = (if x = 0 then rat_of_nat f * 2 powi (1 - ieee_bias w - int p)
      else rat_of_nat (2 ^ p + f) * 2 powi (int x - ieee_bias w - int p))"
proof -
  define e where "e = max (ilog2 a) (1 - ieee_bias w)"
  obtain m where m: "a = of_int m * 2 powi (e - int p)" "0 < m" "m < 2 ^ (p + 1)" "e \<le> ieee_bias w"
    "2 ^ p \<le> m \<or> e = 1 - ieee_bias w \<and> m < 2 ^ p"
    using exact_places [OF assms(1,2)] unfolding e_def [symmetric] by metis
  let ?E = "nat (e + ieee_bias w - 1)" and ?M = "nat m"
  have E: "int ?E = e + ieee_bias w - 1" by (simp add: e_def max_def)
  have bias: "2 * ieee_bias w = 2 ^ w - 2" using assms(3) by (cases w) (simp_all add: ieee_bias_def)
  have Eu: "?E + 2 < 2 ^ w"
  proof -
    have "int ?E + 2 < 2 ^ w" using E m(4) bias by linarith
    then show ?thesis by (metis of_nat_add of_nat_less_iff of_nat_numeral of_nat_power)
  qed
  have two: "0 < (2::nat) ^ w - 1" using one_less_power [of "2::nat" w] assms(3) by simp
  have Mi: "int ?M = m" using m(2) by simp
  have Mu: "?M < 2 * 2 ^ p" using m(2,3) by (simp add: nat_less_iff)
  have "a / 2 powi (e - int p) = of_int m" by (simp add: m(1))
  then have "ieee_mag w p a = min ((2 ^ w - 1) * 2 ^ p) (?E * 2 ^ p + ?M)"
    using assms(2) by (simp add: ieee_mag_def e_def [symmetric] Let_def)
  moreover have "?E * 2 ^ p + ?M \<le> (2 ^ w - 1) * 2 ^ p"
  proof -
    have "?E * 2 ^ p + ?M \<le> (?E + 2) * 2 ^ p" using Mu by simp
    also have "\<dots> \<le> (2 ^ w - 1) * 2 ^ p" using Eu by (intro mult_right_mono) simp_all
    finally show ?thesis .
  qed
  ultimately have mag: "ieee_mag w p a = ?E * 2 ^ p + ?M" by simp
  have aM: "a = rat_of_nat ?M * 2 powi (e - int p)" using m(1,2) by simp
  show ?thesis
  proof (cases "2 ^ p \<le> ?M")
    case True
    then obtain f where f: "?M = 2 ^ p + f" using le_Suc_ex by blast
    have "int (?E + 1) - ieee_bias w - int p = e - int p" using E by simp
    with that [of "?E + 1" f] mag f Mu Eu aM show ?thesis by (simp add: algebra_simps)
  next
    case False
    with m(5) Mi have "?E = 0" "e = 1 - ieee_bias w" by (auto simp: le_nat_iff)
    with that [of 0 ?M] mag False aM two show ?thesis by (simp add: not_le)
  qed
qed

text \<open>Every finite number of a format is read back as it was written.\<close>

lemma ieee_roundtrip:
  assumes "ieee_exact w p q" "1 < w"
  shows "ieee_value w p (ieee_bits w p (Fin q)) = Fin q" "ieee_bits w p (Fin q) < 2 ^ (w + p + 1)"
proof -
  have ex: "ieee_exact w p \<bar>q\<bar>"
  proof -
    from assms(1) obtain m k where "q = of_int m * 2 powi k" "\<bar>m\<bar> < 2 ^ (p + 1)"
      "1 - ieee_bias w - int p \<le> k" "k \<le> ieee_bias w - int p" by (auto simp: ieee_exact_def)
    then show ?thesis unfolding ieee_exact_def by (intro exI [of _ "\<bar>m\<bar>"] exI [of _ k]) (simp add: abs_mult)
  qed
  have two: "(1::nat) < 2 ^ w" using one_less_power [of "2::nat" w] assms(2) by simp
  obtain x f where x: "ieee_mag w p \<bar>q\<bar> = x * 2 ^ p + f" "x < 2 ^ w - 1" "f < 2 ^ p"
    "\<bar>q\<bar> = (if x = 0 then rat_of_nat f * 2 powi (1 - ieee_bias w - int p)
      else rat_of_nat (2 ^ p + f) * 2 powi (int x - ieee_bias w - int p))"
  proof (cases "q = 0")
    case True
    with that [of 0 0] two show thesis by (simp add: ieee_mag_def)
  next
    case False
    then have "0 < \<bar>q\<bar>" by simp
    from ieee_mag_exact [OF ex this assms(2)] that show thesis by metis
  qed
  have b: "ieee_bits w p (Fin q) = (if q < 0 then 2 ^ (w + p) else 0) + (x * 2 ^ p + f)" using x(1) by simp
  show "ieee_value w p (ieee_bits w p (Fin q)) = Fin q"
    unfolding b ieee_value_fields [OF x(2,3)] x(4) [symmetric] by simp
  have "x * 2 ^ p + f < (x + 1) * 2 ^ p" using x(3) by simp
  also have "\<dots> \<le> 2 ^ w * 2 ^ p" using x(2) by (intro mult_right_mono) simp_all
  finally show "ieee_bits w p (Fin q) < 2 ^ (w + p + 1)" unfolding b by (simp add: power_add mult.commute)
qed

lemma float64_inverse: "ieee_exact 11 52 q \<Longrightarrow> ieee_value 11 52 (bytes_nat (float64_bytes (Fin q))) = Fin q"
  using ieee_roundtrip [of 11 52 q] by (simp add: float64_bytes_def bytes_nat_inverse)

lemma float32_inverse: "ieee_exact 8 23 q \<Longrightarrow> ieee_value 8 23 (bytes_nat (float32_bytes (Fin q))) = Fin q"
  using ieee_roundtrip [of 8 23 q] by (simp add: float32_bytes_def bytes_nat_inverse)

end
