(* ===== verification/Frontend_Messages.thy ===== *)
theory Frontend_Messages
  imports JS_Numbers
begin

text \<open>
  The browser's data-channel messages: \<open>Frontend/library/src/UeInstanceMessage\<close> (\<open>SendMessageController\<close>,
  \<open>StreamMessageController\<close>, \<open>ToStreamerMessagesController\<close>), \<open>DataChannel/DataChannelSender.ts\<close> and the
  message tables of \<open>WebRtcPlayerController.ts\<close>. A message is a type number followed by the elements in
  the layout its definition gives, in little-endian order. JavaScript's conversions of elements that do
  not have the kind of their field are parameters; so is what a protocol message decodes to. Log texts
  are not modelled.
\<close>

section \<open>Elements and their layout\<close>

type_synonym utf16 = "16 word list"
type_synonym bytes = "8 word list"

datatype elem = ENum jsnum | ENegZero | EText utf16 | EBytes bytes

text \<open>\<open>ToNumber\<close> of a text, a byte array or a JSON value, and \<open>String\<close> of an element.\<close>

record conv =
  cv_elem :: "elem \<Rightarrow> jsnum"
  cv_val :: "jsval \<Rightarrow> jsnum"
  cv_str :: "elem option \<Rightarrow> string"

fun elem_num :: "conv \<Rightarrow> elem \<Rightarrow> jsnum" where
  "elem_num cv (ENum n) = n"
| "elem_num cv ENegZero = Fin 0"
| "elem_num cv e = cv_elem cv e"

fun val_num :: "conv \<Rightarrow> jsval \<Rightarrow> jsnum" where
  "val_num cv (JNum n) = n"
| "val_num cv v = cv_val cv v"

text \<open>A message definition, as it stands in the table: the protocol message may define any value.\<close>

record to_message =
  tm_id :: jsval
  tm_structure :: jsval

text \<open>\<open>structure && structure.length !== n\<close> is false.\<close>

fun layout_fits :: "jsval \<Rightarrow> nat \<Rightarrow> bool" where
  "layout_fits (JArr ts) n = (length ts = n)"
| "layout_fits (JStr s) n = (s = [] \<or> length s = n)"
| "layout_fits (JObj fs) n = (fld (JObj fs) ''length'' = JNum (Fin (of_nat n)))"
| "layout_fits (JBool b) n = (\<not> b)"
| "layout_fits (JNum q) n = (q = Fin 0 \<or> q = NaN)"
| "layout_fits _ n = True"

text \<open>\<open>structure[i]\<close>; \<open>None\<close> is the exception.\<close>

fun layout_type :: "jsval \<Rightarrow> nat \<Rightarrow> jsval option" where
  "layout_type (JArr ts) i = Some (if i < length ts then ts ! i else JUndef)"
| "layout_type (JStr s) i = Some (if i < length s then JStr [s ! i] else JUndef)"
| "layout_type (JObj fs) i = Some (fld (JObj fs) (show_nat i))"
| "layout_type (JBool b) i = Some JUndef"
| "layout_type (JNum q) i = Some JUndef"
| "layout_type _ i = None"

text \<open>The bytes an element takes: \<open>None\<close> is \<open>NaN\<close>.\<close>

fun text_size :: "elem \<Rightarrow> nat option" where
  "text_size (EText s) = Some (2 + 2 * length s)"
| "text_size (EBytes bs) = Some (2 + 2 * length bs)"
| "text_size _ = None"

fun raw_size :: "elem \<Rightarrow> nat option" where
  "raw_size (EBytes bs) = Some (length bs)"
| "raw_size _ = None"

definition elem_size :: "jsval \<Rightarrow> elem \<Rightarrow> nat option" where
  "elem_size t e =
     (if t = JStr ''uint8'' then Some 1
      else if t = JStr ''uint16'' \<or> t = JStr ''int16'' then Some 2
      else if t = JStr ''float'' then Some 4
      else if t = JStr ''double'' then Some 8
      else if t = JStr ''string'' then text_size e
      else if t = JStr ''raw'' then raw_size e
      else Some 0)"

section \<open>Building a message\<close>

text \<open>A write at an offset; \<open>None\<close> is the \<open>RangeError\<close> of a write beyond the buffer.\<close>

definition put :: "bytes \<Rightarrow> nat \<times> bytes \<Rightarrow> (nat \<times> bytes) option" where
  "put bs = (\<lambda>(off, buf).
     if off + length bs \<le> length buf
     then Some (off + length bs, take off buf @ bs @ drop (off + length bs) buf)
     else None)"

fun put_chars :: "utf16 \<Rightarrow> nat \<times> bytes \<Rightarrow> (nat \<times> bytes) option" where
  "put_chars [] st = Some st"
| "put_chars (c # cs) st = Option.bind (put (u16_bytes c) st) (put_chars cs)"

fun float_bytes :: "nat \<Rightarrow> elem \<Rightarrow> conv \<Rightarrow> bytes" where
  "float_bytes n ENegZero cv = replicate (n - 1) 0 @ [0x80]"
| "float_bytes n e cv = (if n = 4 then float32_bytes (elem_num cv e) else float64_bytes (elem_num cv e))"

fun put_text :: "elem \<Rightarrow> nat \<times> bytes \<Rightarrow> (nat \<times> bytes) option" where
  "put_text (EText s) st = Option.bind (put (u16_bytes (of_nat (length s))) st) (put_chars s)"
| "put_text (EBytes []) st = put (u16_bytes 0) st"
| "put_text _ st = None"

fun put_raw :: "elem \<Rightarrow> nat \<times> bytes \<Rightarrow> (nat \<times> bytes) option" where
  "put_raw (EBytes bs) st = put bs st"
| "put_raw _ st = None"

definition put_elem :: "conv \<Rightarrow> jsval \<Rightarrow> elem \<Rightarrow> nat \<times> bytes \<Rightarrow> (nat \<times> bytes) option" where
  "put_elem cv t e st =
     (if t = JStr ''uint8'' then put [to_bits (elem_num cv e)] st
      else if t = JStr ''uint16'' \<or> t = JStr ''int16'' then put (u16_bytes (to_bits (elem_num cv e))) st
      else if t = JStr ''float'' then put (float_bytes 4 e cv) st
      else if t = JStr ''double'' then put (float_bytes 8 e cv) st
      else if t = JStr ''string'' then put_text e st
      else if t = JStr ''raw'' then put_raw e st
      else Some st)"

fun sizes :: "jsval \<Rightarrow> nat \<Rightarrow> elem list \<Rightarrow> nat option option" where
  "sizes fmt i [] = Some (Some 0)"
| "sizes fmt i (e # es) = (case layout_type fmt i of
     None \<Rightarrow> None
   | Some t \<Rightarrow> (case sizes fmt (Suc i) es of
       None \<Rightarrow> None
     | Some n \<Rightarrow> Some (case (elem_size t e, n) of (Some a, Some b) \<Rightarrow> Some (a + b) | _ \<Rightarrow> None)))"

fun put_elems :: "conv \<Rightarrow> jsval \<Rightarrow> nat \<Rightarrow> elem list \<Rightarrow> nat \<times> bytes \<Rightarrow> (nat \<times> bytes) option" where
  "put_elems cv fmt i [] st = Some st"
| "put_elems cv fmt i (e # es) st = (case layout_type fmt i of
     None \<Rightarrow> None
   | Some t \<Rightarrow> Option.bind (put_elem cv t e st) (put_elems cv fmt (Suc i) es))"

text \<open>
  What becomes of the data: refused because the number of elements is wrong, an exception, or the
  buffer. A size that is not a number makes an empty buffer, and the first write is out of its range.
\<close>

datatype built = Refused | Raised | Built bytes

definition build :: "conv \<Rightarrow> to_message \<Rightarrow> elem list \<Rightarrow> built" where
  "build cv m es =
     (if \<not> layout_fits (tm_structure m) (length es) then Refused
      else case sizes (tm_structure m) 0 es of
        None \<Rightarrow> Raised
      | Some n \<Rightarrow>
          (case Option.bind (put [to_bits (val_num cv (tm_id m))] (0, replicate (case n of None \<Rightarrow> 0 | Some k \<Rightarrow> k + 1) 0))
                 (put_elems cv (tm_structure m) 0 es) of
             None \<Rightarrow> Raised
           | Some (off, buf) \<Rightarrow> Built buf))"

section \<open>What the receiver reads\<close>

text \<open>The known kinds of field, and the reader of a layout made of them: the other end of the format.\<close>

datatype field = U8 | U16 | I16 | F32 | F64 | Txt | Raw

fun field_name :: "field \<Rightarrow> string" where
  "field_name U8 = ''uint8''"
| "field_name U16 = ''uint16''"
| "field_name I16 = ''int16''"
| "field_name F32 = ''float''"
| "field_name F64 = ''double''"
| "field_name Txt = ''string''"
| "field_name Raw = ''raw''"

definition layout :: "field list \<Rightarrow> jsval" where
  "layout fs = JArr (map (\<lambda>f. JStr (field_name f)) fs)"

fun read_chars :: "nat \<Rightarrow> bytes \<Rightarrow> (utf16 \<times> bytes) option" where
  "read_chars 0 bs = Some ([], bs)"
| "read_chars (Suc n) (a # b # bs) = map_option (\<lambda>(cs, r). (bytes_u16 [a, b] # cs, r)) (read_chars n bs)"
| "read_chars (Suc n) _ = None"

definition read_float :: "nat \<Rightarrow> nat \<Rightarrow> bytes \<Rightarrow> elem" where
  "read_float w p bs = (if bytes_nat bs = 2 ^ (w + p) then ENegZero else ENum (ieee_value w p (bytes_nat bs)))"

definition split_at :: "nat \<Rightarrow> bytes \<Rightarrow> (bytes \<times> bytes) option" where
  "split_at n bs = (if n \<le> length bs then Some (take n bs, drop n bs) else None)"

definition read_field :: "field \<Rightarrow> bytes \<Rightarrow> (elem \<times> bytes) option" where
  "read_field f bs = (case f of
     U8 \<Rightarrow> map_option (\<lambda>(b, r). (ENum (Fin (of_nat (bytes_nat b))), r)) (split_at 1 bs)
   | U16 \<Rightarrow> map_option (\<lambda>(b, r). (ENum (Fin (of_nat (unat (bytes_u16 b)))), r)) (split_at 2 bs)
   | I16 \<Rightarrow> map_option (\<lambda>(b, r). (ENum (Fin (of_int (sint (bytes_u16 b)))), r)) (split_at 2 bs)
   | F32 \<Rightarrow> map_option (\<lambda>(b, r). (read_float 8 23 b, r)) (split_at 4 bs)
   | F64 \<Rightarrow> map_option (\<lambda>(b, r). (read_float 11 52 b, r)) (split_at 8 bs)
   | Txt \<Rightarrow> Option.bind (split_at 2 bs) (\<lambda>(b, r). map_option (\<lambda>(cs, r). (EText cs, r)) (read_chars (unat (bytes_u16 b)) r))
   | Raw \<Rightarrow> Some (EBytes bs, []))"

fun read_message :: "field list \<Rightarrow> bytes \<Rightarrow> elem list option" where
  "read_message [] bs = (if bs = [] then Some [] else None)"
| "read_message (f # fs) bs = Option.bind (read_field f bs) (\<lambda>(e, r). map_option (Cons e) (read_message fs r))"

section \<open>The bytes of a message\<close>

definition field_bytes :: "conv \<Rightarrow> field \<Rightarrow> elem \<Rightarrow> bytes" where
  "field_bytes cv f e = (case f of
     U8 \<Rightarrow> [to_bits (elem_num cv e)]
   | F32 \<Rightarrow> float_bytes 4 e cv
   | F64 \<Rightarrow> float_bytes 8 e cv
   | Txt \<Rightarrow> (case e of EText s \<Rightarrow> u16_bytes (of_nat (length s)) @ concat (map u16_bytes s) | _ \<Rightarrow> [])
   | Raw \<Rightarrow> (case e of EBytes bs \<Rightarrow> bs | _ \<Rightarrow> [])
   | _ \<Rightarrow> u16_bytes (to_bits (elem_num cv e)))"

text \<open>An element has the kind of its field.\<close>

fun kind_ok :: "field \<Rightarrow> elem \<Rightarrow> bool" where
  "kind_ok Txt e = (\<exists>s. e = EText s)"
| "kind_ok Raw e = (\<exists>bs. e = EBytes bs)"
| "kind_ok _ e = (e = ENegZero \<or> (\<exists>n. e = ENum n))"

lemma put_fresh [simp]:
  "put bs (length pre, pre @ replicate (length bs + n) 0) = Some (length (pre @ bs), (pre @ bs) @ replicate n 0)"
  by (simp add: put_def)

lemma put_fresh_at:
  "\<lbrakk>off = length pre; k = length bs + n\<rbrakk> \<Longrightarrow>
    put bs (off, pre @ replicate k 0) = Some (length pre + length bs, (pre @ bs) @ replicate n 0)"
  by simp

lemma length_chars: "length (concat (map u16_bytes s)) = 2 * length s"
  by (induction s) simp_all

lemma put_chars_fresh:
  "k = 2 * length s + n \<Longrightarrow> put_chars s (length pre, pre @ replicate k 0)
    = Some (length pre + 2 * length s, (pre @ concat (map u16_bytes s)) @ replicate n 0)"
proof (induction s arbitrary: pre k)
  case (Cons c s)
  have "put (u16_bytes c) (length pre, pre @ replicate k 0)
      = Some (length (pre @ u16_bytes c), (pre @ u16_bytes c) @ replicate (2 * length s + n) 0)"
    using Cons.prems by (subst put_fresh_at [where n = "2 * length s + n"]) simp_all
  with Cons.IH [of "2 * length s + n" "pre @ u16_bytes c"] show ?case by simp
qed simp

lemma length_float_bytes [simp]: "length (float_bytes 4 e cv) = 4" "length (float_bytes 8 e cv) = 8"
  by (cases e; simp add: float32_bytes_def float64_bytes_def)+

lemma size_bytes: "kind_ok f e \<Longrightarrow> elem_size (JStr (field_name f)) e = Some (length (field_bytes cv f e))"
  by (cases f) (auto simp: elem_size_def field_bytes_def length_chars)

lemma put_elem_put: "\<lbrakk>kind_ok f e; f \<noteq> Txt\<rbrakk> \<Longrightarrow> put_elem cv (JStr (field_name f)) e st = put (field_bytes cv f e) st"
  by (cases f) (auto simp: put_elem_def field_bytes_def)

lemma put_elem_fresh:
  assumes "kind_ok f e"
  shows "put_elem cv (JStr (field_name f)) e (length pre, pre @ replicate (length (field_bytes cv f e) + n) 0)
    = Some (length (pre @ field_bytes cv f e), (pre @ field_bytes cv f e) @ replicate n 0)"
proof (cases f)
  case Txt
  then obtain s where e: "e = EText s" using assms by auto
  let ?l = "u16_bytes (of_nat (length s))"
  have "put ?l (length pre, pre @ replicate (2 + 2 * length s + n) 0)
      = Some (length (pre @ ?l), (pre @ ?l) @ replicate (2 * length s + n) 0)"
    by (subst put_fresh_at [where n = "2 * length s + n"]) simp_all
  then show ?thesis using put_chars_fresh [of _ s n "pre @ ?l"] Txt e
    by (simp add: put_elem_def field_bytes_def length_chars)
qed (use put_elem_put [OF assms] in simp_all)

abbreviation "all_bytes cv fs es \<equiv> concat (map2 (field_bytes cv) fs es)"

lemma put_elems_fresh:
  assumes "list_all2 kind_ok fs es" "drop i ts = map (\<lambda>f. JStr (field_name f)) fs"
  shows "put_elems cv (JArr ts) i es (length pre, pre @ replicate (length (all_bytes cv fs es) + n) 0)
    = Some (length (pre @ all_bytes cv fs es), (pre @ all_bytes cv fs es) @ replicate n 0)"
  using assms
proof (induction arbitrary: i pre rule: list_all2_induct)
  case (Cons f fs e es)
  from Cons.prems have i: "i < length ts" "ts ! i = JStr (field_name f)" "drop (Suc i) ts = map (\<lambda>f. JStr (field_name f)) fs"
    by (metis drop_eq_Nil list.distinct(1) list.simps(9) not_le, metis list.simps(9) nth_via_drop,
        metis drop_Suc list.sel(3) list.simps(9) tl_drop)
  let ?b = "field_bytes cv f e"
  have "put_elem cv (JStr (field_name f)) e (length pre, pre @ replicate (length ?b + (length (all_bytes cv fs es) + n)) 0)
      = Some (length (pre @ ?b), (pre @ ?b) @ replicate (length (all_bytes cv fs es) + n) 0)"
    by (rule put_elem_fresh [OF Cons.hyps(1)])
  with Cons.IH [OF i(3), of "pre @ ?b"] i show ?case by (simp add: add.assoc)
qed simp

lemma sizes_layout:
  assumes "list_all2 kind_ok fs es" "drop i ts = map (\<lambda>f. JStr (field_name f)) fs"
  shows "sizes (JArr ts) i es = Some (Some (length (all_bytes cv fs es)))"
  using assms
proof (induction arbitrary: i rule: list_all2_induct)
  case (Cons f fs e es)
  from Cons.prems have i: "i < length ts" "ts ! i = JStr (field_name f)" "drop (Suc i) ts = map (\<lambda>f. JStr (field_name f)) fs"
    by (metis drop_eq_Nil list.distinct(1) list.simps(9) not_le, metis list.simps(9) nth_via_drop,
        metis drop_Suc list.sel(3) list.simps(9) tl_drop)
  with Cons.IH [OF i(3)] size_bytes [OF Cons.hyps(1), of cv] show ?case by simp
qed simp

text \<open>The message built from well-kinded elements: no exception, and no byte left unwritten.\<close>

lemma build_bytes:
  assumes "list_all2 kind_ok fs es"
  shows "build cv \<lparr>tm_id = v, tm_structure = layout fs\<rparr> es = Built (to_bits (val_num cv v) # all_bytes cv fs es)"
proof -
  let ?i = "to_bits (val_num cv v) :: 8 word" and ?n = "length (all_bytes cv fs es)"
  have l: "layout_fits (layout fs) (length es)" using list_all2_lengthD [OF assms] by (simp add: layout_def)
  have "put [?i] (0, replicate (?n + 1) 0) = Some (length [?i], [?i] @ replicate ?n 0)"
    using put_fresh [of "[?i]" "[]" ?n] by simp
  moreover have "put_elems cv (layout fs) 0 es (length [?i], [?i] @ replicate ?n 0)
      = Some (length ([?i] @ all_bytes cv fs es), [?i] @ all_bytes cv fs es)"
    using put_elems_fresh [OF assms, of 0 _ cv "[?i]" 0] by (simp add: layout_def)
  moreover have "sizes (layout fs) 0 es = Some (Some ?n)" using sizes_layout [OF assms] by (simp add: layout_def)
  ultimately show ?thesis using l by (simp add: build_def)
qed

text \<open>An element that its field can hold: an integer in range, a number of the format, a text whose length fits.\<close>

fun exact :: "field \<Rightarrow> elem \<Rightarrow> bool" where
  "exact U8 e = (\<exists>n < 2 ^ 8. e = ENum (Fin (of_nat n)))"
| "exact U16 e = (\<exists>n < 2 ^ 16. e = ENum (Fin (of_nat n)))"
| "exact I16 e = (\<exists>i. - (2 ^ 15) \<le> i \<and> i < 2 ^ 15 \<and> e = ENum (Fin (of_int i)))"
| "exact F32 e = (e = ENegZero \<or> (\<exists>q. ieee_exact 8 23 q \<and> e = ENum (Fin q)))"
| "exact F64 e = (e = ENegZero \<or> (\<exists>q. ieee_exact 11 52 q \<and> e = ENum (Fin q)))"
| "exact Txt e = (\<exists>s. length s < 2 ^ 16 \<and> e = EText s)"
| "exact Raw e = (\<exists>bs. e = EBytes bs)"

lemma exact_kind: "exact f e \<Longrightarrow> kind_ok f e"
  by (cases f) auto

lemma split_at_append [simp]: "split_at (length bs) (bs @ r) = Some (bs, r)"
  by (simp add: split_at_def)

lemma split_at_eq: "length bs = n \<Longrightarrow> split_at n (bs @ r) = Some (bs, r)"
  by auto

lemma read_chars_written [simp]: "read_chars (length s) (concat (map u16_bytes s) @ r) = Some (s, r)"
proof (induction s)
  case (Cons c s)
  obtain a b where ab: "u16_bytes c = [a, b]" by (simp add: u16_bytes_def)
  with bytes_u16_inverse [of c] have "bytes_u16 [a, b] = c" by simp
  with Cons.IH ab show ?case by simp
qed simp

lemma zero_pattern: "1 < w \<Longrightarrow> ieee_value w p (2 ^ (w + p)) = Fin 0"
  using ieee_value_fields [of 0 w 0 p True] one_less_power [of "2::nat" w] by simp

lemma read_float_written:
  assumes "ieee_exact w p q" "1 < w" "bytes_nat bs = ieee_bits w p (Fin q)"
  shows "read_float w p bs = ENum (Fin q)"
proof -
  have v: "ieee_value w p (bytes_nat bs) = Fin q" using ieee_roundtrip [OF assms(1,2)] assms(3) by simp
  have "bytes_nat bs \<noteq> 2 ^ (w + p)"
  proof
    assume h: "bytes_nat bs = 2 ^ (w + p)"
    with v zero_pattern [OF assms(2), of p] have "q = 0" by simp
    with assms(3) h show False by (simp add: ieee_mag_def)
  qed
  with v show ?thesis by (simp add: read_float_def)
qed

lemma float_bits: "bytes_nat (float32_bytes (Fin q)) = ieee_bits 8 23 (Fin q)" if "ieee_exact 8 23 q"
  using ieee_roundtrip [OF that] by (simp add: float32_bytes_def bytes_nat_inverse)

lemma double_bits: "bytes_nat (float64_bytes (Fin q)) = ieee_bits 11 52 (Fin q)" if "ieee_exact 11 52 q"
  using ieee_roundtrip [OF that] by (simp add: float64_bytes_def bytes_nat_inverse)

lemma bytes_nat_append: "bytes_nat (a @ b) = bytes_nat a + 256 ^ length a * bytes_nat b"
  by (induction a) (simp_all add: algebra_simps)

lemma bytes_nat_zeros: "bytes_nat (replicate n 0) = 0"
  by (induction n) simp_all

lemma negzero_bytes: "read_float 8 23 (float_bytes 4 ENegZero cv) = ENegZero" "read_float 11 52 (float_bytes 8 ENegZero cv) = ENegZero"
  by (simp_all add: read_float_def bytes_nat_append bytes_nat_zeros)

lemma read_field_written:
  assumes "exact f e" "f \<noteq> Raw"
  shows "read_field f (field_bytes cv f e @ r) = Some (e, r)"
proof (cases f)
  case U8
  then obtain n where "n < 2 ^ 8" "e = ENum (Fin (of_nat n))" using assms by auto
  moreover from this have "bytes_nat [of_nat n] = n" by (simp add: unat_of_nat take_bit_nat_eq_self)
  ultimately show ?thesis using U8
    by (simp add: read_field_def field_bytes_def split_at_def del: bytes_nat.simps)
next
  case U16
  then obtain n where "n < 2 ^ 16" "e = ENum (Fin (of_nat n))" using assms by auto
  moreover from this have "unat (of_nat n :: 16 word) = n" by (simp add: unat_of_nat take_bit_nat_eq_self)
  ultimately show ?thesis using U16 by (simp add: read_field_def field_bytes_def split_at_eq del: of_nat_unat)
next
  case I16
  then obtain i where i: "- (2 ^ 15) \<le> i" "i < 2 ^ 15" "e = ENum (Fin (of_int i))" using assms by auto
  then have "sint (word_of_int i :: 16 word) = i" by (simp add: signed_of_int signed_take_bit_int_eq_self)
  with i I16 show ?thesis by (simp add: read_field_def field_bytes_def split_at_eq del: of_int_sint)
next
  case F32
  show ?thesis
  proof (cases "e = ENegZero")
    case True
    then show ?thesis using F32 negzero_bytes(1) [of cv] length_float_bytes(1) [of ENegZero cv]
      by (simp only: read_field_def field_bytes_def field.case split_at_eq) simp
  next
    case False
    then obtain q where q: "ieee_exact 8 23 q" "e = ENum (Fin q)" using assms F32 by auto
    have "read_float 8 23 (float32_bytes (Fin q)) = ENum (Fin q)"
      by (rule read_float_written [OF q(1)]) (simp_all add: float_bits [OF q(1)])
    then show ?thesis using F32 q by (simp add: read_field_def field_bytes_def split_at_eq float32_bytes_def)
  qed
next
  case F64
  show ?thesis
  proof (cases "e = ENegZero")
    case True
    then show ?thesis using F64 negzero_bytes(2) [of cv] length_float_bytes(2) [of ENegZero cv]
      by (simp only: read_field_def field_bytes_def field.case split_at_eq) simp
  next
    case False
    then obtain q where q: "ieee_exact 11 52 q" "e = ENum (Fin q)" using assms F64 by auto
    have "read_float 11 52 (float64_bytes (Fin q)) = ENum (Fin q)"
      by (rule read_float_written [OF q(1)]) (simp_all add: double_bits [OF q(1)])
    then show ?thesis using F64 q by (simp add: read_field_def field_bytes_def split_at_eq float64_bytes_def)
  qed
next
  case Txt
  then obtain s where s: "length s < 2 ^ 16" "e = EText s" using assms by auto
  then have "unat (of_nat (length s) :: 16 word) = length s" by (simp add: unat_of_nat take_bit_nat_eq_self)
  then show ?thesis using Txt s by (simp add: read_field_def field_bytes_def split_at_eq)
qed (use assms in simp)

lemma read_message_written:
  "\<lbrakk>list_all2 exact fs es; Raw \<notin> set (butlast fs)\<rbrakk> \<Longrightarrow> read_message fs (all_bytes cv fs es) = Some es"
proof (induction rule: list_all2_induct)
  case (Cons f fs e es)
  show ?case
  proof (cases "f = Raw")
    case True
    with Cons.prems Cons.hyps have "fs = []" "es = []" by (auto split: if_splits)
    with True Cons.hyps(1) show ?thesis by (auto simp: read_field_def field_bytes_def)
  next
    case False
    moreover have "Raw \<notin> set (butlast fs)" using Cons.prems by (auto split: if_splits)
    ultimately show ?thesis using read_field_written [OF Cons.hyps(1)] Cons.IH by simp
  qed
qed simp

end
