(* ===== verification/Frontend_Sender.thy ===== *)
theory Frontend_Sender
  imports Frontend_Messages
begin

text \<open>
  The state of the browser's messaging: the two tables of messages, the registered handlers, the last
  gamepad values, the data channel, and what has been sent. \<open>populateDefaultProtocol\<close> and
  \<open>registerMessageHandlers\<close> fill the tables; a protocol message of the streamer extends them.
\<close>

section \<open>Tables\<close>

definition default_to :: "(string \<times> nat \<times> field list) list" where
  "default_to = [
     (''IFrameRequest'', 0, []),
     (''RequestQualityControl'', 1, []),
     (''FpsRequest'', 2, []),
     (''AverageBitrateRequest'', 3, []),
     (''StartStreaming'', 4, []),
     (''StopStreaming'', 5, []),
     (''LatencyTest'', 6, [Txt]),
     (''RequestInitialSettings'', 7, []),
     (''TestEcho'', 8, []),
     (''DataChannelLatencyTest'', 9, []),
     (''UIInteraction'', 50, [Txt]),
     (''Command'', 51, [Txt]),
     (''TextboxEntry'', 52, [Txt]),
     (''KeyDown'', 60, [U8, U8]),
     (''KeyUp'', 61, [U8]),
     (''KeyPress'', 62, [U16]),
     (''MouseEnter'', 70, []),
     (''MouseLeave'', 71, []),
     (''MouseDown'', 72, [U8, U16, U16]),
     (''MouseUp'', 73, [U8, U16, U16]),
     (''MouseMove'', 74, [U16, U16, I16, I16]),
     (''MouseWheel'', 75, [I16, U16, U16]),
     (''MouseDouble'', 76, [U8, U16, U16]),
     (''TouchStart'', 80, [U8, U16, U16, U8, U8, U8]),
     (''TouchEnd'', 81, [U8, U16, U16, U8, U8, U8]),
     (''TouchMove'', 82, [U8, U16, U16, U8, U8, U8]),
     (''GamepadConnected'', 93, []),
     (''GamepadButtonPressed'', 90, [U8, U8, U8]),
     (''GamepadButtonReleased'', 91, [U8, U8, U8]),
     (''GamepadAnalog'', 92, [U8, U8, F64]),
     (''GamepadDisconnected'', 94, [U8])]"

definition default_from :: "(nat \<times> string) list" where
  "default_from = [(0, ''QualityControlOwnership''), (1, ''Response''), (2, ''Command''), (3, ''FreezeFrame''),
     (4, ''UnfreezeFrame''), (5, ''VideoEncoderAvgQP''), (6, ''LatencyTest''), (7, ''InitialSettings''),
     (8, ''FileExtension''), (9, ''FileMimeType''), (10, ''FileContents''), (11, ''TestEcho''),
     (12, ''InputControlOwnership''), (13, ''GamepadResponse''), (14, ''DataChannelLatencyTest''), (255, ''Protocol'')]"

text \<open>What a handler for the streamer does: it sends its data, it sends its type alone, or nothing.\<close>

datatype handler = H_send | H_bare | H_nothing

definition registered_control :: "(string \<times> handler) list" where
  "registered_control = [
     (''IFrameRequest'', H_bare), (''RequestQualityControl'', H_bare), (''FpsRequest'', H_bare),
     (''AverageBitrateRequest'', H_bare), (''StartStreaming'', H_bare), (''StopStreaming'', H_bare),
     (''LatencyTest'', H_send), (''RequestInitialSettings'', H_bare), (''TestEcho'', H_nothing),
     (''UIInteraction'', H_send), (''Command'', H_send), (''TextboxEntry'', H_send),
     (''KeyDown'', H_send), (''KeyUp'', H_send), (''KeyPress'', H_send)]"

definition registered_input :: "(string \<times> handler) list" where
  "registered_input = [
     (''MouseEnter'', H_send), (''MouseLeave'', H_send), (''MouseDown'', H_send),
     (''MouseUp'', H_send), (''MouseMove'', H_send), (''MouseWheel'', H_send),
     (''MouseDouble'', H_send), (''TouchStart'', H_send), (''TouchEnd'', H_send),
     (''TouchMove'', H_send), (''GamepadConnected'', H_bare), (''GamepadButtonPressed'', H_send),
     (''GamepadButtonReleased'', H_send), (''GamepadAnalog'', H_send), (''GamepadDisconnected'', H_send),
     (''XREyeViews'', H_send), (''XRHMDTransform'', H_send), (''XRControllerTransform'', H_send),
     (''XRSystem'', H_send), (''XRButtonTouched'', H_send), (''XRButtonTouchReleased'', H_send),
     (''XRButtonPressed'', H_send), (''XRButtonReleased'', H_send), (''XRAnalog'', H_send),
     (''ChannelRelayStatus'', H_nothing), (''Multiplexed'', H_nothing)]"

definition registered_to :: "(string \<times> handler) list" where
  "registered_to = registered_control @ registered_input"

definition registered_from :: "string list" where
  "registered_from = [
     ''QualityControlOwnership'', ''Response'', ''Command'', ''FreezeFrame'',
     ''UnfreezeFrame'', ''VideoEncoderAvgQP'', ''LatencyTest'', ''DataChannelLatencyTest'',
     ''InitialSettings'', ''FileExtension'', ''FileMimeType'', ''FileContents'',
     ''TestEcho'', ''InputControlOwnership'', ''GamepadResponse'', ''Multiplexed'',
     ''Protocol'']"

text \<open>An output: bytes on the data channel, or the reset of the inactivity timer.\<close>

datatype out = Data bytes | Afk_reset

record frontend =
  fe_toHandlers :: "(string \<times> handler) list"
  fe_fromHandlers :: "string list"
  fe_toMessages :: "(string \<times> to_message) list"
  fe_fromMessages :: "(jsval \<times> string) list"
  fe_analog :: "(string \<times> rat) list"
  fe_channel :: "string option"
  fe_out :: "out list"

definition default_message :: "nat \<Rightarrow> field list \<Rightarrow> to_message" where
  "default_message i fs = \<lparr>tm_id = JNum (Fin (of_nat i)), tm_structure = layout fs\<rparr>"

definition populateDefaultProtocol :: "frontend \<Rightarrow> frontend" where
  "populateDefaultProtocol fe = fe\<lparr>
     fe_toMessages := fold (\<lambda>(n, i, fs). map_set n (default_message i fs)) default_to (fe_toMessages fe),
     fe_fromMessages := fold (\<lambda>(i, n). map_set (JNum (Fin (of_nat i))) n) default_from (fe_fromMessages fe)\<rparr>"

datatype direction = ToStreamer handler | FromStreamer

definition registerMessageHandler :: "direction \<Rightarrow> string \<Rightarrow> frontend \<Rightarrow> frontend" where
  "registerMessageHandler d n fe = (case d of
     ToStreamer h \<Rightarrow> fe\<lparr>fe_toHandlers := map_set n h (fe_toHandlers fe)\<rparr>
   | FromStreamer \<Rightarrow> fe\<lparr>fe_fromHandlers := set_add n (fe_fromHandlers fe)\<rparr>)"

definition registerMessageHandlers :: "frontend \<Rightarrow> frontend" where
  "registerMessageHandlers fe =
     fold (\<lambda>(n, h). registerMessageHandler (ToStreamer h) n) registered_to
       (fold (registerMessageHandler FromStreamer) registered_from fe)"

text \<open>The constructor of \<open>WebRtcPlayerController\<close> does both, before there is a data channel.\<close>

definition new_frontend :: frontend where
  "new_frontend = populateDefaultProtocol (registerMessageHandlers
     \<lparr>fe_toHandlers = [], fe_fromHandlers = [], fe_toMessages = [], fe_fromMessages = [], fe_analog = [],
      fe_channel = None, fe_out = []\<rparr>)"

section \<open>Sending\<close>

definition canSend :: "frontend \<Rightarrow> bool" where
  "canSend fe \<longleftrightarrow> fe_channel fe = Some ''open''"

text \<open>\<open>None\<close> is the exception of a sender without a data channel.\<close>

definition sendData :: "bytes \<Rightarrow> bool \<Rightarrow> frontend \<Rightarrow> frontend option" where
  "sendData bs active fe = (case fe_channel fe of
     None \<Rightarrow> None
   | Some st \<Rightarrow>
       if st = ''open''
       then Some (fe\<lparr>fe_out := fe_out fe @ [Data bs] @ (if active then [Afk_reset] else [])\<rparr>)
       else Some fe)"

definition nth_elem :: "elem list \<Rightarrow> nat \<Rightarrow> elem option" where
  "nth_elem es i = (if i < length es then Some (es ! i) else None)"

fun finite_num :: "elem option \<Rightarrow> rat option" where
  "finite_num (Some (ENum (Fin q))) = Some q"
| "finite_num (Some ENegZero) = Some 0"
| "finite_num _ = None"

definition gamepadAnalog :: "conv \<Rightarrow> elem list \<Rightarrow> frontend \<Rightarrow> bool \<times> frontend" where
  "gamepadAnalog cv es fe = (case finite_num (nth_elem es 2) of
     None \<Rightarrow> (False, fe)
   | Some value \<Rightarrow>
       (let key = cv_str cv (nth_elem es 0) @ '':'' @ cv_str cv (nth_elem es 1);
            previous = (case map_get (fe_analog fe) key of Some v \<Rightarrow> v | None \<Rightarrow> 0);
            set = fe\<lparr>fe_analog := map_set key value (fe_analog fe)\<rparr> in
        if \<bar>value\<bar> \<le> 1 / 10 \<and> \<bar>previous\<bar> \<le> 1 / 10 then (False, set)
        else if \<bar>value - previous\<bar> < 2 / 100 then (False, fe)
        else (True, set)))"

definition countsAsActivity :: "conv \<Rightarrow> string \<Rightarrow> elem list \<Rightarrow> frontend \<Rightarrow> bool \<times> frontend" where
  "countsAsActivity cv ty es fe =
     (if ty = ''GamepadConnected'' then (False, fe)
      else if ty = ''GamepadDisconnected'' then
        (False, fe\<lparr>fe_analog := filter (\<lambda>(k, v). \<not> prefix (cv_str cv (nth_elem es 0) @ '':'') k) (fe_analog fe)\<rparr>)
      else if ty = ''GamepadButtonPressed'' then (finite_num (nth_elem es 2) = Some 0, fe)
      else if ty = ''GamepadAnalog'' then gamepadAnalog cv es fe
      else (True, fe))"

text \<open>The activity is worked out only for what is going to be sent: the argument of \<open>sendData\<close>.\<close>

definition sendMessageToStreamer :: "conv \<Rightarrow> string \<Rightarrow> elem list \<Rightarrow> frontend \<Rightarrow> frontend option" where
  "sendMessageToStreamer cv ty es fe = (case map_get (fe_toMessages fe) ty of
     None \<Rightarrow> Some fe
   | Some m \<Rightarrow> (case build cv m es of
       Refused \<Rightarrow> Some fe
     | Raised \<Rightarrow> None
     | Built bs \<Rightarrow>
         if \<not> canSend fe then Some fe
         else case countsAsActivity cv ty es fe of (active, fe) \<Rightarrow> sendData bs active fe))"

text \<open>\<open>toStreamerHandlers.get(type)(data)\<close>: without a handler this is the call of \<open>undefined\<close>.\<close>

definition toStreamer :: "conv \<Rightarrow> string \<Rightarrow> elem list \<Rightarrow> frontend \<Rightarrow> frontend option" where
  "toStreamer cv ty es fe = (case map_get (fe_toHandlers fe) ty of
     None \<Rightarrow> None
   | Some H_send \<Rightarrow> sendMessageToStreamer cv ty es fe
   | Some H_bare \<Rightarrow> sendMessageToStreamer cv ty [] fe
   | Some H_nothing \<Rightarrow> Some fe)"

text \<open>\<open>toStreamerHandlers.get(type)?.(data)\<close>\<close>

definition toStreamer_opt :: "conv \<Rightarrow> string \<Rightarrow> elem list \<Rightarrow> frontend \<Rightarrow> frontend option" where
  "toStreamer_opt cv ty es fe = (if map_get (fe_toHandlers fe) ty = None then Some fe else toStreamer cv ty es fe)"

definition SendRequestInitialSettings :: "conv \<Rightarrow> frontend \<Rightarrow> frontend option" where
  "SendRequestInitialSettings cv = sendMessageToStreamer cv ''RequestInitialSettings'' []"

definition SendRequestQualityControl :: "conv \<Rightarrow> frontend \<Rightarrow> frontend option" where
  "SendRequestQualityControl cv = sendMessageToStreamer cv ''RequestQualityControl'' []"

section \<open>Receiving\<close>

text \<open>The type that the first byte of a message stands for, and the handler called; \<open>None\<close> is an exception.\<close>

definition handleOnMessage :: "bytes \<Rightarrow> frontend \<Rightarrow> string option" where
  "handleOnMessage msg fe =
     (case map_get (fe_fromMessages fe) (case msg of [] \<Rightarrow> JUndef | b # _ \<Rightarrow> JNum (Fin (of_nat (unat b)))) of
        None \<Rightarrow> None
      | Some n \<Rightarrow> if n \<in> set (fe_fromHandlers fe) then Some n else None)"

text \<open>
  \<open>onProtocolMessage\<close>, with the decoded message. The definitions before the one that raises stay, and
  so nothing is requested then.
\<close>

definition has_own :: "jsval \<Rightarrow> string \<Rightarrow> bool option" where
  "has_own v k = (case v of
     JUndef \<Rightarrow> None | JNull \<Rightarrow> None
   | JObj fs \<Rightarrow> Some (k \<in> fst ` set fs)
   | _ \<Rightarrow> Some False)"

definition protocol_entry :: "jsval \<Rightarrow> string \<Rightarrow> jsval \<Rightarrow> frontend \<Rightarrow> bool \<times> frontend" where
  "protocol_entry dir n v fe =
     (if dir \<noteq> JNum (Fin 0) \<and> dir \<noteq> JNum (Fin 1) then (True, fe)
      else case has_own v ''id'' of
        None \<Rightarrow> (False, fe)
      | Some False \<Rightarrow> (True, fe)
      | Some True \<Rightarrow>
          if dir = JNum (Fin 0) then
            (if n \<in> {''UIInteraction'', ''Command'', ''LatencyTest''} then (True, fe)
             else if map_get (fe_toHandlers fe) n = None then (True, fe)
             else (True, fe\<lparr>fe_toMessages := map_set n \<lparr>tm_id = fld v ''id'', tm_structure = fld v ''structure''\<rparr> (fe_toMessages fe)\<rparr>))
          else
            (if n \<in> set (fe_fromHandlers fe)
             then (True, fe\<lparr>fe_fromMessages := map_set (fld v ''id'') n (fe_fromMessages fe)\<rparr>)
             else (True, fe)))"

fun protocol_entries :: "jsval \<Rightarrow> (string \<times> jsval) list \<Rightarrow> frontend \<Rightarrow> bool \<times> frontend" where
  "protocol_entries dir [] fe = (True, fe)"
| "protocol_entries dir ((n, v) # es) fe = (case protocol_entry dir n v fe of
     (False, fe) \<Rightarrow> (False, fe)
   | (True, fe) \<Rightarrow> protocol_entries dir es fe)"

fun entries_of :: "jsval \<Rightarrow> (string \<times> jsval) list option" where
  "entries_of JUndef = None"
| "entries_of JNull = None"
| "entries_of (JObj fs) = Some (filter (\<lambda>(k, v). k \<noteq> ''Direction'') fs)"
| "entries_of _ = Some []"

definition onProtocolMessage :: "conv \<Rightarrow> jsval option \<Rightarrow> frontend \<Rightarrow> frontend" where
  "onProtocolMessage cv msg fe = (case Option.bind msg entries_of of
     None \<Rightarrow> fe
   | Some es \<Rightarrow>
       (case protocol_entries (fld (the msg) ''Direction'') es fe of
          (False, fe) \<Rightarrow> fe
        | (True, fe) \<Rightarrow>
            (case SendRequestInitialSettings cv fe of
               None \<Rightarrow> fe
             | Some fe \<Rightarrow> (case SendRequestQualityControl cv fe of None \<Rightarrow> fe | Some fe \<Rightarrow> fe))))"

end
