(* ===== verification/Frontend_AFK.thy ===== *)
theory Frontend_AFK
  imports Frontend_Sender
begin

text \<open>
  \<open>Frontend/library/src/AFK/AFKController.ts\<close>, and \<open>setAfkEnabled\<close>, \<open>onAfkTriggered\<close> of
  \<open>WebRtcPlayerController.ts\<close>: the warning after a time without input, and the countdown to the
  disconnection. The two timers are the browser's: a timeout that runs once at its deadline, and
  intervals of one second that run until they are cleared. Times are milliseconds. \<open>Setting_number\<close> is the
  part of \<open>Config/SettingNumber.ts\<close> that the two durations come from.
\<close>

section \<open>Numeric settings\<close>

record setting_number =
  sn_min :: "rat option"
  sn_max :: "rat option"
  sn_value :: jsnum

definition jmin :: "jsnum \<Rightarrow> jsnum \<Rightarrow> jsnum" where
  "jmin a b = (if a = NaN \<or> b = NaN then NaN else if jless b a then b else a)"

definition jmax :: "jsnum \<Rightarrow> jsnum \<Rightarrow> jsnum" where
  "jmax a b = (if a = NaN \<or> b = NaN then NaN else if jless a b then b else a)"

definition clamp :: "setting_number \<Rightarrow> jsnum \<Rightarrow> jsnum" where
  "clamp s n = (case (sn_min s, sn_max s) of
     (None, None) \<Rightarrow> n
   | (None, Some b) \<Rightarrow> jmin (Fin b) n
   | (Some a, None) \<Rightarrow> jmax (Fin a) n
   | (Some a, Some b) \<Rightarrow> jmax (jmin (Fin b) n) (Fin a))"

definition set_number :: "jsnum \<Rightarrow> setting_number \<Rightarrow> setting_number" where
  "set_number n s = s\<lparr>sn_value := clamp s n\<rparr>"

text \<open>\<open>url\<close> is the URL parameter as \<open>parseFloat\<close> reads it, where there is one and it is to be used.\<close>

definition new_setting :: "rat option \<Rightarrow> rat option \<Rightarrow> jsnum \<Rightarrow> jsnum option \<Rightarrow> setting_number" where
  "new_setting lo hi d url =
     set_number (case url of None \<Rightarrow> d | Some NaN \<Rightarrow> d | Some v \<Rightarrow> v) \<lparr>sn_min = lo, sn_max = hi, sn_value = d\<rparr>"

definition AFKTimeoutSecs :: "jsnum \<Rightarrow> jsnum option \<Rightarrow> setting_number" where
  "AFKTimeoutSecs d = new_setting (Some 0) (Some (12 * 60 * 60)) d"

definition AFKCountdownSecs :: "jsnum option \<Rightarrow> setting_number" where
  "AFKCountdownSecs = new_setting (Some 10) None (Fin 60)"

section \<open>The controller\<close>

text \<open>The settings at the moment of a call.\<close>

record afk_config =
  ac_timeout :: rat
  ac_countdown :: jsnum
  ac_detection :: bool
  ac_hovering :: bool

datatype afk_out = Afk_activate jsnum | Afk_update jsnum | Afk_deactivate | Afk_timed_out | Afk_disconnect | Afk_unlock

record afk =
  af_active :: bool
  af_countdownActive :: bool
  af_countDown :: jsnum
  af_warn :: "rat option"
  af_timer :: "nat option"
  af_intervals :: "(nat \<times> rat) list"
  af_next :: nat
  af_out :: "afk_out list"

definition new_afk :: afk where
  "new_afk = \<lparr>af_active = False, af_countdownActive = False, af_countDown = Fin 0, af_warn = None, af_timer = None,
     af_intervals = [], af_next = 1, af_out = []\<rparr>"

definition afk_emit :: "afk_out \<Rightarrow> afk \<Rightarrow> afk" where
  "afk_emit x a = a\<lparr>af_out := af_out a @ [x]\<rparr>"

text \<open>\<open>clearInterval(this.countDownTimer)\<close>: the interval whose handle was kept last.\<close>

definition clear_countdown :: "afk \<Rightarrow> afk" where
  "clear_countdown a = (case af_timer a of
     None \<Rightarrow> a | Some i \<Rightarrow> a\<lparr>af_intervals := map_delete i (af_intervals a)\<rparr>)"

definition resetAfkWarningTimer :: "afk_config \<Rightarrow> rat \<Rightarrow> afk \<Rightarrow> afk" where
  "resetAfkWarningTimer c now a =
     (if af_active a \<and> ac_detection c then a\<lparr>af_warn := Some (now + ac_timeout c * 1000)\<rparr> else a)"

definition startAfkWarningTimer :: "afk_config \<Rightarrow> rat \<Rightarrow> afk \<Rightarrow> afk" where
  "startAfkWarningTimer c now a =
     resetAfkWarningTimer c now (a\<lparr>af_active := (0 < ac_timeout c \<and> ac_detection c)\<rparr>)"

definition stopAfkWarningTimer :: "afk \<Rightarrow> afk" where
  "stopAfkWarningTimer a = clear_countdown (a\<lparr>af_active := False, af_countdownActive := False, af_warn := None\<rparr>)"

definition pauseAfkWarningTimer :: "afk \<Rightarrow> afk" where
  "pauseAfkWarningTimer a = a\<lparr>af_active := False\<rparr>"

definition onAfkClick :: "afk_config \<Rightarrow> rat \<Rightarrow> afk \<Rightarrow> afk" where
  "onAfkClick c now a =
     (let a = clear_countdown a in
      if af_active a \<or> af_countdownActive a
      then afk_emit Afk_deactivate (startAfkWarningTimer c now a)
      else a)"

definition activateAfkEvent :: "afk_config \<Rightarrow> rat \<Rightarrow> afk \<Rightarrow> afk" where
  "activateAfkEvent c now a =
     (let a = pauseAfkWarningTimer a;
          a = afk_emit (Afk_activate (af_countDown a)) a;
          a = a\<lparr>af_countDown := ac_countdown c, af_countdownActive := True\<rparr>;
          a = afk_emit (Afk_update (af_countDown a)) a;
          a = (if ac_hovering c then a else afk_emit Afk_unlock a) in
      a\<lparr>af_timer := Some (af_next a), af_intervals := af_intervals a @ [(af_next a, now + 1000)], af_next := af_next a + 1\<rparr>)"

definition countdown_second :: "afk \<Rightarrow> afk" where
  "countdown_second a =
     (let a = a\<lparr>af_countDown := jsub (af_countDown a) (Fin 1)\<rparr> in
      if af_countDown a = Fin 0
      then stopAfkWarningTimer (afk_emit Afk_disconnect (afk_emit Afk_timed_out a))
      else afk_emit (Afk_update (af_countDown a)) a)"

section \<open>The timers\<close>

text \<open>A timer runs at or after its deadline; a timeout is over before its callback runs.\<close>

definition warn_fires :: "afk_config \<Rightarrow> rat \<Rightarrow> afk \<Rightarrow> afk" where
  "warn_fires c now a = (case af_warn a of
     None \<Rightarrow> a
   | Some d \<Rightarrow> if d \<le> now then activateAfkEvent c now (a\<lparr>af_warn := None\<rparr>) else a)"

definition interval_fires :: "nat \<Rightarrow> rat \<Rightarrow> afk \<Rightarrow> afk" where
  "interval_fires i now a = (case map_get (af_intervals a) i of
     None \<Rightarrow> a
   | Some d \<Rightarrow> if d \<le> now then countdown_second (a\<lparr>af_intervals := map_set i (d + 1000) (af_intervals a)\<rparr>) else a)"

text \<open>\<open>onAfkTriggered\<close> also plays a paused video, which is not part of the model; \<open>setAfkEnabled\<close> is called when the flag changes.\<close>

definition setAfkEnabled :: "bool \<Rightarrow> afk_config \<Rightarrow> rat \<Rightarrow> afk \<Rightarrow> afk" where
  "setAfkEnabled enabled c now a = (if enabled then onAfkClick c now a else stopAfkWarningTimer a)"

datatype afk_input =
    In_start | In_stop | In_click | In_activity | In_warn | In_second nat | In_enabled bool

fun afk_step :: "afk_config \<Rightarrow> rat \<Rightarrow> afk_input \<Rightarrow> afk \<Rightarrow> afk" where
  "afk_step c now In_start a = startAfkWarningTimer c now a"
| "afk_step c now In_stop a = stopAfkWarningTimer a"
| "afk_step c now In_click a = onAfkClick c now a"
| "afk_step c now In_activity a = resetAfkWarningTimer c now a"
| "afk_step c now In_warn a = warn_fires c now a"
| "afk_step c now (In_second i) a = interval_fires i now a"
| "afk_step c now (In_enabled b) a = setAfkEnabled b c now a"

text \<open>What the messaging does to the controller: each reset it asks for.\<close>

definition afk_sends :: "afk_config \<Rightarrow> rat \<Rightarrow> out list \<Rightarrow> afk \<Rightarrow> afk" where
  "afk_sends c now outs a = fold (\<lambda>x a. case x of Afk_reset \<Rightarrow> resetAfkWarningTimer c now a | Data _ \<Rightarrow> a) outs a"

end
