(* ===== verification/Frontend_Config.thy ===== *)
theory Frontend_Config
  imports Frontend_AFK
begin

text \<open>
  \<open>Frontend/library/src/Config\<close>: the settings of the page, with their defaults, the URL parameters that
  override them, and the accessors of \<open>Config\<close>. The parameters of the page's address are the pairs of
  \<open>URLSearchParams\<close>; \<open>parseFloat\<close> and the browser's codecs are parameters of the model. Labels and
  descriptions are not modelled, nor is writing settings back into the address.
\<close>

section \<open>The page's address\<close>

text \<open>\<open>IURLSearchParams\<close> and the settings read the parameters alike: without case, the last of a name counts.\<close>

definition url_param :: "(string \<times> string) list \<Rightarrow> string \<Rightarrow> string option" where
  "url_param url n = map_of (rev (map (\<lambda>(k, v). (to_lower k, v)) url)) (to_lower n)"

record location =
  lc_url :: "(string \<times> string) list"
  lc_https :: bool
  lc_host :: string
  lc_port :: string
  lc_parseFloat :: "string \<Rightarrow> jsnum"
  lc_codecs :: "string list"

text \<open>The options of the constructor.\<close>

record config_params =
  cp_disableViewport :: bool
  cp_useUrl :: bool
  cp_flags :: "(string \<times> bool) list"
  cp_numbers :: "(string \<times> jsnum) list"
  cp_texts :: "(string \<times> string) list"
  cp_options :: "(string \<times> string) list"

definition used_param :: "location \<Rightarrow> config_params \<Rightarrow> string \<Rightarrow> string option" where
  "used_param l p n = (if cp_useUrl p then url_param (lc_url l) n else None)"

section \<open>Flags\<close>

definition stream_flags :: "(string \<times> bool) list" where
  "stream_flags = [(''AutoConnect'', True), (''AutoPlayVideo'', True), (''UseMic'', False), (''UseModalForTextInput'', True),
     (''UseCamera'', False), (''StartVideoMuted'', True), (''SuppressBrowserKeys'', True), (''ControlsQuality'', True),
     (''ForceMonoAudio'', False), (''ForceTURN'', False), (''TimeoutIfIdle'', True)]"

definition input_flags :: "(string \<times> bool) list" where
  "input_flags = [(''MatchViewportRes'', False), (''HoveringMouse'', False), (''FakeMouseWithTouches'', False),
     (''KeyboardInput'', True), (''MouseInput'', True), (''MouseDoubleClickAutoRelease'', True), (''TouchInput'', True),
     (''GamepadInput'', True), (''XRControllerInput'', True)]"

definition session_flags :: "(string \<times> bool) list" where
  "session_flags = [(''AutoEnterVR'', False), (''WaitForStreamer'', True), (''HideUI'', False), (''EnableCaptureTimeExt'', False),
     (''BrowserSendOffer'', False), (''LatencyCSV'', False)]"

definition new_flag :: "location \<Rightarrow> config_params \<Rightarrow> string \<times> bool \<Rightarrow> string \<times> bool" where
  "new_flag l p = (\<lambda>(n, d). (n, case used_param l p n of
     Some t \<Rightarrow> to_lower t \<noteq> ''false''
   | None \<Rightarrow> (case map_of (cp_flags p) n of Some b \<Rightarrow> b | None \<Rightarrow> d)))"

section \<open>Numbers\<close>

text \<open>The least and the largest value and the default. The largest scale depends on the viewport's being fixed.\<close>

definition encoder_numbers :: "(string \<times> rat option \<times> rat option \<times> rat) list" where
  "encoder_numbers = [(''MaxReconnectAttempts'', Some 0, Some 999, 3), (''MinQP'', Some 0, Some 51, 0),
     (''MaxQP'', Some 0, Some 51, 51), (''MinQuality'', Some 0, Some 100, 0), (''MaxQuality'', Some 0, Some 100, 100),
     (''CompatQualityMin'', Some 0, Some 100, 0), (''CompatQualityMax'', Some 0, Some 100, 100)]"

definition stream_numbers :: "bool \<Rightarrow> (string \<times> rat option \<times> rat option \<times> rat) list" where
  "stream_numbers fixed = [(''WebRTCFPS'', Some 1, Some 999, 30), (''WebRTCMinBitrate'', Some 0, Some 500000, 0),
     (''WebRTCMaxBitrate'', Some 0, Some 500000, 30000), (''StreamerAutoJoinInterval'', Some 500, Some 900000, 3000),
     (''KeepaliveDelay'', Some 0, Some 900000, 30000),
     (''ViewportResScale'', Some (1 / 10), Some (if fixed then 1 else 3), 1)]"

definition number_param :: "location \<Rightarrow> config_params \<Rightarrow> string \<Rightarrow> jsnum option" where
  "number_param l p n = map_option (lc_parseFloat l) (used_param l p n)"

definition new_number :: "location \<Rightarrow> config_params \<Rightarrow> string \<times> rat option \<times> rat option \<times> rat \<Rightarrow> string \<times> setting_number" where
  "new_number l p = (\<lambda>(n, lo, hi, d).
     (n, new_setting lo hi (case map_of (cp_numbers p) n of Some v \<Rightarrow> v | None \<Rightarrow> Fin d) (number_param l p n)))"

definition new_numbers :: "location \<Rightarrow> config_params \<Rightarrow> (string \<times> setting_number) list" where
  "new_numbers l p =
     [(''AFKTimeout'', AFKTimeoutSecs (case map_of (cp_numbers p) ''AFKTimeout'' of Some v \<Rightarrow> v | None \<Rightarrow> Fin 600) (number_param l p ''AFKTimeout'')),
      (''AFKCountdown'', AFKCountdownSecs (number_param l p ''AFKCountdown''))]
     @ map (new_number l p) (encoder_numbers @ stream_numbers (cp_disableViewport p))"

section \<open>Options and the server's address\<close>

record setting_option =
  so_options :: "string list"
  so_selected :: string

text \<open>An option takes its URL parameter whether or not URL parameters are to be used.\<close>

definition new_option :: "location \<Rightarrow> (string \<Rightarrow> string) \<Rightarrow> string \<Rightarrow> string \<Rightarrow> string list option \<Rightarrow> setting_option" where
  "new_option l resolve n d options =
     (let wanted = (case url_param (lc_url l) n of Some t \<Rightarrow> resolve t | None \<Rightarrow> d);
          options = (case options of Some os \<Rightarrow> os | None \<Rightarrow> [wanted]) in
      \<lparr>so_options = options, so_selected = (if wanted \<in> set options then wanted else d)\<rparr>)"

definition getDefaultVideoCodec :: "string list \<Rightarrow> string" where
  "getDefaultVideoCodec codecs = (case codecs of
     [] \<Rightarrow> []
   | c # cs \<Rightarrow> if cs = [] then c else (case find (prefix ''H264'') (c # cs) of Some h \<Rightarrow> h | None \<Rightarrow> c))"

definition matchSpecifiedCodecToClosestSupported :: "string list \<Rightarrow> string \<Rightarrow> string" where
  "matchSpecifiedCodecToClosestSupported codecs c =
     (if c \<in> set codecs then c else case find (prefix c) codecs of Some b \<Rightarrow> b | None \<Rightarrow> c)"

definition new_options :: "location \<Rightarrow> config_params \<Rightarrow> (string \<times> setting_option) list" where
  "new_options l p =
     (let ini = map_of (cp_options p); match = matchSpecifiedCodecToClosestSupported (lc_codecs l) in
      [(''StreamerId'', new_option l (\<lambda>v. v) ''StreamerId'' (case ini ''StreamerId'' of Some v \<Rightarrow> v | None \<Rightarrow> [])
          (map_option (\<lambda>v. [v]) (ini ''StreamerId''))),
       (''PreferredCodec'', new_option l match ''PreferredCodec''
          (case ini ''PreferredCodec'' of Some v \<Rightarrow> match v | None \<Rightarrow> getDefaultVideoCodec (lc_codecs l)) (Some (lc_codecs l))),
       (''PreferredQuality'', new_option l (\<lambda>v. v) ''PreferredQuality''
          (case ini ''PreferredQuality'' of Some v \<Rightarrow> v | None \<Rightarrow> ''Default'') (Some [''Default'']))])"

definition default_server :: "location \<Rightarrow> string" where
  "default_server l = (if lc_https l then ''wss://'' else ''ws://'') @ lc_host l
     @ (if lc_port l = ''80'' \<or> lc_port l = [] then [] else '':'' @ lc_port l)"

definition new_server :: "location \<Rightarrow> config_params \<Rightarrow> string" where
  "new_server l p = (case used_param l p ''ss'' of
     Some t \<Rightarrow> t
   | None \<Rightarrow> (case map_of (cp_texts p) ''ss'' of Some t \<Rightarrow> t | None \<Rightarrow> default_server l))"

section \<open>The configuration\<close>

record page_config =
  cf_disableViewport :: bool
  cf_useUrl :: bool
  cf_flags :: "(string \<times> bool) list"
  cf_numbers :: "(string \<times> setting_number) list"
  cf_server :: string
  cf_options :: "(string \<times> setting_option) list"

text \<open>\<open>isFlagEnabled\<close> and \<open>getNumericSettingValue\<close>: \<open>None\<close> is the exception for an unknown id.\<close>

definition isFlagEnabled :: "string \<Rightarrow> page_config \<Rightarrow> bool option" where
  "isFlagEnabled n c =
     (if cf_disableViewport c \<and> n = ''MatchViewportRes'' then Some False else map_get (cf_flags c) n)"

definition put_flag :: "string \<Rightarrow> bool \<Rightarrow> page_config \<Rightarrow> page_config" where
  "put_flag n b c =
     (if map_get (cf_flags c) n = None then c
      else c\<lparr>cf_flags := map_set n (b \<and> \<not> (cf_disableViewport c \<and> n = ''MatchViewportRes'')) (cf_flags c)\<rparr>)"

definition getNumericSettingValue :: "string \<Rightarrow> page_config \<Rightarrow> jsnum option" where
  "getNumericSettingValue n c = map_option sn_value (map_get (cf_numbers c) n)"

definition put_number :: "string \<Rightarrow> jsnum \<Rightarrow> page_config \<Rightarrow> page_config option" where
  "put_number n v c = map_option (\<lambda>s. c\<lparr>cf_numbers := map_set n (set_number v s) (cf_numbers c)\<rparr>) (map_get (cf_numbers c) n)"

definition setOptionSettingOptions :: "string \<Rightarrow> string list \<Rightarrow> page_config \<Rightarrow> page_config" where
  "setOptionSettingOptions n os c = (case map_get (cf_options c) n of
     None \<Rightarrow> c
   | Some s \<Rightarrow> c\<lparr>cf_options := map_set n (s\<lparr>so_options := os\<rparr>) (cf_options c)\<rparr>)"

definition setOptionSettingValue :: "string \<Rightarrow> string \<Rightarrow> page_config \<Rightarrow> page_config" where
  "setOptionSettingValue n v c = (case map_get (cf_options c) n of
     None \<Rightarrow> c
   | Some s \<Rightarrow> c\<lparr>cf_options := map_set n \<lparr>so_options = (if v \<in> set (so_options s) then so_options s else so_options s @ [v]),
       so_selected = v\<rparr> (cf_options c)\<rparr>)"

definition new_config :: "location \<Rightarrow> config_params \<Rightarrow> page_config" where
  "new_config l p =
     (let c = \<lparr>cf_disableViewport = cp_disableViewport p, cf_useUrl = cp_useUrl p,
        cf_flags = map (new_flag l p) (stream_flags @ input_flags @ session_flags),
        cf_numbers = new_numbers l p, cf_server = new_server l p, cf_options = new_options l p\<rparr> in
      if cp_disableViewport p then put_flag ''MatchViewportRes'' False c else c)"

section \<open>Numbers stay in their range\<close>

text \<open>The test of the setters: it does not exclude a value that is not a number.\<close>

definition in_range :: "setting_number \<Rightarrow> bool" where
  "in_range s \<longleftrightarrow> sn_value s = NaN
     \<or> (case sn_min s of Some a \<Rightarrow> \<not> jless (sn_value s) (Fin a) | None \<Rightarrow> True)
       \<and> (case sn_max s of Some b \<Rightarrow> \<not> jless (Fin b) (sn_value s) | None \<Rightarrow> True)"

text \<open>The bounds of a setting are in order, as those of the table are.\<close>

definition bounds_ok :: "setting_number \<Rightarrow> bool" where
  "bounds_ok s \<longleftrightarrow> (case (sn_min s, sn_max s) of (Some a, Some b) \<Rightarrow> a \<le> b | _ \<Rightarrow> True)"

lemma clamp_range: "bounds_ok s \<Longrightarrow> in_range (set_number v s)"
  by (cases v) (auto simp: in_range_def bounds_ok_def set_number_def clamp_def jmin_def jmax_def split: option.splits)

definition numbers_ok :: "page_config \<Rightarrow> bool" where
  "numbers_ok c \<longleftrightarrow> (\<forall>(n, s) \<in> set (cf_numbers c). bounds_ok s \<and> in_range s)"

lemma set_number_bounds [simp]: "bounds_ok (set_number v s) = bounds_ok s"
  by (simp add: bounds_ok_def set_number_def)

lemma new_setting_ok: "(\<forall>a b. lo = Some a \<longrightarrow> hi = Some b \<longrightarrow> a \<le> b) \<Longrightarrow> bounds_ok (new_setting lo hi d u) \<and> in_range (new_setting lo hi d u)"
proof -
  assume "\<forall>a b. lo = Some a \<longrightarrow> hi = Some b \<longrightarrow> a \<le> b"
  then have "bounds_ok \<lparr>sn_min = lo, sn_max = hi, sn_value = d\<rparr>" by (simp add: bounds_ok_def split: option.split)
  then show ?thesis by (simp add: new_setting_def clamp_range)
qed

lemma put_flag_numbers [simp]: "cf_numbers (put_flag n b c) = cf_numbers c"
  by (simp add: put_flag_def)

lemma new_config_ok: "numbers_ok (new_config l p)"
proof -
  have "\<forall>(n, s) \<in> set (new_numbers l p). bounds_ok s \<and> in_range s"
    by (simp add: new_numbers_def AFKTimeoutSecs_def AFKCountdownSecs_def new_number_def encoder_numbers_def stream_numbers_def
        new_setting_ok)
  then show ?thesis by (simp add: numbers_ok_def new_config_def Let_def)
qed

lemma put_number_ok: "\<lbrakk>numbers_ok c; put_number n v c = Some c'\<rbrakk> \<Longrightarrow> numbers_ok c'"
proof -
  assume c: "numbers_ok c" "put_number n v c = Some c'"
  then obtain s where s: "map_get (cf_numbers c) n = Some s" "c' = c\<lparr>cf_numbers := map_set n (set_number v s) (cf_numbers c)\<rparr>"
    by (auto simp: put_number_def)
  have "bounds_ok s" using c(1) map_get_mem [OF s(1)] by (auto simp: numbers_ok_def)
  moreover have "set (map_set k x m) \<subseteq> insert (k, x) (set m)" for k and x :: "'a" and m by (induction m) (auto split: if_splits)
  ultimately show ?thesis using c(1) s(2) by (fastforce simp: numbers_ok_def clamp_range)
qed

end
