(* ===== verification/Effects.thy ===== *)
theory Effects
  imports Prelude
begin

text \<open>
  Operations on a state that may raise: whether an operation ran to its end, and the state it left. They
  are composed in the order of the code, and a predicate that each of them keeps is kept by all of them;
  the rules for that are the collection \<open>keeps_rules\<close>.
\<close>

named_theorems keeps_rules \<open>preservation of a predicate, operation by operation\<close>

section \<open>Operations in order\<close>

definition andThen :: "('s \<Rightarrow> bool \<times> 's) \<Rightarrow> ('s \<Rightarrow> bool \<times> 's) \<Rightarrow> 's \<Rightarrow> bool \<times> 's" where
  "andThen f g s = (case f s of (False, s) \<Rightarrow> (False, s) | (True, s) \<Rightarrow> g s)"

fun each :: "('a \<Rightarrow> 's \<Rightarrow> bool \<times> 's) \<Rightarrow> 'a list \<Rightarrow> 's \<Rightarrow> bool \<times> 's" where
  "each f [] s = (True, s)"
| "each f (x # xs) s = andThen (f x) (each f xs) s"

definition steps :: "('s \<Rightarrow> bool \<times> 's) list \<Rightarrow> 's \<Rightarrow> bool \<times> 's" where
  "steps fs = each (\<lambda>f. f) fs"

definition change :: "('s \<Rightarrow> 's) \<Rightarrow> 's \<Rightarrow> bool \<times> 's" where
  "change f s = (True, f s)"

text \<open>A question that may raise, before a step that depends on its answer.\<close>

definition ask :: "('s \<Rightarrow> bool option) \<Rightarrow> (bool \<Rightarrow> 's \<Rightarrow> bool \<times> 's) \<Rightarrow> 's \<Rightarrow> bool \<times> 's" where
  "ask q k s = (case q s of None \<Rightarrow> (False, s) | Some b \<Rightarrow> k b s)"

text \<open>An operation whose answer decides whether another one follows.\<close>

definition unless_done :: "('s \<Rightarrow> bool \<times> 's) \<Rightarrow> ('s \<Rightarrow> bool \<times> 's) \<Rightarrow> 's \<Rightarrow> bool \<times> 's" where
  "unless_done f g s = (case f s of (True, s) \<Rightarrow> (True, s) | (False, s) \<Rightarrow> g s)"

text \<open>An asynchronous function raises for nobody but its promise; \<open>finally\<close> runs in either case.\<close>

definition detached :: "('s \<Rightarrow> bool \<times> 's) \<Rightarrow> 's \<Rightarrow> bool \<times> 's" where
  "detached f s = (True, snd (f s))"

definition finishing :: "('s \<Rightarrow> 's) \<Rightarrow> ('s \<Rightarrow> bool \<times> 's) \<Rightarrow> 's \<Rightarrow> bool \<times> 's" where
  "finishing u f s = (case f s of (b, s) \<Rightarrow> (b, u s))"

lemma steps_simps [simp]: "steps [] s = (True, s)" "steps (f # fs) s = andThen f (steps fs) s"
  by (simp_all add: steps_def)

lemma snd_change [simp]: "change f s = (True, f s)"
  by (simp add: change_def)

lemma andThen_Nil [simp]: "andThen f (steps []) = f"
  by (rule ext) (simp add: andThen_def split: prod.split bool.split)

lemma andThen_change [simp]: "andThen (change u) g s = g (u s)" "andThen (\<lambda>s. (True, u s)) g s = g (u s)"
  by (simp_all add: andThen_def)

lemma andThen_True: "f s = (True, t) \<Longrightarrow> andThen f g s = g t"
  by (simp add: andThen_def)

section \<open>What an operation keeps\<close>

definition keeps :: "('s \<Rightarrow> bool) \<Rightarrow> ('s \<Rightarrow> bool \<times> 's) \<Rightarrow> bool" where
  "keeps I f \<longleftrightarrow> (\<forall>s. I s \<longrightarrow> I (snd (f s)))"

lemma keepsI: "(\<And>s. I s \<Longrightarrow> I (snd (f s))) \<Longrightarrow> keeps I f"
  by (simp add: keeps_def)

lemma keepsD: "keeps I f \<Longrightarrow> I s \<Longrightarrow> I (snd (f s))"
  by (simp add: keeps_def)

lemma keeps_Pair [keeps_rules]: "keeps I (Pair b)"
  by (simp add: keeps_def)

lemma keeps_skip [keeps_rules]: "keeps I (\<lambda>s. (b s, s))"
  by (simp add: keeps_def)

lemma keeps_andThen [keeps_rules]: "keeps I f \<Longrightarrow> keeps I g \<Longrightarrow> keeps I (andThen f g)"
  by (auto simp: keeps_def andThen_def split: prod.split bool.split)

lemma keeps_each: "(\<And>x. x \<in> set xs \<Longrightarrow> keeps I (f x)) \<Longrightarrow> keeps I (each f xs)"
proof (induction xs)
  case (Cons x xs)
  have "each f (x # xs) = andThen (f x) (each f xs)" by (rule ext) simp
  with Cons show ?case by (simp add: keeps_andThen)
qed (simp add: keeps_def)

lemma keeps_steps_Nil [keeps_rules]: "keeps I (steps [])"
  by (simp add: keeps_def)

lemma keeps_steps_Cons [keeps_rules]: "keeps I f \<Longrightarrow> keeps I (steps fs) \<Longrightarrow> keeps I (steps (f # fs))"
  by (auto simp: keeps_def andThen_def split: prod.split bool.split)

lemma keeps_ask [keeps_rules]: "(\<And>b. keeps I (k b)) \<Longrightarrow> keeps I (ask q k)"
  by (auto simp: keeps_def ask_def split: option.split)

lemma keeps_unless [keeps_rules]: "keeps I f \<Longrightarrow> keeps I g \<Longrightarrow> keeps I (unless_done f g)"
  by (auto simp: keeps_def unless_done_def split: prod.split bool.split)

lemma keeps_detached [keeps_rules]: "keeps I f \<Longrightarrow> keeps I (detached f)"
  by (simp add: keeps_def detached_def)

lemma keeps_finishing: "keeps I f \<Longrightarrow> (\<And>s. I s \<Longrightarrow> I (u s)) \<Longrightarrow> keeps I (finishing u f)"
  by (auto simp: keeps_def finishing_def split: prod.split)

lemma keeps_change: "(\<And>s. I s \<Longrightarrow> I (u s)) \<Longrightarrow> keeps I (change u)"
  by (simp add: keeps_def)

lemma keeps_If: "keeps I f \<Longrightarrow> keeps I g \<Longrightarrow> keeps I (if c then f else g)"
  by simp

lemma keeps_if_state [keeps_rules]: "keeps I f \<Longrightarrow> keeps I g \<Longrightarrow> keeps I (\<lambda>s. if c s then f s else g s)"
  by (simp add: keeps_def)

lemma keeps_case_option [keeps_rules]:
  "keeps I f \<Longrightarrow> (\<And>y. keeps I (g y)) \<Longrightarrow> keeps I (\<lambda>s. case c s of None \<Rightarrow> f s | Some y \<Rightarrow> g y s)"
  by (simp add: keeps_def split: option.split)

end
