(* ===== verification/Frontend_Coords.thy ===== *)
theory Frontend_Coords
  imports Frontend_Sender Effects
begin

text \<open>
  \<open>Frontend/library/src/Util/InputCoordTranslator.ts\<close>: the coordinates of the player element to and from
  the range of a 16-bit integer, for a video that is fitted into the player. And the plumbing of the
  input controllers: a handler is a function on the controller's state and the messaging that may end
  in an exception.
\<close>

section \<open>The translator\<close>

record translator =
  tr_width :: jsnum
  tr_height :: jsnum
  tr_ratio :: jsnum
  tr_larger :: bool

definition reconfigure :: "jsnum \<times> jsnum \<Rightarrow> jsnum \<times> jsnum \<Rightarrow> translator" where
  "reconfigure player video =
     (let playerAspectRatio = jdiv (snd player) (fst player);
          videoAspectRatio = jdiv (snd video) (fst video);
          larger = jless videoAspectRatio playerAspectRatio in
      \<lparr>tr_width = fst player, tr_height = snd player,
       tr_ratio = (if larger then jdiv playerAspectRatio videoAspectRatio else jdiv videoAspectRatio playerAspectRatio),
       tr_larger = larger\<rparr>)"

definition centred :: "jsnum \<Rightarrow> jsnum \<Rightarrow> jsnum" where
  "centred ratio v = jadd (jmul ratio (jsub v (Fin (1 / 2)))) (Fin (1 / 2))"

definition translateUnsigned :: "translator \<Rightarrow> jsnum \<Rightarrow> jsnum \<Rightarrow> bool \<times> jsnum \<times> jsnum" where
  "translateUnsigned t x y =
     (let nx = (if tr_larger t then jdiv x (tr_width t) else centred (tr_ratio t) (jdiv x (tr_width t)));
          ny = (if tr_larger t then centred (tr_ratio t) (jdiv y (tr_height t)) else jdiv y (tr_height t)) in
      if jless nx (Fin 0) \<or> jless (Fin 1) nx \<or> jless ny (Fin 0) \<or> jless (Fin 1) ny
      then (False, Fin 65535, Fin 65535)
      else (True, jmul nx (Fin 65536), jmul ny (Fin 65536)))"

definition translateSigned :: "translator \<Rightarrow> jsnum \<Rightarrow> jsnum \<Rightarrow> jsnum \<times> jsnum" where
  "translateSigned t x y =
     (let hw = jmul (Fin (1 / 2)) (tr_width t); hh = jmul (Fin (1 / 2)) (tr_height t);
          nx = (if tr_larger t then jdiv x hw else jdiv (jmul (tr_ratio t) x) hw);
          ny = (if tr_larger t then jdiv (jmul (tr_ratio t) y) hh else jdiv y hh) in
      (jmul nx (Fin 32767), jmul ny (Fin 32767)))"

definition uncentred :: "jsnum \<Rightarrow> jsnum \<Rightarrow> jsnum" where
  "uncentred ratio v = jadd (jdiv (jsub v (Fin (1 / 2))) ratio) (Fin (1 / 2))"

definition untranslateUnsigned :: "translator \<Rightarrow> jsnum \<Rightarrow> jsnum \<Rightarrow> jsnum \<times> jsnum" where
  "untranslateUnsigned t x y =
     (let u = jdiv x (Fin 65536); v = jdiv y (Fin 65536);
          nx = (if tr_larger t then u else uncentred (tr_ratio t) u);
          ny = (if tr_larger t then uncentred (tr_ratio t) v else v) in
      (jmul nx (tr_width t), jmul ny (tr_height t)))"

text \<open>A translator for positive sizes, the only ones a laid-out player and a loaded video have.\<close>

definition fitted :: "rat \<Rightarrow> rat \<Rightarrow> rat \<Rightarrow> rat \<Rightarrow> translator \<Rightarrow> bool" where
  "fitted w h vw vh t \<longleftrightarrow> 0 < w \<and> 0 < h \<and> 0 < vw \<and> 0 < vh
     \<and> t = reconfigure (Fin w, Fin h) (Fin vw, Fin vh)"

lemma fitted_fields:
  assumes "fitted w h vw vh t"
  obtains r where "t = \<lparr>tr_width = Fin w, tr_height = Fin h, tr_ratio = Fin r, tr_larger = (vh / vw < h / w)\<rparr>" "1 \<le> r"
    "r = (if vh / vw < h / w then h / w / (vh / vw) else vh / vw / (h / w))"
proof -
  let ?r = "if vh / vw < h / w then h / w / (vh / vw) else vh / vw / (h / w)"
  have p: "0 < w" "0 < h" "0 < vw" "0 < vh" using assms by (simp_all add: fitted_def)
  then have q: "0 < vh / vw" "0 < h / w" by simp_all
  have "1 \<le> ?r" using le_divide_eq_1_pos [OF q(1), of "h / w"] le_divide_eq_1_pos [OF q(2), of "vh / vw"] by auto
  moreover have "t = \<lparr>tr_width = Fin w, tr_height = Fin h, tr_ratio = Fin ?r, tr_larger = (vh / vw < h / w)\<rparr>"
    using assms p by (simp add: fitted_def reconfigure_def Let_def)
  ultimately show ?thesis using that by blast
qed

text \<open>The visible part of the player: the rectangle the video occupies.\<close>

definition visible :: "rat \<Rightarrow> rat \<Rightarrow> rat \<Rightarrow> rat \<Rightarrow> rat \<Rightarrow> rat \<Rightarrow> bool" where
  "visible w h vw vh x y \<longleftrightarrow>
     (let s = min (w / vw) (h / vh) in \<bar>x - w / 2\<bar> \<le> s * vw / 2 \<and> \<bar>y - h / 2\<bar> \<le> s * vh / 2)"

lemma centred_range:
  fixes r :: rat
  assumes "0 < r" "0 < h"
  shows "0 \<le> r * (y / h - 1 / 2) + 1 / 2 \<and> r * (y / h - 1 / 2) + 1 / 2 \<le> 1 \<longleftrightarrow> \<bar>y - h / 2\<bar> \<le> h / r / 2"
proof -
  have e: "r * (y / h - 1 / 2) = (y - h / 2) / (h / r)" using assms by (simp add: field_simps)
  have k: "0 < h / r" using assms by simp
  have "0 \<le> d / k + 1 / 2 \<and> d / k + 1 / 2 \<le> 1 \<longleftrightarrow> \<bar>d\<bar> \<le> k / 2" if "0 < k" for d k :: rat
  proof -
    have "0 \<le> d / k + 1 / 2 \<and> d / k + 1 / 2 \<le> 1 \<longleftrightarrow> \<bar>d / k\<bar> \<le> 1 / 2" unfolding abs_le_iff by linarith
    also have "\<bar>d / k\<bar> = \<bar>d\<bar> / k" using that by simp
    also have "\<bar>d\<bar> / k \<le> 1 / 2 \<longleftrightarrow> \<bar>d\<bar> \<le> k / 2" using that by (simp add: pos_divide_le_eq)
    finally show ?thesis .
  qed
  from this [OF k] show ?thesis unfolding e .
qed

lemma plain_range: "0 < w \<Longrightarrow> 0 \<le> x / w \<and> x / w \<le> 1 \<longleftrightarrow> \<bar>x - w / 2\<bar> \<le> (w :: rat) / 2"
proof -
  assume w: "0 < w"
  then have "0 \<le> x / w \<longleftrightarrow> 0 \<le> x" "x / w \<le> 1 \<longleftrightarrow> x \<le> w" by (simp_all add: zero_le_divide_iff)
  then show ?thesis unfolding abs_le_iff by linarith
qed

text \<open>
  What the browser sends for a point: the point's place in the video, in parts of 65536, exactly when it
  is on the video, and 65535 twice otherwise.
\<close>

lemma translate_spec:
  assumes "fitted w h vw vh t"
  shows "if visible w h vw vh x y
    then \<exists>u v. translateUnsigned t (Fin x) (Fin y) = (True, Fin u, Fin v) \<and> 0 \<le> u \<and> u \<le> 65536 \<and> 0 \<le> v \<and> v \<le> 65536
      \<and> untranslateUnsigned t (Fin u) (Fin v) = (Fin x, Fin y)
    else translateUnsigned t (Fin x) (Fin y) = (False, Fin 65535, Fin 65535)"
proof -
  obtain r where t: "t = \<lparr>tr_width = Fin w, tr_height = Fin h, tr_ratio = Fin r, tr_larger = (vh / vw < h / w)\<rparr>" "1 \<le> r"
    "r = (if vh / vw < h / w then h / w / (vh / vw) else vh / vw / (h / w))" using fitted_fields [OF assms] by metis
  have p: "0 < w" "0 < h" "0 < vw" "0 < vh" "0 < r" using assms t(2) by (simp_all add: fitted_def)
  define nx ny where "nx = (if vh / vw < h / w then x / w else r * (x / w - 1 / 2) + 1 / 2)"
    and "ny = (if vh / vw < h / w then r * (y / h - 1 / 2) + 1 / 2 else y / h)"
  have vis: "visible w h vw vh x y \<longleftrightarrow> 0 \<le> nx \<and> nx \<le> 1 \<and> 0 \<le> ny \<and> ny \<le> 1"
  proof (cases "vh / vw < h / w")
    case True
    then have "min (w / vw) (h / vh) = w / vw" "w / vw * vh = h / r" "w / vw * vw = w"
      using p True unfolding t(3) by (simp_all add: min_def field_simps)
    then have "visible w h vw vh x y \<longleftrightarrow> \<bar>x - w / 2\<bar> \<le> w / 2 \<and> \<bar>y - h / 2\<bar> \<le> h / r / 2"
      by (simp only: visible_def Let_def)
    then show ?thesis using centred_range [OF p(5,2), of y] plain_range [OF p(1), of x]
      unfolding nx_def ny_def if_P [OF True] by blast
  next
    case False
    then have "min (w / vw) (h / vh) = h / vh" "h / vh * vw = w / r" "h / vh * vh = h"
      using p False unfolding t(3) by (simp_all add: min_def field_simps)
    then have "visible w h vw vh x y \<longleftrightarrow> \<bar>x - w / 2\<bar> \<le> w / r / 2 \<and> \<bar>y - h / 2\<bar> \<le> h / 2"
      by (simp only: visible_def Let_def)
    then show ?thesis using centred_range [OF p(5,1), of x] plain_range [OF p(2), of y]
      unfolding nx_def ny_def if_not_P [OF False] by blast
  qed
  have tr: "translateUnsigned t (Fin x) (Fin y) = (if nx < 0 \<or> 1 < nx \<or> ny < 0 \<or> 1 < ny
      then (False, Fin 65535, Fin 65535) else (True, Fin (nx * 65536), Fin (ny * 65536)))"
    using p unfolding nx_def ny_def t(1)
    by (simp add: translateUnsigned_def centred_def jsub_def Let_def)
  have un: "untranslateUnsigned t (Fin (nx * 65536)) (Fin (ny * 65536)) = (Fin x, Fin y)"
    using p unfolding nx_def ny_def t(1)
    by (simp add: untranslateUnsigned_def uncentred_def jsub_def Let_def)
  show ?thesis
  proof (cases "visible w h vw vh x y")
    case True
    then have n: "0 \<le> nx" "nx \<le> 1" "0 \<le> ny" "ny \<le> 1" using vis by simp_all
    then have "0 \<le> nx * 65536" "nx * 65536 \<le> 65536" "0 \<le> ny * 65536" "ny * 65536 \<le> 65536" by linarith+
    with True n tr un show ?thesis by auto
  next
    case False
    then show ?thesis using vis tr by (auto simp: not_le)
  qed
qed

section \<open>Controllers\<close>

text \<open>A handler's effect: whether it ran to its end, and the state it left.\<close>

type_synonym 'c ctl = "'c \<times> frontend"

definition modify :: "('c \<Rightarrow> 'c) \<Rightarrow> 'c ctl \<Rightarrow> bool \<times> 'c ctl" where
  "modify f = (\<lambda>(c, fe). (True, (f c, fe)))"

definition send :: "conv \<Rightarrow> string \<Rightarrow> elem list \<Rightarrow> 'c ctl \<Rightarrow> bool \<times> 'c ctl" where
  "send cv ty es = (\<lambda>(c, fe). case toStreamer cv ty es fe of None \<Rightarrow> (False, (c, fe)) | Some fe \<Rightarrow> (True, (c, fe)))"

definition send_opt :: "conv \<Rightarrow> string \<Rightarrow> elem list \<Rightarrow> 'c ctl \<Rightarrow> bool \<times> 'c ctl" where
  "send_opt cv ty es = (\<lambda>(c, fe). case toStreamer_opt cv ty es fe of None \<Rightarrow> (False, (c, fe)) | Some fe \<Rightarrow> (True, (c, fe)))"

text \<open>Before \<open>reconfigure\<close> there is no player size, and translating raises.\<close>

definition with_coord :: "translator option \<Rightarrow> jsnum \<Rightarrow> jsnum \<Rightarrow> (bool \<Rightarrow> elem \<Rightarrow> elem \<Rightarrow> 's \<Rightarrow> bool \<times> 's) \<Rightarrow> 's \<Rightarrow> bool \<times> 's" where
  "with_coord t x y k s = (case t of
     None \<Rightarrow> (False, s)
   | Some t \<Rightarrow> (case translateUnsigned t x y of (inr, u, v) \<Rightarrow> k inr (ENum u) (ENum v) s))"

definition with_delta :: "translator option \<Rightarrow> jsnum \<Rightarrow> jsnum \<Rightarrow> (elem \<Rightarrow> elem \<Rightarrow> 's \<Rightarrow> bool \<times> 's) \<Rightarrow> 's \<Rightarrow> bool \<times> 's" where
  "with_delta t x y k s = (case t of
     None \<Rightarrow> (False, s)
   | Some t \<Rightarrow> (case translateSigned t x y of (u, v) \<Rightarrow> k (ENum u) (ENum v) s))"

definition num :: "nat \<Rightarrow> elem" where
  "num n = ENum (Fin (of_nat n))"

end
