(* ===== verification/Frontend_Page.thy ===== *)
theory Frontend_Page
  imports Signalling_State Frontend_Config Frontend_Coords
begin

text \<open>
  \<open>Frontend/library/src/PixelStreaming/PixelStreaming.ts\<close> and the commands of
  \<open>WebRtcPlayerController.ts\<close>: what a change of a setting sends to the streamer, what the streamer's
  initial settings change, and the page's interface for commands. \<open>JSON.stringify\<close>, the current time
  and the conversion of numbers are parameters. A function's first result is whether it returned.
\<close>

section \<open>The page\<close>

record page_env =
  pe_conv :: conv
  pe_json :: "jsval \<Rightarrow> utf16"
  pe_loc :: location

datatype page_event =
    Setting_changed string jsval
  | Commanded jsval
  | Switched string bool
  | Resized
  | Initial jsval
  | Told string jsval

record page =
  pg_config :: page_config
  pg_fe :: frontend
  pg_allow :: jsval
  pg_controls :: bool
  pg_input :: jsval
  pg_latencyStart :: jsnum
  pg_log :: "page_event list"

definition logged :: "page_event \<Rightarrow> page \<Rightarrow> bool \<times> page" where
  "logged e p = (True, p\<lparr>pg_log := pg_log p @ [e]\<rparr>)"

definition through :: "(frontend \<Rightarrow> frontend option) \<Rightarrow> page \<Rightarrow> bool \<times> page" where
  "through f p = (case f (pg_fe p) of None \<Rightarrow> (False, p) | Some fe \<Rightarrow> (True, p\<lparr>pg_fe := fe\<rparr>))"

section \<open>Commands\<close>

text \<open>The handler \<open>Command\<close>, with the text of a descriptor; the log keeps the descriptor.\<close>

definition emit_json :: "page_env \<Rightarrow> string \<Rightarrow> jsval \<Rightarrow> page \<Rightarrow> bool \<times> page" where
  "emit_json env ty d = through (toStreamer (pe_conv env) ty [EText (pe_json env d)])"

definition sendCommand :: "page_env \<Rightarrow> jsval \<Rightarrow> page \<Rightarrow> bool \<times> page" where
  "sendCommand env d = andThen (logged (Commanded d)) (emit_json env ''Command'' d)"

definition number_command :: "page_env \<Rightarrow> string \<Rightarrow> jsnum \<Rightarrow> page \<Rightarrow> bool \<times> page" where
  "number_command env key v = sendCommand env (JObj [(key, JNum v)])"

definition sendEncoderMinQP :: "page_env \<Rightarrow> jsnum \<Rightarrow> page \<Rightarrow> bool \<times> page" where
  "sendEncoderMinQP env = number_command env ''Encoder.MinQP''"

definition sendEncoderMaxQP :: "page_env \<Rightarrow> jsnum \<Rightarrow> page \<Rightarrow> bool \<times> page" where
  "sendEncoderMaxQP env = number_command env ''Encoder.MaxQP''"

definition sendEncoderMinQuality :: "page_env \<Rightarrow> jsnum \<Rightarrow> page \<Rightarrow> bool \<times> page" where
  "sendEncoderMinQuality env = number_command env ''Encoder.MinQuality''"

definition sendEncoderMaxQuality :: "page_env \<Rightarrow> jsnum \<Rightarrow> page \<Rightarrow> bool \<times> page" where
  "sendEncoderMaxQuality env = number_command env ''Encoder.MaxQuality''"

definition sendWebRTCMinBitrate :: "page_env \<Rightarrow> jsnum \<Rightarrow> page \<Rightarrow> bool \<times> page" where
  "sendWebRTCMinBitrate env = number_command env ''WebRTC.MinBitrate''"

definition sendWebRTCMaxBitrate :: "page_env \<Rightarrow> jsnum \<Rightarrow> page \<Rightarrow> bool \<times> page" where
  "sendWebRTCMaxBitrate env = number_command env ''WebRTC.MaxBitrate''"

definition sendWebRTCFps :: "page_env \<Rightarrow> jsnum \<Rightarrow> page \<Rightarrow> bool \<times> page" where
  "sendWebRTCFps env fps = andThen (number_command env ''WebRTC.Fps'' fps) (number_command env ''WebRTC.MaxFps'' fps)"

definition sendShowFps :: "page_env \<Rightarrow> page \<Rightarrow> bool \<times> page" where
  "sendShowFps env = sendCommand env (JObj [(''stat.fps'', JStr [])])"

definition sendIframeRequest :: "page_env \<Rightarrow> page \<Rightarrow> bool \<times> page" where
  "sendIframeRequest env = through (toStreamer (pe_conv env) ''IFrameRequest'' [])"

definition sendLatencyTest :: "page_env \<Rightarrow> jsnum \<Rightarrow> page \<Rightarrow> bool \<times> page" where
  "sendLatencyTest env now p = emit_json env ''LatencyTest'' (JObj [(''StartTime'', JNum now)]) (p\<lparr>pg_latencyStart := now\<rparr>)"

definition sendDataChannelLatencyTest :: "page_env \<Rightarrow> jsval \<Rightarrow> page \<Rightarrow> bool \<times> page" where
  "sendDataChannelLatencyTest env d = emit_json env ''DataChannelLatencyTest'' d"

definition isDataChannelOpen :: "page \<Rightarrow> bool" where
  "isDataChannelOpen p \<longleftrightarrow> fe_channel (pg_fe p) = Some ''open''"

section \<open>Numeric settings\<close>

definition jtrunc :: "jsnum \<Rightarrow> jsnum" where
  "jtrunc v = (case v of Fin q \<Rightarrow> Fin (of_int (trunc q)) | _ \<Rightarrow> v)"

text \<open>A quality between 0 and 100 for a QP between 51 and 0, and back.\<close>

definition qp_quality :: "jsnum \<Rightarrow> jsnum" where
  "qp_quality v = jtrunc (jmul (Fin 100) (jsub (Fin 1) (jdiv v (Fin 51))))"

definition quality_qp :: "jsnum \<Rightarrow> jsnum" where
  "quality_qp v = jsub (Fin 51) (jmul (jdiv v (Fin 100)) (Fin 51))"

text \<open>The setter of a number: the value, its listener, the event. \<open>None\<close> as an id is the exception.\<close>

definition assign :: "string \<Rightarrow> jsnum \<Rightarrow> (jsnum \<Rightarrow> page \<Rightarrow> bool \<times> page) \<Rightarrow> page \<Rightarrow> bool \<times> page" where
  "assign n v listener p = (case put_number n v (pg_config p) of
     None \<Rightarrow> (False, p)
   | Some c \<Rightarrow>
       let stored = (case getNumericSettingValue n c of Some w \<Rightarrow> w | None \<Rightarrow> v) in
       andThen (listener stored) (logged (Setting_changed n (JNum stored))) (p\<lparr>pg_config := c\<rparr>))"

text \<open>The listeners that set no other number, and the setter with them alone.\<close>

definition plain_listener :: "page_env \<Rightarrow> string \<Rightarrow> jsnum \<Rightarrow> page \<Rightarrow> bool \<times> page" where
  "plain_listener env n v =
     (if n = ''CompatQualityMin'' then sendEncoderMaxQP env (quality_qp v)
      else if n = ''CompatQualityMax'' then sendEncoderMinQP env (quality_qp v)
      else if n = ''WebRTCMinBitrate'' then sendWebRTCMinBitrate env (jmul v (Fin 1000))
      else if n = ''WebRTCMaxBitrate'' then sendWebRTCMaxBitrate env (jmul v (Fin 1000))
      else if n = ''WebRTCFPS'' then sendWebRTCFps env v
      else if n = ''ViewportResScale'' then logged Resized
      else Pair True)"

definition set_plain :: "page_env \<Rightarrow> string \<Rightarrow> jsnum \<Rightarrow> page \<Rightarrow> bool \<times> page" where
  "set_plain env n v = assign n v (plain_listener env n)"

definition number_listener :: "page_env \<Rightarrow> string \<Rightarrow> jsnum \<Rightarrow> page \<Rightarrow> bool \<times> page" where
  "number_listener env n v =
     (if n = ''MinQP'' then andThen (sendEncoderMinQP env v) (set_plain env ''CompatQualityMax'' (qp_quality v))
      else if n = ''MaxQP'' then andThen (sendEncoderMaxQP env v) (set_plain env ''CompatQualityMin'' (qp_quality v))
      else if n = ''MinQuality'' then andThen (sendEncoderMinQuality env v) (set_plain env ''CompatQualityMin'' v)
      else if n = ''MaxQuality'' then andThen (sendEncoderMaxQuality env v) (set_plain env ''CompatQualityMax'' v)
      else plain_listener env n v)"

definition setNumericSetting :: "page_env \<Rightarrow> string \<Rightarrow> jsnum \<Rightarrow> page \<Rightarrow> bool \<times> page" where
  "setNumericSetting env n v = assign n v (number_listener env n)"

section \<open>Flags\<close>

text \<open>The listeners of the flags; switching an input on or off is the input classes' own matter.\<close>

definition flag_listener :: "page_env \<Rightarrow> string \<Rightarrow> bool \<Rightarrow> page \<Rightarrow> bool \<times> page" where
  "flag_listener env n b p =
     (if n = ''ControlsQuality'' then
        (if b \<and> \<not> pg_controls p then through (SendRequestQualityControl (pe_conv env)) p else (True, p))
      else if n = ''TimeoutIfIdle'' then logged (Switched ''Afk'' b) p
      else if n = ''MatchViewportRes'' then logged Resized p
      else if n = ''HoveringMouse'' then (case isFlagEnabled ''MouseInput'' (pg_config p) of
          Some m \<Rightarrow> logged (Switched ''Mouse'' m) p | None \<Rightarrow> (False, p))
      else if n = ''KeyboardInput'' then logged (Switched ''Keyboard'' b) p
      else if n = ''MouseInput'' then logged (Switched ''Mouse'' b) p
      else if n = ''FakeMouseWithTouches'' then (case isFlagEnabled ''TouchInput'' (pg_config p) of
          Some t \<Rightarrow> logged (Switched ''Touch'' t) p | None \<Rightarrow> (False, p))
      else if n = ''TouchInput'' then logged (Switched ''Touch'' b) p
      else if n = ''GamepadInput'' then logged (Switched ''Gamepad'' b) p
      else (True, p))"

definition setFlagEnabled :: "page_env \<Rightarrow> string \<Rightarrow> bool \<Rightarrow> page \<Rightarrow> bool \<times> page" where
  "setFlagEnabled env n b p = (case map_get (cf_flags (pg_config p)) n of
     None \<Rightarrow> (True, p)
   | Some _ \<Rightarrow>
       let c = put_flag n b (pg_config p); stored = (map_get (cf_flags c) n = Some True) in
       andThen (flag_listener env n stored) (logged (Setting_changed n (JBool stored))) (p\<lparr>pg_config := c\<rparr>))"

section \<open>What the streamer tells\<close>

definition onInputControlOwnership :: "bytes \<Rightarrow> page \<Rightarrow> bool \<times> page" where
  "onInputControlOwnership msg p = (True, p\<lparr>pg_input := JBool (1 < length msg \<and> msg ! 1 \<noteq> 0)\<rparr>)"

definition onQualityControlOwnership :: "page_env \<Rightarrow> bytes \<Rightarrow> page \<Rightarrow> bool \<times> page" where
  "onQualityControlOwnership env msg p =
     (let b = (1 < length msg \<and> msg ! 1 \<noteq> 0) in setFlagEnabled env ''ControlsQuality'' b (p\<lparr>pg_controls := b\<rparr>))"

text \<open>The number set for a setting of the streamer: the URL's, where it is to be used and there.\<close>

definition number_or_url :: "page_env \<Rightarrow> string \<Rightarrow> jsnum \<Rightarrow> page \<Rightarrow> bool \<times> page" where
  "number_or_url env n v p =
     setNumericSetting env n
       (case (if cf_useUrl (pg_config p) then url_param (lc_url (pe_loc env)) n else None) of
          Some t \<Rightarrow> lc_parseFloat (pe_loc env) t | None \<Rightarrow> v) p"

definition url_number :: "page_env \<Rightarrow> string \<Rightarrow> page \<Rightarrow> bool \<times> page" where
  "url_number env n p =
     (case (if cf_useUrl (pg_config p) then url_param (lc_url (pe_loc env)) n else None) of
        Some t \<Rightarrow> setNumericSetting env n (lc_parseFloat (pe_loc env) t) p | None \<Rightarrow> (True, p))"

definition num_or :: "page_env \<Rightarrow> jsval \<Rightarrow> rat \<Rightarrow> jsnum" where
  "num_or env v d = (if truthy v then val_num (pe_conv env) v else Fin d)"

definition encoder_settings :: "page_env \<Rightarrow> jsval \<Rightarrow> page \<Rightarrow> bool \<times> page" where
  "encoder_settings env e =
     andThen (if truthy (fld e ''MinQP'')
         then andThen (number_or_url env ''MinQP'' (num_or env (fld e ''MinQP'') 0))
                (number_or_url env ''MaxQP'' (num_or env (fld e ''MaxQP'') 51))
         else Pair True)
     (andThen (if truthy (fld e ''MinQuality'')
         then andThen (number_or_url env ''MinQuality'' (num_or env (fld e ''MinQuality'') 0))
                (number_or_url env ''MaxQuality'' (num_or env (fld e ''MaxQuality'') 100))
         else Pair True)
     (andThen (url_number env ''CompatQualityMin'') (url_number env ''CompatQualityMax'')))"

definition webrtc_settings :: "page_env \<Rightarrow> jsval \<Rightarrow> page \<Rightarrow> bool \<times> page" where
  "webrtc_settings env w =
     (let num = (\<lambda>k. val_num (pe_conv env) (fld w k)) in
      andThen (number_or_url env ''WebRTCMinBitrate'' (jdiv (num ''MinBitrate'') (Fin 1000)))
        (andThen (number_or_url env ''WebRTCMaxBitrate'' (jdiv (num ''MaxBitrate'') (Fin 1000)))
          (number_or_url env ''WebRTCFPS'' (num ''FPS''))))"

definition allow_commands :: "jsval \<Rightarrow> page \<Rightarrow> bool \<times> page" where
  "allow_commands s p = (True, if truthy s
     then p\<lparr>pg_allow := (let a = fld s ''AllowPixelStreamingCommands'' in if a \<in> {JUndef, JNull} then JBool False else a)\<rparr> else p)"

definition onInitialSettings :: "page_env \<Rightarrow> jsval \<Rightarrow> page \<Rightarrow> bool \<times> page" where
  "onInitialSettings env s =
     andThen (logged (Initial s))
     (andThen (allow_commands (fld s ''PixelStreamingSettings''))
     (andThen (if truthy (fld s ''EncoderSettings'') then encoder_settings env (fld s ''EncoderSettings'') else Pair True)
       (if truthy (fld s ''WebRTCSettings'') then webrtc_settings env (fld s ''WebRTCSettings'') else Pair True)))"

text \<open>The parts that are missing stay the empty objects of \<open>InitialSettings\<close>; a 4.27 frame rate is taken for a newer one.\<close>

definition initial_part :: "jsval \<Rightarrow> string \<Rightarrow> jsval" where
  "initial_part m k = (if truthy (fld m k) then fld m k else JObj [])"

definition ueCompatible :: "jsval \<Rightarrow> jsval" where
  "ueCompatible w = (if fld w ''MaxFPS'' \<in> {JUndef, JNull} then w else put_fld ''FPS'' (fld w ''MaxFPS'') w)"

definition initialSettings :: "jsval \<Rightarrow> jsval" where
  "initialSettings m = JObj [(''PixelStreamingSettings'', initial_part m ''PixelStreaming''),
     (''EncoderSettings'', initial_part m ''Encoder''), (''WebRTCSettings'', ueCompatible (initial_part m ''WebRTC''))]"

definition default_hover :: "page_env \<Rightarrow> jsval \<Rightarrow> page \<Rightarrow> bool \<times> page" where
  "default_hover env options =
     (if truthy options \<and> fld options ''DefaultToHover'' \<noteq> JUndef
      then setFlagEnabled env ''HoveringMouse'' (truthy (fld options ''DefaultToHover'')) else Pair True)"

definition handleInitialSettings :: "page_env \<Rightarrow> jsval \<Rightarrow> page \<Rightarrow> bool \<times> page" where
  "handleInitialSettings env m =
     (if m \<in> {JUndef, JNull} then Pair False
      else andThen (default_hover env (fld m ''ConfigOptions'')) (onInitialSettings env (initialSettings m)))"

section \<open>The page's interface\<close>

text \<open>The second result is what the function returns: whether the request was accepted.\<close>

definition guarded :: "bool \<Rightarrow> (page \<Rightarrow> bool \<times> page) \<Rightarrow> page \<Rightarrow> bool \<times> bool \<times> page" where
  "guarded ok f p = (if \<not> ok then (True, False, p) else case f p of (r, p) \<Rightarrow> (r, r, p))"

definition requestShowFps :: "page_env \<Rightarrow> page \<Rightarrow> bool \<times> bool \<times> page" where
  "requestShowFps env p = guarded (isDataChannelOpen p) (sendShowFps env) p"

definition requestIframe :: "page_env \<Rightarrow> bool \<Rightarrow> page \<Rightarrow> bool \<times> bool \<times> page" where
  "requestIframe env ready p = guarded ready (sendIframeRequest env) p"

definition requestLatencyTest :: "page_env \<Rightarrow> bool \<Rightarrow> jsnum \<Rightarrow> page \<Rightarrow> bool \<times> bool \<times> page" where
  "requestLatencyTest env ready now p = guarded ready (sendLatencyTest env now) p"

definition emitUIInteraction :: "page_env \<Rightarrow> jsval \<Rightarrow> page \<Rightarrow> bool \<times> bool \<times> page" where
  "emitUIInteraction env d p = guarded (isDataChannelOpen p) (emit_json env ''UIInteraction'' d) p"

definition is_console :: "jsval \<Rightarrow> bool" where
  "is_console d \<longleftrightarrow> has_own d ''ConsoleCommand'' = Some True"

definition emitCommand :: "page_env \<Rightarrow> jsval \<Rightarrow> page \<Rightarrow> bool \<times> bool \<times> page" where
  "emitCommand env d p = guarded (isDataChannelOpen p \<and> (truthy (pg_allow p) \<or> \<not> is_console d)) (sendCommand env d) p"

definition emitConsoleCommand :: "page_env \<Rightarrow> string \<Rightarrow> page \<Rightarrow> bool \<times> bool \<times> page" where
  "emitConsoleCommand env c p =
     guarded (truthy (pg_allow p) \<and> isDataChannelOpen p) (sendCommand env (JObj [(''ConsoleCommand'', JStr c)])) p"

definition sendTextboxEntry :: "page_env \<Rightarrow> utf16 \<Rightarrow> page \<Rightarrow> bool \<times> bool \<times> page" where
  "sendTextboxEntry env t p = guarded (isDataChannelOpen p) (through (toStreamer_opt (pe_conv env) ''TextboxEntry'' [EText t])) p"

section \<open>Runs\<close>

datatype page_op =
    Op_initial jsval | Op_number string jsnum | Op_flag string bool | Op_quality bytes | Op_input bytes
  | Op_command jsval | Op_console string | Op_ui jsval | Op_text utf16 | Op_fps | Op_iframe bool | Op_latency bool jsnum
  | Op_protocol "jsval option" | Op_channel "string option"

fun page_step :: "page_env \<Rightarrow> page_op \<Rightarrow> page \<Rightarrow> page" where
  "page_step env (Op_initial m) p = snd (handleInitialSettings env m p)"
| "page_step env (Op_number n v) p = snd (setNumericSetting env n v p)"
| "page_step env (Op_flag n b) p = snd (setFlagEnabled env n b p)"
| "page_step env (Op_quality m) p = snd (onQualityControlOwnership env m p)"
| "page_step env (Op_input m) p = snd (onInputControlOwnership m p)"
| "page_step env (Op_command d) p = snd (snd (emitCommand env d p))"
| "page_step env (Op_console c) p = snd (snd (emitConsoleCommand env c p))"
| "page_step env (Op_ui d) p = snd (snd (emitUIInteraction env d p))"
| "page_step env (Op_text t) p = snd (snd (sendTextboxEntry env t p))"
| "page_step env Op_fps p = snd (snd (requestShowFps env p))"
| "page_step env (Op_iframe r) p = snd (snd (requestIframe env r p))"
| "page_step env (Op_latency r now) p = snd (snd (requestLatencyTest env r now p))"
| "page_step env (Op_protocol m) p = p\<lparr>pg_fe := onProtocolMessage (pe_conv env) m (pg_fe p)\<rparr>"
| "page_step env (Op_channel c) p = p\<lparr>pg_fe := (pg_fe p)\<lparr>fe_channel := c\<rparr>\<rparr>"

definition new_page :: "page_env \<Rightarrow> config_params \<Rightarrow> page" where
  "new_page env cp = \<lparr>pg_config = new_config (pe_loc env) cp, pg_fe = new_frontend, pg_allow = JBool False, pg_controls = False,
     pg_input = JUndef, pg_latencyStart = NaN, pg_log = []\<rparr>"

definition page_run :: "page_env \<Rightarrow> page_op list \<Rightarrow> page \<Rightarrow> page" where
  "page_run env = fold (page_step env)"

end
