(* ===== verification/Frontend_Page_Properties.thy ===== *)
theory Frontend_Page_Properties
  imports Frontend_Page
begin

text \<open>
  The page's commands and settings: what one step of the page keeps, that a console command leaves only
  after the streamer allowed it, that numbers stay in their range, and what a change of the QP sends.
\<close>

section \<open>What the listeners keep\<close>

text \<open>
  A step that tells the streamer no console command: the permission is kept, the log is extended by other
  events, numbers stay in range, and no flag or number comes or goes.
\<close>

definition quiet_step :: "page \<Rightarrow> page \<Rightarrow> bool" where
  "quiet_step p q \<longleftrightarrow> pg_allow q = pg_allow p
     \<and> (\<exists>es. pg_log q = pg_log p @ es \<and> (\<forall>d. Commanded d \<in> set es \<longrightarrow> \<not> is_console d))
     \<and> (numbers_ok (pg_config p) \<longrightarrow> numbers_ok (pg_config q))
     \<and> map fst (cf_flags (pg_config q)) = map fst (cf_flags (pg_config p))
     \<and> map fst (cf_numbers (pg_config q)) = map fst (cf_numbers (pg_config p))"

definition quiet :: "(page \<Rightarrow> bool \<times> page) \<Rightarrow> bool" where
  "quiet f \<longleftrightarrow> (\<forall>p. quiet_step p (snd (f p)))"

named_theorems quiets

lemma quiet_step_refl: "quiet_step p p"
  by (simp add: quiet_step_def)

lemma quiet_step_trans: "\<lbrakk>quiet_step p q; quiet_step q r\<rbrakk> \<Longrightarrow> quiet_step p r"
proof -
  assume p: "quiet_step p q" and q: "quiet_step q r"
  from p obtain es where es: "pg_log q = pg_log p @ es" "\<forall>d. Commanded d \<in> set es \<longrightarrow> \<not> is_console d"
    by (auto simp: quiet_step_def)
  from q obtain fs where fs: "pg_log r = pg_log q @ fs" "\<forall>d. Commanded d \<in> set fs \<longrightarrow> \<not> is_console d"
    by (auto simp: quiet_step_def)
  have "pg_log r = pg_log p @ (es @ fs) \<and> (\<forall>d. Commanded d \<in> set (es @ fs) \<longrightarrow> \<not> is_console d)"
    using es fs by auto
  then show "quiet_step p r" using p q unfolding quiet_step_def by auto
qed

lemma quietD: "quiet f \<Longrightarrow> quiet_step p (snd (f p))"
  by (simp add: quiet_def)

lemma quiet_Pair [quiets]: "quiet (Pair b)"
  by (simp add: quiet_def quiet_step_refl)

lemma quiet_andThen [quiets]: "\<lbrakk>quiet f; quiet g\<rbrakk> \<Longrightarrow> quiet (andThen f g)"
  by (auto simp: quiet_def andThen_def split: prod.split bool.split intro: quiet_step_trans) (metis quiet_step_trans snd_conv)

lemma quiet_if [quiets]: "\<lbrakk>quiet f; quiet g\<rbrakk> \<Longrightarrow> quiet (if b then f else g)"
  by simp

lemma quiet_logged: "\<forall>d. e = Commanded d \<longrightarrow> \<not> is_console d \<Longrightarrow> quiet (logged e)"
  by (auto simp: quiet_def quiet_step_def logged_def)

lemma quiet_events [quiets]:
  "quiet (logged (Setting_changed n v))" "quiet (logged (Switched n b))" "quiet (logged Resized)" "quiet (logged (Initial v))"
  by (rule quiet_logged, simp)+

lemma quiet_through [quiets]: "quiet (through f)"
  by (auto simp: quiet_def quiet_step_def through_def split: option.split)

lemma quiet_number_command [quiets]: "key \<noteq> ''ConsoleCommand'' \<Longrightarrow> quiet (number_command env key v)"
  unfolding number_command_def sendCommand_def emit_json_def
  by (intro quiet_andThen quiet_logged quiet_through) (simp add: is_console_def has_own_def)

lemma quiet_senders [quiets]:
  "quiet (sendEncoderMinQP env v)" "quiet (sendEncoderMaxQP env v)" "quiet (sendEncoderMinQuality env v)"
  "quiet (sendEncoderMaxQuality env v)" "quiet (sendWebRTCMinBitrate env v)" "quiet (sendWebRTCMaxBitrate env v)"
  "quiet (sendWebRTCFps env v)"
  unfolding sendEncoderMinQP_def sendEncoderMaxQP_def sendEncoderMinQuality_def sendEncoderMaxQuality_def
    sendWebRTCMinBitrate_def sendWebRTCMaxBitrate_def sendWebRTCFps_def
  by (intro quiets; simp)+

lemma quiet_showFps [quiets]: "quiet (sendShowFps env)"
  unfolding sendShowFps_def sendCommand_def emit_json_def
  by (intro quiet_andThen quiet_logged quiet_through) (simp add: is_console_def has_own_def)

lemma fst_map_set: "map_get m k \<noteq> None \<Longrightarrow> map fst (map_set k v m) = map fst m"
  by (auto simp: keys_map_set map_get_def)

lemma put_number_keys:
  "put_number n v c = Some c' \<Longrightarrow> cf_flags c' = cf_flags c \<and> map fst (cf_numbers c') = map fst (cf_numbers c)"
  by (auto simp: put_number_def fst_map_set)

lemma quiet_assign [quiets]: "(\<And>v. quiet (listener v)) \<Longrightarrow> quiet (assign n v listener)"
proof -
  assume l: "\<And>v. quiet (listener v)"
  have "quiet_step p (snd (assign n v listener p))" for p
  proof (cases "put_number n v (pg_config p)")
    case None
    then show ?thesis by (simp add: assign_def quiet_step_refl)
  next
    case (Some c)
    have "quiet_step p (p\<lparr>pg_config := c\<rparr>)"
      using put_number_ok [OF _ Some] put_number_keys [OF Some] by (auto simp: quiet_step_def)
    moreover have "quiet (andThen (listener w) (logged (Setting_changed n (JNum w))))" for w by (intro quiets l)
    ultimately show ?thesis using Some by (auto simp: assign_def Let_def quiet_def intro: quiet_step_trans)
  qed
  then show ?thesis by (simp add: quiet_def)
qed

lemma quiet_plain_listener [quiets]: "quiet (plain_listener env n v)"
  unfolding plain_listener_def by (intro quiets)

lemma quiet_number_listener [quiets]: "quiet (number_listener env n v)"
  unfolding number_listener_def set_plain_def by (intro quiets)

lemma quiet_setNumericSetting [quiets]: "quiet (setNumericSetting env n v)"
  unfolding setNumericSetting_def by (intro quiets)

lemma quiet_flag_listener [quiets]: "quiet (flag_listener env n b)"
proof -
  have "quiet_step p (snd (logged (Switched k c) p))" "quiet_step p (snd (logged Resized p))" "quiet_step p (snd (through f p))"
    for p k c f using quiet_events quiet_through by (auto simp: quiet_def)
  then show ?thesis by (auto simp: quiet_def flag_listener_def quiet_step_refl split: option.split)
qed

lemma quiet_setFlagEnabled [quiets]: "quiet (setFlagEnabled env n b)"
proof -
  have "quiet_step p (snd (setFlagEnabled env n b p))" for p
  proof (cases "map_get (cf_flags (pg_config p)) n")
    case None
    then show ?thesis by (simp add: setFlagEnabled_def quiet_step_refl)
  next
    case (Some x)
    have "quiet_step p (p\<lparr>pg_config := put_flag n b (pg_config p)\<rparr>)"
      using Some by (auto simp: quiet_step_def put_flag_def numbers_ok_def fst_map_set)
    moreover have "quiet (andThen (flag_listener env n w) (logged (Setting_changed n (JBool w))))" for w by (intro quiets)
    ultimately show ?thesis using Some by (auto simp: setFlagEnabled_def Let_def quiet_def intro: quiet_step_trans)
  qed
  then show ?thesis by (simp add: quiet_def)
qed

lemma quiet_number_or_url [quiets]: "quiet (number_or_url env n v)"
  using quiet_setNumericSetting by (simp add: quiet_def number_or_url_def)

lemma quiet_url_number [quiets]: "quiet (url_number env n)"
  using quiet_setNumericSetting by (simp add: quiet_def url_number_def quiet_step_refl split: option.split)

lemma quiet_encoder_settings [quiets]: "quiet (encoder_settings env e)"
  unfolding encoder_settings_def by (intro quiets)

lemma quiet_webrtc_settings [quiets]: "quiet (webrtc_settings env w)"
  unfolding webrtc_settings_def Let_def by (intro quiets)

lemma quiet_default_hover [quiets]: "quiet (default_hover env w)"
  unfolding default_hover_def by (intro quiets)

section \<open>The permission\<close>

text \<open>What the streamer's initial settings say of commands; the last word counts.\<close>

definition says_allowed :: "jsval \<Rightarrow> bool" where
  "says_allowed m \<longleftrightarrow> truthy (fld (fld m ''PixelStreaming'') ''AllowPixelStreamingCommands'')"

fun allowed_by :: "page_op \<Rightarrow> bool \<Rightarrow> bool" where
  "allowed_by (Op_initial m) a = (if m \<in> {JUndef, JNull} then a else says_allowed m)"
| "allowed_by _ a = a"

definition allowed :: "page_op list \<Rightarrow> bool" where
  "allowed ops = fold allowed_by ops False"

lemma initial_part_allowed: "truthy (fld (initial_part m ''PixelStreaming'') k) = truthy (fld (fld m ''PixelStreaming'') k)"
proof -
  have "\<not> truthy v \<Longrightarrow> fld v k = JUndef" for v by (cases v) auto
  then show ?thesis by (auto simp: initial_part_def)
qed

lemma initial_part_truthy: "truthy (initial_part m k)"
  by (simp add: initial_part_def)

lemma allow_commands_initial:
  "snd (allow_commands (fld (initialSettings m) ''PixelStreamingSettings'') p)
   = p\<lparr>pg_allow := (let a = fld (initial_part m ''PixelStreaming'') ''AllowPixelStreamingCommands'' in
       if a \<in> {JUndef, JNull} then JBool False else a)\<rparr>"
  by (simp add: allow_commands_def initialSettings_def initial_part_truthy)

lemma andThen_returns: "fst (f p) \<Longrightarrow> andThen f g p = g (snd (f p))"
  by (auto simp: andThen_def split: prod.split bool.split)

lemma hover_returns: "''MouseInput'' \<in> set (map fst (cf_flags (pg_config p))) \<Longrightarrow> fst (default_hover env w p)"
proof -
  assume m: "''MouseInput'' \<in> set (map fst (cf_flags (pg_config p)))"
  have "fst (setFlagEnabled env ''HoveringMouse'' b p)" for b
  proof (cases "map_get (cf_flags (pg_config p)) ''HoveringMouse''")
    case None
    then show ?thesis by (simp add: setFlagEnabled_def)
  next
    case (Some h)
    let ?c = "put_flag ''HoveringMouse'' b (pg_config p)"
    have "map fst (cf_flags ?c) = map fst (cf_flags (pg_config p))" using Some by (simp add: put_flag_def fst_map_set)
    then have "''MouseInput'' \<in> fst ` set (cf_flags ?c)" using m by (metis set_map)
    then obtain x where "map_get (cf_flags ?c) ''MouseInput'' = Some x" by (metis map_get_def map_of_eq_None_iff option.exhaust)
    then show ?thesis using Some by (simp add: setFlagEnabled_def flag_listener_def Let_def andThen_def isFlagEnabled_def logged_def)
  qed
  then show ?thesis by (simp add: default_hover_def)
qed

lemma quiet_step_allow: "quiet_step p q \<Longrightarrow> quiet_step (p\<lparr>pg_allow := a\<rparr>) (q\<lparr>pg_allow := a\<rparr>)"
  by (auto simp: quiet_step_def)

definition told_settings :: "page_env \<Rightarrow> jsval \<Rightarrow> page \<Rightarrow> bool \<times> page" where
  "told_settings env s = andThen (if truthy (fld s ''EncoderSettings'') then encoder_settings env (fld s ''EncoderSettings'') else Pair True)
       (if truthy (fld s ''WebRTCSettings'') then webrtc_settings env (fld s ''WebRTCSettings'') else Pair True)"

lemma quiet_told_settings: "quiet (told_settings env s)"
  unfolding told_settings_def by (intro quiets)

text \<open>After initial settings the page has their permission, whatever their other parts do.\<close>

lemma handleInitialSettings_effect:
  fixes env
  assumes m: "m \<notin> {JUndef, JNull}" and keys: "''MouseInput'' \<in> set (map fst (cf_flags (pg_config p)))"
  defines "q \<equiv> snd (handleInitialSettings env m p)"
  shows "truthy (pg_allow q) = says_allowed m \<and> quiet_step p (q\<lparr>pg_allow := pg_allow p\<rparr>)"
proof -
  let ?s = "initialSettings m"
  let ?p1 = "snd (default_hover env (fld m ''ConfigOptions'') p)"
  let ?p2 = "snd (logged (Initial ?s) ?p1)"
  let ?p3 = "snd (allow_commands (fld ?s ''PixelStreamingSettings'') ?p2)"
  have q: "q = snd (told_settings env ?s ?p3)"
    unfolding q_def handleInitialSettings_def onInitialSettings_def if_not_P [OF m]
      andThen_returns [of "default_hover env (fld m ''ConfigOptions'')" p, OF hover_returns [OF keys]] told_settings_def [symmetric]
    by (simp add: andThen_returns logged_def allow_commands_def)
  have p2: "quiet_step p ?p2"
    by (rule quiet_step_trans [OF quietD [OF quiet_default_hover] quietD [OF quiet_events(4)]])
  have told: "quiet_step ?p3 q" unfolding q by (rule quietD [OF quiet_told_settings])
  have "?p3\<lparr>pg_allow := pg_allow p\<rparr> = ?p2"
    unfolding allow_commands_initial using p2 by (simp add: quiet_step_def)
  then have "quiet_step p (q\<lparr>pg_allow := pg_allow p\<rparr>)"
    using quiet_step_trans [OF p2] quiet_step_allow [OF told, of "pg_allow p"] by simp
  moreover have "pg_allow q = pg_allow ?p3" using told by (simp add: quiet_step_def)
  then have "truthy (pg_allow q) = says_allowed m"
    unfolding allow_commands_initial by (auto simp: Let_def says_allowed_def initial_part_allowed [symmetric])
  ultimately show ?thesis by blast
qed

section \<open>Steps\<close>

fun console_op :: "page_op \<Rightarrow> bool" where
  "console_op (Op_command d) = is_console d"
| "console_op (Op_console c) = True"
| "console_op _ = False"

text \<open>The gate of the two commands: without the permission a console command leaves the page as it was.\<close>

lemma emitCommand_gate: "is_console d \<Longrightarrow> \<not> truthy (pg_allow p) \<Longrightarrow> emitCommand env d p = (True, False, p)"
  by (simp add: emitCommand_def guarded_def)

lemma emitConsoleCommand_gate: "\<not> truthy (pg_allow p) \<Longrightarrow> emitConsoleCommand env c p = (True, False, p)"
  by (simp add: emitConsoleCommand_def guarded_def)

lemma quiet_guarded: "quiet f \<Longrightarrow> quiet_step p (snd (snd (guarded b f p)))"
proof -
  assume "quiet f"
  then have "quiet_step p (snd (f p))" by (simp add: quiet_def)
  then show ?thesis by (auto simp: guarded_def quiet_step_refl split: prod.split)
qed

lemma quiet_sendCommand: "\<not> is_console d \<Longrightarrow> quiet (sendCommand env d)"
  unfolding sendCommand_def emit_json_def by (intro quiet_andThen quiet_logged quiet_through) simp

lemma quiet_emit: "quiet (emit_json env ty d)"
  unfolding emit_json_def by (rule quiet_through)

lemma quiet_frame: "quiet_step p (p\<lparr>pg_fe := f\<rparr>)" "quiet_step p (p\<lparr>pg_input := v\<rparr>)"
  "quiet_step p (p\<lparr>pg_controls := b\<rparr>)" "quiet_step p (p\<lparr>pg_latencyStart := n\<rparr>)"
  by (simp_all add: quiet_step_def)

lemma quiet_quality: "quiet_step p (snd (onQualityControlOwnership env m p))"
proof -
  have "quiet_step (p\<lparr>pg_controls := b\<rparr>) (snd (setFlagEnabled env n b (p\<lparr>pg_controls := b\<rparr>)))" for n b
    using quiet_setFlagEnabled by (simp add: quiet_def)
  then show ?thesis
    unfolding onQualityControlOwnership_def Let_def by (rule quiet_step_trans [OF quiet_frame(3)])
qed

lemma quiet_latency: "quiet (sendLatencyTest env now)"
  unfolding quiet_def sendLatencyTest_def
proof
  show "quiet_step p (snd (emit_json env ''LatencyTest'' (JObj [(''StartTime'', JNum now)]) (p\<lparr>pg_latencyStart := now\<rparr>)))" for p
    by (rule quiet_step_trans [OF quiet_frame(4) quietD [OF quiet_emit]])
qed

lemma quiet_console_off: "\<not> truthy (pg_allow p) \<Longrightarrow> console_op op \<Longrightarrow> page_step env op p = p"
  by (cases op) (simp_all add: emitCommand_gate emitConsoleCommand_gate)

text \<open>Every step but initial settings and a console command is quiet.\<close>

lemma quiet_page_step: "\<lbrakk>\<not> console_op op; \<forall>m. op = Op_initial m \<longrightarrow> m \<in> {JUndef, JNull}\<rbrakk> \<Longrightarrow> quiet_step p (page_step env op p)"
proof (cases op)
  case (Op_initial m)
  then show "\<forall>m. op = Op_initial m \<longrightarrow> m \<in> {JUndef, JNull} \<Longrightarrow> ?thesis"
    by (auto simp: handleInitialSettings_def quiet_step_refl)
next
  case (Op_number n v)
  then show ?thesis using quiet_setNumericSetting by (simp add: quiet_def)
next
  case (Op_flag n b)
  then show ?thesis using quiet_setFlagEnabled by (simp add: quiet_def)
next
  case (Op_quality m)
  then show ?thesis by (simp add: quiet_quality)
next
  case (Op_input m)
  then show ?thesis by (simp add: onInputControlOwnership_def quiet_frame)
next
  case (Op_command d)
  then show "\<not> console_op op \<Longrightarrow> ?thesis" by (simp add: emitCommand_def quiet_guarded quiet_sendCommand)
next
  case (Op_ui d)
  then show ?thesis by (simp add: emitUIInteraction_def quiet_guarded quiet_emit)
next
  case (Op_text t)
  then show ?thesis by (simp add: sendTextboxEntry_def quiet_guarded quiet_through)
next
  case Op_fps
  then show ?thesis by (simp add: requestShowFps_def quiet_guarded quiet_showFps)
next
  case (Op_iframe r)
  then show ?thesis by (simp add: requestIframe_def sendIframeRequest_def quiet_guarded quiet_through)
next
  case (Op_latency r now)
  then show ?thesis by (simp add: requestLatencyTest_def quiet_guarded quiet_latency)
next
  case (Op_protocol m)
  then show ?thesis by (simp add: quiet_frame)
next
  case (Op_channel c)
  then show ?thesis by (simp add: quiet_frame)
qed simp_all

text \<open>What a console command keeps: it is logged and sent, nothing else.\<close>

lemma console_keeps: "console_op op \<Longrightarrow> pg_allow (page_step env op p) = pg_allow p \<and> pg_config (page_step env op p) = pg_config p"
  by (cases op) (auto simp: emitCommand_def emitConsoleCommand_def guarded_def sendCommand_def emit_json_def logged_def through_def
      andThen_def split: prod.split option.split)

text \<open>The settings are the declared ones, each number within its bounds.\<close>

definition flag_names :: "string list" where
  "flag_names = map fst (stream_flags @ input_flags @ session_flags)"

definition number_names :: "string list" where
  "number_names = [''AFKTimeout'', ''AFKCountdown''] @ map fst (encoder_numbers @ stream_numbers False)"

definition config_ok :: "page_config \<Rightarrow> bool" where
  "config_ok c \<longleftrightarrow> map fst (cf_flags c) = flag_names \<and> map fst (cf_numbers c) = number_names \<and> numbers_ok c"

definition page_inv :: "bool \<Rightarrow> page \<Rightarrow> bool" where
  "page_inv a p \<longleftrightarrow> truthy (pg_allow p) = a \<and> config_ok (pg_config p)"

lemma quiet_step_inv: "quiet_step p q \<Longrightarrow> page_inv a p \<Longrightarrow> page_inv a q"
  by (simp add: quiet_step_def page_inv_def config_ok_def del: set_map)

lemma page_step_inv: "page_inv a p \<Longrightarrow> page_inv (allowed_by op a) (page_step env op p)"
proof -
  assume inv: "page_inv a p"
  consider (init) m where "op = Op_initial m" "m \<notin> {JUndef, JNull}" | (console) "console_op op"
    | (other) "\<not> console_op op" "\<forall>m. op = Op_initial m \<longrightarrow> m \<in> {JUndef, JNull}" by blast
  then show ?thesis
  proof cases
    case init
    have "''MouseInput'' \<in> set flag_names" by (simp add: flag_names_def input_flags_def)
    then have "''MouseInput'' \<in> set (map fst (cf_flags (pg_config p)))" using inv by (simp only: page_inv_def config_ok_def)
    note e = handleInitialSettings_effect [OF init(2) this, of env]
    then have "page_inv a (snd (handleInitialSettings env m p)\<lparr>pg_allow := pg_allow p\<rparr>)"
      using quiet_step_inv inv by blast
    then show ?thesis using e init by (simp add: page_inv_def)
  next
    case console
    then have "allowed_by op a = a" by (cases op) simp_all
    then show ?thesis using inv console_keeps [OF console] by (simp add: page_inv_def)
  next
    case other
    then have "allowed_by op a = a" by (cases op) auto
    then show ?thesis using quiet_step_inv [OF quiet_page_step [OF other]] inv by simp
  qed
qed

lemma new_page_inv: "page_inv False (new_page env cp)"
proof -
  have "map fst (cf_flags (new_config l p)) = flag_names" for l p
    by (auto simp: new_config_def new_flag_def Let_def put_flag_def fst_map_set split_def comp_def flag_names_def)
  moreover have "map fst (cf_numbers (new_config l p)) = number_names" for l p
    by (simp add: new_config_def Let_def new_numbers_def new_number_def number_names_def split_def comp_def stream_numbers_def)
  ultimately show ?thesis by (simp add: page_inv_def new_page_def new_config_ok config_ok_def)
qed

lemma page_run_inv: "page_inv (allowed ops) (page_run env ops (new_page env cp))"
proof (induction ops rule: rev_induct)
  case Nil
  then show ?case by (simp add: page_run_def allowed_def new_page_inv)
next
  case (snoc op ops)
  then show ?case using page_step_inv by (simp add: page_run_def allowed_def)
qed

end
