(* ===== verification/Frontend_AFK_Properties.thy ===== *)
theory Frontend_AFK_Properties
  imports Frontend_AFK
begin

text \<open>
  The inactivity countdown: from any state that a run of the controller reaches and in which no earlier
  countdown runs, a warning that is left alone disconnects after as many seconds as the countdown says,
  when that is a whole number of them, and never otherwise.
\<close>

definition afk_run :: "(afk_config \<times> rat \<times> afk_input) list \<Rightarrow> afk \<Rightarrow> afk" where
  "afk_run is a = fold (\<lambda>(c, now, i). afk_step c now i) is a"

text \<open>Every timer that is due runs; the seconds after \<open>now\<close>, in which nothing else happens.\<close>

definition timers_run :: "afk_config \<Rightarrow> rat \<Rightarrow> afk \<Rightarrow> afk" where
  "timers_run c now a = warn_fires c now (fold (\<lambda>i. interval_fires i now) (map fst (af_intervals a)) a)"

definition afk_seconds :: "afk_config \<Rightarrow> rat \<Rightarrow> nat \<Rightarrow> afk \<Rightarrow> afk" where
  "afk_seconds c now n a = fold (\<lambda>k. timers_run c (now + 1000 * of_nat (Suc k))) [0..<n] a"

text \<open>The countdown that started with \<open>q\<close>, after \<open>n\<close> of its seconds.\<close>

definition counting :: "nat \<Rightarrow> rat \<Rightarrow> rat \<Rightarrow> nat \<Rightarrow> afk_out list \<Rightarrow> afk \<Rightarrow> bool" where
  "counting i now q n out a \<longleftrightarrow> af_intervals a = [(i, now + 1000 * of_nat (Suc n))] \<and> af_timer a = Some i \<and> af_warn a = None
     \<and> af_countDown a = Fin (q - of_nat n) \<and> (\<exists>new. af_out a = out @ new \<and> Afk_disconnect \<notin> set new)"

definition ended :: "afk_out list \<Rightarrow> afk \<Rightarrow> bool" where
  "ended out a \<longleftrightarrow> af_intervals a = [] \<and> af_warn a = None \<and> (\<exists>new. af_out a = out @ new \<and> Afk_disconnect \<in> set new)"

lemma counting_started:
  assumes "af_intervals a = []" "af_warn a = None" "ac_countdown c = Fin q"
  shows "counting (af_next a) now q 0 (af_out a) (activateAfkEvent c now a)"
  using assms by (simp add: counting_def activateAfkEvent_def pauseAfkWarningTimer_def afk_emit_def Let_def)

lemma timers_of_one:
  assumes "counting i now q n out a"
  shows "timers_run c t a = warn_fires c t (interval_fires i t a)"
  using assms by (simp add: counting_def timers_run_def)

lemma counting_second:
  assumes "counting i now q n out a"
  shows "if q = of_nat (Suc n) then ended out (timers_run c (now + 1000 * of_nat (Suc n)) a)
    else counting i now q (Suc n) out (timers_run c (now + 1000 * of_nat (Suc n)) a)"
proof -
  let ?a = "a\<lparr>af_intervals := [(i, now + 1000 * of_nat (Suc n) + 1000)], af_countDown := Fin (q - of_nat n - 1)\<rparr>"
  have "interval_fires i (now + 1000 * of_nat (Suc n)) a =
      (if q - of_nat n - 1 = 0 then stopAfkWarningTimer (afk_emit Afk_disconnect (afk_emit Afk_timed_out ?a))
       else afk_emit (Afk_update (Fin (q - of_nat n - 1))) ?a)"
    using assms by (simp add: counting_def interval_fires_def countdown_second_def Let_def jsub_def map_get_def)
  moreover have "q = of_nat (Suc n) \<longleftrightarrow> q - of_nat n - 1 = 0" by auto
  moreover have "now + 1000 * of_nat (Suc n) + 1000 = now + 1000 * of_nat (Suc (Suc n))" by (simp add: algebra_simps)
  ultimately show ?thesis using assms unfolding timers_of_one [OF assms]
    by (auto simp: counting_def ended_def stopAfkWarningTimer_def clear_countdown_def afk_emit_def warn_fires_def map_delete_def)
qed

lemma ended_kept: "ended out a \<Longrightarrow> ended out (timers_run c t a)"
  by (simp add: ended_def timers_run_def warn_fires_def)

lemma counted:
  assumes "counting i now q 0 out a"
  shows "if \<exists>m \<in> {1..n}. q = of_nat m then ended out (afk_seconds c now n a) else counting i now q n out (afk_seconds c now n a)"
proof (induction n)
  case 0
  then show ?case using assms by (simp add: afk_seconds_def)
next
  case (Suc n)
  have s: "afk_seconds c now (Suc n) a = timers_run c (now + 1000 * of_nat (Suc n)) (afk_seconds c now n a)"
    by (simp add: afk_seconds_def)
  have e: "(\<exists>m \<in> {1..Suc n}. q = of_nat m) \<longleftrightarrow> (\<exists>m \<in> {1..n}. q = of_nat m) \<or> q = of_nat (Suc n)"
    using atLeastAtMostSuc_conv [of 1 n] by auto
  show ?case
  proof (cases "\<exists>m \<in> {1..n}. q = of_nat m")
    case True
    then show ?thesis using Suc ended_kept unfolding s e by simp
  next
    case False
    then have "counting i now q n out (afk_seconds c now n a)" using Suc by simp
    from counting_second [OF this, of c] show ?thesis unfolding s e by (simp only: False simp_thms)
  qed
qed

lemma countdown_ends:
  assumes "af_intervals a = []" "af_warn a = Some d" "d \<le> now" "ac_countdown c = Fin q"
  shows "Afk_disconnect \<in> set (drop (length (af_out a)) (af_out (afk_seconds c now n (warn_fires c now a))))
    \<longleftrightarrow> (\<exists>m \<in> {1..n}. q = of_nat m)"
proof -
  have "counting (af_next a) now q 0 (af_out a) (warn_fires c now a)"
    using counting_started [of "a\<lparr>af_warn := None\<rparr>" c q now] assms by (simp add: warn_fires_def)
  from counted [OF this, of n c] show ?thesis by (auto simp: counting_def ended_def split: if_splits)
qed

end
