(* ===== verification/Frontend_Session_Results.thy ===== *)
theory Frontend_Session_Results
  imports Frontend_Session_Properties Frontend_Page_Properties Frontend_AFK_Properties
begin

text \<open>What holds of the browser's session, of its page and of the inactivity countdown, with runs that show it.\<close>

section \<open>The session\<close>

definition demo_br :: browser where
  "demo_br = \<lparr>br_capabilities = Some [''video/H264'', ''video/VP8'', ''video/rtx''], br_codecs = [''H264''], br_urlStreamer = None\<rparr>"

definition demo_st :: settings where
  "demo_st = \<lparr>st_maxReconnect = 3, st_waitForStreamer = True, st_browserSendOffer = False, st_forceTURN = False,
     st_minBitrate = 0, st_maxBitrate = 30000\<rparr>"

definition ws_run :: "ws_event list \<Rightarrow> session" where
  "ws_run evs = fold (ws_handle demo_br demo_st) evs (fresh_session\<lparr>ws_options := [], ws_selected := []\<rparr>)"

lemma ws_run_reachable: "ws_reachable demo_br (ws_run evs)"
  unfolding ws_run_def
  by (induction evs rule: rev_induct) (simp_all add: ws_reachable.start ws_reachable.step)

text \<open>A first connection: it opens, is configured, and joins the one streamer there is.\<close>

definition demo_joining :: "ws_event list" where
  "demo_joining = [Ev_connect, Ev_open, Ev_config (mk_msg ''config'' [(''peerConnectionOptions'', JObj [])]), Ev_streamerList [''A'']]"

lemmas session_defs = on_open_def effect_def send_msg_def sendSignallingMessage_def wire_send_def tag_generation_def Let_def
  connectToSignallingServer_def handleOnConfigMessage_def startSession_def replacePeerConnectionController_def close_peer_def
  handleStreamerListMessage_def drop_vanished_def wanted_streamer_def auto_streamer_def join_streamer_def wait_streamer_def
  setStreamerOption_def select_streamer_def handleStreamerSelectionChanged_def isConnected_def mtype_def mk_msg_def
  retirePeerConnectionController_def

lemma demo_joined:
  "ws_log (ws_run demo_joining) = [Opened, Wire (mk_msg ''listStreamers'' []), Peer_new 1,
     Wire (mk_msg ''scaleWorldCodecCapabilities'' [(''supportedCodecs'', supportedCodecs demo_br)]),
     Wire (mk_msg ''subscribe'' [(''streamerId'', JStr ''A'')]), Event ''streamerListMessage'' [JStr ''A'', JStr []]]"
  "ws_socket (ws_run demo_joining) = Open" "ws_peerConfig (ws_run demo_joining) = Some (JObj [])"
  "ws_subscribed (ws_run demo_joining) = Some ''A''"
proof -
  have "trim [] = []" by code_simp
  note d = ws_run_def demo_joining_def fresh_session_def demo_st_def demo_br_def session_defs this
  show "ws_log (ws_run demo_joining) = [Opened, Wire (mk_msg ''listStreamers'' []), Peer_new 1,
     Wire (mk_msg ''scaleWorldCodecCapabilities'' [(''supportedCodecs'', supportedCodecs demo_br)]),
     Wire (mk_msg ''subscribe'' [(''streamerId'', JStr ''A'')]), Event ''streamerListMessage'' [JStr ''A'', JStr []]]"
    by (simp add: d)
  show "ws_socket (ws_run demo_joining) = Open" "ws_peerConfig (ws_run demo_joining) = Some (JObj [])"
    "ws_subscribed (ws_run demo_joining) = Some ''A''" by (simp_all add: d)
qed

text \<open>
  C18: In every state of a browser session, whatever events arrive and in whatever order, the log opens and
  closes peer connections such that exactly the current one, if any, is open; and a peer connection that
  has been closed has no effect any more: its descriptions, candidates, statistics, open data channel and
  finished answers leave the session as it is, and nothing of its queued offers reaches the log.
\<close>

theorem peer_connections_current:
  assumes "ws_reachable br s"
  shows "open_peers (ws_log s) = (case ws_peer s of None \<Rightarrow> [] | Some g \<Rightarrow> [g])
    \<and> (\<forall>g st ty sdp c codec frames bytes b state n. Peer_close g \<in> set (ws_log s) \<longrightarrow> ws_peer s \<noteq> Some g
      \<and> ws_handle br st (Ev_description g ty sdp) s = s \<and> ws_handle br st (Ev_candidate g c) s = s
      \<and> ws_handle br st (Ev_stats g codec frames bytes) s = s \<and> ws_handle br st (Ev_channelOpen g) s = s
      \<and> ws_handle br st (Ev_answered g b) s = s \<and> ws_handle br st (Ev_remoteDescription g ty sdp) s = s
      \<and> ws_handle br st (Ev_iceState g state) s = s \<and> ws_handle br st (Ev_notice g n) s = s
      \<and> ws_log (ws_handle br st (Ev_beginOffer g) s) = ws_log s
      \<and> ws_log (ws_handle br st (Ev_endOffer g b) s) = ws_log s)"
proof (intro conjI allI impI)
  have ok: "peers_ok s" using assms by (rule peers_reachable)
  then show "open_peers (ws_log s) = (case ws_peer s of None \<Rightarrow> [] | Some g \<Rightarrow> [g])" by (simp add: peers_ok_def)
  show "ws_peer s \<noteq> Some g" if "Peer_close g \<in> set (ws_log s)" for g using ok that by (auto simp: peers_ok_def)
qed (rule closed_silent [OF assms]; assumption)+

definition demo_left :: session where
  "demo_left = ws_handle demo_br demo_st Ev_closeAll (ws_run demo_joining)"

lemma demo_left_closed: "Peer_close 1 \<in> set (ws_log demo_left)" "ws_reachable demo_br demo_left"
proof -
  have "ws_peer (ws_run demo_joining) = Some 1"
    using peers_reachable [OF ws_run_reachable, of demo_joining] by (simp add: peers_ok_def demo_joined open_peers_def split: option.splits)
  then show "Peer_close 1 \<in> set (ws_log demo_left)"
    by (simp add: demo_left_def close_all_def closeSignalingServer_def protocol_disconnect_def retirePeerConnectionController_def effect_def)
  show "ws_reachable demo_br demo_left" unfolding demo_left_def by (rule ws_reachable.step [OF ws_run_reachable])
qed

theorem peer_connections_current_witness:
  "ws_peer demo_left \<noteq> Some 1 \<and> ws_handle demo_br demo_st (Ev_description 1 ''answer'' JUndef) demo_left = demo_left
    \<and> ws_handle demo_br demo_st (Ev_channelOpen 1) demo_left = demo_left"
  using peer_connections_current [OF demo_left_closed(2)] demo_left_closed(1) by blast

text \<open>The log up to a message, once the capabilities have been sent or not.\<close>

lemma caps_none: "fold caps_log es None = None"
  by (induction es) simp_all

lemma caps_append: "caps_sent (es @ es') \<noteq> None \<Longrightarrow> caps_sent es \<noteq> None"
  by (cases "caps_sent es") (simp_all add: caps_none)

definition announced_once :: "effect list \<Rightarrow> bool" where
  "announced_once es \<longleftrightarrow> (\<exists>a c b. es = a @ Wire c # b \<and> announces c \<and> Opened \<notin> set b
     \<and> (\<forall>m. Wire m \<in> set b \<longrightarrow> \<not> announces m))"

lemma announced_once_step:
  assumes "announced_once es" "e \<noteq> Opened" "\<forall>m. e = Wire m \<longrightarrow> \<not> announces m"
  shows "announced_once (es @ [e])"
proof -
  from assms(1) obtain a c b where "es = a @ Wire c # b" "announces c" "Opened \<notin> set b" "\<forall>m. Wire m \<in> set b \<longrightarrow> \<not> announces m"
    unfolding announced_once_def by blast
  then have "es @ [e] = a @ Wire c # (b @ [e]) \<and> announces c \<and> Opened \<notin> set (b @ [e])
      \<and> (\<forall>m. Wire m \<in> set (b @ [e]) \<longrightarrow> \<not> announces m)" using assms(2,3) by auto
  then show ?thesis unfolding announced_once_def by blast
qed

lemma caps_true: "caps_sent es = Some True \<Longrightarrow> announced_once es"
proof (induction es rule: rev_induct)
  case Nil
  then show ?case by (simp add: caps_sent_def)
next
  case (snoc e es)
  from snoc.prems obtain b where b: "caps_sent es = Some b" "caps_log e (Some b) = Some True"
    by (cases "caps_sent es") auto
  show ?case
  proof (cases "\<exists>c. e = Wire c \<and> announces c")
    case True
    then obtain c where "e = Wire c" "announces c" by blast
    then show ?thesis unfolding announced_once_def by (intro exI [of _ es] exI [of _ c] exI [of _ "[]"]) simp
  next
    case False
    with b(2) have "b" "e \<noteq> Opened" by (cases e; cases b; auto split: if_splits)+
    with snoc.IH b(1) False show ?thesis by (intro announced_once_step) auto
  qed
qed

lemma caps_before:
  assumes "caps_sent (pre @ Wire m # post) \<noteq> None" "needs_caps m"
  shows "announced_once pre"
proof -
  from caps_append [of "pre @ [Wire m]" post] assms(1) have n: "caps_sent (pre @ [Wire m]) \<noteq> None" by simp
  then obtain b where b: "caps_sent pre = Some b" by (cases "caps_sent pre") auto
  have "\<not> announces m" using assms(2) by (auto simp: needs_caps_def announces_def)
  with n b assms(2) have b by (cases b) simp_all
  with b show ?thesis by (simp add: caps_true)
qed

text \<open>
  C19: In every reachable state of a browser session, every \<open>subscribe\<close> and every \<open>offer\<close> in the log was
  preceded, in the same connection to the signalling server, by exactly one message that announces the
  browser's codec capabilities.
\<close>

theorem capabilities_first:
  assumes "ws_reachable br s" "ws_log s = pre @ Wire m # post" "mtype m = JStr ''subscribe'' \<or> mtype m = JStr ''offer''"
  shows "\<exists>a c b. pre = a @ Wire c # b \<and> mtype c = JStr ''scaleWorldCodecCapabilities'' \<and> Opened \<notin> set b
    \<and> (\<forall>x. Wire x \<in> set b \<longrightarrow> mtype x \<noteq> JStr ''scaleWorldCodecCapabilities'')"
proof -
  from caps_reachable [OF assms(1)] have "caps_sent (ws_log s) \<noteq> None" by (auto simp: caps_ok_def)
  with assms(2,3) have "announced_once pre" by (intro caps_before [of pre m post]) (auto simp: needs_caps_def)
  then show ?thesis by (simp only: announced_once_def announces_def)
qed

theorem capabilities_first_witness:
  "\<exists>a c b. [Opened, Wire (mk_msg ''listStreamers'' []), Peer_new 1,
      Wire (mk_msg ''scaleWorldCodecCapabilities'' [(''supportedCodecs'', supportedCodecs demo_br)])] = a @ Wire c # b
    \<and> mtype c = JStr ''scaleWorldCodecCapabilities'' \<and> Opened \<notin> set b
    \<and> (\<forall>x. Wire x \<in> set b \<longrightarrow> mtype x \<noteq> JStr ''scaleWorldCodecCapabilities'')"
  by (rule capabilities_first [OF ws_run_reachable, of demo_joining _ "mk_msg ''subscribe'' [(''streamerId'', JStr ''A'')]"
        "[Event ''streamerListMessage'' [JStr ''A'', JStr []]]"]) (simp_all add: demo_joined)

text \<open>
  A streamer list from which an open, configured session selects a streamer makes it subscribe to that
  streamer; the same list again, or any other that still has the streamer, sends nothing: the only effect
  is the event for the page.
\<close>

theorem streamer_list_once:
  assumes "ws_socket s = Open" "ws_peerConfig s \<noteq> None" "br_urlStreamer br = None"
    "sid = auto_streamer st ids (wanted_streamer br (drop_vanished ids s))" "sid \<noteq> []" "sid \<in> set ids'"
  shows "let s' = handleStreamerListMessage br st ids s in
    ws_subscribed s' = Some sid \<and> ws_subGen s' = Some (ws_connGen s') \<and> ws_active s' = sid
    \<and> ws_log (handleStreamerListMessage br st' ids' s') = ws_log s' @ [Event ''streamerListMessage'' [JStr sid, JStr sid]]"
proof -
  have j: "joined_to sid (handleStreamerListMessage br st ids s)" by (rule list_joins [OF assms(1,2,4,5)])
  from list_again [OF j assms(5,6,3)] j show ?thesis by (simp add: Let_def joined_to_def)
qed

theorem streamer_list_once_witness:
  "ws_log (handleStreamerListMessage demo_br demo_st [''B'', ''A''] (handleStreamerListMessage demo_br demo_st [''A'', ''C''] (ws_run demo_joining)))
   = ws_log (handleStreamerListMessage demo_br demo_st [''A'', ''C''] (ws_run demo_joining)) @ [Event ''streamerListMessage'' [JStr ''A'', JStr ''A'']]"
proof -
  let ?s = "ws_run demo_joining"
  have "ws_subscribed (drop_vanished [''A'', ''C''] ?s) = Some ''A''"
    by (simp add: drop_vanished_def retirePeerConnectionController_def effect_def demo_joined split: option.split)
  then have "''A'' = auto_streamer demo_st [''A'', ''C''] (wanted_streamer demo_br (drop_vanished [''A'', ''C''] ?s))"
    by (simp add: wanted_streamer_def auto_streamer_def demo_br_def)
  from streamer_list_once [OF _ _ _ this, of "[''B'', ''A'']" demo_st] show ?thesis
    by (simp add: demo_joined demo_br_def Let_def)
qed

end
