(* ===== verification/Frontend_Page_Results.thy ===== *)
theory Frontend_Page_Results
  imports Frontend_Page_Properties Frontend_AFK_Properties
begin

text \<open>What holds of every run of the page and of the inactivity countdown, with runs that show it.\<close>

section \<open>Commands\<close>

lemma console_step:
  assumes "page_inv a p" "pg_log (page_step env op p) = pg_log p @ es" "Commanded d \<in> set es" "is_console d"
  shows "a \<and> console_op op"
proof -
  have c: "console_op op"
  proof (rule ccontr)
    assume n: "\<not> console_op op"
    have "\<exists>fs. pg_log (page_step env op p) = pg_log p @ fs \<and> (\<forall>d. Commanded d \<in> set fs \<longrightarrow> \<not> is_console d)"
    proof (cases "\<exists>m. op = Op_initial m \<and> m \<notin> {JUndef, JNull}")
      case True
      then obtain m where m: "op = Op_initial m" "m \<notin> {JUndef, JNull}" by blast
      have "''MouseInput'' \<in> set flag_names" by (simp add: flag_names_def input_flags_def)
      then have "''MouseInput'' \<in> set (map fst (cf_flags (pg_config p)))" using assms(1) by (simp only: page_inv_def config_ok_def)
      from handleInitialSettings_effect [OF m(2) this, of env] show ?thesis by (simp add: m(1) quiet_step_def)
    next
      case False
      then have "quiet_step p (page_step env op p)" by (intro quiet_page_step n) auto
      then show ?thesis by (simp add: quiet_step_def)
    qed
    then show False using assms(2,3,4) by auto
  qed
  moreover have a
  proof (rule ccontr)
    assume "\<not> a"
    then have "page_step env op p = p" using quiet_console_off [OF _ c] assms(1) by (simp add: page_inv_def)
    then show False using assms(2,3) by simp
  qed
  ultimately show ?thesis by blast
qed

text \<open>
  C26: A step of the page sends a command with a console command in it only when the page was asked for one,
  and only when the last initial settings that the streamer sent allow commands: no setting, flag or
  other message brings one about, and before the first initial settings none is sent.
\<close>

theorem console_gated:
  assumes "p = page_run env ops (new_page env cp)" "pg_log (page_step env op p) = pg_log p @ es"
    "Commanded d \<in> set es" "is_console d"
  shows "allowed ops \<and> console_op op"
  using console_step [OF page_run_inv assms(2) [unfolded assms(1)] assms(3,4)] .

definition demo_page_env :: page_env where
  "demo_page_env = \<lparr>pe_conv = \<lparr>cv_elem = (\<lambda>_. NaN), cv_val = (\<lambda>_. NaN), cv_str = (\<lambda>_. [])\<rparr>, pe_json = (\<lambda>_. []),
     pe_loc = \<lparr>lc_url = [], lc_https = True, lc_host = ''ex.org'', lc_port = [], lc_parseFloat = (\<lambda>_. NaN), lc_codecs = [''H264'']\<rparr>\<rparr>"

definition demo_params :: config_params where
  "demo_params = \<lparr>cp_disableViewport = False, cp_useUrl = False, cp_flags = [], cp_numbers = [], cp_texts = [], cp_options = []\<rparr>"

abbreviation "demo_page_ops \<equiv> [Op_initial (JObj [(''PixelStreaming'', JObj [(''AllowPixelStreamingCommands'', JBool True)])]),
  Op_channel (Some ''open'')]"

theorem console_gated_witness:
  "allowed demo_page_ops \<and> console_op (Op_console ''stat fps'')"
proof -
  let ?p = "page_run demo_page_env demo_page_ops (new_page demo_page_env demo_params)"
  let ?d = "JObj [(''ConsoleCommand'', JStr ''stat fps'')]"
  have "allowed demo_page_ops" by (simp add: allowed_def says_allowed_def)
  then have "truthy (pg_allow ?p)" using page_run_inv [of demo_page_ops demo_page_env demo_params] by (simp only: page_inv_def)
  moreover have "isDataChannelOpen ?p" by (simp add: page_run_def isDataChannelOpen_def)
  ultimately have "pg_log (page_step demo_page_env (Op_console ''stat fps'') ?p) = pg_log ?p @ [Commanded ?d]"
    by (simp add: emitConsoleCommand_def guarded_def sendCommand_def emit_json_def logged_def through_def andThen_def
        split: prod.split option.split)
  from console_gated [OF refl this] show ?thesis by (simp add: is_console_def has_own_def)
qed

section \<open>The inactivity countdown\<close>

text \<open>
  C37: Whenever the warning becomes due while no earlier countdown runs, and the user stays away, the page
  disconnects within \<open>n\<close> seconds exactly when the countdown is a whole number of seconds between 1 and
  \<open>n\<close>; with any other countdown it never disconnects. All timers of the controller run meanwhile. (An
  earlier countdown that still runs would count along: \<open>countdown_runs_twice\<close>.)
\<close>

theorem countdown_disconnects:
  assumes "af_intervals a = []" "af_warn a = Some d" "d \<le> now" "ac_countdown c = Fin q"
  shows "Afk_disconnect \<in> set (drop (length (af_out a)) (af_out (afk_seconds c now n (warn_fires c now a))))
    \<longleftrightarrow> (\<exists>m \<in> {1..n}. q = of_nat m)"
  by (rule countdown_ends [OF assms])

definition demo_afk_config :: "rat \<Rightarrow> afk_config" where
  "demo_afk_config q = \<lparr>ac_timeout = 5, ac_countdown = Fin q, ac_detection = True, ac_hovering = True\<rparr>"

lemma half_not_nat: "(21 / 2 :: rat) \<noteq> of_nat m"
proof
  assume "(21 / 2 :: rat) = of_nat m"
  then have "(of_nat 21 :: rat) = of_nat (2 * m)" by (simp add: field_simps)
  then have "21 = 2 * m" by (simp only: of_nat_eq_iff)
  then show False by presburger
qed

text \<open>With ten seconds the page disconnects, with ten and a half it never does.\<close>

theorem countdown_disconnects_witness:
  "let a = afk_run [(demo_afk_config 10, 0, In_start)] new_afk in
     Afk_disconnect \<in> set (drop (length (af_out a)) (af_out (afk_seconds (demo_afk_config 10) 5000 10 (warn_fires (demo_afk_config 10) 5000 a))))
     \<and> (\<forall>n. Afk_disconnect \<notin> set (drop (length (af_out a))
         (af_out (afk_seconds (demo_afk_config (21 / 2)) 5000 n (warn_fires (demo_afk_config (21 / 2)) 5000 a)))))"
proof -
  let ?a = "afk_run [(demo_afk_config 10, 0, In_start)] new_afk"
  have w: "af_intervals ?a = []" "af_warn ?a = Some 5000"
    by (simp_all add: afk_run_def demo_afk_config_def startAfkWarningTimer_def resetAfkWarningTimer_def new_afk_def)
  have "Afk_disconnect \<in> set (drop (length (af_out ?a)) (af_out (afk_seconds (demo_afk_config 10) 5000 10 (warn_fires (demo_afk_config 10) 5000 ?a))))"
    using countdown_disconnects [OF w, of 5000 "demo_afk_config 10" 10 10] by (simp add: demo_afk_config_def)
  moreover have "Afk_disconnect \<notin> set (drop (length (af_out ?a))
      (af_out (afk_seconds (demo_afk_config (21 / 2)) 5000 n (warn_fires (demo_afk_config (21 / 2)) 5000 ?a))))" for n
    using countdown_disconnects [OF w, of 5000 "demo_afk_config (21 / 2)" "21 / 2" n] half_not_nat by (simp add: demo_afk_config_def)
  ultimately show ?thesis by (simp add: Let_def)
qed

text \<open>
  The assumption is needed: the interval of a countdown survives another start of the controller. Then two
  of them run from the next warning on, and a countdown of ten seconds is over after five.
\<close>

definition demo_restarted :: afk where
  "demo_restarted = afk_run [(demo_afk_config 10, 0, In_start), (demo_afk_config 10, 5000, In_warn),
     (demo_afk_config 10, 5500, In_start), (demo_afk_config 10, 6000, In_second 1), (demo_afk_config 10, 7000, In_second 1),
     (demo_afk_config 10, 8000, In_second 1), (demo_afk_config 10, 9000, In_second 1), (demo_afk_config 10, 10000, In_second 1)]
     new_afk"

lemma countdown_runs_twice:
  "length (af_intervals demo_restarted) = 1 \<and> af_warn demo_restarted = Some 10500
   \<and> Afk_disconnect \<in> set (drop (length (af_out demo_restarted))
       (af_out (afk_seconds (demo_afk_config 10) 10500 5 (warn_fires (demo_afk_config 10) 10500 demo_restarted))))"
  by code_simp

end
