(* ===== verification/Frontend_Mouse.thy ===== *)
theory Frontend_Mouse
  imports Frontend_Coords
begin

text \<open>
  \<open>Frontend/library/src/Inputs\<close>: the mouse controllers. The base class listens for the pointer entering
  and leaving the player; the hovering controller follows the pointer, and beyond the player while a
  button is held; the locked controller keeps a position of its own. The state is which listeners are
  attached, and the buttons held; the browser's dispatch of an event is part of the model.
\<close>

section \<open>Events\<close>

record mouse_event =
  me_ready :: bool
  me_button :: nat
  me_buttons :: nat
  me_x :: jsnum
  me_y :: jsnum
  me_offsetX :: jsnum
  me_offsetY :: jsnum
  me_clientX :: jsnum
  me_clientY :: jsnum
  me_movementX :: rat
  me_movementY :: rat
  me_wheelDelta :: jsnum
  me_rectLeft :: jsnum
  me_rectTop :: jsnum

section \<open>Entering and leaving\<close>

definition sendMouseDown :: "conv \<Rightarrow> nat \<Rightarrow> elem \<Rightarrow> elem \<Rightarrow> 'c ctl \<Rightarrow> bool \<times> 'c ctl" where
  "sendMouseDown cv button x y = send_opt cv ''MouseDown'' [num button, x, y]"

text \<open>The coordinates given here have been translated before, and are translated once more.\<close>

definition sendMouseUp :: "conv \<Rightarrow> translator option \<Rightarrow> nat \<Rightarrow> elem \<Rightarrow> elem \<Rightarrow> 'c ctl \<Rightarrow> bool \<times> 'c ctl" where
  "sendMouseUp cv t button x y = with_coord t (elem_num cv x) (elem_num cv y)
     (\<lambda>_ u v. send_opt cv ''MouseUp'' [num button, u, v])"

text \<open>The bit of each button in \<open>buttons\<close>, with the number of the button.\<close>

definition button_masks :: "(nat \<times> nat) list" where
  "button_masks = [(1, 0), (2, 2), (4, 1), (8, 3), (16, 4)]"

definition held_buttons :: "nat \<Rightarrow> nat list" where
  "held_buttons buttons = map snd (filter (\<lambda>(mask, b). buttons div mask mod 2 = 1) button_masks)"

definition releaseMouseButtons :: "conv \<Rightarrow> translator option \<Rightarrow> nat \<Rightarrow> jsnum \<Rightarrow> jsnum \<Rightarrow> 'c ctl \<Rightarrow> bool \<times> 'c ctl" where
  "releaseMouseButtons cv t buttons x y = with_coord t x y
     (\<lambda>_ u v. each (\<lambda>b. sendMouseUp cv t b u v) (held_buttons buttons))"

definition pressMouseButtons :: "conv \<Rightarrow> translator option \<Rightarrow> bool \<Rightarrow> nat \<Rightarrow> jsnum \<Rightarrow> jsnum \<Rightarrow> 'c ctl \<Rightarrow> bool \<times> 'c ctl" where
  "pressMouseButtons cv t ready buttons x y =
     (if \<not> ready then Pair True
      else with_coord t x y (\<lambda>_ u v. each (\<lambda>b. sendMouseDown cv b u v) (held_buttons buttons)))"

definition onMouseEnter :: "conv \<Rightarrow> translator option \<Rightarrow> mouse_event \<Rightarrow> 'c ctl \<Rightarrow> bool \<times> 'c ctl" where
  "onMouseEnter cv t e =
     (if \<not> me_ready e then Pair True
      else andThen (send_opt cv ''MouseEnter'' [])
        (pressMouseButtons cv t (me_ready e) (me_buttons e) (me_x e) (me_y e)))"

definition onMouseLeave :: "conv \<Rightarrow> translator option \<Rightarrow> mouse_event \<Rightarrow> 'c ctl \<Rightarrow> bool \<times> 'c ctl" where
  "onMouseLeave cv t e =
     (if \<not> me_ready e then Pair True
      else andThen (send_opt cv ''MouseLeave'' [])
        (releaseMouseButtons cv t (me_buttons e) (me_x e) (me_y e)))"

section \<open>The hovering controller\<close>

text \<open>
  \<open>ho_registered\<close> stands for the listeners that are attached once; \<open>ho_element\<close> and \<open>ho_window\<close> for the pair
  of \<open>mousemove\<close> and \<open>mouseup\<close> on the player and on the window. Attaching a listener twice is attaching
  it once.
\<close>

record hovering =
  ho_registered :: bool
  ho_element :: bool
  ho_window :: bool
  ho_pressed :: "nat list"

definition new_hovering :: hovering where
  "new_hovering = \<lparr>ho_registered = False, ho_element = False, ho_window = False, ho_pressed = []\<rparr>"

definition hover_register :: "hovering ctl \<Rightarrow> bool \<times> hovering ctl" where
  "hover_register = modify (\<lambda>h. h\<lparr>ho_registered := True, ho_element := True\<rparr>)"

definition hover_unregister :: "hovering ctl \<Rightarrow> bool \<times> hovering ctl" where
  "hover_unregister = modify (\<lambda>h.
     if ho_pressed h \<noteq> []
     then h\<lparr>ho_registered := False, ho_element := False, ho_window := False, ho_pressed := []\<rparr>
     else h\<lparr>ho_registered := False, ho_element := False\<rparr>)"

definition startCapturing :: "hovering \<Rightarrow> hovering" where
  "startCapturing h = h\<lparr>ho_element := False, ho_window := True\<rparr>"

definition stopCapturing :: "hovering \<Rightarrow> hovering" where
  "stopCapturing h = h\<lparr>ho_window := False, ho_element := True\<rparr>"

definition offsetFromVideo :: "bool \<Rightarrow> mouse_event \<Rightarrow> jsnum \<times> jsnum" where
  "offsetFromVideo on_video e =
     (if on_video then (me_offsetX e, me_offsetY e)
      else (jsub (me_clientX e) (me_rectLeft e), jsub (me_clientY e) (me_rectTop e)))"

definition hover_down :: "conv \<Rightarrow> translator option \<Rightarrow> mouse_event \<Rightarrow> hovering ctl \<Rightarrow> bool \<times> hovering ctl" where
  "hover_down cv t e =
     (if \<not> me_ready e then Pair True
      else case offsetFromVideo True e of (x, y) \<Rightarrow> with_coord t x y
        (\<lambda>_ u v. andThen (send cv ''MouseDown'' [num (me_button e), u, v])
          (modify (\<lambda>h. (if ho_pressed h = [] then startCapturing h else h)
             \<lparr>ho_pressed := set_add (me_button e) (ho_pressed h)\<rparr>))))"

definition hover_up :: "conv \<Rightarrow> translator option \<Rightarrow> bool \<Rightarrow> mouse_event \<Rightarrow> hovering ctl \<Rightarrow> bool \<times> hovering ctl" where
  "hover_up cv t on_video e =
     (if \<not> me_ready e then Pair True
      else case offsetFromVideo on_video e of (x, y) \<Rightarrow> with_coord t x y
        (\<lambda>_ u v. andThen (send cv ''MouseUp'' [num (me_button e), u, v])
          (modify (\<lambda>h. let h = h\<lparr>ho_pressed := set_delete (me_button e) (ho_pressed h)\<rparr> in
             if ho_pressed h = [] then stopCapturing h else h))))"

definition hover_move :: "conv \<Rightarrow> translator option \<Rightarrow> bool \<Rightarrow> mouse_event \<Rightarrow> hovering ctl \<Rightarrow> bool \<times> hovering ctl" where
  "hover_move cv t on_video e =
     (if \<not> me_ready e then Pair True
      else case offsetFromVideo on_video e of (x, y) \<Rightarrow> with_coord t x y
        (\<lambda>_ u v. with_delta t (Fin (me_movementX e)) (Fin (me_movementY e))
          (\<lambda>du dv. send cv ''MouseMove'' [u, v, du, dv])))"

definition hover_wheel :: "conv \<Rightarrow> translator option \<Rightarrow> mouse_event \<Rightarrow> hovering ctl \<Rightarrow> bool \<times> hovering ctl" where
  "hover_wheel cv t e =
     (if \<not> me_ready e then Pair True
      else with_coord t (me_offsetX e) (me_offsetY e)
        (\<lambda>_ u v. send cv ''MouseWheel'' [ENum (me_wheelDelta e), u, v]))"

definition hover_double :: "conv \<Rightarrow> translator option \<Rightarrow> bool \<Rightarrow> mouse_event \<Rightarrow> hovering ctl \<Rightarrow> bool \<times> hovering ctl" where
  "hover_double cv t autoRelease e =
     (if \<not> me_ready e then Pair True
      else with_coord t (me_offsetX e) (me_offsetY e)
        (\<lambda>_ u v. andThen (send cv ''MouseDouble'' [num (me_button e), u, v])
          (if autoRelease then send cv ''MouseUp'' [num (me_button e), u, v] else Pair True)))"

text \<open>
  The events of the page, with whether the pointer is over the player: the listeners of the player see
  an event first, then those of the window. An exception in one listener does not keep the other from
  running.
\<close>

datatype mouse_input =
    Mouse_register | Mouse_unregister
  | Mouse_down mouse_event | Mouse_up bool mouse_event | Mouse_move bool mouse_event
  | Mouse_wheel mouse_event | Mouse_double bool mouse_event
  | Mouse_enter mouse_event | Mouse_leave mouse_event

definition run :: "('s \<Rightarrow> bool \<times> 's) \<Rightarrow> 's \<Rightarrow> 's" where
  "run f s = snd (f s)"

definition listening :: "('c \<Rightarrow> bool) \<Rightarrow> ('c ctl \<Rightarrow> bool \<times> 'c ctl) \<Rightarrow> 'c ctl \<Rightarrow> 'c ctl" where
  "listening on f s = (if on (fst s) then run f s else s)"

fun hover_step :: "conv \<Rightarrow> translator option \<Rightarrow> mouse_input \<Rightarrow> hovering ctl \<Rightarrow> hovering ctl" where
  "hover_step cv t Mouse_register s = (if ho_registered (fst s) then s else run hover_register s)"
| "hover_step cv t Mouse_unregister s = run hover_unregister s"
| "hover_step cv t (Mouse_down e) s = listening ho_registered (hover_down cv t e) s"
| "hover_step cv t (Mouse_up inside e) s =
     listening ho_window (hover_up cv t False e) (if inside then listening ho_element (hover_up cv t True e) s else s)"
| "hover_step cv t (Mouse_move inside e) s =
     listening ho_window (hover_move cv t False e) (if inside then listening ho_element (hover_move cv t True e) s else s)"
| "hover_step cv t (Mouse_wheel e) s = listening ho_registered (hover_wheel cv t e) s"
| "hover_step cv t (Mouse_double auto e) s = listening ho_registered (hover_double cv t auto e) s"
| "hover_step cv t (Mouse_enter e) s = listening ho_registered (onMouseEnter cv t e) s"
| "hover_step cv t (Mouse_leave e) s = listening ho_registered (onMouseLeave cv t e) s"

definition hover_run :: "conv \<Rightarrow> translator option \<Rightarrow> mouse_input list \<Rightarrow> hovering ctl \<Rightarrow> hovering ctl" where
  "hover_run cv t es s = fold (hover_step cv t) es s"

text \<open>Where the controller listens: on the player, or on the window exactly while a button is held.\<close>

definition capture_ok :: "hovering \<Rightarrow> bool" where
  "capture_ok h \<longleftrightarrow> ho_window h = (ho_pressed h \<noteq> []) \<and> ho_element h = (ho_registered h \<and> ho_pressed h = [])
     \<and> (ho_pressed h \<noteq> [] \<longrightarrow> ho_registered h)"

lemma fst_send [simp]: "fst (snd (send cv ty es s)) = fst s" "fst (snd (send_opt cv ty es s)) = fst s"
  by (auto simp: send_def send_opt_def split: prod.split option.split)

lemma andThen_inv: "\<lbrakk>P s; \<And>s. P s \<Longrightarrow> P (snd (f s)); \<And>s. P s \<Longrightarrow> P (snd (g s))\<rbrakk> \<Longrightarrow> P (snd (andThen f g s))"
  by (auto simp: andThen_def split: prod.split bool.split) (metis snd_conv)+

lemma each_inv: "\<lbrakk>P s; \<And>x s. P s \<Longrightarrow> P (snd (f x s))\<rbrakk> \<Longrightarrow> P (snd (each f xs s))"
  by (induction xs arbitrary: s) (auto intro: andThen_inv [where P = P])

lemma with_coord_inv: "\<lbrakk>P s; \<And>b u v s. P s \<Longrightarrow> P (snd (k b u v s))\<rbrakk> \<Longrightarrow> P (snd (with_coord t x y k s))"
  by (auto simp: with_coord_def split: option.split prod.split)

lemma with_delta_inv: "\<lbrakk>P s; \<And>u v s. P s \<Longrightarrow> P (snd (k u v s))\<rbrakk> \<Longrightarrow> P (snd (with_delta t x y k s))"
  by (auto simp: with_delta_def split: option.split prod.split)

lemma capture_start: "capture_ok h \<Longrightarrow> ho_registered h \<Longrightarrow>
    capture_ok ((if ho_pressed h = [] then startCapturing h else h)\<lparr>ho_pressed := set_add b (ho_pressed h)\<rparr>)"
  by (auto simp: capture_ok_def startCapturing_def set_add_def)

lemma capture_stop: "\<lbrakk>capture_ok h; ho_registered h\<rbrakk> \<Longrightarrow>
    capture_ok (let h = h\<lparr>ho_pressed := set_delete b (ho_pressed h)\<rparr> in if ho_pressed h = [] then stopCapturing h else h)"
  by (auto simp: capture_ok_def stopCapturing_def set_delete_def Let_def)

end
