(* ===== verification/Frontend_Keyboard.thy ===== *)
theory Frontend_Keyboard
  imports Frontend_Mouse
begin

text \<open>
  \<open>Frontend/library/src/Inputs\<close>: the keyboard controller and the list of active keys it shares with the
  locked mouse controller, and that controller itself.
\<close>

section \<open>Key codes\<close>

definition CodeToKeyCode :: "(string \<times> nat) list" where
  "CodeToKeyCode = [
     (''Escape'', 27), (''Digit0'', 48), (''Digit1'', 49), (''Digit2'', 50), (''Digit3'', 51), (''Digit4'', 52),
     (''Digit5'', 53), (''Digit6'', 54), (''Digit7'', 55), (''Digit8'', 56), (''Digit9'', 57), (''Minus'', 173),
     (''Equal'', 187), (''Backspace'', 8), (''Tab'', 9), (''KeyQ'', 81), (''KeyW'', 87), (''KeyE'', 69),
     (''KeyR'', 82), (''KeyT'', 84), (''KeyY'', 89), (''KeyU'', 85), (''KeyI'', 73), (''KeyO'', 79),
     (''KeyP'', 80), (''BracketLeft'', 219), (''BracketRight'', 221), (''Enter'', 13), (''ControlLeft'', 17), (''KeyA'', 65),
     (''KeyS'', 83), (''KeyD'', 68), (''KeyF'', 70), (''KeyG'', 71), (''KeyH'', 72), (''KeyJ'', 74),
     (''KeyK'', 75), (''KeyL'', 76), (''Semicolon'', 186), (''Quote'', 222), (''Backquote'', 192), (''ShiftLeft'', 16),
     (''Backslash'', 220), (''KeyZ'', 90), (''KeyX'', 88), (''KeyC'', 67), (''KeyV'', 86), (''KeyB'', 66),
     (''KeyN'', 78), (''KeyM'', 77), (''Comma'', 188), (''Period'', 190), (''Slash'', 191), (''ShiftRight'', 253),
     (''AltLeft'', 18), (''Space'', 32), (''CapsLock'', 20), (''F1'', 112), (''F2'', 113), (''F3'', 114),
     (''F4'', 115), (''F5'', 116), (''F6'', 117), (''F7'', 118), (''F8'', 119), (''F9'', 120),
     (''F10'', 121), (''F11'', 122), (''F12'', 123), (''Pause'', 19), (''ScrollLock'', 145), (''NumpadDivide'', 111),
     (''NumpadMultiply'', 106), (''NumpadSubtract'', 109), (''NumpadAdd'', 107), (''NumpadDecimal'', 110), (''Numpad9'', 105), (''Numpad8'', 104),
     (''Numpad7'', 103), (''Numpad6'', 102), (''Numpad5'', 101), (''Numpad4'', 100), (''Numpad3'', 99), (''Numpad2'', 98),
     (''Numpad1'', 97), (''Numpad0'', 96), (''NumLock'', 144), (''ControlRight'', 254), (''AltRight'', 255), (''Home'', 36),
     (''End'', 35), (''ArrowUp'', 38), (''ArrowLeft'', 37), (''ArrowRight'', 39), (''ArrowDown'', 40), (''PageUp'', 33),
     (''PageDown'', 34), (''Insert'', 45), (''Delete'', 46), (''ContextMenu'', 93), (''MetaLeft'', 91), (''MetaRight'', 92),
     (''OSLeft'', 91), (''OSRight'', 92)]"

text \<open>A keyboard event: \<open>None\<close> is an event without the property \<open>keyCode\<close>.\<close>

record key_event =
  ke_keyCode :: "nat option"
  ke_code :: string
  ke_repeat :: bool

text \<open>\<open>null\<close> and 0 are both falsy, and are one value here.\<close>

definition getKeycode :: "key_event \<Rightarrow> nat" where
  "getKeycode e = (case ke_keyCode e of
     None \<Rightarrow> (case map_of CodeToKeyCode (ke_code e) of Some k \<Rightarrow> k | None \<Rightarrow> 0)
   | Some k \<Rightarrow>
       if k = 16 \<and> ke_code e = ''ShiftRight'' then 253
       else if k = 17 \<and> ke_code e = ''ControlRight'' then 254
       else if k = 18 \<and> ke_code e = ''AltRight'' then 255
       else if ke_code e = ''MetaLeft'' \<or> ke_code e = ''OSLeft'' then 91
       else if ke_code e = ''MetaRight'' \<or> ke_code e = ''OSRight'' then 92
       else k)"

definition isKeyCodeBrowserKey :: "nat \<Rightarrow> bool" where
  "isKeyCodeBrowserKey k \<longleftrightarrow> (112 \<le> k \<and> k \<le> 123) \<or> k = 9"

section \<open>The keyboard controller\<close>

record keyboard =
  kb_registered :: bool
  kb_activeKeys :: "nat list"

definition keyboard_register :: "keyboard ctl \<Rightarrow> bool \<times> keyboard ctl" where
  "keyboard_register = modify (\<lambda>k. k\<lparr>kb_registered := True\<rparr>)"

definition keyboard_unregister :: "keyboard ctl \<Rightarrow> bool \<times> keyboard ctl" where
  "keyboard_unregister = modify (\<lambda>k. k\<lparr>kb_registered := False\<rparr>)"

definition handleOnKeyPress :: "conv \<Rightarrow> key_event \<Rightarrow> keyboard ctl \<Rightarrow> bool \<times> keyboard ctl" where
  "handleOnKeyPress cv e = (if getKeycode e = 0 then Pair True else send_opt cv ''KeyPress'' [num (getKeycode e)])"

definition handleOnKeyDown :: "conv \<Rightarrow> key_event \<Rightarrow> keyboard ctl \<Rightarrow> bool \<times> keyboard ctl" where
  "handleOnKeyDown cv e =
     (let k = getKeycode e in
      if k = 0 \<or> k = 229 then Pair True
      else andThen (send_opt cv ''KeyDown'' [num k, num (if ke_repeat e then 1 else 0)])
        (andThen (modify (\<lambda>s. s\<lparr>kb_activeKeys := kb_activeKeys s @ [k]\<rparr>))
          (if k = 8 then handleOnKeyPress cv \<lparr>ke_keyCode = Some 8, ke_code = [], ke_repeat = False\<rparr> else Pair True)))"

definition handleOnKeyUp :: "conv \<Rightarrow> key_event \<Rightarrow> keyboard ctl \<Rightarrow> bool \<times> keyboard ctl" where
  "handleOnKeyUp cv e = (if getKeycode e = 0 then Pair True else send_opt cv ''KeyUp'' [num (getKeycode e)])"

text \<open>Whether the browser's own reaction to a key is suppressed, by \<open>preventDefault\<close>.\<close>

definition suppressed :: "bool \<Rightarrow> key_event \<Rightarrow> bool" where
  "suppressed suppressBrowserKeys e \<longleftrightarrow> suppressBrowserKeys \<and> isKeyCodeBrowserKey (getKeycode e)"

section \<open>The locked mouse controller\<close>

text \<open>Its own listeners, and the one of the document that is attached while the pointer is locked.\<close>

record locked =
  lo_registered :: bool
  lo_moving :: bool
  lo_x :: rat
  lo_y :: rat
  lo_coord :: "elem \<times> elem"

definition new_locked :: "translator \<Rightarrow> rat \<Rightarrow> rat \<Rightarrow> locked" where
  "new_locked t w h = (case translateUnsigned t (Fin (w / 2)) (Fin (h / 2)) of (inr, u, v) \<Rightarrow>
     \<lparr>lo_registered = False, lo_moving = False, lo_x = w / 2, lo_y = h / 2, lo_coord = (ENum u, ENum v)\<rparr>)"

definition locked_register :: "locked ctl \<Rightarrow> bool \<times> locked ctl" where
  "locked_register = modify (\<lambda>l. l\<lparr>lo_registered := True\<rparr>)"

definition locked_unregister :: "locked ctl \<Rightarrow> bool \<times> locked ctl" where
  "locked_unregister = modify (\<lambda>l. l\<lparr>lo_registered := False, lo_moving := False\<rparr>)"

definition onLockStateChange :: "conv \<Rightarrow> bool \<Rightarrow> nat list \<Rightarrow> locked ctl \<Rightarrow> bool \<times> locked ctl" where
  "onLockStateChange cv lockedHere activeKeys =
     (if lockedHere then modify (\<lambda>l. l\<lparr>lo_moving := True\<rparr>)
      else andThen (modify (\<lambda>l. l\<lparr>lo_moving := False\<rparr>)) (each (\<lambda>k. send cv ''KeyUp'' [num k]) activeKeys))"

definition locked_button :: "conv \<Rightarrow> string \<Rightarrow> mouse_event \<Rightarrow> locked ctl \<Rightarrow> bool \<times> locked ctl" where
  "locked_button cv ty e s =
     send cv ty [num (me_button e), fst (lo_coord (fst s)), snd (lo_coord (fst s))] s"

definition locked_down :: "conv \<Rightarrow> mouse_event \<Rightarrow> locked ctl \<Rightarrow> bool \<times> locked ctl" where
  "locked_down cv e = (if \<not> me_ready e then Pair True else locked_button cv ''MouseDown'' e)"

definition locked_up :: "conv \<Rightarrow> mouse_event \<Rightarrow> locked ctl \<Rightarrow> bool \<times> locked ctl" where
  "locked_up cv e = (if \<not> me_ready e then Pair True else locked_button cv ''MouseUp'' e)"

definition locked_double :: "conv \<Rightarrow> bool \<Rightarrow> mouse_event \<Rightarrow> locked ctl \<Rightarrow> bool \<times> locked ctl" where
  "locked_double cv autoRelease e =
     (if \<not> me_ready e then Pair True
      else andThen (locked_button cv ''MouseDouble'' e) (if autoRelease then locked_button cv ''MouseUp'' e else Pair True))"

definition locked_wheel :: "conv \<Rightarrow> mouse_event \<Rightarrow> locked ctl \<Rightarrow> bool \<times> locked ctl" where
  "locked_wheel cv e s =
     (if \<not> me_ready e then (True, s)
      else send cv ''MouseWheel'' [ENum (me_wheelDelta e), fst (lo_coord (fst s)), snd (lo_coord (fst s))] s)"

text \<open>The two loops that bring a coordinate back into the player; they need not end.\<close>

partial_function (option) wrap_down :: "rat \<Rightarrow> rat \<Rightarrow> rat option" where
  "wrap_down extent x = (if extent < x then wrap_down extent (x - extent) else Some x)"

partial_function (option) wrap_up :: "rat \<Rightarrow> rat \<Rightarrow> rat option" where
  "wrap_up extent x = (if x < 0 then wrap_up extent (x + extent) else Some x)"

definition wrapped :: "rat \<Rightarrow> rat \<Rightarrow> rat option" where
  "wrapped extent x = Option.bind (wrap_down extent x) (wrap_up extent)"

text \<open>\<open>None\<close> is a handler that does not return.\<close>

definition locked_move ::
  "conv \<Rightarrow> translator option \<Rightarrow> rat \<Rightarrow> rat \<Rightarrow> mouse_event \<Rightarrow> locked ctl \<Rightarrow> (bool \<times> locked ctl) option" where
  "locked_move cv t w h e = (\<lambda>(l, fe).
     if \<not> me_ready e then Some (True, (l, fe))
     else
       case (wrapped w (lo_x l + me_movementX e), wrapped h (lo_y l + me_movementY e)) of
         (Some x, Some y) \<Rightarrow>
           let l = l\<lparr>lo_x := x, lo_y := y\<rparr> in
           Some (with_coord t (Fin x) (Fin y) (\<lambda>_ u v.
             andThen (modify (\<lambda>l. l\<lparr>lo_coord := (u, v)\<rparr>))
               (with_delta t (Fin (me_movementX e)) (Fin (me_movementY e))
                 (\<lambda>du dv. send cv ''MouseMove'' [u, v, du, dv]))) (l, fe))
       | _ \<Rightarrow> None)"

end
