(* ===== verification/Frontend_Touch.thy ===== *)
theory Frontend_Touch
  imports Frontend_Mouse
begin

text \<open>
  \<open>Frontend/library/src/Inputs/TouchController.ts\<close> and \<open>TouchControllerFake.ts\<close>: touches as fingers with
  small numbers, taken from a pool and given back, and touches that stand in for the mouse. \<open>undefined\<close>
  as a finger is \<open>None\<close>; in a message it is a number field of an undefined value, which is not a number.
\<close>

section \<open>Touches\<close>

record touch =
  to_identifier :: int
  to_clientX :: jsnum
  to_clientY :: jsnum
  to_force :: rat

record fingers =
  fi_registered :: bool
  fi_pool :: "nat option list"
  fi_ids :: "(int \<times> nat option) list"

definition new_fingers :: fingers where
  "new_fingers = \<lparr>fi_registered = False, fi_pool = map Some [9, 8, 7, 6, 5, 4, 3, 2, 1, 0], fi_ids = []\<rparr>"

definition rememberTouch :: "touch \<Rightarrow> fingers \<Rightarrow> fingers" where
  "rememberTouch t f =
     (let finger = (if fi_pool f = [] then None else last (fi_pool f)) in
      f\<lparr>fi_pool := butlast (fi_pool f), fi_ids := map_set (to_identifier t) finger (fi_ids f)\<rparr>)"

definition fingerOf :: "fingers \<Rightarrow> int \<Rightarrow> nat option" where
  "fingerOf f i = Option.bind (map_get (fi_ids f) i) (\<lambda>x. x)"

text \<open>\<open>fingers.sort((a, b) => b - a)\<close>: descending, and whatever is undefined at the end.\<close>

definition sort_pool :: "nat option list \<Rightarrow> nat option list" where
  "sort_pool xs = map Some (rev (sort (List.map_filter (\<lambda>x. x) xs))) @ filter (\<lambda>x. x = None) xs"

definition forgetTouch :: "touch \<Rightarrow> fingers \<Rightarrow> fingers" where
  "forgetTouch t f = f\<lparr>fi_pool := sort_pool (fi_pool f @ [fingerOf f (to_identifier t)]),
     fi_ids := map_delete (to_identifier t) (fi_ids f)\<rparr>"

definition finger_elem :: "nat option \<Rightarrow> elem" where
  "finger_elem f = (case f of None \<Rightarrow> ENum NaN | Some n \<Rightarrow> num n)"

definition touch_force :: "string \<Rightarrow> touch \<Rightarrow> rat" where
  "touch_force ty t = 255 * (if ty = ''TouchEnd'' then to_force t else if 0 < to_force t then to_force t else 1)"

definition emit_touch :: "conv \<Rightarrow> translator option \<Rightarrow> jsnum \<times> jsnum \<Rightarrow> string \<Rightarrow> touch \<Rightarrow> fingers ctl \<Rightarrow> bool \<times> fingers ctl" where
  "emit_touch cv tr rect ty t s =
     with_coord tr (jsub (to_clientX t) (fst rect)) (jsub (to_clientY t) (snd rect))
       (\<lambda>inr u v. send cv ty [num 1, u, v, finger_elem (fingerOf (fst s) (to_identifier t)),
          ENum (Fin (touch_force ty t)), num (if inr then 1 else 0)]) s"

definition emitTouchData :: "conv \<Rightarrow> translator option \<Rightarrow> jsnum \<times> jsnum \<Rightarrow> bool \<Rightarrow> string \<Rightarrow> touch list \<Rightarrow> fingers ctl \<Rightarrow> bool \<times> fingers ctl" where
  "emitTouchData cv tr rect ready ty ts = (if \<not> ready then Pair True else each (emit_touch cv tr rect ty) ts)"

definition onTouchStart :: "conv \<Rightarrow> translator option \<Rightarrow> jsnum \<times> jsnum \<Rightarrow> bool \<Rightarrow> touch list \<Rightarrow> fingers ctl \<Rightarrow> bool \<times> fingers ctl" where
  "onTouchStart cv tr rect ready ts =
     (if \<not> ready then Pair True
      else andThen (modify (fold rememberTouch ts)) (emitTouchData cv tr rect ready ''TouchStart'' ts))"

definition onTouchEnd :: "conv \<Rightarrow> translator option \<Rightarrow> jsnum \<times> jsnum \<Rightarrow> bool \<Rightarrow> touch list \<Rightarrow> fingers ctl \<Rightarrow> bool \<times> fingers ctl" where
  "onTouchEnd cv tr rect ready ts =
     (if \<not> ready then Pair True
      else andThen (emitTouchData cv tr rect ready ''TouchEnd'' ts) (modify (fold forgetTouch ts)))"

definition onTouchMove :: "conv \<Rightarrow> translator option \<Rightarrow> jsnum \<times> jsnum \<Rightarrow> bool \<Rightarrow> touch list \<Rightarrow> fingers ctl \<Rightarrow> bool \<times> fingers ctl" where
  "onTouchMove cv tr rect ready ts =
     (if \<not> ready then Pair True else emitTouchData cv tr rect ready ''TouchMove'' ts)"

section \<open>Touches as a mouse\<close>

record fake_finger =
  ff_id :: int
  ff_x :: jsnum
  ff_y :: jsnum

record fake_touch =
  ft_finger :: "fake_finger option"
  ft_rect :: "jsnum \<times> jsnum"

definition rel_touch :: "fake_touch \<Rightarrow> touch \<Rightarrow> jsnum \<times> jsnum" where
  "rel_touch f t = (jsub (to_clientX t) (fst (ft_rect f)), jsub (to_clientY t) (snd (ft_rect f)))"

text \<open>The mouse event that is dispatched has the touch's position and no button.\<close>

definition touch_mouse :: "bool \<Rightarrow> touch \<Rightarrow> mouse_event" where
  "touch_mouse ready t = \<lparr>me_ready = ready, me_button = 0, me_buttons = 0, me_x = to_clientX t, me_y = to_clientY t,
     me_offsetX = to_clientX t, me_offsetY = to_clientY t, me_clientX = to_clientX t, me_clientY = to_clientY t,
     me_movementX = 0, me_movementY = 0, me_wheelDelta = Fin 0, me_rectLeft = Fin 0, me_rectTop = Fin 0\<rparr>"

text \<open>
  The dispatched events reach the base class of the registered mouse controller; an exception there is
  reported, and does not end the touch handler.
\<close>

definition fake_start :: "conv \<Rightarrow> translator option \<Rightarrow> bool \<Rightarrow> bool \<Rightarrow> bool \<Rightarrow> touch list \<Rightarrow> fake_touch ctl \<Rightarrow> bool \<times> fake_touch ctl" where
  "fake_start cv tr ready onVideo mouse ts s =
     (if \<not> ready \<or> \<not> onVideo then (True, s)
      else case ft_finger (fst s) of
        Some _ \<Rightarrow> (True, s)
      | None \<Rightarrow> (case ts of
          [] \<Rightarrow> (False, s)
        | t # _ \<Rightarrow>
            (let (x, y) = rel_touch (fst s) t;
                 s = run (modify (\<lambda>f. f\<lparr>ft_finger := Some \<lparr>ff_id = to_identifier t, ff_x = x, ff_y = y\<rparr>\<rparr>)) s;
                 s = (if mouse then run (onMouseEnter cv tr (touch_mouse ready t)) s else s) in
             with_coord tr x y (\<lambda>_ u v. send cv ''MouseDown'' [num 0, u, v]) s)))"

fun find_touch :: "int \<Rightarrow> touch list \<Rightarrow> touch option" where
  "find_touch i [] = None"
| "find_touch i (t # ts) = (if to_identifier t = i then Some t else find_touch i ts)"

definition fake_end :: "conv \<Rightarrow> translator option \<Rightarrow> bool \<Rightarrow> bool \<Rightarrow> touch list \<Rightarrow> fake_touch ctl \<Rightarrow> bool \<times> fake_touch ctl" where
  "fake_end cv tr ready mouse ts s = (case ft_finger (fst s) of
     None \<Rightarrow> (True, s)
   | Some f \<Rightarrow>
       if \<not> ready then (True, s)
       else (case find_touch (ff_id f) ts of
         None \<Rightarrow> (True, s)
       | Some t \<Rightarrow> (case rel_touch (fst s) t of (x, y) \<Rightarrow> with_coord tr x y
           (\<lambda>_ u v. andThen (send cv ''MouseUp'' [num 0, u, v])
             (\<lambda>s. modify (\<lambda>f. f\<lparr>ft_finger := None\<rparr>)
                (if mouse then run (onMouseLeave cv tr (touch_mouse ready t)) s else s))) s)))"

definition fake_move :: "conv \<Rightarrow> translator option \<Rightarrow> bool \<Rightarrow> touch list \<Rightarrow> fake_touch ctl \<Rightarrow> bool \<times> fake_touch ctl" where
  "fake_move cv tr ready ts s = (case ft_finger (fst s) of
     None \<Rightarrow> (True, s)
   | Some f \<Rightarrow>
       if \<not> ready then (True, s)
       else (case find_touch (ff_id f) ts of
         None \<Rightarrow> (True, s)
       | Some t \<Rightarrow> (case rel_touch (fst s) t of (x, y) \<Rightarrow> with_coord tr x y
           (\<lambda>_ u v. with_delta tr (jsub x (ff_x f)) (jsub y (ff_y f))
             (\<lambda>du dv. andThen (send cv ''MouseMove'' [u, v, du, dv])
               (modify (\<lambda>m. m\<lparr>ft_finger := Some (f\<lparr>ff_x := x, ff_y := y\<rparr>)\<rparr>)))) s)))"

end
