(* ===== verification/Frontend_Gamepad.thy ===== *)
theory Frontend_Gamepad
  imports Frontend_Coords
begin

text \<open>
  \<open>Frontend/library/src/Inputs/GamepadController.ts\<close>: gamepads are polled once per animation frame. A
  queued frame is known by its handle and the registration it was requested in; cancelling it does not
  promise that it never runs, so it stays in the queue. The state of a pad is the browser's, in
  rationals.
\<close>

record pad_state =
  pd_buttons :: "(bool \<times> rat) list"
  pd_axes :: "rat list"

record controller =
  co_current :: pad_state
  co_prev :: pad_state
  co_id :: "elem option"

record gamepads =
  gp_registered :: bool
  gp_generation :: nat
  gp_handle :: "nat option"
  gp_controllers :: "controller option list"
  gp_frames :: "(nat \<times> nat) list"
  gp_next :: nat

definition new_gamepads :: gamepads where
  "new_gamepads = \<lparr>gp_registered = False, gp_generation = 0, gp_handle = None, gp_controllers = [], gp_frames = [], gp_next = 1\<rparr>"

text \<open>\<open>array[i] = v\<close> and \<open>array[i]\<close>.\<close>

definition array_put :: "nat \<Rightarrow> 'a option \<Rightarrow> 'a option list \<Rightarrow> 'a option list" where
  "array_put i v xs = (if i < length xs then xs[i := v] else xs @ replicate (i - length xs) None @ [v])"

definition array_get :: "'a option list \<Rightarrow> nat \<Rightarrow> 'a option" where
  "array_get xs i = (if i < length xs then xs ! i else None)"

definition scheduleUpdate :: "gamepads \<Rightarrow> gamepads" where
  "scheduleUpdate g =
     (if \<not> gp_registered g \<or> gp_handle g \<noteq> None \<or> \<not> list_ex (\<lambda>c. c \<noteq> None) (gp_controllers g) then g
      else g\<lparr>gp_handle := Some (gp_next g), gp_frames := gp_frames g @ [(gp_next g, gp_generation g)], gp_next := gp_next g + 1\<rparr>)"

definition onGamepadConnected :: "conv \<Rightarrow> nat \<Rightarrow> pad_state \<Rightarrow> gamepads ctl \<Rightarrow> bool \<times> gamepads ctl" where
  "onGamepadConnected cv i p s =
     (if \<not> gp_registered (fst s) \<or> array_get (gp_controllers (fst s)) i \<noteq> None then (True, s)
      else andThen (modify (\<lambda>g. scheduleUpdate (g\<lparr>gp_controllers :=
               array_put i (Some \<lparr>co_current = p, co_prev = p, co_id = None\<rparr>) (gp_controllers g)\<rparr>)))
             (send cv ''GamepadConnected'' []) s)"

definition send_disconnect :: "conv \<Rightarrow> controller option \<Rightarrow> gamepads ctl \<Rightarrow> bool \<times> gamepads ctl" where
  "send_disconnect cv c = (case Option.bind c co_id of
     None \<Rightarrow> Pair True | Some i \<Rightarrow> send cv ''GamepadDisconnected'' [i])"

definition onGamepadDisconnected :: "conv \<Rightarrow> nat \<Rightarrow> gamepads ctl \<Rightarrow> bool \<times> gamepads ctl" where
  "onGamepadDisconnected cv i s = (case array_get (gp_controllers (fst s)) i of
     None \<Rightarrow> (True, s)
   | Some c \<Rightarrow> andThen (modify (\<lambda>g. g\<lparr>gp_controllers := array_put i None (gp_controllers g)\<rparr>))
       (send_disconnect cv (Some c)) s)"

text \<open>\<open>pads\<close> is what \<open>navigator.getGamepads()\<close> answers.\<close>

definition gamepad_register :: "conv \<Rightarrow> (nat \<times> pad_state) list \<Rightarrow> gamepads ctl \<Rightarrow> bool \<times> gamepads ctl" where
  "gamepad_register cv pads s =
     (if gp_registered (fst s) then (True, s)
      else andThen (modify (\<lambda>g. g\<lparr>gp_registered := True, gp_generation := gp_generation g + 1, gp_controllers := []\<rparr>))
             (each (\<lambda>(i, p). onGamepadConnected cv i p) pads) s)"

definition gamepad_unregister :: "conv \<Rightarrow> gamepads ctl \<Rightarrow> bool \<times> gamepads ctl" where
  "gamepad_unregister cv s =
     andThen (modify (\<lambda>g. g\<lparr>gp_registered := False, gp_generation := gp_generation g + 1, gp_handle := None\<rparr>))
       (andThen (each (send_disconnect cv) (gp_controllers (fst s))) (modify (\<lambda>g. g\<lparr>gp_controllers := []\<rparr>))) s"

text \<open>The first pad that has no id yet gets the one of the response.\<close>

fun give_id :: "elem option \<Rightarrow> controller option list \<Rightarrow> controller option list" where
  "give_id i [] = []"
| "give_id i (None # cs) = None # give_id i cs"
| "give_id i (Some c # cs) = (if co_id c = None then Some (c\<lparr>co_id := i\<rparr>) # cs else Some c # give_id i cs)"

definition onGamepadResponseReceived :: "elem option \<Rightarrow> gamepads ctl \<Rightarrow> bool \<times> gamepads ctl" where
  "onGamepadResponseReceived i = modify (\<lambda>g. g\<lparr>gp_controllers := give_id i (gp_controllers g)\<rparr>)"

definition scan_one :: "nat \<times> pad_state \<Rightarrow> controller option list \<Rightarrow> controller option list" where
  "scan_one = (\<lambda>(i, p) cs. case array_get cs i of None \<Rightarrow> cs | Some c \<Rightarrow> cs[i := Some (c\<lparr>co_current := p\<rparr>)])"

definition scanGamepads :: "(nat \<times> pad_state) list \<Rightarrow> gamepads \<Rightarrow> gamepads" where
  "scanGamepads pads g = g\<lparr>gp_controllers := fold scan_one pads (gp_controllers g)\<rparr>"

text \<open>\<open>parseFloat(v.toFixed(4))\<close>, and its negation.\<close>

definition fixed4 :: "rat \<Rightarrow> elem" where
  "fixed4 q = (let n = \<lfloor>\<bar>q\<bar> * 10000 + 1 / 2\<rfloor> in
     if q < 0 then (if n = 0 then ENegZero else ENum (Fin (- (of_int n / 10000)))) else ENum (Fin (of_int n / 10000)))"

fun neg_elem :: "elem \<Rightarrow> elem" where
  "neg_elem (ENum (Fin q)) = (if q = 0 then ENegZero else ENum (Fin (- q)))"
| "neg_elem (ENum n) = ENum (jneg n)"
| "neg_elem ENegZero = ENum (Fin 0)"
| "neg_elem e = e"

definition poll_button :: "conv \<Rightarrow> elem \<Rightarrow> (bool \<times> rat) list \<Rightarrow> (bool \<times> rat) list \<Rightarrow> nat \<Rightarrow> gamepads ctl \<Rightarrow> bool \<times> gamepads ctl" where
  "poll_button cv ide cur prev i s =
     (let trigger = (if i = 6 then Some (num 5) else if i = 7 then Some (num 6) else None) in
      if fst (cur ! i) then
        (case trigger of
           Some b \<Rightarrow> send cv ''GamepadAnalog'' [ide, b, ENum (Fin (snd (cur ! i)))] s
         | None \<Rightarrow>
             if length prev \<le> i then (False, s)
             else send cv ''GamepadButtonPressed'' [ide, num i, num (if fst (prev ! i) then 1 else 0)] s)
      else if length prev \<le> i then (False, s)
      else if fst (prev ! i) then
        (case trigger of
           Some b \<Rightarrow> send cv ''GamepadAnalog'' [ide, b, num 0] s
         | None \<Rightarrow> send cv ''GamepadButtonReleased'' [ide, num i, num 0] s)
      else (True, s))"

fun poll_axes :: "conv \<Rightarrow> elem \<Rightarrow> nat \<Rightarrow> rat list \<Rightarrow> gamepads ctl \<Rightarrow> bool \<times> gamepads ctl" where
  "poll_axes cv ide i [] s = (True, s)"
| "poll_axes cv ide i [x] s = (False, s)"
| "poll_axes cv ide i (x # y # rest) s =
     andThen (send cv ''GamepadAnalog'' [ide, num (i + 1), fixed4 x])
       (andThen (send cv ''GamepadAnalog'' [ide, num (i + 2), neg_elem (fixed4 y)]) (poll_axes cv ide (i + 2) rest)) s"

definition poll_controller :: "conv \<Rightarrow> nat \<Rightarrow> gamepads ctl \<Rightarrow> bool \<times> gamepads ctl" where
  "poll_controller cv k s = (case array_get (gp_controllers (fst s)) k of
     None \<Rightarrow> (True, s)
   | Some c \<Rightarrow>
       (let ide = (case co_id c of None \<Rightarrow> num k | Some e \<Rightarrow> e);
            cur = co_current c in
        andThen (each (poll_button cv ide (pd_buttons cur) (pd_buttons (co_prev c))) [0..<length (pd_buttons cur)])
          (andThen (poll_axes cv ide 0 (pd_axes cur))
            (modify (\<lambda>g. g\<lparr>gp_controllers := (gp_controllers g)[k := Some (c\<lparr>co_prev := cur\<rparr>)]\<rparr>))) s))"

definition updateStatus :: "conv \<Rightarrow> (nat \<times> pad_state) list \<Rightarrow> gamepads ctl \<Rightarrow> bool \<times> gamepads ctl" where
  "updateStatus cv pads s =
     andThen (modify (scanGamepads pads))
       (andThen (each (poll_controller cv) [0..<length (gp_controllers (fst s))]) (modify scheduleUpdate)) s"

text \<open>A queued frame runs: the callback of \<open>scheduleUpdate\<close>.\<close>

definition gamepad_frame :: "conv \<Rightarrow> (nat \<times> pad_state) list \<Rightarrow> nat \<Rightarrow> gamepads ctl \<Rightarrow> bool \<times> gamepads ctl" where
  "gamepad_frame cv pads gen s =
     (if \<not> gp_registered (fst s) \<or> gen \<noteq> gp_generation (fst s) then (True, s)
      else andThen (modify (\<lambda>g. g\<lparr>gp_handle := None\<rparr>)) (updateStatus cv pads) s)"

definition onBeforeUnload :: "conv \<Rightarrow> gamepads ctl \<Rightarrow> bool \<times> gamepads ctl" where
  "onBeforeUnload cv s = each (send_disconnect cv) (gp_controllers (fst s)) s"

section \<open>Runs\<close>

datatype pad_input =
    Pad_register "(nat \<times> pad_state) list" | Pad_unregister
  | Pad_connected nat pad_state | Pad_disconnected nat | Pad_response "elem option"
  | Pad_frame nat "(nat \<times> pad_state) list" | Pad_unload

text \<open>\<open>Pad_frame k\<close> runs the \<open>k\<close>-th queued frame; the listeners are attached while registered.\<close>

fun pad_step :: "conv \<Rightarrow> pad_input \<Rightarrow> gamepads ctl \<Rightarrow> gamepads ctl" where
  "pad_step cv (Pad_register pads) s = snd (gamepad_register cv pads s)"
| "pad_step cv Pad_unregister s = snd (gamepad_unregister cv s)"
| "pad_step cv (Pad_connected i p) s = (if gp_registered (fst s) then snd (onGamepadConnected cv i p s) else s)"
| "pad_step cv (Pad_disconnected i) s = (if gp_registered (fst s) then snd (onGamepadDisconnected cv i s) else s)"
| "pad_step cv (Pad_response e) s = snd (onGamepadResponseReceived e s)"
| "pad_step cv (Pad_frame k pads) s =
     (if k < length (gp_frames (fst s))
      then snd (gamepad_frame cv pads (snd (gp_frames (fst s) ! k))
             ((fst s)\<lparr>gp_frames := take k (gp_frames (fst s)) @ drop (k + 1) (gp_frames (fst s))\<rparr>, snd s))
      else s)"
| "pad_step cv Pad_unload s = (if gp_registered (fst s) then snd (onBeforeUnload cv s) else s)"

definition pad_run :: "conv \<Rightarrow> pad_input list \<Rightarrow> gamepads ctl \<Rightarrow> gamepads ctl" where
  "pad_run cv es s = fold (pad_step cv) es s"

end
