(* ===== verification/Frontend_Input_Properties.thy ===== *)
theory Frontend_Input_Properties
  imports Frontend_Keyboard Frontend_Touch Frontend_Gamepad
begin

text \<open>
  What the input controllers keep in every run: where the mouse is followed, which numbers the touches
  have, how many polls of the gamepads are under way, and when the locked pointer's wrapping ends.
\<close>

section \<open>The hovering mouse\<close>

text \<open>Sending never touches the controller, so an invariant of the controller alone is kept by it.\<close>

lemma fst_with_coord: "(\<And>b u v s. fst (snd (k b u v s)) = fst s) \<Longrightarrow> fst (snd (with_coord t x y k s)) = fst s"
  by (simp add: with_coord_def split: option.split prod.split)

lemma fst_with_delta: "(\<And>u v s. fst (snd (k u v s)) = fst s) \<Longrightarrow> fst (snd (with_delta t x y k s)) = fst s"
  by (simp add: with_delta_def split: option.split prod.split)

lemma fst_andThen:
  assumes "\<And>s. fst (snd (f s)) = fst s" "\<And>s. fst (snd (g s)) = fst s"
  shows "fst (snd (andThen f g s)) = fst s"
proof -
  obtain b u where "f s = (b, u)" by (cases "f s")
  with assms(1) [of s] assms(2) [of u] show ?thesis by (cases b) (simp_all add: andThen_def)
qed

lemma fst_each: "(\<And>x s. fst (snd (f x s)) = fst s) \<Longrightarrow> fst (snd (each f xs s)) = fst s"
  by (induction xs arbitrary: s) (simp_all add: fst_andThen)

lemma fst_enter: "fst (snd (onMouseEnter cv t e s)) = fst s"
  by (auto simp: onMouseEnter_def pressMouseButtons_def sendMouseDown_def intro!: fst_andThen fst_with_coord fst_each)

lemma fst_leave: "fst (snd (onMouseLeave cv t e s)) = fst s"
  by (auto simp: onMouseLeave_def releaseMouseButtons_def sendMouseUp_def intro!: fst_andThen fst_with_coord fst_each)

lemma send_modify:
  assumes "P (fst s)" "P (f (fst s))"
  shows "P (fst (snd (andThen (send cv ty es) (modify f) s)))"
proof -
  obtain c fe where s: "s = (c, fe)" by force
  then show ?thesis using assms by (auto simp: andThen_def send_def modify_def split: option.split)
qed

lemma coord_keeps:
  assumes "P (fst s)" "\<And>b u v. P (fst (snd (k b u v s)))"
  shows "P (fst (snd (with_coord t x y k s)))"
  using assms by (simp add: with_coord_def split: option.split prod.split)

lemma capture_down: "\<lbrakk>capture_ok (fst s); ho_registered (fst s)\<rbrakk> \<Longrightarrow> capture_ok (fst (snd (hover_down cv t e s)))"
  by (simp add: hover_down_def offsetFromVideo_def coord_keeps [where P = capture_ok] send_modify [where P = capture_ok] capture_start)

lemma capture_up: "\<lbrakk>capture_ok (fst s); ho_registered (fst s)\<rbrakk> \<Longrightarrow> capture_ok (fst (snd (hover_up cv t v e s)))"
  unfolding hover_up_def using capture_stop [of "fst s" "me_button e"]
  by (auto simp: Let_def split: prod.split intro!: coord_keeps [where P = capture_ok] send_modify [where P = capture_ok] capture_stop)

lemma fst_move: "fst (snd (hover_move cv t v e s)) = fst s"
  by (auto simp: hover_move_def split: prod.split intro!: fst_with_coord fst_with_delta)

lemma fst_wheel: "fst (snd (hover_wheel cv t e s)) = fst s"
  by (auto simp: hover_wheel_def intro!: fst_with_coord)

lemma fst_double: "fst (snd (hover_double cv t b e s)) = fst s"
  by (auto simp: hover_double_def intro!: fst_with_coord fst_andThen)

lemma listening_keeps: "\<lbrakk>P (fst s); on (fst s) \<Longrightarrow> P (fst (snd (f s)))\<rbrakk> \<Longrightarrow> P (fst (listening on f s))"
  by (simp add: listening_def run_def)

lemma listening_same: "(\<And>s. fst (snd (f s)) = fst s) \<Longrightarrow> fst (listening on f s) = fst s"
  by (simp add: listening_def run_def)

lemma window_registered: "capture_ok h \<Longrightarrow> ho_window h \<Longrightarrow> ho_registered h"
  by (simp add: capture_ok_def)

lemma element_registered: "capture_ok h \<Longrightarrow> ho_element h \<Longrightarrow> ho_registered h"
  by (simp add: capture_ok_def)

lemma hover_step_ok: "capture_ok (fst s) \<Longrightarrow> capture_ok (fst (hover_step cv t i s))"
proof (cases i)
  case Mouse_register
  then show "capture_ok (fst s) \<Longrightarrow> ?thesis"
    by (cases s) (auto simp: run_def hover_register_def modify_def capture_ok_def)
next
  case Mouse_unregister
  then show "capture_ok (fst s) \<Longrightarrow> ?thesis"
    by (cases s) (auto simp: run_def hover_unregister_def modify_def capture_ok_def)
next
  case (Mouse_up inside e)
  assume s: "capture_ok (fst s)"
  have el: "capture_ok (fst (listening ho_element (hover_up cv t True e) s))"
    by (rule listening_keeps [where P = capture_ok]) (simp_all add: s capture_up element_registered)
  have "capture_ok (fst (listening ho_window (hover_up cv t False e) u))" if "capture_ok (fst u)" for u
    by (rule listening_keeps [where P = capture_ok]) (simp_all add: that capture_up window_registered)
  with el s Mouse_up show ?thesis by simp
qed (auto simp: listening_same fst_move fst_wheel fst_double fst_enter fst_leave
       intro!: listening_keeps [where P = capture_ok] capture_down)

lemma hover_run_ok: "capture_ok (fst s) \<Longrightarrow> capture_ok (fst (hover_run cv t is s))"
  unfolding hover_run_def by (induction "is" arbitrary: s) (simp_all add: hover_step_ok)

section \<open>The numbers of the touches\<close>

definition finger_numbers :: "fingers \<Rightarrow> nat list" where
  "finger_numbers f = map (the \<circ> snd) (fi_ids f)"

definition free_numbers :: "nat list \<Rightarrow> nat list" where
  "free_numbers ns = filter (\<lambda>n. n \<notin> set ns) [0..<10]"

text \<open>Every remembered touch has a number of its own, and the pool has the others, the smallest last.\<close>

definition fingers_ok :: "fingers \<Rightarrow> bool" where
  "fingers_ok f \<longleftrightarrow> distinct (map fst (fi_ids f)) \<and> (\<forall>e \<in> set (fi_ids f). snd e \<noteq> None)
     \<and> distinct (finger_numbers f) \<and> set (finger_numbers f) \<subseteq> {0..<10}
     \<and> fi_pool f = map Some (rev (free_numbers (finger_numbers f)))"

lemma map_set_fresh: "k \<notin> fst ` set m \<Longrightarrow> map_set k v m = m @ [(k, v)]"
  by (induction m) auto

lemma free_nonempty:
  assumes "distinct ns" "set ns \<subseteq> {0..<10}" "length ns < 10"
  shows "free_numbers ns \<noteq> []"
proof
  assume "free_numbers ns = []"
  then have "{0..<10} \<subseteq> set ns" by (auto simp: free_numbers_def filter_empty_conv)
  with assms(2) have "set ns = {0..<10}" by blast
  with distinct_card [OF assms(1)] assms(3) show False by simp
qed

lemma free_taken:
  assumes "free_numbers ns = x # xs"
  shows "free_numbers (ns @ [x]) = xs" "x \<notin> set ns" "x < 10" "\<And>n. n < x \<Longrightarrow> n \<in> set ns"
proof -
  have d: "distinct (x # xs)" "sorted (x # xs)" unfolding assms [symmetric] free_numbers_def
    by (simp_all add: sorted_wrt_filter)
  have "free_numbers (ns @ [x]) = filter (\<lambda>n. n \<noteq> x) (free_numbers ns)" by (auto simp: free_numbers_def intro: filter_cong)
  with d(1) show "free_numbers (ns @ [x]) = xs" by (simp add: assms filter_id_conv) (metis filter_True)
  have "x \<in> set (free_numbers ns)" by (simp add: assms)
  then show x: "x \<notin> set ns" "x < 10" by (auto simp: free_numbers_def)
  show "n \<in> set ns" if "n < x" for n
  proof (rule ccontr)
    assume "n \<notin> set ns"
    with that x(2) have "n \<in> set (x # xs)" unfolding assms [symmetric] by (simp add: free_numbers_def)
    with d(2) that show False by auto
  qed
qed

lemma remember_ok:
  assumes "fingers_ok f" "to_identifier t \<notin> fst ` set (fi_ids f)" "length (fi_ids f) < 10"
  shows "fingers_ok (rememberTouch t f)"
    "\<exists>n. fingerOf (rememberTouch t f) (to_identifier t) = Some n \<and> n < 10 \<and> n \<notin> set (finger_numbers f) \<and> (\<forall>k < n. k \<in> set (finger_numbers f))"
    "fi_ids (rememberTouch t f) = fi_ids f @ [(to_identifier t, fingerOf (rememberTouch t f) (to_identifier t))]"
proof -
  let ?ns = "finger_numbers f"
  have "length ?ns < 10" using assms(3) by (simp add: finger_numbers_def)
  with assms(1) free_nonempty [of ?ns] obtain x xs where x: "free_numbers ?ns = x # xs"
    unfolding fingers_ok_def by (metis list.exhaust)
  have pool: "fi_pool f = map Some (rev xs @ [x])" using assms(1) x by (simp add: fingers_ok_def)
  then have r: "rememberTouch t f = f\<lparr>fi_pool := map Some (rev xs), fi_ids := fi_ids f @ [(to_identifier t, Some x)]\<rparr>"
    by (simp add: rememberTouch_def map_set_fresh [OF assms(2)])
  have n: "finger_numbers (rememberTouch t f) = ?ns @ [x]" by (simp add: r finger_numbers_def)
  note x' = free_taken [OF x]
  have "fingerOf (rememberTouch t f) (to_identifier t) = Some x"
    using assms(2) by (simp add: fingerOf_def r map_get_def map_add_def map_of_eq_None_iff [symmetric])
  then show "\<exists>n. fingerOf (rememberTouch t f) (to_identifier t) = Some n \<and> n < 10 \<and> n \<notin> set ?ns \<and> (\<forall>k < n. k \<in> set ?ns)"
    "fi_ids (rememberTouch t f) = fi_ids f @ [(to_identifier t, fingerOf (rememberTouch t f) (to_identifier t))]"
    using x' by (auto simp: r)
  show "fingers_ok (rememberTouch t f)"
    using assms(1,2) x' unfolding fingers_ok_def n by (auto simp: r image_iff)
qed

lemma forget_ok:
  assumes "fingers_ok f" "to_identifier t \<in> fst ` set (fi_ids f)"
  shows "fingers_ok (forgetTouch t f)"
proof -
  let ?i = "to_identifier t" and ?ids = "fi_ids f" and ?ns = "finger_numbers f"
  let ?ids' = "map_delete ?i ?ids"
  define ns' where "ns' = map (the \<circ> snd) ?ids'"
  from assms obtain n where n: "(?i, Some n) \<in> set ?ids" unfolding fingers_ok_def by fastforce
  have d: "distinct (map fst ?ids)" "distinct ?ns" "set ?ns \<subseteq> {0..<10}" "\<forall>e \<in> set ?ids. snd e \<noteq> None"
    "fi_pool f = map Some (rev (free_numbers ?ns))" using assms(1) by (simp_all add: fingers_ok_def)
  have finger: "fingerOf f ?i = Some n" using d(1) n by (simp add: fingerOf_def map_get_def)
  have inj: "inj_on (the \<circ> snd) (set ?ids)" using d(2) by (simp add: finger_numbers_def distinct_map)
  have "set ns' = (the \<circ> snd) ` {e \<in> set ?ids. fst e \<noteq> ?i}" by (simp add: ns'_def)
  also have "{e \<in> set ?ids. fst e \<noteq> ?i} = set ?ids - {(?i, Some n)}"
    using d(1) n by auto (metis eq_key_imp_eq_value)
  also have "(the \<circ> snd) ` \<dots> = set ?ns - {n}" using inj_on_image_set_diff [OF inj, of "set ?ids" "{(?i, Some n)}"] n
    by (simp add: finger_numbers_def)
  finally have set': "set ns' = set ?ns - {n}" .
  have mem: "n \<in> set ?ns" using n by (force simp: finger_numbers_def)
  have dist': "distinct ns'" using inj distinct_map [of "the \<circ> snd" ?ids'] d(1)
    by (auto simp: ns'_def map_delete_def distinct_map intro: inj_on_subset)
  have "sort (rev (free_numbers ?ns) @ [n]) = free_numbers ns'"
  proof (rule sorted_distinct_set_unique)
    show "sorted (free_numbers ns')" by (simp add: free_numbers_def sorted_wrt_filter)
    show "set (sort (rev (free_numbers ?ns) @ [n])) = set (free_numbers ns')"
      using mem d(3) by (auto simp: free_numbers_def set')
  qed (use mem in \<open>simp_all add: free_numbers_def\<close>)
  then have pool: "sort_pool (fi_pool f @ [fingerOf f ?i]) = map Some (rev (free_numbers ns'))"
    unfolding finger d(5) by (simp add: sort_pool_def List.map_filter_def comp_def)
  have keys: "distinct (map fst ?ids')" using d(1) by (simp add: keys_map_delete)
  show ?thesis using keys dist' set' d(3,4) pool
    by (auto simp: fingers_ok_def forgetTouch_def finger_numbers_def ns'_def [symmetric])
qed

text \<open>What a browser reports: new touches, at most ten at a time, and ends of touches that it has reported.\<close>

definition active_touches :: "fingers \<Rightarrow> int set" where
  "active_touches f = fst ` set (fi_ids f)"

inductive touching :: "conv \<Rightarrow> translator option \<Rightarrow> jsnum \<times> jsnum \<Rightarrow> fingers ctl \<Rightarrow> bool" for cv tr rect where
  new: "touching cv tr rect (new_fingers, fe)"
| down: "\<lbrakk>touching cv tr rect s; distinct (map to_identifier ts); to_identifier ` set ts \<inter> active_touches (fst s) = {};
    length (fi_ids (fst s)) + length ts \<le> 10\<rbrakk> \<Longrightarrow> touching cv tr rect (snd (onTouchStart cv tr rect ready ts s))"
| up: "\<lbrakk>touching cv tr rect s; distinct (map to_identifier ts); to_identifier ` set ts \<subseteq> active_touches (fst s)\<rbrakk>
    \<Longrightarrow> touching cv tr rect (snd (onTouchEnd cv tr rect ready ts s))"
| move: "touching cv tr rect s \<Longrightarrow> touching cv tr rect (snd (onTouchMove cv tr rect ready ts s))"

lemma fst_emit_touch: "fst (snd (emit_touch cv tr rect ty t s)) = fst s"
  unfolding emit_touch_def by (rule fst_with_coord) simp

lemma fst_emit: "fst (snd (emitTouchData cv tr rect ready ty ts s)) = fst s"
  by (simp add: emitTouchData_def fst_each fst_emit_touch)

lemma remember_all_ok:
  "\<lbrakk>fingers_ok f; distinct (map to_identifier ts); to_identifier ` set ts \<inter> active_touches f = {};
    length (fi_ids f) + length ts \<le> 10\<rbrakk> \<Longrightarrow> fingers_ok (fold rememberTouch ts f)"
proof (induction ts arbitrary: f)
  case (Cons t ts)
  have r: "fingers_ok (rememberTouch t f)" "fi_ids (rememberTouch t f) = fi_ids f @ [(to_identifier t, fingerOf (rememberTouch t f) (to_identifier t))]"
    using remember_ok [of f t] Cons.prems by (auto simp: active_touches_def)
  have "fingers_ok (fold rememberTouch ts (rememberTouch t f))"
    by (rule Cons.IH) (use Cons.prems r in \<open>auto simp: active_touches_def\<close>)
  then show ?case by simp
qed simp

lemma forget_all_ok:
  "\<lbrakk>fingers_ok f; distinct (map to_identifier ts); to_identifier ` set ts \<subseteq> active_touches f\<rbrakk> \<Longrightarrow> fingers_ok (fold forgetTouch ts f)"
proof (induction ts arbitrary: f)
  case (Cons t ts)
  have "fingers_ok (forgetTouch t f)" using forget_ok [of f t] Cons.prems by (auto simp: active_touches_def)
  moreover have "active_touches (forgetTouch t f) = active_touches f - {to_identifier t}"
    by (auto simp: active_touches_def forgetTouch_def)
  ultimately have "fingers_ok (fold forgetTouch ts (forgetTouch t f))"
    by (intro Cons.IH) (use Cons.prems in \<open>auto simp: image_iff\<close>)
  then show ?case by simp
qed simp

lemma touching_ok: "touching cv tr rect s \<Longrightarrow> fingers_ok (fst s)"
proof (induction rule: touching.induct)
  case new
  show ?case by (simp add: fingers_ok_def new_fingers_def finger_numbers_def free_numbers_def upt_rec)
next
  case (down s ts ready)
  obtain f fe where s: "s = (f, fe)" by (cases s)
  have "fingers_ok (fold rememberTouch ts f)" by (rule remember_all_ok) (use down s in simp_all)
  with down.IH s show ?case by (simp add: onTouchStart_def andThen_def modify_def fst_emit)
next
  case (up s ts ready)
  obtain f fe where s: "s = (f, fe)" by (cases s)
  obtain b u where bu: "emitTouchData cv tr rect ready ''TouchEnd'' ts s = (b, u)" by (cases "emitTouchData cv tr rect ready ''TouchEnd'' ts s")
  have "fst u = f" using fst_emit [of cv tr rect ready "''TouchEnd''" ts s] bu s by simp
  moreover have "fingers_ok (fold forgetTouch ts f)" by (rule forget_all_ok) (use up s in simp_all)
  ultimately show ?case using up.IH bu s by (cases u) (auto simp: onTouchEnd_def andThen_def modify_def split: bool.split)
next
  case (move s ready ts)
  then show ?case by (simp add: onTouchMove_def fst_emit)
qed

section \<open>Polling the gamepads\<close>

definition live_frames :: "gamepads \<Rightarrow> (nat \<times> nat) list" where
  "live_frames g = filter (\<lambda>f. snd f = gp_generation g) (gp_frames g)"

text \<open>The queued frames that will poll are the one whose handle is kept, if any.\<close>

definition frames_ok :: "gamepads \<Rightarrow> bool" where
  "frames_ok g \<longleftrightarrow> live_frames g = (if gp_handle g = None then [] else [(the (gp_handle g), gp_generation g)])
     \<and> (\<forall>f \<in> set (gp_frames g). snd f \<le> gp_generation g) \<and> (gp_handle g \<noteq> None \<longrightarrow> gp_registered g)"

lemma frames_controllers [simp]: "frames_ok (g\<lparr>gp_controllers := cs\<rparr>) = frames_ok g"
  by (simp add: frames_ok_def live_frames_def)

lemma frames_schedule: "frames_ok g \<Longrightarrow> frames_ok (scheduleUpdate g)"
  by (auto simp: frames_ok_def live_frames_def scheduleUpdate_def)

abbreviation "pads_ok s \<equiv> frames_ok (fst s)"

lemma pads_modify: "frames_ok (f (fst s)) \<Longrightarrow> pads_ok (snd (modify f s))"
  by (cases s) (simp add: modify_def)

lemma pads_send: "pads_ok s \<Longrightarrow> pads_ok (snd (send cv ty es s))"
  by simp

lemma pads_andThen: "\<lbrakk>pads_ok (snd (f s)); \<And>s. pads_ok s \<Longrightarrow> pads_ok (snd (g s))\<rbrakk> \<Longrightarrow> pads_ok (snd (andThen f g s))"
  by (cases "f s") (auto simp: andThen_def split: bool.split)

lemma pads_each: "\<lbrakk>pads_ok s; \<And>x s. pads_ok s \<Longrightarrow> pads_ok (snd (f x s))\<rbrakk> \<Longrightarrow> pads_ok (snd (each f xs s))"
  by (induction xs arbitrary: s) (auto intro: pads_andThen)

lemma pads_disconnect: "pads_ok s \<Longrightarrow> pads_ok (snd (send_disconnect cv c s))"
  by (simp add: send_disconnect_def split: option.split)

lemma pads_connected: "pads_ok s \<Longrightarrow> pads_ok (snd (onGamepadConnected cv i p s))"
  by (simp add: onGamepadConnected_def pads_andThen pads_modify frames_schedule)

lemma pads_disconnected: "pads_ok s \<Longrightarrow> pads_ok (snd (onGamepadDisconnected cv i s))"
  by (simp add: onGamepadDisconnected_def pads_andThen pads_modify pads_disconnect split: option.split)

lemma pads_button: "pads_ok s \<Longrightarrow> pads_ok (snd (poll_button cv ide cur prev i s))"
  by (simp add: poll_button_def Let_def)

lemma pads_axes: "pads_ok s \<Longrightarrow> pads_ok (snd (poll_axes cv ide i xs s))"
  by (induction cv ide i xs s rule: poll_axes.induct) (simp_all add: pads_andThen)

lemma pads_poll: "pads_ok s \<Longrightarrow> pads_ok (snd (poll_controller cv k s))"
  by (simp add: poll_controller_def Let_def pads_andThen pads_modify pads_each pads_button pads_axes split: option.split)

lemma pads_update: "pads_ok s \<Longrightarrow> pads_ok (snd (updateStatus cv pads s))"
  by (simp add: updateStatus_def scanGamepads_def pads_andThen pads_modify pads_each pads_poll frames_schedule)

lemma pads_register: "pads_ok s \<Longrightarrow> pads_ok (snd (gamepad_register cv pads s))"
proof -
  assume s: "pads_ok s"
  have "frames_ok (g\<lparr>gp_registered := True, gp_generation := gp_generation g + 1, gp_controllers := []\<rparr>)"
    if "frames_ok g" "\<not> gp_registered g" for g
    using that by (auto simp: frames_ok_def live_frames_def filter_empty_conv)
  with s show ?thesis by (auto simp: gamepad_register_def split: prod.split intro!: pads_andThen pads_modify pads_each pads_connected)
qed

lemma pads_unregister: "pads_ok s \<Longrightarrow> pads_ok (snd (gamepad_unregister cv s))"
proof -
  assume s: "pads_ok s"
  have "frames_ok (g\<lparr>gp_registered := False, gp_generation := gp_generation g + 1, gp_handle := None\<rparr>)" if "frames_ok g" for g
    using that by (auto simp: frames_ok_def live_frames_def filter_empty_conv)
  with s show ?thesis by (simp add: gamepad_unregister_def pads_andThen pads_modify pads_each pads_disconnect)
qed

text \<open>The frame that runs has left the queue; if it was the live one, its handle is forgotten.\<close>

lemma frames_taken:
  assumes "frames_ok g" "k < length (gp_frames g)"
  shows "snd (gp_frames g ! k) \<noteq> gp_generation g \<Longrightarrow> frames_ok (g\<lparr>gp_frames := take k (gp_frames g) @ drop (k + 1) (gp_frames g)\<rparr>)"
    "snd (gp_frames g ! k) = gp_generation g \<Longrightarrow> frames_ok (g\<lparr>gp_frames := take k (gp_frames g) @ drop (k + 1) (gp_frames g), gp_handle := None\<rparr>)"
proof -
  let ?P = "\<lambda>f. snd f = gp_generation g"
  have sp: "gp_frames g = take k (gp_frames g) @ gp_frames g ! k # drop (k + 1) (gp_frames g)"
    using assms(2) id_take_nth_drop [of k "gp_frames g"] by simp
  have live: "live_frames g = filter ?P (take k (gp_frames g)) @ (if ?P (gp_frames g ! k) then [gp_frames g ! k] else [])
      @ filter ?P (drop (k + 1) (gp_frames g))"
    unfolding live_frames_def by (subst sp) simp
  have sub: "set (take k (gp_frames g)) \<subseteq> set (gp_frames g)" "set (drop (k + 1) (gp_frames g)) \<subseteq> set (gp_frames g)"
    by (rule set_take_subset, rule set_drop_subset)
  show "\<not> ?P (gp_frames g ! k) \<Longrightarrow> frames_ok (g\<lparr>gp_frames := take k (gp_frames g) @ drop (k + 1) (gp_frames g)\<rparr>)"
    using assms(1) live sub by (auto simp: frames_ok_def live_frames_def)
  show "?P (gp_frames g ! k) \<Longrightarrow> frames_ok (g\<lparr>gp_frames := take k (gp_frames g) @ drop (k + 1) (gp_frames g), gp_handle := None\<rparr>)"
    using assms(1) live sub by (auto simp: frames_ok_def live_frames_def Cons_eq_append_conv append_eq_Cons_conv split: if_splits)
qed

lemma pads_frame:
  assumes "pads_ok s" "k < length (gp_frames (fst s))"
  shows "pads_ok (snd (gamepad_frame cv pads (snd (gp_frames (fst s) ! k))
    ((fst s)\<lparr>gp_frames := take k (gp_frames (fst s)) @ drop (k + 1) (gp_frames (fst s))\<rparr>, snd s)))"
proof (cases "snd (gp_frames (fst s) ! k) = gp_generation (fst s)")
  case True
  have "gp_registered (fst s)"
  proof -
    have "gp_frames (fst s) ! k \<in> set (live_frames (fst s))" using assms(2) True by (simp add: live_frames_def)
    then show ?thesis using assms(1) by (auto simp: frames_ok_def split: if_splits)
  qed
  then show ?thesis using frames_taken(2) [OF assms True] True
    by (simp add: gamepad_frame_def pads_andThen pads_modify pads_update)
next
  case False
  then show ?thesis using frames_taken(1) [OF assms False] by (simp add: gamepad_frame_def)
qed

lemma pad_step_ok: "pads_ok s \<Longrightarrow> pads_ok (pad_step cv i s)"
  by (cases i) (simp_all add: pads_register pads_unregister pads_connected pads_disconnected pads_frame [folded Suc_eq_plus1]
      onGamepadResponseReceived_def pads_modify onBeforeUnload_def pads_each pads_disconnect)

lemma pad_run_ok: "pads_ok s \<Longrightarrow> pads_ok (pad_run cv is s)"
  unfolding pad_run_def by (induction "is" arbitrary: s) (simp_all add: pad_step_ok)

section \<open>Wrapping the locked pointer\<close>

lemma wrap_down_within: "x \<le> e \<Longrightarrow> wrap_down e x = Some x"
  by (subst wrap_down.simps) simp

lemma wrap_up_within: "0 \<le> x \<Longrightarrow> wrap_up e x = Some x"
  by (subst wrap_up.simps) simp

lemma wrap_down_returns: "\<lbrakk>0 < e; x \<le> of_nat n * e\<rbrakk> \<Longrightarrow> \<exists>y. wrap_down e x = Some y \<and> y \<le> e \<and> (0 \<le> x \<longrightarrow> 0 \<le> y)"
proof (induction n arbitrary: x)
  case 0
  then have "x \<le> e" by simp
  then show ?case using wrap_down_within by auto
next
  case (Suc n)
  show ?case
  proof (cases "x \<le> e")
    case True
    then show ?thesis using wrap_down_within by auto
  next
    case False
    have "x - e \<le> of_nat n * e" using Suc.prems by (simp add: algebra_simps)
    with Suc.IH [of "x - e"] Suc.prems obtain y where "wrap_down e (x - e) = Some y" "y \<le> e" "0 \<le> x - e \<longrightarrow> 0 \<le> y" by blast
    then show ?thesis using False by (subst wrap_down.simps) auto
  qed
qed

lemma wrap_up_returns: "\<lbrakk>0 < e; - x \<le> of_nat n * e; x \<le> e\<rbrakk> \<Longrightarrow> \<exists>y. wrap_up e x = Some y \<and> 0 \<le> y \<and> y \<le> e"
proof (induction n arbitrary: x)
  case 0
  then show ?case using wrap_up_within by auto
next
  case (Suc n)
  show ?case
  proof (cases "0 \<le> x")
    case True
    then show ?thesis using Suc.prems wrap_up_within by auto
  next
    case False
    have "- (x + e) \<le> of_nat n * e" "x + e \<le> e" using Suc.prems False by (simp_all add: algebra_simps)
    with Suc.IH [of "x + e"] Suc.prems obtain y where "wrap_up e (x + e) = Some y" "0 \<le> y" "y \<le> e" by blast
    then show ?thesis using False by (subst wrap_up.simps) auto
  qed
qed

lemma wrap_down_stuck:
  assumes "wrap_down e x = Some y"
  shows "e = 0 \<longrightarrow> x \<le> 0"
proof -
  have "(case (e, x) of (e, x) \<Rightarrow> \<lambda>y. e = 0 \<longrightarrow> x \<le> 0) y"
    by (rule wrap_down.raw_induct [of "\<lambda>e x y. e = 0 \<longrightarrow> x \<le> 0" "(e, x)" y]) (use assms in \<open>fastforce split: if_splits\<close>)+
  then show ?thesis by simp
qed

lemma wrap_up_stuck:
  assumes "wrap_up e x = Some y"
  shows "e = 0 \<longrightarrow> 0 \<le> x"
proof -
  have "(case (e, x) of (e, x) \<Rightarrow> \<lambda>y. e = 0 \<longrightarrow> 0 \<le> x) y"
    by (rule wrap_up.raw_induct [of "\<lambda>e x y. e = 0 \<longrightarrow> 0 \<le> x" "(e, x)" y]) (use assms in \<open>fastforce split: if_splits\<close>)+
  then show ?thesis by simp
qed

lemma wrapped_returns: "0 < e \<Longrightarrow> \<exists>y. wrapped e x = Some y \<and> 0 \<le> y \<and> y \<le> e"
proof -
  assume e: "0 < e"
  have b: "\<exists>n. z \<le> of_nat n * e" for z
  proof -
    obtain n where "z / e \<le> of_nat n" using real_arch_simple by blast
    then show ?thesis using e by (auto simp: pos_divide_le_eq)
  qed
  obtain y where y: "wrap_down e x = Some y" "y \<le> e" using wrap_down_returns [OF e] b by blast
  obtain n where "- y \<le> of_nat n * e" using b by blast
  from wrap_up_returns [OF e this y(2)] y(1) show ?thesis by (simp add: wrapped_def)
qed

lemma wrapped_nothing: "wrapped 0 x \<noteq> None \<longleftrightarrow> x = 0"
proof
  assume "wrapped 0 x \<noteq> None"
  then obtain y z where y: "wrap_down 0 x = Some y" "wrap_up 0 y = Some z" by (auto simp: wrapped_def bind_eq_Some_conv)
  then have "x \<le> 0" using wrap_down_stuck by blast
  with y(1) wrap_down_within [of x 0] have "y = x" by simp
  with y(2) wrap_up_stuck have "0 \<le> x" by blast
  with \<open>x \<le> 0\<close> show "x = 0" by simp
qed (simp add: wrapped_def wrap_down_within wrap_up_within)

lemma wrapped_iff: "0 \<le> e \<Longrightarrow> wrapped e x \<noteq> None \<longleftrightarrow> 0 < e \<or> x = 0"
  using wrapped_returns [of e x] wrapped_nothing [of x] by (cases "e = 0") auto

lemma wrapped_within: "\<lbrakk>0 \<le> e; wrapped e x = Some y\<rbrakk> \<Longrightarrow> 0 \<le> y \<and> y \<le> e"
  using wrapped_returns [of e x] wrapped_nothing [of x]
  by (cases "e = 0") (auto simp: wrapped_def wrap_down_within wrap_up_within)

lemma locked_move_returns:
  assumes "0 \<le> w" "0 \<le> h" "me_ready e"
  shows "locked_move cv t w h e (l, fe) \<noteq> None
    \<longleftrightarrow> (0 < w \<or> lo_x l + me_movementX e = 0) \<and> (0 < h \<or> lo_y l + me_movementY e = 0)"
proof -
  have "locked_move cv t w h e (l, fe) \<noteq> None
      \<longleftrightarrow> wrapped w (lo_x l + me_movementX e) \<noteq> None \<and> wrapped h (lo_y l + me_movementY e) \<noteq> None"
    using assms(3) by (simp add: locked_move_def Let_def del: not_None_eq split: option.split)
  then show ?thesis by (simp only: wrapped_iff [OF assms(1)] wrapped_iff [OF assms(2)])
qed

lemma locked_move_within:
  assumes "0 \<le> w" "0 \<le> h" "me_ready e" "locked_move cv t w h e (l, fe) = Some (b, (l', fe'))"
  shows "0 \<le> lo_x l' \<and> lo_x l' \<le> w \<and> 0 \<le> lo_y l' \<and> lo_y l' \<le> h"
proof -
  from assms(3,4) obtain x y where xy: "wrapped w (lo_x l + me_movementX e) = Some x" "wrapped h (lo_y l + me_movementY e) = Some y"
    by (auto simp: locked_move_def split: option.splits)
  let ?P = "\<lambda>l. 0 \<le> lo_x l \<and> lo_x l \<le> w \<and> 0 \<le> lo_y l \<and> lo_y l \<le> h"
  let ?l = "l\<lparr>lo_x := x, lo_y := y\<rparr>"
  have p: "?P ?l" using wrapped_within [OF assms(1) xy(1)] wrapped_within [OF assms(2) xy(2)] by simp
  have moved: "?P (fst (snd (andThen (modify (\<lambda>l. l\<lparr>lo_coord := (u, v)\<rparr>)) (with_delta t dx dy (\<lambda>du dv. send cv ty [u, v, du, dv])) s)))"
    if "?P (fst s)" for u v s ty dx dy
    using that by (cases s) (simp add: andThen_def modify_def fst_with_delta)
  have "?P (fst (snd (with_coord t (Fin x) (Fin y) (\<lambda>_ u v. andThen (modify (\<lambda>l. l\<lparr>lo_coord := (u, v)\<rparr>))
      (with_delta t (Fin (me_movementX e)) (Fin (me_movementY e)) (\<lambda>du dv. send cv ''MouseMove'' [u, v, du, dv]))) (?l, fe))))"
    by (rule coord_keeps [where P = ?P], use p in simp, rule moved, use p in simp)
  then show ?thesis using assms(3,4) xy by (simp add: locked_move_def Let_def)
qed

end
