(* ===== verification/Frontend_Message_Properties.thy ===== *)
theory Frontend_Message_Properties
  imports Frontend_Sender
begin

text \<open>
  What leaves the browser for the streamer: every message of the default
  protocol is sent as the bytes that its layout reads back.
\<close>

section \<open>The tables\<close>

lemma fold_map_set:
  "\<lbrakk>distinct (map fst xs); \<forall>k \<in> fst ` set xs. k \<notin> fst ` set m\<rbrakk> \<Longrightarrow> fold (\<lambda>(k, v). map_set k v) xs m = m @ xs"
proof (induction xs arbitrary: m)
  case (Cons x xs)
  obtain k v where x: "x = (k, v)" by (cases x)
  have "map_set k v m = m @ [(k, v)]" if "k \<notin> fst ` set m" for m :: "('a \<times> 'b) list" using that by (induction m) auto
  with Cons.IH [of "m @ [(k, v)]"] Cons.prems x show ?case by force
qed simp

lemma fold_set_add: "\<lbrakk>distinct xs; set xs \<inter> set m = {}\<rbrakk> \<Longrightarrow> fold set_add xs m = m @ xs"
  by (induction xs arbitrary: m) (auto simp: set_add_def)

lemma distinct_tables: "distinct (map fst default_to)" "distinct (map fst registered_to)" "distinct registered_from"
  "distinct (map fst default_from)"
  by (simp_all add: default_to_def registered_to_def registered_control_def registered_input_def registered_from_def default_from_def)

lemma register_to_fields:
  "fe_toHandlers (fold (\<lambda>(n, h). registerMessageHandler (ToStreamer h) n) hs fe) = fold (\<lambda>(k, v). map_set k v) hs (fe_toHandlers fe)"
  "fe_fromHandlers (fold (\<lambda>(n, h). registerMessageHandler (ToStreamer h) n) hs fe) = fe_fromHandlers fe"
  "fe_toMessages (fold (\<lambda>(n, h). registerMessageHandler (ToStreamer h) n) hs fe) = fe_toMessages fe"
  "fe_fromMessages (fold (\<lambda>(n, h). registerMessageHandler (ToStreamer h) n) hs fe) = fe_fromMessages fe"
  by (induction hs arbitrary: fe; simp add: registerMessageHandler_def split: prod.split)+

lemma register_from_fields:
  "fe_fromHandlers (fold (registerMessageHandler FromStreamer) ns fe) = fold set_add ns (fe_fromHandlers fe)"
  "fe_toHandlers (fold (registerMessageHandler FromStreamer) ns fe) = fe_toHandlers fe"
  "fe_toMessages (fold (registerMessageHandler FromStreamer) ns fe) = fe_toMessages fe"
  "fe_fromMessages (fold (registerMessageHandler FromStreamer) ns fe) = fe_fromMessages fe"
  by (induction ns arbitrary: fe; simp add: registerMessageHandler_def)+

lemma fold_entries: "fold (\<lambda>(n, i, fs). map_set n (g i fs)) xs m = fold (\<lambda>(k, v). map_set k v) (map (\<lambda>(n, i, fs). (n, g i fs)) xs) m"
  by (induction xs arbitrary: m) auto

lemma fold_names: "fold (\<lambda>(i, n). map_set (g i) n) xs m = fold (\<lambda>(k, v). map_set k v) (map (\<lambda>(i, n). (g i, n)) xs) m"
  by (induction xs arbitrary: m) auto

lemma new_handlers: "fe_toHandlers new_frontend = registered_to" "fe_fromHandlers new_frontend = registered_from"
  using fold_map_set [OF distinct_tables(2), of "[]"] fold_set_add [OF distinct_tables(3), of "[]"]
  by (simp_all add: new_frontend_def populateDefaultProtocol_def registerMessageHandlers_def register_to_fields register_from_fields)

lemma new_messages: "fe_toMessages new_frontend = map (\<lambda>(n, i, fs). (n, default_message i fs)) default_to"
proof -
  have "distinct (map fst (map (\<lambda>(n, i, fs). (n, default_message i fs)) default_to))"
    using distinct_tables(1) by (simp add: comp_def case_prod_beta)
  from fold_map_set [OF this, of "[]"] show ?thesis
    by (simp add: new_frontend_def populateDefaultProtocol_def registerMessageHandlers_def register_to_fields register_from_fields fold_entries)
qed

lemma new_names: "fe_fromMessages new_frontend = map (\<lambda>(i, n). (JNum (Fin (of_nat i)), n)) default_from"
proof -
  have "inj (\<lambda>i :: nat. JNum (Fin (of_nat i)))" by (simp add: inj_def)
  then have "distinct (map (\<lambda>i :: nat. JNum (Fin (of_nat i))) (map fst default_from))"
    unfolding distinct_map [of _ "map fst default_from"] by (intro conjI distinct_tables(4)) (rule inj_on_subset [OF _ subset_UNIV])
  then have "distinct (map fst (map (\<lambda>(i, n). (JNum (Fin (of_nat i)), n)) default_from))" by (simp add: comp_def case_prod_beta)
  from fold_map_set [OF this, of "[]"] show ?thesis
    by (simp add: new_frontend_def populateDefaultProtocol_def registerMessageHandlers_def register_to_fields register_from_fields
        fold_names [of "\<lambda>i. JNum (Fin (of_nat i))"])
qed

section \<open>Messages to the streamer\<close>

text \<open>What the tables promise of an entry: a handler that sends it, a byte as its number, raw bytes at the end.\<close>

definition sendable :: "string \<times> nat \<times> field list \<Rightarrow> bool" where
  "sendable e = (case e of (ty, i, fs) \<Rightarrow> i < 256 \<and> Raw \<notin> set (butlast fs) \<and>
     (map_of registered_to ty = Some H_send \<or> map_of registered_to ty = Some H_bare \<and> fs = []))"

lemma default_sendable: "list_all (\<lambda>e. fst e \<in> {''TestEcho'', ''DataChannelLatencyTest''} \<or> sendable e) default_to"
  by (simp add: default_to_def sendable_def registered_to_def registered_control_def registered_input_def)

lemma activity_keeps: "countsAsActivity cv ty es fe = (b, fe') \<Longrightarrow> fe_out fe' = fe_out fe \<and> fe_channel fe' = fe_channel fe"
  by (auto simp: countsAsActivity_def gamepadAnalog_def Let_def split: if_splits option.splits)

lemma sent_bytes:
  assumes "map_get (fe_toMessages fe) ty = Some m" "build cv m es = Built bs" "fe_channel fe = Some ''open''"
  shows "\<exists>fe' tail. sendMessageToStreamer cv ty es fe = Some fe' \<and> fe_out fe' = fe_out fe @ Data bs # tail \<and> tail \<in> {[], [Afk_reset]}"
proof -
  obtain b u where bu: "countsAsActivity cv ty es fe = (b, u)" by force
  from activity_keeps [OF this] assms(3) have "fe_out u = fe_out fe" "fe_channel u = Some ''open''" by simp_all
  then show ?thesis using assms bu by (simp add: sendMessageToStreamer_def canSend_def sendData_def)
qed

lemma default_sent:
  assumes "(ty, i, fs) \<in> set default_to" "ty \<notin> {''TestEcho'', ''DataChannelLatencyTest''}" "list_all2 exact fs es"
    "fe_toHandlers fe = fe_toHandlers new_frontend" "fe_toMessages fe = fe_toMessages new_frontend" "fe_channel fe = Some ''open''"
  shows "\<exists>fe' body tail. toStreamer cv ty es fe = Some fe' \<and> fe_out fe' = fe_out fe @ Data (of_nat i # body) # tail
    \<and> tail \<in> {[], [Afk_reset]} \<and> read_message fs body = Some es"
proof -
  have s: "sendable (ty, i, fs)" using default_sendable assms(1,2) by (auto simp: list_all_iff)
  have k: "list_all2 kind_ok fs es" using assms(3) exact_kind by (rule list_all2_mono)
  have "map_get (fe_toMessages fe) ty = Some (default_message i fs)"
    using assms(1) distinct_tables(1) unfolding assms(5) new_messages map_get_def
    by (intro map_of_is_SomeI) (force simp: comp_def case_prod_beta)+
  moreover have "build cv (default_message i fs) es = Built (of_nat i # all_bytes cv fs es)"
    using build_bytes [OF k] by (simp add: default_message_def)
  ultimately obtain fe' tail where "sendMessageToStreamer cv ty es fe = Some fe'"
      "fe_out fe' = fe_out fe @ Data (of_nat i # all_bytes cv fs es) # tail" "tail \<in> {[], [Afk_reset]}"
    using sent_bytes assms(6) by blast
  moreover have "toStreamer cv ty es fe = sendMessageToStreamer cv ty es fe"
    using s assms(3) by (auto simp: toStreamer_def sendable_def assms(4) new_handlers map_get_def)
  moreover have "read_message fs (all_bytes cv fs es) = Some es"
    using read_message_written [OF assms(3)] s by (simp add: sendable_def)
  ultimately show ?thesis by auto
qed

text \<open>Every message type that the browser knows at its start has a handler.\<close>

lemma from_handled: "list_all (\<lambda>e. snd e \<in> set registered_from \<and> fst e < 256) default_from"
  by (simp add: default_from_def registered_from_def)

end
