(* ===== verification/Frontend_Transfer.thy ===== *)
theory Frontend_Transfer
  imports JS_Numbers
begin

text \<open>
  \<open>Frontend/library/src/Util/FileUtil.ts\<close> and \<open>FreezeFrame\<close>: files and freeze frames that arrive in
  chunks on the data channel, and the size a freeze frame is shown at. The decoding of text is a
  parameter; timestamps are for the log alone and are left out.
\<close>

section \<open>Files\<close>

record transfer =
  fl_mimetype :: string
  fl_extension :: string
  fl_receiving :: bool
  fl_chunks :: int
  fl_data :: "8 word list list"
  fl_valid :: bool

definition new_file :: transfer where
  "new_file = \<lparr>fl_mimetype = [], fl_extension = [], fl_receiving = False, fl_chunks = 0, fl_data = [], fl_valid = False\<rparr>"

definition start_file :: "transfer \<Rightarrow> transfer" where
  "start_file f =
     (if fl_receiving f then f
      else \<lparr>fl_mimetype = [], fl_extension = [], fl_receiving = True, fl_chunks = 0, fl_data = [], fl_valid = False\<rparr>)"

definition setExtensionFromBytes :: "(8 word list \<Rightarrow> string) \<Rightarrow> 8 word list \<Rightarrow> transfer \<Rightarrow> transfer" where
  "setExtensionFromBytes decode view f = (start_file f)\<lparr>fl_extension := decode (drop 1 view)\<rparr>"

definition setMimeTypeFromBytes :: "(8 word list \<Rightarrow> string) \<Rightarrow> 8 word list \<Rightarrow> transfer \<Rightarrow> transfer" where
  "setMimeTypeFromBytes decode view f = (start_file f)\<lparr>fl_mimetype := decode (drop 1 view)\<rparr>"

definition max_payload :: int where
  "max_payload = 16 * 1024 - 5"

text \<open>The size field of a message; \<open>None\<close> is the exception of a message that is too short.\<close>

definition size_field :: "8 word list \<Rightarrow> int option" where
  "size_field view = (if length view < 5 then None else Some (getInt32 (take 4 (drop 1 view))))"

definition add_chunk :: "int \<Rightarrow> 8 word list \<Rightarrow> transfer \<Rightarrow> transfer" where
  "add_chunk n part f =
     (let f = f\<lparr>fl_chunks := \<lceil>rat_of_int n / rat_of_int max_payload\<rceil>, fl_data := fl_data f @ [part]\<rparr> in
      if int (length (fl_data f)) = fl_chunks f then f\<lparr>fl_receiving := False, fl_valid := True\<rparr>
      else if fl_chunks f < int (length (fl_data f)) then f\<lparr>fl_receiving := False\<rparr>
      else f)"

definition setContentsFromBytes :: "8 word list \<Rightarrow> transfer \<Rightarrow> transfer option" where
  "setContentsFromBytes view f =
     (if \<not> fl_receiving f then Some f
      else map_option (\<lambda>n. add_chunk n (drop 5 view) f) (size_field view))"

text \<open>How a file is cut for sending: parts of the largest payload, each behind its type and the file's size.\<close>

function parts :: "nat \<Rightarrow> 8 word list \<Rightarrow> 8 word list list" where
  "parts n [] = []"
| "parts n (b # bs) = take (Suc n) (b # bs) # parts n (drop n bs)"
  by pat_completeness auto
termination by (relation "measure (\<lambda>(n, bs). length bs)") auto

definition chunk_message :: "8 word \<Rightarrow> nat \<Rightarrow> 8 word list \<Rightarrow> 8 word list" where
  "chunk_message ty n part = ty # nat_bytes 4 n @ part"

definition file_messages :: "8 word \<Rightarrow> 8 word list \<Rightarrow> 8 word list list" where
  "file_messages ty bs = map (chunk_message ty (length bs)) (parts (nat max_payload - 1) bs)"

fun receive_all :: "8 word list list \<Rightarrow> transfer \<Rightarrow> transfer option" where
  "receive_all [] f = Some f"
| "receive_all (m # ms) f = Option.bind (setContentsFromBytes m f) (receive_all ms)"

section \<open>Freeze frames\<close>

text \<open>\<open>fz_jpeg\<close> is \<open>None\<close> for \<open>undefined\<close>; \<open>fz_shown\<close> is the list of pictures handed to the element.\<close>

record freeze =
  fz_receiving :: bool
  fz_size :: int
  fz_jpeg :: "8 word list option"
  fz_valid :: bool
  fz_display :: bool
  fz_loaded :: "8 word list list"

definition new_freeze :: freeze where
  "new_freeze = \<lparr>fz_receiving = False, fz_size = 0, fz_jpeg = None, fz_valid = False, fz_display = False, fz_loaded = []\<rparr>"

definition showFreezeFrame :: "freeze \<Rightarrow> freeze" where
  "showFreezeFrame z = (if fz_valid z then z\<lparr>fz_display := True\<rparr> else z)"

definition hideFreezeFrame :: "freeze \<Rightarrow> freeze" where
  "hideFreezeFrame z = z\<lparr>fz_valid := False, fz_display := False\<rparr>"

definition updateFreezeFrameAndShow :: "8 word list \<Rightarrow> freeze \<Rightarrow> freeze" where
  "updateFreezeFrameAndShow jpeg z = z\<lparr>fz_loaded := fz_loaded z @ [jpeg]\<rparr>"

definition start_freeze :: "freeze \<Rightarrow> freeze" where
  "start_freeze z =
     (if fz_receiving z then z else z\<lparr>fz_receiving := True, fz_valid := False, fz_size := 0, fz_jpeg := None\<rparr>)"

definition add_jpeg :: "int \<Rightarrow> 8 word list \<Rightarrow> freeze \<Rightarrow> freeze" where
  "add_jpeg n part z =
     (let z = z\<lparr>fz_size := n\<rparr>;
          jpeg = (case fz_jpeg z of Some j \<Rightarrow> j @ part | None \<Rightarrow> part);
          z = (if fz_jpeg z = None then z\<lparr>fz_jpeg := Some jpeg, fz_receiving := True\<rparr> else z\<lparr>fz_jpeg := Some jpeg\<rparr>) in
      if int (length jpeg) = n
      then updateFreezeFrameAndShow jpeg (z\<lparr>fz_receiving := False, fz_valid := True\<rparr>)
      else if n < int (length jpeg) then z\<lparr>fz_jpeg := None, fz_receiving := False\<rparr>
      else z)"

text \<open>The state before the exception of a message that is too short has already been reset.\<close>

definition processFreezeFrameMessage :: "8 word list \<Rightarrow> freeze \<Rightarrow> bool \<times> freeze" where
  "processFreezeFrameMessage view z =
     (let z = start_freeze z in
      case size_field view of None \<Rightarrow> (False, z) | Some n \<Rightarrow> (True, add_jpeg n (drop 5 view) z))"

text \<open>\<open>FreezeFrame.resize\<close>: width, height, left and top of the picture in its player.\<close>

definition resize :: "nat \<Rightarrow> nat \<Rightarrow> nat \<Rightarrow> nat \<Rightarrow> (int \<times> int \<times> int \<times> int) option" where
  "resize cw ch fw fh =
     (if fw = 0 \<or> fh = 0 then None
      else
        let aspect = rat_of_nat fw / rat_of_nat fh in
        if jless (jdiv (Fin (of_nat cw)) (Fin (of_nat ch))) (Fin aspect)
        then let dh = \<lfloor>rat_of_nat cw / aspect\<rfloor> in Some (int cw, dh, 0, \<lfloor>rat_of_int (int ch - dh) * (1 / 2)\<rfloor>)
        else let dw = \<lfloor>rat_of_nat ch * aspect\<rfloor> in Some (dw, int ch, \<lfloor>rat_of_int (int cw - dw) * (1 / 2)\<rfloor>, 0))"

section \<open>What is received\<close>

lemma size_field_chunk [simp]: "n < 2 ^ 31 \<Longrightarrow> size_field (chunk_message ty n part) = Some (int n)"
  by (simp add: size_field_def chunk_message_def getInt32_nat_bytes)

lemma drop_chunk [simp]: "drop 5 (chunk_message ty n part) = part"
  by (simp add: chunk_message_def)

lemma concat_parts [simp]: "concat (parts n bs) = bs"
  by (induction n bs rule: parts.induct) simp_all

lemma length_parts: "int (length (parts n bs)) = \<lceil>rat_of_nat (length bs) / rat_of_nat (Suc n)\<rceil>"
proof (induction n bs rule: parts.induct)
  case (2 n b bs)
  let ?d = "rat_of_nat (Suc n)"
  have IH: "int (length (parts n (drop n bs))) = \<lceil>rat_of_nat (length bs - n) / ?d\<rceil>" using 2 by simp
  show ?case
  proof (cases "n \<le> length bs")
    case True
    then have "rat_of_nat (length (b # bs)) = rat_of_nat (length bs - n) + ?d" by (simp add: of_nat_diff)
    then have "rat_of_nat (length (b # bs)) / ?d = rat_of_nat (length bs - n) / ?d + 1"
      by (simp add: add_divide_distrib del: of_nat_Suc)
    then show ?thesis using IH by (simp del: of_nat_Suc)
  next
    case False
    then have "0 < rat_of_nat (length (b # bs)) / ?d" "rat_of_nat (length (b # bs)) / ?d \<le> 1" by simp_all
    then have "\<lceil>rat_of_nat (length (b # bs)) / ?d\<rceil> = 1" by (simp add: ceiling_eq_iff del: of_nat_Suc)
    with IH False show ?thesis by simp
  qed
qed simp

lemma receive_parts:
  assumes "n < 2 ^ 31" "fl_receiving f" "ps \<noteq> []"
    "int (length (fl_data f) + length ps) = \<lceil>rat_of_int (int n) / rat_of_int max_payload\<rceil>"
  shows "receive_all (map (chunk_message ty n) ps) f = Some (f\<lparr>fl_receiving := False, fl_valid := True,
    fl_chunks := int (length (fl_data f) + length ps), fl_data := fl_data f @ ps\<rparr>)"
  using assms(2-4)
proof (induction ps arbitrary: f)
  case (Cons p ps)
  let ?c = "\<lceil>rat_of_int (int n) / rat_of_int max_payload\<rceil>"
  let ?f = "f\<lparr>fl_chunks := ?c, fl_data := fl_data f @ [p]\<rparr>"
  show ?case
  proof (cases ps)
    case Nil
    then have "int (length (fl_data ?f)) = ?c" using Cons.prems by simp
    then show ?thesis using assms(1) Cons.prems Nil by (simp add: setContentsFromBytes_def add_chunk_def)
  next
    case (Cons q qs)
    then have "int (length (fl_data ?f)) < ?c" using Cons.prems(3) by simp
    then have "setContentsFromBytes (chunk_message ty n p) f = Some ?f"
      using assms(1) Cons.prems(1) by (simp add: setContentsFromBytes_def add_chunk_def)
    moreover have "receive_all (map (chunk_message ty n) ps) ?f = Some (?f\<lparr>fl_receiving := False, fl_valid := True,
        fl_chunks := int (length (fl_data ?f) + length ps), fl_data := fl_data ?f @ ps\<rparr>)"
      by (rule Cons.IH) (use Cons.prems Cons in simp_all)
    ultimately show ?thesis by simp
  qed
qed simp

lemma file_received:
  assumes "bs \<noteq> []" "length bs < 2 ^ 31" "fl_receiving f" "fl_data f = []"
  shows "\<exists>f'. receive_all (file_messages ty bs) f = Some f' \<and> fl_valid f' \<and> \<not> fl_receiving f'
    \<and> concat (fl_data f') = bs \<and> fl_extension f' = fl_extension f \<and> fl_mimetype f' = fl_mimetype f"
proof -
  let ?ps = "parts (nat max_payload - 1) bs"
  have ne: "?ps \<noteq> []" using assms(1) by (cases bs) simp_all
  have "rat_of_nat (Suc (nat max_payload - 1)) = rat_of_int max_payload" by (simp add: max_payload_def)
  then have "int (length ?ps) = \<lceil>rat_of_int (int (length bs)) / rat_of_int max_payload\<rceil>"
    using length_parts [of "nat max_payload - 1" bs] by simp
  from receive_parts [OF assms(2,3) ne, of ty] this assms(4)
  show ?thesis by (simp add: file_messages_def)
qed

end
