(* ===== verification/Frontend_Input_Results.thy ===== *)
theory Frontend_Input_Results
  imports Frontend_Input_Properties Frontend_Message_Properties Frontend_Transfer
begin

text \<open>What holds of the messages the browser sends, of its pointer, its touches and the files it receives.\<close>

definition demo_conv :: conv where
  "demo_conv = \<lparr>cv_elem = (\<lambda>_. NaN), cv_val = (\<lambda>_. NaN), cv_str = (\<lambda>_. [])\<rparr>"

definition demo_frontend :: frontend where
  "demo_frontend = new_frontend\<lparr>fe_channel := Some ''open''\<rparr>"

section \<open>Messages\<close>

text \<open>
  C29: Over an open data channel and with the tables of a new page, every message of the default protocol
  but two, when its fields hold its elements exactly, is sent as one binary message, its type and then a
  body, and a reader that knows the type's fields reads from the body the elements that were sent; the
  only other effect may be that the inactivity timer is reset. The two are TestEcho, whose handler does
  nothing, and DataChannelLatencyTest, which carries text although no field is declared for it. Fields
  hold exactly the whole numbers of their range, the finite floating-point numbers of their format and
  texts shorter than 65536 units; of fractions in an integer field, or the coordinate 65536, the theorem
  says nothing: they are truncated and wrapped.
\<close>

theorem message_roundtrip:
  assumes "(ty, i, fs) \<in> set default_to" "ty \<notin> {''TestEcho'', ''DataChannelLatencyTest''}" "list_all2 exact fs es"
    "fe_toHandlers fe = fe_toHandlers new_frontend" "fe_toMessages fe = fe_toMessages new_frontend" "fe_channel fe = Some ''open''"
  shows "\<exists>fe' body tail. toStreamer cv ty es fe = Some fe' \<and> fe_out fe' = fe_out fe @ Data (of_nat i # body) # tail
    \<and> tail \<in> {[], [Afk_reset]} \<and> read_message fs body = Some es"
  by (rule default_sent [OF assms])

theorem message_roundtrip_witness:
  "\<exists>fe' body tail. toStreamer demo_conv ''MouseMove'' [num 65535, num 0, ENum (Fin (- 5)), num 7] demo_frontend = Some fe'
    \<and> fe_out fe' = fe_out demo_frontend @ Data (of_nat 74 # body) # tail
    \<and> tail \<in> {[], [Afk_reset]} \<and> read_message [U16, U16, I16, I16] body = Some [num 65535, num 0, ENum (Fin (- 5)), num 7]"
proof (rule message_roundtrip)
  show "(''MouseMove'', 74, [U16, U16, I16, I16]) \<in> set default_to" by (simp add: default_to_def)
  have "exact U16 (num 65535)" "exact U16 (num 0)" unfolding exact.simps num_def by (rule exI [of _ 65535], simp) (rule exI [of _ 0], simp)
  moreover have "exact I16 (ENum (Fin (- 5)))" unfolding exact.simps by (rule exI [of _ "- 5"]) simp
  moreover have "exact I16 (num 7)" unfolding exact.simps num_def by (rule exI [of _ 7]) simp
  ultimately show "list_all2 exact [U16, U16, I16, I16] [num 65535, num 0, ENum (Fin (- 5)), num 7]" by simp
qed (simp_all add: demo_frontend_def)

section \<open>Coordinates\<close>

text \<open>
  C35: For a player and a video of any positive sizes, a point of the player is sent as its place within the
  video, in parts of 65536, exactly when it lies on the part of the player that the video, fitted in its
  own proportions, occupies, and translating back gives the point again; a point elsewhere is reported
  as out of range.
\<close>

theorem pointer_coordinates:
  assumes "fitted w h vw vh t"
  shows "if visible w h vw vh x y
    then \<exists>u v. translateUnsigned t (Fin x) (Fin y) = (True, Fin u, Fin v) \<and> 0 \<le> u \<and> u \<le> 65536 \<and> 0 \<le> v \<and> v \<le> 65536
      \<and> untranslateUnsigned t (Fin u) (Fin v) = (Fin x, Fin y)
    else translateUnsigned t (Fin x) (Fin y) = (False, Fin 65535, Fin 65535)"
  by (rule translate_spec [OF assms])

text \<open>A square video in a player twice as wide: a point beside the video, and one on it.\<close>

theorem pointer_coordinates_witness:
  "translateUnsigned (reconfigure (Fin 200, Fin 100) (Fin 50, Fin 50)) (Fin 49) (Fin 50) = (False, Fin 65535, Fin 65535)
   \<and> fst (translateUnsigned (reconfigure (Fin 200, Fin 100) (Fin 50, Fin 50)) (Fin 50) (Fin 100))"
proof -
  have f: "fitted 200 100 50 50 (reconfigure (Fin 200, Fin 100) (Fin 50, Fin 50))" by (simp add: fitted_def)
  have "\<not> visible 200 100 50 50 49 50" "visible 200 100 50 50 50 100" by (simp_all add: visible_def Let_def)
  then show ?thesis using pointer_coordinates [OF f, of 49 50] pointer_coordinates [OF f, of 50 100] by auto
qed

section \<open>The locked pointer\<close>

text \<open>
  C36: While the pointer is locked, a movement is handled, that is, the loops that bring the coordinates
  back into the player end, exactly when the player has an extent in each direction in which the
  position is not already at the edge; and then the position is within the player afterwards.
\<close>

theorem locked_pointer_wraps:
  assumes "0 \<le> w" "0 \<le> h" "me_ready e"
  shows "(locked_move cv t w h e (l, fe) \<noteq> None
      \<longleftrightarrow> (0 < w \<or> lo_x l + me_movementX e = 0) \<and> (0 < h \<or> lo_y l + me_movementY e = 0))
    \<and> (\<forall>b l' fe'. locked_move cv t w h e (l, fe) = Some (b, (l', fe'))
        \<longrightarrow> 0 \<le> lo_x l' \<and> lo_x l' \<le> w \<and> 0 \<le> lo_y l' \<and> lo_y l' \<le> h)"
  using locked_move_returns [OF assms] locked_move_within [OF assms] by blast

definition demo_move :: "rat \<Rightarrow> mouse_event" where
  "demo_move dx = \<lparr>me_ready = True, me_button = 0, me_buttons = 0, me_x = Fin 0, me_y = Fin 0, me_offsetX = Fin 0, me_offsetY = Fin 0,
     me_clientX = Fin 0, me_clientY = Fin 0, me_movementX = dx, me_movementY = 0, me_wheelDelta = Fin 0, me_rectLeft = Fin 0,
     me_rectTop = Fin 0\<rparr>"

text \<open>A long way to the left in a real player ends within it; any way at all in one of no width never ends.\<close>

theorem locked_pointer_wraps_witness:
  "(\<exists>b l' fe'. locked_move demo_conv None 640 480 (demo_move (- 5000)) (new_locked (reconfigure (Fin 640, Fin 480) (Fin 640, Fin 480)) 640 480, demo_frontend)
     = Some (b, (l', fe')) \<and> 0 \<le> lo_x l' \<and> lo_x l' \<le> 640)
   \<and> locked_move demo_conv None 0 480 (demo_move 1) (new_locked (reconfigure (Fin 640, Fin 480) (Fin 640, Fin 480)) 0 480, demo_frontend) = None"
  (is "?real \<and> ?flat")
proof
  have x: "lo_x (new_locked t 0 h) = 0" for t h by (simp add: new_locked_def split: prod.split)
  show ?real
    using locked_pointer_wraps [of 640 480 "demo_move (- 5000)" demo_conv None
        "new_locked (reconfigure (Fin 640, Fin 480) (Fin 640, Fin 480)) 640 480" demo_frontend]
    by (simp add: demo_move_def) blast
  let ?l = "new_locked (reconfigure (Fin 640, Fin 480) (Fin 640, Fin 480)) 0 480"
  have r: "me_ready (demo_move 1)" by (simp add: demo_move_def)
  have "\<not> ((0 < (0 :: rat) \<or> lo_x ?l + me_movementX (demo_move 1) = 0) \<and> (0 < (480 :: rat) \<or> lo_y ?l + me_movementY (demo_move 1) = 0))"
    by (simp add: x demo_move_def)
  moreover have "0 \<le> (480 :: rat)" by simp
  note locked_pointer_wraps [OF order_refl this r, of demo_conv None ?l demo_frontend]
  ultimately show ?flat by blast
qed

section \<open>Touches\<close>

text \<open>
  As long as the browser reports at most ten touches at a time, new ones as new and ends only of
  touches it has reported, every touch that is down has a number below ten of its own, the pool holds the
  other numbers, and the next touch gets the smallest of them.
\<close>

theorem touch_numbers:
  assumes "touching cv tr rect s"
  shows "fingers_ok (fst s)
    \<and> (\<forall>t. to_identifier t \<notin> active_touches (fst s) \<longrightarrow> length (fi_ids (fst s)) < 10 \<longrightarrow>
        (\<exists>n. fingerOf (rememberTouch t (fst s)) (to_identifier t) = Some n \<and> n < 10
          \<and> n \<notin> set (finger_numbers (fst s)) \<and> (\<forall>k < n. k \<in> set (finger_numbers (fst s)))))"
proof -
  have ok: "fingers_ok (fst s)" by (rule touching_ok [OF assms])
  then show ?thesis using remember_ok(2) [OF ok] by (simp add: active_touches_def)
qed

definition demo_touch :: "int \<Rightarrow> touch" where
  "demo_touch i = \<lparr>to_identifier = i, to_clientX = Fin 1, to_clientY = Fin 1, to_force = 1\<rparr>"

text \<open>
  Two fingers go down, the first is lifted, and the next one gets its number; the streamer has taken the
  touches out of its protocol, so that nothing is sent.
\<close>

definition mute_frontend :: frontend where
  "mute_frontend = new_frontend\<lparr>fe_toMessages := []\<rparr>"

lemma mute_send: "ty \<in> {''TouchStart'', ''TouchEnd''} \<Longrightarrow> send cv ty es (f, mute_frontend) = (True, (f, mute_frontend))"
  by (auto simp: send_def toStreamer_def mute_frontend_def new_handlers registered_to_def registered_input_def
      registered_control_def sendMessageToStreamer_def map_get_def)

lemma mute_touches:
  "ty \<in> {''TouchStart'', ''TouchEnd''} \<Longrightarrow> emitTouchData cv (Some tr) rect True ty ts (f, mute_frontend) = (True, (f, mute_frontend))"
proof (induction ts)
  case (Cons t ts)
  have "emit_touch cv (Some tr) rect ty t (f, mute_frontend) = (True, (f, mute_frontend))"
    by (simp add: emit_touch_def with_coord_def mute_send [OF Cons.prems] split: prod.split)
  with Cons show ?case by (simp add: emitTouchData_def andThen_def)
qed (simp add: emitTouchData_def)

theorem touch_numbers_witness:
  "\<exists>s tr. touching demo_conv (Some tr) (Fin 0, Fin 0) s \<and> fi_ids (fst s) = [(8, Some 1)]
     \<and> fingerOf (rememberTouch (demo_touch 9) (fst s)) 9 = Some 0"
proof -
  let ?tr = "reconfigure (Fin 1, Fin 1) (Fin 1, Fin 1)"
  let ?s1 = "snd (onTouchStart demo_conv (Some ?tr) (Fin 0, Fin 0) True [demo_touch 7, demo_touch 8] (new_fingers, mute_frontend))"
  let ?f1 = "new_fingers\<lparr>fi_pool := map Some [9, 8, 7, 6, 5, 4, 3, 2], fi_ids := [(7, Some 0), (8, Some 1)]\<rparr>"
  let ?s2 = "snd (onTouchEnd demo_conv (Some ?tr) (Fin 0, Fin 0) True [demo_touch 7] ?s1)"
  have s1: "?s1 = (?f1, mute_frontend)"
    by (simp add: onTouchStart_def andThen_def modify_def mute_touches new_fingers_def rememberTouch_def demo_touch_def)
  have t1: "touching demo_conv (Some ?tr) (Fin 0, Fin 0) ?s1"
    by (rule touching.down [OF touching.new]) (simp_all add: demo_touch_def active_touches_def new_fingers_def)
  have "to_identifier ` set [demo_touch 7] \<subseteq> active_touches (fst ?s1)" unfolding s1 by (simp add: demo_touch_def active_touches_def)
  then have t2: "touching demo_conv (Some ?tr) (Fin 0, Fin 0) ?s2" by (intro touching.up [OF t1]) simp
  have i2: "fi_ids (fst ?s2) = [(8, Some 1)]" unfolding s1
    by (simp add: onTouchEnd_def mute_touches andThen_def modify_def forgetTouch_def demo_touch_def map_delete_def)
  define s where "s = ?s2"
  have s: "touching demo_conv (Some ?tr) (Fin 0, Fin 0) s" "fi_ids (fst s) = [(8, Some 1)]" using t2 i2 by (simp_all only: s_def)
  have "to_identifier (demo_touch 9) = 9" "to_identifier (demo_touch 9) \<notin> active_touches (fst s)" "length (fi_ids (fst s)) < 10"
    by (simp_all add: demo_touch_def active_touches_def s(2))
  with touch_numbers [OF s(1)] obtain n where n: "fingerOf (rememberTouch (demo_touch 9) (fst s)) 9 = Some n"
    "\<forall>k < n. k \<in> set (finger_numbers (fst s))" by metis
  then have "\<forall>k < n. k = 1" by (simp add: finger_numbers_def s(2))
  then have "n = 0" by (cases n) auto
  with n(1) s show ?thesis by blast
qed

section \<open>Files\<close>

text \<open>
  A file of any content that is not empty, shorter than two gigabytes and cut into the chunks of the data
  channel is put together again: after the last chunk the transfer is over, marked valid, and holds the
  bytes of the file, with the extension and the type it was announced with.
\<close>

theorem file_transfer_roundtrip:
  assumes "bs \<noteq> []" "length bs < 2 ^ 31" "fl_receiving f" "fl_data f = []"
  shows "\<exists>f'. receive_all (file_messages ty bs) f = Some f' \<and> fl_valid f' \<and> \<not> fl_receiving f'
    \<and> concat (fl_data f') = bs \<and> fl_extension f' = fl_extension f \<and> fl_mimetype f' = fl_mimetype f"
  by (rule file_received [OF assms])

theorem file_transfer_roundtrip_witness:
  "\<exists>f'. receive_all (file_messages 10 [1, 2, 3]) (setExtensionFromBytes (\<lambda>_. ''.txt'') [] new_file) = Some f'
    \<and> fl_valid f' \<and> concat (fl_data f') = [1, 2, 3] \<and> fl_extension f' = ''.txt''"
  using file_transfer_roundtrip [of "[1, 2, 3]" "setExtensionFromBytes (\<lambda>_. ''.txt'') [] new_file" 10]
  by (auto simp: setExtensionFromBytes_def start_file_def new_file_def)

end
