(* ===== verification/Viewer_Idle.thy ===== *)
theory Viewer_Idle
  imports Connect_Ticket_Gate Effects
begin

text \<open>
  \<open>SignallingWebServer/src/viewer-idle-stop.ts\<close>, the automation that stops or recycles an instance without
  viewers: its options, its state and the questions it asks of it. The closure variables of
  \<open>wireViewerIdleStop\<close> are the fields of one record; the player registry, the ticket gate
  (\<open>Connect_Ticket_Runtime\<close>), the recycle marker file (\<open>Recycle_State\<close>) and the instance agent's current
  command are beside them. What the host does in a step is a parameter. Log texts are left out.
\<close>

section \<open>Options\<close>

fun parseBoolean :: "jsval \<Rightarrow> bool \<Rightarrow> bool" where
  "parseBoolean (JBool b) fallback = b"
| "parseBoolean (JStr s) fallback =
     (let t = to_lower (trim s) in
      if t \<in> {''1'', ''true'', ''yes'', ''on''} then True
      else if t \<in> {''0'', ''false'', ''no'', ''off''} then False else fallback)"
| "parseBoolean _ fallback = fallback"

text \<open>\<open>text\<close> is the text of a value: \<open>String(v)\<close>, or the tag of an object.\<close>

definition parseNonNegativeInteger :: "(jsval \<Rightarrow> string) \<Rightarrow> jsval \<Rightarrow> int \<Rightarrow> int" where
  "parseNonNegativeInteger text v fallback =
     (if v \<in> {JUndef, JNull, JStr []} then fallback
      else case parse_int (text v) of None \<Rightarrow> fallback | Some i \<Rightarrow> if i < 0 then fallback else i)"

definition or_value :: "jsval \<Rightarrow> jsval \<Rightarrow> jsval" where
  "or_value a b = (if a \<in> {JUndef, JNull} then b else a)"

record idle_config =
  ic_enabled :: bool
  ic_graceMs :: int
  ic_firstViewerGraceMs :: int
  ic_firstViewerDelayMs :: int
  ic_stopRetryMs :: int
  ic_idleStatusHeartbeatMs :: int
  ic_resetGraceMs :: int
  ic_maintenanceRefreshMs :: int
  ic_desiredStateRefreshMs :: int
  ic_logTimeoutMs :: int
  ic_screenshotTimeoutMs :: int
  ic_dryRun :: bool
  ic_maintenanceTagKey :: string
  ic_desiredStatePath :: string

definition idle_options :: "(jsval \<Rightarrow> string) \<Rightarrow> jsval \<Rightarrow> jsval \<Rightarrow> idle_config" where
  "idle_options text options env =
     (let number = (\<lambda>key name fallback. parseNonNegativeInteger text (or_value (fld options key) (fld env name)) fallback);
          shared = fld env ''VIEWER_IDLE_SHUTDOWN_ARTIFACT_CAPTURE_TIMEOUT_MS'' in
      \<lparr>ic_enabled = parseBoolean (or_value (or_value (fld options ''enabled'') (fld env ''VIEWER_IDLE_STOP_ENABLED'')) (JBool True)) True,
       ic_graceMs = number ''graceMs'' ''VIEWER_IDLE_GRACE_MS'' (5 * 60000),
       ic_firstViewerGraceMs = number ''firstViewerGraceMs'' ''VIEWER_IDLE_FIRST_VIEWER_GRACE_MS'' (5 * 60000),
       ic_firstViewerDelayMs = number ''firstViewerDelayMs'' ''VIEWER_IDLE_FIRST_VIEWER_DELAY_MS'' 0,
       ic_stopRetryMs = number ''stopRetryMs'' ''VIEWER_IDLE_STOP_RETRY_MS'' 60000,
       ic_idleStatusHeartbeatMs = number ''idleStatusHeartbeatMs'' ''VIEWER_IDLE_STATUS_HEARTBEAT_MS'' 60000,
       ic_resetGraceMs = number ''resetGraceMs'' ''VIEWER_IDLE_RESET_GRACE_MS'' 15000,
       ic_maintenanceRefreshMs = number ''maintenanceRefreshMs'' ''VIEWER_IDLE_MAINTENANCE_REFRESH_MS'' 60000,
       ic_desiredStateRefreshMs = number ''desiredStateRefreshMs'' ''VIEWER_IDLE_DESIRED_STATE_REFRESH_MS'' 5000,
       ic_logTimeoutMs = parseNonNegativeInteger text (or_value (fld options ''shutdownLogArtifactCaptureTimeoutMs'')
           (or_value (fld env ''VIEWER_IDLE_SHUTDOWN_LOG_ARTIFACT_CAPTURE_TIMEOUT_MS'') shared)) 30000,
       ic_screenshotTimeoutMs = parseNonNegativeInteger text (or_value (fld options ''shutdownScreenshotArtifactCaptureTimeoutMs'')
           (or_value (fld env ''VIEWER_IDLE_SHUTDOWN_SCREENSHOT_ARTIFACT_CAPTURE_TIMEOUT_MS'') shared)) 120000,
       ic_dryRun = parseBoolean (or_value (or_value (fld options ''dryRun'') (fld env ''VIEWER_IDLE_STOP_DRY_RUN'')) (JBool False)) False,
       ic_maintenanceTagKey = trim (text (or_value (or_value (fld options ''maintenanceTagKey'') (fld env ''VIEWER_IDLE_MAINTENANCE_TAG_KEY''))
           (JStr ''ScaleWorldMaintenanceMode''))),
       ic_desiredStatePath = trim (text (or_value (or_value (fld options ''desiredStatePath'') (fld env ''VIEWER_IDLE_DESIRED_STATE_PATH''))
           (JStr [])))\<rparr>)"

section \<open>Parameters of a step\<close>

text \<open>The host: which collaborators there are, the process, ISO dates of milliseconds, and fresh ids.\<close>

record idle_host = idle_config +
  ih_gate :: gate_config
  ih_iso :: "int \<Rightarrow> string"
  ih_uuid :: "nat \<Rightarrow> string"
  ih_pid :: int
  ih_client :: bool
  ih_publisher :: bool
  ih_controller :: bool

text \<open>
  The outcomes within one step: the time, each write of the gate, the agent's record of evidence, the
  marker's write and removal, whether the recycle scripts are there, and whether \<open>spawn\<close> returned.
\<close>

record idle_call = idle_host +
  oc_now :: int
  oc_mark :: "nat \<Rightarrow> replace_run"
  oc_evidence :: bool
  oc_write :: replace_run
  oc_unlink :: unlink_run
  oc_scripts :: bool
  oc_spawn :: bool

section \<open>State\<close>

record viewer =
  vw_sessionId :: "string option"
  vw_sessionRequestId :: "string option"
  vw_identityValidated :: bool
  vw_activeValidated :: bool
  vw_negotiationPending :: bool

record identity =
  mi_sessionRequestId :: string
  mi_activeSessionId :: "string option"

datatype window_phase = Inactive | Waiting | Persisting_elapsed | Elapsed

record grace_window =
  gw_disconnectedAt :: int
  gw_expiresAt :: int
  gw_identity :: "identity option"
  gw_evidenceId :: string

text \<open>What is to be done when the deadline is durable, and what the reconnect timer was started for.\<close>

datatype continuation =
    Cont_stop string "string option"
  | Cont_reset "identity option"
  | Cont_warm "identity option"

record stop_timer =
  st_reason :: string
  st_artifact :: "string option"
  st_window :: bool
  st_identity :: "identity option"

record grace_timer =
  gr_warm :: bool
  gr_window :: bool
  gr_identity :: "identity option"

text \<open>The asynchronous functions that wait, with what they will need.\<close>

datatype task =
    T_maintenance
  | T_settled bool "identity option"
  | T_recycle_started command "marker option" "string option"
  | T_launched_started command
  | T_stop_started bool string "string option" command
  | T_stop_captured bool string
  | T_stop_requested bool string
  | T_stop_completed
  | T_stop_failure_captured bool command
  | T_stop_failure_reported bool
  | T_resume_refused
  | T_tracked command command bool
  | T_command command "command option"
  | T_acknowledged command

datatype idle_effect =
    Fx_status string string bool
  | Fx_restored bool
  | Fx_window "(int \<times> int) option"
  | Fx_evidence string identity int int
  | Fx_cutoff string
  | Fx_fastPolling int
  | Fx_disconnect string string
  | Fx_acknowledge string
  | Fx_start string
  | Fx_complete string
  | Fx_fail string string
  | Fx_capture string "string option" "string option" bool
  | Fx_stop_begins string
  | Fx_stop string bool
  | Fx_recycle_begins
  | Fx_spawn string
  | Fx_committed
  | Fx_rearmed
  | Fx_recovered
  | Fx_first_viewer_timeout evidence_status
  | Fx_exit

record idle =
  vi_zeroViewersTimer :: "stop_timer option"
  vi_firstViewerTimer :: bool
  vi_heartbeat :: "(string \<times> string) option"
  vi_reconnectGraceTimer :: "grace_timer option"
  vi_resetTimer :: bool
  vi_phase :: window_phase
  vi_window :: "grace_window option"
  vi_evidenceRetryTimer :: bool
  vi_evidenceRetryAttempts :: nat
  vi_continuation :: "continuation option"
  vi_committed :: bool
  vi_cutoffDurable :: bool
  vi_exitTimer :: bool
  vi_launchRetryTimer :: bool
  vi_launchRetryAttempts :: nat
  vi_launchInFlight :: bool
  vi_stopInFlight :: bool
  vi_hasSeenViewer :: bool
  vi_hasSeenManaged :: bool
  vi_lastRequestId :: "string option"
  vi_lastObservedAt :: "int option"
  vi_identities :: "(string \<times> identity) list"
  vi_maintenance :: "string option"
  vi_maintenanceInitialized :: bool
  vi_maintenanceInFlight :: bool
  vi_desired :: desired_state
  vi_recoveredToken :: "string option"
  vi_clientCommand :: "command option"
  vi_observed :: "command option"
  vi_pendingToken :: "string option"
  vi_resetInFlight :: bool
  vi_launchRequested :: bool
  vi_passiveRequested :: bool
  vi_resumeRequested :: bool
  vi_players :: "(string \<times> viewer) list"
  vi_ticketGate :: "gate option"
  vi_markerFile :: file_state
  vi_tasks :: "task list"
  vi_calls :: nat
  vi_uuids :: nat
  vi_log :: "idle_effect list"

text \<open>Whether a function returned, or raised, and the state it left.\<close>

type_synonym idle_op = "idle \<Rightarrow> bool \<times> idle"

abbreviation skip :: idle_op where
  "skip \<equiv> Pair True"

definition noting :: "idle_effect \<Rightarrow> idle \<Rightarrow> idle" where
  "noting e s = s\<lparr>vi_log := vi_log s @ [e]\<rparr>"

definition waiting_for :: "task \<Rightarrow> idle \<Rightarrow> idle" where
  "waiting_for t s = s\<lparr>vi_tasks := vi_tasks s @ [t]\<rparr>"

section \<open>Texts\<close>

text \<open>\<open>replace(/[^a-z0-9]+/gi, '_')\<close>\<close>

fun underscored :: "bool \<Rightarrow> string \<Rightarrow> string" where
  "underscored inside [] = []"
| "underscored inside (c # cs) =
     (if is_digit c \<or> (let n = (of_char (lower_char c) :: nat) in 97 \<le> n \<and> n \<le> 122) then c # underscored False cs
      else if inside then underscored True cs else CHR ''_'' # underscored True cs)"

definition mapPendingReason :: "string \<Rightarrow> string" where
  "mapPendingReason reason =
     (if reason = ''grace-after-last-viewer'' then ''grace_after_last_viewer''
      else if reason = ''retry-after-failure'' then ''retry_after_stop_failure''
      else if reason = ''no-viewer-ever-connected'' then ''waiting_for_first_viewer_timeout''
      else to_lower (underscored False reason))"

definition mapStopReason :: "string \<Rightarrow> string" where
  "mapStopReason reason =
     (if reason = ''grace-after-last-viewer'' then ''idle_timeout''
      else if reason = ''retry-after-failure'' then ''retry_after_stop_failure''
      else if reason = ''no-viewer-ever-connected'' then ''no_viewer_ever_connected''
      else to_lower (underscored False reason))"

definition resolveFirstViewerTimeoutStopReason :: "evidence_status \<Rightarrow> string" where
  "resolveFirstViewerTimeoutStopReason e = (case e of
     Evidence_present \<Rightarrow> ''managed-viewer-history-continuity-lost''
   | Evidence_unavailable \<Rightarrow> ''managed-viewer-evidence-unavailable''
   | No_evidence \<Rightarrow> ''no-viewer-ever-connected'')"

definition opt_text_of :: "string option \<Rightarrow> string option" where
  "opt_text_of v = normalizeOptionalText (opt_str v)"

definition canExecuteAcknowledgedInstanceCommand :: "string option \<Rightarrow> bool" where
  "canExecuteAcknowledgedInstanceCommand status \<longleftrightarrow> map_option to_lower (opt_text_of status) \<in> {Some ''acked'', Some ''running''}"

end
