(* ===== verification/Viewer_Idle_Queries.thy ===== *)
theory Viewer_Idle_Queries
  imports Viewer_Idle
begin

text \<open>
  What \<open>viewer-idle-stop.ts\<close> asks of its state: commands and recycle tokens, the recycle marker, the
  managed session, and the reconnect window. A question that reads the marker raises when the file is
  unreadable; \<open>None\<close> is that exception.
\<close>

section \<open>Commands and tokens\<close>

definition recycle_to_warm :: "command \<Rightarrow> bool" where
  "recycle_to_warm c \<longleftrightarrow> to_lower (trim (cm_commandType c)) = ''recycletowarm''"

definition isShutdownCommand :: "command \<Rightarrow> bool" where
  "isShutdownCommand c \<longleftrightarrow> to_lower (trim (cm_commandType c)) = ''shutdown''"

definition commandMatchesCurrentManagedSession :: "idle_call \<Rightarrow> command \<Rightarrow> idle \<Rightarrow> bool" where
  "commandMatchesCurrentManagedSession x c s =
     (case (opt_text_of (cm_sessionRequestId c), vi_lastRequestId s) of
        (Some r, Some l) \<Rightarrow>
          l = [] \<or> to_lower r = to_lower l
          \<or> (case vi_lastObservedAt s of
               None \<Rightarrow> True
             | Some t \<Rightarrow> (case gc_dp (ih_gate x) (trim (cm_requestedAtUtc c)) of None \<Rightarrow> True | Some r \<Rightarrow> t - 5000 < r))
      | _ \<Rightarrow> True)"

definition readActiveCommand :: "idle \<Rightarrow> command option" where
  "readActiveCommand s = or_else (vi_clientCommand s) (vi_observed s)"

definition recycleTokenStatus :: "idle_call \<Rightarrow> string option \<Rightarrow> idle \<Rightarrow> token_status" where
  "recycleTokenStatus x token s =
     (if opt_text_of token = None then Open_token
      else case vi_ticketGate s of
        None \<Rightarrow> Unavailable
      | Some g \<Rightarrow> completedRecycleTokenStatus (ih_gate x) (opt_str (opt_text_of token)) (gt_file g))"

definition recycleTokensMatch :: "string option \<Rightarrow> string option \<Rightarrow> bool" where
  "recycleTokensMatch a b \<longleftrightarrow>
     normalizeRecycleToken (opt_str a) \<noteq> None \<and> normalizeRecycleToken (opt_str a) = normalizeRecycleToken (opt_str b)"

definition getActiveRecycleCommand :: "idle_call \<Rightarrow> idle \<Rightarrow> command option" where
  "getActiveRecycleCommand x s = (case readActiveCommand s of
     None \<Rightarrow> None
   | Some c \<Rightarrow>
       if recycle_to_warm c \<and> commandMatchesCurrentManagedSession x c s
          \<and> recycleTokenStatus x (Some (cm_instanceCommandId c)) s = Open_token
       then Some c else None)"

definition getActiveShutdownCommand :: "idle_call \<Rightarrow> idle \<Rightarrow> command option" where
  "getActiveShutdownCommand x s = (case readActiveCommand s of
     None \<Rightarrow> None
   | Some c \<Rightarrow> if isShutdownCommand c \<and> commandMatchesCurrentManagedSession x c s then Some c else None)"

section \<open>Recycles\<close>

definition readRecycleMarker :: "idle_call \<Rightarrow> idle \<Rightarrow> string + marker option" where
  "readRecycleMarker x s = readMarker (gc_dp (ih_gate x)) (ih_iso x) (vi_markerFile s)"

definition hasRecycleLaunchMarker :: "idle_call \<Rightarrow> idle \<Rightarrow> bool option" where
  "hasRecycleLaunchMarker x s = (case readRecycleMarker x s of
     Inl e \<Rightarrow> None | Inr m \<Rightarrow> Some (isReplacementProof m (ih_pid x)))"

definition hasRecycleLaunchInProgress :: "idle_call \<Rightarrow> idle \<Rightarrow> bool option" where
  "hasRecycleLaunchInProgress x s = (if vi_launchRequested s then Some True else hasRecycleLaunchMarker x s)"

definition isRecoveredRecycleTokenStillInProgress :: "idle_call \<Rightarrow> string option \<Rightarrow> idle \<Rightarrow> bool option" where
  "isRecoveredRecycleTokenStillInProgress x token s =
     (if recycleTokensMatch token (vi_recoveredToken s) then hasRecycleLaunchMarker x s else Some False)"

definition canHoldWarmReadyWithoutShutdown :: "idle \<Rightarrow> bool" where
  "canHoldWarmReadyWithoutShutdown s \<longleftrightarrow> ds_warmHoldEnabled (vi_desired s) \<and> \<not> ds_drainEnabled (vi_desired s)
     \<and> \<not> ds_shutdownRequested (vi_desired s)"

definition hasPendingImmediateRecycle :: "idle_call \<Rightarrow> idle \<Rightarrow> bool" where
  "hasPendingImmediateRecycle x s \<longleftrightarrow> vi_pendingToken s \<noteq> None
     \<and> recycleTokensMatch (vi_pendingToken s) (ds_recycleRequestedToken (vi_desired s))
     \<and> recycleTokenStatus x (vi_pendingToken s) s \<noteq> Completed"

definition hasImmediateRecycleRequest :: "idle_call \<Rightarrow> idle \<Rightarrow> bool option" where
  "hasImmediateRecycleRequest x s =
     (if hasPendingImmediateRecycle x s then map_option Not (hasRecycleLaunchInProgress x s) else Some False)"

definition hasPassiveReconnectRecycleRequest :: "idle_call \<Rightarrow> idle \<Rightarrow> bool option" where
  "hasPassiveReconnectRecycleRequest x s =
     (if vi_passiveRequested s then map_option Not (hasRecycleLaunchInProgress x s) else Some False)"

definition hasExplicitRecycleIntent :: "idle_call \<Rightarrow> idle \<Rightarrow> bool option" where
  "hasExplicitRecycleIntent x s =
     (if getActiveRecycleCommand x s \<noteq> None then Some True else hasImmediateRecycleRequest x s)"

definition hasRecycleIntent :: "idle_call \<Rightarrow> idle \<Rightarrow> bool option" where
  "hasRecycleIntent x s = (case hasExplicitRecycleIntent x s of
     None \<Rightarrow> None | Some b \<Rightarrow> if b then Some True else hasPassiveReconnectRecycleRequest x s)"

definition shouldSuppressNoViewerIdleAutomation :: "idle_call \<Rightarrow> idle \<Rightarrow> bool option" where
  "shouldSuppressNoViewerIdleAutomation x s =
     (if canHoldWarmReadyWithoutShutdown s \<and> getActiveShutdownCommand x s = None
      then map_option Not (hasRecycleIntent x s) else Some False)"

definition isWarmHoldActive :: "idle_call \<Rightarrow> idle \<Rightarrow> bool option" where
  "isWarmHoldActive x s = map_option (\<lambda>b. b \<and> \<not> vi_hasSeenViewer s) (shouldSuppressNoViewerIdleAutomation x s)"

definition shouldResetIntoWarmReady :: "idle_call \<Rightarrow> idle \<Rightarrow> bool option" where
  "shouldResetIntoWarmReady = hasRecycleIntent"

section \<open>Viewers\<close>

definition viewers :: "idle \<Rightarrow> nat" where
  "viewers s = length (vi_players s)"

definition isMaintenanceActive :: "idle \<Rightarrow> bool" where
  "isMaintenanceActive s \<longleftrightarrow> opt_text_of (vi_maintenance s) \<noteq> None"

text \<open>\<open>!maintenanceStateInitialized || isMaintenanceActive()\<close>\<close>

definition suspended :: "idle \<Rightarrow> bool" where
  "suspended s \<longleftrightarrow> \<not> vi_maintenanceInitialized s \<or> isMaintenanceActive s"

definition readValidatedManagedSessionViewerIdentity :: "string \<Rightarrow> idle \<Rightarrow> identity option" where
  "readValidatedManagedSessionViewerIdentity player s = (case opt_text_of (Some player) of
     None \<Rightarrow> None
   | Some p \<Rightarrow> (case map_get (vi_players s) p of
       None \<Rightarrow> None
     | Some v \<Rightarrow> (case opt_text_of (vw_sessionRequestId v) of
         None \<Rightarrow> None
       | Some r \<Rightarrow>
           if \<not> vw_identityValidated v then None
           else Some \<lparr>mi_sessionRequestId = r,
             mi_activeSessionId = (if vw_activeValidated v then opt_text_of (vw_sessionId v) else None)\<rparr>)))"

definition same_request :: "identity \<Rightarrow> string \<Rightarrow> bool" where
  "same_request i r \<longleftrightarrow> to_lower (mi_sessionRequestId i) = to_lower r"

definition countManagedSessionViewers :: "string option \<Rightarrow> idle \<Rightarrow> nat" where
  "countManagedSessionViewers request s =
     length (filter (\<lambda>(p, i). case opt_text_of request of None \<Rightarrow> True | Some r \<Rightarrow> same_request i r) (vi_identities s))"

definition negotiating :: "string \<Rightarrow> idle \<Rightarrow> bool" where
  "negotiating player s = (case map_get (vi_players s) player of None \<Rightarrow> False | Some v \<Rightarrow> vw_negotiationPending v)"

definition hasViewerThatCancelsReconnectGrace :: "identity option \<Rightarrow> idle \<Rightarrow> bool" where
  "hasViewerThatCancelsReconnectGrace i s = (case i of
     Some m \<Rightarrow> list_ex (\<lambda>(p, j). same_request j (mi_sessionRequestId m) \<and> \<not> negotiating p s) (vi_identities s)
   | None \<Rightarrow> 0 < viewers s)"

definition markManagedSessionViewer :: "idle_call \<Rightarrow> string \<Rightarrow> bool \<Rightarrow> idle \<Rightarrow> identity option \<times> idle" where
  "markManagedSessionViewer x player storedOnly s = (case opt_text_of (Some player) of
     None \<Rightarrow> (None, s)
   | Some p \<Rightarrow>
       if storedOnly then (map_get (vi_identities s) p, s)
       else case readValidatedManagedSessionViewerIdentity p s of
         None \<Rightarrow> (None, s\<lparr>vi_identities := map_delete p (vi_identities s)\<rparr>)
       | Some i \<Rightarrow> (Some i, s\<lparr>vi_hasSeenManaged := True, vi_lastRequestId := Some (mi_sessionRequestId i),
           vi_lastObservedAt := Some (oc_now x), vi_identities := map_set p i (vi_identities s)\<rparr>))"

definition resolveShutdownArtifactSessionRequestId :: "string \<Rightarrow> string option \<Rightarrow> idle \<Rightarrow> string option" where
  "resolveShutdownArtifactSessionRequestId reason requested s = (case opt_text_of requested of
     Some r \<Rightarrow> Some r
   | None \<Rightarrow> if \<not> vi_hasSeenViewer s \<or> \<not> vi_hasSeenManaged s \<or> reason = ''warm_pool_capacity_release'' then None
       else vi_lastRequestId s)"

definition resolveRecycleMarkerSessionRequestId :: "command option \<Rightarrow> idle \<Rightarrow> string option" where
  "resolveRecycleMarkerSessionRequestId c s = (case opt_text_of (Option.bind c cm_sessionRequestId) of
     Some r \<Rightarrow> Some r
   | None \<Rightarrow> if \<not> vi_hasSeenViewer s \<or> \<not> vi_hasSeenManaged s then None else vi_lastRequestId s)"

definition resolveDesiredStateShutdownReason :: "idle_call \<Rightarrow> idle \<Rightarrow> string" where
  "resolveDesiredStateShutdownReason x s =
     (let m = (case ds_message (vi_desired s) of None \<Rightarrow> [] | Some t \<Rightarrow> to_lower (trim t)) in
      if getActiveShutdownCommand x s \<noteq> None then ''command_shutdown_requested''
      else if prefix ''automatic warm release'' m \<or> prefix ''warm-pool capacity release'' m then ''warm_pool_capacity_release''
      else ''agent_shutdown_requested'')"

section \<open>The reconnect window\<close>

definition managed_window :: "idle \<Rightarrow> identity option" where
  "managed_window s = Option.bind (vi_window s) gw_identity"

definition isCommercialReconnectDeadlineLocked :: "idle \<Rightarrow> bool" where
  "isCommercialReconnectDeadlineLocked s \<longleftrightarrow>
     vi_committed s \<or> (vi_phase s = Persisting_elapsed \<and> managed_window s \<noteq> None)"

definition hasManagedReconnectGraceWindow :: "idle \<Rightarrow> bool" where
  "hasManagedReconnectGraceWindow s \<longleftrightarrow> vi_phase s \<in> {Waiting, Persisting_elapsed} \<and> managed_window s \<noteq> None"

definition deadline_passed :: "idle_call \<Rightarrow> idle \<Rightarrow> bool" where
  "deadline_passed x s \<longleftrightarrow> vi_phase s = Waiting \<and> managed_window s \<noteq> None
     \<and> (case vi_window s of None \<Rightarrow> False
        | Some w \<Rightarrow> (case gc_dp (ih_gate x) (ih_iso x (gw_expiresAt w)) of None \<Rightarrow> False | Some t \<Rightarrow> t \<le> oc_now x))"

definition conflicting_request :: "idle \<Rightarrow> string option" where
  "conflicting_request s = (case vi_identities s of
     (p, i) # _ \<Rightarrow> Some (mi_sessionRequestId i)
   | [] \<Rightarrow> if vi_phase s = Waiting then map_option mi_sessionRequestId (managed_window s) else None)"

end
