(* ===== verification/Viewer_Idle_Windows.thy ===== *)
theory Viewer_Idle_Windows
  imports Viewer_Idle_Queries
begin

text \<open>
  The steps of \<open>viewer-idle-stop.ts\<close> that start nothing else: what it publishes, its timers, the
  reconnect window, and how the end of a window is made durable in two places, the evidence of the
  instance agent and the cutoff of the ticket gate.
\<close>

section \<open>Status\<close>

definition publishStatus :: "idle_call \<Rightarrow> string \<Rightarrow> string \<Rightarrow> bool \<Rightarrow> idle_op" where
  "publishStatus x status reason heartbeatOnly =
     change (\<lambda>s. if ih_publisher x then noting (Fx_status status reason heartbeatOnly) s else s)"

definition restoreRuntimeDerivedStatus :: "idle_call \<Rightarrow> bool \<Rightarrow> idle_op" where
  "restoreRuntimeDerivedStatus x preserve =
     change (\<lambda>s. if isCommercialReconnectDeadlineLocked s then s
       else if ih_controller x then noting (Fx_restored preserve) s else s)"

section \<open>Timers\<close>

definition clearZeroTimer :: idle_op where
  "clearZeroTimer = change (\<lambda>s. s\<lparr>vi_zeroViewersTimer := None\<rparr>)"

definition clearFirstViewerTimer :: idle_op where
  "clearFirstViewerTimer = change (\<lambda>s. s\<lparr>vi_firstViewerTimer := False\<rparr>)"

definition clearTransientStatusHeartbeat :: idle_op where
  "clearTransientStatusHeartbeat = change (\<lambda>s. s\<lparr>vi_heartbeat := None\<rparr>)"

definition clearReconnectGraceTimer :: idle_op where
  "clearReconnectGraceTimer = change (\<lambda>s. s\<lparr>vi_reconnectGraceTimer := None\<rparr>)"

definition clearResetTimer :: idle_op where
  "clearResetTimer = change (\<lambda>s. s\<lparr>vi_resetTimer := False\<rparr>)"

definition clearRecycleExitFallbackTimer :: idle_op where
  "clearRecycleExitFallbackTimer = change (\<lambda>s. s\<lparr>vi_exitTimer := False\<rparr>)"

definition clearStackRecycleRetryTimer :: idle_op where
  "clearStackRecycleRetryTimer = change (\<lambda>s. s\<lparr>vi_launchRetryTimer := False\<rparr>)"

definition startTransientStatusHeartbeat :: "idle_call \<Rightarrow> string \<Rightarrow> string \<Rightarrow> idle_op" where
  "startTransientStatusHeartbeat x status reason =
     change (\<lambda>s. s\<lparr>vi_heartbeat := (if ic_idleStatusHeartbeatMs x \<le> 0 \<or> \<not> ih_publisher x then None else Some (status, reason))\<rparr>)"

section \<open>The reconnect window\<close>

text \<open>A new window drops the durable cutoff of the one before.\<close>

definition rearmed :: "idle \<Rightarrow> idle" where
  "rearmed s = noting Fx_rearmed (s\<lparr>vi_cutoffDurable := False\<rparr>)"

definition startReconnectGraceWindow :: "idle_call \<Rightarrow> int \<Rightarrow> int \<Rightarrow> identity option \<Rightarrow> idle_op" where
  "startReconnectGraceWindow x startedAt delay i = change (\<lambda>s.
     let e = startedAt + max 0 delay;
         s' = rearmed (s\<lparr>vi_phase := Waiting, vi_uuids := vi_uuids s + 1,
           vi_window := Some \<lparr>gw_disconnectedAt = startedAt, gw_expiresAt = e, gw_identity = i, gw_evidenceId = ih_uuid x (vi_uuids s)\<rparr>\<rparr>) in
     if ih_client x then noting (Fx_window (Some (startedAt, e))) s' else s')"

text \<open>The answers of the next two say whether the end of the window is durable; neither raises.\<close>

definition markReconnectGraceWindowElapsed :: "idle_call \<Rightarrow> idle_op" where
  "markReconnectGraceWindowElapsed x s =
     (if vi_phase s = Elapsed then (True, s)
      else if vi_phase s = Inactive then (False, s)
      else case vi_window s of
        None \<Rightarrow> (True, s\<lparr>vi_phase := Elapsed\<rparr>)
      | Some w \<Rightarrow> (case gw_identity w of
          None \<Rightarrow> (True, s\<lparr>vi_phase := Elapsed\<rparr>)
        | Some i \<Rightarrow>
            if ih_client x \<and> oc_evidence x
            then (True, noting (Fx_evidence (gw_evidenceId w) i (gw_disconnectedAt w) (gw_expiresAt w)) (s\<lparr>vi_phase := Elapsed\<rparr>))
            else (False, s\<lparr>vi_phase := Persisting_elapsed\<rparr>)))"

text \<open>The ticket gate's \<open>markTeardownStarted\<close>, with no gate a failure.\<close>

definition cutoff_written :: "idle_call \<Rightarrow> teardown_options \<Rightarrow> idle_op" where
  "cutoff_written x opts s = (case vi_ticketGate s of
     None \<Rightarrow> (False, s)
   | Some g \<Rightarrow>
       let (ok, g') = markTeardownStarted (ih_gate x) opts (oc_now x div 1000) (oc_mark x (vi_calls s)) g;
           s' = s\<lparr>vi_ticketGate := Some g', vi_calls := vi_calls s + 1\<rparr> in
       (ok, if ok then noting (Fx_cutoff (case to_reason opts of None \<Rightarrow> [] | Some r \<Rightarrow> r)) s' else s'))"

definition window_cutoff :: "idle_call \<Rightarrow> grace_window \<Rightarrow> teardown_options" where
  "window_cutoff x w = \<lparr>to_occurredAtUtc = Some (ih_iso x (gw_expiresAt w)), to_reason = Some ''reconnect_grace_elapsed'',
     to_commandType = None, to_instanceCommandId = None\<rparr>"

definition teardown_committed :: "idle \<Rightarrow> idle" where
  "teardown_committed s = noting Fx_committed (s\<lparr>vi_committed := True, vi_phase := Elapsed\<rparr>)"

definition makeCommercialReconnectDeadlineDurable :: "idle_call \<Rightarrow> idle_op" where
  "makeCommercialReconnectDeadlineDurable x s = (case vi_window s of
     None \<Rightarrow> markReconnectGraceWindowElapsed x s
   | Some w \<Rightarrow>
       if gw_identity w = None then markReconnectGraceWindowElapsed x s
       else (case markReconnectGraceWindowElapsed x (s\<lparr>vi_phase := Persisting_elapsed\<rparr>) of
         (False, s) \<Rightarrow> (False, s)
       | (True, s) \<Rightarrow>
           let s = s\<lparr>vi_phase := Persisting_elapsed\<rparr> in
           if vi_cutoffDurable s then (True, teardown_committed s)
           else (case cutoff_written x (window_cutoff x w) s of
             (False, s) \<Rightarrow> (False, s)
           | (True, s) \<Rightarrow> (True, teardown_committed (s\<lparr>vi_cutoffDurable := True\<rparr>)))))"

definition clearReconnectGraceWindow :: "idle_call \<Rightarrow> idle_op" where
  "clearReconnectGraceWindow x = change (\<lambda>s.
     if vi_phase s = Persisting_elapsed then s
     else if vi_phase s = Inactive \<and> vi_window s = None then s
     else let s' = s\<lparr>vi_phase := Inactive, vi_window := None\<rparr> in
       if ih_client x then noting (Fx_window None) s' else s')"

definition scheduleReconnectGraceEvidenceRetry :: idle_op where
  "scheduleReconnectGraceEvidenceRetry = change (\<lambda>s.
     if vi_evidenceRetryTimer s then s
     else s\<lparr>vi_evidenceRetryAttempts := vi_evidenceRetryAttempts s + 1, vi_evidenceRetryTimer := True\<rparr>)"

definition continueAfterReconnectGraceEvidenceIsDurable ::
  "idle_call \<Rightarrow> (continuation \<Rightarrow> idle_op) \<Rightarrow> continuation \<Rightarrow> idle_op" where
  "continueAfterReconnectGraceEvidenceIsDurable x run k s =
     (case makeCommercialReconnectDeadlineDurable x s of
        (True, s) \<Rightarrow> steps [clearReconnectGraceWindow x, run k] s
      | (False, s) \<Rightarrow> steps [
          change (\<lambda>s. if vi_continuation s = None then s\<lparr>vi_continuation := Some k\<rparr> else s),
          scheduleReconnectGraceEvidenceRetry] s)"

text \<open>The callback of that retry.\<close>

definition evidence_retry_fires :: "idle_call \<Rightarrow> (continuation \<Rightarrow> idle_op) \<Rightarrow> idle_op" where
  "evidence_retry_fires x run s =
     (case makeCommercialReconnectDeadlineDurable x (s\<lparr>vi_evidenceRetryTimer := False\<rparr>) of
        (False, s) \<Rightarrow> scheduleReconnectGraceEvidenceRetry s
      | (True, s) \<Rightarrow> (case vi_continuation s of
          None \<Rightarrow> skip (s\<lparr>vi_evidenceRetryAttempts := 0\<rparr>)
        | Some k \<Rightarrow> run k (s\<lparr>vi_evidenceRetryAttempts := 0, vi_continuation := None\<rparr>)))"

section \<open>Cutoffs of other teardowns\<close>

definition markConnectTicketTeardownStarted :: "idle_call \<Rightarrow> string \<Rightarrow> command option \<Rightarrow> string option \<Rightarrow> idle_op" where
  "markConnectTicketTeardownStarted x reason c occurredAtUtc =
     cutoff_written x \<lparr>to_occurredAtUtc = occurredAtUtc, to_reason = Some reason,
       to_commandType = map_option cm_commandType c, to_instanceCommandId = map_option cm_instanceCommandId c\<rparr>"

text \<open>
  \<open>if (!durable) durable = markConnectTicketTeardownStarted(...)\<close>, before a launch and before a stop: the
  command's own time, or that of the desired state.
\<close>

definition cutoff_ensured :: "idle_call \<Rightarrow> string \<Rightarrow> command option \<Rightarrow> idle_op" where
  "cutoff_ensured x reason c s =
     (if vi_cutoffDurable s then (True, s)
      else (case markConnectTicketTeardownStarted x reason c
              (or_else (map_option cm_requestedAtUtc c) (ds_updatedAtUtc (vi_desired s))) s of
        (ok, s) \<Rightarrow> (ok, s\<lparr>vi_cutoffDurable := ok\<rparr>)))"

section \<open>All timers\<close>

definition clearAllIdleStopTimers :: "idle_call \<Rightarrow> idle_op" where
  "clearAllIdleStopTimers x = (\<lambda>s.
     if hasManagedReconnectGraceWindow s then steps [clearFirstViewerTimer, clearResetTimer] s
     else steps [clearZeroTimer, clearFirstViewerTimer, clearTransientStatusHeartbeat, clearReconnectGraceTimer,
       clearResetTimer, clearReconnectGraceWindow x] s)"

definition ensureFirstViewerWindow :: "idle_call \<Rightarrow> idle_op" where
  "ensureFirstViewerWindow x = (\<lambda>s.
     if suspended s then clearFirstViewerTimer s
     else ask (shouldSuppressNoViewerIdleAutomation x) (\<lambda>b s.
       if b \<or> vi_hasSeenViewer s \<or> 0 < viewers s \<or> ic_firstViewerGraceMs x \<le> 0 then clearFirstViewerTimer s
       else skip (s\<lparr>vi_firstViewerTimer := True\<rparr>)) s)"

section \<open>Stops to come\<close>

definition arm_stop :: "idle_call \<Rightarrow> string \<Rightarrow> int \<Rightarrow> bool \<Rightarrow> identity option \<Rightarrow> idle_op" where
  "arm_stop x reason delay window i = steps [
     clearZeroTimer,
     publishStatus x ''idle_shutdown_pending'' (mapPendingReason reason) False,
     startTransientStatusHeartbeat x ''idle_shutdown_pending'' (mapPendingReason reason),
     change (\<lambda>s. s\<lparr>vi_zeroViewersTimer := Some \<lparr>st_reason = reason,
       st_artifact = (if reason = ''grace-after-last-viewer'' then vi_lastRequestId s else None),
       st_window = (window \<and> 0 < delay), st_identity = i\<rparr>\<rparr>),
     if window \<and> 0 < delay then startReconnectGraceWindow x (oc_now x) delay i else skip]"

definition scheduleStop :: "idle_call \<Rightarrow> string \<Rightarrow> int \<Rightarrow> bool \<Rightarrow> identity option \<Rightarrow> idle_op" where
  "scheduleStop x reason delay window i = (\<lambda>s.
     if \<not> isCommercialReconnectDeadlineLocked s \<and> suspended s then skip s
     else if vi_phase s = Persisting_elapsed then skip s
     else if window \<and> vi_phase s \<noteq> Inactive then skip s
     else steps [
       (\<lambda>s. if \<not> window \<and> vi_phase s = Waiting then clearReconnectGraceWindow x s else skip s),
       clearReconnectGraceTimer,
       (\<lambda>s. if isCommercialReconnectDeadlineLocked s then arm_stop x reason delay window i s
            else ask (shouldSuppressNoViewerIdleAutomation x) (\<lambda>b s.
              if b then steps [clearAllIdleStopTimers x, restoreRuntimeDerivedStatus x True] s
              else arm_stop x reason delay window i s) s)] s)"

definition scheduleRetryIfStillIdle :: "idle_call \<Rightarrow> idle_op" where
  "scheduleRetryIfStillIdle x = (\<lambda>s.
     if \<not> vi_committed s \<and> (ic_stopRetryMs x \<le> 0 \<or> 0 < viewers s \<or> suspended s) then skip s
     else steps [
       publishStatus x ''idle_shutdown_pending'' ''retry_after_stop_failure'' False,
       scheduleStop x ''retry-after-failure'' (if 0 < ic_stopRetryMs x then ic_stopRetryMs x else 5000) False None] s)"

definition scheduleStackRecycleRetry :: "idle_call \<Rightarrow> bool \<Rightarrow> idle_op" where
  "scheduleStackRecycleRetry x publish = (\<lambda>s.
     if vi_launchRetryTimer s then skip s
     else steps [
       if publish then publishStatus x ''resetting'' ''recycle_launch_retry_pending'' False else skip,
       change (\<lambda>s. s\<lparr>vi_launchRetryTimer := True\<rparr>)] s)"

text \<open>\<open>resetInFlight = true\<close>, a status, and a retry later.\<close>

definition recycle_waits :: "idle_call \<Rightarrow> string \<Rightarrow> idle_op" where
  "recycle_waits x reason = steps [
     change (\<lambda>s. s\<lparr>vi_resetInFlight := True\<rparr>),
     publishStatus x ''resetting'' reason False,
     scheduleStackRecycleRetry x True]"

end
