(* ===== verification/Viewer_Idle_Actions.thy ===== *)
theory Viewer_Idle_Actions
  imports Viewer_Idle_Windows
begin

text \<open>
  The steps of \<open>viewer-idle-stop.ts\<close> that lead to a stop or to a recycle of the stack. A recycle may ask
  for a stop, and a stop refused on a warm instance may open a reconnect window that leads to a recycle;
  the functions below therefore take the request of a stop as an argument \<open>stop\<close> (whether the desired
  state is waiting for the answer, the reason, and the session of the artifacts), and \<open>requestStop\<close> ties
  the knot with fuel.
\<close>

type_synonym stop_op = "bool \<Rightarrow> string \<Rightarrow> string option \<Rightarrow> idle_op"

definition desired_stop :: "idle_call \<Rightarrow> stop_op \<Rightarrow> idle_op" where
  "desired_stop x stop = (\<lambda>s. stop False (resolveDesiredStateShutdownReason x s) None s)"

definition shutdown_asked :: "idle_call \<Rightarrow> idle \<Rightarrow> bool" where
  "shutdown_asked x s \<longleftrightarrow> ds_shutdownRequested (vi_desired s) \<or> getActiveShutdownCommand x s \<noteq> None"

definition stop_after_grace :: "idle_call \<Rightarrow> idle_op" where
  "stop_after_grace x = scheduleStop x ''grace-after-last-viewer'' 0 False None"

definition passive_recycle :: idle_op where
  "passive_recycle = change (\<lambda>s. s\<lparr>vi_passiveRequested := True\<rparr>)"

section \<open>The recycle of the stack\<close>

definition restoreAfterReset :: "idle_call \<Rightarrow> stop_op \<Rightarrow> idle_op" where
  "restoreAfterReset x stop = (\<lambda>s.
     if vi_committed s then recycle_waits x ''commercial_recycle_retry_pending'' s
     else steps [
       change (\<lambda>s. s\<lparr>vi_resetInFlight := False, vi_launchRequested := False, vi_passiveRequested := False\<rparr>),
       clearReconnectGraceWindow x, clearRecycleExitFallbackTimer, clearReconnectGraceTimer, clearResetTimer,
       (\<lambda>s. if 0 < viewers s \<or> suspended s then restoreRuntimeDerivedStatus x True s
            else steps [
              change (\<lambda>s. s\<lparr>vi_hasSeenViewer := False\<rparr>),
              (\<lambda>s. if ds_shutdownRequested (vi_desired s) then desired_stop x stop s
                   else if \<not> canHoldWarmReadyWithoutShutdown s then stop_after_grace x s
                   else restoreRuntimeDerivedStatus x False s)] s)] s)"

definition handleStackRecycleLaunchFailure :: "idle_call \<Rightarrow> stop_op \<Rightarrow> idle_op" where
  "handleStackRecycleLaunchFailure x stop = (\<lambda>s.
     if \<not> vi_committed s then restoreAfterReset x stop s
     else steps [
       change (\<lambda>s. s\<lparr>vi_resetInFlight := True, vi_passiveRequested := True, vi_launchRetryAttempts := vi_launchRetryAttempts s + 1\<rparr>),
       publishStatus x ''resetting'' ''commercial_recycle_launch_failed'' False,
       (\<lambda>s. if 3 \<le> vi_launchRetryAttempts s
            then steps [clearStackRecycleRetryTimer, stop False ''commercial_recycle_launch_failed'' None] s
            else scheduleStackRecycleRetry x True s)] s)"

text \<open>The marker of an unfinished intent is taken over, not replaced.\<close>

definition recovered_intent :: "marker option \<Rightarrow> marker option" where
  "recovered_intent m = (case m of None \<Rightarrow> None | Some r \<Rightarrow> if rm_phase r = Intent then Some r else None)"

definition launch_command :: "idle_call \<Rightarrow> marker option \<Rightarrow> idle \<Rightarrow> command option" where
  "launch_command x existing s =
     (let active = getActiveRecycleCommand x s in
      case recovered_intent existing of
        None \<Rightarrow> active
      | Some m \<Rightarrow> if recycleTokensMatch (map_option cm_instanceCommandId active) (rm_recycleRequestedToken m) then active else None)"

definition launch_token :: "idle_call \<Rightarrow> marker option \<Rightarrow> idle \<Rightarrow> string option" where
  "launch_token x existing s = (case recovered_intent existing of
     Some m \<Rightarrow> rm_recycleRequestedToken m
   | None \<Rightarrow> or_else (map_option cm_instanceCommandId (launch_command x existing s))
       (if hasPendingImmediateRecycle x s then ds_recycleRequestedToken (vi_desired s) else None))"

definition launch_marker :: "idle_call \<Rightarrow> command option \<Rightarrow> marker option \<Rightarrow> string option \<Rightarrow> idle \<Rightarrow> jsval" where
  "launch_marker x c existing token s =
     (let r = recovered_intent existing in
      JObj [(''phase'', JStr ''intent''),
        (''requestedAtUtc'', JStr (case r of None \<Rightarrow> ih_iso x (oc_now x) | Some m \<Rightarrow> rm_requestedAtUtc m)),
        (''reason'', JStr (case r of None \<Rightarrow> ''post_session_cleanup'' | Some m \<Rightarrow> rm_reason m)),
        (''recycleId'', JStr (case r of None \<Rightarrow> ih_uuid x (vi_uuids s) | Some m \<Rightarrow> rm_recycleId m)),
        (''recycleRequestedToken'', opt_str token),
        (''sessionRequestId'', opt_str (case r of None \<Rightarrow> resolveRecycleMarkerSessionRequestId c s | Some m \<Rightarrow> rm_sessionRequestId m)),
        (''userSessionId'', opt_str (Option.bind r rm_userSessionId)),
        (''sessionId'', opt_str (Option.bind r rm_sessionId)),
        (''sourcePid'', num_of_int (ih_pid x))])"

definition own_marker_cleared :: "idle_call \<Rightarrow> string \<Rightarrow> idle_op" where
  "own_marker_cleared x recycleId = change (\<lambda>s.
     s\<lparr>vi_markerFile := snd (clearMarker (gc_dp (ih_gate x)) (ih_iso x) (oc_unlink x) (JStr recycleId) (vi_markerFile s))\<rparr>)"

text \<open>The \<open>catch\<close> of the launch; \<open>written\<close> is the id of the marker it wrote.\<close>

definition launch_failed :: "idle_call \<Rightarrow> stop_op \<Rightarrow> command option \<Rightarrow> string option \<Rightarrow> idle_op" where
  "launch_failed x stop c written = steps [
     change (\<lambda>s. s\<lparr>vi_launchInFlight := False, vi_launchRequested := False\<rparr>),
     clearRecycleExitFallbackTimer,
     (case written of None \<Rightarrow> skip | Some r \<Rightarrow> own_marker_cleared x r),
     (case c of None \<Rightarrow> skip
      | Some c \<Rightarrow> if ih_client x then change (noting (Fx_fail (cm_instanceCommandId c) ''recycle_launch_failed'')) else skip),
     handleStackRecycleLaunchFailure x stop]"

definition recycle_spawned :: "string \<Rightarrow> idle_op" where
  "recycle_spawned recycleId = steps [
     change (noting (Fx_spawn recycleId)),
     change (\<lambda>s. s\<lparr>vi_launchInFlight := False, vi_pendingToken := None, vi_launchRequested := True, vi_launchRetryAttempts := 0\<rparr>),
     clearStackRecycleRetryTimer,
     change (\<lambda>s. s\<lparr>vi_exitTimer := True\<rparr>)]"

text \<open>The launch from the second reading of the marker on.\<close>

definition recycle_launch :: "idle_call \<Rightarrow> stop_op \<Rightarrow> command option \<Rightarrow> marker option \<Rightarrow> string option \<Rightarrow> idle_op" where
  "recycle_launch x stop c existing token s = (case readRecycleMarker x s of
     Inl e \<Rightarrow> launch_failed x stop c None s
   | Inr now \<Rightarrow>
       if isReplacementProof now (ih_pid x) then steps [
         change (\<lambda>s. s\<lparr>vi_launchInFlight := False, vi_resetInFlight := True\<rparr>),
         scheduleStackRecycleRetry x False] s
       else if map_option rm_recycleId now \<noteq> map_option rm_recycleId existing \<or> \<not> oc_scripts x then launch_failed x stop c None s
       else
         let s' = s\<lparr>vi_uuids := vi_uuids s + (if recovered_intent existing = None then 1 else 0)\<rparr> in
         (case writeMarker (gc_dp (ih_gate x)) (ih_iso x) (oc_write x) (launch_marker x c existing token s) (vi_markerFile s) of
            (Inl e, f) \<Rightarrow> launch_failed x stop c None (s'\<lparr>vi_markerFile := f\<rparr>)
          | (Inr m, f) \<Rightarrow>
              if oc_spawn x then recycle_spawned (rm_recycleId m) (s'\<lparr>vi_markerFile := f\<rparr>)
              else launch_failed x stop c (Some (rm_recycleId m)) (s'\<lparr>vi_markerFile := f\<rparr>)))"

text \<open>The launch from its cutoff on: with a command, the agent is told first.\<close>

definition recycle_begins :: "idle_call \<Rightarrow> stop_op \<Rightarrow> command option \<Rightarrow> marker option \<Rightarrow> string option \<Rightarrow> idle_op" where
  "recycle_begins x stop c existing token = steps [
     change (noting Fx_recycle_begins),
     change (\<lambda>s. s\<lparr>vi_launchInFlight := True\<rparr>),
     (\<lambda>s. case c of
        Some k \<Rightarrow> if ih_client x
          then skip (waiting_for (T_recycle_started k existing token) (noting (Fx_start (cm_instanceCommandId k)) s))
          else recycle_launch x stop c existing token s
      | None \<Rightarrow> recycle_launch x stop c existing token s)]"

definition recycle_guarded :: "idle_call \<Rightarrow> stop_op \<Rightarrow> marker option \<Rightarrow> idle_op" where
  "recycle_guarded x stop existing s =
     (let c = launch_command x existing s; token = launch_token x existing s; status = recycleTokenStatus x token s in
      if status = Unavailable then recycle_waits x ''recycle_token_fence_unavailable'' s
      else if status = Completed then steps [
        change (\<lambda>s. s\<lparr>vi_pendingToken := None, vi_resetInFlight := False\<rparr>),
        clearStackRecycleRetryTimer] s
      else (case cutoff_ensured x (if c = None then ''stack_recycle_launch'' else ''stack_recycle_command_launch'') c s of
        (False, s) \<Rightarrow> recycle_waits x ''teardown_cutoff_persistence_failed'' s
      | (True, s) \<Rightarrow> recycle_begins x stop c existing token s))"

definition requestStackRecycle :: "idle_call \<Rightarrow> stop_op \<Rightarrow> idle_op" where
  "requestStackRecycle x stop = detached (\<lambda>s.
     if vi_phase s = Persisting_elapsed \<or> vi_launchInFlight s \<or> vi_launchRequested s then skip s
     else (case readRecycleMarker x s of
       Inl e \<Rightarrow> recycle_waits x ''recycle_marker_unavailable'' s
     | Inr existing \<Rightarrow>
         if isReplacementProof existing (ih_pid x) then steps [
           change (\<lambda>s. s\<lparr>vi_resetInFlight := True\<rparr>),
           scheduleStackRecycleRetry x False] s
         else if \<not> vi_committed s \<and> (suspended s \<or> 0 < viewers s) then restoreRuntimeDerivedStatus x True s
         else ask (shouldResetIntoWarmReady x) (\<lambda>b s.
           if b then recycle_guarded x stop existing s
           else if canHoldWarmReadyWithoutShutdown s then steps [
             change (\<lambda>s. s\<lparr>vi_resetInFlight := False\<rparr>),
             clearStackRecycleRetryTimer,
             restoreRuntimeDerivedStatus x True] s
           else if ds_shutdownRequested (vi_desired s) then desired_stop x stop s
           else stop_after_grace x s) s))"

section \<open>The reset\<close>

definition startResetWindow :: "idle_call \<Rightarrow> stop_op \<Rightarrow> bool \<Rightarrow> idle_op" where
  "startResetWindow x stop skipGrace = (\<lambda>s.
     if vi_phase s = Persisting_elapsed then skip s
     else ask (hasRecycleLaunchMarker x) (\<lambda>b s.
       if b then requestStackRecycle x stop s
       else if \<not> vi_committed s \<and> (suspended s \<or> 0 < viewers s) then clearReconnectGraceWindow x s
       else steps [
         clearReconnectGraceWindow x, clearReconnectGraceTimer, clearZeroTimer, clearFirstViewerTimer,
         clearTransientStatusHeartbeat,
         ask (shouldResetIntoWarmReady x) (\<lambda>b. if \<not> b then skip else steps [
           change (\<lambda>s. s\<lparr>vi_resetInFlight := True\<rparr>),
           publishStatus x ''resetting'' ''post_session_cleanup'' False,
           (\<lambda>s. if skipGrace \<or> getActiveRecycleCommand x s \<noteq> None \<or> ic_resetGraceMs x \<le> 0 then requestStackRecycle x stop s
                else skip (s\<lparr>vi_resetTimer := True\<rparr>))])] s) s)"

section \<open>The ends of a reconnect window\<close>

definition viewer_is_back :: "idle_call \<Rightarrow> idle_op" where
  "viewer_is_back x = steps [clearReconnectGraceWindow x, restoreRuntimeDerivedStatus x True]"

definition finishReconnectGrace :: "idle_call \<Rightarrow> stop_op \<Rightarrow> identity option \<Rightarrow> idle_op" where
  "finishReconnectGrace x stop i = (\<lambda>s.
     if vi_committed s then
       (if shutdown_asked x s then desired_stop x stop s
        else steps [passive_recycle, startResetWindow x stop True] s)
     else if suspended s then clearReconnectGraceWindow x s
     else if hasViewerThatCancelsReconnectGrace i s then viewer_is_back x s
     else if ds_shutdownRequested (vi_desired s) then desired_stop x stop s
     else ask (shouldResetIntoWarmReady x) (\<lambda>b s.
       if b then startResetWindow x stop False s
       else if canHoldWarmReadyWithoutShutdown s then restoreRuntimeDerivedStatus x True s
       else stop_after_grace x s) s)"

definition expireWarmHoldReconnectGrace :: "idle_call \<Rightarrow> stop_op \<Rightarrow> identity option \<Rightarrow> idle_op" where
  "expireWarmHoldReconnectGrace x stop i = (\<lambda>s.
     if vi_committed s then
       (if shutdown_asked x s then desired_stop x stop s
        else steps [clearTransientStatusHeartbeat, passive_recycle, startResetWindow x stop True] s)
     else if suspended s then clearReconnectGraceWindow x s
     else if hasViewerThatCancelsReconnectGrace i s then viewer_is_back x s
     else if getActiveRecycleCommand x s \<noteq> None \<or> hasPendingImmediateRecycle x s then startResetWindow x stop True s
     else if shutdown_asked x s then desired_stop x stop s
     else ask (shouldSuppressNoViewerIdleAutomation x) (\<lambda>b s.
       if \<not> b then stop_after_grace x s
       else if \<not> vi_hasSeenManaged s then restoreRuntimeDerivedStatus x True s
       else steps [
         clearTransientStatusHeartbeat, passive_recycle,
         (\<lambda>s. case markConnectTicketTeardownStarted x ''passive_reconnect_grace_recycle'' None None s of
            (True, s) \<Rightarrow> startResetWindow x stop True s
          | (False, s) \<Rightarrow> steps [
              publishStatus x ''resetting'' ''teardown_cutoff_persistence_failed'' False,
              startResetWindow x stop True] s)] s) s)"

definition run_continuation :: "idle_call \<Rightarrow> stop_op \<Rightarrow> continuation \<Rightarrow> idle_op" where
  "run_continuation x stop k = (case k of
     Cont_stop reason artifact \<Rightarrow> stop False reason artifact
   | Cont_reset i \<Rightarrow> finishReconnectGrace x stop i
   | Cont_warm i \<Rightarrow> expireWarmHoldReconnectGrace x stop i)"

section \<open>The starts of a reconnect window\<close>

definition starts_window :: "bool \<Rightarrow> idle \<Rightarrow> bool" where
  "starts_window lastViewer s \<longleftrightarrow> lastViewer \<or> vi_phase s = Waiting \<or> vi_hasSeenViewer s"

text \<open>What both kinds of window do; \<open>finish\<close> is what a window of no length does at once.\<close>

definition arm_grace :: "idle_call \<Rightarrow> bool \<Rightarrow> int \<Rightarrow> bool \<Rightarrow> identity option \<Rightarrow> idle_op \<Rightarrow> idle_op" where
  "arm_grace x warm delay window i finish = steps [
     if window then clearReconnectGraceWindow x else skip,
     publishStatus x ''reconnect_grace'' ''waiting_for_viewer_reconnect'' False,
     startTransientStatusHeartbeat x ''reconnect_grace'' ''waiting_for_viewer_reconnect'',
     if delay \<le> 0 then finish
     else steps [
       change (\<lambda>s. s\<lparr>vi_reconnectGraceTimer := Some \<lparr>gr_warm = warm, gr_window = window, gr_identity = i\<rparr>\<rparr>),
       if window then startReconnectGraceWindow x (oc_now x) delay i else skip]]"

definition scheduleResetAfterLastViewer :: "idle_call \<Rightarrow> stop_op \<Rightarrow> int \<Rightarrow> bool \<Rightarrow> identity option \<Rightarrow> idle_op" where
  "scheduleResetAfterLastViewer x stop delay lastViewer i = (\<lambda>s.
     if suspended s \<or> vi_phase s = Persisting_elapsed \<or> vi_resetInFlight s then skip s
     else ask (hasRecycleLaunchInProgress x) (\<lambda>b. if b then skip else steps [
       clearZeroTimer, clearFirstViewerTimer, clearTransientStatusHeartbeat,
       ask (shouldResetIntoWarmReady x) (\<lambda>b s.
         if \<not> b then (if vi_phase s = Waiting then clearReconnectGraceWindow x s else skip s)
         else if hasPendingImmediateRecycle x s \<or> getActiveRecycleCommand x s \<noteq> None then startResetWindow x stop True s
         else if vi_reconnectGraceTimer s \<noteq> None then skip s
         else arm_grace x False delay (starts_window lastViewer s) i (finishReconnectGrace x stop i) s)]) s)"

definition scheduleWarmHoldReconnectGrace :: "idle_call \<Rightarrow> stop_op \<Rightarrow> int \<Rightarrow> bool \<Rightarrow> identity option \<Rightarrow> idle_op" where
  "scheduleWarmHoldReconnectGrace x stop delay lastViewer i = (\<lambda>s.
     if suspended s \<or> vi_phase s = Persisting_elapsed then skip s
     else ask (shouldSuppressNoViewerIdleAutomation x) (\<lambda>b. if \<not> b then skip else steps [
       clearZeroTimer, clearFirstViewerTimer, clearTransientStatusHeartbeat,
       (\<lambda>s. if vi_reconnectGraceTimer s \<noteq> None then skip s
            else arm_grace x True delay (starts_window lastViewer s) i (expireWarmHoldReconnectGrace x stop i) s)]) s)"

section \<open>The stop\<close>

definition captureShutdownSessionArtifacts :: "idle_call \<Rightarrow> string \<Rightarrow> command option \<Rightarrow> string option \<Rightarrow> bool \<Rightarrow> idle_op" where
  "captureShutdownSessionArtifacts x trigger c session lastSession = change (\<lambda>s.
     if ih_client x then noting (Fx_capture trigger (map_option cm_instanceCommandId c) session lastSession) s else s)"

text \<open>The artifacts of a stop, and the wait for them; both captures may fail or time out.\<close>

definition stop_captures :: "idle_call \<Rightarrow> bool \<Rightarrow> string \<Rightarrow> string option \<Rightarrow> command option \<Rightarrow> idle_op" where
  "stop_captures x resume reason artifact c = (\<lambda>s.
     let own = opt_text_of (Option.bind c cm_sessionRequestId);
         session = (if own = None then resolveShutdownArtifactSessionRequestId reason artifact s else None);
         lastSession = (own = None \<and> session = None \<and> vi_hasSeenViewer s \<and> reason \<noteq> ''warm_pool_capacity_release'') in
     steps [captureShutdownSessionArtifacts x ''shutdown_requested'' c session lastSession,
       change (waiting_for (T_stop_captured resume reason))] s)"

definition stop_begins :: "idle_call \<Rightarrow> bool \<Rightarrow> string \<Rightarrow> string option \<Rightarrow> idle_op" where
  "stop_begins x resume reason artifact = steps [
     change (noting (Fx_stop_begins reason)),
     change (\<lambda>s. s\<lparr>vi_stopInFlight := True\<rparr>),
     (\<lambda>s. case getActiveShutdownCommand x s of
        Some k \<Rightarrow> if ih_client x
          then skip (waiting_for (T_stop_started resume reason artifact k) (noting (Fx_start (cm_instanceCommandId k)) s))
          else stop_captures x resume reason artifact (Some k) s
      | None \<Rightarrow> stop_captures x resume reason artifact None s)]"

definition refused :: idle_op where
  "refused = Pair False"

definition stop_clears :: "idle_call \<Rightarrow> idle_op" where
  "stop_clears x = steps [
     change (\<lambda>s. s\<lparr>vi_resetInFlight := False, vi_launchRequested := False, vi_passiveRequested := False\<rparr>),
     clearReconnectGraceWindow x, clearRecycleExitFallbackTimer, clearTransientStatusHeartbeat, clearReconnectGraceTimer,
     clearResetTimer]"

text \<open>\<open>warm\<close> is the window that a stop refused on a warm instance opens.\<close>

definition stop_guarded :: "idle_call \<Rightarrow> idle_op \<Rightarrow> bool \<Rightarrow> string \<Rightarrow> string option \<Rightarrow> idle_op" where
  "stop_guarded x warm resume reason artifact = steps [
     stop_clears x,
     (\<lambda>s. if vi_committed s then stop_begins x resume reason artifact s
          else if suspended s then steps [clearReconnectGraceWindow x, refused] s
          else if 0 < viewers s then steps [clearReconnectGraceWindow x, restoreRuntimeDerivedStatus x True, refused] s
          else ask (shouldSuppressNoViewerIdleAutomation x) (\<lambda>b s.
            if \<not> b then stop_begins x resume reason artifact s
            else steps [
              clearReconnectGraceWindow x,
              (\<lambda>s. if vi_hasSeenViewer s then warm s else restoreRuntimeDerivedStatus x True s),
              refused] s) s)]"

definition stop_request :: "idle_call \<Rightarrow> idle_op \<Rightarrow> bool \<Rightarrow> string \<Rightarrow> string option \<Rightarrow> idle_op" where
  "stop_request x warm resume reason artifact = (\<lambda>s.
     if vi_phase s = Persisting_elapsed \<or> vi_stopInFlight s then refused s
     else
       let c = getActiveShutdownCommand x s in
       (case cutoff_ensured x (if c = None then ''stack_shutdown_'' @ reason else ''stack_shutdown_command_launch'') c s of
          (False, s) \<Rightarrow> steps [
            publishStatus x ''idle_shutdown_pending'' ''teardown_cutoff_persistence_failed'' False,
            scheduleStop x reason 5000 False None, refused] s
        | (True, s) \<Rightarrow> stop_guarded x warm resume reason artifact s))"

text \<open>The promise: a refusal or an exception is of interest to a resumed desired state only.\<close>

definition promised :: "bool \<Rightarrow> idle_op \<Rightarrow> idle_op" where
  "promised resume f s = (case f s of
     (True, s) \<Rightarrow> (True, s)
   | (False, s) \<Rightarrow> (True, if resume then waiting_for T_resume_refused s else s))"

fun requestStop :: "nat \<Rightarrow> idle_call \<Rightarrow> stop_op" where
  "requestStop 0 x resume reason artifact = Pair False"
| "requestStop (Suc n) x resume reason artifact =
     promised resume (stop_request x (scheduleWarmHoldReconnectGrace x (requestStop n x) (ic_graceMs x) True None) resume reason artifact)"

end
