(* ===== verification/Viewer_Idle_Events.thy ===== *)
theory Viewer_Idle_Events
  imports Viewer_Idle_Actions
begin

text \<open>
  The entry points of \<open>viewer-idle-stop.ts\<close>: the listeners on the player registry and on the instance
  agent, the timers, the functions that resume after an \<open>await\<close>, and the start. An armed timer may fire at
  any time, and a waiting function may resume at any time with any outcome.
\<close>

definition request_stop :: "idle_call \<Rightarrow> stop_op" where
  "request_stop x = requestStop 1 x"

section \<open>Resumption\<close>

definition tryResumeActiveRecycleCommand :: "idle_call \<Rightarrow> idle_op" where
  "tryResumeActiveRecycleCommand x = (\<lambda>s.
     if getActiveRecycleCommand x s = None \<or> vi_resetInFlight s then skip s
     else ask (hasRecycleLaunchInProgress x) (\<lambda>b s.
       if b \<or> 0 < viewers s \<or> suspended s then skip s
       else startResetWindow x (request_stop x) True s) s)"

definition tryResumeActiveShutdownCommand :: "idle_call \<Rightarrow> idle_op" where
  "tryResumeActiveShutdownCommand x = (\<lambda>s.
     if getActiveShutdownCommand x s = None \<or> vi_stopInFlight s \<or> 0 < viewers s \<or> suspended s then skip s
     else request_stop x False ''command_shutdown_requested'' None s)"

text \<open>The answer of this one is whether it took over.\<close>

definition tryResumeDesiredStateShutdown :: "idle_call \<Rightarrow> idle_op" where
  "tryResumeDesiredStateShutdown x s =
     (if \<not> ds_shutdownRequested (vi_desired s) \<or> vi_resumeRequested s \<or> vi_stopInFlight s \<or> 0 < viewers s \<or> suspended s
      then (False, s)
      else (True, snd (steps [
        clearZeroTimer, clearFirstViewerTimer, clearTransientStatusHeartbeat,
        change (\<lambda>s. s\<lparr>vi_resumeRequested := True\<rparr>),
        (\<lambda>s. request_stop x True (resolveDesiredStateShutdownReason x s) None s)] s)))"

section \<open>Maintenance\<close>

text \<open>What is looked at again when there is no maintenance.\<close>

definition reset_resumed :: "idle_call \<Rightarrow> idle_op" where
  "reset_resumed x = ask (hasRecycleLaunchInProgress x) (\<lambda>b s.
     if b then skip s
     else if getActiveRecycleCommand x s \<noteq> None then tryResumeActiveRecycleCommand x s
     else scheduleResetAfterLastViewer x (request_stop x) (ic_graceMs x) False None s)"

definition timers_reevaluated :: "idle_call \<Rightarrow> idle_op" where
  "timers_reevaluated x = unless_done (tryResumeDesiredStateShutdown x) (\<lambda>s.
     if \<not> vi_resetInFlight s \<and> viewers s = 0
     then ask (shouldResetIntoWarmReady x) (\<lambda>b. if b then reset_resumed x else ensureFirstViewerWindow x) s
     else ensureFirstViewerWindow x s)"

definition normalizeMaintenanceMode :: "string \<Rightarrow> string option" where
  "normalizeMaintenanceMode out =
     (let t = trim out in if t = [] \<or> to_lower t \<in> {''none'', ''null''} then None else Some t)"

definition refreshMaintenanceMode :: "idle_call \<Rightarrow> idle_op" where
  "refreshMaintenanceMode x = change (\<lambda>s.
     if vi_maintenanceInFlight s \<or> ic_maintenanceTagKey x = [] then s
     else waiting_for T_maintenance (s\<lparr>vi_maintenanceInFlight := True\<rparr>))"

definition maintenance_read :: "idle_call \<Rightarrow> string + string option \<Rightarrow> idle_op" where
  "maintenance_read x outcome = detached (finishing (\<lambda>s. s\<lparr>vi_maintenanceInFlight := False\<rparr>)
     (case outcome of
        Inl e \<Rightarrow> skip
      | Inr out \<Rightarrow> (\<lambda>s.
          let mode = Option.bind out normalizeMaintenanceMode;
              previous = vi_maintenance s;
              s' = s\<lparr>vi_maintenanceInitialized := True, vi_maintenance := mode\<rparr> in
          if mode \<noteq> None then (if mode \<noteq> previous then clearAllIdleStopTimers x s' else skip s')
          else timers_reevaluated x s')))"

section \<open>Desired state\<close>

definition token_asked :: "desired_state \<Rightarrow> bool" where
  "token_asked d \<longleftrightarrow> ds_recycleRequestedToken d \<notin> {None, Some []}"

definition desired_changed :: "desired_state \<Rightarrow> desired_state \<Rightarrow> bool" where
  "desired_changed d e \<longleftrightarrow> ds_warmHoldEnabled d \<noteq> ds_warmHoldEnabled e \<or> ds_drainEnabled d \<noteq> ds_drainEnabled e
     \<or> ds_shutdownRequested d \<noteq> ds_shutdownRequested e \<or> ds_recycleRequestedToken d \<noteq> ds_recycleRequestedToken e
     \<or> ds_policyVersion d \<noteq> ds_policyVersion e \<or> ds_message d \<noteq> ds_message e"

text \<open>A new token; \<open>k\<close> goes on with whether the cutoff of the request is durable.\<close>

definition desired_token :: "idle_call \<Rightarrow> (bool \<Rightarrow> idle_op) \<Rightarrow> idle_op" where
  "desired_token x k s =
     (let token = ds_recycleRequestedToken (vi_desired s); status = recycleTokenStatus x token s in
      if \<not> token_asked (vi_desired s) \<or> status = Completed then k True (s\<lparr>vi_pendingToken := None\<rparr>)
      else if status = Unavailable then k True (s\<lparr>vi_pendingToken := token\<rparr>)
      else (case markConnectTicketTeardownStarted x ''desired_state_recycle_request'' None (ds_updatedAtUtc (vi_desired s)) s of
        (ok, s) \<Rightarrow> ask (isRecoveredRecycleTokenStillInProgress x token) (\<lambda>b s.
          if b then k ok (s\<lparr>vi_pendingToken := None\<rparr>)
          else ask (hasRecycleLaunchInProgress x) (\<lambda>_. k ok) (s\<lparr>vi_pendingToken := token\<rparr>)) s))"

definition desired_shutdown :: "idle_call \<Rightarrow> (bool \<Rightarrow> idle_op) \<Rightarrow> bool \<Rightarrow> idle_op" where
  "desired_shutdown x k ok s =
     (case markConnectTicketTeardownStarted x ''desired_state_shutdown_request'' None (ds_updatedAtUtc (vi_desired s)) s of
        (b, s) \<Rightarrow> k (b \<and> ok) s)"

text \<open>A timer that the new desired state has no use for.\<close>

definition timer_dropped :: "idle_call \<Rightarrow> idle_op \<Rightarrow> idle_op" where
  "timer_dropped x clear = steps [
     clear, clearReconnectGraceWindow x,
     (\<lambda>s. if suspended s \<or> 0 < viewers s then skip s
          else if ds_shutdownRequested (vi_desired s) then desired_stop x (request_stop x) s
          else if canHoldWarmReadyWithoutShutdown s then restoreRuntimeDerivedStatus x True s
          else stop_after_grace x s)]"

definition desired_resumes :: "idle_call \<Rightarrow> idle_op" where
  "desired_resumes x = (\<lambda>s.
     let rest = steps [ensureFirstViewerWindow x,
           (\<lambda>s. if shutdown_asked x s \<and> viewers s = 0 then desired_stop x (request_stop x) s else skip s)] in
     if getActiveShutdownCommand x s \<noteq> None \<and> viewers s = 0 \<and> \<not> suspended s then tryResumeActiveShutdownCommand x s
     else unless_done (tryResumeDesiredStateShutdown x) (\<lambda>s.
       if viewers s = 0 \<and> \<not> suspended s then ask (shouldResetIntoWarmReady x) (\<lambda>b s.
         if \<not> b then rest s
         else if hasPendingImmediateRecycle x s then startResetWindow x (request_stop x) True s
         else if vi_resetInFlight s then skip s
         else reset_resumed x s) s
       else rest s) s)"

definition reset_timer_acted :: "idle_call \<Rightarrow> idle_op" where
  "reset_timer_acted x = (\<lambda>s.
     if \<not> vi_resetTimer s then desired_resumes x s
     else ask (shouldSuppressNoViewerIdleAutomation x) (\<lambda>suppress.
       if suppress then steps [clearResetTimer, clearReconnectGraceWindow x, restoreRuntimeDerivedStatus x True]
       else ask (shouldResetIntoWarmReady x) (\<lambda>reset. if reset then desired_resumes x else timer_dropped x clearResetTimer)) s)"

definition grace_timer_acted :: "idle_call \<Rightarrow> idle_op" where
  "grace_timer_acted x = (\<lambda>s.
     if vi_reconnectGraceTimer s = None then reset_timer_acted x s
     else ask (shouldSuppressNoViewerIdleAutomation x) (\<lambda>suppress.
       if suppress then skip
       else ask (shouldResetIntoWarmReady x) (\<lambda>reset. if reset then reset_timer_acted x else timer_dropped x clearReconnectGraceTimer)) s)"

definition desired_acted :: "idle_call \<Rightarrow> bool \<Rightarrow> idle_op" where
  "desired_acted x durable = (\<lambda>s.
     if \<not> durable then
       (if ds_shutdownRequested (vi_desired s) then desired_stop x (request_stop x) s
        else if token_asked (vi_desired s) then startResetWindow x (request_stop x) True s
        else skip s)
     else if hasManagedReconnectGraceWindow s \<and> \<not> ds_shutdownRequested (vi_desired s) \<and> \<not> token_asked (vi_desired s) then skip s
     else ask (isWarmHoldActive x) (\<lambda>warm.
       if warm then steps [clearAllIdleStopTimers x, restoreRuntimeDerivedStatus x True] else grace_timer_acted x) s)"

definition applyDesiredStateSnapshot :: "idle_call \<Rightarrow> desired_state \<Rightarrow> idle_op" where
  "applyDesiredStateSnapshot x next s =
     (let old = vi_desired s;
          s' = s\<lparr>vi_desired := next, vi_resumeRequested := (vi_resumeRequested s \<and> ds_shutdownRequested next)\<rparr>;
          shutdown = (if ds_shutdownRequested next \<and> \<not> ds_shutdownRequested old
            then desired_shutdown x (desired_acted x) else desired_acted x) in
      if \<not> desired_changed next old then
        unless_done (tryResumeDesiredStateShutdown x) (\<lambda>s.
          if \<not> vi_resetInFlight s \<and> hasPendingImmediateRecycle x s \<and> viewers s = 0 \<and> \<not> suspended s
          then ask (shouldResetIntoWarmReady x) (\<lambda>b. if b then startResetWindow x (request_stop x) True else skip) s
          else skip s) s'
      else if ds_recycleRequestedToken next \<noteq> ds_recycleRequestedToken old then desired_token x shutdown s'
      else shutdown True s')"

section \<open>Viewers\<close>

definition failSupersededActiveCommand :: "idle_call \<Rightarrow> idle_op" where
  "failSupersededActiveCommand x = change (\<lambda>s. case readActiveCommand s of
     None \<Rightarrow> s
   | Some c \<Rightarrow> if \<not> commandMatchesCurrentManagedSession x c s \<and> ih_client x
       then noting (Fx_fail (cm_instanceCommandId c) ''superseded_by_current_session'') s else s)"

definition viewer_disconnected :: "string \<Rightarrow> string \<Rightarrow> idle_op" where
  "viewer_disconnected player reason =
     change (\<lambda>s. if map_get (vi_players s) player = None then s else noting (Fx_disconnect player reason) s)"

definition viewer_welcome :: "idle_call \<Rightarrow> idle_op" where
  "viewer_welcome x = steps [
     failSupersededActiveCommand x,
     change (\<lambda>s. s\<lparr>vi_resetInFlight := False, vi_launchRequested := False, vi_passiveRequested := False\<rparr>),
     clearRecycleExitFallbackTimer, clearZeroTimer, clearFirstViewerTimer, clearTransientStatusHeartbeat,
     clearReconnectGraceTimer, clearResetTimer, clearReconnectGraceWindow x, restoreRuntimeDerivedStatus x True]"

definition onViewerAdded :: "idle_call \<Rightarrow> string \<Rightarrow> idle_op" where
  "onViewerAdded x player s =
     (if isCommercialReconnectDeadlineLocked s \<or> deadline_passed x s
      then viewer_disconnected player ''Connect ticket rejected: reconnect grace has elapsed''
        (if player = [] then s else s\<lparr>vi_identities := map_delete player (vi_identities s)\<rparr>)
      else
        let s1 = s\<lparr>vi_hasSeenViewer := True\<rparr>;
            conflict = (case (readValidatedManagedSessionViewerIdentity player s1, conflicting_request s1) of
              (Some i, Some r) \<Rightarrow> \<not> same_request i r
            | _ \<Rightarrow> False) in
        if conflict
        then viewer_disconnected player ''Connect ticket rejected: instance is assigned to another managed session'' s1
        else (case markManagedSessionViewer x player False s1 of (m, s2) \<Rightarrow>
            if m \<noteq> None \<and> vi_phase s2 = Waiting \<and> player \<noteq> [] \<and> negotiating player s2 then skip s2
            else if m = None \<and> vi_phase s2 = Waiting \<and> managed_window s2 \<noteq> None then skip s2
            else viewer_welcome x s2))"

definition requestFastPolling :: "idle_call \<Rightarrow> idle_op" where
  "requestFastPolling x = change (\<lambda>s.
     if ih_client x then noting (Fx_fastPolling (min (max (ic_graceMs x) 20000) 120000)) s else s)"

definition handleZeroViewersAfterRemoval :: "idle_call \<Rightarrow> bool \<Rightarrow> identity option \<Rightarrow> idle_op" where
  "handleZeroViewersAfterRemoval x ignoreClaimless i = (\<lambda>s.
     if \<not> ignoreClaimless \<and> 0 < viewers s then skip s
     else steps [
       failSupersededActiveCommand x,
       (\<lambda>s. if suspended s then scheduleStop x ''grace-after-last-viewer'' (ic_graceMs x) True i s
            else ask (shouldResetIntoWarmReady x) (\<lambda>b s.
              if b then steps [
                requestFastPolling x,
                (\<lambda>s. if getActiveRecycleCommand x s \<noteq> None \<or> hasPendingImmediateRecycle x s
                     then startResetWindow x (request_stop x) True s
                     else scheduleResetAfterLastViewer x (request_stop x) (ic_graceMs x) True i s)] s
              else if getActiveShutdownCommand x s \<noteq> None then request_stop x False ''command_shutdown_requested'' None s
              else ask (shouldSuppressNoViewerIdleAutomation x) (\<lambda>b.
                if b then steps [requestFastPolling x, scheduleWarmHoldReconnectGrace x (request_stop x) (ic_graceMs x) True i]
                else scheduleStop x ''grace-after-last-viewer'' (ic_graceMs x) True i) s) s)] s)"

text \<open>The registry's event comes before the entry is deleted.\<close>

definition onViewerRemoved :: "idle_call \<Rightarrow> string \<Rightarrow> idle_op" where
  "onViewerRemoved x player s =
     (if isCommercialReconnectDeadlineLocked s then skip s
      else
        let m = fst (markManagedSessionViewer x player True s);
            s1 = (case opt_text_of (Some player) of None \<Rightarrow> s | Some p \<Rightarrow> s\<lparr>vi_identities := map_delete p (vi_identities s)\<rparr>);
            present = map_get (vi_players s1) player \<noteq> None \<and> player \<noteq> [];
            effective = viewers s1 - (if present then 1 else 0) in
        (case m of
           Some i \<Rightarrow>
             if 0 < countManagedSessionViewers (Some (mi_sessionRequestId i)) s1 then skip s1
             else if present \<and> getActiveShutdownCommand x s1 \<noteq> None then skip (waiting_for (T_settled True m) s1)
             else handleZeroViewersAfterRemoval x True m s1
         | None \<Rightarrow>
             if vi_phase s1 = Waiting \<and> managed_window s1 \<noteq> None then skip s1
             else if effective \<noteq> 0 then skip s1
             else if present then skip (waiting_for (T_settled False None) s1)
             else handleZeroViewersAfterRemoval x False None s1))"


section \<open>Timers\<close>

definition zero_timer_fires :: "idle_call \<Rightarrow> idle_op" where
  "zero_timer_fires x s = (case vi_zeroViewersTimer s of
     None \<Rightarrow> skip s
   | Some t \<Rightarrow>
       let s' = s\<lparr>vi_zeroViewersTimer := None\<rparr> in
       if \<not> st_window t then request_stop x False (st_reason t) (st_artifact t) s'
       else if hasViewerThatCancelsReconnectGrace (st_identity t) s' then viewer_is_back x s'
       else continueAfterReconnectGraceEvidenceIsDurable x (run_continuation x (request_stop x)) (Cont_stop (st_reason t) (st_artifact t)) s')"

definition first_viewer_evidence :: "idle_call \<Rightarrow> idle \<Rightarrow> evidence_status \<times> idle" where
  "first_viewer_evidence x s = (case vi_ticketGate s of
     None \<Rightarrow> (No_evidence, s)
   | Some g \<Rightarrow> (case getDurableManagedViewerEvidenceStatus (ih_gate x) g of (e, g') \<Rightarrow> (e, s\<lparr>vi_ticketGate := Some g'\<rparr>)))"

definition first_viewer_timer_fires :: "idle_call \<Rightarrow> idle_op" where
  "first_viewer_timer_fires x s =
     (if \<not> vi_firstViewerTimer s then skip s
      else
        let s' = s\<lparr>vi_firstViewerTimer := False\<rparr> in
        if vi_hasSeenViewer s' \<or> 0 < viewers s' \<or> isMaintenanceActive s' then skip s'
        else ask (isWarmHoldActive x) (\<lambda>b s.
          if b then skip s
          else (case first_viewer_evidence x s of (e, s) \<Rightarrow>
            request_stop x False (resolveFirstViewerTimeoutStopReason e) None (noting (Fx_first_viewer_timeout e) s))) s')"

definition heartbeat_ticks :: "idle_call \<Rightarrow> idle_op" where
  "heartbeat_ticks x s = (case vi_heartbeat s of
     None \<Rightarrow> skip s | Some (status, reason) \<Rightarrow> publishStatus x status reason True s)"

definition grace_timer_fires :: "idle_call \<Rightarrow> idle_op" where
  "grace_timer_fires x s = (case vi_reconnectGraceTimer s of
     None \<Rightarrow> skip s
   | Some t \<Rightarrow>
       let s' = s\<lparr>vi_reconnectGraceTimer := None\<rparr>;
           k = (if gr_warm t then Cont_warm (gr_identity t) else Cont_reset (gr_identity t)) in
       if \<not> gr_window t then run_continuation x (request_stop x) k s'
       else if hasViewerThatCancelsReconnectGrace (gr_identity t) s' then viewer_is_back x s'
       else continueAfterReconnectGraceEvidenceIsDurable x (run_continuation x (request_stop x)) k s')"

definition reset_timer_fires :: "idle_call \<Rightarrow> idle_op" where
  "reset_timer_fires x s =
     (if vi_resetTimer s then requestStackRecycle x (request_stop x) (s\<lparr>vi_resetTimer := False\<rparr>) else skip s)"

definition evidence_timer_fires :: "idle_call \<Rightarrow> idle_op" where
  "evidence_timer_fires x s =
     (if vi_evidenceRetryTimer s then evidence_retry_fires x (run_continuation x (request_stop x)) s else skip s)"

definition launch_retry_fires :: "idle_call \<Rightarrow> idle_op" where
  "launch_retry_fires x s =
     (if vi_launchRetryTimer s then requestStackRecycle x (request_stop x) (s\<lparr>vi_launchRetryTimer := False\<rparr>) else skip s)"

definition exit_timer_fires :: "idle_call \<Rightarrow> idle_op" where
  "exit_timer_fires x s =
     (if vi_exitTimer s
      then ask (hasRecycleLaunchInProgress x) (\<lambda>b. if b then change (noting Fx_exit) else skip) (s\<lparr>vi_exitTimer := False\<rparr>)
      else skip s)"

section \<open>Resumed functions\<close>

definition executable :: "string + string option \<Rightarrow> bool" where
  "executable outcome \<longleftrightarrow> (case outcome of Inl e \<Rightarrow> True | Inr status \<Rightarrow> canExecuteAcknowledgedInstanceCommand status)"

text \<open>\<open>startCommand\<close> of a recycle has answered, or failed, which is only logged.\<close>

definition recycle_started :: "idle_call \<Rightarrow> command \<Rightarrow> marker option \<Rightarrow> string option \<Rightarrow> string + string option \<Rightarrow> idle_op" where
  "recycle_started x c existing token outcome = detached (steps [
     if executable outcome then skip else passive_recycle,
     recycle_launch x (request_stop x) (Some c) existing token])"

definition launched_started :: "string + string option \<Rightarrow> idle_op" where
  "launched_started outcome = (if executable outcome then skip else passive_recycle)"

definition stop_ends :: "idle \<Rightarrow> idle" where
  "stop_ends s = s\<lparr>vi_stopInFlight := False\<rparr>"

definition stop_started :: "idle_call \<Rightarrow> bool \<Rightarrow> string \<Rightarrow> string option \<Rightarrow> command \<Rightarrow> string + string option \<Rightarrow> idle_op" where
  "stop_started x resume reason artifact c outcome =
     (if executable outcome then stop_captures x resume reason artifact (Some c)
      else promised resume (finishing stop_ends refused))"

definition stop_captured :: "idle_call \<Rightarrow> bool \<Rightarrow> string \<Rightarrow> idle_op" where
  "stop_captured x resume reason = steps [
     publishStatus x ''stopping'' (mapStopReason reason) False,
     change (noting (Fx_stop reason (\<not> ic_dryRun x))),
     change (waiting_for (T_stop_requested resume reason))]"

definition stop_failure_ends :: "idle_call \<Rightarrow> bool \<Rightarrow> idle_op" where
  "stop_failure_ends x resume = promised resume (finishing stop_ends (steps [
     publishStatus x ''idle_shutdown_pending'' ''stop_request_failed'' False,
     scheduleRetryIfStillIdle x]))"

definition stop_requested :: "idle_call \<Rightarrow> bool \<Rightarrow> string \<Rightarrow> string + string option \<Rightarrow> idle_op" where
  "stop_requested x resume reason outcome = (\<lambda>s.
     let c = (if ih_client x then getActiveShutdownCommand x s else None) in
     case (outcome, c) of
       (Inr v, None) \<Rightarrow> skip (stop_ends s)
     | (Inr v, Some k) \<Rightarrow> skip (waiting_for T_stop_completed (noting (Fx_complete (cm_instanceCommandId k)) s))
     | (Inl e, None) \<Rightarrow> stop_failure_ends x resume s
     | (Inl e, Some k) \<Rightarrow> steps [captureShutdownSessionArtifacts x ''shutdown_failed'' (Some k) None False,
         change (waiting_for (T_stop_failure_captured resume k))] s)"

definition stop_failure_captured :: "idle_call \<Rightarrow> bool \<Rightarrow> command \<Rightarrow> idle_op" where
  "stop_failure_captured x resume c = steps [
     change (noting (Fx_fail (cm_instanceCommandId c) ''shutdown_request_failed'')),
     change (waiting_for (T_stop_failure_reported resume))]"

section \<open>Commands\<close>

definition disconnectPlayersForExplicitTeardown :: idle_op where
  "disconnectPlayersForExplicitTeardown = change (\<lambda>s.
     fold (\<lambda>(p, v). noting (Fx_disconnect p ''Connect ticket revoked: ScaleWorld session ended'')) (vi_players s) s)"

definition tryStartLaunchedRecycleCommand :: "idle_call \<Rightarrow> idle_op" where
  "tryStartLaunchedRecycleCommand x = (\<lambda>s. case getActiveRecycleCommand x s of
     None \<Rightarrow> skip s
   | Some c \<Rightarrow>
       if cm_status c = Running \<or> \<not> ih_client x then skip s
       else ask (hasRecycleLaunchInProgress x) (\<lambda>b s.
         if \<not> b then skip s
         else (case readRecycleMarker x s of
           Inr (Some m) \<Rightarrow>
             if recycleTokensMatch (Some (cm_instanceCommandId c)) (rm_recycleRequestedToken m)
             then skip (waiting_for (T_launched_started c) (noting (Fx_start (cm_instanceCommandId c)) s)) else skip s
         | _ \<Rightarrow> skip s)) s)"

definition superseded :: "idle_call \<Rightarrow> command \<Rightarrow> idle \<Rightarrow> bool" where
  "superseded x c s \<longleftrightarrow> \<not> commandMatchesCurrentManagedSession x c s"

text \<open>\<open>failSupersededCommand\<close> before its \<open>await\<close>; the answer is whether the command was stale.\<close>

definition failSupersededCommand :: "idle_call \<Rightarrow> command \<Rightarrow> idle \<Rightarrow> bool \<times> idle" where
  "failSupersededCommand x c s =
     (superseded x c s,
      if superseded x c s \<and> ih_client x then noting (Fx_fail (cm_instanceCommandId c) ''superseded_by_current_session'') s else s)"

definition command_checked :: "idle_call \<Rightarrow> command \<Rightarrow> command option \<Rightarrow> idle_op" where
  "command_checked x c tracked s = (case failSupersededCommand x c s of
     (True, s) \<Rightarrow> skip s
   | (False, s) \<Rightarrow> skip (waiting_for (T_command c tracked) s))"

definition command_heard :: "idle_call \<Rightarrow> command \<Rightarrow> idle_op" where
  "command_heard x c s = (case readActiveCommand s of
     None \<Rightarrow> command_checked x c None s
   | Some t \<Rightarrow> (case failSupersededCommand x t s of (stale, s) \<Rightarrow> skip (waiting_for (T_tracked c t stale) s)))"

definition command_taken :: "idle_call \<Rightarrow> command \<Rightarrow> command option \<Rightarrow> idle_op" where
  "command_taken x c tracked s =
     (let i = cm_instanceCommandId c; status = recycleTokenStatus x (Some i) s in
      if \<not> recycle_to_warm c \<and> \<not> isShutdownCommand c then skip (noting (Fx_fail i ''unsupported_command'') s)
      else if recycle_to_warm c \<and> status = Unavailable then skip s
      else if recycle_to_warm c \<and> status = Completed then skip (noting (Fx_complete i) s)
      else case tracked of
        Some t \<Rightarrow> if cm_instanceCommandId t = i then skip s else skip (noting (Fx_fail i ''command_conflict'') s)
      | None \<Rightarrow>
          (case markConnectTicketTeardownStarted x (if isShutdownCommand c then ''explicit_shutdown_command'' else ''explicit_recycle_command'')
              (Some c) (Some (cm_requestedAtUtc c)) s of
             (False, s) \<Rightarrow> skip s
           | (True, s) \<Rightarrow> skip (waiting_for (T_acknowledged c) (noting (Fx_acknowledge i) (s\<lparr>vi_observed := Some c\<rparr>)))))"

definition command_acknowledged :: "idle_call \<Rightarrow> command \<Rightarrow> string + string option \<Rightarrow> idle_op" where
  "command_acknowledged x c outcome = detached (case outcome of
     Inl e \<Rightarrow> change (\<lambda>s. if map_option cm_instanceCommandId (vi_observed s) = Some (cm_instanceCommandId c)
       then s\<lparr>vi_observed := None\<rparr> else s)
   | Inr status \<Rightarrow> steps [
       change (\<lambda>s. s\<lparr>vi_observed := None\<rparr>),
       (\<lambda>s. if \<not> canExecuteAcknowledgedInstanceCommand status then skip s
            else if 0 < viewers s then disconnectPlayersForExplicitTeardown s
            else if isShutdownCommand c then request_stop x False ''command_shutdown_requested'' None s
            else ask (hasRecycleLaunchInProgress x) (\<lambda>b.
              if b then tryStartLaunchedRecycleCommand x else tryResumeActiveRecycleCommand x) s)])"

end
