(* ===== verification/Viewer_Idle_System.thy ===== *)
theory Viewer_Idle_System
  imports Viewer_Idle_Events
begin

text \<open>
  The whole of \<open>viewer-idle-stop.ts\<close>: its start, its events, and its runs. Beside its own steps a run has
  those of its surroundings: the registry changes a viewer, the agent has another current command, the
  recycle helper replaces the marker file, and others use the ticket gate. An exception that leaves a
  listener or a timer is not the end of a run here, though it may be that of the process.
\<close>

section \<open>Start\<close>

text \<open>The variables before anything is wired; \<open>None\<close> is an unreadable recycle marker.\<close>

definition idle_vars :: "idle_call \<Rightarrow> (string \<times> viewer) list \<Rightarrow> desired_state \<Rightarrow> file_state \<Rightarrow> gate option \<Rightarrow> command option \<Rightarrow>
    marker option \<Rightarrow> idle" where
  "idle_vars x players desired file g c m =
     \<lparr>vi_zeroViewersTimer = None, vi_firstViewerTimer = False, vi_heartbeat = None, vi_reconnectGraceTimer = None,
      vi_resetTimer = False, vi_phase = Inactive, vi_window = None, vi_evidenceRetryTimer = False, vi_evidenceRetryAttempts = 0,
      vi_continuation = None, vi_committed = False, vi_cutoffDurable = False, vi_exitTimer = False, vi_launchRetryTimer = False,
      vi_launchRetryAttempts = 0, vi_launchInFlight = False, vi_stopInFlight = False, vi_hasSeenViewer = (players \<noteq> []),
      vi_hasSeenManaged = False, vi_lastRequestId = None, vi_lastObservedAt = None, vi_identities = [], vi_maintenance = None,
      vi_maintenanceInitialized = False, vi_maintenanceInFlight = False, vi_desired = desired,
      vi_recoveredToken = (if isReplacementProof m (ih_pid x) then Option.bind m rm_recycleRequestedToken else None),
      vi_clientCommand = (if ih_client x then c else None), vi_observed = None, vi_pendingToken = None, vi_resetInFlight = False,
      vi_launchRequested = False, vi_passiveRequested = False, vi_resumeRequested = False, vi_players = players, vi_ticketGate = g,
      vi_markerFile = file, vi_tasks = [], vi_calls = 0, vi_uuids = 0, vi_log = []\<rparr>"

definition token_at_startup :: "idle_call \<Rightarrow> idle \<Rightarrow> idle" where
  "token_at_startup x s =
     (let token = ds_recycleRequestedToken (vi_desired s); status = recycleTokenStatus x token s in
      if viewers s = 0 \<and> token_asked (vi_desired s) \<and> status \<noteq> Completed
         \<and> (status = Unavailable \<or> \<not> recycleTokensMatch token (vi_recoveredToken s))
      then s\<lparr>vi_pendingToken := token\<rparr> else s)"

definition new_idle :: "idle_call \<Rightarrow> (string \<times> viewer) list \<Rightarrow> desired_state \<Rightarrow> file_state \<Rightarrow> gate option \<Rightarrow> command option \<Rightarrow>
    idle option" where
  "new_idle x players desired file g c = (case readMarker (gc_dp (ih_gate x)) (ih_iso x) file of
     Inl e \<Rightarrow> None
   | Inr m \<Rightarrow> Some (token_at_startup x (idle_vars x players desired file g c m)))"

definition resume_all :: "idle_call \<Rightarrow> idle_op" where
  "resume_all x = steps [
     tryResumeActiveRecycleCommand x, tryResumeActiveShutdownCommand x,
     (\<lambda>s. (True, snd (tryResumeDesiredStateShutdown x s)))]"

text \<open>The end of \<open>wireViewerIdleStop\<close>; \<open>desired\<close> is what the desired-state file says now.\<close>

definition wired :: "idle_call \<Rightarrow> desired_state \<Rightarrow> idle_op" where
  "wired x desired = steps [
     if 0 < ic_maintenanceRefreshMs x \<and> ic_maintenanceTagKey x \<noteq> [] then refreshMaintenanceMode x
     else steps [change (\<lambda>s. s\<lparr>vi_maintenanceInitialized := True\<rparr>), ensureFirstViewerWindow x, resume_all x],
     if ic_desiredStatePath x \<noteq> [] \<and> 0 < ic_desiredStateRefreshMs x then applyDesiredStateSnapshot x desired else skip,
     resume_all x]"

section \<open>Events\<close>

text \<open>\<open>addReconnectGraceRecoveryListener\<close>\<close>

definition recovery_heard :: "idle_call \<Rightarrow> bool \<Rightarrow> idle_op" where
  "recovery_heard x pending = (\<lambda>s.
     if \<not> pending \<or> vi_committed s then skip s
     else steps [
       change (\<lambda>s. rearmed (noting Fx_recovered (s\<lparr>vi_committed := True, vi_passiveRequested := True\<rparr>))),
       ask (hasRecycleLaunchMarker x) (\<lambda>b. if b then requestStackRecycle x (request_stop x) else steps [
         publishStatus x ''resetting'' ''recovered_commercial_teardown_cleanup'' False,
         (\<lambda>s. if shutdown_asked x s then request_stop x False ''recovered_commercial_teardown_cleanup'' None s
              else startResetWindow x (request_stop x) True s)])] s)"

text \<open>The \<open>error\<close> event of a process that was spawned.\<close>

definition spawn_failed :: "idle_call \<Rightarrow> string \<Rightarrow> idle_op" where
  "spawn_failed x recycleId = steps [
     change (\<lambda>s. s\<lparr>vi_launchRequested := False\<rparr>), clearRecycleExitFallbackTimer, own_marker_cleared x recycleId,
     handleStackRecycleLaunchFailure x (request_stop x)]"

definition resumed :: "idle_call \<Rightarrow> task \<Rightarrow> string + string option \<Rightarrow> idle_op" where
  "resumed x t outcome = (case t of
     T_maintenance \<Rightarrow> maintenance_read x outcome
   | T_settled ignoreClaimless i \<Rightarrow> handleZeroViewersAfterRemoval x ignoreClaimless i
   | T_recycle_started c existing token \<Rightarrow> recycle_started x c existing token outcome
   | T_launched_started c \<Rightarrow> launched_started outcome
   | T_stop_started resume reason artifact c \<Rightarrow> stop_started x resume reason artifact c outcome
   | T_stop_captured resume reason \<Rightarrow> stop_captured x resume reason
   | T_stop_requested resume reason \<Rightarrow> stop_requested x resume reason outcome
   | T_stop_completed \<Rightarrow> change stop_ends
   | T_stop_failure_captured resume c \<Rightarrow> stop_failure_captured x resume c
   | T_stop_failure_reported resume \<Rightarrow> stop_failure_ends x resume
   | T_resume_refused \<Rightarrow> change (\<lambda>s. s\<lparr>vi_resumeRequested := False\<rparr>)
   | T_tracked c tracked stale \<Rightarrow> command_checked x c (if stale then None else Some tracked)
   | T_command c tracked \<Rightarrow> command_taken x c tracked
   | T_acknowledged c \<Rightarrow> command_acknowledged x c outcome)"

datatype idle_event =
    Ev_added string viewer
  | Ev_negotiated string
  | Ev_viewer string viewer
  | Ev_removed string
  | Ev_zero_timer
  | Ev_first_viewer_timer
  | Ev_heartbeat
  | Ev_grace_timer
  | Ev_reset_timer
  | Ev_evidence_timer
  | Ev_launch_retry
  | Ev_exit_timer
  | Ev_maintenance_due
  | Ev_resume task "string + string option"
  | Ev_desired desired_state
  | Ev_command command
  | Ev_recovery bool
  | Ev_spawn_error string
  | Ev_agent "command option"
  | Ev_marker file_state
  | Ev_gate gate_op

definition viewer_set :: "string \<Rightarrow> viewer \<Rightarrow> idle \<Rightarrow> idle" where
  "viewer_set p v s = s\<lparr>vi_players := map_set p v (vi_players s)\<rparr>"

definition idle_handle :: "idle_call \<Rightarrow> idle_event \<Rightarrow> idle_op" where
  "idle_handle x e s = (case e of
     Ev_added p v \<Rightarrow> onViewerAdded x p (viewer_set p v s)
   | Ev_negotiated p \<Rightarrow> if map_get (vi_players s) p = None then skip s else onViewerAdded x p s
   | Ev_viewer p v \<Rightarrow> skip (if map_get (vi_players s) p = None then s else viewer_set p v s)
   | Ev_removed p \<Rightarrow>
       if map_get (vi_players s) p = None then skip s
       else finishing (\<lambda>s. s\<lparr>vi_players := map_delete p (vi_players s)\<rparr>) (onViewerRemoved x p) s
   | Ev_zero_timer \<Rightarrow> zero_timer_fires x s
   | Ev_first_viewer_timer \<Rightarrow> first_viewer_timer_fires x s
   | Ev_heartbeat \<Rightarrow> heartbeat_ticks x s
   | Ev_grace_timer \<Rightarrow> grace_timer_fires x s
   | Ev_reset_timer \<Rightarrow> reset_timer_fires x s
   | Ev_evidence_timer \<Rightarrow> evidence_timer_fires x s
   | Ev_launch_retry \<Rightarrow> launch_retry_fires x s
   | Ev_exit_timer \<Rightarrow> exit_timer_fires x s
   | Ev_maintenance_due \<Rightarrow> refreshMaintenanceMode x s
   | Ev_resume t outcome \<Rightarrow>
       if t \<in> set (vi_tasks s) then resumed x t outcome (s\<lparr>vi_tasks := remove1 t (vi_tasks s)\<rparr>) else skip s
   | Ev_desired d \<Rightarrow> applyDesiredStateSnapshot x d s
   | Ev_command c \<Rightarrow> if ih_client x then command_heard x c s else skip s
   | Ev_recovery pending \<Rightarrow> if ih_client x then recovery_heard x pending s else skip s
   | Ev_spawn_error r \<Rightarrow> if Fx_spawn r \<in> set (vi_log s) then spawn_failed x r s else skip s
   | Ev_agent c \<Rightarrow> skip (if ih_client x then s\<lparr>vi_clientCommand := c\<rparr> else s)
   | Ev_marker f \<Rightarrow> skip (s\<lparr>vi_markerFile := f\<rparr>)
   | Ev_gate op \<Rightarrow> skip (s\<lparr>vi_ticketGate := map_option (gate_do (ih_gate x) op) (vi_ticketGate s)\<rparr>))"

definition idle_run :: "(idle_call \<times> idle_event) list \<Rightarrow> idle \<Rightarrow> idle" where
  "idle_run es s = fold (\<lambda>(x, e) s. snd (idle_handle x e s)) es s"

end
