(* ===== verification/Viewer_Idle_Kept.thy ===== *)
theory Viewer_Idle_Kept
  imports Viewer_Idle_System
begin

text \<open>
  What every step of the automation keeps. A predicate on the state that does not look at timers and
  windows, and that survives each of the few steps that matter (a status, a restoration of Ready, a
  cutoff, a commitment, the start of a stop or of a launch, the stages of a stop), survives every handler.
  The two locales are the contract; \<open>Viewer_Idle_Properties\<close> interprets them on the predicates of the
  properties.
\<close>

section \<open>What a predicate may look at\<close>

definition core :: "idle \<Rightarrow> idle_effect list \<times> bool \<times> bool \<times> bool \<times> task list \<times> (string \<times> viewer) list \<times> string option \<times> bool
    \<times> gate option" where
  "core s = (vi_log s, vi_committed s, vi_cutoffDurable s, vi_stopInFlight s, vi_tasks s, vi_players s, vi_maintenance s,
     vi_maintenanceInitialized s, vi_ticketGate s)"

fun benign :: "idle_effect \<Rightarrow> bool" where
  "benign (Fx_restored b) = False"
| "benign (Fx_cutoff r) = False"
| "benign Fx_rearmed = False"
| "benign Fx_committed = False"
| "benign Fx_recovered = False"
| "benign (Fx_stop_begins r) = False"
| "benign (Fx_stop r b) = False"
| "benign Fx_recycle_begins = False"
| "benign (Fx_spawn r) = False"
| "benign _ = True"

fun stop_task :: "task \<Rightarrow> bool" where
  "stop_task (T_stop_started b r a c) = True"
| "stop_task (T_stop_captured b r) = True"
| "stop_task (T_stop_requested b r) = True"
| "stop_task T_stop_completed = True"
| "stop_task (T_stop_failure_captured b c) = True"
| "stop_task (T_stop_failure_reported b) = True"
| "stop_task _ = False"

fun before_stop :: "task \<Rightarrow> bool" where
  "before_stop (T_stop_started b r a c) = True"
| "before_stop (T_stop_captured b r) = True"
| "before_stop _ = False"

fun launch_task :: "task \<Rightarrow> bool" where
  "launch_task (T_recycle_started c m t) = True"
| "launch_task _ = False"

definition taken :: "task \<Rightarrow> idle \<Rightarrow> idle" where
  "taken t s = s\<lparr>vi_tasks := remove1 t (vi_tasks s)\<rparr>"

text \<open>What excuses a destruction: the commitment, or an instance without viewers and maintenance.\<close>

definition may_destroy :: "idle \<Rightarrow> bool" where
  "may_destroy s \<longleftrightarrow> vi_committed s \<or> (viewers s = 0 \<and> \<not> suspended s)"

lemmas idle_core = core_def noting_def waiting_for_def

section \<open>The quiet steps\<close>

locale quiet_kept =
  fixes x :: idle_call and I :: "idle \<Rightarrow> bool"
  assumes frame: "I s \<Longrightarrow> core t = core s \<Longrightarrow> I t"
    and benign: "I s \<Longrightarrow> benign e \<Longrightarrow> I (noting e s)"
    and restored: "I s \<Longrightarrow> \<not> vi_committed s \<Longrightarrow> I (noting (Fx_restored b) s)"
    and cutoff: "I s \<Longrightarrow> I (snd (cutoff_written x opts s))"
    and durable: "I s \<Longrightarrow> cutoff_written x opts s = (True, s') \<Longrightarrow> I (s'\<lparr>vi_cutoffDurable := True\<rparr>)"
    and lapsed: "I s \<Longrightarrow> I (s\<lparr>vi_cutoffDurable := False\<rparr>)"
    and rearm: "I s \<Longrightarrow> I (rearmed s)"
begin

lemma plain [keeps_rules]: "(\<And>s. core (u s) = core s) \<Longrightarrow> keeps I (change u)"
  by (rule keeps_change) (erule frame, simp)

lemma noted [keeps_rules]: "benign e \<Longrightarrow> keeps I (change (noting e))"
  by (rule keeps_change) (rule benign)

lemma status_kept [keeps_rules]: "keeps I (publishStatus x st r h)"
  unfolding publishStatus_def by (rule keeps_change) (simp add: benign)

lemma restore_kept [keeps_rules]: "keeps I (restoreRuntimeDerivedStatus x p)"
  unfolding restoreRuntimeDerivedStatus_def
  by (rule keeps_change) (auto simp: isCommercialReconnectDeadlineLocked_def intro: restored)

lemma timers_kept [keeps_rules]:
  "keeps I clearZeroTimer" "keeps I clearFirstViewerTimer" "keeps I clearTransientStatusHeartbeat"
  "keeps I clearReconnectGraceTimer" "keeps I clearResetTimer" "keeps I clearRecycleExitFallbackTimer"
  "keeps I clearStackRecycleRetryTimer" "keeps I (startTransientStatusHeartbeat x a b)"
  "keeps I scheduleReconnectGraceEvidenceRetry"
  unfolding clearZeroTimer_def clearFirstViewerTimer_def clearTransientStatusHeartbeat_def clearReconnectGraceTimer_def
    clearResetTimer_def clearRecycleExitFallbackTimer_def clearStackRecycleRetryTimer_def startTransientStatusHeartbeat_def
    scheduleReconnectGraceEvidenceRetry_def
  by (rule plain, simp add: core_def)+

lemma window_kept [keeps_rules]: "keeps I (startReconnectGraceWindow x a d i)"
  unfolding startReconnectGraceWindow_def
proof (rule keeps_change)
  fix s assume "I s"
  then have "I (rearmed s)" by (rule rearm)
  then have "I (rearmed (s\<lparr>vi_phase := Waiting, vi_uuids := vi_uuids s + 1, vi_window := w\<rparr>))" for w
    by (rule frame) (simp add: core_def rearmed_def noting_def)
  then show "I (let e = a + max 0 d; s' = rearmed (s\<lparr>vi_phase := Waiting, vi_uuids := vi_uuids s + 1,
      vi_window := Some \<lparr>gw_disconnectedAt = a, gw_expiresAt = e, gw_identity = i, gw_evidenceId = ih_uuid x (vi_uuids s)\<rparr>\<rparr>) in
      if ih_client x then noting (Fx_window (Some (a, e))) s' else s')"
    by (simp add: Let_def benign)
qed

lemma clearWindow_kept [keeps_rules]: "keeps I (clearReconnectGraceWindow x)"
  unfolding clearReconnectGraceWindow_def
proof (rule keeps_change)
  fix s assume "I s"
  then have w: "I (s\<lparr>vi_phase := Inactive, vi_window := None\<rparr>)" by (rule frame) (simp add: core_def)
  from \<open>I s\<close> show "I (if vi_phase s = Persisting_elapsed then s else if vi_phase s = Inactive \<and> vi_window s = None then s
      else let s' = s\<lparr>vi_phase := Inactive, vi_window := None\<rparr> in if ih_client x then noting (Fx_window None) s' else s')"
    by (simp add: Let_def w benign)
qed

lemma cutoff_written_kept [keeps_rules]: "keeps I (cutoff_written x opts)"
  by (rule keepsI) (rule cutoff)

lemma marking_kept [keeps_rules]: "keeps I (markConnectTicketTeardownStarted x r c t)"
  unfolding markConnectTicketTeardownStarted_def by (rule cutoff_written_kept)

lemma ensured_kept [keeps_rules]: "keeps I (cutoff_ensured x r c)"
proof (rule keepsI)
  fix s assume i: "I s"
  show "I (snd (cutoff_ensured x r c s))"
  proof (cases "vi_cutoffDurable s")
    case False
    obtain ok s' where w: "markConnectTicketTeardownStarted x r c
        (or_else (map_option cm_requestedAtUtc c) (ds_updatedAtUtc (vi_desired s))) s = (ok, s')" by fastforce
    have "I s'" using keepsD [OF marking_kept i] w by (metis snd_conv)
    then show ?thesis
      using False w durable [OF i] lapsed [of s']
      by (cases ok) (auto simp: cutoff_ensured_def markConnectTicketTeardownStarted_def)
  qed (simp add: cutoff_ensured_def i)
qed

lemma clearAll_kept [keeps_rules]: "keeps I (clearAllIdleStopTimers x)"
  unfolding clearAllIdleStopTimers_def by (intro keeps_rules)

lemma firstViewer_kept [keeps_rules]: "keeps I (ensureFirstViewerWindow x)"
  unfolding ensureFirstViewerWindow_def
  by (intro keeps_rules) (auto intro!: keepsI elim: frame simp: core_def keepsD [OF timers_kept(2)])

lemma plain_state [keeps_rules]: "(\<And>s. core (u s) = core s) \<Longrightarrow> keeps I (\<lambda>s. (b, u s))"
  by (rule keepsI) (erule frame, simp)

lemma arm_kept [keeps_rules]: "keeps I (arm_stop x r d w i)"
  unfolding arm_stop_def by (intro keeps_rules keeps_If) (simp_all add: core_def)

lemma scheduleStop_kept [keeps_rules]: "keeps I (scheduleStop x r d w i)"
  unfolding scheduleStop_def by (intro keeps_rules)

lemma retry_kept [keeps_rules]: "keeps I (scheduleRetryIfStillIdle x)" "keeps I (scheduleStackRecycleRetry x p)" "keeps I (recycle_waits x r)"
  unfolding scheduleRetryIfStillIdle_def scheduleStackRecycleRetry_def recycle_waits_def
  by (intro keeps_rules keeps_If; simp add: core_def)+

end

section \<open>Decisions\<close>

lemma keeps_decide:
  assumes "keeps I f" "keeps I g" "keeps I h"
  shows "keeps I (\<lambda>s. case f s of (True, s) \<Rightarrow> g s | (False, s) \<Rightarrow> h s)"
  using assms by (auto simp: keeps_def split: prod.split bool.split)

lemma snd_promised: "snd (promised resume f s) =
    (if resume \<and> \<not> fst (f s) then waiting_for T_resume_refused (snd (f s)) else snd (f s))"
  by (auto simp: promised_def split: prod.split bool.split)

lemma cutoff_written_same: "cutoff_written x opts s = (b, s') \<Longrightarrow> vi_committed s' = vi_committed s \<and> vi_players s' = vi_players s
    \<and> vi_maintenance s' = vi_maintenance s \<and> vi_maintenanceInitialized s' = vi_maintenanceInitialized s
    \<and> vi_stopInFlight s' = vi_stopInFlight s"
  by (auto simp: cutoff_written_def noting_def Let_def split: option.splits prod.splits if_splits)

lemma ensured_spec:
  assumes "cutoff_ensured x r c s = (True, s')"
  shows "vi_cutoffDurable s' \<and> may_destroy s' = may_destroy s \<and> vi_stopInFlight s' = vi_stopInFlight s"
  using assms
  by (auto simp: cutoff_ensured_def markConnectTicketTeardownStarted_def may_destroy_def viewers_def suspended_def isMaintenanceActive_def
      dest!: cutoff_written_same split: if_splits prod.splits)

lemma stop_clears_same:
  "fst (stop_clears x s) \<and> vi_cutoffDurable (snd (stop_clears x s)) = vi_cutoffDurable s
    \<and> vi_stopInFlight (snd (stop_clears x s)) = vi_stopInFlight s"
  by (simp add: stop_clears_def clearReconnectGraceWindow_def clearRecycleExitFallbackTimer_def clearTransientStatusHeartbeat_def
      clearReconnectGraceTimer_def clearResetTimer_def noting_def Let_def)

section \<open>All the steps\<close>

text \<open>
  \<open>L\<close> is the state of a launch that has begun and waits for nothing, \<open>S\<close> that of a stop that has been
  called and waits for nothing; \<open>R\<close> says that the recovery of a teardown may be heard of.
\<close>

locale idle_kept = quiet_kept x I + launching: quiet_kept x L + stopping: quiet_kept x S
  for x :: idle_call and I L S :: "idle \<Rightarrow> bool" +
  fixes R :: bool
  assumes waits: "I s \<Longrightarrow> \<not> stop_task t \<Longrightarrow> \<not> launch_task t \<Longrightarrow> I (waiting_for t s)"
    and commits: "I s \<Longrightarrow> vi_cutoffDurable s \<Longrightarrow> I (teardown_committed (noting (Fx_evidence ev i since til) s))"
    and commits_now: "I s \<Longrightarrow> cutoff_written x opts (noting (Fx_evidence ev i since til) s) = (True, s')
          \<Longrightarrow> I (teardown_committed (s'\<lparr>vi_cutoffDurable := True\<rparr>))"
    and evidence_read: "I s \<Longrightarrow> I (snd (first_viewer_evidence x s))"
    and recovers: "R \<Longrightarrow> I s \<Longrightarrow> I (rearmed (noting Fx_recovered (s\<lparr>vi_committed := True\<rparr>)))"
    and stop_begun: "I s \<Longrightarrow> vi_cutoffDurable s \<Longrightarrow> \<not> vi_stopInFlight s \<Longrightarrow> may_destroy s \<Longrightarrow> before_stop t \<Longrightarrow> list_all benign fxs
          \<Longrightarrow> I (waiting_for t (fold noting fxs ((noting (Fx_stop_begins r) s)\<lparr>vi_stopInFlight := True\<rparr>)))"
    and stop_goes_on: "I s \<Longrightarrow> T_stop_started b r a c \<in> set (vi_tasks s) \<Longrightarrow> I (waiting_for (T_stop_captured b r) (taken (T_stop_started b r a c) s))"
    and stop_given_up: "I s \<Longrightarrow> T_stop_started b r a c \<in> set (vi_tasks s) \<Longrightarrow> I (stop_ends (taken (T_stop_started b r a c) s))"
    and stop_called: "I s \<Longrightarrow> T_stop_captured b r \<in> set (vi_tasks s)
          \<Longrightarrow> I (waiting_for (T_stop_requested b r) (noting (Fx_stop r call) (taken (T_stop_captured b r) s)))"
    and stop_answered: "I s \<Longrightarrow> stop_task t \<Longrightarrow> \<not> before_stop t \<Longrightarrow> t \<in> set (vi_tasks s) \<Longrightarrow> S (taken t s)"
    and stop_waits: "S s \<Longrightarrow> stop_task t \<Longrightarrow> \<not> before_stop t \<Longrightarrow> I (waiting_for t s)"
    and stop_over: "S s \<Longrightarrow> I (stop_ends s)"
    and resumes: "I s \<Longrightarrow> \<not> stop_task t \<Longrightarrow> \<not> launch_task t \<Longrightarrow> I (taken t s)"
    and launch_begun: "I s \<Longrightarrow> vi_cutoffDurable s \<Longrightarrow> may_destroy s \<Longrightarrow> L (noting Fx_recycle_begins s)"
    and launch_waits: "L s \<Longrightarrow> I (waiting_for (T_recycle_started c m k) s)"
    and launch_resumes: "I s \<Longrightarrow> T_recycle_started c m k \<in> set (vi_tasks s) \<Longrightarrow> L (taken (T_recycle_started c m k) s)"
    and launch_done: "L s \<Longrightarrow> I (noting (Fx_spawn r) s)"
    and launch_given_up: "L s \<Longrightarrow> I s"
begin

definition stop_ok :: "stop_op \<Rightarrow> bool" where
  "stop_ok stop \<longleftrightarrow> (\<forall>b r a. keeps I (stop b r a))"

lemma keptD: "keeps I f \<Longrightarrow> I s \<Longrightarrow> I (snd (f s))"
  by (rule keepsD)

lemma stop_kept: "stop_ok stop \<Longrightarrow> keeps I (stop b r a)"
  by (simp add: stop_ok_def)

lemma desired_stop_kept [keeps_rules]: "stop_ok stop \<Longrightarrow> keeps I (desired_stop x stop)"
  by (simp add: desired_stop_def stop_ok_def keeps_def)

lemma after_grace_kept [keeps_rules]: "keeps I (stop_after_grace x)" "keeps I passive_recycle" "keeps I (viewer_is_back x)"
  "keeps I (own_marker_cleared x m)"
  unfolding stop_after_grace_def passive_recycle_def viewer_is_back_def own_marker_cleared_def
  by (intro keeps_rules; simp add: core_def)+

lemma restoreAfterReset_kept [keeps_rules]: "stop_ok stop \<Longrightarrow> keeps I (restoreAfterReset x stop)"
  unfolding restoreAfterReset_def by (intro keeps_rules; (assumption | simp add: core_def))

lemma launchFailure_kept [keeps_rules]:
  assumes "stop_ok stop"
  shows "keeps I (handleStackRecycleLaunchFailure x stop)"
  unfolding handleStackRecycleLaunchFailure_def
  by (intro keeps_rules restoreAfterReset_kept [OF assms] stop_kept [OF assms]; simp add: core_def)

lemma launch_failed_kept [keeps_rules]:
  assumes "stop_ok stop"
  shows "keeps I (launch_failed x stop c m)"
proof -
  have m: "keeps I (case m of None \<Rightarrow> skip | Some r \<Rightarrow> own_marker_cleared x r)"
    by (cases m) (simp_all add: after_grace_kept keeps_Pair)
  have c: "keeps I (case c of None \<Rightarrow> skip
      | Some c \<Rightarrow> if ih_client x then change (noting (Fx_fail (cm_instanceCommandId c) ''recycle_launch_failed'')) else skip)"
    by (cases c) (simp_all add: noted keeps_Pair)
  show ?thesis
    unfolding launch_failed_def by (intro keeps_rules m c launchFailure_kept [OF assms]; simp add: core_def)
qed

lemma launch_plain: "L s \<Longrightarrow> core t = core s \<Longrightarrow> I t"
  by (rule launch_given_up) (rule launching.frame)

lemma recycle_launch_kept:
  assumes stop: "stop_ok stop" and l: "L s"
  shows "I (snd (recycle_launch x stop c m k s))"
proof -
  have failed: "I (snd (launch_failed x stop c w t))" if "core t = core s" for w t
    by (rule keptD [OF launch_failed_kept [OF stop]]) (rule launch_plain [OF l that])
  have waits: "I (snd (steps [change (\<lambda>s. s\<lparr>vi_launchInFlight := False, vi_resetInFlight := True\<rparr>), scheduleStackRecycleRetry x False] s))"
    by (rule keptD [OF _ launch_given_up [OF l]]) (intro keeps_rules; simp add: core_def)
  have spawned: "I (snd (recycle_spawned r t))" if t: "core t = core s" for r t
  proof -
    have "I (noting (Fx_spawn r) t)" using launch_done [OF launching.frame [OF l t]] .
    moreover have "keeps I (steps [change (\<lambda>s. s\<lparr>vi_launchInFlight := False, vi_pendingToken := None, vi_launchRequested := True,
        vi_launchRetryAttempts := 0\<rparr>), clearStackRecycleRetryTimer, change (\<lambda>s. s\<lparr>vi_exitTimer := True\<rparr>)])"
      by (intro keeps_rules; simp add: core_def)
    ultimately show ?thesis using keptD by (simp add: recycle_spawned_def andThen_def keeps_def)
  qed
  show ?thesis
    unfolding recycle_launch_def
    using failed spawned waits by (auto simp: Let_def core_def split: sum.split prod.split)
qed

lemma recycle_begins_kept:
  assumes stop: "stop_ok stop" and s: "I s" "vi_cutoffDurable s" "may_destroy s"
  shows "I (snd (recycle_begins x stop c m k s))"
proof -
  let ?s = "(noting Fx_recycle_begins s)\<lparr>vi_launchInFlight := True\<rparr>"
  have l: "L ?s" by (rule launching.frame [OF launch_begun [OF s]]) (simp add: core_def)
  have "I (waiting_for (T_recycle_started c m k) (noting (Fx_start i) ?s))" for c i
    by (rule launch_waits, rule launching.benign [OF l]) simp
  then show ?thesis
    using recycle_launch_kept [OF stop l] by (auto simp: recycle_begins_def split: option.split)
qed

lemma recycle_guarded_kept:
  assumes stop: "stop_ok stop" and s: "I s" "may_destroy s"
  shows "I (snd (recycle_guarded x stop m s))"
proof -
  let ?c = "launch_command x m s"
  obtain ok s' where w: "cutoff_ensured x (if ?c = None then ''stack_recycle_launch'' else ''stack_recycle_command_launch'') ?c s = (ok, s')"
    by fastforce
  have i: "I s'" using keptD [OF ensured_kept s(1)] w by (metis snd_conv)
  have waits: "I (snd (recycle_waits x r t))" if "I t" for r t
    using retry_kept(3) that by (rule keptD)
  have go: "I (snd (recycle_begins x stop c m k s'))" if "ok" for c k
    using recycle_begins_kept [OF stop i] ensured_spec w s that by (cases ok) auto
  have drop: "I (snd (steps [change (\<lambda>s. s\<lparr>vi_pendingToken := None, vi_resetInFlight := False\<rparr>), clearStackRecycleRetryTimer] s))"
    by (rule keptD [OF _ s(1)]) (intro keeps_rules; simp add: core_def)
  show ?thesis
    unfolding recycle_guarded_def Let_def w using waits [OF s(1)] waits [OF i] go drop by (cases ok) (auto split: prod.split bool.split)
qed

lemma requestStackRecycle_kept [keeps_rules]:
  assumes stop: "stop_ok stop"
  shows "keeps I (requestStackRecycle x stop)"
  unfolding requestStackRecycle_def
proof (rule keeps_detached, rule keepsI)
  fix s assume i: "I s"
  have waits: "I (snd (recycle_waits x r s))" for r
    using retry_kept(3) i by (rule keptD)
  have later: "I (snd (steps [change (\<lambda>s. s\<lparr>vi_resetInFlight := True\<rparr>), scheduleStackRecycleRetry x False] s))"
    by (rule keptD [OF _ i]) (intro keeps_rules; simp add: core_def)
  have ready: "I (snd (restoreRuntimeDerivedStatus x True s))" by (rule keptD [OF restore_kept i])
  have given_up: "I (snd (steps [change (\<lambda>s. s\<lparr>vi_resetInFlight := False\<rparr>), clearStackRecycleRetryTimer, restoreRuntimeDerivedStatus x True] s))"
    by (rule keptD [OF _ i]) (intro keeps_rules; simp add: core_def)
  have stopped: "I (snd (desired_stop x stop s))" "I (snd (stop_after_grace x s))"
    using desired_stop_kept [OF stop] after_grace_kept(1) i by (auto intro: keptD)
  have go: "I (snd (recycle_guarded x stop m s))" if "\<not> (\<not> vi_committed s \<and> (suspended s \<or> 0 < viewers s))" for m
    using recycle_guarded_kept [OF stop i] that by (auto simp: may_destroy_def)
  show "I (snd (if vi_phase s = Persisting_elapsed \<or> vi_launchInFlight s \<or> vi_launchRequested s then skip s
     else (case readRecycleMarker x s of
       Inl e \<Rightarrow> recycle_waits x ''recycle_marker_unavailable'' s
     | Inr existing \<Rightarrow>
         if isReplacementProof existing (ih_pid x) then steps [
           change (\<lambda>s. s\<lparr>vi_resetInFlight := True\<rparr>),
           scheduleStackRecycleRetry x False] s
         else if \<not> vi_committed s \<and> (suspended s \<or> 0 < viewers s) then restoreRuntimeDerivedStatus x True s
         else ask (shouldResetIntoWarmReady x) (\<lambda>b s.
           if b then recycle_guarded x stop existing s
           else if canHoldWarmReadyWithoutShutdown s then steps [
             change (\<lambda>s. s\<lparr>vi_resetInFlight := False\<rparr>),
             clearStackRecycleRetryTimer,
             restoreRuntimeDerivedStatus x True] s
           else if ds_shutdownRequested (vi_desired s) then desired_stop x stop s
           else stop_after_grace x s) s)))"
    using i waits later ready given_up stopped go unfolding ask_def
    by (auto simp del: steps_simps snd_change split: sum.split option.split)
qed

lemma startResetWindow_kept [keeps_rules]:
  assumes "stop_ok stop"
  shows "keeps I (startResetWindow x stop g)"
  unfolding startResetWindow_def
  by (intro keeps_rules keeps_If requestStackRecycle_kept [OF assms]; simp add: core_def)

lemma finishReconnectGrace_kept [keeps_rules]:
  assumes "stop_ok stop"
  shows "keeps I (finishReconnectGrace x stop i)"
  unfolding finishReconnectGrace_def
  by (intro keeps_rules startResetWindow_kept [OF assms] desired_stop_kept [OF assms])

lemma expireWarmHold_kept [keeps_rules]:
  assumes "stop_ok stop"
  shows "keeps I (expireWarmHoldReconnectGrace x stop i)"
  unfolding expireWarmHoldReconnectGrace_def
  by (intro keeps_rules keeps_decide startResetWindow_kept [OF assms] desired_stop_kept [OF assms])

lemma run_continuation_kept [keeps_rules]:
  assumes "stop_ok stop"
  shows "keeps I (run_continuation x stop k)"
  using stop_kept [OF assms] finishReconnectGrace_kept [OF assms] expireWarmHold_kept [OF assms]
  by (cases k) (simp_all add: run_continuation_def)

lemma arm_grace_kept: "keeps I finish \<Longrightarrow> keeps I (arm_grace x w d b i finish)"
  unfolding arm_grace_def by (intro keeps_rules keeps_If; (assumption | simp add: core_def))

lemma arm_grace_at: "(\<And>b. keeps I (arm_grace x w d b i f)) \<Longrightarrow> keeps I (\<lambda>s. arm_grace x w d (starts_window l s) i f s)"
  by (simp add: keeps_def)

lemma scheduleReset_kept [keeps_rules]:
  assumes "stop_ok stop"
  shows "keeps I (scheduleResetAfterLastViewer x stop d l i)"
  unfolding scheduleResetAfterLastViewer_def
  by (intro keeps_rules keeps_If arm_grace_at arm_grace_kept startResetWindow_kept [OF assms] finishReconnectGrace_kept [OF assms])

lemma scheduleWarmHold_kept [keeps_rules]:
  assumes "stop_ok stop"
  shows "keeps I (scheduleWarmHoldReconnectGrace x stop d l i)"
  unfolding scheduleWarmHoldReconnectGrace_def
  by (intro keeps_rules keeps_If arm_grace_at arm_grace_kept expireWarmHold_kept [OF assms])

lemma stop_begins_kept:
  assumes s: "I s" "vi_cutoffDurable s" "\<not> vi_stopInFlight s" "may_destroy s"
  shows "I (snd (stop_begins x b r a s))"
proof -
  let ?s = "(noting (Fx_stop_begins r) s)\<lparr>vi_stopInFlight := True\<rparr>"
  have w: "I (waiting_for t (fold noting fxs ?s))" if "before_stop t" "list_all benign fxs" for t fxs
    using stop_begun [OF s that] .
  have c: "I (snd (stop_captures x b r a c ?s))" for c
    using w [of "T_stop_captured b r" "[]"] w [of "T_stop_captured b r" "[Fx_capture u v y z]" for u v y z]
    by (simp add: stop_captures_def captureShutdownSessionArtifacts_def Let_def)
  show ?thesis
    using c w [of "T_stop_started b r a k" "[Fx_start i]" for k i] by (simp add: stop_begins_def split: option.split)
qed

lemma stop_clears_kept [keeps_rules]: "keeps I (stop_clears x)"
  unfolding stop_clears_def by (intro keeps_rules; simp add: core_def)

lemma refused_kept [keeps_rules]: "keeps I refused"
  by (simp add: refused_def keeps_def)

lemma stop_guarded_kept:
  assumes warm: "keeps I warm" and s: "I s" "vi_cutoffDurable s" "\<not> vi_stopInFlight s"
  shows "I (snd (stop_guarded x warm b r a s))"
proof -
  obtain s' where s': "stop_clears x s = (True, s')" "vi_cutoffDurable s'" "\<not> vi_stopInFlight s'"
    using s(2,3) stop_clears_same [of x s] by (metis prod.collapse)
  have i: "I s'" using keptD [OF stop_clears_kept s(1)] s'(1) by simp
  have r1: "I (snd (steps [clearReconnectGraceWindow x, refused] s'))"
    "I (snd (steps [clearReconnectGraceWindow x, restoreRuntimeDerivedStatus x True, refused] s'))"
    "I (snd (steps [clearReconnectGraceWindow x,
       (\<lambda>s. if vi_hasSeenViewer s then warm s else restoreRuntimeDerivedStatus x True s), refused] s'))"
    by (rule keptD [OF _ i], intro keeps_rules warm)+
  have go: "I (snd (stop_begins x b r a s'))" if "vi_committed s' \<or> \<not> suspended s' \<and> viewers s' = 0"
    using stop_begins_kept [OF i s'(2,3)] that by (auto simp: may_destroy_def)
  show ?thesis
    unfolding stop_guarded_def steps_simps(2) [of "stop_clears x"]
    unfolding andThen_True [of "stop_clears x" s s', OF s'(1)]
    using r1 go unfolding steps_simps(2) [of _ "[]"] andThen_Nil by (auto simp del: steps_simps snd_change simp: ask_def i split: option.split)
qed

lemma promised_kept [keeps_rules]: "keeps I f \<Longrightarrow> keeps I (promised b f)"
  by (auto simp: keeps_def snd_promised intro: waits)

lemma stop_request_kept:
  assumes warm: "keeps I warm"
  shows "keeps I (stop_request x warm b r a)"
proof (rule keepsI)
  fix s assume i: "I s"
  let ?c = "getActiveShutdownCommand x s"
  obtain ok s' where w: "cutoff_ensured x (if ?c = None then ''stack_shutdown_'' @ r else ''stack_shutdown_command_launch'') ?c s = (ok, s')"
    by fastforce
  have i': "I s'" using keptD [OF ensured_kept i] w by (metis snd_conv)
  have "I (snd (steps [publishStatus x ''idle_shutdown_pending'' ''teardown_cutoff_persistence_failed'' False,
      scheduleStop x r 5000 False None, refused] s'))"
    by (rule keptD [OF _ i']) (intro keeps_rules)
  moreover have "I (snd (stop_guarded x warm b r a s'))" if "ok" "\<not> vi_stopInFlight s"
    using stop_guarded_kept [OF warm i'] ensured_spec w that by (cases ok) auto
  ultimately show "I (snd (stop_request x warm b r a s))"
    unfolding stop_request_def Let_def w using i
    by (cases ok) (auto simp del: steps_simps simp: refused_def)
qed

lemma requestStop_kept: "stop_ok (requestStop n x)"
proof (induction n)
  case (Suc n)
  then show ?case
    by (auto simp: stop_ok_def intro!: promised_kept stop_request_kept scheduleWarmHold_kept)
qed (simp add: stop_ok_def keeps_Pair)

lemma request_ok: "stop_ok (request_stop x)"
  unfolding request_stop_def by (rule requestStop_kept)

section \<open>The end of a window\<close>

lemma mark_elapsed_kept: "keeps I (markReconnectGraceWindowElapsed x)"
proof (rule keepsI)
  fix s assume i: "I s"
  have "I (s\<lparr>vi_phase := p\<rparr>)" for p using i by (rule frame) (simp add: core_def)
  then show "I (snd (markReconnectGraceWindowElapsed x s))"
    using i by (auto simp: markReconnectGraceWindowElapsed_def benign split: option.split)
qed

lemma makeDurable_kept: "keeps I (makeCommercialReconnectDeadlineDurable x)"
proof (rule keepsI)
  fix s assume i: "I s"
  show "I (snd (makeCommercialReconnectDeadlineDurable x s))"
  proof (cases "\<exists>w m. vi_window s = Some w \<and> gw_identity w = Some m")
    case False
    then show ?thesis
      using keptD [OF mark_elapsed_kept i] by (auto simp: makeCommercialReconnectDeadlineDurable_def split: option.split)
  next
    case True
    then obtain w m where w: "vi_window s = Some w" "gw_identity w = Some m" by blast
    let ?p = "s\<lparr>vi_phase := Persisting_elapsed\<rparr>"
    have p: "I ?p" using i by (rule frame) (simp add: core_def)
    obtain ok s1 where m: "markReconnectGraceWindowElapsed x ?p = (ok, s1)" by fastforce
    have i1: "I s1" using keptD [OF mark_elapsed_kept p] m by (metis snd_conv)
    show ?thesis
    proof (cases ok)
      case False
      with w m i1 show ?thesis by (simp add: makeCommercialReconnectDeadlineDurable_def)
    next
      case True
      let ?e = "Fx_evidence (gw_evidenceId w) m (gw_disconnectedAt w) (gw_expiresAt w)"
      have s1: "s1 = noting ?e (?p\<lparr>vi_phase := Elapsed\<rparr>)"
        using m True w by (auto simp: markReconnectGraceWindowElapsed_def split: if_splits)
      let ?s2 = "s1\<lparr>vi_phase := Persisting_elapsed\<rparr>"
      have i2: "I ?s2" using i1 by (rule frame) (simp add: core_def)
      have fin: "I (teardown_committed ?s2)" if "vi_cutoffDurable ?s2"
        by (rule frame [OF commits [OF i, of "gw_evidenceId w" m "gw_disconnectedAt w" "gw_expiresAt w"]])
          (use that s1 in \<open>simp_all add: core_def noting_def teardown_committed_def\<close>)
      obtain ok2 s3 where c: "cutoff_written x (window_cutoff x w) ?s2 = (ok2, s3)" by fastforce
      have i3: "I s3" using keptD [OF cutoff_written_kept i2] c by (metis snd_conv)
      have now: "I (teardown_committed (s3\<lparr>vi_cutoffDurable := True\<rparr>))" if "ok2"
      proof -
        have "?s2 = noting ?e ?p" by (simp add: s1 noting_def)
        with c that have "cutoff_written x (window_cutoff x w) (noting ?e ?p) = (True, s3)" by simp
        with p show ?thesis by (rule commits_now)
      qed
      show ?thesis
        using w m True c fin now i3 by (cases ok2) (auto simp: makeCommercialReconnectDeadlineDurable_def Let_def)
    qed
  qed
qed

lemma continueAfter_kept [keeps_rules]:
  assumes "\<And>k. keeps I (run k)"
  shows "keeps I (continueAfterReconnectGraceEvidenceIsDurable x run k)"
  unfolding continueAfterReconnectGraceEvidenceIsDurable_def
  by (intro keeps_decide makeDurable_kept keeps_rules assms) (simp add: core_def)

lemma evidence_retry_kept [keeps_rules]:
  assumes run: "\<And>k. keeps I (run k)"
  shows "keeps I (evidence_retry_fires x run)"
proof (rule keepsI)
  fix s assume i: "I s"
  have "I (s\<lparr>vi_evidenceRetryTimer := False\<rparr>)" using i by (rule frame) (simp add: core_def)
  moreover obtain ok s1 where m: "makeCommercialReconnectDeadlineDurable x (s\<lparr>vi_evidenceRetryTimer := False\<rparr>) = (ok, s1)"
    by fastforce
  ultimately have i1: "I s1" using keptD [OF makeDurable_kept] by (metis snd_conv)
  have "I (s1\<lparr>vi_evidenceRetryAttempts := 0\<rparr>)" "I (s1\<lparr>vi_evidenceRetryAttempts := 0, vi_continuation := None\<rparr>)"
    by (rule frame [OF i1], simp add: core_def)+
  then show "I (snd (evidence_retry_fires x run s))"
    using m i1 keptD [OF timers_kept(9) i1] keptD [OF run]
    by (cases ok) (auto simp: evidence_retry_fires_def split: option.split)
qed

lemma continuation_kept: "keeps I (run_continuation x (request_stop x) k)"
  by (rule run_continuation_kept [OF request_ok])

end

end
