(* ===== verification/Viewer_Idle_Kept_Events.thy ===== *)
theory Viewer_Idle_Kept_Events
  imports Viewer_Idle_Kept
begin

text \<open>
  The contract \<open>idle_kept\<close> of \<open>Viewer_Idle_Kept\<close>, continued: the entry points, the timers and the resumed
  functions keep the predicate, and so does every event (\<open>idle_system\<close>).
\<close>

context idle_kept
begin

section \<open>Entry points\<close>

lemma request_kept [keeps_rules]: "keeps I (request_stop x b r a)"
  by (rule stop_kept [OF request_ok])

lemmas stop_rules = desired_stop_kept [OF request_ok] requestStackRecycle_kept [OF request_ok] startResetWindow_kept [OF request_ok]
  scheduleReset_kept [OF request_ok] scheduleWarmHold_kept [OF request_ok] continuation_kept request_kept
  launchFailure_kept [OF request_ok]

lemma resume_kept [keeps_rules]:
  "keeps I (tryResumeActiveRecycleCommand x)" "keeps I (tryResumeActiveShutdownCommand x)"
  unfolding tryResumeActiveRecycleCommand_def tryResumeActiveShutdownCommand_def by (intro keeps_rules stop_rules)+

lemma resume_desired_kept [keeps_rules]: "keeps I (tryResumeDesiredStateShutdown x)"
proof -
  have "keeps I (steps [clearZeroTimer, clearFirstViewerTimer, clearTransientStatusHeartbeat,
      change (\<lambda>s. s\<lparr>vi_resumeRequested := True\<rparr>), (\<lambda>s. request_stop x True (resolveDesiredStateShutdownReason x s) None s)])"
    by (intro keeps_rules) (simp_all add: core_def keeps_def keptD [OF request_kept])
  then show ?thesis by (simp add: tryResumeDesiredStateShutdown_def keeps_def del: steps_simps)
qed

lemma reevaluated_kept [keeps_rules]: "keeps I (reset_resumed x)" "keeps I (timers_reevaluated x)"
proof -
  show r: "keeps I (reset_resumed x)" unfolding reset_resumed_def by (intro keeps_rules stop_rules)
  show "keeps I (timers_reevaluated x)" unfolding timers_reevaluated_def by (intro keeps_rules keeps_If r)
qed

lemma refresh_kept [keeps_rules]: "keeps I (refreshMaintenanceMode x)"
  unfolding refreshMaintenanceMode_def
proof (rule keeps_change)
  fix s assume i: "I s"
  then have "I (s\<lparr>vi_maintenanceInFlight := True\<rparr>)" by (rule frame) (simp add: core_def)
  with i show "I (if vi_maintenanceInFlight s \<or> ic_maintenanceTagKey x = [] then s
      else waiting_for T_maintenance (s\<lparr>vi_maintenanceInFlight := True\<rparr>))"
    by (simp add: waits)
qed

lemma desired_acted_kept [keeps_rules]: "keeps I (desired_acted x d)"
proof -
  have drop: "keeps I (timer_dropped x c)" if "keeps I c" for c
    unfolding timer_dropped_def by (intro keeps_rules stop_rules that)
  have res: "keeps I (desired_resumes x)"
    unfolding desired_resumes_def Let_def by (intro keeps_rules stop_rules)
  have reset: "keeps I (reset_timer_acted x)"
    unfolding reset_timer_acted_def by (intro keeps_rules keeps_If drop res)
  have grace: "keeps I (grace_timer_acted x)"
    unfolding grace_timer_acted_def by (intro keeps_rules keeps_If drop reset)
  show ?thesis unfolding desired_acted_def by (intro keeps_rules keeps_If stop_rules grace)
qed

lemma desired_token_kept:
  assumes "\<And>ok. keeps I (k ok)"
  shows "keeps I (desired_token x k)"
proof (rule keepsI)
  fix s assume i: "I s"
  let ?token = "ds_recycleRequestedToken (vi_desired s)"
  have set: "I (u\<lparr>vi_pendingToken := t\<rparr>)" if "I u" for u t using that by (rule frame) (simp add: core_def)
  have k: "I (snd (k ok u))" if "I u" for ok u using assms that by (rule keptD)
  obtain ok s' where m: "markConnectTicketTeardownStarted x ''desired_state_recycle_request'' None (ds_updatedAtUtc (vi_desired s)) s = (ok, s')"
    by fastforce
  then have i': "I s'" using keptD [OF marking_kept i] by (metis snd_conv)
  show "I (snd (desired_token x k s))"
    using i i' by (auto simp: desired_token_def Let_def m ask_def intro!: k set split: option.split)
qed

lemma desired_shutdown_kept:
  assumes "\<And>ok. keeps I (k ok)"
  shows "keeps I (desired_shutdown x k ok)"
proof (rule keepsI)
  fix s assume i: "I s"
  obtain b s' where m: "markConnectTicketTeardownStarted x ''desired_state_shutdown_request'' None (ds_updatedAtUtc (vi_desired s)) s = (b, s')"
    by fastforce
  then have "I s'" using keptD [OF marking_kept i] by (metis snd_conv)
  then show "I (snd (desired_shutdown x k ok s))" using keptD [OF assms] by (simp add: desired_shutdown_def m)
qed

lemma apply_kept: "keeps I (applyDesiredStateSnapshot x d)"
proof (rule keepsI)
  fix s assume i: "I s"
  let ?s = "s\<lparr>vi_desired := d, vi_resumeRequested := (vi_resumeRequested s \<and> ds_shutdownRequested d)\<rparr>"
  let ?k = "if ds_shutdownRequested d \<and> \<not> ds_shutdownRequested (vi_desired s)
    then desired_shutdown x (desired_acted x) else desired_acted x"
  have i': "I ?s" using i by (rule frame) (simp add: core_def)
  have k: "keeps I (?k ok)" for ok using desired_shutdown_kept [OF desired_acted_kept] desired_acted_kept by simp
  have same: "keeps I (unless_done (tryResumeDesiredStateShutdown x) (\<lambda>s.
          if \<not> vi_resetInFlight s \<and> hasPendingImmediateRecycle x s \<and> viewers s = 0 \<and> \<not> suspended s
          then ask (shouldResetIntoWarmReady x) (\<lambda>b. if b then startResetWindow x (request_stop x) True else skip) s
          else skip s))"
    by (intro keeps_rules keeps_If stop_rules)
  show "I (snd (applyDesiredStateSnapshot x d s))"
    unfolding applyDesiredStateSnapshot_def Let_def
    using keptD [OF same i'] keptD [OF desired_token_kept [OF k] i'] keptD [OF k i'] by simp
qed

section \<open>Viewers\<close>

lemma superseded_kept [keeps_rules]: "keeps I (failSupersededActiveCommand x)" "keeps I (viewer_disconnected p r)" "keeps I (requestFastPolling x)"
  unfolding failSupersededActiveCommand_def viewer_disconnected_def requestFastPolling_def
  by (rule keeps_change, auto intro: benign split: option.split)+

lemma welcome_kept [keeps_rules]: "keeps I (viewer_welcome x)"
  unfolding viewer_welcome_def by (intro keeps_rules) (simp add: core_def)

lemma added_kept: "keeps I (onViewerAdded x p)"
proof (rule keepsI)
  fix s assume i: "I s"
  have late: "I (snd (viewer_disconnected p r (if p = [] then s else s\<lparr>vi_identities := map_delete p (vi_identities s)\<rparr>)))" for r
    by (rule keptD [OF superseded_kept(2)], rule frame [OF i]) (simp add: core_def)
  let ?s = "s\<lparr>vi_hasSeenViewer := True\<rparr>"
  have i1: "I ?s" using i by (rule frame) (simp add: core_def)
  obtain m s2 where m: "markManagedSessionViewer x p False ?s = (m, s2)" by fastforce
  then have "core s2 = core ?s"
    by (auto simp: markManagedSessionViewer_def core_def split: option.splits)
  with i1 have i2: "I s2" by (rule frame)
  show "I (snd (onViewerAdded x p s))"
    unfolding onViewerAdded_def Let_def m
    using late keptD [OF superseded_kept(2) i1] i2 keptD [OF welcome_kept i2]
    by (auto split: option.split)
qed

lemma zero_viewers_kept: "keeps I (handleZeroViewersAfterRemoval x b i)"
  unfolding handleZeroViewersAfterRemoval_def by (intro keeps_rules keeps_If stop_rules)

lemma removed_kept: "keeps I (onViewerRemoved x p)"
proof (rule keepsI)
  fix s assume i: "I s"
  let ?s = "case opt_text_of (Some p) of None \<Rightarrow> s | Some q \<Rightarrow> s\<lparr>vi_identities := map_delete q (vi_identities s)\<rparr>"
  have i1: "I ?s" by (rule frame [OF i]) (simp add: core_def split: option.split)
  define s1 where "s1 = ?s"
  have i2: "I s1" using i1 by (simp only: s1_def)
  have z: "I (snd (handleZeroViewersAfterRemoval x b m s1))" "I (waiting_for (T_settled b m) s1)" for b m
    using keptD [OF zero_viewers_kept i2] waits [OF i2] by simp_all
  show "I (snd (onViewerRemoved x p s))"
    unfolding onViewerRemoved_def Let_def s1_def [symmetric]
    by (simp add: i i2 z split: option.split)
qed

section \<open>Timers\<close>

lemma zero_timer_kept: "keeps I (zero_timer_fires x)"
proof (rule keepsI)
  fix s assume i: "I s"
  have i1: "I (s\<lparr>vi_zeroViewersTimer := None\<rparr>)" using i by (rule frame) (simp add: core_def)
  show "I (snd (zero_timer_fires x s))"
    unfolding zero_timer_fires_def Let_def
    using i keptD [OF request_kept i1] keptD [OF after_grace_kept(3) i1] keptD [OF continueAfter_kept [OF continuation_kept] i1]
    by (auto split: option.split)
qed

lemma first_timer_kept: "keeps I (first_viewer_timer_fires x)"
proof (rule keepsI)
  fix s assume i: "I s"
  let ?s = "s\<lparr>vi_firstViewerTimer := False\<rparr>"
  have i1: "I ?s" using i by (rule frame) (simp add: core_def)
  obtain e s2 where e: "first_viewer_evidence x ?s = (e, s2)" by fastforce
  then have "I s2" using evidence_read [OF i1] by simp
  then have "I (noting (Fx_first_viewer_timeout e) s2)" by (rule benign) simp
  then show "I (snd (first_viewer_timer_fires x s))"
    unfolding first_viewer_timer_fires_def Let_def ask_def
    using i i1 keptD [OF request_kept] by (auto simp: e split: option.split)
qed

lemma heartbeat_kept: "keeps I (heartbeat_ticks x)"
  by (rule keepsI) (auto simp: heartbeat_ticks_def keptD [OF status_kept] split: option.split prod.split)

lemma grace_timer_kept: "keeps I (grace_timer_fires x)"
proof (rule keepsI)
  fix s assume i: "I s"
  have i1: "I (s\<lparr>vi_reconnectGraceTimer := None\<rparr>)" using i by (rule frame) (simp add: core_def)
  show "I (snd (grace_timer_fires x s))"
    unfolding grace_timer_fires_def Let_def
    using i keptD [OF continuation_kept i1] keptD [OF after_grace_kept(3) i1] keptD [OF continueAfter_kept [OF continuation_kept] i1]
    by (auto split: option.split)
qed

lemma other_timers_kept:
  "keeps I (reset_timer_fires x)" "keeps I (evidence_timer_fires x)" "keeps I (launch_retry_fires x)" "keeps I (exit_timer_fires x)"
proof -
  have f: "I (s\<lparr>vi_resetTimer := False\<rparr>)" "I (s\<lparr>vi_launchRetryTimer := False\<rparr>)" "I (s\<lparr>vi_exitTimer := False\<rparr>)" if "I s" for s
    by (rule frame [OF that], simp add: core_def)+
  show "keeps I (reset_timer_fires x)" "keeps I (launch_retry_fires x)"
    unfolding reset_timer_fires_def launch_retry_fires_def
    by (auto intro!: keepsI f keptD [OF requestStackRecycle_kept [OF request_ok]])
  show "keeps I (evidence_timer_fires x)"
    unfolding evidence_timer_fires_def by (intro keeps_rules continuation_kept)
  have "keeps I (ask (hasRecycleLaunchInProgress x) (\<lambda>b. if b then change (noting Fx_exit) else skip))"
    by (intro keeps_rules keeps_If) simp
  from keptD [OF this f(3)] show "keeps I (exit_timer_fires x)"
    unfolding exit_timer_fires_def by (auto intro!: keepsI)
qed

section \<open>Resumed functions\<close>

lemma quiet_resumed_kept:
  assumes t: "\<not> stop_task t" "\<not> launch_task t" "t \<noteq> T_maintenance"
  shows "keeps I (resumed x t outcome)"
proof -
  have p: "keeps I (change (\<lambda>s. s\<lparr>vi_resumeRequested := False\<rparr>))" by (rule plain) (simp add: core_def)
  have stale: "I (snd (failSupersededCommand x c s))" if "I s" for c s
    using that benign by (simp add: failSupersededCommand_def)
  have checked: "keeps I (command_checked x c k)" for c k
  proof (rule keepsI)
    fix s assume i: "I s"
    obtain b s' where f: "failSupersededCommand x c s = (b, s')" by fastforce
    have "I s'" using stale [OF i, of c] f by simp
    then show "I (snd (command_checked x c k s))" by (cases b) (simp_all add: command_checked_def f waits)
  qed
  have taken_up: "keeps I (command_taken x c k)" for c k
  proof (rule keepsI)
    fix s assume i: "I s"
    obtain b s' where m: "markConnectTicketTeardownStarted x
        (if isShutdownCommand c then ''explicit_shutdown_command'' else ''explicit_recycle_command'') (Some c) (Some (cm_requestedAtUtc c)) s = (b, s')"
      by fastforce
    then have i': "I s'" using keptD [OF marking_kept i] by (metis snd_conv)
    have "I (s'\<lparr>vi_observed := Some c\<rparr>)" by (rule frame [OF i']) (simp add: core_def)
    then have "I (waiting_for (T_acknowledged c) (noting (Fx_acknowledge j) (s'\<lparr>vi_observed := Some c\<rparr>)))" for j
      by (intro waits benign) simp_all
    then show "I (snd (command_taken x c k s))"
      unfolding command_taken_def Let_def m using i i' by (cases b) (auto simp: benign split: option.split)
  qed
  have players: "keeps I disconnectPlayersForExplicitTeardown"
  proof -
    have "I (fold (\<lambda>(p, v). noting (Fx_disconnect p r)) ps s)" if "I s" for ps s r
      using that
    proof (induction ps arbitrary: s)
      case (Cons p ps)
      have "I (noting (Fx_disconnect (fst p) r) s)" using Cons.prems by (rule benign) simp
      with Cons.IH show ?case by (simp add: case_prod_beta)
    qed simp
    then show ?thesis unfolding disconnectPlayersForExplicitTeardown_def by (intro keeps_change) blast
  qed
  have launched: "keeps I (tryStartLaunchedRecycleCommand x)"
    by (rule keepsI) (auto simp: tryStartLaunchedRecycleCommand_def ask_def waits benign split: option.split sum.split)
  have acked: "keeps I (command_acknowledged x c outcome)" for c
  proof (cases outcome)
    case (Inl e)
    show ?thesis unfolding Inl command_acknowledged_def sum.case
      by (rule keeps_detached, rule plain) (simp add: core_def)
  next
    case (Inr status)
    show ?thesis unfolding Inr command_acknowledged_def sum.case
      by (intro keeps_rules keeps_If players launched) (simp add: core_def)
  qed
  show ?thesis
    using t p checked taken_up acked zero_viewers_kept after_grace_kept(2)
    by (cases t) (simp_all add: resumed_def launched_started_def keeps_Pair)
qed

lemma recycle_started_kept:
  assumes i: "I s" and t: "T_recycle_started c m k \<in> set (vi_tasks s)"
  shows "I (snd (recycle_started x c m k outcome (taken (T_recycle_started c m k) s)))"
proof -
  let ?s = "taken (T_recycle_started c m k) s"
  have l: "L ?s" by (rule launch_resumes [OF i t])
  have "L (?s\<lparr>vi_passiveRequested := True\<rparr>)" by (rule launching.frame [OF l]) (simp add: core_def)
  with l show ?thesis
    by (auto simp: recycle_started_def detached_def passive_recycle_def recycle_launch_kept [OF request_ok])
qed

lemma stop_resumed_kept:
  assumes i: "I s" and t: "t \<in> set (vi_tasks s)" "stop_task t"
  shows "I (snd (resumed x t outcome (taken t s)))"
proof -
  have later: "S (taken t s)" if "\<not> before_stop t" using stop_answered [OF i t(2) that t(1)] .
  have captures: "I (snd (stop_captures x b r a c u))"
    if "\<And>fxs. list_all benign fxs \<Longrightarrow> I (waiting_for (T_stop_captured b r) (fold noting fxs u))" for b r a c u
    using that [of "[]"] that [of "[Fx_capture v w y z]" for v w y z]
    by (simp add: stop_captures_def captureShutdownSessionArtifacts_def Let_def)
  have noted: "I (waiting_for w (fold noting fxs s))" if "list_all benign fxs" "I (waiting_for w s)" for fxs w s
    using that(2) that(1)
  proof (induction fxs arbitrary: s)
    case (Cons f fs)
    have "I (noting f (waiting_for w s))" using Cons.prems by (intro benign) simp_all
    then have "I (waiting_for w (noting f s))" by (rule frame) (simp add: core_def noting_def waiting_for_def)
    with Cons show ?case by simp
  qed simp
  have ends: "I (snd (stop_failure_ends x b u))" if "S u" for b u
  proof -
    have "keeps S (steps [publishStatus x ''idle_shutdown_pending'' ''stop_request_failed'' False, scheduleRetryIfStillIdle x])"
      by (intro keeps_rules stopping.status_kept stopping.retry_kept)
    then have "S (snd (steps [publishStatus x ''idle_shutdown_pending'' ''stop_request_failed'' False, scheduleRetryIfStillIdle x] u))"
      using that by (rule keepsD)
    then have "I (snd (finishing stop_ends (steps [publishStatus x ''idle_shutdown_pending'' ''stop_request_failed'' False,
        scheduleRetryIfStillIdle x]) u))"
      by (auto simp: finishing_def stop_over simp del: steps_simps split: prod.split)
    then show ?thesis unfolding stop_failure_ends_def snd_promised using waits by simp
  qed
  show ?thesis
  proof (cases t)
    case (T_stop_started b r a c)
    have on: "I (snd (stop_captures x b r a (Some c) (taken t s)))"
      by (rule captures, rule noted) (use stop_goes_on [OF i] t T_stop_started in auto)
    have off: "I (stop_ends (taken t s))" using stop_given_up [OF i] t T_stop_started by simp
    show ?thesis
      using on off by (cases b) (simp_all add: T_stop_started resumed_def stop_started_def snd_promised finishing_def refused_def waits)
  next
    case (T_stop_captured b r)
    have w: "I (waiting_for (T_stop_requested b r) (noting (Fx_stop r d) (taken t s)))" for d
      using stop_called [OF i] t T_stop_captured by simp
    have "I (waiting_for (T_stop_requested b r) (noting (Fx_stop r d) (noting f (taken t s))))" if "benign f" for d f
    proof -
      have "I (noting f s)" using i that by (rule benign)
      then have "I (waiting_for (T_stop_requested b r) (noting (Fx_stop r d) (taken t (noting f s))))"
        using stop_called t T_stop_captured by (simp add: noting_def)
      then show ?thesis by (rule frame) (simp add: core_def noting_def waiting_for_def taken_def)
    qed
    with w show ?thesis by (simp add: T_stop_captured resumed_def stop_captured_def publishStatus_def)
  next
    case (T_stop_requested b r)
    have s: "S (taken t s)" using later T_stop_requested by simp
    have c: "I (waiting_for w (noting f (taken t s)))" if "benign f" "stop_task w" "\<not> before_stop w" for w f
      using stop_waits stopping.benign [OF s that(1)] that by blast
    show ?thesis
      using stop_over [OF s] ends [OF s] c stop_waits [OF s]
      by (auto simp: T_stop_requested resumed_def stop_requested_def Let_def captureShutdownSessionArtifacts_def
          split: sum.split option.split)
  next
    case (T_stop_failure_captured b c)
    have s: "S (taken t s)" using later T_stop_failure_captured by simp
    show ?thesis
      using stop_waits [OF stopping.benign [OF s]] by (simp add: T_stop_failure_captured resumed_def stop_failure_captured_def)
  qed (use later stop_over ends t in \<open>auto simp: resumed_def\<close>)
qed

text \<open>The handlers, but for a maintenance mode that was read, which changes what a predicate may look at.\<close>

lemma resumed_kept:
  assumes i: "I s" and t: "t \<in> set (vi_tasks s)" "t \<noteq> T_maintenance"
  shows "I (snd (resumed x t outcome (taken t s)))"
proof (cases "stop_task t")
  case True
  with i t show ?thesis by (intro stop_resumed_kept) simp_all
next
  case not_stop: False
  show ?thesis
  proof (cases "launch_task t")
    case True
    then obtain c m k where "t = T_recycle_started c m k" by (cases t) auto
    with i t show ?thesis using recycle_started_kept by (simp add: resumed_def)
  next
    case False
    from keptD [OF quiet_resumed_kept [OF not_stop False t(2)] resumes [OF i not_stop False]] show ?thesis .
  qed
qed

lemma recovery_kept:
  assumes "p \<Longrightarrow> R"
  shows "keeps I (recovery_heard x p)"
proof (cases p)
  case True
  have c: "keeps I (change (\<lambda>s. rearmed (noting Fx_recovered (s\<lparr>vi_committed := True, vi_passiveRequested := True\<rparr>))))"
  proof (rule keeps_change)
    fix s assume "I s"
    then have "I (rearmed (noting Fx_recovered (s\<lparr>vi_committed := True\<rparr>)))" using recovers assms True by blast
    then show "I (rearmed (noting Fx_recovered (s\<lparr>vi_committed := True, vi_passiveRequested := True\<rparr>)))"
      by (rule frame) (simp add: core_def rearmed_def noting_def)
  qed
  show ?thesis unfolding recovery_heard_def by (intro keeps_rules keeps_If stop_rules c)
qed (simp add: recovery_heard_def keeps_def)

lemma spawn_failed_kept: "keeps I (spawn_failed x r)"
  unfolding spawn_failed_def by (intro keeps_rules stop_rules) (simp add: core_def)

lemma heard_kept: "keeps I (command_heard x c)"
proof (rule keepsI)
  fix s assume i: "I s"
  have stale: "I (snd (failSupersededCommand x c s))" for c using i benign by (simp add: failSupersededCommand_def)
  have "keeps I (resumed x (T_tracked c d True) (Inl []))" for d by (rule quiet_resumed_kept) simp_all
  then have "keeps I (command_checked x c None)" by (simp add: resumed_def)
  then have "I (snd (command_checked x c None s))" using i by (rule keptD)
  moreover have "I (waiting_for (T_tracked c d b) (snd (failSupersededCommand x d s)))" for b d using stale by (rule waits) simp_all
  ultimately show "I (snd (command_heard x c s))"
    by (auto simp: command_heard_def split: option.split prod.split) (metis snd_conv)
qed

lemma idle_handle_kept:
  assumes i: "I s" and e: "\<nexists>p v. e = Ev_added p v" "\<nexists>p v. e = Ev_viewer p v" "\<nexists>p. e = Ev_removed p" "\<nexists>out. e = Ev_resume T_maintenance out"
    "\<nexists>op. e = Ev_gate op"
    and r: "e = Ev_recovery True \<Longrightarrow> ih_client x \<Longrightarrow> R"
  shows "I (snd (idle_handle x e s))"
proof -
  have f: "I (s\<lparr>vi_clientCommand := c\<rparr>)" "I (s\<lparr>vi_markerFile := m\<rparr>)" for c m
    by (rule frame [OF i], simp add: core_def)+
  show ?thesis
  proof (cases e)
    case (Ev_resume t out)
    with e have "t \<noteq> T_maintenance" by blast
    with resumed_kept [OF i] i show ?thesis by (auto simp: Ev_resume idle_handle_def taken_def)
  next
    case (Ev_recovery p)
    have "I (snd (recovery_heard x p s))" if "ih_client x" using keptD [OF recovery_kept i, of p] r that Ev_recovery by blast
    with i show ?thesis by (simp add: Ev_recovery idle_handle_def)
  qed (use e i f keptD [OF added_kept i] keptD [OF zero_timer_kept i] keptD [OF first_timer_kept i] keptD [OF heartbeat_kept i]
        keptD [OF grace_timer_kept i] keptD [OF other_timers_kept(1) i] keptD [OF other_timers_kept(2) i]
        keptD [OF other_timers_kept(3) i] keptD [OF other_timers_kept(4) i] keptD [OF refresh_kept i] keptD [OF apply_kept i]
        keptD [OF heard_kept i] keptD [OF spawn_failed_kept i] in
        \<open>auto simp: idle_handle_def\<close>)
qed

end

text \<open>A predicate that does not mind what the registry and the maintenance tag say survives every event; \<open>G\<close> are the operations that
  others may call on the gate.\<close>

locale idle_system = idle_kept +
  fixes G :: "gate_op \<Rightarrow> bool"
  assumes gated: "I s \<Longrightarrow> G op \<Longrightarrow> I (s\<lparr>vi_ticketGate := map_option (gate_do (ih_gate x) op) (vi_ticketGate s)\<rparr>)"
    and surroundings: "I s \<Longrightarrow> I (s\<lparr>vi_players := ps, vi_maintenance := m, vi_maintenanceInitialized := b\<rparr>)"
begin

lemma around:
  "I s \<Longrightarrow> I (s\<lparr>vi_players := ps\<rparr>)" "I s \<Longrightarrow> I (s\<lparr>vi_maintenanceInitialized := b, vi_maintenance := m\<rparr>)"
  "I s \<Longrightarrow> I (s\<lparr>vi_maintenanceInitialized := b\<rparr>)"
proof -
  assume i: "I s"
  show "I (s\<lparr>vi_players := ps\<rparr>)"
    using surroundings [OF i, of "vi_maintenanceInitialized s" "vi_maintenance s" ps] by (rule frame) (simp add: core_def)
  show "I (s\<lparr>vi_maintenanceInitialized := b, vi_maintenance := m\<rparr>)"
    using surroundings [OF i, of b m "vi_players s"] by (rule frame) (simp add: core_def)
  show "I (s\<lparr>vi_maintenanceInitialized := b\<rparr>)"
    using surroundings [OF i, of b "vi_maintenance s" "vi_players s"] by (rule frame) (simp add: core_def)
qed

lemma maintenance_kept: "keeps I (maintenance_read x out)"
proof -
  have "keeps I (\<lambda>s.
      let mode = Option.bind v normalizeMaintenanceMode; previous = vi_maintenance s;
          s' = s\<lparr>vi_maintenanceInitialized := True, vi_maintenance := mode\<rparr> in
      if mode \<noteq> None then (if mode \<noteq> previous then clearAllIdleStopTimers x s' else skip s') else timers_reevaluated x s')" for v
    by (rule keepsI) (simp add: Let_def around keptD [OF clearAll_kept] keptD [OF reevaluated_kept(2)])
  moreover have "I (s\<lparr>vi_maintenanceInFlight := False\<rparr>)" if "I s" for s using that by (rule frame) (simp add: core_def)
  ultimately show ?thesis
    unfolding maintenance_read_def by (intro keeps_detached keeps_finishing) (auto intro: keeps_Pair split: sum.split)
qed

theorem handled:
  assumes i: "I s" and g: "\<And>op. e = Ev_gate op \<Longrightarrow> G op"
    and r: "e = Ev_recovery True \<Longrightarrow> ih_client x \<Longrightarrow> R"
  shows "I (snd (idle_handle x e s))"
proof -
  show ?thesis
  proof (cases "(\<exists>p v. e = Ev_added p v) \<or> (\<exists>p v. e = Ev_viewer p v) \<or> (\<exists>p. e = Ev_removed p) \<or> (\<exists>out. e = Ev_resume T_maintenance out)
      \<or> (\<exists>op. e = Ev_gate op)")
    case False
    with i r show ?thesis by (intro idle_handle_kept) blast+
  next
    case True
    have p: "I (viewer_set p v s)" for p v by (simp add: viewer_set_def around i)
    have r: "I (snd (finishing (\<lambda>s. s\<lparr>vi_players := map_delete p (vi_players s)\<rparr>) (onViewerRemoved x p) s))" for p
      by (rule keptD [OF keeps_finishing [OF removed_kept] i]) (rule around)
    have m: "I (snd (maintenance_read x out (taken T_maintenance s)))" for out
      by (rule keptD [OF maintenance_kept], rule resumes [OF i]) simp_all
    from True show ?thesis
      using i p keptD [OF added_kept p] r m gated [OF i g] by (auto simp: idle_handle_def resumed_def taken_def)
  qed
qed

lemma started:
  assumes "I s"
  shows "I (snd (wired x d s))"
proof (rule keptD [OF _ assms])
  have r: "keeps I (resume_all x)"
  proof -
    have "keeps I (\<lambda>s. (True, snd (tryResumeDesiredStateShutdown x s)))"
      using resume_desired_kept by (simp add: keeps_def)
    from keeps_steps_Cons [OF resume_kept(1) keeps_steps_Cons [OF resume_kept(2) keeps_steps_Cons [OF this keeps_steps_Nil]]]
    show ?thesis by (simp only: resume_all_def)
  qed
  have m: "keeps I (change (\<lambda>s. s\<lparr>vi_maintenanceInitialized := True\<rparr>))" by (rule keeps_change) (rule around)
  show "keeps I (wired x d)" unfolding wired_def by (intro keeps_rules keeps_If r m apply_kept)
qed

end

end
