(* ===== verification/Viewer_Idle_Properties.thy ===== *)
theory Viewer_Idle_Properties
  imports Viewer_Idle_Kept_Events Connect_Ticket_Properties "HOL-Library.Multiset"
begin

text \<open>
  The predicates of the properties of \<open>viewer-idle-stop.ts\<close>, each an interpretation of the contract of
  \<open>Viewer_Idle_Kept\<close>: what the log of a run looks like, that a commitment is for ever, under which viewers
  a destruction begins, and that the ticket gate stays latched.
\<close>

section \<open>Logs\<close>

text \<open>A durable cutoff since the flag was last dropped.\<close>

definition in_force :: "idle_effect list \<Rightarrow> bool" where
  "in_force es \<longleftrightarrow> (\<exists>r. Fx_cutoff r \<in> set (takeWhile (\<lambda>e. e \<noteq> Fx_rearmed) (rev es)))"

lemma in_force_simps [simp]:
  "in_force (es @ [Fx_cutoff r])" "\<not> in_force (es @ [Fx_rearmed])"
  "e \<noteq> Fx_rearmed \<Longrightarrow> in_force es \<Longrightarrow> in_force (es @ [e])"
  by (auto simp: in_force_def)

definition counts :: "(idle_effect \<Rightarrow> bool) \<Rightarrow> idle_effect list \<Rightarrow> nat" where
  "counts P es = length (filter P es)"

lemma counts_simps [simp]: "counts P [] = 0" "counts P (es @ [e]) = counts P es + (if P e then 1 else 0)"
  by (simp_all add: counts_def)

fun is_stop_begins :: "idle_effect \<Rightarrow> bool" where
  "is_stop_begins (Fx_stop_begins r) = True" | "is_stop_begins _ = False"

fun is_stop :: "idle_effect \<Rightarrow> bool" where
  "is_stop (Fx_stop r b) = True" | "is_stop _ = False"

fun is_spawn :: "idle_effect \<Rightarrow> bool" where
  "is_spawn (Fx_spawn r) = True" | "is_spawn _ = False"

definition destructive :: "idle_effect \<Rightarrow> bool" where
  "destructive e \<longleftrightarrow> is_stop_begins e \<or> e = Fx_recycle_begins"

definition was_committed :: "idle_effect list \<Rightarrow> bool" where
  "was_committed es \<longleftrightarrow> Fx_committed \<in> set es \<or> Fx_recovered \<in> set es"

text \<open>A commitment follows the evidence of its window, with at most the cutoff between them.\<close>

definition earned :: "idle_effect list \<Rightarrow> bool" where
  "earned es \<longleftrightarrow> in_force es
     \<and> (\<exists>p ev i a b. es = p @ [Fx_evidence ev i a b] \<or> (\<exists>r. es = p @ [Fx_evidence ev i a b, Fx_cutoff r]))"

fun entry_ok :: "idle_effect list \<Rightarrow> idle_effect \<Rightarrow> bool" where
  "entry_ok p (Fx_stop_begins r) = in_force p"
| "entry_ok p Fx_recycle_begins = in_force p"
| "entry_ok p (Fx_stop r b) = (counts is_stop p < counts is_stop_begins p)"
| "entry_ok p (Fx_spawn r) = (counts is_spawn p < counts (\<lambda>e. e = Fx_recycle_begins) p)"
| "entry_ok p Fx_committed = earned p"
| "entry_ok p (Fx_restored b) = (\<not> was_committed p)"
| "entry_ok p _ = True"

definition log_ok :: "idle_effect list \<Rightarrow> bool" where
  "log_ok es \<longleftrightarrow> (\<forall>p e q. es = p @ e # q \<longrightarrow> entry_ok p e)"

lemma log_ok_entry: "log_ok es \<Longrightarrow> es = p @ e # q \<Longrightarrow> entry_ok p e"
  by (simp add: log_ok_def)

lemma log_ok_Nil [simp]: "log_ok []"
  by (simp add: log_ok_def)

lemma log_ok_snoc [simp]: "log_ok (es @ [e]) \<longleftrightarrow> log_ok es \<and> entry_ok es e"
proof
  assume l: "log_ok (es @ [e])"
  have "entry_ok p f" if "es = p @ f # q" for p f q
    using l [unfolded log_ok_def, rule_format, of p f "q @ [e]"] that by simp
  moreover have "entry_ok es e" using l [unfolded log_ok_def, rule_format, of es e "[]"] by simp
  ultimately show "log_ok es \<and> entry_ok es e" by (auto simp: log_ok_def)
next
  assume l: "log_ok es \<and> entry_ok es e"
  have "entry_ok p f" if "es @ [e] = p @ f # q" for p f q
  proof (cases q rule: rev_cases)
    case Nil
    with that l show ?thesis by simp
  next
    case (snoc q' d)
    with that have "es = p @ f # q'" by (metis append_Cons append_assoc butlast_snoc)
    with l show ?thesis by (auto simp: log_ok_def)
  qed
  then show "log_ok (es @ [e])" by (auto simp: log_ok_def)
qed

lemma benign_entry:
  assumes "benign e"
  shows "entry_ok p e" "in_force p \<Longrightarrow> in_force (p @ [e])" "\<not> is_stop_begins e" "\<not> is_stop e" "\<not> is_spawn e" "e \<noteq> Fx_recycle_begins"
    "was_committed (p @ [e]) = was_committed p" "\<not> destructive e" "Fx_cutoff r \<noteq> e"
  using assms by (cases e; simp add: was_committed_def destructive_def)+

section \<open>The invariant of a run\<close>

definition pending :: "(task \<Rightarrow> bool) \<Rightarrow> idle \<Rightarrow> nat" where
  "pending P s = length (filter P (vi_tasks s))"

lemma pending_waiting [simp]: "pending P (waiting_for t s) = pending P s + (if P t then 1 else 0)"
  by (simp add: pending_def waiting_for_def)

lemma pending_taken: "t \<in> set (vi_tasks s) \<Longrightarrow> pending P s = pending P (taken t s) + (if P t then 1 else 0)"
proof -
  have "length (filter P ts) = length (filter P (remove1 t ts)) + (if P t then 1 else 0)" if "t \<in> set ts" for ts
    using that by (induction ts) auto
  then show "t \<in> set (vi_tasks s) \<Longrightarrow> pending P s = pending P (taken t s) + (if P t then 1 else 0)"
    by (simp add: pending_def taken_def)
qed

lemma pending_kept: "\<not> P t \<Longrightarrow> pending P (taken t s) = pending P s"
proof -
  assume "\<not> P t"
  then have "filter P (remove1 t ts) = filter P ts" for ts by (induction ts) auto
  then show ?thesis by (simp add: pending_def taken_def)
qed

lemma task_fields [simp]:
  "vi_log (waiting_for t s) = vi_log s" "vi_committed (waiting_for t s) = vi_committed s"
  "vi_cutoffDurable (waiting_for t s) = vi_cutoffDurable s" "vi_stopInFlight (waiting_for t s) = vi_stopInFlight s"
  "vi_log (taken t s) = vi_log s" "vi_committed (taken t s) = vi_committed s"
  "vi_cutoffDurable (taken t s) = vi_cutoffDurable s" "vi_stopInFlight (taken t s) = vi_stopInFlight s"
  by (simp_all add: waiting_for_def taken_def)

lemma pending_noting [simp]: "pending P (noting e s) = pending P s"
  by (simp add: pending_def noting_def)

lemma pending_same [simp]:
  "pending P (s\<lparr>vi_cutoffDurable := d\<rparr>) = pending P s" "pending P (s\<lparr>vi_ticketGate := g, vi_calls := c\<rparr>) = pending P s"
  "pending P (s\<lparr>vi_committed := d, vi_phase := f\<rparr>) = pending P s" "pending P (s\<lparr>vi_stopInFlight := d\<rparr>) = pending P s"
  "pending P (s\<lparr>vi_committed := d\<rparr>) = pending P s"
  "pending P (s\<lparr>vi_players := ps, vi_maintenance := m, vi_maintenanceInitialized := d\<rparr>) = pending P s"
  "pending P (s\<lparr>vi_ticketGate := g\<rparr>) = pending P s"
  by (simp_all add: pending_def)

lemma task_kinds: "stop_task t \<Longrightarrow> \<not> launch_task t" "before_stop t \<Longrightarrow> stop_task t" "launch_task t \<Longrightarrow> \<not> stop_task t"
  by (cases t; simp)+

text \<open>\<open>n\<close> is 1 while a stop that was called waits for nothing, \<open>k\<close> while a launch that has begun does.\<close>

definition idle_inv :: "nat \<Rightarrow> nat \<Rightarrow> idle \<Rightarrow> bool" where
  "idle_inv n k s \<longleftrightarrow> log_ok (vi_log s) \<and> (vi_cutoffDurable s \<longrightarrow> in_force (vi_log s))
     \<and> (vi_committed s \<longleftrightarrow> was_committed (vi_log s))
     \<and> pending stop_task s + n = (if vi_stopInFlight s then 1 else 0)
     \<and> counts is_stop (vi_log s) + pending before_stop s \<le> counts is_stop_begins (vi_log s)
     \<and> counts is_spawn (vi_log s) + pending launch_task s + k \<le> counts (\<lambda>e. e = Fx_recycle_begins) (vi_log s)"

lemma idle_inv_core: "core t = core s \<Longrightarrow> idle_inv n k t = idle_inv n k s"
  by (simp add: core_def idle_inv_def pending_def)

lemma idle_inv_benign: "idle_inv n k s \<Longrightarrow> benign e \<Longrightarrow> idle_inv n k (noting e s)"
  by (simp add: idle_inv_def noting_def pending_def benign_entry)

lemma idle_inv_gate [simp]: "idle_inv n k (s\<lparr>vi_ticketGate := g, vi_calls := c\<rparr>) = idle_inv n k s"
  by (simp add: idle_inv_def)

lemma idle_inv_cutoff:
  assumes "idle_inv n k s"
  shows "idle_inv n k (noting (Fx_cutoff r) s)" "idle_inv n k ((noting (Fx_cutoff r) s)\<lparr>vi_cutoffDurable := True\<rparr>)"
  using assms by (simp_all add: idle_inv_def noting_def pending_def was_committed_def)

text \<open>What a write of the gate is for a log.\<close>

lemma cutoff_written_cases:
  assumes "cutoff_written x opts s = (ok, s')"
  obtains "\<not> ok" "s' = s" | g c where "\<not> ok" "s' = s\<lparr>vi_ticketGate := g, vi_calls := c\<rparr>"
    | g c r where "ok" "s' = noting (Fx_cutoff r) (s\<lparr>vi_ticketGate := g, vi_calls := c\<rparr>)"
proof (cases "vi_ticketGate s")
  case None
  with assms show ?thesis by (intro that(1)) (simp_all add: cutoff_written_def)
next
  case (Some g)
  obtain b g' where m: "markTeardownStarted (ih_gate x) opts (oc_now x div 1000) (oc_mark x (vi_calls s)) g = (b, g')" by fastforce
  show ?thesis
  proof (cases b)
    case True
    with assms Some m have "ok" "s' = noting (Fx_cutoff (case to_reason opts of None \<Rightarrow> [] | Some r \<Rightarrow> r))
        (s\<lparr>vi_ticketGate := Some g', vi_calls := vi_calls s + 1\<rparr>)"
      by (simp_all add: cutoff_written_def Let_def)
    then show ?thesis by (rule that(3))
  next
    case False
    with assms Some m have "\<not> ok" "s' = s\<lparr>vi_ticketGate := Some g', vi_calls := vi_calls s + 1\<rparr>"
      by (simp_all add: cutoff_written_def Let_def)
    then show ?thesis by (rule that(2))
  qed
qed

lemma idle_inv_written:
  assumes i: "idle_inv n k s" and w: "cutoff_written x opts s = (ok, s')"
  shows "idle_inv n k s'" "ok \<Longrightarrow> idle_inv n k (s'\<lparr>vi_cutoffDurable := True\<rparr>)"
proof -
  show "idle_inv n k s'"
    using w by (rule cutoff_written_cases) (simp_all only: i idle_inv_gate idle_inv_cutoff)
  show "idle_inv n k (s'\<lparr>vi_cutoffDurable := True\<rparr>)" if "ok"
  proof (rule cutoff_written_cases [OF w])
    show ?thesis if "s' = noting (Fx_cutoff r) (s\<lparr>vi_ticketGate := g, vi_calls := c\<rparr>)" for g c r
      unfolding that by (rule idle_inv_cutoff) (simp only: i idle_inv_gate)
  qed (use that in blast)+
qed

lemma idle_inv_quiet: "quiet_kept x (idle_inv n k)"
proof
  show "idle_inv n k t" if "idle_inv n k s" "core t = core s" for s t
    using that(1) unfolding idle_inv_core [OF that(2)] .
  show "idle_inv n k (noting e s)" if "idle_inv n k s" "benign e" for s e
    using that by (rule idle_inv_benign)
  show "idle_inv n k (noting (Fx_restored b) s)" if "idle_inv n k s" "\<not> vi_committed s" for s b
    using that by (simp add: idle_inv_def noting_def pending_def was_committed_def)
  show "idle_inv n k (s\<lparr>vi_cutoffDurable := False\<rparr>)" if "idle_inv n k s" for s
    using that by (simp add: idle_inv_def)
  show "idle_inv n k (rearmed s)" if "idle_inv n k s" for s
    using that by (simp add: idle_inv_def rearmed_def noting_def pending_def was_committed_def)
  show "idle_inv n k (snd (cutoff_written x opts s))" if "idle_inv n k s" for s opts
    using idle_inv_written(1) [OF that prod.collapse [symmetric]] .
  show "idle_inv n k (s'\<lparr>vi_cutoffDurable := True\<rparr>)" if "idle_inv n k s" "cutoff_written x opts s = (True, s')" for s s' opts
    using idle_inv_written(2) [OF that] by simp
qed

text \<open>The commitment, with the evidence and the cutoff right before it.\<close>

lemma idle_inv_commits:
  assumes "idle_inv n k s" "earned (vi_log s)"
  shows "idle_inv n k (teardown_committed s)"
  using assms by (auto simp: idle_inv_def teardown_committed_def noting_def pending_def was_committed_def)

lemma idle_inv_waits:
  "idle_inv n k s \<Longrightarrow> \<not> stop_task t \<Longrightarrow> \<not> launch_task t \<Longrightarrow> idle_inv n k (waiting_for t s)"
  "idle_inv (Suc n) k s \<Longrightarrow> stop_task t \<Longrightarrow> \<not> before_stop t \<Longrightarrow> idle_inv n k (waiting_for t s)"
  "idle_inv n (Suc k) s \<Longrightarrow> idle_inv n k (waiting_for (T_recycle_started c m j) s)"
  using task_kinds [of t] by (auto simp: idle_inv_def)

lemma idle_inv_taken:
  assumes i: "idle_inv n k s"
  shows "\<not> stop_task t \<Longrightarrow> \<not> launch_task t \<Longrightarrow> idle_inv n k (taken t s)"
    "stop_task t \<Longrightarrow> \<not> before_stop t \<Longrightarrow> t \<in> set (vi_tasks s) \<Longrightarrow> idle_inv (Suc n) k (taken t s)"
    "T_recycle_started c m j \<in> set (vi_tasks s) \<Longrightarrow> idle_inv n (Suc k) (taken (T_recycle_started c m j) s)"
proof -
  show "idle_inv n k (taken t s)" if "\<not> stop_task t" "\<not> launch_task t"
  proof -
    have "\<not> before_stop t" using that(1) task_kinds(2) by blast
    with i that show ?thesis
      using pending_kept [of stop_task t s] pending_kept [of before_stop t s] pending_kept [of launch_task t s] by (simp add: idle_inv_def)
  qed
  show "idle_inv (Suc n) k (taken t s)" if "stop_task t" "\<not> before_stop t" "t \<in> set (vi_tasks s)"
    using i that(1,2) task_kinds(1) [OF that(1)] pending_taken [OF that(3), of stop_task]
      pending_kept [of before_stop t s] pending_kept [of launch_task t s]
    by (simp add: idle_inv_def)
  show "idle_inv n (Suc k) (taken (T_recycle_started c m j) s)" if "T_recycle_started c m j \<in> set (vi_tasks s)"
    using i pending_taken [OF that, of launch_task] pending_kept [of before_stop "T_recycle_started c m j" s]
      pending_kept [of stop_task "T_recycle_started c m j" s]
    by (simp add: idle_inv_def)
qed

lemma fold_noting: "fold noting es s = s\<lparr>vi_log := vi_log s @ es\<rparr>"
  by (induction es arbitrary: s) (simp_all add: noting_def)

lemma idle_inv_benigns: "idle_inv n k s \<Longrightarrow> list_all benign es \<Longrightarrow> idle_inv n k (fold noting es s)"
  by (induction es arbitrary: s) (simp_all add: idle_inv_benign)

lemma idle_inv_stop_begun:
  assumes i: "idle_inv 0 0 s" "vi_cutoffDurable s" "\<not> vi_stopInFlight s" and t: "before_stop t" "list_all benign fxs"
  shows "idle_inv 0 0 (waiting_for t (fold noting fxs ((noting (Fx_stop_begins r) s)\<lparr>vi_stopInFlight := True\<rparr>)))"
proof -
  let ?s = "waiting_for t ((noting (Fx_stop_begins r) s)\<lparr>vi_stopInFlight := True\<rparr>)"
  have n: "vi_log (noting (Fx_stop_begins r) s) = vi_log s @ [Fx_stop_begins r]"
    "vi_committed (noting (Fx_stop_begins r) s) = vi_committed s" "vi_cutoffDurable (noting (Fx_stop_begins r) s) = vi_cutoffDurable s"
    by (simp_all add: noting_def)
  have "idle_inv 0 0 ?s"
    using i t(1) task_kinds [of t] by (simp add: idle_inv_def n was_committed_def)
  then have "idle_inv 0 0 (fold noting fxs ?s)" using t(2) by (rule idle_inv_benigns)
  moreover have "fold noting fxs (waiting_for t u) = waiting_for t (fold noting fxs u)" for u
    by (simp add: fold_noting waiting_for_def)
  ultimately show ?thesis by simp
qed

lemma idle_inv_stop_stages:
  assumes i: "idle_inv 0 0 s"
  shows "T_stop_started b r a c \<in> set (vi_tasks s) \<Longrightarrow> idle_inv 0 0 (waiting_for (T_stop_captured b r) (taken (T_stop_started b r a c) s))"
    "T_stop_started b r a c \<in> set (vi_tasks s) \<Longrightarrow> idle_inv 0 0 (stop_ends (taken (T_stop_started b r a c) s))"
    "T_stop_captured b r \<in> set (vi_tasks s)
      \<Longrightarrow> idle_inv 0 0 (waiting_for (T_stop_requested b r) (noting (Fx_stop r d) (taken (T_stop_captured b r) s)))"
proof -
  note same = pending_kept [of launch_task "T_stop_started b r a c" s] pending_kept [of launch_task "T_stop_captured b r" s]
  show "idle_inv 0 0 (waiting_for (T_stop_captured b r) (taken (T_stop_started b r a c) s))"
    "idle_inv 0 0 (stop_ends (taken (T_stop_started b r a c) s))" if "T_stop_started b r a c \<in> set (vi_tasks s)"
    using i pending_taken [OF that, of stop_task] pending_taken [OF that, of before_stop] same
    by (auto simp: idle_inv_def stop_ends_def split: if_splits)
  have n: "vi_log (noting e u) = vi_log u @ [e]" "vi_committed (noting e u) = vi_committed u"
    "vi_cutoffDurable (noting e u) = vi_cutoffDurable u" "vi_stopInFlight (noting e u) = vi_stopInFlight u" for e u
    by (simp_all add: noting_def)
  show "idle_inv 0 0 (waiting_for (T_stop_requested b r) (noting (Fx_stop r d) (taken (T_stop_captured b r) s)))"
    if "T_stop_captured b r \<in> set (vi_tasks s)"
    using i pending_taken [OF that, of stop_task] pending_taken [OF that, of before_stop] same
    by (auto simp: idle_inv_def n was_committed_def split: if_splits)
qed

lemma idle_inv_system: "idle_system x (idle_inv 0 0) (idle_inv 0 1) (idle_inv 1 0) True (\<lambda>_. True)"
proof (intro idle_system.intro idle_kept.intro idle_inv_quiet)
  show "idle_kept_axioms x (idle_inv 0 0) (idle_inv 0 1) (idle_inv 1 0) True"
  proof
    show "idle_inv 0 0 (waiting_for t s)" if "idle_inv 0 0 s" "\<not> stop_task t" "\<not> launch_task t" for s t
      using that by (rule idle_inv_waits)
    show "idle_inv 0 0 (taken t s)" if "idle_inv 0 0 s" "\<not> stop_task t" "\<not> launch_task t" for s t
      using that by (rule idle_inv_taken)
    show "idle_inv 1 0 (taken t s)" if "idle_inv 0 0 s" "stop_task t" "\<not> before_stop t" "t \<in> set (vi_tasks s)" for s t
      using idle_inv_taken(2) [OF that] by simp
    show "idle_inv 0 0 (waiting_for t s)" if "idle_inv 1 0 s" "stop_task t" "\<not> before_stop t" for s t
      using idle_inv_waits(2) [of 0 0 s t] that by simp
    show "idle_inv 0 0 (waiting_for (T_recycle_started c m k) s)" if "idle_inv 0 1 s" for s c m k
      using idle_inv_waits(3) [of 0 0 s c m k] that by simp
    show "idle_inv 0 1 (taken (T_recycle_started c m k) s)" if "idle_inv 0 0 s" "T_recycle_started c m k \<in> set (vi_tasks s)" for s c m k
      using idle_inv_taken(3) [OF that] by simp
    show "idle_inv 0 0 (stop_ends s)" if "idle_inv 1 0 s" for s
      using that by (auto simp: idle_inv_def stop_ends_def pending_def split: if_splits)
    show "idle_inv 0 0 s" if "idle_inv 0 1 s" for s
      using that by (simp add: idle_inv_def)
    show "idle_inv 0 1 (noting Fx_recycle_begins s)" if "idle_inv 0 0 s" "vi_cutoffDurable s" for s
      using that by (simp add: idle_inv_def noting_def pending_def was_committed_def)
    show "idle_inv 0 0 (noting (Fx_spawn r) s)" if "idle_inv 0 1 s" for s r
      using that by (simp add: idle_inv_def noting_def pending_def was_committed_def)
    show "idle_inv 0 0 (rearmed (noting Fx_recovered (s\<lparr>vi_committed := True\<rparr>)))" if "idle_inv 0 0 s" for s
      using that log_ok_snoc [of "vi_log s @ [Fx_recovered]" Fx_rearmed] counts_simps(2) [of _ "vi_log s @ [Fx_recovered]" Fx_rearmed]
      by (simp add: idle_inv_def rearmed_def noting_def pending_def was_committed_def)
    show "idle_inv 0 0 (snd (first_viewer_evidence x s))" if "idle_inv 0 0 s" for s
      using that by (auto simp: first_viewer_evidence_def idle_inv_def pending_def split: option.split prod.split)
    have e: "idle_inv 0 0 (noting (Fx_evidence ev i since til) s)" if "idle_inv 0 0 s" for s ev i since til
      using that by (rule idle_inv_benign) simp
    show "idle_inv 0 0 (teardown_committed (noting (Fx_evidence ev i since til) s))" if "idle_inv 0 0 s" "vi_cutoffDurable s" for s ev i since til
    proof (rule idle_inv_commits [OF e [OF that(1)]])
      have "in_force (vi_log s)" using that by (simp add: idle_inv_def)
      then show "earned (vi_log (noting (Fx_evidence ev i since til) s))"
        by (auto simp: earned_def noting_def)
    qed
    show "idle_inv 0 0 (teardown_committed (s'\<lparr>vi_cutoffDurable := True\<rparr>))"
      if "idle_inv 0 0 s" and w: "cutoff_written x opts (noting (Fx_evidence ev i since til) s) = (True, s')" for s s' opts ev i since til
    proof (rule idle_inv_commits)
      show "idle_inv 0 0 (s'\<lparr>vi_cutoffDurable := True\<rparr>)" using idle_inv_written(2) [OF e [OF that(1)] w] by simp
      have "\<exists>r. vi_log s' = vi_log s @ [Fx_evidence ev i since til, Fx_cutoff r]"
        using w by (rule cutoff_written_cases) (simp_all add: noting_def)
      then obtain r where r: "vi_log s' = (vi_log s @ [Fx_evidence ev i since til]) @ [Fx_cutoff r]" by auto
      show "earned (vi_log (s'\<lparr>vi_cutoffDurable := True\<rparr>))"
        unfolding earned_def using r in_force_simps(1) [of "vi_log s @ [Fx_evidence ev i since til]" r] by auto
    qed
  qed (use idle_inv_stop_begun idle_inv_stop_stages in blast)+
  show "idle_system_axioms x (idle_inv 0 0) (\<lambda>_. True)"
    by unfold_locales (simp_all add: idle_inv_def)
qed

interpretation invariant: idle_system x "idle_inv 0 0" "idle_inv 0 1" "idle_inv 1 0" True "\<lambda>_. True" for x
  by (rule idle_inv_system)

section \<open>Runs\<close>

definition idle_started :: "idle_call \<Rightarrow> (string \<times> viewer) list \<Rightarrow> desired_state \<Rightarrow> file_state \<Rightarrow> gate option \<Rightarrow> command option
    \<Rightarrow> desired_state \<Rightarrow> idle option" where
  "idle_started x players desired file g c now = map_option (\<lambda>s. snd (wired x now s)) (new_idle x players desired file g c)"

lemma idle_run_simps [simp]:
  "idle_run [] s = s" "idle_run ((x, e) # es) s = idle_run es (snd (idle_handle x e s))"
  "idle_run (es @ fs) s = idle_run fs (idle_run es s)"
  by (simp_all add: idle_run_def)

lemma idle_run_kept:
  assumes "\<And>x e s. (x, e) \<in> set es \<Longrightarrow> I s \<Longrightarrow> I (snd (idle_handle x e s))" "I s"
  shows "I (idle_run es s)"
  using assms
proof (induction es arbitrary: s)
  case (Cons a es)
  obtain x e where a: "a = (x, e)" by fastforce
  have "I (snd (idle_handle x e s))" using Cons.prems by (simp add: a)
  then show ?case using Cons.IH Cons.prems(1) by (simp add: a)
qed simp

lemma idle_inv_new:
  assumes "new_idle x players desired file g c = Some s"
  shows "idle_inv 0 0 s"
proof -
  from assms obtain m where "s = token_at_startup x (idle_vars x players desired file g c m)"
    by (auto simp: new_idle_def split: sum.splits)
  then show ?thesis
    by (simp add: token_at_startup_def Let_def idle_vars_def idle_inv_def pending_def was_committed_def)
qed

lemma idle_inv_run:
  assumes "idle_started x players desired file g c now = Some s"
  shows "idle_inv 0 0 (idle_run es s)"
proof (rule idle_run_kept)
  show "idle_inv 0 0 (snd (idle_handle x e s))" if "idle_inv 0 0 s" for x e s
    using that by (rule invariant.handled) simp_all
  from assms obtain s0 where "new_idle x players desired file g c = Some s0" "s = snd (wired x now s0)"
    by (auto simp: idle_started_def)
  then show "idle_inv 0 0 s" using invariant.started idle_inv_new by simp
qed

lemma idle_run_entry:
  assumes "idle_started x players desired file g c now = Some s" "vi_log (idle_run es s) = p @ e # q"
  shows "entry_ok p e"
proof (rule log_ok_entry [OF _ assms(2)])
  show "log_ok (vi_log (idle_run es s))" using idle_inv_run [OF assms(1), of es] by (simp add: idle_inv_def)
qed

lemma in_force_iff: "in_force es \<longleftrightarrow> (\<exists>p r q. es = p @ Fx_cutoff r # q \<and> Fx_rearmed \<notin> set q)"
proof
  assume "in_force es"
  then obtain r where "Fx_cutoff r \<in> set (takeWhile (\<lambda>e. e \<noteq> Fx_rearmed) (rev es))" by (auto simp: in_force_def)
  then obtain a b where ab: "takeWhile (\<lambda>e. e \<noteq> Fx_rearmed) (rev es) = a @ Fx_cutoff r # b" by (meson split_list)
  then obtain c where "rev es = a @ Fx_cutoff r # b @ c" by (metis takeWhile_dropWhile_id append_Cons append_assoc)
  then have "rev (rev es) = rev (a @ Fx_cutoff r # b @ c)" by simp
  then have "es = (rev c @ rev b) @ Fx_cutoff r # rev a" by simp
  moreover have "Fx_rearmed \<notin> set (rev a)"
    using set_takeWhileD [of Fx_rearmed "\<lambda>e. e \<noteq> Fx_rearmed" "rev es"] unfolding ab by auto
  ultimately show "\<exists>p r q. es = p @ Fx_cutoff r # q \<and> Fx_rearmed \<notin> set q" by blast
next
  assume "\<exists>p r q. es = p @ Fx_cutoff r # q \<and> Fx_rearmed \<notin> set q"
  then obtain p r q where es: "es = p @ Fx_cutoff r # q" and q: "Fx_rearmed \<notin> set q" by blast
  have "rev es = rev q @ Fx_cutoff r # rev p" by (simp add: es)
  moreover have "Fx_cutoff r \<in> set (takeWhile (\<lambda>e. e \<noteq> Fx_rearmed) (rev q @ Fx_cutoff r # rev p))"
    by (subst takeWhile_append2) (use q in auto)
  ultimately have "Fx_cutoff r \<in> set (takeWhile (\<lambda>e. e \<noteq> Fx_rearmed) (rev es))" by simp
  then show "in_force es" by (auto simp: in_force_def)
qed

section \<open>Commitment\<close>

text \<open>A log only grows, and a commitment stays.\<close>

definition grows :: "idle_effect list \<Rightarrow> bool \<Rightarrow> idle \<Rightarrow> bool" where
  "grows l b s \<longleftrightarrow> (\<exists>q. vi_log s = l @ q) \<and> (b \<longrightarrow> vi_committed s)"

lemma grows_noting: "grows l b s \<Longrightarrow> grows l b (noting e s)"
  by (auto simp: grows_def noting_def)

lemma grows_written: "grows l b s \<Longrightarrow> cutoff_written x opts s = (ok, s') \<Longrightarrow> grows l b s'"
  by (erule cutoff_written_cases) (auto simp: grows_def noting_def)

lemma grows_quiet: "quiet_kept x (grows l b)"
proof
  show "grows l b (snd (cutoff_written x opts s))" if "grows l b s" for s opts
    using grows_written [OF that prod.collapse [symmetric]] .
  show "grows l b (s'\<lparr>vi_cutoffDurable := True\<rparr>)" if "grows l b s" "cutoff_written x opts s = (True, s')" for s s' opts
    using grows_written [OF that] by (simp add: grows_def)
qed (auto simp: grows_def core_def noting_def rearmed_def)

lemma grows_system: "idle_system x (grows l b) (grows l b) (grows l b) True (\<lambda>_. True)"
proof (intro idle_system.intro idle_kept.intro grows_quiet)
  have commit: "grows l b (teardown_committed s)" if "grows l b s" for s
    using that by (auto simp: grows_def teardown_committed_def noting_def)
  show "idle_kept_axioms x (grows l b) (grows l b) (grows l b) True"
  proof
    show "grows l b (teardown_committed (s'\<lparr>vi_cutoffDurable := True\<rparr>))"
      if "grows l b s" "cutoff_written x opts (noting (Fx_evidence ev i since til) s) = (True, s')" for s s' opts ev i since til
    proof -
      have "grows l b s'" using grows_written [OF grows_noting [OF that(1)] that(2)] .
      then show ?thesis using commit by (simp add: grows_def)
    qed
    show "grows l b (teardown_committed (noting (Fx_evidence ev i since til) s))" if "grows l b s" for s ev i since til
      by (rule commit, rule grows_noting [OF that])
    show "grows l b (snd (first_viewer_evidence x s))" if "grows l b s" for s
      using that by (auto simp: first_viewer_evidence_def grows_def split: option.split prod.split)
    show "grows l b (waiting_for t (fold noting fxs ((noting (Fx_stop_begins r) s)\<lparr>vi_stopInFlight := True\<rparr>)))"
      if "grows l b s" for s t fxs r
      using that by (auto simp: grows_def fold_noting waiting_for_def noting_def)
  qed (auto simp: commit grows_noting grows_def waiting_for_def taken_def stop_ends_def rearmed_def noting_def)
  show "idle_system_axioms x (grows l b) (\<lambda>_. True)" by unfold_locales (simp_all add: grows_def)
qed

interpretation growing: idle_system x "grows l b" "grows l b" "grows l b" True "\<lambda>_. True" for x l b
  by (rule grows_system)

lemma grows_run: "grows (vi_log s) (vi_committed s) (idle_run es s)"
proof (rule idle_run_kept)
  show "grows (vi_log s) (vi_committed s) (snd (idle_handle x e t))" if "grows (vi_log s) (vi_committed s) t" for x e t
    using that by (rule growing.handled) simp_all
qed (simp add: grows_def)

text \<open>Without the notice of a recovery the automation never takes one as committed.\<close>

definition unheard :: "idle \<Rightarrow> bool" where
  "unheard s \<longleftrightarrow> Fx_recovered \<notin> set (vi_log s)"

lemma unheard_written: "unheard s \<Longrightarrow> cutoff_written x opts s = (ok, s') \<Longrightarrow> unheard s'"
  by (erule cutoff_written_cases) (auto simp: unheard_def noting_def)

lemma unheard_quiet: "quiet_kept x unheard"
proof
  show "unheard (snd (cutoff_written x opts s))" if "unheard s" for s opts
    using unheard_written [OF that prod.collapse [symmetric]] .
  show "unheard (s'\<lparr>vi_cutoffDurable := True\<rparr>)" if "unheard s" "cutoff_written x opts s = (True, s')" for s s' opts
    using unheard_written [OF that] by (simp add: unheard_def)
  show "unheard (noting e s)" if "unheard s" "benign e" for s e
    using that by (cases e) (simp_all add: unheard_def noting_def)
qed (auto simp: unheard_def core_def noting_def rearmed_def)

lemma unheard_system: "idle_system x unheard unheard unheard False (\<lambda>_. True)"
proof (intro idle_system.intro idle_kept.intro unheard_quiet)
  have note1: "unheard (noting (Fx_evidence ev i since til) s)" if "unheard s" for s ev i since til
    using that by (simp add: unheard_def noting_def)
  have commit: "unheard (teardown_committed s)" if "unheard s" for s
    using that by (auto simp: unheard_def teardown_committed_def noting_def)
  show "idle_kept_axioms x unheard unheard unheard False"
  proof
    show "unheard (teardown_committed (s'\<lparr>vi_cutoffDurable := True\<rparr>))"
      if "unheard s" "cutoff_written x opts (noting (Fx_evidence ev i since til) s) = (True, s')" for s s' opts ev i since til
      using commit unheard_written [OF note1 [OF that(1)] that(2)] by (simp add: unheard_def)
    show "unheard (teardown_committed (noting (Fx_evidence ev i since til) s))" if "unheard s" for s ev i since til
      by (rule commit, rule note1 [OF that])
    show "unheard (snd (first_viewer_evidence x s))" if "unheard s" for s
      using that by (auto simp: first_viewer_evidence_def unheard_def split: option.split prod.split)
    show "unheard (waiting_for t (fold noting fxs ((noting (Fx_stop_begins r) s)\<lparr>vi_stopInFlight := True\<rparr>)))"
      if "unheard s" "list_all benign fxs" for s t fxs r
    proof -
      have "Fx_recovered \<notin> set fxs" using that(2) by (induction fxs) auto
      with that(1) show ?thesis by (auto simp: unheard_def fold_noting waiting_for_def noting_def)
    qed
  qed (auto simp: unheard_def waiting_for_def taken_def stop_ends_def noting_def)
  show "idle_system_axioms x unheard (\<lambda>_. True)" by unfold_locales (simp_all add: unheard_def)
qed

interpretation unheard: idle_system x unheard unheard unheard False "\<lambda>_. True" for x
  by (rule unheard_system)

lemma unheard_run:
  assumes "idle_started x players desired file g c now = Some s" "\<nexists>y. (y, Ev_recovery True) \<in> set es \<and> ih_client y"
  shows "unheard (idle_run es s)"
proof (rule idle_run_kept)
  show "unheard (snd (idle_handle y e t))" if "(y, e) \<in> set es" "unheard t" for y e t
    using that(2) by (rule unheard.handled) (use that(1) assms(2) in auto)
  from assms(1) obtain s0 where s0: "new_idle x players desired file g c = Some s0" "s = snd (wired x now s0)"
    by (auto simp: idle_started_def)
  then obtain m where "s0 = token_at_startup x (idle_vars x players desired file g c m)"
    by (auto simp: new_idle_def split: sum.splits)
  then have "unheard s0" by (simp add: token_at_startup_def Let_def idle_vars_def unheard_def)
  then show "unheard s" unfolding s0(2) by (rule unheard.started)
qed

lemma late_viewer:
  assumes "vi_committed s"
  shows "snd (idle_handle x (Ev_added p v) s) = noting (Fx_disconnect p ''Connect ticket rejected: reconnect grace has elapsed'')
    ((viewer_set p v s)\<lparr>vi_identities := (if p = [] then vi_identities s else map_delete p (vi_identities s))\<rparr>)"
proof -
  have "isCommercialReconnectDeadlineLocked (viewer_set p v s)"
    using assms by (simp add: isCommercialReconnectDeadlineLocked_def viewer_set_def)
  moreover have "map_get (map_set p v (vi_players s)) p \<noteq> None"
    by (simp add: map_get_def map_of_map_set)
  ultimately show ?thesis
    by (simp add: idle_handle_def onViewerAdded_def viewer_disconnected_def) (simp add: viewer_set_def)
qed

section \<open>Viewers\<close>

text \<open>Within a handler the registry and the maintenance mode stay as they are.\<close>

definition near :: "nat \<Rightarrow> (string \<times> viewer) list \<Rightarrow> string option \<Rightarrow> bool \<Rightarrow> idle \<Rightarrow> bool" where
  "near n ps m b s \<longleftrightarrow> vi_players s = ps \<and> vi_maintenance s = m \<and> vi_maintenanceInitialized s = b \<and> n \<le> length (vi_log s)
     \<and> (\<forall>e \<in> set (drop n (vi_log s)). destructive e \<longrightarrow> may_destroy s)"

lemma near_fields:
  assumes "near n ps m b s" "vi_players t = vi_players s" "vi_maintenance t = vi_maintenance s"
    "vi_maintenanceInitialized t = vi_maintenanceInitialized s" "vi_committed s \<longrightarrow> vi_committed t"
    "\<exists>q. vi_log t = vi_log s @ q \<and> (\<forall>e \<in> set q. destructive e \<longrightarrow> may_destroy s)"
  shows "near n ps m b t"
proof -
  have "may_destroy s \<Longrightarrow> may_destroy t"
    using assms(2-5) by (auto simp: may_destroy_def viewers_def suspended_def isMaintenanceActive_def)
  with assms(1,2,3,4,6) show ?thesis by (auto simp: near_def)
qed

lemma near_written:
  assumes "near n ps m b s" "cutoff_written x opts s = (ok, s')"
  shows "near n ps m b s'"
  using assms(2) by (rule cutoff_written_cases) (auto intro!: near_fields [OF assms(1)] simp: noting_def destructive_def)

lemma near_quiet: "quiet_kept x (near n ps m b)"
proof
  show "near n ps m b t" if "near n ps m b s" "core t = core s" for s t
    using that(2) by (intro near_fields [OF that(1)]) (simp_all add: core_def)
  show "near n ps m b (noting e s)" if "near n ps m b s" "benign e" for s e
    using that(2) by (intro near_fields [OF that(1)]) (simp_all add: noting_def benign_entry)
  show "near n ps m b (snd (cutoff_written x opts s))" if "near n ps m b s" for s opts
    using near_written [OF that prod.collapse [symmetric]] .
  show "near n ps m b (s'\<lparr>vi_cutoffDurable := True\<rparr>)" if "near n ps m b s" "cutoff_written x opts s = (True, s')" for s s' opts
    by (rule near_fields [OF near_written [OF that]]) simp_all
  show "near n ps m b (noting (Fx_restored c) s)" if "near n ps m b s" for s c
    by (rule near_fields [OF that]) (simp_all add: noting_def destructive_def)
  show "near n ps m b (s\<lparr>vi_cutoffDurable := False\<rparr>)" if "near n ps m b s" for s
    by (rule near_fields [OF that]) simp_all
  show "near n ps m b (rearmed s)" if "near n ps m b s" for s
    by (rule near_fields [OF that]) (simp_all add: rearmed_def noting_def destructive_def)
qed

lemma near_kept: "idle_kept x (near n ps m b) (near n ps m b) (near n ps m b) True"
proof (intro idle_kept.intro near_quiet)
  note n = near_fields
  have commit: "near n ps m b (teardown_committed s)" if "near n ps m b s" for s
    by (rule n [OF that]) (simp_all add: teardown_committed_def noting_def destructive_def)
  have note1: "near n ps m b (noting (Fx_evidence ev i since til) s)" if "near n ps m b s" for s ev i since til
    by (rule n [OF that]) (simp_all add: noting_def destructive_def)
  show "idle_kept_axioms x (near n ps m b) (near n ps m b) (near n ps m b) True"
  proof
    show "near n ps m b (teardown_committed (s'\<lparr>vi_cutoffDurable := True\<rparr>))"
      if "near n ps m b s" "cutoff_written x opts (noting (Fx_evidence ev i since til) s) = (True, s')" for s s' opts ev i since til
      by (rule commit, rule n [OF near_written [OF note1 [OF that(1)] that(2)]]) simp_all
    show "near n ps m b (teardown_committed (noting (Fx_evidence ev i since til) s))" if "near n ps m b s" for s ev i since til
      by (rule commit, rule note1 [OF that])
    show "near n ps m b (snd (first_viewer_evidence x s))" if "near n ps m b s" for s
      by (rule n [OF that]) (auto simp: first_viewer_evidence_def split: option.split prod.split)
    show "near n ps m b (waiting_for t (fold noting fxs ((noting (Fx_stop_begins r) s)\<lparr>vi_stopInFlight := True\<rparr>)))"
      if "near n ps m b s" "may_destroy s" for s t fxs r
      by (rule n [OF that(1)]) (simp_all add: fold_noting waiting_for_def noting_def that(2))
    show "near n ps m b (noting Fx_recycle_begins s)" if "near n ps m b s" "may_destroy s" for s
      by (rule n [OF that(1)]) (simp_all add: noting_def that(2))
    show "near n ps m b (noting (Fx_spawn r) s)" if "near n ps m b s" for s r
      by (rule n [OF that]) (simp_all add: noting_def destructive_def)
    show "near n ps m b (rearmed (noting Fx_recovered (s\<lparr>vi_committed := True\<rparr>)))" if "near n ps m b s" for s
      by (rule n [OF that]) (simp_all add: rearmed_def noting_def destructive_def)
    show "near n ps m b (waiting_for (T_stop_requested c r) (noting (Fx_stop r call) (taken (T_stop_captured c r) s)))"
      if "near n ps m b s" for s c r call
      by (rule n [OF that]) (simp_all add: waiting_for_def noting_def taken_def destructive_def)
  qed (auto simp: waiting_for_def taken_def stop_ends_def elim!: near_fields)
qed

interpretation nearby: idle_kept x "near n ps m b" "near n ps m b" "near n ps m b" True for x n ps m b
  by (rule near_kept)

end
