(* ===== verification/Viewer_Idle_Gate.thy ===== *)
theory Viewer_Idle_Gate
  imports Viewer_Idle_Properties
begin

text \<open>
  The automation and the ticket gate together: whatever cutoff the automation has written keeps the gate
  latched until a recovery is attempted. The invariant is over the log from a point on, so that a run may be
  split where the last recovery was attempted.
\<close>

text \<open>The operations of others on the gate: any, or any but the completion of a recovery.\<close>

definition no_completion :: "gate_config \<Rightarrow> gate_op \<Rightarrow> bool" where
  "no_completion g op \<longleftrightarrow> op_ok g op \<and> (\<forall>token now r. op \<noteq> Op_complete token now r)"

definition only_own :: "bool \<Rightarrow> gate_config \<Rightarrow> gate_op \<Rightarrow> bool" where
  "only_own b g op \<longleftrightarrow> op_ok g op \<and> (b \<longrightarrow> no_completion g op)"

definition cut_off :: "idle_effect list \<Rightarrow> bool" where
  "cut_off es \<longleftrightarrow> (\<exists>r. Fx_cutoff r \<in> set es)"

text \<open>The log is \<open>l\<close> and what was noted since; with \<open>b\<close> no recovery is attempted meanwhile.\<close>

definition latch_inv :: "bool \<Rightarrow> idle_effect list \<Rightarrow> gate_config \<Rightarrow> idle \<Rightarrow> bool" where
  "latch_inv b l g s \<longleftrightarrow> (\<exists>t fs. vi_ticketGate s = Some t \<and> own g t \<and> vi_log s = l @ fs \<and> (b \<and> cut_off fs \<longrightarrow> latched g t))"

definition gate_call_ok :: "gate_config \<Rightarrow> idle_call \<Rightarrow> bool" where
  "gate_call_ok g x \<longleftrightarrow> ih_gate x = g \<and> time_ok g (oc_now x div 1000)"

lemma cut_off_simps [simp]: "cut_off (es @ fs) \<longleftrightarrow> cut_off es \<or> cut_off fs" "\<not> cut_off []" "cut_off [Fx_cutoff r]"
  "(\<And>r. e \<noteq> Fx_cutoff r) \<Longrightarrow> \<not> cut_off [e]"
  by (auto simp: cut_off_def)

lemma benign_not_cutoff: "list_all benign fxs \<Longrightarrow> \<not> cut_off fxs"
  by (induction fxs) (auto simp: cut_off_def)

lemma latch_fields:
  assumes "latch_inv b l g s" "vi_ticketGate t = vi_ticketGate s" "\<exists>es. vi_log t = vi_log s @ es \<and> \<not> cut_off es"
  shows "latch_inv b l g t"
  using assms by (auto simp: latch_inv_def)

lemma latch_written:
  assumes env: "gate_env g" and x: "gate_call_ok g x" and l: "latch_inv b l g s"
  shows "latch_inv b l g (snd (cutoff_written x opts s))"
proof -
  from l obtain t fs where t: "vi_ticketGate s = Some t" "own g t" "vi_log s = l @ fs" by (auto simp: latch_inv_def)
  from x have g: "ih_gate x = g" and now: "time_ok g (oc_now x div 1000)" by (simp_all add: gate_call_ok_def)
  obtain ok t' where m: "markTeardownStarted g opts (oc_now x div 1000) (oc_mark x (vi_calls s)) t = (ok, t')" by fastforce
  have "own g t'" using moves_own [OF moves_teardown [OF env t(2) now] t(2)] m by (metis snd_conv)
  moreover have "latched g t'" using latched_teardown [OF env t(2) now] m by (metis snd_conv)
  ultimately show ?thesis
    by (simp add: cutoff_written_def t g m Let_def latch_inv_def noting_def)
qed

lemma latch_quiet:
  assumes "gate_env g" "gate_call_ok g x"
  shows "quiet_kept x (latch_inv b l g)"
proof
  show "latch_inv b l g t" if "latch_inv b l g s" "core t = core s" for s t
    using that(2) by (intro latch_fields [OF that(1)]) (simp_all add: core_def)
  show "latch_inv b l g (noting e s)" if "latch_inv b l g s" "benign e" for s e
    using that(2) benign_not_cutoff [of "[e]"] by (intro latch_fields [OF that(1)]) (simp_all add: noting_def)
  show "latch_inv b l g (snd (cutoff_written x opts s))" if "latch_inv b l g s" for s opts
    using latch_written [OF assms that] .
  show "latch_inv b l g (s'\<lparr>vi_cutoffDurable := True\<rparr>)" if "latch_inv b l g s" "cutoff_written x opts s = (True, s')" for s s' opts
    using latch_written [OF assms that(1), of opts] that(2) by (simp add: latch_inv_def)
qed (auto simp: noting_def rearmed_def elim!: latch_fields)

lemma latch_system:
  assumes env: "gate_env g" "gate_call_ok g x"
  shows "idle_system x (latch_inv b l g) (latch_inv b l g) (latch_inv b l g) True (only_own b g)"
proof (intro idle_system.intro idle_kept.intro latch_quiet [OF assms])
  note n = latch_fields
  have note1: "latch_inv b l g (noting (Fx_evidence ev i since til) s)" if "latch_inv b l g s" for s ev i since til
    by (rule n [OF that]) (simp_all add: noting_def)
  have commit: "latch_inv b l g (teardown_committed s)" if "latch_inv b l g s" for s
    by (rule n [OF that]) (simp_all add: teardown_committed_def noting_def)
  show "idle_kept_axioms x (latch_inv b l g) (latch_inv b l g) (latch_inv b l g) True"
  proof
    show "latch_inv b l g (teardown_committed (s'\<lparr>vi_cutoffDurable := True\<rparr>))"
      if "latch_inv b l g s" "cutoff_written x opts (noting (Fx_evidence ev i since til) s) = (True, s')" for s s' opts ev i since til
    proof -
      have "latch_inv b l g s'" using latch_written [OF assms note1 [OF that(1)]] that(2) by (metis snd_conv)
      then show ?thesis using commit by (simp add: latch_inv_def)
    qed
    show "latch_inv b l g (teardown_committed (noting (Fx_evidence ev i since til) s))" if "latch_inv b l g s" for s ev i since til
      by (rule commit, rule note1 [OF that])
    show "latch_inv b l g (snd (first_viewer_evidence x s))" if l: "latch_inv b l g s" for s
    proof -
      from l obtain t fs where t: "vi_ticketGate s = Some t" "own g t" "vi_log s = l @ fs" "b \<and> cut_off fs \<longrightarrow> latched g t"
        by (auto simp: latch_inv_def)
      have e: "gate_do g Op_evidence t = snd (getDurableManagedViewerEvidenceStatus g t)" by simp
      have "own g (gate_do g Op_evidence t)" by (rule own_do [OF assms(1) t(2)]) simp
      moreover have "latched g (gate_do g Op_evidence t)" if "latched g t"
        by (rule latched_do [OF assms(1) t(2) _ that]) simp_all
      moreover have "ih_gate x = g" using assms(2) by (simp add: gate_call_ok_def)
      ultimately show ?thesis using t unfolding e
        by (auto simp: first_viewer_evidence_def latch_inv_def split: prod.split)
    qed
    show "latch_inv b l g (waiting_for t (fold noting fxs ((noting (Fx_stop_begins r) s)\<lparr>vi_stopInFlight := True\<rparr>)))"
      if "latch_inv b l g s" "list_all benign fxs" for s t fxs r
      using cut_off_simps(1) [of "[Fx_stop_begins r]" fxs] benign_not_cutoff [OF that(2)]
      by (intro n [OF that(1)]) (simp_all add: fold_noting waiting_for_def noting_def)
    show "latch_inv b l g (rearmed (noting Fx_recovered (s\<lparr>vi_committed := True\<rparr>)))" if "latch_inv b l g s" for s
      by (rule n [OF that]) (simp_all add: rearmed_def noting_def cut_off_def)
    show "latch_inv b l g (waiting_for (T_stop_requested c r) (noting (Fx_stop r call) (taken (T_stop_captured c r) s)))"
      if "latch_inv b l g s" for s c r call
      by (rule n [OF that]) (simp_all add: waiting_for_def noting_def taken_def)
    show "latch_inv b l g (noting Fx_recycle_begins s)" "latch_inv b l g (noting (Fx_spawn r) s)" if "latch_inv b l g s" for s r
      by (rule n [OF that], simp_all add: noting_def)+
  qed (auto simp: waiting_for_def taken_def stop_ends_def elim!: latch_fields)
  show "idle_system_axioms x (latch_inv b l g) (only_own b g)"
  proof
    show "latch_inv b l g (s\<lparr>vi_ticketGate := map_option (gate_do (ih_gate x) op) (vi_ticketGate s)\<rparr>)"
      if l: "latch_inv b l g s" and op: "only_own b g op" for s op
    proof -
      from l obtain t fs where t: "vi_ticketGate s = Some t" "own g t" "vi_log s = l @ fs" "b \<and> cut_off fs \<longrightarrow> latched g t"
        by (auto simp: latch_inv_def)
      have "own g (gate_do g op t)" by (rule own_do [OF assms(1) t(2)]) (use op in \<open>simp add: only_own_def\<close>)
      moreover have "latched g (gate_do g op t)" if "latched g t" "b"
        by (rule latched_do [OF assms(1) t(2) _ that(1)]) (use op that(2) in \<open>auto simp: only_own_def no_completion_def\<close>)
      moreover have "ih_gate x = g" using assms(2) by (simp add: gate_call_ok_def)
      ultimately show ?thesis using t by (auto simp: latch_inv_def)
    qed
    show "latch_inv b l g (s\<lparr>vi_players := ps, vi_maintenance := m, vi_maintenanceInitialized := d\<rparr>)" if "latch_inv b l g s" for s ps m d
      by (rule n [OF that]) simp_all
  qed
qed

end
