(* ===== verification/Viewer_Idle_Fuel.thy ===== *)
theory Viewer_Idle_Fuel
  imports Viewer_Idle_Events
begin

text \<open>
  Why one unit of fuel is enough for \<open>requestStop\<close>: the window that a refused stop opens on a warm
  instance never asks for a stop again before it has waited.
\<close>

section \<open>Operations that agree\<close>

definition agree :: "('s \<Rightarrow> bool) \<Rightarrow> ('s \<Rightarrow> bool \<times> 's) \<Rightarrow> ('s \<Rightarrow> bool \<times> 's) \<Rightarrow> bool" where
  "agree C f g \<longleftrightarrow> (\<forall>s. C s \<longrightarrow> f s = g s)"

named_theorems agree_rules

lemma agree_refl: "agree C f f"
  by (simp add: agree_def)

lemma agree_if_state [agree_rules]:
  "agree C f f' \<Longrightarrow> agree C g g' \<Longrightarrow> agree C (\<lambda>s. if c s then f s else g s) (\<lambda>s. if c s then f' s else g' s)"
  by (simp add: agree_def)

lemma agree_if [agree_rules]: "agree C f f' \<Longrightarrow> agree C g g' \<Longrightarrow> agree C (if c then f else g) (if c then f' else g')"
  by simp

lemma agree_steps_Cons [agree_rules]:
  "keeps C f \<Longrightarrow> agree C (steps (g # fs)) (steps (g' # fs')) \<Longrightarrow> agree C (steps (f # g # fs)) (steps (f # g' # fs'))"
  by (auto simp del: steps_simps simp: steps_simps(2) [of f] agree_def andThen_def keeps_def split: prod.split bool.split)

lemma agree_last [agree_rules]: "agree C f f' \<Longrightarrow> agree C (steps [f]) (steps [f'])"
  by (simp add: agree_def)

lemma agree_ask [agree_rules]: "(\<And>b. agree C (k b) (k' b)) \<Longrightarrow> agree C (ask q k) (ask q k')"
  by (simp add: agree_def ask_def split: option.split)

lemma agree_detached [agree_rules]: "agree C f f' \<Longrightarrow> agree C (detached f) (detached f')"
  by (simp add: agree_def detached_def)

lemma agree_decide:
  "keeps C f \<Longrightarrow> agree C g g' \<Longrightarrow> agree C h h' \<Longrightarrow>
    agree C (\<lambda>s. case f s of (True, s) \<Rightarrow> g s | (False, s) \<Rightarrow> h s) (\<lambda>s. case f s of (True, s) \<Rightarrow> g' s | (False, s) \<Rightarrow> h' s)"
  by (auto simp: agree_def keeps_def split: prod.split bool.split)

section \<open>A calm instance\<close>

text \<open>Nothing is committed, and nobody asks for a shutdown.\<close>

definition calm :: "idle_call \<Rightarrow> idle \<Rightarrow> bool" where
  "calm x s \<longleftrightarrow> \<not> vi_committed s \<and> \<not> shutdown_asked x s"

lemma calm_same:
  assumes "calm x s" "vi_committed t = vi_committed s" "vi_desired t = vi_desired s" "vi_clientCommand t = vi_clientCommand s"
    "vi_observed t = vi_observed s" "vi_lastRequestId t = vi_lastRequestId s" "vi_lastObservedAt t = vi_lastObservedAt s"
  shows "calm x t"
proof -
  have "getActiveShutdownCommand x t = getActiveShutdownCommand x s"
    by (simp add: getActiveShutdownCommand_def readActiveCommand_def commandMatchesCurrentManagedSession_def assms cong: option.case_cong)
  with assms(1-3) show ?thesis by (simp add: calm_def shutdown_asked_def)
qed

lemma calm_change: "(\<And>s. vi_committed (u s) = vi_committed s \<and> vi_desired (u s) = vi_desired s \<and> vi_clientCommand (u s) = vi_clientCommand s
    \<and> vi_observed (u s) = vi_observed s \<and> vi_lastRequestId (u s) = vi_lastRequestId s \<and> vi_lastObservedAt (u s) = vi_lastObservedAt s)
    \<Longrightarrow> keeps (calm x) (change u)"
  by (rule keeps_change) (erule calm_same, simp_all)

lemma calm_quiet [keeps_rules]:
  "keeps (calm x) (publishStatus y a r h)" "keeps (calm x) (clearReconnectGraceWindow y)" "keeps (calm x) clearReconnectGraceTimer"
  "keeps (calm x) clearZeroTimer" "keeps (calm x) clearFirstViewerTimer" "keeps (calm x) clearTransientStatusHeartbeat"
  "keeps (calm x) clearResetTimer" "keeps (calm x) clearRecycleExitFallbackTimer" "keeps (calm x) clearStackRecycleRetryTimer"
  "keeps (calm x) (startTransientStatusHeartbeat y a r)" "keeps (calm x) passive_recycle" "keeps (calm x) (own_marker_cleared y a)"
  unfolding publishStatus_def clearReconnectGraceWindow_def clearReconnectGraceTimer_def clearZeroTimer_def clearFirstViewerTimer_def
    clearTransientStatusHeartbeat_def clearResetTimer_def clearRecycleExitFallbackTimer_def clearStackRecycleRetryTimer_def
    startTransientStatusHeartbeat_def passive_recycle_def own_marker_cleared_def
  by (rule calm_change, simp add: noting_def Let_def)+

lemma calm_written: "keeps (calm x) (cutoff_written y opts)"
  by (rule keepsI) (auto simp: cutoff_written_def noting_def Let_def elim!: calm_same split: option.split prod.split)

lemma calm_marking [keeps_rules]: "keeps (calm x) (markConnectTicketTeardownStarted y r c t)"
  unfolding markConnectTicketTeardownStarted_def by (rule calm_written)

lemma calm_ensured [keeps_rules]: "keeps (calm x) (cutoff_ensured y r c)"
proof (rule keepsI)
  fix s assume c: "calm x s"
  obtain ok s' where w: "markConnectTicketTeardownStarted y r c
      (or_else (map_option cm_requestedAtUtc c) (ds_updatedAtUtc (vi_desired s))) s = (ok, s')" by fastforce
  have "calm x s'" using keepsD [OF calm_marking c] w by (metis snd_conv)
  then have "calm x (s'\<lparr>vi_cutoffDurable := ok\<rparr>)" by (rule calm_same) simp_all
  with c show "calm x (snd (cutoff_ensured y r c s))" by (simp add: cutoff_ensured_def w)
qed

section \<open>The stop is not asked for\<close>

lemma restore_agree: "agree (calm x) (restoreAfterReset x stop) (restoreAfterReset x stop')"
proof -
  have d: "agree (calm x) (\<lambda>s. if ds_shutdownRequested (vi_desired s) then desired_stop x stop s else f s)
      (\<lambda>s. if ds_shutdownRequested (vi_desired s) then desired_stop x stop' s else f s)" for f
    by (simp add: agree_def calm_def shutdown_asked_def)
  show ?thesis
    unfolding restoreAfterReset_def
    by (intro agree_rules keeps_rules agree_refl d) (rule calm_change, simp)+
qed

lemma failure_agree: "agree (calm x) (handleStackRecycleLaunchFailure x stop) (handleStackRecycleLaunchFailure x stop')"
  using restore_agree by (auto simp: agree_def handleStackRecycleLaunchFailure_def calm_def)

lemma launch_failed_agree: "agree (calm x) (launch_failed x stop c w) (launch_failed x stop' c w)"
proof -
  have k: "keeps (calm x) (case w of None \<Rightarrow> skip | Some r \<Rightarrow> own_marker_cleared x r)"
    "keeps (calm x) (case c of None \<Rightarrow> skip
      | Some c \<Rightarrow> if ih_client x then change (noting (Fx_fail (cm_instanceCommandId c) ''recycle_launch_failed'')) else skip)"
    by (auto split: option.split intro: keeps_rules calm_change simp: noting_def)
  show ?thesis
    unfolding launch_failed_def
    by (intro agree_rules keeps_rules agree_refl k failure_agree) (rule calm_change, simp)+
qed

lemma launch_agree: "agree (calm x) (recycle_launch x stop c m k) (recycle_launch x stop' c m k)"
proof -
  have f: "launch_failed x stop c w t = launch_failed x stop' c w t"
    if "calm x s" "vi_committed t = vi_committed s" "vi_desired t = vi_desired s" "vi_clientCommand t = vi_clientCommand s"
      "vi_observed t = vi_observed s" "vi_lastRequestId t = vi_lastRequestId s" "vi_lastObservedAt t = vi_lastObservedAt s" for s t w
    using launch_failed_agree calm_same [OF that] by (simp add: agree_def)
  show ?thesis
    unfolding agree_def
  proof (intro allI impI)
    fix s assume c: "calm x s"
    note g = f [OF c]
    show "recycle_launch x stop c m k s = recycle_launch x stop' c m k s"
      unfolding recycle_launch_def Let_def
      by (auto simp del: steps_simps simp: g split: sum.split prod.split)
  qed
qed

lemma guarded_agree: "agree (calm x) (recycle_guarded x stop m) (recycle_guarded x stop' m)"
proof -
  have b: "agree (calm x) (recycle_begins x stop c m k) (recycle_begins x stop' c m k)" for c k
  proof -
    have "agree (calm x) (\<lambda>s. case c of
        Some j \<Rightarrow> if ih_client x then skip (waiting_for (T_recycle_started j m k) (noting (Fx_start (cm_instanceCommandId j)) s))
          else recycle_launch x stop c m k s
      | None \<Rightarrow> recycle_launch x stop c m k s) (\<lambda>s. case c of
        Some j \<Rightarrow> if ih_client x then skip (waiting_for (T_recycle_started j m k) (noting (Fx_start (cm_instanceCommandId j)) s))
          else recycle_launch x stop' c m k s
      | None \<Rightarrow> recycle_launch x stop' c m k s)"
      using launch_agree by (auto simp: agree_def split: option.split)
    then show ?thesis
      unfolding recycle_begins_def by (intro agree_rules keeps_rules agree_refl) (rule calm_change, simp add: noting_def)+
  qed
  show ?thesis
    unfolding agree_def
  proof (intro allI impI)
    fix s assume c: "calm x s"
    let ?c = "launch_command x m s"
    obtain ok s' where w: "cutoff_ensured x (if ?c = None then ''stack_recycle_launch'' else ''stack_recycle_command_launch'') ?c s = (ok, s')"
      by fastforce
    have "calm x s'" using keepsD [OF calm_ensured c] w by (metis snd_conv)
    then have "recycle_begins x stop ?c m k s' = recycle_begins x stop' ?c m k s'" for k using b by (simp add: agree_def)
    then show "recycle_guarded x stop m s = recycle_guarded x stop' m s"
      unfolding recycle_guarded_def Let_def w by (cases ok) simp_all
  qed
qed

lemma recycle_agree: "agree (calm x) (requestStackRecycle x stop) (requestStackRecycle x stop')"
  unfolding requestStackRecycle_def
proof (rule agree_detached, unfold agree_def, intro allI impI)
  fix s assume c: "calm x s"
  have g: "recycle_guarded x stop m s = recycle_guarded x stop' m s" for m using guarded_agree c by (simp add: agree_def)
  have "\<not> ds_shutdownRequested (vi_desired s)" using c by (simp add: calm_def shutdown_asked_def)
  then show "(if vi_phase s = Persisting_elapsed \<or> vi_launchInFlight s \<or> vi_launchRequested s then skip s
     else (case readRecycleMarker x s of
       Inl e \<Rightarrow> recycle_waits x ''recycle_marker_unavailable'' s
     | Inr existing \<Rightarrow>
         if isReplacementProof existing (ih_pid x) then steps [
           change (\<lambda>s. s\<lparr>vi_resetInFlight := True\<rparr>),
           scheduleStackRecycleRetry x False] s
         else if \<not> vi_committed s \<and> (suspended s \<or> 0 < viewers s) then restoreRuntimeDerivedStatus x True s
         else ask (shouldResetIntoWarmReady x) (\<lambda>b s.
           if b then recycle_guarded x stop existing s
           else if canHoldWarmReadyWithoutShutdown s then steps [
             change (\<lambda>s. s\<lparr>vi_resetInFlight := False\<rparr>),
             clearStackRecycleRetryTimer,
             restoreRuntimeDerivedStatus x True] s
           else if ds_shutdownRequested (vi_desired s) then desired_stop x stop s
           else stop_after_grace x s) s)) =
    (if vi_phase s = Persisting_elapsed \<or> vi_launchInFlight s \<or> vi_launchRequested s then skip s
     else (case readRecycleMarker x s of
       Inl e \<Rightarrow> recycle_waits x ''recycle_marker_unavailable'' s
     | Inr existing \<Rightarrow>
         if isReplacementProof existing (ih_pid x) then steps [
           change (\<lambda>s. s\<lparr>vi_resetInFlight := True\<rparr>),
           scheduleStackRecycleRetry x False] s
         else if \<not> vi_committed s \<and> (suspended s \<or> 0 < viewers s) then restoreRuntimeDerivedStatus x True s
         else ask (shouldResetIntoWarmReady x) (\<lambda>b s.
           if b then recycle_guarded x stop' existing s
           else if canHoldWarmReadyWithoutShutdown s then steps [
             change (\<lambda>s. s\<lparr>vi_resetInFlight := False\<rparr>),
             clearStackRecycleRetryTimer,
             restoreRuntimeDerivedStatus x True] s
           else if ds_shutdownRequested (vi_desired s) then desired_stop x stop' s
           else stop_after_grace x s) s))"
    by (simp del: steps_simps add: ask_def g split: sum.split option.split)
qed

lemma reset_agree: "agree (calm x) (startResetWindow x stop b) (startResetWindow x stop' b)"
  unfolding startResetWindow_def
  by (intro agree_rules keeps_rules agree_refl recycle_agree) (rule calm_change, simp)+

lemma expire_agree: "agree (calm x) (expireWarmHoldReconnectGrace x stop i) (expireWarmHoldReconnectGrace x stop' i)"
proof -
  have a: "agree (calm x) (steps [clearTransientStatusHeartbeat, passive_recycle,
         (\<lambda>s. case markConnectTicketTeardownStarted x ''passive_reconnect_grace_recycle'' None None s of
            (True, s) \<Rightarrow> startResetWindow x stop True s
          | (False, s) \<Rightarrow> steps [
              publishStatus x ''resetting'' ''teardown_cutoff_persistence_failed'' False,
              startResetWindow x stop True] s)])
     (steps [clearTransientStatusHeartbeat, passive_recycle,
         (\<lambda>s. case markConnectTicketTeardownStarted x ''passive_reconnect_grace_recycle'' None None s of
            (True, s) \<Rightarrow> startResetWindow x stop' True s
          | (False, s) \<Rightarrow> steps [
              publishStatus x ''resetting'' ''teardown_cutoff_persistence_failed'' False,
              startResetWindow x stop' True] s)])"
    by (intro agree_rules keeps_rules agree_refl agree_decide reset_agree)
  show ?thesis
    using a reset_agree
    by (simp del: steps_simps add: agree_def expireWarmHoldReconnectGrace_def calm_def ask_def split: option.split)
qed

lemma arm_agree: "agree (calm x) f f' \<Longrightarrow> agree (calm x) (arm_grace x w d b i f) (arm_grace x w d b i f')"
  unfolding arm_grace_def by (intro agree_rules keeps_rules keeps_If agree_refl)

lemma warm_agree: "agree (calm x) (scheduleWarmHoldReconnectGrace x stop d l i) (scheduleWarmHoldReconnectGrace x stop' d l i)"
proof -
  have "agree (calm x) (\<lambda>s. arm_grace x True d (starts_window l s) i (expireWarmHoldReconnectGrace x stop i) s)
     (\<lambda>s. arm_grace x True d (starts_window l s) i (expireWarmHoldReconnectGrace x stop' i) s)"
    using arm_agree [OF expire_agree] by (simp add: agree_def)
  then show ?thesis
    unfolding scheduleWarmHoldReconnectGrace_def by (intro agree_rules keeps_rules agree_refl)
qed

section \<open>The request of a stop\<close>

lemma stop_guarded_same:
  assumes "agree (calm x) warm warm'"
  shows "stop_guarded x warm b r a s = stop_guarded x warm' b r a s"
proof -
  have w: "(\<lambda>u. if vi_hasSeenViewer u then warm u else restoreRuntimeDerivedStatus x True u) (snd (clearReconnectGraceWindow x t))
      = (\<lambda>u. if vi_hasSeenViewer u then warm' u else restoreRuntimeDerivedStatus x True u) (snd (clearReconnectGraceWindow x t))"
    if "\<not> vi_committed t" "shouldSuppressNoViewerIdleAutomation x t = Some True" for t
  proof -
    have "calm x t"
      using that by (auto simp: calm_def shutdown_asked_def shouldSuppressNoViewerIdleAutomation_def canHoldWarmReadyWithoutShutdown_def
          split: if_splits)
    then have "calm x (snd (clearReconnectGraceWindow x t))" by (rule keepsD [OF calm_quiet(2)])
    with assms show ?thesis by (simp add: agree_def)
  qed
  have c: "clearReconnectGraceWindow x t = (True, snd (clearReconnectGraceWindow x t))" for t
    by (simp add: clearReconnectGraceWindow_def)
  have same: "steps [clearReconnectGraceWindow x, (\<lambda>u. if vi_hasSeenViewer u then warm u else restoreRuntimeDerivedStatus x True u), refused] t
      = steps [clearReconnectGraceWindow x, (\<lambda>u. if vi_hasSeenViewer u then warm' u else restoreRuntimeDerivedStatus x True u), refused] t"
    if "\<not> vi_committed t" "shouldSuppressNoViewerIdleAutomation x t = Some True" for t
    using w [OF that] by (simp add: andThen_True [OF c] andThen_def)
  have "(if vi_committed t then stop_begins x b r a t
          else if suspended t then steps [clearReconnectGraceWindow x, refused] t
          else if 0 < viewers t then steps [clearReconnectGraceWindow x, restoreRuntimeDerivedStatus x True, refused] t
          else ask (shouldSuppressNoViewerIdleAutomation x) (\<lambda>d s.
            if \<not> d then stop_begins x b r a s
            else steps [clearReconnectGraceWindow x,
              (\<lambda>s. if vi_hasSeenViewer s then warm s else restoreRuntimeDerivedStatus x True s), refused] s) t)
     = (if vi_committed t then stop_begins x b r a t
          else if suspended t then steps [clearReconnectGraceWindow x, refused] t
          else if 0 < viewers t then steps [clearReconnectGraceWindow x, restoreRuntimeDerivedStatus x True, refused] t
          else ask (shouldSuppressNoViewerIdleAutomation x) (\<lambda>d s.
            if \<not> d then stop_begins x b r a s
            else steps [clearReconnectGraceWindow x,
              (\<lambda>s. if vi_hasSeenViewer s then warm' s else restoreRuntimeDerivedStatus x True s), refused] s) t)" for t
    using same by (auto simp del: steps_simps simp: ask_def split: option.split)
  then show ?thesis
    by (simp only: stop_guarded_def)
qed

lemma stop_request_same:
  assumes "agree (calm x) warm warm'"
  shows "stop_request x warm b r a = stop_request x warm' b r a"
proof -
  have "stop_guarded x warm b r a = stop_guarded x warm' b r a" by (rule ext) (rule stop_guarded_same [OF assms])
  then show ?thesis by (simp only: stop_request_def)
qed

lemma requestStop_fuel: "requestStop (Suc n) x b r a = requestStop 1 x b r a"
proof -
  have "stop_request x (scheduleWarmHoldReconnectGrace x (requestStop n x) (ic_graceMs x) True None) b r a
      = stop_request x (scheduleWarmHoldReconnectGrace x (requestStop 0 x) (ic_graceMs x) True None) b r a"
    by (rule stop_request_same) (rule warm_agree)
  then show ?thesis by simp
qed

end
