(* ===== verification/Viewer_Idle_Results.thy ===== *)
theory Viewer_Idle_Results
  imports Viewer_Idle_Gate Viewer_Idle_Fuel
begin

text \<open>
  The properties of \<open>viewer-idle-stop.ts\<close>, for every run from its start: any events in any order, any
  outcomes of writes, launches and calls. \<open>Viewer_Idle_Examples\<close> has a run of each.
\<close>

section \<open>Cutoffs before destruction\<close>

text \<open>
  C2: No stop and no recycle begins before a cutoff of the ticket gate is durable, and a cutoff of an
  earlier reconnect window, or of before a recovery, does not count; every stop that is called and every
  recycle that is launched belongs to one that began.
\<close>

theorem destruction_is_fenced:
  assumes "idle_started x players desired file g c now = Some s" "vi_log (idle_run es s) = p @ e # q"
  shows "(destructive e \<longrightarrow> (\<exists>p1 r p2. p = p1 @ Fx_cutoff r # p2 \<and> Fx_rearmed \<notin> set p2))
    \<and> (is_stop e \<longrightarrow> counts is_stop p < counts is_stop_begins p)
    \<and> (is_spawn e \<longrightarrow> counts is_spawn p < counts (\<lambda>e. e = Fx_recycle_begins) p)"
proof -
  have "entry_ok p e" using assms by (rule idle_run_entry)
  then show ?thesis by (cases e) (simp_all add: destructive_def in_force_iff)
qed

section \<open>Commitment\<close>

text \<open>
  C6: A teardown is committed in two ways only. Either the evidence of the elapsed window has just been
  recorded durably and a cutoff of the ticket gate is durable; or the agent's client, if there is one, gave
  notice of a pending recovery: a teardown that was committed before a restart of the process.
\<close>

theorem commitment_is_earned:
  assumes "idle_started x players desired file g c now = Some s"
  shows "(vi_committed (idle_run es s)
      \<longleftrightarrow> Fx_committed \<in> set (vi_log (idle_run es s)) \<or> Fx_recovered \<in> set (vi_log (idle_run es s)))
    \<and> (\<forall>p q. vi_log (idle_run es s) = p @ Fx_committed # q \<longrightarrow>
        (\<exists>p1 r p2. p = p1 @ Fx_cutoff r # p2 \<and> Fx_rearmed \<notin> set p2)
        \<and> (\<exists>p0 ev i a b. p = p0 @ [Fx_evidence ev i a b] \<or> (\<exists>r. p = p0 @ [Fx_evidence ev i a b, Fx_cutoff r])))
    \<and> (Fx_recovered \<in> set (vi_log (idle_run es s)) \<longrightarrow> (\<exists>y. (y, Ev_recovery True) \<in> set es \<and> ih_client y))"
proof (intro conjI allI impI)
  show "vi_committed (idle_run es s)
      \<longleftrightarrow> Fx_committed \<in> set (vi_log (idle_run es s)) \<or> Fx_recovered \<in> set (vi_log (idle_run es s))"
    using idle_inv_run [OF assms, of es] by (simp add: idle_inv_def was_committed_def)
  fix p q assume "vi_log (idle_run es s) = p @ Fx_committed # q"
  then have "entry_ok p Fx_committed" by (rule idle_run_entry [OF assms])
  then show "\<exists>p1 r p2. p = p1 @ Fx_cutoff r # p2 \<and> Fx_rearmed \<notin> set p2"
    "\<exists>p0 ev i a b. p = p0 @ [Fx_evidence ev i a b] \<or> (\<exists>r. p = p0 @ [Fx_evidence ev i a b, Fx_cutoff r])"
    by (simp_all add: earned_def in_force_iff)
next
  assume "Fx_recovered \<in> set (vi_log (idle_run es s))"
  then show "\<exists>y. (y, Ev_recovery True) \<in> set es \<and> ih_client y"
    using unheard_run [OF assms, of es] by (auto simp: unheard_def)
qed

lemma no_restoration_after:
  assumes "log_ok (l @ q)" "was_committed l"
  shows "Fx_restored b \<notin> set q"
proof
  assume "Fx_restored b \<in> set q"
  then obtain a z where "q = a @ Fx_restored b # z" by (meson split_list)
  then have "l @ q = (l @ a) @ Fx_restored b # z" by simp
  from log_ok_entry [OF assms(1) this] have "entry_ok (l @ a) (Fx_restored b)" .
  with assms(2) show False by (auto simp: was_committed_def)
qed

text \<open>
  C7: A committed teardown is final: whatever happens, it stays committed, Ready is never restored, and
  every viewer that is added is disconnected at once and nothing else.
\<close>

theorem commitment_is_final:
  assumes "idle_started x players desired file g c now = Some s" "vi_committed (idle_run es s)"
    "t = idle_run fs (idle_run es s)"
  shows "vi_committed t
    \<and> (\<exists>q. vi_log t = vi_log (idle_run es s) @ q \<and> (\<forall>b. Fx_restored b \<notin> set q))
    \<and> vi_log (snd (idle_handle y (Ev_added viewer v) t))
        = vi_log t @ [Fx_disconnect viewer ''Connect ticket rejected: reconnect grace has elapsed'']"
proof -
  have inv: "idle_inv 0 0 (idle_run es s)" "idle_inv 0 0 t"
    using idle_inv_run [OF assms(1), of es] idle_inv_run [OF assms(1), of "es @ fs"] by (simp_all add: assms(3))
  have "grows (vi_log (idle_run es s)) (vi_committed (idle_run es s)) t" unfolding assms(3) by (rule grows_run)
  then obtain q where c: "vi_committed t" and q: "vi_log t = vi_log (idle_run es s) @ q"
    using assms(2) by (auto simp: grows_def)
  have "was_committed (vi_log (idle_run es s))" using inv(1) assms(2) by (simp add: idle_inv_def)
  moreover have "log_ok (vi_log (idle_run es s) @ q)" using inv(2) q by (simp add: idle_inv_def)
  ultimately have "\<forall>b. Fx_restored b \<notin> set q" using no_restoration_after by blast
  moreover have "vi_log (snd (idle_handle y (Ev_added viewer v) t))
      = vi_log t @ [Fx_disconnect viewer ''Connect ticket rejected: reconnect grace has elapsed'']"
    unfolding late_viewer [OF c] by (simp add: noting_def viewer_set_def)
  ultimately show ?thesis using c q by blast
qed

section \<open>Stops\<close>

text \<open>
  C21: At most one stop is under way: the flag says exactly whether one of the functions of a stop is
  waiting for an answer.
\<close>

theorem one_stop_at_a_time:
  assumes "idle_started x players desired file g c now = Some s"
  shows "length (filter stop_task (vi_tasks (idle_run es s))) = (if vi_stopInFlight (idle_run es s) then 1 else 0)"
  using idle_inv_run [OF assms, of es] by (simp add: idle_inv_def pending_def)

text \<open>
  C14: In no handler does a stop or a recycle begin while a viewer is connected or maintenance is on or
  unknown, unless a commercial teardown is committed.
\<close>

theorem destruction_without_viewers:
  assumes "f \<in> set (drop (length (vi_log s)) (vi_log (snd (idle_handle x e s))))" "destructive f"
  shows "vi_committed (snd (idle_handle x e s))
    \<or> (viewers (snd (idle_handle x e s)) = 0 \<and> \<not> suspended (snd (idle_handle x e s)))"
proof -
  have start: "near (length (vi_log s)) (vi_players t) (vi_maintenance t) (vi_maintenanceInitialized t) t"
    if "vi_log t = vi_log s" for t
    using that by (simp add: near_def)
  have goal: ?thesis if "near (length (vi_log s)) ps m b (snd (idle_handle x e s))" for ps m b
    using that assms by (auto simp: near_def may_destroy_def)
  note kept = nearby.keptD
  show ?thesis
  proof (cases "(\<exists>p v. e = Ev_added p v) \<or> (\<exists>p v. e = Ev_viewer p v) \<or> (\<exists>p. e = Ev_removed p) \<or> (\<exists>out. e = Ev_resume T_maintenance out)
      \<or> (\<exists>op. e = Ev_gate op)")
    case False
    show ?thesis
      by (rule goal, rule nearby.idle_handle_kept [OF start [OF refl]]) (use False in auto)
  next
    case True
    then consider (added) p v where "e = Ev_added p v" | (plain) "vi_log (snd (idle_handle x e s)) = vi_log s"
      | (removed) p where "e = Ev_removed p" "map_get (vi_players s) p \<noteq> None"
      | (maintenance) out where "e = Ev_resume T_maintenance out" "T_maintenance \<in> set (vi_tasks s)"
    proof (elim disjE exE)
      fix p v assume "e = Ev_viewer p v"
      then show thesis by (intro that(2)) (simp add: idle_handle_def viewer_set_def)
    next
      fix p assume e: "e = Ev_removed p"
      then show thesis by (cases "map_get (vi_players s) p = None") (auto simp: idle_handle_def intro: that(2,3))
    next
      fix out assume e: "e = Ev_resume T_maintenance out"
      then show thesis by (cases "T_maintenance \<in> set (vi_tasks s)") (auto simp: idle_handle_def intro: that(2,4))
    next
      fix op assume "e = Ev_gate op"
      then show thesis by (intro that(2)) (simp add: idle_handle_def)
    qed (rule that(1))
    then show ?thesis
    proof cases
      case (added p v)
      have "near (length (vi_log s)) (vi_players (viewer_set p v s)) (vi_maintenance (viewer_set p v s))
          (vi_maintenanceInitialized (viewer_set p v s)) (snd (onViewerAdded x p (viewer_set p v s)))"
        by (rule kept [OF nearby.added_kept start]) (simp add: viewer_set_def)
      with goal show ?thesis by (simp add: added idle_handle_def)
    next
      case plain
      with assms(1) show ?thesis by simp
    next
      case (removed p)
      let ?t = "snd (onViewerRemoved x p s)"
      have n: "near (length (vi_log s)) (vi_players s) (vi_maintenance s) (vi_maintenanceInitialized s) ?t"
        by (rule kept [OF nearby.removed_kept start [OF refl]])
      have e: "snd (idle_handle x e s) = ?t\<lparr>vi_players := map_delete p (vi_players ?t)\<rparr>"
        using removed(2) by (auto simp: removed(1) idle_handle_def finishing_def split: prod.split)
      have "may_destroy ?t" using n assms by (auto simp: near_def e)
      then show ?thesis
        by (auto simp: e may_destroy_def viewers_def suspended_def isMaintenanceActive_def map_delete_def)
    next
      case (maintenance out)
      have p: "\<exists>ps m b. near (length (vi_log s)) ps m b (snd (maintenance_read x out t))" if "vi_log t = vi_log s" for t
      proof (cases out)
        case (Inl err)
        show ?thesis by (intro exI, rule near_fields [OF start [OF that]]) (simp_all add: Inl maintenance_read_def detached_def finishing_def)
      next
        case (Inr v)
        let ?u = "t\<lparr>vi_maintenanceInitialized := True, vi_maintenance := Option.bind v normalizeMaintenanceMode\<rparr>"
        have u: "near (length (vi_log s)) (vi_players ?u) (vi_maintenance ?u) (vi_maintenanceInitialized ?u) ?u"
          using that by (intro start) simp
        have k: "near (length (vi_log s)) (vi_players ?u) (vi_maintenance ?u) (vi_maintenanceInitialized ?u) (snd (timers_reevaluated x ?u))"
          "near (length (vi_log s)) (vi_players ?u) (vi_maintenance ?u) (vi_maintenanceInitialized ?u) (snd (clearAllIdleStopTimers x ?u))"
          by (rule kept [OF nearby.reevaluated_kept(2) u], rule kept [OF nearby.clearAll_kept u])
        let ?w = "if Option.bind v normalizeMaintenanceMode \<noteq> None
          then (if Option.bind v normalizeMaintenanceMode \<noteq> vi_maintenance t then snd (clearAllIdleStopTimers x ?u) else ?u)
          else snd (timers_reevaluated x ?u)"
        have w: "near (length (vi_log s)) (vi_players ?u) (vi_maintenance ?u) (vi_maintenanceInitialized ?u) ?w"
          by (split if_split, intro conjI impI) (split if_split, intro conjI impI, rule k, rule u, rule k)
        have "snd (maintenance_read x out t) = ?w\<lparr>vi_maintenanceInFlight := False\<rparr>"
          by (auto simp: Inr maintenance_read_def detached_def finishing_def Let_def split: prod.split)
        then show ?thesis by (intro exI, simp only:) (rule near_fields [OF w]; simp)
      qed
      obtain ps m b where "near (length (vi_log s)) ps m b (snd (maintenance_read x out (taken T_maintenance s)))"
        using p [of "taken T_maintenance s"] by (auto simp: taken_def)
      then show ?thesis by (intro goal) (simp add: maintenance idle_handle_def resumed_def taken_def)
    qed
  qed
qed

text \<open>
  C33: The request of a stop always ends: the only call that could lead back to it, over the reconnect
  window of a warm instance, never does, so that one unit of fuel gives the same as any more.
\<close>

theorem requestStop_ends:
  "requestStop (Suc n) x resume reason artifact s = requestStop 1 x resume reason artifact s"
  by (simp only: requestStop_fuel)

section \<open>The ticket gate\<close>

lemma latch_run:
  assumes "gate_env g" "latch_inv b l g s"
    "\<forall>(y, e) \<in> set es. gate_call_ok g y \<and> (\<forall>op. e = Ev_gate op \<longrightarrow> only_own b g op)"
  shows "latch_inv b l g (idle_run es s)"
proof (rule idle_run_kept)
  show "latch_inv b l g (snd (idle_handle y e u))" if "(y, e) \<in> set es" "latch_inv b l g u" for y e u
    by (rule idle_system.handled [OF latch_system [OF assms(1)]]) (use that assms(3) in auto)
qed (rule assms(2))

lemma cut_since_rearmed:
  assumes "idle_started x players desired file g c now = Some s" "vi_log (idle_run es s) = l @ (a @ Fx_rearmed # b) @ f # d" "destructive f"
  shows "cut_off b"
proof -
  from assms(2) have "vi_log (idle_run es s) = (l @ a @ Fx_rearmed # b) @ f # d" by simp
  then have "entry_ok (l @ a @ Fx_rearmed # b) f" by (rule idle_run_entry [OF assms(1)])
  with assms(3) have "in_force (l @ a @ Fx_rearmed # b)" by (cases f) (simp_all add: destructive_def)
  then obtain p r q where e: "l @ a @ Fx_rearmed # b = p @ Fx_cutoff r # q" "Fx_rearmed \<notin> set q" by (auto simp: in_force_iff)
  then have "(l @ a) @ Fx_rearmed # b = p @ Fx_cutoff r # q" by simp
  then obtain z where "b = z @ Fx_cutoff r # q"
    using e(2) by (auto simp: append_eq_append_conv2 append_eq_Cons_conv Cons_eq_append_conv)
  then show ?thesis by (auto simp: cut_off_def)
qed

text \<open>
  C5: A cutoff that the idle automation writes closes the ticket gate: from then on no ticket is accepted
  as long as nobody attempts to complete a recovery, whatever else happens to the automation and the gate.
  In \<open>es1\<close> recoveries may have been completed any number of times; in \<open>es2\<close> none is attempted. So the gate
  is closed once a cutoff was written in \<open>es2\<close>; once a stop or a recycle began in \<open>es2\<close> after a reconnect
  window was opened (or a recovery was heard) in it, since the cutoff that every stop and recycle has
  before it begins is then one of \<open>es2\<close>; and once a stop or a recycle began, when \<open>es1\<close> is empty. A stop that
  begins on the strength of a cutoff from before a completed recovery is not among these.
\<close>

theorem cutoff_closes_gate:
  assumes env: "gate_env g" and own: "own g t" and start: "idle_started x players desired file (Some t) c now = Some s" "gate_call_ok g x"
    and es: "\<forall>(y, e) \<in> set es1. gate_call_ok g y \<and> (\<forall>op. e = Ev_gate op \<longrightarrow> op_ok g op)"
      "\<forall>(y, e) \<in> set es2. gate_call_ok g y \<and> (\<forall>op. e = Ev_gate op \<longrightarrow> no_completion g op)"
    and q: "vi_log (idle_run (es1 @ es2) s) = vi_log (idle_run es1 s) @ q"
      "(\<exists>r. Fx_cutoff r \<in> set q) \<or> (\<exists>a b f d. q = a @ Fx_rearmed # b @ f # d \<and> destructive f)
       \<or> (\<exists>f. f \<in> set (vi_log (idle_run (es1 @ es2) s)) \<and> destructive f \<and> es1 = [])"
    and t': "vi_ticketGate (idle_run (es1 @ es2) s) = Some t'"
  shows "fst (rejectReasonForTicket g journal intended k t') \<noteq> None"
proof -
  from start(1) obtain s0 where s0: "new_idle x players desired file (Some t) c = Some s0" "s = snd (wired x now s0)"
    by (auto simp: idle_started_def)
  have s0': "vi_ticketGate s0 = Some t" "vi_log s0 = []"
    using s0(1) by (auto simp: new_idle_def token_at_startup_def Let_def idle_vars_def split: sum.splits)
  have first: "latch_inv b [] g s" for b
    unfolding s0(2) by (rule idle_system.started [OF latch_system [OF env start(2)]]) (use own s0' in \<open>simp add: latch_inv_def\<close>)
  have "latch_inv False [] g (idle_run es1 s)" by (rule latch_run [OF env first]) (use es(1) in \<open>auto simp: only_own_def\<close>)
  then have "latch_inv True (vi_log (idle_run es1 s)) g (idle_run es1 s)" by (simp add: latch_inv_def)
  then have l: "latch_inv True (vi_log (idle_run es1 s)) g (idle_run (es1 @ es2) s)"
    unfolding idle_run_simps by (rule latch_run [OF env]) (use es(2) in \<open>auto simp: only_own_def no_completion_def\<close>)
  have since: "cut_off q" if "q = a @ Fx_rearmed # b @ f # d" "destructive f" for a b f d
  proof -
    have "vi_log (idle_run (es1 @ es2) s) = vi_log (idle_run es1 s) @ (a @ Fx_rearmed # b) @ f # d" using q(1) by (simp add: that(1))
    from cut_since_rearmed [OF start(1) this that(2)] show ?thesis by (auto simp: cut_off_def that(1))
  qed
  from q(2) consider "cut_off q" | f where "f \<in> set (vi_log (idle_run es2 s))" "destructive f" "es1 = []"
  proof (elim disjE exE conjE)
    fix r assume "Fx_cutoff r \<in> set q"
    then show thesis by (intro that(1)) (auto simp: cut_off_def)
  next
    fix a b f d assume "q = a @ Fx_rearmed # b @ f # d" "destructive f"
    then show thesis by (intro that(1) since)
  next
    fix f assume "f \<in> set (vi_log (idle_run (es1 @ es2) s))" "destructive f" "es1 = []"
    then show thesis by (intro that(2) [of f]) simp_all
  qed
  then have "latched g t' \<and> own g t'"
  proof cases
    case 1
    with l q(1) t' show ?thesis by (auto simp: latch_inv_def)
  next
    case 2
    obtain p d where e: "vi_log (idle_run es2 s) = p @ f # d" using 2(1) by (meson split_list)
    then have "entry_ok p f" by (rule idle_run_entry [OF start(1)])
    with 2(2) have "in_force p" by (cases f) (simp_all add: destructive_def)
    then have "cut_off (vi_log (idle_run es2 s))" by (auto simp: in_force_iff cut_off_def e)
    moreover have "latch_inv True [] g (idle_run es2 s)"
      by (rule latch_run [OF env first]) (use es(2) in \<open>auto simp: only_own_def no_completion_def\<close>)
    ultimately show ?thesis using t' 2(3) by (auto simp: latch_inv_def)
  qed
  then show ?thesis using accept_iff [OF env, of t' journal intended k] by (auto simp: latched_def)
qed

end
