(* ===== verification/Viewer_Idle_Examples.thy ===== *)
theory Viewer_Idle_Examples
  imports Viewer_Idle_Results
begin

text \<open>
  A run of the automation: a viewer of a managed session comes and goes, its reconnect window ends, the
  evidence and the cutoff are written, and the stop of the instance begins.
\<close>

definition demo_idle_call :: idle_call where
  "demo_idle_call = \<lparr>ic_enabled = True, ic_graceMs = 1000, ic_firstViewerGraceMs = 0, ic_firstViewerDelayMs = 0, ic_stopRetryMs = 60000,
     ic_idleStatusHeartbeatMs = 0, ic_resetGraceMs = 0, ic_maintenanceRefreshMs = 0, ic_desiredStateRefreshMs = 0, ic_logTimeoutMs = 0,
     ic_screenshotTimeoutMs = 0, ic_dryRun = False, ic_maintenanceTagKey = [], ic_desiredStatePath = [], ih_gate = demo_gc,
     ih_iso = demo_print, ih_uuid = show_nat, ih_pid = 1, ih_client = True, ih_publisher = False, ih_controller = False,
     oc_now = 15000, oc_mark = (\<lambda>_. durable), oc_evidence = True, oc_write = Not_renamed, oc_unlink = Not_unlinked,
     oc_scripts = False, oc_spawn = False\<rparr>"

definition demo_desired :: desired_state where
  "demo_desired = \<lparr>ds_warmHoldEnabled = False, ds_drainEnabled = False, ds_shutdownRequested = False, ds_recycleRequestedToken = None,
     ds_policyVersion = ''default'', ds_message = None, ds_updatedAtUtc = None, ds_receivedAtUtc = None\<rparr>"

definition demo_viewer :: viewer where
  "demo_viewer = \<lparr>vw_sessionId = None, vw_sessionRequestId = Some ''r'', vw_identityValidated = True, vw_activeValidated = False,
     vw_negotiationPending = False\<rparr>"

definition demo_idle :: idle where
  "demo_idle = (idle_vars demo_idle_call [] demo_desired Missing (Some demo_gate) None None)\<lparr>vi_maintenanceInitialized := True\<rparr>"

abbreviation demo_leave :: "(idle_call \<times> idle_event) list" where
  "demo_leave \<equiv> [(demo_idle_call, Ev_added ''p'' demo_viewer), (demo_idle_call, Ev_removed ''p'')]"

lemma demo_texts [simp]: "opt_text_of (Some ''p'') = Some ''p''" "opt_text_of (Some ''r'') = Some ''r''" "opt_text_of None = None"
  by (simp_all add: opt_text_of_def normalizeOptionalText.simps trim_def trim_start_def trim_end_def is_ws_def)

definition demo_after :: "teardown_options \<Rightarrow> gate" where
  "demo_after opts = snd (markTeardownStarted demo_gc opts 15 durable demo_gate)"

lemma demo_cut_off: "markTeardownStarted demo_gc opts 15 durable demo_gate = (True, demo_after opts)"
  using durable_teardown [OF demo_env demo_own(1) demo_time demo_own(2), of 15 opts] by (simp add: demo_after_def)

lemma demo_started: "idle_started demo_idle_call [] demo_desired Missing (Some demo_gate) None demo_desired = Some demo_idle"
  by (simp add: idle_started_def new_idle_def readMarker_def token_at_startup_def idle_vars_def demo_desired_def demo_idle_def
      demo_idle_call_def recycleTokenStatus_def token_asked_def isReplacementProof_def wired_def resume_all_def tryResumeActiveRecycleCommand_def
      getActiveRecycleCommand_def readActiveCommand_def or_else_def tryResumeActiveShutdownCommand_def getActiveShutdownCommand_def
      tryResumeDesiredStateShutdown_def ensureFirstViewerWindow_def suspended_def isMaintenanceActive_def ask_def
      shouldSuppressNoViewerIdleAutomation_def canHoldWarmReadyWithoutShutdown_def clearFirstViewerTimer_def andThen_def viewers_def
      opt_str.simps)

lemmas demo_steps = idle_handle_def viewer_set_def onViewerAdded_def isCommercialReconnectDeadlineLocked_def deadline_passed_def managed_window_def
  readValidatedManagedSessionViewerIdentity_def conflicting_request_def markManagedSessionViewer_def viewer_welcome_def
  failSupersededActiveCommand_def readActiveCommand_def or_else_def clearRecycleExitFallbackTimer_def clearZeroTimer_def
  clearFirstViewerTimer_def clearTransientStatusHeartbeat_def clearReconnectGraceTimer_def clearResetTimer_def
  clearReconnectGraceWindow_def restoreRuntimeDerivedStatus_def finishing_def onViewerRemoved_def countManagedSessionViewers_def
  handleZeroViewersAfterRemoval_def suspended_def isMaintenanceActive_def ask_def shouldResetIntoWarmReady_def hasRecycleIntent_def
  hasExplicitRecycleIntent_def getActiveRecycleCommand_def hasImmediateRecycleRequest_def hasPendingImmediateRecycle_def
  hasPassiveReconnectRecycleRequest_def getActiveShutdownCommand_def shouldSuppressNoViewerIdleAutomation_def
  canHoldWarmReadyWithoutShutdown_def scheduleStop_def arm_stop_def publishStatus_def startTransientStatusHeartbeat_def
  startReconnectGraceWindow_def rearmed_def noting_def map_get_def map_delete_def viewers_def andThen_def

definition demo_identity :: identity where
  "demo_identity = \<lparr>mi_sessionRequestId = ''r'', mi_activeSessionId = None\<rparr>"

definition demo_window :: grace_window where
  "demo_window = \<lparr>gw_disconnectedAt = 15000, gw_expiresAt = 16000, gw_identity = Some demo_identity, gw_evidenceId = show_nat 0\<rparr>"

lemma demo_left:
  "idle_run demo_leave demo_idle = demo_idle\<lparr>vi_zeroViewersTimer := Some \<lparr>st_reason = ''grace-after-last-viewer'',
       st_artifact = Some ''r'', st_window = True, st_identity = Some demo_identity\<rparr>,
     vi_phase := Waiting, vi_window := Some demo_window, vi_hasSeenViewer := True, vi_hasSeenManaged := True,
     vi_lastRequestId := Some ''r'', vi_lastObservedAt := Some 15000, vi_uuids := 1,
     vi_log := [Fx_rearmed, Fx_window (Some (15000, 16000))]\<rparr>"
  by (simp add: demo_steps demo_idle_def demo_idle_call_def demo_desired_def demo_viewer_def idle_vars_def Let_def demo_identity_def demo_window_def)

abbreviation demo_events :: "(idle_call \<times> idle_event) list" where
  "demo_events \<equiv> demo_leave @ [(demo_idle_call, Ev_zero_timer)]"

lemmas demo_stop_steps = zero_timer_fires_def hasViewerThatCancelsReconnectGrace_def continueAfterReconnectGraceEvidenceIsDurable_def
  makeCommercialReconnectDeadlineDurable_def markReconnectGraceWindowElapsed_def cutoff_written_def window_cutoff_def
  teardown_committed_def run_continuation_def request_stop_def promised_def stop_request_def cutoff_ensured_def stop_guarded_def
  stop_clears_def stop_begins_def stop_captures_def captureShutdownSessionArtifacts_def waiting_for_def
  resolveShutdownArtifactSessionRequestId_def

definition demo_end :: idle where
  "demo_end = idle_run demo_events demo_idle"

lemma demo_ended:
  "demo_end = demo_idle\<lparr>vi_committed := True, vi_cutoffDurable := True, vi_stopInFlight := True, vi_hasSeenViewer := True,
     vi_hasSeenManaged := True, vi_lastRequestId := Some ''r'', vi_lastObservedAt := Some 15000,
     vi_ticketGate := Some (demo_after (window_cutoff demo_idle_call demo_window)),
     vi_tasks := [T_stop_captured False ''grace-after-last-viewer''], vi_calls := 1, vi_uuids := 1,
     vi_log := [Fx_rearmed, Fx_window (Some (15000, 16000)), Fx_evidence (show_nat 0) demo_identity 15000 16000,
       Fx_cutoff ''reconnect_grace_elapsed'', Fx_committed, Fx_window None, Fx_stop_begins ''grace-after-last-viewer'',
       Fx_capture ''shutdown_requested'' None (Some ''r'') False]\<rparr>"
  unfolding demo_end_def idle_run_simps(3) [of demo_leave] demo_left
  by (simp add: demo_steps demo_stop_steps demo_idle_def demo_idle_call_def demo_desired_def idle_vars_def Let_def
      demo_identity_def demo_window_def demo_cut_off)

lemma demo_log:
  "vi_log demo_end = [Fx_rearmed, Fx_window (Some (15000, 16000)), Fx_evidence (show_nat 0) demo_identity 15000 16000,
       Fx_cutoff ''reconnect_grace_elapsed'', Fx_committed, Fx_window None] @ Fx_stop_begins ''grace-after-last-viewer''
       # [Fx_capture ''shutdown_requested'' None (Some ''r'') False]"
  "vi_log demo_end = [Fx_rearmed, Fx_window (Some (15000, 16000)), Fx_evidence (show_nat 0) demo_identity 15000 16000,
       Fx_cutoff ''reconnect_grace_elapsed''] @ Fx_committed # [Fx_window None, Fx_stop_begins ''grace-after-last-viewer'',
       Fx_capture ''shutdown_requested'' None (Some ''r'') False]"
  by (simp_all add: demo_ended)

theorem destruction_is_fenced_witness:
  "\<exists>p q. vi_log demo_end = p @ Fx_stop_begins ''grace-after-last-viewer'' # q
     \<and> (\<exists>p1 r p2. p = p1 @ Fx_cutoff r # p2 \<and> Fx_rearmed \<notin> set p2)"
  using destruction_is_fenced [OF demo_started demo_log(1) [unfolded demo_end_def]] demo_log(1)
  by (fastforce simp: destructive_def)

theorem commitment_is_earned_witness:
  "vi_committed demo_end \<and> (\<exists>p0 ev i a b. [Fx_rearmed, Fx_window (Some (15000, 16000)), Fx_evidence (show_nat 0) demo_identity 15000 16000,
       Fx_cutoff ''reconnect_grace_elapsed''] = p0 @ [Fx_evidence ev i a b]
     \<or> (\<exists>r. [Fx_rearmed, Fx_window (Some (15000, 16000)), Fx_evidence (show_nat 0) demo_identity 15000 16000,
       Fx_cutoff ''reconnect_grace_elapsed''] = p0 @ [Fx_evidence ev i a b, Fx_cutoff r]))"
proof (intro conjI)
  note earned = commitment_is_earned [OF demo_started, of demo_events, folded demo_end_def]
  show "vi_committed demo_end" using earned demo_log(2) by simp
  show "\<exists>p0 ev i a b. [Fx_rearmed, Fx_window (Some (15000, 16000)), Fx_evidence (show_nat 0) demo_identity 15000 16000,
       Fx_cutoff ''reconnect_grace_elapsed''] = p0 @ [Fx_evidence ev i a b]
     \<or> (\<exists>r. [Fx_rearmed, Fx_window (Some (15000, 16000)), Fx_evidence (show_nat 0) demo_identity 15000 16000,
       Fx_cutoff ''reconnect_grace_elapsed''] = p0 @ [Fx_evidence ev i a b, Fx_cutoff r])"
    using earned demo_log(2) by blast
qed

lemma demo_committed: "vi_committed (idle_run demo_events demo_idle)"
  using demo_ended by (simp add: demo_end_def)

theorem commitment_is_final_witness:
  "vi_log (snd (idle_handle demo_idle_call (Ev_added ''late'' demo_viewer) demo_end))
     = vi_log demo_end @ [Fx_disconnect ''late'' ''Connect ticket rejected: reconnect grace has elapsed'']"
proof -
  have "demo_end = idle_run [] (idle_run demo_events demo_idle)" by (simp only: demo_end_def idle_run_simps)
  from commitment_is_final [OF demo_started demo_committed this] show ?thesis by (rule conjunct2 [OF conjunct2])
qed

theorem one_stop_at_a_time_witness: "length (filter stop_task (vi_tasks demo_end)) = 1"
  using one_stop_at_a_time [OF demo_started, of demo_events] demo_ended by (simp add: demo_end_def)

theorem destruction_without_viewers_witness:
  "vi_committed demo_end \<or> (viewers demo_end = 0 \<and> \<not> suspended demo_end)"
proof -
  have e: "demo_end = snd (idle_handle demo_idle_call Ev_zero_timer (idle_run demo_leave demo_idle))"
    by (simp add: demo_end_def)
  have "Fx_stop_begins ''grace-after-last-viewer'' \<in> set (drop (length (vi_log (idle_run demo_leave demo_idle))) (vi_log demo_end))"
    unfolding demo_left demo_log(1) by simp
  from destruction_without_viewers [OF this [unfolded e]] show ?thesis
    unfolding e [symmetric] by (simp add: destructive_def)
qed

text \<open>The same run with a completion of a recovery before the window elapses.\<close>

abbreviation demo_completion :: "(idle_call \<times> idle_event) list" where
  "demo_completion \<equiv> [(demo_idle_call, Ev_gate (Op_complete JUndef 15 durable))]"

lemma demo_recovered_gate: "snd (completeCommercialRecoveryAfterReset demo_gc JUndef 15 durable demo_gate) = demo_gate"
proof -
  have "inspectRuntimeState demo_gc (gt_file demo_gate) = State_valid (baseline demo_gc 10)" "\<not> ts_recoveryRequired (baseline demo_gc 10)"
    using demo_own(2) by (auto simp: baseline_def)
  then show ?thesis
    by (simp add: completeCommercialRecoveryAfterReset_def normalizeRecycleToken_def normalizeOptionalText.simps demo_gate_def)
qed

lemma demo_completed:
  "idle_run (demo_leave @ demo_completion) demo_idle = idle_run demo_leave demo_idle"
  "idle_run ((demo_leave @ demo_completion) @ [(demo_idle_call, Ev_zero_timer)]) demo_idle = demo_end"
proof -
  show e: "idle_run (demo_leave @ demo_completion) demo_idle = idle_run demo_leave demo_idle"
    unfolding idle_run_simps(3) [of demo_leave] demo_left
    by (simp add: idle_handle_def demo_idle_def idle_vars_def demo_recovered_gate) (simp add: demo_idle_call_def demo_recovered_gate)
  show "idle_run ((demo_leave @ demo_completion) @ [(demo_idle_call, Ev_zero_timer)]) demo_idle = demo_end"
    unfolding idle_run_simps(3) [of "demo_leave @ demo_completion"] e by (simp only: demo_end_def idle_run_simps)
qed

theorem cutoff_closes_gate_witness:
  "fst (rejectReasonForTicket demo_gc Missing Missing demo_ticket (demo_after (window_cutoff demo_idle_call demo_window))) \<noteq> None"
proof (rule cutoff_closes_gate [OF demo_env demo_own(1) demo_started])
  have ok: "gate_call_ok demo_gc demo_idle_call" "op_ok demo_gc (Op_complete JUndef 15 durable)"
    using demo_time [of 15] by (simp_all add: gate_call_ok_def demo_idle_call_def)
  show "gate_call_ok demo_gc demo_idle_call" by (rule ok)
  show "\<forall>(y, e) \<in> set (demo_leave @ demo_completion). gate_call_ok demo_gc y \<and> (\<forall>op. e = Ev_gate op \<longrightarrow> op_ok demo_gc op)"
    "\<forall>(y, e) \<in> set [(demo_idle_call, Ev_zero_timer)]. gate_call_ok demo_gc y \<and> (\<forall>op. e = Ev_gate op \<longrightarrow> no_completion demo_gc op)"
    using ok by simp_all
  let ?q = "[Fx_evidence (show_nat 0) demo_identity 15000 16000, Fx_cutoff ''reconnect_grace_elapsed'', Fx_committed, Fx_window None,
    Fx_stop_begins ''grace-after-last-viewer'', Fx_capture ''shutdown_requested'' None (Some ''r'') False]"
  show "vi_log (idle_run ((demo_leave @ demo_completion) @ [(demo_idle_call, Ev_zero_timer)]) demo_idle)
      = vi_log (idle_run (demo_leave @ demo_completion) demo_idle) @ ?q"
    unfolding demo_completed demo_left demo_log(1) by simp
  show "(\<exists>r. Fx_cutoff r \<in> set ?q) \<or> (\<exists>a b f d. ?q = a @ Fx_rearmed # b @ f # d \<and> destructive f)
      \<or> (\<exists>f. f \<in> set (vi_log (idle_run ((demo_leave @ demo_completion) @ [(demo_idle_call, Ev_zero_timer)]) demo_idle))
             \<and> destructive f \<and> demo_leave @ demo_completion = [])"
    by (intro disjI1) simp
  show "vi_ticketGate (idle_run ((demo_leave @ demo_completion) @ [(demo_idle_call, Ev_zero_timer)]) demo_idle)
      = Some (demo_after (window_cutoff demo_idle_call demo_window))"
    unfolding demo_completed demo_ended by simp
qed

end
