(* ===== verification/Negotiation_Recovery.thy ===== *)
theory Negotiation_Recovery
  imports Prelude
begin

text \<open>
  \<open>SignallingWebServer/src/negotiation-recovery.ts\<close>: how long managed viewers have waited for an answer of
  their streamer, added up over the sockets of one request. A streamer that has let a request wait for a
  minute is reported once. Streamers are objects, known by a number; the times are those of \<open>Date.now\<close>.
\<close>

section \<open>The class\<close>

record negotiation =
  ng_elapsed :: int
  ng_since :: int
  ng_lastSeen :: int
  ng_players :: "string list"
  ng_reported :: bool

type_synonym negotiations = "(nat \<times> (string \<times> negotiation) list) list"

definition forgotten :: "int \<Rightarrow> negotiation \<Rightarrow> bool" where
  "forgotten now n \<longleftrightarrow> ng_players n = [] \<and> 300000 < now - ng_lastSeen n"

definition prune :: "int \<Rightarrow> negotiations \<Rightarrow> negotiations" where
  "prune now m = filter (\<lambda>(s, rs). rs \<noteq> []) (map (\<lambda>(s, rs). (s, filter (\<lambda>(r, n). \<not> forgotten now n) rs)) m)"

definition overdue :: "int \<Rightarrow> negotiation \<Rightarrow> bool" where
  "overdue now n \<longleftrightarrow> \<not> ng_reported n \<and> ng_players n \<noteq> [] \<and> 60000 \<le> ng_elapsed n + max 0 (now - ng_since n)"

definition mark_reported :: "int \<Rightarrow> negotiation \<Rightarrow> negotiation" where
  "mark_reported now n = (if overdue now n then n\<lparr>ng_reported := True\<rparr> else n)"

text \<open>
  The first result is the list of streamers that \<open>fault\<close> is called with. Each entry is marked before the
  call, so a \<open>fault\<close> that checks again reports only what this check would have gone on to report.
\<close>

definition check_negotiations :: "int \<Rightarrow> negotiations \<Rightarrow> nat list \<times> negotiations" where
  "check_negotiations now m =
     (let m = prune now m in
      (concat (map (\<lambda>(s, rs). map (\<lambda>_. s) (filter (\<lambda>(r, n). overdue now n) rs)) m),
       map (\<lambda>(s, rs). (s, map (\<lambda>(r, n). (r, mark_reported now n)) rs)) m))"

definition waiter_joined :: "int \<Rightarrow> string \<Rightarrow> negotiation option \<Rightarrow> negotiation" where
  "waiter_joined now player n =
     (let n = (case n of Some n \<Rightarrow> n | None \<Rightarrow>
          \<lparr>ng_elapsed = 0, ng_since = now, ng_lastSeen = now, ng_players = [], ng_reported = False\<rparr>) in
      n\<lparr>ng_since := (if ng_players n = [] then now else ng_since n), ng_players := set_add player (ng_players n),
        ng_lastSeen := now\<rparr>)"

definition negotiation_started :: "int \<Rightarrow> nat \<Rightarrow> string \<Rightarrow> string \<Rightarrow> negotiations \<Rightarrow> nat list \<times> negotiations" where
  "negotiation_started now streamer request player m =
     (if request = [] \<or> player = [] then ([], m)
      else
        let m = prune now m; rs = (case map_get m streamer of Some rs \<Rightarrow> rs | None \<Rightarrow> []) in
        check_negotiations now (map_set streamer (map_set request (waiter_joined now player (map_get rs request)) rs) m))"

definition negotiation_at :: "negotiations \<Rightarrow> nat \<Rightarrow> string \<Rightarrow> negotiation option" where
  "negotiation_at m streamer request = Option.bind (map_get m streamer) (\<lambda>rs. map_get rs request)"

definition left_by :: "int \<Rightarrow> string \<Rightarrow> negotiation \<Rightarrow> negotiation" where
  "left_by now player n =
     (let ps = set_delete player (ng_players n) in
      n\<lparr>ng_players := ps, ng_elapsed := (if ps = [] then ng_elapsed n + max 0 (now - ng_since n) else ng_elapsed n),
        ng_lastSeen := now\<rparr>)"

definition negotiation_abandoned :: "int \<Rightarrow> nat \<Rightarrow> string \<Rightarrow> string \<Rightarrow> negotiations \<Rightarrow> negotiations" where
  "negotiation_abandoned now streamer request player m = (case map_get m streamer of
     None \<Rightarrow> m
   | Some rs \<Rightarrow> (case map_get rs request of
       None \<Rightarrow> m
     | Some n \<Rightarrow> if player \<in> set (ng_players n) then map_set streamer (map_set request (left_by now player n) rs) m else m))"

definition negotiation_responded :: "nat \<Rightarrow> string \<Rightarrow> negotiations \<Rightarrow> negotiations" where
  "negotiation_responded streamer request m = (case map_get m streamer of
     None \<Rightarrow> m | Some rs \<Rightarrow> map_set streamer (map_delete request rs) m)"

definition negotiation_removed :: "nat \<Rightarrow> negotiations \<Rightarrow> negotiations" where
  "negotiation_removed streamer m = map_delete streamer m"

datatype negotiation_op =
    Neg_started nat string string
  | Neg_abandoned nat string string
  | Neg_responded nat string
  | Neg_removed nat
  | Neg_check

fun negotiation_do :: "int \<Rightarrow> negotiation_op \<Rightarrow> negotiations \<Rightarrow> nat list \<times> negotiations" where
  "negotiation_do now (Neg_started s r p) m = negotiation_started now s r p m"
| "negotiation_do now (Neg_abandoned s r p) m = ([], negotiation_abandoned now s r p m)"
| "negotiation_do now (Neg_responded s r) m = ([], negotiation_responded s r m)"
| "negotiation_do now (Neg_removed s) m = ([], negotiation_removed s m)"
| "negotiation_do now Neg_check m = check_negotiations now m"

definition negotiations_after :: "(int \<times> negotiation_op) list \<Rightarrow> negotiations" where
  "negotiations_after h = fold (\<lambda>(now, op) m. snd (negotiation_do now op m)) h []"

section \<open>One request\<close>

text \<open>
  A reference: what the history says of one request alone, with the time waited added up from event to
  event, in place of two stamps.
\<close>

record waiting =
  wt_waited :: int
  wt_last :: int
  wt_seen :: int
  wt_players :: "string list"
  wt_reported :: bool

definition passed :: "int \<Rightarrow> waiting \<Rightarrow> waiting" where
  "passed now w = w\<lparr>wt_waited := wt_waited w + (if wt_players w = [] then 0 else now - wt_last w), wt_last := now\<rparr>"

definition kept_in_mind :: "int \<Rightarrow> waiting option \<Rightarrow> waiting option" where
  "kept_in_mind now w = (case w of
     None \<Rightarrow> None | Some w \<Rightarrow> if wt_players w = [] \<and> 300000 < now - wt_seen w then None else Some w)"

definition to_report :: "waiting \<Rightarrow> bool" where
  "to_report w \<longleftrightarrow> \<not> wt_reported w \<and> wt_players w \<noteq> [] \<and> 60000 \<le> wt_waited w"

definition checked :: "int \<Rightarrow> waiting option \<Rightarrow> waiting option" where
  "checked now w = map_option (\<lambda>w. if to_report w then w\<lparr>wt_reported := True\<rparr> else w) (kept_in_mind now w)"

text \<open>The request just before the check that ends an operation, if one does.\<close>

fun wait_before_check :: "nat \<Rightarrow> string \<Rightarrow> int \<Rightarrow> negotiation_op \<Rightarrow> waiting option \<Rightarrow> waiting option" where
  "wait_before_check s r now (Neg_started s' r' p) w =
     (if r' = [] \<or> p = [] then map_option (passed now) w
      else
        let v = kept_in_mind now (map_option (passed now) w) in
        if s' = s \<and> r' = r then
          (let v = (case v of Some v \<Rightarrow> v | None \<Rightarrow>
               \<lparr>wt_waited = 0, wt_last = now, wt_seen = now, wt_players = [], wt_reported = False\<rparr>) in
           Some (v\<lparr>wt_players := set_add p (wt_players v), wt_seen := now\<rparr>))
        else v)"
| "wait_before_check s r now (Neg_abandoned s' r' p) w = map_option (\<lambda>v.
     if s' = s \<and> r' = r \<and> p \<in> set (wt_players v) then v\<lparr>wt_players := set_delete p (wt_players v), wt_seen := now\<rparr> else v)
     (map_option (passed now) w)"
| "wait_before_check s r now (Neg_responded s' r') w = (if s' = s \<and> r' = r then None else map_option (passed now) w)"
| "wait_before_check s r now (Neg_removed s') w = (if s' = s then None else map_option (passed now) w)"
| "wait_before_check s r now Neg_check w = kept_in_mind now (map_option (passed now) w)"

fun checks :: "negotiation_op \<Rightarrow> bool" where
  "checks (Neg_started s r p) \<longleftrightarrow> r \<noteq> [] \<and> p \<noteq> []"
| "checks Neg_check \<longleftrightarrow> True"
| "checks _ \<longleftrightarrow> False"

definition wait_step :: "nat \<Rightarrow> string \<Rightarrow> int \<times> negotiation_op \<Rightarrow> waiting option \<Rightarrow> waiting option" where
  "wait_step s r e w = (case e of (now, op) \<Rightarrow>
     let v = wait_before_check s r now op w in if checks op then checked now v else v)"

definition waited :: "nat \<Rightarrow> string \<Rightarrow> (int \<times> negotiation_op) list \<Rightarrow> waiting option" where
  "waited s r h = fold (wait_step s r) h None"

section \<open>Equivalence\<close>

definition neg_inv :: "negotiations \<Rightarrow> bool" where
  "neg_inv m \<longleftrightarrow> map_inv m \<and> (\<forall>(s, rs) \<in> set m. map_inv rs)"

lemma map_of_filter_values:
  "distinct (map fst m) \<Longrightarrow> map_of (filter (\<lambda>(k, v). P v) m) k = (case map_of m k of None \<Rightarrow> None | Some v \<Rightarrow> if P v then Some v else None)"
proof (induction m)
  case (Cons e m)
  obtain j v where e: "e = (j, v)" by fastforce
  have "map_of m j = None" using Cons.prems e by (auto simp: map_of_eq_None_iff)
  with Cons e show ?case by (auto simp: map_of_eq_None_iff split: option.split)
qed simp

lemma map_of_map_values: "map_of (map (\<lambda>(k, v). (k, f v)) m) k = map_option f (map_of m k)"
  by (induction m) auto

lemma neg_inv_inner: "neg_inv m \<Longrightarrow> map_get m s = Some rs \<Longrightarrow> map_inv rs"
  by (auto simp: neg_inv_def map_get_def dest: map_of_SomeD)

lemma distinct_filter_keys: "distinct (map fst m) \<Longrightarrow> distinct (map fst (filter P m))"
  by (induction m) auto

lemma neg_inv_prune: "neg_inv m \<Longrightarrow> neg_inv (prune now m)"
  by (auto simp: neg_inv_def prune_def map_inv_def comp_def split_def intro!: distinct_filter_keys)

lemma at_prune:
  assumes "neg_inv m"
  shows "negotiation_at (prune now m) s r = (case negotiation_at m s r of
     None \<Rightarrow> None | Some n \<Rightarrow> if forgotten now n then None else Some n)"
proof -
  let ?f = "\<lambda>rs. filter (\<lambda>(r, n). \<not> forgotten now n) rs"
  have d: "distinct (map fst (map (\<lambda>(s, rs). (s, ?f rs)) m))"
    using assms by (simp add: neg_inv_def map_inv_def comp_def split_def)
  have "map_get (prune now m) s = (case map_get m s of None \<Rightarrow> None | Some rs \<Rightarrow> if ?f rs \<noteq> [] then Some (?f rs) else None)"
    unfolding prune_def map_get_def map_of_filter_values [OF d, where P = "\<lambda>rs. rs \<noteq> []"] map_of_map_values
    by (simp split: option.split)
  moreover have "map_get (?f rs) r = (case map_get rs r of None \<Rightarrow> None | Some n \<Rightarrow> if forgotten now n then None else Some n)"
    if "map_get m s = Some rs" for rs
    using map_of_filter_values [of rs "\<lambda>n. \<not> forgotten now n" r] neg_inv_inner [OF assms that]
    by (auto simp: map_get_def map_inv_def split: option.split)
  ultimately show ?thesis
    by (cases "map_get m s") (auto simp: negotiation_at_def split: option.splits if_splits)
qed

lemma neg_inv_check: "neg_inv m \<Longrightarrow> neg_inv (snd (check_negotiations now m))"
  using neg_inv_prune [of m now]
  by (auto simp: neg_inv_def check_negotiations_def Let_def map_inv_def comp_def split_def)

lemma at_check:
  assumes "neg_inv m"
  shows "negotiation_at (snd (check_negotiations now m)) s r = map_option (mark_reported now) (negotiation_at (prune now m) s r)"
  by (simp add: check_negotiations_def Let_def negotiation_at_def map_get_def map_of_map_values)
    (simp add: map_of_map_values split: Option.bind_split option.split)

lemma faults_iff:
  assumes "neg_inv m"
  shows "s \<in> set (fst (check_negotiations now m)) \<longleftrightarrow> (\<exists>r n. negotiation_at (prune now m) s r = Some n \<and> overdue now n)"
proof -
  have inv: "neg_inv (prune now m)" by (rule neg_inv_prune [OF assms])
  have "(\<exists>r n. negotiation_at (prune now m) s r = Some n \<and> overdue now n)
      \<longleftrightarrow> (\<exists>rs. (s, rs) \<in> set (prune now m) \<and> (\<exists>r n. (r, n) \<in> set rs \<and> overdue now n))"
    using inv by (fastforce simp: negotiation_at_def map_get_def neg_inv_def map_inv_def bind_eq_Some_conv)
  then show ?thesis by (fastforce simp: check_negotiations_def Let_def)
qed

text \<open>What the two stamps say at a time.\<close>

definition seen_at :: "int \<Rightarrow> negotiation \<Rightarrow> waiting" where
  "seen_at t n = \<lparr>wt_waited = ng_elapsed n + (if ng_players n = [] then 0 else t - ng_since n), wt_last = t, wt_seen = ng_lastSeen n,
     wt_players = ng_players n, wt_reported = ng_reported n\<rparr>"

definition stamped :: "int \<Rightarrow> negotiations \<Rightarrow> bool" where
  "stamped t m \<longleftrightarrow> neg_inv m \<and> (\<forall>s r n. negotiation_at m s r = Some n \<longrightarrow> 0 \<le> ng_elapsed n \<and> (ng_players n \<noteq> [] \<longrightarrow> ng_since n \<le> t))"

lemma seen_passed: "ng_players n \<noteq> [] \<longrightarrow> ng_since n \<le> t \<Longrightarrow> passed now (seen_at t n) = seen_at now n"
  by (simp add: passed_def seen_at_def)

lemma to_report_seen: "ng_players n \<noteq> [] \<longrightarrow> ng_since n \<le> now \<Longrightarrow> to_report (seen_at now n) \<longleftrightarrow> overdue now n"
  by (auto simp: to_report_def seen_at_def overdue_def)

lemma kept_seen:
  "neg_inv m \<Longrightarrow> kept_in_mind now (map_option (seen_at now) (negotiation_at m s r)) = map_option (seen_at now) (negotiation_at (prune now m) s r)"
  by (auto simp: at_prune kept_in_mind_def seen_at_def forgotten_def split: option.split)

lemma stamped_later: "stamped t m \<Longrightarrow> t \<le> now \<Longrightarrow> stamped now m"
  unfolding stamped_def by (meson order_trans)

lemma stamped_prune: "stamped t m \<Longrightarrow> stamped t (prune now m)"
  by (auto simp: stamped_def neg_inv_prune at_prune split: option.splits if_splits)

lemma stamped_check: "stamped now m \<Longrightarrow> stamped now (snd (check_negotiations now m))"
  using stamped_prune [of now m now]
  by (auto simp: stamped_def neg_inv_check at_check mark_reported_def)

lemma checked_seen:
  assumes "stamped now m"
  shows "checked now (map_option (seen_at now) (negotiation_at m s r)) = map_option (seen_at now) (negotiation_at (snd (check_negotiations now m)) s r)"
proof -
  have inv: "neg_inv m" using assms by (simp add: stamped_def)
  have "ng_players n \<noteq> [] \<longrightarrow> ng_since n \<le> now" if "negotiation_at (prune now m) s r = Some n" for n
    using stamped_prune [OF assms, of now] that by (auto simp: stamped_def)
  then show ?thesis
    unfolding checked_def kept_seen [OF inv] at_check [OF inv]
    by (cases "negotiation_at (prune now m) s r") (auto simp: to_report_seen mark_reported_def, auto simp: seen_at_def)
qed

lemma faults_seen:
  assumes "stamped now m"
  shows "s \<in> set (fst (check_negotiations now m)) \<longleftrightarrow> (\<exists>r w. map_option (seen_at now) (negotiation_at m s r) = Some w \<and> to_report w)"
proof -
  have inv: "neg_inv m" and since: "\<And>r n. negotiation_at m s r = Some n \<Longrightarrow> ng_players n \<noteq> [] \<longrightarrow> ng_since n \<le> now"
    using assms by (auto simp: stamped_def)
  have "(\<exists>n. negotiation_at (prune now m) s r = Some n \<and> overdue now n) \<longleftrightarrow> (\<exists>n. negotiation_at m s r = Some n \<and> overdue now n)" for r
    by (auto simp: at_prune [OF inv] forgotten_def overdue_def split: option.split)
  moreover have "(\<exists>w. map_option (seen_at now) (negotiation_at m s r) = Some w \<and> to_report w)
      \<longleftrightarrow> (\<exists>n. negotiation_at m s r = Some n \<and> overdue now n)" for r
    using since [of r] by (cases "negotiation_at m s r") (simp_all add: to_report_seen)
  ultimately show ?thesis unfolding faults_iff [OF inv] by simp
qed

lemma at_set:
  "negotiation_at (map_set s' rs m) s r = (if s = s' then map_get rs r else negotiation_at m s r)"
  by (simp add: negotiation_at_def jm.get_put)

lemma neg_inv_set: "neg_inv m \<Longrightarrow> map_inv rs \<Longrightarrow> neg_inv (map_set s rs m)"
proof -
  assume m: "neg_inv m" and rs: "map_inv rs"
  have "set (map_set s rs m) \<subseteq> insert (s, rs) (set m)" by (induction m) (fastforce split: if_splits)+
  with m rs show ?thesis using jm.inv_put [of m s rs] unfolding neg_inv_def by blast
qed

text \<open>The map just before the check of an operation.\<close>

fun before_check :: "int \<Rightarrow> negotiation_op \<Rightarrow> negotiations \<Rightarrow> negotiations" where
  "before_check now (Neg_started s r p) m =
     (if r = [] \<or> p = [] then m
      else
        let m = prune now m; rs = (case map_get m s of Some rs \<Rightarrow> rs | None \<Rightarrow> []) in
        map_set s (map_set r (waiter_joined now p (map_get rs r)) rs) m)"
| "before_check now Neg_check m = prune now m"
| "before_check now op m = snd (negotiation_do now op m)"

lemma prune_again: "prune now (prune now m) = prune now m"
  by (induction m) (auto simp: prune_def)

lemma do_before_check:
  "negotiation_do now op m = (if checks op then check_negotiations now (before_check now op m) else ([], before_check now op m))"
  by (cases op) (auto simp: negotiation_started_def check_negotiations_def prune_again Let_def)

lemma joined_seen:
  "seen_at now (waiter_joined now p n) = (let v = (case map_option (seen_at now) n of Some v \<Rightarrow> v | None \<Rightarrow>
      \<lparr>wt_waited = 0, wt_last = now, wt_seen = now, wt_players = [], wt_reported = False\<rparr>) in
    v\<lparr>wt_players := set_add p (wt_players v), wt_seen := now\<rparr>)"
  by (auto simp: waiter_joined_def seen_at_def Let_def set_add_def split: option.split)

lemma left_seen:
  assumes "p \<in> set (ng_players n)" "ng_since n \<le> now"
  shows "seen_at now (left_by now p n) = (seen_at now n)\<lparr>wt_players := set_delete p (ng_players n), wt_seen := now\<rparr>"
  using assms by (auto simp: left_by_def seen_at_def Let_def)

lemma stamped_set:
  assumes "stamped now m" "map_inv rs" "\<And>r n. map_get rs r = Some n \<Longrightarrow> 0 \<le> ng_elapsed n \<and> (ng_players n \<noteq> [] \<longrightarrow> ng_since n \<le> now)"
  shows "stamped now (map_set s rs m)"
  using assms unfolding stamped_def by (simp add: neg_inv_set at_set)

lemma stamped_inner:
  assumes "stamped now m" "map_get m s = Some rs"
  shows "map_inv rs" "map_get rs r = Some n \<Longrightarrow> 0 \<le> ng_elapsed n \<and> (ng_players n \<noteq> [] \<longrightarrow> ng_since n \<le> now)"
proof -
  show "map_inv rs" using assms neg_inv_inner by (auto simp: stamped_def)
  assume "map_get rs r = Some n"
  with assms(2) have "negotiation_at m s r = Some n" by (simp add: negotiation_at_def)
  with assms(1) show "0 \<le> ng_elapsed n \<and> (ng_players n \<noteq> [] \<longrightarrow> ng_since n \<le> now)" by (simp add: stamped_def)
qed

lemma stamped_before_check: "stamped now m \<Longrightarrow> stamped now (before_check now op m)"
proof (cases op)
  case (Neg_started s r p)
  assume st: "stamped now m"
  let ?m = "prune now m" and ?rs = "case map_get (prune now m) s of Some rs \<Rightarrow> rs | None \<Rightarrow> []"
  have m: "stamped now ?m" by (rule stamped_prune [OF st])
  have "stamped now (map_set s (map_set r (waiter_joined now p (map_get ?rs r)) ?rs) ?m)"
  proof (rule stamped_set [OF m])
    show "map_inv (map_set r (waiter_joined now p (map_get ?rs r)) ?rs)"
      using stamped_inner(1) [OF m] by (auto intro!: jm.inv_put simp del: map_set.simps split: option.split)
    show "0 \<le> ng_elapsed n \<and> (ng_players n \<noteq> [] \<longrightarrow> ng_since n \<le> now)" if "map_get (map_set r (waiter_joined now p (map_get ?rs r)) ?rs) q = Some n" for q n
      using that stamped_inner(2) [OF m] by (auto simp: jm.get_put waiter_joined_def Let_def split: if_splits option.splits)
  qed
  with st show ?thesis by (simp add: Neg_started Let_def)
next
  case (Neg_abandoned s r p)
  assume st: "stamped now m"
  show ?thesis
  proof (cases "map_get m s")
    case (Some rs)
    note i = stamped_inner [OF st Some]
    have "stamped now (map_set s (map_set r (left_by now p n) rs) m)" if n: "map_get rs r = Some n" for n
    proof (rule stamped_set [OF st])
      show "map_inv (map_set r (left_by now p n) rs)" by (rule jm.inv_put [OF i(1)])
      have "ng_players n \<noteq> []" if "set_delete p (ng_players n) \<noteq> []" using that by (auto simp: set_delete_def)
      with i(2) [OF n] have "0 \<le> ng_elapsed (left_by now p n) \<and> (ng_players (left_by now p n) \<noteq> [] \<longrightarrow> ng_since (left_by now p n) \<le> now)"
        by (auto simp: left_by_def Let_def)
      then show "0 \<le> ng_elapsed k \<and> (ng_players k \<noteq> [] \<longrightarrow> ng_since k \<le> now)" if "map_get (map_set r (left_by now p n) rs) q = Some k" for q k
        using that i(2) [of q k] by (auto simp: jm.get_put split: if_splits)
    qed
    then show ?thesis using st Some by (auto simp: Neg_abandoned negotiation_abandoned_def split: option.split)
  qed (use st in \<open>simp add: Neg_abandoned negotiation_abandoned_def\<close>)
next
  case (Neg_responded s r)
  assume st: "stamped now m"
  show ?thesis
  proof (cases "map_get m s")
    case (Some rs)
    note i = stamped_inner [OF st Some]
    have "stamped now (map_set s (map_delete r rs) m)"
      by (rule stamped_set [OF st]) (use i in \<open>auto simp: jm.inv_del jm.get_del split: if_splits\<close>)
    with Some show ?thesis by (simp add: Neg_responded negotiation_responded_def)
  qed (use st in \<open>simp add: Neg_responded negotiation_responded_def\<close>)
next
  case (Neg_removed s)
  assume st: "stamped now m"
  have "neg_inv (map_delete s m)" using st jm.inv_del [of m s] by (auto simp: stamped_def neg_inv_def map_delete_def)
  with st show ?thesis by (auto simp: Neg_removed negotiation_removed_def stamped_def negotiation_at_def jm.get_del)
next
  case Neg_check
  assume "stamped now m"
  then show ?thesis by (simp add: Neg_check stamped_prune)
qed

lemma wait_before_check_seen:
  assumes st: "stamped now m"
  shows "wait_before_check s r now op (map_option (seen_at now) (negotiation_at m s r)) = map_option (seen_at now) (negotiation_at (before_check now op m) s r)"
proof -
  have since: "ng_players n \<noteq> [] \<longrightarrow> ng_since n \<le> now" if "negotiation_at m s r = Some n" for s r n
    using st that by (auto simp: stamped_def)
  have inv: "neg_inv m" using st by (simp add: stamped_def)
  have past: "map_option (passed now) (map_option (seen_at now) (negotiation_at m s r)) = map_option (seen_at now) (negotiation_at m s r)" for s r
    using since by (cases "negotiation_at m s r") (auto simp: seen_passed)
  show ?thesis
  proof (cases op)
    case (Neg_started s' r' p)
    let ?m = "prune now m" and ?rs = "case map_get (prune now m) s' of Some rs \<Rightarrow> rs | None \<Rightarrow> []"
    have g: "map_get ?rs q = negotiation_at ?m s' q" for q by (simp add: negotiation_at_def split: option.split)
    have a: "negotiation_at (map_set s' (map_set r' (waiter_joined now p (negotiation_at ?m s' r')) ?rs) ?m) s r
        = (if s' = s \<and> r' = r then Some (waiter_joined now p (negotiation_at ?m s r)) else negotiation_at ?m s r)"
      by (simp add: at_set jm.get_put g)
    show ?thesis
    proof (cases "r' = [] \<or> p = []")
      case True
      then show ?thesis unfolding Neg_started wait_before_check.simps before_check.simps by (simp only: if_True past)
    next
      case False
      then have b: "before_check now op m = map_set s' (map_set r' (waiter_joined now p (negotiation_at ?m s' r')) ?rs) ?m"
        by (simp add: Neg_started Let_def g)
      from False show ?thesis unfolding b a
        by (simp only: Neg_started wait_before_check.simps if_False past kept_seen [OF inv])
          (simp add: joined_seen Let_def)
    qed
  next
    case (Neg_abandoned s' r' p)
    have a: "negotiation_at (negotiation_abandoned now s' r' p m) s r = map_option (\<lambda>n.
        if s' = s \<and> r' = r \<and> p \<in> set (ng_players n) then left_by now p n else n) (negotiation_at m s r)"
    proof (cases "negotiation_at m s' r'")
      case None
      then have "negotiation_abandoned now s' r' p m = m"
        by (auto simp: negotiation_abandoned_def negotiation_at_def split: option.split)
      with None show ?thesis by (cases "s' = s \<and> r' = r") (auto simp: option.map_ident)
    next
      case (Some n)
      then obtain rs where rs: "map_get m s' = Some rs" "map_get rs r' = Some n" by (auto simp: negotiation_at_def bind_eq_Some_conv)
      have other: "negotiation_at m s' q = map_get rs q" for q using rs(1) by (simp add: negotiation_at_def)
      have b: "negotiation_abandoned now s' r' p m =
          (if p \<in> set (ng_players n) then map_set s' (map_set r' (left_by now p n) rs) m else m)"
        by (simp add: negotiation_abandoned_def rs)
      show ?thesis
      proof (cases "p \<in> set (ng_players n)")
        case True
        have "negotiation_at (negotiation_abandoned now s' r' p m) s r
            = (if s = s' then if r = r' then Some (left_by now p n) else map_get rs r else negotiation_at m s r)"
          by (simp add: b True at_set jm.get_put)
        with True rs(2) other [of r] show ?thesis by (auto simp: option.map_ident)
      next
        case False
        then have "negotiation_abandoned now s' r' p m = m" by (simp add: b)
        with Some False show ?thesis by (cases "s' = s \<and> r' = r") (auto simp: option.map_ident)
      qed
    qed
    show ?thesis
    proof (cases "negotiation_at m s r")
      case (Some n)
      have l: "seen_at now (left_by now p n) = (seen_at now n)\<lparr>wt_players := set_delete p (ng_players n), wt_seen := now\<rparr>"
        if "p \<in> set (ng_players n)"
        using left_seen [OF that] since [OF Some] that by auto
      have ps: "wt_players (seen_at now n) = ng_players n" by (simp add: seen_at_def)
      show ?thesis
        unfolding Neg_abandoned before_check.simps negotiation_do.simps snd_conv a wait_before_check.simps past
        unfolding Some by (cases "s' = s \<and> r' = r \<and> p \<in> set (ng_players n)") (auto simp: l ps)
    next
      case None
      show ?thesis
        unfolding Neg_abandoned before_check.simps negotiation_do.simps snd_conv a wait_before_check.simps past
        unfolding None by simp
    qed
  next
    case (Neg_responded s' r')
    have "negotiation_at (negotiation_responded s' r' m) s r = (if s' = s \<and> r' = r then None else negotiation_at m s r)"
    proof (cases "map_get m s'")
      case (Some rs)
      then have "negotiation_at m s' q = map_get rs q" for q by (simp add: negotiation_at_def)
      with Some show ?thesis by (auto simp: negotiation_responded_def at_set jm.get_del)
    qed (auto simp: negotiation_responded_def negotiation_at_def)
    then show ?thesis by (simp add: Neg_responded past)
  next
    case (Neg_removed s')
    have "negotiation_at (negotiation_removed s' m) s r = (if s' = s then None else negotiation_at m s r)"
      by (simp add: negotiation_removed_def negotiation_at_def jm.get_del)
    then show ?thesis by (simp add: Neg_removed past)
  next
    case Neg_check
    then show ?thesis by (simp add: past kept_seen [OF inv])
  qed
qed

lemma stamped_step:
  "stamped t m \<Longrightarrow> t \<le> now \<Longrightarrow> stamped now (snd (negotiation_do now op m))"
  by (simp add: do_before_check stamped_before_check stamped_check stamped_later)

lemma stamped_seen_later:
  assumes "stamped t m"
  shows "map_option (passed now) (map_option (seen_at t) (negotiation_at m s r)) = map_option (seen_at now) (negotiation_at m s r)"
  using assms by (cases "negotiation_at m s r") (auto simp: stamped_def seen_passed)

lemma passed_again: "map_option (passed now) (map_option (passed now) w) = map_option (passed now) w"
  by (cases w) (simp_all add: passed_def)

lemma wait_from_now: "wait_before_check s r now op (map_option (passed now) w) = wait_before_check s r now op w"
  by (cases op) (simp_all only: wait_before_check.simps passed_again)

lemma wait_before_check_stamped:
  assumes "stamped t m" "t \<le> now"
  shows "wait_before_check s r now op (map_option (seen_at t) (negotiation_at m s r)) = map_option (seen_at now) (negotiation_at (before_check now op m) s r)"
  using wait_before_check_seen [OF stamped_later [OF assms], of s r op] wait_from_now [of s r now op "map_option (seen_at t) (negotiation_at m s r)"]
  by (simp only: stamped_seen_later [OF assms(1)])

lemma wait_step_seen:
  assumes "stamped t m" "t \<le> now"
  shows "wait_step s r (now, op) (map_option (seen_at t) (negotiation_at m s r)) = map_option (seen_at now) (negotiation_at (snd (negotiation_do now op m)) s r)"
  using checked_seen [OF stamped_before_check [OF stamped_later [OF assms]], of op s r]
  by (simp add: wait_step_def wait_before_check_stamped [OF assms] do_before_check)

lemma faults_before:
  assumes "stamped t m" "t \<le> now"
  shows "s \<in> set (fst (negotiation_do now op m)) \<longleftrightarrow>
    checks op \<and> (\<exists>r w. wait_before_check s r now op (map_option (seen_at t) (negotiation_at m s r)) = Some w \<and> to_report w)"
  using faults_seen [OF stamped_before_check [OF stamped_later [OF assms]], of s op]
  by (simp add: do_before_check wait_before_check_stamped [OF assms])

lemma negotiations_snoc: "negotiations_after (h @ [(now, op)]) = snd (negotiation_do now op (negotiations_after h))"
  by (simp add: negotiations_after_def)

lemma history_waited:
  "sorted (map fst (h @ [(t, op)])) \<Longrightarrow> stamped t (negotiations_after (h @ [(t, op)])) \<and>
     (\<forall>s r. waited s r (h @ [(t, op)]) = map_option (seen_at t) (negotiation_at (negotiations_after (h @ [(t, op)])) s r))"
proof (induction h arbitrary: t op rule: rev_induct)
  case Nil
  have "stamped t []" by (simp add: stamped_def neg_inv_def map_inv_def negotiation_at_def map_get_def)
  with stamped_step [OF this, of t op] wait_step_seen [OF this, of t _ _ op] show ?case
    by (simp add: negotiations_after_def waited_def negotiation_at_def map_get_def)
next
  case (snoc e h)
  obtain u o' where e: "e = (u, o')" by fastforce
  from snoc.prems e have "u \<le> t" and "sorted (map fst (h @ [(u, o')]))" by (simp_all add: sorted_append)
  with snoc.IH [of u o'] have i: "stamped u (negotiations_after (h @ [e]))"
      "\<And>s r. waited s r (h @ [e]) = map_option (seen_at u) (negotiation_at (negotiations_after (h @ [e])) s r)"
    by (simp_all add: e)
  have "waited s r ((h @ [e]) @ [(t, op)]) = wait_step s r (t, op) (waited s r (h @ [e]))" for s r by (simp add: waited_def)
  then show ?case using stamped_step [OF i(1) \<open>u \<le> t\<close>, of op] wait_step_seen [OF i(1) \<open>u \<le> t\<close>, of _ _ op]
    by (simp add: negotiations_snoc [of "h @ [e]", simplified] i(2))
qed

section \<open>What is reported\<close>

text \<open>
  C40: A check reports the streamers that owe some request an answer for a minute of waiting, and only those.
\<close>

theorem negotiation_faults_iff:
  assumes "sorted (map fst (h @ [(now, op)]))"
  shows "s \<in> set (fst (negotiation_do now op (negotiations_after h))) \<longleftrightarrow>
    checks op \<and> (\<exists>r w. wait_before_check s r now op (waited s r h) = Some w \<and> to_report w)"
proof (cases h rule: rev_cases)
  case Nil
  have "stamped now []" by (simp add: stamped_def neg_inv_def map_inv_def negotiation_at_def map_get_def)
  from faults_before [OF this order_refl] show ?thesis
    by (simp add: Nil negotiations_after_def waited_def negotiation_at_def map_get_def)
next
  case (snoc h' e)
  obtain t o' where e: "e = (t, o')" by fastforce
  from assms have "t \<le> now" and "sorted (map fst (h' @ [(t, o')]))" by (simp_all add: snoc e sorted_append)
  with history_waited [of h' t o'] have "stamped t (negotiations_after h)"
      and "\<And>s r. waited s r h = map_option (seen_at t) (negotiation_at (negotiations_after h) s r)"
    by (simp_all add: snoc e)
  with faults_before [OF this(1) \<open>t \<le> now\<close>] show ?thesis by simp
qed

theorem negotiation_faults_iff_witness:
  "(1 \<in> set (fst (negotiation_do 61000 Neg_check
      (negotiations_after [(0, Neg_started 1 ''r'' ''p''), (30000, Neg_abandoned 1 ''r'' ''p''), (31000, Neg_started 1 ''r'' ''q'')])))
    \<longleftrightarrow> (\<exists>r w. wait_before_check 1 r 61000 Neg_check
        (waited 1 r [(0, Neg_started 1 ''r'' ''p''), (30000, Neg_abandoned 1 ''r'' ''p''), (31000, Neg_started 1 ''r'' ''q'')]) = Some w \<and> to_report w))
   \<and> fst (negotiation_do 61000 Neg_check
      (negotiations_after [(0, Neg_started 1 ''r'' ''p''), (30000, Neg_abandoned 1 ''r'' ''p''), (31000, Neg_started 1 ''r'' ''q'')])) = [1]"
proof
  show "(1 \<in> set (fst (negotiation_do 61000 Neg_check
      (negotiations_after [(0, Neg_started 1 ''r'' ''p''), (30000, Neg_abandoned 1 ''r'' ''p''), (31000, Neg_started 1 ''r'' ''q'')])))
    \<longleftrightarrow> (\<exists>r w. wait_before_check 1 r 61000 Neg_check
        (waited 1 r [(0, Neg_started 1 ''r'' ''p''), (30000, Neg_abandoned 1 ''r'' ''p''), (31000, Neg_started 1 ''r'' ''q'')]) = Some w \<and> to_report w))"
    by (subst negotiation_faults_iff) simp_all
qed code_simp

end
