(* ===== verification/Evidence_Journal.thy ===== *)
theory Evidence_Journal
  imports Recycle_State
begin

text \<open>
  \<open>SignallingWebServer/src/instance-agent-reconnect-grace-evidence-state.ts\<close>: the journal of elapsed
  reconnect windows that the control plane has not acknowledged yet. It is an outbox: evidence is
  appended, moved behind the others when an attempt got no acknowledgement, and removed when one came.
  What holds of every outbox is a locale, interpreted on the journal. \<open>dp\<close> and \<open>utc\<close> stand for
  \<open>Date.parse\<close> and \<open>toISOString\<close>.
\<close>

section \<open>Evidence\<close>

record elapsed_evidence =
  ev_evidenceId :: string
  ev_sessionRequestId :: string
  ev_activeSessionId :: "string option"
  ev_lastViewerDisconnectedAtUtc :: string
  ev_reconnectGraceExpiresAtUtc :: string

definition short_text :: "string \<Rightarrow> bool" where
  "short_text s \<longleftrightarrow> s \<noteq> [] \<and> length s \<le> 128"

definition normalizeIdentifier :: "jsval \<Rightarrow> string option" where
  "normalizeIdentifier v = (case v of JStr s \<Rightarrow> if short_text (trim s) then Some (trim s) else None | _ \<Rightarrow> None)"

definition normalizeUtcTimestamp :: "(string \<Rightarrow> int option) \<Rightarrow> (int \<Rightarrow> string) \<Rightarrow> jsval \<Rightarrow> string option" where
  "normalizeUtcTimestamp dp utc v = (case v of JStr s \<Rightarrow> map_option utc (dp s) | _ \<Rightarrow> None)"

text \<open>A comparison with \<open>NaN\<close> is false.\<close>

definition not_after :: "(string \<Rightarrow> int option) \<Rightarrow> string \<Rightarrow> string \<Rightarrow> bool" where
  "not_after dp a b \<longleftrightarrow> (case (dp a, dp b) of (Some s, Some t) \<Rightarrow> s \<le> t | _ \<Rightarrow> False)"

definition normalizeEvidence :: "(string \<Rightarrow> int option) \<Rightarrow> (int \<Rightarrow> string) \<Rightarrow> jsval \<Rightarrow> elapsed_evidence option" where
  "normalizeEvidence dp utc v =
     (let session = normalizeIdentifier (fld v ''activeSessionId'') in
      case (normalizeIdentifier (fld v ''evidenceId''), normalizeIdentifier (fld v ''sessionRequestId''),
            normalizeUtcTimestamp dp utc (fld v ''lastViewerDisconnectedAtUtc''),
            normalizeUtcTimestamp dp utc (fld v ''reconnectGraceExpiresAtUtc'')) of
        (Some i, Some r, Some d, Some e) \<Rightarrow>
          if (fld v ''activeSessionId'' \<noteq> JUndef \<and> session = None) \<or> fld v ''phase'' \<noteq> JStr ''elapsed'' \<or> not_after dp e d
          then None
          else Some \<lparr>ev_evidenceId = i, ev_sessionRequestId = r, ev_activeSessionId = session,
            ev_lastViewerDisconnectedAtUtc = d, ev_reconnectGraceExpiresAtUtc = e\<rparr>
      | _ \<Rightarrow> None)"

definition evidence_value :: "elapsed_evidence \<Rightarrow> jsval" where
  "evidence_value e = json_obj [(''evidenceId'', JStr (ev_evidenceId e)), (''sessionRequestId'', JStr (ev_sessionRequestId e)),
     (''activeSessionId'', opt_str (ev_activeSessionId e)),
     (''lastViewerDisconnectedAtUtc'', JStr (ev_lastViewerDisconnectedAtUtc e)),
     (''reconnectGraceExpiresAtUtc'', JStr (ev_reconnectGraceExpiresAtUtc e)), (''phase'', JStr ''elapsed'')]"

section \<open>The journal\<close>

fun collectEvidences :: "(string \<Rightarrow> int option) \<Rightarrow> (int \<Rightarrow> string) \<Rightarrow> string list \<Rightarrow> jsval list \<Rightarrow> elapsed_evidence list option" where
  "collectEvidences dp utc ids [] = Some []"
| "collectEvidences dp utc ids (v # vs) = (case normalizeEvidence dp utc v of
     None \<Rightarrow> None
   | Some e \<Rightarrow>
       if ev_evidenceId e \<in> set ids then None
       else map_option (\<lambda>es. e # es) (collectEvidences dp utc (ev_evidenceId e # ids) vs))"

definition normalizeJournal :: "(string \<Rightarrow> int option) \<Rightarrow> (int \<Rightarrow> string) \<Rightarrow> jsval \<Rightarrow> elapsed_evidence list option" where
  "normalizeJournal dp utc v =
     (if fld v ''schemaVersion'' \<noteq> num_of_int 1 then None
      else case fld v ''evidences'' of JArr vs \<Rightarrow> collectEvidences dp utc [] vs | _ \<Rightarrow> None)"

definition journal_value :: "elapsed_evidence list \<Rightarrow> jsval" where
  "journal_value es = json_obj [(''schemaVersion'', num_of_int 1), (''evidences'', JArr (map evidence_value es))]"

datatype journal_read = Journal_missing | Journal_valid "elapsed_evidence list" | Journal_invalid string

definition inspectJournal :: "(string \<Rightarrow> int option) \<Rightarrow> (int \<Rightarrow> string) \<Rightarrow> file_state \<Rightarrow> journal_read" where
  "inspectJournal dp utc f = (case f of
     Missing \<Rightarrow> Journal_missing
   | Broken e \<Rightarrow> Journal_invalid e
   | Json v \<Rightarrow> (case normalizeJournal dp utc v of
       None \<Rightarrow> Journal_invalid ''Journal structure, schema, evidence, or evidence-id uniqueness is invalid.''
     | Some es \<Rightarrow> Journal_valid es))"

definition readJournal :: "(string \<Rightarrow> int option) \<Rightarrow> (int \<Rightarrow> string) \<Rightarrow> file_state \<Rightarrow> elapsed_evidence list option" where
  "readJournal dp utc f = (case inspectJournal dp utc f of
     Journal_missing \<Rightarrow> Some [] | Journal_valid es \<Rightarrow> Some es | Journal_invalid e \<Rightarrow> None)"

definition writeJournalAtomically :: "replace_run \<Rightarrow> elapsed_evidence list \<Rightarrow> file_state \<Rightarrow> elapsed_evidence list option \<times> file_state" where
  "writeJournalAtomically run es f = (case put_atomic run (journal_value es) f of
     (ok, f) \<Rightarrow> (if ok then Some es else None, f))"

section \<open>Operations\<close>

text \<open>
  What the file system does in an operation comes with it. \<open>JSON.stringify\<close> tells apart two pieces of
  evidence that differ. A removal of a file that is gone already is an error here.
\<close>

definition with_id :: "string \<Rightarrow> elapsed_evidence \<Rightarrow> bool" where
  "with_id i e \<longleftrightarrow> ev_evidenceId e = i"

definition appendEvidence :: "(string \<Rightarrow> int option) \<Rightarrow> (int \<Rightarrow> string) \<Rightarrow> dir_sync \<Rightarrow> replace_run \<Rightarrow> jsval \<Rightarrow> file_state \<Rightarrow>
    elapsed_evidence list option \<times> file_state" where
  "appendEvidence dp utc sync run v f = (case (normalizeEvidence dp utc v, readJournal dp utc f) of
     (Some e, Some current) \<Rightarrow> (case find (with_id (ev_evidenceId e)) current of
         Some old \<Rightarrow> (if old = e \<and> fsyncContainingDirectory sync then Some current else None, f)
       | None \<Rightarrow> writeJournalAtomically run (current @ [e]) f)
   | _ \<Rightarrow> (None, f))"

definition removeAcknowledged :: "(string \<Rightarrow> int option) \<Rightarrow> (int \<Rightarrow> string) \<Rightarrow> replace_run \<Rightarrow> unlink_run \<Rightarrow> jsval \<Rightarrow> file_state \<Rightarrow>
    elapsed_evidence list option \<times> file_state" where
  "removeAcknowledged dp utc run unlink v f = (case (normalizeIdentifier v, readJournal dp utc f) of
     (Some i, Some current) \<Rightarrow>
       let rest = filter (\<lambda>e. \<not> with_id i e) current in
       if find (with_id i) current = None then (Some current, f)
       else if rest \<noteq> [] then writeJournalAtomically run rest f
       else (case unlink of
           Not_unlinked \<Rightarrow> (None, f)
         | Was_missing \<Rightarrow> (None, Missing)
         | Unlinked s \<Rightarrow> (if fsyncContainingDirectory s then Some [] else None, Missing))
   | _ \<Rightarrow> (None, f))"

definition rotateAfterAttempt :: "(string \<Rightarrow> int option) \<Rightarrow> (int \<Rightarrow> string) \<Rightarrow> replace_run \<Rightarrow> jsval \<Rightarrow> file_state \<Rightarrow>
    elapsed_evidence list option \<times> file_state" where
  "rotateAfterAttempt dp utc run v f = (case (normalizeIdentifier v, readJournal dp utc f) of
     (Some i, Some current) \<Rightarrow> (case find (with_id i) current of
         None \<Rightarrow> (Some current, f)
       | Some attempted \<Rightarrow>
           if length current \<le> 1 \<or> with_id i (last current) then (Some current, f)
           else writeJournalAtomically run (filter (\<lambda>e. \<not> with_id i e) current @ [attempted]) f)
   | _ \<Rightarrow> (None, f))"

datatype journal_op =
    Append dir_sync replace_run jsval
  | Acknowledge replace_run unlink_run jsval
  | Rotate replace_run jsval

fun journal_do :: "(string \<Rightarrow> int option) \<Rightarrow> (int \<Rightarrow> string) \<Rightarrow> journal_op \<Rightarrow> file_state \<Rightarrow> elapsed_evidence list option \<times> file_state" where
  "journal_do dp utc (Append sync run v) f = appendEvidence dp utc sync run v f"
| "journal_do dp utc (Acknowledge run unlink v) f = removeAcknowledged dp utc run unlink v f"
| "journal_do dp utc (Rotate run v) f = rotateAfterAttempt dp utc run v f"

definition journal_run :: "(string \<Rightarrow> int option) \<Rightarrow> (int \<Rightarrow> string) \<Rightarrow> journal_op list \<Rightarrow> file_state \<Rightarrow> file_state" where
  "journal_run dp utc ops f = fold (\<lambda>op f. snd (journal_do dp utc op f)) ops f"

section \<open>Well-formed evidence\<close>

definition evidence_ok :: "(string \<Rightarrow> int option) \<Rightarrow> (int \<Rightarrow> string) \<Rightarrow> elapsed_evidence \<Rightarrow> bool" where
  "evidence_ok dp utc e \<longleftrightarrow>
     (\<forall>i \<in> {Some (ev_evidenceId e), Some (ev_sessionRequestId e), ev_activeSessionId e}. \<forall>s. i = Some s \<longrightarrow> short_text s \<and> trim s = s)
     \<and> (\<exists>d x. ev_lastViewerDisconnectedAtUtc e = utc d \<and> dp (utc d) = Some d \<and> ev_reconnectGraceExpiresAtUtc e = utc x
          \<and> dp (utc x) = Some x \<and> d < x)"

lemma normalizeIdentifier_simps [simp]:
  "normalizeIdentifier (JStr s) = (if short_text (trim s) then Some (trim s) else None)" "normalizeIdentifier JUndef = None"
  by (simp_all add: normalizeIdentifier_def)

lemma normalizeIdentifier_ok: "normalizeIdentifier v = Some s \<Longrightarrow> short_text s \<and> trim s = s"
  by (auto simp: normalizeIdentifier_def split: jsval.splits if_splits)

lemma normalizeEvidence_ok:
  assumes lib: "date_lib dp utc" and n: "normalizeEvidence dp utc v = Some e"
  shows "evidence_ok dp utc e"
proof -
  from n obtain i r d x where f: "normalizeIdentifier (fld v ''evidenceId'') = Some i" "normalizeIdentifier (fld v ''sessionRequestId'') = Some r"
      "normalizeUtcTimestamp dp utc (fld v ''lastViewerDisconnectedAtUtc'') = Some d"
      "normalizeUtcTimestamp dp utc (fld v ''reconnectGraceExpiresAtUtc'') = Some x" "\<not> not_after dp x d"
    and e: "e = \<lparr>ev_evidenceId = i, ev_sessionRequestId = r, ev_activeSessionId = normalizeIdentifier (fld v ''activeSessionId''),
      ev_lastViewerDisconnectedAtUtc = d, ev_reconnectGraceExpiresAtUtc = x\<rparr>"
    by (auto simp: normalizeEvidence_def Let_def split: option.splits if_splits)
  from f(3,4) obtain a b where t: "d = utc a" "x = utc b" "dp (utc a) = Some a" "dp (utc b) = Some b"
    using lib by (auto simp: normalizeUtcTimestamp_def date_lib_def split: jsval.splits)
  with f(5) have "a < b" by (simp add: not_after_def)
  with t f(1,2) show ?thesis
    unfolding evidence_ok_def e by (intro conjI exI [of _ a] exI [of _ b]) (auto dest: normalizeIdentifier_ok)
qed

lemma fld_evidence_value [simp]:
  "fld (evidence_value e) ''evidenceId'' = JStr (ev_evidenceId e)" "fld (evidence_value e) ''sessionRequestId'' = JStr (ev_sessionRequestId e)"
  "fld (evidence_value e) ''activeSessionId'' = opt_str (ev_activeSessionId e)"
  "fld (evidence_value e) ''lastViewerDisconnectedAtUtc'' = JStr (ev_lastViewerDisconnectedAtUtc e)"
  "fld (evidence_value e) ''reconnectGraceExpiresAtUtc'' = JStr (ev_reconnectGraceExpiresAtUtc e)"
  "fld (evidence_value e) ''phase'' = JStr ''elapsed''"
  by (simp_all add: evidence_value_def fld_json_obj)

lemma fld_journal_value [simp]:
  "fld (journal_value es) ''schemaVersion'' = num_of_int 1" "fld (journal_value es) ''evidences'' = JArr (map evidence_value es)"
  by (simp_all add: journal_value_def fld_json_obj)

interpretation evidences: snapshot "normalizeEvidence dp utc" evidence_value "evidence_ok dp utc" for dp utc
proof
  fix e assume "evidence_ok dp utc e"
  then show "normalizeEvidence dp utc (evidence_value e) = Some e"
    by (cases "ev_activeSessionId e")
      (auto simp: normalizeEvidence_def evidence_ok_def normalizeUtcTimestamp_def not_after_def)
qed

definition journal_ok :: "(string \<Rightarrow> int option) \<Rightarrow> (int \<Rightarrow> string) \<Rightarrow> elapsed_evidence list \<Rightarrow> bool" where
  "journal_ok dp utc es \<longleftrightarrow> list_all (evidence_ok dp utc) es \<and> distinct (map ev_evidenceId es)"

lemma collect_ok:
  assumes "date_lib dp utc" "collectEvidences dp utc ids vs = Some es"
  shows "journal_ok dp utc es \<and> set (map ev_evidenceId es) \<inter> set ids = {}"
  using assms(2)
proof (induction vs arbitrary: ids es)
  case (Cons v vs)
  then obtain e es' where e: "normalizeEvidence dp utc v = Some e" "ev_evidenceId e \<notin> set ids" "es = e # es'"
      "collectEvidences dp utc (ev_evidenceId e # ids) vs = Some es'"
    by (auto split: option.splits if_splits)
  with Cons.IH [OF e(4)] normalizeEvidence_ok [OF assms(1) e(1)] show ?case by (auto simp: journal_ok_def)
qed (simp add: journal_ok_def)

lemma collect_stored:
  assumes "journal_ok dp utc es" "set (map ev_evidenceId es) \<inter> set ids = {}"
  shows "collectEvidences dp utc ids (map evidence_value es) = Some es"
  using assms
proof (induction es arbitrary: ids)
  case (Cons e es)
  then have "collectEvidences dp utc (ev_evidenceId e # ids) (map evidence_value es) = Some es" by (simp add: journal_ok_def)
  with Cons.prems evidences.stored [of dp utc e] show ?case by (simp add: journal_ok_def)
qed simp

interpretation journals: snapshot "normalizeJournal dp utc" journal_value "journal_ok dp utc" for dp utc
  by unfold_locales (simp add: normalizeJournal_def collect_stored)

lemma read_stored: "journal_ok dp utc es \<Longrightarrow> readJournal dp utc (Json (journal_value es)) = Some es"
  by (simp add: readJournal_def inspectJournal_def journals.stored)

lemma read_missing [simp]: "readJournal dp utc Missing = Some []"
  by (simp add: readJournal_def inspectJournal_def)

lemma read_ok: "date_lib dp utc \<Longrightarrow> readJournal dp utc f = Some es \<Longrightarrow> journal_ok dp utc es"
  using collect_ok [of dp utc "[]"]
  by (auto simp: readJournal_def inspectJournal_def normalizeJournal_def journal_ok_def split: file_state.splits option.splits jsval.splits if_splits)

end
