(* ===== verification/Agent_Client.thy ===== *)
theory Agent_Client
  imports Viewer_Idle Evidence_Journal
begin

text \<open>
  \<open>SignallingWebServer/src/instance-agent.ts\<close>, the client of the control plane: its options, its state and
  the helpers its handlers share. The closure variables of \<open>wireInstanceAgent\<close> are the fields of one
  record; the four state files, the player registry and the ticket gate are beside them. What the host
  does in a step is a parameter. Log texts, artifacts and entitlements are left out.
\<close>

section \<open>Texts\<close>

text \<open>The types of commands, compared as \<open>isRecycleToWarmCommand\<close> and \<open>isShutdownCommand\<close> do.\<close>

definition command_kind :: "string \<Rightarrow> string option" where
  "command_kind t = map_option to_lower (normalizeOptionalText (JStr t))"

definition recycles :: "string \<Rightarrow> bool" where
  "recycles t \<longleftrightarrow> command_kind t = Some ''recycletowarm''"

definition shuts_down :: "string \<Rightarrow> bool" where
  "shuts_down t \<longleftrightarrow> command_kind t = Some ''shutdown''"

definition isTerminalCommandStatus :: "string \<Rightarrow> bool" where
  "isTerminalCommandStatus t \<longleftrightarrow> command_kind t \<in> Some ` {''completed'', ''failed'', ''timedout'', ''timed_out'', ''timeout'',
     ''cancelled'', ''canceled''}"

definition open_status :: "string \<Rightarrow> command_status option" where
  "open_status t = (if command_kind t = Some ''acked'' then Some Acked
     else if command_kind t = Some ''running'' then Some Running else None)"

section \<open>Commands\<close>

text \<open>A command as the control plane lists it, without the state of its execution.\<close>

record order =
  oo_instanceCommandId :: string
  oo_instanceId :: string
  oo_region :: string
  oo_sessionRequestId :: "string option"
  oo_commandType :: string
  oo_idempotencyKey :: string
  oo_requestedAtUtc :: string
  oo_timeoutAtUtc :: "string option"
  oo_payloadJson :: "string option"

definition normalizeOrder :: "jsval \<Rightarrow> order option" where
  "normalizeOrder v =
     (case (normalizeOptionalText (fld v ''instanceCommandId''), normalizeOptionalText (fld v ''instanceId''),
            normalizeOptionalText (fld v ''region''), normalizeOptionalText (fld v ''commandType''),
            normalizeOptionalText (fld v ''idempotencyKey''), normalizeOptionalText (fld v ''requestedAtUtc'')) of
        (Some cid, Some iid, Some region, Some ctype, Some key, Some requested) \<Rightarrow>
          Some \<lparr>oo_instanceCommandId = cid, oo_instanceId = iid, oo_region = region,
            oo_sessionRequestId = normalizeOptionalText (fld v ''sessionRequestId''), oo_commandType = ctype,
            oo_idempotencyKey = key, oo_requestedAtUtc = requested,
            oo_timeoutAtUtc = normalizeOptionalText (fld v ''timeoutAtUtc''),
            oo_payloadJson = normalizeOptionalText (fld v ''payloadJson'')\<rparr>
      | _ \<Rightarrow> None)"

definition order_of :: "command \<Rightarrow> order" where
  "order_of c = \<lparr>oo_instanceCommandId = cm_instanceCommandId c, oo_instanceId = cm_instanceId c, oo_region = cm_region c,
     oo_sessionRequestId = cm_sessionRequestId c, oo_commandType = cm_commandType c, oo_idempotencyKey = cm_idempotencyKey c,
     oo_requestedAtUtc = cm_requestedAtUtc c, oo_timeoutAtUtc = cm_timeoutAtUtc c, oo_payloadJson = cm_payloadJson c\<rparr>"

definition tears_down :: "order \<Rightarrow> bool" where
  "tears_down c \<longleftrightarrow> recycles (oo_commandType c) \<or> shuts_down (oo_commandType c)"

section \<open>Events for the control plane\<close>

text \<open>A queued event is an object: it has a number of its own.\<close>

record agent_event =
  ae_number :: nat
  ae_type :: string
  ae_occurredAtUtc :: string
  ae_sessionId :: "string option"
  ae_metadata :: "(string \<times> string) list"

text \<open>\<open>text\<close> is \<open>String\<close> of a number or a flag.\<close>

definition metadata_item :: "(jsval \<Rightarrow> string) \<Rightarrow> string \<times> jsval \<Rightarrow> (string \<times> string) list \<Rightarrow> (string \<times> string) list" where
  "metadata_item text kv m = (case normalizeOptionalText (JStr (fst kv)) of
     None \<Rightarrow> m
   | Some k \<Rightarrow> (case snd kv of
       JStr s \<Rightarrow> (case normalizeOptionalText (JStr s) of Some t \<Rightarrow> map_set k t m | None \<Rightarrow> m)
     | JNum n \<Rightarrow> map_set k (text (snd kv)) m
     | JBool b \<Rightarrow> map_set k (text (snd kv)) m
     | _ \<Rightarrow> m))"

definition normalizeEventMetadata :: "(jsval \<Rightarrow> string) \<Rightarrow> (string \<times> jsval) list \<Rightarrow> (string \<times> string) list" where
  "normalizeEventMetadata text kvs = fold (metadata_item text) kvs []"

definition max_pending_events :: nat where
  "max_pending_events = 100"

section \<open>What others do\<close>

record status_update =
  su_status :: string
  su_reason :: "string option"
  su_version :: "string option"
  su_source :: "string option"
  su_heartbeatOnly :: bool

text \<open>The methods of the client, and what else its users do synchronously.\<close>

datatype client_call =
    Call_status status_update
  | Call_network "(string \<times> jsval) list" "string option"
  | Call_window "(string \<times> string) option"
  | Call_evidence jsval
  | Call_fast "int option" "int option"
  | Call_acknowledge order
  | Call_start order
  | Call_complete string
  | Call_fail string string "string option"
  | Call_gate gate_op

datatype agent_notice = Nt_desired string | Nt_command order string | Nt_recovery

text \<open>The host, and the outcomes within one step; listeners react with calls.\<close>

record agent_host =
  ah_gate :: gate_config
  ah_text :: "jsval \<Rightarrow> string"
  ah_pid :: int
  ah_explicitHeartbeatMs :: int

record agent_call = agent_host +
  ac_now :: int
  ac_replace :: "nat \<Rightarrow> replace_run"
  ac_sync :: "nat \<Rightarrow> dir_sync"
  ac_plain :: "nat \<Rightarrow> plain_write"
  ac_unlink :: "nat \<Rightarrow> unlink_run"
  ac_cleared :: "nat \<Rightarrow> bool"
  ac_listener :: "nat \<Rightarrow> agent_notice \<Rightarrow> client_call list"

abbreviation dates :: "agent_call \<Rightarrow> string \<Rightarrow> int option" where
  "dates x \<equiv> gc_dp (ah_gate x)"

abbreviation utc_text :: "agent_call \<Rightarrow> int \<Rightarrow> string" where
  "utc_text x \<equiv> gc_utc (ah_gate x)"

definition iso_now :: "agent_call \<Rightarrow> string" where
  "iso_now x = gc_utc (ah_gate x) (ac_now x)"

section \<open>State\<close>

text \<open>What a command's request to the control plane is for, and who waits for it.\<close>

datatype posting =
    Post_ack order
  | Post_start order
  | Post_complete string
  | Post_fail string string "string option"

text \<open>The asynchronous functions that wait, with what they will need; requests carry their token.\<close>

datatype agent_task =
    Tk_bootstrap
  | Tk_bootstrapped "elapsed_evidence option" nat
  | Tk_tick
  | Tk_tick_identity
  | Tk_heartbeat "elapsed_evidence option" nat jsval
  | Tk_flush
  | Tk_flushed "string list" "agent_event list" nat jsval
  | Tk_post bool posting
  | Tk_posted bool posting jsval
  | Tk_worker
  | Tk_worker_captured command

datatype agent_effect =
    Af_reported bool "elapsed_evidence option" nat
  | Af_control nat
  | Af_notice agent_notice
  | Af_cutoff string
  | Af_acknowledged string
  | Af_required
  | Af_recovered string
  | Af_accepted agent_event
  | Af_dropped agent_event
  | Af_replaced agent_event
  | Af_faults_acknowledged "string list"
  | Af_marker_cleared string
  | Af_marker_cancelled string
  | Af_posting posting

record session_context =
  sc_sessionId :: "string option"
  sc_sessionRequestId :: "string option"

record agent =
  ag_desired :: desired_state
  ag_desiredFile :: file_state
  ag_active :: "command option"
  ag_commandFile :: file_state
  ag_markerFile :: file_state
  ag_evidenceFile :: file_state
  ag_gate :: "gate option"
  ag_pendingCompletion :: "marker option"
  ag_recoveredCommandId :: "string option"
  ag_commandConfirmed :: bool
  ag_desiredConfirmed :: bool
  ag_teardownObserved :: bool
  ag_bootstrapping :: bool
  ag_tickInFlight :: bool
  ag_flushInFlight :: bool
  ag_recoveryInFlight :: bool
  ag_sequence :: nat
  ag_applied :: nat
  ag_heartbeatTimer :: bool
  ag_configuredMs :: int
  ag_heartbeatMs :: int
  ag_fastMs :: int
  ag_fastUntil :: int
  ag_restoreTimer :: bool
  ag_token :: jsval
  ag_status :: "string option"
  ag_reason :: "string option"
  ag_version :: "string option"
  ag_window :: "(string \<times> string) option"
  ag_journalBlocked :: bool
  ag_journalFailures :: nat
  ag_evidences :: "elapsed_evidence list"
  ag_required :: bool
  ag_deferred :: bool
  ag_cutoffThrough :: int
  ag_events :: "agent_event list"
  ag_eventNumber :: nat
  ag_awaitingAck :: "marker option"
  ag_toClear :: "marker option"
  ag_resetInProgress :: bool
  ag_lastContext :: session_context
  ag_lastShutdownRequest :: "string option"
  ag_contexts :: "(string \<times> session_context) list"
  ag_noAck :: "(string \<times> nat) list"
  ag_players :: "(string \<times> viewer) list"
  ag_tasks :: "agent_task list"
  ag_calls :: nat
  ag_log :: "agent_effect list"

definition telling :: "agent_effect \<Rightarrow> agent \<Rightarrow> agent" where
  "telling e s = s\<lparr>ag_log := ag_log s @ [e]\<rparr>"

definition awaiting :: "agent_task \<Rightarrow> agent \<Rightarrow> agent" where
  "awaiting t s = s\<lparr>ag_tasks := ag_tasks s @ [t]\<rparr>"

definition counted :: "agent \<Rightarrow> agent" where
  "counted s = s\<lparr>ag_calls := ag_calls s + 1\<rparr>"

text \<open>The oldest events go when the queue is full.\<close>

definition queueEvent :: "agent_call \<Rightarrow> string \<Rightarrow> (string \<times> jsval) list \<Rightarrow> string option \<Rightarrow> string option \<Rightarrow> agent \<Rightarrow> agent" where
  "queueEvent x type meta session occurred s =
     (let e = \<lparr>ae_number = ag_eventNumber s, ae_type = type,
            ae_occurredAtUtc = (case opt_text_of occurred of Some t \<Rightarrow> t | None \<Rightarrow> iso_now x),
            ae_sessionId = opt_text_of session, ae_metadata = normalizeEventMetadata (ah_text x) meta\<rparr>;
          es = ag_events s @ [e] in
      fold (\<lambda>e s. telling (Af_dropped e) s) (take (length es - max_pending_events) es)
        (s\<lparr>ag_events := take_last max_pending_events es, ag_eventNumber := ag_eventNumber s + 1\<rparr>))"

section \<open>The ticket gate\<close>

definition block_reason :: string where
  "block_reason = ''Commercial session admission is unavailable because local reconnect-grace billing evidence requires operator recovery.''"

definition updateAdmissionBlock :: "agent \<Rightarrow> agent" where
  "updateAdmissionBlock s = s\<lparr>ag_gate := map_option (setReconnectGraceEvidenceJournalBlock
     (if ag_journalBlocked s \<or> ag_required s then JStr block_reason else JNull)) (ag_gate s)\<rparr>"

definition teardown_marked :: "agent_call \<Rightarrow> string \<Rightarrow> string \<Rightarrow> agent \<Rightarrow> bool \<times> agent" where
  "teardown_marked x reason occurred s = (case ag_gate s of
     None \<Rightarrow> (False, s)
   | Some t \<Rightarrow>
       let (ok, t') = markTeardownStarted (ah_gate x)
             \<lparr>to_occurredAtUtc = Some occurred, to_reason = Some reason, to_commandType = None, to_instanceCommandId = None\<rparr>
             (ac_now x div 1000) (ac_replace x (ag_calls s)) t;
           s' = counted (s\<lparr>ag_gate := Some t'\<rparr>) in
       (ok, if ok then telling (Af_cutoff reason) s' else s'))"

text \<open>\<open>isCommercialRecoveryRequired() === true\<close>\<close>

definition recovery_required :: "agent_call \<Rightarrow> agent \<Rightarrow> bool \<times> agent" where
  "recovery_required x s = (case ag_gate s of
     None \<Rightarrow> (False, s)
   | Some t \<Rightarrow> (case isCommercialRecoveryRequired (ah_gate x) t of (b, t') \<Rightarrow> (b, s\<lparr>ag_gate := Some t'\<rparr>)))"

definition command_token_status :: "agent_call \<Rightarrow> string \<Rightarrow> agent \<Rightarrow> token_status" where
  "command_token_status x token s = (case ag_gate s of
     None \<Rightarrow> Unavailable | Some t \<Rightarrow> completedRecycleTokenStatus (ah_gate x) (JStr token) (gt_file t))"

definition recovery_released :: "agent \<Rightarrow> agent" where
  "recovery_released s = updateAdmissionBlock (s\<lparr>ag_required := False\<rparr>)"

definition recovery_demanded :: "agent \<Rightarrow> agent" where
  "recovery_demanded s = updateAdmissionBlock (telling Af_required (s\<lparr>ag_required := True\<rparr>))"

section \<open>The active command\<close>

definition persistActiveCommand :: "agent_call \<Rightarrow> order \<Rightarrow> command_status \<Rightarrow> string \<Rightarrow> agent \<Rightarrow> agent" where
  "persistActiveCommand x c status occurred s =
     (let previous = ag_active s;
          stamp = (case normalizeOptionalText (JStr occurred) of Some t \<Rightarrow> t | None \<Rightarrow> iso_now x);
          attempt = (case previous of
             None \<Rightarrow> 1
           | Some p \<Rightarrow> if cm_instanceCommandId p = oo_instanceCommandId c then cm_attemptNumber p else cm_attemptNumber p + 1);
          v = command_value \<lparr>cm_instanceCommandId = oo_instanceCommandId c, cm_instanceId = oo_instanceId c,
             cm_region = oo_region c, cm_sessionRequestId = oo_sessionRequestId c, cm_commandType = oo_commandType c,
             cm_idempotencyKey = oo_idempotencyKey c, cm_requestedAtUtc = oo_requestedAtUtc c,
             cm_timeoutAtUtc = oo_timeoutAtUtc c, cm_payloadJson = oo_payloadJson c, cm_status = status,
             cm_attemptNumber = max 1 attempt,
             cm_ackedAtUtc = Some (if status = Acked then stamp
                else case Option.bind previous cm_ackedAtUtc of Some t \<Rightarrow> t | None \<Rightarrow> stamp),
             cm_startedAtUtc = (if status = Running then Some stamp else Option.bind previous cm_startedAtUtc)\<rparr> in
      case writeCommandJournal (ac_plain x (ag_calls s)) v (ag_commandFile s) of (c, f) \<Rightarrow>
        counted (s\<lparr>ag_active := c, ag_commandFile := f, ag_commandConfirmed := True\<rparr>))"

definition clearActiveCommand :: "agent_call \<Rightarrow> agent \<Rightarrow> agent" where
  "clearActiveCommand x s = counted (s\<lparr>ag_active := None, ag_recoveredCommandId := None, ag_commandConfirmed := True,
     ag_commandFile := clearCommandJournal (ac_cleared x (ag_calls s)) (ag_commandFile s)\<rparr>)"

definition is_active :: "string \<Rightarrow> agent \<Rightarrow> bool" where
  "is_active i s \<longleftrightarrow> map_option cm_instanceCommandId (ag_active s) = Some i"

end
