(* ===== verification/Agent_Client_Calls.thy ===== *)
theory Agent_Client_Calls
  imports Agent_Client
begin

text \<open>
  The client of the control plane, continued: its polling, the health of its evidence journal, and the
  methods it offers (\<open>recordRuntimeStatus\<close>, \<open>recordReconnectGraceElapsedEvidence\<close> and so on), each up to its
  first \<open>await\<close>. What is awaited goes on as a task.
\<close>

section \<open>Polling\<close>

definition getEffectiveHeartbeatMs :: "agent_call \<Rightarrow> agent \<Rightarrow> int" where
  "getEffectiveHeartbeatMs x s =
     (if ac_now x < ag_fastUntil s then max 1000 (min (ag_configuredMs s) (ag_fastMs s)) else ag_configuredMs s)"

definition scheduleHeartbeat :: "agent_call \<Rightarrow> int \<Rightarrow> agent \<Rightarrow> agent" where
  "scheduleHeartbeat x ms s =
     (let s = s\<lparr>ag_configuredMs := max 1000 ms\<rparr>; effective = getEffectiveHeartbeatMs x s in
      if ag_heartbeatTimer s \<and> ag_heartbeatMs s = effective then s
      else s\<lparr>ag_heartbeatMs := effective, ag_heartbeatTimer := True\<rparr>)"

definition scheduleFastPollingRestore :: "agent_call \<Rightarrow> agent \<Rightarrow> agent" where
  "scheduleFastPollingRestore x s =
     (let s = s\<lparr>ag_restoreTimer := False\<rparr> in
      if ag_fastUntil s \<le> ac_now x
      then
        let s = s\<lparr>ag_fastUntil := 0\<rparr> in
        if ag_heartbeatTimer s \<and> ag_heartbeatMs s \<noteq> ag_configuredMs s then scheduleHeartbeat x (ag_configuredMs s) s else s
      else s\<lparr>ag_restoreTimer := True\<rparr>)"

definition restore_timer_fires :: "agent_call \<Rightarrow> agent \<Rightarrow> agent" where
  "restore_timer_fires x s = (if ag_restoreTimer s
     then scheduleHeartbeat x (ag_configuredMs s) (s\<lparr>ag_restoreTimer := False, ag_fastUntil := 0\<rparr>) else s)"

section \<open>The evidence journal\<close>

definition journal_failed :: "agent \<Rightarrow> agent" where
  "journal_failed s = updateAdmissionBlock (s\<lparr>ag_journalBlocked := True, ag_journalFailures := ag_journalFailures s + 1\<rparr>)"

definition refreshJournalHealth :: "agent_call \<Rightarrow> agent \<Rightarrow> bool \<times> agent" where
  "refreshJournalHealth x s = (case inspectJournal (dates x) (utc_text x) (ag_evidenceFile s) of
     Journal_invalid e \<Rightarrow> (False, journal_failed s)
   | Journal_missing \<Rightarrow> if ag_journalBlocked s \<or> ag_evidences s \<noteq> [] then (False, journal_failed s) else (True, s)
   | Journal_valid es \<Rightarrow> (True, updateAdmissionBlock
       (s\<lparr>ag_evidences := es, ag_journalBlocked := False, ag_journalFailures := 0\<rparr>)))"

text \<open>\<open>Math.max\<close> of the times; \<open>None\<close> is \<open>NaN\<close>, of which \<open>toISOString\<close> throws.\<close>

fun latest_expiry :: "(string \<Rightarrow> int option) \<Rightarrow> elapsed_evidence list \<Rightarrow> int option" where
  "latest_expiry dp [] = None"
| "latest_expiry dp [e] = dp (ev_reconnectGraceExpiresAtUtc e)"
| "latest_expiry dp (e # es) = (case (dp (ev_reconnectGraceExpiresAtUtc e), latest_expiry dp es) of
     (Some a, Some b) \<Rightarrow> Some (max a b) | _ \<Rightarrow> None)"

definition ensureCutoffDurable :: "agent_call \<Rightarrow> agent \<Rightarrow> bool \<times> agent" where
  "ensureCutoffDurable x s =
     (if ag_evidences s = [] then (True, s)
      else case latest_expiry (dates x) (ag_evidences s) of
        None \<Rightarrow> (False, s)
      | Some latest \<Rightarrow>
          if latest \<le> ag_cutoffThrough s then (True, s)
          else (case teardown_marked x ''reconnect_grace_elapsed_evidence_pending'' (utc_text x latest) s of
            (False, s) \<Rightarrow> (False, s)
          | (True, s) \<Rightarrow> (True, recovery_demanded (s\<lparr>ag_cutoffThrough := latest\<rparr>))))"

section \<open>The beginning of a tick and of a request\<close>

definition ensureBootstrap_begins :: "agent \<Rightarrow> agent" where
  "ensureBootstrap_begins s =
     (if truthy (ag_token s) \<or> ag_bootstrapping s then s else awaiting Tk_bootstrap (s\<lparr>ag_bootstrapping := True\<rparr>))"

definition runTick :: "agent_call \<Rightarrow> agent \<Rightarrow> agent" where
  "runTick x s =
     (if ag_tickInFlight s then s
      else case refreshJournalHealth x s of
        (False, s) \<Rightarrow> s
      | (True, s) \<Rightarrow> (case ensureCutoffDurable x s of
          (False, s) \<Rightarrow> s
        | (True, s) \<Rightarrow> awaiting Tk_tick (ensureBootstrap_begins (s\<lparr>ag_tickInFlight := True\<rparr>))))"

definition agent_requestFastPolling :: "agent_call \<Rightarrow> int option \<Rightarrow> int option \<Rightarrow> agent \<Rightarrow> agent" where
  "agent_requestFastPolling x durationMs intervalMs s =
     (let until = ac_now x + max 1000 (case durationMs of Some d \<Rightarrow> d | None \<Rightarrow> 20000);
          interval = min (ag_fastMs s) (max 1000 (case intervalMs of Some i \<Rightarrow> i | None \<Rightarrow> 2000));
          changed = (ag_fastUntil s < until \<or> interval \<noteq> ag_fastMs s);
          s = scheduleFastPollingRestore x (s\<lparr>ag_fastUntil := max (ag_fastUntil s) until, ag_fastMs := interval\<rparr>);
          s = (if changed \<or> getEffectiveHeartbeatMs x s < ag_heartbeatMs s then scheduleHeartbeat x (ag_configuredMs s) s else s) in
      runTick x s)"

abbreviation poll_fast :: "agent_call \<Rightarrow> agent \<Rightarrow> agent" where
  "poll_fast x \<equiv> agent_requestFastPolling x None None"

definition post_begins :: "bool \<Rightarrow> posting \<Rightarrow> agent \<Rightarrow> agent" where
  "post_begins worker p s = awaiting (Tk_post worker p) (ensureBootstrap_begins (telling (Af_posting p) s))"

section \<open>The runtime's status\<close>

definition publishRecoveryContext :: "agent_call \<Rightarrow> agent \<Rightarrow> agent" where
  "publishRecoveryContext x s = (case ag_gate s of
     None \<Rightarrow> s
   | Some t \<Rightarrow>
       if getManagedViewerIdentity (ah_gate x) t = None \<or> ds_shutdownRequested (ag_desired s) then s
       else snd (recovery_required x s))"

definition same_token :: "marker \<Rightarrow> marker \<Rightarrow> bool" where
  "same_token a b \<longleftrightarrow>
     normalizeRecycleToken (opt_str (rm_recycleRequestedToken a)) = normalizeRecycleToken (opt_str (rm_recycleRequestedToken b))"

definition replacement_proved :: "agent_call \<Rightarrow> marker \<Rightarrow> agent \<Rightarrow> marker option" where
  "replacement_proved x expected s = (case readMarker (dates x) (utc_text x) (ag_markerFile s) of
     Inr (Some m) \<Rightarrow>
       if isReplacementProof (Some m) (ah_pid x) \<and> rm_recycleId m = rm_recycleId expected \<and> same_token m expected
       then Some m else None
   | _ \<Rightarrow> None)"

text \<open>Ready after a recycle: \<open>None\<close> returns at once, \<open>Some True\<close> has completed the commercial recovery.\<close>

definition recovery_completed :: "agent_call \<Rightarrow> marker \<Rightarrow> gate \<Rightarrow> agent \<Rightarrow> bool option \<times> agent" where
  "recovery_completed x m t s =
     (case prepareCommercialRecoveryAfterReset (ah_gate x) (ac_now x div 1000) (ac_replace x (ag_calls s)) t of
        (None, t) \<Rightarrow> (None, counted (s\<lparr>ag_gate := Some t\<rparr>))
      | (Some ready, t) \<Rightarrow>
          let s = counted (s\<lparr>ag_gate := Some t\<rparr>) in
          if ac_now x div 1000 \<le> ready then (None, s)
          else (case completeCommercialRecoveryAfterReset (ah_gate x) (opt_str (rm_recycleRequestedToken m)) (ac_now x div 1000)
                  (ac_replace x (ag_calls s)) t of
            (False, t) \<Rightarrow> (None, counted (s\<lparr>ag_gate := Some t\<rparr>))
          | (True, t) \<Rightarrow> (Some True, recovery_released (telling (Af_recovered (rm_recycleId m)) (counted (s\<lparr>ag_gate := Some t\<rparr>))))))"

definition ready_after_recycle :: "agent_call \<Rightarrow> agent \<Rightarrow> bool option \<times> agent" where
  "ready_after_recycle x s = (case ag_pendingCompletion s of
     None \<Rightarrow> (Some False, s)
   | Some expected \<Rightarrow>
       if ag_status s \<noteq> Some ''ready'' then (Some False, s)
       else case recovery_required x s of
         (False, s) \<Rightarrow> (Some False, s)
       | (True, s) \<Rightarrow> (case (replacement_proved x expected s, ag_gate s) of
           (Some m, Some t) \<Rightarrow> recovery_completed x m t (s\<lparr>ag_pendingCompletion := Some m\<rparr>)
         | _ \<Rightarrow> (None, s)))"

text \<open>Whether the command in execution is the one that the marker's recycle was for.\<close>

definition belongs_to :: "marker option \<Rightarrow> command option \<Rightarrow> bool" where
  "belongs_to m c = (case m of
     None \<Rightarrow> True
   | Some m \<Rightarrow> (case (c, normalizeRecycleToken (opt_str (rm_recycleRequestedToken m))) of
       (Some c, Some token) \<Rightarrow> recycles (cm_commandType c) \<and> normalizeRecycleToken (JStr (cm_instanceCommandId c)) = Some token
     | _ \<Rightarrow> False))"

definition correlated :: "marker option \<Rightarrow> agent \<Rightarrow> command option" where
  "correlated m s = (if belongs_to m (ag_active s) then ag_active s else None)"

definition finishes :: "marker option \<Rightarrow> agent \<Rightarrow> command option" where
  "finishes m s = (case correlated m s of
     Some c \<Rightarrow> if ag_commandConfirmed s \<and> recycles (cm_commandType c) then Some c else None | None \<Rightarrow> None)"

definition marker_meta :: "marker option \<Rightarrow> command option \<Rightarrow> (string \<times> jsval) list" where
  "marker_meta m c =
     [(''recycleId'', opt_str (map_option rm_recycleId m)), (''recycleReason'', opt_str (map_option rm_reason m)),
      (''recycleRequestedAtUtc'', opt_str (map_option rm_requestedAtUtc m)),
      (''recycleRequestedToken'', opt_str (Option.bind m rm_recycleRequestedToken)),
      (''sessionRequestId'', opt_str (or_else (Option.bind c cm_sessionRequestId) (Option.bind m rm_sessionRequestId))),
      (''userSessionId'', opt_str (Option.bind m rm_userSessionId)), (''sessionId'', opt_str (Option.bind m rm_sessionId))]"

definition update_meta :: "status_update \<Rightarrow> (string \<times> jsval) list" where
  "update_meta u =
     [(''status'', opt_str (normalizeOptionalText (JStr (su_status u)))), (''reason'', opt_str (opt_text_of (su_reason u))),
      (''source'', opt_str (su_source u)), (''version'', opt_str (su_version u))]"

text \<open>The time of completion is written to the marker before it is reported, once.\<close>

definition completion_stamped :: "agent_call \<Rightarrow> agent \<Rightarrow> (bool \<times> marker option) \<times> agent" where
  "completion_stamped x s = (case ag_pendingCompletion s of
     None \<Rightarrow> ((True, None), s)
   | Some m \<Rightarrow>
       if rm_resetCompletedAtUtc m \<notin> {None, Some []} then ((True, Some m), s)
       else (case writeMarker (dates x) (utc_text x) (ac_replace x (ag_calls s))
               (marker_value (m\<lparr>rm_resetCompletedAtUtc := Some (iso_now x)\<rparr>)) (ag_markerFile s) of
         (Inl e, f) \<Rightarrow> ((False, None), counted (s\<lparr>ag_markerFile := f\<rparr>))
       | (Inr m, f) \<Rightarrow> ((True, Some m), counted (s\<lparr>ag_markerFile := f\<rparr>))))"

definition reset_completes :: "agent_call \<Rightarrow> status_update \<Rightarrow> agent \<Rightarrow> bool \<times> agent" where
  "reset_completes x u s = (case completion_stamped x s of
     ((False, m), s) \<Rightarrow> (False, s)
   | ((True, m), s) \<Rightarrow>
       let c = correlated m s; finishing = finishes m s;
           s = s\<lparr>ag_resetInProgress := False, ag_pendingCompletion := None,
                 ag_awaitingAck := (if m = None then ag_awaitingAck s else m)\<rparr>;
           s = queueEvent x ''reset_completed'' (update_meta u @ marker_meta m c) None (Option.bind m rm_resetCompletedAtUtc) s in
       (True, case finishing of Some c \<Rightarrow> post_begins False (Post_complete (cm_instanceCommandId c)) s | None \<Rightarrow> s))"

definition cancel_message :: "string option \<Rightarrow> string" where
  "cancel_message status = ''Runtime entered '' @ [CHR 39] @ (case status of Some t \<Rightarrow> t | None \<Rightarrow> [])
     @ [CHR 39] @ '' before recycle completion.''"

definition reset_cancelled :: "agent_call \<Rightarrow> status_update \<Rightarrow> agent \<Rightarrow> agent" where
  "reset_cancelled x u s =
     (let m = ag_pendingCompletion s; c = correlated m s; finishing = finishes m s;
          s = s\<lparr>ag_resetInProgress := False, ag_pendingCompletion := None\<rparr>;
          s = (case m of
            None \<Rightarrow> s
          | Some m \<Rightarrow> (case clearMarker (dates x) (utc_text x) (ac_unlink x (ag_calls s)) (JStr (rm_recycleId m)) (ag_markerFile s) of
              (ok, f) \<Rightarrow> telling (Af_marker_cancelled (rm_recycleId m)) (counted (s\<lparr>ag_markerFile := f\<rparr>))));
          s = queueEvent x ''reset_cancelled'' (update_meta u @ marker_meta m c) None None s in
      case finishing of Some c \<Rightarrow> post_begins False (Post_fail (cm_instanceCommandId c) ''reset_cancelled''
            (Some (cancel_message (ag_status s)))) s | None \<Rightarrow> s)"

definition status_event :: "string option \<Rightarrow> string" where
  "status_event status =
     (if status = Some ''ready'' then ''runtime_ready''
      else if status \<in> Some ` {''resetting'', ''idle_shutdown_pending'', ''stopping''} then the status
      else ''runtime_status_changed'')"

text \<open>What a change of the status does, after the early returns; \<open>False\<close> is one more.\<close>

definition status_acts :: "agent_call \<Rightarrow> status_update \<Rightarrow> agent \<Rightarrow> bool \<times> agent" where
  "status_acts x u s =
     (let resetting = (ag_resetInProgress s \<or> ag_pendingCompletion s \<noteq> None) in
      if ag_status s = Some ''resetting'' \<and> \<not> ag_resetInProgress s
      then (True, queueEvent x ''reset_started''
        (update_meta u @ [(''sessionRequestId'', opt_str (Option.bind (ag_active s) cm_sessionRequestId))]) None None
        (s\<lparr>ag_resetInProgress := True\<rparr>))
      else if resetting \<and> ag_status s = Some ''ready'' then reset_completes x u s
      else if resetting \<and> ag_status s \<in> Some ` {''stopping'', ''idle_shutdown_pending''} then (True, reset_cancelled x u s)
      else (True, s))"

text \<open>\<open>same\<close>: neither the status nor its reason has changed.\<close>

definition status_continues :: "agent_call \<Rightarrow> status_update \<Rightarrow> bool \<Rightarrow> bool \<Rightarrow> agent \<Rightarrow> agent" where
  "status_continues x u same completed s =
     (let ready = (ag_status s = Some ''ready'');
          (retry, s) = (if ready \<and> ag_pendingCompletion s \<noteq> None
            then (case recovery_required x s of (r, s) \<Rightarrow> (\<not> r, s)) else (False, s)) in
      if (su_heartbeatOnly u \<or> same) \<and> \<not> completed \<and> \<not> retry then s
      else
        let (blocked, s) = (if ready \<and> (ag_resetInProgress s \<or> ag_pendingCompletion s \<noteq> None)
              then recovery_required x s else (False, s)) in
        if blocked then s
        else (case status_acts x u s of
          (False, s) \<Rightarrow> s
        | (True, s) \<Rightarrow> queueEvent x (status_event (ag_status s)) (update_meta u) None None s))"

definition recordRuntimeStatus :: "agent_call \<Rightarrow> status_update \<Rightarrow> agent \<Rightarrow> agent" where
  "recordRuntimeStatus x u s =
     (let status = normalizeOptionalText (JStr (su_status u)); reason = opt_text_of (su_reason u);
          same = (ag_status s = status \<and> ag_reason s = reason);
          s = publishRecoveryContext x (s\<lparr>ag_status := status, ag_reason := reason,
            ag_version := or_else (opt_text_of (su_version u)) (ag_version s)\<rparr>) in
      case ready_after_recycle x s of
        (None, s) \<Rightarrow> s
      | (Some completed, s) \<Rightarrow> status_continues x u same completed s)"

section \<open>The other methods\<close>

definition setReconnectGraceWindow :: "agent_call \<Rightarrow> (string \<times> string) option \<Rightarrow> agent \<Rightarrow> agent" where
  "setReconnectGraceWindow x w s = (if ag_window s = w then s else poll_fast x (s\<lparr>ag_window := w\<rparr>))"

definition evidence_appended :: "agent_call \<Rightarrow> jsval \<Rightarrow> agent \<Rightarrow> bool \<times> agent" where
  "evidence_appended x v s = (case appendEvidence (dates x) (utc_text x) (ac_sync x (ag_calls s)) (ac_replace x (ag_calls s)) v
       (ag_evidenceFile s) of
     (None, f) \<Rightarrow> (False, snd (refreshJournalHealth x (counted (s\<lparr>ag_evidenceFile := f\<rparr>))))
   | (Some es, f) \<Rightarrow>
       let s = counted (s\<lparr>ag_evidenceFile := f, ag_evidences := es, ag_cutoffThrough := 0\<rparr>) in
       (True, poll_fast x (if ag_journalBlocked s
          then updateAdmissionBlock (s\<lparr>ag_journalBlocked := False, ag_journalFailures := 0\<rparr>) else s)))"

definition recordElapsedEvidence :: "agent_call \<Rightarrow> jsval \<Rightarrow> agent \<Rightarrow> bool \<times> agent" where
  "recordElapsedEvidence x v s =
     (case (if ag_journalBlocked s then refreshJournalHealth x s else (True, s)) of
        (False, s) \<Rightarrow> (False, s)
      | (True, s) \<Rightarrow> evidence_appended x v s)"

fun client_do :: "agent_call \<Rightarrow> client_call \<Rightarrow> agent \<Rightarrow> agent" where
  "client_do x (Call_status u) s = recordRuntimeStatus x u s"
| "client_do x (Call_network kvs session) s = queueEvent x ''session_network_path'' kvs session None s"
| "client_do x (Call_window w) s = setReconnectGraceWindow x w s"
| "client_do x (Call_evidence v) s = snd (recordElapsedEvidence x v s)"
| "client_do x (Call_fast d i) s = agent_requestFastPolling x d i s"
| "client_do x (Call_acknowledge c) s = post_begins False (Post_ack c) s"
| "client_do x (Call_start c) s = post_begins False (Post_start c) s"
| "client_do x (Call_complete i) s = post_begins False (Post_complete i) s"
| "client_do x (Call_fail i code message) s = (case normalizeOptionalText (JStr code) of
     None \<Rightarrow> s | Some code \<Rightarrow> post_begins False (Post_fail i code message) s)"
| "client_do x (Call_gate op) s = s\<lparr>ag_gate := map_option (gate_do (ah_gate x) op) (ag_gate s)\<rparr>"

definition getExposedDesiredState :: "agent \<Rightarrow> desired_state" where
  "getExposedDesiredState s =
     (if ag_desiredConfirmed s then ag_desired s
      else (ag_desired s)\<lparr>ds_warmHoldEnabled := True, ds_drainEnabled := False, ds_shutdownRequested := False,
        ds_recycleRequestedToken := None,
        ds_message := Some ''Awaiting authoritative control state before local teardown may resume.''\<rparr>)"

definition getActiveCommand :: "agent \<Rightarrow> command option" where
  "getActiveCommand s = (if ag_commandConfirmed s then ag_active s else None)"

definition isReconnectGraceRecoveryRecyclePending :: "agent \<Rightarrow> bool" where
  "isReconnectGraceRecoveryRecyclePending s \<longleftrightarrow> ag_required s \<and> ag_evidences s = [] \<and> ag_pendingCompletion s = None"

end
