(* ===== verification/Agent_Client_Control.thy ===== *)
theory Agent_Client_Control
  imports Agent_Client_Calls
begin

text \<open>
  The client of the control plane, continued: what it does with a response, in the order of
  \<open>applyInstanceAgentControlResponse\<close>. Listeners are called where the code calls them and react with
  synchronous calls of the client, none of which notifies a listener again.
\<close>

definition heard :: "agent_call \<Rightarrow> agent_notice \<Rightarrow> agent \<Rightarrow> agent" where
  "heard x n s = fold (client_do x) (ac_listener x (ag_calls s) n) (counted (telling (Af_notice n) s))"

definition notifyRecoveryReady :: "agent_call \<Rightarrow> agent \<Rightarrow> agent" where
  "notifyRecoveryReady x s = (if isReconnectGraceRecoveryRecyclePending s then heard x Nt_recovery s else s)"

section \<open>Desired state\<close>

definition desired_received :: "agent_call \<Rightarrow> jsval \<Rightarrow> desired_state" where
  "desired_received x v = normalizeDesiredState
     (JObj (map_set ''receivedAtUtc'' (JStr (iso_now x)) (case v of JObj fs \<Rightarrow> fs | _ \<Rightarrow> [])))"

definition desired_differs :: "desired_state \<Rightarrow> desired_state \<Rightarrow> bool" where
  "desired_differs d e \<longleftrightarrow> ds_warmHoldEnabled d \<noteq> ds_warmHoldEnabled e \<or> ds_drainEnabled d \<noteq> ds_drainEnabled e
     \<or> ds_shutdownRequested d \<noteq> ds_shutdownRequested e \<or> ds_recycleRequestedToken d \<noteq> ds_recycleRequestedToken e
     \<or> ds_policyVersion d \<noteq> ds_policyVersion e \<or> ds_message d \<noteq> ds_message e"

definition desired_meta :: "desired_state \<Rightarrow> (string \<times> jsval) list" where
  "desired_meta d =
     [(''warmHoldEnabled'', JBool (ds_warmHoldEnabled d)), (''drainEnabled'', JBool (ds_drainEnabled d)),
      (''shutdownRequested'', JBool (ds_shutdownRequested d)), (''recycleRequestedToken'', opt_str (ds_recycleRequestedToken d)),
      (''policyVersion'', JStr (ds_policyVersion d)), (''message'', opt_str (ds_message d))]"

definition applyDesiredState :: "agent_call \<Rightarrow> jsval \<Rightarrow> string \<Rightarrow> agent \<Rightarrow> agent" where
  "applyDesiredState x v source s =
     (let next = desired_received x v; changed = desired_differs next (ag_desired s); confirmed = ag_desiredConfirmed s;
          (d, f) = writeDesiredState (ac_plain x (ag_calls s)) (desired_value next) (ag_desiredFile s);
          s = counted (s\<lparr>ag_desired := d, ag_desiredFile := f, ag_desiredConfirmed := True\<rparr>);
          s = (if changed then queueEvent x ''desired_state_updated'' (desired_meta next) None None s else s);
          s = (if changed \<or> \<not> confirmed then heard x (Nt_desired source) s else s) in
      if ag_deferred s \<and> \<not> ag_teardownObserved s \<and> ag_active s = None \<and> \<not> ds_shutdownRequested (ag_desired s)
         \<and> ds_recycleRequestedToken (ag_desired s) = None
      then notifyRecoveryReady x (recovery_demanded (s\<lparr>ag_deferred := False\<rparr>))
      else if \<not> confirmed \<and> ag_required s then notifyRecoveryReady x s
      else s)"

section \<open>Commands\<close>

definition invalidateRecoveredCommand :: "agent_call \<Rightarrow> string \<Rightarrow> agent \<Rightarrow> agent" where
  "invalidateRecoveredCommand x i s =
     (let s = (if is_active i s then clearActiveCommand x s else s) in
      poll_fast x (recovery_demanded (s\<lparr>ag_deferred := False, ag_desiredConfirmed := False\<rparr>)))"

definition deliverable :: "agent_call \<Rightarrow> jsval list \<Rightarrow> order list" where
  "deliverable x vs = filter (\<lambda>c. \<not> isCommandExpired (dates x) (opt_str (oo_timeoutAtUtc c)) (ac_now x))
     (List.map_filter normalizeOrder vs)"

text \<open>The active command, when the control plane does not list it any more.\<close>

definition active_unlisted :: "agent_call \<Rightarrow> command \<Rightarrow> agent \<Rightarrow> agent" where
  "active_unlisted x c s =
     (if \<not> tears_down (order_of c) then clearActiveCommand x s
      else case (if recycles (cm_commandType c) then command_token_status x (cm_instanceCommandId c) s else Open_token) of
        Completed \<Rightarrow> clearActiveCommand x s
      | Unavailable \<Rightarrow> poll_fast x s
      | Open_token \<Rightarrow> invalidateRecoveredCommand x (cm_instanceCommandId c) s)"

definition active_checked :: "agent_call \<Rightarrow> order list \<Rightarrow> agent \<Rightarrow> agent" where
  "active_checked x cs s = (case ag_active s of
     None \<Rightarrow> s
   | Some c \<Rightarrow>
       if cm_instanceCommandId c \<in> oo_instanceCommandId ` set cs then s\<lparr>ag_commandConfirmed := True\<rparr> else active_unlisted x c s)"

definition command_meta :: "order \<Rightarrow> (string \<times> jsval) list" where
  "command_meta c =
     [(''instanceCommandId'', JStr (oo_instanceCommandId c)), (''commandType'', JStr (oo_commandType c)),
      (''idempotencyKey'', JStr (oo_idempotencyKey c)), (''sessionRequestId'', opt_str (oo_sessionRequestId c)),
      (''timeoutAtUtc'', opt_str (oo_timeoutAtUtc c))]"

definition command_delivered :: "agent_call \<Rightarrow> string \<Rightarrow> order \<Rightarrow> agent \<Rightarrow> agent" where
  "command_delivered x source c s =
     (let s = (if shuts_down (oo_commandType c) then s\<lparr>ag_lastShutdownRequest := opt_text_of (oo_sessionRequestId c)\<rparr> else s) in
      heard x (Nt_command c source) (queueEvent x ''instance_command_received'' (command_meta c) None None s))"

definition applyCommands :: "agent_call \<Rightarrow> jsval \<Rightarrow> string \<Rightarrow> agent \<Rightarrow> agent" where
  "applyCommands x v source s = (case v of
     JArr vs \<Rightarrow>
       let cs = deliverable x vs in
       fold (command_delivered x source) cs
         (active_checked x cs (s\<lparr>ag_teardownObserved := list_ex tears_down cs\<rparr>))
   | _ \<Rightarrow> s)"

section \<open>Evidence\<close>

definition evidence_acknowledged :: "agent_call \<Rightarrow> elapsed_evidence \<Rightarrow> agent \<Rightarrow> agent" where
  "evidence_acknowledged x e s =
     (case teardown_marked x ''reconnect_grace_elapsed_evidence_acknowledged'' (iso_now x) s of
        (False, s) \<Rightarrow> s
      | (True, s) \<Rightarrow>
          let s = recovery_demanded (s\<lparr>ag_cutoffThrough :=
                (case dates x (iso_now x) of Some t \<Rightarrow> max (ag_cutoffThrough s) t | None \<Rightarrow> ag_cutoffThrough s)\<rparr>);
              (remaining, f) = removeAcknowledged (dates x) (utc_text x) (ac_replace x (ag_calls s)) (ac_unlink x (ag_calls s))
                (JStr (ev_evidenceId e)) (ag_evidenceFile s);
              s = telling (Af_acknowledged (ev_evidenceId e)) (counted (s\<lparr>ag_evidenceFile := f\<rparr>)) in
          (case remaining of
             None \<Rightarrow> snd (refreshJournalHealth x s)
           | Some es \<Rightarrow>
               if list_ex (with_id (ev_evidenceId e)) es then snd (refreshJournalHealth x s)
               else
                 let s = s\<lparr>ag_evidences := es, ag_noAck := map_delete (ev_evidenceId e) (ag_noAck s)\<rparr> in
                 if es \<noteq> [] then poll_fast x s else notifyRecoveryReady x s))"

definition evidence_retried :: "agent_call \<Rightarrow> elapsed_evidence \<Rightarrow> agent \<Rightarrow> agent" where
  "evidence_retried x e s =
     (let i = ev_evidenceId e;
          s = s\<lparr>ag_noAck := map_set i ((case map_get (ag_noAck s) i of Some n \<Rightarrow> n | None \<Rightarrow> 0) + 1) (ag_noAck s)\<rparr> in
      case rotateAfterAttempt (dates x) (utc_text x) (ac_replace x (ag_calls s)) (JStr i) (ag_evidenceFile s) of
        (None, f) \<Rightarrow> snd (refreshJournalHealth x (counted (s\<lparr>ag_evidenceFile := f\<rparr>)))
      | (Some es, f) \<Rightarrow>
          let s = counted (s\<lparr>ag_evidenceFile := f, ag_evidences := es\<rparr>) in if 1 < length es then poll_fast x s else s)"

definition handleEvidenceResponse :: "agent_call \<Rightarrow> elapsed_evidence option \<Rightarrow> jsval \<Rightarrow> agent \<Rightarrow> agent" where
  "handleEvidenceResponse x submitted acknowledged s = (case submitted of
     None \<Rightarrow> s
   | Some e \<Rightarrow>
       if normalizeOptionalText acknowledged = Some (ev_evidenceId e) then evidence_acknowledged x e s else evidence_retried x e s)"

section \<open>A response\<close>

text \<open>\<open>acceptControlResponse\<close>: responses may arrive in another order than their requests were made.\<close>

definition control_accepted :: "nat \<Rightarrow> agent \<Rightarrow> bool \<times> agent" where
  "control_accepted n s = (if n < ag_applied s then (False, s) else (True, telling (Af_control n) (s\<lparr>ag_applied := n\<rparr>)))"

definition applyControlResponse :: "agent_call \<Rightarrow> bool \<Rightarrow> jsval \<Rightarrow> string \<Rightarrow> elapsed_evidence option \<Rightarrow> agent \<Rightarrow> agent" where
  "applyControlResponse x apply v source submitted s =
     (let s = (if apply then applyDesiredState x (fld v ''desiredState'') source (applyCommands x (fld v ''commands'') source s) else s) in
      handleEvidenceResponse x submitted (fld v ''acknowledgedReconnectGraceElapsedEvidenceId'') s)"

text \<open>The interval is taken in whole milliseconds, as a timer takes it.\<close>

definition heartbeat_interval :: "agent_call \<Rightarrow> bool \<Rightarrow> jsval \<Rightarrow> agent \<Rightarrow> agent" where
  "heartbeat_interval x apply v s = (case fld v ''heartbeatIntervalSeconds'' of
     JNum (Fin q) \<Rightarrow> if apply \<and> ah_explicitHeartbeatMs x \<le> 0 \<and> 0 < q then scheduleHeartbeat x \<lfloor>q * 1000\<rfloor> s else s
   | _ \<Rightarrow> s)"

definition control_response :: "agent_call \<Rightarrow> nat \<Rightarrow> jsval \<Rightarrow> string \<Rightarrow> elapsed_evidence option \<Rightarrow> agent \<Rightarrow> agent" where
  "control_response x n v source submitted s =
     (case control_accepted n s of (apply, s) \<Rightarrow>
        heartbeat_interval x apply v (applyControlResponse x apply v source submitted s))"

end
