(* ===== verification/Agent_Client_Requests.thy ===== *)
theory Agent_Client_Requests
  imports Agent_Client_Control
begin

text \<open>
  The client of the control plane, continued: its requests. Each \<open>await\<close> ends a step; the function goes
  on as a task when what it waits for has come. A reply is a failure of the request, a refusal of the
  token (status 401), or a payload.
\<close>

datatype reply = Failed | Refused | Replied jsval

text \<open>What \<open>authorizedFetch\<close> does with the token; \<open>None\<close> is an exception.\<close>

definition reply_taken :: "jsval \<Rightarrow> reply \<Rightarrow> agent \<Rightarrow> jsval option \<times> agent" where
  "reply_taken token r s = (case r of
     Failed \<Rightarrow> (None, s)
   | Refused \<Rightarrow> (None, if ag_token s = token then s\<lparr>ag_token := JNull\<rparr> else s)
   | Replied v \<Rightarrow> (if v = JNull then None else Some v, s))"

section \<open>Bootstrap and heartbeat\<close>

definition window_for_report :: "agent_call \<Rightarrow> agent \<Rightarrow> (string \<times> string) option" where
  "window_for_report x s = (case ag_window s of
     None \<Rightarrow> None
   | Some (d, e) \<Rightarrow>
       if ag_players s \<noteq> [] \<or> map_option to_lower (opt_text_of (ag_status s)) \<notin> Some ` {''reconnect_grace'', ''idle_shutdown_pending''}
          \<or> dates x d = None \<or> dates x e = None \<or> not_after (dates x) e d
       then None else Some (d, e))"

text \<open>A report: the first evidence goes with it, and Ready is reported only without a pending recovery.\<close>

definition report_sent :: "agent_call \<Rightarrow> agent \<Rightarrow> agent" where
  "report_sent x s =
     telling (Af_reported (ag_status s = Some ''ready'' \<and> \<not> ag_required s)
         (case ag_evidences s of [] \<Rightarrow> None | e # es \<Rightarrow> Some e) (ag_sequence s + 1))
       (s\<lparr>ag_window := window_for_report x s, ag_sequence := ag_sequence s + 1\<rparr>)"

abbreviation first_evidence :: "agent \<Rightarrow> elapsed_evidence option" where
  "first_evidence s \<equiv> (case ag_evidences s of [] \<Rightarrow> None | e # es \<Rightarrow> Some e)"

definition bootstrap_identified :: "agent_call \<Rightarrow> bool \<Rightarrow> agent \<Rightarrow> agent" where
  "bootstrap_identified x known s =
     (if known then awaiting (Tk_bootstrapped (first_evidence s) (ag_sequence s + 1)) (report_sent x s)
      else s\<lparr>ag_bootstrapping := False\<rparr>)"

definition bootstrap_replied :: "agent_call \<Rightarrow> elapsed_evidence option \<Rightarrow> nat \<Rightarrow> reply \<Rightarrow> agent \<Rightarrow> agent" where
  "bootstrap_replied x submitted n r s = (case r of
     Replied v \<Rightarrow>
       if v = JNull then s\<lparr>ag_bootstrapping := False\<rparr>
       else (control_response x n v ''bootstrap'' submitted (s\<lparr>ag_token := fld v ''agentToken''\<rparr>))\<lparr>ag_bootstrapping := False\<rparr>
   | _ \<Rightarrow> s\<lparr>ag_bootstrapping := False\<rparr>)"

text \<open>After \<open>ensureBootstrap\<close>: without a token every request fails at once.\<close>

definition tick_bootstrapped :: "agent \<Rightarrow> agent" where
  "tick_bootstrapped s =
     (if truthy (ag_token s) then awaiting Tk_tick_identity s
      else if ag_bootstrapping s then awaiting Tk_tick s else s\<lparr>ag_tickInFlight := False\<rparr>)"

definition heartbeat_identified :: "agent_call \<Rightarrow> bool \<Rightarrow> agent \<Rightarrow> agent" where
  "heartbeat_identified x known s =
     (if \<not> known then s\<lparr>ag_tickInFlight := False\<rparr>
      else if truthy (ag_token s)
      then awaiting (Tk_heartbeat (first_evidence s) (ag_sequence s + 1) (ag_token s)) (report_sent x s)
      else s\<lparr>ag_window := window_for_report x s, ag_sequence := ag_sequence s + 1, ag_tickInFlight := False\<rparr>)"

definition ensureCompletionQueued :: "agent_call \<Rightarrow> agent \<Rightarrow> agent" where
  "ensureCompletionQueued x s = (case ag_awaitingAck s of
     None \<Rightarrow> s
   | Some m \<Rightarrow>
       if list_ex (\<lambda>e. ae_type e = ''reset_completed'' \<and> map_get (ae_metadata e) ''recycleId'' = Some (rm_recycleId m)) (ag_events s)
       then s
       else queueEvent x ''reset_completed''
         ([(''status'', JStr ''ready''), (''reason'', JStr ''reset_completed_event_ack_retry''),
           (''source'', JStr ''instance_agent_recovery''), (''version'', opt_str (ag_version s))] @ marker_meta (Some m) None)
         (rm_sessionId m) (rm_resetCompletedAtUtc m) s)"

definition tryClearMarker :: "agent_call \<Rightarrow> agent \<Rightarrow> agent" where
  "tryClearMarker x s = (case ag_toClear s of
     None \<Rightarrow> s
   | Some m \<Rightarrow> (case clearMarker (dates x) (utc_text x) (ac_unlink x (ag_calls s)) (JStr (rm_recycleId m)) (ag_markerFile s) of
       (ok, f) \<Rightarrow> telling (Af_marker_cleared (rm_recycleId m))
         (counted (s\<lparr>ag_markerFile := f, ag_toClear := (if ok then None else Some m)\<rparr>))))"

definition flush_begins :: "agent \<Rightarrow> agent" where
  "flush_begins s =
     (if ag_flushInFlight s \<or> \<not> truthy (ag_token s) then s else awaiting Tk_flush (s\<lparr>ag_flushInFlight := True\<rparr>))"

definition requestCommandRecovery :: "agent \<Rightarrow> agent" where
  "requestCommandRecovery s =
     (if ag_recoveryInFlight s then s else awaiting Tk_worker (s\<lparr>ag_recoveryInFlight := True\<rparr>))"

definition heartbeat_replied :: "agent_call \<Rightarrow> elapsed_evidence option \<Rightarrow> nat \<Rightarrow> jsval \<Rightarrow> reply \<Rightarrow> agent \<Rightarrow> agent" where
  "heartbeat_replied x submitted n token r s = (case reply_taken token r s of
     (None, s) \<Rightarrow> s\<lparr>ag_tickInFlight := False\<rparr>
   | (Some v, s) \<Rightarrow>
       (tryClearMarker x (requestCommandRecovery (flush_begins (ensureCompletionQueued x
         (control_response x n v ''heartbeat'' submitted s)))))\<lparr>ag_tickInFlight := False\<rparr>)"

section \<open>Events\<close>

text \<open>The batch is filled up with the recovery's evidence first, known by its ids.\<close>

definition flush_identified :: "agent_call \<Rightarrow> bool \<Rightarrow> string list \<Rightarrow> agent \<Rightarrow> agent" where
  "flush_identified x known faults s =
     (let faults = take max_pending_events faults; es = take (max_pending_events - length faults) (ag_events s) in
      if \<not> known \<or> (faults = [] \<and> es = []) then s\<lparr>ag_flushInFlight := False\<rparr>
      else if truthy (ag_token s)
      then awaiting (Tk_flushed faults es (ag_sequence s + 1) (ag_token s)) (s\<lparr>ag_sequence := ag_sequence s + 1\<rparr>)
      else s\<lparr>ag_sequence := ag_sequence s + 1, ag_flushInFlight := False\<rparr>)"

definition events_accepted :: "nat \<Rightarrow> string list \<Rightarrow> agent_event list \<Rightarrow> agent \<Rightarrow> agent" where
  "events_accepted n faults es s =
     (let accepted = take (n - length faults) es in
      telling (Af_faults_acknowledged (take n faults)) (fold (\<lambda>e s. telling (Af_accepted e) s) accepted
        (s\<lparr>ag_events := filter (\<lambda>e. ae_number e \<notin> ae_number ` set accepted) (ag_events s)\<rparr>)))"

definition completes_reset :: "agent_event list \<Rightarrow> marker \<Rightarrow> bool" where
  "completes_reset es m \<longleftrightarrow>
     list_ex (\<lambda>e. ae_type e = ''reset_completed'' \<and> map_get (ae_metadata e) ''recycleId'' = Some (rm_recycleId m)) es"

text \<open>The completion of a recycle was accepted: is its token still asked for?\<close>

definition needs_reconciliation :: "bool \<Rightarrow> jsval \<Rightarrow> marker \<Rightarrow> agent \<Rightarrow> bool" where
  "needs_reconciliation apply v m s =
     (let token = normalizeRecycleToken (opt_str (rm_recycleRequestedToken m)) in
      token \<noteq> None \<and> token = normalizeRecycleToken
        (if apply then fld (fld v ''desiredState'') ''recycleRequestedToken'' else opt_str (ds_recycleRequestedToken (ag_desired s))))"

definition events_response :: "agent_call \<Rightarrow> bool \<Rightarrow> jsval \<Rightarrow> agent_event list \<Rightarrow> agent \<Rightarrow> agent" where
  "events_response x apply v accepted s =
     (let completed = (case ag_awaitingAck s of
            Some m \<Rightarrow> if completes_reset accepted m then Some m else None | None \<Rightarrow> None);
          again = (case completed of None \<Rightarrow> False | Some m \<Rightarrow> needs_reconciliation apply v m s);
          s = (if completed \<noteq> None \<and> \<not> again then tryClearMarker x (s\<lparr>ag_toClear := completed, ag_awaitingAck := None\<rparr>) else s);
          s = (if apply then applyDesiredState x (fld v ''desiredState'') ''events'' (applyCommands x (fld v ''commands'') ''events'' s)
               else s) in
      if again then poll_fast x (ensureCompletionQueued x s) else s)"

definition events_replied :: "agent_call \<Rightarrow> string list \<Rightarrow> agent_event list \<Rightarrow> nat \<Rightarrow> jsval \<Rightarrow> reply \<Rightarrow> agent \<Rightarrow> agent" where
  "events_replied x faults es n token r s = (case reply_taken token r s of
     (None, s) \<Rightarrow> s\<lparr>ag_flushInFlight := False\<rparr>
   | (Some v, s) \<Rightarrow> (case safe_int (fld v ''acceptedCount'') of
       None \<Rightarrow> s\<lparr>ag_flushInFlight := False\<rparr>
     | Some k \<Rightarrow>
         if k < 0 then s\<lparr>ag_flushInFlight := False\<rparr>
         else (case control_accepted n (events_accepted (nat k) faults es s) of (apply, s) \<Rightarrow>
           (events_response x apply v (take (nat k - length faults) es) s)\<lparr>ag_flushInFlight := False\<rparr>)))"

section \<open>Commands\<close>

record transition =
  tr_accepted :: bool
  tr_commandStatus :: string
  tr_recordedAtUtc :: string

definition transition_of :: "agent_call \<Rightarrow> jsval \<Rightarrow> transition" where
  "transition_of x v =
     \<lparr>tr_accepted = (fld v ''accepted'' = JBool True),
      tr_commandStatus = (case normalizeOptionalText (fld v ''commandStatus'') of Some t \<Rightarrow> t | None \<Rightarrow> ''Unknown''),
      tr_recordedAtUtc = (case normalizeOptionalText (fld v ''recordedAtUtc'') of Some t \<Rightarrow> t | None \<Rightarrow> iso_now x)\<rparr>"

definition transition_meta :: "string \<Rightarrow> string option \<Rightarrow> transition \<Rightarrow> agent \<Rightarrow> (string \<times> jsval) list" where
  "transition_meta i ctype r s =
     [(''instanceCommandId'', JStr i), (''commandType'', opt_str ctype), (''commandStatus'', JStr (tr_commandStatus r)),
      (''attemptNumber'', opt_int (map_option cm_attemptNumber (ag_active s)))]"

definition execution_answered :: "agent_call \<Rightarrow> order \<Rightarrow> command_status \<Rightarrow> string \<Rightarrow> transition \<Rightarrow> agent \<Rightarrow> agent" where
  "execution_answered x c status type r s =
     (if tr_accepted r
      then
        let s = persistActiveCommand x c status (tr_recordedAtUtc r) s in
        queueEvent x type (transition_meta (oo_instanceCommandId c) (Some (oo_commandType c)) r s) None None s
      else case open_status (tr_commandStatus r) of
        Some st \<Rightarrow> persistActiveCommand x c st (tr_recordedAtUtc r) s
      | None \<Rightarrow> invalidateRecoveredCommand x (oo_instanceCommandId c) s)"

definition command_ended :: "agent_call \<Rightarrow> string \<Rightarrow> string \<Rightarrow> (string \<times> jsval) list \<Rightarrow> transition \<Rightarrow> agent \<Rightarrow> agent" where
  "command_ended x i type meta r s =
     (if tr_accepted r \<or> isTerminalCommandStatus (tr_commandStatus r)
      then
        let s = queueEvent x type ([(''instanceCommandId'', JStr i), (''commandStatus'', JStr (tr_commandStatus r))] @ meta) None None s in
        if is_active i s then clearActiveCommand x s else s
      else s)"

fun posting_answered :: "agent_call \<Rightarrow> posting \<Rightarrow> transition \<Rightarrow> agent \<Rightarrow> agent" where
  "posting_answered x (Post_ack c) r s = execution_answered x c Acked ''instance_command_acknowledged'' r s"
| "posting_answered x (Post_start c) r s = execution_answered x c Running ''instance_command_started'' r s"
| "posting_answered x (Post_complete i) r s = command_ended x i ''instance_command_completed'' [] r s"
| "posting_answered x (Post_fail i code message) r s =
     command_ended x i ''instance_command_failed'' [(''failureCode'', JStr code), (''failureMessage'', opt_str message)] r s"

text \<open>The worker that goes on with a recovered recycle command.\<close>

definition worker_starts :: "agent \<Rightarrow> command option" where
  "worker_starts s = (case (ag_active s, ag_pendingCompletion s) of
     (Some c, Some m) \<Rightarrow>
       let token = normalizeRecycleToken (opt_str (rm_recycleRequestedToken m)) in
       if ag_commandConfirmed s \<and> recycles (cm_commandType c) \<and> cm_status c = Acked \<and> token \<noteq> None
          \<and> normalizeRecycleToken (JStr (cm_instanceCommandId c)) = token
       then Some c else None
   | _ \<Rightarrow> None)"

definition worker_may_finish :: "agent_call \<Rightarrow> command \<Rightarrow> agent \<Rightarrow> bool" where
  "worker_may_finish x c s \<longleftrightarrow> is_active (cm_instanceCommandId c) s \<and> ag_commandConfirmed s \<and> \<not> ag_resetInProgress s
     \<and> ag_pendingCompletion s = None \<and> ag_players s = []
     \<and> (case ag_status s of None \<Rightarrow> False | Some t \<Rightarrow> to_lower (trim t) = ''ready'')
     \<and> command_token_status x (cm_instanceCommandId c) s = Completed"

definition worker_finishes :: "agent_call \<Rightarrow> agent \<Rightarrow> agent" where
  "worker_finishes x s = (case ag_active s of
     Some c \<Rightarrow>
       if recycles (cm_commandType c) \<and> ag_recoveredCommandId s = Some (cm_instanceCommandId c) \<and> cm_status c = Running
          \<and> worker_may_finish x c s
       then awaiting (Tk_worker_captured c) s else s\<lparr>ag_recoveryInFlight := False\<rparr>
   | None \<Rightarrow> s\<lparr>ag_recoveryInFlight := False\<rparr>)"

definition worker_begins :: "agent_call \<Rightarrow> agent \<Rightarrow> agent" where
  "worker_begins x s = (case worker_starts s of
     Some c \<Rightarrow> post_begins True (Post_start (order_of c)) s | None \<Rightarrow> worker_finishes x s)"

definition worker_captured :: "agent_call \<Rightarrow> command \<Rightarrow> agent \<Rightarrow> agent" where
  "worker_captured x c s =
     (if worker_may_finish x c s then post_begins True (Post_complete (cm_instanceCommandId c)) s
      else s\<lparr>ag_recoveryInFlight := False\<rparr>)"

definition posting_ends :: "agent_call \<Rightarrow> bool \<Rightarrow> posting \<Rightarrow> agent \<Rightarrow> agent" where
  "posting_ends x worker p s =
     (if \<not> worker then s
      else case p of Post_start c \<Rightarrow> worker_finishes x s | _ \<Rightarrow> s\<lparr>ag_recoveryInFlight := False\<rparr>)"

definition post_bootstrapped :: "agent_call \<Rightarrow> bool \<Rightarrow> posting \<Rightarrow> agent \<Rightarrow> agent" where
  "post_bootstrapped x worker p s =
     (if truthy (ag_token s) then awaiting (Tk_posted worker p (ag_token s)) s
      else if ag_bootstrapping s then awaiting (Tk_post worker p) s else posting_ends x worker p s)"

definition post_replied :: "agent_call \<Rightarrow> bool \<Rightarrow> posting \<Rightarrow> jsval \<Rightarrow> reply \<Rightarrow> agent \<Rightarrow> agent" where
  "post_replied x worker p token r s = (case reply_taken token r s of
     (None, s) \<Rightarrow> posting_ends x worker p s
   | (Some v, s) \<Rightarrow> posting_ends x worker p (posting_answered x p (transition_of x v) s))"

end
