(* ===== verification/Agent_Client_System.thy ===== *)
theory Agent_Client_System
  imports Agent_Client_Requests
begin

text \<open>
  The whole client of the control plane: its start, its events and its runs. Beside its own steps a run
  has those of its surroundings: the registry of players, the users of the client and of the gate, and the
  recycle helper, which replaces the marker file. Players of the registry carry what the ticket check
  left on them.
\<close>

section \<open>Players\<close>

definition readPlayerContext :: "string \<Rightarrow> agent \<Rightarrow> session_context" where
  "readPlayerContext p s = (case Option.bind (normalizeOptionalText (JStr p)) (map_get (ag_players s)) of
     None \<Rightarrow> \<lparr>sc_sessionId = None, sc_sessionRequestId = None\<rparr>
   | Some v \<Rightarrow>
       \<lparr>sc_sessionId = (if vw_identityValidated v \<and> vw_activeValidated v then opt_text_of (vw_sessionId v) else None),
        sc_sessionRequestId = (if vw_identityValidated v then opt_text_of (vw_sessionRequestId v) else None)\<rparr>)"

definition has_context :: "session_context \<Rightarrow> bool" where
  "has_context c \<longleftrightarrow> or_else (sc_sessionId c) (sc_sessionRequestId c) \<notin> {None, Some []}"

definition rememberContext :: "session_context \<Rightarrow> agent \<Rightarrow> agent" where
  "rememberContext c s =
     (let i = opt_text_of (sc_sessionId c); r = opt_text_of (sc_sessionRequestId c) in
      if i = None \<and> r = None then s
      else s\<lparr>ag_lastContext := \<lparr>sc_sessionId = or_else i (sc_sessionId (ag_lastContext s)),
        sc_sessionRequestId = or_else r (sc_sessionRequestId (ag_lastContext s))\<rparr>\<rparr>)"

definition context_meta :: "session_context \<Rightarrow> (string \<times> jsval) list" where
  "context_meta c = [(''sessionId'', opt_str (sc_sessionId c)), (''sessionRequestId'', opt_str (sc_sessionRequestId c))]"

definition player_event :: "agent_call \<Rightarrow> string \<Rightarrow> string \<Rightarrow> int \<Rightarrow> (string \<times> jsval) list \<Rightarrow> session_context \<Rightarrow> agent \<Rightarrow> agent" where
  "player_event x type p n meta c s = queueEvent x type
     ([(''playerId'', JStr p), (''viewerCount'', num_of_int n)] @ meta @ context_meta c)
     (or_else (sc_sessionId c) (sc_sessionRequestId c)) None s"

definition player_added :: "agent_call \<Rightarrow> string \<Rightarrow> agent \<Rightarrow> agent" where
  "player_added x p s =
     (let c = readPlayerContext p s; i = normalizeOptionalText (JStr p);
          s = (case i of
            None \<Rightarrow> s
          | Some i \<Rightarrow>
              if has_context c then rememberContext c (s\<lparr>ag_contexts := map_set i c (ag_contexts s)\<rparr>)
              else s\<lparr>ag_contexts := map_delete i (ag_contexts s)\<rparr>) in
      poll_fast x (player_event x ''viewer_connected'' p (int (length (ag_players s))) [] c s))"

text \<open>What the page says it can prove, and the media it has received.\<close>

definition player_evidence :: "agent_call \<Rightarrow> string \<Rightarrow> string \<Rightarrow> (string \<times> jsval) list \<Rightarrow> agent \<Rightarrow> agent" where
  "player_evidence x type p meta s =
     (let c = readPlayerContext p s in
      if \<not> has_context c then s else poll_fast x (player_event x type p (int (length (ag_players s))) meta c s))"

text \<open>Queued summaries of the same connection are replaced; others have room kept for them.\<close>

definition superseded_by :: "jsval \<Rightarrow> agent_event \<Rightarrow> bool" where
  "superseded_by connection e \<longleftrightarrow> ae_type e = ''viewer_quality_summary'' \<and> opt_str (map_get (ae_metadata e) ''connectionId'') = connection"

definition quality_replaced :: "jsval \<Rightarrow> agent \<Rightarrow> agent" where
  "quality_replaced connection s =
     fold (\<lambda>e s. telling (Af_replaced e) s) (filter (superseded_by connection) (ag_events s))
       (s\<lparr>ag_events := filter (\<lambda>e. \<not> superseded_by connection e) (ag_events s)\<rparr>)"

definition player_quality :: "agent_call \<Rightarrow> string \<Rightarrow> (string \<times> jsval) list \<Rightarrow> agent \<Rightarrow> agent" where
  "player_quality x p summary s =
     (let c = readPlayerContext p s in
      if \<not> has_context c then s
      else
        let s = quality_replaced (fld (JObj summary) ''connectionId'') s in
        if max_pending_events - 1 \<le> length (ag_events s) then s
        else queueEvent x ''viewer_quality_summary'' (summary @ context_meta c)
          (or_else (sc_sessionId c) (sc_sessionRequestId c)) None s)"

text \<open>The registry deletes the player after the listeners have heard of its removal.\<close>

definition player_removed :: "agent_call \<Rightarrow> string \<Rightarrow> agent \<Rightarrow> agent" where
  "player_removed x p s =
     (let c = readPlayerContext p s;
          s = player_event x ''viewer_disconnected'' p (int (length (ag_players s)) - 1) [] c (rememberContext c s);
          s = (case normalizeOptionalText (JStr p) of None \<Rightarrow> s | Some i \<Rightarrow> s\<lparr>ag_contexts := map_delete i (ag_contexts s)\<rparr>);
          s = poll_fast x s in
      s\<lparr>ag_players := map_delete p (ag_players s)\<rparr>)"

section \<open>Start\<close>

text \<open>The four files as they are found; \<open>Inl\<close> is an exception.\<close>

definition agent_vars :: "agent_call \<Rightarrow> (string \<times> viewer) list \<Rightarrow> file_state \<Rightarrow> file_state \<Rightarrow> file_state \<Rightarrow> file_state \<Rightarrow> gate option \<Rightarrow>
    marker option \<Rightarrow> agent" where
  "agent_vars x players desired commands markers evidences g m =
     (let active = readCommandJournal commands;
          expired = (case active of None \<Rightarrow> False | Some c \<Rightarrow> isCommandExpired (dates x) (opt_str (cm_timeoutAtUtc c)) (ac_now x));
          active = (if expired then None else active);
          journal = inspectJournal (dates x) (utc_text x) evidences;
          es = (case journal of Journal_valid es \<Rightarrow> es | _ \<Rightarrow> []);
          ms = (if 0 < ah_explicitHeartbeatMs x then ah_explicitHeartbeatMs x else 10000) in
      \<lparr>ag_desired = readDesiredState desired, ag_desiredFile = desired, ag_active = active,
       ag_commandFile = (if expired then clearCommandJournal (ac_cleared x 0) commands else commands),
       ag_markerFile = markers, ag_evidenceFile = evidences, ag_gate = g,
       ag_pendingCompletion = (if isReplacementProof m (ah_pid x) then m else None),
       ag_recoveredCommandId = map_option cm_instanceCommandId active, ag_commandConfirmed = (active = None),
       ag_desiredConfirmed = False, ag_teardownObserved = False, ag_bootstrapping = False, ag_tickInFlight = False,
       ag_flushInFlight = False, ag_recoveryInFlight = False, ag_sequence = 0, ag_applied = 0, ag_heartbeatTimer = False,
       ag_configuredMs = ms, ag_heartbeatMs = ms, ag_fastMs = 2000, ag_fastUntil = 0, ag_restoreTimer = False, ag_token = JNull,
       ag_status = None, ag_reason = None, ag_version = None, ag_window = None,
       ag_journalBlocked = (case journal of Journal_invalid e \<Rightarrow> True | Journal_valid es \<Rightarrow> False
         | Journal_missing \<Rightarrow> (case g of None \<Rightarrow> False | Some t \<Rightarrow> gt_journalBlock t \<noteq> None)),
       ag_journalFailures = 0, ag_evidences = es, ag_required = (es \<noteq> [] \<or> m \<noteq> None), ag_deferred = False, ag_cutoffThrough = 0,
       ag_events = [], ag_eventNumber = 0, ag_awaitingAck = None, ag_toClear = None, ag_resetInProgress = False,
       ag_lastContext = \<lparr>sc_sessionId = None, sc_sessionRequestId = None\<rparr>, ag_lastShutdownRequest = None, ag_contexts = [],
       ag_noAck = [], ag_players = players, ag_tasks = [], ag_calls = 1,
       ag_log = (if es \<noteq> [] \<or> m \<noteq> None then [Af_required] else [])\<rparr>)"

text \<open>A legacy marker without a token proves nothing; a recovered marker must find the gate closed.\<close>

definition legacy_proof :: "agent_call \<Rightarrow> marker option \<Rightarrow> bool" where
  "legacy_proof x m \<longleftrightarrow> isReplacementProof m (ah_pid x) \<and> (case m of None \<Rightarrow> False
     | Some m \<Rightarrow> rm_schemaVersion m = 1 \<and> normalizeRecycleToken (opt_str (rm_recycleRequestedToken m)) = None)"

definition latch_restored :: "agent_call \<Rightarrow> marker option \<Rightarrow> agent \<Rightarrow> bool \<times> agent" where
  "latch_restored x m s = (case (m, ag_gate s) of
     (Some m, Some t) \<Rightarrow> (case recovery_required x s of
       (True, s) \<Rightarrow> (True, s)
     | (False, s) \<Rightarrow> teardown_marked x ''recovered_recycle_marker''
         (case rm_replacementStartedAtUtc m of Some t \<Rightarrow> t | None \<Rightarrow> rm_requestedAtUtc m) s)
   | _ \<Rightarrow> (True, s))"

definition deferred_recovery :: "agent_call \<Rightarrow> agent \<Rightarrow> agent" where
  "deferred_recovery x s =
     (if ag_required s then s else case recovery_required x s of (b, s) \<Rightarrow> s\<lparr>ag_deferred := b\<rparr>)"

text \<open>The metadata of the two first events comes with the start.\<close>

definition agent_started :: "agent_call \<Rightarrow> (string \<times> jsval) list \<Rightarrow> (string \<times> jsval) list \<Rightarrow> agent \<Rightarrow> agent" where
  "agent_started x versions identity s =
     (let s = queueEvent x ''agent_started'' versions None None s;
          s = queueEvent x ''runtime_identity'' identity None None s;
          s = scheduleHeartbeat x (ag_heartbeatMs s) (publishRecoveryContext x s) in
      if ag_evidences s \<noteq> [] then poll_fast x s else runTick x s)"

definition new_agent :: "agent_call \<Rightarrow> (string \<times> jsval) list \<Rightarrow> (string \<times> jsval) list \<Rightarrow> (string \<times> viewer) list \<Rightarrow>
    file_state \<Rightarrow> file_state \<Rightarrow> file_state \<Rightarrow> file_state \<Rightarrow> gate option \<Rightarrow> string + agent" where
  "new_agent x versions identity players desired commands markers evidences g =
     (case readMarker (dates x) (utc_text x) markers of
        Inl e \<Rightarrow> Inl e
      | Inr m \<Rightarrow>
          if legacy_proof x m then Inl ''Recovered legacy tokenless recycle marker''
          else (case latch_restored x m (agent_vars x players desired commands markers evidences g m) of
            (False, s) \<Rightarrow> Inl ''A durable recycle marker exists, but its connect-ticket recovery latch could not be restored.''
          | (True, s) \<Rightarrow> Inr (agent_started x versions identity (updateAdmissionBlock (deferred_recovery x s)))))"

section \<open>Events\<close>

datatype agent_input =
    In_added string viewer
  | In_viewer string viewer
  | In_evidence string string "(string \<times> jsval) list"
  | In_quality string "(string \<times> jsval) list"
  | In_removed string
  | In_heartbeat
  | In_restore
  | In_context
  | In_entitlement
  | In_call client_call
  | In_artifact string "(string \<times> jsval) list" "string option"
  | In_codec_refused
  | In_marker file_state
  | In_resume agent_task bool "string list" reply

text \<open>A task goes on with what it waited for: whether the identity is known, evidence of faults, a reply.\<close>

definition task_resumed :: "agent_call \<Rightarrow> agent_task \<Rightarrow> bool \<Rightarrow> string list \<Rightarrow> reply \<Rightarrow> agent \<Rightarrow> agent" where
  "task_resumed x t known faults r = (case t of
     Tk_bootstrap \<Rightarrow> bootstrap_identified x known
   | Tk_bootstrapped e n \<Rightarrow> bootstrap_replied x e n r
   | Tk_tick \<Rightarrow> tick_bootstrapped
   | Tk_tick_identity \<Rightarrow> heartbeat_identified x known
   | Tk_heartbeat e n token \<Rightarrow> heartbeat_replied x e n token r
   | Tk_flush \<Rightarrow> flush_identified x known faults
   | Tk_flushed fs es n token \<Rightarrow> events_replied x fs es n token r
   | Tk_post worker p \<Rightarrow> post_bootstrapped x worker p
   | Tk_posted worker p token \<Rightarrow> post_replied x worker p token r
   | Tk_worker \<Rightarrow> worker_begins x
   | Tk_worker_captured c \<Rightarrow> worker_captured x c)"

definition registered :: "string \<Rightarrow> viewer \<Rightarrow> agent \<Rightarrow> agent" where
  "registered p v s = s\<lparr>ag_players := map_set p v (ag_players s)\<rparr>"

definition agent_step :: "agent_call \<Rightarrow> agent_input \<Rightarrow> agent \<Rightarrow> agent" where
  "agent_step x i s = (case i of
     In_added p v \<Rightarrow> player_added x p (registered p v s)
   | In_viewer p v \<Rightarrow> if map_get (ag_players s) p = None then s else registered p v s
   | In_evidence type p meta \<Rightarrow> player_evidence x type p meta s
   | In_quality p summary \<Rightarrow> player_quality x p summary s
   | In_removed p \<Rightarrow> if map_get (ag_players s) p = None then s else player_removed x p s
   | In_heartbeat \<Rightarrow> runTick x s
   | In_restore \<Rightarrow> restore_timer_fires x s
   | In_context \<Rightarrow> publishRecoveryContext x s
   | In_entitlement \<Rightarrow> if truthy (ag_token s) then s else runTick x s
   | In_call c \<Rightarrow> client_do x c s
   | In_artifact type meta session \<Rightarrow> flush_begins (queueEvent x type meta session None s)
   | In_codec_refused \<Rightarrow> s\<lparr>ag_token := JNull\<rparr>
   | In_marker f \<Rightarrow> s\<lparr>ag_markerFile := f\<rparr>
   | In_resume t known faults r \<Rightarrow>
       if t \<in> set (ag_tasks s) then task_resumed x t known faults r (s\<lparr>ag_tasks := remove1 t (ag_tasks s)\<rparr>) else s)"

definition agent_run :: "(agent_call \<times> agent_input) list \<Rightarrow> agent \<Rightarrow> agent" where
  "agent_run es s = fold (\<lambda>(x, i) s. agent_step x i s) es s"

end
