(* ===== verification/Evidence_Journal_Results.thy ===== *)
theory Evidence_Journal_Results
  imports Evidence_Journal
begin

text \<open>
  What the journal of elapsed windows promises: it implements an outbox, so evidence that was appended
  stays until it is acknowledged.
\<close>

section \<open>An outbox\<close>

text \<open>
  An operation may fail, and then answers nothing and may still have happened; what is pending is never
  lost but by an operation that takes it out.
\<close>

locale outbox =
  fixes act :: "'op \<Rightarrow> 'f \<Rightarrow> 'e list option \<times> 'f" and pending :: "'f \<Rightarrow> 'e list option"
    and spec :: "'op \<Rightarrow> 'e list \<Rightarrow> 'e list" and ready :: "'f \<Rightarrow> bool" and takes :: "'op \<Rightarrow> 'e \<Rightarrow> bool"
  assumes readable: "ready f \<Longrightarrow> pending f \<noteq> None"
    and stays_ready: "ready f \<Longrightarrow> ready (snd (act op f))"
    and refines: "ready f \<Longrightarrow> pending f = Some es \<Longrightarrow> pending (snd (act op f)) \<in> {Some es, Some (spec op es)}"
    and answers: "ready f \<Longrightarrow> pending f = Some es \<Longrightarrow> fst (act op f) = Some r \<Longrightarrow> r = spec op es \<and> pending (snd (act op f)) = Some r"
    and keeps: "e \<in> set es \<Longrightarrow> \<not> takes op e \<Longrightarrow> e \<in> set (spec op es)"
begin

lemma keeps_pending:
  assumes "ready f" "pending f = Some es" "e \<in> set es" "\<not> takes op e"
  shows "\<exists>es'. pending (snd (act op f)) = Some es' \<and> e \<in> set es'"
  using refines [OF assms(1,2), of op] keeps [OF assms(3,4)] assms(3) by auto

lemma run_keeps_pending:
  assumes "ready f" "pending f = Some es" "e \<in> set es" "\<forall>op \<in> set ops. \<not> takes op e"
  shows "\<exists>es'. pending (fold (\<lambda>op f. snd (act op f)) ops f) = Some es' \<and> e \<in> set es'"
  using assms
proof (induction ops arbitrary: f es)
  case (Cons op ops)
  from Cons.prems have "\<not> takes op e" by simp
  from keeps_pending [OF Cons.prems(1-3) this] obtain es' where "pending (snd (act op f)) = Some es'" "e \<in> set es'" by blast
  with Cons.IH [OF stays_ready [OF Cons.prems(1)], of op] Cons.prems(4) show ?case by simp
qed simp

end

fun journal_spec :: "(string \<Rightarrow> int option) \<Rightarrow> (int \<Rightarrow> string) \<Rightarrow> journal_op \<Rightarrow> elapsed_evidence list \<Rightarrow> elapsed_evidence list" where
  "journal_spec dp utc (Append sync run v) es = (case normalizeEvidence dp utc v of
     None \<Rightarrow> es | Some e \<Rightarrow> if list_ex (with_id (ev_evidenceId e)) es then es else es @ [e])"
| "journal_spec dp utc (Acknowledge run unlink v) es = (case normalizeIdentifier v of
     None \<Rightarrow> es | Some i \<Rightarrow> filter (\<lambda>e. \<not> with_id i e) es)"
| "journal_spec dp utc (Rotate run v) es = (case normalizeIdentifier v of
     None \<Rightarrow> es | Some i \<Rightarrow> filter (\<lambda>e. \<not> with_id i e) es @ filter (with_id i) es)"

fun acknowledges :: "journal_op \<Rightarrow> elapsed_evidence \<Rightarrow> bool" where
  "acknowledges (Acknowledge run unlink v) e \<longleftrightarrow> normalizeIdentifier v = Some (ev_evidenceId e)"
| "acknowledges _ e \<longleftrightarrow> False"

definition journal_ready :: "(string \<Rightarrow> int option) \<Rightarrow> (int \<Rightarrow> string) \<Rightarrow> file_state \<Rightarrow> bool" where
  "journal_ready dp utc f \<longleftrightarrow> date_lib dp utc \<and> readJournal dp utc f \<noteq> None"

lemma write_refines:
  assumes "journal_ok dp utc es'" "readJournal dp utc f = Some es"
  shows "readJournal dp utc (snd (writeJournalAtomically run es' f)) \<in> {Some es, Some es'}"
    "\<forall>r. fst (writeJournalAtomically run es' f) = Some r \<longrightarrow> r = es' \<and> readJournal dp utc (snd (writeJournalAtomically run es' f)) = Some r"
  using assms put_atomic_either [of run "journal_value es'" f] put_atomic_durable [of run "journal_value es'" f] read_stored [OF assms(1)]
  by (auto simp: writeJournalAtomically_def split: prod.splits if_splits)

lemma filter_one:
  assumes "distinct (map ev_evidenceId es)" "find (with_id i) es = Some e"
  shows "filter (with_id i) es = [e]"
  using assms by (induction es) (auto simp: with_id_def filter_empty_conv image_iff split: if_splits)

lemma filter_last:
  assumes "distinct (map ev_evidenceId es)" "es \<noteq> []" "with_id i (last es)"
  shows "filter (\<lambda>e. \<not> with_id i e) es @ filter (with_id i) es = es"
proof (cases es rule: rev_cases)
  case (snoc xs e)
  with assms have "\<forall>x \<in> set xs. \<not> with_id i x" "with_id i e" by (auto simp: with_id_def image_iff)
  then have "filter (\<lambda>e. \<not> with_id i e) xs = xs" "filter (with_id i) xs = []" by (simp_all add: filter_id_conv filter_empty_conv)
  with \<open>with_id i e\<close> show ?thesis by (simp add: snoc)
qed (use assms in simp)

lemma rotated_ok: "journal_ok dp utc es \<Longrightarrow> journal_ok dp utc (filter (\<lambda>e. \<not> with_id i e) es @ filter (with_id i) es)"
  by (auto simp: journal_ok_def list_all_iff distinct_map inj_on_def with_id_def)

lemma journal_step:
  assumes lib: "date_lib dp utc" and r: "readJournal dp utc f = Some es"
  shows "readJournal dp utc (snd (journal_do dp utc op f)) \<in> {Some es, Some (journal_spec dp utc op es)}
    \<and> (\<forall>r. fst (journal_do dp utc op f) = Some r
        \<longrightarrow> r = journal_spec dp utc op es \<and> readJournal dp utc (snd (journal_do dp utc op f)) = Some r)"
proof -
  have ok: "journal_ok dp utc es" using read_ok [OF lib r] .
  show ?thesis
  proof (cases op)
    case (Append sync run v)
    show ?thesis
    proof (cases "normalizeEvidence dp utc v")
      case None
      then show ?thesis using r by (simp add: Append appendEvidence_def)
    next
      case (Some e)
      show ?thesis
      proof (cases "find (with_id (ev_evidenceId e)) es")
        case None
        then have n: "\<not> list_ex (with_id (ev_evidenceId e)) es" by (auto simp: find_None_iff list_ex_iff)
        with ok normalizeEvidence_ok [OF lib Some] have "journal_ok dp utc (es @ [e])"
          by (auto simp: journal_ok_def list_ex_iff with_id_def image_iff)
        from write_refines [OF this r, of run] show ?thesis using r Some None n by (simp add: Append appendEvidence_def)
      next
        case (Some old)
        then have "list_ex (with_id (ev_evidenceId e)) es" by (auto simp: find_Some_iff list_ex_iff)
        with Some \<open>normalizeEvidence dp utc v = Some e\<close> r show ?thesis by (simp add: Append appendEvidence_def)
      qed
    qed
  next
    case (Acknowledge run unlink v)
    show ?thesis
    proof (cases "normalizeIdentifier v")
      case None
      then show ?thesis using r by (simp add: Acknowledge removeAcknowledged_def)
    next
      case i: (Some i)
      let ?rest = "filter (\<lambda>e. \<not> with_id i e) es"
      have rest: "journal_ok dp utc ?rest" using ok by (auto simp: journal_ok_def list_all_iff distinct_map inj_on_def)
      have none: "?rest = es" if "find (with_id i) es = None" using that by (auto simp: find_None_iff filter_id_conv)
      show ?thesis using write_refines [OF rest r, of run] r i none
        by (auto simp: Acknowledge removeAcknowledged_def Let_def split: unlink_run.split)
    qed
  next
    case (Rotate run v)
    show ?thesis
    proof (cases "normalizeIdentifier v")
      case None
      then show ?thesis using r by (simp add: Rotate rotateAfterAttempt_def)
    next
      case i: (Some i)
      show ?thesis
      proof (cases "find (with_id i) es")
        case None
        then have "filter (\<lambda>e. \<not> with_id i e) es = es" "filter (with_id i) es = []" by (auto simp: find_None_iff filter_id_conv filter_empty_conv)
        with None r i show ?thesis by (simp add: Rotate rotateAfterAttempt_def)
      next
        case e: (Some e)
        have one: "filter (with_id i) es = [e]" using filter_one [OF _ e] ok by (simp add: journal_ok_def)
        then have ne: "es \<noteq> []" by auto
        have last: "filter (\<lambda>e. \<not> with_id i e) es @ [e] = es" if "length es \<le> 1 \<or> with_id i (last es)"
        proof -
          have "with_id i (last es)"
          proof (cases "length es \<le> 1")
            case True
            with ne obtain a where "es = [a]" by (cases es) auto
            with one show ?thesis by (auto split: if_splits)
          qed (use that in simp)
          with ne ok have "filter (\<lambda>e. \<not> with_id i e) es @ filter (with_id i) es = es" by (intro filter_last) (simp_all add: journal_ok_def)
          then show ?thesis by (simp only: one)
        qed
        show ?thesis using write_refines [OF rotated_ok [OF ok, of i] r, of run] r i e one last
          by (auto simp: Rotate rotateAfterAttempt_def)
      qed
    qed
  qed
qed

interpretation journal: outbox "journal_do dp utc" "readJournal dp utc" "journal_spec dp utc" "journal_ready dp utc" acknowledges for dp utc
proof
  show "e \<in> set es \<Longrightarrow> \<not> acknowledges op e \<Longrightarrow> e \<in> set (journal_spec dp utc op es)" for e es op
    by (cases op) (auto simp: with_id_def split: option.split)
  note step = journal_step [of dp utc]
  show "journal_ready dp utc f \<Longrightarrow> journal_ready dp utc (snd (journal_do dp utc op f))" for f op
    using step [of f _ op] by (auto simp: journal_ready_def)
  show "journal_ready dp utc f \<Longrightarrow> readJournal dp utc f = Some es
      \<Longrightarrow> readJournal dp utc (snd (journal_do dp utc op f)) \<in> {Some es, Some (journal_spec dp utc op es)}" for f es op
    using step [of f es op] by (simp add: journal_ready_def)
  show "journal_ready dp utc f \<Longrightarrow> readJournal dp utc f = Some es \<Longrightarrow> fst (journal_do dp utc op f) = Some r
      \<Longrightarrow> r = journal_spec dp utc op es \<and> readJournal dp utc (snd (journal_do dp utc op f)) = Some r" for f es op r
    using step [of f es op] by (simp add: journal_ready_def)
qed (simp add: journal_ready_def)

section \<open>What the journal promises\<close>

text \<open>
  C25: The journal implements an outbox: whatever the file system does, an operation leaves what is pending
  as it was or does exactly what it is for, and it answers only when it has done so.
\<close>

theorem journal_refines_outbox:
  assumes "date_lib dp utc" "readJournal dp utc f = Some es"
  shows "readJournal dp utc (snd (journal_do dp utc op f)) \<in> {Some es, Some (journal_spec dp utc op es)}
    \<and> (\<forall>r. fst (journal_do dp utc op f) = Some r
        \<longrightarrow> r = journal_spec dp utc op es \<and> readJournal dp utc (snd (journal_do dp utc op f)) = Some r)"
  using assms by (rule journal_step)

lemma append_pending:
  assumes "appendEvidence dp utc sync run v f = (Some es, f')" "normalizeEvidence dp utc v = Some e"
  shows "readJournal dp utc f \<noteq> None \<and> e \<in> set es"
proof -
  from assms obtain old where old: "readJournal dp utc f = Some old" by (auto simp: appendEvidence_def split: option.splits)
  show ?thesis
  proof (cases "find (with_id (ev_evidenceId e)) old")
    case None
    then show ?thesis using assms old by (auto simp: appendEvidence_def writeJournalAtomically_def split: prod.splits if_splits)
  next
    case (Some x)
    then have "x \<in> set old" by (auto simp: find_Some_iff)
    with Some show ?thesis using assms old by (auto simp: appendEvidence_def split: if_splits)
  qed
qed

text \<open>
  Evidence that was appended with success is pending until it is acknowledged: no other operation,
  and no failure of one, removes it or makes the journal unreadable.
\<close>

theorem evidence_survives:
  assumes lib: "date_lib dp utc" and a: "appendEvidence dp utc sync run v f = (Some es, f')" "normalizeEvidence dp utc v = Some e"
    and ops: "\<forall>op \<in> set ops. \<not> acknowledges op e"
  shows "\<exists>es'. readJournal dp utc (journal_run dp utc ops f') = Some es' \<and> e \<in> set es'"
proof -
  from append_pending [OF a] obtain old where r: "readJournal dp utc f = Some old" and e: "e \<in> set es" by auto
  from journal.answers [of dp utc f old "Append sync run v" es] lib r a(1)
  have es: "readJournal dp utc f' = Some es" by (simp add: journal_ready_def)
  with lib have "journal_ready dp utc f'" by (simp add: journal_ready_def)
  from journal.run_keeps_pending [OF this es e ops] show ?thesis by (simp add: journal_run_def)
qed

section \<open>A journal\<close>

definition demo_evidence :: "string \<Rightarrow> elapsed_evidence" where
  "demo_evidence i = \<lparr>ev_evidenceId = i, ev_sessionRequestId = ''r'', ev_activeSessionId = None,
     ev_lastViewerDisconnectedAtUtc = demo_utc 5, ev_reconnectGraceExpiresAtUtc = demo_utc 7\<rparr>"

lemma demo_id [simp]: "ev_evidenceId (demo_evidence i) = i"
  by (simp add: demo_evidence_def)

lemma demo_evidence_ok: "i \<in> {''a'', ''b''} \<Longrightarrow> evidence_ok demo_dp demo_utc (demo_evidence i)"
proof -
  assume i: "i \<in> {''a'', ''b''}"
  have t: "demo_dp (demo_utc t) = Some t" if "0 \<le> t" for t
    using that show_nat_digits by (simp add: demo_dp_def demo_utc_def)
  have w: "short_text i" "short_text ''r''" "trim i = i" "trim ''r'' = ''r''"
    using i by (auto simp: short_text_def trim_no_ws is_ws_def)
  show ?thesis unfolding evidence_ok_def demo_evidence_def by (intro conjI exI [of _ 5] exI [of _ 7]) (simp_all add: t w)
qed

lemma demo_normal: "i \<in> {''a'', ''b''} \<Longrightarrow> normalizeEvidence demo_dp demo_utc (evidence_value (demo_evidence i)) = Some (demo_evidence i)"
  by (rule evidences.stored, rule demo_evidence_ok)

definition demo_journal :: file_state where
  "demo_journal = Json (journal_value [demo_evidence ''a''])"

lemma demo_read: "readJournal demo_dp demo_utc demo_journal = Some [demo_evidence ''a'']"
  unfolding demo_journal_def by (rule read_stored) (simp add: journal_ok_def demo_evidence_ok)

abbreviation demo_append :: journal_op where
  "demo_append \<equiv> Append Synced (Renamed Synced) (evidence_value (demo_evidence ''b''))"

lemma demo_appended:
  "appendEvidence demo_dp demo_utc Synced (Renamed Synced) (evidence_value (demo_evidence ''b'')) demo_journal
     = (Some [demo_evidence ''a'', demo_evidence ''b''], Json (journal_value [demo_evidence ''a'', demo_evidence ''b'']))"
  by (simp add: appendEvidence_def demo_normal demo_read with_id_def writeJournalAtomically_def put_atomic_def
      fsyncContainingDirectory_def)

theorem journal_refines_outbox_witness:
  "readJournal demo_dp demo_utc (snd (journal_do demo_dp demo_utc demo_append demo_journal)) = Some [demo_evidence ''a'', demo_evidence ''b'']"
proof -
  have "fst (journal_do demo_dp demo_utc demo_append demo_journal) = Some [demo_evidence ''a'', demo_evidence ''b'']"
    by (simp add: demo_appended)
  with journal_refines_outbox [OF demo_date_lib demo_read, of demo_append] show ?thesis by blast
qed

theorem evidence_survives_witness:
  "\<exists>es'. readJournal demo_dp demo_utc (journal_run demo_dp demo_utc
       [Rotate (Renamed Synced) (JStr ''a''), Acknowledge (Renamed Synced) Not_unlinked (JStr ''a''), Rotate Not_renamed (JStr ''b'')]
       (Json (journal_value [demo_evidence ''a'', demo_evidence ''b'']))) = Some es' \<and> demo_evidence ''b'' \<in> set es'"
  by (rule evidence_survives [OF demo_date_lib demo_appended demo_normal]) (simp_all add: trim_no_ws is_ws_def)

end
