(* ===== verification/Agent_Client_Kept.thy ===== *)
theory Agent_Client_Kept
  imports Agent_Client_System Evidence_Journal_Results
begin

text \<open>
  What every step of the client keeps: a predicate that the few changes below keep is kept by each
  operation, and so by every run. The changes are the assumptions of a locale, one for each thing that
  the client does to what its promises are about; everything else is quiet.
\<close>

section \<open>The changes\<close>

definition agent_core :: "agent \<Rightarrow> gate option \<times> bool \<times> bool \<times> file_state \<times> agent_event list \<times> nat \<times> nat \<times> marker option \<times>
    agent_effect list" where
  "agent_core s = (ag_gate s, ag_journalBlocked s, ag_required s, ag_evidenceFile s, ag_events s, ag_eventNumber s, ag_applied s,
     ag_toClear s, ag_log s)"

fun minor :: "agent_effect \<Rightarrow> bool" where
  "minor (Af_notice n) \<longleftrightarrow> True"
| "minor (Af_posting p) \<longleftrightarrow> True"
| "minor (Af_marker_cancelled i) \<longleftrightarrow> True"
| "minor _ \<longleftrightarrow> False"

definition own_op :: "agent_call \<Rightarrow> gate_op \<Rightarrow> bool" where
  "own_op x op \<longleftrightarrow> op = Op_required \<or> (\<exists>opts run. op = Op_teardown opts (ac_now x div 1000) run)
     \<or> (\<exists>run. op = Op_prepare (ac_now x div 1000) run)"

definition gate_after :: "agent_call \<Rightarrow> gate_op \<Rightarrow> agent \<Rightarrow> agent" where
  "gate_after x op s = s\<lparr>ag_gate := map_option (gate_do (ah_gate x) op) (ag_gate s)\<rparr>"

definition journal_after :: "agent_call \<Rightarrow> journal_op \<Rightarrow> agent \<Rightarrow> agent" where
  "journal_after x op s = s\<lparr>ag_evidenceFile := snd (journal_do (dates x) (utc_text x) op (ag_evidenceFile s))\<rparr>"

abbreviation acknowledgement_cutoff :: string where
  "acknowledgement_cutoff \<equiv> ''reconnect_grace_elapsed_evidence_acknowledged''"

text \<open>What a reply to a batch lets the client accept.\<close>

definition accepts :: "reply \<Rightarrow> nat \<Rightarrow> bool" where
  "accepts r k \<longleftrightarrow> (\<exists>v. r = Replied v \<and> v \<noteq> JNull \<and> safe_int (fld v ''acceptedCount'') = Some (int k))"

text \<open>\<open>allowed\<close> are the operations of others on the gate, \<open>acc\<close> and \<open>rep\<close> what may be accepted and replaced in the queue.\<close>

locale agent_kept =
  fixes x :: agent_call and allowed :: "gate_op \<Rightarrow> bool" and I :: "agent \<Rightarrow> bool"
    and acc :: "nat \<Rightarrow> string list \<Rightarrow> agent_event list \<Rightarrow> bool" and rep :: "jsval \<Rightarrow> bool"
  assumes quiet: "I s \<Longrightarrow> agent_core t = agent_core s \<Longrightarrow> I t"
    and minor: "I s \<Longrightarrow> minor f \<Longrightarrow> I (telling f s)"
    and queued: "I s \<Longrightarrow> I (queueEvent x type meta session occurred s)"
    and replaced: "rep connection \<Longrightarrow> I s \<Longrightarrow> I (quality_replaced connection s)"
    and accepted: "acc n faults es \<Longrightarrow> I s \<Longrightarrow> I (events_accepted n faults es s)"
    and blocks: "I s \<Longrightarrow> I (updateAdmissionBlock (s\<lparr>ag_journalBlocked := b\<rparr>))"
    and demanded: "I s \<Longrightarrow> I (recovery_demanded s)"
    and gate: "I s \<Longrightarrow> allowed op \<or> own_op x op \<Longrightarrow> I (gate_after x op s)"
    and cutoff: "I s \<Longrightarrow> ag_gate s = Some g \<Longrightarrow> markTeardownStarted (ah_gate x) opts (ac_now x div 1000) run g = (True, g')
      \<Longrightarrow> I (telling (Af_cutoff r) (s\<lparr>ag_gate := Some g'\<rparr>))"
    and uncompleted: "I s \<Longrightarrow> ag_gate s = Some g
      \<Longrightarrow> completeCommercialRecoveryAfterReset (ah_gate x) token (ac_now x div 1000) run g = (False, g')
      \<Longrightarrow> I (s\<lparr>ag_gate := Some g'\<rparr>)"
    and released: "I s \<Longrightarrow> ag_gate s = Some g
      \<Longrightarrow> completeCommercialRecoveryAfterReset (ah_gate x) token (ac_now x div 1000) run g = (True, g')
      \<Longrightarrow> I (recovery_released (telling (Af_recovered i) (s\<lparr>ag_gate := Some g'\<rparr>)))"
    and reported: "I s \<Longrightarrow> I (report_sent x s)"
    and control: "I s \<Longrightarrow> I (snd (control_accepted n s))"
    and journal: "I s \<Longrightarrow> (\<And>e. \<not> acknowledges j e) \<Longrightarrow> I (journal_after x j s)"
    and removed: "I s \<Longrightarrow> ag_log s = l @ [Af_cutoff acknowledgement_cutoff, Af_required] \<Longrightarrow> I (telling (Af_acknowledged i) (journal_after x (Acknowledge run unlink (JStr i)) s))"
    and to_clear: "I s \<Longrightarrow> completes_reset es m \<Longrightarrow> (\<And>e. e \<in> set es \<Longrightarrow> Af_accepted e \<in> set (ag_log s))
      \<Longrightarrow> I (s\<lparr>ag_toClear := Some m\<rparr>)"
    and cleared: "I s \<Longrightarrow> ag_toClear s = Some m \<Longrightarrow> I (telling (Af_marker_cleared (rm_recycleId m)) s)"
    and not_to_clear: "I s \<Longrightarrow> I (s\<lparr>ag_toClear := None\<rparr>)"
    and listeners: "c \<in> set (ac_listener x k h) \<Longrightarrow> c = Call_gate op \<Longrightarrow> allowed op"
begin

lemma quiet_updates:
  assumes "I s"
  shows "I (s\<lparr>ag_desired := a1\<rparr>)" "I (s\<lparr>ag_desiredFile := a2\<rparr>)" "I (s\<lparr>ag_active := a3\<rparr>)" "I (s\<lparr>ag_commandFile := a2\<rparr>)"
    "I (s\<lparr>ag_markerFile := a2\<rparr>)" "I (s\<lparr>ag_pendingCompletion := a4\<rparr>)" "I (s\<lparr>ag_recoveredCommandId := a5\<rparr>)"
    "I (s\<lparr>ag_commandConfirmed := b\<rparr>)" "I (s\<lparr>ag_desiredConfirmed := b\<rparr>)" "I (s\<lparr>ag_teardownObserved := b\<rparr>)"
    "I (s\<lparr>ag_bootstrapping := b\<rparr>)" "I (s\<lparr>ag_tickInFlight := b\<rparr>)" "I (s\<lparr>ag_flushInFlight := b\<rparr>)"
    "I (s\<lparr>ag_recoveryInFlight := b\<rparr>)" "I (s\<lparr>ag_sequence := n\<rparr>)" "I (s\<lparr>ag_heartbeatTimer := b\<rparr>)"
    "I (s\<lparr>ag_configuredMs := i\<rparr>)" "I (s\<lparr>ag_heartbeatMs := i\<rparr>)" "I (s\<lparr>ag_fastMs := i\<rparr>)" "I (s\<lparr>ag_fastUntil := i\<rparr>)"
    "I (s\<lparr>ag_restoreTimer := b\<rparr>)" "I (s\<lparr>ag_token := v\<rparr>)" "I (s\<lparr>ag_status := a5\<rparr>)" "I (s\<lparr>ag_reason := a5\<rparr>)"
    "I (s\<lparr>ag_version := a5\<rparr>)" "I (s\<lparr>ag_window := a6\<rparr>)" "I (s\<lparr>ag_journalFailures := n\<rparr>)" "I (s\<lparr>ag_evidences := a7\<rparr>)"
    "I (s\<lparr>ag_deferred := b\<rparr>)" "I (s\<lparr>ag_cutoffThrough := i\<rparr>)" "I (s\<lparr>ag_awaitingAck := a4\<rparr>)" "I (s\<lparr>ag_resetInProgress := b\<rparr>)"
    "I (s\<lparr>ag_lastContext := a8\<rparr>)" "I (s\<lparr>ag_lastShutdownRequest := a5\<rparr>)" "I (s\<lparr>ag_contexts := a9\<rparr>)" "I (s\<lparr>ag_noAck := a10\<rparr>)"
    "I (s\<lparr>ag_players := a11\<rparr>)" "I (s\<lparr>ag_tasks := a12\<rparr>)" "I (s\<lparr>ag_calls := n\<rparr>)"
  by (rule quiet [OF assms], simp add: agent_core_def)+

lemma kept_awaiting: "I s \<Longrightarrow> I (awaiting t s)"
  unfolding awaiting_def by (rule quiet_updates)

lemma kept_counted: "I s \<Longrightarrow> I (counted s)"
  unfolding counted_def by (rule quiet_updates)

lemma kept_fold: "I s \<Longrightarrow> (\<And>a s. a \<in> set as \<Longrightarrow> I s \<Longrightarrow> I (f a s)) \<Longrightarrow> I (fold f as s)"
  by (induction as arbitrary: s) auto

lemmas kept_simple = quiet_updates kept_awaiting kept_counted queued demanded reported

section \<open>Gate\<close>

lemma kept_teardown: "I s \<Longrightarrow> I (snd (teardown_marked x reason occurred s))"
proof (cases "ag_gate s")
  case (Some t)
  assume s: "I s"
  let ?opts = "\<lparr>to_occurredAtUtc = Some occurred, to_reason = Some reason, to_commandType = None, to_instanceCommandId = None\<rparr>"
  obtain ok t' where m: "markTeardownStarted (ah_gate x) ?opts (ac_now x div 1000) (ac_replace x (ag_calls s)) t = (ok, t')" by fastforce
  show ?thesis
  proof (cases ok)
    case True
    with m have "I (telling (Af_cutoff reason) (s\<lparr>ag_gate := Some t'\<rparr>))" by (intro cutoff [OF s Some]) simp
    with True show ?thesis
      by (simp add: teardown_marked_def Some m Let_def) (erule quiet, simp add: agent_core_def telling_def counted_def)
  next
    case False
    have "gate_after x (Op_teardown ?opts (ac_now x div 1000) (ac_replace x (ag_calls s))) s = s\<lparr>ag_gate := Some t'\<rparr>"
      by (simp add: gate_after_def Some m)
    with gate [OF s, of "Op_teardown ?opts (ac_now x div 1000) (ac_replace x (ag_calls s))"] have "I (s\<lparr>ag_gate := Some t'\<rparr>)"
      by (simp add: own_op_def)
    with False show ?thesis by (simp add: teardown_marked_def Some m Let_def kept_counted)
  qed
qed (simp add: teardown_marked_def)

lemma kept_required: "I s \<Longrightarrow> I (snd (recovery_required x s))"
proof (cases "ag_gate s")
  case (Some t)
  assume s: "I s"
  have "snd (recovery_required x s) = gate_after x Op_required s"
    by (simp add: recovery_required_def gate_after_def Some split: prod.split)
  with gate [OF s, of Op_required] show ?thesis by (simp add: own_op_def)
qed (simp add: recovery_required_def)

lemma kept_context: "I s \<Longrightarrow> I (publishRecoveryContext x s)"
  by (simp add: publishRecoveryContext_def kept_required split: option.split)

lemma kept_completed:
  assumes s: "I s" "ag_gate s = Some t"
  shows "I (snd (recovery_completed x m t s))"
proof -
  let ?now = "ac_now x div 1000"
  obtain r t1 where p: "prepareCommercialRecoveryAfterReset (ah_gate x) ?now (ac_replace x (ag_calls s)) t = (r, t1)" by fastforce
  have "gate_after x (Op_prepare ?now (ac_replace x (ag_calls s))) s = s\<lparr>ag_gate := Some t1\<rparr>"
    by (simp add: gate_after_def s(2) p)
  with gate [OF s(1), of "Op_prepare ?now (ac_replace x (ag_calls s))"] have k: "I (counted (s\<lparr>ag_gate := Some t1\<rparr>))"
    by (simp add: own_op_def kept_counted)
  show ?thesis
  proof (cases r)
    case (Some ready)
    let ?s = "counted (s\<lparr>ag_gate := Some t1\<rparr>)"
    obtain ok t2 where c: "completeCommercialRecoveryAfterReset (ah_gate x) (opt_str (rm_recycleRequestedToken m)) ?now
        (ac_replace x (ag_calls ?s)) t1 = (ok, t2)" by fastforce
    have g: "ag_gate ?s = Some t1" by (simp add: counted_def)
    show ?thesis
    proof (cases ok)
      case True
      have "I (recovery_released (telling (Af_recovered (rm_recycleId m)) (?s\<lparr>ag_gate := Some t2\<rparr>)))"
        using released [OF k g] c True by simp
      then have "I (recovery_released (telling (Af_recovered (rm_recycleId m)) (counted (?s\<lparr>ag_gate := Some t2\<rparr>))))"
        by (rule quiet) (simp add: agent_core_def recovery_released_def updateAdmissionBlock_def telling_def counted_def)
      with k True show ?thesis by (simp add: recovery_completed_def p Some Let_def c)
    next
      case False
      have "I (?s\<lparr>ag_gate := Some t2\<rparr>)" using uncompleted [OF k g] c False by simp
      with k False show ?thesis by (simp add: recovery_completed_def p Some Let_def c kept_counted)
    qed
  qed (simp add: recovery_completed_def p k)
qed

lemma kept_ready: "I s \<Longrightarrow> I (snd (ready_after_recycle x s))"
proof -
  assume s: "I s"
  show ?thesis
  proof (cases "ag_pendingCompletion s")
    case (Some e)
    obtain b s' where r: "recovery_required x s = (b, s')" by fastforce
    have k: "I s'" using kept_required [OF s] r by simp
    have c: "I (snd (recovery_completed x m t (s'\<lparr>ag_pendingCompletion := Some m\<rparr>)))" if "ag_gate s' = Some t" for m t
      by (rule kept_completed [OF quiet_updates(6) [OF k]]) (simp add: that)
    show ?thesis using s k c by (auto simp: ready_after_recycle_def Some r split: option.split bool.split)
  qed (simp add: ready_after_recycle_def s)
qed

section \<open>Polling and the journal\<close>

lemma kept_heartbeat: "I s \<Longrightarrow> I (scheduleHeartbeat x ms s)"
  by (simp add: scheduleHeartbeat_def Let_def kept_simple)

lemma kept_restore: "I s \<Longrightarrow> I (scheduleFastPollingRestore x s)"
  by (simp add: scheduleFastPollingRestore_def Let_def kept_simple kept_heartbeat)

lemma kept_restore_timer: "I s \<Longrightarrow> I (restore_timer_fires x s)"
  by (simp add: restore_timer_fires_def kept_simple kept_heartbeat)

lemma kept_block:
  assumes "I s"
  shows "I (updateAdmissionBlock (s\<lparr>ag_evidences := es, ag_journalBlocked := b, ag_journalFailures := n\<rparr>))"
proof -
  have "I (s\<lparr>ag_evidences := es, ag_journalFailures := n\<rparr>)" by (simp add: kept_simple assms)
  from blocks [OF this, where b = b] show ?thesis by (rule quiet) (simp add: agent_core_def updateAdmissionBlock_def)
qed

lemma kept_failed: "I s \<Longrightarrow> I (journal_failed s)"
proof -
  assume "I s"
  from blocks [OF this, where b = True] show ?thesis
    by (rule quiet) (simp add: agent_core_def updateAdmissionBlock_def journal_failed_def)
qed

lemma kept_refresh: "I s \<Longrightarrow> I (snd (refreshJournalHealth x s))"
  by (simp add: refreshJournalHealth_def kept_failed kept_block split: journal_read.split)

lemma kept_cutoff: "I s \<Longrightarrow> I (snd (ensureCutoffDurable x s))"
proof -
  assume s: "I s"
  have "I (snd (case teardown_marked x r u s of (False, s) \<Rightarrow> (False, s) | (True, s) \<Rightarrow> (True, recovery_demanded (s\<lparr>ag_cutoffThrough := l\<rparr>))))" for r u l
    using kept_teardown [OF s, of r u] by (cases "teardown_marked x r u s") (simp add: kept_simple split: bool.split)
  with s show ?thesis by (simp add: ensureCutoffDurable_def split: option.split)
qed

lemma kept_bootstrap: "I s \<Longrightarrow> I (ensureBootstrap_begins s)"
  by (simp add: ensureBootstrap_begins_def kept_simple)

lemma kept_tick: "I s \<Longrightarrow> I (runTick x s)"
proof -
  assume s: "I s"
  obtain b s1 where r: "refreshJournalHealth x s = (b, s1)" by fastforce
  obtain c s2 where e: "ensureCutoffDurable x s1 = (c, s2)" by fastforce
  have "I s1" using kept_refresh [OF s] r by simp
  moreover from this have "I s2" using kept_cutoff [of s1] e by simp
  ultimately show ?thesis using s by (simp add: runTick_def r e kept_simple kept_bootstrap split: bool.split)
qed

lemma kept_fast: "I s \<Longrightarrow> I (agent_requestFastPolling x d i s)"
  unfolding agent_requestFastPolling_def Let_def
  by (intro kept_tick) (simp add: kept_simple kept_restore kept_heartbeat)

lemma kept_post: "I s \<Longrightarrow> I (post_begins w p s)"
  by (simp add: post_begins_def kept_simple kept_bootstrap minor)

section \<open>The methods\<close>

lemma kept_stamped: "I s \<Longrightarrow> I (snd (completion_stamped x s))"
  by (auto simp: completion_stamped_def kept_simple split: option.split prod.split sum.split)

lemma kept_completes: "I s \<Longrightarrow> I (snd (reset_completes x u s))"
proof -
  assume s: "I s"
  obtain b m s' where c: "completion_stamped x s = ((b, m), s')" by (metis prod.exhaust)
  have "I s'" using kept_stamped [OF s] c by simp
  then show ?thesis by (simp add: reset_completes_def c Let_def kept_simple kept_post split: bool.split option.split)
qed

lemma kept_cancelled: "I s \<Longrightarrow> I (reset_cancelled x u s)"
proof -
  assume s: "I s"
  let ?s = "s\<lparr>ag_resetInProgress := False, ag_pendingCompletion := None\<rparr>"
  have 1: "I (case ag_pendingCompletion s of None \<Rightarrow> ?s
      | Some m \<Rightarrow> (case clearMarker (dates x) (utc_text x) (ac_unlink x (ag_calls ?s)) (JStr (rm_recycleId m)) (ag_markerFile ?s) of
          (ok, f) \<Rightarrow> telling (Af_marker_cancelled (rm_recycleId m)) (counted (?s\<lparr>ag_markerFile := f\<rparr>))))"
    using s by (simp add: kept_simple minor split: option.split prod.split)
  show ?thesis unfolding reset_cancelled_def Let_def using kept_post queued [OF 1] by (simp split: option.split)
qed

lemma kept_acts: "I s \<Longrightarrow> I (snd (status_acts x u s))"
  by (simp add: status_acts_def Let_def kept_simple kept_completes kept_cancelled)

lemma kept_continues:
  assumes s: "I s"
  shows "I (status_continues x u same completed s)"
proof -
  obtain retry s1 where t: "(if ag_status s = Some ''ready'' \<and> ag_pendingCompletion s \<noteq> None
      then (case recovery_required x s of (r, s) \<Rightarrow> (\<not> r, s)) else (False, s)) = (retry, s1)" by fastforce
  obtain blocked s2 where b: "(if ag_status s = Some ''ready'' \<and> (ag_resetInProgress s1 \<or> ag_pendingCompletion s1 \<noteq> None)
      then recovery_required x s1 else (False, s1)) = (blocked, s2)" by fastforce
  obtain ok s3 where a: "status_acts x u s2 = (ok, s3)" by fastforce
  have 1: "I s1" using kept_required [OF s] t s by (auto split: if_splits prod.splits)
  have 2: "I s2" using kept_required [OF 1] b 1 by (auto split: if_splits)
  have 3: "I s3" using kept_acts [OF 2] a by (metis snd_conv)
  show ?thesis
    unfolding status_continues_def Let_def t prod.case b a
    using 1 2 3 by (auto simp: queued split: bool.split)
qed

lemma kept_status: "I s \<Longrightarrow> I (recordRuntimeStatus x u s)"
proof -
  assume s: "I s"
  define s1 where "s1 = publishRecoveryContext x (s\<lparr>ag_status := normalizeOptionalText (JStr (su_status u)),
     ag_reason := opt_text_of (su_reason u), ag_version := or_else (opt_text_of (su_version u)) (ag_version s)\<rparr>)"
  obtain c s2 where r: "ready_after_recycle x s1 = (c, s2)" by fastforce
  have "I s1" unfolding s1_def by (intro kept_context) (simp add: kept_simple s)
  then have "I s2" using kept_ready [of s1] r by simp
  then show ?thesis
    unfolding recordRuntimeStatus_def Let_def s1_def [symmetric] r prod.case by (simp add: kept_continues split: option.split)
qed

lemma kept_journal:
  assumes "I s" "\<And>e. \<not> acknowledges op e" "f = snd (journal_do (dates x) (utc_text x) op (ag_evidenceFile s))"
  shows "I (s\<lparr>ag_evidenceFile := f\<rparr>)"
  using journal [OF assms(1,2)] by (simp add: journal_after_def assms(3))

lemma kept_appended: "I s \<Longrightarrow> I (snd (evidence_appended x v s))"
proof -
  assume s: "I s"
  obtain r f where a: "appendEvidence (dates x) (utc_text x) (ac_sync x (ag_calls s)) (ac_replace x (ag_calls s)) v
      (ag_evidenceFile s) = (r, f)" by fastforce
  have f: "I (s\<lparr>ag_evidenceFile := f\<rparr>)"
    by (rule kept_journal [OF s, where op = "Append (ac_sync x (ag_calls s)) (ac_replace x (ag_calls s)) v"]) (simp_all add: a)
  have e: "I (counted (s\<lparr>ag_evidenceFile := f, ag_evidences := es, ag_cutoffThrough := 0\<rparr>))" for es
    using f by (simp add: kept_simple)
  have "I (updateAdmissionBlock (t\<lparr>ag_journalBlocked := False, ag_journalFailures := 0\<rparr>))" if "I t" for t
    using blocks [OF that, where b = False] by (rule quiet) (simp add: agent_core_def updateAdmissionBlock_def)
  then show ?thesis
    by (simp add: evidence_appended_def a Let_def f e kept_fast kept_refresh kept_counted split: option.split)
qed

lemma kept_evidence: "I s \<Longrightarrow> I (snd (recordElapsedEvidence x v s))"
proof -
  assume s: "I s"
  obtain b t where r: "(if ag_journalBlocked s then refreshJournalHealth x s else (True, s)) = (b, t)" by fastforce
  have "I t" using kept_refresh [OF s] r s by (auto split: if_splits)
  then show ?thesis by (simp add: recordElapsedEvidence_def r kept_appended split: bool.split)
qed

lemma kept_client:
  assumes "I s" "\<And>op. c = Call_gate op \<Longrightarrow> allowed op"
  shows "I (client_do x c s)"
proof (cases c)
  case (Call_gate op)
  with gate [OF assms(1), of op] assms(2) show ?thesis by (simp add: gate_after_def)
qed (use assms(1) in \<open>simp_all add: kept_simple kept_status kept_evidence kept_fast kept_post setReconnectGraceWindow_def split: option.split\<close>)

section \<open>Control\<close>

lemma kept_heard: "I s \<Longrightarrow> I (heard x n s)"
  unfolding heard_def by (rule kept_fold) (simp_all add: kept_simple minor kept_client listeners)

lemma kept_notify: "I s \<Longrightarrow> I (notifyRecoveryReady x s)"
  by (simp add: notifyRecoveryReady_def kept_heard)

lemma kept_desired: "I s \<Longrightarrow> I (applyDesiredState x v source s)"
proof -
  assume s: "I s"
  obtain d f where w: "writeDesiredState (ac_plain x (ag_calls s)) (desired_value (desired_received x v)) (ag_desiredFile s) = (d, f)" by fastforce
  let ?s = "counted (s\<lparr>ag_desired := d, ag_desiredFile := f, ag_desiredConfirmed := True\<rparr>)"
  have 1: "I (if b then queueEvent x t m None None ?s else ?s)" for b t m using s by (simp add: kept_simple)
  have 2: "I (if c then heard x n (if b then queueEvent x t m None None ?s else ?s) else if b then queueEvent x t m None None ?s else ?s)"
    for b c t m n using 1 by (simp add: kept_heard)
  have 3: "I (if P t then notifyRecoveryReady x (recovery_demanded (t\<lparr>ag_deferred := False\<rparr>)) else if Q t then notifyRecoveryReady x t else t)"
    if "I t" for P Q t using that by (simp add: kept_simple kept_notify)
  show ?thesis unfolding applyDesiredState_def Let_def w prod.case by (rule 3 [OF 2])
qed

lemma kept_clear: "I s \<Longrightarrow> I (clearActiveCommand x s)"
  by (simp add: clearActiveCommand_def kept_simple)

lemma kept_persist: "I s \<Longrightarrow> I (persistActiveCommand x c st t s)"
  by (simp add: persistActiveCommand_def Let_def kept_simple split: prod.split)

lemma kept_invalidate: "I s \<Longrightarrow> I (invalidateRecoveredCommand x i s)"
  by (simp add: invalidateRecoveredCommand_def Let_def kept_simple kept_clear kept_fast)

lemma kept_unlisted: "I s \<Longrightarrow> I (active_unlisted x c s)"
  by (simp add: active_unlisted_def kept_clear kept_invalidate kept_fast split: token_status.split)

lemma kept_checked: "I s \<Longrightarrow> I (active_checked x cs s)"
  by (simp add: active_checked_def kept_simple kept_unlisted split: option.split)

lemma kept_delivered: "I s \<Longrightarrow> I (command_delivered x source c s)"
  by (simp add: command_delivered_def Let_def kept_simple kept_heard)

lemma kept_commands: "I s \<Longrightarrow> I (applyCommands x v source s)"
  by (simp add: applyCommands_def Let_def kept_simple kept_checked kept_fold kept_delivered split: jsval.split)

lemma teardown_log: "teardown_marked x r u s = (True, s') \<Longrightarrow> ag_log s' = ag_log s @ [Af_cutoff r]"
  by (auto simp: teardown_marked_def Let_def telling_def counted_def split: option.splits prod.splits if_splits)

lemma kept_acknowledged: "I s \<Longrightarrow> I (evidence_acknowledged x e s)"
proof -
  assume s: "I s"
  let ?i = "ev_evidenceId e"
  obtain b s1 where t: "teardown_marked x acknowledgement_cutoff (iso_now x) s = (b, s1)" by fastforce
  have 1: "I s1" using kept_teardown [OF s] t by (metis snd_conv)
  show ?thesis
  proof (cases b)
    case True
    with t have t': "teardown_marked x acknowledgement_cutoff (iso_now x) s = (True, s1)" by simp
    define s2 where "s2 = recovery_demanded (s1\<lparr>ag_cutoffThrough :=
       (case dates x (iso_now x) of Some t \<Rightarrow> max (ag_cutoffThrough s1) t | None \<Rightarrow> ag_cutoffThrough s1)\<rparr>)"
    have 2: "I s2" unfolding s2_def by (simp add: kept_simple 1)
    have l: "ag_log s2 = ag_log s @ [Af_cutoff acknowledgement_cutoff, Af_required]"
      using teardown_log [OF t'] by (simp add: s2_def recovery_demanded_def updateAdmissionBlock_def telling_def)
    obtain r f where a: "removeAcknowledged (dates x) (utc_text x) (ac_replace x (ag_calls s2)) (ac_unlink x (ag_calls s2)) (JStr ?i)
        (ag_evidenceFile s2) = (r, f)" by fastforce
    have "I (telling (Af_acknowledged ?i) (s2\<lparr>ag_evidenceFile := f\<rparr>))"
      using removed [OF 2 l, of ?i "ac_replace x (ag_calls s2)" "ac_unlink x (ag_calls s2)"] by (simp add: journal_after_def a)
    then have 3: "I (telling (Af_acknowledged ?i) (counted (s2\<lparr>ag_evidenceFile := f\<rparr>)))"
      by (rule quiet) (simp add: agent_core_def telling_def counted_def)
    show ?thesis
      unfolding evidence_acknowledged_def t' prod.case bool.case Let_def s2_def [symmetric] a
      using 3 by (simp add: kept_simple kept_refresh kept_fast kept_notify split: option.split)
  qed (simp add: evidence_acknowledged_def t 1)
qed

lemma kept_retried: "I s \<Longrightarrow> I (evidence_retried x e s)"
proof -
  assume s: "I s"
  define s1 where "s1 = s\<lparr>ag_noAck := map_set (ev_evidenceId e)
     ((case map_get (ag_noAck s) (ev_evidenceId e) of Some n \<Rightarrow> n | None \<Rightarrow> 0) + 1) (ag_noAck s)\<rparr>"
  have 1: "I s1" unfolding s1_def by (simp add: kept_simple s)
  obtain r f where a: "rotateAfterAttempt (dates x) (utc_text x) (ac_replace x (ag_calls s1)) (JStr (ev_evidenceId e)) (ag_evidenceFile s1) = (r, f)"
    by fastforce
  have "I (s1\<lparr>ag_evidenceFile := f\<rparr>)"
    by (rule kept_journal [OF 1, where op = "Rotate (ac_replace x (ag_calls s1)) (JStr (ev_evidenceId e))"]) (simp_all add: a)
  then show ?thesis
    unfolding evidence_retried_def Let_def s1_def [symmetric] a prod.case
    by (simp add: kept_simple kept_refresh kept_fast split: option.split)
qed

lemma kept_response: "I s \<Longrightarrow> I (applyControlResponse x apply v source sent s)"
  by (simp add: applyControlResponse_def Let_def handleEvidenceResponse_def kept_desired kept_commands kept_acknowledged kept_retried
      split: option.split)

lemma kept_interval: "I s \<Longrightarrow> I (heartbeat_interval x apply v s)"
  by (simp add: heartbeat_interval_def kept_heartbeat split: jsval.split jsnum.split)

lemma kept_control: "I s \<Longrightarrow> I (control_response x n v source sent s)"
  using control [of s n] by (cases "control_accepted n s") (simp add: control_response_def kept_interval kept_response)

section \<open>Requests\<close>

lemma kept_taken: "I s \<Longrightarrow> I (snd (reply_taken token r s))"
  by (simp add: reply_taken_def kept_simple split: reply.split)

lemma kept_bootstrap_identified: "I s \<Longrightarrow> I (bootstrap_identified x known s)"
  by (simp add: bootstrap_identified_def kept_simple)

lemma kept_bootstrap_replied: "I s \<Longrightarrow> I (bootstrap_replied x sent n r s)"
  by (simp add: bootstrap_replied_def kept_simple kept_control split: reply.split)

lemma kept_tick_bootstrapped: "I s \<Longrightarrow> I (tick_bootstrapped s)"
  by (simp add: tick_bootstrapped_def kept_simple)

lemma kept_heartbeat_identified: "I s \<Longrightarrow> I (heartbeat_identified x known s)"
  by (simp add: heartbeat_identified_def kept_simple)

lemma kept_completion_queued: "I s \<Longrightarrow> I (ensureCompletionQueued x s)"
  by (simp add: ensureCompletionQueued_def kept_simple split: option.split)

lemma kept_clear_marker: "I s \<Longrightarrow> I (tryClearMarker x s)"
proof (cases "ag_toClear s")
  case (Some m)
  assume s: "I s"
  obtain ok f where c: "clearMarker (dates x) (utc_text x) (ac_unlink x (ag_calls s)) (JStr (rm_recycleId m)) (ag_markerFile s) = (ok, f)"
    by fastforce
  have 1: "I (telling (Af_marker_cleared (rm_recycleId m)) s)" by (rule cleared [OF s Some])
  have 2: "I ((telling (Af_marker_cleared (rm_recycleId m)) s)\<lparr>ag_toClear := None\<rparr>)" by (rule not_to_clear [OF 1])
  show ?thesis
  proof (cases ok)
    case True
    show ?thesis unfolding tryClearMarker_def Some option.case c prod.case
      by (rule quiet [OF 2]) (simp add: agent_core_def telling_def counted_def True)
  next
    case False
    show ?thesis unfolding tryClearMarker_def Some option.case c prod.case
      by (rule quiet [OF 1]) (simp add: agent_core_def telling_def counted_def False Some)
  qed
qed (simp add: tryClearMarker_def)

lemma kept_flush: "I s \<Longrightarrow> I (flush_begins s)"
  by (simp add: flush_begins_def kept_simple)

lemma kept_worker: "I s \<Longrightarrow> I (requestCommandRecovery s)"
  by (simp add: requestCommandRecovery_def kept_simple)

lemma kept_heartbeat_replied: "I s \<Longrightarrow> I (heartbeat_replied x sent n token r s)"
  using kept_taken [of s token r]
  by (cases "reply_taken token r s")
    (simp add: heartbeat_replied_def kept_simple kept_clear_marker kept_worker kept_flush kept_completion_queued kept_control split: option.split)

lemma kept_flush_identified: "I s \<Longrightarrow> I (flush_identified x known faults s)"
  by (simp add: flush_identified_def Let_def kept_simple)

lemma log_telling: "set (ag_log (fold (\<lambda>e s. telling (f e) s) es s)) = set (ag_log s) \<union> f ` set es"
  by (induction es arbitrary: s) (auto simp: telling_def)

lemma kept_events_response:
  assumes "I s" "\<And>e. e \<in> set es \<Longrightarrow> Af_accepted e \<in> set (ag_log s)"
  shows "I (events_response x apply v es s)"
proof -
  define done' where "done' = (case ag_awaitingAck s of Some m \<Rightarrow> if completes_reset es m then Some m else None | None \<Rightarrow> None)"
  define again where "again = (case done' of None \<Rightarrow> False | Some m \<Rightarrow> needs_reconciliation apply v m s)"
  define s1 where "s1 = (if done' \<noteq> None \<and> \<not> again then tryClearMarker x (s\<lparr>ag_toClear := done', ag_awaitingAck := None\<rparr>) else s)"
  define s2 where "s2 = (if apply then applyDesiredState x (fld v ''desiredState'') ''events'' (applyCommands x (fld v ''commands'') ''events'' s1)
     else s1)"
  have 1: "I s1"
  proof (cases done')
    case (Some m)
    then have "completes_reset es m" by (auto simp: done'_def split: option.splits if_splits)
    from to_clear [OF assms(1) this assms(2)] have "I (s\<lparr>ag_toClear := Some m, ag_awaitingAck := None\<rparr>)" by (simp add: kept_simple)
    with assms(1) show ?thesis by (simp add: s1_def Some kept_clear_marker)
  qed (simp add: s1_def assms(1))
  then have 2: "I s2" by (simp add: s2_def kept_desired kept_commands)
  show ?thesis
    unfolding events_response_def Let_def done'_def [symmetric] again_def [symmetric] s1_def [symmetric] s2_def [symmetric]
    using 2 by (simp add: kept_fast kept_completion_queued)
qed

lemma accepted_log: "e \<in> set (take (n - length faults) es) \<Longrightarrow> Af_accepted e \<in> set (ag_log (events_accepted n faults es s))"
proof -
  assume e: "e \<in> set (take (n - length faults) es)"
  have "set (ag_log (telling f t)) = insert f (set (ag_log t))" for f t by (simp add: telling_def)
  with e show ?thesis unfolding events_accepted_def Let_def by (simp only: log_telling) blast
qed

lemma control_log: "set (ag_log s) \<subseteq> set (ag_log (snd (control_accepted n s)))"
  by (auto simp: control_accepted_def telling_def)

lemma kept_events_replied:
  assumes s: "I s" and a: "\<And>k. accepts r k \<Longrightarrow> acc k faults es"
  shows "I (events_replied x faults es n token r s)"
proof -
  obtain w s1 where r: "reply_taken token r s = (w, s1)" by fastforce
  have 1: "I s1" using kept_taken [OF s, of token r] r by simp
  have go: "I ((case control_accepted n (events_accepted k faults es s1) of (apply, s) \<Rightarrow>
      (events_response x apply v (take (k - length faults) es) s)\<lparr>ag_flushInFlight := False\<rparr>))" if k: "acc k faults es" for k v
  proof -
    obtain b s2 where c: "control_accepted n (events_accepted k faults es s1) = (b, s2)" by fastforce
    have 2: "I s2" using control [OF accepted [OF k 1], of n] c by simp
    have "Af_accepted e \<in> set (ag_log s2)" if "e \<in> set (take (k - length faults) es)" for e
      using accepted_log [OF that, of s1] control_log [of "events_accepted k faults es s1" n] c by auto
    from kept_events_response [OF 2 this] show ?thesis by (simp add: c kept_simple)
  qed
  show ?thesis
  proof (cases w)
    case None
    with 1 show ?thesis by (simp add: events_replied_def r kept_simple)
  next
    case (Some v)
    show ?thesis
    proof (cases "safe_int (fld v ''acceptedCount'')")
      case None
      with 1 Some show ?thesis by (simp add: events_replied_def r kept_simple)
    next
      case k: (Some k)
      have "accepts r (nat k)" if "\<not> k < 0"
        using r Some k that by (auto simp: accepts_def reply_taken_def split: reply.splits if_splits)
      then have "acc (nat k) faults es" if "\<not> k < 0" using a that by blast
      with 1 Some k go show ?thesis by (simp add: events_replied_def r kept_simple)
    qed
  qed
qed

lemma kept_executed: "I s \<Longrightarrow> I (execution_answered x c st type r s)"
  by (simp add: execution_answered_def Let_def kept_simple kept_persist kept_invalidate split: option.split)

lemma kept_ended: "I s \<Longrightarrow> I (command_ended x i type meta r s)"
  by (simp add: command_ended_def Let_def kept_simple kept_clear)

lemma kept_answered: "I s \<Longrightarrow> I (posting_answered x p r s)"
  by (cases p) (simp_all add: kept_executed kept_ended)

lemma kept_finishes: "I s \<Longrightarrow> I (worker_finishes x s)"
  by (simp add: worker_finishes_def kept_simple split: option.split)

lemma kept_posting_ends: "I s \<Longrightarrow> I (posting_ends x w p s)"
  by (simp add: posting_ends_def kept_simple kept_finishes split: posting.split)

lemma kept_post_replied: "I s \<Longrightarrow> I (post_replied x w p token r s)"
  using kept_taken [of s token r]
  by (cases "reply_taken token r s") (simp add: post_replied_def kept_posting_ends kept_answered split: option.split)

lemma kept_resumed:
  assumes "I s" "\<And>fs es n token k. t = Tk_flushed fs es n token \<Longrightarrow> accepts r k \<Longrightarrow> acc k fs es"
  shows "I (task_resumed x t known faults r s)"
  using assms
  by (cases t) (simp_all add: task_resumed_def kept_bootstrap_identified kept_bootstrap_replied kept_tick_bootstrapped kept_heartbeat_identified
      kept_heartbeat_replied kept_flush_identified kept_events_replied post_bootstrapped_def worker_begins_def worker_captured_def
      kept_simple kept_posting_ends kept_post_replied kept_post kept_finishes split: option.split)

section \<open>Events\<close>

lemma kept_player_event: "I s \<Longrightarrow> I (player_event x type p n meta c s)"
  by (simp add: player_event_def kept_simple)

lemma kept_remember: "I s \<Longrightarrow> I (rememberContext c s)"
  by (simp add: rememberContext_def Let_def kept_simple)

lemma kept_added: "I s \<Longrightarrow> I (player_added x p s)"
  by (simp add: player_added_def Let_def kept_fast kept_player_event kept_simple kept_remember split: option.split)

lemma kept_removed: "I s \<Longrightarrow> I (player_removed x p s)"
  by (simp add: player_removed_def Let_def kept_fast kept_player_event kept_simple kept_remember split: option.split)

lemma kept_quality: "I s \<Longrightarrow> rep (fld (JObj summary) ''connectionId'') \<Longrightarrow> I (player_quality x p summary s)"
  by (simp add: player_quality_def Let_def kept_simple replaced)

lemma kept_player_evidence: "I s \<Longrightarrow> I (player_evidence x type p meta s)"
  by (simp add: player_evidence_def Let_def kept_fast kept_player_event)

theorem kept_step:
  assumes "I s" "\<And>op. i = In_call (Call_gate op) \<Longrightarrow> allowed op"
    and "\<And>p summary. i = In_quality p summary \<Longrightarrow> rep (fld (JObj summary) ''connectionId'')"
    and a: "\<And>fs es n token known faults r k. i = In_resume (Tk_flushed fs es n token) known faults r \<Longrightarrow> accepts r k \<Longrightarrow> acc k fs es"
  shows "I (agent_step x i s)"
proof (cases i)
  case (In_resume t known faults r)
  have "I (task_resumed x t known faults r (s\<lparr>ag_tasks := remove1 t (ag_tasks s)\<rparr>))"
    by (rule kept_resumed) (use assms(1) a In_resume in \<open>simp_all add: kept_simple\<close>)
  with assms(1) In_resume show ?thesis by (simp add: agent_step_def)
qed (use assms in \<open>auto simp: agent_step_def registered_def kept_simple kept_added kept_removed kept_quality kept_player_evidence kept_tick
      kept_restore_timer kept_context kept_client kept_flush\<close>)

lemma kept_started: "I s \<Longrightarrow> I (agent_started x versions identity s)"
  by (simp add: agent_started_def Let_def kept_simple kept_heartbeat kept_context kept_fast kept_tick)

lemma kept_new:
  assumes "\<And>m. I (agent_vars x players desired commands markers evidences g m)"
    and new: "new_agent x versions identity players desired commands markers evidences g = Inr s"
  shows "I s"
proof -
  from new obtain m s0 where l: "latch_restored x m (agent_vars x players desired commands markers evidences g m) = (True, s0)"
    and s: "s = agent_started x versions identity (updateAdmissionBlock (deferred_recovery x s0))"
    by (auto simp: new_agent_def split: sum.splits if_splits prod.splits bool.splits)
  have "I (snd (latch_restored x m (agent_vars x players desired commands markers evidences g m)))"
    using assms(1) [of m] kept_required kept_teardown
    by (auto simp: latch_restored_def split: option.split prod.split bool.split) (metis snd_conv)+
  then have "I s0" using l by simp
  then have d: "I (deferred_recovery x s0)"
    using kept_required [of s0] by (auto simp: deferred_recovery_def kept_simple split: prod.split)
  have "I (updateAdmissionBlock (deferred_recovery x s0))"
    using blocks [OF d, where b = "ag_journalBlocked (deferred_recovery x s0)"] by simp
  then show ?thesis unfolding s by (rule kept_started)
qed

end

lemma kept_run:
  assumes "\<And>x i. (x, i) \<in> set es \<Longrightarrow> agent_kept x allowed I (\<lambda>_ _ _. True) (\<lambda>_. True)" "\<And>x op. (x, In_call (Call_gate op)) \<in> set es \<Longrightarrow> allowed op" "I s"
  shows "I (agent_run es s)"
  using assms unfolding agent_run_def
proof (induction es arbitrary: s)
  case (Cons e es)
  obtain x i where e: "e = (x, i)" by fastforce
  have "I (agent_step x i s)" by (rule agent_kept.kept_step [of x allowed I "\<lambda>_ _ _. True" "\<lambda>_. True"]) (use Cons.prems e in auto)
  from Cons.IH [OF _ _ this] Cons.prems have "I (fold (\<lambda>(x, i). agent_step x i) es (agent_step x i s))" by auto
  then show ?case by (simp add: e)
qed simp

end
