(* ===== verification/Agent_Client_Promises.thy ===== *)
theory Agent_Client_Promises
  imports Agent_Client_Kept Viewer_Idle_Gate
begin

text \<open>
  The invariants of the client of the control plane: its queue of events, the trace of what it did, the
  admission block it keeps at the ticket gate, the gate behind its cutoffs, and its evidence.
\<close>

lemma fold_telling: "fold (\<lambda>e s. telling (f e) s) es s = s\<lparr>ag_log := ag_log s @ map f es\<rparr>"
  by (induction es arbitrary: s) (simp_all add: telling_def)

lemma telling_fields [simp]:
  "ag_gate (telling e s) = ag_gate s" "ag_journalBlocked (telling e s) = ag_journalBlocked s" "ag_required (telling e s) = ag_required s"
  "ag_evidenceFile (telling e s) = ag_evidenceFile s" "ag_events (telling e s) = ag_events s" "ag_eventNumber (telling e s) = ag_eventNumber s"
  "ag_applied (telling e s) = ag_applied s" "ag_toClear (telling e s) = ag_toClear s" "ag_log (telling e s) = ag_log s @ [e]"
  by (simp_all add: telling_def)

lemma block_fields [simp]:
  "ag_journalBlocked (updateAdmissionBlock s) = ag_journalBlocked s" "ag_required (updateAdmissionBlock s) = ag_required s"
  "ag_evidenceFile (updateAdmissionBlock s) = ag_evidenceFile s" "ag_events (updateAdmissionBlock s) = ag_events s"
  "ag_eventNumber (updateAdmissionBlock s) = ag_eventNumber s" "ag_applied (updateAdmissionBlock s) = ag_applied s"
  "ag_toClear (updateAdmissionBlock s) = ag_toClear s" "ag_log (updateAdmissionBlock s) = ag_log s"
  by (simp_all add: updateAdmissionBlock_def)

lemmas change_defs = recovery_demanded_def recovery_released_def gate_after_def journal_after_def report_sent_def quality_replaced_def
  events_accepted_def control_accepted_def fold_telling

section \<open>The queue\<close>

text \<open>Numbers are given in order, and there are at most a hundred events.\<close>

definition queue_inv :: "agent \<Rightarrow> bool" where
  "queue_inv s \<longleftrightarrow> sorted_wrt (<) (map ae_number (ag_events s)) \<and> (\<forall>e \<in> set (ag_events s). ae_number e < ag_eventNumber s)
     \<and> length (ag_events s) \<le> max_pending_events"

lemma queue_fields: "\<lbrakk>queue_inv s; ag_events t = ag_events s; ag_eventNumber t = ag_eventNumber s\<rbrakk> \<Longrightarrow> queue_inv t"
  by (simp add: queue_inv_def)

lemma queue_filtered:
  assumes s: "queue_inv s" and t: "ag_events t = filter P (ag_events s)" "ag_eventNumber t = ag_eventNumber s"
  shows "queue_inv t"
proof -
  have "sorted_wrt (<) (map ae_number (filter P es))" if "sorted_wrt (<) (map ae_number es)" for es
    using that by (induction es) auto
  moreover have "length (filter P (ag_events s)) \<le> max_pending_events"
    using s by (auto simp: queue_inv_def intro: order_trans [OF length_filter_le])
  ultimately show ?thesis using s by (simp add: queue_inv_def t)
qed

text \<open>An event that is queued is the last one, and the oldest one goes when there are too many.\<close>

lemma queue_after:
  assumes "queue_inv s"
  obtains e where "ae_number e = ag_eventNumber s"
    "ag_events (queueEvent x type meta session occurred s)
      = (if length (ag_events s) < max_pending_events then ag_events s @ [e] else tl (ag_events s) @ [e])"
    "ag_eventNumber (queueEvent x type meta session occurred s) = ag_eventNumber s + 1"
proof -
  define e where "e = \<lparr>ae_number = ag_eventNumber s, ae_type = type,
     ae_occurredAtUtc = (case opt_text_of occurred of Some t \<Rightarrow> t | None \<Rightarrow> iso_now x),
     ae_sessionId = opt_text_of session, ae_metadata = normalizeEventMetadata (ah_text x) meta\<rparr>"
  have l: "length (ag_events s) \<le> max_pending_events" "0 < max_pending_events" using assms by (simp_all add: queue_inv_def max_pending_events_def)
  have "take_last max_pending_events (ag_events s @ [e])
      = (if length (ag_events s) < max_pending_events then ag_events s @ [e] else tl (ag_events s) @ [e])"
    using l by (cases "ag_events s") (auto simp: take_last_def)
  then have "ag_events (queueEvent x type meta session occurred s)
      = (if length (ag_events s) < max_pending_events then ag_events s @ [e] else tl (ag_events s) @ [e])"
    "ag_eventNumber (queueEvent x type meta session occurred s) = ag_eventNumber s + 1"
    by (simp_all add: queueEvent_def Let_def fold_telling e_def)
  then show thesis by (rule that [of e, rotated]) (simp add: e_def)
qed

lemma queue_queued:
  assumes s: "queue_inv s"
  shows "queue_inv (queueEvent x type meta session occurred s)"
proof (rule queue_after [OF s, of x type meta session occurred])
  fix e assume e: "ae_number e = ag_eventNumber s"
    "ag_events (queueEvent x type meta session occurred s)
      = (if length (ag_events s) < max_pending_events then ag_events s @ [e] else tl (ag_events s) @ [e])"
    "ag_eventNumber (queueEvent x type meta session occurred s) = ag_eventNumber s + 1"
  show ?thesis
    unfolding queue_inv_def e(2,3) using s e(1)
    by (cases "ag_events s") (auto simp: queue_inv_def sorted_wrt_append less_Suc_eq max_pending_events_def)
qed

interpretation queue: agent_kept x "\<lambda>_. True" queue_inv "\<lambda>_ _ _. True" "\<lambda>_. True" for x
proof
  show "queue_inv (quality_replaced connection s)" if "queue_inv s" for s connection
    by (rule queue_filtered [OF that, where P = "\<lambda>e. \<not> superseded_by connection e"]) (auto simp: change_defs)
  show "queue_inv (events_accepted n faults es s)" if "queue_inv s" for s n faults es
    by (rule queue_filtered [OF that, where P = "\<lambda>e. ae_number e \<notin> ae_number ` set (take (n - length faults) es)"])
      (auto simp: change_defs Let_def)
  show "queue_inv (queueEvent x type meta session occurred s)" if "queue_inv s" for s type meta session occurred
    by (rule queue_queued [OF that])
qed (auto simp: change_defs agent_core_def elim!: queue_fields)

text \<open>
  What a step may do to the events \<open>q\<close> that were queued before it, when \<open>n0\<close> was the next number: one
  that is not in the queue any more has a number of \<open>A\<close>, satisfies \<open>P\<close>, or had to give way to a hundred
  younger ones. The same goes for the numbers that were given in it.
\<close>

definition younger :: "agent_event list \<Rightarrow> agent_event \<Rightarrow> nat" where
  "younger q e = length (filter (\<lambda>f. ae_number e < ae_number f) q)"

definition leaving :: "agent_event list \<Rightarrow> nat \<Rightarrow> nat set \<Rightarrow> (agent_event \<Rightarrow> bool) \<Rightarrow> agent \<Rightarrow> bool" where
  "leaving q n0 A P s \<longleftrightarrow> queue_inv s \<and> n0 \<le> ag_eventNumber s
     \<and> (\<forall>e \<in> set (ag_events s). ae_number e < n0 \<longrightarrow> e \<in> set q)
     \<and> (\<forall>e \<in> set q. e \<in> set (ag_events s) \<or> ae_number e \<in> A \<or> P e \<or> max_pending_events \<le> younger q e + (ag_eventNumber s - n0))
     \<and> (\<forall>n. n0 \<le> n \<and> n < ag_eventNumber s \<longrightarrow>
          n \<in> ae_number ` set (ag_events s) \<or> n \<in> A \<or> Ex P \<or> max_pending_events < ag_eventNumber s - n)"

lemma leaving_fields:
  assumes "leaving q n0 A P s" "ag_events t = ag_events s" "ag_eventNumber t = ag_eventNumber s"
  shows "leaving q n0 A P t"
  using assms(1) unfolding leaving_def queue_inv_def assms(2,3) .

lemma sorted_distinct: "sorted_wrt (<) (map ae_number es) \<Longrightarrow> distinct es \<and> inj_on ae_number (set es)"
  using strict_sorted_iff [of "map ae_number es"] by (simp add: distinct_map)

text \<open>How many events there can be with numbers in a range, and among those of a list.\<close>

lemma crowd_range:
  assumes "sorted_wrt (<) (map ae_number es)" "\<And>g. g \<in> set es \<Longrightarrow> m \<le> ae_number g \<and> ae_number g < n"
  shows "length es \<le> n - m"
proof -
  have "ae_number ` set es \<subseteq> {m..<n}" using assms(2) by auto
  from card_mono [OF _ this] have "card (ae_number ` set es) \<le> n - m" by simp
  with sorted_distinct [OF assms(1)] show ?thesis by (simp add: card_image distinct_card)
qed

lemma crowd_younger:
  assumes "sorted_wrt (<) (map ae_number es)" "\<And>g. g \<in> set es \<Longrightarrow> g \<in> set q \<and> ae_number f < ae_number g"
  shows "length es \<le> younger q f"
proof -
  have "set es \<subseteq> set (filter (\<lambda>g. ae_number f < ae_number g) q)" using assms(2) by auto
  then have "card (set es) \<le> card (set (filter (\<lambda>g. ae_number f < ae_number g) q))" by (intro card_mono) simp_all
  also have "\<dots> \<le> younger q f" unfolding younger_def by (rule card_length)
  finally show ?thesis using sorted_distinct [OF assms(1)] by (simp add: distinct_card)
qed

text \<open>An event gives way to a new one only in a full queue, and all that stay are younger.\<close>

lemma pushed_out:
  assumes "queue_inv s" "f \<in> set (ag_events s)" "f \<notin> set (ag_events (queueEvent x type meta session occurred s))"
  shows "length (ag_events (queueEvent x type meta session occurred s)) = max_pending_events"
    "g \<in> set (ag_events (queueEvent x type meta session occurred s)) \<Longrightarrow> ae_number f < ae_number g"
proof -
  have "length (ag_events (queueEvent x type meta session occurred s)) = max_pending_events
    \<and> (g \<in> set (ag_events (queueEvent x type meta session occurred s)) \<longrightarrow> ae_number f < ae_number g)"
  proof (rule queue_after [OF assms(1), of x type meta session occurred])
    fix e assume e: "ae_number e = ag_eventNumber s"
      "ag_events (queueEvent x type meta session occurred s)
        = (if length (ag_events s) < max_pending_events then ag_events s @ [e] else tl (ag_events s) @ [e])"
    with assms obtain es where es: "ag_events s = f # es" "length (ag_events s) = max_pending_events"
      by (cases "ag_events s") (auto simp: queue_inv_def split: if_splits)
    then show ?thesis using assms(1) e by (auto simp: queue_inv_def)
  qed
  then show "length (ag_events (queueEvent x type meta session occurred s)) = max_pending_events"
    "g \<in> set (ag_events (queueEvent x type meta session occurred s)) \<Longrightarrow> ae_number f < ae_number g" by blast+
qed

lemma leaving_pushed:
  assumes s: "leaving q n0 A P s" and f: "f \<in> set (ag_events s)" and t: "t = queueEvent x type meta session occurred s"
    and gone: "f \<notin> set (ag_events t)" and old: "\<And>g. g \<in> set (ag_events t) \<Longrightarrow> ae_number g < n0 \<Longrightarrow> g \<in> set q"
  shows "max_pending_events \<le> younger q f + (ag_eventNumber t - n0)" "max_pending_events < ag_eventNumber t - ae_number f"
proof -
  have i: "queue_inv s" using s by (simp add: leaving_def)
  have q: "sorted_wrt (<) (map ae_number (ag_events t))" "\<And>g. g \<in> set (ag_events t) \<Longrightarrow> ae_number g < ag_eventNumber t"
    using queue_queued [OF i, of x type meta session occurred] by (auto simp: queue_inv_def t)
  have full: "length (ag_events t) = max_pending_events" and y: "\<And>g. g \<in> set (ag_events t) \<Longrightarrow> ae_number f < ae_number g"
    using pushed_out [OF i f gone [unfolded t]] by (simp_all add: t)
  have sub: "sorted_wrt (<) (map ae_number (filter R (ag_events t)))" for R
    using q(1) by (simp add: sorted_wrt_map sorted_wrt_filter)
  have "length (filter (\<lambda>g. ae_number g < n0) (ag_events t)) \<le> younger q f"
    by (rule crowd_younger [OF sub]) (use old y in auto)
  moreover have "length (filter (\<lambda>g. \<not> ae_number g < n0) (ag_events t)) \<le> ag_eventNumber t - n0"
    by (rule crowd_range [OF sub]) (use q(2) in auto)
  ultimately show "max_pending_events \<le> younger q f + (ag_eventNumber t - n0)"
    using sum_length_filter_compl [of "\<lambda>g. ae_number g < n0" "ag_events t"] full by linarith
  have "length (ag_events t) \<le> ag_eventNumber t - Suc (ae_number f)"
    by (rule crowd_range [OF q(1)]) (use q(2) y in \<open>auto simp: Suc_le_eq\<close>)
  with full show "max_pending_events < ag_eventNumber t - ae_number f" by (simp add: max_pending_events_def)
qed

lemma leaving_queued:
  assumes s: "leaving q n0 A P s"
  shows "leaving q n0 A P (queueEvent x type meta session occurred s)"
proof -
  have i: "queue_inv s" using s by (simp add: leaving_def)
  define t where "t = queueEvent x type meta session occurred s"
  show ?thesis unfolding t_def [symmetric]
  proof (rule queue_after [OF i, of x type meta session occurred, folded t_def])
    fix e assume e: "ae_number e = ag_eventNumber s"
      "ag_events t = (if length (ag_events s) < max_pending_events then ag_events s @ [e] else tl (ag_events s) @ [e])"
      "ag_eventNumber t = ag_eventNumber s + 1"
    have sub: "set (ag_events t) \<subseteq> insert e (set (ag_events s))" and new: "e \<in> set (ag_events t)"
      using e(2) by (cases "ag_events s"; auto split: if_splits)+
    have old: "g \<in> set q" if "g \<in> set (ag_events t)" "ae_number g < n0" for g
      using s sub e(1) that by (auto simp: leaving_def)
    note pushed = leaving_pushed [OF s _ t_def _ old]
    have "f \<in> set (ag_events t) \<or> ae_number f \<in> A \<or> P f \<or> max_pending_events \<le> younger q f + (ag_eventNumber t - n0)"
      if f: "f \<in> set q" for f
      using s f pushed(1) [of f] unfolding leaving_def e(3) by (meson add_left_mono diff_le_mono le_add1 le_trans)
    moreover have "n \<in> ae_number ` set (ag_events t) \<or> n \<in> A \<or> Ex P \<or> max_pending_events < ag_eventNumber t - n"
      if n: "n0 \<le> n" "n < ag_eventNumber t" for n
    proof (cases "n = ag_eventNumber s")
      case True
      then have "n = ae_number e" using e(1) by simp
      with new show ?thesis by blast
    next
      case False
      with n e(3) have "n < ag_eventNumber s" by simp
      with s n(1) consider "n \<in> A \<or> Ex P \<or> max_pending_events < ag_eventNumber s - n"
        | f where "f \<in> set (ag_events s)" "ae_number f = n" unfolding leaving_def by blast
      then show ?thesis
      proof cases
        case 2
        with pushed(2) [of f] show ?thesis by blast
      qed (use e(3) in auto)
    qed
    moreover have "queue_inv t" unfolding t_def by (rule queue_queued [OF i])
    ultimately show "leaving q n0 A P t" using old s e(3) by (simp add: leaving_def)
  qed
qed

lemma leaving_filtered:
  assumes s: "leaving q n0 A P s" and t: "ag_events t = filter Q (ag_events s)" "ag_eventNumber t = ag_eventNumber s"
    and Q: "\<And>e. e \<in> set (ag_events s) \<Longrightarrow> \<not> Q e \<Longrightarrow> ae_number e \<in> A \<or> P e"
  shows "leaving q n0 A P t"
proof -
  have i: "queue_inv t" using s by (intro queue_filtered [OF _ t]) (simp add: leaving_def)
  have "n \<in> ae_number ` set (filter Q (ag_events s)) \<or> n \<in> A \<or> Ex P \<or> max_pending_events < ag_eventNumber s - n"
    if n: "n0 \<le> n" "n < ag_eventNumber s" for n
  proof -
    from s n consider "n \<in> A \<or> Ex P \<or> max_pending_events < ag_eventNumber s - n" | f where "f \<in> set (ag_events s)" "ae_number f = n"
      unfolding leaving_def by blast
    then show ?thesis
    proof cases
      case 2
      with Q [of f] show ?thesis by (cases "Q f") auto
    qed blast
  qed
  moreover have "e \<in> set (filter Q (ag_events s)) \<or> ae_number e \<in> A \<or> P e \<or> max_pending_events \<le> younger q e + (ag_eventNumber s - n0)"
    if e: "e \<in> set q" for e
    using s e Q [of e] by (cases "e \<in> set (ag_events s)"; cases "Q e") (auto simp: leaving_def)
  ultimately show ?thesis using i s unfolding leaving_def t by auto
qed

text \<open>The numbers of the events of a batch that a reply accepts.\<close>

definition accepted_numbers :: "agent_input \<Rightarrow> nat set" where
  "accepted_numbers i = {n. \<exists>fs es m token known faults r k. i = In_resume (Tk_flushed fs es m token) known faults r
     \<and> accepts r k \<and> n \<in> ae_number ` set (take (k - length fs) es)}"

definition superseded :: "agent_input \<Rightarrow> agent_event \<Rightarrow> bool" where
  "superseded i e \<longleftrightarrow> (\<exists>p summary. i = In_quality p summary \<and> superseded_by (fld (JObj summary) ''connectionId'') e)"

lemma leaving_kept:
  "agent_kept x (\<lambda>_. True) (leaving q n0 A P) (\<lambda>k fs es. ae_number ` set (take (k - length fs) es) \<subseteq> A)
     (\<lambda>c. \<forall>e. superseded_by c e \<longrightarrow> P e)"
proof
  show "leaving q n0 A P (quality_replaced connection s)"
    if "\<forall>e. superseded_by connection e \<longrightarrow> P e" "leaving q n0 A P s" for s connection
    by (rule leaving_filtered [OF that(2), where Q = "\<lambda>e. \<not> superseded_by connection e"]) (use that(1) in \<open>auto simp: change_defs\<close>)
  show "leaving q n0 A P (events_accepted n faults es s)"
    if "ae_number ` set (take (n - length faults) es) \<subseteq> A" "leaving q n0 A P s" for s n faults es
    by (rule leaving_filtered [OF that(2), where Q = "\<lambda>e. ae_number e \<notin> ae_number ` set (take (n - length faults) es)"])
      (use that(1) in \<open>auto simp: change_defs Let_def\<close>)
  show "leaving q n0 A P (queueEvent x type meta session occurred s)" if "leaving q n0 A P s" for s type meta session occurred
    by (rule leaving_queued [OF that])
qed (auto simp: change_defs agent_core_def elim!: leaving_fields)

lemma leaving_step:
  assumes "queue_inv s"
  shows "leaving (ag_events s) (ag_eventNumber s) (accepted_numbers i) (superseded i) (agent_step x i s)"
proof (rule agent_kept.kept_step [OF leaving_kept])
  show "leaving (ag_events s) (ag_eventNumber s) (accepted_numbers i) (superseded i) s"
    using assms by (auto simp: leaving_def queue_inv_def)
qed (auto simp: accepted_numbers_def superseded_def)

section \<open>The trace\<close>

text \<open>An entry of one kind, and none of another kind since.\<close>

definition since :: "('e \<Rightarrow> bool) \<Rightarrow> ('e \<Rightarrow> bool) \<Rightarrow> 'e list \<Rightarrow> bool" where
  "since P Q l \<longleftrightarrow> (\<exists>p e q. l = p @ e # q \<and> P e \<and> (\<forall>f \<in> set q. \<not> Q f))"

lemma since_Nil [simp]: "\<not> since P Q []"
  by (simp add: since_def)

lemma since_snoc: "since P Q (l @ [e]) \<longleftrightarrow> P e \<or> (since P Q l \<and> \<not> Q e)"
proof
  assume "since P Q (l @ [e])"
  then obtain p f q where "l @ [e] = p @ f # q" "P f" "\<forall>f \<in> set q. \<not> Q f" by (auto simp: since_def)
  then show "P e \<or> (since P Q l \<and> \<not> Q e)" by (cases q rule: rev_cases) (auto simp: since_def)
next
  assume r: "P e \<or> (since P Q l \<and> \<not> Q e)"
  show "since P Q (l @ [e])"
  proof (cases "P e")
    case True
    then show ?thesis unfolding since_def by (intro exI [of _ l] exI [of _ e] exI [of _ "[]"]) simp
  next
    case False
    with r obtain p f q where "l = p @ f # q" "P f" "\<forall>f \<in> set (q @ [e]). \<not> Q f" by (auto simp: since_def)
    then show ?thesis unfolding since_def by (intro exI [of _ p] exI [of _ f] exI [of _ "q @ [e]"]) simp
  qed
qed

lemma since_append: "list_all (\<lambda>e. \<not> P e \<and> \<not> Q e) es \<Longrightarrow> since P Q (l @ es) \<longleftrightarrow> since P Q l"
  by (induction es rule: rev_induct) (auto simp: since_snoc simp del: append_assoc simp flip: append_assoc)

fun recovers :: "agent_effect \<Rightarrow> bool" where
  "recovers (Af_recovered i) \<longleftrightarrow> True"
| "recovers _ \<longleftrightarrow> False"

fun cuts_off :: "agent_effect \<Rightarrow> bool" where
  "cuts_off (Af_cutoff r) \<longleftrightarrow> True"
| "cuts_off _ \<longleftrightarrow> False"

abbreviation recovering :: "agent_effect list \<Rightarrow> bool" where
  "recovering \<equiv> since (\<lambda>e. e = Af_required) recovers"

lemmas recovering_snoc = since_snoc

definition completion_accepted :: "string \<Rightarrow> agent_effect list \<Rightarrow> bool" where
  "completion_accepted i l \<longleftrightarrow>
     (\<exists>e. Af_accepted e \<in> set l \<and> ae_type e = ''reset_completed'' \<and> map_get (ae_metadata e) ''recycleId'' = Some i)"

text \<open>What must have happened before an entry of the log.\<close>

fun grounded :: "agent_effect list \<Rightarrow> agent_effect \<Rightarrow> bool" where
  "grounded p (Af_reported ready e n) \<longleftrightarrow> (ready \<longrightarrow> \<not> recovering p)"
| "grounded p (Af_control n) \<longleftrightarrow> (\<forall>m. Af_control m \<in> set p \<longrightarrow> m \<le> n)"
| "grounded p (Af_acknowledged i) \<longleftrightarrow> (\<exists>l. p = l @ [Af_cutoff acknowledgement_cutoff, Af_required])"
| "grounded p (Af_marker_cleared i) \<longleftrightarrow> completion_accepted i p"
| "grounded p _ \<longleftrightarrow> True"

definition trace_ok :: "agent_effect list \<Rightarrow> bool" where
  "trace_ok l \<longleftrightarrow> (\<forall>p e q. l = p @ e # q \<longrightarrow> grounded p e)"

lemma trace_ok_Nil [simp]: "trace_ok []"
  by (simp add: trace_ok_def)

lemma trace_ok_snoc: "trace_ok (l @ [e]) \<longleftrightarrow> trace_ok l \<and> grounded l e"
proof
  assume t: "trace_ok (l @ [e])"
  have "grounded p f" if "l = p @ f # q" for p f q
    using t that unfolding trace_ok_def by (metis append.assoc append_Cons)
  with t show "trace_ok l \<and> grounded l e" unfolding trace_ok_def by blast
next
  assume t: "trace_ok l \<and> grounded l e"
  have "grounded p f" if "l @ [e] = p @ f # q" for p f q
    using that t by (cases q rule: rev_cases) (auto simp: trace_ok_def)
  then show "trace_ok (l @ [e])" unfolding trace_ok_def by blast
qed

definition trace_inv :: "agent \<Rightarrow> bool" where
  "trace_inv s \<longleftrightarrow> trace_ok (ag_log s) \<and> (ag_required s \<longleftrightarrow> recovering (ag_log s))
     \<and> (\<forall>n. Af_control n \<in> set (ag_log s) \<longrightarrow> n \<le> ag_applied s)
     \<and> (\<forall>m. ag_toClear s = Some m \<longrightarrow> completion_accepted (rm_recycleId m) (ag_log s))"

fun telltale :: "agent_effect \<Rightarrow> bool" where
  "telltale (Af_reported ready e n) \<longleftrightarrow> True"
| "telltale (Af_control n) \<longleftrightarrow> True"
| "telltale (Af_acknowledged i) \<longleftrightarrow> True"
| "telltale (Af_marker_cleared i) \<longleftrightarrow> True"
| "telltale Af_required \<longleftrightarrow> True"
| "telltale (Af_recovered i) \<longleftrightarrow> True"
| "telltale _ \<longleftrightarrow> False"

lemma completion_more: "completion_accepted i l \<Longrightarrow> completion_accepted i (l @ l')"
  by (auto simp: completion_accepted_def)

lemma trace_same:
  assumes "trace_inv s" "ag_required t = ag_required s" "ag_applied t = ag_applied s" "ag_toClear t = ag_toClear s"
    "ag_log t = ag_log s @ es" "list_all (\<lambda>e. \<not> telltale e) es"
  shows "trace_inv t"
proof -
  have "trace_ok (ag_log s @ es) \<and> (recovering (ag_log s @ es) \<longleftrightarrow> recovering (ag_log s))" using assms(6)
  proof (induction es rule: rev_induct)
    case (snoc e es)
    then have "grounded p e" for p by (cases e) auto
    moreover from snoc.prems have "e \<noteq> Af_required" "\<not> recovers e" by (cases e; simp)+
    ultimately show ?case using snoc by (simp add: trace_ok_snoc recovering_snoc del: append_assoc flip: append_assoc)
  qed (use assms(1) in \<open>simp add: trace_inv_def\<close>)
  moreover have "Af_control n \<notin> set es" for n using assms(6) by (auto simp: list_all_iff)
  ultimately show ?thesis using assms(1-5) completion_more by (auto simp: trace_inv_def)
qed

lemma trace_snoc:
  assumes "trace_inv s" "ag_log t = ag_log s @ [e]" "grounded (ag_log s) e" "ag_required t \<longleftrightarrow> recovering (ag_log s @ [e])"
    "ag_toClear t = ag_toClear s" "\<And>n. Af_control n \<in> set (ag_log s @ [e]) \<Longrightarrow> n \<le> ag_applied t"
  shows "trace_inv t"
  using assms completion_more [of _ "ag_log s" "[e]"] by (auto simp: trace_inv_def trace_ok_snoc)

interpretation trace: agent_kept x "\<lambda>_. True" trace_inv "\<lambda>_ _ _. True" "\<lambda>_. True" for x
proof
  note same = trace_same
  show "trace_inv t" if "trace_inv s" "agent_core t = agent_core s" for s t
    by (rule same [OF that(1), where es = "[]"]) (use that(2) in \<open>simp_all add: agent_core_def\<close>)
  show "trace_inv (telling f s)" if "trace_inv s" "minor f" for s f
    by (rule same [OF that(1), where es = "[f]"]) (use that(2) in \<open>cases f; simp\<close>)+
  show "trace_inv (queueEvent x type meta session occurred s)" if "trace_inv s" for s type meta session occurred
    by (rule same [OF that]) (auto simp: queueEvent_def Let_def fold_telling list_all_iff)
  show "trace_inv (quality_replaced connection s)" if "trace_inv s" for s connection
    by (rule same [OF that]) (auto simp: change_defs list_all_iff)
  show "trace_inv (events_accepted n faults es s)" if "trace_inv s" for s n faults es
    by (rule same [OF that, where es = "map Af_accepted (take (n - length faults) es) @ [Af_faults_acknowledged (take n faults)]"])
      (auto simp: change_defs Let_def list_all_iff)
  show "trace_inv (updateAdmissionBlock (s\<lparr>ag_journalBlocked := b\<rparr>))" if "trace_inv s" for s b
    by (rule same [OF that, where es = "[]"]) simp_all
  show "trace_inv (recovery_demanded s)" if "trace_inv s" for s
    by (rule trace_snoc [OF that, where e = Af_required]) (use that in \<open>auto simp: change_defs recovering_snoc trace_inv_def\<close>)
  show "trace_inv (gate_after x op s)" if "trace_inv s" for s op
    by (rule same [OF that, where es = "[]"]) (simp_all add: change_defs)
  show "trace_inv (telling (Af_cutoff r) (s\<lparr>ag_gate := Some g'\<rparr>))" if "trace_inv s" for s r g'
    by (rule same [OF that, where es = "[Af_cutoff r]"]) simp_all
  show "trace_inv (s\<lparr>ag_gate := Some g'\<rparr>)" if "trace_inv s" for s g'
    by (rule same [OF that, where es = "[]"]) simp_all
  show "trace_inv (recovery_released (telling (Af_recovered i) (s\<lparr>ag_gate := Some g'\<rparr>)))" if "trace_inv s" for s i g'
    by (rule trace_snoc [OF that, where e = "Af_recovered i"]) (use that in \<open>auto simp: change_defs recovering_snoc trace_inv_def\<close>)
  show "trace_inv (report_sent x s)" if "trace_inv s" for s
    by (rule trace_snoc [OF that, where e = "Af_reported (ag_status s = Some ''ready'' \<and> \<not> ag_required s) (first_evidence s) (ag_sequence s + 1)"])
      (use that in \<open>auto simp: change_defs recovering_snoc trace_inv_def\<close>)
  show "trace_inv (snd (control_accepted n s))" if "trace_inv s" for s n
  proof (cases "n < ag_applied s")
    case False
    show ?thesis
      by (rule trace_snoc [OF that, where e = "Af_control n"])
        (use that False in \<open>auto simp: change_defs recovering_snoc trace_inv_def\<close>)
  qed (use that in \<open>simp add: change_defs\<close>)
  show "trace_inv (journal_after x j s)" if "trace_inv s" for s j
    by (rule same [OF that, where es = "[]"]) (simp_all add: change_defs)
  show "trace_inv (telling (Af_acknowledged i) (journal_after x (Acknowledge run unlink (JStr i)) s))"
    if "trace_inv s" "ag_log s = l @ [Af_cutoff acknowledgement_cutoff, Af_required]" for s i run unlink l
  proof (rule trace_snoc [OF that(1), where e = "Af_acknowledged i"])
    show "grounded (ag_log s) (Af_acknowledged i)" unfolding that(2) by simp
  qed (use that(1) in \<open>simp_all add: change_defs recovering_snoc trace_inv_def\<close>)
  show "trace_inv (s\<lparr>ag_toClear := Some m\<rparr>)"
    if "trace_inv s" "completes_reset es m" "\<And>e. e \<in> set es \<Longrightarrow> Af_accepted e \<in> set (ag_log s)" for s es m
    using that by (auto simp: trace_inv_def completes_reset_def completion_accepted_def list_ex_iff)
  show "trace_inv (telling (Af_marker_cleared (rm_recycleId m)) s)" if "trace_inv s" "ag_toClear s = Some m" for s m
    by (rule trace_snoc [OF that(1), where e = "Af_marker_cleared (rm_recycleId m)"])
      (use that in \<open>auto simp: recovering_snoc trace_inv_def\<close>)
  show "trace_inv (s\<lparr>ag_toClear := None\<rparr>)" if "trace_inv s" for s
    using that by (simp add: trace_inv_def)
qed simp

section \<open>The admission block\<close>

definition not_block :: "gate_op \<Rightarrow> bool" where
  "not_block op \<longleftrightarrow> (\<forall>r. op \<noteq> Op_block r)"

definition block_inv :: "agent \<Rightarrow> bool" where
  "block_inv s \<longleftrightarrow> (\<forall>t. ag_gate s = Some t \<longrightarrow> (gt_journalBlock t \<noteq> None \<longleftrightarrow> ag_journalBlocked s \<or> ag_required s))"

definition listens :: "(gate_op \<Rightarrow> bool) \<Rightarrow> agent_call \<Rightarrow> bool" where
  "listens allowed x \<longleftrightarrow> (\<forall>k n op. Call_gate op \<in> set (ac_listener x k n) \<longrightarrow> allowed op)"

lemma block_kept_teardown: "gt_journalBlock (snd (markTeardownStarted g opts now run t)) = gt_journalBlock t"
  by (auto simp: markTeardownStarted_def Let_def split: prod.split)

lemma block_kept_complete: "gt_journalBlock (snd (completeCommercialRecoveryAfterReset g token now run t)) = gt_journalBlock t"
  by (auto simp: completeCommercialRecoveryAfterReset_def Let_def split: prod.split inspection.split option.split)

lemma block_kept_prepare: "gt_journalBlock (snd (prepareCommercialRecoveryAfterReset g now run t)) = gt_journalBlock t"
  by (auto simp: prepareCommercialRecoveryAfterReset_def Let_def split: prod.split inspection.split option.split)

lemma block_kept_admission: "gt_journalBlock (snd (recordManagedViewerAdmission g a b now run t)) = gt_journalBlock t"
  by (auto simp: recordManagedViewerAdmission_def admit_viewer_def Let_def split: prod.split inspection.split option.split)

lemma block_kept_reconcile: "gt_journalBlock (snd (reconcileAssignmentAfterHostBoot g a now run t)) = gt_journalBlock t"
proof (cases "inspectRuntimeState g (gt_file t)")
  case (State_valid s)
  have "gt_journalBlock (snd (case w of (ok, f) \<Rightarrow> if \<not> ok then (False, t\<lparr>gt_file := f\<rparr>) else (True, t\<lparr>gt_file := f, gt_session := None\<rparr>)))
      = gt_journalBlock t" for w :: "bool \<times> file_state"
    by (simp split: prod.split)
  then show ?thesis
    by (cases "gt_admitted t"; cases "gt_session t"; cases "admitted_ms g s")
      (simp_all add: reconcileAssignmentAfterHostBoot_def State_valid Let_def)
qed (auto simp: reconcileAssignmentAfterHostBoot_def Let_def split: bool.split option.split)

lemma block_kept:
  assumes "not_block op"
  shows "gt_journalBlock (gate_do g op t) = gt_journalBlock t"
proof (cases op)
  case (Op_reject j d k)
  then show ?thesis by (auto simp: rejectReasonForTicket_def Let_def split: option.split)
qed (use assms in \<open>auto simp: not_block_def block_kept_teardown block_kept_complete block_kept_prepare block_kept_admission
    block_kept_reconcile isCommercialRecoveryRequired_def getDurableManagedViewerEvidenceStatus_def Let_def split: inspection.split\<close>)

lemma block_text: "normalizeOptionalText (JStr block_reason) \<noteq> None"
  by code_simp

lemma block_updated: "block_inv (updateAdmissionBlock s)"
  using block_text
  by (auto simp: block_inv_def updateAdmissionBlock_def setReconnectGraceEvidenceJournalBlock_def normalizeOptionalText.simps)

lemma block_same:
  assumes "block_inv s" "ag_journalBlocked t = ag_journalBlocked s" "ag_required t = ag_required s"
    "map_option gt_journalBlock (ag_gate t) = map_option gt_journalBlock (ag_gate s)"
  shows "block_inv t"
  using assms by (cases "ag_gate s"; cases "ag_gate t") (auto simp: block_inv_def)

lemma block_kept_agent:
  assumes "listens not_block x"
  shows "agent_kept x not_block block_inv (\<lambda>_ _ _. True) (\<lambda>_. True)"
proof
  note same = block_same
  show "block_inv (gate_after x op s)" if "block_inv s" "not_block op \<or> own_op x op" for s op
  proof -
    from that(2) have "not_block op" by (auto simp: own_op_def not_block_def)
    then show ?thesis by (intro same [OF that(1)]) (simp_all add: change_defs option.map_comp comp_def block_kept)
  qed
  show "block_inv (telling (Af_cutoff r) (s\<lparr>ag_gate := Some g'\<rparr>))"
    if "block_inv s" "ag_gate s = Some g" "markTeardownStarted (ah_gate x) opts (ac_now x div 1000) run g = (True, g')" for s r g g' opts run
    using block_kept_teardown [of "ah_gate x" opts "ac_now x div 1000" run g] that by (intro same [OF that(1)]) simp_all
  show "block_inv (s\<lparr>ag_gate := Some g'\<rparr>)"
    if "block_inv s" "ag_gate s = Some g"
      "completeCommercialRecoveryAfterReset (ah_gate x) token (ac_now x div 1000) run g = (False, g')" for s g g' token run
    using block_kept_complete [of "ah_gate x" token "ac_now x div 1000" run g] that by (intro same [OF that(1)]) simp_all
  show "not_block op" if "c \<in> set (ac_listener x k h)" "c = Call_gate op" for c k h op
    using assms that by (auto simp: listens_def)
  show "block_inv t" if "block_inv s" "agent_core t = agent_core s" for s t
    by (rule same [OF that(1)]) (use that(2) in \<open>simp_all add: agent_core_def\<close>)
qed (auto simp: change_defs block_updated queueEvent_def Let_def split: if_splits elim!: block_same)

section \<open>The gate behind a cutoff\<close>

abbreviation fenced :: "agent_effect list \<Rightarrow> bool" where
  "fenced \<equiv> since cuts_off recovers"

definition gate_inv :: "gate_config \<Rightarrow> agent \<Rightarrow> bool" where
  "gate_inv g s \<longleftrightarrow> (\<forall>t. ag_gate s = Some t \<longrightarrow> own g t \<and> (fenced (ag_log s) \<longrightarrow> latched g t))"

definition agent_call_ok :: "gate_config \<Rightarrow> agent_call \<Rightarrow> bool" where
  "agent_call_ok g x \<longleftrightarrow> ah_gate x = g \<and> time_ok g (ac_now x div 1000) \<and> listens (no_completion g) x"

fun fence_post :: "agent_effect \<Rightarrow> bool" where
  "fence_post (Af_cutoff r) \<longleftrightarrow> True"
| "fence_post (Af_recovered i) \<longleftrightarrow> True"
| "fence_post _ \<longleftrightarrow> False"

lemma gate_same:
  assumes "gate_inv g s" "ag_log t = ag_log s @ es" "list_all (\<lambda>e. \<not> fence_post e) es"
    "\<And>u. ag_gate t = Some u \<Longrightarrow> \<exists>v. ag_gate s = Some v \<and> (own g v \<longrightarrow> own g u) \<and> (own g v \<and> latched g v \<longrightarrow> latched g u)"
  shows "gate_inv g t"
proof -
  have "list_all (\<lambda>e. \<not> cuts_off e \<and> \<not> recovers e) es"
    using assms(3) by (rule list.pred_mono_strong) (auto elim: fence_post.elims cuts_off.elims recovers.elims)
  then have "fenced (ag_log t) \<longleftrightarrow> fenced (ag_log s)" by (simp add: assms(2) since_append)
  with assms(1,4) show ?thesis unfolding gate_inv_def by blast
qed

lemma blocked_gate: "own g (setReconnectGraceEvidenceJournalBlock v t) = own g t" "latched g (setReconnectGraceEvidenceJournalBlock v t) = latched g t"
  by (simp_all add: setReconnectGraceEvidenceJournalBlock_def own_def latched_def)

lemma gate_kept_agent:
  assumes env: "gate_env g" and x: "agent_call_ok g x"
  shows "agent_kept x (no_completion g) (gate_inv g) (\<lambda>_ _ _. True) (\<lambda>_. True)"
proof
  from x have g: "ah_gate x = g" and now: "time_ok g (ac_now x div 1000)" and ls: "listens (no_completion g) x"
    by (simp_all add: agent_call_ok_def)
  note same = gate_same
  show "gate_inv g (updateAdmissionBlock (s\<lparr>ag_journalBlocked := b\<rparr>))" if "gate_inv g s" for s b
    by (rule same [OF that, where es = "[]"]) (auto simp: updateAdmissionBlock_def blocked_gate)
  show "gate_inv g (recovery_demanded s)" if "gate_inv g s" for s
    by (rule same [OF that, where es = "[Af_required]"]) (auto simp: recovery_demanded_def updateAdmissionBlock_def blocked_gate)
  show "gate_inv g (gate_after x op s)" if "gate_inv g s" "no_completion g op \<or> own_op x op" for s op
  proof (rule same [OF that(1), where es = "[]"])
    from that(2) now have op: "op_ok g op" "\<And>token n r. op \<noteq> Op_complete token n r" by (auto simp: own_op_def no_completion_def)
    show "\<exists>v. ag_gate s = Some v \<and> (own g v \<longrightarrow> own g u) \<and> (own g v \<and> latched g v \<longrightarrow> latched g u)"
      if "ag_gate (gate_after x op s) = Some u" for u
      using that own_do [OF env _ op(1)] latched_do [OF env _ op(1)] op(2) by (auto simp: gate_after_def g)
  qed (simp_all add: gate_after_def)
  show "gate_inv g (telling (Af_cutoff r) (s\<lparr>ag_gate := Some t'\<rparr>))"
    if "gate_inv g s" "ag_gate s = Some t" "markTeardownStarted (ah_gate x) opts (ac_now x div 1000) run t = (True, t')" for s t t' r opts run
  proof -
    have o: "own g t" using that(1,2) by (simp add: gate_inv_def)
    have "own g t'" "latched g t'"
      using moves_own [OF moves_teardown [OF env o now] o, of opts run] latched_teardown [OF env o now, of opts run] that(3) g by simp_all
    then show ?thesis by (simp add: gate_inv_def)
  qed
  show "gate_inv g (s\<lparr>ag_gate := Some t'\<rparr>)"
    if "gate_inv g s" "ag_gate s = Some t" "completeCommercialRecoveryAfterReset (ah_gate x) token (ac_now x div 1000) run t = (False, t')"
    for s t t' token run
  proof (rule same [OF that(1), where es = "[]"])
    have "gate_do g (Op_complete token (ac_now x div 1000) run) t = t'" using that(3) g by simp
    with own_do [OF env, of t "Op_complete token (ac_now x div 1000) run"] now
      latched_complete [of g t token "ac_now x div 1000" run] that(2,3) g
    show "\<exists>v. ag_gate s = Some v \<and> (own g v \<longrightarrow> own g u) \<and> (own g v \<and> latched g v \<longrightarrow> latched g u)"
      if "ag_gate (s\<lparr>ag_gate := Some t'\<rparr>) = Some u" for u using that by auto
  qed simp_all
  show "gate_inv g (recovery_released (telling (Af_recovered i) (s\<lparr>ag_gate := Some t'\<rparr>)))"
    if "gate_inv g s" "ag_gate s = Some t" "completeCommercialRecoveryAfterReset (ah_gate x) token (ac_now x div 1000) run t = (True, t')"
    for s t t' token run i
  proof -
    have "gate_do g (Op_complete token (ac_now x div 1000) run) t = t'" using that(3) g by simp
    with own_do [OF env, of t "Op_complete token (ac_now x div 1000) run"] now that(1,2) have "own g t'" by (simp add: gate_inv_def)
    then show ?thesis by (simp add: gate_inv_def recovery_released_def updateAdmissionBlock_def blocked_gate since_snoc)
  qed
  show "no_completion g op" if "c \<in> set (ac_listener x k h)" "c = Call_gate op" for c k h op
    using ls that by (auto simp: listens_def)
  show "gate_inv g t" if "gate_inv g s" "agent_core t = agent_core s" for s t
  proof -
    from that(2) have "ag_gate t = ag_gate s" "ag_log t = ag_log s" by (simp_all add: agent_core_def)
    with that(1) show ?thesis by (simp add: gate_inv_def)
  qed
  show "gate_inv g (telling f s)" if "gate_inv g s" "minor f" for s f
    by (rule same [OF that(1), where es = "[f]"]) (use that(2) in \<open>cases f; simp\<close>)+
  show "gate_inv g (queueEvent x type meta session occurred s)" if "gate_inv g s" for s type meta session occurred
    by (rule same [OF that]) (auto simp: queueEvent_def Let_def fold_telling list_all_iff)
  show "gate_inv g (quality_replaced connection s)" if "gate_inv g s" for s connection
    by (rule same [OF that]) (auto simp: change_defs list_all_iff)
  show "gate_inv g (events_accepted n faults es s)" if "gate_inv g s" for s n faults es
    by (rule same [OF that, where es = "map Af_accepted (take (n - length faults) es) @ [Af_faults_acknowledged (take n faults)]"])
      (auto simp: change_defs Let_def list_all_iff)
  show "gate_inv g (report_sent x s)" if "gate_inv g s" for s
    by (rule same [OF that]) (auto simp: change_defs)
  show "gate_inv g (snd (control_accepted n s))" if "gate_inv g s" for s n
    by (rule same [OF that, where es = "if n < ag_applied s then [] else [Af_control n]"]) (auto simp: change_defs split: if_splits)
  show "gate_inv g (journal_after x j s)" if "gate_inv g s" for s j
    by (rule same [OF that, where es = "[]"]) (auto simp: change_defs)
  show "gate_inv g (telling (Af_acknowledged i) (journal_after x (Acknowledge run unlink (JStr i)) s))" if "gate_inv g s" for s i run unlink
    by (rule same [OF that, where es = "[Af_acknowledged i]"]) (auto simp: change_defs)
  show "gate_inv g (s\<lparr>ag_toClear := Some m\<rparr>)" "gate_inv g (s\<lparr>ag_toClear := None\<rparr>)" if "gate_inv g s" for s m
    by (rule same [OF that, where es = "[]"]; simp)+
  show "gate_inv g (telling (Af_marker_cleared (rm_recycleId m)) s)" if "gate_inv g s" for s m
    by (rule same [OF that, where es = "[Af_marker_cleared (rm_recycleId m)]"]) simp_all
qed

section \<open>Evidence\<close>

text \<open>The evidence is pending, or its acknowledgement is in the log since it was recorded.\<close>

definition acked :: "string \<Rightarrow> agent_effect list \<Rightarrow> bool" where
  "acked i l \<longleftrightarrow> (\<exists>j. Af_acknowledged j \<in> set l \<and> normalizeIdentifier (JStr j) = Some i)"

lemma acked_more: "acked i l \<Longrightarrow> acked i (l @ l')"
  unfolding acked_def by (metis Un_iff set_append)

lemma acked_last: "normalizeIdentifier (JStr j) = Some i \<Longrightarrow> acked i (l @ [Af_acknowledged j])"
  unfolding acked_def by (intro exI [of _ j]) simp

definition evidence_inv :: "gate_config \<Rightarrow> agent_effect list \<Rightarrow> elapsed_evidence \<Rightarrow> agent \<Rightarrow> bool" where
  "evidence_inv g p e s \<longleftrightarrow> (\<exists>q. ag_log s = p @ q \<and> readJournal (gc_dp g) (gc_utc g) (ag_evidenceFile s) \<noteq> None
     \<and> (acked (ev_evidenceId e) q
        \<or> (\<exists>es. readJournal (gc_dp g) (gc_utc g) (ag_evidenceFile s) = Some es \<and> e \<in> set es)))"

lemma evidence_same:
  assumes "evidence_inv g p e s" "ag_evidenceFile t = ag_evidenceFile s" "\<exists>es. ag_log t = ag_log s @ es"
  shows "evidence_inv g p e t"
  using assms acked_more by (auto simp: evidence_inv_def)

lemma evidence_kept_agent:
  assumes lib: "date_lib (gc_dp g) (gc_utc g)" and x: "ah_gate x = g"
  shows "agent_kept x (\<lambda>_. True) (evidence_inv g p e) (\<lambda>_ _ _. True) (\<lambda>_. True)"
proof
  note same = evidence_same
  note ready = journal.stays_ready [of "gc_dp g" "gc_utc g"] and keeps = journal.keeps_pending [of "gc_dp g" "gc_utc g"]
  show "evidence_inv g p e (journal_after x j s)" if "evidence_inv g p e s" "\<And>e. \<not> acknowledges j e" for s j
  proof -
    from that(1) obtain q es where q: "ag_log s = p @ q" "readJournal (gc_dp g) (gc_utc g) (ag_evidenceFile s) = Some es"
      "acked (ev_evidenceId e) q \<or> e \<in> set es" by (auto simp: evidence_inv_def)
    from q(2) lib have r: "journal_ready (gc_dp g) (gc_utc g) (ag_evidenceFile s)" by (simp add: journal_ready_def)
    show ?thesis using q ready [OF r, of j] keeps [OF r q(2) _ that(2)] x
      by (auto simp: evidence_inv_def journal_after_def journal_ready_def)
  qed
  show "evidence_inv g p e (telling (Af_acknowledged i) (journal_after x (Acknowledge run unlink (JStr i)) s))"
    if "evidence_inv g p e s" for s i run unlink
  proof (cases "acknowledges (Acknowledge run unlink (JStr i)) e")
    case True
    from that lib have r: "journal_ready (gc_dp g) (gc_utc g) (ag_evidenceFile s)" by (auto simp: evidence_inv_def journal_ready_def)
    from that obtain q where q: "ag_log s = p @ q" by (auto simp: evidence_inv_def)
    from True have "acked (ev_evidenceId e) (q @ [Af_acknowledged i])" by (intro acked_last) simp
    with q ready [OF r, of "Acknowledge run unlink (JStr i)"] x show ?thesis
      by (auto simp: evidence_inv_def journal_after_def journal_ready_def)
  next
    case False
    from that obtain q es where q: "ag_log s = p @ q" "readJournal (gc_dp g) (gc_utc g) (ag_evidenceFile s) = Some es"
      "acked (ev_evidenceId e) q \<or> e \<in> set es" by (auto simp: evidence_inv_def)
    from q(2) lib have r: "journal_ready (gc_dp g) (gc_utc g) (ag_evidenceFile s)" by (simp add: journal_ready_def)
    show ?thesis using q ready [OF r, of "Acknowledge run unlink (JStr i)"] keeps [OF r q(2) _ False] x acked_more
      by (auto simp: evidence_inv_def journal_after_def journal_ready_def)
  qed
qed (auto simp: change_defs agent_core_def queueEvent_def Let_def split: if_splits simp del: normalizeIdentifier_simps elim!: evidence_same)

end
