(* ===== verification/Agent_Client_Results.thy ===== *)
theory Agent_Client_Results
  imports Agent_Client_Promises
begin

text \<open>
  What the client of the control plane promises in every run: evidence stays until it is acknowledged, an
  acknowledgement closes the ticket gate, Ready is not reported before a recovery is completed, the
  admission block is exactly what the client's state says, and events are accounted for.
\<close>

section \<open>Starts\<close>

lemma start_queue: "new_agent x versions identity players desired commands markers evidences g = Inr s \<Longrightarrow> queue_inv s"
  by (rule queue.kept_new) (simp_all add: queue_inv_def agent_vars_def Let_def)

lemma start_trace: "new_agent x versions identity players desired commands markers evidences g = Inr s \<Longrightarrow> trace_inv s"
proof (rule trace.kept_new)
  have r: "recovering [Af_required]" using since_snoc [of "\<lambda>e. e = Af_required" recovers "[]" Af_required] by simp
  have t: "trace_ok [Af_required]" using trace_ok_snoc [of "[]" Af_required] by simp
  show "trace_inv (agent_vars x players desired commands markers evidences g m)" for m
    by (simp add: trace_inv_def agent_vars_def Let_def r t)
qed

lemma run_queue: "new_agent x versions identity players desired commands markers evidences g = Inr s \<Longrightarrow> queue_inv (agent_run es s)"
  by (rule kept_run [OF queue.agent_kept_axioms _ start_queue]) simp_all

lemma run_trace: "new_agent x versions identity players desired commands markers evidences g = Inr s \<Longrightarrow> trace_inv (agent_run es s)"
  by (rule kept_run [OF trace.agent_kept_axioms _ start_trace]) simp_all

lemma start_block:
  assumes "listens not_block x" "new_agent x versions identity players desired commands markers evidences g = Inr s"
  shows "block_inv s"
  using assms(2) by (auto simp: new_agent_def block_updated split: sum.splits if_splits prod.splits bool.splits
      intro!: agent_kept.kept_started [OF block_kept_agent [OF assms(1)]])

section \<open>Promises\<close>

text \<open>
  C24: Events for the control plane are queued in the order in which they arose, at most a hundred of them,
  and none is lost: an event that a step takes from the queue is one of those of a batch that the control
  plane's reply counts as accepted (the first ones, after the faults in it), or a quality summary of the
  connection for which that step has a newer one, or it had to give way to a hundred younger events; and
  so it is with the events that the step itself queues.
\<close>

theorem event_queue_accounts:
  assumes "new_agent x versions identity players desired commands markers evidences g = Inr s"
    "t = agent_run es s" "u = agent_step y i t"
  shows "sorted_wrt (<) (map ae_number (ag_events u)) \<and> length (ag_events u) \<le> 100
    \<and> (\<forall>e \<in> set (ag_events t). e \<in> set (ag_events u)
        \<or> (\<exists>faults batch n token known fs v k. i = In_resume (Tk_flushed faults batch n token) known fs (Replied v)
            \<and> safe_int (fld v ''acceptedCount'') = Some (int k) \<and> ae_number e \<in> ae_number ` set (take (k - length faults) batch))
        \<or> (\<exists>p summary. i = In_quality p summary \<and> ae_type e = ''viewer_quality_summary''
            \<and> opt_str (map_get (ae_metadata e) ''connectionId'') = fld (JObj summary) ''connectionId'')
        \<or> 100 \<le> length (filter (\<lambda>f. ae_number e < ae_number f) (ag_events t)) + (ag_eventNumber u - ag_eventNumber t))
    \<and> (\<forall>m. ag_eventNumber t \<le> m \<and> m < ag_eventNumber u \<longrightarrow> m \<in> ae_number ` set (ag_events u)
        \<or> (\<exists>faults batch n token known fs v k. i = In_resume (Tk_flushed faults batch n token) known fs (Replied v)
            \<and> safe_int (fld v ''acceptedCount'') = Some (int k) \<and> m \<in> ae_number ` set (take (k - length faults) batch))
        \<or> (\<exists>p summary. i = In_quality p summary) \<or> 100 < ag_eventNumber u - m)"
proof -
  have l: "leaving (ag_events t) (ag_eventNumber t) (accepted_numbers i) (superseded i) u"
    unfolding assms(2,3) by (rule leaving_step [OF run_queue [OF assms(1)]])
  have a: "\<exists>faults batch n token known fs v k. i = In_resume (Tk_flushed faults batch n token) known fs (Replied v)
      \<and> safe_int (fld v ''acceptedCount'') = Some (int k) \<and> m \<in> ae_number ` set (take (k - length faults) batch)"
    if "m \<in> accepted_numbers i" for m
    using that unfolding accepted_numbers_def accepts_def by blast
  have p: "\<exists>p summary. i = In_quality p summary \<and> ae_type e = ''viewer_quality_summary''
      \<and> opt_str (map_get (ae_metadata e) ''connectionId'') = fld (JObj summary) ''connectionId''" if "superseded i e" for e
    using that unfolding superseded_def superseded_by_def by blast
  show ?thesis
  proof (intro conjI ballI allI impI)
    show "sorted_wrt (<) (map ae_number (ag_events u))" "length (ag_events u) \<le> 100"
      using l by (simp_all add: leaving_def queue_inv_def max_pending_events_def)
  next
    fix e assume "e \<in> set (ag_events t)"
    with l have "e \<in> set (ag_events u) \<or> ae_number e \<in> accepted_numbers i \<or> superseded i e
        \<or> 100 \<le> younger (ag_events t) e + (ag_eventNumber u - ag_eventNumber t)"
      unfolding leaving_def max_pending_events_def by blast
    with a p show "e \<in> set (ag_events u)
        \<or> (\<exists>faults batch n token known fs v k. i = In_resume (Tk_flushed faults batch n token) known fs (Replied v)
            \<and> safe_int (fld v ''acceptedCount'') = Some (int k) \<and> ae_number e \<in> ae_number ` set (take (k - length faults) batch))
        \<or> (\<exists>p summary. i = In_quality p summary \<and> ae_type e = ''viewer_quality_summary''
            \<and> opt_str (map_get (ae_metadata e) ''connectionId'') = fld (JObj summary) ''connectionId'')
        \<or> 100 \<le> length (filter (\<lambda>f. ae_number e < ae_number f) (ag_events t)) + (ag_eventNumber u - ag_eventNumber t)"
      unfolding younger_def by blast
  next
    fix m assume "ag_eventNumber t \<le> m \<and> m < ag_eventNumber u"
    with l have "m \<in> ae_number ` set (ag_events u) \<or> m \<in> accepted_numbers i \<or> Ex (superseded i) \<or> 100 < ag_eventNumber u - m"
      unfolding leaving_def max_pending_events_def by blast
    with a p show "m \<in> ae_number ` set (ag_events u)
        \<or> (\<exists>faults batch n token known fs v k. i = In_resume (Tk_flushed faults batch n token) known fs (Replied v)
            \<and> safe_int (fld v ''acceptedCount'') = Some (int k) \<and> m \<in> ae_number ` set (take (k - length faults) batch))
        \<or> (\<exists>p summary. i = In_quality p summary) \<or> 100 < ag_eventNumber u - m"
      by blast
  qed
qed

text \<open>
  C12: Once a recovery is required (evidence was recovered or acknowledged, a recycle marker was found, or
  teardown was invalidated), no report says that the runtime is ready until a commercial recovery was
  completed durably.
\<close>

theorem no_ready_before_recovery:
  assumes "new_agent x versions identity players desired commands markers evidences g = Inr s"
    and "ag_log (agent_run es s) = p @ Af_required # q @ Af_reported ready e n # r" "\<forall>i. Af_recovered i \<notin> set q"
  shows "\<not> ready"
proof -
  from run_trace [OF assms(1), of es] assms(2) have "trace_ok ((p @ Af_required # q) @ Af_reported ready e n # r)"
    by (simp add: trace_inv_def)
  then have "grounded (p @ Af_required # q) (Af_reported ready e n)" unfolding trace_ok_def by blast
  moreover have "recovering (p @ Af_required # q)"
    unfolding since_def using assms(3) by (auto elim!: recovers.elims)
  ultimately show ?thesis by simp
qed

text \<open>
  C23: The recycle marker is cleared only after the control plane has accepted the event that reports the
  completion of that recycle.
\<close>

theorem marker_cleared_after_acceptance:
  assumes "new_agent x versions identity players desired commands markers evidences g = Inr s"
    and "ag_log (agent_run es s) = p @ Af_marker_cleared i # q"
  shows "\<exists>e. Af_accepted e \<in> set p \<and> ae_type e = ''reset_completed'' \<and> map_get (ae_metadata e) ''recycleId'' = Some i"
proof -
  from run_trace [OF assms(1), of es] assms(2) have "grounded p (Af_marker_cleared i)"
    unfolding trace_inv_def trace_ok_def by blast
  then show ?thesis by (simp add: completion_accepted_def)
qed

text \<open>
  C22: The gate's admission block is always what the client's state says: set exactly while the evidence
  journal cannot be trusted or a recovery is required.
\<close>

theorem admission_block_exact:
  assumes "new_agent x versions identity players desired commands markers evidences g = Inr s" "listens not_block x"
    and "\<forall>(y, i) \<in> set es. listens not_block y \<and> (\<forall>op. i = In_call (Call_gate op) \<longrightarrow> not_block op)"
    and "ag_gate (agent_run es s) = Some t"
  shows "gt_journalBlock t \<noteq> None \<longleftrightarrow> ag_journalBlocked (agent_run es s) \<or> ag_required (agent_run es s)"
proof -
  have "block_inv (agent_run es s)"
  proof (rule kept_run [where allowed = not_block])
    show "agent_kept y not_block block_inv (\<lambda>_ _ _. True) (\<lambda>_. True)" if "(y, i) \<in> set es" for y i
      using that assms(3) by (intro block_kept_agent) auto
    show "not_block op" if "(y, In_call (Call_gate op)) \<in> set es" for y op using that assms(3) by auto
  qed (rule start_block [OF assms(2,1)])
  with assms(4) show ?thesis by (simp add: block_inv_def)
qed

text \<open>
  C10: From the acknowledgement of evidence on, before the evidence leaves the journal, the ticket gate
  accepts no ticket and the runtime is not reported ready, until the client has completed a recovery.
\<close>

theorem acknowledgement_closes_gate:
  assumes env: "gate_env g" "own g t0" and new: "new_agent x versions identity players desired commands markers evidences (Some t0) = Inr s"
    and ok: "agent_call_ok g x" "\<forall>(y, i) \<in> set es. agent_call_ok g y \<and> (\<forall>op. i = In_call (Call_gate op) \<longrightarrow> no_completion g op)"
    and log: "ag_log (agent_run es s) = p @ Af_acknowledged i # q" "\<forall>j. Af_recovered j \<notin> set q"
    and t: "ag_gate (agent_run es s) = Some t"
  shows "fst (rejectReasonForTicket g journal intended k t) \<noteq> None \<and> (\<forall>e n. Af_reported True e n \<notin> set q)"
proof -
  have "gate_inv g (agent_run es s)"
  proof (rule kept_run [where allowed = "no_completion g"])
    show "agent_kept y (no_completion g) (gate_inv g) (\<lambda>_ _ _. True) (\<lambda>_. True)" if "(y, i) \<in> set es" for y i
      using that ok(2) by (intro gate_kept_agent [OF env(1)]) auto
    show "no_completion g op" if "(y, In_call (Call_gate op)) \<in> set es" for y op using that ok(2) by auto
    have "\<not> fenced [Af_required]" using since_snoc [of cuts_off recovers "[]" Af_required] by simp
    then have "gate_inv g (agent_vars x players desired commands markers evidences (Some t0) m)" for m
      using env(2) by (simp add: gate_inv_def agent_vars_def Let_def)
    from agent_kept.kept_new [OF gate_kept_agent [OF env(1) ok(1)] this new] show "gate_inv g s" .
  qed
  moreover from run_trace [OF new, of es] log(1) have "grounded p (Af_acknowledged i)"
    unfolding trace_inv_def trace_ok_def by blast
  then obtain l where p: "p = l @ [Af_cutoff acknowledgement_cutoff, Af_required]" by auto
  moreover have f: "fenced (l @ Af_cutoff acknowledgement_cutoff # Af_required # Af_acknowledged i # q)"
    unfolding since_def using log(2)
    by (intro exI [of _ l] exI [of _ "Af_cutoff acknowledgement_cutoff"] exI [of _ "Af_required # Af_acknowledged i # q"])
      (auto elim!: recovers.elims)
  ultimately have "own g t" "latched g t" using t log(1) by (auto simp: gate_inv_def)
  then have "fst (rejectReasonForTicket g journal intended k t) \<noteq> None"
    using accept_iff [OF env(1), of t journal intended k] by (auto simp: latched_def)
  moreover have "Af_reported True e n \<notin> set q" for e n
  proof
    assume "Af_reported True e n \<in> set q"
    then obtain a b where q: "q = a @ Af_reported True e n # b" by (meson split_list)
    have "ag_log (agent_run es s) = (l @ [Af_cutoff acknowledgement_cutoff]) @ Af_required # (Af_acknowledged i # a) @ Af_reported True e n # b"
      by (simp add: log(1) p q)
    from run_trace [OF new, of es] this have "grounded ((l @ [Af_cutoff acknowledgement_cutoff]) @ Af_required # (Af_acknowledged i # a))
        (Af_reported True e n)"
      unfolding trace_inv_def trace_ok_def by (metis append.assoc append_Cons)
    moreover have "recovering ((l @ [Af_cutoff acknowledgement_cutoff]) @ Af_required # (Af_acknowledged i # a))"
      unfolding since_def using log(2) q
      by (intro exI [of _ "l @ [Af_cutoff acknowledgement_cutoff]"] exI [of _ Af_required] exI [of _ "Af_acknowledged i # a"])
        (auto elim!: recovers.elims)
    ultimately show False by simp
  qed
  ultimately show ?thesis by blast
qed

text \<open>
  C11: Evidence that the client has recorded with success is in the durable journal, which stays readable,
  in every later state, unless the control plane has acknowledged it since, whatever the file system, the
  network, the players and the users of the client do.
\<close>

theorem recorded_evidence_is_kept:
  assumes lib: "date_lib (gc_dp g) (gc_utc g)" and x: "ah_gate x = g" "\<forall>(y, i) \<in> set es. ah_gate y = g"
    and rec: "recordElapsedEvidence x v s = (True, s')" "normalizeEvidence (gc_dp g) (gc_utc g) v = Some e"
  shows "\<exists>q ps. ag_log (agent_run es s') = ag_log s @ q \<and> readJournal (gc_dp g) (gc_utc g) (ag_evidenceFile (agent_run es s')) = Some ps
    \<and> (e \<in> set ps \<or> acked (ev_evidenceId e) q)"
proof -
  note k = evidence_kept_agent [OF lib]
  from rec(1) obtain s0 where s0: "evidence_appended x v s0 = (True, s')"
    and eq: "s0 = s \<or> s0 = snd (refreshJournalHealth x s)"
    by (auto simp: recordElapsedEvidence_def split: prod.splits bool.splits if_splits)
  have l: "ag_log s0 = ag_log s"
    using eq by (auto simp: refreshJournalHealth_def journal_failed_def split: journal_read.split)
  from s0 obtain ps f where a: "appendEvidence (dates x) (utc_text x) (ac_sync x (ag_calls s0)) (ac_replace x (ag_calls s0)) v
      (ag_evidenceFile s0) = (Some ps, f)"
    by (auto simp: evidence_appended_def split: prod.splits option.splits)
  from append_pending [OF a] rec(2) x have p: "readJournal (gc_dp g) (gc_utc g) (ag_evidenceFile s0) \<noteq> None" "e \<in> set ps"
    by auto
  then obtain old where old: "readJournal (gc_dp g) (gc_utc g) (ag_evidenceFile s0) = Some old" by auto
  from journal.answers [of "gc_dp g" "gc_utc g" "ag_evidenceFile s0" old "Append (ac_sync x (ag_calls s0)) (ac_replace x (ag_calls s0)) v" ps]
    old lib a x have r: "readJournal (gc_dp g) (gc_utc g) f = Some ps" by (simp add: journal_ready_def)
  have i: "evidence_inv g (ag_log s) e (counted (s0\<lparr>ag_evidenceFile := f, ag_evidences := ps, ag_cutoffThrough := 0\<rparr>))"
    using r p(2) l by (simp add: evidence_inv_def counted_def)
  note kx = k [OF x(1), of "ag_log s" e]
  have "evidence_inv g (ag_log s) e (updateAdmissionBlock (t\<lparr>ag_journalBlocked := False, ag_journalFailures := 0\<rparr>))"
    if "evidence_inv g (ag_log s) e t" for t
    by (rule evidence_same [OF that]) simp_all
  with i s0 a have "evidence_inv g (ag_log s) e s'"
    by (auto simp: evidence_appended_def Let_def intro!: agent_kept.kept_fast [OF kx] split: if_splits)
  then have "evidence_inv g (ag_log s) e (agent_run es s')"
    by (rule kept_run [where allowed = "\<lambda>_. True", rotated 2]) (use x(2) k in auto)
  then show ?thesis by (auto simp: evidence_inv_def)
qed

end
