(* ===== verification/Agent_Client_Examples.thy ===== *)
theory Agent_Client_Examples
  imports Agent_Client_Results
begin

text \<open>
  Runs of the client of the control plane: a replacement finds the marker of a recycle, becomes ready and
  clears the marker; a client finds recorded evidence, reports it and has it acknowledged.
\<close>

section \<open>Steps\<close>

definition demo_call :: "gate_config \<Rightarrow> int \<Rightarrow> agent_call" where
  "demo_call g now = \<lparr>ah_gate = g, ah_text = (\<lambda>_. []), ah_pid = 77, ah_explicitHeartbeatMs = 0, ac_now = now,
     ac_replace = (\<lambda>_. durable), ac_sync = (\<lambda>_. Synced), ac_plain = (\<lambda>_. Stored), ac_unlink = (\<lambda>_. Unlinked Synced),
     ac_cleared = (\<lambda>_. True), ac_listener = (\<lambda>_ _. [])\<rparr>"

lemma demo_call_simps [simp]:
  "ah_gate (demo_call g now) = g" "ah_pid (demo_call g now) = 77" "ah_explicitHeartbeatMs (demo_call g now) = 0"
  "ac_now (demo_call g now) = now" "ac_replace (demo_call g now) k = durable" "ac_sync (demo_call g now) k = Synced"
  "ac_plain (demo_call g now) k = Stored" "ac_unlink (demo_call g now) k = Unlinked Synced" "ac_cleared (demo_call g now) k = True"
  "ac_listener (demo_call g now) k n = []"
  by (simp_all add: demo_call_def)

definition event_at :: "agent_call \<Rightarrow> nat \<Rightarrow> string \<Rightarrow> (string \<times> jsval) list \<Rightarrow> string option \<Rightarrow> string option \<Rightarrow> agent_event" where
  "event_at x n type meta session occurred = \<lparr>ae_number = n, ae_type = type,
     ae_occurredAtUtc = (case opt_text_of occurred of Some t \<Rightarrow> t | None \<Rightarrow> iso_now x),
     ae_sessionId = opt_text_of session, ae_metadata = normalizeEventMetadata (ah_text x) meta\<rparr>"

lemma event_at_simps [simp]:
  "ae_number (event_at x n type meta session occurred) = n" "ae_type (event_at x n type meta session occurred) = type"
  "ae_metadata (event_at x n type meta session occurred) = normalizeEventMetadata (ah_text x) meta"
  by (simp_all add: event_at_def)

lemma queue_room:
  "length (ag_events s) < 100 \<Longrightarrow> queueEvent x type meta session occurred s
     = s\<lparr>ag_events := ag_events s @ [event_at x (ag_eventNumber s) type meta session occurred], ag_eventNumber := ag_eventNumber s + 1\<rparr>"
  by (simp add: queueEvent_def max_pending_events_def Let_def take_last_def event_at_def)

lemmas started_steps = new_agent_def legacy_proof_def latch_restored_def Let_def deferred_recovery_def updateAdmissionBlock_def
  agent_started_def queue_room publishRecoveryContext_def scheduleHeartbeat_def getEffectiveHeartbeatMs_def

lemmas tick_steps = runTick_def refreshJournalHealth_def inspectJournal_def ensureCutoffDurable_def awaiting_def ensureBootstrap_begins_def
  agent_requestFastPolling_def scheduleFastPollingRestore_def

lemma no_files [simp]: "readCommandJournal Missing = None" "readDesiredState Missing = normalizeDesiredState JUndef"
  by (simp_all add: readCommandJournal_def readDesiredState_def)

section \<open>A replacement completes a recycle\<close>

definition demo_replaced :: marker where
  "demo_replaced = demo_marker\<lparr>rm_resetCompletedAtUtc := Some (demo_utc 9)\<rparr>"

definition demo_dates :: gate_config where
  "demo_dates = \<lparr>gc_dp = demo_dp, gc_utc = demo_utc, gc_skew = 5, gc_boot = None\<rparr>"

lemma demo_dates_simps [simp]: "gc_dp demo_dates = demo_dp" "gc_utc demo_dates = demo_utc"
  by (simp_all add: demo_dates_def)

lemma demo_dp_utc [simp]: "0 \<le> t \<Longrightarrow> demo_dp (demo_utc t) = Some t"
  using show_nat_digits by (simp add: demo_dp_def demo_utc_def)

lemma demo_replaced_read: "readMarker demo_dp demo_utc (Json (marker_value demo_replaced)) = Inr (Some demo_replaced)"
proof -
  have x: "is_text (demo_utc t)" for t by (simp add: demo_utc_def show_nat_is_text)
  have c: "is_text ''r''" "is_text ''x''" by (simp_all add: is_text_def trim_no_ws is_ws_def)
  have "marker_ok demo_dp demo_utc demo_replaced"
    by (simp add: marker_ok_def demo_replaced_def demo_marker_def x c max_safe_def earlier_def)
  then show ?thesis by (simp add: readMarker_def normalizeMarker_value)
qed

abbreviation demo_x :: agent_call where
  "demo_x \<equiv> demo_call demo_dates 1000"

definition demo_vars :: agent where
  "demo_vars = agent_vars demo_x [] Missing Missing (Json (marker_value demo_replaced)) Missing None (Some demo_replaced)"

abbreviation demo_first :: "agent_event list" where
  "demo_first \<equiv> [event_at demo_x 0 ''agent_started'' [] None None, event_at demo_x 1 ''runtime_identity'' [] None None]"

lemma demo_proof: "isReplacementProof (Some demo_replaced) 77" "rm_schemaVersion demo_replaced = 2" "rm_resetCompletedAtUtc demo_replaced = Some (demo_utc 9)"
  "rm_recycleId demo_replaced = ''x''" "rm_recycleRequestedToken demo_replaced = None"
  by (simp_all add: isReplacementProof_def demo_replaced_def demo_marker_def demo_utc_def)

lemma demo_vars_fields [simp]:
  "ag_gate demo_vars = None" "ag_required demo_vars" "ag_events demo_vars = []" "ag_eventNumber demo_vars = 0" "ag_evidences demo_vars = []"
  "ag_tickInFlight demo_vars = False" "ag_bootstrapping demo_vars = False" "ag_token demo_vars = JNull" "ag_tasks demo_vars = []"
  "ag_evidenceFile demo_vars = Missing" "ag_journalBlocked demo_vars = False" "ag_heartbeatTimer demo_vars = False"
  "ag_heartbeatMs demo_vars = 10000" "ag_configuredMs demo_vars = 10000" "ag_fastUntil demo_vars = 0" "ag_fastMs demo_vars = 2000"
  by (simp_all add: demo_vars_def agent_vars_def Let_def inspectJournal_def)

definition demo_awake :: agent where
  "demo_awake = demo_vars\<lparr>ag_events := demo_first, ag_eventNumber := 2, ag_heartbeatTimer := True, ag_bootstrapping := True,
     ag_tickInFlight := True, ag_tasks := [Tk_bootstrap, Tk_tick]\<rparr>"



lemma b3: "agent_started demo_x [] [] demo_vars = demo_awake"
  unfolding agent_started_def Let_def
  by (simp add: queue_room publishRecoveryContext_def scheduleHeartbeat_def getEffectiveHeartbeatMs_def Let_def tick_steps demo_awake_def)

lemma b4: "latch_restored demo_x (Some demo_replaced) demo_vars = (True, demo_vars)" "legacy_proof demo_x (Some demo_replaced) = False"
  "deferred_recovery demo_x demo_vars = demo_vars" "updateAdmissionBlock demo_vars = demo_vars"
  by (simp_all add: latch_restored_def legacy_proof_def deferred_recovery_def updateAdmissionBlock_def demo_proof)

lemma demo_awakes: "new_agent demo_x [] [] [] Missing Missing (Json (marker_value demo_replaced)) Missing None = Inr demo_awake"
  by (simp add: new_agent_def demo_replaced_read b3 b4 flip: demo_vars_def)

lemma demo_vars_more [simp]:
  "ag_status demo_vars = None" "ag_reason demo_vars = None" "ag_version demo_vars = None" "ag_pendingCompletion demo_vars = Some demo_replaced"
  "ag_resetInProgress demo_vars = False" "ag_active demo_vars = None" "ag_sequence demo_vars = 0" "ag_window demo_vars = None"
  "ag_applied demo_vars = 0" "ag_desired demo_vars = normalizeDesiredState JUndef" "ag_log demo_vars = [Af_required]"
  "ag_markerFile demo_vars = Json (marker_value demo_replaced)" "ag_flushInFlight demo_vars = False" "ag_calls demo_vars = 1"
  "ag_desiredConfirmed demo_vars = False" "ag_deferred demo_vars = False" "ag_desiredFile demo_vars = Missing"
  by (simp_all add: demo_vars_def agent_vars_def Let_def inspectJournal_def demo_proof)

definition demo_ready :: status_update where
  "demo_ready = \<lparr>su_status = ''ready'', su_reason = None, su_version = None, su_source = None, su_heartbeatOnly = False\<rparr>"

lemma demo_ready_texts [simp]:
  "normalizeOptionalText (JStr (su_status demo_ready)) = Some ''ready''" "opt_text_of (su_reason demo_ready) = None"
  "opt_text_of (su_version demo_ready) = None" "su_heartbeatOnly demo_ready = False"
  by (simp_all add: demo_ready_def opt_text_of_def trim_no_ws is_ws_def)

abbreviation demo_completed :: agent_event where
  "demo_completed \<equiv> event_at demo_x 2 ''reset_completed'' (update_meta demo_ready @ marker_meta (Some demo_replaced) None) None (Some (demo_utc 9))"

definition demo_available :: agent where
  "demo_available = demo_awake\<lparr>ag_status := Some ''ready'', ag_reason := None, ag_version := None, ag_resetInProgress := False, ag_pendingCompletion := None, ag_awaitingAck := Some demo_replaced,
     ag_eventNumber := 4, ag_events := demo_first @ [demo_completed, event_at demo_x 3 ''runtime_ready'' (update_meta demo_ready) None None]\<rparr>"

lemma status_plain:
  assumes "ag_gate s = None" "ag_pendingCompletion s = Some m" "rm_resetCompletedAtUtc m = Some (c # cs)" "ag_active s = None"
    "length (ag_events s) < 99" "ag_version s = None"
  shows "recordRuntimeStatus x demo_ready s = s\<lparr>ag_status := Some ''ready'', ag_reason := None, ag_version := None, ag_resetInProgress := False, ag_pendingCompletion := None,
    ag_awaitingAck := Some m, ag_eventNumber := ag_eventNumber s + 2,
    ag_events := ag_events s @ [event_at x (ag_eventNumber s) ''reset_completed'' (update_meta demo_ready @ marker_meta (Some m) None) None (Some (c # cs)),
      event_at x (ag_eventNumber s + 1) ''runtime_ready'' (update_meta demo_ready) None None]\<rparr>"
proof -
  let ?s = "s\<lparr>ag_status := Some ''ready'', ag_reason := None, ag_version := None\<rparr>"
  have r: "recovery_required x ?s = (False, ?s)" "publishRecoveryContext x ?s = ?s" "ready_after_recycle x ?s = (Some False, ?s)"
    using assms by (simp_all add: recovery_required_def publishRecoveryContext_def ready_after_recycle_def)
  have a: "status_acts x demo_ready ?s = reset_completes x demo_ready ?s"
    using assms(2) by (simp add: status_acts_def)
  have c: "completion_stamped x ?s = ((True, Some m), ?s)" "correlated (Some m) ?s = None" "finishes (Some m) ?s = None"
    using assms by (simp_all add: completion_stamped_def correlated_def finishes_def)
  have b: "reset_completes x demo_ready ?s = (True, ?s\<lparr>ag_resetInProgress := False, ag_pendingCompletion := None,
    ag_awaitingAck := Some m, ag_eventNumber := ag_eventNumber s + 1,
    ag_events := ag_events s @ [event_at x (ag_eventNumber s) ''reset_completed'' (update_meta demo_ready @ marker_meta (Some m) None) None (Some (c # cs))]\<rparr>)"
    unfolding reset_completes_def c using assms by (simp add: c queue_room Let_def)
  have d: "status_continues x demo_ready same False ?s = queueEvent x ''runtime_ready'' (update_meta demo_ready) None None (snd (reset_completes x demo_ready ?s))" for same
    unfolding status_continues_def using assms by (simp add: r a b status_event_def)
  show ?thesis
    unfolding recordRuntimeStatus_def Let_def demo_ready_texts using assms by (simp add: r d b queue_room or_else_def del: normalizeOptionalText.simps)
qed

lemma ready_step: "agent_step demo_x (In_call (Call_status demo_ready)) demo_awake = demo_available"
proof -
  obtain c cs where "demo_utc 9 = c # cs" by (cases "demo_utc 9") (simp_all add: demo_utc_def)
  then show ?thesis by (simp add: agent_step_def status_plain demo_awake_def demo_available_def demo_proof)
qed

abbreviation demo_token :: jsval where
  "demo_token \<equiv> JStr ''t''"

abbreviation demo_admitted :: reply where
  "demo_admitted \<equiv> Replied (JObj [(''agentToken'', demo_token)])"

lemma undefined_fields [simp]: "fld (JObj [(''agentToken'', v)]) ''desiredState'' = JUndef" "fld (JObj [(''agentToken'', v)]) ''commands'' = JUndef"
  "fld (JObj [(''agentToken'', v)]) ''agentToken'' = v" "fld (JObj [(''agentToken'', v)]) ''heartbeatIntervalSeconds'' = JUndef"
  "fld (JObj [(''agentToken'', v)]) ''acknowledgedReconnectGraceElapsedEvidenceId'' = JUndef"
  by (simp_all)

definition demo_reported :: agent where
  "demo_reported = demo_available\<lparr>ag_sequence := 1, ag_tasks := [Tk_tick, Tk_bootstrapped None 1],
     ag_log := [Af_required, Af_reported False None 1]\<rparr>"

lemma report_step: "agent_step demo_x (In_resume Tk_bootstrap True [] r) demo_available = demo_reported"
  by (simp add: agent_step_def demo_available_def demo_awake_def task_resumed_def bootstrap_identified_def awaiting_def report_sent_def
    telling_def window_for_report_def demo_reported_def)

lemma agent_run_simps [simp]: "agent_run [] s = s" "agent_run ((x, i) # es) s = agent_run es (agent_step x i s)"
  by (simp_all add: agent_run_def)

abbreviation demo_reports :: "(agent_call \<times> agent_input) list" where
  "demo_reports \<equiv> [(demo_x, In_call (Call_status demo_ready)), (demo_x, In_resume Tk_bootstrap True [] Failed)]"

theorem no_ready_before_recovery_witness:
  "\<exists>ready. ag_log (agent_run demo_reports demo_awake) = [] @ Af_required # [] @ Af_reported ready None 1 # [] \<and> \<not> ready"
proof (intro exI conjI)
  show l: "ag_log (agent_run demo_reports demo_awake) = [] @ Af_required # [] @ Af_reported False None 1 # []"
    by (simp add: ready_step report_step demo_reported_def)
  show "\<not> False" by (rule no_ready_before_recovery [OF demo_awakes l]) simp
qed

lemma desired_same: "desired_differs (desired_received x JUndef) (normalizeDesiredState JUndef) = False"
  by (simp add: desired_differs_def desired_received_def normalizeDesiredState_def)

lemma desired_written: "writeDesiredState Stored (desired_value (desired_received x JUndef)) f
   = (desired_received x JUndef, Json (desired_value (desired_received x JUndef)))"
proof -
  have "desired_ok (desired_received x JUndef)" by (simp add: desired_received_def desired_ok_normalize)
  from desired.stored [OF this] show ?thesis by (simp add: writeDesiredState_def put_plain_def Let_def)
qed

lemma desired_first:
  assumes "ag_desired s = normalizeDesiredState JUndef" "\<not> ag_desiredConfirmed s" "ag_required s" "\<not> ag_deferred s"
  shows "applyDesiredState (demo_call g now) JUndef source s = notifyRecoveryReady (demo_call g now)
    (s\<lparr>ag_desired := desired_received (demo_call g now) JUndef, ag_desiredFile := Json (desired_value (desired_received (demo_call g now) JUndef)),
      ag_desiredConfirmed := True, ag_log := ag_log s @ [Af_notice (Nt_desired source)], ag_calls := ag_calls s + 2\<rparr>)"
  unfolding applyDesiredState_def Let_def using assms by (simp add: desired_same desired_written counted_def heard_def telling_def)

definition demo_bootstrapped :: agent where
  "demo_bootstrapped = demo_reported\<lparr>ag_desired := desired_received demo_x JUndef,
     ag_desiredFile := Json (desired_value (desired_received demo_x JUndef)), ag_desiredConfirmed := True, ag_bootstrapping := False,
     ag_applied := 1, ag_token := demo_token, ag_tasks := [Tk_tick],
     ag_log := [Af_required, Af_reported False None 1, Af_control 1, Af_notice (Nt_desired ''bootstrap''), Af_notice Nt_recovery],
     ag_calls := 4\<rparr>"

lemma reported_fields [simp]:
  "ag_tasks demo_reported = [Tk_tick, Tk_bootstrapped None 1]" "ag_required demo_reported" "ag_applied demo_reported = 0"
  "ag_desired demo_reported = normalizeDesiredState JUndef" "\<not> ag_desiredConfirmed demo_reported" "\<not> ag_deferred demo_reported"
  "ag_log demo_reported = [Af_required, Af_reported False None 1]" "ag_calls demo_reported = 1" "ag_evidences demo_reported = []"
  "ag_pendingCompletion demo_reported = None"
  by (simp_all add: demo_reported_def demo_available_def demo_awake_def)

lemma bootstrap_step: "agent_step demo_x (In_resume (Tk_bootstrapped None 1) True [] demo_admitted) demo_reported = demo_bootstrapped"
  by (simp add: agent_step_def task_resumed_def bootstrap_replied_def control_response_def control_accepted_def telling_def
    applyControlResponse_def applyCommands_def desired_first notifyRecoveryReady_def isReconnectGraceRecoveryRecyclePending_def
    heard_def counted_def handleEvidenceResponse_def heartbeat_interval_def demo_bootstrapped_def)

lemma bootstrapped_fields [simp]:
  "ag_token demo_bootstrapped = demo_token" "\<not> ag_flushInFlight demo_bootstrapped" "ag_tasks demo_bootstrapped = [Tk_tick]"
  "ag_sequence demo_bootstrapped = 1" "ag_applied demo_bootstrapped = 1" "ag_awaitingAck demo_bootstrapped = Some demo_replaced"
  "ag_events demo_bootstrapped = demo_first @ [demo_completed, event_at demo_x 3 ''runtime_ready'' (update_meta demo_ready) None None]"
  "ag_log demo_bootstrapped = [Af_required, Af_reported False None 1, Af_control 1, Af_notice (Nt_desired ''bootstrap''), Af_notice Nt_recovery]"
  "ag_markerFile demo_bootstrapped = Json (marker_value demo_replaced)" "ag_eventNumber demo_bootstrapped = 4"
  by (simp_all add: demo_bootstrapped_def demo_reported_def demo_available_def demo_awake_def)

definition demo_queue :: "agent_event list" where
  "demo_queue = demo_first @ [demo_completed, event_at demo_x 3 ''runtime_ready'' (update_meta demo_ready) None None,
     event_at demo_x 4 ''artifact'' [] None None]"

lemma artifact_step: "agent_step demo_x (In_artifact ''artifact'' [] None) demo_bootstrapped
  = demo_bootstrapped\<lparr>ag_flushInFlight := True, ag_events := demo_queue, ag_eventNumber := 5, ag_tasks := [Tk_tick, Tk_flush]\<rparr>"
  by (simp add: agent_step_def queue_room flush_begins_def awaiting_def demo_queue_def)

lemma flush_step: "agent_step demo_x (In_resume Tk_flush True [] r)
    (demo_bootstrapped\<lparr>ag_flushInFlight := True, ag_events := demo_queue, ag_eventNumber := 5, ag_tasks := [Tk_tick, Tk_flush]\<rparr>)
  = demo_bootstrapped\<lparr>ag_flushInFlight := True, ag_events := demo_queue, ag_eventNumber := 5, ag_sequence := 2,
      ag_tasks := [Tk_tick, Tk_flushed [] demo_queue 2 demo_token]\<rparr>"
  by (simp add: agent_step_def task_resumed_def flush_identified_def Let_def max_pending_events_def awaiting_def demo_queue_def)

lemma demo_reset: "map_get (normalizeEventMetadata (\<lambda>_. []) (update_meta demo_ready @ marker_meta (Some demo_replaced) None)) ''recycleId'' = Some ''x''"
  by (simp add: normalizeEventMetadata_def update_meta_def marker_meta_def demo_ready_def demo_replaced_def demo_marker_def metadata_item_def
     map_get_def trim_no_ws is_ws_def opt_str.simps or_else_def opt_text_of_def demo_utc_def)

abbreviation demo_counted :: jsval where
  "demo_counted \<equiv> JObj [(''acceptedCount'', num_of_int 5)]"

definition demo_flushing :: agent where
  "demo_flushing = demo_bootstrapped\<lparr>ag_flushInFlight := True, ag_events := demo_queue, ag_eventNumber := 5, ag_sequence := 2,
      ag_tasks := [Tk_tick]\<rparr>"

lemma demo_accepts: "events_accepted 5 [] demo_queue demo_flushing = demo_flushing\<lparr>ag_events := [], ag_log := ag_log demo_bootstrapped @ map Af_accepted demo_queue @ [Af_faults_acknowledged []]\<rparr>"
  by (simp add: events_accepted_def demo_queue_def telling_def demo_flushing_def)

lemma demo_queue_length [simp]: "length demo_queue = 5"
  by (simp add: demo_queue_def)

lemma demo_completes: "completes_reset demo_queue demo_replaced"
  by (simp add: completes_reset_def demo_queue_def demo_reset demo_proof demo_call_def)

lemma demo_clears: "clearMarker demo_dp demo_utc (Unlinked Synced) (JStr ''x'') (Json (marker_value demo_replaced)) = (True, Missing)"
  by (simp add: clearMarker_def demo_replaced_read demo_proof unlink_marker_def fsyncContainingDirectory_def trim_no_ws is_ws_def)

abbreviation demo_before :: "agent_effect list" where
  "demo_before \<equiv> ag_log demo_bootstrapped @ map Af_accepted demo_queue @ [Af_faults_acknowledged [], Af_control 2]"

lemma desired_again:
  assumes "ag_desired s = desired_received (demo_call g now) JUndef" "ag_desiredConfirmed s" "\<not> ag_deferred s"
  shows "ag_log (applyDesiredState (demo_call g now) JUndef source s) = ag_log s"
    "ag_events (applyDesiredState (demo_call g now) JUndef source s) = ag_events s"
    "ag_eventNumber (applyDesiredState (demo_call g now) JUndef source s) = ag_eventNumber s"
  unfolding applyDesiredState_def Let_def using assms by (simp_all add: desired_differs_def desired_written counted_def)

lemma flushing_fields [simp]:
  "ag_log demo_flushing = ag_log demo_bootstrapped" "ag_applied demo_flushing = 1" "ag_awaitingAck demo_flushing = Some demo_replaced"
  "ag_desired demo_flushing = desired_received demo_x JUndef" "ag_desiredConfirmed demo_flushing" "\<not> ag_deferred demo_flushing"
  "ag_markerFile demo_flushing = Json (marker_value demo_replaced)" "ag_tasks demo_flushing = [Tk_tick]" "ag_token demo_flushing = demo_token" "ag_eventNumber demo_flushing = 5"
  by (simp_all add: demo_flushing_def) (simp_all add: demo_bootstrapped_def demo_reported_def demo_available_def demo_awake_def)

lemma demo_reconciled: "needs_reconciliation apply v demo_replaced s = False"
  by (simp add: needs_reconciliation_def demo_proof normalizeRecycleToken_def opt_str.simps)

lemma accept_step: "ag_log (events_replied demo_x [] demo_queue 2 demo_token (Replied demo_counted) demo_flushing) = demo_before @ [Af_marker_cleared ''x'']"
    "ag_events (events_replied demo_x [] demo_queue 2 demo_token (Replied demo_counted) demo_flushing) = []"
    "ag_eventNumber (events_replied demo_x [] demo_queue 2 demo_token (Replied demo_counted) demo_flushing) = 5"
  by (simp_all add: events_replied_def reply_taken_def max_safe_def demo_accepts control_accepted_def telling_def events_response_def
      demo_completes demo_reconciled demo_proof tryClearMarker_def demo_clears counted_def applyCommands_def desired_again)

abbreviation demo_recycle :: "(agent_call \<times> agent_input) list" where
  "demo_recycle \<equiv> [(demo_x, In_call (Call_status demo_ready)), (demo_x, In_resume Tk_bootstrap True [] Failed),
     (demo_x, In_resume (Tk_bootstrapped None 1) True [] demo_admitted), (demo_x, In_artifact ''artifact'' [] None),
     (demo_x, In_resume Tk_flush True [] Failed), (demo_x, In_resume (Tk_flushed [] demo_queue 2 demo_token) True [] (Replied demo_counted))]"

lemma demo_run: "agent_run demo_recycle demo_awake = events_replied demo_x [] demo_queue 2 demo_token (Replied demo_counted) demo_flushing"
  unfolding agent_run_simps ready_step report_step bootstrap_step artifact_step flush_step by (simp add: agent_step_def task_resumed_def demo_flushing_def)

theorem marker_cleared_after_acceptance_witness:
  "ag_log (agent_run demo_recycle demo_awake) = demo_before @ [Af_marker_cleared ''x'']
     \<and> (\<exists>e. Af_accepted e \<in> set demo_before \<and> ae_type e = ''reset_completed'' \<and> map_get (ae_metadata e) ''recycleId'' = Some ''x'')"
proof (intro conjI)
  show l: "ag_log (agent_run demo_recycle demo_awake) = demo_before @ [Af_marker_cleared ''x'']"
    unfolding demo_run by (rule accept_step(1))
  show "\<exists>e. Af_accepted e \<in> set demo_before \<and> ae_type e = ''reset_completed'' \<and> map_get (ae_metadata e) ''recycleId'' = Some ''x''"
    by (rule marker_cleared_after_acceptance [OF demo_awakes l])
qed

abbreviation demo_until_flush :: "(agent_call \<times> agent_input) list" where
  "demo_until_flush \<equiv> [(demo_x, In_call (Call_status demo_ready)), (demo_x, In_resume Tk_bootstrap True [] Failed),
     (demo_x, In_resume (Tk_bootstrapped None 1) True [] demo_admitted), (demo_x, In_artifact ''artifact'' [] None),
     (demo_x, In_resume Tk_flush True [] Failed)]"

abbreviation demo_reply :: agent_input where
  "demo_reply \<equiv> In_resume (Tk_flushed [] demo_queue 2 demo_token) True [] (Replied demo_counted)"

lemma demo_last_step: "agent_step demo_x demo_reply (agent_run demo_until_flush demo_awake) = agent_run demo_recycle demo_awake"
  by (simp add: agent_run_def)

lemma demo_queued: "ag_events (agent_run demo_until_flush demo_awake) = demo_queue"
  unfolding agent_run_simps ready_step report_step bootstrap_step artifact_step flush_step by simp

theorem event_queue_accounts_witness:
  "demo_completed \<in> set (ag_events (agent_run demo_until_flush demo_awake))
     \<and> ag_events (agent_run demo_recycle demo_awake) = []
     \<and> (ae_number demo_completed \<in> ae_number ` set (take 5 demo_queue)
        \<or> 100 \<le> length (filter (\<lambda>f. ae_number demo_completed < ae_number f) demo_queue)
            + (ag_eventNumber (agent_run demo_recycle demo_awake) - ag_eventNumber (agent_run demo_until_flush demo_awake)))"
proof (intro conjI)
  show e: "ag_events (agent_run demo_recycle demo_awake) = []" unfolding demo_run accept_step by simp
  have c: "demo_completed \<in> set demo_queue" by (simp add: demo_queue_def)
  then show "demo_completed \<in> set (ag_events (agent_run demo_until_flush demo_awake))" unfolding demo_queued .
  note a = event_queue_accounts [OF demo_awakes refl refl, where es = demo_until_flush and y = demo_x and i = demo_reply,
      unfolded demo_last_step e demo_queued, THEN conjunct2, THEN conjunct2, THEN conjunct1, rule_format]
  from a [OF c] show "ae_number demo_completed \<in> ae_number ` set (take 5 demo_queue)
      \<or> 100 \<le> length (filter (\<lambda>f. ae_number demo_completed < ae_number f) demo_queue)
          + (ag_eventNumber (agent_run demo_recycle demo_awake) - ag_eventNumber (agent_run demo_until_flush demo_awake))"
    by (auto simp: max_safe_def simp del: agent_run_simps)
qed

section \<open>Evidence is acknowledged\<close>

lemma demo_gc_simps [simp]: "gc_dp demo_gc = demo_parse" "gc_utc demo_gc = demo_print"
  by (simp_all add: demo_gc_def)

definition demo_elapsed :: elapsed_evidence where
  "demo_elapsed = \<lparr>ev_evidenceId = ''e'', ev_sessionRequestId = ''r'', ev_activeSessionId = None,
     ev_lastViewerDisconnectedAtUtc = demo_print 5000, ev_reconnectGraceExpiresAtUtc = demo_print 7000\<rparr>"

lemma demo_elapsed_ok: "journal_ok demo_parse demo_print [demo_elapsed]"
proof -
  have w: "short_text ''e''" "short_text ''r''" "trim ''e'' = ''e''" "trim ''r'' = ''r''"
    by (auto simp: short_text_def trim_no_ws is_ws_def)
  have "evidence_ok demo_parse demo_print demo_elapsed" unfolding evidence_ok_def demo_elapsed_def
    by (intro conjI exI [of _ 5000] exI [of _ 7000]) (simp_all add: w demo_parse_print)
  then show ?thesis by (simp add: journal_ok_def)
qed

abbreviation demo_evidences :: file_state where
  "demo_evidences \<equiv> Json (journal_value [demo_elapsed])"

lemma demo_evidences_read: "readJournal demo_parse demo_print demo_evidences = Some [demo_elapsed]"
    "inspectJournal demo_parse demo_print demo_evidences = Journal_valid [demo_elapsed]"
  using read_stored [OF demo_elapsed_ok] by (simp_all add: readJournal_def split: journal_read.splits)

text \<open>Durable teardowns keep the gate readable.\<close>

definition torn_off :: "teardown_options \<Rightarrow> gate \<Rightarrow> gate" where
  "torn_off opts t = snd (markTeardownStarted demo_gc opts 15 durable t)"

definition steady :: "gate \<Rightarrow> bool" where
  "steady t \<longleftrightarrow> own demo_gc t \<and> gt_failure t = None \<and> (\<exists>s. readable demo_gc t s)"

lemma steady_cut:
  assumes "steady t"
  shows "markTeardownStarted demo_gc opts 15 durable t = (True, torn_off opts t)" "steady (torn_off opts t)"
proof -
  from assms obtain s where s: "own demo_gc t" "readable demo_gc t s" by (auto simp: steady_def)
  note d = durable_teardown [OF demo_env s(1) demo_time s(2), of 15 opts, simplified]
  then show "markTeardownStarted demo_gc opts 15 durable t = (True, torn_off opts t)" by (simp add: torn_off_def)
  have o: "own demo_gc (torn_off opts t)"
    using own_do [OF demo_env s(1), of "Op_teardown opts 15 durable"] by (simp add: demo_time torn_off_def)
  then obtain s' where "own_state demo_gc s'" "gt_file (torn_off opts t) = Json (state_value s')"
    unfolding own_def torn_off_def d by auto
  then show "steady (torn_off opts t)"
    using o inspect_state [of demo_gc s'] by (auto simp: steady_def own_state_def torn_off_def d)
qed

lemma steady_blocked: "steady (setReconnectGraceEvidenceJournalBlock v t) = steady t"
  by (auto simp: steady_def own_def setReconnectGraceEvidenceJournalBlock_def)

lemma demo_steady: "steady demo_gate"
  using demo_own by (auto simp: steady_def demo_gate_def)

lemma context_steady: "\<lbrakk>ag_gate s = Some t; steady t\<rbrakk> \<Longrightarrow> publishRecoveryContext (demo_call demo_gc now) s = s"
  by (cases s) (auto simp: publishRecoveryContext_def recovery_required_def isCommercialRecoveryRequired_def steady_def blind_def Let_def)

abbreviation demo_e :: agent_call where
  "demo_e \<equiv> demo_call demo_gc 15000"

abbreviation blocked :: "gate \<Rightarrow> gate" where
  "blocked \<equiv> setReconnectGraceEvidenceJournalBlock (JStr block_reason)"

abbreviation cutoff_options :: "string \<Rightarrow> string \<Rightarrow> teardown_options" where
  "cutoff_options reason occurred \<equiv> \<lparr>to_occurredAtUtc = Some occurred, to_reason = Some reason, to_commandType = None, to_instanceCommandId = None\<rparr>"

lemma marked_steady:
  "\<lbrakk>ag_gate s = Some t; steady t\<rbrakk> \<Longrightarrow> teardown_marked demo_e reason occurred s
     = (True, s\<lparr>ag_gate := Some (torn_off (cutoff_options reason occurred) t), ag_log := ag_log s @ [Af_cutoff reason], ag_calls := ag_calls s + 1\<rparr>)"
  by (simp add: teardown_marked_def steady_cut counted_def telling_def)

definition demo_found :: agent where
  "demo_found = agent_vars demo_e [] Missing Missing Missing demo_evidences (Some demo_gate) None"

lemma found_fields [simp]:
  "ag_gate demo_found = Some demo_gate" "ag_required demo_found" "ag_events demo_found = []" "ag_eventNumber demo_found = 0"
  "ag_evidences demo_found = [demo_elapsed]" "ag_cutoffThrough demo_found = 0" "ag_calls demo_found = 1"
  "ag_tickInFlight demo_found = False" "ag_bootstrapping demo_found = False" "ag_token demo_found = JNull" "ag_tasks demo_found = []"
  "ag_evidenceFile demo_found = demo_evidences" "ag_journalBlocked demo_found = False" "ag_heartbeatTimer demo_found = False"
  "ag_heartbeatMs demo_found = 10000" "ag_configuredMs demo_found = 10000" "ag_fastUntil demo_found = 0" "ag_fastMs demo_found = 2000"
  "ag_log demo_found = [Af_required]" "ag_journalFailures demo_found = 0"
  by (simp_all add: demo_found_def agent_vars_def Let_def demo_evidences_read)

definition demo_cut1 :: gate where
  "demo_cut1 = blocked (torn_off (cutoff_options ''reconnect_grace_elapsed_evidence_pending'' (demo_print 7000)) (blocked demo_gate))"

lemma demo_cut1_steady: "steady demo_cut1"
  by (simp add: demo_cut1_def steady_blocked steady_cut demo_steady)

abbreviation found_events :: "agent_event list" where
  "found_events \<equiv> [event_at demo_e 0 ''agent_started'' [] None None, event_at demo_e 1 ''runtime_identity'' [] None None]"

definition demo_alert :: agent where
  "demo_alert = demo_found\<lparr>ag_gate := Some demo_cut1, ag_bootstrapping := True, ag_tickInFlight := True, ag_heartbeatTimer := True,
     ag_heartbeatMs := 2000, ag_fastUntil := 35000, ag_restoreTimer := True, ag_cutoffThrough := 7000,
     ag_events := found_events, ag_eventNumber := 2, ag_tasks := [Tk_bootstrap, Tk_tick], ag_calls := 2,
     ag_log := [Af_required, Af_cutoff ''reconnect_grace_elapsed_evidence_pending'', Af_required]\<rparr>"

lemma healthy:
  assumes "inspectJournal demo_parse demo_print (ag_evidenceFile s) = Journal_valid es" "ag_required s" "ag_gate s = Some t"
  shows "refreshJournalHealth (demo_call demo_gc now) s
    = (True, s\<lparr>ag_evidences := es, ag_journalBlocked := False, ag_journalFailures := 0, ag_gate := Some (blocked t)\<rparr>)"
  using assms by (simp add: refreshJournalHealth_def updateAdmissionBlock_def)

lemma blocked_twice [simp]: "blocked (blocked t) = blocked t"
  by (simp add: setReconnectGraceEvidenceJournalBlock_def)

lemma cutoff_ensured:
  assumes "ag_evidences s = [demo_elapsed]" "ag_cutoffThrough s < 7000" "ag_gate s = Some t" "steady t"
  shows "ensureCutoffDurable demo_e s = (True, s\<lparr>ag_calls := ag_calls s + 1, ag_cutoffThrough := 7000, ag_required := True,
    ag_log := ag_log s @ [Af_cutoff ''reconnect_grace_elapsed_evidence_pending'', Af_required],
    ag_gate := Some (blocked (torn_off (cutoff_options ''reconnect_grace_elapsed_evidence_pending'' (demo_print 7000)) t))\<rparr>)"
proof -
  have e: "demo_parse (ev_reconnectGraceExpiresAtUtc demo_elapsed) = Some 7000" by (simp add: demo_elapsed_def demo_parse_print)
  show ?thesis unfolding ensureCutoffDurable_def using assms
    by (simp add: e marked_steady recovery_demanded_def updateAdmissionBlock_def telling_def)
qed

lemma ticked: "runTick demo_e (demo_found\<lparr>ag_gate := Some (blocked demo_gate), ag_heartbeatTimer := True,
     ag_heartbeatMs := 2000, ag_fastUntil := 35000, ag_restoreTimer := True, ag_fastMs := 2000, ag_configuredMs := 10000,
     ag_events := found_events, ag_eventNumber := 2\<rparr>) = demo_alert"
  apply (simp add: runTick_def healthy cutoff_ensured demo_evidences_read steady_blocked demo_steady awaiting_def ensureBootstrap_begins_def)
  apply (rule agent.equality; simp add: demo_alert_def demo_cut1_def)
  done

lemma found_polls: "poll_fast demo_e (demo_found\<lparr>ag_gate := Some (blocked demo_gate), ag_events := found_events, ag_eventNumber := Suc (Suc 0),
     ag_configuredMs := 10000, ag_heartbeatMs := 10000, ag_heartbeatTimer := True\<rparr>) = demo_alert"
  unfolding agent_requestFastPolling_def Let_def
  by (simp add: scheduleFastPollingRestore_def scheduleHeartbeat_def getEffectiveHeartbeatMs_def ticked [symmetric])
    (rule arg_cong [of _ _ "runTick demo_e"], rule agent.equality; simp)

lemma demo_alerts: "new_agent demo_e [] [] [] Missing Missing Missing demo_evidences (Some demo_gate) = Inr demo_alert"
proof -
  have s: "agent_started demo_e [] [] (demo_found\<lparr>ag_gate := Some (blocked demo_gate)\<rparr>) = demo_alert"
    unfolding agent_started_def Let_def
    by (simp add: queue_room context_steady steady_blocked demo_steady scheduleHeartbeat_def getEffectiveHeartbeatMs_def found_polls [simplified])
  show ?thesis unfolding new_agent_def demo_found_def [symmetric]
    by (simp add: readMarker_def legacy_proof_def isReplacementProof_def latch_restored_def deferred_recovery_def updateAdmissionBlock_def s
        flip: demo_found_def)
qed

lemma more_found [simp]:
  "ag_status demo_found = None" "ag_window demo_found = None" "ag_sequence demo_found = 0" "ag_applied demo_found = 0"
  "ag_desired demo_found = normalizeDesiredState JUndef" "\<not> ag_desiredConfirmed demo_found" "\<not> ag_deferred demo_found"
  "ag_pendingCompletion demo_found = None" "ag_noAck demo_found = []"
  by (simp_all add: demo_found_def agent_vars_def Let_def isReplacementProof_def)

definition demo_submitted :: agent where
  "demo_submitted = demo_alert\<lparr>ag_tasks := [Tk_tick, Tk_bootstrapped (Some demo_elapsed) 1], ag_window := None, ag_sequence := 1,
     ag_log := ag_log demo_alert @ [Af_reported False (Some demo_elapsed) 1]\<rparr>"

lemma submit_step: "agent_step demo_e (In_resume Tk_bootstrap True [] r) demo_alert = demo_submitted"
  apply (simp add: agent_step_def demo_alert_def task_resumed_def bootstrap_identified_def awaiting_def report_sent_def
    telling_def window_for_report_def)
  apply (rule agent.equality; simp add: demo_submitted_def demo_alert_def)
  done

lemma submitted_fields [simp]:
  "ag_gate demo_submitted = Some demo_cut1" "ag_required demo_submitted" "ag_evidences demo_submitted = [demo_elapsed]"
  "ag_cutoffThrough demo_submitted = 7000" "ag_applied demo_submitted = 0" "ag_desired demo_submitted = normalizeDesiredState JUndef"
  "\<not> ag_desiredConfirmed demo_submitted" "\<not> ag_deferred demo_submitted" "ag_pendingCompletion demo_submitted = None"
  "ag_noAck demo_submitted = []" "ag_evidenceFile demo_submitted = demo_evidences"
  "ag_log demo_submitted = [Af_required, Af_cutoff ''reconnect_grace_elapsed_evidence_pending'', Af_required, Af_reported False (Some demo_elapsed) 1]"
  "ag_tasks demo_submitted = [Tk_tick, Tk_bootstrapped (Some demo_elapsed) 1]" "ag_journalBlocked demo_submitted = False"
  by (simp_all add: demo_submitted_def demo_alert_def)

lemma demo_id_e [simp]: "normalizeIdentifier (JStr ''e'') = Some ''e''" "ev_evidenceId demo_elapsed = ''e''"
  by (simp_all add: demo_elapsed_def short_text_def trim_no_ws is_ws_def)

lemma demo_removed: "removeAcknowledged demo_parse demo_print durable (Unlinked Synced) (JStr ''e'') demo_evidences = (Some [], Missing)"
  by (simp add: removeAcknowledged_def demo_evidences_read with_id_def fsyncContainingDirectory_def del: normalizeIdentifier_simps)

abbreviation demo_confirmed :: reply where
  "demo_confirmed \<equiv> Replied (JObj [(''agentToken'', demo_token), (''acknowledgedReconnectGraceElapsedEvidenceId'', JStr ''e'')])"

definition demo_cut2 :: gate where
  "demo_cut2 = blocked (torn_off (cutoff_options ''reconnect_grace_elapsed_evidence_acknowledged'' (demo_print 15000)) demo_cut1)"

lemma demo_acknowledged:
  assumes "ag_gate s = Some demo_cut1" "ag_evidenceFile s = demo_evidences" "ag_pendingCompletion s = None"
  shows "evidence_acknowledged demo_e demo_elapsed s = s\<lparr>ag_gate := Some demo_cut2, ag_required := True, ag_evidenceFile := Missing,
     ag_cutoffThrough := max (ag_cutoffThrough s) 15000, ag_evidences := [], ag_noAck := map_delete ''e'' (ag_noAck s), ag_calls := ag_calls s + 3,
     ag_log := ag_log s @ [Af_cutoff ''reconnect_grace_elapsed_evidence_acknowledged'', Af_required, Af_acknowledged ''e'', Af_notice Nt_recovery]\<rparr>"
proof -
  have i: "iso_now demo_e = demo_print 15000" by (simp add: iso_now_def)
  show ?thesis unfolding evidence_acknowledged_def i Let_def
    using assms by (simp add: marked_steady demo_cut1_steady demo_parse_print recovery_demanded_def updateAdmissionBlock_def telling_def
      demo_removed counted_def notifyRecoveryReady_def isReconnectGraceRecoveryRecyclePending_def heard_def demo_cut2_def)
qed

lemma acknowledge_step: "ag_log (agent_step demo_e (In_resume (Tk_bootstrapped (Some demo_elapsed) 1) True [] demo_confirmed) demo_submitted)
     = (ag_log demo_submitted @ [Af_control 1, Af_notice (Nt_desired ''bootstrap''), Af_cutoff ''reconnect_grace_elapsed_evidence_acknowledged'', Af_required])
       @ Af_acknowledged ''e'' # [Af_notice Nt_recovery]"
  "ag_gate (agent_step demo_e (In_resume (Tk_bootstrapped (Some demo_elapsed) 1) True [] demo_confirmed) demo_submitted) = Some demo_cut2"
  "ag_journalBlocked (agent_step demo_e (In_resume (Tk_bootstrapped (Some demo_elapsed) 1) True [] demo_confirmed) demo_submitted) = False"
  by (simp_all add: agent_step_def task_resumed_def bootstrap_replied_def control_response_def control_accepted_def telling_def
    applyControlResponse_def applyCommands_def desired_first notifyRecoveryReady_def isReconnectGraceRecoveryRecyclePending_def
    handleEvidenceResponse_def heartbeat_interval_def trim_no_ws is_ws_def demo_acknowledged)

abbreviation demo_settled :: "(agent_call \<times> agent_input) list" where
  "demo_settled \<equiv> [(demo_e, In_resume Tk_bootstrap True [] Failed),
     (demo_e, In_resume (Tk_bootstrapped (Some demo_elapsed) 1) True [] demo_confirmed)]"

lemma demo_settles:
  "ag_log (agent_run demo_settled demo_alert)
     = (ag_log demo_submitted @ [Af_control 1, Af_notice (Nt_desired ''bootstrap''), Af_cutoff ''reconnect_grace_elapsed_evidence_acknowledged'', Af_required])
       @ Af_acknowledged ''e'' # [Af_notice Nt_recovery]"
  "ag_gate (agent_run demo_settled demo_alert) = Some demo_cut2"
  "ag_journalBlocked (agent_run demo_settled demo_alert) = False"
  unfolding agent_run_simps submit_step by (rule acknowledge_step)+

lemma demo_listens [simp]: "listens allowed (demo_call g now)"
  by (simp add: listens_def)

theorem admission_block_exact_witness:
  "gt_journalBlock demo_cut2 \<noteq> None \<and> ag_required (agent_run demo_settled demo_alert)"
proof -
  have b: "gt_journalBlock demo_cut2 \<noteq> None"
    by (simp add: demo_cut2_def setReconnectGraceEvidenceJournalBlock_def block_reason_def trim_def trim_start_def trim_end_def is_ws_def)
  have "gt_journalBlock demo_cut2 \<noteq> None \<longleftrightarrow> ag_journalBlocked (agent_run demo_settled demo_alert) \<or> ag_required (agent_run demo_settled demo_alert)"
    by (rule admission_block_exact [OF demo_alerts _ _ demo_settles(2)]) simp_all
  with b show ?thesis unfolding demo_settles(3) by blast
qed

theorem acknowledgement_closes_gate_witness:
  "fst (rejectReasonForTicket demo_gc Missing Missing demo_ticket demo_cut2) \<noteq> None
     \<and> (\<forall>e n. Af_reported True e n \<notin> set [Af_notice Nt_recovery])"
proof (rule acknowledgement_closes_gate [OF demo_env demo_own(1) demo_alerts _ _ demo_settles(1) _ demo_settles(2)])
  show "agent_call_ok demo_gc demo_e" "\<forall>(y, i) \<in> set demo_settled. agent_call_ok demo_gc y \<and> (\<forall>op. i = In_call (Call_gate op) \<longrightarrow> no_completion demo_gc op)"
    using demo_time [of 15] by (simp_all add: agent_call_ok_def)
qed simp

section \<open>Evidence is recorded\<close>

definition demo_waiting :: agent where
  "demo_waiting = agent_vars demo_x [] Missing Missing Missing demo_journal None None"

abbreviation demo_later :: agent where
  "demo_later \<equiv> agent_run [(demo_x, In_heartbeat), (demo_x, In_resume Tk_bootstrap False [] Failed)]
      (snd (recordElapsedEvidence demo_x (evidence_value (demo_evidence ''b'')) demo_waiting))"

theorem recorded_evidence_is_kept_witness:
  "\<exists>q ps. ag_log demo_later = ag_log demo_waiting @ q \<and> readJournal demo_dp demo_utc (ag_evidenceFile demo_later) = Some ps
    \<and> (demo_evidence ''b'' \<in> set ps \<or> acked ''b'' q)"
proof -
  have w: "ag_journalBlocked demo_waiting = False" "ag_evidenceFile demo_waiting = demo_journal"
    using demo_read by (auto simp: demo_waiting_def agent_vars_def Let_def readJournal_def split: journal_read.splits)
  have "recordElapsedEvidence demo_x (evidence_value (demo_evidence ''b'')) demo_waiting
    = (True, snd (recordElapsedEvidence demo_x (evidence_value (demo_evidence ''b'')) demo_waiting))"
    unfolding recordElapsedEvidence_def evidence_appended_def w by (simp add: w demo_appended Let_def)
  from recorded_evidence_is_kept [OF _ _ _ this, of demo_dates "[(demo_x, In_heartbeat), (demo_x, In_resume Tk_bootstrap False [] Failed)]" "demo_evidence ''b''"]
    demo_date_lib demo_normal [of "''b''"]
  show ?thesis by (auto simp del: agent_run_simps)
qed

end
