(* ===== verification/Spec2Isabelle.thy ===== *)
theory Spec2Isabelle
  imports Keepalive_Properties Connect_Ticket_Properties Connect_Ticket_Auth_Examples
    Frontend_Session_Results Frontend_Page_Results Frontend_Input_Results Viewer_Idle_Examples
    Negotiation_Recovery Agent_Client_Examples
begin

text \<open>
  Verification of the Pixel Streaming infrastructure: the signalling server, the state and the automation
  of the web server around it, and the browser library.

  \<^bold>\<open>Parts.\<close> A streamer (Unreal), players (browsers) and SFUs connect to the signalling server
  (\<open>Signalling/src\<close>) by WebSockets. The server keeps registries of them, subscribes players to streamers
  and passes messages between them; a player whose connect ticket carries a codec policy gets offers and
  answers only through an SDP filter. The web server (\<open>SignallingWebServer/src\<close>) checks the ticket of an
  upgrade request, asks a gate with a durable state whether tickets are accepted at all, and stops or
  recycles its instance when nobody uses it; a teardown first closes the gate. A client of the control plane
  reports what happens, takes commands and hands in the evidence of sessions. The browser library
  (\<open>Frontend/library/src\<close>) holds the other end of the signalling, the configuration of the page, and turns
  input into data-channel messages.

  \<^bold>\<open>Vocabulary.\<close> \<open>Prelude\<close>: JavaScript values, texts and numbers, and the insertion-ordered \<open>Set\<close> and \<open>Map\<close>
  (locale \<open>js_map\<close>, interpreted on the association lists that all models use). \<open>JS_Numbers\<close>: number
  arithmetic and the formats of a \<open>DataView\<close>. \<open>Effects\<close>: operations that may raise, their composition, and
  the calculus \<open>keeps\<close>. \<open>State_File\<close>: atomic replacement of a state file under every outcome of the file
  system, with the locales \<open>snapshot\<close> and \<open>stable_snapshot\<close> for a file that reads back what was written,
  interpreted in \<open>Agent_State\<close>.

  \<^bold>\<open>Signalling server.\<close> \<open>Codec_Policy\<close>, \<open>Session_Quality\<close>, \<open>Ice_Candidate_Monitor\<close>, \<open>Event_Emitter\<close> (locale
  \<open>event_emitter\<close> with its interpretation), \<open>Streamer_Registry\<close> and \<open>Player_Registry\<close> are the leaf classes.
  \<open>Signalling_State\<close> has one record per connection and the world of the server; \<open>Player_Connection\<close>,
  \<open>Sfu_Connection\<close>, \<open>Streamer_Connection\<close> have their handlers, \<open>Signalling_Server\<close> the admission, the
  dispatch and \<open>server_step\<close>. Two abstract specifications are refined: \<open>Routing\<close> (who is registered and
  subscribed; refined in \<open>Player_Routing\<close> and \<open>Server_Refinement\<close>) and \<open>Player_Actions\<close> (what a player may
  do; used by \<open>Governance\<close> and \<open>Server_Governance\<close>). \<open>Signalling_Properties\<close> and \<open>Keepalive_Properties\<close> have
  the results, \<open>Server_Examples\<close> a run of the server for the witnesses.

  \<^bold>\<open>Tickets.\<close> \<open>Connect_Ticket_Runtime\<close> is \<open>connect-ticket-runtime-state.ts\<close>: the state file and the operations
  of the gate. \<open>Connect_Ticket_Lemmas\<close> shows that what is written is what is read, \<open>Connect_Ticket_Gate\<close>
  has sequences of operations (\<open>gate_do\<close>), \<open>Connect_Ticket_Properties\<close> the results.
  \<open>Connect_Ticket_Auth\<close> is \<open>ConnectTicketAuth.ts\<close>; its results, alone and with the gate and the server, are
  in \<open>Connect_Ticket_Auth_Properties\<close>, with runs in \<open>Connect_Ticket_Auth_Examples\<close>. \<open>Agent_State\<close> and
  \<open>Recycle_State\<close> are the other state files of the instance agent.

  \<^bold>\<open>Idle automation.\<close> \<open>viewer-idle-stop.ts\<close> is one function with some forty variables and as many closures:
  the record \<open>idle\<close> has the variables, and an operation is a function on it that may raise. \<open>Viewer_Idle\<close> has
  the state, \<open>Viewer_Idle_Queries\<close> the queries, \<open>Viewer_Idle_Windows\<close> status, timers and reconnect windows,
  \<open>Viewer_Idle_Actions\<close> recycles and stops, \<open>Viewer_Idle_Events\<close> the listeners, timers and continuations,
  \<open>Viewer_Idle_System\<close> the start, the events and the runs. A function that awaits leaves a task, and the
  answer is an event, so a run is any interleaving of listeners, timers and answers, with the outcome of
  every write and call as it may be. \<open>Viewer_Idle_Kept\<close> and \<open>Viewer_Idle_Kept_Events\<close> state in three locales what a
  predicate has to survive to survive every event; \<open>Viewer_Idle_Properties\<close> and \<open>Viewer_Idle_Gate\<close> interpret
  them, \<open>Viewer_Idle_Results\<close> draws the results, among them that a cutoff closes the gate of the tickets,
  and \<open>Viewer_Idle_Examples\<close> runs a session to its stop.

  \<^bold>\<open>Client of the control plane.\<close> \<open>Evidence_Journal\<close> is \<open>instance-agent-reconnect-grace-evidence-state.ts\<close>, the
  durable list of evidence that the control plane has not acknowledged; \<open>Evidence_Journal_Results\<close> shows that it
  implements an outbox (locale \<open>outbox\<close>, interpreted on the journal). \<open>instance-agent.ts\<close> is one function like the
  idle automation: the record \<open>agent\<close> has its variables. \<open>Agent_Client\<close> has the state and the helpers,
  \<open>Agent_Client_Calls\<close> polling and the methods that others call, \<open>Agent_Client_Control\<close> what a response does,
  \<open>Agent_Client_Requests\<close> the requests, each a task that goes on with its reply, \<open>Agent_Client_System\<close> the start,
  the events and the runs. The locale \<open>agent_kept\<close> of \<open>Agent_Client_Kept\<close> says what a predicate has to survive;
  \<open>Agent_Client_Promises\<close> proves it for five predicates (on the queue, on what leaves it in a step, on the trace,
  on the admission block and on the gate) and for recorded evidence, \<open>Agent_Client_Results\<close> draws the results, and \<open>Agent_Client_Examples\<close>
  completes a recycle and has evidence acknowledged. \<open>Negotiation_Recovery\<close> is \<open>negotiation-recovery.ts\<close>, proved
  equal to a reference that adds up the time a request has waited along its history.

  \<^bold>\<open>Browser.\<close> \<open>Frontend_Messages\<close>, \<open>Frontend_Sender\<close> (tables, handlers, sending), \<open>Frontend_Coords\<close>,
  \<open>Frontend_Mouse\<close>, \<open>Frontend_Keyboard\<close>, \<open>Frontend_Touch\<close>, \<open>Frontend_Gamepad\<close>, \<open>Frontend_Transfer\<close> (files, freeze
  frames): results in \<open>Frontend_Input_Results\<close>. \<open>Frontend_Session\<close>: the part of \<open>WebRtcPlayerController.ts\<close>
  that keeps connection, subscription, peer connection and codecs; \<open>Frontend_Session_Properties\<close> has the locale
  \<open>session_invariant\<close> and its two interpretations. \<open>Frontend_Config\<close>, \<open>Frontend_Page\<close>, \<open>Frontend_AFK\<close>: settings,
  commands, inactivity (\<open>Frontend_AFK_Properties\<close>: the countdown second by second); results in
  \<open>Frontend_Page_Results\<close>.

  \<^bold>\<open>Bounds and fuel.\<close> \<open>requestStop\<close> of the idle automation has fuel for its one recursive call, over the window
  that a refused stop opens on a warm instance; \<open>requestStop_ends\<close> shows that one unit is always enough. The
  nesting of disconnect events through SFUs takes a depth, and \<open>emit_disconnect_complete\<close> shows that the depth
  used is enough. The loops that wrap the locked pointer are \<open>partial_function (option)\<close>, and
  \<open>locked_pointer_wraps\<close> says exactly when they end.

  \<^bold>\<open>Parameters.\<close> Code that is not in the repository is an argument: \<open>Date.parse\<close> and ISO dates, \<open>JSON.stringify\<close>,
  base64, HMAC and the JWT library, URL parsing, conversion of texts to numbers and of bytes to texts, random
  ids, the authorizer of streamer ids. Outcomes of the file system and of calls to the host come with the
  event. Numbers of the browser code are exact rationals where the code computes with doubles; integers of
  messages are words of their width.

  \<^bold>\<open>Not modelled.\<close> Log texts; sockets, HTTP and the process; the bodies of the requests to the
  control plane, the identity of the instance, entitlements and what is published; the capture of logs and screenshots; \<open>RTCPeerConnection\<close>, its
  statistics, video and XR; the user interface and the sample pages; generated message types; the SFU bridge
  and test tools. These are input and output, generated or third-party code, or code around an interface of
  the browser with little logic of its own. Delays are not modelled: a timer that is set may fire at any time.
\<close>

end
